(* ===== verification/AS_Prelude.thy ===== *)
theory AS_Prelude
  imports Main "HOL-Library.Word"
begin

text \<open>
  Shared vocabulary of the development: the result type of fallible code, the
  tables of the database with the few query shapes the code uses, reachability of
  a step relation, and the generic lemmas on lists the component proofs share.

  Every Go function that returns \<open>(value, error)\<close> is a function into
  \<open>err + 'a\<close>: \<open>Inl\<close> is the early return with an error, \<open>Inr\<close> the normal
  return. A database transaction is a function \<open>db \<Rightarrow> err + db \<times> 'a\<close>; an error
  result carries no state, which is the rollback.
\<close>

named_theorems res_simps "equations and equivalences of the result type"
named_theorems tbl_simps "what the table operations do to lookups, ids and sums"

subsection \<open>Results\<close>

datatype err =
    ErrRecordNotFound
  | ErrDuplicatedKey
  | ErrInsufficientBalance
  | ErrInsufficientEarnings
  | ErrEarningAccountNotFound
  | ErrWithdrawalNotFound
  | ErrWithdrawalConflict
  | ErrWithdrawalDailyLimit
  | ErrWithdrawalNetwork
  | ErrWithdrawalAuthFreshness
  | ErrWithdrawalAuthReplay
  | ErrWithdrawalBenefitMismatch
  | ErrWithdrawalBelowMinimum
  | ErrTaskJobNotFound
  | ErrTaskFeeBelowMinimum
  | ErrAutoMaxCreditsInsufficient
  | ErrMaxCreditsExceeded
  | ErrSharedAPIKeyNotFound
  | ErrSharedAPIKeyDuplicate
  | ErrSharedAPIKeyDeleted
  | ErrSharedAPIKeyInvalidSecret
  | ErrSharedAPIKeyProvider
  | ErrSharedAPIKeyInvalidLimit
  | ErrRawTaskAbortNotFound
  | ErrRawTaskAbortNotCancellable
  | ErrRawTaskAbortTemporary
  | ErrRawTaskAbortAlreadyComplete
  | ErrMsg string

definition bindE :: "'e + 'a \<Rightarrow> ('a \<Rightarrow> 'e + 'b) \<Rightarrow> 'e + 'b" where
  "bindE m f = (case m of Inl e \<Rightarrow> Inl e | Inr x \<Rightarrow> f x)"

text \<open>\<open>if c { return e }\<close> followed by the rest of the function.\<close>

definition rejectIf :: "bool \<Rightarrow> 'e \<Rightarrow> 'e + 'a \<Rightarrow> 'e + 'a" where
  "rejectIf c e k = (if c then Inl e else k)"

definition of_option :: "'e \<Rightarrow> 'a option \<Rightarrow> 'e + 'a" where
  "of_option e x = (case x of None \<Rightarrow> Inl e | Some y \<Rightarrow> Inr y)"

text \<open>\<open>if errors.Is(err, gorm.ErrDuplicatedKey) { return e }\<close>\<close>

definition duplicate_as :: "err \<Rightarrow> err + 'a \<Rightarrow> err + 'a" where
  "duplicate_as e m = (case m of Inl d \<Rightarrow> Inl (if d = ErrDuplicatedKey then e else d) | Inr x \<Rightarrow> Inr x)"

lemma duplicate_as_Inr_iff [res_simps]: "duplicate_as e m = Inr x \<longleftrightarrow> m = Inr x"
  by (cases m) (simp_all add: duplicate_as_def)

lemma bindE_simps [simp]:
  "bindE (Inl e) f = Inl e"
  "bindE (Inr x) f = f x"
  by (simp_all add: bindE_def)

lemma bindE_Inr_iff [res_simps]:
  "bindE m f = Inr y \<longleftrightarrow> (\<exists>x. m = Inr x \<and> f x = Inr y)"
  by (cases m) simp_all

lemma bindE_Inl_iff [res_simps]:
  "bindE m f = Inl e \<longleftrightarrow> m = Inl e \<or> (\<exists>x. m = Inr x \<and> f x = Inl e)"
  by (cases m) simp_all

lemma rejectIf_simps [simp]:
  "rejectIf True e k = Inl e"
  "rejectIf False e k = k"
  by (simp_all add: rejectIf_def)

lemma rejectIf_Inr_iff [res_simps]:
  "rejectIf c e k = Inr y \<longleftrightarrow> \<not> c \<and> k = Inr y"
  by (simp add: rejectIf_def)

lemma rejectIf_Inl_iff [res_simps]:
  "rejectIf c e k = Inl d \<longleftrightarrow> (c \<and> d = e) \<or> (\<not> c \<and> k = Inl d)"
  by (auto simp: rejectIf_def)

lemma of_option_simps [simp]:
  "of_option e None = Inl e"
  "of_option e (Some x) = Inr x"
  by (simp_all add: of_option_def)

lemma of_option_Inr_iff [res_simps]:
  "of_option e x = Inr y \<longleftrightarrow> x = Some y"
  by (cases x) simp_all

lemma of_option_Inl_iff [res_simps]:
  "of_option e x = Inl d \<longleftrightarrow> x = None \<and> d = e"
  by (cases x) auto

subsection \<open>Tables\<close>

text \<open>
  A table holds its rows in primary-key order and the next auto-increment value.
  \<open>tbl_first\<close> is \<open>Where(p).First\<close>, \<open>tbl_where\<close> is \<open>Where(p).Find\<close>,
  \<open>tbl_create\<close> is \<open>Create\<close> with the unique indexes of the row type as the relation
  \<open>clash\<close>, \<open>tbl_modify\<close> is \<open>Where(p).Updates\<close> (and \<open>Save\<close>, with the primary key
  as \<open>p\<close>), \<open>tbl_delete\<close> is \<open>Where(p).Delete\<close>.
\<close>

record 'r table =
  rows :: "'r list"
  next_id :: nat

definition empty_table :: "'r table" where
  "empty_table = \<lparr>rows = [], next_id = 1\<rparr>"

definition tbl_first :: "('r \<Rightarrow> bool) \<Rightarrow> 'r table \<Rightarrow> 'r option" where
  "tbl_first p t = find p (rows t)"

definition tbl_where :: "('r \<Rightarrow> bool) \<Rightarrow> 'r table \<Rightarrow> 'r list" where
  "tbl_where p t = filter p (rows t)"

definition tbl_create ::
  "('r \<Rightarrow> 'r \<Rightarrow> bool) \<Rightarrow> (nat \<Rightarrow> 'r) \<Rightarrow> 'r table \<Rightarrow> err + 'r table \<times> 'r" where
  "tbl_create clash mk t =
     (let r = mk (next_id t) in
      if list_ex (clash r) (rows t) then Inl ErrDuplicatedKey
      else Inr (\<lparr>rows = rows t @ [r], next_id = Suc (next_id t)\<rparr>, r))"

definition tbl_modify :: "('r \<Rightarrow> bool) \<Rightarrow> ('r \<Rightarrow> 'r) \<Rightarrow> 'r table \<Rightarrow> 'r table" where
  "tbl_modify p f t = t\<lparr>rows := map (\<lambda>r. if p r then f r else r) (rows t)\<rparr>"

definition tbl_delete :: "('r \<Rightarrow> bool) \<Rightarrow> 'r table \<Rightarrow> 'r table" where
  "tbl_delete p t = t\<lparr>rows := filter (\<lambda>r. \<not> p r) (rows t)\<rparr>"

text \<open>The sum of an amount over the rows of a table.\<close>

definition tbl_sum :: "('r \<Rightarrow> 'a::comm_monoid_add) \<Rightarrow> 'r table \<Rightarrow> 'a" where
  "tbl_sum f t = sum_list (map f (rows t))"

definition tbl_wf :: "('r \<Rightarrow> nat) \<Rightarrow> 'r table \<Rightarrow> bool" where
  "tbl_wf key t \<longleftrightarrow> distinct (map key (rows t)) \<and> (\<forall>r \<in> set (rows t). key r < next_id t)"

lemma empty_table_simps [simp]:
  "rows empty_table = []" "next_id empty_table = 1"
  by (simp_all add: empty_table_def)

lemma find_SomeD: "find p xs = Some x \<Longrightarrow> x \<in> set xs \<and> p x"
  by (induction xs) (auto split: if_splits)

lemma tbl_firstD: "tbl_first p t = Some r \<Longrightarrow> r \<in> set (rows t) \<and> p r"
  by (simp add: tbl_first_def find_SomeD)

lemma tbl_first_None_iff: "tbl_first p t = None \<longleftrightarrow> (\<forall>r \<in> set (rows t). \<not> p r)"
  by (auto simp: tbl_first_def find_None_iff)

lemma tbl_modify_sel [simp]:
  "rows (tbl_modify p f t) = map (\<lambda>r. if p r then f r else r) (rows t)"
  "next_id (tbl_modify p f t) = next_id t"
  by (simp_all add: tbl_modify_def)

lemma tbl_delete_sel [simp]:
  "rows (tbl_delete p t) = filter (\<lambda>r. \<not> p r) (rows t)"
  "next_id (tbl_delete p t) = next_id t"
  by (simp_all add: tbl_delete_def)

lemma tbl_create_Inr_iff [res_simps]:
  "tbl_create clash mk t = Inr (t', r) \<longleftrightarrow>
     r = mk (next_id t) \<and> t' = \<lparr>rows = rows t @ [r], next_id = Suc (next_id t)\<rparr> \<and>
     (\<forall>x \<in> set (rows t). \<not> clash r x)"
  by (auto simp: tbl_create_def Let_def list_ex_iff)

lemma tbl_create_Inl_iff [res_simps]:
  "tbl_create clash mk t = Inl e \<longleftrightarrow>
     e = ErrDuplicatedKey \<and> (\<exists>x \<in> set (rows t). clash (mk (next_id t)) x)"
  by (auto simp: tbl_create_def Let_def list_ex_iff)

lemma tbl_sum_append [tbl_simps]:
  "tbl_sum f \<lparr>rows = xs @ [r], next_id = n\<rparr> = tbl_sum f \<lparr>rows = xs, next_id = m\<rparr> + f r"
  by (simp add: tbl_sum_def)

lemma tbl_sum_rows: "rows t = rows t' \<Longrightarrow> tbl_sum f t = tbl_sum f t'"
  by (simp add: tbl_sum_def)

lemma tbl_sum_empty [simp]: "tbl_sum f empty_table = 0"
  by (simp add: tbl_sum_def)

lemma tbl_sum_nonneg:
  fixes f :: "'r \<Rightarrow> int"
  shows "(\<And>r. r \<in> set (rows t) \<Longrightarrow> 0 \<le> f r) \<Longrightarrow> 0 \<le> tbl_sum f t"
  by (auto simp: tbl_sum_def intro!: sum_list_nonneg)

lemma tbl_wf_empty [simp]: "tbl_wf key empty_table"
  by (simp add: tbl_wf_def)

lemma tbl_wfD_unique:
  "tbl_wf key t \<Longrightarrow> r \<in> set (rows t) \<Longrightarrow> s \<in> set (rows t) \<Longrightarrow> key r = key s \<Longrightarrow> r = s"
  by (auto simp: tbl_wf_def distinct_map inj_on_def)

lemma tbl_wf_create:
  "tbl_wf key t \<Longrightarrow> key r = next_id t \<Longrightarrow>
   tbl_wf key \<lparr>rows = rows t @ [r], next_id = Suc (next_id t)\<rparr>"
  by (auto simp: tbl_wf_def)

lemma tbl_wf_modify:
  assumes "tbl_wf key t" "\<And>r. r \<in> set (rows t) \<Longrightarrow> p r \<Longrightarrow> key (f r) = key r"
  shows "tbl_wf key (tbl_modify p f t)"
proof -
  have "map key (rows (tbl_modify p f t)) = map key (rows t)"
    using assms(2) by (auto simp: comp_def)
  moreover have "\<forall>r \<in> set (rows (tbl_modify p f t)). key r < next_id t"
    using assms by (auto simp: tbl_wf_def)
  ultimately show ?thesis using assms(1) by (simp add: tbl_wf_def del: map_map)
qed

lemma tbl_wf_delete: "tbl_wf key t \<Longrightarrow> tbl_wf key (tbl_delete p t)"
  by (auto simp: tbl_wf_def distinct_map inj_on_def)

text \<open>
  Changing the one row with a given key changes a sum by the difference of that row's
  contributions, whatever the other rows are.
\<close>

lemma sum_list_map_update_unique:
  fixes f :: "'r \<Rightarrow> int"
  assumes "distinct (map key xs)" "r \<in> set xs" "\<And>s. s \<in> set xs \<Longrightarrow> p s \<longleftrightarrow> key s = key r"
  shows "sum_list (map f (map (\<lambda>s. if p s then g s else s) xs)) =
         sum_list (map f xs) - f r + f (g r)"
  using assms
proof (induction xs)
  case Nil
  then show ?case by simp
next
  case (Cons x xs)
  show ?case
  proof (cases "x = r")
    case True
    then have "\<forall>s \<in> set xs. \<not> p s" using Cons.prems by (force simp: image_iff)
    then have "map (\<lambda>s. if p s then g s else s) xs = xs"
      by (simp add: map_idI)
    with True Cons.prems show ?thesis by simp
  next
    case False
    then have r: "r \<in> set xs" using Cons.prems by simp
    then have "key x \<noteq> key r" using Cons.prems(1) by (auto simp: image_iff)
    then have "\<not> p x" using Cons.prems by simp
    moreover have "sum_list (map f (map (\<lambda>s. if p s then g s else s) xs)) =
        sum_list (map f xs) - f r + f (g r)"
      using Cons.prems r by (intro Cons.IH) auto
    ultimately show ?thesis by simp
  qed
qed

lemma tbl_sum_modify_unique:
  fixes f :: "'r \<Rightarrow> int"
  assumes "tbl_wf key t" "r \<in> set (rows t)" "\<And>s. s \<in> set (rows t) \<Longrightarrow> p s \<longleftrightarrow> key s = key r"
  shows "tbl_sum f (tbl_modify p g t) = tbl_sum f t - f r + f (g r)"
  using sum_list_map_update_unique [of key "rows t" r p f g] assms
  by (simp add: tbl_sum_def tbl_wf_def)

lemma tbl_sum_modify_cong:
  assumes "\<And>r. r \<in> set (rows t) \<Longrightarrow> p r \<Longrightarrow> f (g r) = f r"
  shows "tbl_sum f (tbl_modify p g t) = tbl_sum f t"
  unfolding tbl_sum_def using assms by (auto intro!: arg_cong [where f = sum_list])

subsection \<open>Row types\<close>

text \<open>
  The interface every table relies on: a row type has a primary key, and creating a
  row stores it under the auto-increment value.
\<close>

locale row_type =
  fixes key :: "'r \<Rightarrow> nat"
    and with_id :: "nat \<Rightarrow> 'r \<Rightarrow> 'r"
  assumes key_with_id: "key (with_id n r) = n"
begin

lemma wf_create:
  assumes "tbl_wf key t" "tbl_create clash (\<lambda>n. with_id n r) t = Inr (t', r')"
  shows "tbl_wf key t'"
  using assms by (auto simp: res_simps key_with_id intro!: tbl_wf_create)

lemma first_by_key_eq:
  assumes "tbl_wf key t" "r \<in> set (rows t)"
  shows "tbl_first (\<lambda>s. key s = key r) t = Some r"
proof -
  have "tbl_first (\<lambda>s. key s = key r) t \<noteq> None"
    using assms(2) by (auto simp only: tbl_first_None_iff)
  then obtain s where s: "tbl_first (\<lambda>s. key s = key r) t = Some s" by blast
  then have "s \<in> set (rows t)" "key s = key r" by (auto dest: tbl_firstD)
  with assms s show ?thesis using tbl_wfD_unique by metis
qed

lemma first_created:
  assumes "tbl_wf key t" "tbl_create clash (\<lambda>n. with_id n r) t = Inr (t', r')"
  shows "tbl_first (\<lambda>s. key s = key r') t' = Some r'"
  using first_by_key_eq [OF wf_create [OF assms]] assms(2) by (auto simp: res_simps)

lemma sum_create:
  fixes f :: "'r \<Rightarrow> int"
  assumes "tbl_create clash (\<lambda>n. with_id n r) t = Inr (t', r')"
  shows "tbl_sum f t' = tbl_sum f t + f r'"
  using assms by (auto simp: res_simps tbl_sum_def)

lemma sum_modify_key:
  fixes f :: "'r \<Rightarrow> int"
  assumes "tbl_wf key t" "r \<in> set (rows t)"
  shows "tbl_sum f (tbl_modify (\<lambda>s. key s = key r) g t) = tbl_sum f t - f r + f (g r)"
  using assms by (intro tbl_sum_modify_unique [where key = key]) auto

end

subsection \<open>Rows with a unique secondary index\<close>

text \<open>\<open>Save\<close> writes all columns of the row with the same primary key.\<close>

definition tbl_save :: "('r \<Rightarrow> nat) \<Rightarrow> 'r \<Rightarrow> 'r table \<Rightarrow> 'r table" where
  "tbl_save key r t = tbl_modify (\<lambda>s. key s = key r) (\<lambda>_. r) t"

text \<open>\<open>Where(idx = k).First\<close>\<close>

definition tbl_lookup :: "('r \<Rightarrow> 'k) \<Rightarrow> 'k \<Rightarrow> 'r table \<Rightarrow> 'r option" where
  "tbl_lookup idx k t = tbl_first (\<lambda>r. idx r = k) t"

lemma tbl_lookupD: "tbl_lookup idx k t = Some r \<Longrightarrow> r \<in> set (rows t) \<and> idx r = k"
  by (auto simp: tbl_lookup_def dest: tbl_firstD)

lemma tbl_lookup_None_iff: "tbl_lookup idx k t = None \<longleftrightarrow> (\<forall>r \<in> set (rows t). idx r \<noteq> k)"
  by (simp add: tbl_lookup_def tbl_first_None_iff)

lemma tbl_lookup_empty [simp]: "tbl_lookup idx k empty_table = None"
  by (simp add: tbl_lookup_None_iff)

lemma tbl_save_sel [simp]:
  "rows (tbl_save key r t) = map (\<lambda>s. if key s = key r then r else s) (rows t)"
  "next_id (tbl_save key r t) = next_id t"
  by (simp_all add: tbl_save_def)

definition idx_wf :: "('r \<Rightarrow> nat) \<Rightarrow> ('r \<Rightarrow> 'k) \<Rightarrow> 'r table \<Rightarrow> bool" where
  "idx_wf key idx t \<longleftrightarrow> tbl_wf key t \<and> distinct (map idx (rows t))"

lemma idx_wf_empty [simp]: "idx_wf key idx empty_table"
  by (simp add: idx_wf_def)

lemma idx_wf_key: "idx_wf key key t \<longleftrightarrow> tbl_wf key t"
  by (auto simp: idx_wf_def tbl_wf_def)

lemma option_eqI: "(\<And>x. a = Some x \<longleftrightarrow> b = Some x) \<Longrightarrow> a = b"
  by (cases a; cases b) auto

locale indexed_row = row_type key with_id
  for key :: "'r \<Rightarrow> nat" and with_id :: "nat \<Rightarrow> 'r \<Rightarrow> 'r" +
  fixes idx :: "'r \<Rightarrow> 'k"
begin

lemma lookup_in:
  assumes "idx_wf key idx t" "r \<in> set (rows t)"
  shows "tbl_lookup idx (idx r) t = Some r"
proof -
  have "tbl_lookup idx (idx r) t \<noteq> None"
    using assms(2) by (auto simp only: tbl_lookup_None_iff)
  then obtain s where s: "tbl_lookup idx (idx r) t = Some s" by blast
  then have "s \<in> set (rows t)" "idx s = idx r" by (auto dest: tbl_lookupD)
  with assms have "s = r" by (auto simp: idx_wf_def distinct_map inj_on_def)
  with s show ?thesis by simp
qed

lemma lookup_iff:
  "idx_wf key idx t \<Longrightarrow> tbl_lookup idx k t = Some r \<longleftrightarrow> r \<in> set (rows t) \<and> idx r = k"
  using lookup_in [of t r] tbl_lookupD [of idx k t r] by auto

lemma wf_save:
  assumes "idx_wf key idx t" "tbl_lookup idx (idx r') t = Some r" "key r' = key r"
  shows "idx_wf key idx (tbl_save key r' t)"
proof -
  have r: "r \<in> set (rows t)" "idx r = idx r'" using assms(2) by (auto dest: tbl_lookupD)
  have "idx (if key s = key r' then r' else s) = idx s" if "s \<in> set (rows t)" for s
  proof (cases "key s = key r'")
    case True
    then have "s = r" using tbl_wfD_unique [of key t s r] that assms r by (simp add: idx_wf_def)
    with True r show ?thesis by simp
  qed simp
  then have "map idx (rows (tbl_save key r' t)) = map idx (rows t)" by simp
  moreover have "tbl_wf key (tbl_save key r' t)"
    unfolding tbl_save_def using assms(1) by (intro tbl_wf_modify) (auto simp: idx_wf_def)
  ultimately show ?thesis using assms(1) by (simp add: idx_wf_def del: map_map tbl_save_sel)
qed

lemma lookup_save:
  assumes "idx_wf key idx t" "tbl_lookup idx (idx r') t = Some r" "key r' = key r"
  shows "tbl_lookup idx k (tbl_save key r' t) = (if k = idx r' then Some r' else tbl_lookup idx k t)"
proof -
  have r: "r \<in> set (rows t)" "idx r = idx r'" using assms(2) by (auto dest: tbl_lookupD)
  have uniq: "key s = key r' \<longleftrightarrow> s = r" if "s \<in> set (rows t)" for s
    using that assms r by (auto simp: idx_wf_def dest: tbl_wfD_unique)
  have wf: "idx_wf key idx (tbl_save key r' t)" using assms by (rule wf_save)
  have mem: "s \<in> set (rows (tbl_save key r' t)) \<longleftrightarrow> s = r' \<or> (s \<in> set (rows t) \<and> s \<noteq> r)" for s
    using r uniq by auto
  have other: "s \<noteq> r \<longleftrightarrow> idx s \<noteq> idx r'" if "s \<in> set (rows t)" for s
    using that assms(1) r by (auto simp: idx_wf_def distinct_map inj_on_def)
  show ?thesis
  proof (rule option_eqI)
    fix s
    have "tbl_lookup idx k (tbl_save key r' t) = Some s \<longleftrightarrow>
        (s = r' \<or> (s \<in> set (rows t) \<and> s \<noteq> r)) \<and> idx s = k"
      by (simp only: lookup_iff [OF wf] mem)
    then show "tbl_lookup idx k (tbl_save key r' t) = Some s \<longleftrightarrow>
        (if k = idx r' then Some r' else tbl_lookup idx k t) = Some s"
      using other by (auto simp: lookup_iff [OF assms(1)])
  qed
qed

lemma wf_create_idx:
  assumes "idx_wf key idx t" "tbl_create clash (\<lambda>n. with_id n r) t = Inr (t', r')"
    "\<And>a b. clash a b = (idx a = idx b)"
  shows "idx_wf key idx t'"
proof -
  have "rows t' = rows t @ [r']" "idx r' \<notin> idx ` set (rows t)"
    using assms(2,3) by (auto simp: res_simps)
  then show ?thesis
    using assms(1) wf_create [of t clash r t' r'] assms(2) by (simp add: idx_wf_def)
qed

lemma lookup_create:
  assumes "idx_wf key idx t" "tbl_create clash (\<lambda>n. with_id n r) t = Inr (t', r')"
    "\<And>a b. clash a b = (idx a = idx b)"
  shows "tbl_lookup idx k t' = (if k = idx r' then Some r' else tbl_lookup idx k t)"
proof (rule option_eqI)
  fix s
  have "rows t' = rows t @ [r']" "\<forall>x \<in> set (rows t). idx r' \<noteq> idx x"
    using assms(2,3) by (auto simp: res_simps)
  then show "tbl_lookup idx k t' = Some s \<longleftrightarrow>
      (if k = idx r' then Some r' else tbl_lookup idx k t) = Some s"
    by (auto simp: lookup_iff [OF assms(1)] lookup_iff [OF wf_create_idx [OF assms]])
qed

lemma sum_save:
  fixes f :: "'r \<Rightarrow> int"
  assumes "idx_wf key idx t" "tbl_lookup idx (idx r') t = Some r" "key r' = key r"
  shows "tbl_sum f (tbl_save key r' t) = tbl_sum f t - f r + f r'"
  using assms(1,3) tbl_lookupD [OF assms(2)] unfolding tbl_save_def
  by (intro tbl_sum_modify_unique [where key = key]) (auto simp: idx_wf_def)

end

subsection \<open>Reachable states of a step relation\<close>

inductive reach :: "('s \<Rightarrow> bool) \<Rightarrow> ('s \<Rightarrow> 's \<Rightarrow> bool) \<Rightarrow> 's \<Rightarrow> bool"
  for init :: "'s \<Rightarrow> bool" and step :: "'s \<Rightarrow> 's \<Rightarrow> bool" where
  reach_init: "init s \<Longrightarrow> reach init step s"
| reach_step: "reach init step s \<Longrightarrow> step s t \<Longrightarrow> reach init step t"

locale invariant_system =
  fixes init :: "'s \<Rightarrow> bool" and step :: "'s \<Rightarrow> 's \<Rightarrow> bool" and inv :: "'s \<Rightarrow> bool"
  assumes inv_init: "init s \<Longrightarrow> inv s"
    and inv_step: "inv s \<Longrightarrow> step s t \<Longrightarrow> inv t"
begin

lemma reach_inv: "reach init step s \<Longrightarrow> inv s"
  by (induction rule: reach.induct) (auto intro: inv_init inv_step)

lemma run_inv: "rtranclp step s t \<Longrightarrow> inv s \<Longrightarrow> inv t"
  by (induction rule: rtranclp_induct) (auto intro: inv_step)

end

end
