(* ===== verification/Go_Numeric.thy ===== *)
theory Go_Numeric
  imports AS_Prelude Complex_Main "HOL-Library.Char_ord" "HOL-Library.List_Lexorder"
begin

text \<open>
  The Go number types the code uses. \<open>big.Int\<close> is \<open>int\<close>, \<open>big.Rat\<close> is \<open>rat\<close>,
  \<open>uint64\<close> is \<open>64 word\<close>; row ids (\<open>uint\<close>) are \<open>nat\<close>. The theory holds the
  truncating division of \<open>big.Int.Quo\<close>, the floor of a rational amount, decimal
  strings (\<open>big.Int.String\<close>, \<open>SetString(s, 10)\<close>), the database and JSON encodings of
  \<open>models.BigInt\<close>, the sortable priority key of the Provider queue, and points in time.
\<close>

type_synonym u64 = "64 word"

subsection \<open>Division and rationals\<close>

text \<open>\<open>Quo\<close> truncates towards zero; \<open>Div\<close> by a positive divisor is Isabelle's \<open>div\<close>.\<close>

definition go_quo :: "int \<Rightarrow> int \<Rightarrow> int" where
  "go_quo a b = sgn a * sgn b * (\<bar>a\<bar> div \<bar>b\<bar>)"

definition go_rem :: "int \<Rightarrow> int \<Rightarrow> int" where
  "go_rem a b = a - go_quo a b * b"

text \<open>\<open>new(big.Int).Quo(r.Num(), r.Denom())\<close>\<close>

definition rat_quo :: "rat \<Rightarrow> int" where
  "rat_quo r = (case quotient_of r of (n, d) \<Rightarrow> go_quo n d)"

text \<open>\<open>new(big.Int).Div(r.Num(), r.Denom())\<close>\<close>

definition rat_div :: "rat \<Rightarrow> int" where
  "rat_div r = (case quotient_of r of (n, d) \<Rightarrow> n div d)"

lemma go_rem_nonneg: "0 \<le> a \<Longrightarrow> 0 < b \<Longrightarrow> go_rem a b = a mod b"
  by (cases "a = 0") (simp_all add: go_rem_def go_quo_def minus_div_mult_eq_mod)

lemma go_quo_nonneg: "0 \<le> a \<Longrightarrow> 0 < b \<Longrightarrow> go_quo a b = a div b"
  by (cases "a = 0") (simp_all add: go_quo_def)

lemma floor_quotient:
  assumes "quotient_of r = (n, d)"
  shows "\<lfloor>r\<rfloor> = n div d"
proof -
  have "r = of_int n / of_int d" using assms by (rule quotient_of_div)
  then show ?thesis by (simp add: floor_divide_of_int_eq)
qed

lemma rat_div_floor [simp]: "rat_div r = \<lfloor>r\<rfloor>"
  by (auto simp: rat_div_def floor_quotient split: prod.splits)

lemma rat_quo_floor: "0 \<le> r \<Longrightarrow> rat_quo r = \<lfloor>r\<rfloor>"
proof -
  assume "0 \<le> r"
  obtain n d where q: "quotient_of r = (n, d)" by (cases "quotient_of r")
  then have d: "0 < d" by (rule quotient_of_denom_pos)
  have "r = of_int n / of_int d" using q by (rule quotient_of_div)
  with \<open>0 \<le> r\<close> d have "0 \<le> n" by (simp add: zero_le_divide_iff)
  then show ?thesis using q d
    by (simp add: rat_quo_def go_quo_nonneg floor_quotient)
qed

lemma rat_quo_nonneg: "0 \<le> r \<Longrightarrow> 0 \<le> rat_quo r"
  by (simp add: rat_quo_floor)

lemma rat_quo_mono: "0 \<le> r \<Longrightarrow> r \<le> s \<Longrightarrow> rat_quo r \<le> rat_quo s"
  by (simp add: rat_quo_floor floor_mono)

lemma rat_quo_of_int [simp]: "rat_quo (of_int k) = k"
  by (cases k rule: linorder_cases [of 0])
     (simp_all add: rat_quo_def go_quo_def quotient_of_int)

subsection \<open>Decimal strings\<close>

fun dec_digits :: "nat \<Rightarrow> nat list" where
  "dec_digits n = (if n < 10 then [n] else dec_digits (n div 10) @ [n mod 10])"

declare dec_digits.simps [simp del]

definition digit_char :: "nat \<Rightarrow> char" where
  "digit_char d = char_of (48 + d)"

definition digit_val :: "char \<Rightarrow> nat" where
  "digit_val c = of_char c - 48"

definition is_digit :: "char \<Rightarrow> bool" where
  "is_digit c \<longleftrightarrow> 48 \<le> (of_char c :: nat) \<and> (of_char c :: nat) \<le> 57"

definition nat_str :: "nat \<Rightarrow> string" where
  "nat_str n = map digit_char (dec_digits n)"

text \<open>\<open>big.Int.String\<close>\<close>

definition int_str :: "int \<Rightarrow> string" where
  "int_str z = (if z < 0 then CHR ''-'' # nat_str (nat (- z)) else nat_str (nat z))"

definition digits_value :: "string \<Rightarrow> nat" where
  "digits_value s = foldl (\<lambda>a c. 10 * a + digit_val c) 0 s"

definition parse_digits :: "string \<Rightarrow> nat option" where
  "parse_digits s = (if s \<noteq> [] \<and> list_all is_digit s then Some (digits_value s) else None)"

text \<open>\<open>big.Int.SetString(s, 10)\<close>: an optional sign, then at least one decimal digit.\<close>

definition bigint_set_string :: "string \<Rightarrow> int option" where
  "bigint_set_string s =
     (case s of
        [] \<Rightarrow> None
      | c # t \<Rightarrow>
          if c = CHR ''-'' then map_option (\<lambda>n. - int n) (parse_digits t)
          else if c = CHR ''+'' then map_option int (parse_digits t)
          else map_option int (parse_digits s))"

lemma dec_digits_nonempty [simp]: "dec_digits n \<noteq> []"
  by (subst dec_digits.simps) simp

lemma dec_digits_small: "d \<in> set (dec_digits n) \<Longrightarrow> d < 10"
proof (induction n rule: dec_digits.induct)
  case (1 n)
  then show ?case by (cases "n < 10") (auto simp: dec_digits.simps [of n])
qed

lemma digit_val_char: "d < 10 \<Longrightarrow> digit_val (digit_char d) = d"
  by (simp add: digit_val_def digit_char_def)

lemma is_digit_char: "d < 10 \<Longrightarrow> is_digit (digit_char d)"
  by (simp add: is_digit_def digit_char_def)

lemma foldl_digits:
  "(\<And>d. d \<in> set ds \<Longrightarrow> d < 10) \<Longrightarrow>
   foldl (\<lambda>a c. 10 * a + digit_val c) a (map digit_char ds) = foldl (\<lambda>a d. 10 * a + d) a ds"
  by (induction ds arbitrary: a) (simp_all add: digit_val_char)

lemma foldl_dec_digits: "foldl (\<lambda>a d. 10 * a + d) 0 (dec_digits n) = n"
proof (induction n rule: dec_digits.induct)
  case (1 n)
  then show ?case by (cases "n < 10") (simp_all add: dec_digits.simps [of n])
qed

lemma digits_value_nat_str: "digits_value (nat_str n) = n"
  using foldl_digits [of "dec_digits n" 0] foldl_dec_digits [of n] dec_digits_small
  by (simp add: digits_value_def nat_str_def)

lemma nat_str_digits: "list_all is_digit (nat_str n)" "nat_str n \<noteq> []"
  by (auto simp: nat_str_def list_all_iff dec_digits_small is_digit_char)

lemma parse_digits_nat_str [simp]: "parse_digits (nat_str n) = Some n"
  by (simp add: parse_digits_def nat_str_digits digits_value_nat_str)

lemma is_digit_not_sign: "is_digit c \<Longrightarrow> c \<noteq> CHR ''-'' \<and> c \<noteq> CHR ''+'' \<and> c \<noteq> CHR 0x22"
  by (auto simp: is_digit_def)

lemma bigint_set_string_digits:
  assumes "list_all is_digit s"
  shows "bigint_set_string s = map_option int (parse_digits s)"
  using assms is_digit_not_sign
  by (cases s) (auto simp: bigint_set_string_def parse_digits_def)

text \<open>Parsing what \<open>String\<close> prints gives the number back.\<close>

lemma bigint_set_string_int_str: "bigint_set_string (int_str z) = Some z"
proof (cases "z < 0")
  case True
  then show ?thesis by (simp add: int_str_def bigint_set_string_def)
next
  case False
  then show ?thesis
    by (simp add: int_str_def bigint_set_string_digits nat_str_digits)
qed

lemma int_str_inject: "int_str a = int_str b \<Longrightarrow> a = b"
  using bigint_set_string_int_str by (metis option.inject)

lemma int_str_nonempty: "int_str z \<noteq> []"
  by (simp add: int_str_def nat_str_digits)

subsection \<open>Database and JSON encodings of BigInt\<close>

text \<open>
  \<open>BigInt.Value\<close> stores the decimal string and \<open>BigInt.Scan\<close> reads a column back; a
  driver value is a string (\<open>string\<close> or \<open>[]byte\<close>), an integer, \<open>nil\<close>, or of another
  type. Scanning \<open>nil\<close> leaves the receiver as it was.
\<close>

datatype driver_value = DVString string | DVInt int | DVNil | DVOther

definition BigInt_Value :: "int \<Rightarrow> driver_value" where
  "BigInt_Value z = DVString (int_str z)"

definition BigInt_Scan :: "int \<Rightarrow> driver_value \<Rightarrow> err + int" where
  "BigInt_Scan old v =
     (case v of
        DVNil \<Rightarrow> Inr old
      | DVOther \<Rightarrow> Inl (ErrMsg ''Unable to convert BigInt value to string'')
      | DVString s \<Rightarrow> of_option (ErrMsg ''Unable to parse BigInt string'') (bigint_set_string s)
      | DVInt k \<Rightarrow> of_option (ErrMsg ''Unable to parse BigInt string'') (bigint_set_string (int_str k)))"

definition BigInt_MarshalText :: "int \<Rightarrow> string" where
  "BigInt_MarshalText z = CHR 0x22 # int_str z @ [CHR 0x22]"

text \<open>\<open>strings.Trim(s, "\"")\<close>\<close>

definition trim_quotes :: "string \<Rightarrow> string" where
  "trim_quotes s = rev (dropWhile (\<lambda>c. c = CHR 0x22) (rev (dropWhile (\<lambda>c. c = CHR 0x22) s)))"

definition BigInt_UnmarshalText :: "string \<Rightarrow> err + int" where
  "BigInt_UnmarshalText s =
     of_option (ErrMsg ''not a valid big integer'') (bigint_set_string (trim_quotes s))"

definition BigInt_UnmarshalJSON :: "int \<Rightarrow> string \<Rightarrow> err + int" where
  "BigInt_UnmarshalJSON old s =
     (if s = ''null'' then Inr old else BigInt_UnmarshalText s)"

lemma nat_str_no_quote: "c \<in> set (nat_str n) \<Longrightarrow> c \<noteq> CHR 0x22"
  using nat_str_digits(1) [of n] is_digit_not_sign by (auto simp: list_all_iff)

lemma int_str_no_quote: "c \<in> set (int_str z) \<Longrightarrow> c \<noteq> CHR 0x22"
  by (auto simp: int_str_def dest: nat_str_no_quote split: if_splits)

lemma trim_both_ends:
  assumes "xs \<noteq> []" "\<And>c. c \<in> set xs \<Longrightarrow> \<not> p c" "p q"
  shows "rev (dropWhile p (rev (dropWhile p (q # xs @ [q])))) = xs"
proof -
  have id: "dropWhile p (ys @ zs) = ys @ zs" if "ys \<noteq> []" "\<forall>c \<in> set ys. \<not> p c" for ys zs
    using that by (cases ys) simp_all
  have "dropWhile p (xs @ [q]) = xs @ [q]" "dropWhile p (rev xs) = rev xs"
    using assms id [of xs "[q]"] id [of "rev xs" "[]"] by simp_all
  then show ?thesis using assms(3) by simp
qed

lemma trim_quotes_marshal: "trim_quotes (BigInt_MarshalText z) = int_str z"
  unfolding trim_quotes_def BigInt_MarshalText_def
  by (rule trim_both_ends) (auto simp: int_str_nonempty dest: int_str_no_quote)

text \<open>Amounts survive storage: reading back the column or the JSON text that the
  code wrote for a big integer gives the same integer, whatever the receiver held.\<close>

theorem bigint_roundtrip:
  "BigInt_Scan old (BigInt_Value z) = Inr z \<and>
   BigInt_UnmarshalText (BigInt_MarshalText z) = Inr z \<and>
   BigInt_UnmarshalJSON old (BigInt_MarshalText z) = Inr z"
proof -
  have "BigInt_MarshalText z \<noteq> ''null''" by (simp add: BigInt_MarshalText_def)
  then show ?thesis
    by (simp add: BigInt_Scan_def BigInt_Value_def BigInt_UnmarshalText_def BigInt_UnmarshalJSON_def
        trim_quotes_marshal bigint_set_string_int_str)
qed

end
