(* ===== verification/Go_Rat.thy ===== *)
theory Go_Rat
  imports Go_Numeric
begin

text \<open>
  The parts of \<open>strings\<close> and \<open>math/big\<close> the code uses to read and print rational
  numbers: \<open>strings.TrimSpace\<close> (on the ASCII white space), \<open>Rat.SetString\<close> with its
  three forms (fraction, decimal, mantissa with exponent; base prefixes and digit
  separators included, as in \<open>math/big/ratconv.go\<close> and \<open>natconv.go\<close>) and
  \<open>Rat.FloatString\<close>.
\<close>

subsection \<open>Trimming\<close>

definition is_space :: "char \<Rightarrow> bool" where
  "is_space c \<longleftrightarrow> (of_char c :: nat) \<in> {9, 10, 11, 12, 13, 32}"

definition TrimSpace :: "string \<Rightarrow> string" where
  "TrimSpace s = rev (dropWhile is_space (rev (dropWhile is_space s)))"

definition lower_char :: "char \<Rightarrow> char" where
  "lower_char c = (if 65 \<le> (of_char c :: nat) \<and> (of_char c :: nat) \<le> 90 then char_of ((of_char c :: nat) + 32) else c)"

text \<open>\<open>strings.ToLower\<close> on ASCII text.\<close>

definition ToLower :: "string \<Rightarrow> string" where
  "ToLower s = map lower_char s"

definition TrimRight :: "char \<Rightarrow> string \<Rightarrow> string" where
  "TrimRight c s = rev (dropWhile (\<lambda>d. d = c) (rev s))"

subsection \<open>Scanning natural numbers\<close>

text \<open>The value of a digit in a base up to 16; 99 is larger than every base.\<close>

definition hex_val :: "char \<Rightarrow> nat" where
  "hex_val c =
     (let k = of_char c :: nat in
      if 48 \<le> k \<and> k \<le> 57 then k - 48
      else if 97 \<le> k \<and> k \<le> 122 then k - 87
      else if 65 \<le> k \<and> k \<le> 90 then k - 55
      else 99)"

text \<open>
  The scanning loop: \<open>sep\<close> is the kind of the previous character (digit, separator or
  other), \<open>dp\<close> the number of digits before the point once it was read, \<open>count\<close> the
  number of digits, \<open>bad\<close> whether a separator was misplaced.
\<close>

datatype prev_char = PrevDigit | PrevSep | PrevOther

record scan_state =
  sc_prev :: prev_char
  sc_frac_ok :: bool
  sc_dp :: "nat option"
  sc_count :: nat
  sc_bad :: bool
  sc_value :: nat

fun scan_loop :: "nat \<Rightarrow> scan_state \<Rightarrow> string \<Rightarrow> scan_state \<times> string" where
  "scan_loop b st [] = (st, [])"
| "scan_loop b st (c # s) =
     (if c = CHR ''.'' \<and> sc_frac_ok st then
        scan_loop b (st\<lparr>sc_bad := sc_bad st \<or> sc_prev st = PrevSep, sc_frac_ok := False,
                        sc_prev := PrevOther, sc_dp := Some (sc_count st)\<rparr>) s
      else if c = CHR ''_'' then
        scan_loop b (st\<lparr>sc_bad := sc_bad st \<or> sc_prev st \<noteq> PrevDigit, sc_prev := PrevSep\<rparr>) s
      else if hex_val c < b then
        scan_loop b (st\<lparr>sc_prev := PrevDigit, sc_count := Suc (sc_count st),
                        sc_value := b * sc_value st + hex_val c\<rparr>) s
      else (st, c # s))"

text \<open>
  \<open>nat.scan(r, 0, fracOk)\<close>: the value, the base, the count (minus the number of
  fractional digits when there was a point) and the unread rest.
\<close>

definition scan_prefix :: "bool \<Rightarrow> string \<Rightarrow> nat \<times> bool \<times> prev_char \<times> nat \<times> string" where
  "scan_prefix fracOk s =
     (case s of
        c # t \<Rightarrow>
          if c \<noteq> CHR ''0'' then (10, False, PrevOther, 0, s)
          else (case t of
              [] \<Rightarrow> (10, False, PrevDigit, 1, [])
            | d # u \<Rightarrow>
                if d = CHR ''b'' \<or> d = CHR ''B'' then (2, False, PrevDigit, 0, u)
                else if d = CHR ''o'' \<or> d = CHR ''O'' then (8, False, PrevDigit, 0, u)
                else if d = CHR ''x'' \<or> d = CHR ''X'' then (16, False, PrevDigit, 0, u)
                else if fracOk then (10, False, PrevDigit, 1, t)
                else (8, True, PrevDigit, 0, t))
      | [] \<Rightarrow> (10, False, PrevOther, 0, []))"

definition nat_scan :: "bool \<Rightarrow> string \<Rightarrow> (nat \<times> nat \<times> int \<times> string) option" where
  "nat_scan fracOk s =
     (case scan_prefix fracOk s of (b, octal0, prev, count, t) \<Rightarrow>
        (case scan_loop b \<lparr>sc_prev = prev, sc_frac_ok = fracOk, sc_dp = None,
                           sc_count = count, sc_bad = False, sc_value = 0\<rparr> t of
          (st, rest) \<Rightarrow>
            let bad = (sc_bad st \<or> sc_prev st = PrevSep) in
            if bad then None
            else if sc_count st = 0 then (if octal0 then Some (0, 10, 1, rest) else None)
            else Some (sc_value st, b,
                       (case sc_dp st of None \<Rightarrow> int (sc_count st)
                                       | Some d \<Rightarrow> int d - int (sc_count st)), rest)))"

definition scan_sign :: "string \<Rightarrow> bool \<times> string" where
  "scan_sign s =
     (case s of
        c # t \<Rightarrow> if c = CHR ''-'' then (True, t) else if c = CHR ''+'' then (False, t) else (False, s)
      | [] \<Rightarrow> (False, []))"

subsection \<open>Exponents\<close>

fun scan_exp_digits :: "prev_char \<Rightarrow> bool \<Rightarrow> string \<Rightarrow> string \<Rightarrow> string \<times> prev_char \<times> bool \<times> string" where
  "scan_exp_digits prev bad ds [] = (ds, prev, bad, [])"
| "scan_exp_digits prev bad ds (c # s) =
     (if is_digit c then scan_exp_digits PrevDigit bad (ds @ [c]) s
      else if c = CHR ''_'' then scan_exp_digits PrevSep (bad \<or> prev \<noteq> PrevDigit) ds s
      else (ds, prev, bad, c # s))"

text \<open>\<open>scanExponent(r, true, true)\<close>: the exponent, its base and the rest.\<close>

definition scan_exponent :: "string \<Rightarrow> (int \<times> nat \<times> string) option" where
  "scan_exponent s =
     (case s of
        [] \<Rightarrow> Some (0, 10, [])
      | c # t \<Rightarrow>
          (let base = (if c = CHR ''e'' \<or> c = CHR ''E'' then 10
                       else if c = CHR ''p'' \<or> c = CHR ''P'' then 2 else 0 :: nat) in
           if base = 0 then Some (0, 10, s)
           else
             (case scan_sign t of (neg, u) \<Rightarrow>
                (case scan_exp_digits PrevOther False [] u of (ds, prev, bad, rest) \<Rightarrow>
                   let v = (if neg then - int (digits_value ds) else int (digits_value ds)) in
                   if ds = [] \<or> v < - (2 ^ 63) \<or> 2 ^ 63 \<le> v \<or> bad \<or> prev = PrevSep then None
                   else Some (v, base, rest)))))"

text \<open>\<open>scan_sign\<close> and \<open>nat_scan\<close> with nothing left: \<open>Int.SetString(s, 0)\<close>.\<close>

definition Int_SetString0 :: "string \<Rightarrow> int option" where
  "Int_SetString0 s =
     (case scan_sign s of (neg, t) \<Rightarrow>
        (case nat_scan False t of
           Some (v, _, _, []) \<Rightarrow> Some (if neg then - int v else int v)
         | _ \<Rightarrow> None))"

definition pow_rat :: "nat \<Rightarrow> int \<Rightarrow> rat" where
  "pow_rat b e = (if 0 \<le> e then of_nat (b ^ nat e) else 1 / of_nat (b ^ nat (- e)))"

text \<open>The powers of five and two that the point and the exponent contribute.\<close>

definition exps :: "nat \<Rightarrow> int \<Rightarrow> int \<Rightarrow> nat \<Rightarrow> int \<times> int" where
  "exps base fcount e ebase =
     (let d = (if fcount < 0 then fcount else 0);
          exp5 = (if base = 10 then d else 0);
          exp2 = (if base = 10 \<or> base = 2 then d else if base = 8 then d * 3 else d * 4) in
      (if ebase = 10 then exp5 + e else exp5, exp2 + e))"

definition Rat_SetString :: "string \<Rightarrow> rat option" where
  "Rat_SetString s =
     (if s = [] then None
      else case dropWhile (\<lambda>c. c \<noteq> CHR ''/'') s of
        _ # b \<Rightarrow>
          (case Int_SetString0 (takeWhile (\<lambda>c. c \<noteq> CHR ''/'') s) of
             None \<Rightarrow> None
           | Some n \<Rightarrow>
               (case nat_scan False b of
                  Some (d, _, _, []) \<Rightarrow> if d = 0 then None else Some (of_int n / of_nat d)
                | _ \<Rightarrow> None))
      | [] \<Rightarrow>
          (case scan_sign s of (neg, t) \<Rightarrow>
             (case nat_scan True t of
                None \<Rightarrow> None
              | Some (m, base, fcount, u) \<Rightarrow>
                  (case scan_exponent u of
                     Some (e, ebase, []) \<Rightarrow>
                       (case exps base fcount e ebase of (e5, e2) \<Rightarrow>
                          if m = 0 then Some 0
                          else if 1000000 < \<bar>e5\<bar> \<or> 10000000 < \<bar>e2\<bar> then None
                          else Some ((if neg then -1 else 1) * of_nat m * pow_rat 5 e5 * pow_rat 2 e2))
                   | _ \<Rightarrow> None))))"

subsection \<open>Printing\<close>

definition zero_pad :: "nat \<Rightarrow> string \<Rightarrow> string" where
  "zero_pad w s = replicate (w - length s) CHR ''0'' @ s"

text \<open>\<open>Rat.FloatString(prec)\<close>: the last digit rounded to nearest, halves away from zero.\<close>

definition FloatString :: "nat \<Rightarrow> rat \<Rightarrow> string" where
  "FloatString prec r =
     (case quotient_of r of (a, b) \<Rightarrow>
        let q = \<bar>a\<bar> div b; r0 = (\<bar>a\<bar> mod b) * 10 ^ prec; f = r0 div b;
            f' = (if b \<le> 2 * (r0 mod b) then f + 1 else f);
            q' = (if 10 ^ prec \<le> f' then q + 1 else q);
            f'' = (if 10 ^ prec \<le> f' then f' - 10 ^ prec else f') in
        (if a < 0 then ''-'' else []) @ nat_str (nat q') @
        (if prec = 0 then [] else CHR ''.'' # zero_pad prec (nat_str (nat f''))))"

definition RatString :: "rat \<Rightarrow> string" where
  "RatString r =
     (case quotient_of r of (a, b) \<Rightarrow>
        if b = 1 then int_str a else int_str a @ CHR ''/'' # int_str b)"

subsection \<open>The sortable priority column\<close>

text \<open>\<open>models.FormatSortablePriority\<close>; \<open>nil\<close> yields a literal of 76 zeros.\<close>

definition FormatSortablePriority :: "int option \<Rightarrow> string" where
  "FormatSortablePriority p =
     (case p of
        None \<Rightarrow> replicate 76 CHR ''0''
      | Some z \<Rightarrow> if 78 \<le> length (int_str z) then int_str z else zero_pad 78 (int_str z))"

lemma digits_value_Cons:
  "digits_value (c # s) = digit_val c * 10 ^ length s + digits_value s"
proof -
  have "foldl (\<lambda>a c. 10 * a + digit_val c) a s =
      a * 10 ^ length s + foldl (\<lambda>a c. 10 * a + digit_val c) 0 s" for a
    by (induction s rule: rev_induct) simp_all
  from this [of "digit_val c"] show ?thesis by (simp add: digits_value_def)
qed

lemma digits_value_less:
  "list_all is_digit s \<Longrightarrow> digits_value s < 10 ^ length s"
proof (induction s)
  case Nil
  then show ?case by (simp add: digits_value_def)
next
  case (Cons c s)
  then have "digit_val c \<le> 9" by (auto simp: is_digit_def digit_val_def)
  then have "digit_val c * 10 ^ length s \<le> 9 * 10 ^ length s" by (rule mult_right_mono) simp
  moreover have "digits_value s < 10 ^ length s" using Cons by simp
  ultimately have "digit_val c * 10 ^ length s + digits_value s < 10 * 10 ^ length s" by linarith
  then show ?case by (simp add: digits_value_Cons)
qed

lemma digits_less_iff:
  assumes "length s = length t" "list_all is_digit s" "list_all is_digit t"
  shows "s < t \<longleftrightarrow> digits_value s < digits_value t"
  using assms
proof (induction s t rule: list_induct2)
  case Nil
  then show ?case by (simp add: digits_value_def)
next
  case (Cons c s d t)
  define m :: nat where "m = 10 ^ length s"
  have lt: "digits_value s < m" "digits_value t < m"
    using Cons.prems Cons.hyps digits_value_less [of s] digits_value_less [of t] by (simp_all add: m_def)
  have cd: "c < d \<longleftrightarrow> digit_val c < digit_val d" "c = d \<longleftrightarrow> digit_val c = digit_val d"
    using Cons.prems by (auto simp: less_char_def is_digit_def digit_val_def)
      (metis diff_diff_cancel char_of_char diff_add_inverse2 le_add_diff_inverse2)+
  have IH: "s < t \<longleftrightarrow> digits_value s < digits_value t" using Cons by simp
  have step: "a < b \<Longrightarrow> a * m + u < b * m + v" if "u < m" for a b u v :: nat
  proof -
    assume "a < b"
    then have "Suc a * m \<le> b * m" by (intro mult_right_mono) auto
    with that show ?thesis by simp
  qed
  have "digits_value (c # s) = digit_val c * m + digits_value s"
       "digits_value (d # t) = digit_val d * m + digits_value t"
    using Cons.hyps by (simp_all add: digits_value_Cons m_def)
  with IH cd show ?case
    using step [OF lt(1), of "digit_val c" "digit_val d" "digits_value t"]
      step [OF lt(2), of "digit_val d" "digit_val c" "digits_value s"]
    by (cases "digit_val c" "digit_val d" rule: linorder_cases) auto
qed

lemma digits_value_zeros: "digits_value (replicate k CHR ''0'' @ s) = digits_value s"
  by (induction k) (simp_all add: digits_value_Cons, simp add: digit_val_def)

lemma zero_pad_digits:
  assumes "list_all is_digit s" "length s \<le> w"
  shows "list_all is_digit (zero_pad w s)" "length (zero_pad w s) = w"
    "digits_value (zero_pad w s) = digits_value s"
  using assms by (auto simp: zero_pad_def list_all_iff is_digit_def digits_value_zeros)

lemma dec_digits_length: "n < 10 ^ w \<Longrightarrow> 0 < w \<Longrightarrow> length (dec_digits n) \<le> w"
proof (induction n arbitrary: w rule: dec_digits.induct)
  case (1 n)
  show ?case
  proof (cases "n < 10")
    case True
    with 1 show ?thesis by (simp add: dec_digits.simps [of n])
  next
    case False
    then obtain v where w: "w = Suc v" "0 < v"
      using 1(2,3) by (cases w; cases "w - 1") auto
    then have "n div 10 < 10 ^ v" using 1(2) by (simp add: less_mult_imp_div_less mult.commute)
    with 1(1) False w show ?thesis by (simp add: dec_digits.simps [of n])
  qed
qed

lemma FormatSortablePriority_pad:
  assumes "0 \<le> z" "z < 10 ^ 78"
  shows "FormatSortablePriority (Some z) = zero_pad 78 (nat_str (nat z)) \<and>
         length (nat_str (nat z)) \<le> 78"
proof -
  have "nat z < 10 ^ 78" using assms by (simp add: nat_less_iff)
  then have "length (nat_str (nat z)) \<le> 78" by (simp add: nat_str_def dec_digits_length)
  with assms show ?thesis
    by (auto simp: FormatSortablePriority_def int_str_def zero_pad_def)
qed

lemma sortable_less:
  assumes "0 \<le> a" "a < 10 ^ 78" "0 \<le> b" "b < 10 ^ 78"
  shows "FormatSortablePriority (Some a) < FormatSortablePriority (Some b) \<longleftrightarrow> a < b"
proof -
  note pa = FormatSortablePriority_pad [OF assms(1,2)] zero_pad_digits [OF nat_str_digits(1), of "nat a" 78]
  note pb = FormatSortablePriority_pad [OF assms(3,4)] zero_pad_digits [OF nat_str_digits(1), of "nat b" 78]
  show ?thesis
    using pa pb assms by (auto simp: digits_less_iff digits_value_nat_str)
qed

text \<open>Ordering the stored key as text is ordering the priorities as numbers: for two
  non-negative priorities of at most 78 digits, the keys compare as the numbers do, so
  \<open>ORDER BY sortable_priority DESC\<close> lists the higher bid first.\<close>

theorem sortable_priority_order:
  assumes "0 \<le> a" "a < 10 ^ 78" "0 \<le> b" "b < 10 ^ 78"
  shows "FormatSortablePriority (Some a) < FormatSortablePriority (Some b) \<longleftrightarrow> a < b"
  using assms by (rule sortable_less)

theorem sortable_priority_order_witness:
  "FormatSortablePriority (Some 9) < FormatSortablePriority (Some 100)"
  using sortable_priority_order [of 9 100] by simp

end
