(* ===== verification/Go_Float.thy ===== *)
theory Go_Float
  imports Go_Numeric "HOL-Library.Log_Nat"
begin

text \<open>
  Go's floating point as the fee code uses it: \<open>float64\<close> (IEEE binary64, round to
  nearest even, with infinities and NaN; the sign of zero is never observed by the
  code and is not kept) and \<open>big.Float\<close> with the precision the code gives it.
  A finite value is the rational number it stands for, so the definitions compute.
  The lemmas show that rounding keeps the order and the sign.
\<close>

subsection \<open>Rounding a rational to a number of significant bits\<close>

definition pow2 :: "int \<Rightarrow> rat" where
  "pow2 e = (if 0 \<le> e then 2 ^ nat e else 1 / 2 ^ nat (- e))"

text \<open>The \<open>e\<close> with \<open>2 ^ e \<le> x < 2 ^ (e + 1)\<close>, for a positive \<open>x\<close>.\<close>

definition floor_log2 :: "rat \<Rightarrow> int" where
  "floor_log2 x =
     (case quotient_of x of (n, d) \<Rightarrow>
        let k = bitlen n - bitlen d in if pow2 k \<le> x then k else k - 1)"

definition round_half_even :: "rat \<Rightarrow> int" where
  "round_half_even x =
     (let f = \<lfloor>x\<rfloor>; d = x - of_int f in
      if d < 1 / 2 then f else if 1 / 2 < d then f + 1 else if even f then f else f + 1)"

definition round_at :: "int \<Rightarrow> rat \<Rightarrow> rat" where
  "round_at e x = of_int (round_half_even (x / pow2 e)) * pow2 e"

definition round_prec :: "nat \<Rightarrow> rat \<Rightarrow> rat" where
  "round_prec p x =
     (if x = 0 then 0 else round_at (floor_log2 \<bar>x\<bar> - (int p - 1)) x)"

subsection \<open>float64\<close>

datatype f64 = Fin rat | PosInf | NegInf | NaN

definition f64_of_rat :: "rat \<Rightarrow> f64" where
  "f64_of_rat x =
     (if x = 0 then Fin 0
      else let y = round_at (max (floor_log2 \<bar>x\<bar> - 52) (- 1074)) x in
        if y \<ge> 2 ^ 1024 then PosInf else if y \<le> - (2 ^ 1024) then NegInf else Fin y)"

definition f64_of_u64 :: "u64 \<Rightarrow> f64" where
  "f64_of_u64 n = f64_of_rat (of_int (uint n))"

fun f64_add :: "f64 \<Rightarrow> f64 \<Rightarrow> f64" where
  "f64_add (Fin a) (Fin b) = f64_of_rat (a + b)"
| "f64_add NaN _ = NaN"
| "f64_add _ NaN = NaN"
| "f64_add PosInf NegInf = NaN"
| "f64_add NegInf PosInf = NaN"
| "f64_add PosInf _ = PosInf"
| "f64_add _ PosInf = PosInf"
| "f64_add NegInf _ = NegInf"
| "f64_add _ NegInf = NegInf"

text \<open>The sign of a value that is not NaN.\<close>

fun f64_sign :: "f64 \<Rightarrow> int" where
  "f64_sign (Fin a) = (if a < 0 then - 1 else if a = 0 then 0 else 1)"
| "f64_sign PosInf = 1"
| "f64_sign NegInf = - 1"
| "f64_sign NaN = 0"

definition f64_inf :: "int \<Rightarrow> f64" where
  "f64_inf s = (if s < 0 then NegInf else if s = 0 then NaN else PosInf)"

fun f64_mul :: "f64 \<Rightarrow> f64 \<Rightarrow> f64" where
  "f64_mul (Fin a) (Fin b) = f64_of_rat (a * b)"
| "f64_mul NaN _ = NaN"
| "f64_mul _ NaN = NaN"
| "f64_mul x y = f64_inf (f64_sign x * f64_sign y)"

text \<open>\<open>a / b\<close> of finite values with \<open>b \<noteq> 0\<close>, the only division the fee code does.\<close>

definition f64_div_u64 :: "u64 \<Rightarrow> u64 \<Rightarrow> f64" where
  "f64_div_u64 a b =
     (case (f64_of_u64 a, f64_of_u64 b) of
        (Fin x, Fin y) \<Rightarrow>
          if y = 0 then (if x = 0 then NaN else PosInf) else f64_of_rat (x / y)
      | _ \<Rightarrow> NaN)"

definition f64_is_nan_or_inf :: "f64 \<Rightarrow> bool" where
  "f64_is_nan_or_inf x = (case x of Fin _ \<Rightarrow> False | _ \<Rightarrow> True)"

text \<open>\<open>x < 0\<close> and \<open>x <= 0\<close> on float64 (both false on NaN).\<close>

definition f64_neg :: "f64 \<Rightarrow> bool" where
  "f64_neg x = (case x of Fin a \<Rightarrow> a < 0 | NegInf \<Rightarrow> True | _ \<Rightarrow> False)"

definition f64_nonpos :: "f64 \<Rightarrow> bool" where
  "f64_nonpos x = (case x of Fin a \<Rightarrow> a \<le> 0 | NegInf \<Rightarrow> True | _ \<Rightarrow> False)"

subsection \<open>big.Float\<close>

datatype bigfloat = BFin nat rat | BInf bool

text \<open>\<open>new(big.Float).SetInt(z)\<close>: precision \<open>max(BitLen, 64)\<close>, exact.\<close>

definition bf_set_int :: "int \<Rightarrow> bigfloat" where
  "bf_set_int z = BFin (max (nat (bitlen \<bar>z\<bar>)) 64) (of_int z)"

text \<open>
  \<open>product.Mul(product, big.NewFloat(f))\<close>: rounded to the precision of \<open>product\<close>.
  \<open>NewFloat\<close> panics on NaN, and so does a product of zero and an infinity: \<open>None\<close>.
\<close>

definition bf_mul_f64 :: "bigfloat \<Rightarrow> f64 \<Rightarrow> bigfloat option" where
  "bf_mul_f64 x y =
     (case y of
        NaN \<Rightarrow> None
      | Fin b \<Rightarrow>
          (case x of
             BFin p a \<Rightarrow> Some (BFin p (round_prec p (a * b)))
           | BInf neg \<Rightarrow> if b = 0 then None else Some (BInf (neg \<noteq> (b < 0))))
      | PosInf \<Rightarrow>
          (case x of
             BFin p a \<Rightarrow> if a = 0 then None else Some (BInf (a < 0))
           | BInf neg \<Rightarrow> Some (BInf neg))
      | NegInf \<Rightarrow>
          (case x of
             BFin p a \<Rightarrow> if a = 0 then None else Some (BInf (0 < a))
           | BInf neg \<Rightarrow> Some (BInf (\<not> neg))))"

definition bf_neg :: "bigfloat \<Rightarrow> bool" where
  "bf_neg x = (case x of BFin _ a \<Rightarrow> a < 0 | BInf neg \<Rightarrow> neg)"

text \<open>\<open>Int(nil)\<close>: truncated towards zero, \<open>nil\<close> for an infinity.\<close>

definition bf_int :: "bigfloat \<Rightarrow> int option" where
  "bf_int x = (case x of BFin _ a \<Rightarrow> Some (rat_quo a) | BInf _ \<Rightarrow> None)"

text \<open>\<open>Rat(nil)\<close>: exact, \<open>nil\<close> for an infinity.\<close>

definition bf_rat :: "bigfloat \<Rightarrow> rat option" where
  "bf_rat x = (case x of BFin _ a \<Rightarrow> Some a | BInf _ \<Rightarrow> None)"

subsection \<open>Rounding keeps the order\<close>

lemma pow2_pos [simp]: "0 < pow2 e"
  by (simp add: pow2_def)

lemma pow2_nonzero [simp]: "pow2 e \<noteq> 0"
  using pow2_pos [of e] by linarith

lemma pow2_0 [simp]: "pow2 0 = 1"
  by (simp add: pow2_def)

lemma pow2_nat: "pow2 (int n) = 2 ^ n"
  by (simp add: pow2_def)

lemma pow2_Suc: "pow2 (e + 1) = 2 * pow2 e"
proof (cases "0 \<le> e")
  case True
  then show ?thesis by (simp add: pow2_def nat_add_distrib)
next
  case False
  then have "nat (- e) = Suc (nat (- (e + 1)))" by simp
  with False show ?thesis by (auto simp: pow2_def)
qed

lemma pow2_add_nat: "pow2 (e + int n) = pow2 e * 2 ^ n"
proof (induction n)
  case 0
  then show ?case by simp
next
  case (Suc n)
  have "pow2 (e + int (Suc n)) = 2 * pow2 (e + int n)"
    using pow2_Suc [of "e + int n"] by (simp add: algebra_simps)
  with Suc show ?case by simp
qed

lemma pow2_mono: "a \<le> b \<Longrightarrow> pow2 a \<le> pow2 b"
proof -
  assume "a \<le> b"
  then have "b = a + int (nat (b - a))" by simp
  then have "pow2 b = pow2 a * 2 ^ nat (b - a)" using pow2_add_nat by metis
  moreover have "(1::rat) \<le> 2 ^ nat (b - a)" by simp
  ultimately show ?thesis using pow2_pos [of a]
    by (metis less_imp_le mult.right_neutral mult_left_mono)
qed

lemma pow2_diff: "pow2 (a - b) = pow2 a / pow2 b"
proof (cases "b \<le> a")
  case True
  then have "a = b + int (nat (a - b))" by simp
  then have "pow2 a = pow2 b * 2 ^ nat (a - b)" using pow2_add_nat by metis
  moreover have "pow2 (a - b) = 2 ^ nat (a - b)" using True by (simp add: pow2_def)
  ultimately show ?thesis by simp
next
  case False
  then have "b = a + int (nat (b - a))" by simp
  then have "pow2 b = pow2 a * 2 ^ nat (b - a)" using pow2_add_nat by metis
  moreover have "pow2 (a - b) = 1 / 2 ^ nat (b - a)" using False by (simp add: pow2_def)
  ultimately show ?thesis by simp
qed

lemma bitlen_binade:
  assumes "0 < n"
  shows "pow2 (bitlen n - 1) \<le> of_int n" "of_int n < pow2 (bitlen n)"
proof -
  have b: "2 ^ nat (bitlen n - 1) \<le> n \<and> n < 2 ^ nat (bitlen n)"
    using bitlen_bounds assms by blast
  have p: "0 < bitlen n"
    using assms bitlen_nonneg [of n] bitlen_eq_zero_iff [of n] by linarith
  have "(2 ^ nat (bitlen n - 1) :: rat) \<le> of_int n" "of_int n < (2 ^ nat (bitlen n) :: rat)"
    using b by (metis of_int_le_iff of_int_numeral of_int_power,
                metis of_int_less_iff of_int_numeral of_int_power)
  with p show "pow2 (bitlen n - 1) \<le> of_int n" "of_int n < pow2 (bitlen n)"
    by (simp_all add: pow2_def)
qed

lemma floor_log2_bounds:
  assumes "0 < x"
  shows "pow2 (floor_log2 x) \<le> x \<and> x < pow2 (floor_log2 x + 1)"
proof -
  obtain n d where q: "quotient_of x = (n, d)" by (cases "quotient_of x")
  then have d: "0 < d" by (rule quotient_of_denom_pos)
  have x: "x = of_int n / of_int d" using q by (rule quotient_of_div)
  with assms d have n: "0 < n" by (simp add: zero_less_divide_iff)
  define k where "k = bitlen n - bitlen d"
  have up: "x < pow2 (k + 1)"
  proof -
    have "x < pow2 (bitlen n) / pow2 (bitlen d - 1)"
      unfolding x using n d bitlen_binade [OF n] bitlen_binade [OF d]
      by (intro frac_less) simp_all
    also have "\<dots> = pow2 (k + 1)" by (simp add: pow2_diff [symmetric] k_def algebra_simps)
    finally show ?thesis .
  qed
  have lo: "pow2 (k - 1) \<le> x"
  proof -
    have "pow2 (k - 1) = pow2 (bitlen n - 1) / pow2 (bitlen d)"
      by (simp add: pow2_diff [symmetric] k_def algebra_simps)
    also have "\<dots> \<le> x"
      unfolding x using n d bitlen_binade [OF n] bitlen_binade [OF d]
      by (intro frac_le) (simp_all add: less_imp_le)
    finally show ?thesis .
  qed
  have "floor_log2 x = (if pow2 k \<le> x then k else k - 1)"
    by (simp add: floor_log2_def q k_def Let_def)
  with up lo show ?thesis by auto
qed

lemma floor_log2_mono: "0 < x \<Longrightarrow> x \<le> y \<Longrightarrow> floor_log2 x \<le> floor_log2 y"
proof (rule ccontr)
  assume a: "0 < x" "x \<le> y" and "\<not> floor_log2 x \<le> floor_log2 y"
  then have "floor_log2 y + 1 \<le> floor_log2 x" by simp
  then have "pow2 (floor_log2 y + 1) \<le> pow2 (floor_log2 x)" by (rule pow2_mono)
  with floor_log2_bounds [of x] floor_log2_bounds [of y] a show False by linarith
qed

lemma round_half_even_of_int [simp]: "round_half_even (of_int k) = k"
  by (simp add: round_half_even_def Let_def)

lemma round_half_even_near:
  "round_half_even x = \<lfloor>x\<rfloor> \<or> round_half_even x = \<lfloor>x\<rfloor> + 1"
  by (simp add: round_half_even_def Let_def)

lemma round_half_even_mono:
  assumes "x \<le> y"
  shows "round_half_even x \<le> round_half_even y"
proof (cases "\<lfloor>x\<rfloor> = \<lfloor>y\<rfloor>")
  case True
  with assms show ?thesis by (auto simp: round_half_even_def Let_def)
next
  case False
  with floor_mono [OF assms] have "\<lfloor>x\<rfloor> + 1 \<le> \<lfloor>y\<rfloor>" by linarith
  then show ?thesis using round_half_even_near [of x] round_half_even_near [of y] by auto
qed

lemma round_half_even_nonneg: "0 \<le> x \<Longrightarrow> 0 \<le> round_half_even x"
  using round_half_even_mono [of 0 x] round_half_even_of_int [of 0] by simp

lemma round_at_nonneg: "0 \<le> x \<Longrightarrow> 0 \<le> round_at e x"
  unfolding round_at_def
  by (intro mult_nonneg_nonneg) (simp_all add: round_half_even_nonneg less_imp_le)

lemma round_at_mono: "x \<le> y \<Longrightarrow> round_at e x \<le> round_at e y"
  unfolding round_at_def
  by (intro mult_right_mono)
     (auto simp: divide_right_mono less_imp_le intro: round_half_even_mono)

lemma round_prec_0 [simp]: "round_prec p 0 = 0"
  by (simp add: round_prec_def)

lemma round_prec_nonneg: "0 \<le> x \<Longrightarrow> 0 \<le> round_prec p x"
  by (simp add: round_prec_def round_at_nonneg)

text \<open>Rounding does not leave the binade: \<open>[2 ^ e, 2 ^ (e + 1)]\<close> is mapped into itself.\<close>

lemma round_prec_binade:
  assumes x: "0 < x" and p: "1 \<le> p"
  shows "pow2 (floor_log2 x) \<le> round_prec p x"
    and "round_prec p x \<le> pow2 (floor_log2 x + 1)"
proof -
  define e where "e = floor_log2 x"
  define s where "s = e - (int p - 1)"
  have lo: "pow2 e = of_int (2 ^ (p - 1)) * pow2 s" and hi: "pow2 (e + 1) = of_int (2 ^ p) * pow2 s"
    using pow2_add_nat [of s "p - 1"] pow2_add_nat [of s p] p
    by (simp_all add: s_def mult.commute of_nat_diff)
  have r: "round_prec p x = of_int (round_half_even (x / pow2 s)) * pow2 s"
    using x by (simp add: round_prec_def round_at_def e_def s_def)
  have b: "pow2 e \<le> x" "x \<le> pow2 (e + 1)"
    using floor_log2_bounds [OF x] by (simp_all add: e_def)
  have "of_int (2 ^ (p - 1)) \<le> x / pow2 s" "x / pow2 s \<le> of_int (2 ^ p)"
    using b unfolding lo hi by (simp_all add: field_simps)
  then have "2 ^ (p - 1) \<le> round_half_even (x / pow2 s)" "round_half_even (x / pow2 s) \<le> 2 ^ p"
    using round_half_even_mono round_half_even_of_int by metis+
  then have "(of_int (2 ^ (p - 1)) :: rat) \<le> of_int (round_half_even (x / pow2 s))"
    "(of_int (round_half_even (x / pow2 s)) :: rat) \<le> of_int (2 ^ p)"
    by (simp_all only: of_int_le_iff)
  then show "pow2 (floor_log2 x) \<le> round_prec p x" "round_prec p x \<le> pow2 (floor_log2 x + 1)"
    unfolding r e_def [symmetric] lo hi
    by (auto intro!: mult_right_mono simp: less_imp_le)
qed

lemma round_prec_mono:
  assumes "0 \<le> x" "x \<le> y" "1 \<le> p"
  shows "round_prec p x \<le> round_prec p y"
proof (cases "x = 0")
  case True
  with assms show ?thesis by (simp add: round_prec_nonneg)
next
  case False
  with assms have x: "0 < x" and y: "0 < y" by auto
  show ?thesis
  proof (cases "floor_log2 x = floor_log2 y")
    case True
    with x y assms(2) show ?thesis by (simp add: round_prec_def round_at_mono)
  next
    case False
    with floor_log2_mono [OF x assms(2)] have "floor_log2 x + 1 \<le> floor_log2 y" by simp
    then have "pow2 (floor_log2 x + 1) \<le> pow2 (floor_log2 y)" by (rule pow2_mono)
    with round_prec_binade(2) [OF x assms(3)] round_prec_binade(1) [OF y assms(3)]
    show ?thesis by linarith
  qed
qed

text \<open>A whole number below \<open>2 ^ 64\<close> fits the 64-bit precision of \<open>bf_set_int\<close>.\<close>

lemma bitlen_le_64: "0 \<le> z \<Longrightarrow> z < 2 ^ 64 \<Longrightarrow> bitlen z \<le> 64"
  by (subst bitlen_le_iff_power) simp_all

subsection \<open>Representable values are not changed\<close>

lemma floor_log2_significand:
  assumes "n \<noteq> 0" "\<bar>n\<bar> < 2 ^ p"
  shows "floor_log2 \<bar>of_int n * pow2 e\<bar> < e + int p"
proof (rule ccontr)
  define x where "x = \<bar>of_int n * pow2 e\<bar>"
  have ax: "0 < x" using assms(1) by (simp add: x_def)
  have "x = of_int \<bar>n\<bar> * pow2 e" by (simp add: x_def abs_mult abs_of_pos)
  also have "\<dots> < 2 ^ p * pow2 e"
  proof (rule mult_strict_right_mono)
    have "(of_int \<bar>n\<bar> :: rat) < of_int (2 ^ p)" using assms(2) by (simp only: of_int_less_iff)
    then show "(of_int \<bar>n\<bar> :: rat) < 2 ^ p" by simp
  qed simp
  also have "\<dots> = pow2 (e + int p)" using pow2_add_nat [of e p] by (simp add: mult.commute)
  finally have up: "x < pow2 (e + int p)" .
  assume "\<not> floor_log2 \<bar>of_int n * pow2 e\<bar> < e + int p"
  then have "pow2 (e + int p) \<le> pow2 (floor_log2 x)" by (intro pow2_mono) (simp add: x_def)
  with floor_log2_bounds [OF ax] up show False by linarith
qed

lemma round_at_representable: "k \<le> e \<Longrightarrow> round_at k (of_int n * pow2 e) = of_int n * pow2 e"
proof -
  assume "k \<le> e"
  then have "e = k + int (nat (e - k))" by simp
  then have e: "pow2 e = pow2 k * 2 ^ nat (e - k)" using pow2_add_nat by metis
  then have "of_int n * pow2 e / pow2 k = of_int (n * 2 ^ nat (e - k))" by simp
  then show ?thesis by (simp only: round_at_def round_half_even_of_int) (simp add: e)
qed

lemma f64_of_rat_exact:
  assumes n: "\<bar>n\<bar> < 2 ^ 53" and e: "- 1074 \<le> e" "e \<le> 970"
  shows "f64_of_rat (of_int n * pow2 e) = Fin (of_int n * pow2 e)"
proof (cases "n = 0")
  case True
  then show ?thesis by (simp add: f64_of_rat_def)
next
  case False
  define x where "x = of_int n * pow2 e"
  have fl: "floor_log2 \<bar>x\<bar> < e + 53" using floor_log2_significand [OF False n, of e] by (simp add: x_def)
  have ax: "0 < \<bar>x\<bar>" using False by (simp add: x_def)
  have r: "round_at (max (floor_log2 \<bar>x\<bar> - 52) (- 1074)) x = x"
    unfolding x_def by (rule round_at_representable) (use fl e in \<open>simp add: x_def\<close>)
  have "\<bar>x\<bar> < pow2 (floor_log2 \<bar>x\<bar> + 1)" using floor_log2_bounds [OF ax] by simp
  also have "\<dots> \<le> pow2 1024" using fl e(2) by (intro pow2_mono) simp
  also have "pow2 1024 = 2 ^ 1024" by (simp only: pow2_def) simp
  finally have "\<not> 2 ^ 1024 \<le> x" "\<not> x \<le> - (2 ^ 1024)" by linarith+
  then have "f64_of_rat x = Fin x" using ax r by (simp only: f64_of_rat_def Let_def) simp
  then show ?thesis by (simp add: x_def)
qed

lemma f64_of_rat_int: "\<bar>n\<bar> < 2 ^ 53 \<Longrightarrow> f64_of_rat (of_int n) = Fin (of_int n)"
  using f64_of_rat_exact [of n 0] by simp

lemma f64_of_u64_exact: "uint n < 2 ^ 53 \<Longrightarrow> f64_of_u64 n = Fin (of_int (uint n))"
  unfolding f64_of_u64_def by (rule f64_of_rat_int) simp

lemma round_prec_exact:
  assumes "\<bar>n\<bar> < 2 ^ p"
  shows "round_prec p (of_int n * pow2 e) = of_int n * pow2 e"
proof (cases "n = 0")
  case False
  with floor_log2_significand [OF False assms, of e] show ?thesis
    by (simp add: round_prec_def round_at_representable)
qed (simp add: round_prec_def)

lemma round_prec_int: "\<bar>n\<bar> < 2 ^ p \<Longrightarrow> round_prec p (of_int n) = of_int n"
  using round_prec_exact [of n p 0] by simp

lemma f64_of_rat_numeral: "(numeral k :: int) < 2 ^ 53 \<Longrightarrow> f64_of_rat (numeral k) = Fin (numeral k)"
  using f64_of_rat_int [of "numeral k"] by simp

end
