(* ===== verification/Models.thy ===== *)
theory Models
  imports Go_Rat Go_Float
begin

text \<open>
  The persistent data of the service (\<open>models/*.go\<close>): one record per row type, the
  enumerations as datatypes, and the database as a record of tables. The columns the
  modelled code never reads (\<open>updated_at\<close> and the display-only columns) are left out.
  String-typed enumerations (\<open>ServiceProvider\<close>, \<open>ExecutionSource\<close>, cost level modes,
  job phases) stay strings, as in the code. Points in time are nanoseconds.
\<close>

type_synonym gotime = int

text \<open>\<open>time.Time{}\<close>, the value \<open>IsZero\<close> recognises.\<close>

definition zero_time :: gotime where
  "zero_time = - 62135596800000000000"

text \<open>
  \<open>time.Duration(n) * time.Second\<close> on a \<open>uint64\<close> number of seconds: conversion and
  product wrap around at 64 bits and the result is read as a signed number.
\<close>

definition seconds_duration :: "u64 \<Rightarrow> int" where
  "seconds_duration n = sint (n * 1000000000)"

lemma seconds_duration_exact:
  assumes "uint n * 1000000000 < 2 ^ 63"
  shows "seconds_duration n = uint n * 1000000000"
proof -
  have "uint (n * 1000000000) = uint n * 1000000000"
    using assms by (simp add: uint_word_arith_bintrs(3) take_bit_int_eq_self)
  moreover have "sint (n * 1000000000) = signed_take_bit 63 (uint (n * 1000000000))"
    by (simp add: sint_uint)
  moreover have "signed_take_bit 63 (uint n * 1000000000) = uint n * 1000000000"
  proof -
    define k where "k = uint n * 1000000000"
    have "0 \<le> k" "k < 2 ^ 63" using assms by (auto simp: k_def)
    then have "signed_take_bit 63 k = k"
      by (intro signed_take_bit_int_eq_self) auto
    then show ?thesis by (simp add: k_def)
  qed
  ultimately show ?thesis by (simp add: seconds_duration_def)
qed

subsection \<open>Users and the Credits ledger\<close>

record user =
  u_id :: nat
  u_address :: string

record credit_account =
  ca_id :: nat
  ca_user_id :: nat
  ca_balance :: int
  ca_locked :: int

datatype credit_event_type =
    CreditEventTypeDeposit
  | CreditEventTypeTaskCharge
  | CreditEventTypeSignupBonus
  | CreditEventTypeOpeningBalance
  | CreditEventTypeInviteeBonus
  | CreditEventTypeReferralReward

datatype credit_event_status =
  CreditEventStatusPending | CreditEventStatusProcessed | CreditEventStatusInvalid

record credit_event =
  ce_id :: nat
  ce_user_id :: nat
  ce_amount :: int
  ce_type :: credit_event_type
  ce_ref_id :: nat
  ce_status :: credit_event_status

datatype deposit_status = DepositStatusPending | DepositStatusProcessed | DepositStatusInvalid

record deposit =
  dep_id :: nat
  dep_user_id :: nat
  dep_network :: string
  dep_token :: string
  dep_tx_hash :: string
  dep_log_index :: nat
  dep_from_address :: string
  dep_amount :: int
  dep_credits :: int
  dep_status :: deposit_status

subsection \<open>Referral programme\<close>

datatype referral_code_status = ReferralCodeStatusActive | ReferralCodeStatusRevoked

record referral_code =
  rc_id :: nat
  rc_user_id :: nat
  rc_code :: string
  rc_status :: referral_code_status

record referral_binding =
  rb_id :: nat
  rb_invitee_user_id :: nat
  rb_referrer_user_id :: nat
  rb_referral_code_id :: nat

datatype referral_reward_kind =
  ReferralRewardKindDepositReward | ReferralRewardKindMilestoneBonus

record referral_reward =
  rr_id :: nat
  rr_referrer_user_id :: nat
  rr_invitee_user_id :: "nat option"
  rr_kind :: referral_reward_kind
  rr_amount :: int
  rr_deposit_id :: "nat option"
  rr_deposit_credits :: int
  rr_prior_purchase_count :: u64
  rr_tier_min_purchases :: "u64 option"
  rr_extra_ratio :: string
  rr_extra_amount :: int

subsection \<open>Projects\<close>

datatype project_status = ProjectStatusActive | ProjectStatusDisabled | ProjectStatusDeleted

abbreviation CostLevelModeStatic :: string where "CostLevelModeStatic \<equiv> ''static''"
abbreviation CostLevelModeAuto :: string where "CostLevelModeAuto \<equiv> ''auto''"

record project =
  pr_id :: nat
  pr_user_id :: nat
  pr_cost_level_mode :: string
  pr_priority_gwei :: int
  pr_auto_queue_position :: "int option"
  pr_auto_max_credits_per_task :: "int option"
  pr_status :: project_status
  pr_last_request_at :: "int option"
  pr_request_count_day :: u64
  pr_success_count_day :: u64
  pr_failure_count_day :: u64
  pr_credits_day :: int
  pr_recent_window_success_count :: u64
  pr_recent_window_failure_count :: u64
  pr_created_at :: gotime
  pr_name :: string
  pr_endpoint_token :: string
  pr_api_key_hash :: string
  pr_api_key_prefix :: string

subsection \<open>Service providers\<close>

abbreviation ServiceProviderOpenAI :: string where "ServiceProviderOpenAI \<equiv> ''openai''"
abbreviation ServiceProviderAnthropic :: string where "ServiceProviderAnthropic \<equiv> ''anthropic''"
abbreviation ServiceProviderGoogle :: string where "ServiceProviderGoogle \<equiv> ''google''"

abbreviation ExecutionSourceCrynux :: string where "ExecutionSourceCrynux \<equiv> ''crynux''"
abbreviation ExecutionSourceOpenAI :: string where "ExecutionSourceOpenAI \<equiv> ''openai''"
abbreviation ExecutionSourceAnthropic :: string where "ExecutionSourceAnthropic \<equiv> ''anthropic''"
abbreviation ExecutionSourceGoogle :: string where "ExecutionSourceGoogle \<equiv> ''google''"

definition provider_ExecutionSource :: "string \<Rightarrow> string" where
  "provider_ExecutionSource p =
     (if p = ServiceProviderOpenAI then ExecutionSourceOpenAI
      else if p = ServiceProviderAnthropic then ExecutionSourceAnthropic
      else if p = ServiceProviderGoogle then ExecutionSourceGoogle
      else [])"

definition source_IsProvider :: "string \<Rightarrow> bool" where
  "source_IsProvider s \<longleftrightarrow>
     s = ExecutionSourceOpenAI \<or> s = ExecutionSourceAnthropic \<or> s = ExecutionSourceGoogle"

definition source_ServiceProvider :: "string \<Rightarrow> string" where
  "source_ServiceProvider s =
     (if s = ExecutionSourceOpenAI then ServiceProviderOpenAI
      else if s = ExecutionSourceAnthropic then ServiceProviderAnthropic
      else if s = ExecutionSourceGoogle then ServiceProviderGoogle
      else [])"

record shared_api_key =
  sk_id :: nat
  sk_public_id :: string
  sk_user_id :: nat
  sk_service_provider :: string
  sk_masked_suffix :: string
  sk_owner_enabled :: bool
  sk_deleted_at :: "gotime option"
  sk_consecutive_unavailable_count :: int
  sk_cooldown_until :: "gotime option"
  sk_used_input_tokens :: u64
  sk_used_output_tokens :: u64
  sk_max_input_tokens :: "u64 option"
  sk_max_output_tokens :: "u64 option"
  sk_fingerprint :: "string option"
  sk_key_ciphertext :: "string option"
  sk_key_nonce :: "string option"

subsection \<open>Task jobs\<close>

datatype task_type = TaskTypeImage | TaskTypeLLM | TaskTypeOther int

datatype task_api_type =
    TaskAPITypeRaw
  | TaskAPITypeResponses
  | TaskAPITypeChatCompletions
  | TaskAPITypeCompletions
  | TaskAPITypeImagesGenerations
  | TaskAPITypeImagesEdits

datatype task_job_status =
    TaskJobStatusPendingSubmit
  | TaskJobStatusSubmitted
  | TaskJobStatusInProgress
  | TaskJobStatusCompleted
  | TaskJobStatusFailed

datatype task_job_billing_status =
  TaskJobBillingPending | TaskJobBillingBilled | TaskJobBillingNotBilled

datatype credits_lock_status =
  TaskJobCreditsLockNone | TaskJobCreditsLockHeld | TaskJobCreditsLockReleased

record llm_billing =
  lb_vram_weight :: f64
  lb_constant_seconds :: f64
  lb_seconds_per_input_token :: f64
  lb_seconds_per_output_token :: f64
  lb_credits_per_gwei :: string

record provider_billing =
  pb_service_provider :: string
  pb_model_name :: string
  pb_usage_weights :: "(string \<times> string) list"
  pb_effective_priority_gwei :: string
  pb_credits_per_gwei :: string
  pb_max_task_price_cnx :: string
  pb_estimated_input_tokens :: u64
  pb_estimated_text_input_tokens :: u64
  pb_estimated_image_input_tokens :: u64
  pb_estimated_output_tokens :: u64
  pb_estimated_provider_units :: string
  pb_locked_credits :: string

text \<open>
  \<open>TaskBillingData\<close>; \<open>bd_image\<close> is \<open>ImageTaskBillingData.SettlementCredits\<close>. The
  column holds its JSON encoding: empty, not decodable, or the encoding of a value.
\<close>

record task_billing_data =
  bd_version :: int
  bd_priority_gwei :: string
  bd_billed_vram :: u64
  bd_task_fee_wei :: string
  bd_locked_credits :: string
  bd_llm :: "llm_billing option"
  bd_image :: "string option"
  bd_provider :: "provider_billing option"

datatype billing_column = BillingEmpty | BillingMalformed | BillingJSON task_billing_data

text \<open>The fields of \<open>TaskJob\<close> that are not stored (\<open>gorm:"-"\<close>).\<close>

record job_transient =
  jt_task_fee_gwei :: "int option"
  jt_median_priority_gwei :: "int option"
  jt_estimated_node_seconds :: "f64 option"
  jt_vram_weight :: "f64 option"
  jt_constant_seconds :: "f64 option"
  jt_seconds_per_input_token :: "f64 option"
  jt_seconds_per_output_token :: "f64 option"

definition no_transient :: job_transient where
  "no_transient = \<lparr>jt_task_fee_gwei = None, jt_median_priority_gwei = None,
     jt_estimated_node_seconds = None, jt_vram_weight = None, jt_constant_seconds = None,
     jt_seconds_per_input_token = None, jt_seconds_per_output_token = None\<rparr>"

record task_job =
  tj_id :: nat
  tj_created_at :: gotime
  tj_project_id :: nat
  tj_user_id :: nat
  tj_priority_gwei :: int
  tj_sortable_priority :: string
  tj_execution_source :: string
  tj_task_type :: task_type
  tj_api_type :: task_api_type
  tj_model :: string
  tj_billed_vram :: u64
  tj_public_id :: string
  tj_background :: bool
  tj_stream :: bool
  tj_task_args_json :: string
  tj_task_version :: "string option"
  tj_min_vram :: "u64 option"
  tj_queue_timeout :: u64
  tj_bridge_client_task_id :: "nat option"
  tj_status :: task_job_status
  tj_phase :: string
  tj_estimated_completion_at :: "gotime option"
  tj_raw_result_json :: "string option"
  tj_formatted_result_json :: "string option"
  tj_error_message :: "string option"
  tj_billing_status :: task_job_billing_status
  tj_task_call_record_id :: "nat option"
  tj_billing_data :: billing_column
  tj_credits_locked :: int
  tj_credits_lock_status :: credits_lock_status
  tj_started_at :: "gotime option"
  tj_completed_at :: "gotime option"
  tj_transient :: job_transient

definition IsTerminal :: "task_job \<Rightarrow> bool" where
  "IsTerminal j \<longleftrightarrow> tj_status j = TaskJobStatusCompleted \<or> tj_status j = TaskJobStatusFailed"

subsection \<open>Call records\<close>

datatype task_call_status = TaskCallStatusSuccess | TaskCallStatusFailed

text \<open>\<open>TaskCallWorkloadFields\<close>: the display fields derived from the task arguments.\<close>

record workload_fields =
  wf_model_cache_hash :: string
  wf_execution_dtype :: string
  wf_quantization_config :: string
  wf_components :: string
  wf_image_width :: u64
  wf_image_height :: u64
  wf_image_steps :: u64
  wf_image_count :: u64

record task_call_record =
  cr_id :: nat
  cr_user_id :: nat
  cr_project_id :: nat
  cr_task_job_id :: "nat option"
  cr_task_type :: task_type
  cr_api_type :: task_api_type
  cr_model :: string
  cr_execution_source :: string
  cr_shared_api_key_id :: "nat option"
  cr_workload :: workload_fields
  cr_prompt_tokens :: u64
  cr_completion_tokens :: u64
  cr_total_tokens :: u64
  cr_priority_gwei :: int
  cr_token_usage_applicable :: bool
  cr_status :: task_call_status
  cr_accepted_at :: gotime
  cr_completed_at :: gotime
  cr_duration_ms :: u64
  cr_billed_vram :: u64

subsection \<open>Key Owner earnings\<close>

record earning_account =
  ea_id :: nat
  ea_user_id :: nat
  ea_available :: int
  ea_withdrawal_locked :: int

datatype earning_event_type =
    EarningEventTypeTaskIncome
  | EarningEventTypeWithdrawalFeeIncome
  | EarningEventTypeWithdraw
  | EarningEventTypeWithdrawRefund

datatype earning_event_status = EarningEventStatusProcessed | EarningEventStatusInvalid

datatype earning_source_type = EarningSourceTypeTaskCallRecord | EarningSourceTypeWithdrawal

record earning_event =
  ee_id :: nat
  ee_account_id :: "nat option"
  ee_address :: string
  ee_type :: earning_event_type
  ee_amount :: int
  ee_source_type :: earning_source_type
  ee_source_id :: nat
  ee_status :: earning_event_status

datatype earning_withdrawal_status =
    EarningWithdrawalStatusPending
  | EarningWithdrawalStatusSuccess
  | EarningWithdrawalStatusFailed

record earning_withdrawal =
  ew_id :: nat
  ew_created_at :: gotime
  ew_user_id :: nat
  ew_benefit_address :: string
  ew_amount :: int
  ew_withdrawal_fee :: int
  ew_network :: string
  ew_status :: earning_withdrawal_status
  ew_earning_event_id :: "nat option"
  ew_authorization_timestamp :: int
  ew_authorization_signature :: string
  ew_authorization_fingerprint :: string
  ew_tx_hash :: "string option"

end
