(* ===== verification/Config.thy ===== *)
theory Config
  imports Models
begin

text \<open>
  Configuration (\<open>config/app_config.go\<close>, \<open>config/config.go\<close>): the settings the
  modelled code reads, their validation at start-up, and the parsers of prices, rates
  and ratios. A Go map is an association list; where the code ranges over a map the
  model follows the list, so the order only decides which error is reported first.
  \<open>isSet\<close> is viper's presence test and \<open>hexaddr\<close> is go-ethereum's
  \<open>IsHexAddress\<close>.
\<close>

subsection \<open>Settings\<close>

record token_config =
  tk_address :: string
  tk_decimals :: nat
  tk_credits_per_token :: u64

record blockchain_config =
  bc_rpc_endpoint :: string
  bc_rps :: u64
  bc_start_block_num :: u64
  bc_log_block_range :: u64
  bc_scan_interval :: u64
  bc_confirmation_blocks :: u64
  bc_receiving_address :: string
  bc_tokens :: "(string \<times> token_config) list"

record purchase_bonus_tier =
  pt_min_purchases :: u64
  pt_extra_ratio :: string

record credits_config =
  cc_signup_bonus :: u64
  cc_deposit_reward_ratio :: string
  cc_invitee_bonus :: u64
  cc_purchase_bonus_tiers :: "purchase_bonus_tier list"

record llm_config =
  lc_default_max_tokens :: u64
  lc_default_vram_limit :: u64
  lc_loaded_models_refresh_interval :: u64
  lc_models_catalog_refresh_interval :: u64
  lc_queued_priority_refresh_interval :: u64
  lc_execution_time_cache_ttl :: u64
  lc_min_catalog_on_disk_node_count :: u64
  lc_base_vram :: u64
  lc_empty_queue_median_priority_gwei :: string
  lc_min_priority_gwei :: string
  lc_max_priority_gwei :: string
  lc_credits_per_gwei :: string
  lc_default_auto_max_credits_per_task :: string
  lc_max_task_price_cnx :: "(string \<times> string) list"
  lc_min_task_price_cnx :: "(string \<times> string) list"
  lc_job_submit_timeout :: u64
  lc_job_retention_days :: u64
  lc_task_result_dir :: string
  lc_project_recent_requests_limit :: u64
  lc_max_crynux_task_args_bytes :: u64

record usage_weights_config =
  uw_input_tokens :: string
  uw_output_tokens :: string
  uw_cached_input_tokens :: string
  uw_cache_write_input_tokens :: string
  uw_reasoning_tokens :: string
  uw_tool_use_prompt_tokens :: string
  uw_image_input_tokens :: string
  uw_image_output_tokens :: string

record wallet_network_config =
  wn_fixed_withdrawal_fee_cnx :: string
  wn_withdrawal_min_cnx :: string
  wn_max_withdrawals_per_day :: u64
  wn_fee_receiver_address :: string

record provider_config =
  pv_max_concurrency_per_key :: u64
  pv_scheduler_batch_size :: u64
  pv_default_queue_timeout_seconds :: u64
  pv_default_max_input_tokens :: u64
  pv_default_max_output_tokens :: u64
  pv_max_attempts_per_job :: u64
  pv_key_cooldown_seconds :: u64
  pv_stream_subscriber_buffer :: u64
  pv_max_secret_bytes :: u64
  pv_wallet_networks :: "(string \<times> wallet_network_config) list"

subsection \<open>Parsers\<close>

definition parseNonNegativeRatio :: "string \<Rightarrow> err + rat" where
  "parseNonNegativeRatio value =
     (let trimmed = TrimSpace value in
      rejectIf (trimmed = []) (ErrMsg ''must be a non-negative decimal'')
        (bindE (of_option (ErrMsg ''must be a non-negative decimal'') (Rat_SetString trimmed)) (\<lambda>rate.
         rejectIf (rate < 0) (ErrMsg ''must be a non-negative decimal'') (Inr rate))))"

definition parseNonNegativeCNXDecimal :: "string \<Rightarrow> err + int" where
  "parseNonNegativeCNXDecimal value =
     (let trimmed = TrimSpace value in
      rejectIf (trimmed = []) (ErrMsg ''must be a non-negative decimal CNX string'')
        (bindE (of_option (ErrMsg ''must be a non-negative decimal CNX string'') (Rat_SetString trimmed)) (\<lambda>r.
         rejectIf (r < 0) (ErrMsg ''must be a non-negative decimal CNX string'')
           (let scaled = r * 10 ^ 18 in
            rejectIf (snd (quotient_of scaled) \<noteq> 1) (ErrMsg ''must have at most 18 fractional digits'')
              (Inr (fst (quotient_of scaled)))))))"

definition parsePositiveDecimalGwei :: "string \<Rightarrow> err + int" where
  "parsePositiveDecimalGwei value =
     rejectIf (value = []) (ErrMsg ''must be a positive decimal integer'')
       (rejectIf (\<not> list_all is_digit value) (ErrMsg ''must be a positive decimal integer'')
          (case bigint_set_string value of
             None \<Rightarrow> Inl (ErrMsg ''must be a positive decimal integer'')
           | Some p \<Rightarrow> rejectIf (p \<le> 0) (ErrMsg ''must be a positive decimal integer'') (Inr p)))"

definition ParsePositiveDecimalRate :: "string \<Rightarrow> err + rat" where
  "ParsePositiveDecimalRate value =
     (let trimmed = TrimSpace value in
      rejectIf (trimmed = []) (ErrMsg ''must be a positive decimal'')
        (bindE (of_option (ErrMsg ''must be a positive decimal'') (Rat_SetString trimmed)) (\<lambda>rate.
         rejectIf (rate \<le> 0) (ErrMsg ''must be a positive decimal'') (Inr rate))))"

definition ParseNonNegativeDecimalRate :: "string \<Rightarrow> err + rat" where
  "ParseNonNegativeDecimalRate value =
     (let trimmed = TrimSpace value in
      rejectIf (trimmed = []) (ErrMsg ''must be a non-negative decimal'')
        (bindE (of_option (ErrMsg ''must be a non-negative decimal'') (Rat_SetString trimmed)) (\<lambda>rate.
         rejectIf (rate < 0) (ErrMsg ''must be a non-negative decimal'') (Inr rate))))"

definition MaxTaskFeeGweiFromPrice :: "string \<Rightarrow> err + int" where
  "MaxTaskFeeGweiFromPrice priceCNX =
     bindE (ParsePositiveDecimalRate priceCNX) (\<lambda>price.
       let feeGwei = rat_quo (price * 1000000000) in
       rejectIf (feeGwei \<le> 0) (ErrMsg ''must convert to a positive Gwei amount'') (Inr feeGwei))"

definition MinTaskFeeGweiFromPrice :: "string \<Rightarrow> err + int" where
  "MinTaskFeeGweiFromPrice priceCNX =
     bindE (ParseNonNegativeDecimalRate priceCNX) (\<lambda>price. Inr (rat_quo (price * 1000000000)))"

abbreviation MaxTaskPriceProviderCrynux :: string where "MaxTaskPriceProviderCrynux \<equiv> ''crynux''"
abbreviation MinTaskPriceProviders :: string where "MinTaskPriceProviders \<equiv> ''providers''"

definition MaxTaskPriceCNXFor :: "llm_config \<Rightarrow> string \<Rightarrow> err + string" where
  "MaxTaskPriceCNXFor cfg providerID0 =
     (let providerID = TrimSpace providerID0 in
      rejectIf (providerID = []) (ErrMsg ''provider id is not set'')
        (case map_of (lc_max_task_price_cnx cfg) providerID of
           None \<Rightarrow> Inl (ErrMsg ''llm.max_task_price_cnx is not set'')
         | Some price \<Rightarrow>
             rejectIf (TrimSpace price = []) (ErrMsg ''llm.max_task_price_cnx is not set'') (Inr price)))"

definition MinTaskPriceCNXFor :: "llm_config \<Rightarrow> string \<Rightarrow> err + string" where
  "MinTaskPriceCNXFor cfg key0 =
     (let key = TrimSpace key0 in
      rejectIf (key = []) (ErrMsg ''min_task_price_cnx key is not set'')
        (rejectIf (key \<notin> {MaxTaskPriceProviderCrynux, MinTaskPriceProviders})
           (ErrMsg ''llm.min_task_price_cnx is not allowed'')
           (case map_of (lc_min_task_price_cnx cfg) key of
              None \<Rightarrow> Inl (ErrMsg ''llm.min_task_price_cnx is not set'')
            | Some price \<Rightarrow>
                rejectIf (TrimSpace price = []) (ErrMsg ''llm.min_task_price_cnx is not set'') (Inr price))))"

definition MaxTaskFeeGwei :: "llm_config \<Rightarrow> string \<Rightarrow> err + int" where
  "MaxTaskFeeGwei cfg providerID = bindE (MaxTaskPriceCNXFor cfg providerID) MaxTaskFeeGweiFromPrice"

definition MinTaskFeeGwei :: "llm_config \<Rightarrow> string \<Rightarrow> err + int" where
  "MinTaskFeeGwei cfg key = bindE (MinTaskPriceCNXFor cfg key) MinTaskFeeGweiFromPrice"

subsection \<open>Referral ratios\<close>

definition ParseDepositRewardRatio :: "credits_config \<Rightarrow> err + rat" where
  "ParseDepositRewardRatio cfg = parseNonNegativeRatio (cc_deposit_reward_ratio cfg)"

fun bonus_tiers :: "u64 \<Rightarrow> purchase_bonus_tier list \<Rightarrow> rat \<Rightarrow> u64 option \<Rightarrow> err + rat \<times> u64 option" where
  "bonus_tiers prior [] extra highest = Inr (extra, highest)"
| "bonus_tiers prior (tier # tiers) extra highest =
     (if prior < pt_min_purchases tier then bonus_tiers prior tiers extra highest
      else bindE (parseNonNegativeRatio (pt_extra_ratio tier)) (\<lambda>part.
        bonus_tiers prior tiers (extra + part)
          (case highest of
             None \<Rightarrow> Some (pt_min_purchases tier)
           | Some h \<Rightarrow> if h < pt_min_purchases tier then Some (pt_min_purchases tier) else highest)))"

definition PurchaseBonusExtra :: "credits_config \<Rightarrow> u64 \<Rightarrow> err + rat \<times> u64 option" where
  "PurchaseBonusExtra cfg priorCount = bonus_tiers priorCount (cc_purchase_bonus_tiers cfg) 0 None"

definition EffectiveDepositRewardRatio :: "credits_config \<Rightarrow> u64 \<Rightarrow> err + rat" where
  "EffectiveDepositRewardRatio cfg priorCount =
     bindE (ParseDepositRewardRatio cfg) (\<lambda>base.
     bindE (PurchaseBonusExtra cfg priorCount) (\<lambda>(extra, _). Inr (base + extra)))"

definition FormatRatio :: "rat \<Rightarrow> string" where
  "FormatRatio rate =
     (if rate = 0 then ''0''
      else let s = TrimRight CHR ''.'' (TrimRight CHR ''0'' (FloatString 18 rate)) in
           if s = [] \<or> s = ''-'' then ''0'' else s)"

subsection \<open>Validation\<close>

fun check_tiers :: "u64 list \<Rightarrow> rat \<Rightarrow> purchase_bonus_tier list \<Rightarrow> err + rat" where
  "check_tiers seen acc [] = Inr acc"
| "check_tiers seen acc (tier # tiers) =
     rejectIf (pt_min_purchases tier = 0) (ErrMsg ''min_purchases must be greater than 0'')
       (rejectIf (pt_min_purchases tier \<in> set seen) (ErrMsg ''min_purchases is duplicated'')
          (bindE (parseNonNegativeRatio (pt_extra_ratio tier)) (\<lambda>extra.
           rejectIf (1 < extra) (ErrMsg ''extra_ratio must be less than or equal to 1'')
             (check_tiers (pt_min_purchases tier # seen) (acc + extra) tiers))))"

definition checkCreditsConfig :: "(string \<Rightarrow> bool) \<Rightarrow> credits_config \<Rightarrow> err + unit" where
  "checkCreditsConfig isSet cfg =
     rejectIf (\<not> isSet ''credits.signup_bonus'') (ErrMsg ''credits.signup_bonus is not set'')
     (rejectIf (\<not> isSet ''credits.referral.deposit_reward_ratio'') (ErrMsg ''deposit_reward_ratio is not set'')
     (rejectIf (\<not> isSet ''credits.referral.invitee_bonus'') (ErrMsg ''invitee_bonus is not set'')
     (rejectIf (\<not> isSet ''credits.referral.purchase_bonus_tiers'') (ErrMsg ''purchase_bonus_tiers is not set'')
     (bindE (ParseDepositRewardRatio cfg) (\<lambda>ratio.
      rejectIf (1 < ratio) (ErrMsg ''deposit_reward_ratio must be less than or equal to 1'')
      (bindE (check_tiers [] ratio (cc_purchase_bonus_tiers cfg)) (\<lambda>acc.
       rejectIf (1 < acc) (ErrMsg ''deposit_reward_ratio plus all extra_ratio must be at most 1'')
       (Inr ()))))))))"

fun check_all :: "('a \<Rightarrow> err + 'b) \<Rightarrow> 'a list \<Rightarrow> err + unit" where
  "check_all f [] = Inr ()"
| "check_all f (x # xs) = bindE (f x) (\<lambda>_. check_all f xs)"

definition checkMaxTaskPriceCNXConfig :: "llm_config \<Rightarrow> err + unit" where
  "checkMaxTaskPriceCNXConfig cfg =
     (let prices = lc_max_task_price_cnx cfg in
      rejectIf (prices = []) (ErrMsg ''llm.max_task_price_cnx is not set'')
        (bindE (MaxTaskFeeGwei cfg MaxTaskPriceProviderCrynux) (\<lambda>_.
         check_all (\<lambda>(providerID, price).
           if providerID = MaxTaskPriceProviderCrynux then Inr ()
           else bindE (MaxTaskFeeGweiFromPrice price) (\<lambda>_. Inr ())) prices)))"

definition checkMinTaskPriceCNXConfig :: "llm_config \<Rightarrow> err + unit" where
  "checkMinTaskPriceCNXConfig cfg =
     (let prices = lc_min_task_price_cnx cfg in
      rejectIf (prices = []) (ErrMsg ''llm.min_task_price_cnx is not set'')
      (bindE (check_all (\<lambda>(key, _).
         rejectIf (key \<notin> {MaxTaskPriceProviderCrynux, MinTaskPriceProviders})
           (ErrMsg ''llm.min_task_price_cnx is not allowed'') (Inr ())) prices) (\<lambda>_.
       bindE (MinTaskFeeGwei cfg MaxTaskPriceProviderCrynux) (\<lambda>crynuxMin.
       bindE (MaxTaskFeeGwei cfg MaxTaskPriceProviderCrynux) (\<lambda>crynuxMax.
       rejectIf (crynuxMax < crynuxMin) (ErrMsg ''min_task_price must be less than or equal to max_task_price'')
       (bindE (MinTaskFeeGwei cfg MinTaskPriceProviders) (\<lambda>providersMin.
        check_all (\<lambda>(providerID, _).
          if providerID = MaxTaskPriceProviderCrynux then Inr ()
          else bindE (MaxTaskFeeGwei cfg providerID) (\<lambda>maxFee.
            rejectIf (maxFee < providersMin)
              (ErrMsg ''min_task_price must be less than or equal to max_task_price'') (Inr ())))
          (lc_max_task_price_cnx cfg))))))))"

definition checkLLMConfig :: "llm_config \<Rightarrow> err + unit" where
  "checkLLMConfig cfg =
     rejectIf (lc_default_max_tokens cfg = 0) (ErrMsg ''llm.default_max_tokens is not set'')
     (rejectIf (lc_default_vram_limit cfg = 0) (ErrMsg ''llm.default_vram_limit is not set'')
     (rejectIf (lc_loaded_models_refresh_interval cfg = 0) (ErrMsg ''llm.loaded_models_refresh_interval is not set'')
     (rejectIf (lc_models_catalog_refresh_interval cfg = 0) (ErrMsg ''llm.models_catalog_refresh_interval is not set'')
     (rejectIf (lc_queued_priority_refresh_interval cfg = 0) (ErrMsg ''llm.queued_priority_refresh_interval is not set'')
     (rejectIf (lc_execution_time_cache_ttl cfg = 0) (ErrMsg ''llm.execution_time_cache_ttl is not set'')
     (rejectIf (lc_min_catalog_on_disk_node_count cfg = 0) (ErrMsg ''llm.min_catalog_on_disk_node_count is not set'')
     (rejectIf (lc_base_vram cfg = 0) (ErrMsg ''llm.base_vram is not set'')
     (bindE (parsePositiveDecimalGwei (lc_empty_queue_median_priority_gwei cfg)) (\<lambda>_.
      bindE (parsePositiveDecimalGwei (lc_min_priority_gwei cfg)) (\<lambda>minPriority.
      bindE (parsePositiveDecimalGwei (lc_max_priority_gwei cfg)) (\<lambda>maxPriority.
      rejectIf (maxPriority < minPriority) (ErrMsg ''llm.min_priority_gwei must be at most llm.max_priority_gwei'')
      (bindE (ParsePositiveDecimalRate (lc_credits_per_gwei cfg)) (\<lambda>_.
       bindE (parsePositiveDecimalGwei (lc_default_auto_max_credits_per_task cfg)) (\<lambda>_.
       bindE (checkMaxTaskPriceCNXConfig cfg) (\<lambda>_.
       bindE (checkMinTaskPriceCNXConfig cfg) (\<lambda>_.
       rejectIf (lc_job_submit_timeout cfg = 0) (ErrMsg ''llm.job_submit_timeout is not set'')
       (rejectIf (lc_job_retention_days cfg = 0) (ErrMsg ''llm.job_retention_days is not set'')
       (rejectIf (TrimSpace (lc_task_result_dir cfg) = []) (ErrMsg ''llm.task_result_dir is not set'')
       (rejectIf (lc_project_recent_requests_limit cfg = 0) (ErrMsg ''llm.project_recent_requests_limit is not set'')
       (rejectIf (lc_max_crynux_task_args_bytes cfg = 0) (ErrMsg ''llm.max_crynux_task_args_bytes is not set'')
       (rejectIf (1048576 \<le> lc_max_crynux_task_args_bytes cfg) (ErrMsg ''llm.max_crynux_task_args_bytes is too large'')
       (Inr ()))))))))))))))))))))))"

definition checkUsageStatsConfig :: "u64 \<Rightarrow> string \<Rightarrow> err + unit" where
  "checkUsageStatsConfig recentFailureWindowSeconds recentFailureRateThreshold =
     rejectIf (recentFailureWindowSeconds = 0) (ErrMsg ''recent_failure_window_seconds is not set'')
       (bindE (ParsePositiveDecimalRate recentFailureRateThreshold) (\<lambda>threshold.
        rejectIf (1 < threshold) (ErrMsg ''recent_failure_rate_threshold must be at most 1'') (Inr ())))"

definition checkBlockchainNetworks ::
  "(string \<Rightarrow> bool) \<Rightarrow> (string \<times> blockchain_config) list \<Rightarrow> err + unit" where
  "checkBlockchainNetworks hexaddr nets =
     check_all (\<lambda>(network, bc).
       rejectIf (bc_rps bc = 0) (ErrMsg ''rps not set'')
       (rejectIf (bc_rpc_endpoint bc = []) (ErrMsg ''rpc endpoint not set'')
       (rejectIf (bc_log_block_range bc = 0) (ErrMsg ''log block range not set'')
       (rejectIf (bc_scan_interval bc = 0) (ErrMsg ''scan interval not set'')
       (rejectIf (\<not> hexaddr (bc_receiving_address bc)) (ErrMsg ''receiving address is invalid'')
       (rejectIf (bc_tokens bc = []) (ErrMsg ''tokens not set'')
       (check_all (\<lambda>(token, tc).
          rejectIf (\<not> hexaddr (tk_address tc)) (ErrMsg ''token address is invalid'')
          (rejectIf (tk_decimals tc = 0) (ErrMsg ''token decimals not set'')
          (rejectIf (tk_credits_per_token tc = 0) (ErrMsg ''token credits_per_token not set'')
          (Inr ())))) (bc_tokens bc)))))))) nets"

text \<open>The weight fields, under the names the billing data uses.\<close>

definition usage_weight_fields :: "usage_weights_config \<Rightarrow> (string \<times> string) list" where
  "usage_weight_fields w =
     [(''input_tokens'', uw_input_tokens w), (''output_tokens'', uw_output_tokens w),
      (''cached_input_tokens'', uw_cached_input_tokens w),
      (''cache_write_input_tokens'', uw_cache_write_input_tokens w),
      (''reasoning_tokens'', uw_reasoning_tokens w),
      (''tool_use_prompt_tokens'', uw_tool_use_prompt_tokens w),
      (''image_input_tokens'', uw_image_input_tokens w),
      (''image_output_tokens'', uw_image_output_tokens w)]"

fun weights_positive :: "(string \<times> string) list \<Rightarrow> bool \<Rightarrow> err + bool" where
  "weights_positive [] hasPositive = Inr hasPositive"
| "weights_positive ((field, value) # rest) hasPositive =
     (if TrimSpace value = [] then weights_positive rest hasPositive
      else bindE (parseNonNegativeRatio value) (\<lambda>r. weights_positive rest (hasPositive \<or> 0 < r)))"

definition checkProviderUsageWeights :: "usage_weights_config \<Rightarrow> err + unit" where
  "checkProviderUsageWeights w =
     bindE (weights_positive (usage_weight_fields w) False) (\<lambda>hasPositive.
       rejectIf (\<not> hasPositive) (ErrMsg ''must have at least one positive usage weight'') (Inr ()))"

definition checkProviderRequiredUsageWeights ::
  "string \<Rightarrow> string \<Rightarrow> usage_weights_config \<Rightarrow> err + unit" where
  "checkProviderRequiredUsageWeights serviceID apiKind w =
     (if apiKind = ''chat'' then
        (if serviceID = ''openai'' \<or> serviceID = ''google'' then
           rejectIf (TrimSpace (uw_reasoning_tokens w) = []) (ErrMsg ''reasoning_tokens is required'') (Inr ())
         else Inr ())
      else if apiKind = ''image'' then
        rejectIf (TrimSpace (uw_image_input_tokens w) = []) (ErrMsg ''image_input_tokens is required'')
        (rejectIf (TrimSpace (uw_image_output_tokens w) = []) (ErrMsg ''image_output_tokens is required'')
        (rejectIf (serviceID = ''google'' \<and> TrimSpace (uw_reasoning_tokens w) = [])
           (ErrMsg ''reasoning_tokens is required'') (Inr ())))
      else Inr ())"

subsection \<open>What validation guarantees\<close>

lemma parseNonNegativeRatio_nonneg: "parseNonNegativeRatio s = Inr r \<Longrightarrow> 0 \<le> r"
  by (auto simp: parseNonNegativeRatio_def Let_def res_simps)

lemma parsePositiveDecimalGwei_pos: "parsePositiveDecimalGwei s = Inr p \<Longrightarrow> 0 < p"
  by (auto simp: parsePositiveDecimalGwei_def res_simps split: option.splits)

lemma ParsePositiveDecimalRate_pos: "ParsePositiveDecimalRate s = Inr r \<Longrightarrow> 0 < r"
  by (auto simp: ParsePositiveDecimalRate_def Let_def res_simps)

lemma MaxTaskFeeGwei_pos: "MaxTaskFeeGwei cfg k = Inr m \<Longrightarrow> 0 < m"
  by (auto simp: MaxTaskFeeGwei_def MaxTaskFeeGweiFromPrice_def Let_def res_simps)

lemma MinTaskFeeGwei_nonneg: "MinTaskFeeGwei cfg k = Inr m \<Longrightarrow> 0 \<le> m"
  by (auto simp: MinTaskFeeGwei_def MinTaskFeeGweiFromPrice_def ParseNonNegativeDecimalRate_def
      Let_def res_simps intro!: rat_quo_nonneg)

lemma check_tiers_bonus:
  assumes "check_tiers seen acc tiers = Inr t"
  shows "\<exists>x h. bonus_tiers prior tiers e highest = Inr (e + x, h) \<and> 0 \<le> x \<and> x \<le> t - acc"
  using assms
proof (induction tiers arbitrary: seen acc e highest)
  case Nil
  then show ?case by (auto intro!: exI [of _ 0])
next
  case (Cons tier tiers)
  then obtain r where r: "parseNonNegativeRatio (pt_extra_ratio tier) = Inr r"
    and rest: "check_tiers (pt_min_purchases tier # seen) (acc + r) tiers = Inr t"
    by (auto simp: res_simps)
  have "0 \<le> r" using r by (rule parseNonNegativeRatio_nonneg)
  show ?case
  proof (cases "prior < pt_min_purchases tier")
    case True
    with Cons.IH [OF rest, of e highest] \<open>0 \<le> r\<close> show ?thesis by force
  next
    case False
    let ?h = "case highest of None \<Rightarrow> Some (pt_min_purchases tier)
       | Some h \<Rightarrow> if h < pt_min_purchases tier then Some (pt_min_purchases tier) else highest"
    obtain x h where "bonus_tiers prior tiers (e + r) ?h = Inr (e + r + x, h)"
      "0 \<le> x" "x \<le> t - (acc + r)"
      using Cons.IH [OF rest] by blast
    with False r \<open>0 \<le> r\<close> show ?thesis
      by (auto intro!: exI [of _ "r + x"] simp: add.assoc)
  qed
qed

lemma EffectiveDepositRewardRatio_bounds:
  assumes "checkCreditsConfig isSet cfg = Inr ()"
  shows "\<exists>base extra tier. ParseDepositRewardRatio cfg = Inr base \<and>
    PurchaseBonusExtra cfg prior = Inr (extra, tier) \<and> 0 \<le> base \<and> 0 \<le> extra \<and> base + extra \<le> 1"
proof -
  obtain base t where b: "ParseDepositRewardRatio cfg = Inr base"
    and c: "check_tiers [] base (cc_purchase_bonus_tiers cfg) = Inr t" and t: "t \<le> 1"
    using assms by (auto simp: checkCreditsConfig_def res_simps)
  have "0 \<le> base" using b by (auto simp: ParseDepositRewardRatio_def dest: parseNonNegativeRatio_nonneg)
  with b t check_tiers_bonus [OF c, of prior 0 None] show ?thesis
    by (auto simp: PurchaseBonusExtra_def)
qed

text \<open>A configuration that passes validation has, for every number of earlier purchases,
  a deposit reward ratio that can be computed and lies between 0 and 1.\<close>

theorem checked_reward_ratio:
  assumes "checkCreditsConfig isSet cfg = Inr ()"
  shows "\<exists>r. EffectiveDepositRewardRatio cfg prior = Inr r \<and> 0 \<le> r \<and> r \<le> 1"
  using EffectiveDepositRewardRatio_bounds [OF assms, of prior]
  by (auto simp: EffectiveDepositRewardRatio_def)

definition sample_credits_config :: credits_config where
  "sample_credits_config =
     \<lparr>cc_signup_bonus = 100, cc_deposit_reward_ratio = ''0.1'', cc_invitee_bonus = 50,
      cc_purchase_bonus_tiers =
        [\<lparr>pt_min_purchases = 5, pt_extra_ratio = ''0.05''\<rparr>, \<lparr>pt_min_purchases = 20, pt_extra_ratio = ''1/20''\<rparr>]\<rparr>"

lemma sample_credits_config_ok: "checkCreditsConfig (\<lambda>_. True) sample_credits_config = Inr ()"
  by code_simp

text \<open>A configuration that passes validation never makes admission fail on its own
  settings: the priority bounds, the rate, the default cap and the fee bounds of Crynux
  tasks parse, the bounds are ordered and the maximal fee and the rate are positive.\<close>

theorem checked_llm_config:
  assumes "checkLLMConfig cfg = Inr ()"
  shows "\<exists>lo hi rate cap mn mx.
    parsePositiveDecimalGwei (lc_min_priority_gwei cfg) = Inr lo \<and>
    parsePositiveDecimalGwei (lc_max_priority_gwei cfg) = Inr hi \<and> 0 < lo \<and> lo \<le> hi \<and>
    ParsePositiveDecimalRate (lc_credits_per_gwei cfg) = Inr rate \<and> 0 < rate \<and>
    parsePositiveDecimalGwei (lc_default_auto_max_credits_per_task cfg) = Inr cap \<and> 0 < cap \<and>
    MinTaskFeeGwei cfg MaxTaskPriceProviderCrynux = Inr mn \<and>
    MaxTaskFeeGwei cfg MaxTaskPriceProviderCrynux = Inr mx \<and> 0 \<le> mn \<and> mn \<le> mx \<and> 0 < mx"
proof -
  obtain lo hi rate cap where
    p: "parsePositiveDecimalGwei (lc_min_priority_gwei cfg) = Inr lo"
      "parsePositiveDecimalGwei (lc_max_priority_gwei cfg) = Inr hi" "lo \<le> hi"
      "ParsePositiveDecimalRate (lc_credits_per_gwei cfg) = Inr rate"
      "parsePositiveDecimalGwei (lc_default_auto_max_credits_per_task cfg) = Inr cap"
    and m: "checkMinTaskPriceCNXConfig cfg = Inr ()"
    using assms by (auto simp: checkLLMConfig_def res_simps)
  obtain mn mx where f: "MinTaskFeeGwei cfg MaxTaskPriceProviderCrynux = Inr mn"
    "MaxTaskFeeGwei cfg MaxTaskPriceProviderCrynux = Inr mx" "mn \<le> mx"
    using m by (auto simp: checkMinTaskPriceCNXConfig_def Let_def res_simps)
  show ?thesis
    using p f parsePositiveDecimalGwei_pos [OF p(1)] ParsePositiveDecimalRate_pos [OF p(4)]
      parsePositiveDecimalGwei_pos [OF p(5)] MaxTaskFeeGwei_pos [OF f(2)] MinTaskFeeGwei_nonneg [OF f(1)]
    by (intro exI [of _ lo] exI [of _ hi] exI [of _ rate] exI [of _ cap] exI [of _ mn] exI [of _ mx]) simp
qed

definition sample_llm_config :: llm_config where
  "sample_llm_config =
     \<lparr>lc_default_max_tokens = 2048, lc_default_vram_limit = 24, lc_loaded_models_refresh_interval = 60,
      lc_models_catalog_refresh_interval = 60, lc_queued_priority_refresh_interval = 10,
      lc_execution_time_cache_ttl = 300, lc_min_catalog_on_disk_node_count = 1, lc_base_vram = 24,
      lc_empty_queue_median_priority_gwei = ''10'', lc_min_priority_gwei = ''1'',
      lc_max_priority_gwei = ''1000'', lc_credits_per_gwei = ''0.001'',
      lc_default_auto_max_credits_per_task = ''500'',
      lc_max_task_price_cnx = [(''crynux'', ''0.01''), (''openai'', ''0.02'')],
      lc_min_task_price_cnx = [(''crynux'', ''0.001''), (''providers'', ''0'')],
      lc_job_submit_timeout = 60, lc_job_retention_days = 7, lc_task_result_dir = ''/data'',
      lc_project_recent_requests_limit = 20, lc_max_crynux_task_args_bytes = 900000\<rparr>"

lemmas decimal_eval =
  parsePositiveDecimalGwei_def bigint_set_string_def parse_digits_def digits_value_def
  digit_val_def is_digit_def

lemma sample_llm_config_prices:
  "checkMaxTaskPriceCNXConfig sample_llm_config = Inr ()"
  "checkMinTaskPriceCNXConfig sample_llm_config = Inr ()"
  "ParsePositiveDecimalRate ''0.001'' = Inr (1 / 1000)"
  by code_simp+

lemma sample_llm_config_ok: "checkLLMConfig sample_llm_config = Inr ()"
proof -
  have "parsePositiveDecimalGwei ''1'' = Inr 1" "parsePositiveDecimalGwei ''10'' = Inr 10"
    "parsePositiveDecimalGwei ''500'' = Inr 500" "parsePositiveDecimalGwei ''1000'' = Inr 1000"
    "TrimSpace ''/data'' \<noteq> []"
    by (simp_all add: decimal_eval TrimSpace_def is_space_def)
  moreover have "\<not> (1048576 :: u64) \<le> 900000" by simp
  ultimately show ?thesis
    using sample_llm_config_prices
    by (simp add: checkLLMConfig_def) (simp add: sample_llm_config_def)
qed

theorem checked_llm_config_witness:
  "\<exists>lo hi rate cap mn mx.
    parsePositiveDecimalGwei (lc_min_priority_gwei sample_llm_config) = Inr lo \<and>
    parsePositiveDecimalGwei (lc_max_priority_gwei sample_llm_config) = Inr hi \<and> 0 < lo \<and> lo \<le> hi \<and>
    ParsePositiveDecimalRate (lc_credits_per_gwei sample_llm_config) = Inr rate \<and> 0 < rate \<and>
    parsePositiveDecimalGwei (lc_default_auto_max_credits_per_task sample_llm_config) = Inr cap \<and> 0 < cap \<and>
    MinTaskFeeGwei sample_llm_config MaxTaskPriceProviderCrynux = Inr mn \<and>
    MaxTaskFeeGwei sample_llm_config MaxTaskPriceProviderCrynux = Inr mx \<and> 0 \<le> mn \<and> mn \<le> mx \<and> 0 < mx"
  by (rule checked_llm_config [OF sample_llm_config_ok])

end
