(* ===== verification/Database.thy ===== *)
theory Database
  imports Config
begin

text \<open>
  The database as a record of tables, the unique indexes of the tables (\<open>uniqueIndex\<close>
  tags in \<open>models/*.go\<close>), and the statements on single rows the services share. The
  rows of the usage statistics (\<open>models/usage_stats.go\<close>) are declared here too; their
  common counter columns form the record \<open>usage_counts\<close>.
\<close>

subsection \<open>Usage statistics rows\<close>

record usage_counts =
  uc_request_count :: u64
  uc_success_count :: u64
  uc_failure_count :: u64
  uc_prompt_tokens :: u64
  uc_completion_tokens :: u64
  uc_total_tokens :: u64
  uc_image_count :: u64
  uc_credits :: int

record account_hourly =
  ah_user_id :: nat
  ah_period_start :: int
  ah_counts :: usage_counts

record project_hourly =
  ph_project_id :: nat
  ph_user_id :: nat
  ph_period_start :: int
  ph_counts :: usage_counts

record model_10m =
  mt_project_id :: nat
  mt_user_id :: nat
  mt_model_cache_hash :: string
  mt_execution_dtype :: string
  mt_model :: string
  mt_period_start :: int
  mt_task_type :: task_type
  mt_quantization_config :: string
  mt_components :: string
  mt_counts :: usage_counts

record duration_10m =
  dt_project_id :: nat
  dt_user_id :: nat
  dt_period_start :: int
  dt_bucket :: string
  dt_request_count :: u64

record usage_progress =
  up_project_id :: nat
  up_dirty_generation :: u64
  up_claimed_generation :: u64
  up_claimed_at :: "gotime option"

datatype usage_range = UsageStatsRange1h | UsageStatsRange1d | UsageStatsRange7d

record model_snapshot =
  ms_project_id :: nat
  ms_range_type :: usage_range
  ms_rank :: nat
  ms_model :: string
  ms_model_cache_hash :: string
  ms_execution_dtype :: string
  ms_task_type :: task_type
  ms_quantization_config :: string
  ms_components :: string
  ms_counts :: usage_counts
  ms_window_start :: int
  ms_window_end :: int

record duration_snapshot =
  hs_project_id :: nat
  hs_range_type :: usage_range
  hs_bucket_index :: nat
  hs_bucket_label :: string
  hs_min_duration_ms :: u64
  hs_max_duration_ms :: "u64 option"
  hs_request_count :: u64
  hs_window_start :: int
  hs_window_end :: int

record stats_db =
  st_pending :: "nat list"
  st_account_hourly :: "account_hourly list"
  st_project_hourly :: "project_hourly list"
  st_model_10m :: "model_10m list"
  st_duration_10m :: "duration_10m list"
  st_progress :: "usage_progress list"
  st_model_snapshots :: "model_snapshot list"
  st_duration_snapshots :: "duration_snapshot list"

subsection \<open>The database\<close>

record db =
  db_users :: "user table"
  db_credit_accounts :: "credit_account table"
  db_credit_events :: "credit_event table"
  db_deposits :: "deposit table"
  db_referral_codes :: "referral_code table"
  db_referral_bindings :: "referral_binding table"
  db_referral_rewards :: "referral_reward table"
  db_projects :: "project table"
  db_task_jobs :: "task_job table"
  db_call_records :: "task_call_record table"
  db_shared_keys :: "shared_api_key table"
  db_earning_accounts :: "earning_account table"
  db_earning_events :: "earning_event table"
  db_withdrawals :: "earning_withdrawal table"
  db_cursors :: "string \<Rightarrow> u64 option"
  db_stats :: stats_db

definition empty_stats :: stats_db where
  "empty_stats = \<lparr>st_pending = [], st_account_hourly = [], st_project_hourly = [],
     st_model_10m = [], st_duration_10m = [], st_progress = [], st_model_snapshots = [], st_duration_snapshots = []\<rparr>"

definition empty_db :: db where
  "empty_db = \<lparr>db_users = empty_table, db_credit_accounts = empty_table,
     db_credit_events = empty_table, db_deposits = empty_table, db_referral_codes = empty_table,
     db_referral_bindings = empty_table, db_referral_rewards = empty_table,
     db_projects = empty_table, db_task_jobs = empty_table, db_call_records = empty_table,
     db_shared_keys = empty_table, db_earning_accounts = empty_table,
     db_earning_events = empty_table, db_withdrawals = empty_table,
     db_cursors = (\<lambda>_. None), db_stats = empty_stats\<rparr>"

subsection \<open>Row types\<close>

interpretation user_row: row_type u_id "\<lambda>n r. r\<lparr>u_id := n\<rparr>"
  by unfold_locales simp

interpretation account_row: row_type ca_id "\<lambda>n r. r\<lparr>ca_id := n\<rparr>"
  by unfold_locales simp

interpretation event_row: row_type ce_id "\<lambda>n r. r\<lparr>ce_id := n\<rparr>"
  by unfold_locales simp

interpretation deposit_row: row_type dep_id "\<lambda>n r. r\<lparr>dep_id := n\<rparr>"
  by unfold_locales simp

interpretation code_row: row_type rc_id "\<lambda>n r. r\<lparr>rc_id := n\<rparr>"
  by unfold_locales simp

interpretation binding_row: row_type rb_id "\<lambda>n r. r\<lparr>rb_id := n\<rparr>"
  by unfold_locales simp

interpretation reward_row: row_type rr_id "\<lambda>n r. r\<lparr>rr_id := n\<rparr>"
  by unfold_locales simp

interpretation project_row: row_type pr_id "\<lambda>n r. r\<lparr>pr_id := n\<rparr>"
  by unfold_locales simp

interpretation job_row: row_type tj_id "\<lambda>n r. r\<lparr>tj_id := n\<rparr>"
  by unfold_locales simp

interpretation record_row: row_type cr_id "\<lambda>n r. r\<lparr>cr_id := n\<rparr>"
  by unfold_locales simp

interpretation key_row: row_type sk_id "\<lambda>n r. r\<lparr>sk_id := n\<rparr>"
  by unfold_locales simp

interpretation earning_account_row: row_type ea_id "\<lambda>n r. r\<lparr>ea_id := n\<rparr>"
  by unfold_locales simp

interpretation earning_event_row: row_type ee_id "\<lambda>n r. r\<lparr>ee_id := n\<rparr>"
  by unfold_locales simp

interpretation withdrawal_row: row_type ew_id "\<lambda>n r. r\<lparr>ew_id := n\<rparr>"
  by unfold_locales simp

text \<open>The unique columns the services look rows up by.\<close>

interpretation account_by_user: indexed_row ca_id "\<lambda>n r. r\<lparr>ca_id := n\<rparr>" ca_user_id
  by unfold_locales

interpretation job_by_id: indexed_row tj_id "\<lambda>n r. r\<lparr>tj_id := n\<rparr>" tj_id
  by unfold_locales

interpretation earning_by_user: indexed_row ea_id "\<lambda>n r. r\<lparr>ea_id := n\<rparr>" ea_user_id
  by unfold_locales

interpretation withdrawal_by_id: indexed_row ew_id "\<lambda>n r. r\<lparr>ew_id := n\<rparr>" ew_id
  by unfold_locales

interpretation key_by_id: indexed_row sk_id "\<lambda>n r. r\<lparr>sk_id := n\<rparr>" sk_id
  by unfold_locales

interpretation project_by_id: indexed_row pr_id "\<lambda>n r. r\<lparr>pr_id := n\<rparr>" pr_id
  by unfold_locales

interpretation user_by_address: indexed_row u_id "\<lambda>n r. r\<lparr>u_id := n\<rparr>" u_address
  by unfold_locales

interpretation binding_by_invitee: indexed_row rb_id "\<lambda>n r. r\<lparr>rb_id := n\<rparr>" rb_invitee_user_id
  by unfold_locales

subsection \<open>Unique indexes\<close>

definition user_clash :: "user \<Rightarrow> user \<Rightarrow> bool" where
  "user_clash a b \<longleftrightarrow> u_address a = u_address b"

definition credit_account_clash :: "credit_account \<Rightarrow> credit_account \<Rightarrow> bool" where
  "credit_account_clash a b \<longleftrightarrow> ca_user_id a = ca_user_id b"

definition credit_event_clash :: "credit_event \<Rightarrow> credit_event \<Rightarrow> bool" where
  "credit_event_clash a b \<longleftrightarrow> ce_type a = ce_type b \<and> ce_ref_id a = ce_ref_id b"

definition deposit_clash :: "deposit \<Rightarrow> deposit \<Rightarrow> bool" where
  "deposit_clash a b \<longleftrightarrow>
     dep_network a = dep_network b \<and> dep_tx_hash a = dep_tx_hash b \<and> dep_log_index a = dep_log_index b"

definition referral_code_clash :: "referral_code \<Rightarrow> referral_code \<Rightarrow> bool" where
  "referral_code_clash a b \<longleftrightarrow> rc_code a = rc_code b"

definition referral_binding_clash :: "referral_binding \<Rightarrow> referral_binding \<Rightarrow> bool" where
  "referral_binding_clash a b \<longleftrightarrow> rb_invitee_user_id a = rb_invitee_user_id b"

text \<open>A unique index admits any number of NULLs.\<close>

definition same_not_null :: "'a option \<Rightarrow> 'a option \<Rightarrow> bool" where
  "same_not_null x y \<longleftrightarrow> x \<noteq> None \<and> x = y"

definition referral_reward_clash :: "referral_reward \<Rightarrow> referral_reward \<Rightarrow> bool" where
  "referral_reward_clash a b \<longleftrightarrow> same_not_null (rr_deposit_id a) (rr_deposit_id b)"

definition call_record_clash :: "task_call_record \<Rightarrow> task_call_record \<Rightarrow> bool" where
  "call_record_clash a b \<longleftrightarrow> same_not_null (cr_task_job_id a) (cr_task_job_id b)"

definition shared_key_clash :: "shared_api_key \<Rightarrow> shared_api_key \<Rightarrow> bool" where
  "shared_key_clash a b \<longleftrightarrow>
     sk_public_id a = sk_public_id b \<or>
     (sk_service_provider a = sk_service_provider b \<and> same_not_null (sk_fingerprint a) (sk_fingerprint b))"

definition earning_account_clash :: "earning_account \<Rightarrow> earning_account \<Rightarrow> bool" where
  "earning_account_clash a b \<longleftrightarrow> ea_user_id a = ea_user_id b"

definition earning_event_clash :: "earning_event \<Rightarrow> earning_event \<Rightarrow> bool" where
  "earning_event_clash a b \<longleftrightarrow>
     ee_type a = ee_type b \<and> ee_source_type a = ee_source_type b \<and> ee_source_id a = ee_source_id b"

definition withdrawal_clash :: "earning_withdrawal \<Rightarrow> earning_withdrawal \<Rightarrow> bool" where
  "withdrawal_clash a b \<longleftrightarrow>
     ew_authorization_fingerprint a = ew_authorization_fingerprint b \<or>
     same_not_null (ew_earning_event_id a) (ew_earning_event_id b)"

end
