(* ===== verification/Credits.thy ===== *)
theory Credits
  imports Database "HOL-Library.Multiset"
begin

text \<open>
  The Credits ledger and its locks (\<open>service/credits_lock.go\<close>, the balance checks of
  \<open>service/llm_charge.go\<close>): available Credits, reserving and releasing the hold of a
  job, the reconciliation run at start-up. The invariant \<open>ledger_inv\<close> ties the three
  places that must agree: account rows, the append-only event log and the holds in the
  job rows.
\<close>

subsection \<open>Operations\<close>

definition AvailableCredits :: "int option \<Rightarrow> int option \<Rightarrow> int" where
  "AvailableCredits balance locked =
     (let b = (case balance of None \<Rightarrow> 0 | Some x \<Rightarrow> x);
          l = (case locked of None \<Rightarrow> 0 | Some x \<Rightarrow> x);
          available = b - l in
      if available < 0 then 0 else available)"

definition EnsureSufficientBalance :: "int option \<Rightarrow> int option \<Rightarrow> err + unit" where
  "EnsureSufficientBalance balance required =
     (case required of
        None \<Rightarrow> Inr ()
      | Some r \<Rightarrow>
          if r \<le> 0 then Inr ()
          else (case balance of
              None \<Rightarrow> Inl ErrInsufficientBalance
            | Some b \<Rightarrow> if b < r then Inl ErrInsufficientBalance else Inr ()))"

definition EnsureSufficientAvailable :: "int option \<Rightarrow> int option \<Rightarrow> int option \<Rightarrow> err + unit" where
  "EnsureSufficientAvailable balance locked required =
     EnsureSufficientBalance (Some (AvailableCredits balance locked)) required"

text \<open>\<open>SELECT ... FROM credit_accounts WHERE user_id = ? FOR UPDATE\<close>, and \<open>Save\<close>.\<close>

definition credit_acct :: "db \<Rightarrow> nat \<Rightarrow> credit_account option" where
  "credit_acct d u = tbl_lookup ca_user_id u (db_credit_accounts d)"

definition save_account :: "db \<Rightarrow> credit_account \<Rightarrow> db" where
  "save_account d a = d\<lparr>db_credit_accounts := tbl_save ca_id a (db_credit_accounts d)\<rparr>"

definition reserveCreditsTx :: "db \<Rightarrow> nat \<Rightarrow> int option \<Rightarrow> err + db" where
  "reserveCreditsTx d userID amount =
     (case amount of
        None \<Rightarrow> Inl (ErrMsg ''credits lock amount must be positive'')
      | Some n \<Rightarrow>
          rejectIf (n \<le> 0) (ErrMsg ''credits lock amount must be positive'')
            (bindE (of_option ErrRecordNotFound (credit_acct d userID)) (\<lambda>account.
             bindE (EnsureSufficientAvailable (Some (ca_balance account)) (Some (ca_locked account)) (Some n)) (\<lambda>_.
             Inr (save_account d (account\<lparr>ca_locked := ca_locked account + n\<rparr>))))))"

text \<open>The job argument is a snapshot the caller read; the result carries it updated.\<close>

definition releaseCreditsHoldTx :: "db \<Rightarrow> task_job \<Rightarrow> err + db \<times> task_job" where
  "releaseCreditsHoldTx d job =
     (if tj_credits_lock_status job \<noteq> TaskJobCreditsLockHeld then Inr (d, job)
      else bindE (of_option ErrRecordNotFound (credit_acct d (tj_user_id job))) (\<lambda>account.
        let hold = tj_credits_locked job in
        rejectIf (hold < 0) (ErrMsg ''credits_locked must be non-negative'')
          (let account' = (if ca_locked account < hold then account\<lparr>ca_locked := 0\<rparr>
                           else account\<lparr>ca_locked := ca_locked account - hold\<rparr>);
               d1 = save_account d account' in
           Inr (d1\<lparr>db_task_jobs := tbl_modify (\<lambda>j. tj_id j = tj_id job)
                     (\<lambda>j. j\<lparr>tj_credits_lock_status := TaskJobCreditsLockReleased\<rparr>) (db_task_jobs d1)\<rparr>,
                job\<lparr>tj_credits_lock_status := TaskJobCreditsLockReleased\<rparr>))))"

definition holds :: "nat \<Rightarrow> task_job \<Rightarrow> bool" where
  "holds u j \<longleftrightarrow> tj_user_id j = u \<and> tj_credits_lock_status j = TaskJobCreditsLockHeld"

definition sumHeldCreditsLockedTx :: "db \<Rightarrow> nat \<Rightarrow> int" where
  "sumHeldCreditsLockedTx d userID =
     foldl (\<lambda>acc j. acc + tj_credits_locked j) 0 (tbl_where (holds userID) (db_task_jobs d))"

text \<open>The transaction of one user in the reconciliation; the flag says whether it corrected.\<close>

definition reconcile_user :: "db \<Rightarrow> nat \<Rightarrow> err + db \<times> bool" where
  "reconcile_user d userID =
     bindE (of_option ErrRecordNotFound (credit_acct d userID)) (\<lambda>account.
       let expected = sumHeldCreditsLockedTx d userID in
       if ca_locked account = expected then Inr (d, False)
       else Inr (save_account d (account\<lparr>ca_locked := expected\<rparr>), True))"

fun reconcile_loop :: "db \<Rightarrow> nat list \<Rightarrow> nat \<Rightarrow> db \<times> nat \<times> err option" where
  "reconcile_loop d [] corrected = (d, corrected, None)"
| "reconcile_loop d (u # us) corrected =
     (case reconcile_user d u of
        Inl e \<Rightarrow> (d, corrected, Some e)
      | Inr (d', c) \<Rightarrow> reconcile_loop d' us (if c then Suc corrected else corrected))"

definition reconcile_user_ids :: "db \<Rightarrow> nat list" where
  "reconcile_user_ids d =
     remdups (map tj_user_id (tbl_where (\<lambda>j. tj_credits_lock_status j = TaskJobCreditsLockHeld) (db_task_jobs d)) @
              map ca_user_id (tbl_where (\<lambda>a. ca_locked a \<noteq> 0) (db_credit_accounts d)))"

text \<open>The set of users is a Go map: \<open>order\<close> is the order in which it is ranged over.\<close>

definition ReconcileCreditsLocked :: "(nat list \<Rightarrow> nat list) \<Rightarrow> db \<Rightarrow> db \<times> nat \<times> err option" where
  "ReconcileCreditsLocked order d = reconcile_loop d (order (reconcile_user_ids d)) 0"

subsection \<open>The ledger\<close>

text \<open>What an event contributes to the balance of its user.\<close>

definition event_delta :: "credit_event \<Rightarrow> int" where
  "event_delta e =
     (if ce_status e \<noteq> CreditEventStatusProcessed then 0
      else if ce_type e = CreditEventTypeTaskCharge then - ce_amount e else ce_amount e)"

definition ledger_of :: "db \<Rightarrow> nat \<Rightarrow> int" where
  "ledger_of d u = tbl_sum (\<lambda>e. if ce_user_id e = u then event_delta e else 0) (db_credit_events d)"

definition held_of :: "db \<Rightarrow> nat \<Rightarrow> int" where
  "held_of d u = tbl_sum (\<lambda>j. if holds u j then tj_credits_locked j else 0) (db_task_jobs d)"

text \<open>
  Inside a transaction the three places differ by the part of the work still to be
  done: \<open>bo u\<close> is the amount by which the balance of \<open>u\<close> is ahead of the event log,
  \<open>lo u\<close> the amount by which its lock is ahead of the holds in the job rows. Between
  transactions both are zero.
\<close>

fun acct_ok :: "credit_account option \<Rightarrow> int \<Rightarrow> int \<Rightarrow> bool" where
  "acct_ok None b l \<longleftrightarrow> b = 0 \<and> l = 0"
| "acct_ok (Some a) b l \<longleftrightarrow> ca_balance a = b \<and> ca_locked a = l \<and> 0 \<le> l \<and> l \<le> b"

definition ledger_ok :: "(nat \<Rightarrow> int) \<Rightarrow> (nat \<Rightarrow> int) \<Rightarrow> db \<Rightarrow> nat \<Rightarrow> bool" where
  "ledger_ok bo lo d u \<longleftrightarrow> acct_ok (credit_acct d u) (ledger_of d u + bo u) (held_of d u + lo u)"

definition ledger_off :: "(nat \<Rightarrow> int) \<Rightarrow> (nat \<Rightarrow> int) \<Rightarrow> db \<Rightarrow> bool" where
  "ledger_off bo lo d \<longleftrightarrow>
     idx_wf ca_id ca_user_id (db_credit_accounts d) \<and> tbl_wf tj_id (db_task_jobs d) \<and>
     (\<forall>j \<in> set (rows (db_task_jobs d)).
        tj_credits_lock_status j = TaskJobCreditsLockHeld \<longrightarrow> 0 \<le> tj_credits_locked j) \<and>
     (\<forall>u. ledger_ok bo lo d u)"

definition ledger_inv :: "db \<Rightarrow> bool" where
  "ledger_inv d \<longleftrightarrow> ledger_off (\<lambda>_. 0) (\<lambda>_. 0) d"

lemma AvailableCredits_Some [simp]: "AvailableCredits (Some b) (Some l) = max 0 (b - l)"
  by (simp add: AvailableCredits_def)

lemma EnsureSufficientAvailable_Inr_iff [res_simps]:
  "EnsureSufficientAvailable (Some b) (Some l) (Some n) = Inr x \<longleftrightarrow> n \<le> max 0 (b - l)"
  by (auto simp: EnsureSufficientAvailable_def EnsureSufficientBalance_def)

lemma EnsureSufficientAvailable_Inl_iff [res_simps]:
  "EnsureSufficientAvailable (Some b) (Some l) (Some n) = Inl e \<longleftrightarrow>
     e = ErrInsufficientBalance \<and> max 0 (b - l) < n"
  by (auto simp: EnsureSufficientAvailable_def EnsureSufficientBalance_def)

lemma sumHeld_held_of: "sumHeldCreditsLockedTx d u = held_of d u"
proof -
  have "foldl (\<lambda>acc j. acc + tj_credits_locked j) a (filter (holds u) js) =
      a + sum_list (map (\<lambda>j. if holds u j then tj_credits_locked j else 0) js)" for a js
    by (induction js arbitrary: a) simp_all
  then show ?thesis by (simp add: sumHeldCreditsLockedTx_def tbl_where_def held_of_def tbl_sum_def)
qed

lemma held_of_nonneg: "ledger_off bo lo d \<Longrightarrow> 0 \<le> held_of d u"
  unfolding held_of_def by (rule tbl_sum_nonneg) (auto simp: ledger_off_def holds_def)

lemma credit_acct_user: "credit_acct d u = Some a \<Longrightarrow> ca_user_id a = u"
  by (auto simp: credit_acct_def dest: tbl_lookupD)

lemma ledger_offD:
  assumes "ledger_off bo lo d" "credit_acct d u = Some a"
  shows "ca_balance a = ledger_of d u + bo u" "ca_locked a = held_of d u + lo u"
    "0 \<le> ca_locked a" "ca_locked a \<le> ca_balance a" "ca_user_id a = u"
  using assms credit_acct_user [OF assms(2)]
  by (auto simp: ledger_off_def ledger_ok_def dest!: spec [of _ u])

lemmas ledger_invD = ledger_offD [of "\<lambda>_. 0" "\<lambda>_. 0", folded ledger_inv_def, simplified]

lemma ledger_off_cong:
  assumes "ledger_off bo lo d"
    "db_credit_accounts d' = db_credit_accounts d" "db_credit_events d' = db_credit_events d"
    "db_task_jobs d' = db_task_jobs d"
  shows "ledger_off bo lo d'"
proof -
  have "credit_acct d' = credit_acct d" "ledger_of d' = ledger_of d" "held_of d' = held_of d"
    using assms(2-4) by (simp_all add: fun_eq_iff credit_acct_def ledger_of_def held_of_def)
  with assms show ?thesis by (simp add: ledger_off_def ledger_ok_def)
qed

lemma save_account_sel [simp]:
  "db_credit_events (save_account d a) = db_credit_events d"
  "db_task_jobs (save_account d a) = db_task_jobs d"
  "ledger_of (save_account d a) u = ledger_of d u" "held_of (save_account d a) u = held_of d u"
  by (auto simp: save_account_def ledger_of_def held_of_def)

lemma credit_acct_save:
  assumes "idx_wf ca_id ca_user_id (db_credit_accounts d)" "credit_acct d u = Some a"
    "ca_id a' = ca_id a" "ca_user_id a' = u"
  shows "credit_acct (save_account d a') v = (if v = u then Some a' else credit_acct d v)"
  using account_by_user.lookup_save [of "db_credit_accounts d" a' a v] assms
  by (simp add: credit_acct_def save_account_def)

text \<open>One statement at a time: saving an account, appending an event, changing job rows.\<close>

lemma ledger_off_save:
  assumes inv: "ledger_off bo lo d" and acct: "credit_acct d u = Some a"
    and a': "ca_id a' = ca_id a" "ca_user_id a' = u" "0 \<le> ca_locked a'" "ca_locked a' \<le> ca_balance a'"
  shows "ledger_off (bo(u := bo u + ca_balance a' - ca_balance a))
           (lo(u := lo u + ca_locked a' - ca_locked a)) (save_account d a')"
proof -
  have wf: "idx_wf ca_id ca_user_id (db_credit_accounts d)" using inv by (simp add: ledger_off_def)
  have "idx_wf ca_id ca_user_id (db_credit_accounts (save_account d a'))"
    using account_by_user.wf_save [OF wf, of a' a] acct a' by (simp add: save_account_def credit_acct_def)
  moreover have "ledger_ok (bo(u := bo u + ca_balance a' - ca_balance a))
      (lo(u := lo u + ca_locked a' - ca_locked a)) (save_account d a') v" for v
  proof (cases "v = u")
    case True
    then show ?thesis
      using ledger_offD [OF inv acct] a' by (simp add: ledger_ok_def credit_acct_save [OF wf acct a'(1,2)])
  next
    case False
    then show ?thesis
      using inv by (simp add: ledger_ok_def credit_acct_save [OF wf acct a'(1,2)] ledger_off_def)
  qed
  ultimately show ?thesis using inv by (simp add: ledger_off_def)
qed

lemma ledger_off_event:
  assumes "ledger_off bo lo d" "tbl_create credit_event_clash mk (db_credit_events d) = Inr (t, e)"
  shows "ledger_off (bo(ce_user_id e := bo (ce_user_id e) - event_delta e)) lo (d\<lparr>db_credit_events := t\<rparr>)"
proof -
  have "rows t = rows (db_credit_events d) @ [e]" using assms(2) by (auto simp: res_simps)
  then have ev: "ledger_of (d\<lparr>db_credit_events := t\<rparr>) u =
      ledger_of d u + (if ce_user_id e = u then event_delta e else 0)" for u
    by (simp add: ledger_of_def tbl_sum_def)
  show ?thesis
    using assms(1) by (simp add: ledger_off_def ledger_ok_def credit_acct_def held_of_def ev)
qed

lemma ledger_off_jobs:
  assumes "ledger_off bo lo d" "tbl_wf tj_id t"
    "\<And>j. j \<in> set (rows t) \<Longrightarrow> tj_credits_lock_status j = TaskJobCreditsLockHeld \<Longrightarrow> 0 \<le> tj_credits_locked j"
    "\<And>u. lo' u = lo u + held_of d u - held_of (d\<lparr>db_task_jobs := t\<rparr>) u"
  shows "ledger_off bo lo' (d\<lparr>db_task_jobs := t\<rparr>)"
  using assms by (auto simp: ledger_off_def ledger_ok_def credit_acct_def ledger_of_def add.commute)

lemma held_of_job_create:
  assumes "tbl_create clash mk (db_task_jobs d) = Inr (t, j)"
  shows "held_of (d\<lparr>db_task_jobs := t\<rparr>) u = held_of d u + (if holds u j then tj_credits_locked j else 0)"
  using assms by (auto simp: res_simps held_of_def tbl_sum_def)

lemma held_of_job_modify:
  assumes "tbl_wf tj_id (db_task_jobs d)" "j \<in> set (rows (db_task_jobs d))"
  shows "held_of (d\<lparr>db_task_jobs := tbl_modify (\<lambda>s. tj_id s = tj_id j) f (db_task_jobs d)\<rparr>) u =
    held_of d u - (if holds u j then tj_credits_locked j else 0)
                + (if holds u (f j) then tj_credits_locked (f j) else 0)"
  using job_row.sum_modify_key [OF assms] by (simp add: held_of_def)

lemma held_of_job_le:
  assumes "ledger_off bo lo d" "j \<in> set (rows (db_task_jobs d))" "holds u j"
  shows "tj_credits_locked j \<le> held_of d u"
proof -
  define g where "g = (\<lambda>r. if holds u r then tj_credits_locked r else 0)"
  have "g j \<le> sum_list (map g (rows (db_task_jobs d)))"
  proof (rule member_le_sum_list)
    show "g j \<in> set (map g (rows (db_task_jobs d)))" using assms(2) by simp
  qed (use assms(1) in \<open>auto simp: g_def ledger_off_def holds_def\<close>)
  with assms(3) show ?thesis by (simp add: held_of_def tbl_sum_def g_def)
qed

subsection \<open>Reserving and releasing\<close>

lemma reserveCreditsTx_Inr_iff [res_simps]:
  "reserveCreditsTx d u (Some n) = Inr d' \<longleftrightarrow>
     0 < n \<and> (\<exists>a. credit_acct d u = Some a \<and> n \<le> max 0 (ca_balance a - ca_locked a) \<and>
       d' = save_account d (a\<lparr>ca_locked := ca_locked a + n\<rparr>))"
  by (auto simp: reserveCreditsTx_def res_simps)

lemma reserve_off:
  assumes inv: "ledger_off bo lo d" and res: "reserveCreditsTx d u (Some n) = Inr d'"
  shows "ledger_off bo (lo(u := lo u + n)) d'"
proof -
  obtain a where a: "credit_acct d u = Some a" "n \<le> max 0 (ca_balance a - ca_locked a)" "0 < n"
    "d' = save_account d (a\<lparr>ca_locked := ca_locked a + n\<rparr>)"
    using res by (auto simp: res_simps)
  note la = ledger_offD [OF inv a(1)]
  have "ledger_off (bo(u := bo u + ca_balance a - ca_balance a))
      (lo(u := lo u + (ca_locked a + n) - ca_locked a)) d'"
    using ledger_off_save [OF inv a(1), of "a\<lparr>ca_locked := ca_locked a + n\<rparr>"] a la by simp
  then show ?thesis by simp
qed

lemma release_off:
  assumes inv: "ledger_off bo lo d" and lo: "0 \<le> lo (tj_user_id job)"
    and job: "job \<in> set (rows (db_task_jobs d))"
    and rel: "releaseCreditsHoldTx d job = Inr (d', job')"
  shows "ledger_off bo lo d'"
proof (cases "tj_credits_lock_status job = TaskJobCreditsLockHeld")
  case False
  with rel inv show ?thesis by (simp add: releaseCreditsHoldTx_def)
next
  case True
  let ?u = "tj_user_id job" and ?n = "tj_credits_locked job"
  let ?f = "\<lambda>j. j\<lparr>tj_credits_lock_status := TaskJobCreditsLockReleased\<rparr>"
  have hold: "holds ?u job" using True by (simp add: holds_def)
  obtain a where a: "credit_acct d ?u = Some a"
    using rel True by (auto simp: releaseCreditsHoldTx_def res_simps)
  note la = ledger_offD [OF inv a]
  have n: "0 \<le> ?n" "?n \<le> ca_locked a"
    using inv job True la lo held_of_job_le [OF inv job hold] by (auto simp: ledger_off_def)
  define d1 where "d1 = save_account d (a\<lparr>ca_locked := ca_locked a - ?n\<rparr>)"
  have d': "d' = d1\<lparr>db_task_jobs := tbl_modify (\<lambda>j. tj_id j = tj_id job) ?f (db_task_jobs d1)\<rparr>"
    using rel True a n by (auto simp: releaseCreditsHoldTx_def res_simps Let_def d1_def)
  have "ledger_off (bo(?u := bo ?u + ca_balance a - ca_balance a))
      (lo(?u := lo ?u + (ca_locked a - ?n) - ca_locked a)) d1"
    unfolding d1_def
    using ledger_off_save [OF inv a, of "a\<lparr>ca_locked := ca_locked a - ?n\<rparr>"] n la by simp
  then have inv1: "ledger_off bo (lo(?u := lo ?u - ?n)) d1" by simp
  have wf: "tbl_wf tj_id (db_task_jobs d1)" using inv1 by (simp add: ledger_off_def)
  have job1: "job \<in> set (rows (db_task_jobs d1))" using job by (simp add: d1_def)
  show ?thesis
    unfolding d'
  proof (rule ledger_off_jobs [OF inv1])
    show "tbl_wf tj_id (tbl_modify (\<lambda>j. tj_id j = tj_id job) ?f (db_task_jobs d1))"
      using wf by (rule tbl_wf_modify) simp
    show "0 \<le> tj_credits_locked j" if "j \<in> set (rows (tbl_modify (\<lambda>j. tj_id j = tj_id job) ?f (db_task_jobs d1)))"
      "tj_credits_lock_status j = TaskJobCreditsLockHeld" for j
      using that inv1 by (auto simp: ledger_off_def split: if_splits)
    show "lo u = (lo(?u := lo ?u - ?n)) u + held_of d1 u -
        held_of (d1\<lparr>db_task_jobs := tbl_modify (\<lambda>j. tj_id j = tj_id job) ?f (db_task_jobs d1)\<rparr>) u" for u
      using hold by (auto simp: held_of_job_modify [OF wf job1] holds_def)
  qed
qed

text \<open>A ledger with one account of 100 Credits, for concrete instances.\<close>

definition sample_db :: db where
  "sample_db = empty_db
     \<lparr>db_credit_accounts := \<lparr>rows = [\<lparr>ca_id = 1, ca_user_id = 1, ca_balance = 100, ca_locked = 0\<rparr>],
                             next_id = 2\<rparr>,
      db_credit_events := \<lparr>rows = [\<lparr>ce_id = 1, ce_user_id = 1, ce_amount = 100,
         ce_type = CreditEventTypeSignupBonus, ce_ref_id = 1, ce_status = CreditEventStatusProcessed\<rparr>],
                           next_id = 2\<rparr>\<rparr>"

lemma sample_db_inv: "ledger_inv sample_db"
  by (simp add: ledger_inv_def ledger_off_def ledger_ok_def sample_db_def empty_db_def idx_wf_def
      tbl_wf_def credit_acct_def tbl_lookup_def tbl_first_def ledger_of_def held_of_def tbl_sum_def
      event_delta_def)

lemma ledger_inv_wf: "ledger_inv d \<Longrightarrow> idx_wf ca_id ca_user_id (db_credit_accounts d)"
  by (simp add: ledger_inv_def ledger_off_def)

text \<open>C7. Reserving Credits is all or nothing and never overdraws: on a ledger whose parts
  agree, it succeeds exactly when the amount is positive, the account exists and the
  amount is within balance minus locked; then only the lock of that account grows, by
  that amount, and stays within the balance.\<close>

theorem reserve_exact:
  assumes "ledger_inv d"
  shows "((\<exists>d'. reserveCreditsTx d u (Some n) = Inr d') \<longleftrightarrow>
      (\<exists>a. 0 < n \<and> credit_acct d u = Some a \<and> n \<le> ca_balance a - ca_locked a)) \<and>
    (\<forall>d'. reserveCreditsTx d u (Some n) = Inr d' \<longrightarrow>
      (\<exists>a. credit_acct d u = Some a \<and>
        credit_acct d' = (credit_acct d)(u \<mapsto> a\<lparr>ca_locked := ca_locked a + n\<rparr>) \<and>
        0 \<le> ca_locked a + n \<and> ca_locked a + n \<le> ca_balance a))"
proof (intro conjI allI impI)
  show "(\<exists>d'. reserveCreditsTx d u (Some n) = Inr d') \<longleftrightarrow>
     (\<exists>a. 0 < n \<and> credit_acct d u = Some a \<and> n \<le> ca_balance a - ca_locked a)"
    by (auto simp: res_simps)
next
  fix d' assume "reserveCreditsTx d u (Some n) = Inr d'"
  then obtain a where a: "credit_acct d u = Some a" "0 < n" "n \<le> max 0 (ca_balance a - ca_locked a)"
    "d' = save_account d (a\<lparr>ca_locked := ca_locked a + n\<rparr>)"
    by (auto simp: res_simps)
  note ledger_invD [OF assms a(1)]
    credit_acct_save [OF ledger_inv_wf [OF assms] a(1), of "a\<lparr>ca_locked := ca_locked a + n\<rparr>"]
  with a show "\<exists>a. credit_acct d u = Some a \<and>
        credit_acct d' = (credit_acct d)(u \<mapsto> a\<lparr>ca_locked := ca_locked a + n\<rparr>) \<and>
        0 \<le> ca_locked a + n \<and> ca_locked a + n \<le> ca_balance a"
    by (intro exI [of _ a]) (auto simp: fun_eq_iff)
qed

theorem reserve_exact_witness:
  "(\<exists>d'. reserveCreditsTx sample_db 1 (Some 40) = Inr d') \<and>
   (\<nexists>d'. reserveCreditsTx sample_db 1 (Some 101) = Inr d')"
proof -
  have "credit_acct sample_db 1 = Some \<lparr>ca_id = 1, ca_user_id = 1, ca_balance = 100, ca_locked = 0\<rparr>"
    by (simp add: sample_db_def credit_acct_def tbl_lookup_def tbl_first_def)
  then show ?thesis
    using reserve_exact [OF sample_db_inv, of 1 40] reserve_exact [OF sample_db_inv, of 1 101] by simp
qed

subsection \<open>Reconciliation\<close>

lemma reconcile_user_ok:
  assumes wf: "idx_wf ca_id ca_user_id (db_credit_accounts d)" and a: "credit_acct d u = Some a"
  shows "\<exists>d'. reconcile_user d u = Inr (d', ca_locked a \<noteq> held_of d u) \<and>
    idx_wf ca_id ca_user_id (db_credit_accounts d') \<and> (\<forall>v. held_of d' v = held_of d v) \<and>
    (\<forall>v. ledger_of d' v = ledger_of d v) \<and>
    credit_acct d' = (credit_acct d)(u \<mapsto> a\<lparr>ca_locked := held_of d u\<rparr>)"
proof (cases "ca_locked a = held_of d u")
  case True
  then show ?thesis using assms by (auto simp: reconcile_user_def sumHeld_held_of fun_eq_iff)
next
  case False
  let ?a = "a\<lparr>ca_locked := held_of d u\<rparr>"
  have u: "ca_user_id a = u" using a by (rule credit_acct_user)
  have "idx_wf ca_id ca_user_id (db_credit_accounts (save_account d ?a))"
    using account_by_user.wf_save [OF wf, of ?a a] a u by (simp add: save_account_def credit_acct_def)
  with False a u show ?thesis
    by (auto simp: reconcile_user_def sumHeld_held_of fun_eq_iff credit_acct_save [OF wf a])
qed

definition lock_mismatch :: "db \<Rightarrow> nat \<Rightarrow> bool" where
  "lock_mismatch d u \<longleftrightarrow> map_option ca_locked (credit_acct d u) \<noteq> Some (held_of d u)"

lemma reconcile_loop_ok:
  assumes "idx_wf ca_id ca_user_id (db_credit_accounts d)" "distinct us"
    "\<forall>u \<in> set us. credit_acct d u \<noteq> None"
  shows "\<exists>d'. reconcile_loop d us c =
      (d', c + length (filter (lock_mismatch d) us), None) \<and>
    (\<forall>v. held_of d' v = held_of d v) \<and> (\<forall>v. ledger_of d' v = ledger_of d v) \<and>
    credit_acct d' = (\<lambda>u. if u \<in> set us then map_option (\<lambda>a. a\<lparr>ca_locked := held_of d u\<rparr>) (credit_acct d u)
                          else credit_acct d u)"
  using assms
proof (induction us arbitrary: d c)
  case Nil
  then show ?case by simp
next
  case (Cons u us)
  obtain a where a: "credit_acct d u = Some a" using Cons.prems by auto
  obtain d1 where d1: "reconcile_user d u = Inr (d1, ca_locked a \<noteq> held_of d u)"
    "idx_wf ca_id ca_user_id (db_credit_accounts d1)" "\<forall>v. held_of d1 v = held_of d v"
    "\<forall>v. ledger_of d1 v = ledger_of d v"
    "credit_acct d1 = (credit_acct d)(u \<mapsto> a\<lparr>ca_locked := held_of d u\<rparr>)"
    using reconcile_user_ok [OF Cons.prems(1) a] by blast
  have nin: "u \<notin> set us" using Cons.prems by simp
  have same: "filter (lock_mismatch d1) us = filter (lock_mismatch d) us"
    using nin d1 by (intro filter_cong) (auto simp: lock_mismatch_def)
  have head: "lock_mismatch d u \<longleftrightarrow> ca_locked a \<noteq> held_of d u"
    by (simp add: lock_mismatch_def a)
  have "\<forall>v \<in> set us. credit_acct d1 v \<noteq> None" using Cons.prems d1(5) by simp
  then obtain d' where d': "reconcile_loop d1 us (if lock_mismatch d u then Suc c else c) =
      (d', (if lock_mismatch d u then Suc c else c) + length (filter (lock_mismatch d1) us), None)"
    "\<forall>v. held_of d' v = held_of d1 v" "\<forall>v. ledger_of d' v = ledger_of d1 v"
    "credit_acct d' = (\<lambda>u. if u \<in> set us then map_option (\<lambda>a. a\<lparr>ca_locked := held_of d1 u\<rparr>) (credit_acct d1 u)
                          else credit_acct d1 u)"
    using Cons.IH [OF d1(2) _ \<open>\<forall>v \<in> set us. credit_acct d1 v \<noteq> None\<close>] Cons.prems(2) by fastforce
  have "credit_acct d' v = (if v \<in> set (u # us)
      then map_option (\<lambda>a. a\<lparr>ca_locked := held_of d v\<rparr>) (credit_acct d v) else credit_acct d v)" for v
    using d1(3) a nin by (simp add: d'(4) d1(5))
  then show ?case using d1(1,3,4) d'(1,2,3)
    by (intro exI [of _ d']) (simp add: head same fun_eq_iff)
qed

text \<open>C34. Start-up reconciliation repairs every lock: from any well-formed state in which
  every user with a held job has an account, and in whatever order the users are visited,
  it reports no error, leaves every account's lock equal to the sum of the holds of its
  user's jobs, changes neither balances nor the event log, and counts exactly the accounts
  that were wrong.\<close>

theorem reconcile_repairs:
  assumes "idx_wf ca_id ca_user_id (db_credit_accounts d)"
    "\<And>j. j \<in> set (rows (db_task_jobs d)) \<Longrightarrow> tj_credits_lock_status j = TaskJobCreditsLockHeld \<Longrightarrow>
      credit_acct d (tj_user_id j) \<noteq> None"
    "\<And>xs. mset (order xs) = mset xs"
  shows "\<exists>d'. ReconcileCreditsLocked order d =
      (d', length (filter (lock_mismatch d)
             (reconcile_user_ids d)), None) \<and>
    (\<forall>u. credit_acct d' u = map_option (\<lambda>a. a\<lparr>ca_locked := held_of d u\<rparr>) (credit_acct d u)) \<and>
    (\<forall>u. ledger_of d' u = ledger_of d u \<and> held_of d' u = held_of d u)"
proof -
  let ?us = "reconcile_user_ids d" and ?bad = "lock_mismatch d"
  have dist: "distinct ?us" by (simp add: reconcile_user_ids_def)
  have m: "mset (order ?us) = mset ?us" by (rule assms(3))
  have perm: "distinct (order ?us)" "set (order ?us) = set ?us"
    using m dist mset_eq_imp_distinct_iff mset_eq_setD by blast+
  have "size (filter_mset ?bad (mset (order ?us))) = size (filter_mset ?bad (mset ?us))"
    by (simp only: m)
  then have len: "length (filter ?bad (order ?us)) = length (filter ?bad ?us)"
    by (simp only: mset_filter [symmetric] size_mset)
  have accts: "\<forall>u \<in> set ?us. credit_acct d u \<noteq> None"
    using assms(2) by (auto simp: reconcile_user_ids_def tbl_where_def credit_acct_def tbl_lookup_None_iff)
  have out: "map_option (\<lambda>a. a\<lparr>ca_locked := held_of d u\<rparr>) (credit_acct d u) = credit_acct d u"
    if "u \<notin> set ?us" for u
  proof (cases "credit_acct d u")
    case (Some a)
    then have a: "a \<in> set (rows (db_credit_accounts d))" "ca_user_id a = u"
      by (auto simp: credit_acct_def dest: tbl_lookupD)
    have "\<forall>j \<in> set (rows (db_task_jobs d)). \<not> holds u j"
      using that by (auto simp: reconcile_user_ids_def tbl_where_def holds_def)
    then have "held_of d u = 0" by (simp add: held_of_def tbl_sum_def sum_list_0 cong: map_cong)
    moreover have "ca_locked a = 0" using that a by (auto simp: reconcile_user_ids_def tbl_where_def)
    ultimately show ?thesis using Some by simp
  qed simp
  show ?thesis
  proof -
    obtain d' where d': "reconcile_loop d (order ?us) 0 = (d', 0 + length (filter ?bad (order ?us)), None)"
      "\<forall>v. held_of d' v = held_of d v" "\<forall>v. ledger_of d' v = ledger_of d v"
      "credit_acct d' = (\<lambda>u. if u \<in> set (order ?us)
         then map_option (\<lambda>a. a\<lparr>ca_locked := held_of d u\<rparr>) (credit_acct d u) else credit_acct d u)"
      using reconcile_loop_ok [OF assms(1) perm(1), of 0] accts perm(2) by auto
    then show ?thesis using perm(2) len out
      by (intro exI [of _ d']) (simp add: ReconcileCreditsLocked_def)
  qed
qed

text \<open>The sample ledger with a lock that no job holds.\<close>

definition drifted_db :: db where
  "drifted_db = sample_db
     \<lparr>db_credit_accounts := \<lparr>rows = [\<lparr>ca_id = 1, ca_user_id = 1, ca_balance = 100, ca_locked = 30\<rparr>],
                             next_id = 2\<rparr>\<rparr>"

theorem reconcile_repairs_witness:
  "\<exists>d'. ReconcileCreditsLocked rev drifted_db = (d', 1, None) \<and>
     map_option ca_locked (credit_acct d' 1) = Some 0"
proof -
  have acct: "credit_acct drifted_db 1 = Some \<lparr>ca_id = 1, ca_user_id = 1, ca_balance = 100, ca_locked = 30\<rparr>"
    by (simp add: drifted_db_def credit_acct_def tbl_lookup_def tbl_first_def)
  have jobs: "rows (db_task_jobs drifted_db) = []" by (simp add: drifted_db_def sample_db_def empty_db_def)
  have held: "held_of drifted_db 1 = 0" by (simp add: held_of_def tbl_sum_def jobs)
  have ids: "reconcile_user_ids drifted_db = [1]"
    by (simp add: reconcile_user_ids_def tbl_where_def jobs) (simp add: drifted_db_def)
  have wf: "idx_wf ca_id ca_user_id (db_credit_accounts drifted_db)"
    by (simp add: drifted_db_def idx_wf_def tbl_wf_def)
  have "\<exists>d'. ReconcileCreditsLocked rev drifted_db =
      (d', length (filter (lock_mismatch drifted_db) (reconcile_user_ids drifted_db)), None) \<and>
    (\<forall>u. credit_acct d' u = map_option (\<lambda>a. a\<lparr>ca_locked := held_of drifted_db u\<rparr>) (credit_acct drifted_db u)) \<and>
    (\<forall>u. ledger_of d' u = ledger_of drifted_db u \<and> held_of d' u = held_of drifted_db u)"
    by (rule reconcile_repairs [OF wf]) (simp_all add: jobs)
  then show ?thesis using acct held by (auto simp: ids lock_mismatch_def)
qed

end
