(* ===== verification/Task_Calls.thy ===== *)
theory Task_Calls
  imports Credits
begin

text \<open>
  Recording a finished call and charging it (\<open>service/llm_charge.go\<close>,
  \<open>processTaskCallTx\<close>): the call record, the queue row for the usage statistics, the
  debit clamped to the available Credits and its ledger event, in one transaction.
  \<open>wl\<close> stands for \<open>ExtractTaskCallWorkloadFields\<close>, which derives display columns from
  the task arguments.
\<close>

record task_call_input =
  in_user_id :: nat
  in_project_id :: nat
  in_task_job_id :: "nat option"
  in_task_type :: task_type
  in_api_type :: task_api_type
  in_model :: string
  in_execution_source :: string
  in_shared_api_key_id :: "nat option"
  in_task_args_json :: string
  in_prompt_tokens :: u64
  in_completion_tokens :: u64
  in_total_tokens :: u64
  in_priority_gwei :: "int option"
  in_token_usage_applicable :: bool
  in_status :: task_call_status
  in_credits :: "int option"
  in_accepted_at :: gotime
  in_completed_at :: gotime
  in_billed_vram :: u64
  in_charge :: bool

type_synonym workload_fn = "task_type \<Rightarrow> string \<Rightarrow> string \<Rightarrow> workload_fields"

text \<open>\<open>uint64(b.Sub(a).Milliseconds())\<close>; \<open>Sub\<close> saturates at the largest duration.\<close>

definition duration_ms :: "gotime \<Rightarrow> gotime \<Rightarrow> u64" where
  "duration_ms a b = (if b = a then 0 else word_of_int (go_quo (min (b - a) (2 ^ 63 - 1)) 1000000))"

definition call_record_of :: "workload_fn \<Rightarrow> task_call_input \<Rightarrow> nat \<Rightarrow> task_call_record" where
  "call_record_of wl inp n =
     \<lparr>cr_id = n, cr_user_id = in_user_id inp, cr_project_id = in_project_id inp,
      cr_task_job_id = in_task_job_id inp, cr_task_type = in_task_type inp,
      cr_api_type = in_api_type inp, cr_model = in_model inp,
      cr_execution_source =
        (if in_execution_source inp = [] then ExecutionSourceCrynux else in_execution_source inp),
      cr_shared_api_key_id = in_shared_api_key_id inp,
      cr_workload = wl (in_task_type inp) (in_model inp) (in_task_args_json inp),
      cr_prompt_tokens = in_prompt_tokens inp, cr_completion_tokens = in_completion_tokens inp,
      cr_total_tokens = in_total_tokens inp,
      cr_priority_gwei = (case in_priority_gwei inp of None \<Rightarrow> 0 | Some p \<Rightarrow> p),
      cr_token_usage_applicable = in_token_usage_applicable inp, cr_status = in_status inp,
      cr_accepted_at = in_accepted_at inp, cr_completed_at = in_completed_at inp,
      cr_duration_ms = duration_ms (in_accepted_at inp) (in_completed_at inp),
      cr_billed_vram = in_billed_vram inp\<rparr>"

text \<open>The first half: the debit. The result is the amount to write to the ledger, if any.\<close>

definition charge_account :: "db \<Rightarrow> task_call_input \<Rightarrow> int \<Rightarrow> err + db \<times> int option" where
  "charge_account d inp credits =
     (if in_charge inp \<and> in_status inp = TaskCallStatusSuccess \<and> 0 < credits
      then bindE (of_option ErrRecordNotFound (credit_acct d (in_user_id inp))) (\<lambda>account.
        let available = AvailableCredits (Some (ca_balance account)) (Some (ca_locked account));
            chargeCredits = (if available < credits then available else credits) in
        if chargeCredits = 0 then Inr (d, None)
        else Inr (save_account d (account\<lparr>ca_balance := ca_balance account - chargeCredits\<rparr>),
                  Some chargeCredits))
      else Inr (d, None))"

definition create_call_record :: "workload_fn \<Rightarrow> db \<Rightarrow> task_call_input \<Rightarrow> err + db \<times> task_call_record" where
  "create_call_record wl d inp =
     bindE (tbl_create call_record_clash (call_record_of wl inp) (db_call_records d)) (\<lambda>(t, r).
       rejectIf (cr_id r \<in> set (st_pending (db_stats d))) ErrDuplicatedKey
         (Inr (d\<lparr>db_call_records := t,
                 db_stats := (db_stats d)\<lparr>st_pending := st_pending (db_stats d) @ [cr_id r]\<rparr>\<rparr>, r)))"

definition create_credit_event :: "db \<Rightarrow> (nat \<Rightarrow> credit_event) \<Rightarrow> err + db \<times> credit_event" where
  "create_credit_event d mk =
     bindE (tbl_create credit_event_clash mk (db_credit_events d)) (\<lambda>(t, e).
       Inr (d\<lparr>db_credit_events := t\<rparr>, e))"

definition charge_event :: "nat \<Rightarrow> int \<Rightarrow> nat \<Rightarrow> nat \<Rightarrow> credit_event" where
  "charge_event userID amount refID n =
     \<lparr>ce_id = n, ce_user_id = userID, ce_amount = amount, ce_type = CreditEventTypeTaskCharge,
      ce_ref_id = refID, ce_status = CreditEventStatusProcessed\<rparr>"

definition processTaskCallTx :: "workload_fn \<Rightarrow> db \<Rightarrow> task_call_input \<Rightarrow> err + db \<times> nat" where
  "processTaskCallTx wl d inp =
     rejectIf (in_user_id inp = 0) (ErrMsg ''user id is required'')
     (rejectIf (in_project_id inp = 0) (ErrMsg ''project id is required'')
     (rejectIf (in_accepted_at inp = zero_time) (ErrMsg ''accepted_at is required'')
     (rejectIf (in_completed_at inp = zero_time) (ErrMsg ''completed_at is required'')
     (rejectIf (in_completed_at inp < in_accepted_at inp)
        (ErrMsg ''completed_at must not be before accepted_at'')
     (let credits = (case in_credits inp of None \<Rightarrow> 0 | Some c \<Rightarrow> c) in
      rejectIf (credits < 0) (ErrMsg ''credits must be non-negative'')
      (bindE (charge_account d inp credits) (\<lambda>(d1, charged).
       bindE (create_call_record wl d1 inp) (\<lambda>(d2, r).
       case charged of
         None \<Rightarrow> Inr (d2, cr_id r)
       | Some amount \<Rightarrow>
           bindE (duplicate_as (ErrMsg ''credit event already exists for task call'')
               (create_credit_event d2 (charge_event (in_user_id inp) amount (cr_id r)))) (\<lambda>(d3, _).
             Inr (d3, cr_id r))))))))))"

text \<open>The transaction of its own; a failure leaves the database as it was.\<close>

definition ProcessTaskCall :: "workload_fn \<Rightarrow> db \<Rightarrow> task_call_input \<Rightarrow> db \<times> (err + nat)" where
  "ProcessTaskCall wl d inp =
     (case processTaskCallTx wl d inp of
        Inl e \<Rightarrow> (d, Inl e)
      | Inr (d', recordID) \<Rightarrow> (d', Inr recordID))"

subsection \<open>Properties\<close>

lemma create_credit_event_Inr:
  "create_credit_event d mk = Inr (d', e) \<longleftrightarrow>
     (\<exists>t. tbl_create credit_event_clash mk (db_credit_events d) = Inr (t, e) \<and> d' = d\<lparr>db_credit_events := t\<rparr>)"
  by (auto simp: create_credit_event_def bindE_Inr_iff)

lemma event_off:
  assumes "ledger_off bo lo d" "create_credit_event d mk = Inr (d', e)"
  shows "ledger_off (bo(ce_user_id e := bo (ce_user_id e) - event_delta e)) lo d'"
  using assms ledger_off_event by (auto simp: create_credit_event_Inr)

lemma create_call_record_Inr:
  "create_call_record wl d inp = Inr (d', r) \<longleftrightarrow>
     r = call_record_of wl inp (next_id (db_call_records d)) \<and>
     (\<forall>x \<in> set (rows (db_call_records d)). \<not> call_record_clash r x) \<and>
     cr_id r \<notin> set (st_pending (db_stats d)) \<and>
     d' = d\<lparr>db_call_records := \<lparr>rows = rows (db_call_records d) @ [r], next_id = Suc (next_id (db_call_records d))\<rparr>,
            db_stats := (db_stats d)\<lparr>st_pending := st_pending (db_stats d) @ [cr_id r]\<rparr>\<rparr>"
  by (auto simp: create_call_record_def res_simps)

lemma record_off: "ledger_off bo lo d \<Longrightarrow> create_call_record wl d inp = Inr (d', r) \<Longrightarrow> ledger_off bo lo d'"
  by (erule ledger_off_cong) (auto simp: create_call_record_Inr)

definition chargeable :: "task_call_input \<Rightarrow> int option" where
  "chargeable inp =
     (case in_credits inp of
        None \<Rightarrow> None
      | Some c \<Rightarrow> if in_charge inp \<and> in_status inp = TaskCallStatusSuccess \<and> 0 < c then Some c else None)"

definition credits_of :: "task_call_input \<Rightarrow> int" where
  "credits_of inp = (case in_credits inp of None \<Rightarrow> 0 | Some c \<Rightarrow> c)"

lemma charge_off:
  assumes inv: "ledger_off bo lo d" and ch: "charge_account d inp c = Inr (d', amt)"
  shows "ledger_off (case amt of None \<Rightarrow> bo | Some n \<Rightarrow> bo(in_user_id inp := bo (in_user_id inp) - n)) lo d'"
proof (cases amt)
  case None
  with inv ch show ?thesis by (auto simp: charge_account_def res_simps Let_def split: if_splits)
next
  case (Some n)
  let ?u = "in_user_id inp"
  obtain a where a: "credit_acct d ?u = Some a" "n = min c (max 0 (ca_balance a - ca_locked a))"
    "d' = save_account d (a\<lparr>ca_balance := ca_balance a - n\<rparr>)"
    using ch Some by (auto simp: charge_account_def res_simps Let_def min_def split: if_splits)
  note la = ledger_offD [OF inv a(1)]
  have "ledger_off (bo(?u := bo ?u + (ca_balance a - n) - ca_balance a))
      (lo(?u := lo ?u + ca_locked a - ca_locked a)) d'"
    using ledger_off_save [OF inv a(1), of "a\<lparr>ca_balance := ca_balance a - n\<rparr>"] a la by simp
  with Some show ?thesis by (simp add: algebra_simps)
qed

lemma processTaskCallTx_Inr:
  assumes "processTaskCallTx wl d inp = Inr (d', rid)"
  obtains d1 amt d2 r where
    "charge_account d inp (credits_of inp) = Inr (d1, amt)" "0 \<le> credits_of inp"
    "create_call_record wl d1 inp = Inr (d2, r)" "rid = cr_id r"
    "case amt of None \<Rightarrow> d' = d2
     | Some n \<Rightarrow> \<exists>e. create_credit_event d2 (charge_event (in_user_id inp) n rid) = Inr (d', e)"
    "in_user_id inp \<noteq> 0" "in_project_id inp \<noteq> 0" "in_accepted_at inp \<le> in_completed_at inp"
  using assms
  by (auto simp: processTaskCallTx_def res_simps credits_of_def split: option.splits prod.splits)

text \<open>The transaction keeps the ledger balanced, whatever part of a larger transaction came before.\<close>

lemma process_off:
  assumes inv: "ledger_off bo lo d" and p: "processTaskCallTx wl d inp = Inr (d', rid)"
  shows "ledger_off bo lo d'"
proof -
  obtain d1 amt d2 r where s:
    "charge_account d inp (credits_of inp) = Inr (d1, amt)" "create_call_record wl d1 inp = Inr (d2, r)"
    "case amt of None \<Rightarrow> d' = d2
     | Some n \<Rightarrow> \<exists>e. create_credit_event d2 (charge_event (in_user_id inp) n rid) = Inr (d', e)"
    using p by (rule processTaskCallTx_Inr)
  note off2 = record_off [OF charge_off [OF inv s(1)] s(2)]
  show ?thesis
  proof (cases amt)
    case None
    with off2 s(3) show ?thesis by simp
  next
    case (Some n)
    then obtain e where e: "create_credit_event d2 (charge_event (in_user_id inp) n rid) = Inr (d', e)"
      using s(3) by auto
    then have "ce_user_id e = in_user_id inp" "event_delta e = - n"
      by (auto simp: create_credit_event_Inr res_simps charge_event_def event_delta_def)
    with event_off [OF off2 e] Some show ?thesis by simp
  qed
qed

lemma create_call_record_sel:
  assumes "create_call_record wl d inp = Inr (d', r)"
  shows "credit_acct d' = credit_acct d \<and> db_credit_events d' = db_credit_events d \<and>
    db_task_jobs d' = db_task_jobs d \<and> rows (db_call_records d') = rows (db_call_records d) @ [r]"
  using assms by (auto simp: create_call_record_Inr credit_acct_def fun_eq_iff)

lemma create_credit_event_sel:
  assumes "create_credit_event d mk = Inr (d', e)"
  shows "credit_acct d' = credit_acct d \<and> db_call_records d' = db_call_records d \<and>
    rows (db_credit_events d') = rows (db_credit_events d) @ [e] \<and> db_task_jobs d' = db_task_jobs d \<and>
    e = mk (next_id (db_credit_events d))"
  using assms by (auto simp: create_credit_event_Inr credit_acct_def fun_eq_iff res_simps)

lemma charge_account_jobs:
  assumes "charge_account d inp c = Inr (d', amt)"
  shows "db_task_jobs d' = db_task_jobs d \<and> db_call_records d' = db_call_records d"
  using assms by (auto simp: charge_account_def res_simps Let_def save_account_def split: if_splits)

lemma process_jobs:
  assumes "processTaskCallTx wl d inp = Inr (d', rid)"
  shows "db_task_jobs d' = db_task_jobs d"
  using assms
  by (rule processTaskCallTx_Inr)
     (auto dest!: charge_account_jobs create_call_record_sel create_credit_event_sel split: option.splits)

lemma charge_account_exact:
  assumes inv: "ledger_inv d" and ch: "charge_account d inp (credits_of inp) = Inr (d', amt)"
  shows "case chargeable inp of
      None \<Rightarrow> d' = d \<and> amt = None
    | Some c \<Rightarrow> \<exists>a n. credit_acct d (in_user_id inp) = Some a \<and> n = min c (ca_balance a - ca_locked a) \<and> 0 \<le> n \<and>
        credit_acct d' = (credit_acct d)(in_user_id inp \<mapsto> a\<lparr>ca_balance := ca_balance a - n\<rparr>) \<and>
        db_credit_events d' = db_credit_events d \<and> amt = (if n = 0 then None else Some n)"
proof (cases "chargeable inp")
  case None
  with ch show ?thesis
    by (auto simp: charge_account_def chargeable_def credits_of_def split: option.splits if_splits)
next
  case (Some c)
  let ?u = "in_user_id inp"
  have c: "credits_of inp = c" "0 < c"
    using Some by (auto simp: chargeable_def credits_of_def split: option.splits if_splits)
  obtain a where a: "credit_acct d ?u = Some a"
    using ch Some by (auto simp: charge_account_def chargeable_def credits_of_def res_simps split: option.splits if_splits)
  define n where "n = min c (ca_balance a - ca_locked a)"
  note la = ledger_invD [OF inv a]
  have n: "0 \<le> n" using la c by (simp add: n_def)
  have res: "d' = (if n = 0 then d else save_account d (a\<lparr>ca_balance := ca_balance a - n\<rparr>)) \<and>
      amt = (if n = 0 then None else Some n)"
    using ch Some a la c
    by (auto simp: charge_account_def chargeable_def credits_of_def n_def min_def Let_def
        split: option.splits if_splits)
  have "credit_acct (save_account d (a\<lparr>ca_balance := ca_balance a - n\<rparr>)) =
      (credit_acct d)(?u \<mapsto> a\<lparr>ca_balance := ca_balance a - n\<rparr>)"
    using credit_acct_save [OF ledger_inv_wf [OF inv] a, of "a\<lparr>ca_balance := ca_balance a - n\<rparr>"] la(5)
    by (simp add: fun_eq_iff)
  then have "credit_acct d (in_user_id inp) = Some a \<and> n = min c (ca_balance a - ca_locked a) \<and> 0 \<le> n \<and>
      credit_acct d' = (credit_acct d)(in_user_id inp \<mapsto> a\<lparr>ca_balance := ca_balance a - n\<rparr>) \<and>
      db_credit_events d' = db_credit_events d \<and> amt = (if n = 0 then None else Some n)"
    using res a n by (auto simp: n_def fun_eq_iff)
  with Some show ?thesis by auto
qed

lemma process_exact:
  assumes "ledger_inv d" "processTaskCallTx wl d inp = Inr (d', rid)"
  shows "ledger_inv d' \<and>
    (\<exists>r. rows (db_call_records d') = rows (db_call_records d) @ [r] \<and> cr_id r = rid) \<and>
    (case chargeable inp of
       None \<Rightarrow> credit_acct d' = credit_acct d \<and> rows (db_credit_events d') = rows (db_credit_events d)
     | Some c \<Rightarrow> \<exists>a n. credit_acct d (in_user_id inp) = Some a \<and> n = min c (ca_balance a - ca_locked a) \<and> 0 \<le> n \<and>
         credit_acct d' = (credit_acct d)(in_user_id inp \<mapsto> a\<lparr>ca_balance := ca_balance a - n\<rparr>) \<and>
         rows (db_credit_events d') = rows (db_credit_events d) @
           (if n = 0 then [] else [charge_event (in_user_id inp) n rid (next_id (db_credit_events d))]))"
proof -
  note p = assms(2)
  obtain d1 amt d2 r where s:
    "charge_account d inp (credits_of inp) = Inr (d1, amt)" "create_call_record wl d1 inp = Inr (d2, r)"
    "rid = cr_id r"
    "case amt of None \<Rightarrow> d' = d2
     | Some n \<Rightarrow> \<exists>e. create_credit_event d2 (charge_event (in_user_id inp) n rid) = Inr (d', e)"
    using p by (rule processTaskCallTx_Inr)
  note r = create_call_record_sel [OF s(2)]
  have fin: "credit_acct d' = credit_acct d1" "rows (db_call_records d') = rows (db_call_records d) @ [r]"
    "rows (db_credit_events d') = rows (db_credit_events d1) @
       (case amt of None \<Rightarrow> [] | Some n \<Rightarrow> [charge_event (in_user_id inp) n rid (next_id (db_credit_events d1))])"
    using s(4) r charge_account_jobs [OF s(1)]
    by (auto dest: create_credit_event_sel split: option.splits)
  have "ledger_inv d'"
    using process_off [OF assms(1) [unfolded ledger_inv_def] p] by (simp add: ledger_inv_def)
  moreover have "case chargeable inp of
       None \<Rightarrow> credit_acct d' = credit_acct d \<and> rows (db_credit_events d') = rows (db_credit_events d)
     | Some c \<Rightarrow> \<exists>a n. credit_acct d (in_user_id inp) = Some a \<and> n = min c (ca_balance a - ca_locked a) \<and> 0 \<le> n \<and>
         credit_acct d' = (credit_acct d)(in_user_id inp \<mapsto> a\<lparr>ca_balance := ca_balance a - n\<rparr>) \<and>
         rows (db_credit_events d') = rows (db_credit_events d) @
           (if n = 0 then [] else [charge_event (in_user_id inp) n rid (next_id (db_credit_events d))])"
    using charge_account_exact [OF assms(1) s(1)] fin(1,3) by (cases "chargeable inp") auto
  ultimately show ?thesis using fin(2) s(3) by blast
qed

text \<open>C6. A recorded call is charged exactly: on a balanced ledger, a call that is recorded
  leaves the ledger balanced and adds one call record. If the call is not chargeable
  (no charge asked, failed, or no Credits), no account and no event changes. Otherwise the
  debit is the computed Credits or, if that is less, the balance that is not locked; the
  account of the user loses exactly that, every other account stays, and the event log
  gains one charge event of exactly that amount, or none when it is zero.\<close>

theorem charge_exact:
  assumes "ledger_inv d" "ProcessTaskCall wl d inp = (d', Inr rid)"
  shows "ledger_inv d' \<and>
    (\<exists>r. rows (db_call_records d') = rows (db_call_records d) @ [r] \<and> cr_id r = rid) \<and>
    (case chargeable inp of
       None \<Rightarrow> credit_acct d' = credit_acct d \<and> rows (db_credit_events d') = rows (db_credit_events d)
     | Some c \<Rightarrow> \<exists>a n. credit_acct d (in_user_id inp) = Some a \<and> n = min c (ca_balance a - ca_locked a) \<and> 0 \<le> n \<and>
         credit_acct d' = (credit_acct d)(in_user_id inp \<mapsto> a\<lparr>ca_balance := ca_balance a - n\<rparr>) \<and>
         rows (db_credit_events d') = rows (db_credit_events d) @
           (if n = 0 then [] else [charge_event (in_user_id inp) n rid (next_id (db_credit_events d))]))"
  using assms by (intro process_exact) (auto simp: ProcessTaskCall_def split: sum.splits)

definition no_workload :: workload_fn where
  "no_workload t m args = \<lparr>wf_model_cache_hash = [], wf_execution_dtype = [], wf_quantization_config = [],
     wf_components = [], wf_image_width = 0, wf_image_height = 0, wf_image_steps = 0, wf_image_count = 0\<rparr>"

text \<open>A successful call of user 1 priced at 130 Credits.\<close>

definition sample_call :: task_call_input where
  "sample_call = \<lparr>in_user_id = 1, in_project_id = 1, in_task_job_id = Some 5, in_task_type = TaskTypeLLM,
     in_api_type = TaskAPITypeChatCompletions, in_model = ''m'', in_execution_source = [],
     in_shared_api_key_id = None, in_task_args_json = ''{}'', in_prompt_tokens = 10,
     in_completion_tokens = 20, in_total_tokens = 30, in_priority_gwei = Some 7,
     in_token_usage_applicable = True, in_status = TaskCallStatusSuccess, in_credits = Some 130,
     in_accepted_at = 1000, in_completed_at = 5001000, in_billed_vram = 24, in_charge = True\<rparr>"

lemma sample_call_returns: "\<exists>d'. ProcessTaskCall no_workload sample_db sample_call = (d', Inr 1)"
  by (simp add: ProcessTaskCall_def processTaskCallTx_def sample_call_def zero_time_def charge_account_def
      credit_acct_def tbl_lookup_def tbl_first_def sample_db_def create_call_record_def tbl_create_def
      call_record_of_def empty_db_def empty_stats_def create_credit_event_def charge_event_def
      credit_event_clash_def duplicate_as_def Let_def save_account_def)

theorem charge_exact_witness:
  "\<exists>d'. ProcessTaskCall no_workload sample_db sample_call = (d', Inr 1) \<and> ledger_inv d' \<and>
     map_option ca_balance (credit_acct d' 1) = Some 0"
proof -
  obtain d' where d': "ProcessTaskCall no_workload sample_db sample_call = (d', Inr 1)"
    using sample_call_returns by blast
  have "chargeable sample_call = Some 130" "in_user_id sample_call = 1"
    by (simp_all add: chargeable_def sample_call_def)
  moreover have "credit_acct sample_db 1 = Some \<lparr>ca_id = 1, ca_user_id = 1, ca_balance = 100, ca_locked = 0\<rparr>"
    by (simp add: sample_db_def credit_acct_def tbl_lookup_def tbl_first_def)
  ultimately show ?thesis using charge_exact [OF sample_db_inv d'] d' by auto
qed

text \<open>A job is charged at most once: once a call record names a job, recording another
  call for that job fails and changes nothing, whatever the rest of the input says.\<close>

theorem charge_once_per_job:
  assumes "r \<in> set (rows (db_call_records d))" "cr_task_job_id r = Some j" "in_task_job_id inp = Some j"
  shows "\<exists>e. ProcessTaskCall wl d inp = (d, Inl e)"
proof -
  have "processTaskCallTx wl d inp \<noteq> Inr (d', rid)" for d' rid
  proof
    assume "processTaskCallTx wl d inp = Inr (d', rid)"
    then obtain d1 amt d2 s where
      "charge_account d inp (credits_of inp) = Inr (d1, amt)" "create_call_record wl d1 inp = Inr (d2, s)"
      by (rule processTaskCallTx_Inr)
    then show False
      using assms charge_account_jobs [of d inp "credits_of inp" d1 amt]
      by (auto simp: create_call_record_Inr call_record_clash_def same_not_null_def call_record_of_def)
  qed
  then show ?thesis by (cases "processTaskCallTx wl d inp") (auto simp: ProcessTaskCall_def)
qed

end
