(* ===== verification/Deposits.thy ===== *)
theory Deposits
  imports Task_Calls
begin

text \<open>
  Deposits and the reward of the referrer (\<open>service/credits.go\<close>, the reward part of
  \<open>service/referral.go\<close>): conversion of a token amount into Credits, the idempotent
  recording of a deposit, and the reward by purchase-bonus tiers.
\<close>

text \<open>\<open>amount * creditsPerToken / 10^decimals\<close>; \<open>None\<close> is a nil amount.\<close>

definition ConvertTokenAmountToCredits :: "int option \<Rightarrow> nat \<Rightarrow> u64 \<Rightarrow> err + int" where
  "ConvertTokenAmountToCredits amount decimals creditsPerToken =
     (case amount of
        None \<Rightarrow> Inl (ErrMsg ''token amount must be positive'')
      | Some a \<Rightarrow>
          rejectIf (a \<le> 0) (ErrMsg ''token amount must be positive'')
          (rejectIf (creditsPerToken = 0) (ErrMsg ''credits_per_token must be positive'')
          (Inr (a * uint creditsPerToken div 10 ^ decimals))))"

record process_deposit_input =
  pd_user_id :: nat
  pd_network :: string
  pd_token :: string
  pd_tx_hash :: string
  pd_log_index :: nat
  pd_from_address :: string
  pd_amount :: "int option"
  pd_credits :: "int option"

definition CountInviteePurchases :: "db \<Rightarrow> nat \<Rightarrow> nat \<Rightarrow> nat" where
  "CountInviteePurchases d referrerUserID excludeDepositID =
     (let inviteeIDs = map rb_invitee_user_id
            (tbl_where (\<lambda>b. rb_referrer_user_id b = referrerUserID) (db_referral_bindings d)) in
      length (tbl_where (\<lambda>p. dep_user_id p \<in> set inviteeIDs \<and>
                (0 < excludeDepositID \<longrightarrow> dep_id p \<noteq> excludeDepositID)) (db_deposits d)))"

definition floorCreditsTimesRatio :: "int option \<Rightarrow> rat option \<Rightarrow> int" where
  "floorCreditsTimesRatio credits ratio =
     (case (credits, ratio) of
        (Some c, Some r) \<Rightarrow> if r \<le> 0 \<or> c \<le> 0 then 0 else rat_div (of_int c * r)
      | _ \<Rightarrow> 0)"

definition reward_event :: "nat \<Rightarrow> int \<Rightarrow> nat \<Rightarrow> nat \<Rightarrow> credit_event" where
  "reward_event userID amount refID n =
     \<lparr>ce_id = n, ce_user_id = userID, ce_amount = amount, ce_type = CreditEventTypeReferralReward,
      ce_ref_id = refID, ce_status = CreditEventStatusProcessed\<rparr>"

definition reward_row_of :: "referral_binding \<Rightarrow> deposit \<Rightarrow> int \<Rightarrow> int \<Rightarrow> u64 \<Rightarrow> u64 option \<Rightarrow> rat \<Rightarrow> nat \<Rightarrow> referral_reward" where
  "reward_row_of binding deposit rewardInt extraAmount prior tierMin extraRatio n =
     \<lparr>rr_id = n, rr_referrer_user_id = rb_referrer_user_id binding,
      rr_invitee_user_id = Some (dep_user_id deposit), rr_kind = ReferralRewardKindDepositReward,
      rr_amount = rewardInt, rr_deposit_id = Some (dep_id deposit), rr_deposit_credits = dep_credits deposit,
      rr_prior_purchase_count = prior, rr_tier_min_purchases = tierMin,
      rr_extra_ratio = FormatRatio extraRatio, rr_extra_amount = extraAmount\<rparr>"

text \<open>The rows written once the reward is known to be positive.\<close>

definition write_referral_reward ::
  "db \<Rightarrow> referral_binding \<Rightarrow> credit_account \<Rightarrow> int \<Rightarrow> (nat \<Rightarrow> referral_reward) \<Rightarrow> err + db" where
  "write_referral_reward d binding referrerAccount rewardInt mk =
     (case tbl_create referral_reward_clash mk (db_referral_rewards d) of
        Inl e \<Rightarrow> if e = ErrDuplicatedKey then Inr d else Inl e
      | Inr (t, reward) \<Rightarrow>
          bindE (duplicate_as (ErrMsg ''credit event already exists for referral reward'')
              (create_credit_event (d\<lparr>db_referral_rewards := t\<rparr>)
                 (reward_event (rb_referrer_user_id binding) rewardInt (rr_id reward)))) (\<lambda>(d2, _).
          Inr (save_account d2 (referrerAccount\<lparr>ca_balance := ca_balance referrerAccount + rewardInt\<rparr>))))"

definition applyDepositReferralReward :: "credits_config \<Rightarrow> db \<Rightarrow> deposit \<Rightarrow> err + db" where
  "applyDepositReferralReward cfg d deposit =
     (case tbl_lookup rb_invitee_user_id (dep_user_id deposit) (db_referral_bindings d) of
        None \<Rightarrow> Inr d
      | Some binding \<Rightarrow>
          bindE (of_option ErrRecordNotFound (credit_acct d (rb_referrer_user_id binding))) (\<lambda>referrerAccount.
          let prior = word_of_nat (CountInviteePurchases d (rb_referrer_user_id binding) (dep_id deposit)) in
          bindE (ParseDepositRewardRatio cfg) (\<lambda>baseRatio.
          bindE (PurchaseBonusExtra cfg prior) (\<lambda>(extraRatio, tierMin).
          let effectiveRatio = baseRatio + extraRatio in
          if effectiveRatio \<le> 0 then Inr d
          else
            let rewardInt = floorCreditsTimesRatio (Some (dep_credits deposit)) (Some effectiveRatio) in
            if rewardInt \<le> 0 then Inr d
            else
              let baseAmount = floorCreditsTimesRatio (Some (dep_credits deposit)) (Some baseRatio);
                  extraAmount = (if rewardInt - baseAmount < 0 then 0 else rewardInt - baseAmount) in
              write_referral_reward d binding referrerAccount rewardInt
                (reward_row_of binding deposit rewardInt extraAmount prior tierMin extraRatio)))))"

definition deposit_row_of :: "process_deposit_input \<Rightarrow> int \<Rightarrow> int \<Rightarrow> nat \<Rightarrow> deposit" where
  "deposit_row_of inp amount credits n =
     \<lparr>dep_id = n, dep_user_id = pd_user_id inp, dep_network = pd_network inp, dep_token = pd_token inp,
      dep_tx_hash = pd_tx_hash inp, dep_log_index = pd_log_index inp,
      dep_from_address = pd_from_address inp, dep_amount = amount, dep_credits = credits,
      dep_status = DepositStatusProcessed\<rparr>"

definition deposit_event :: "nat \<Rightarrow> int \<Rightarrow> nat \<Rightarrow> nat \<Rightarrow> credit_event" where
  "deposit_event userID amount refID n =
     \<lparr>ce_id = n, ce_user_id = userID, ce_amount = amount, ce_type = CreditEventTypeDeposit,
      ce_ref_id = refID, ce_status = CreditEventStatusProcessed\<rparr>"

definition deposit_tx :: "credits_config \<Rightarrow> db \<Rightarrow> process_deposit_input \<Rightarrow> int \<Rightarrow> int \<Rightarrow> err + db" where
  "deposit_tx cfg d inp amount credits =
     (case tbl_create deposit_clash (deposit_row_of inp amount credits) (db_deposits d) of
        Inl e \<Rightarrow> if e = ErrDuplicatedKey then Inr d else Inl e
      | Inr (t, deposit) \<Rightarrow>
          bindE (duplicate_as (ErrMsg ''credit event already exists for deposit'')
              (create_credit_event (d\<lparr>db_deposits := t\<rparr>)
                 (deposit_event (pd_user_id inp) credits (dep_id deposit)))) (\<lambda>(d2, _).
          bindE (of_option ErrRecordNotFound (credit_acct d2 (pd_user_id inp))) (\<lambda>account.
          applyDepositReferralReward cfg
            (save_account d2 (account\<lparr>ca_balance := ca_balance account + credits\<rparr>)) deposit)))"

definition ProcessDeposit :: "credits_config \<Rightarrow> db \<Rightarrow> process_deposit_input \<Rightarrow> err + db" where
  "ProcessDeposit cfg d inp =
     rejectIf (pd_user_id inp = 0) (ErrMsg ''user id is required'')
     (case pd_amount inp of
        None \<Rightarrow> Inl (ErrMsg ''deposit amount must be positive'')
      | Some amount \<Rightarrow>
          rejectIf (amount \<le> 0) (ErrMsg ''deposit amount must be positive'')
          (case pd_credits inp of
             None \<Rightarrow> Inl (ErrMsg ''deposit credits must be positive'')
           | Some credits \<Rightarrow>
               rejectIf (credits \<le> 0) (ErrMsg ''deposit credits must be positive'')
               (deposit_tx cfg d inp amount credits)))"

subsection \<open>Arithmetic\<close>

lemma div_less_ub: "0 < m \<Longrightarrow> x < q * m \<Longrightarrow> x div m < q" for x m q :: int
  by (smt (verit) div_mult_mod_eq mult_right_mono pos_mod_sign)

lemma floorCreditsTimesRatio_Some:
  "0 \<le> c \<Longrightarrow> 0 \<le> r \<Longrightarrow> floorCreditsTimesRatio (Some c) (Some r) = \<lfloor>of_int c * r\<rfloor>"
  by (auto simp: floorCreditsTimesRatio_def)

lemma floorCreditsTimesRatio_bounds:
  assumes "0 \<le> c" "0 \<le> r" "r \<le> 1"
  shows "0 \<le> floorCreditsTimesRatio (Some c) (Some r)" "floorCreditsTimesRatio (Some c) (Some r) \<le> c"
proof -
  have "of_int c * r \<le> of_int c * 1" using assms by (intro mult_left_mono) auto
  then have "\<lfloor>of_int c * r\<rfloor> \<le> \<lfloor>of_int c :: rat\<rfloor>" by (intro floor_mono) simp
  then show "0 \<le> floorCreditsTimesRatio (Some c) (Some r)" "floorCreditsTimesRatio (Some c) (Some r) \<le> c"
    using assms by (simp_all add: floorCreditsTimesRatio_Some)
qed

text \<open>C35. Converting a token amount never credits more than it is worth: the result is the
  largest whole number of Credits whose token value does not exceed the amount, for every
  positive amount and rate; and splitting an amount in two never gains a Credit.\<close>

theorem convert_token_exact:
  assumes "0 < a" "0 < b" "r \<noteq> 0"
  shows "\<exists>c ca cb. ConvertTokenAmountToCredits (Some (a + b)) k r = Inr c \<and>
    ConvertTokenAmountToCredits (Some a) k r = Inr ca \<and> ConvertTokenAmountToCredits (Some b) k r = Inr cb \<and>
    c * 10 ^ k \<le> (a + b) * uint r \<and> (a + b) * uint r < (c + 1) * 10 ^ k \<and> ca + cb \<le> c \<and> c \<le> ca + cb + 1"
proof -
  define m :: int where "m = 10 ^ k"
  have m: "0 < m" by (simp add: m_def)
  let ?x = "a * uint r" and ?y = "b * uint r"
  have split: "x div m * m \<le> x \<and> x < (x div m + 1) * m" for x
    using pos_mod_bound [OF m, of x] pos_mod_sign [OF m, of x] div_mult_mod_eq [of x m]
    unfolding distrib_right by linarith
  have sum: "(?x + ?y) div m = ?x div m + ?y div m + (?x mod m + ?y mod m) div m"
    by (rule div_add1_eq)
  have "0 \<le> (?x mod m + ?y mod m) div m" using m by (simp add: pos_imp_zdiv_nonneg_iff)
  moreover have "?x mod m + ?y mod m < 2 * m"
    using pos_mod_bound [OF m, of ?x] pos_mod_bound [OF m, of ?y] by linarith
  then have "(?x mod m + ?y mod m) div m < 2" by (rule div_less_ub [OF m])
  moreover have "(a + b) * uint r = ?x + ?y" by (simp add: algebra_simps)
  ultimately show ?thesis
    using assms split [of "?x + ?y"] sum by (simp add: ConvertTokenAmountToCredits_def m_def)
qed

theorem convert_token_exact_witness:
  "\<exists>c. ConvertTokenAmountToCredits (Some (1500000000000000000 + 700000000000000000)) 18 3 = Inr c \<and>
     c * 10 ^ 18 \<le> (1500000000000000000 + 700000000000000000) * uint (3 :: u64)"
  using convert_token_exact [of 1500000000000000000 700000000000000000 3 18] by auto

subsection \<open>The ledger\<close>

lemma add_credits_off:
  assumes inv: "ledger_off bo lo d" and a: "credit_acct d u = Some a" and n: "0 \<le> n"
  shows "ledger_off (bo(u := bo u + n)) lo (save_account d (a\<lparr>ca_balance := ca_balance a + n\<rparr>))"
proof -
  note la = ledger_offD [OF inv a]
  have "ledger_off (bo(u := bo u + (ca_balance a + n) - ca_balance a)) (lo(u := lo u + ca_locked a - ca_locked a))
      (save_account d (a\<lparr>ca_balance := ca_balance a + n\<rparr>))"
    using ledger_off_save [OF inv a, of "a\<lparr>ca_balance := ca_balance a + n\<rparr>"] la n by simp
  then show ?thesis by (simp add: algebra_simps)
qed

lemma write_referral_reward_off:
  assumes inv: "ledger_off bo lo d" and a: "credit_acct d (rb_referrer_user_id b) = Some a"
    and n: "0 < n" and w: "write_referral_reward d b a n mk = Inr d'"
  shows "ledger_off bo lo d'"
proof (cases "tbl_create referral_reward_clash mk (db_referral_rewards d)")
  case (Inl e)
  with w inv show ?thesis by (auto simp: write_referral_reward_def split: if_splits)
next
  case (Inr p)
  obtain t r where p: "p = (t, r)" by (cases p)
  let ?u = "rb_referrer_user_id b"
  obtain d2 e where e: "create_credit_event (d\<lparr>db_referral_rewards := t\<rparr>) (reward_event ?u n (rr_id r)) = Inr (d2, e)"
    and d': "d' = save_account d2 (a\<lparr>ca_balance := ca_balance a + n\<rparr>)"
    using w Inr p by (auto simp: write_referral_reward_def res_simps)
  have "ledger_off bo lo (d\<lparr>db_referral_rewards := t\<rparr>)" by (rule ledger_off_cong [OF inv]) simp_all
  from event_off [OF this e] have "ledger_off (bo(?u := bo ?u - n)) lo d2"
    using create_credit_event_sel [OF e] by (simp add: reward_event_def event_delta_def)
  moreover have "credit_acct d2 ?u = Some a"
    using create_credit_event_sel [OF e] a by (simp add: credit_acct_def)
  ultimately show ?thesis using add_credits_off [of "bo(?u := bo ?u - n)" lo d2 ?u a n] n d' by simp
qed

lemma referral_reward_off:
  assumes inv: "ledger_off bo lo d" and r: "applyDepositReferralReward cfg d dep = Inr d'"
  shows "ledger_off bo lo d'"
proof (cases "tbl_lookup rb_invitee_user_id (dep_user_id dep) (db_referral_bindings d)")
  case None
  with inv r show ?thesis by (simp add: applyDepositReferralReward_def)
next
  case (Some b)
  with r consider "d' = d"
    | a n mk where "credit_acct d (rb_referrer_user_id b) = Some a" "0 < n" "write_referral_reward d b a n mk = Inr d'"
    by (auto simp: applyDepositReferralReward_def res_simps Let_def not_le split: if_splits)
  then show ?thesis using inv write_referral_reward_off by cases auto
qed

lemma ProcessDeposit_Inr:
  assumes "ProcessDeposit cfg d inp = Inr d'"
  obtains amount credits where "pd_amount inp = Some amount" "0 < amount" "pd_credits inp = Some credits" "0 < credits"
    "pd_user_id inp \<noteq> 0" "deposit_tx cfg d inp amount credits = Inr d'"
  using assms by (auto simp: ProcessDeposit_def res_simps split: option.splits)

lemma deposit_tx_fresh:
  assumes "deposit_tx cfg d inp amount credits = Inr d'"
    "tbl_create deposit_clash (deposit_row_of inp amount credits) (db_deposits d) = Inr (t, dep)"
  obtains d2 e a where
    "create_credit_event (d\<lparr>db_deposits := t\<rparr>) (deposit_event (pd_user_id inp) credits (dep_id dep)) = Inr (d2, e)"
    "credit_acct d2 (pd_user_id inp) = Some a"
    "applyDepositReferralReward cfg (save_account d2 (a\<lparr>ca_balance := ca_balance a + credits\<rparr>)) dep = Inr d'"
  using assms by (auto simp: deposit_tx_def res_simps split: sum.splits)

lemma deposit_tx_duplicate:
  assumes "tbl_create deposit_clash (deposit_row_of inp amount credits) (db_deposits d) = Inl e"
  shows "deposit_tx cfg d inp amount credits = Inr d"
proof -
  have "e = ErrDuplicatedKey" using assms by (auto simp: res_simps)
  with assms show ?thesis by (simp add: deposit_tx_def)
qed

lemma deposit_off:
  assumes inv: "ledger_off bo lo d" and p: "ProcessDeposit cfg d inp = Inr d'"
  shows "ledger_off bo lo d'"
proof -
  obtain amount credits where p: "0 < credits" "deposit_tx cfg d inp amount credits = Inr d'"
    using p by (rule ProcessDeposit_Inr)
  show ?thesis
  proof (cases "tbl_create deposit_clash (deposit_row_of inp amount credits) (db_deposits d)")
    case (Inl e)
    with p inv show ?thesis by (simp add: deposit_tx_duplicate)
  next
    case (Inr q)
    obtain t dep where q: "q = (t, dep)" by (cases q)
    let ?u = "pd_user_id inp"
    obtain d2 e a where s:
      "create_credit_event (d\<lparr>db_deposits := t\<rparr>) (deposit_event ?u credits (dep_id dep)) = Inr (d2, e)"
      "credit_acct d2 ?u = Some a"
      "applyDepositReferralReward cfg (save_account d2 (a\<lparr>ca_balance := ca_balance a + credits\<rparr>)) dep = Inr d'"
      using p(2) Inr q by (auto elim: deposit_tx_fresh)
    have "ledger_off bo lo (d\<lparr>db_deposits := t\<rparr>)" by (rule ledger_off_cong [OF inv]) simp_all
    from event_off [OF this s(1)] have "ledger_off (bo(?u := bo ?u - credits)) lo d2"
      using create_credit_event_sel [OF s(1)] by (simp add: deposit_event_def event_delta_def)
    from add_credits_off [OF this s(2), of credits] p(1)
    have "ledger_off bo lo (save_account d2 (a\<lparr>ca_balance := ca_balance a + credits\<rparr>))" by simp
    then show ?thesis using s(3) by (rule referral_reward_off)
  qed
qed

lemma referral_reward_deposits:
  assumes "applyDepositReferralReward cfg d dep = Inr d'"
  shows "db_deposits d' = db_deposits d"
  using assms
  by (auto simp: applyDepositReferralReward_def write_referral_reward_def res_simps Let_def
      save_account_def create_credit_event_Inr split: option.splits sum.splits if_splits)

lemma deposit_recorded:
  assumes "ProcessDeposit cfg d inp = Inr d1"
  shows "\<exists>x \<in> set (rows (db_deposits d1)). dep_network x = pd_network inp \<and>
    dep_tx_hash x = pd_tx_hash inp \<and> dep_log_index x = pd_log_index inp"
proof -
  obtain amount credits where p: "deposit_tx cfg d inp amount credits = Inr d1"
    using assms by (rule ProcessDeposit_Inr)
  show ?thesis
  proof (cases "tbl_create deposit_clash (deposit_row_of inp amount credits) (db_deposits d)")
    case (Inl e)
    with p deposit_tx_duplicate [OF Inl, of cfg] show ?thesis
      by (auto simp: res_simps deposit_clash_def deposit_row_of_def)
  next
    case (Inr q)
    obtain t dep where q: "q = (t, dep)" by (cases q)
    obtain d2 e a where s:
      "create_credit_event (d\<lparr>db_deposits := t\<rparr>) (deposit_event (pd_user_id inp) credits (dep_id dep)) = Inr (d2, e)"
      "applyDepositReferralReward cfg (save_account d2 (a\<lparr>ca_balance := ca_balance a + credits\<rparr>)) dep = Inr d1"
      using p Inr q by (auto elim: deposit_tx_fresh)
    have "db_deposits d1 = t"
      using referral_reward_deposits [OF s(2)] s(1) by (auto simp: save_account_def create_credit_event_Inr)
    then show ?thesis using Inr q by (auto simp: res_simps deposit_row_of_def)
  qed
qed

text \<open>C17. Scanning a log again changes nothing: once a deposit with a given network,
  transaction hash and log index was processed, processing any valid input with the same
  three values succeeds and leaves the whole database as it is, even with other amounts,
  another user or another configuration.\<close>

theorem deposit_idempotent:
  assumes "ProcessDeposit cfg d inp = Inr d1"
    "pd_network inp' = pd_network inp" "pd_tx_hash inp' = pd_tx_hash inp" "pd_log_index inp' = pd_log_index inp"
    "pd_user_id inp' \<noteq> 0" "pd_amount inp' = Some am" "0 < am" "pd_credits inp' = Some cr" "0 < cr"
  shows "ProcessDeposit cfg' d1 inp' = Inr d1"
proof -
  have "\<exists>e. tbl_create deposit_clash (deposit_row_of inp' am cr) (db_deposits d1) = Inl e"
    using deposit_recorded [OF assms(1)] assms(2-4)
    by (simp add: res_simps deposit_clash_def deposit_row_of_def) metis
  then show ?thesis using assms(5-) deposit_tx_duplicate by (auto simp: ProcessDeposit_def)
qed

text \<open>User 2 was invited by user 1 and buys for the first time.\<close>

definition sample_referral_db :: db where
  "sample_referral_db = empty_db
     \<lparr>db_credit_accounts := \<lparr>rows = [\<lparr>ca_id = 1, ca_user_id = 1, ca_balance = 0, ca_locked = 0\<rparr>,
                                     \<lparr>ca_id = 2, ca_user_id = 2, ca_balance = 0, ca_locked = 0\<rparr>], next_id = 3\<rparr>,
      db_referral_bindings := \<lparr>rows = [\<lparr>rb_id = 1, rb_invitee_user_id = 2, rb_referrer_user_id = 1,
                                        rb_referral_code_id = 1\<rparr>], next_id = 2\<rparr>\<rparr>"

definition sample_deposit :: process_deposit_input where
  "sample_deposit = \<lparr>pd_user_id = 2, pd_network = ''base'', pd_token = ''USDC'', pd_tx_hash = ''0xab'',
     pd_log_index = 3, pd_from_address = ''0x01'', pd_amount = Some 9000000, pd_credits = Some 1005\<rparr>"

lemma sample_deposit_returns:
  "\<exists>d'. ProcessDeposit sample_credits_config sample_referral_db sample_deposit = Inr d'"
proof -
  have "ParseDepositRewardRatio sample_credits_config = Inr (1 / 10)"
    "PurchaseBonusExtra sample_credits_config 0 = Inr (0, None)"
    by code_simp+
  then show ?thesis
    by (simp add: ProcessDeposit_def deposit_tx_def sample_deposit_def sample_referral_db_def empty_db_def
        tbl_create_def create_credit_event_def duplicate_as_def Let_def credit_acct_def tbl_lookup_def
        tbl_first_def applyDepositReferralReward_def save_account_def deposit_row_of_def
        CountInviteePurchases_def tbl_where_def floorCreditsTimesRatio_def write_referral_reward_def
        reward_row_of_def deposit_event_def reward_event_def credit_event_clash_def)
qed

theorem deposit_idempotent_witness:
  "\<exists>d1. ProcessDeposit sample_credits_config sample_referral_db sample_deposit = Inr d1 \<and>
     ProcessDeposit sample_credits_config d1 (sample_deposit\<lparr>pd_credits := Some 7\<rparr>) = Inr d1"
proof -
  obtain d1 where d1: "ProcessDeposit sample_credits_config sample_referral_db sample_deposit = Inr d1"
    using sample_deposit_returns by blast
  have "ProcessDeposit sample_credits_config d1 (sample_deposit\<lparr>pd_credits := Some 7\<rparr>) = Inr d1"
    by (rule deposit_idempotent [OF d1, where am = 9000000 and cr = 7]) (simp_all add: sample_deposit_def)
  with d1 show ?thesis by blast
qed

subsection \<open>Who gets what\<close>

lemma tbl_create_ok:
  "(\<And>x. x \<in> set (rows t) \<Longrightarrow> \<not> clash (mk (next_id t)) x) \<Longrightarrow> \<exists>t' r. tbl_create clash mk t = Inr (t', r)"
  by (auto simp: tbl_create_def Let_def list_ex_iff)

definition balance_of :: "db \<Rightarrow> nat \<Rightarrow> int" where
  "balance_of d u = (case credit_acct d u of None \<Rightarrow> 0 | Some a \<Rightarrow> ca_balance a)"

lemma balance_of_save:
  assumes "idx_wf ca_id ca_user_id (db_credit_accounts d)" "credit_acct d u = Some a"
  shows "balance_of (save_account d (a\<lparr>ca_balance := ca_balance a + n\<rparr>)) v =
    balance_of d v + (if v = u then n else 0)"
  using credit_acct_save [OF assms, of "a\<lparr>ca_balance := ca_balance a + n\<rparr>" v] assms(2)
    credit_acct_user [OF assms(2)]
  by (simp add: balance_of_def)

text \<open>The reward of a deposit: the referrer and the amount, if there is one.\<close>

definition reward_of :: "credits_config \<Rightarrow> db \<Rightarrow> nat \<Rightarrow> int \<Rightarrow> nat \<Rightarrow> (nat \<times> int) option" where
  "reward_of cfg d u credits dep =
     (case tbl_lookup rb_invitee_user_id u (db_referral_bindings d) of
        None \<Rightarrow> None
      | Some b \<Rightarrow>
          (case EffectiveDepositRewardRatio cfg
                  (word_of_nat (CountInviteePurchases d (rb_referrer_user_id b) dep)) of
             Inl _ \<Rightarrow> None
           | Inr r \<Rightarrow> Some (rb_referrer_user_id b, \<lfloor>of_int credits * r\<rfloor>)))"

lemma referral_reward_exact:
  assumes wf: "idx_wf ca_id ca_user_id (db_credit_accounts d)"
    and cfg: "checkCreditsConfig isSet cfg = Inr ()"
    and fresh: "\<And>r. r \<in> set (rows (db_referral_rewards d)) \<Longrightarrow> rr_deposit_id r \<noteq> Some (dep_id dep)"
    and cr: "0 < dep_credits dep"
    and p: "applyDepositReferralReward cfg d dep = Inr d'"
  shows "balance_of d' v = balance_of d v +
    (case reward_of cfg d (dep_user_id dep) (dep_credits dep) (dep_id dep) of
       None \<Rightarrow> 0 | Some (w, n) \<Rightarrow> if v = w then n else 0)"
proof (cases "tbl_lookup rb_invitee_user_id (dep_user_id dep) (db_referral_bindings d)")
  case None
  with p show ?thesis by (simp add: applyDepositReferralReward_def reward_of_def)
next
  case (Some b)
  let ?w = "rb_referrer_user_id b"
  define prior :: u64 where "prior = word_of_nat (CountInviteePurchases d ?w (dep_id dep))"
  obtain base extra tier where r: "ParseDepositRewardRatio cfg = Inr base"
    "PurchaseBonusExtra cfg prior = Inr (extra, tier)" "0 \<le> base" "0 \<le> extra" "base + extra \<le> 1"
    using EffectiveDepositRewardRatio_bounds [OF cfg, of prior] by blast
  define n where "n = \<lfloor>of_int (dep_credits dep) * (base + extra)\<rfloor>"
  have fl: "floorCreditsTimesRatio (Some (dep_credits dep)) (Some (base + extra)) = n"
    using cr r by (simp add: floorCreditsTimesRatio_Some n_def)
  have n0: "0 \<le> n" using cr r by (simp add: n_def)
  have rw: "reward_of cfg d (dep_user_id dep) (dep_credits dep) (dep_id dep) = Some (?w, n)"
    using Some r by (simp add: reward_of_def EffectiveDepositRewardRatio_def prior_def [symmetric] n_def)
  have zero: "n = 0" if "base + extra \<le> 0"
  proof -
    have "base + extra = 0" using that r by linarith
    then show ?thesis by (simp add: n_def)
  qed
  obtain a where a: "credit_acct d ?w = Some a"
    using p Some by (auto simp: applyDepositReferralReward_def res_simps)
  show ?thesis
  proof (cases "base + extra \<le> 0 \<or> n \<le> 0")
    case True
    then have "d' = d" "n = 0"
      using p Some a r fl n0 zero
      by (auto simp: applyDepositReferralReward_def Let_def prior_def [symmetric] split: if_splits)
    with rw show ?thesis by simp
  next
    case False
    define mk where "mk = reward_row_of b dep n
       (if n - floorCreditsTimesRatio (Some (dep_credits dep)) (Some base) < 0 then 0
        else n - floorCreditsTimesRatio (Some (dep_credits dep)) (Some base)) prior tier extra"
    have w: "write_referral_reward d b a n mk = Inr d'"
      using p Some a r fl False
      by (simp add: applyDepositReferralReward_def Let_def prior_def [symmetric] mk_def)
    obtain t rr where t: "tbl_create referral_reward_clash mk (db_referral_rewards d) = Inr (t, rr)"
      using tbl_create_ok [of "db_referral_rewards d" referral_reward_clash mk] fresh
      by (force simp: referral_reward_clash_def same_not_null_def mk_def reward_row_of_def)
    obtain d2 e where e: "create_credit_event (d\<lparr>db_referral_rewards := t\<rparr>) (reward_event ?w n (rr_id rr)) = Inr (d2, e)"
      "d' = save_account d2 (a\<lparr>ca_balance := ca_balance a + n\<rparr>)"
      using w t by (auto simp: write_referral_reward_def duplicate_as_Inr_iff bindE_Inr_iff)
    have "db_credit_accounts d2 = db_credit_accounts d" using e(1) by (auto simp: create_credit_event_Inr)
    then have "balance_of d' v = balance_of d v + (if v = ?w then n else 0)"
      using balance_of_save [of d2 ?w a n v] wf a e(2) by (simp add: credit_acct_def balance_of_def)
    with rw show ?thesis by simp
  qed
qed

lemma reward_of_insert:
  assumes "0 < next_id (db_deposits d)" "tbl_create clash (deposit_row_of inp amount credits) (db_deposits d) = Inr (t, dep)"
    "db_deposits d2 = t" "db_referral_bindings d2 = db_referral_bindings d"
  shows "reward_of cfg d2 u c (dep_id dep) = reward_of cfg d u c (dep_id dep)"
proof -
  have "CountInviteePurchases d2 w (dep_id dep) = CountInviteePurchases d w (dep_id dep)" for w
    using assms by (auto simp: CountInviteePurchases_def Let_def tbl_where_def res_simps deposit_row_of_def)
  then show ?thesis by (simp add: reward_of_def assms(4) split: option.splits)
qed

lemma reward_of_bounds:
  assumes "checkCreditsConfig isSet cfg = Inr ()" "0 \<le> c" "reward_of cfg d u c k = Some (w, n)"
  shows "0 \<le> n \<and> n \<le> c"
proof -
  obtain prior r where b: "EffectiveDepositRewardRatio cfg prior = Inr r" "n = \<lfloor>of_int c * r\<rfloor>"
    using assms(3) by (auto simp: reward_of_def split: option.splits sum.splits)
  then have r: "0 \<le> r" "r \<le> 1"
    using EffectiveDepositRewardRatio_bounds [OF assms(1), of prior]
    by (auto simp: EffectiveDepositRewardRatio_def)
  show ?thesis
    using floorCreditsTimesRatio_bounds [OF assms(2) r] b(2) assms(2) r by (simp add: floorCreditsTimesRatio_Some)
qed

text \<open>C15. A new deposit pays exactly what it should, with a validated configuration: the
  ledger stays balanced, the depositor gains the deposited Credits, the user who invited
  the depositor gains the floor of deposit times the ratio of the tiers reached by the
  purchases made before this one, nobody else gains anything, and the reward is never
  negative nor larger than the deposit.\<close>

theorem deposit_credits_exact:
  assumes inv: "ledger_inv d" and cfg: "checkCreditsConfig isSet cfg = Inr ()"
    and fresh: "\<And>x. x \<in> set (rows (db_deposits d)) \<Longrightarrow> dep_network x \<noteq> pd_network inp \<or>
        dep_tx_hash x \<noteq> pd_tx_hash inp \<or> dep_log_index x \<noteq> pd_log_index inp"
    and ids: "0 < next_id (db_deposits d)"
      "\<And>r. r \<in> set (rows (db_referral_rewards d)) \<Longrightarrow> rr_deposit_id r \<noteq> Some (next_id (db_deposits d))"
    and p: "ProcessDeposit cfg d inp = Inr d'" "pd_credits inp = Some c"
  shows "ledger_inv d' \<and>
    (\<forall>v. balance_of d' v = balance_of d v + (if v = pd_user_id inp then c else 0) +
       (case reward_of cfg d (pd_user_id inp) c (next_id (db_deposits d)) of
          None \<Rightarrow> 0 | Some (w, n) \<Rightarrow> if v = w then n else 0)) \<and>
    (\<forall>w n. reward_of cfg d (pd_user_id inp) c (next_id (db_deposits d)) = Some (w, n) \<longrightarrow> 0 \<le> n \<and> n \<le> c)"
proof -
  let ?u = "pd_user_id inp" and ?k = "next_id (db_deposits d)"
  obtain amount where tx: "0 < c" "deposit_tx cfg d inp amount c = Inr d'"
    using p by (auto elim: ProcessDeposit_Inr)
  obtain t dep where t: "tbl_create deposit_clash (deposit_row_of inp amount c) (db_deposits d) = Inr (t, dep)"
    using tbl_create_ok [of "db_deposits d" deposit_clash "deposit_row_of inp amount c"] fresh
    by (force simp: deposit_clash_def deposit_row_of_def)
  have dep: "dep_id dep = ?k" "dep_user_id dep = ?u" "dep_credits dep = c"
    using t by (auto simp: res_simps deposit_row_of_def)
  obtain d2 e a where s:
    "create_credit_event (d\<lparr>db_deposits := t\<rparr>) (deposit_event ?u c (dep_id dep)) = Inr (d2, e)"
    "credit_acct d2 ?u = Some a"
    "applyDepositReferralReward cfg (save_account d2 (a\<lparr>ca_balance := ca_balance a + c\<rparr>)) dep = Inr d'"
    using tx(2) t by (rule deposit_tx_fresh)
  define d3 where "d3 = save_account d2 (a\<lparr>ca_balance := ca_balance a + c\<rparr>)"
  have d2: "db_credit_accounts d2 = db_credit_accounts d" "db_deposits d2 = t"
    "db_referral_bindings d2 = db_referral_bindings d" "db_referral_rewards d2 = db_referral_rewards d"
    using s(1) by (auto simp: create_credit_event_Inr)
  have wf2: "idx_wf ca_id ca_user_id (db_credit_accounts d2)" using ledger_inv_wf [OF inv] d2 by simp
  have wf3: "idx_wf ca_id ca_user_id (db_credit_accounts d3)"
    using account_by_user.wf_save [OF wf2, of "a\<lparr>ca_balance := ca_balance a + c\<rparr>" a] s(2)
      credit_acct_user [OF s(2)] by (simp add: d3_def save_account_def credit_acct_def)
  have d3: "db_deposits d3 = t" "db_referral_bindings d3 = db_referral_bindings d"
    "db_referral_rewards d3 = db_referral_rewards d"
    using d2 by (simp_all add: d3_def save_account_def)
  have b3: "balance_of d3 v = balance_of d v + (if v = ?u then c else 0)" for v
    using balance_of_save [OF wf2 s(2), of c v] d2(1) by (simp add: d3_def balance_of_def credit_acct_def)
  have "balance_of d' v = balance_of d3 v + (case reward_of cfg d3 ?u c ?k of
      None \<Rightarrow> 0 | Some (w, n) \<Rightarrow> if v = w then n else 0)" for v
    using referral_reward_exact [OF wf3 cfg _ _ s(3) [folded d3_def], of v] ids(2) tx(1) d3 by (simp add: dep)
  moreover have "reward_of cfg d3 ?u c ?k = reward_of cfg d ?u c ?k"
    using reward_of_insert [OF ids(1) t d3(1,2), of cfg ?u c] by (simp add: dep)
  moreover have "ledger_inv d'" using deposit_off [OF inv [unfolded ledger_inv_def] p(1)] by (simp add: ledger_inv_def)
  ultimately show ?thesis using reward_of_bounds [OF cfg, of c d ?u ?k] tx(1) b3 by auto
qed

theorem deposit_credits_exact_witness:
  "\<exists>d'. ProcessDeposit sample_credits_config sample_referral_db sample_deposit = Inr d' \<and>
     balance_of d' 2 = 1005 \<and> balance_of d' 1 = 100"
proof -
  obtain d' where d': "ProcessDeposit sample_credits_config sample_referral_db sample_deposit = Inr d'"
    using sample_deposit_returns by blast
  have inv: "ledger_inv sample_referral_db"
    by (simp add: ledger_inv_def ledger_off_def ledger_ok_def sample_referral_db_def empty_db_def idx_wf_def
        tbl_wf_def credit_acct_def tbl_lookup_def tbl_first_def ledger_of_def held_of_def)
  have "\<lfloor>201 / 2 :: rat\<rfloor> = 100" by (rule floor_unique) simp_all
  moreover have "EffectiveDepositRewardRatio sample_credits_config 0 = Inr (1 / 10)" by code_simp
  ultimately have rw: "reward_of sample_credits_config sample_referral_db 2 1005 1 = Some (1, 100)"
    by (simp add: reward_of_def sample_referral_db_def empty_db_def tbl_lookup_def tbl_first_def
        CountInviteePurchases_def tbl_where_def Let_def)
  have "ledger_inv d' \<and>
    (\<forall>v. balance_of d' v = balance_of sample_referral_db v + (if v = pd_user_id sample_deposit then 1005 else 0) +
       (case reward_of sample_credits_config sample_referral_db (pd_user_id sample_deposit) 1005
               (next_id (db_deposits sample_referral_db)) of
          None \<Rightarrow> 0 | Some (w, n) \<Rightarrow> if v = w then n else 0)) \<and>
    (\<forall>w n. reward_of sample_credits_config sample_referral_db (pd_user_id sample_deposit) 1005
        (next_id (db_deposits sample_referral_db)) = Some (w, n) \<longrightarrow> 0 \<le> n \<and> n \<le> 1005)"
    by (rule deposit_credits_exact [OF inv sample_credits_config_ok _ _ _ d'])
       (simp_all add: sample_referral_db_def empty_db_def sample_deposit_def)
  moreover have "pd_user_id sample_deposit = 2" "next_id (db_deposits sample_referral_db) = 1"
    "balance_of sample_referral_db 1 = 0" "balance_of sample_referral_db 2 = 0"
    by (simp_all add: sample_deposit_def sample_referral_db_def empty_db_def balance_of_def credit_acct_def
        tbl_lookup_def tbl_first_def)
  ultimately show ?thesis using d' rw by auto
qed

end
