(* ===== verification/Accounts.thy ===== *)
theory Accounts
  imports Deposits
begin

text \<open>
  Creating users and referral codes (\<open>service/referral.go\<close>): first login with signup
  bonus, referral code, optional invitation and invitee bonus; the active code of a user
  and its replacement. \<open>rnd attempt i\<close> is the \<open>i\<close>-th random index of an attempt, the
  result of \<open>rand.Int\<close> below the length of the alphabet.
\<close>

definition referralCodeAlphabet :: string where
  "referralCodeAlphabet = ''ABCDEFGHJKLMNPQRSTUVWXYZabcdefghijkmnopqrstuvwxyz23456789''"

definition generateReferralCode :: "(nat \<Rightarrow> nat) \<Rightarrow> string" where
  "generateReferralCode rnd = map (\<lambda>i. referralCodeAlphabet ! rnd i) [0..<12]"

definition code_row_of :: "nat \<Rightarrow> string \<Rightarrow> nat \<Rightarrow> referral_code" where
  "code_row_of userID code n =
     \<lparr>rc_id = n, rc_user_id = userID, rc_code = code, rc_status = ReferralCodeStatusActive\<rparr>"

text \<open>The attempts still to be made, at most eight.\<close>

fun create_code_attempts :: "db \<Rightarrow> nat \<Rightarrow> (nat \<Rightarrow> nat \<Rightarrow> nat) \<Rightarrow> nat list \<Rightarrow> err + db \<times> referral_code" where
  "create_code_attempts d userID rnd [] = Inl (ErrMsg ''failed to generate a unique referral code'')"
| "create_code_attempts d userID rnd (attempt # rest) =
     (case tbl_create referral_code_clash (code_row_of userID (generateReferralCode (rnd attempt)))
             (db_referral_codes d) of
        Inr (t, row) \<Rightarrow> Inr (d\<lparr>db_referral_codes := t\<rparr>, row)
      | Inl e \<Rightarrow> if e = ErrDuplicatedKey then create_code_attempts d userID rnd rest else Inl e)"

definition createActiveReferralCode ::
  "db \<Rightarrow> nat \<Rightarrow> (nat \<Rightarrow> nat \<Rightarrow> nat) \<Rightarrow> err + db \<times> referral_code" where
  "createActiveReferralCode d userID rnd = create_code_attempts d userID rnd [0..<8]"

definition creditAccountLocked :: "db \<Rightarrow> nat \<Rightarrow> int option \<Rightarrow> err + db" where
  "creditAccountLocked d userID amount =
     (case amount of
        None \<Rightarrow> Inr d
      | Some n \<Rightarrow>
          if n \<le> 0 then Inr d
          else bindE (of_option ErrRecordNotFound (credit_acct d userID)) (\<lambda>account.
            Inr (save_account d (account\<lparr>ca_balance := ca_balance account + n\<rparr>))))"

definition bonus_event :: "credit_event_type \<Rightarrow> nat \<Rightarrow> int \<Rightarrow> nat \<Rightarrow> credit_event" where
  "bonus_event ty userID amount n =
     \<lparr>ce_id = n, ce_user_id = userID, ce_amount = amount, ce_type = ty, ce_ref_id = userID,
      ce_status = CreditEventStatusProcessed\<rparr>"

definition account_row_of :: "nat \<Rightarrow> int \<Rightarrow> nat \<Rightarrow> credit_account" where
  "account_row_of userID balance n =
     \<lparr>ca_id = n, ca_user_id = userID, ca_balance = balance, ca_locked = 0\<rparr>"

definition binding_row_of :: "nat \<Rightarrow> referral_code \<Rightarrow> nat \<Rightarrow> referral_binding" where
  "binding_row_of inviteeID codeRow n =
     \<lparr>rb_id = n, rb_invitee_user_id = inviteeID, rb_referrer_user_id = rc_user_id codeRow,
      rb_referral_code_id = rc_id codeRow\<rparr>"

text \<open>The account row and the signup bonus of a new user.\<close>

definition create_credit_account :: "db \<Rightarrow> nat \<Rightarrow> u64 \<Rightarrow> err + db" where
  "create_credit_account d userID signupBonus =
     (let balance = (if 0 < signupBonus then uint signupBonus else 0) in
      bindE (tbl_create credit_account_clash (account_row_of userID balance) (db_credit_accounts d)) (\<lambda>(t, _).
      let d1 = d\<lparr>db_credit_accounts := t\<rparr> in
      if 0 < signupBonus then
        bindE (create_credit_event d1 (bonus_event CreditEventTypeSignupBonus userID (uint signupBonus))) (\<lambda>(d2, _).
          Inr d2)
      else Inr d1))"

text \<open>Binding the new user to the owner of an active code, and the invitee bonus.\<close>

definition bind_invitee :: "credits_config \<Rightarrow> db \<Rightarrow> nat \<Rightarrow> string \<Rightarrow> err + db" where
  "bind_invitee cfg d userID inviteCode =
     (if inviteCode = [] then Inr d
      else case tbl_first (\<lambda>r. rc_code r = inviteCode \<and> rc_status r = ReferralCodeStatusActive) (db_referral_codes d) of
          None \<Rightarrow> Inr d
        | Some codeRow \<Rightarrow>
            if rc_user_id codeRow = userID then Inr d
            else (case tbl_create referral_binding_clash (binding_row_of userID codeRow) (db_referral_bindings d) of
                Inl e \<Rightarrow> if e = ErrDuplicatedKey then Inr d else Inl e
              | Inr (t, _) \<Rightarrow>
                  let d1 = d\<lparr>db_referral_bindings := t\<rparr> in
                  if 0 < cc_invitee_bonus cfg then
                    bindE (create_credit_event d1
                        (bonus_event CreditEventTypeInviteeBonus userID (uint (cc_invitee_bonus cfg)))) (\<lambda>(d2, _).
                    creditAccountLocked d2 userID (Some (uint (cc_invitee_bonus cfg))))
                  else Inr d1))"

definition user_row_of :: "string \<Rightarrow> nat \<Rightarrow> user" where
  "user_row_of address n = \<lparr>u_id = n, u_address = address\<rparr>"

definition create_user_tx ::
  "credits_config \<Rightarrow> (nat \<Rightarrow> nat \<Rightarrow> nat) \<Rightarrow> db \<Rightarrow> string \<Rightarrow> string \<Rightarrow> err + db \<times> user" where
  "create_user_tx cfg rnd d address inviteCode =
     (case tbl_create user_clash (user_row_of address) (db_users d) of
        Inl e \<Rightarrow>
          if e = ErrDuplicatedKey
          then bindE (of_option ErrRecordNotFound (tbl_lookup u_address address (db_users d))) (\<lambda>u. Inr (d, u))
          else Inl e
      | Inr (t, created) \<Rightarrow>
          bindE (create_credit_account (d\<lparr>db_users := t\<rparr>) (u_id created) (cc_signup_bonus cfg)) (\<lambda>d1.
          bindE (createActiveReferralCode d1 (u_id created) rnd) (\<lambda>(d2, _).
          bindE (bind_invitee cfg d2 (u_id created) inviteCode) (\<lambda>d3. Inr (d3, created)))))"

definition EnsureUserWithReferral ::
  "credits_config \<Rightarrow> (nat \<Rightarrow> nat \<Rightarrow> nat) \<Rightarrow> db \<Rightarrow> string \<Rightarrow> string \<Rightarrow> db \<times> (err + user)" where
  "EnsureUserWithReferral cfg rnd d address inviteCode =
     (case tbl_lookup u_address address (db_users d) of
        Some u \<Rightarrow> (d, Inr u)
      | None \<Rightarrow>
          (case create_user_tx cfg rnd d address (TrimSpace inviteCode) of
             Inl e \<Rightarrow> (d, Inl e)
           | Inr (d', u) \<Rightarrow> (d', Inr u)))"

definition active_code_of :: "db \<Rightarrow> nat \<Rightarrow> referral_code option" where
  "active_code_of d userID =
     tbl_first (\<lambda>r. rc_user_id r = userID \<and> rc_status r = ReferralCodeStatusActive) (db_referral_codes d)"

definition EnsureActiveReferralCode ::
  "(nat \<Rightarrow> nat \<Rightarrow> nat) \<Rightarrow> db \<Rightarrow> nat \<Rightarrow> err + db \<times> referral_code" where
  "EnsureActiveReferralCode rnd d userID =
     (case active_code_of d userID of
        Some r \<Rightarrow> Inr (d, r)
      | None \<Rightarrow>
          (case active_code_of d userID of
             Some r \<Rightarrow> Inr (d, r)
           | None \<Rightarrow> createActiveReferralCode d userID rnd))"

definition ResetReferralCode :: "(nat \<Rightarrow> nat \<Rightarrow> nat) \<Rightarrow> db \<Rightarrow> nat \<Rightarrow> err + db \<times> referral_code" where
  "ResetReferralCode rnd d userID =
     createActiveReferralCode
       (d\<lparr>db_referral_codes :=
           tbl_modify (\<lambda>r. rc_user_id r = userID \<and> rc_status r = ReferralCodeStatusActive)
             (\<lambda>r. r\<lparr>rc_status := ReferralCodeStatusRevoked\<rparr>) (db_referral_codes d)\<rparr>) userID rnd"

subsection \<open>Referral codes\<close>

definition active_codes :: "db \<Rightarrow> nat \<Rightarrow> referral_code list" where
  "active_codes d u =
     tbl_where (\<lambda>r. rc_user_id r = u \<and> rc_status r = ReferralCodeStatusActive) (db_referral_codes d)"

lemma create_code_attempts_Inr:
  assumes "create_code_attempts d u rnd as = Inr (d', row)"
  shows "rows (db_referral_codes d') = rows (db_referral_codes d) @ [row] \<and> rc_user_id row = u \<and>
    rc_status row = ReferralCodeStatusActive \<and> d' = d\<lparr>db_referral_codes := db_referral_codes d'\<rparr> \<and>
    (\<forall>r \<in> set (rows (db_referral_codes d)). rc_code row \<noteq> rc_code r)"
  using assms
  by (induction as) (auto simp: res_simps code_row_of_def referral_code_clash_def split: sum.splits if_splits)

lemma createActiveReferralCode_Inr:
  assumes "createActiveReferralCode d u rnd = Inr (d', row)"
  shows "rows (db_referral_codes d') = rows (db_referral_codes d) @ [row] \<and> rc_user_id row = u \<and>
    rc_status row = ReferralCodeStatusActive \<and> d' = d\<lparr>db_referral_codes := db_referral_codes d'\<rparr> \<and>
    (\<forall>r \<in> set (rows (db_referral_codes d)). rc_code row \<noteq> rc_code r)"
  using create_code_attempts_Inr assms unfolding createActiveReferralCode_def by blast

text \<open>Resetting a referral code replaces it: on success the user has exactly one active
  code, the new one, which no earlier row carries; the active codes of all other users
  and the number of issued codes but for one stay as they were, and no row is deleted.\<close>

theorem reset_code_replaces:
  assumes "ResetReferralCode rnd d u = Inr (d', row)"
  shows "active_codes d' u = [row] \<and> (\<forall>v. v \<noteq> u \<longrightarrow> active_codes d' v = active_codes d v) \<and>
    rc_code row \<notin> rc_code ` set (rows (db_referral_codes d)) \<and>
    map rc_code (rows (db_referral_codes d')) = map rc_code (rows (db_referral_codes d)) @ [rc_code row]"
proof -
  let ?f = "\<lambda>r. if rc_user_id r = u \<and> rc_status r = ReferralCodeStatusActive
      then r\<lparr>rc_status := ReferralCodeStatusRevoked\<rparr> else r"
  have r: "rows (db_referral_codes d') = map ?f (rows (db_referral_codes d)) @ [row]" "rc_user_id row = u"
    "rc_status row = ReferralCodeStatusActive"
    "\<forall>r \<in> set (map ?f (rows (db_referral_codes d))). rc_code row \<noteq> rc_code r"
    using createActiveReferralCode_Inr [OF assms [unfolded ResetReferralCode_def]] by simp_all
  have other: "filter (\<lambda>r. rc_user_id r = v \<and> rc_status r = ReferralCodeStatusActive) (map ?f xs) =
      (if v = u then [] else filter (\<lambda>r. rc_user_id r = v \<and> rc_status r = ReferralCodeStatusActive) xs)" for v xs
    by (induction xs) auto
  have codes: "map rc_code (map ?f xs) = map rc_code xs" for xs by simp
  have "rc_code row \<notin> set (map rc_code (map ?f (rows (db_referral_codes d))))"
  proof
    assume "rc_code row \<in> set (map rc_code (map ?f (rows (db_referral_codes d))))"
    then obtain s where "s \<in> set (map ?f (rows (db_referral_codes d)))" "rc_code row = rc_code s"
      unfolding set_map [of rc_code] by blast
    with r(4) show False by blast
  qed
  then have "rc_code row \<notin> rc_code ` set (rows (db_referral_codes d))" by (simp only: codes set_map) simp
  moreover have "map rc_code (rows (db_referral_codes d')) = map rc_code (rows (db_referral_codes d)) @ [rc_code row]"
    by (simp only: r(1) map_append codes list.map)
  moreover have "active_codes d' v = (if v = u then [row] else active_codes d v)" for v
    unfolding active_codes_def tbl_where_def r(1) filter_append other using r(2,3) by simp
  ultimately show ?thesis by simp
qed

definition sample_code_db :: db where
  "sample_code_db = empty_db\<lparr>db_referral_codes := \<lparr>rows = [code_row_of 1 ''ABC'' 1], next_id = 2\<rparr>\<rparr>"

theorem reset_code_replaces_witness:
  "\<exists>d' row. ResetReferralCode (\<lambda>_ _. 0) sample_code_db 1 = Inr (d', row) \<and> active_codes d' 1 = [row] \<and>
     rc_code row = ''AAAAAAAAAAAA''"
proof -
  have "\<exists>d'. ResetReferralCode (\<lambda>_ _. 0) sample_code_db 1 = Inr (d', code_row_of 1 ''AAAAAAAAAAAA'' 2)"
    by (simp add: ResetReferralCode_def sample_code_db_def createActiveReferralCode_def upt_conv_Cons
        tbl_create_def Let_def referral_code_clash_def code_row_of_def generateReferralCode_def
        referralCodeAlphabet_def upt_rec)
  then obtain d' where d': "ResetReferralCode (\<lambda>_ _. 0) sample_code_db 1 = Inr (d', code_row_of 1 ''AAAAAAAAAAAA'' 2)"
    by blast
  with reset_code_replaces [OF d'] show ?thesis by (auto simp: code_row_of_def)
qed

subsection \<open>The ledger of a new user\<close>

lemma create_account_off:
  assumes inv: "ledger_off bo lo d"
    and t: "tbl_create credit_account_clash (account_row_of u b) (db_credit_accounts d) = Inr (t, a)"
    and b: "0 \<le> b"
  shows "ledger_off (bo(u := bo u + b)) lo (d\<lparr>db_credit_accounts := t\<rparr>)"
proof -
  have wf: "idx_wf ca_id ca_user_id (db_credit_accounts d)" using inv by (simp add: ledger_off_def)
  define r0 where "r0 = account_row_of u b 0"
  have mk: "account_row_of u b = (\<lambda>n. r0\<lparr>ca_id := n\<rparr>)"
    by (simp add: account_row_of_def fun_eq_iff r0_def)
  note t' = t [unfolded mk]
  have a: "ca_user_id a = u" "ca_balance a = b" "ca_locked a = 0" using t by (auto simp: res_simps account_row_of_def)
  have wf': "idx_wf ca_id ca_user_id t"
    by (rule account_by_user.wf_create_idx [OF wf t']) (simp add: credit_account_clash_def)
  have look: "tbl_lookup ca_user_id v t = (if v = u then Some a else tbl_lookup ca_user_id v (db_credit_accounts d))" for v
    using account_by_user.lookup_create [OF wf t', of v] a by (simp add: credit_account_clash_def)
  have new: "tbl_lookup ca_user_id u (db_credit_accounts d) = None"
    using t by (auto simp: res_simps credit_account_clash_def account_row_of_def tbl_lookup_None_iff)
  have sums: "ledger_of (d\<lparr>db_credit_accounts := t\<rparr>) v = ledger_of d v"
    "held_of (d\<lparr>db_credit_accounts := t\<rparr>) v = held_of d v" for v
    by (simp_all add: ledger_of_def held_of_def)
  have "ledger_ok bo lo d u" using inv by (simp add: ledger_off_def)
  then have "ledger_of d u + bo u = 0" "held_of d u + lo u = 0"
    using new by (simp_all add: ledger_ok_def credit_acct_def)
  then show ?thesis
    using inv wf' b a by (auto simp: ledger_off_def ledger_ok_def credit_acct_def look sums)
qed

lemma create_credit_account_off:
  assumes inv: "ledger_off bo lo d" and c: "create_credit_account d u bonus = Inr d'"
  shows "ledger_off bo lo d'"
proof -
  define b where "b = (if 0 < bonus then uint bonus else 0)"
  obtain t a where t: "tbl_create credit_account_clash (account_row_of u b) (db_credit_accounts d) = Inr (t, a)"
    using c by (auto simp: create_credit_account_def Let_def b_def [symmetric] bindE_Inr_iff)
  have "0 \<le> b" by (simp add: b_def)
  note off = create_account_off [OF inv t this]
  show ?thesis
  proof (cases "0 < bonus")
    case True
    then obtain e where e: "create_credit_event (d\<lparr>db_credit_accounts := t\<rparr>)
        (bonus_event CreditEventTypeSignupBonus u b) = Inr (d', e)"
      using c t by (auto simp: create_credit_account_def Let_def b_def [symmetric] bindE_Inr_iff) (auto simp: b_def)
    have "ce_user_id e = u" "event_delta e = b"
      using create_credit_event_sel [OF e] by (auto simp: bonus_event_def event_delta_def)
    with event_off [OF off e] show ?thesis by simp
  next
    case False
    then show ?thesis using c t off by (auto simp: create_credit_account_def Let_def b_def bindE_Inr_iff)
  qed
qed

lemma bind_invitee_off:
  assumes inv: "ledger_off bo lo d" and b: "bind_invitee cfg d u code = Inr d'"
  shows "ledger_off bo lo d'"
proof -
  from b consider "d' = d"
    | t where "d' = d\<lparr>db_referral_bindings := t\<rparr>"
    | t d2 e where "create_credit_event (d\<lparr>db_referral_bindings := t\<rparr>)
        (bonus_event CreditEventTypeInviteeBonus u (uint (cc_invitee_bonus cfg))) = Inr (d2, e)"
      "creditAccountLocked d2 u (Some (uint (cc_invitee_bonus cfg))) = Inr d'" "0 < cc_invitee_bonus cfg"
    by (auto simp: bind_invitee_def Let_def bindE_Inr_iff split: option.splits sum.splits if_splits)
  then show ?thesis
  proof cases
    case 1
    with inv show ?thesis by simp
  next
    case 2
    then show ?thesis by (auto intro: ledger_off_cong [OF inv])
  next
    case (3 t d2 e)
    let ?n = "uint (cc_invitee_bonus cfg)"
    have n: "0 < ?n" using 3(3) by (simp add: word_less_def)
    have "ledger_off bo lo (d\<lparr>db_referral_bindings := t\<rparr>)" by (rule ledger_off_cong [OF inv]) simp_all
    from event_off [OF this 3(1)] have off: "ledger_off (bo(u := bo u - ?n)) lo d2"
      using create_credit_event_sel [OF 3(1)] by (simp add: bonus_event_def event_delta_def)
    obtain a where a: "credit_acct d2 u = Some a" "d' = save_account d2 (a\<lparr>ca_balance := ca_balance a + ?n\<rparr>)"
      using 3(2) n by (auto simp: creditAccountLocked_def res_simps)
    from add_credits_off [OF off a(1), of ?n] n a(2) show ?thesis by simp
  qed
qed

lemma ensure_user_off:
  assumes inv: "ledger_off bo lo d" and e: "EnsureUserWithReferral cfg rnd d address code = (d', res)"
  shows "ledger_off bo lo d'"
proof -
  from e consider "d' = d" | u where "create_user_tx cfg rnd d address (TrimSpace code) = Inr (d', u)"
    by (auto simp: EnsureUserWithReferral_def split: option.splits sum.splits)
  then show ?thesis
  proof cases
    case 1
    with inv show ?thesis by simp
  next
    case 2
    from 2 consider "d' = d"
      | t c d1 d2 r where "create_credit_account (d\<lparr>db_users := t\<rparr>) c (cc_signup_bonus cfg) = Inr d1"
        "createActiveReferralCode d1 c rnd = Inr (d2, r)" "bind_invitee cfg d2 c (TrimSpace code) = Inr d'"
      by (auto simp: create_user_tx_def bindE_Inr_iff of_option_Inr_iff split: sum.splits if_splits)
    then show ?thesis
    proof cases
      case 1
      with inv show ?thesis by simp
    next
      case (2 t c d1 d2 r)
      have "ledger_off bo lo (d\<lparr>db_users := t\<rparr>)" by (rule ledger_off_cong [OF inv]) simp_all
      then have "ledger_off bo lo d1" using 2(1) by (rule create_credit_account_off)
      moreover obtain t2 where "d2 = d1\<lparr>db_referral_codes := t2\<rparr>"
        using createActiveReferralCode_Inr [OF 2(2)] by blast
      ultimately have "ledger_off bo lo d2" by (auto intro: ledger_off_cong)
      then show ?thesis using 2(3) by (rule bind_invitee_off)
    qed
  qed
qed

end
