(* ===== verification/Earnings.thy ===== *)
theory Earnings
  imports Accounts
begin

text \<open>
  Key Owner earnings and withdrawals (\<open>service/earning.go\<close>,
  \<open>service/earning_withdrawal.go\<close>, \<open>ParseCNXToWei\<close> of
  \<open>blockchain/benefit_address.go\<close>). The on-chain benefit address, the signature check and
  the hash are the fields of \<open>wallet_env\<close>.
\<close>

subsection \<open>Earning accounts\<close>

definition earn_acct :: "db \<Rightarrow> nat \<Rightarrow> earning_account option" where
  "earn_acct d u = tbl_lookup ea_user_id u (db_earning_accounts d)"

definition save_earning :: "db \<Rightarrow> earning_account \<Rightarrow> db" where
  "save_earning d a = d\<lparr>db_earning_accounts := tbl_save ea_id a (db_earning_accounts d)\<rparr>"

definition earning_row_of :: "nat \<Rightarrow> nat \<Rightarrow> earning_account" where
  "earning_row_of userID n = \<lparr>ea_id = n, ea_user_id = userID, ea_available = 0, ea_withdrawal_locked = 0\<rparr>"

definition create_earning_account :: "db \<Rightarrow> nat \<Rightarrow> err + db \<times> earning_account" where
  "create_earning_account d userID =
     bindE (tbl_create earning_account_clash (earning_row_of userID) (db_earning_accounts d)) (\<lambda>(t, a).
       Inr (d\<lparr>db_earning_accounts := t\<rparr>, a))"

definition EnsureEarningAccount :: "db \<Rightarrow> nat \<Rightarrow> err + db \<times> earning_account" where
  "EnsureEarningAccount d userID =
     (case earn_acct d userID of
        Some a \<Rightarrow> Inr (d, a)
      | None \<Rightarrow>
          (case create_earning_account d userID of
             Inr r \<Rightarrow> Inr r
           | Inl e \<Rightarrow>
               if e = ErrDuplicatedKey
               then bindE (of_option ErrRecordNotFound (earn_acct d userID)) (\<lambda>a. Inr (d, a))
               else Inl e))"

definition create_earning_event :: "db \<Rightarrow> (nat \<Rightarrow> earning_event) \<Rightarrow> err + db \<times> earning_event" where
  "create_earning_event d mk =
     bindE (tbl_create earning_event_clash mk (db_earning_events d)) (\<lambda>(t, e).
       Inr (d\<lparr>db_earning_events := t\<rparr>, e))"

definition earning_event_of ::
  "nat option \<Rightarrow> string \<Rightarrow> earning_event_type \<Rightarrow> int \<Rightarrow> earning_source_type \<Rightarrow> nat \<Rightarrow> nat \<Rightarrow> earning_event" where
  "earning_event_of account address ty amount srcty src n =
     \<lparr>ee_id = n, ee_account_id = account, ee_address = address, ee_type = ty, ee_amount = amount,
      ee_source_type = srcty, ee_source_id = src, ee_status = EarningEventStatusProcessed\<rparr>"

definition CreateTaskIncomeEarningTx :: "db \<Rightarrow> nat \<Rightarrow> string \<Rightarrow> int option \<Rightarrow> nat \<Rightarrow> err + db" where
  "CreateTaskIncomeEarningTx d userID address amount callRecordID =
     (case amount of
        None \<Rightarrow> Inr d
      | Some n \<Rightarrow>
          if n \<le> 0 then Inr d
          else
            bindE (case earn_acct d userID of
                Some a \<Rightarrow> Inr (d, a)
              | None \<Rightarrow>
                  bindE (create_earning_account d userID) (\<lambda>(d1, _).
                  bindE (of_option ErrRecordNotFound (earn_acct d1 userID)) (\<lambda>a. Inr (d1, a)))) (\<lambda>(d1, account).
            bindE (create_earning_event (save_earning d1 (account\<lparr>ea_available := ea_available account + n\<rparr>))
                (earning_event_of (Some (ea_id account)) address EarningEventTypeTaskIncome n
                   EarningSourceTypeTaskCallRecord callRecordID)) (\<lambda>(d2, _).
            Inr d2)))"

subsection \<open>Withdrawals\<close>

record wallet_env =
  we_now :: gotime
  we_benefit_address :: "string \<Rightarrow> string \<Rightarrow> err + string"
  we_verify_signature :: "string \<Rightarrow> string \<Rightarrow> string \<Rightarrow> err + unit"
  we_sha256_hex :: "string \<Rightarrow> string"

definition ParseCNXToWei :: "string \<Rightarrow> err + int" where
  "ParseCNXToWei value =
     (let trimmed = TrimSpace value in
      rejectIf (trimmed = []) (ErrMsg ''empty CNX amount'')
        (bindE (of_option (ErrMsg ''invalid CNX amount'') (Rat_SetString trimmed)) (\<lambda>r.
         rejectIf (r < 0) (ErrMsg ''CNX amount must be non-negative'')
           (let scaled = r * 10 ^ 18 in
            rejectIf (snd (quotient_of scaled) \<noteq> 1) (ErrMsg ''CNX amount has more than 18 fractional digits'')
              (Inr (fst (quotient_of scaled)))))))"

definition wallet_network :: "provider_config \<Rightarrow> string \<Rightarrow> wallet_network_config option" where
  "wallet_network cfg network = map_of (pv_wallet_networks cfg) network"

definition CalculateWithdrawalFee :: "provider_config \<Rightarrow> string \<Rightarrow> int option \<Rightarrow> err + int" where
  "CalculateWithdrawalFee cfg network amount =
     bindE (of_option ErrWithdrawalNetwork (wallet_network cfg network)) (\<lambda>n.
       ParseCNXToWei (wn_fixed_withdrawal_fee_cnx n))"

definition BuildCanonicalWithdrawalMessage :: "int \<Rightarrow> string \<Rightarrow> string \<Rightarrow> string \<Rightarrow> int \<Rightarrow> string" where
  "BuildCanonicalWithdrawalMessage amount address benefitAddress network timestamp =
     ''Crynux Relay'' @ [CHR 0x0A] @ ''Action: Withdraw '' @ int_str amount @ '' from '' @ address @
     '' to '' @ benefitAddress @ '' on '' @ network @ [CHR 0x0A] @ ''Address: '' @ address @ [CHR 0x0A] @
     ''Timestamp: '' @ int_str timestamp"

definition EqualFold :: "string \<Rightarrow> string \<Rightarrow> bool" where
  "EqualFold s t \<longleftrightarrow> map lower_char s = map lower_char t"

record prepare_withdrawal_result =
  pw_amount :: string
  pw_withdrawal_fee :: string
  pw_total :: string
  pw_network :: string
  pw_address :: string
  pw_benefit_address :: string
  pw_timestamp :: int
  pw_message :: string
  pw_expires_at :: int

definition unix_seconds :: "gotime \<Rightarrow> int" where
  "unix_seconds t = t div 1000000000"

definition PrepareWithdrawal ::
  "provider_config \<Rightarrow> (string \<Rightarrow> bool) \<Rightarrow> wallet_env \<Rightarrow> string \<Rightarrow> int option \<Rightarrow> string \<Rightarrow> err + prepare_withdrawal_result" where
  "PrepareWithdrawal cfg known env address amount network =
     bindE (of_option ErrWithdrawalNetwork (wallet_network cfg network)) (\<lambda>networkCfg.
     rejectIf (\<not> known network) ErrWithdrawalNetwork
     (case amount of
        None \<Rightarrow> Inl (ErrMsg ''amount must be positive'')
      | Some n \<Rightarrow>
        rejectIf (n \<le> 0) (ErrMsg ''amount must be positive'')
        (bindE (ParseCNXToWei (wn_withdrawal_min_cnx networkCfg)) (\<lambda>minAmount.
         rejectIf (n < minAmount) ErrWithdrawalBelowMinimum
         (bindE (CalculateWithdrawalFee cfg network amount) (\<lambda>fee.
          bindE (we_benefit_address env address network) (\<lambda>benefit.
          let now = unix_seconds (we_now env) in
          Inr \<lparr>pw_amount = int_str n, pw_withdrawal_fee = int_str fee, pw_total = int_str (n + fee),
               pw_network = network, pw_address = address, pw_benefit_address = benefit, pw_timestamp = now,
               pw_message = BuildCanonicalWithdrawalMessage n address benefit network now,
               pw_expires_at = now + 120\<rparr>)))))))"

record create_withdrawal_input =
  cw_user :: "user option"
  cw_amount :: "int option"
  cw_network :: string
  cw_benefit_address :: string
  cw_timestamp :: int
  cw_signature :: string

definition countNonFailedWithdrawals :: "earning_withdrawal list \<Rightarrow> u64" where
  "countNonFailedWithdrawals ws =
     foldl (\<lambda>c w. if ew_status w \<noteq> EarningWithdrawalStatusFailed then c + 1 else c) 0 ws"

text \<open>Midnight UTC of the day of \<open>now\<close>.\<close>

definition utc_day_start :: "gotime \<Rightarrow> gotime" where
  "utc_day_start now = now - now mod (86400 * 1000000000)"

definition ensureWithdrawalDailyLimitsTx ::
  "gotime \<Rightarrow> db \<Rightarrow> nat \<Rightarrow> string \<Rightarrow> string \<Rightarrow> u64 \<Rightarrow> err + unit" where
  "ensureWithdrawalDailyLimitsTx now d userID benefitAddress network maxPerDay =
     (let start = utc_day_start now;
          userRows = tbl_where (\<lambda>w. ew_user_id w = userID \<and> ew_network w = network \<and> start \<le> ew_created_at w)
                       (db_withdrawals d);
          benefitRows = tbl_where (\<lambda>w. ew_benefit_address w = benefitAddress \<and> ew_network w = network \<and>
                          start \<le> ew_created_at w) (db_withdrawals d) in
      rejectIf (maxPerDay \<le> countNonFailedWithdrawals userRows) ErrWithdrawalDailyLimit
      (rejectIf (maxPerDay \<le> countNonFailedWithdrawals benefitRows) ErrWithdrawalDailyLimit
      (Inr ())))"

definition withdrawal_row_of ::
  "create_withdrawal_input \<Rightarrow> gotime \<Rightarrow> nat \<Rightarrow> string \<Rightarrow> int \<Rightarrow> int \<Rightarrow> string \<Rightarrow> nat \<Rightarrow> earning_withdrawal" where
  "withdrawal_row_of inp now userID benefit amount fee fingerprint n =
     \<lparr>ew_id = n, ew_created_at = now, ew_user_id = userID, ew_benefit_address = benefit, ew_amount = amount,
      ew_withdrawal_fee = fee, ew_network = cw_network inp, ew_status = EarningWithdrawalStatusPending,
      ew_earning_event_id = None, ew_authorization_timestamp = cw_timestamp inp,
      ew_authorization_signature = cw_signature inp, ew_authorization_fingerprint = fingerprint,
      ew_tx_hash = None\<rparr>"

text \<open>The transaction of \<open>CreateWithdrawal\<close>, after the authorisation was checked.\<close>

definition create_withdrawal_tx ::
  "create_withdrawal_input \<Rightarrow> gotime \<Rightarrow> u64 \<Rightarrow> db \<Rightarrow> user \<Rightarrow> string \<Rightarrow> int \<Rightarrow> int \<Rightarrow> string \<Rightarrow> err + db \<times> earning_withdrawal" where
  "create_withdrawal_tx inp now maxPerDay d user benefit amount fee fingerprint =
     bindE (of_option ErrInsufficientEarnings (earn_acct d (u_id user))) (\<lambda>account.
     bindE (ensureWithdrawalDailyLimitsTx now d (u_id user) benefit (cw_network inp) maxPerDay) (\<lambda>_.
     rejectIf (ea_available account < amount + fee) ErrInsufficientEarnings
     (bindE (duplicate_as ErrWithdrawalAuthReplay
         (tbl_create withdrawal_clash (withdrawal_row_of inp now (u_id user) benefit amount fee fingerprint)
            (db_withdrawals d))) (\<lambda>(t, w).
      bindE (create_earning_event (d\<lparr>db_withdrawals := t\<rparr>)
          (earning_event_of (Some (ea_id account)) (u_address user) EarningEventTypeWithdraw (amount + fee)
             EarningSourceTypeWithdrawal (ew_id w))) (\<lambda>(d2, event).
      let d3 = d2\<lparr>db_withdrawals := tbl_modify (\<lambda>x. ew_id x = ew_id w)
                 (\<lambda>x. x\<lparr>ew_earning_event_id := Some (ee_id event)\<rparr>) (db_withdrawals d2)\<rparr> in
      Inr (save_earning d3 (account\<lparr>ea_available := ea_available account - (amount + fee),
                                    ea_withdrawal_locked := ea_withdrawal_locked account + (amount + fee)\<rparr>),
           w\<lparr>ew_earning_event_id := Some (ee_id event)\<rparr>))))))"

definition CreateWithdrawal ::
  "provider_config \<Rightarrow> wallet_env \<Rightarrow> db \<Rightarrow> create_withdrawal_input \<Rightarrow> err + db \<times> earning_withdrawal" where
  "CreateWithdrawal cfg env d inp =
     (case (cw_user inp, cw_amount inp) of
        (None, _) \<Rightarrow> Inl (ErrMsg ''user is required'')
      | (_, None) \<Rightarrow> Inl (ErrMsg ''amount must be positive'')
      | (Some user, Some amount) \<Rightarrow>
        rejectIf (amount \<le> 0) (ErrMsg ''amount must be positive'')
        (bindE (of_option ErrWithdrawalNetwork (wallet_network cfg (cw_network inp))) (\<lambda>networkCfg.
         bindE (ParseCNXToWei (wn_withdrawal_min_cnx networkCfg)) (\<lambda>minAmount.
         rejectIf (amount < minAmount) ErrWithdrawalBelowMinimum
         (let now = unix_seconds (we_now env) in
          rejectIf (cw_timestamp inp < now - 120 \<or> now + 60 < cw_timestamp inp) ErrWithdrawalAuthFreshness
          (bindE (CalculateWithdrawalFee cfg (cw_network inp) (cw_amount inp)) (\<lambda>fee.
           bindE (we_benefit_address env (u_address user) (cw_network inp)) (\<lambda>benefit.
           rejectIf (\<not> EqualFold benefit (cw_benefit_address inp)) ErrWithdrawalBenefitMismatch
           (let message = BuildCanonicalWithdrawalMessage amount (u_address user) benefit (cw_network inp)
                  (cw_timestamp inp) in
            bindE (we_verify_signature env message (cw_signature inp) (u_address user)) (\<lambda>_.
            create_withdrawal_tx inp (we_now env) (wn_max_withdrawals_per_day networkCfg) d user benefit
              amount fee (we_sha256_hex env message)))))))))))"

definition withdrawal_by :: "db \<Rightarrow> nat \<Rightarrow> earning_withdrawal option" where
  "withdrawal_by d k = tbl_lookup ew_id k (db_withdrawals d)"

definition FulfillWithdrawal :: "provider_config \<Rightarrow> db \<Rightarrow> nat \<Rightarrow> string \<Rightarrow> err + db" where
  "FulfillWithdrawal cfg d withdrawalID txHash =
     bindE (of_option ErrWithdrawalNotFound (withdrawal_by d withdrawalID)) (\<lambda>w0.
     bindE (of_option ErrRecordNotFound (earn_acct d (ew_user_id w0))) (\<lambda>account.
     bindE (of_option ErrWithdrawalNotFound (withdrawal_by d withdrawalID)) (\<lambda>w.
     if ew_status w = EarningWithdrawalStatusSuccess then Inr d
     else
       rejectIf (ew_status w \<noteq> EarningWithdrawalStatusPending) ErrWithdrawalConflict
       (let total = ew_amount w + ew_withdrawal_fee w;
            newLocked = ea_withdrawal_locked account - total in
        rejectIf (newLocked < 0) (ErrMsg ''withdrawal locked balance inconsistency'')
        (let d1 = save_earning d (account\<lparr>ea_withdrawal_locked := newLocked\<rparr>);
             d2 = d1\<lparr>db_withdrawals := tbl_modify (\<lambda>x. ew_id x = ew_id w)
                    (\<lambda>x. x\<lparr>ew_status := EarningWithdrawalStatusSuccess, ew_tx_hash := Some txHash\<rparr>)
                    (db_withdrawals d1)\<rparr> in
         if 0 < ew_withdrawal_fee w then
           let receiver = (case wallet_network cfg (ew_network w) of None \<Rightarrow> [] | Some n \<Rightarrow> wn_fee_receiver_address n) in
           (case create_earning_event d2
                   (earning_event_of None receiver EarningEventTypeWithdrawalFeeIncome (ew_withdrawal_fee w)
                      EarningSourceTypeWithdrawal (ew_id w)) of
              Inr (d3, _) \<Rightarrow> Inr d3
            | Inl e \<Rightarrow> if e = ErrDuplicatedKey then Inr d2 else Inl e)
         else Inr d2)))))"

definition RejectWithdrawal :: "db \<Rightarrow> nat \<Rightarrow> err + db" where
  "RejectWithdrawal d withdrawalID =
     bindE (of_option ErrWithdrawalNotFound (withdrawal_by d withdrawalID)) (\<lambda>w0.
     bindE (of_option ErrRecordNotFound (earn_acct d (ew_user_id w0))) (\<lambda>account.
     bindE (of_option ErrWithdrawalNotFound (withdrawal_by d withdrawalID)) (\<lambda>w.
     if ew_status w = EarningWithdrawalStatusFailed then Inr d
     else
       rejectIf (ew_status w \<noteq> EarningWithdrawalStatusPending) ErrWithdrawalConflict
       (bindE (of_option ErrRecordNotFound (tbl_lookup u_id (ew_user_id w) (db_users d))) (\<lambda>user.
        let total = ew_amount w + ew_withdrawal_fee w;
            newLocked = ea_withdrawal_locked account - total in
        rejectIf (newLocked < 0) (ErrMsg ''withdrawal locked balance inconsistency'')
        (let d1 = save_earning d (account\<lparr>ea_withdrawal_locked := newLocked,
                                          ea_available := ea_available account + total\<rparr>);
             d2 = d1\<lparr>db_withdrawals := tbl_modify (\<lambda>x. ew_id x = ew_id w)
                    (\<lambda>x. x\<lparr>ew_status := EarningWithdrawalStatusFailed\<rparr>) (db_withdrawals d1)\<rparr> in
         (case create_earning_event d2
                 (earning_event_of (Some (ea_id account)) (u_address user) EarningEventTypeWithdrawRefund total
                    EarningSourceTypeWithdrawal (ew_id w)) of
            Inr (d3, _) \<Rightarrow> Inr d3
          | Inl e \<Rightarrow> if e = ErrDuplicatedKey then Inr d2 else Inl e)))))))"

subsection \<open>Reads of the wallet service\<close>

definition ListPendingWithdrawalsForWallet ::
  "db \<Rightarrow> nat \<Rightarrow> int \<Rightarrow> earning_withdrawal list \<times> (nat \<Rightarrow> string option)" where
  "ListPendingWithdrawalsForWallet d startID limit0 =
     (let limit = (if limit0 \<le> 0 then 100 else nat limit0);
          ids = map ew_id (take limit
            (tbl_where (\<lambda>w. ew_status w = EarningWithdrawalStatusPending \<and> startID < ew_id w) (db_withdrawals d))) in
      if ids = [] then ([], \<lambda>_. None)
      else
        let ws = tbl_where (\<lambda>w. ew_id w \<in> set ids) (db_withdrawals d);
            users = tbl_where (\<lambda>u. u_id u \<in> set (map ew_user_id ws)) (db_users d) in
        (ws, map_of (map (\<lambda>u. (u_id u, u_address u)) users)))"

definition ListProcessedEarningEventsForWallet :: "db \<Rightarrow> nat \<Rightarrow> int \<Rightarrow> earning_event list" where
  "ListProcessedEarningEventsForWallet d startID limit0 =
     (let limit = (if limit0 \<le> 0 then 100 else nat limit0);
          events = take limit (tbl_where (\<lambda>e. ee_status e = EarningEventStatusProcessed \<and> startID < ee_id e)
                     (db_earning_events d)) in
      if events = [] then events
      else (case tbl_first (\<lambda>e. startID < ee_id e \<and> ee_id e < ee_id (last events) \<and>
                     ee_status e \<noteq> EarningEventStatusProcessed) (db_earning_events d) of
          None \<Rightarrow> events
        | Some gap \<Rightarrow> takeWhile (\<lambda>e. ee_id e < ee_id gap) events))"

subsection \<open>The earning ledger\<close>

definition earning_delta :: "earning_event \<Rightarrow> int" where
  "earning_delta e =
     (if ee_status e \<noteq> EarningEventStatusProcessed then 0
      else if ee_type e = EarningEventTypeWithdraw then - ee_amount e else ee_amount e)"

definition earned_of :: "db \<Rightarrow> nat \<Rightarrow> int" where
  "earned_of d k = tbl_sum (\<lambda>e. if ee_account_id e = Some k then earning_delta e else 0) (db_earning_events d)"

definition pending_total :: "nat \<Rightarrow> earning_withdrawal \<Rightarrow> int" where
  "pending_total u w =
     (if ew_user_id w = u \<and> ew_status w = EarningWithdrawalStatusPending
      then ew_amount w + ew_withdrawal_fee w else 0)"

definition pending_of :: "db \<Rightarrow> nat \<Rightarrow> int" where
  "pending_of d u = tbl_sum (pending_total u) (db_withdrawals d)"

text \<open>
  \<open>eo k\<close> is the amount by which the available balance of account \<open>k\<close> is ahead of the
  events, \<open>po u\<close> the amount by which the locked balance of user \<open>u\<close> is ahead of the
  pending withdrawals; both are zero between transactions.
\<close>

fun earn_ok :: "(nat \<Rightarrow> int) \<Rightarrow> int \<Rightarrow> earning_account option \<Rightarrow> bool" where
  "earn_ok e p None \<longleftrightarrow> p = 0"
| "earn_ok e p (Some a) \<longleftrightarrow> ea_available a = e (ea_id a) \<and> ea_withdrawal_locked a = p \<and>
     0 \<le> ea_available a \<and> 0 \<le> p"

definition earning_off :: "(nat \<Rightarrow> int) \<Rightarrow> (nat \<Rightarrow> int) \<Rightarrow> db \<Rightarrow> bool" where
  "earning_off eo po d \<longleftrightarrow>
     idx_wf ea_id ea_user_id (db_earning_accounts d) \<and> tbl_wf ew_id (db_withdrawals d) \<and>
     (\<forall>k \<ge> next_id (db_earning_accounts d). earned_of d k + eo k = 0) \<and>
     (\<forall>w \<in> set (rows (db_withdrawals d)). 0 \<le> ew_amount w \<and> 0 \<le> ew_withdrawal_fee w) \<and>
     (\<forall>u. earn_ok (\<lambda>k. earned_of d k + eo k) (pending_of d u + po u) (earn_acct d u))"


lemma earn_acct_user: "earn_acct d u = Some a \<Longrightarrow> ea_user_id a = u"
  by (auto simp: earn_acct_def dest: tbl_lookupD)

lemma earning_offD:
  assumes "earning_off eo po d" "earn_acct d u = Some a"
  shows "ea_available a = earned_of d (ea_id a) + eo (ea_id a)" "ea_withdrawal_locked a = pending_of d u + po u"
    "0 \<le> ea_available a" "0 \<le> ea_withdrawal_locked a"
  using assms by (auto simp: earning_off_def dest!: spec [of _ u])

lemma earning_off_cong:
  assumes "earning_off eo po d"
    "db_earning_accounts d' = db_earning_accounts d" "db_earning_events d' = db_earning_events d"
    "db_withdrawals d' = db_withdrawals d"
  shows "earning_off eo po d'"
proof -
  have "earn_acct d' = earn_acct d" "earned_of d' = earned_of d" "pending_of d' = pending_of d"
    using assms(2-4) by (simp_all add: fun_eq_iff earn_acct_def earned_of_def pending_of_def)
  with assms show ?thesis by (simp add: earning_off_def)
qed

lemma save_earning_sel [simp]:
  "db_earning_events (save_earning d a) = db_earning_events d"
  "db_withdrawals (save_earning d a) = db_withdrawals d"
  "db_users (save_earning d a) = db_users d"
  "earned_of (save_earning d a) k = earned_of d k" "pending_of (save_earning d a) u = pending_of d u"
  "next_id (db_earning_accounts (save_earning d a)) = next_id (db_earning_accounts d)"
  by (auto simp: save_earning_def earned_of_def pending_of_def)

lemma earn_acct_save:
  assumes "idx_wf ea_id ea_user_id (db_earning_accounts d)" "earn_acct d u = Some a"
    "ea_id a' = ea_id a" "ea_user_id a' = u"
  shows "earn_acct (save_earning d a') v = (if v = u then Some a' else earn_acct d v)"
  using earning_by_user.lookup_save [of "db_earning_accounts d" a' a v] assms
  by (simp add: earn_acct_def save_earning_def)

lemma earn_acct_distinct:
  assumes "idx_wf ea_id ea_user_id (db_earning_accounts d)" "earn_acct d u = Some a" "earn_acct d v = Some b" "v \<noteq> u"
  shows "ea_id b \<noteq> ea_id a"
  using assms tbl_wfD_unique [of ea_id "db_earning_accounts d" a b]
  by (auto simp: idx_wf_def earn_acct_def dest!: tbl_lookupD)

lemma earning_off_save:
  assumes inv: "earning_off eo po d" and acct: "earn_acct d u = Some a"
    and a': "ea_id a' = ea_id a" "ea_user_id a' = u" "0 \<le> ea_available a'" "0 \<le> ea_withdrawal_locked a'"
  shows "earning_off (eo(ea_id a := eo (ea_id a) + ea_available a' - ea_available a))
           (po(u := po u + ea_withdrawal_locked a' - ea_withdrawal_locked a)) (save_earning d a')"
proof -
  have wf: "idx_wf ea_id ea_user_id (db_earning_accounts d)" using inv by (simp add: earning_off_def)
  have "idx_wf ea_id ea_user_id (db_earning_accounts (save_earning d a'))"
    using earning_by_user.wf_save [OF wf, of a' a] acct a' by (simp add: save_earning_def earn_acct_def)
  moreover have "a \<in> set (rows (db_earning_accounts d))" using acct by (auto simp: earn_acct_def dest: tbl_lookupD)
  then have "ea_id a < next_id (db_earning_accounts d)" using wf by (simp add: idx_wf_def tbl_wf_def)
  moreover have "earn_ok (\<lambda>k. earned_of (save_earning d a') k + (eo(ea_id a := eo (ea_id a) + ea_available a' - ea_available a)) k)
      (pending_of (save_earning d a') v + (po(u := po u + ea_withdrawal_locked a' - ea_withdrawal_locked a)) v)
      (earn_acct (save_earning d a') v)" for v
  proof (cases "v = u")
    case True
    then show ?thesis using earning_offD [OF inv acct] a' by (simp add: earn_acct_save [OF wf acct a'(1,2)])
  next
    case False
    have "earn_ok (\<lambda>k. earned_of d k + eo k) (pending_of d v + po v) (earn_acct d v)"
      using inv by (simp add: earning_off_def)
    with False show ?thesis
      using earn_acct_distinct [OF wf acct, of v]
      by (cases "earn_acct d v") (auto simp: earn_acct_save [OF wf acct a'(1,2)])
  qed
  ultimately show ?thesis using inv by (auto simp: earning_off_def)
qed

lemma create_earning_event_Inr:
  "create_earning_event d mk = Inr (d', e) \<longleftrightarrow>
     (\<exists>t. tbl_create earning_event_clash mk (db_earning_events d) = Inr (t, e) \<and> d' = d\<lparr>db_earning_events := t\<rparr>)"
  by (auto simp: create_earning_event_def bindE_Inr_iff)

text \<open>An event of an existing account, and one that belongs to no account.\<close>

lemma earning_off_event:
  assumes inv: "earning_off eo po d" and e: "create_earning_event d mk = Inr (d', e)"
    and k: "\<And>k. ee_account_id e = Some k \<Longrightarrow> k < next_id (db_earning_accounts d)"
  shows "earning_off (\<lambda>k. if ee_account_id e = Some k then eo k - earning_delta e else eo k) po d'"
proof -
  obtain t where c: "tbl_create earning_event_clash mk (db_earning_events d) = Inr (t, e)"
    and t: "d' = d\<lparr>db_earning_events := t\<rparr>"
    using e by (auto simp: create_earning_event_Inr)
  have "rows t = rows (db_earning_events d) @ [e]" using c by (auto simp: res_simps)
  with t have ev: "earned_of d' k = earned_of d k + (if ee_account_id e = Some k then earning_delta e else 0)" for k
    by (simp add: earned_of_def tbl_sum_def)
  have other: "pending_of d' u = pending_of d u" "earn_acct d' u = earn_acct d u" for u
    using t by (simp_all add: pending_of_def earn_acct_def)
  have same: "(\<lambda>k. earned_of d' k + (if ee_account_id e = Some k then eo k - earning_delta e else eo k)) =
      (\<lambda>k. earned_of d k + eo k)"
    by (auto simp: ev)
  have acc: "db_earning_accounts d' = db_earning_accounts d" "db_withdrawals d' = db_withdrawals d"
    using t by simp_all
  show ?thesis
    using inv k fun_cong [OF same] unfolding earning_off_def by (simp add: same other acc)
qed

lemma earning_off_withdrawals:
  assumes "earning_off eo po d" "tbl_wf ew_id t"
    "\<And>w. w \<in> set (rows t) \<Longrightarrow> 0 \<le> ew_amount w \<and> 0 \<le> ew_withdrawal_fee w"
    "\<And>u. po' u = po u + pending_of d u - tbl_sum (pending_total u) t"
  shows "earning_off eo po' (d\<lparr>db_withdrawals := t\<rparr>)"
proof -
  have "earn_acct (d\<lparr>db_withdrawals := t\<rparr>) = earn_acct d" "earned_of (d\<lparr>db_withdrawals := t\<rparr>) = earned_of d"
    "\<And>u. pending_of (d\<lparr>db_withdrawals := t\<rparr>) u + po' u = pending_of d u + po u"
    using assms(4) by (simp_all add: fun_eq_iff earn_acct_def earned_of_def pending_of_def)
  with assms(1-3) show ?thesis by (simp add: earning_off_def)
qed

lemma pending_modify:
  assumes "tbl_wf ew_id (db_withdrawals d)" "w \<in> set (rows (db_withdrawals d))"
  shows "tbl_sum (pending_total u) (tbl_modify (\<lambda>x. ew_id x = ew_id w) f (db_withdrawals d)) =
    pending_of d u - pending_total u w + pending_total u (f w)"
  using withdrawal_row.sum_modify_key [OF assms] by (simp add: pending_of_def)

text \<open>A refund is only ever written for a withdrawal that failed.\<close>

definition refunds_ok :: "db \<Rightarrow> bool" where
  "refunds_ok d \<longleftrightarrow>
     (\<forall>e \<in> set (rows (db_earning_events d)). ee_type e = EarningEventTypeWithdrawRefund \<longrightarrow>
        (\<exists>w \<in> set (rows (db_withdrawals d)). ew_id w = ee_source_id e \<and> ew_status w = EarningWithdrawalStatusFailed))"

lemma create_earning_account_Inr:
  "create_earning_account d u = Inr (d', a) \<longleftrightarrow>
     (\<exists>t. tbl_create earning_account_clash (earning_row_of u) (db_earning_accounts d) = Inr (t, a) \<and>
       d' = d\<lparr>db_earning_accounts := t\<rparr>)"
  by (auto simp: create_earning_account_def bindE_Inr_iff)

lemma earning_off_create:
  assumes inv: "earning_off eo po d" and c: "create_earning_account d u = Inr (d1, a)"
  shows "earning_off eo po d1 \<and> earn_acct d1 u = Some a"
proof -
  obtain t where t: "tbl_create earning_account_clash (earning_row_of u) (db_earning_accounts d) = Inr (t, a)"
    and d1: "d1 = d\<lparr>db_earning_accounts := t\<rparr>"
    using c by (auto simp: create_earning_account_Inr)
  define r0 where "r0 = earning_row_of u 0"
  have mk: "earning_row_of u = (\<lambda>n. r0\<lparr>ea_id := n\<rparr>)" by (simp add: earning_row_of_def r0_def fun_eq_iff)
  have wf: "idx_wf ea_id ea_user_id (db_earning_accounts d)" using inv by (simp add: earning_off_def)
  note t' = t [unfolded mk]
  have wf': "idx_wf ea_id ea_user_id t"
    by (rule earning_by_user.wf_create_idx [OF wf t']) (simp add: earning_account_clash_def)
  have a: "ea_user_id a = u" "ea_available a = 0" "ea_withdrawal_locked a = 0"
    "ea_id a = next_id (db_earning_accounts d)" "next_id t = Suc (next_id (db_earning_accounts d))"
    using t by (auto simp: res_simps earning_row_of_def)
  have look: "tbl_lookup ea_user_id v t = (if v = u then Some a else tbl_lookup ea_user_id v (db_earning_accounts d))" for v
    using earning_by_user.lookup_create [OF wf t', of v] a by (simp add: earning_account_clash_def)
  have new: "tbl_lookup ea_user_id u (db_earning_accounts d) = None"
    using t by (auto simp: res_simps earning_account_clash_def earning_row_of_def tbl_lookup_None_iff)
  have "earn_ok (\<lambda>k. earned_of d k + eo k) (pending_of d u + po u) (earn_acct d u)"
    using inv by (simp add: earning_off_def)
  then have "pending_of d u + po u = 0" using new by (simp add: earn_acct_def)
  moreover have "earned_of d (ea_id a) + eo (ea_id a) = 0" using inv a by (simp add: earning_off_def)
  moreover have "earned_of d1 k = earned_of d k" "pending_of d1 v = pending_of d v" for k v
    by (simp_all add: d1 earned_of_def pending_of_def)
  ultimately show ?thesis
    using inv wf' a by (auto simp: earning_off_def d1 earn_acct_def look)
qed

lemma earn_acct_id:
  "earning_off eo po d \<Longrightarrow> earn_acct d u = Some a \<Longrightarrow> ea_id a < next_id (db_earning_accounts d)"
  by (auto simp: earning_off_def idx_wf_def tbl_wf_def earn_acct_def dest: tbl_lookupD)

lemma create_earning_event_sel:
  assumes "create_earning_event d mk = Inr (d', e)"
  shows "rows (db_earning_events d') = rows (db_earning_events d) @ [e] \<and> e = mk (next_id (db_earning_events d)) \<and>
    db_withdrawals d' = db_withdrawals d \<and> db_earning_accounts d' = db_earning_accounts d"
  using assms by (auto simp: create_earning_event_Inr res_simps)

lemma income_off:
  assumes inv: "earning_off eo po d" and ok: "refunds_ok d" and c: "CreateTaskIncomeEarningTx d u address amount r = Inr d'"
  shows "earning_off eo po d' \<and> refunds_ok d'"
proof -
  from c consider "d' = d" | n d1 a e where "amount = Some n" "0 < n"
      "earning_off eo po d1" "earn_acct d1 u = Some a" "db_earning_events d1 = db_earning_events d"
      "db_withdrawals d1 = db_withdrawals d"
      "create_earning_event (save_earning d1 (a\<lparr>ea_available := ea_available a + n\<rparr>))
         (earning_event_of (Some (ea_id a)) address EarningEventTypeTaskIncome n
            EarningSourceTypeTaskCallRecord r) = Inr (d', e)"
  proof (cases "amount = None \<or> (\<exists>n. amount = Some n \<and> n \<le> 0)")
    case True
    with c that(1) show ?thesis by (auto simp: CreateTaskIncomeEarningTx_def)
  next
    case False
    then obtain n where n: "amount = Some n" "0 < n" by (cases amount) (auto simp: not_le)
    show ?thesis
    proof (cases "earn_acct d u")
      case None
      with c n obtain d1 a0 a e where s: "create_earning_account d u = Inr (d1, a0)" "earn_acct d1 u = Some a"
        "create_earning_event (save_earning d1 (a\<lparr>ea_available := ea_available a + n\<rparr>))
         (earning_event_of (Some (ea_id a)) address EarningEventTypeTaskIncome n
            EarningSourceTypeTaskCallRecord r) = Inr (d', e)"
        by (auto simp: CreateTaskIncomeEarningTx_def bindE_Inr_iff of_option_Inr_iff)
      then show ?thesis using that(2) [OF n _ s(2) _ _ s(3)] earning_off_create [OF inv s(1)]
        by (auto simp: create_earning_account_Inr)
    next
      case (Some a)
      with c n obtain e where
        "create_earning_event (save_earning d (a\<lparr>ea_available := ea_available a + n\<rparr>))
         (earning_event_of (Some (ea_id a)) address EarningEventTypeTaskIncome n
            EarningSourceTypeTaskCallRecord r) = Inr (d', e)"
        by (auto simp: CreateTaskIncomeEarningTx_def bindE_Inr_iff)
      with that(2) [OF n inv Some] show ?thesis by simp
    qed
  qed
  then show ?thesis
  proof cases
    case 1
    with inv ok show ?thesis by simp
  next
    case (2 n d1 a e)
    let ?a = "a\<lparr>ea_available := ea_available a + n\<rparr>"
    note d = earning_offD [OF 2(3,4)]
    have s: "earning_off (eo(ea_id a := eo (ea_id a) + n)) po (save_earning d1 ?a)"
      using earning_off_save [OF 2(3,4), of ?a] d 2(2) earn_acct_user [OF 2(4)] by (simp add: algebra_simps)
    note e = create_earning_event_sel [OF 2(7)]
    have "earning_off (\<lambda>k. if ee_account_id e = Some k then (eo(ea_id a := eo (ea_id a) + n)) k - earning_delta e
        else (eo(ea_id a := eo (ea_id a) + n)) k) po d'"
      by (rule earning_off_event [OF s 2(7)]) (use e earn_acct_id [OF 2(3,4)] in \<open>auto simp: earning_event_of_def\<close>)
    moreover have "(\<lambda>k. if ee_account_id e = Some k then (eo(ea_id a := eo (ea_id a) + n)) k - earning_delta e
        else (eo(ea_id a := eo (ea_id a) + n)) k) = eo"
      using e by (auto simp: earning_event_of_def earning_delta_def fun_eq_iff)
    moreover have "refunds_ok d'"
      using ok e 2(5,6) by (auto simp: refunds_ok_def earning_event_of_def)
    ultimately show ?thesis by simp
  qed
qed

definition earning_inv :: "db \<Rightarrow> bool" where
  "earning_inv d \<longleftrightarrow> earning_off (\<lambda>_. 0) (\<lambda>_. 0) d \<and> refunds_ok d"

lemma ParseCNXToWei_nonneg: "ParseCNXToWei s = Inr n \<Longrightarrow> 0 \<le> n"
proof -
  assume "ParseCNXToWei s = Inr n"
  then obtain r where r: "0 \<le> r" "n = fst (quotient_of (r * 10 ^ 18))" "snd (quotient_of (r * 10 ^ 18)) = 1"
    by (auto simp: ParseCNXToWei_def Let_def res_simps not_less)
  obtain a b where q: "quotient_of (r * 10 ^ 18) = (a, b)" by (cases "quotient_of (r * 10 ^ 18)")
  then have "r * 10 ^ 18 = of_int a / of_int b" by (rule quotient_of_div)
  moreover have "0 \<le> r * 10 ^ 18" using r(1) by simp
  ultimately show "0 \<le> n" using q r by (simp add: zero_le_divide_iff)
qed

lemma CreateWithdrawal_Inr:
  assumes "CreateWithdrawal cfg env d inp = Inr (d', w)"
  obtains user amount fee benefit fp n where "cw_user inp = Some user" "cw_amount inp = Some amount" "0 < amount"
    "CalculateWithdrawalFee cfg (cw_network inp) (Some amount) = Inr fee" "0 \<le> fee"
    "we_benefit_address env (u_address user) (cw_network inp) = Inr benefit"
    "wallet_network cfg (cw_network inp) = Some n"
    "we_verify_signature env (BuildCanonicalWithdrawalMessage amount (u_address user) benefit (cw_network inp)
       (cw_timestamp inp)) (cw_signature inp) (u_address user) = Inr ()"
    "fp = we_sha256_hex env (BuildCanonicalWithdrawalMessage amount (u_address user) benefit (cw_network inp) (cw_timestamp inp))"
    "create_withdrawal_tx inp (we_now env) (wn_max_withdrawals_per_day n) d user benefit amount fee fp = Inr (d', w)"
proof -
  have "0 \<le> fee" if "CalculateWithdrawalFee cfg (cw_network inp) a = Inr fee" for a fee
    using that by (auto simp: CalculateWithdrawalFee_def bindE_Inr_iff dest: ParseCNXToWei_nonneg)
  then show thesis
    using assms that
    by (auto simp: CreateWithdrawal_def Let_def bindE_Inr_iff rejectIf_Inr_iff of_option_Inr_iff not_le
        split: option.splits)
qed

lemma create_withdrawal_tx_Inr:
  assumes "create_withdrawal_tx inp now mx d user benefit amount fee fp = Inr (d', w)"
  obtains a t w0 d2 e where "earn_acct d (u_id user) = Some a"
    "ensureWithdrawalDailyLimitsTx now d (u_id user) benefit (cw_network inp) mx = Inr ()"
    "amount + fee \<le> ea_available a"
    "tbl_create withdrawal_clash (withdrawal_row_of inp now (u_id user) benefit amount fee fp) (db_withdrawals d) = Inr (t, w0)"
    "create_earning_event (d\<lparr>db_withdrawals := t\<rparr>)
       (earning_event_of (Some (ea_id a)) (u_address user) EarningEventTypeWithdraw (amount + fee)
          EarningSourceTypeWithdrawal (ew_id w0)) = Inr (d2, e)"
    "d' = save_earning (d2\<lparr>db_withdrawals := tbl_modify (\<lambda>x. ew_id x = ew_id w0)
                 (\<lambda>x. x\<lparr>ew_earning_event_id := Some (ee_id e)\<rparr>) (db_withdrawals d2)\<rparr>)
       (a\<lparr>ea_available := ea_available a - (amount + fee),
          ea_withdrawal_locked := ea_withdrawal_locked a + (amount + fee)\<rparr>)"
    "w = w0\<lparr>ew_earning_event_id := Some (ee_id e)\<rparr>"
  using assms
  by (auto simp: create_withdrawal_tx_def Let_def bindE_Inr_iff rejectIf_Inr_iff of_option_Inr_iff
      duplicate_as_Inr_iff not_less)

lemma create_withdrawal_off:
  assumes inv: "earning_off (\<lambda>_. 0) (\<lambda>_. 0) d" and ok: "refunds_ok d"
    and tx: "create_withdrawal_tx inp now mx d user benefit amount fee fp = Inr (d', w)"
    and pos: "0 < amount" "0 \<le> fee"
  shows "earning_off (\<lambda>_. 0) (\<lambda>_. 0) d' \<and> refunds_ok d'"
proof -
  obtain a t w0 d2 e where s: "earn_acct d (u_id user) = Some a" "amount + fee \<le> ea_available a"
    "tbl_create withdrawal_clash (withdrawal_row_of inp now (u_id user) benefit amount fee fp) (db_withdrawals d) = Inr (t, w0)"
    "create_earning_event (d\<lparr>db_withdrawals := t\<rparr>)
       (earning_event_of (Some (ea_id a)) (u_address user) EarningEventTypeWithdraw (amount + fee)
          EarningSourceTypeWithdrawal (ew_id w0)) = Inr (d2, e)"
    "d' = save_earning (d2\<lparr>db_withdrawals := tbl_modify (\<lambda>x. ew_id x = ew_id w0)
                 (\<lambda>x. x\<lparr>ew_earning_event_id := Some (ee_id e)\<rparr>) (db_withdrawals d2)\<rparr>)
       (a\<lparr>ea_available := ea_available a - (amount + fee),
          ea_withdrawal_locked := ea_withdrawal_locked a + (amount + fee)\<rparr>)"
    using tx by (rule create_withdrawal_tx_Inr)
  let ?u = "u_id user" and ?n = "amount + fee"
  have w0: "w0 = withdrawal_row_of inp now ?u benefit amount fee fp (next_id (db_withdrawals d))"
    "rows t = rows (db_withdrawals d) @ [w0]" "next_id t = Suc (next_id (db_withdrawals d))"
    using s(3) by (auto simp: res_simps)
  have w0u: "ew_user_id w0 = ?u" "ew_status w0 = EarningWithdrawalStatusPending" "ew_amount w0 = amount"
    "ew_withdrawal_fee w0 = fee" "ew_id w0 = next_id (db_withdrawals d)"
    by (simp_all add: w0(1) withdrawal_row_of_def)
  have wft: "tbl_wf ew_id t"
    using inv w0 w0u tbl_wf_create [of ew_id "db_withdrawals d" w0] by (cases t) (auto simp: earning_off_def)
  have amounts: "0 \<le> ew_amount x \<and> 0 \<le> ew_withdrawal_fee x" if "x \<in> set (rows t)" for x
    using that inv pos w0u by (auto simp: w0(2) earning_off_def)
  have o1: "earning_off (\<lambda>_. 0) ((\<lambda>_. 0)(?u := - ?n)) (d\<lparr>db_withdrawals := t\<rparr>)"
    by (rule earning_off_withdrawals [OF inv wft amounts])
       (auto simp: w0(2) pending_of_def tbl_sum_def pending_total_def w0u)
  note e = create_earning_event_sel [OF s(4)]
  have eacc: "ee_account_id e = Some (ea_id a)" "earning_delta e = - ?n" "ee_type e = EarningEventTypeWithdraw"
    using e by (simp_all add: earning_event_of_def earning_delta_def)
  have "earning_off (\<lambda>k. if ee_account_id e = Some k then 0 - earning_delta e else 0) ((\<lambda>_. 0)(?u := - ?n)) d2"
    by (rule earning_off_event [OF o1 s(4)]) (use earn_acct_id [OF inv s(1)] eacc in simp)
  moreover have "(\<lambda>k. if ee_account_id e = Some k then 0 - earning_delta e else 0) = (\<lambda>_. 0)(ea_id a := ?n)"
    using eacc by auto
  ultimately have o2: "earning_off ((\<lambda>_. 0)(ea_id a := ?n)) ((\<lambda>_. 0)(?u := - ?n)) d2" by simp
  let ?f = "\<lambda>x. x\<lparr>ew_earning_event_id := Some (ee_id e)\<rparr>"
  let ?t = "tbl_modify (\<lambda>x. ew_id x = ew_id w0) ?f (db_withdrawals d2)"
  have d2t: "db_withdrawals d2 = t" using e by simp
  have o3: "earning_off ((\<lambda>_. 0)(ea_id a := ?n)) ((\<lambda>_. 0)(?u := - ?n)) (d2\<lparr>db_withdrawals := ?t\<rparr>)"
  proof (rule earning_off_withdrawals [OF o2])
    show "tbl_wf ew_id ?t" unfolding d2t by (rule tbl_wf_modify [OF wft]) simp
    show "0 \<le> ew_amount x \<and> 0 \<le> ew_withdrawal_fee x" if "x \<in> set (rows ?t)" for x
      using that amounts by (auto simp: d2t split: if_splits)
    show "((\<lambda>_. 0)(?u := - ?n)) v = ((\<lambda>_. 0)(?u := - ?n)) v + pending_of d2 v - tbl_sum (pending_total v) ?t" for v
      unfolding pending_of_def by (subst tbl_sum_modify_cong) (auto simp: pending_total_def)
  qed
  have acct: "earn_acct (d2\<lparr>db_withdrawals := ?t\<rparr>) ?u = Some a"
    using e s(1) by (simp add: earn_acct_def)
  note la = earning_offD [OF inv s(1)]
  let ?a = "a\<lparr>ea_available := ea_available a - ?n, ea_withdrawal_locked := ea_withdrawal_locked a + ?n\<rparr>"
  have "earning_off (((\<lambda>_. 0)(ea_id a := ?n))(ea_id a := ((\<lambda>_. 0)(ea_id a := ?n)) (ea_id a) + ea_available ?a - ea_available a))
      (((\<lambda>_. 0)(?u := - ?n))(?u := ((\<lambda>_. 0)(?u := - ?n)) ?u + ea_withdrawal_locked ?a - ea_withdrawal_locked a)) d'"
    unfolding s(5) by (rule earning_off_save [OF o3 acct]) (use la s(2) pos earn_acct_user [OF s(1)] in auto)
  then have "earning_off (\<lambda>_. 0) (\<lambda>_. 0) d'" by (simp add: fun_upd_idem)
  moreover have "refunds_ok d'"
  proof -
    have ev: "db_earning_events d' = db_earning_events d2" "db_withdrawals d' = ?t" by (simp_all add: s(5))
    show ?thesis
      unfolding refunds_ok_def ev
    proof (intro ballI impI)
    fix x assume "x \<in> set (rows (db_earning_events d2))" "ee_type x = EarningEventTypeWithdrawRefund"
    then have "x \<in> set (rows (db_earning_events d))" using e eacc by auto
    then obtain y where y: "y \<in> set (rows (db_withdrawals d))" "ew_id y = ee_source_id x" "ew_status y = EarningWithdrawalStatusFailed"
      using ok \<open>ee_type x = _\<close> by (auto simp: refunds_ok_def)
    have "y \<in> set (rows t)" using y by (simp add: w0(2))
    then have "(if ew_id y = ew_id w0 then ?f y else y) \<in> set (rows ?t)" by (auto simp: d2t)
    then show "\<exists>w \<in> set (rows ?t). ew_id w = ee_source_id x \<and> ew_status w = EarningWithdrawalStatusFailed"
      using y by (intro bexI [of _ "if ew_id y = ew_id w0 then ?f y else y"]) auto
    qed
  qed
  ultimately show ?thesis by simp
qed

text \<open>
  Closing a pending withdrawal: the account is saved with the locked amount reduced (and,
  for a refund, the available amount increased), then the withdrawal leaves the pending
  state.
\<close>

lemma withdrawal_by_in: "withdrawal_by d k = Some w \<Longrightarrow> w \<in> set (rows (db_withdrawals d)) \<and> ew_id w = k"
  by (auto simp: withdrawal_by_def dest: tbl_lookupD)

lemma pending_of_ge:
  assumes inv: "earning_off eo po d" and w: "w \<in> set (rows (db_withdrawals d))"
  shows "pending_total u w \<le> pending_of d u"
proof -
  have "pending_total u w \<le> sum_list (map (pending_total u) (rows (db_withdrawals d)))"
  proof (rule member_le_sum_list)
    show "pending_total u w \<in> set (map (pending_total u) (rows (db_withdrawals d)))" using w by simp
  qed (use inv in \<open>auto simp: pending_total_def earning_off_def\<close>)
  then show ?thesis by (simp add: pending_of_def tbl_sum_def)
qed

lemma close_off:
  assumes inv: "earning_off (\<lambda>_. 0) (\<lambda>_. 0) d" and w: "w \<in> set (rows (db_withdrawals d))"
    and pend: "ew_status w = EarningWithdrawalStatusPending"
    and a: "earn_acct d (ew_user_id w) = Some a"
    and f: "\<And>x. ew_id (f x) = ew_id x \<and> ew_amount (f x) = ew_amount x \<and> ew_withdrawal_fee (f x) = ew_withdrawal_fee x \<and>
      ew_user_id (f x) = ew_user_id x \<and> ew_status (f x) \<noteq> EarningWithdrawalStatusPending"
    and r: "r \<in> {0, ew_amount w + ew_withdrawal_fee w}"
  defines "a' \<equiv> a\<lparr>ea_withdrawal_locked := ea_withdrawal_locked a - (ew_amount w + ew_withdrawal_fee w),
                   ea_available := ea_available a + r\<rparr>"
  defines "d1 \<equiv> (save_earning d a')\<lparr>db_withdrawals := tbl_modify (\<lambda>x. ew_id x = ew_id w) f (db_withdrawals (save_earning d a'))\<rparr>"
  shows "earning_off ((\<lambda>_. 0)(ea_id a := r)) (\<lambda>_. 0) d1 \<and> 0 \<le> ea_withdrawal_locked a'"
proof -
  let ?u = "ew_user_id w" and ?n = "ew_amount w + ew_withdrawal_fee w"
  have n: "0 \<le> ?n" using inv w by (auto simp: earning_off_def)
  have wf: "tbl_wf ew_id (db_withdrawals d)" using inv by (simp add: earning_off_def)
  note la = earning_offD [OF inv a]
  have "?n \<le> pending_of d ?u" using pending_of_ge [OF inv w, of ?u] pend by (simp add: pending_total_def)
  then have lock: "0 \<le> ea_withdrawal_locked a'" using la by (simp add: a'_def)
  have o1: "earning_off ((\<lambda>_. 0)(ea_id a := r)) ((\<lambda>_. 0)(?u := - ?n)) (save_earning d a')"
    using earning_off_save [OF inv a, of a'] la lock n r earn_acct_user [OF a] by (auto simp: a'_def)
  have "earning_off ((\<lambda>_. 0)(ea_id a := r)) (\<lambda>_. 0) d1"
    unfolding d1_def
  proof (rule earning_off_withdrawals [OF o1])
    show "tbl_wf ew_id (tbl_modify (\<lambda>x. ew_id x = ew_id w) f (db_withdrawals (save_earning d a')))"
      using wf f by (auto intro: tbl_wf_modify)
    show "0 \<le> ew_amount x \<and> 0 \<le> ew_withdrawal_fee x"
      if "x \<in> set (rows (tbl_modify (\<lambda>x. ew_id x = ew_id w) f (db_withdrawals (save_earning d a'))))" for x
      using that inv f by (auto simp: earning_off_def split: if_splits)
    show "0 = ((\<lambda>_. 0)(?u := - ?n)) v + pending_of (save_earning d a') v -
        tbl_sum (pending_total v) (tbl_modify (\<lambda>x. ew_id x = ew_id w) f (db_withdrawals (save_earning d a')))" for v
      using pending_modify [OF wf w, of v f] f pend by (simp add: pending_total_def)
  qed
  with lock show ?thesis by simp
qed

lemma closed_withdrawal:
  assumes wf: "tbl_wf ew_id (db_withdrawals d)" and k: "withdrawal_by d k = Some w"
    and t: "db_withdrawals d' = tbl_modify (\<lambda>x. ew_id x = ew_id w) f (db_withdrawals d)"
    and f: "\<And>x. ew_id (f x) = ew_id x"
  shows "withdrawal_by d' k = Some (f w)"
proof -
  have w: "w \<in> set (rows (db_withdrawals d))" "ew_id w = k" using withdrawal_by_in [OF k] by auto
  have "tbl_wf ew_id (db_withdrawals d')" unfolding t using wf f by (auto intro: tbl_wf_modify)
  moreover have "f w \<in> set (rows (db_withdrawals d'))" using w by (auto simp: t image_iff)
  ultimately have "tbl_lookup ew_id (ew_id (f w)) (db_withdrawals d') = Some (f w)"
    by (intro withdrawal_by_id.lookup_in) (simp_all add: idx_wf_key)
  then show ?thesis using w f by (simp add: withdrawal_by_def)
qed

lemma fulfill_pending:
  assumes inv: "earning_inv d" and k: "withdrawal_by d k = Some w" and pend: "ew_status w = EarningWithdrawalStatusPending"
    and a: "earn_acct d (ew_user_id w) = Some a"
  shows "\<exists>d'. FulfillWithdrawal cfg d k tx = Inr d' \<and> earning_inv d' \<and>
    withdrawal_by d' k = Some (w\<lparr>ew_status := EarningWithdrawalStatusSuccess, ew_tx_hash := Some tx\<rparr>) \<and>
    earn_acct d' = (earn_acct d)(ew_user_id w \<mapsto>
      a\<lparr>ea_withdrawal_locked := ea_withdrawal_locked a - (ew_amount w + ew_withdrawal_fee w)\<rparr>)"
proof -
  let ?f = "\<lambda>x. x\<lparr>ew_status := EarningWithdrawalStatusSuccess, ew_tx_hash := Some tx\<rparr>"
  let ?a = "a\<lparr>ea_withdrawal_locked := ea_withdrawal_locked a - (ew_amount w + ew_withdrawal_fee w)\<rparr>"
  define d2 where "d2 = (save_earning d ?a)\<lparr>db_withdrawals :=
    tbl_modify (\<lambda>x. ew_id x = ew_id w) ?f (db_withdrawals (save_earning d ?a))\<rparr>"
  have off: "earning_off (\<lambda>_. 0) (\<lambda>_. 0) d" and ok: "refunds_ok d" using inv by (auto simp: earning_inv_def)
  have w: "w \<in> set (rows (db_withdrawals d))" "ew_id w = k" using withdrawal_by_in [OF k] by auto
  have wf: "tbl_wf ew_id (db_withdrawals d)" "idx_wf ea_id ea_user_id (db_earning_accounts d)"
    using off by (auto simp: earning_off_def)
  have cl: "earning_off (\<lambda>_. 0) (\<lambda>_. 0) d2" "0 \<le> ea_withdrawal_locked ?a"
    using close_off [OF off w(1) pend a, of ?f 0] by (simp_all add: d2_def fun_upd_idem)
  have acct: "earn_acct d2 = (earn_acct d)(ew_user_id w \<mapsto> ?a)"
    using earn_acct_save [OF wf(2) a, of ?a] earn_acct_user [OF a]
    by (simp add: fun_eq_iff d2_def) (simp add: earn_acct_def save_earning_def)
  have wd: "withdrawal_by d2 k = Some (?f w)"
    by (rule closed_withdrawal [OF wf(1) k]) (simp_all add: d2_def)
  have ref: "refunds_ok d2"
    unfolding refunds_ok_def
  proof (intro ballI impI)
    fix e assume "e \<in> set (rows (db_earning_events d2))" "ee_type e = EarningEventTypeWithdrawRefund"
    then obtain y where y: "y \<in> set (rows (db_withdrawals d))" "ew_id y = ee_source_id e" "ew_status y = EarningWithdrawalStatusFailed"
      using ok by (auto simp: refunds_ok_def d2_def)
    then have "ew_id y \<noteq> ew_id w" using pend w(1) tbl_wfD_unique [OF wf(1), of y w] by auto
    then have "y \<in> set (rows (db_withdrawals d2))" using y(1) by (auto simp: d2_def image_iff)
    with y show "\<exists>w \<in> set (rows (db_withdrawals d2)). ew_id w = ee_source_id e \<and> ew_status w = EarningWithdrawalStatusFailed"
      by blast
  qed
  have base: "FulfillWithdrawal cfg d k tx =
     (if 0 < ew_withdrawal_fee w then
        (case create_earning_event d2
           (earning_event_of None (case wallet_network cfg (ew_network w) of None \<Rightarrow> [] | Some n \<Rightarrow> wn_fee_receiver_address n)
              EarningEventTypeWithdrawalFeeIncome (ew_withdrawal_fee w) EarningSourceTypeWithdrawal (ew_id w)) of
           Inr (d3, _) \<Rightarrow> Inr d3
         | Inl e \<Rightarrow> if e = ErrDuplicatedKey then Inr d2 else Inl e)
      else Inr d2)"
    unfolding d2_def using k a pend cl(2) by (simp add: FulfillWithdrawal_def Let_def del: save_earning_sel)
  show ?thesis
  proof (cases "FulfillWithdrawal cfg d k tx = Inr d2")
    case True
    with cl(1) acct wd ref show ?thesis by (auto simp: earning_inv_def)
  next
    case False
    define mk where "mk = earning_event_of None
      (case wallet_network cfg (ew_network w) of None \<Rightarrow> [] | Some n \<Rightarrow> wn_fee_receiver_address n)
      EarningEventTypeWithdrawalFeeIncome (ew_withdrawal_fee w) EarningSourceTypeWithdrawal (ew_id w)"
    have "create_earning_event d2 mk = Inl e \<Longrightarrow> e = ErrDuplicatedKey" for e
      by (auto simp: create_earning_event_def res_simps)
    then obtain d3 e where e: "create_earning_event d2 mk = Inr (d3, e)" "FulfillWithdrawal cfg d k tx = Inr d3"
      using False unfolding base mk_def [symmetric]
      by (cases "create_earning_event d2 mk") (auto split: if_splits)
    note es = create_earning_event_sel [OF e(1)]
    have "ee_account_id e = None" "ee_type e = EarningEventTypeWithdrawalFeeIncome"
      using es by (simp_all add: mk_def earning_event_of_def)
    then have "earning_off (\<lambda>_. 0) (\<lambda>_. 0) d3" "refunds_ok d3"
      using earning_off_event [OF cl(1) e(1)] es ref by (auto simp: refunds_ok_def)
    moreover have "earn_acct d3 = earn_acct d2" "withdrawal_by d3 k = withdrawal_by d2 k"
      using es by (simp_all add: earn_acct_def withdrawal_by_def fun_eq_iff)
    ultimately show ?thesis using e(2) acct wd by (auto simp: earning_inv_def)
  qed
qed

lemma reject_pending:
  assumes inv: "earning_inv d" and k: "withdrawal_by d k = Some w" and pend: "ew_status w = EarningWithdrawalStatusPending"
    and a: "earn_acct d (ew_user_id w) = Some a" and u: "tbl_lookup u_id (ew_user_id w) (db_users d) = Some user"
  shows "\<exists>d'. RejectWithdrawal d k = Inr d' \<and> earning_inv d' \<and>
    withdrawal_by d' k = Some (w\<lparr>ew_status := EarningWithdrawalStatusFailed\<rparr>) \<and>
    earn_acct d' = (earn_acct d)(ew_user_id w \<mapsto>
      a\<lparr>ea_withdrawal_locked := ea_withdrawal_locked a - (ew_amount w + ew_withdrawal_fee w),
        ea_available := ea_available a + (ew_amount w + ew_withdrawal_fee w)\<rparr>)"
proof -
  let ?f = "\<lambda>x. x\<lparr>ew_status := EarningWithdrawalStatusFailed\<rparr>" and ?n = "ew_amount w + ew_withdrawal_fee w"
  let ?a = "a\<lparr>ea_withdrawal_locked := ea_withdrawal_locked a - ?n, ea_available := ea_available a + ?n\<rparr>"
  define d2 where "d2 = (save_earning d ?a)\<lparr>db_withdrawals :=
    tbl_modify (\<lambda>x. ew_id x = ew_id w) ?f (db_withdrawals (save_earning d ?a))\<rparr>"
  have off: "earning_off (\<lambda>_. 0) (\<lambda>_. 0) d" and ok: "refunds_ok d" using inv by (auto simp: earning_inv_def)
  have w: "w \<in> set (rows (db_withdrawals d))" "ew_id w = k" using withdrawal_by_in [OF k] by auto
  have wf: "tbl_wf ew_id (db_withdrawals d)" "idx_wf ea_id ea_user_id (db_earning_accounts d)"
    using off by (auto simp: earning_off_def)
  have cl: "earning_off ((\<lambda>_. 0)(ea_id a := ?n)) (\<lambda>_. 0) d2" "0 \<le> ea_withdrawal_locked ?a"
    using close_off [OF off w(1) pend a, of ?f ?n] by (simp_all add: d2_def)
  have acct: "earn_acct d2 = (earn_acct d)(ew_user_id w \<mapsto> ?a)"
    using earn_acct_save [OF wf(2) a, of ?a] earn_acct_user [OF a]
    by (simp add: fun_eq_iff d2_def) (simp add: earn_acct_def save_earning_def)
  have wd: "withdrawal_by d2 k = Some (?f w)"
    by (rule closed_withdrawal [OF wf(1) k]) (simp_all add: d2_def)
  define mk where "mk = earning_event_of (Some (ea_id a)) (u_address user) EarningEventTypeWithdrawRefund ?n
      EarningSourceTypeWithdrawal (ew_id w)"
  have fresh: "\<not> earning_event_clash (mk n) e" if e: "e \<in> set (rows (db_earning_events d2))" for n e
  proof
    assume c: "earning_event_clash (mk n) e"
    then have "ee_type e = EarningEventTypeWithdrawRefund" "ee_source_id e = ew_id w"
      by (auto simp: earning_event_clash_def mk_def earning_event_of_def)
    then obtain y where "y \<in> set (rows (db_withdrawals d))" "ew_id y = ew_id w" "ew_status y = EarningWithdrawalStatusFailed"
      using ok e by (auto simp: refunds_ok_def d2_def)
    then show False using pend w(1) tbl_wfD_unique [OF wf(1), of y w] by auto
  qed
  obtain d3 e where e: "create_earning_event d2 mk = Inr (d3, e)"
    using tbl_create_ok [of "db_earning_events d2" earning_event_clash mk] fresh
    by (auto simp: create_earning_event_def)
  have res: "RejectWithdrawal d k = Inr d3"
    using k a u pend cl(2) e by (simp add: RejectWithdrawal_def Let_def d2_def mk_def del: save_earning_sel)
  note es = create_earning_event_sel [OF e]
  have ev: "ee_account_id e = Some (ea_id a)" "earning_delta e = ?n" "ee_source_id e = ew_id w"
    using es by (simp_all add: mk_def earning_event_of_def earning_delta_def)
  have id2: "ea_id a < next_id (db_earning_accounts d2)" using earn_acct_id [OF off a] by (simp add: d2_def)
  have "earning_off (\<lambda>k. if ee_account_id e = Some k then ((\<lambda>_. 0)(ea_id a := ?n)) k - earning_delta e
      else ((\<lambda>_. 0)(ea_id a := ?n)) k) (\<lambda>_. 0) d3"
    by (rule earning_off_event [OF cl(1) e]) (use ev id2 in simp)
  moreover have "(\<lambda>k. if ee_account_id e = Some k then ((\<lambda>_. 0)(ea_id a := ?n)) k - earning_delta e
      else ((\<lambda>_. 0)(ea_id a := ?n)) k) = (\<lambda>_. 0)" using ev by auto
  ultimately have off3: "earning_off (\<lambda>_. 0) (\<lambda>_. 0) d3" by simp
  have fw: "?f w \<in> set (rows (db_withdrawals d3))" using es w(1) by (auto simp: d2_def image_iff)
  have "refunds_ok d3"
    unfolding refunds_ok_def
  proof (intro ballI impI)
    fix x assume x: "x \<in> set (rows (db_earning_events d3))" "ee_type x = EarningEventTypeWithdrawRefund"
    show "\<exists>w \<in> set (rows (db_withdrawals d3)). ew_id w = ee_source_id x \<and> ew_status w = EarningWithdrawalStatusFailed"
    proof (cases "x = e")
      case True
      with fw ev show ?thesis by (intro bexI [of _ "?f w"]) auto
    next
      case False
      then have "x \<in> set (rows (db_earning_events d))" using x es by (simp add: d2_def)
      then obtain y where y: "y \<in> set (rows (db_withdrawals d))" "ew_id y = ee_source_id x" "ew_status y = EarningWithdrawalStatusFailed"
        using ok x(2) by (auto simp: refunds_ok_def)
      then have "(if ew_id y = ew_id w then ?f y else y) \<in> set (rows (db_withdrawals d3))" using es by (auto simp: d2_def)
      with y show ?thesis by (intro bexI [of _ "if ew_id y = ew_id w then ?f y else y"]) auto
    qed
  qed
  moreover have "earn_acct d3 = earn_acct d2" "withdrawal_by d3 k = withdrawal_by d2 k"
    using es by (simp_all add: earn_acct_def withdrawal_by_def fun_eq_iff)
  ultimately show ?thesis using res off3 acct wd by (auto simp: earning_inv_def)
qed

text \<open>C30. A withdrawal is closed exactly once, and closing it never fails for accounting
  reasons: in a state whose earnings agree, a pending withdrawal of an existing user can
  always be fulfilled (the locked amount falls by amount plus fee, the available amount
  stays) and always be rejected (amount plus fee move back from locked to available), both
  keeping the earnings in agreement. A second call of the same kind succeeds without
  changing anything, and a call of the other kind is refused as a conflict.\<close>

theorem withdrawal_closed_once:
  assumes "earning_inv d" "withdrawal_by d k = Some w" "0 < ew_amount w"
    "tbl_lookup u_id (ew_user_id w) (db_users d) = Some user" "earn_acct d (ew_user_id w) \<noteq> None"
  shows "case ew_status w of
      EarningWithdrawalStatusSuccess \<Rightarrow>
        FulfillWithdrawal cfg d k tx = Inr d \<and> RejectWithdrawal d k = Inl ErrWithdrawalConflict
    | EarningWithdrawalStatusFailed \<Rightarrow>
        RejectWithdrawal d k = Inr d \<and> FulfillWithdrawal cfg d k tx = Inl ErrWithdrawalConflict
    | EarningWithdrawalStatusPending \<Rightarrow>
        (\<exists>a d1 d2. earn_acct d (ew_user_id w) = Some a \<and>
          FulfillWithdrawal cfg d k tx = Inr d1 \<and> earning_inv d1 \<and>
          map_option ew_status (withdrawal_by d1 k) = Some EarningWithdrawalStatusSuccess \<and>
          earn_acct d1 = (earn_acct d)(ew_user_id w \<mapsto>
            a\<lparr>ea_withdrawal_locked := ea_withdrawal_locked a - (ew_amount w + ew_withdrawal_fee w)\<rparr>) \<and>
          RejectWithdrawal d k = Inr d2 \<and> earning_inv d2 \<and>
          map_option ew_status (withdrawal_by d2 k) = Some EarningWithdrawalStatusFailed \<and>
          earn_acct d2 = (earn_acct d)(ew_user_id w \<mapsto>
            a\<lparr>ea_withdrawal_locked := ea_withdrawal_locked a - (ew_amount w + ew_withdrawal_fee w),
              ea_available := ea_available a + (ew_amount w + ew_withdrawal_fee w)\<rparr>))"
proof (cases "ew_status w")
  case EarningWithdrawalStatusPending
  obtain a where a: "earn_acct d (ew_user_id w) = Some a" using assms(5) by auto
  show ?thesis
    using fulfill_pending [OF assms(1,2) EarningWithdrawalStatusPending a, of cfg tx]
      reject_pending [OF assms(1,2) EarningWithdrawalStatusPending a assms(4)] EarningWithdrawalStatusPending a
    by auto
qed (use assms in \<open>auto simp: FulfillWithdrawal_def RejectWithdrawal_def\<close>)

definition sample_provider_config :: provider_config where
  "sample_provider_config =
     \<lparr>pv_max_concurrency_per_key = 2, pv_scheduler_batch_size = 10, pv_default_queue_timeout_seconds = 600,
      pv_default_max_input_tokens = 1000, pv_default_max_output_tokens = 1000, pv_max_attempts_per_job = 3,
      pv_key_cooldown_seconds = 300, pv_stream_subscriber_buffer = 16, pv_max_secret_bytes = 4096,
      pv_wallet_networks = [(''base'', \<lparr>wn_fixed_withdrawal_fee_cnx = ''0'', wn_withdrawal_min_cnx = ''0'',
         wn_max_withdrawals_per_day = 2, wn_fee_receiver_address = ''0xfee''\<rparr>)]\<rparr>"

text \<open>User 7 has 500 available and 330 locked by a pending withdrawal of 300 with fee 30.\<close>

definition sample_withdrawal :: earning_withdrawal where
  "sample_withdrawal = \<lparr>ew_id = 1, ew_created_at = 0, ew_user_id = 7, ew_benefit_address = ''0xb'', ew_amount = 300,
     ew_withdrawal_fee = 30, ew_network = ''base'', ew_status = EarningWithdrawalStatusPending,
     ew_earning_event_id = Some 2, ew_authorization_timestamp = 0, ew_authorization_signature = [],
     ew_authorization_fingerprint = ''f'', ew_tx_hash = None\<rparr>"

definition sample_earning_db :: db where
  "sample_earning_db = empty_db
     \<lparr>db_users := \<lparr>rows = [\<lparr>u_id = 7, u_address = ''0x7''\<rparr>], next_id = 8\<rparr>,
      db_earning_accounts := \<lparr>rows = [\<lparr>ea_id = 4, ea_user_id = 7, ea_available = 500, ea_withdrawal_locked = 330\<rparr>],
                              next_id = 5\<rparr>,
      db_earning_events := \<lparr>rows =
        [earning_event_of (Some 4) ''0x7'' EarningEventTypeTaskIncome 830 EarningSourceTypeTaskCallRecord 11 1,
         earning_event_of (Some 4) ''0x7'' EarningEventTypeWithdraw 330 EarningSourceTypeWithdrawal 1 2], next_id = 3\<rparr>,
      db_withdrawals := \<lparr>rows = [sample_withdrawal], next_id = 2\<rparr>\<rparr>"

lemma sample_earning_inv: "earning_inv sample_earning_db"
  by (auto simp: earning_inv_def earning_off_def refunds_ok_def sample_earning_db_def empty_db_def idx_wf_def
      tbl_wf_def sample_withdrawal_def earned_of_def tbl_sum_def earning_event_of_def earning_delta_def
      pending_of_def pending_total_def earn_acct_def tbl_lookup_def tbl_first_def)

theorem withdrawal_closed_once_witness:
  "\<exists>d2. RejectWithdrawal sample_earning_db 1 = Inr d2 \<and> earning_inv d2 \<and>
     map_option ea_available (earn_acct d2 7) = Some 830"
proof -
  have w: "withdrawal_by sample_earning_db 1 = Some sample_withdrawal"
    "tbl_lookup u_id (ew_user_id sample_withdrawal) (db_users sample_earning_db) = Some \<lparr>u_id = 7, u_address = ''0x7''\<rparr>"
    "earn_acct sample_earning_db 7 = Some \<lparr>ea_id = 4, ea_user_id = 7, ea_available = 500, ea_withdrawal_locked = 330\<rparr>"
    "ew_user_id sample_withdrawal = 7" "ew_amount sample_withdrawal = 300" "ew_withdrawal_fee sample_withdrawal = 30"
    "ew_status sample_withdrawal = EarningWithdrawalStatusPending"
    by (simp_all add: withdrawal_by_def sample_earning_db_def tbl_lookup_def tbl_first_def sample_withdrawal_def
        earn_acct_def)
  show ?thesis
    using withdrawal_closed_once [OF sample_earning_inv w(1) _ w(2), of sample_provider_config "''0xhash''"] w by auto
qed

lemma create_withdrawal_acct:
  assumes inv: "earning_inv d" and tx: "create_withdrawal_tx inp now mx d user benefit amount fee fp = Inr (d', w)"
  shows "\<exists>a. earn_acct d (u_id user) = Some a \<and> amount + fee \<le> ea_available a \<and>
    earn_acct d' = (earn_acct d)(u_id user \<mapsto> a\<lparr>ea_available := ea_available a - (amount + fee),
       ea_withdrawal_locked := ea_withdrawal_locked a + (amount + fee)\<rparr>) \<and>
    (\<forall>x \<in> set (rows (db_withdrawals d)). ew_authorization_fingerprint x \<noteq> fp)"
proof -
  obtain a t w0 d2 e where s: "earn_acct d (u_id user) = Some a" "amount + fee \<le> ea_available a"
    "tbl_create withdrawal_clash (withdrawal_row_of inp now (u_id user) benefit amount fee fp) (db_withdrawals d) = Inr (t, w0)"
    "create_earning_event (d\<lparr>db_withdrawals := t\<rparr>)
       (earning_event_of (Some (ea_id a)) (u_address user) EarningEventTypeWithdraw (amount + fee)
          EarningSourceTypeWithdrawal (ew_id w0)) = Inr (d2, e)"
    "d' = save_earning (d2\<lparr>db_withdrawals := tbl_modify (\<lambda>x. ew_id x = ew_id w0)
                 (\<lambda>x. x\<lparr>ew_earning_event_id := Some (ee_id e)\<rparr>) (db_withdrawals d2)\<rparr>)
       (a\<lparr>ea_available := ea_available a - (amount + fee),
          ea_withdrawal_locked := ea_withdrawal_locked a + (amount + fee)\<rparr>)"
    using tx by (rule create_withdrawal_tx_Inr)
  define d3 where "d3 = d2\<lparr>db_withdrawals := tbl_modify (\<lambda>x. ew_id x = ew_id w0)
                 (\<lambda>x. x\<lparr>ew_earning_event_id := Some (ee_id e)\<rparr>) (db_withdrawals d2)\<rparr>"
  have acc: "db_earning_accounts d3 = db_earning_accounts d"
    using create_earning_event_sel [OF s(4)] by (simp add: d3_def)
  have wf: "idx_wf ea_id ea_user_id (db_earning_accounts d3)"
    using inv acc by (simp add: earning_inv_def earning_off_def)
  have a3: "earn_acct d3 v = earn_acct d v" for v using acc by (simp add: earn_acct_def)
  let ?a = "a\<lparr>ea_available := ea_available a - (amount + fee), ea_withdrawal_locked := ea_withdrawal_locked a + (amount + fee)\<rparr>"
  have "earn_acct d' = (earn_acct d)(u_id user \<mapsto> ?a)"
    using earn_acct_save [OF wf, of "u_id user" a ?a] s(1) a3 earn_acct_user [OF s(1)]
    by (simp add: s(5) d3_def [symmetric] fun_eq_iff)
  moreover have "\<forall>x \<in> set (rows (db_withdrawals d)). ew_authorization_fingerprint x \<noteq> fp"
    using s(3) by (auto simp: res_simps withdrawal_clash_def withdrawal_row_of_def)
  ultimately show ?thesis using s(1,2) by blast
qed


definition sample_wallet_env :: wallet_env where
  "sample_wallet_env = \<lparr>we_now = 5000000000, we_benefit_address = (\<lambda>a n. Inr ''0xb''),
     we_verify_signature = (\<lambda>m s a. if s = ''sig'' then Inr () else Inl (ErrMsg ''signature'')),
     we_sha256_hex = (\<lambda>m. ''digest'')\<rparr>"

definition sample_withdrawal_input :: create_withdrawal_input where
  "sample_withdrawal_input = \<lparr>cw_user = Some \<lparr>u_id = 7, u_address = ''0x7''\<rparr>, cw_amount = Some 400,
     cw_network = ''base'', cw_benefit_address = ''0xB'', cw_timestamp = 4, cw_signature = ''sig''\<rparr>"


end
