(* ===== verification/Priority.thy ===== *)
theory Priority
  imports Config
begin

text \<open>
  Cost Levels (\<open>service/priority_gwei.go\<close>) and the cache of the network queue's
  priorities they are derived from (\<open>service/queued_priority_cache.go\<close>). A nil
  \<open>*big.Int\<close> is \<open>None\<close>. \<open>Div\<close> and \<open>Mod\<close> of \<open>big.Int\<close> are Euclidean, which for the
  positive divisors here is HOL's \<open>div\<close> and \<open>mod\<close>.
\<close>

subsection \<open>The queue priority cache\<close>

record queued_priority_snapshot =
  qs_as_of :: int
  qs_queued_task_count :: int
  qs_highest :: "int option"
  qs_median :: "int option"
  qs_lowest :: "int option"

record queued_priority_cache =
  qc_snapshot :: queued_priority_snapshot
  qc_last_non_empty_median :: "int option"

definition empty_queued_priority_cache :: queued_priority_cache where
  "empty_queued_priority_cache =
     \<lparr>qc_snapshot = \<lparr>qs_as_of = 0, qs_queued_task_count = 0, qs_highest = None, qs_median = None, qs_lowest = None\<rparr>,
      qc_last_non_empty_median = None\<rparr>"

text \<open>\<open>client\<close> is \<open>None\<close> before initialisation, else what the relay answers.\<close>

definition RefreshQueuedPriority ::
  "(err + queued_priority_snapshot) option \<Rightarrow> queued_priority_cache \<Rightarrow> queued_priority_cache \<times> (err + unit)" where
  "RefreshQueuedPriority client cache =
     (case client of
        None \<Rightarrow> (cache, Inl (ErrMsg ''queued priority cache is not initialized''))
      | Some (Inl e) \<Rightarrow> (cache, Inl e)
      | Some (Inr fetched) \<Rightarrow>
          (\<lparr>qc_snapshot = fetched,
            qc_last_non_empty_median =
              (if qs_median fetched \<noteq> None \<and> 0 < qs_queued_task_count fetched then qs_median fetched
               else qc_last_non_empty_median cache)\<rparr>, Inr ()))"

definition ResolveMedianPriorityGwei :: "queued_priority_cache \<Rightarrow> int option" where
  "ResolveMedianPriorityGwei cache =
     (if qs_median (qc_snapshot cache) \<noteq> None \<and> 0 < qs_queued_task_count (qc_snapshot cache)
      then qs_median (qc_snapshot cache)
      else qc_last_non_empty_median cache)"

definition ResolveQueueMedianHint :: "llm_config \<Rightarrow> queued_priority_cache \<Rightarrow> err + int" where
  "ResolveQueueMedianHint cfg cache =
     (case ResolveMedianPriorityGwei cache of
        Some median \<Rightarrow> Inr median
      | None \<Rightarrow> parsePositiveDecimalGwei (lc_empty_queue_median_priority_gwei cfg))"

definition ResolveQueuePriorityBounds :: "queued_priority_cache \<Rightarrow> (int \<times> int) option" where
  "ResolveQueuePriorityBounds cache =
     (let s = qc_snapshot cache in
      if qs_queued_task_count s \<le> 0 then None
      else case (qs_highest s, qs_lowest s) of
        (Some highest, Some lowest) \<Rightarrow> Some (highest, lowest)
      | _ \<Rightarrow> None)"

subsection \<open>Bounds and validation\<close>

abbreviation PriorityGweiPerKgwei :: int where "PriorityGweiPerKgwei \<equiv> 1000"
abbreviation DefaultAutoQueuePosition :: int where "DefaultAutoQueuePosition \<equiv> 50"

abbreviation ParseMinPriorityGwei :: "llm_config \<Rightarrow> err + int" where
  "ParseMinPriorityGwei cfg \<equiv> parsePositiveDecimalGwei (lc_min_priority_gwei cfg)"
abbreviation ParseMaxPriorityGwei :: "llm_config \<Rightarrow> err + int" where
  "ParseMaxPriorityGwei cfg \<equiv> parsePositiveDecimalGwei (lc_max_priority_gwei cfg)"

definition StaticProjectPriorityBounds :: "llm_config \<Rightarrow> err + int \<times> int" where
  "StaticProjectPriorityBounds cfg =
     bindE (ParseMinPriorityGwei cfg) (\<lambda>configuredMin.
     bindE (ParseMaxPriorityGwei cfg) (\<lambda>configuredMax.
       let unit = PriorityGweiPerKgwei;
           min0 = (if configuredMin < unit then unit else configuredMin);
           minRem = min0 mod unit;
           minPriority = (if minRem \<noteq> 0 then min0 + (unit - minRem) else min0);
           maxPriority = configuredMax div unit * unit
       in rejectIf (maxPriority < minPriority) (ErrMsg ''static project priority bounds are empty'')
            (Inr (minPriority, maxPriority))))"

definition ValidateStaticProjectPriorityGwei :: "llm_config \<Rightarrow> int option \<Rightarrow> err + unit" where
  "ValidateStaticProjectPriorityGwei cfg priority =
     (case priority of
        None \<Rightarrow> Inl (ErrMsg ''priority_gwei must be positive'')
      | Some p \<Rightarrow>
          rejectIf (p \<le> 0) (ErrMsg ''priority_gwei must be positive'')
          (rejectIf (p mod PriorityGweiPerKgwei \<noteq> 0) (ErrMsg ''priority_gwei must be a multiple of 1000'')
          (bindE (StaticProjectPriorityBounds cfg) (\<lambda>(minPriority, maxPriority).
           rejectIf (p < minPriority \<or> maxPriority < p) (ErrMsg ''priority_gwei is out of bounds'') (Inr ())))))"

definition ValidatePriorityGwei :: "llm_config \<Rightarrow> int option \<Rightarrow> err + unit" where
  "ValidatePriorityGwei cfg priority =
     (case priority of
        None \<Rightarrow> Inl (ErrMsg ''priority_gwei must be positive'')
      | Some p \<Rightarrow>
          rejectIf (p \<le> 0) (ErrMsg ''priority_gwei must be positive'')
          (bindE (ParseMinPriorityGwei cfg) (\<lambda>minPriority.
           bindE (ParseMaxPriorityGwei cfg) (\<lambda>maxPriority.
           rejectIf (p < minPriority \<or> maxPriority < p) (ErrMsg ''priority_gwei is out of bounds'') (Inr ())))))"

definition ParsePriorityGwei :: "llm_config \<Rightarrow> string \<Rightarrow> err + int" where
  "ParsePriorityGwei cfg value =
     rejectIf (value = []) (ErrMsg ''priority_gwei must be a positive decimal integer'')
     (rejectIf (\<not> list_all is_digit value) (ErrMsg ''priority_gwei must be a positive decimal integer'')
     (case bigint_set_string value of
        None \<Rightarrow> Inl (ErrMsg ''priority_gwei must be a positive decimal integer'')
      | Some p \<Rightarrow>
          rejectIf (p \<le> 0) (ErrMsg ''priority_gwei must be a positive decimal integer'')
          (bindE (ValidateStaticProjectPriorityGwei cfg (Some p)) (\<lambda>_. Inr p))))"

definition ParseAutoMaxCreditsPerTask :: "string \<Rightarrow> err + int" where
  "ParseAutoMaxCreditsPerTask value =
     rejectIf (value = []) (ErrMsg ''auto_max_credits_per_task must be a positive decimal integer'')
     (rejectIf (\<not> list_all is_digit value) (ErrMsg ''auto_max_credits_per_task must be a positive decimal integer'')
     (case bigint_set_string value of
        None \<Rightarrow> Inl (ErrMsg ''auto_max_credits_per_task must be a positive decimal integer'')
      | Some c \<Rightarrow>
          rejectIf (c \<le> 0) (ErrMsg ''auto_max_credits_per_task must be a positive decimal integer'') (Inr c)))"

definition NormalizeStaticProjectPriorityGwei :: "llm_config \<Rightarrow> int option \<Rightarrow> err + int" where
  "NormalizeStaticProjectPriorityGwei cfg priority =
     (case priority of
        None \<Rightarrow> Inl (ErrMsg ''priority_gwei is required'')
      | Some p \<Rightarrow>
          bindE (StaticProjectPriorityBounds cfg) (\<lambda>(minPriority, maxPriority).
            let unit = PriorityGweiPerKgwei;
                half = unit div 2;
                out0 = (p + half) div unit * unit;
                out1 = (if out0 < minPriority then minPriority else out0);
                out2 = (if maxPriority < out1 then maxPriority else out1)
            in Inr out2))"

definition ClampPriorityGwei :: "llm_config \<Rightarrow> int option \<Rightarrow> err + int" where
  "ClampPriorityGwei cfg priority =
     (case priority of
        None \<Rightarrow> Inl (ErrMsg ''priority_gwei is required'')
      | Some p \<Rightarrow>
          bindE (ParseMinPriorityGwei cfg) (\<lambda>minPriority.
          bindE (ParseMaxPriorityGwei cfg) (\<lambda>maxPriority.
            let out0 = (if p < minPriority then minPriority else p);
                out1 = (if maxPriority < out0 then maxPriority else out0)
            in Inr out1)))"

definition ParseCostLevelMode :: "string \<Rightarrow> err + string" where
  "ParseCostLevelMode value =
     (if value = CostLevelModeStatic \<or> value = CostLevelModeAuto then Inr value
      else Inl (ErrMsg ''cost_level_mode must be static or auto''))"

definition ParseAutoQueuePosition :: "int \<Rightarrow> err + int" where
  "ParseAutoQueuePosition value =
     rejectIf (value < 0 \<or> 100 < value) (ErrMsg ''auto_queue_position must be between 0 and 100'') (Inr value)"

definition InitialProjectPriorityGwei :: "llm_config \<Rightarrow> queued_priority_cache \<Rightarrow> err + int" where
  "InitialProjectPriorityGwei cfg cache =
     bindE (ResolveQueueMedianHint cfg cache) (\<lambda>median.
     bindE (ClampPriorityGwei cfg (Some median)) (\<lambda>clamped.
     NormalizeStaticProjectPriorityGwei cfg (Some clamped)))"

subsection \<open>The Cost Level of a request\<close>

definition requireAutoMaxCreditsPerTask :: "project \<Rightarrow> err + unit" where
  "requireAutoMaxCreditsPerTask p =
     (case pr_auto_max_credits_per_task p of
        None \<Rightarrow> Inl (ErrMsg ''auto_max_credits_per_task is required'')
      | Some c \<Rightarrow> rejectIf (c \<le> 0) (ErrMsg ''auto_max_credits_per_task is required'') (Inr ()))"

definition resolveAutoPriorityGwei :: "llm_config \<Rightarrow> queued_priority_cache \<Rightarrow> project \<Rightarrow> err + int" where
  "resolveAutoPriorityGwei cfg cache project =
     bindE (requireAutoMaxCreditsPerTask project) (\<lambda>_.
     bindE (case pr_auto_queue_position project of
              None \<Rightarrow> Inr DefaultAutoQueuePosition
            | Some pos \<Rightarrow> ParseAutoQueuePosition pos) (\<lambda>position.
     bindE (case ResolveQueuePriorityBounds cache of
              Some (highest, lowest) \<Rightarrow>
                if 0 < highest \<and> 0 \<le> lowest \<and> lowest \<le> highest
                then Inr (lowest + (highest - lowest) * position div 100)
                else ParseMinPriorityGwei cfg
            | None \<Rightarrow> ParseMinPriorityGwei cfg) (\<lambda>effective.
     ClampPriorityGwei cfg (Some effective))))"

text \<open>The empty mode counts as static.\<close>

definition cost_level_mode :: "project \<Rightarrow> string" where
  "cost_level_mode p = (if pr_cost_level_mode p = [] then CostLevelModeStatic else pr_cost_level_mode p)"

definition ResolveEffectivePriorityGwei ::
  "llm_config \<Rightarrow> queued_priority_cache \<Rightarrow> project option \<Rightarrow> err + int" where
  "ResolveEffectivePriorityGwei cfg cache project =
     (case project of
        None \<Rightarrow> Inl (ErrMsg ''project is required'')
      | Some p \<Rightarrow>
          (if cost_level_mode p = CostLevelModeStatic then
             rejectIf (pr_priority_gwei p \<le> 0) (ErrMsg ''priority_gwei must be positive'') (Inr (pr_priority_gwei p))
           else if cost_level_mode p = CostLevelModeAuto then resolveAutoPriorityGwei cfg cache p
           else Inl (ErrMsg ''invalid cost_level_mode'')))"

subsection \<open>Static Cost Levels\<close>

definition valid_static :: "llm_config \<Rightarrow> int \<Rightarrow> bool" where
  "valid_static cfg p \<longleftrightarrow> ValidateStaticProjectPriorityGwei cfg (Some p) = Inr ()"

lemma dvd_gap: "(k :: int) dvd a \<Longrightarrow> k dvd b \<Longrightarrow> 0 < k \<Longrightarrow> a < b + k \<Longrightarrow> a \<le> b"
proof -
  assume "k dvd a" "k dvd b" and k: "0 < k" and l: "a < b + k"
  then obtain x y where "a = k * x" "b = k * y" by (auto elim!: dvdE)
  with l have "k * x < k * (y + 1)" by (simp add: algebra_simps)
  with k have "x < y + 1" by (simp only: mult_less_cancel_left_pos)
  with k \<open>a = k * x\<close> \<open>b = k * y\<close> show "a \<le> b" by simp
qed

lemma unit_floor:
  fixes x :: int
  shows "1000 dvd x div 1000 * 1000 \<and> x div 1000 * 1000 \<le> x \<and> x < x div 1000 * 1000 + 1000"
  using div_mult_mod_eq [of x 1000] pos_mod_sign [of 1000 x] pos_mod_bound [of 1000 x] by auto

lemma unit_ceil:
  fixes x :: int
  assumes "y = (if x mod 1000 \<noteq> 0 then x + (1000 - x mod 1000) else x)"
  shows "1000 dvd y \<and> x \<le> y \<and> y < x + 1000"
proof -
  have "x = 1000 * (x div 1000) + x mod 1000" by simp
  then have "y = 1000 * (if x mod 1000 \<noteq> 0 then x div 1000 + 1 else x div 1000)"
    using assms by (auto simp: algebra_simps)
  then have "1000 dvd y" by (metis dvd_triv_left)
  moreover have "0 \<le> x mod 1000" "x mod 1000 < 1000" by simp_all
  ultimately show ?thesis using assms by (auto split: if_splits)
qed

lemma static_bounds:
  assumes "StaticProjectPriorityBounds cfg = Inr (lo, hi)"
  shows "\<exists>a b. ParseMinPriorityGwei cfg = Inr a \<and> ParseMaxPriorityGwei cfg = Inr b \<and>
    1000 dvd lo \<and> 1000 dvd hi \<and> 1000 \<le> lo \<and> a \<le> lo \<and> lo \<le> hi \<and> hi \<le> b \<and>
    (\<forall>p. 1000 dvd p \<longrightarrow> 0 < p \<longrightarrow> a \<le> p \<longrightarrow> p \<le> b \<longrightarrow> lo \<le> p \<and> p \<le> hi)"
proof -
  obtain a b where a: "ParseMinPriorityGwei cfg = Inr a" and b: "ParseMaxPriorityGwei cfg = Inr b"
    using assms by (auto simp: StaticProjectPriorityBounds_def res_simps)
  define m where "m = (if a < 1000 then 1000 else a)"
  have eq: "lo = (if m mod 1000 \<noteq> 0 then m + (1000 - m mod 1000) else m)" "hi = b div 1000 * 1000"
    "lo \<le> hi"
    using assms a b unfolding StaticProjectPriorityBounds_def m_def
    by (simp_all only: Let_def bindE_simps res_simps) (auto simp: not_less)
  have m: "1000 \<le> m" "a \<le> m" by (auto simp: m_def)
  have lo: "1000 dvd lo" "m \<le> lo" "lo < m + 1000" using unit_ceil [OF eq(1)] by blast+
  have hi: "1000 dvd hi" "hi \<le> b" "b < hi + 1000" unfolding eq(2) using unit_floor [of b] by blast+
  have "lo \<le> p \<and> p \<le> hi" if p: "1000 dvd p" "0 < p" "a \<le> p" "p \<le> b" for p
  proof -
    have "1000 \<le> p" using p(1,2) by (rule zdvd_imp_le)
    then have "m \<le> p" using p(3) by (auto simp: m_def)
    with lo have "lo \<le> p" by (intro dvd_gap [OF lo(1) p(1)]) simp_all
    moreover have "p \<le> hi" using p(4) hi(3) by (intro dvd_gap [OF p(1) hi(1)]) simp_all
    ultimately show ?thesis by simp
  qed
  with a b eq(3) m lo hi show ?thesis by auto
qed

lemma valid_static_iff:
  assumes "StaticProjectPriorityBounds cfg = Inr (lo, hi)"
  shows "valid_static cfg p \<longleftrightarrow> 1000 dvd p \<and> lo \<le> p \<and> p \<le> hi"
proof -
  have "1000 \<le> lo" using static_bounds [OF assms] by blast
  then show ?thesis
    using assms by (auto simp: valid_static_def ValidateStaticProjectPriorityGwei_def res_simps dvd_eq_mod_eq_0)
qed

lemma valid_static_bounds: "valid_static cfg p \<Longrightarrow> \<exists>lo hi. StaticProjectPriorityBounds cfg = Inr (lo, hi)"
  by (auto simp: valid_static_def ValidateStaticProjectPriorityGwei_def res_simps)

lemma ParsePriorityGwei_iff:
  "ParsePriorityGwei cfg s = Inr p \<longleftrightarrow>
     s \<noteq> [] \<and> list_all is_digit s \<and> bigint_set_string s = Some p \<and> valid_static cfg p"
  by (auto simp: ParsePriorityGwei_def valid_static_def ValidateStaticProjectPriorityGwei_def res_simps
      split: option.splits)

lemma valid_static_pos: "valid_static cfg p \<Longrightarrow> 0 < p"
  by (auto simp: valid_static_def ValidateStaticProjectPriorityGwei_def res_simps)

lemma ParsePriorityGwei_int_str: "valid_static cfg p \<Longrightarrow> ParsePriorityGwei cfg (int_str p) = Inr p"
  using valid_static_pos [of cfg p]
  by (simp add: ParsePriorityGwei_iff int_str_nonempty bigint_set_string_int_str)
     (simp add: int_str_def nat_str_digits)

text \<open>The texts of Cost Levels: a number is the reading of some accepted text exactly
  when it is a multiple of 1000 Gwei inside the configured bounds, and printing such a
  number gives a text that is accepted and reads back as the number.\<close>

theorem static_priority_roundtrip:
  assumes "ParseMinPriorityGwei cfg = Inr a" "ParseMaxPriorityGwei cfg = Inr b"
    "StaticProjectPriorityBounds cfg = Inr bounds"
  shows "((\<exists>s. ParsePriorityGwei cfg s = Inr p) \<longleftrightarrow> 1000 dvd p \<and> a \<le> p \<and> p \<le> b) \<and>
    (1000 dvd p \<and> a \<le> p \<and> p \<le> b \<longrightarrow> ParsePriorityGwei cfg (int_str p) = Inr p)"
proof -
  obtain lo hi where "bounds = (lo, hi)" by (cases bounds)
  with assms(3) have bd: "StaticProjectPriorityBounds cfg = Inr (lo, hi)" by simp
  have "0 < a" using assms(1) by (rule parsePositiveDecimalGwei_pos)
  with static_bounds [OF bd] assms(1,2) have "valid_static cfg p \<longleftrightarrow> 1000 dvd p \<and> a \<le> p \<and> p \<le> b"
    unfolding valid_static_iff [OF bd] by (auto dest: order_less_le_trans)
  then show ?thesis using ParsePriorityGwei_int_str [of cfg p] by (auto simp: ParsePriorityGwei_iff)
qed

definition static_llm_config :: llm_config where
  "static_llm_config = sample_llm_config\<lparr>lc_min_priority_gwei := ''15'', lc_max_priority_gwei := ''90050''\<rparr>"

lemma static_llm_config_bounds:
  "ParseMinPriorityGwei static_llm_config = Inr 15"
  "ParseMaxPriorityGwei static_llm_config = Inr 90050"
  "StaticProjectPriorityBounds static_llm_config = Inr (1000, 90000)"
  by (simp_all add: static_llm_config_def decimal_eval StaticProjectPriorityBounds_def)

theorem static_priority_roundtrip_witness:
  "(\<exists>s. ParsePriorityGwei static_llm_config s = Inr 12000) \<and>
    ParsePriorityGwei static_llm_config (int_str 12000) = Inr 12000"
  using static_priority_roundtrip [OF static_llm_config_bounds, of 12000] by simp

subsection \<open>Normalisation to the nearest static level\<close>

lemma nearest_multiple:
  fixes p v :: int
  assumes "1000 dvd v"
  shows "\<bar>p - (p + 500) div 1000 * 1000\<bar> \<le> \<bar>p - v\<bar>"
proof -
  define r where "r = (p + 500) div 1000 * 1000"
  have r: "1000 dvd r" "p - 500 < r" "r \<le> p + 500" using unit_floor [of "p + 500"] by (simp_all add: r_def)
  show ?thesis
  proof (cases "v = r")
    case False
    then have "r + 1000 \<le> v \<or> v + 1000 \<le> r"
      using dvd_gap [OF assms r(1)] dvd_gap [OF r(1) assms] by linarith
    with r show ?thesis unfolding r_def [symmetric] by linarith
  qed (simp add: r_def)
qed

text \<open>Normalising a price to a static Cost Level gives a level the service accepts, no
  accepted level is nearer to the price, and a price that is already an accepted level is
  not changed.\<close>

theorem normalize_static_nearest:
  assumes "NormalizeStaticProjectPriorityGwei cfg (Some p) = Inr q"
  shows "valid_static cfg q \<and> (\<forall>v. valid_static cfg v \<longrightarrow> \<bar>p - q\<bar> \<le> \<bar>p - v\<bar>) \<and>
    (valid_static cfg p \<longrightarrow> q = p)"
proof -
  obtain lo hi where bd: "StaticProjectPriorityBounds cfg = Inr (lo, hi)"
    using assms by (auto simp: NormalizeStaticProjectPriorityGwei_def res_simps)
  define r where "r = (p + 500) div 1000 * 1000"
  have q: "q = (if hi < (if r < lo then lo else r) then hi else if r < lo then lo else r)"
    using assms bd by (auto simp: NormalizeStaticProjectPriorityGwei_def r_def Let_def)
  have b: "1000 dvd lo" "1000 dvd hi" "lo \<le> hi" using static_bounds [OF bd] by auto
  have r: "1000 dvd r" by (simp add: r_def)
  have vq: "valid_static cfg q" using b r by (auto simp: valid_static_iff [OF bd] q)
  have near: "\<bar>p - q\<bar> \<le> \<bar>p - v\<bar>" if "valid_static cfg v" for v
  proof -
    have v: "1000 dvd v" "lo \<le> v" "v \<le> hi" using that by (auto simp: valid_static_iff [OF bd])
    have n: "\<bar>p - r\<bar> \<le> \<bar>p - v\<bar>" unfolding r_def using v(1) by (rule nearest_multiple)
    have d: "\<bar>p - r\<bar> \<le> 500" unfolding r_def using unit_floor [of "p + 500"] by linarith
    consider "r < lo" | "hi < r" | "lo \<le> r" "r \<le> hi" by linarith
    then show ?thesis
    proof cases
      case 1
      then have "r + 1000 \<le> lo" using dvd_gap [OF b(1) r] by linarith
      with 1 b(3) d v show ?thesis by (simp add: q)
    next
      case 2
      then have "hi + 1000 \<le> r" using dvd_gap [OF r b(2)] by linarith
      with 2 b(3) d v show ?thesis by (auto simp: q)
    next
      case 3
      with n show ?thesis by (simp add: q)
    qed
  qed
  with vq show ?thesis using near [of p] by auto
qed

subsection \<open>Automatic Cost Levels\<close>

lemma ClampPriorityGwei_ok:
  assumes "ParseMinPriorityGwei cfg = Inr a" "ParseMaxPriorityGwei cfg = Inr b"
  shows "ClampPriorityGwei cfg (Some p) = Inr (min b (max a p))"
  using assms by (auto simp: ClampPriorityGwei_def Let_def min_def max_def)

text \<open>With a checked configuration, an automatic project with a positive budget and a
  queue position between 0 and 100 always gets a Cost Level; it lies within the configured
  bounds, and when the network queue shows prices it is the point of the range from the
  lowest to the highest price that the queue position names, clamped to those bounds, so it
  does not fall when the position rises.\<close>

theorem auto_priority_resolved:
  assumes "checkLLMConfig cfg = Inr ()" "cost_level_mode p = CostLevelModeAuto"
    "pr_auto_max_credits_per_task p = Some budget" "0 < budget"
    "pr_auto_queue_position p = Some pos" "0 \<le> pos" "pos \<le> 100"
  shows "\<exists>a b c. ParseMinPriorityGwei cfg = Inr a \<and> ParseMaxPriorityGwei cfg = Inr b \<and>
    ResolveEffectivePriorityGwei cfg cache (Some p) = Inr c \<and> ValidatePriorityGwei cfg (Some c) = Inr () \<and>
    (\<forall>hi lo. ResolveQueuePriorityBounds cache = Some (hi, lo) \<and> 0 \<le> lo \<and> lo \<le> hi \<and> 0 < hi \<longrightarrow>
       c = min b (max a (lo + (hi - lo) * pos div 100)) \<and>
       (\<forall>pos' c'. pos \<le> pos' \<and> pos' \<le> 100 \<and>
          ResolveEffectivePriorityGwei cfg cache (Some (p\<lparr>pr_auto_queue_position := Some pos'\<rparr>)) = Inr c' \<longrightarrow> c \<le> c'))"
proof -
  obtain a b where a: "ParseMinPriorityGwei cfg = Inr a" and b: "ParseMaxPriorityGwei cfg = Inr b"
    and ab: "a \<le> b"
    using assms(1) by (auto simp: checkLLMConfig_def res_simps)
  have "0 < a" using a by (rule parsePositiveDecimalGwei_pos)
  define eff where "eff x = (case ResolveQueuePriorityBounds cache of
      Some (hi, lo) \<Rightarrow> if 0 < hi \<and> 0 \<le> lo \<and> lo \<le> hi then lo + (hi - lo) * x div 100 else a
    | None \<Rightarrow> a)" for x
  have eq: "ResolveEffectivePriorityGwei cfg cache (Some (p\<lparr>pr_auto_queue_position := Some x\<rparr>)) =
      Inr (min b (max a (eff x)))" if "0 \<le> x" "x \<le> 100" for x
    using that assms(2-4) a b
    by (auto simp: ResolveEffectivePriorityGwei_def resolveAutoPriorityGwei_def cost_level_mode_def
        requireAutoMaxCreditsPerTask_def ParseAutoQueuePosition_def ClampPriorityGwei_ok eff_def
        split: option.splits)
  have "p\<lparr>pr_auto_queue_position := Some pos\<rparr> = p" using assms(5) by simp
  with eq [of pos] assms(6,7) have
    c: "ResolveEffectivePriorityGwei cfg cache (Some p) = Inr (min b (max a (eff pos)))" by simp
  have v: "ValidatePriorityGwei cfg (Some (min b (max a (eff pos)))) = Inr ()"
    using a b ab \<open>0 < a\<close> by (auto simp: ValidatePriorityGwei_def res_simps min_def max_def)
  have mono: "eff pos \<le> eff x" if "pos \<le> x" "ResolveQueuePriorityBounds cache = Some (hi, lo)"
    "0 \<le> lo" "lo \<le> hi" "0 < hi" for x hi lo
    using that by (auto simp: eff_def intro!: zdiv_mono1 mult_left_mono)
  have le: "min b (max a (eff pos)) \<le> c'"
    if "pos \<le> pos'" "pos' \<le> 100" "ResolveQueuePriorityBounds cache = Some (hi, lo)"
      "0 \<le> lo" "lo \<le> hi" "0 < hi"
      "ResolveEffectivePriorityGwei cfg cache (Some (p\<lparr>pr_auto_queue_position := Some pos'\<rparr>)) = Inr c'"
    for pos' c' hi lo
  proof -
    have "c' = min b (max a (eff pos'))" using eq [of pos'] that assms(6) by simp
    with mono [of pos' hi lo] that show ?thesis by (simp add: min_def max_def)
  qed
  have val: "eff pos = lo + (hi - lo) * pos div 100"
    if "ResolveQueuePriorityBounds cache = Some (hi, lo)" "0 \<le> lo" "lo \<le> hi" "0 < hi" for hi lo
    using that by (simp add: eff_def)
  show ?thesis
    by (intro exI [of _ a] exI [of _ b] exI [of _ "min b (max a (eff pos))"] conjI a b c v allI impI)
       (use le val in \<open>(elim conjE, metis | blast)+\<close>)
qed

definition auto_project :: project where
  "auto_project =
     \<lparr>pr_id = 1, pr_user_id = 1, pr_cost_level_mode = ''auto'', pr_priority_gwei = 0,
      pr_auto_queue_position = Some 80, pr_auto_max_credits_per_task = Some 3,
      pr_status = ProjectStatusActive, pr_last_request_at = None,
      pr_request_count_day = 0, pr_success_count_day = 0, pr_failure_count_day = 0, pr_credits_day = 0,
      pr_recent_window_success_count = 0, pr_recent_window_failure_count = 0, pr_created_at = 0,
      pr_name = [], pr_endpoint_token = [], pr_api_key_hash = [], pr_api_key_prefix = []\<rparr>"

definition sample_queue_cache :: queued_priority_cache where
  "sample_queue_cache = fst (RefreshQueuedPriority
     (Some (Inr \<lparr>qs_as_of = 1700000000, qs_queued_task_count = 3, qs_highest = Some 600, qs_median = Some 250, qs_lowest = Some 100\<rparr>))
     empty_queued_priority_cache)"

theorem auto_priority_resolved_witness:
  "\<exists>a b c. ParseMinPriorityGwei sample_llm_config = Inr a \<and> ParseMaxPriorityGwei sample_llm_config = Inr b \<and>
    ResolveEffectivePriorityGwei sample_llm_config sample_queue_cache (Some auto_project) = Inr c \<and>
    ValidatePriorityGwei sample_llm_config (Some c) = Inr () \<and>
    (\<forall>hi lo. ResolveQueuePriorityBounds sample_queue_cache = Some (hi, lo) \<and> 0 \<le> lo \<and> lo \<le> hi \<and> 0 < hi \<longrightarrow>
       c = min b (max a (lo + (hi - lo) * 80 div 100)) \<and>
       (\<forall>pos' c'. 80 \<le> pos' \<and> pos' \<le> 100 \<and>
          ResolveEffectivePriorityGwei sample_llm_config sample_queue_cache
            (Some (auto_project\<lparr>pr_auto_queue_position := Some pos'\<rparr>)) = Inr c' \<longrightarrow> c \<le> c'))"
  by (rule auto_priority_resolved [OF sample_llm_config_ok, where budget = 3])
     (simp_all add: cost_level_mode_def auto_project_def)

end
