(* ===== verification/Task_Fee.thy ===== *)
theory Task_Fee
  imports Priority
begin

text \<open>
  The price of tasks on the Crynux network (\<open>service/task_fee.go\<close>): the billable Gwei of
  a workload, its cap, its conversion to Credits, and the admission decision that moves
  the Cost Level between the project's Credits budget and the minimal fee. Execution-time
  coefficients (the relay's answer) and the decoded image arguments are arguments. A panic
  of \<open>big.Float\<close> is the error \<open>panic\<close>.
\<close>

record execution_coefficients =
  ec_constant_seconds :: f64
  ec_seconds_per_input_token :: f64
  ec_seconds_per_output_token :: f64

record calc_billable_input =
  cb_priority_gwei :: "int option"
  cb_effective_vram :: u64
  cb_base_vram :: u64
  cb_coefficients :: execution_coefficients
  cb_prompt_tokens :: u64
  cb_completion_tokens :: u64

record calc_billable_result =
  cbr_billable_gwei :: bigfloat
  cbr_task_fee_gwei :: int
  cbr_estimated_node_seconds :: f64
  cbr_vram_weight :: f64

record calc_task_fee_result =
  tf_priority_gwei :: int
  tf_task_fee_gwei :: int
  tf_credits :: int
  tf_median_priority_gwei :: int
  tf_estimated_node_seconds :: f64
  tf_vram_weight :: f64
  tf_coefficients :: execution_coefficients

subsection \<open>Billable Gwei and Credits\<close>

definition bad_coefficient :: "f64 \<Rightarrow> bool" where
  "bad_coefficient x \<longleftrightarrow> f64_is_nan_or_inf x \<or> f64_neg x"

definition validateExecutionTimeCoefficients :: "execution_coefficients \<Rightarrow> err + unit" where
  "validateExecutionTimeCoefficients c =
     rejectIf (list_ex bad_coefficient
         [ec_constant_seconds c, ec_seconds_per_input_token c, ec_seconds_per_output_token c])
       (ErrMsg ''execution-time coefficients must be finite and non-negative'') (Inr ())"

definition billableFromParts :: "int \<Rightarrow> f64 \<Rightarrow> f64 \<Rightarrow> err + bigfloat \<times> int" where
  "billableFromParts priorityGwei estimatedNodeSeconds vramWeight =
     rejectIf (f64_is_nan_or_inf estimatedNodeSeconds \<or> f64_neg estimatedNodeSeconds)
       (ErrMsg ''estimated_node_seconds must be finite and non-negative'')
     (rejectIf (f64_is_nan_or_inf vramWeight \<or> f64_nonpos vramWeight)
       (ErrMsg ''vram_weight must be a positive finite number'')
     (bindE (of_option (ErrMsg ''panic'') (bf_mul_f64 (bf_set_int priorityGwei) (f64_mul estimatedNodeSeconds vramWeight))) (\<lambda>product.
      rejectIf (bf_neg product) (ErrMsg ''billable_gwei must be non-negative'')
        (Inr (product, case bf_int product of None \<Rightarrow> 0 | Some fee \<Rightarrow> fee)))))"

definition applyMaxTaskFeeCap :: "llm_config \<Rightarrow> bigfloat \<Rightarrow> int \<Rightarrow> err + bigfloat \<times> int" where
  "applyMaxTaskFeeCap cfg billableGwei taskFeeGwei =
     bindE (MaxTaskFeeGwei cfg MaxTaskPriceProviderCrynux) (\<lambda>maxFeeGwei.
       if taskFeeGwei \<le> maxFeeGwei then Inr (billableGwei, taskFeeGwei)
       else Inr (bf_set_int maxFeeGwei, maxFeeGwei))"

definition node_seconds :: "execution_coefficients \<Rightarrow> u64 \<Rightarrow> u64 \<Rightarrow> f64" where
  "node_seconds c prompt completion =
     f64_add (f64_add (ec_constant_seconds c) (f64_mul (ec_seconds_per_input_token c) (f64_of_u64 prompt)))
       (f64_mul (ec_seconds_per_output_token c) (f64_of_u64 completion))"

definition vram_weight_of :: "u64 \<Rightarrow> u64 \<Rightarrow> f64" where
  "vram_weight_of effective base = f64_div_u64 (if effective < base then base else effective) base"

definition CalcBillableGwei :: "llm_config \<Rightarrow> calc_billable_input \<Rightarrow> err + calc_billable_result" where
  "CalcBillableGwei cfg inp =
     (case cb_priority_gwei inp of
        None \<Rightarrow> Inl (ErrMsg ''priority_gwei is required'')
      | Some priority \<Rightarrow>
          rejectIf (priority \<le> 0) (ErrMsg ''priority_gwei must be positive'')
          (rejectIf (cb_base_vram inp = 0) (ErrMsg ''base_vram must be a positive integer'')
          (rejectIf (cb_effective_vram inp = 0) (ErrMsg ''effective_vram must be a positive integer'')
          (bindE (validateExecutionTimeCoefficients (cb_coefficients inp)) (\<lambda>_.
           let seconds = node_seconds (cb_coefficients inp) (cb_prompt_tokens inp) (cb_completion_tokens inp);
               weight = vram_weight_of (cb_effective_vram inp) (cb_base_vram inp)
           in bindE (billableFromParts priority seconds weight) (\<lambda>(billable0, fee0).
              bindE (applyMaxTaskFeeCap cfg billable0 fee0) (\<lambda>(billable, fee).
              Inr \<lparr>cbr_billable_gwei = billable, cbr_task_fee_gwei = fee,
                   cbr_estimated_node_seconds = seconds, cbr_vram_weight = weight\<rparr>)))))))"

definition CalcCreditsFromBillable :: "bigfloat \<Rightarrow> rat \<Rightarrow> err + int" where
  "CalcCreditsFromBillable billableGwei creditsPerGwei =
     rejectIf (creditsPerGwei \<le> 0) (ErrMsg ''credits_per_gwei must be positive'')
     (rejectIf (bf_neg billableGwei) (ErrMsg ''billable_gwei must be non-negative'')
     (bindE (of_option (ErrMsg ''billable_gwei is invalid'') (bf_rat billableGwei)) (\<lambda>billableRat.
      let product = billableRat * creditsPerGwei in
      rejectIf (product < 0) (ErrMsg ''credits must be non-negative'')
        (let credits = rat_quo product in Inr (if credits = 0 then 1 else credits)))))"

definition CalcCredits ::
  "llm_config \<Rightarrow> u64 \<Rightarrow> u64 \<Rightarrow> int \<Rightarrow> f64 \<Rightarrow> execution_coefficients \<Rightarrow> string \<Rightarrow> err + int" where
  "CalcCredits cfg promptTokens completionTokens priorityGwei vramWeight c creditsPerGwei =
     rejectIf (priorityGwei \<le> 0) (ErrMsg ''priority_gwei must be positive'')
     (bindE (ParsePositiveDecimalRate creditsPerGwei) (\<lambda>rate.
      bindE (validateExecutionTimeCoefficients c) (\<lambda>_.
      bindE (billableFromParts priorityGwei (node_seconds c promptTokens completionTokens) vramWeight) (\<lambda>(billable0, fee0).
      bindE (applyMaxTaskFeeCap cfg billable0 fee0) (\<lambda>(billable, _).
      CalcCreditsFromBillable billable rate)))))"

subsection \<open>Units of image workloads and scaled minima\<close>

definition scaleAdmissionMinTaskFee :: "int \<Rightarrow> u64 \<Rightarrow> u64 \<Rightarrow> err + int" where
  "scaleAdmissionMinTaskFee baseMinFeeGwei requestUnits baselineUnits =
     rejectIf (baseMinFeeGwei < 0) (ErrMsg ''minimum task fee must be non-negative'')
     (rejectIf (requestUnits = 0) (ErrMsg ''request units must be positive'')
     (rejectIf (baselineUnits = 0) (ErrMsg ''baseline units must be positive'')
     (Inr (go_quo (baseMinFeeGwei * uint requestUnits) (uint baselineUnits)))))"

definition imageAdmissionBaselineUnits :: u64 where
  "imageAdmissionBaselineUnits = 1 * 1024 * 1024 * 30"

text \<open>\<open>imageTaskArgs.TaskConfig\<close> as decoded from the arguments.\<close>

record image_task_args =
  ia_num_images_per_prompt :: "u64 option"
  ia_image_width :: u64
  ia_image_height :: u64
  ia_steps :: u64

fun multiply_units :: "u64 \<Rightarrow> u64 list \<Rightarrow> err + u64" where
  "multiply_units units [] = Inr units"
| "multiply_units units (factor # factors) =
     (if (- 1) div factor < units then Inl (ErrMsg ''image pixel-step units overflow uint64'')
      else multiply_units (units * factor) factors)"

definition imagePixelStepUnits :: "(string \<Rightarrow> err + image_task_args) \<Rightarrow> string \<Rightarrow> err + u64" where
  "imagePixelStepUnits decode taskArgs =
     bindE (decode taskArgs) (\<lambda>args.
       let numImages = (case ia_num_images_per_prompt args of None \<Rightarrow> 1 | Some n \<Rightarrow> n) in
       rejectIf (numImages = 0 \<or> ia_image_width args = 0 \<or> ia_image_height args = 0 \<or> ia_steps args = 0)
         (ErrMsg ''num_images_per_prompt, image_width, image_height, and steps must be positive'')
         (multiply_units numImages [ia_image_width args, ia_image_height args, ia_steps args]))"

subsection \<open>Admission\<close>

text \<open>The two bisections. \<open>Rsh\<close> of \<open>big.Int\<close> rounds down.\<close>

function highest_within :: "(int \<Rightarrow> err + int) \<Rightarrow> int \<Rightarrow> int \<Rightarrow> int \<Rightarrow> err + int" where
  "highest_within credits maxCredits lo hi =
     (if lo < hi then
        let mid = (lo + (hi + 1)) div 2 in
        bindE (credits mid) (\<lambda>c.
          if c \<le> maxCredits then highest_within credits maxCredits mid hi
          else highest_within credits maxCredits lo (mid - 1))
      else Inr lo)"
  by pat_completeness auto
termination by (relation "measure (\<lambda>(_, _, lo, hi). nat (hi - lo))") auto

function lowest_reaching :: "(int \<Rightarrow> err + int) \<Rightarrow> int \<Rightarrow> int \<Rightarrow> int \<Rightarrow> err + int" where
  "lowest_reaching fee minFee lo hi =
     (if lo < hi then
        let mid = (lo + hi) div 2 in
        bindE (fee mid) (\<lambda>f.
          if minFee \<le> f then lowest_reaching fee minFee lo mid
          else lowest_reaching fee minFee (mid + 1) hi)
      else Inr hi)"
  by pat_completeness auto
termination by (relation "measure (\<lambda>(_, _, lo, hi). nat (hi - lo))") auto

declare highest_within.simps [simp del] lowest_reaching.simps [simp del]

text \<open>Defined only where the project has a budget, as every caller checks.\<close>

definition max_credits_of :: "project \<Rightarrow> int" where
  "max_credits_of p = (case pr_auto_max_credits_per_task p of None \<Rightarrow> 0 | Some c \<Rightarrow> c)"

definition creditsForPriority :: "(int \<Rightarrow> err + int) \<Rightarrow> rat \<Rightarrow> int \<Rightarrow> err + int" where
  "creditsForPriority fee rate priority =
     bindE (fee priority) (\<lambda>f. CalcCreditsFromBillable (bf_set_int f) rate)"

definition MaxPriorityWithinAutoMaxCredits ::
  "llm_config \<Rightarrow> project \<Rightarrow> (int \<Rightarrow> err + int) \<Rightarrow> err + int" where
  "MaxPriorityWithinAutoMaxCredits cfg project fee =
     bindE (requireAutoMaxCreditsPerTask project) (\<lambda>_.
     bindE (ParsePositiveDecimalRate (lc_credits_per_gwei cfg)) (\<lambda>rate.
     bindE (ParseMinPriorityGwei cfg) (\<lambda>minPriority.
     bindE (ParseMaxPriorityGwei cfg) (\<lambda>maxPriority.
     bindE (creditsForPriority fee rate minPriority) (\<lambda>minCredits.
     rejectIf (max_credits_of project < minCredits) ErrAutoMaxCreditsInsufficient
       (highest_within (creditsForPriority fee rate) (max_credits_of project) minPriority maxPriority))))))"

definition CapPriorityByAutoMaxCredits ::
  "llm_config \<Rightarrow> project \<Rightarrow> int \<Rightarrow> (int \<Rightarrow> err + int) \<Rightarrow> err + int" where
  "CapPriorityByAutoMaxCredits cfg project priority fee =
     rejectIf (priority \<le> 0) (ErrMsg ''priority_gwei must be positive'')
     (bindE (MaxPriorityWithinAutoMaxCredits cfg project fee) (\<lambda>maxWithin.
      if maxWithin < priority then Inr maxWithin else Inr priority))"

definition rejectIfStaticCreditsExceedMax :: "llm_config \<Rightarrow> project \<Rightarrow> int \<Rightarrow> err + unit" where
  "rejectIfStaticCreditsExceedMax cfg project billableGwei =
     bindE (requireAutoMaxCreditsPerTask project) (\<lambda>_.
     rejectIf (billableGwei < 0) (ErrMsg ''billable gwei must be non-negative'')
     (bindE (ParsePositiveDecimalRate (lc_credits_per_gwei cfg)) (\<lambda>rate.
      bindE (CalcCreditsFromBillable (bf_set_int billableGwei) rate) (\<lambda>credits.
      rejectIf (max_credits_of project < credits) ErrMaxCreditsExceeded (Inr ())))))"

definition raise_to_minimum ::
  "llm_config \<Rightarrow> project \<Rightarrow> int \<Rightarrow> int \<Rightarrow> (int \<Rightarrow> err + int) \<Rightarrow> err + int \<times> int" where
  "raise_to_minimum cfg project workingPriority minFee fee =
     bindE (MaxPriorityWithinAutoMaxCredits cfg project fee) (\<lambda>autoMax0.
       let autoMax = (if autoMax0 < workingPriority then workingPriority else autoMax0) in
       bindE (fee autoMax) (\<lambda>feeAtMax.
       rejectIf (feeAtMax < minFee) ErrAutoMaxCreditsInsufficient
       (bindE (lowest_reaching fee minFee workingPriority autoMax) (\<lambda>hi.
        bindE (fee hi) (\<lambda>billable.
        rejectIf (billable < minFee) ErrAutoMaxCreditsInsufficient (Inr (hi, billable)))))))"

definition enforceAdmissionMinTaskFee ::
  "llm_config \<Rightarrow> project option \<Rightarrow> int option \<Rightarrow> int \<Rightarrow> (int \<Rightarrow> err + int) \<Rightarrow> err + int \<times> int" where
  "enforceAdmissionMinTaskFee cfg project0 priority0 minFee fee =
     bindE (of_option (ErrMsg ''project is required'') project0) (\<lambda>project.
     bindE (of_option (ErrMsg ''priority_gwei must be positive'') priority0) (\<lambda>priority.
     rejectIf (priority \<le> 0) (ErrMsg ''priority_gwei must be positive'')
     (rejectIf (minFee < 0) (ErrMsg ''minimum task fee must be non-negative'')
     (let mode = cost_level_mode project in
      bindE (if mode = CostLevelModeAuto then CapPriorityByAutoMaxCredits cfg project priority fee
             else Inr priority) (\<lambda>workingPriority.
      bindE (fee workingPriority) (\<lambda>billable.
      if mode \<noteq> CostLevelModeAuto then
        bindE (rejectIfStaticCreditsExceedMax cfg project billable) (\<lambda>_.
        rejectIf (0 < minFee \<and> billable < minFee) ErrTaskFeeBelowMinimum (Inr (workingPriority, billable)))
      else if minFee \<le> 0 \<or> minFee \<le> billable then Inr (workingPriority, billable)
      else raise_to_minimum cfg project workingPriority minFee fee))))))"

definition EnforceAdmissionMinTaskFee ::
  "llm_config \<Rightarrow> string \<Rightarrow> project option \<Rightarrow> int option \<Rightarrow> (int \<Rightarrow> err + int) \<Rightarrow> err + int \<times> int" where
  "EnforceAdmissionMinTaskFee cfg providerID project priority fee =
     bindE (MinTaskFeeGwei cfg providerID) (\<lambda>minFee.
     enforceAdmissionMinTaskFee cfg project priority minFee fee)"

subsection \<open>Estimates\<close>

text \<open>The fee at a priority, the closure both estimates hand to admission.\<close>

definition crynux_fee :: "llm_config \<Rightarrow> calc_billable_input \<Rightarrow> int \<Rightarrow> err + int" where
  "crynux_fee cfg inp priority =
     bindE (CalcBillableGwei cfg (inp\<lparr>cb_priority_gwei := Some priority\<rparr>)) (\<lambda>got. Inr (cbr_task_fee_gwei got))"

definition EstimateLLMTaskFeeWithQuery ::
  "llm_config \<Rightarrow> queued_priority_cache \<Rightarrow> err + execution_coefficients \<Rightarrow> project option \<Rightarrow> u64 \<Rightarrow>
   int option \<Rightarrow> u64 \<Rightarrow> u64 \<Rightarrow> err + calc_task_fee_result" where
  "EstimateLLMTaskFeeWithQuery cfg cache coefficients project effectiveVram priorityGwei
       estimatedPromptTokens maxCompletionTokens =
     bindE (ParsePositiveDecimalRate (lc_credits_per_gwei cfg)) (\<lambda>rate.
     bindE coefficients (\<lambda>c.
     bindE (validateExecutionTimeCoefficients c) (\<lambda>_.
     let inp = \<lparr>cb_priority_gwei = None, cb_effective_vram = effectiveVram, cb_base_vram = lc_base_vram cfg,
                cb_coefficients = c, cb_prompt_tokens = estimatedPromptTokens,
                cb_completion_tokens = maxCompletionTokens\<rparr>
     in
     bindE (MinTaskFeeGwei cfg MaxTaskPriceProviderCrynux) (\<lambda>baseMinFeeGwei.
     bindE (scaleAdmissionMinTaskFee baseMinFeeGwei maxCompletionTokens (lc_default_max_tokens cfg)) (\<lambda>minFeeGwei.
     bindE (enforceAdmissionMinTaskFee cfg project priorityGwei minFeeGwei (crynux_fee cfg inp)) (\<lambda>(adjustedPriority, _).
     bindE (CalcBillableGwei cfg (inp\<lparr>cb_priority_gwei := Some adjustedPriority\<rparr>)) (\<lambda>billable.
     bindE (CalcCreditsFromBillable (cbr_billable_gwei billable) rate) (\<lambda>credits.
     bindE (ResolveQueueMedianHint cfg cache) (\<lambda>median.
     Inr \<lparr>tf_priority_gwei = adjustedPriority, tf_task_fee_gwei = cbr_task_fee_gwei billable,
          tf_credits = credits, tf_median_priority_gwei = median,
          tf_estimated_node_seconds = cbr_estimated_node_seconds billable,
          tf_vram_weight = cbr_vram_weight billable, tf_coefficients = c\<rparr>)))))))))"

text \<open>\<open>EstimateTaskFee\<close> asks for the model's coefficients at the effective VRAM.\<close>

definition EstimateTaskFee ::
  "llm_config \<Rightarrow> queued_priority_cache \<Rightarrow> (string \<Rightarrow> u64 \<Rightarrow> err + execution_coefficients) \<Rightarrow> project option \<Rightarrow>
   string \<Rightarrow> u64 \<Rightarrow> int option \<Rightarrow> u64 \<Rightarrow> u64 \<Rightarrow> err + calc_task_fee_result" where
  "EstimateTaskFee cfg cache execution_time project model effectiveVram =
     EstimateLLMTaskFeeWithQuery cfg cache (execution_time model effectiveVram) project effectiveVram"

record sd_coefficients =
  sd_overhead_seconds :: f64
  sd_seconds_per_pixel_step :: f64

definition f64_less_1 :: "f64 \<Rightarrow> bool" where
  "f64_less_1 x = (case x of Fin a \<Rightarrow> a < 1 | NegInf \<Rightarrow> True | _ \<Rightarrow> False)"

definition EstimateImageTaskFee ::
  "llm_config \<Rightarrow> queued_priority_cache \<Rightarrow> (string \<Rightarrow> err + image_task_args) \<Rightarrow> err + sd_coefficients \<Rightarrow>
   project option \<Rightarrow> string \<Rightarrow> u64 \<Rightarrow> int option \<Rightarrow> err + calc_task_fee_result" where
  "EstimateImageTaskFee cfg cache decode coefficients project taskArgs effectiveVram priorityGwei =
     bindE (imagePixelStepUnits decode taskArgs) (\<lambda>units.
     bindE coefficients (\<lambda>sd.
     rejectIf (bad_coefficient (sd_overhead_seconds sd) \<or> bad_coefficient (sd_seconds_per_pixel_step sd))
       (ErrMsg ''image execution-time coefficients must be finite and non-negative'')
     (let seconds0 = f64_add (sd_overhead_seconds sd) (f64_mul (f64_of_u64 units) (sd_seconds_per_pixel_step sd));
          seconds = (if f64_less_1 seconds0 then Fin 1 else seconds0);
          c = \<lparr>ec_constant_seconds = seconds, ec_seconds_per_input_token = Fin 0, ec_seconds_per_output_token = Fin 0\<rparr>;
          inp = \<lparr>cb_priority_gwei = None, cb_effective_vram = effectiveVram, cb_base_vram = lc_base_vram cfg,
                 cb_coefficients = c, cb_prompt_tokens = 0, cb_completion_tokens = 0\<rparr>
      in
      bindE (MinTaskFeeGwei cfg MaxTaskPriceProviderCrynux) (\<lambda>baseMinFeeGwei.
      bindE (scaleAdmissionMinTaskFee baseMinFeeGwei units imageAdmissionBaselineUnits) (\<lambda>minFeeGwei.
      bindE (enforceAdmissionMinTaskFee cfg project priorityGwei minFeeGwei (crynux_fee cfg inp)) (\<lambda>(adjustedPriority, _).
      bindE (CalcBillableGwei cfg (inp\<lparr>cb_priority_gwei := Some adjustedPriority\<rparr>)) (\<lambda>billable.
      bindE (ParsePositiveDecimalRate (lc_credits_per_gwei cfg)) (\<lambda>rate.
      bindE (CalcCreditsFromBillable (cbr_billable_gwei billable) rate) (\<lambda>credits.
      bindE (ResolveQueueMedianHint cfg cache) (\<lambda>median.
      Inr \<lparr>tf_priority_gwei = adjustedPriority, tf_task_fee_gwei = cbr_task_fee_gwei billable,
           tf_credits = credits, tf_median_priority_gwei = median,
           tf_estimated_node_seconds = seconds, tf_vram_weight = cbr_vram_weight billable,
           tf_coefficients = \<lparr>ec_constant_seconds = Fin 0, ec_seconds_per_input_token = Fin 0,
             ec_seconds_per_output_token = Fin 0\<rparr>\<rparr>))))))))))"

subsection \<open>The bisections find the boundary\<close>

lemma bisect_mid_up: "(lo :: int) < hi \<Longrightarrow> lo < (lo + (hi + 1)) div 2 \<and> (lo + (hi + 1)) div 2 \<le> hi"
  by auto

lemma bisect_mid_down: "(lo :: int) < hi \<Longrightarrow> lo \<le> (lo + hi) div 2 \<and> (lo + hi) div 2 < hi"
  by auto

lemma highest_within_spec:
  assumes "lo \<le> hi" "\<And>p. lo \<le> p \<Longrightarrow> p \<le> hi \<Longrightarrow> cr p = Inr (c p)"
    "\<And>p q. lo \<le> p \<Longrightarrow> p \<le> q \<Longrightarrow> q \<le> hi \<Longrightarrow> c p \<le> c q" "c lo \<le> m"
  shows "\<exists>r. highest_within cr m lo hi = Inr r \<and> lo \<le> r \<and> r \<le> hi \<and>
    (\<forall>p. lo \<le> p \<longrightarrow> p \<le> hi \<longrightarrow> c p \<le> m \<longleftrightarrow> p \<le> r)"
  using assms
proof (induction cr m lo hi rule: highest_within.induct)
  case (1 cr m lo hi)
  show ?case
  proof (cases "lo < hi")
    case False
    then have "highest_within cr m lo hi = Inr lo" by (simp add: highest_within.simps [of cr m lo hi])
    with False "1.prems"(1,4) show ?thesis by (auto intro!: exI [of _ lo])
  next
    case True
    define mid where "mid = (lo + (hi + 1)) div 2"
    have mid: "lo < mid" "mid \<le> hi" using bisect_mid_up [OF True] by (simp_all add: mid_def)
    have step: "highest_within cr m lo hi =
        (if c mid \<le> m then highest_within cr m mid hi else highest_within cr m lo (mid - 1))"
      using True "1.prems"(2) [of mid] mid
      by (simp add: highest_within.simps [of cr m lo hi] mid_def [symmetric] Let_def)
    show ?thesis
    proof (cases "c mid \<le> m")
      case True
      have low: "c p \<le> m" if "lo \<le> p" "p \<le> mid" for p
        using "1.prems"(3) [of p mid] that mid True by simp
      have "\<exists>r. highest_within cr m mid hi = Inr r \<and> mid \<le> r \<and> r \<le> hi \<and>
          (\<forall>p. mid \<le> p \<longrightarrow> p \<le> hi \<longrightarrow> c p \<le> m \<longleftrightarrow> p \<le> r)"
        by (rule "1.IH"(1) [OF \<open>lo < hi\<close> mid_def True])
           (use "1.prems" mid True in auto)
      then obtain r where r: "highest_within cr m mid hi = Inr r" "mid \<le> r" "r \<le> hi"
        "\<And>p. mid \<le> p \<Longrightarrow> p \<le> hi \<Longrightarrow> c p \<le> m \<longleftrightarrow> p \<le> r" by blast
      have "c p \<le> m \<longleftrightarrow> p \<le> r" if "lo \<le> p" "p \<le> hi" for p
        using low [of p] r(2) r(4) [of p] that by (cases "p \<le> mid") auto
      with r mid step True show ?thesis by auto
    next
      case False
      have high: "\<not> c p \<le> m" if "mid \<le> p" "p \<le> hi" for p
        using "1.prems"(3) [of mid p] that mid False by simp
      have "\<exists>r. highest_within cr m lo (mid - 1) = Inr r \<and> lo \<le> r \<and> r \<le> mid - 1 \<and>
          (\<forall>p. lo \<le> p \<longrightarrow> p \<le> mid - 1 \<longrightarrow> c p \<le> m \<longleftrightarrow> p \<le> r)"
        by (rule "1.IH"(2) [OF \<open>lo < hi\<close> mid_def False])
           (use "1.prems" mid False in auto)
      then obtain r where r: "highest_within cr m lo (mid - 1) = Inr r" "lo \<le> r" "r \<le> mid - 1"
        "\<And>p. lo \<le> p \<Longrightarrow> p \<le> mid - 1 \<Longrightarrow> c p \<le> m \<longleftrightarrow> p \<le> r" by blast
      have "c p \<le> m \<longleftrightarrow> p \<le> r" if "lo \<le> p" "p \<le> hi" for p
        using high [of p] r(3) r(4) [of p] that by (cases "mid \<le> p") auto
      with r mid step False show ?thesis by auto
    qed
  qed
qed

lemma lowest_reaching_spec:
  assumes "lo \<le> hi" "\<And>p. lo \<le> p \<Longrightarrow> p \<le> hi \<Longrightarrow> fee p = Inr (f p)"
    "\<And>p q. lo \<le> p \<Longrightarrow> p \<le> q \<Longrightarrow> q \<le> hi \<Longrightarrow> f p \<le> f q" "m \<le> f hi"
  shows "\<exists>r. lowest_reaching fee m lo hi = Inr r \<and> lo \<le> r \<and> r \<le> hi \<and>
    (\<forall>p. lo \<le> p \<longrightarrow> p \<le> hi \<longrightarrow> m \<le> f p \<longleftrightarrow> r \<le> p)"
  using assms
proof (induction fee m lo hi rule: lowest_reaching.induct)
  case (1 fee m lo hi)
  show ?case
  proof (cases "lo < hi")
    case False
    then have "lowest_reaching fee m lo hi = Inr hi" by (simp add: lowest_reaching.simps [of fee m lo hi])
    with False "1.prems"(1,4) show ?thesis by (auto intro!: exI [of _ hi])
  next
    case True
    define mid where "mid = (lo + hi) div 2"
    have mid: "lo \<le> mid" "mid < hi" using bisect_mid_down [OF True] by (simp_all add: mid_def)
    have step: "lowest_reaching fee m lo hi =
        (if m \<le> f mid then lowest_reaching fee m lo mid else lowest_reaching fee m (mid + 1) hi)"
      using True "1.prems"(2) [of mid] mid
      by (simp add: lowest_reaching.simps [of fee m lo hi] mid_def [symmetric] Let_def)
    show ?thesis
    proof (cases "m \<le> f mid")
      case True
      have high: "m \<le> f p" if "mid \<le> p" "p \<le> hi" for p
        using "1.prems"(3) [of mid p] that mid True by simp
      have "\<exists>r. lowest_reaching fee m lo mid = Inr r \<and> lo \<le> r \<and> r \<le> mid \<and>
          (\<forall>p. lo \<le> p \<longrightarrow> p \<le> mid \<longrightarrow> m \<le> f p \<longleftrightarrow> r \<le> p)"
        by (rule "1.IH"(1) [OF \<open>lo < hi\<close> mid_def True])
           (use "1.prems" mid True in auto)
      then obtain r where r: "lowest_reaching fee m lo mid = Inr r" "lo \<le> r" "r \<le> mid"
        "\<And>p. lo \<le> p \<Longrightarrow> p \<le> mid \<Longrightarrow> m \<le> f p \<longleftrightarrow> r \<le> p" by blast
      have "m \<le> f p \<longleftrightarrow> r \<le> p" if "lo \<le> p" "p \<le> hi" for p
        using high [of p] r(3) r(4) [of p] that by (cases "mid \<le> p") auto
      with r mid step True show ?thesis by auto
    next
      case False
      have low: "\<not> m \<le> f p" if "lo \<le> p" "p \<le> mid" for p
        using "1.prems"(3) [of p mid] that mid False by simp
      have "\<exists>r. lowest_reaching fee m (mid + 1) hi = Inr r \<and> mid + 1 \<le> r \<and> r \<le> hi \<and>
          (\<forall>p. mid + 1 \<le> p \<longrightarrow> p \<le> hi \<longrightarrow> m \<le> f p \<longleftrightarrow> r \<le> p)"
        by (rule "1.IH"(2) [OF \<open>lo < hi\<close> mid_def False])
           (use "1.prems" mid False in auto)
      then obtain r where r: "lowest_reaching fee m (mid + 1) hi = Inr r" "mid + 1 \<le> r" "r \<le> hi"
        "\<And>p. mid + 1 \<le> p \<Longrightarrow> p \<le> hi \<Longrightarrow> m \<le> f p \<longleftrightarrow> r \<le> p" by blast
      have "m \<le> f p \<longleftrightarrow> r \<le> p" if "lo \<le> p" "p \<le> hi" for p
        using low [of p] r(2) r(4) [of p] that by (cases "p \<le> mid") auto
      with r mid step False show ?thesis by auto
    qed
  qed
qed

subsection \<open>Credits of a fee\<close>

definition credits_for :: "rat \<Rightarrow> int \<Rightarrow> int" where
  "credits_for rate fee = max 1 (rat_quo (of_int fee * rate))"

lemma credits_for_mono: "0 \<le> rate \<Longrightarrow> 0 \<le> f \<Longrightarrow> f \<le> g \<Longrightarrow> credits_for rate f \<le> credits_for rate g"
  unfolding credits_for_def by (intro max.mono order.refl rat_quo_mono mult_right_mono mult_nonneg_nonneg) simp_all

lemma CalcCredits_set_int:
  assumes "0 < rate" "0 \<le> f"
  shows "CalcCreditsFromBillable (bf_set_int f) rate = Inr (credits_for rate f)"
proof -
  have "0 \<le> rat_quo (of_int f * rate)" using assms by (intro rat_quo_nonneg) simp
  with assms show ?thesis
    by (auto simp: CalcCreditsFromBillable_def bf_set_int_def bf_neg_def bf_rat_def credits_for_def Let_def
        rejectIf_def not_less mult_less_0_iff max_def)
qed

lemma CalcCreditsFromBillable_pos: "CalcCreditsFromBillable b rate = Inr c \<Longrightarrow> 1 \<le> c"
  by (auto simp: CalcCreditsFromBillable_def res_simps Let_def split: if_splits)
     (metis not_less rat_quo_nonneg linorder_not_le int_one_le_iff_zero_less order_le_less)

subsection \<open>Admission over a monotone fee\<close>

text \<open>
  What admission needs of a fee function: on the configured range of Cost Levels it always
  returns, the fee is not negative, and it does not fall when the level rises. \<open>ok a lo hi\<close>
  says that the workload \<open>a\<close> is priced on the range.
\<close>

locale monotone_fee =
  fixes fee :: "'a \<Rightarrow> int \<Rightarrow> err + int" and ok :: "'a \<Rightarrow> int \<Rightarrow> int \<Rightarrow> bool"
  assumes fee_total: "ok a lo hi \<Longrightarrow> lo \<le> p \<Longrightarrow> p \<le> hi \<Longrightarrow> \<exists>f. fee a p = Inr f \<and> 0 \<le> f"
    and fee_mono: "ok a lo hi \<Longrightarrow> lo \<le> p \<Longrightarrow> p \<le> q \<Longrightarrow> q \<le> hi \<Longrightarrow>
      fee a p = Inr f \<Longrightarrow> fee a q = Inr g \<Longrightarrow> f \<le> g"
begin

definition fee_of :: "'a \<Rightarrow> int \<Rightarrow> int" where
  "fee_of a p = (case fee a p of Inr f \<Rightarrow> f | Inl _ \<Rightarrow> 0)"

lemma fee_eq: "ok a lo hi \<Longrightarrow> lo \<le> p \<Longrightarrow> p \<le> hi \<Longrightarrow> fee a p = Inr (fee_of a p)"
  using fee_total [of a lo hi p] by (auto simp: fee_of_def)

lemma fee_nonneg: "ok a lo hi \<Longrightarrow> lo \<le> p \<Longrightarrow> p \<le> hi \<Longrightarrow> 0 \<le> fee_of a p"
  using fee_total [of a lo hi p] by (auto simp: fee_of_def)

lemma fee_le: "ok a lo hi \<Longrightarrow> lo \<le> p \<Longrightarrow> p \<le> q \<Longrightarrow> q \<le> hi \<Longrightarrow> fee_of a p \<le> fee_of a q"
  using fee_mono [of a lo hi p q] fee_eq [of a lo hi p] fee_eq [of a lo hi q] by simp

lemma credits_eq:
  "ok a lo hi \<Longrightarrow> 0 < rate \<Longrightarrow> lo \<le> p \<Longrightarrow> p \<le> hi \<Longrightarrow>
   creditsForPriority (fee a) rate p = Inr (credits_for rate (fee_of a p))"
  by (simp add: creditsForPriority_def fee_eq fee_nonneg CalcCredits_set_int)

lemma credits_le:
  "ok a lo hi \<Longrightarrow> 0 < rate \<Longrightarrow> lo \<le> p \<Longrightarrow> p \<le> q \<Longrightarrow> q \<le> hi \<Longrightarrow>
   credits_for rate (fee_of a p) \<le> credits_for rate (fee_of a q)"
  using fee_nonneg [of a lo hi p] fee_le [of a lo hi p q] by (intro credits_for_mono) simp_all

lemma max_within:
  assumes "ok a lo hi" "lo \<le> hi" "ParseMinPriorityGwei cfg = Inr lo" "ParseMaxPriorityGwei cfg = Inr hi"
    "ParsePositiveDecimalRate (lc_credits_per_gwei cfg) = Inr rate"
    "pr_auto_max_credits_per_task pj = Some budget" "0 < budget"
  shows "if budget < credits_for rate (fee_of a lo)
    then MaxPriorityWithinAutoMaxCredits cfg pj (fee a) = Inl ErrAutoMaxCreditsInsufficient
    else \<exists>r. MaxPriorityWithinAutoMaxCredits cfg pj (fee a) = Inr r \<and> lo \<le> r \<and> r \<le> hi \<and>
      (\<forall>p. lo \<le> p \<longrightarrow> p \<le> hi \<longrightarrow> credits_for rate (fee_of a p) \<le> budget \<longleftrightarrow> p \<le> r)"
proof -
  have rate: "0 < rate" using assms(5) by (rule ParsePositiveDecimalRate_pos)
  have eq: "MaxPriorityWithinAutoMaxCredits cfg pj (fee a) =
      rejectIf (budget < credits_for rate (fee_of a lo)) ErrAutoMaxCreditsInsufficient
        (highest_within (creditsForPriority (fee a) rate) budget lo hi)"
    using assms rate
    by (simp add: MaxPriorityWithinAutoMaxCredits_def requireAutoMaxCreditsPerTask_def max_credits_of_def
        credits_eq [of a lo hi])
  show ?thesis
  proof (cases "budget < credits_for rate (fee_of a lo)")
    case False
    have "\<exists>r. highest_within (creditsForPriority (fee a) rate) budget lo hi = Inr r \<and> lo \<le> r \<and> r \<le> hi \<and>
        (\<forall>p. lo \<le> p \<longrightarrow> p \<le> hi \<longrightarrow> credits_for rate (fee_of a p) \<le> budget \<longleftrightarrow> p \<le> r)"
      using assms(1,2) rate False
      by (intro highest_within_spec) (auto intro: credits_eq credits_le)
    with False eq show ?thesis by simp
  qed (simp add: eq)
qed

text \<open>
  A level is admissible when it costs at most the budget and at least the minimal fee.
  Admission picks the admissible level nearest to the one asked for.
\<close>

lemma admission_auto:
  assumes "ok a lo hi" "ParseMinPriorityGwei cfg = Inr lo" "ParseMaxPriorityGwei cfg = Inr hi"
    "ParsePositiveDecimalRate (lc_credits_per_gwei cfg) = Inr rate"
    "cost_level_mode pj = CostLevelModeAuto"
    "pr_auto_max_credits_per_task pj = Some budget" "0 < budget"
    "lo \<le> asked" "asked \<le> hi" "0 \<le> minFee"
  defines "adm \<equiv> \<lambda>p. lo \<le> p \<and> p \<le> hi \<and> credits_for rate (fee_of a p) \<le> budget \<and> minFee \<le> fee_of a p"
  shows "if \<exists>p. adm p
    then \<exists>q. enforceAdmissionMinTaskFee cfg (Some pj) (Some asked) minFee (fee a) = Inr (q, fee_of a q) \<and>
      adm q \<and> (\<forall>p. adm p \<longrightarrow> \<bar>q - asked\<bar> \<le> \<bar>p - asked\<bar>)
    else enforceAdmissionMinTaskFee cfg (Some pj) (Some asked) minFee (fee a) = Inl ErrAutoMaxCreditsInsufficient"
proof -
  have "0 < lo" using assms(2) by (rule parsePositiveDecimalGwei_pos)
  note mw = max_within [OF assms(1) _ assms(2,3,4,6,7)]
  have rate: "0 < rate" using assms(4) by (rule ParsePositiveDecimalRate_pos)
  show ?thesis
  proof (cases "budget < credits_for rate (fee_of a lo)")
    case True
    have "\<not> adm p" for p
      using True credits_le [OF assms(1) rate order.refl, of p] by (auto simp: adm_def)
    moreover have "MaxPriorityWithinAutoMaxCredits cfg pj (fee a) = Inl ErrAutoMaxCreditsInsufficient"
      using mw True assms(8,9) by simp
    ultimately show ?thesis
      using assms(5,8,10) \<open>0 < lo\<close>
      by (auto simp: enforceAdmissionMinTaskFee_def CapPriorityByAutoMaxCredits_def)
  next
    case False
    then obtain r where mp: "MaxPriorityWithinAutoMaxCredits cfg pj (fee a) = Inr r"
      and r: "lo \<le> r" "r \<le> hi"
      and within: "\<And>p. lo \<le> p \<Longrightarrow> p \<le> hi \<Longrightarrow> credits_for rate (fee_of a p) \<le> budget \<longleftrightarrow> p \<le> r"
      using mw assms(8,9) by auto
    define w where "w = min asked r"
    have w: "lo \<le> w" "w \<le> hi" "w \<le> r" "w \<le> asked" using r assms(8,9) by (auto simp: w_def)
    have adm: "adm p \<longleftrightarrow> lo \<le> p \<and> p \<le> r \<and> minFee \<le> fee_of a p" for p
      using within [of p] r by (auto simp: adm_def)
    have cap: "CapPriorityByAutoMaxCredits cfg pj asked (fee a) = Inr w"
      using mp assms(8) \<open>0 < lo\<close> by (simp add: CapPriorityByAutoMaxCredits_def w_def min_def not_less)
    have eq: "enforceAdmissionMinTaskFee cfg (Some pj) (Some asked) minFee (fee a) =
        (if minFee \<le> fee_of a w then Inr (w, fee_of a w) else raise_to_minimum cfg pj w minFee (fee a))"
      using assms(5,8,10) \<open>0 < lo\<close> cap fee_eq [OF assms(1) w(1,2)] fee_nonneg [OF assms(1) w(1,2)]
      by (auto simp: enforceAdmissionMinTaskFee_def)
    show ?thesis
    proof (cases "minFee \<le> fee_of a w")
      case True
      have "adm w" using True w by (simp add: adm)
      moreover have "\<bar>w - asked\<bar> \<le> \<bar>p - asked\<bar>" if "adm p" for p
        using that w by (auto simp: adm w_def min_def)
      ultimately show ?thesis using True eq by auto
    next
      case False
      have low: "\<not> minFee \<le> fee_of a p" if "lo \<le> p" "p \<le> w" for p
        using fee_le [OF assms(1) that w(2)] False by simp
      have max: "(if r < w then w else r) = r" using w by simp
      have raise: "raise_to_minimum cfg pj w minFee (fee a) =
          rejectIf (fee_of a r < minFee) ErrAutoMaxCreditsInsufficient
          (bindE (lowest_reaching (fee a) minFee w r) (\<lambda>h.
           bindE (fee a h) (\<lambda>b. rejectIf (b < minFee) ErrAutoMaxCreditsInsufficient (Inr (h, b)))))"
        unfolding raise_to_minimum_def mp by (simp add: max Let_def fee_eq [OF assms(1) r])
      show ?thesis
      proof (cases "fee_of a r < minFee")
        case True
        have "\<not> adm p" for p
          using True fee_le [OF assms(1), of p r] r by (auto simp: adm)
        with True False eq raise show ?thesis by auto
      next
        case False
        have "\<exists>h. lowest_reaching (fee a) minFee w r = Inr h \<and> w \<le> h \<and> h \<le> r \<and>
            (\<forall>p. w \<le> p \<longrightarrow> p \<le> r \<longrightarrow> minFee \<le> fee_of a p \<longleftrightarrow> h \<le> p)"
          using w r False
          by (intro lowest_reaching_spec) (auto intro: fee_eq [OF assms(1)] fee_le [OF assms(1)])
        then obtain h where h: "lowest_reaching (fee a) minFee w r = Inr h" "w \<le> h" "h \<le> r"
          "\<And>p. w \<le> p \<Longrightarrow> p \<le> r \<Longrightarrow> minFee \<le> fee_of a p \<longleftrightarrow> h \<le> p" by blast
        have "adm h" using h w by (simp add: adm)
        have "w \<noteq> h" using \<open>adm h\<close> low [of w] w by (auto simp: adm)
        then have "w < r" using h by simp
        then have "w = asked" by (auto simp: w_def min_def split: if_splits)
        have near: "h \<le> p" if "adm p" for p
        proof -
          have "w \<le> p" using low [of p] that by (cases "p \<le> w") (auto simp: adm)
          with that h(4) [of p] show ?thesis by (auto simp: adm)
        qed
        have "enforceAdmissionMinTaskFee cfg (Some pj) (Some asked) minFee (fee a) = Inr (h, fee_of a h)"
          using eq raise \<open>\<not> minFee \<le> fee_of a w\<close> False h(1) fee_eq [OF assms(1), of h] \<open>adm h\<close> r
          by (simp add: adm not_less rejectIf_def)
        moreover have "\<bar>h - asked\<bar> \<le> \<bar>p - asked\<bar>" if "adm p" for p
          using near [OF that] \<open>w = asked\<close> h(2) by linarith
        ultimately show ?thesis using \<open>adm h\<close> by auto
      qed
    qed
  qed
qed

lemma admission_static:
  assumes "ok a lo hi" "ParsePositiveDecimalRate (lc_credits_per_gwei cfg) = Inr rate"
    "cost_level_mode pj \<noteq> CostLevelModeAuto"
    "pr_auto_max_credits_per_task pj = Some budget" "0 < budget"
    "0 < asked" "lo \<le> asked" "asked \<le> hi" "0 \<le> minFee"
  shows "enforceAdmissionMinTaskFee cfg (Some pj) (Some asked) minFee (fee a) =
    (if budget < credits_for rate (fee_of a asked) then Inl ErrMaxCreditsExceeded
     else if fee_of a asked < minFee then Inl ErrTaskFeeBelowMinimum
     else Inr (asked, fee_of a asked))"
proof -
  have rate: "0 < rate" using assms(2) by (rule ParsePositiveDecimalRate_pos)
  show ?thesis
    using assms rate fee_eq [OF assms(1,7,8)] fee_nonneg [OF assms(1,7,8)]
    by (simp add: enforceAdmissionMinTaskFee_def rejectIfStaticCreditsExceedMax_def
        requireAutoMaxCreditsPerTask_def max_credits_of_def CalcCredits_set_int rejectIf_def)
qed

end

subsection \<open>The fee of a Crynux task is monotone\<close>

lemma f64_of_rat_nonneg:
  assumes "0 \<le> x"
  shows "f64_of_rat x = PosInf \<or> (\<exists>y. f64_of_rat x = Fin y \<and> 0 \<le> y)"
proof -
  have "0 \<le> round_at e x" for e using assms by (rule round_at_nonneg)
  moreover have "\<not> round_at e x \<le> - (2 ^ 1024)" for e
    using round_at_nonneg [OF assms, of e] zero_less_power [of "2 :: rat" 1024] by linarith
  ultimately show ?thesis by (auto simp: f64_of_rat_def Let_def)
qed

lemma f64_mul_nonneg:
  assumes "0 \<le> a" "0 \<le> b"
  shows "f64_mul (Fin a) (Fin b) = PosInf \<or> (\<exists>y. f64_mul (Fin a) (Fin b) = Fin y \<and> 0 \<le> y)"
  using f64_of_rat_nonneg [of "a * b"] assms by simp

text \<open>The uncapped fee at a positive level below \<open>2 ^ 64\<close>, for finite factors.\<close>

definition raw_fee :: "f64 \<Rightarrow> int \<Rightarrow> int" where
  "raw_fee x p = (case x of Fin b \<Rightarrow> rat_quo (round_prec 64 (of_int p * b)) | _ \<Rightarrow> 0)"

definition raw_billable :: "f64 \<Rightarrow> int \<Rightarrow> bigfloat" where
  "raw_billable x p = (case x of Fin b \<Rightarrow> BFin 64 (round_prec 64 (of_int p * b)) | _ \<Rightarrow> BInf False)"

lemma billableFromParts_eq:
  assumes "0 < p" "p < 2 ^ 64" "\<not> f64_is_nan_or_inf s" "\<not> f64_neg s" "\<not> f64_is_nan_or_inf w" "\<not> f64_nonpos w"
  shows "billableFromParts p s w = Inr (raw_billable (f64_mul s w) p, raw_fee (f64_mul s w) p)"
proof -
  obtain a b where s: "s = Fin a" "0 \<le> a" and w: "w = Fin b" "0 < b"
    using assms(3-6) by (cases s; cases w) (auto simp: f64_is_nan_or_inf_def f64_neg_def f64_nonpos_def)
  have prec: "bf_set_int p = BFin 64 (of_int p)"
    using bitlen_le_64 [of p] assms(1,2) by (simp add: bf_set_int_def max_def)
  have n: "0 \<le> round_prec 64 (of_int p * y)" if "0 \<le> y" for y
    using that assms(1) by (intro round_prec_nonneg) simp
  have "f64_mul (Fin a) (Fin b) = PosInf \<or> (\<exists>y. f64_mul (Fin a) (Fin b) = Fin y \<and> 0 \<le> y)"
    using s(2) w(2) by (intro f64_mul_nonneg) simp_all
  then show ?thesis
  proof (elim disjE exE conjE)
    assume "f64_mul (Fin a) (Fin b) = PosInf"
    with assms s w show ?thesis
      by (simp add: billableFromParts_def bf_mul_f64_def bf_set_int_def raw_fee_def raw_billable_def
          bf_neg_def bf_int_def)
  next
    fix y assume "f64_mul (Fin a) (Fin b) = Fin y" "0 \<le> y"
    with assms s w n [of y] show ?thesis
      by (simp add: billableFromParts_def bf_mul_f64_def raw_fee_def raw_billable_def
          bf_neg_def bf_int_def prec rejectIf_def)
  qed
qed

lemma raw_fee_nonneg: "0 \<le> p \<Longrightarrow> (\<And>b. x = Fin b \<Longrightarrow> 0 \<le> b) \<Longrightarrow> 0 \<le> raw_fee x p"
  by (auto simp: raw_fee_def intro!: rat_quo_nonneg round_prec_nonneg split: f64.splits)

lemma raw_fee_mono:
  "0 \<le> p \<Longrightarrow> p \<le> q \<Longrightarrow> (\<And>b. x = Fin b \<Longrightarrow> 0 \<le> b) \<Longrightarrow> raw_fee x p \<le> raw_fee x q"
  by (auto simp: raw_fee_def intro!: rat_quo_mono round_prec_nonneg round_prec_mono mult_right_mono split: f64.splits)

text \<open>
  A workload is priced on a range of levels below \<open>2 ^ 64\<close> when its price at the lowest
  level computes: no other check of the code depends on the level.
\<close>

definition priced :: "llm_config \<times> calc_billable_input \<Rightarrow> int \<Rightarrow> int \<Rightarrow> bool" where
  "priced a lo hi \<longleftrightarrow> 0 < lo \<and> hi < 2 ^ 64 \<and>
     (case CalcBillableGwei (fst a) ((snd a)\<lparr>cb_priority_gwei := Some lo\<rparr>) of Inr _ \<Rightarrow> True | Inl _ \<Rightarrow> False)"

lemma billableFromParts_args:
  "billableFromParts p s w = Inr r \<Longrightarrow>
   \<not> f64_is_nan_or_inf s \<and> \<not> f64_neg s \<and> \<not> f64_is_nan_or_inf w \<and> \<not> f64_nonpos w"
  by (auto simp: billableFromParts_def res_simps)

lemma f64_mul_factor:
  assumes "\<not> f64_is_nan_or_inf s" "\<not> f64_neg s" "\<not> f64_is_nan_or_inf w" "\<not> f64_nonpos w" "f64_mul s w = Fin b"
  shows "0 \<le> b"
proof -
  obtain x y where "s = Fin x" "0 \<le> x" "w = Fin y" "0 < y"
    using assms(1-4) by (cases s; cases w) (auto simp: f64_is_nan_or_inf_def f64_neg_def f64_nonpos_def)
  with f64_mul_nonneg [of x y] assms(5) show ?thesis by auto
qed

definition capped :: "int \<Rightarrow> bigfloat \<Rightarrow> int \<Rightarrow> bigfloat \<times> int" where
  "capped mx b f = (if f \<le> mx then (b, f) else (bf_set_int mx, mx))"

lemma priced_eq:
  assumes "priced (cfg, inp) lo hi"
  shows "\<exists>x s w mx. MaxTaskFeeGwei cfg MaxTaskPriceProviderCrynux = Inr mx \<and> (\<forall>b. x = Fin b \<longrightarrow> 0 \<le> b) \<and>
    (\<forall>p. lo \<le> p \<longrightarrow> p \<le> hi \<longrightarrow> CalcBillableGwei cfg (inp\<lparr>cb_priority_gwei := Some p\<rparr>) =
       Inr \<lparr>cbr_billable_gwei = fst (capped mx (raw_billable x p) (raw_fee x p)),
            cbr_task_fee_gwei = snd (capped mx (raw_billable x p) (raw_fee x p)),
            cbr_estimated_node_seconds = s, cbr_vram_weight = w\<rparr>)"
proof -
  define s where "s = node_seconds (cb_coefficients inp) (cb_prompt_tokens inp) (cb_completion_tokens inp)"
  define w where "w = vram_weight_of (cb_effective_vram inp) (cb_base_vram inp)"
  obtain r where r: "CalcBillableGwei cfg (inp\<lparr>cb_priority_gwei := Some lo\<rparr>) = Inr r" and lo: "0 < lo" "hi < 2 ^ 64"
    using assms by (auto simp: priced_def split: sum.splits)
  then obtain b0 f0 mx where b0: "billableFromParts lo s w = Inr (b0, f0)"
    and mx: "MaxTaskFeeGwei cfg MaxTaskPriceProviderCrynux = Inr mx"
    and v: "cb_base_vram inp \<noteq> 0" "cb_effective_vram inp \<noteq> 0"
      "validateExecutionTimeCoefficients (cb_coefficients inp) = Inr ()"
    by (auto simp: CalcBillableGwei_def Let_def res_simps applyMaxTaskFeeCap_def s_def w_def)
  note args = billableFromParts_args [OF b0]
  have eq: "CalcBillableGwei cfg (inp\<lparr>cb_priority_gwei := Some p\<rparr>) =
       Inr \<lparr>cbr_billable_gwei = fst (capped mx (raw_billable (f64_mul s w) p) (raw_fee (f64_mul s w) p)),
            cbr_task_fee_gwei = snd (capped mx (raw_billable (f64_mul s w) p) (raw_fee (f64_mul s w) p)),
            cbr_estimated_node_seconds = s, cbr_vram_weight = w\<rparr>" if "lo \<le> p" "p \<le> hi" for p
    using that lo v mx billableFromParts_eq [of p s w] args
    by (simp add: CalcBillableGwei_def Let_def s_def [symmetric] w_def [symmetric] applyMaxTaskFeeCap_def capped_def)
  show ?thesis using eq mx args f64_mul_factor [of s w] by blast
qed

interpretation crynux: monotone_fee "\<lambda>a. crynux_fee (fst a) (snd a)" priced
proof
  fix a lo hi p
  assume ok: "priced a lo hi" and p: "lo \<le> p" "p \<le> hi"
  obtain cfg inp where a: "a = (cfg, inp)" by (cases a)
  have "0 < lo" using ok by (simp add: priced_def)
  obtain x s w mx where "MaxTaskFeeGwei cfg MaxTaskPriceProviderCrynux = Inr mx" "\<forall>b. x = Fin b \<longrightarrow> 0 \<le> b"
    "CalcBillableGwei cfg (inp\<lparr>cb_priority_gwei := Some p\<rparr>) =
       Inr \<lparr>cbr_billable_gwei = fst (capped mx (raw_billable x p) (raw_fee x p)),
            cbr_task_fee_gwei = snd (capped mx (raw_billable x p) (raw_fee x p)),
            cbr_estimated_node_seconds = s, cbr_vram_weight = w\<rparr>"
    using priced_eq [OF ok [unfolded a]] p by blast
  moreover from this have "0 < mx" by (auto dest: MaxTaskFeeGwei_pos)
  ultimately show "\<exists>f. crynux_fee (fst a) (snd a) p = Inr f \<and> 0 \<le> f"
    using raw_fee_nonneg [of p x] p \<open>0 < lo\<close> by (simp add: a crynux_fee_def capped_def)
next
  fix a lo hi p q f g
  assume ok: "priced a lo hi" and p: "lo \<le> p" "p \<le> q" "q \<le> hi"
    and f: "crynux_fee (fst a) (snd a) p = Inr f" "crynux_fee (fst a) (snd a) q = Inr g"
  obtain cfg inp where a: "a = (cfg, inp)" by (cases a)
  have "0 < lo" using ok by (simp add: priced_def)
  obtain x s w mx where x: "\<forall>b. x = Fin b \<longrightarrow> 0 \<le> b" and
    eq: "\<forall>p. lo \<le> p \<longrightarrow> p \<le> hi \<longrightarrow> CalcBillableGwei cfg (inp\<lparr>cb_priority_gwei := Some p\<rparr>) =
       Inr \<lparr>cbr_billable_gwei = fst (capped mx (raw_billable x p) (raw_fee x p)),
            cbr_task_fee_gwei = snd (capped mx (raw_billable x p) (raw_fee x p)),
            cbr_estimated_node_seconds = s, cbr_vram_weight = w\<rparr>"
    using priced_eq [OF ok [unfolded a]] by blast
  have "f = snd (capped mx (raw_billable x p) (raw_fee x p))" "g = snd (capped mx (raw_billable x q) (raw_fee x q))"
    using f eq p by (simp_all add: a crynux_fee_def)
  then show "f \<le> g" using raw_fee_mono [of p q x] x p \<open>0 < lo\<close> by (simp add: capped_def)
qed

subsection \<open>Properties of admission\<close>

text \<open>A Cost Level is admissible for a workload: its fee computes, costs at most the budget
  and reaches the minimum.\<close>

definition admissible ::
  "llm_config \<Rightarrow> calc_billable_input \<Rightarrow> rat \<Rightarrow> int \<Rightarrow> int \<Rightarrow> int \<Rightarrow> int \<Rightarrow> int \<Rightarrow> bool" where
  "admissible cfg inp rate budget minFee lo hi p \<longleftrightarrow> lo \<le> p \<and> p \<le> hi \<and>
     (case crynux_fee cfg inp p of Inl _ \<Rightarrow> False | Inr f \<Rightarrow> credits_for rate f \<le> budget \<and> minFee \<le> f)"

lemma admissible_iff:
  "priced (cfg, inp) lo hi \<Longrightarrow> admissible cfg inp rate budget minFee lo hi p \<longleftrightarrow>
     lo \<le> p \<and> p \<le> hi \<and> credits_for rate (crynux.fee_of (cfg, inp) p) \<le> budget \<and>
     minFee \<le> crynux.fee_of (cfg, inp) p"
  using crynux.fee_eq [of "(cfg, inp)" lo hi p] by (auto simp: admissible_def)


text \<open>For a static project admission never changes the Cost Level: it refuses when the
  estimated Credits exceed the project's maximum, else when the fee is below the minimum,
  and otherwise admits at exactly the project's level and fee.\<close>

theorem static_admission_exact:
  assumes "ParsePositiveDecimalRate (lc_credits_per_gwei cfg) = Inr rate"
    "priced (cfg, inp) lo hi" "cost_level_mode pj = CostLevelModeStatic"
    "pr_auto_max_credits_per_task pj = Some budget" "0 < budget"
    "lo \<le> asked" "asked \<le> hi" "0 \<le> minFee"
  shows "\<exists>f. crynux_fee cfg inp asked = Inr f \<and>
    enforceAdmissionMinTaskFee cfg (Some pj) (Some asked) minFee (crynux_fee cfg inp) =
      (if budget < credits_for rate f then Inl ErrMaxCreditsExceeded
       else if f < minFee then Inl ErrTaskFeeBelowMinimum
       else Inr (asked, f))"
proof -
  have "0 < asked" using assms(2,6) by (auto simp: priced_def)
  with crynux.admission_static [OF assms(2,1) _ assms(4,5) _ assms(6-8)] crynux.fee_eq [OF assms(2,6,7)] assms(3)
  show ?thesis by simp
qed

lemma div_less_iff_mult:
  fixes m u f :: int
  assumes "0 < f"
  shows "m div f < u \<longleftrightarrow> m < u * f"
proof
  assume "m div f < u"
  then have "(m div f + 1) * f \<le> u * f" using assms by (intro mult_right_mono) auto
  moreover have "m = m div f * f + m mod f" by simp
  moreover have "m mod f < f" using assms by simp
  moreover have "(m div f + 1) * f = m div f * f + f" by (simp add: distrib_right)
  ultimately show "m < u * f" by linarith
next
  assume l: "m < u * f"
  show "m div f < u"
  proof (rule ccontr)
    assume "\<not> m div f < u"
    then have "u * f \<le> m div f * f" using assms by (intro mult_right_mono) auto
    moreover have "m = m div f * f + m mod f" by simp
    moreover have "0 \<le> m mod f" using assms by simp
    ultimately show False using l by linarith
  qed
qed

lemma multiply_units_spec:
  assumes "\<forall>f \<in> set fs. f \<noteq> 0" "units \<noteq> 0"
  shows "multiply_units units fs =
    (if uint units * prod_list (map uint fs) < 2 ^ 64
     then Inr (word_of_int (uint units * prod_list (map uint fs)))
     else Inl (ErrMsg ''image pixel-step units overflow uint64''))"
  using assms
proof (induction fs arbitrary: units)
  case Nil
  have "uint units < 2 ^ 64" using uint_lt2p [of units] by simp
  then show ?case by simp
next
  case (Cons f fs)
  define P where "P = prod_list (map uint fs)"
  have pos: "0 < uint g" if "g \<noteq> 0" for g :: u64
    using that uint_ge_0 [of g] by (simp add: order_less_le uint_0_iff)
  have P: "1 \<le> P"
    unfolding P_def using Cons.prems(1) pos by (induction fs) (auto simp: int_one_le_iff_zero_less)
  have f: "0 < uint f" "0 < uint units" using Cons.prems pos by simp_all
  have guard: "(- 1) div f < units \<longleftrightarrow> 2 ^ 64 \<le> uint units * uint f"
  proof -
    have "uint ((- 1 :: u64) div f) = (2 ^ 64 - 1) div uint f" by (simp add: uint_div_distrib unsigned_minus_1_eq_mask mask_eq_exp_minus_1)
    then have "(- 1) div f < units \<longleftrightarrow> (2 ^ 64 - 1) div uint f < uint units" by (simp add: word_less_def)
    also have "\<dots> \<longleftrightarrow> 2 ^ 64 - 1 < uint units * uint f" using f(1) by (rule div_less_iff_mult)
    finally show ?thesis by auto
  qed
  show ?case
  proof (cases "2 ^ 64 \<le> uint units * uint f")
    case True
    then have "2 ^ 64 \<le> uint units * uint f * P"
      using P f mult_left_mono [of 1 P "uint units * uint f"] mult_pos_pos [of "uint units" "uint f"] by linarith
    with True guard show ?thesis by (simp add: P_def [symmetric] mult.assoc not_less)
  next
    case False
    then have u: "uint (units * f) = uint units * uint f"
      by (simp add: uint_word_arith_bintrs(3) take_bit_int_eq_self)
    then have "uint (units * f) \<noteq> 0" using f mult_pos_pos [of "uint units" "uint f"] by linarith
    then have nz: "units * f \<noteq> 0" by (metis unsigned_0)
    have "multiply_units units (f # fs) = multiply_units (units * f) fs" using False guard by simp
    with Cons.IH [OF _ nz] Cons.prems(1) u show ?thesis by (simp add: P_def [symmetric] mult.assoc)
  qed
qed

text \<open>The size of an image workload is the exact product of image count, width, height and
  steps, with one image where the count is not given; a zero factor is refused, and so is
  every product that does not fit 64 bits: no wrapped-around size is ever priced.\<close>

theorem image_units_exact:
  assumes "decode taskArgs = Inr args"
    "n = (case ia_num_images_per_prompt args of None \<Rightarrow> 1 | Some c \<Rightarrow> c)"
    "k = uint n * uint (ia_image_width args) * uint (ia_image_height args) * uint (ia_steps args)"
  shows "(\<forall>u. imagePixelStepUnits decode taskArgs = Inr u \<longleftrightarrow> 0 < k \<and> k < 2 ^ 64 \<and> uint u = k)"
proof (cases "n = 0 \<or> ia_image_width args = 0 \<or> ia_image_height args = 0 \<or> ia_steps args = 0")
  case True
  then show ?thesis using assms by (auto simp: imagePixelStepUnits_def Let_def rejectIf_def)
next
  case False
  have pos: "0 < uint g" if "g \<noteq> 0" for g :: u64
    using that uint_ge_0 [of g] by (simp add: order_less_le uint_0_iff)
  have t: "uint n * prod_list (map uint [ia_image_width args, ia_image_height args, ia_steps args]) = k"
    by (simp add: assms(3) mult.assoc)
  have "0 < k" using False by (auto simp: assms(3) intro!: mult_pos_pos pos)
  have "imagePixelStepUnits decode taskArgs =
      multiply_units n [ia_image_width args, ia_image_height args, ia_steps args]"
    using False assms(1,2) by (simp add: imagePixelStepUnits_def Let_def rejectIf_def)
  also have "\<dots> = (if k < 2 ^ 64 then Inr (word_of_int k)
      else Inl (ErrMsg ''image pixel-step units overflow uint64''))"
    using False by (subst multiply_units_spec) (simp_all only: t, auto)
  finally have eq: "imagePixelStepUnits decode taskArgs = (if k < 2 ^ 64 then Inr (word_of_int k)
      else Inl (ErrMsg ''image pixel-step units overflow uint64''))" .
  have "uint (word_of_int k :: u64) = k" if "k < 2 ^ 64"
    using that \<open>0 < k\<close> by (simp add: uint_word_of_int_eq take_bit_int_eq_self)
  with eq \<open>0 < k\<close> show ?thesis by (auto simp flip: word_of_int_uint)
qed

definition sample_workload :: calc_billable_input where
  "sample_workload = \<lparr>cb_priority_gwei = None, cb_effective_vram = 24, cb_base_vram = 16,
     cb_coefficients = \<lparr>ec_constant_seconds = Fin 2, ec_seconds_per_input_token = Fin 0,
       ec_seconds_per_output_token = Fin (1 / 4)\<rparr>,
     cb_prompt_tokens = 7, cb_completion_tokens = 16\<rparr>"

lemma sample_workload_floats:
  "node_seconds (cb_coefficients sample_workload) (cb_prompt_tokens sample_workload)
     (cb_completion_tokens sample_workload) = Fin 6"
  "vram_weight_of (cb_effective_vram sample_workload) (cb_base_vram sample_workload) = Fin (3 / 2)"
  "validateExecutionTimeCoefficients (cb_coefficients sample_workload) = Inr ()"
  "cb_base_vram sample_workload \<noteq> 0" "cb_effective_vram sample_workload \<noteq> 0"
proof -
  have "f64_of_rat 0 = Fin 0" by (simp add: f64_of_rat_def)
  moreover have "f64_of_rat (3 / 2) = Fin (3 / 2)"
    using f64_of_rat_exact [of 3 "- 1"] by (simp add: pow2_def)
  ultimately show "node_seconds (cb_coefficients sample_workload) (cb_prompt_tokens sample_workload)
     (cb_completion_tokens sample_workload) = Fin 6"
  "vram_weight_of (cb_effective_vram sample_workload) (cb_base_vram sample_workload) = Fin (3 / 2)"
    by (simp_all add: node_seconds_def vram_weight_of_def f64_div_u64_def sample_workload_def
        f64_of_u64_exact f64_of_rat_numeral)
qed (simp_all add: sample_workload_def validateExecutionTimeCoefficients_def bad_coefficient_def
    f64_is_nan_or_inf_def f64_neg_def)

lemma sample_llm_config_fees:
  "MaxTaskFeeGwei sample_llm_config MaxTaskPriceProviderCrynux = Inr 10000000"
  "MinTaskFeeGwei sample_llm_config MaxTaskPriceProviderCrynux = Inr 1000000"
  by code_simp+

lemma sample_workload_raw:
  assumes "0 < p" "p \<le> 1000"
  shows "CalcBillableGwei sample_llm_config (sample_workload\<lparr>cb_priority_gwei := Some p\<rparr>) =
    Inr \<lparr>cbr_billable_gwei = BFin 64 (of_int (9 * p)), cbr_task_fee_gwei = 9 * p,
         cbr_estimated_node_seconds = Fin 6, cbr_vram_weight = Fin (3 / 2)\<rparr>"
proof -
  have m: "f64_mul (Fin 6) (Fin (3 / 2)) = Fin 9" by (simp add: f64_of_rat_numeral)
  have r: "round_prec 64 (of_int p * 9) = of_int (9 * p)"
    using round_prec_int [of "9 * p" 64] assms by (simp add: mult.commute)
  have "billableFromParts p (Fin 6) (Fin (3 / 2)) = Inr (BFin 64 (of_int (9 * p)), 9 * p)"
    using billableFromParts_eq [of p "Fin 6" "Fin (3 / 2)"] assms r rat_quo_of_int [of "9 * p"]
    unfolding m by (simp only: raw_billable_def raw_fee_def f64.case)
      (simp add: f64_is_nan_or_inf_def f64_neg_def f64_nonpos_def)
  then show ?thesis
    using sample_workload_floats assms
    by (simp add: CalcBillableGwei_def applyMaxTaskFeeCap_def sample_llm_config_fees Let_def)
qed

lemma sample_workload_fee: "0 < p \<Longrightarrow> p \<le> 1000 \<Longrightarrow> crynux_fee sample_llm_config sample_workload p = Inr (9 * p)"
  by (simp add: crynux_fee_def sample_workload_raw)

lemma sample_workload_priced: "priced (sample_llm_config, sample_workload) 1 1000"
  by (simp add: priced_def sample_workload_raw)

lemma sample_llm_config_bounds:
  "ParseMinPriorityGwei sample_llm_config = Inr 1" "ParseMaxPriorityGwei sample_llm_config = Inr 1000"
  "ParsePositiveDecimalRate (lc_credits_per_gwei sample_llm_config) = Inr (1 / 1000)"
  using sample_llm_config_prices(3) by (simp_all add: sample_llm_config_def decimal_eval)


definition static_project :: project where
  "static_project = auto_project\<lparr>pr_cost_level_mode := [], pr_priority_gwei := 400\<rparr>"

theorem static_admission_exact_witness:
  "\<exists>f. crynux_fee sample_llm_config sample_workload 400 = Inr f \<and>
    enforceAdmissionMinTaskFee sample_llm_config (Some static_project) (Some 400) 500
      (crynux_fee sample_llm_config sample_workload) =
      (if 3 < credits_for (1 / 1000) f then Inl ErrMaxCreditsExceeded
       else if f < 500 then Inl ErrTaskFeeBelowMinimum
       else Inr (400, f))"
  by (rule static_admission_exact [OF sample_llm_config_bounds(3) sample_workload_priced])
     (simp_all add: static_project_def auto_project_def cost_level_mode_def)

subsection \<open>Properties of the estimate\<close>

lemma credits_of_billable:
  assumes "capped mx (raw_billable x p) (raw_fee x p) = (b, f)" "0 \<le> p" "\<forall>y. x = Fin y \<longrightarrow> 0 \<le> y" "0 < mx"
    "CalcCreditsFromBillable b rate = Inr c" "0 < rate"
  shows "\<exists>y. 0 \<le> y \<and> f = rat_quo y \<and> c = max 1 (rat_quo (y * rate))"
proof -
  have fin: "\<exists>y. 0 \<le> y \<and> f = rat_quo y \<and> bf_rat b = Some y"
  proof (cases "raw_fee x p \<le> mx")
    case True
    then have bf: "b = raw_billable x p" "f = raw_fee x p" using assms(1) by (auto simp: capped_def)
    have "bf_rat b \<noteq> None" using assms(5,6) by (auto simp: CalcCreditsFromBillable_def res_simps)
    with bf assms(2,3) show ?thesis
      by (cases x) (auto simp: raw_billable_def raw_fee_def bf_rat_def intro!: round_prec_nonneg)
  next
    case False
    then have "b = bf_set_int mx" "f = mx" using assms(1) by (auto simp: capped_def)
    with assms(4) show ?thesis by (auto simp: bf_set_int_def bf_rat_def intro!: exI [of _ "of_int mx"])
  qed
  then obtain y where y: "0 \<le> y" "f = rat_quo y" "bf_rat b = Some y" by blast
  have "0 \<le> rat_quo (y * rate)" using y(1) assms(6) by (intro rat_quo_nonneg) simp
  with assms(5) y have "c = max 1 (rat_quo (y * rate))"
    by (auto simp: CalcCreditsFromBillable_def Let_def res_simps max_def)
  with y show ?thesis by blast
qed

lemma rat_quo_unit_rate:
  assumes "0 \<le> y" "0 < n"
  shows "rat_quo (y * (1 / of_nat n)) = rat_quo (of_int (rat_quo y) * (1 / of_nat n))"
proof -
  have k: "k \<le> \<lfloor>y / of_nat n\<rfloor> \<longleftrightarrow> k \<le> \<lfloor>of_int \<lfloor>y\<rfloor> / (of_nat n :: rat)\<rfloor>" for k
  proof -
    have n: "(0 :: rat) < of_nat n" using assms(2) by simp
    have "k \<le> \<lfloor>y / of_nat n\<rfloor> \<longleftrightarrow> of_int (k * int n) \<le> y"
      using n by (simp add: le_floor_iff pos_le_divide_eq)
    also have "\<dots> \<longleftrightarrow> k * int n \<le> \<lfloor>y\<rfloor>" by (simp only: le_floor_iff)
    also have "\<dots> \<longleftrightarrow> of_int (k * int n) \<le> (of_int \<lfloor>y\<rfloor> :: rat)" by (simp only: of_int_le_iff)
    also have "\<dots> \<longleftrightarrow> k \<le> \<lfloor>of_int \<lfloor>y\<rfloor> / (of_nat n :: rat)\<rfloor>"
      using n by (simp add: le_floor_iff pos_le_divide_eq)
    finally show ?thesis .
  qed
  then have "\<lfloor>y / of_nat n\<rfloor> = \<lfloor>of_int \<lfloor>y\<rfloor> / (of_nat n :: rat)\<rfloor>" by (meson order.antisym order.refl)
  moreover have "0 \<le> y / of_nat n" "0 \<le> of_int \<lfloor>y\<rfloor> / (of_nat n :: rat)" using assms by simp_all
  ultimately show ?thesis using assms(1) by (simp add: rat_quo_floor)
qed

lemma enforce_ok:
  assumes "enforceAdmissionMinTaskFee cfg (Some pj) (Some asked) minFee (crynux_fee cfg inp) = Inr (q, f)"
    "ParseMinPriorityGwei cfg = Inr lo" "ParseMaxPriorityGwei cfg = Inr hi" "hi < 2 ^ 64"
    "ParsePositiveDecimalRate (lc_credits_per_gwei cfg) = Inr rate" "lo \<le> asked" "asked \<le> hi"
  shows "\<exists>budget. pr_auto_max_credits_per_task pj = Some budget \<and> crynux_fee cfg inp q = Inr f \<and>
    credits_for rate f \<le> budget \<and> minFee \<le> f \<and> priced (cfg, inp) q hi \<and> q \<le> hi \<and>
    (cost_level_mode pj \<noteq> CostLevelModeAuto \<longrightarrow> q = asked)"
proof -
  have lo: "0 < lo" using assms(2) by (rule parsePositiveDecimalGwei_pos)
  have minFee: "0 \<le> minFee" using assms(1) by (auto simp: enforceAdmissionMinTaskFee_def res_simps Let_def)
  have budget: "\<exists>budget. pr_auto_max_credits_per_task pj = Some budget \<and> 0 < budget"
    using assms(1)
    by (auto simp: enforceAdmissionMinTaskFee_def CapPriorityByAutoMaxCredits_def MaxPriorityWithinAutoMaxCredits_def
        rejectIfStaticCreditsExceedMax_def requireAutoMaxCreditsPerTask_def res_simps Let_def
        split: if_splits option.splits)
  then obtain budget where b: "pr_auto_max_credits_per_task pj = Some budget" "0 < budget" by blast
  have pr: "priced (cfg, inp) p hi" if "crynux_fee cfg inp p = Inr f'" "0 < p" for p f'
    using that assms(4) by (auto simp: priced_def crynux_fee_def res_simps)
  show ?thesis
  proof (cases "cost_level_mode pj = CostLevelModeAuto")
    case True
    then have "\<exists>f'. crynux_fee cfg inp lo = Inr f'"
      using assms(1,2,3,5)
      by (auto simp: enforceAdmissionMinTaskFee_def CapPriorityByAutoMaxCredits_def
          MaxPriorityWithinAutoMaxCredits_def creditsForPriority_def res_simps Let_def)
    then obtain f' where "crynux_fee cfg inp lo = Inr f'" ..
    then have p: "priced (cfg, inp) lo hi" using lo by (rule pr)
    from crynux.admission_auto [OF p assms(2,3,5) True b assms(6,7) minFee] assms(1)
    have q: "lo \<le> q" "q \<le> hi" "f = crynux.fee_of (cfg, inp) q" "credits_for rate f \<le> budget" "minFee \<le> f"
      by (auto split: if_splits)
    then have "crynux_fee cfg inp q = Inr f" using crynux.fee_eq [OF p q(1,2)] by simp
    with q b pr [of q f] lo True show ?thesis by auto
  next
    case False
    then have "\<exists>f'. crynux_fee cfg inp asked = Inr f'"
      using assms(1) by (auto simp: enforceAdmissionMinTaskFee_def res_simps Let_def)
    then obtain f' where f': "crynux_fee cfg inp asked = Inr f'" ..
    then have p: "priced (cfg, inp) asked hi" using lo assms(6) by (intro pr) auto
    from crynux.admission_static [OF p assms(5) False b _ order.refl assms(7) minFee] assms(1) lo assms(6)
    have "q = asked" "f = crynux.fee_of (cfg, inp) q" "credits_for rate f \<le> budget" "minFee \<le> f"
      by (auto split: if_splits)
    with b p assms(7) crynux.fee_eq [OF p order.refl assms(7)] show ?thesis by auto
  qed
qed

text \<open>Whatever an LLM estimate admits, with bounds below \<open>2 ^ 64\<close>: the task fee is at
  least the minimum scaled to the requested tokens and at most the configured maximum; the
  Credits of the whole-Gwei fee are within the project's maximum; and the Credits that will
  be locked are within it too when a Credit is worth a whole number of Gwei.\<close>

theorem llm_estimate_bounds:
  assumes "EstimateLLMTaskFeeWithQuery cfg cache coef (Some pj) vram (Some asked) prompt completion = Inr r"
    "ParseMinPriorityGwei cfg = Inr lo" "ParseMaxPriorityGwei cfg = Inr hi" "hi < 2 ^ 64"
    "lo \<le> asked" "asked \<le> hi"
  shows "\<exists>budget rate base mx. pr_auto_max_credits_per_task pj = Some budget \<and>
    ParsePositiveDecimalRate (lc_credits_per_gwei cfg) = Inr rate \<and>
    MinTaskFeeGwei cfg MaxTaskPriceProviderCrynux = Inr base \<and> MaxTaskFeeGwei cfg MaxTaskPriceProviderCrynux = Inr mx \<and>
    go_quo (base * uint completion) (uint (lc_default_max_tokens cfg)) \<le> tf_task_fee_gwei r \<and>
    tf_task_fee_gwei r \<le> mx \<and> credits_for rate (tf_task_fee_gwei r) \<le> budget \<and> 1 \<le> tf_credits r \<and>
    (\<forall>n. 0 < n \<and> rate = 1 / of_nat n \<longrightarrow> tf_credits r \<le> budget) \<and>
    (cost_level_mode pj \<noteq> CostLevelModeAuto \<longrightarrow> tf_priority_gwei r = asked)"
proof -
  obtain rate c base minFee q f billable where
    rate: "ParsePositiveDecimalRate (lc_credits_per_gwei cfg) = Inr rate" and c: "coef = Inr c"
    and base: "MinTaskFeeGwei cfg MaxTaskPriceProviderCrynux = Inr base"
    and minFee: "scaleAdmissionMinTaskFee base completion (lc_default_max_tokens cfg) = Inr minFee"
    and en: "enforceAdmissionMinTaskFee cfg (Some pj) (Some asked) minFee
      (crynux_fee cfg \<lparr>cb_priority_gwei = None, cb_effective_vram = vram, cb_base_vram = lc_base_vram cfg,
        cb_coefficients = c, cb_prompt_tokens = prompt, cb_completion_tokens = completion\<rparr>) = Inr (q, f)"
    and bl: "CalcBillableGwei cfg \<lparr>cb_priority_gwei = Some q, cb_effective_vram = vram, cb_base_vram = lc_base_vram cfg,
        cb_coefficients = c, cb_prompt_tokens = prompt, cb_completion_tokens = completion\<rparr> = Inr billable"
    and cr: "CalcCreditsFromBillable (cbr_billable_gwei billable) rate = Inr (tf_credits r)"
    and r: "tf_priority_gwei r = q" "tf_task_fee_gwei r = cbr_task_fee_gwei billable"
    using assms(1) by (auto simp: EstimateLLMTaskFeeWithQuery_def Let_def res_simps)
  define inp where "inp = \<lparr>cb_priority_gwei = None, cb_effective_vram = vram, cb_base_vram = lc_base_vram cfg,
        cb_coefficients = c, cb_prompt_tokens = prompt, cb_completion_tokens = completion\<rparr>"
  have bl': "CalcBillableGwei cfg (inp\<lparr>cb_priority_gwei := Some q\<rparr>) = Inr billable" using bl by (simp add: inp_def)
  obtain budget where budget: "pr_auto_max_credits_per_task pj = Some budget"
    and fq: "crynux_fee cfg inp q = Inr f" and fb: "credits_for rate f \<le> budget" "minFee \<le> f"
    and p: "priced (cfg, inp) q hi" "q \<le> hi" and st: "cost_level_mode pj \<noteq> CostLevelModeAuto \<longrightarrow> q = asked"
    using enforce_ok [OF en [folded inp_def] assms(2-4) rate assms(5,6)] by blast
  have f: "f = cbr_task_fee_gwei billable" using fq bl' by (simp add: crynux_fee_def)
  have rp: "0 < rate" using rate by (rule ParsePositiveDecimalRate_pos)
  obtain x s w mx where mx: "MaxTaskFeeGwei cfg MaxTaskPriceProviderCrynux = Inr mx"
    and x: "\<forall>b. x = Fin b \<longrightarrow> 0 \<le> b"
    and eq: "\<forall>p. q \<le> p \<longrightarrow> p \<le> hi \<longrightarrow> CalcBillableGwei cfg (inp\<lparr>cb_priority_gwei := Some p\<rparr>) =
       Inr \<lparr>cbr_billable_gwei = fst (capped mx (raw_billable x p) (raw_fee x p)),
            cbr_task_fee_gwei = snd (capped mx (raw_billable x p) (raw_fee x p)),
            cbr_estimated_node_seconds = s, cbr_vram_weight = w\<rparr>"
    using priced_eq [OF p(1)] by blast
  have bl2: "billable = \<lparr>cbr_billable_gwei = fst (capped mx (raw_billable x q) (raw_fee x q)),
            cbr_task_fee_gwei = snd (capped mx (raw_billable x q) (raw_fee x q)),
            cbr_estimated_node_seconds = s, cbr_vram_weight = w\<rparr>"
    using eq [rule_format, OF order.refl p(2)] bl' by simp
  have "0 < q" using p(1) by (simp add: priced_def)
  have cap: "capped mx (raw_billable x q) (raw_fee x q) = (cbr_billable_gwei billable, f)"
    using bl2 f by simp
  have "\<exists>y. 0 \<le> y \<and> f = rat_quo y \<and> tf_credits r = max 1 (rat_quo (y * rate))"
    by (rule credits_of_billable [OF cap _ x MaxTaskFeeGwei_pos [OF mx] cr rp]) (use \<open>0 < q\<close> in simp)
  then obtain y where y: "0 \<le> y" "f = rat_quo y" "tf_credits r = max 1 (rat_quo (y * rate))" by blast
  have unit: "tf_credits r \<le> budget" if "0 < n" "rate = 1 / of_nat n" for n
    using fb(1) rat_quo_unit_rate [OF y(1) that(1)] that(2) y(2,3) by (simp add: credits_for_def)
  have "f \<le> mx" using cap by (auto simp: capped_def split: if_splits)
  have mf: "go_quo (base * uint completion) (uint (lc_default_max_tokens cfg)) = minFee"
    using minFee by (simp add: scaleAdmissionMinTaskFee_def res_simps)
  have tf: "tf_task_fee_gwei r = f" using r(2) f by simp
  have pos: "1 \<le> tf_credits r" using y(3) by simp
  show ?thesis
    unfolding tf r(1)
    by (intro exI [of _ budget] exI [of _ rate] exI [of _ base] exI [of _ mx] conjI budget rate base mx fb(1) pos
          \<open>f \<le> mx\<close> st, simp add: mf fb(2), use unit in blast)
qed

definition affordable_llm_config :: llm_config where
  "affordable_llm_config = sample_llm_config\<lparr>lc_min_task_price_cnx := [(''crynux'', ''0''), (''providers'', ''0'')]\<rparr>"

definition sample_coefficients :: execution_coefficients where
  "sample_coefficients = \<lparr>ec_constant_seconds = Fin 2, ec_seconds_per_input_token = Fin 0,
     ec_seconds_per_output_token = Fin (1 / 4)\<rparr>"

lemma affordable_llm_config_prices:
  "ParseMinPriorityGwei affordable_llm_config = Inr 1" "ParseMaxPriorityGwei affordable_llm_config = Inr 1000"
  "ParsePositiveDecimalRate (lc_credits_per_gwei affordable_llm_config) = Inr (1 / 1000)"
  "MaxTaskFeeGwei affordable_llm_config MaxTaskPriceProviderCrynux = Inr 10000000"
  "MinTaskFeeGwei affordable_llm_config MaxTaskPriceProviderCrynux = Inr 0"
  "lc_base_vram affordable_llm_config = 24" "lc_default_max_tokens affordable_llm_config = 2048"
proof -
  show "ParseMinPriorityGwei affordable_llm_config = Inr 1" "ParseMaxPriorityGwei affordable_llm_config = Inr 1000"
    "lc_base_vram affordable_llm_config = 24" "lc_default_max_tokens affordable_llm_config = 2048"
    by (simp_all add: affordable_llm_config_def sample_llm_config_def decimal_eval)
  show "ParsePositiveDecimalRate (lc_credits_per_gwei affordable_llm_config) = Inr (1 / 1000)"
    using sample_llm_config_bounds(3) by (simp add: affordable_llm_config_def)
  show "MaxTaskFeeGwei affordable_llm_config MaxTaskPriceProviderCrynux = Inr 10000000" by code_simp
  show "MinTaskFeeGwei affordable_llm_config MaxTaskPriceProviderCrynux = Inr 0" by code_simp
qed

text \<open>A workload that takes \<open>k\<close> seconds whatever the tokens, on a base of 24 GB.\<close>

definition constant_coefficients :: "rat \<Rightarrow> execution_coefficients" where
  "constant_coefficients k = \<lparr>ec_constant_seconds = Fin k, ec_seconds_per_input_token = Fin 0,
     ec_seconds_per_output_token = Fin 0\<rparr>"

definition constant_workload :: "rat \<Rightarrow> u64 \<Rightarrow> u64 \<Rightarrow> calc_billable_input" where
  "constant_workload k prompt completion = \<lparr>cb_priority_gwei = None, cb_effective_vram = 24, cb_base_vram = 24,
     cb_coefficients = constant_coefficients k, cb_prompt_tokens = prompt, cb_completion_tokens = completion\<rparr>"

lemma constant_workload_billable:
  assumes "0 < p" "p < 2 ^ 64" "0 \<le> k" "f64_of_rat k = Fin k" "round_prec 64 (of_int p * k) = of_int p * k"
    "MaxTaskFeeGwei cfg MaxTaskPriceProviderCrynux = Inr mx" "rat_quo (of_int p * k) \<le> mx"
    "uint prompt < 2 ^ 53" "uint completion < 2 ^ 53"
  shows "CalcBillableGwei cfg ((constant_workload k prompt completion)\<lparr>cb_priority_gwei := Some p\<rparr>) =
    Inr \<lparr>cbr_billable_gwei = BFin 64 (of_int p * k), cbr_task_fee_gwei = rat_quo (of_int p * k),
         cbr_estimated_node_seconds = Fin k, cbr_vram_weight = Fin 1\<rparr>"
proof -
  have z: "f64_of_rat 0 = Fin 0" and o: "f64_of_rat 1 = Fin 1"
    using f64_of_rat_int [of 0] f64_of_rat_int [of 1] by simp_all
  have sec: "node_seconds (constant_coefficients k) prompt completion = Fin k"
    using assms(4,8,9) z by (simp add: node_seconds_def constant_coefficients_def f64_of_u64_exact)
  have w: "vram_weight_of 24 24 = Fin 1"
    by (simp add: vram_weight_of_def f64_div_u64_def f64_of_u64_exact o)
  have v: "validateExecutionTimeCoefficients (constant_coefficients k) = Inr ()"
    using assms(3) by (simp add: validateExecutionTimeCoefficients_def constant_coefficients_def bad_coefficient_def
        f64_is_nan_or_inf_def f64_neg_def)
  have "billableFromParts p (Fin k) (Fin 1) = Inr (BFin 64 (of_int p * k), rat_quo (of_int p * k))"
    using billableFromParts_eq [of p "Fin k" "Fin 1"] assms(1-5)
    by (simp add: raw_billable_def raw_fee_def f64_is_nan_or_inf_def f64_neg_def f64_nonpos_def)
  with assms(1,6,7) sec w v show ?thesis
    by (simp add: CalcBillableGwei_def applyMaxTaskFeeCap_def constant_workload_def Let_def)
qed

lemma constant_workload_at:
  "\<lparr>cb_priority_gwei = Some p, cb_effective_vram = 24, cb_base_vram = 24, cb_coefficients = constant_coefficients k,
     cb_prompt_tokens = prompt, cb_completion_tokens = completion\<rparr> =
   (constant_workload k prompt completion)\<lparr>cb_priority_gwei := Some p\<rparr>"
  by (simp add: constant_workload_def)

lemma constant_workload_input:
  "\<lparr>cb_priority_gwei = None, cb_effective_vram = 24, cb_base_vram = 24, cb_coefficients = constant_coefficients k,
     cb_prompt_tokens = prompt, cb_completion_tokens = completion\<rparr> = constant_workload k prompt completion"
  by (simp add: constant_workload_def)

lemma constant_workload_valid: "0 \<le> k \<Longrightarrow> validateExecutionTimeCoefficients (constant_coefficients k) = Inr ()"
  by (simp add: validateExecutionTimeCoefficients_def constant_coefficients_def bad_coefficient_def
        f64_is_nan_or_inf_def f64_neg_def)

text \<open>A static project at 400 Gwei with a task of 6 seconds.\<close>

lemma static_estimate:
  "\<exists>r. EstimateLLMTaskFeeWithQuery affordable_llm_config empty_queued_priority_cache (Inr (constant_coefficients 6))
     (Some static_project) 24 (Some 400) 7 2048 = Inr r \<and>
     tf_priority_gwei r = 400 \<and> tf_task_fee_gwei r = 2400 \<and> tf_credits r = 2"
proof -
  have bl: "CalcBillableGwei affordable_llm_config ((constant_workload 6 7 2048)\<lparr>cb_priority_gwei := Some 400\<rparr>) =
    Inr \<lparr>cbr_billable_gwei = BFin 64 2400, cbr_task_fee_gwei = 2400,
         cbr_estimated_node_seconds = Fin 6, cbr_vram_weight = Fin 1\<rparr>"
    using constant_workload_billable [of 400 6 affordable_llm_config 10000000 7 2048]
      affordable_llm_config_prices(4) round_prec_int [of 2400 64] rat_quo_of_int [of 2400]
    by (simp add: f64_of_rat_numeral)
  have fee: "crynux_fee affordable_llm_config (constant_workload 6 7 2048) 400 = Inr 2400"
    using bl by (simp add: crynux_fee_def)
  have c: "CalcCreditsFromBillable (bf_set_int 2400) (1 / 1000) = Inr 2"
    "CalcCreditsFromBillable (BFin 64 2400) (1 / 1000) = Inr 2" by code_simp+
  have "enforceAdmissionMinTaskFee affordable_llm_config (Some static_project) (Some 400) 0
      (crynux_fee affordable_llm_config (constant_workload 6 7 2048)) = Inr (400, 2400)"
    using fee c(1) affordable_llm_config_prices(3)
    by (simp add: enforceAdmissionMinTaskFee_def static_project_def auto_project_def cost_level_mode_def
        rejectIfStaticCreditsExceedMax_def requireAutoMaxCreditsPerTask_def max_credits_of_def)
  moreover have "scaleAdmissionMinTaskFee 0 2048 2048 = Inr 0"
    by (simp add: scaleAdmissionMinTaskFee_def go_quo_def)
  moreover have "ResolveQueueMedianHint affordable_llm_config empty_queued_priority_cache = Inr 10"
    by (simp add: ResolveQueueMedianHint_def ResolveMedianPriorityGwei_def empty_queued_priority_cache_def
        affordable_llm_config_def sample_llm_config_def decimal_eval)
  ultimately show ?thesis
    using bl c(2) affordable_llm_config_prices
    by (simp add: EstimateLLMTaskFeeWithQuery_def constant_workload_input constant_workload_at constant_workload_valid Let_def)
qed

theorem llm_estimate_bounds_witness:
  "\<exists>r budget rate base mx. EstimateLLMTaskFeeWithQuery affordable_llm_config empty_queued_priority_cache
     (Inr (constant_coefficients 6)) (Some static_project) 24 (Some 400) 7 2048 = Inr r \<and>
    pr_auto_max_credits_per_task static_project = Some budget \<and>
    ParsePositiveDecimalRate (lc_credits_per_gwei affordable_llm_config) = Inr rate \<and>
    MinTaskFeeGwei affordable_llm_config MaxTaskPriceProviderCrynux = Inr base \<and>
    MaxTaskFeeGwei affordable_llm_config MaxTaskPriceProviderCrynux = Inr mx \<and>
    go_quo (base * uint (2048 :: u64)) (uint (lc_default_max_tokens affordable_llm_config)) \<le> tf_task_fee_gwei r \<and>
    tf_task_fee_gwei r \<le> mx \<and> credits_for rate (tf_task_fee_gwei r) \<le> budget \<and> 1 \<le> tf_credits r"
proof -
  obtain r where r: "EstimateLLMTaskFeeWithQuery affordable_llm_config empty_queued_priority_cache
     (Inr (constant_coefficients 6)) (Some static_project) 24 (Some 400) 7 2048 = Inr r"
    using static_estimate by blast
  have "(1000 :: int) < 2 ^ 64" "(1 :: int) \<le> 400" "(400 :: int) \<le> 1000" by simp_all
  from llm_estimate_bounds [OF r affordable_llm_config_prices(1,2) this] r show ?thesis by blast
qed

text \<open>
  Without that condition on the rate the maximum is not kept: the cap is searched with the
  whole-Gwei fee, the Credits to lock are computed from the exact one. At two Credits per
  Gwei a task of 1.5 Gwei passes a maximum of 2 Credits and locks 3.
\<close>

definition two_credits_config :: llm_config where
  "two_credits_config = affordable_llm_config\<lparr>lc_credits_per_gwei := ''2'', lc_max_priority_gwei := ''1''\<rparr>"

definition two_credits_project :: project where
  "two_credits_project = auto_project\<lparr>pr_auto_max_credits_per_task := Some 2\<rparr>"

text \<open>C40. The maximum of Credits per task can be exceeded: a configuration, an automatic project
  with a maximum of 2 Credits and a workload whose estimate is admitted with 3 Credits.\<close>

theorem auto_maximum_exceeded:
  "\<exists>r. EstimateLLMTaskFeeWithQuery two_credits_config empty_queued_priority_cache
     (Inr (constant_coefficients (3 / 2))) (Some two_credits_project) 24 (Some 1) 7 2048 = Inr r \<and>
     cost_level_mode two_credits_project = CostLevelModeAuto \<and>
     pr_auto_max_credits_per_task two_credits_project = Some 2 \<and> tf_credits r = 3"
proof -
  have cfg: "ParseMinPriorityGwei two_credits_config = Inr 1" "ParseMaxPriorityGwei two_credits_config = Inr 1"
    "lc_base_vram two_credits_config = 24" "lc_default_max_tokens two_credits_config = 2048"
    by (simp_all add: two_credits_config_def affordable_llm_config_def sample_llm_config_def decimal_eval)
  have rate: "ParsePositiveDecimalRate (lc_credits_per_gwei two_credits_config) = Inr 2"
    "MaxTaskFeeGwei two_credits_config MaxTaskPriceProviderCrynux = Inr 10000000"
    "MinTaskFeeGwei two_credits_config MaxTaskPriceProviderCrynux = Inr 0"
    by code_simp+
  have "f64_of_rat (3 / 2) = Fin (3 / 2)" "round_prec 64 (3 / 2) = 3 / 2"
    using f64_of_rat_exact [of 3 "- 1"] round_prec_exact [of 3 64 "- 1"] by (simp_all add: pow2_def)
  moreover have q: "rat_quo (3 / 2) = 1" by code_simp
  ultimately have bl: "CalcBillableGwei two_credits_config ((constant_workload (3 / 2) 7 2048)\<lparr>cb_priority_gwei := Some 1\<rparr>) =
    Inr \<lparr>cbr_billable_gwei = BFin 64 (3 / 2), cbr_task_fee_gwei = 1,
         cbr_estimated_node_seconds = Fin (3 / 2), cbr_vram_weight = Fin 1\<rparr>"
    using constant_workload_billable [of 1 "3 / 2" two_credits_config 10000000 7 2048] rate(2) by simp
  have fee: "crynux_fee two_credits_config (constant_workload (3 / 2) 7 2048) 1 = Inr 1"
    using bl by (simp add: crynux_fee_def)
  have c: "CalcCreditsFromBillable (bf_set_int 1) 2 = Inr 2" "CalcCreditsFromBillable (BFin 64 (3 / 2)) 2 = Inr 3"
    by code_simp+
  have pj: "cost_level_mode two_credits_project = CostLevelModeAuto" "pr_auto_max_credits_per_task two_credits_project = Some 2"
    by (simp_all add: two_credits_project_def auto_project_def cost_level_mode_def)
  have "enforceAdmissionMinTaskFee two_credits_config (Some two_credits_project) (Some 1) 0
      (crynux_fee two_credits_config (constant_workload (3 / 2) 7 2048)) = Inr (1, 1)"
    using fee c(1) cfg rate pj
    by (simp add: enforceAdmissionMinTaskFee_def CapPriorityByAutoMaxCredits_def MaxPriorityWithinAutoMaxCredits_def
        requireAutoMaxCreditsPerTask_def max_credits_of_def creditsForPriority_def highest_within.simps)
  moreover have "scaleAdmissionMinTaskFee 0 2048 2048 = Inr 0"
    by (simp add: scaleAdmissionMinTaskFee_def go_quo_def)
  moreover have "ResolveQueueMedianHint two_credits_config empty_queued_priority_cache = Inr 10"
    by (simp add: ResolveQueueMedianHint_def ResolveMedianPriorityGwei_def empty_queued_priority_cache_def
        two_credits_config_def affordable_llm_config_def sample_llm_config_def decimal_eval)
  ultimately show ?thesis
    using bl c(2) cfg rate pj
    by (simp add: EstimateLLMTaskFeeWithQuery_def constant_workload_input constant_workload_at constant_workload_valid Let_def)
qed

end
