(* ===== verification/Task_Price.thy ===== *)
theory Task_Price
  imports Task_Fee
begin

text \<open>
  The price of a finished language-model task against the Credits held for it: both are
  computed by the same floating-point operations, from the tokens reported and from the tokens
  estimated. They are monotone, so fewer tokens never cost more.
\<close>

subsection \<open>Arithmetic on float64 keeps the order\<close>

lemma f64_of_rat_mono:
  assumes "0 \<le> x" "x \<le> y" "f64_of_rat y = Fin b"
  shows "\<exists>a. f64_of_rat x = Fin a \<and> 0 \<le> a \<and> a \<le> b"
proof (cases "x = 0")
  case True
  then show ?thesis using f64_of_rat_nonneg [of y] assms by (auto simp: f64_of_rat_def)
next
  case False
  with assms have x: "0 < x" and y: "0 < y" by auto
  define ex where "ex = max (floor_log2 x - 52) (- 1074)"
  define ey where "ey = max (floor_log2 y - 52) (- 1074)"
  have fx: "f64_of_rat x = (if 2 ^ 1024 \<le> round_at ex x then PosInf
      else if round_at ex x \<le> - (2 ^ 1024) then NegInf else Fin (round_at ex x))"
    using x by (simp add: f64_of_rat_def Let_def ex_def)
  have fy: "b = round_at ey y" "round_at ey y < 2 ^ 1024"
    using y assms(3) by (auto simp: f64_of_rat_def Let_def ey_def split: if_splits)
  have le: "round_at ex x \<le> round_at ey y"
  proof (cases "ex = ey")
    case True
    with assms(2) show ?thesis by (simp add: round_at_mono)
  next
    case False
    with floor_log2_mono [OF x assms(2)] have lt: "ex < ey" by (auto simp: ex_def ey_def max_def split: if_splits)
    then have ey: "ey = floor_log2 y - 52" by (auto simp: ex_def ey_def max_def split: if_splits)
    have "floor_log2 x < floor_log2 y" using lt ey by (simp add: ex_def)
    then have "pow2 (floor_log2 x + 1) \<le> pow2 (floor_log2 y)" by (intro pow2_mono) simp
    then have "x \<le> pow2 (floor_log2 y)" using floor_log2_bounds [OF x] by linarith
    then have "round_at ex x \<le> round_at ex (pow2 (floor_log2 y))" by (rule round_at_mono)
    also have "\<dots> = pow2 (floor_log2 y)"
      using round_at_representable [of ex "floor_log2 y" 1] lt ey by simp
    also have "\<dots> \<le> round_prec 53 y" by (rule round_prec_binade(1) [OF y]) simp
    also have "\<dots> = round_at ey y" using y by (simp add: round_prec_def ey)
    finally show ?thesis .
  qed
  have nn: "0 \<le> round_at ex x" using x by (intro round_at_nonneg) simp
  then have "\<not> round_at ex x \<le> - (2 ^ 1024)" using zero_less_power [of "2 :: rat" 1024] by linarith
  with fx fy le nn show ?thesis by auto
qed

lemma f64_add_mono:
  assumes "f64_add (Fin x) (Fin y) = Fin b" "0 \<le> x'" "x' \<le> x" "0 \<le> y'" "y' \<le> y"
  shows "\<exists>a. f64_add (Fin x') (Fin y') = Fin a \<and> 0 \<le> a \<and> a \<le> b"
  using f64_of_rat_mono [of "x' + y'" "x + y" b] assms by simp

lemma f64_mul_mono:
  assumes "f64_mul (Fin x) (Fin y) = Fin b" "0 \<le> x'" "x' \<le> x" "0 \<le> y'" "y' \<le> y"
  shows "\<exists>a. f64_mul (Fin x') (Fin y') = Fin a \<and> 0 \<le> a \<and> a \<le> b"
  using f64_of_rat_mono [of "x' * y'" "x * y" b] assms by (simp add: mult_mono)

lemma f64_add_Fin: "f64_add x y = Fin b \<Longrightarrow> \<exists>u v. x = Fin u \<and> y = Fin v"
  by (cases x; cases y) simp_all

lemma f64_of_u64_nonneg: "f64_of_u64 n = Fin v \<Longrightarrow> 0 \<le> v"
  using f64_of_rat_nonneg [of "of_int (uint n)"] by (simp add: f64_of_u64_def del: of_int_uint)

lemma f64_of_u64_mono:
  "f64_of_u64 n = Fin v \<Longrightarrow> m \<le> n \<Longrightarrow> \<exists>u. f64_of_u64 m = Fin u \<and> 0 \<le> u \<and> u \<le> v"
  unfolding f64_of_u64_def by (rule f64_of_rat_mono) (simp_all add: word_le_def del: of_int_uint)

lemma f64_of_u64_Fin: "\<exists>v. f64_of_u64 n = Fin v"
proof -
  have big: "f64_of_rat (2 ^ 64) = Fin (2 ^ 64)"
    using f64_of_rat_exact [of 1 64] by (simp add: pow2_def)
  have "of_int (uint n) \<le> (of_int (2 ^ 64) :: rat)"
    using uint_lt2p [of n] by (simp only: of_int_le_iff) simp
  then show ?thesis
    using f64_of_rat_mono [OF _ _ big, of "of_int (uint n)"] by (auto simp: f64_of_u64_def simp del: of_int_uint)
qed

lemma f64_token_term_mono:
  assumes "f64_mul (Fin k) (f64_of_u64 n) = Fin b" "0 \<le> k" "m \<le> n"
  shows "\<exists>a. f64_mul (Fin k) (f64_of_u64 m) = Fin a \<and> 0 \<le> a \<and> a \<le> b"
proof -
  obtain v where v: "f64_of_u64 n = Fin v" using f64_of_u64_Fin by blast
  with f64_of_u64_mono [OF v assms(3)] assms(1,2) show ?thesis
    using f64_mul_mono [of k v b k] by auto
qed

lemma node_seconds_mono:
  assumes c: "validateExecutionTimeCoefficients c = Inr ()" and s: "node_seconds c p q = Fin s"
    and le: "p' \<le> p" "q' \<le> q"
  shows "\<exists>s'. node_seconds c p' q' = Fin s' \<and> 0 \<le> s' \<and> s' \<le> s"
proof -
  obtain k i out where k: "ec_constant_seconds c = Fin k" "0 \<le> k" "ec_seconds_per_input_token c = Fin i" "0 \<le> i"
    "ec_seconds_per_output_token c = Fin out" "0 \<le> out"
    using c
    by (cases "ec_constant_seconds c"; cases "ec_seconds_per_input_token c"; cases "ec_seconds_per_output_token c")
       (auto simp: validateExecutionTimeCoefficients_def bad_coefficient_def f64_is_nan_or_inf_def f64_neg_def res_simps)
  obtain a b where ab: "f64_add (Fin k) (f64_mul (Fin i) (f64_of_u64 p)) = Fin a"
    "f64_mul (Fin out) (f64_of_u64 q) = Fin b" "f64_add (Fin a) (Fin b) = Fin s"
    using f64_add_Fin [OF s [unfolded node_seconds_def]] s k by (auto simp: node_seconds_def)
  obtain t where t: "f64_mul (Fin i) (f64_of_u64 p) = Fin t"
    using f64_add_Fin [OF ab(1)] by blast
  obtain t' where t': "f64_mul (Fin i) (f64_of_u64 p') = Fin t'" "0 \<le> t'" "t' \<le> t"
    using f64_token_term_mono [OF t k(4) le(1)] by blast
  obtain a' where a': "f64_add (Fin k) (Fin t') = Fin a'" "0 \<le> a'" "a' \<le> a"
    using f64_add_mono [of k t a k t'] ab(1) t t' k(2) by auto
  obtain b' where b': "f64_mul (Fin out) (f64_of_u64 q') = Fin b'" "0 \<le> b'" "b' \<le> b"
    using f64_token_term_mono [OF ab(2) k(6) le(2)] by blast
  show ?thesis
    using f64_add_mono [OF ab(3) a'(2,3) b'(2,3)] t'(1) a'(1) b'(1) k by (simp add: node_seconds_def)
qed

subsection \<open>Settlement within the lock\<close>

text \<open>The price of a call, computed from the same parts as the estimate.\<close>

lemma CalcCredits_parts:
  assumes "0 < priority" "priority < 2 ^ 64" "ParsePositiveDecimalRate str = Inr rate"
    "validateExecutionTimeCoefficients c = Inr ()" "node_seconds c p q = Fin s" "0 \<le> s"
    "\<not> f64_is_nan_or_inf w" "\<not> f64_nonpos w" "MaxTaskFeeGwei cfg MaxTaskPriceProviderCrynux = Inr mx"
  shows "CalcCredits cfg p q priority w c str =
    CalcCreditsFromBillable (fst (capped mx (raw_billable (f64_mul (Fin s) w) priority)
        (raw_fee (f64_mul (Fin s) w) priority))) rate"
  using assms billableFromParts_eq [OF assms(1,2), of "Fin s" w]
  by (simp add: CalcCredits_def applyMaxTaskFeeCap_def capped_def f64_is_nan_or_inf_def f64_neg_def)

lemma rat_quo_mono_max: "0 \<le> a \<Longrightarrow> a \<le> b \<Longrightarrow> max 1 (rat_quo a) \<le> max 1 (rat_quo b)"
  using rat_quo_mono [of a b] by (simp add: max_def)

lemma CalcCreditsFromBillable_eq:
  "bf_rat b = Some y \<Longrightarrow> 0 \<le> y \<Longrightarrow> 0 < rate \<Longrightarrow> CalcCreditsFromBillable b rate = Inr (max 1 (rat_quo (y * rate)))"
  using rat_quo_nonneg [of "y * rate"]
  by (cases b) (auto simp: CalcCreditsFromBillable_def bf_rat_def bf_neg_def Let_def max_def rejectIf_def not_less
      mult_less_0_iff)

text \<open>C36. The price of a finished call stays within the Credits held for it: with the Cost
  Level, weight, coefficients and rate stored at admission, reported tokens that do not exceed
  the estimated ones always have a price, reporting exactly the estimate costs exactly the
  Credits that were held, and fewer tokens cost no more, as long as the estimate was below the
  configured maximum fee or a Credit is worth a whole number of Gwei.\<close>

theorem llm_settlement_within_lock:
  assumes "EstimateLLMTaskFeeWithQuery cfg cache coef pj vram asked prompt completion = Inr r"
    "tf_priority_gwei r < 2 ^ 64" "MaxTaskFeeGwei cfg MaxTaskPriceProviderCrynux = Inr mx"
    "ParsePositiveDecimalRate (lc_credits_per_gwei cfg) = Inr rate" "p \<le> prompt" "q \<le> completion"
  shows "\<exists>credits. CalcCredits cfg p q (tf_priority_gwei r) (tf_vram_weight r) (tf_coefficients r)
        (lc_credits_per_gwei cfg) = Inr credits \<and>
      (p = prompt \<and> q = completion \<longrightarrow> credits = tf_credits r) \<and>
      (tf_task_fee_gwei r < mx \<or> (\<exists>n>0. rate = 1 / of_nat n) \<longrightarrow> credits \<le> tf_credits r)"
proof -
  obtain c g b where c: "coef = Inr c" "validateExecutionTimeCoefficients c = Inr ()" "tf_coefficients r = c"
    and bl: "CalcBillableGwei cfg \<lparr>cb_priority_gwei = Some g, cb_effective_vram = vram, cb_base_vram = lc_base_vram cfg,
        cb_coefficients = c, cb_prompt_tokens = prompt, cb_completion_tokens = completion\<rparr> = Inr b"
    and cr: "CalcCreditsFromBillable (cbr_billable_gwei b) rate = Inr (tf_credits r)"
    and r: "tf_priority_gwei r = g" "tf_task_fee_gwei r = cbr_task_fee_gwei b" "tf_vram_weight r = cbr_vram_weight b"
    using assms(1,4) by (auto simp: EstimateLLMTaskFeeWithQuery_def Let_def res_simps)
  define w where "w = tf_vram_weight r"
  define sec where "sec = node_seconds c prompt completion"
  obtain b0 f0 where bp: "0 < g" "billableFromParts g sec w = Inr (b0, f0)"
    "(cbr_billable_gwei b, cbr_task_fee_gwei b) = capped mx b0 f0"
    using bl assms(3) r by (auto simp: CalcBillableGwei_def res_simps Let_def sec_def w_def applyMaxTaskFeeCap_def
        capped_def split: if_splits)
  note args = billableFromParts_args [OF bp(2)]
  then obtain s v where s: "sec = Fin s" "0 \<le> s" and w: "w = Fin v" "0 < v"
    by (cases sec; cases w) (auto simp: f64_is_nan_or_inf_def f64_neg_def f64_nonpos_def)
  have g: "g < 2 ^ 64" using assms(2) r(1) by simp
  have b0: "b0 = raw_billable (f64_mul (Fin s) w) g" "f0 = raw_fee (f64_mul (Fin s) w) g"
    using billableFromParts_eq [OF bp(1) g, of sec w] args bp(2) s(1) by auto
  obtain s' where s': "node_seconds c p q = Fin s'" "0 \<le> s'" "s' \<le> s"
    using node_seconds_mono [OF c(2) s(1) [unfolded sec_def] assms(5,6)] by blast
  have rate: "0 < rate" using assms(4) by (rule ParsePositiveDecimalRate_pos)
  have mx: "0 < mx" using assms(3) by (rule MaxTaskFeeGwei_pos)
  have fin: "\<exists>x. f64_mul (Fin s) w = Fin x"
  proof (rule ccontr)
    assume "\<not> ?thesis"
    then have "f0 = 0" "b0 = BInf False" using b0 by (auto simp: raw_fee_def raw_billable_def split: f64.splits)
    with bp(3) mx cr show False by (simp add: capped_def CalcCreditsFromBillable_def bf_rat_def res_simps)
  qed
  then obtain x where x: "f64_mul (Fin s) w = Fin x" ..
  have vle: "0 \<le> v" "v \<le> v" using w(2) by simp_all
  obtain x' where x': "f64_mul (Fin s') w = Fin x'" "0 \<le> x'" "x' \<le> x"
    using f64_mul_mono [OF x [unfolded w(1)] s'(2,3) vle] w(1) by auto
  define y where "y = round_prec 64 (of_int g * x)"
  define y' where "y' = round_prec 64 (of_int g * x')"
  have y: "0 \<le> y'" "y' \<le> y" "0 \<le> y"
    using bp(1) x' unfolding y_def y'_def
    by (auto intro!: round_prec_nonneg round_prec_mono mult_left_mono)
  define z where "z = (if rat_quo y \<le> mx then y else of_int mx)"
  define z' where "z' = (if rat_quo y' \<le> mx then y' else of_int mx)"
  have z: "0 \<le> z" "0 \<le> z'" using y mx by (simp_all add: z_def z'_def)
  have rb: "bf_rat (fst (capped mx (raw_billable (Fin x) g) (raw_fee (Fin x) g))) = Some z"
    "bf_rat (fst (capped mx (raw_billable (Fin x') g) (raw_fee (Fin x') g))) = Some z'"
    by (simp_all add: capped_def raw_billable_def raw_fee_def bf_rat_def bf_set_int_def z_def z'_def y_def y'_def)
  have fst_b: "cbr_billable_gwei b = fst (capped mx b0 f0)" "cbr_task_fee_gwei b = snd (capped mx b0 f0)"
    using bp(3) by (simp_all flip: bp(3))
  have lock: "tf_credits r = max 1 (rat_quo (z * rate))"
    using cr CalcCreditsFromBillable_eq [OF rb(1) z(1) rate] b0 x fst_b(1) by simp
  have settle: "CalcCredits cfg p q g w c (lc_credits_per_gwei cfg) = Inr (max 1 (rat_quo (z' * rate)))"
    using CalcCredits_parts [OF bp(1) g assms(4) c(2) s'(1,2) _ _ assms(3), of w] args
      CalcCreditsFromBillable_eq [OF rb(2) z(2) rate] x'(1) by simp
  have same: "z' = z" if "p = prompt" "q = completion"
  proof -
    have "s' = s" using s'(1) s(1) that by (simp add: sec_def)
    with x x' show ?thesis by (simp add: z_def z'_def y_def y'_def)
  qed
  have below: "max 1 (rat_quo (z' * rate)) \<le> max 1 (rat_quo (z * rate))" if "z' \<le> z"
    using that z rate by (intro rat_quo_mono_max) (simp_all add: mult_right_mono)
  have le: "max 1 (rat_quo (z' * rate)) \<le> max 1 (rat_quo (z * rate))"
    if "tf_task_fee_gwei r < mx \<or> (\<exists>n>0. rate = 1 / of_nat n)"
  proof (cases "rat_quo y \<le> mx")
    case True
    then have "rat_quo y' \<le> mx" using rat_quo_mono [OF y(1,2)] by simp
    with True y show ?thesis by (intro below) (simp add: z_def z'_def)
  next
    case False
    then have "tf_task_fee_gwei r = mx" using fst_b(2) b0(2) x r(2) by (simp add: capped_def raw_fee_def y_def)
    with that obtain n where n: "0 < n" "rate = 1 / of_nat n" by auto
    have "rat_quo z' \<le> mx" by (simp add: z'_def)
    then have "rat_quo (of_int (rat_quo z') * (1 / of_nat n)) \<le> rat_quo (of_int mx * (1 / of_nat n))"
      using rat_quo_nonneg [OF z(2)] by (intro rat_quo_mono) (auto intro!: divide_right_mono)
    then have "rat_quo (z' * rate) \<le> rat_quo (z * rate)"
      using rat_quo_unit_rate [OF z(2) n(1)] n(2) False by (simp add: z_def)
    then show ?thesis by (simp add: max_def)
  qed
  show ?thesis
    using settle lock same le r(1) c(3) w_def by auto
qed

theorem llm_settlement_within_lock_witness:
  "\<exists>r credits. EstimateLLMTaskFeeWithQuery affordable_llm_config empty_queued_priority_cache
     (Inr (constant_coefficients 6)) (Some static_project) 24 (Some 400) 7 2048 = Inr r \<and> tf_credits r = 2 \<and>
     CalcCredits affordable_llm_config 3 4 (tf_priority_gwei r) (tf_vram_weight r) (tf_coefficients r)
        (lc_credits_per_gwei affordable_llm_config) = Inr credits \<and> credits \<le> 2"
proof -
  obtain r where r: "EstimateLLMTaskFeeWithQuery affordable_llm_config empty_queued_priority_cache
     (Inr (constant_coefficients 6)) (Some static_project) 24 (Some 400) 7 2048 = Inr r"
     "tf_priority_gwei r = 400" "tf_task_fee_gwei r = 2400" "tf_credits r = 2"
    using static_estimate by blast
  have "tf_priority_gwei r < 2 ^ 64" "(3 :: u64) \<le> 7" "(4 :: u64) \<le> 2048" using r(2) by simp_all
  from llm_settlement_within_lock [OF r(1) this(1) affordable_llm_config_prices(4,3) this(2,3)] r
  show ?thesis by auto
qed

lemma constant_credits:
  assumes "uint p < 2 ^ 53" "uint q < 2 ^ 53"
  shows "CalcCredits affordable_llm_config p q 400 (Fin 1) (constant_coefficients 6) ''0.001'' = Inr 2"
proof -
  have z: "f64_of_rat 0 = Fin 0" using f64_of_rat_int [of 0] by simp
  have sec: "node_seconds (constant_coefficients 6) p q = Fin 6"
    using assms z f64_of_rat_numeral [of "num.Bit0 (num.Bit1 num.One)"]
    by (simp add: node_seconds_def constant_coefficients_def f64_of_u64_exact)
  have rate: "ParsePositiveDecimalRate ''0.001'' = Inr (1 / 1000)" by (rule sample_llm_config_prices(3))
  have c: "CalcCreditsFromBillable (BFin 64 2400) (1 / 1000) = Inr 2" by code_simp
  have "raw_billable (Fin 6) 400 = BFin 64 2400" "raw_fee (Fin 6) 400 = 2400" "f64_mul (Fin 6) (Fin 1) = Fin 6"
    using round_prec_int [of 2400 64] rat_quo_of_int [of 2400] f64_of_rat_numeral [of "num.Bit0 (num.Bit1 num.One)"]
    by (simp_all add: raw_billable_def raw_fee_def)
  then show ?thesis
    using CalcCredits_parts [OF _ _ rate constant_workload_valid sec _ _ _ affordable_llm_config_prices(4), of 400 "Fin 1"] c
    by (simp add: capped_def f64_is_nan_or_inf_def f64_nonpos_def)
qed

end
