(* ===== verification/Provider_Billing.thy ===== *)
theory Provider_Billing
  imports Task_Fee Database
begin

text \<open>
  Tasks run with a Key Owner's service key: the catalogue of configured models
  (\<open>service/provider_catalog.go\<close>), the price of a request in provider units, its caps,
  its conversion to Credits and to the Key Owner's earning, the admission decision
  (\<open>service/provider_billing.go\<close>) and the hints derived from it
  (\<open>service/provider_cost_hints.go\<close>). The catalogue is an association list in an
  arbitrary order, as Go ranges over maps in arbitrary order. A request body is given by
  its length and its decoded JSON value; image token counts are arguments, computed in Image_Tokens.
\<close>

subsection \<open>The catalogue of models\<close>

record provider_model_route =
  rt_service_provider :: string
  rt_model_name :: string
  rt_api_kind :: string
  rt_usage_weights :: "(string \<times> string) list"
  rt_display_name :: string

record provider_model_config =
  pm_name :: string
  pm_api_kind :: string
  pm_usage_weights :: usage_weights_config

record provider_service_config =
  ps_display_name :: string
  ps_models :: "provider_model_config list"

definition NormalizeProviderModelName :: "string \<Rightarrow> string" where
  "NormalizeProviderModelName name = ToLower (TrimSpace name)"

definition catalog_weights :: "usage_weights_config \<Rightarrow> (string \<times> string) list" where
  "catalog_weights w =
     [(key, TrimSpace value). (key, value) \<leftarrow> usage_weight_fields w, TrimSpace value \<noteq> []]"

definition catalog_put :: "string \<Rightarrow> 'a \<Rightarrow> (string \<times> 'a) list \<Rightarrow> (string \<times> 'a) list" where
  "catalog_put k v m = (k, v) # filter (\<lambda>e. fst e \<noteq> k) m"

definition route_of :: "string \<Rightarrow> provider_service_config \<Rightarrow> provider_model_config \<Rightarrow> provider_model_route" where
  "route_of serviceID svc model =
     \<lparr>rt_service_provider = serviceID, rt_model_name = NormalizeProviderModelName (pm_name model),
      rt_api_kind = pm_api_kind model, rt_usage_weights = catalog_weights (pm_usage_weights model),
      rt_display_name = ps_display_name svc\<rparr>"

definition InitProviderCatalog ::
  "(string \<times> provider_service_config) list \<Rightarrow> (string \<times> provider_model_route) list" where
  "InitProviderCatalog services =
     fold (\<lambda>(serviceID, svc). fold (\<lambda>model. catalog_put (NormalizeProviderModelName (pm_name model)) (route_of serviceID svc model))
       (ps_models svc)) services []"

definition LookupProviderModel ::
  "(string \<times> provider_model_route) list \<Rightarrow> string \<Rightarrow> provider_model_route option" where
  "LookupProviderModel catalog modelName = map_of catalog (NormalizeProviderModelName modelName)"

definition ListConfiguredProviderModels :: "(string \<times> provider_model_route) list \<Rightarrow> provider_model_route list" where
  "ListConfiguredProviderModels catalog = map snd catalog"

definition ProviderHasEnabledKey :: "db \<Rightarrow> string \<Rightarrow> bool" where
  "ProviderHasEnabledKey d sp \<longleftrightarrow>
     tbl_where (\<lambda>k. sk_service_provider k = sp \<and> sk_owner_enabled k \<and> sk_deleted_at k = None) (db_shared_keys d) \<noteq> []"

definition ListVisibleProviderModels ::
  "db \<Rightarrow> (string \<times> provider_model_route) list \<Rightarrow> string \<Rightarrow> provider_model_route list" where
  "ListVisibleProviderModels d catalog apiKind =
     (let wantKind = TrimSpace (ToLower apiKind) in
      filter (\<lambda>r. (wantKind = [] \<or> TrimSpace (ToLower (rt_api_kind r)) = wantKind) \<and>
                  ProviderHasEnabledKey d (rt_service_provider r))
        (ListConfiguredProviderModels catalog))"

definition IsConfiguredProviderModel :: "(string \<times> provider_model_route) list \<Rightarrow> string \<Rightarrow> bool" where
  "IsConfiguredProviderModel catalog modelName \<longleftrightarrow> LookupProviderModel catalog modelName \<noteq> None"

text \<open>The names of \<open>ValidateProviderCrynuxCollisions\<close>: \<open>loaded\<close> is the relay's answer.\<close>

definition ValidateProviderCrynuxCollisions ::
  "(string \<times> provider_model_route) list \<Rightarrow> string list \<Rightarrow> string list + unit" where
  "ValidateProviderCrynuxCollisions catalog loaded =
     (let seen = filter (\<lambda>x. x \<noteq> [] \<and> IsConfiguredProviderModel catalog x) (map NormalizeProviderModelName loaded)
      in if seen = [] then Inr () else Inl (remdups seen))"

subsection \<open>Usage and weights\<close>

text \<open>\<open>provider.NormalizedUsage\<close>, the same fields as \<open>ProviderUsageComponents\<close>.\<close>

record provider_usage =
  pu_input :: u64
  pu_output :: u64
  pu_cached_input :: u64
  pu_cache_write_input :: u64
  pu_reasoning :: u64
  pu_tool_use_prompt :: u64
  pu_image_input :: u64
  pu_image_output :: u64
  pu_total :: u64
  pu_reasoning_in_output :: bool

definition parseRationalWeight :: "string \<Rightarrow> err + rat" where
  "parseRationalWeight value =
     (let trimmed = TrimSpace value in
      rejectIf (trimmed = []) (ErrMsg ''usage weight is empty'')
        (bindE (of_option (ErrMsg ''usage weight is invalid'') (Rat_SetString trimmed)) (\<lambda>r.
         rejectIf (r < 0) (ErrMsg ''usage weight must be non-negative'') (Inr r))))"

fun max_weight :: "(string \<times> string) list \<Rightarrow> string list \<Rightarrow> rat option \<Rightarrow> err + rat option" where
  "max_weight weights [] acc = Inr acc"
| "max_weight weights (key # keys) acc =
     (case map_of weights key of
        None \<Rightarrow> max_weight weights keys acc
      | Some raw \<Rightarrow>
          if TrimSpace raw = [] then max_weight weights keys acc
          else bindE (parseRationalWeight raw) (\<lambda>w.
            max_weight weights keys (case acc of None \<Rightarrow> Some w | Some m \<Rightarrow> if m < w then Some w else Some m)))"

definition maxWeight :: "(string \<times> string) list \<Rightarrow> string list \<Rightarrow> err + rat" where
  "maxWeight weights keys =
     bindE (max_weight weights keys None) (\<lambda>m. Inr (case m of None \<Rightarrow> 0 | Some w \<Rightarrow> w))"

definition usage_part :: "(string \<times> string) list \<Rightarrow> u64 \<Rightarrow> string \<Rightarrow> err + rat" where
  "usage_part weights component key =
     (if component = 0 then Inr 0
      else case map_of weights key of
        None \<Rightarrow> Inl (ErrMsg ''missing usage weight'')
      | Some raw \<Rightarrow>
          if TrimSpace raw = [] then Inl (ErrMsg ''missing usage weight'')
          else bindE (parseRationalWeight raw) (\<lambda>w. Inr (of_int (uint component) * w)))"

fun add_parts :: "(string \<times> string) list \<Rightarrow> (u64 \<times> string) list \<Rightarrow> rat \<Rightarrow> err + rat" where
  "add_parts weights [] units = Inr units"
| "add_parts weights ((component, key) # rest) units =
     bindE (usage_part weights component key) (\<lambda>part. add_parts weights rest (units + part))"

definition billable_input :: "provider_usage \<Rightarrow> u64" where
  "billable_input u =
     (if 0 < pu_cached_input u \<or> 0 < pu_cache_write_input u \<or> 0 < pu_tool_use_prompt u then
        (let detail = pu_cached_input u + pu_cache_write_input u + pu_tool_use_prompt u in
         if detail \<le> pu_input u then pu_input u - detail else pu_input u)
      else pu_input u)"

definition billable_output :: "provider_usage \<Rightarrow> u64" where
  "billable_output u =
     (if pu_reasoning_in_output u \<and> 0 < pu_reasoning u \<and> pu_reasoning u \<le> pu_output u
      then pu_output u - pu_reasoning u else pu_output u)"

definition usage_parts :: "provider_usage \<Rightarrow> (u64 \<times> string) list" where
  "usage_parts u =
     [(billable_input u, ''input_tokens''), (billable_output u, ''output_tokens''),
      (pu_cached_input u, ''cached_input_tokens''), (pu_cache_write_input u, ''cache_write_input_tokens''),
      (pu_reasoning u, ''reasoning_tokens''), (pu_tool_use_prompt u, ''tool_use_prompt_tokens''),
      (pu_image_input u, ''image_input_tokens''), (pu_image_output u, ''image_output_tokens'')]"

definition CalculateProviderUnits :: "provider_usage \<Rightarrow> (string \<times> string) list \<Rightarrow> err + rat" where
  "CalculateProviderUnits usage weights = add_parts weights (usage_parts usage) 0"

abbreviation input_weight_keys :: "string list" where
  "input_weight_keys \<equiv> [''input_tokens'', ''cached_input_tokens'', ''cache_write_input_tokens'',
     ''tool_use_prompt_tokens'', ''image_input_tokens'']"
abbreviation output_weight_keys :: "string list" where
  "output_weight_keys \<equiv> [''output_tokens'', ''reasoning_tokens'', ''image_output_tokens'']"

definition EstimateProviderUnits :: "(string \<times> string) list \<Rightarrow> u64 \<Rightarrow> u64 \<Rightarrow> err + rat" where
  "EstimateProviderUnits weights inputTokens maxOutputTokens =
     bindE (maxWeight weights input_weight_keys) (\<lambda>inputWeight.
     bindE (maxWeight weights output_weight_keys) (\<lambda>outputWeight.
     Inr (of_int (uint inputTokens) * inputWeight + of_int (uint maxOutputTokens) * outputWeight)))"

subsection \<open>The text of a request\<close>

text \<open>
  A decoded JSON value; strings are kept as bytes. The keys of an object are distinct, as
  in a Go map.
\<close>

datatype json = JNull | JBool bool | JNum string | JStr string | JArr "json list" | JObj "(string \<times> json) list"

definition isImageContentPart :: "(string \<times> json) list \<Rightarrow> bool" where
  "isImageContentPart obj \<longleftrightarrow>
     map_of obj ''type'' = Some (JStr ''image_url'') \<or> map_of obj ''type'' = Some (JStr ''input_image'')"

fun text_bytes :: "json \<Rightarrow> nat" where
  "text_bytes (JStr s) = length s"
| "text_bytes (JArr items) = sum_list (map text_bytes items)"
| "text_bytes (JObj obj) =
     (let skip = isImageContentPart obj in
      sum_list (map (\<lambda>(key, item). if skip \<and> key = ''image_url'' then 0 else text_bytes item) obj))"
| "text_bytes JNull = 0"
| "text_bytes (JBool b) = 0"
| "text_bytes (JNum n) = 0"

text \<open>\<open>decoded\<close> is \<open>None\<close> when the body is not a JSON value.\<close>

definition EstimateProviderTextInputTokens :: "nat \<Rightarrow> json option \<Rightarrow> u64" where
  "EstimateProviderTextInputTokens len decoded =
     (if len = 0 then 0
      else case decoded of
        Some (JObj obj) \<Rightarrow> (let n = text_bytes (JObj obj) in if n = 0 then of_nat len else of_nat n)
      | _ \<Rightarrow> of_nat len)"

subsection \<open>Billable Gwei, Credits and earnings\<close>

definition ApplyMaxTaskPriceCap :: "rat \<Rightarrow> string \<Rightarrow> err + rat" where
  "ApplyMaxTaskPriceCap billableGwei maxTaskPriceCNX =
     rejectIf (billableGwei < 0) (ErrMsg ''billable gwei must be non-negative'')
     (bindE (MaxTaskFeeGweiFromPrice maxTaskPriceCNX) (\<lambda>maxFeeGwei.
      Inr (if of_int maxFeeGwei < billableGwei then of_int maxFeeGwei else billableGwei)))"

definition ProviderBillableGwei :: "int \<Rightarrow> rat \<Rightarrow> string \<Rightarrow> err + rat" where
  "ProviderBillableGwei effectivePriorityGwei providerUnits maxTaskPriceCNX =
     rejectIf (effectivePriorityGwei \<le> 0) (ErrMsg ''effective priority is required'')
     (rejectIf (providerUnits < 0) (ErrMsg ''provider units are invalid'')
     (ApplyMaxTaskPriceCap (of_int effectivePriorityGwei * providerUnits) maxTaskPriceCNX))"

definition ProviderConsumerCredits :: "rat \<Rightarrow> string \<Rightarrow> err + int" where
  "ProviderConsumerCredits billableGwei creditsPerGwei =
     rejectIf (billableGwei < 0) (ErrMsg ''billable gwei must be non-negative'')
     (bindE (of_option (ErrMsg ''credits_per_gwei is invalid'') (Rat_SetString (TrimSpace creditsPerGwei))) (\<lambda>rate.
      rejectIf (rate < 0) (ErrMsg ''credits_per_gwei is invalid'')
        (let credits = rat_quo (billableGwei * rate) in Inr (if credits \<le> 0 then 1 else credits))))"

definition ProviderEarningWei :: "rat \<Rightarrow> int" where
  "ProviderEarningWei billableGwei =
     (if billableGwei \<le> 0 then 0 else rat_quo (billableGwei * 1000000000))"

definition floorProviderBillableGwei :: "rat \<Rightarrow> int" where
  "floorProviderBillableGwei billableGwei = (if billableGwei \<le> 0 then 0 else rat_quo billableGwei)"

definition rejectIfStaticProviderCreditsExceedMax :: "llm_config \<Rightarrow> project \<Rightarrow> rat \<Rightarrow> err + unit" where
  "rejectIfStaticProviderCreditsExceedMax cfg project billableGwei =
     bindE (requireAutoMaxCreditsPerTask project) (\<lambda>_.
     bindE (ProviderConsumerCredits billableGwei (lc_credits_per_gwei cfg)) (\<lambda>credits.
     rejectIf (max_credits_of project < credits) ErrMaxCreditsExceeded (Inr ())))"

definition ceilPriorityFromFeeAndUnits :: "int \<Rightarrow> rat \<Rightarrow> err + int" where
  "ceilPriorityFromFeeAndUnits minFeeGwei units =
     rejectIf (minFeeGwei < 0) (ErrMsg ''minimum task fee must be non-negative'')
     (rejectIf (units \<le> 0) (ErrMsg ''provider units must be positive'')
     (if minFeeGwei = 0 then Inr 0
      else let required = of_int minFeeGwei / units;
               priority0 = rat_quo required;
               priority1 = (if of_int priority0 < required then priority0 + 1 else priority0)
           in Inr (if priority1 \<le> 0 then 1 else priority1)))"

subsection \<open>The shared minimum\<close>

fun cheapest_units :: "u64 \<Rightarrow> u64 \<Rightarrow> string \<Rightarrow> provider_model_route list \<Rightarrow> rat option \<Rightarrow> err + rat option" where
  "cheapest_units inputTokens maxOutputTokens apiKind [] acc = Inr acc"
| "cheapest_units inputTokens maxOutputTokens apiKind (route # routes) acc =
     (if apiKind \<noteq> [] \<and> rt_api_kind route \<noteq> [] \<and> rt_api_kind route \<noteq> apiKind
      then cheapest_units inputTokens maxOutputTokens apiKind routes acc
      else bindE (EstimateProviderUnits (rt_usage_weights route) inputTokens maxOutputTokens) (\<lambda>units.
        if units \<le> 0 then cheapest_units inputTokens maxOutputTokens apiKind routes acc
        else cheapest_units inputTokens maxOutputTokens apiKind routes
          (case acc of None \<Rightarrow> Some units | Some c \<Rightarrow> if units < c then Some units else Some c)))"

definition CheapestProviderUnits ::
  "(string \<times> provider_model_route) list \<Rightarrow> u64 \<Rightarrow> u64 \<Rightarrow> string \<Rightarrow> err + rat option" where
  "CheapestProviderUnits catalog inputTokens maxOutputTokens apiKind =
     cheapest_units inputTokens maxOutputTokens apiKind (ListConfiguredProviderModels catalog) None"

definition ResolveProviderSharedMinPriority ::
  "llm_config \<Rightarrow> (string \<times> provider_model_route) list \<Rightarrow> u64 \<Rightarrow> u64 \<Rightarrow> string \<Rightarrow> err + int option" where
  "ResolveProviderSharedMinPriority cfg catalog inputTokens maxOutputTokens apiKind =
     bindE (MinTaskFeeGwei cfg MinTaskPriceProviders) (\<lambda>minFeeGwei.
     if minFeeGwei \<le> 0 then Inr None
     else bindE (CheapestProviderUnits catalog inputTokens maxOutputTokens apiKind) (\<lambda>cheapest.
       case cheapest of
         None \<Rightarrow> Inr None
       | Some units \<Rightarrow>
           bindE (ceilPriorityFromFeeAndUnits minFeeGwei units) (\<lambda>priority.
           bindE (ClampPriorityGwei cfg (Some priority)) (\<lambda>p. Inr (Some p)))))"

subsection \<open>Admission of provider tasks\<close>

definition enforceAdmissionSharedMinPriority ::
  "llm_config \<Rightarrow> project option \<Rightarrow> int option \<Rightarrow> int option \<Rightarrow> (int \<Rightarrow> err + rat) \<Rightarrow> err + int \<times> rat" where
  "enforceAdmissionSharedMinPriority cfg project0 priority0 minPriority fee =
     bindE (of_option (ErrMsg ''project is required'') project0) (\<lambda>project.
     bindE (of_option (ErrMsg ''priority_gwei must be positive'') priority0) (\<lambda>priority.
     rejectIf (priority \<le> 0) (ErrMsg ''priority_gwei must be positive'')
     (if cost_level_mode project \<noteq> CostLevelModeAuto then
        bindE (fee priority) (\<lambda>billable.
        bindE (rejectIfStaticProviderCreditsExceedMax cfg project billable) (\<lambda>_.
        rejectIf (case minPriority of None \<Rightarrow> False | Some m \<Rightarrow> 0 < m \<and> priority < m) ErrTaskFeeBelowMinimum
          (Inr (priority, billable))))
      else
        bindE (MaxPriorityWithinAutoMaxCredits cfg project
            (\<lambda>p. bindE (fee p) (\<lambda>b. Inr (floorProviderBillableGwei b)))) (\<lambda>upper.
        bindE (case minPriority of
                 None \<Rightarrow> ParseMinPriorityGwei cfg
               | Some m \<Rightarrow> if 0 < m then Inr m else ParseMinPriorityGwei cfg) (\<lambda>lower.
        rejectIf (upper < lower) ErrAutoMaxCreditsInsufficient
        (let w0 = (if priority < lower then lower else priority);
             w1 = (if upper < w0 then upper else w0)
         in bindE (fee w1) (\<lambda>billable. Inr (w1, billable))))))))"

record provider_input_estimate =
  pi_text_tokens :: u64
  pi_image_tokens :: u64

definition input_total :: "provider_input_estimate \<Rightarrow> u64" where
  "input_total e = pi_text_tokens e + pi_image_tokens e"

definition BuildProviderBillingData ::
  "llm_config \<Rightarrow> (string \<times> provider_model_route) list \<Rightarrow> project option \<Rightarrow> provider_model_route \<Rightarrow> int option \<Rightarrow>
   provider_input_estimate \<Rightarrow> u64 \<Rightarrow> int option \<Rightarrow> err + provider_billing \<times> int" where
  "BuildProviderBillingData cfg catalog project route effectivePriority input maxOutputTokens lockedCredits0 =
     bindE (MaxTaskPriceCNXFor cfg (rt_service_provider route)) (\<lambda>maxTaskPriceCNX.
     let inputTokens = input_total input in
     bindE (EstimateProviderUnits (rt_usage_weights route) inputTokens maxOutputTokens) (\<lambda>units.
     let apiKind = (if rt_api_kind route = [] then ''chat'' else rt_api_kind route) in
     bindE (ResolveProviderSharedMinPriority cfg catalog inputTokens maxOutputTokens apiKind) (\<lambda>sharedMinPriority.
     bindE (enforceAdmissionSharedMinPriority cfg project effectivePriority sharedMinPriority
         (\<lambda>p. ProviderBillableGwei p units maxTaskPriceCNX)) (\<lambda>(adjustedPriority, billableGwei).
     bindE (ProviderConsumerCredits billableGwei (lc_credits_per_gwei cfg)) (\<lambda>credits.
     Inr (\<lparr>pb_service_provider = rt_service_provider route, pb_model_name = rt_model_name route,
           pb_usage_weights = rt_usage_weights route,
           pb_effective_priority_gwei = int_str adjustedPriority,
           pb_credits_per_gwei = lc_credits_per_gwei cfg, pb_max_task_price_cnx = maxTaskPriceCNX,
           pb_estimated_input_tokens = inputTokens, pb_estimated_text_input_tokens = pi_text_tokens input,
           pb_estimated_image_input_tokens = pi_image_tokens input,
           pb_estimated_output_tokens = maxOutputTokens,
           pb_estimated_provider_units = FloatString 18 units,
           pb_locked_credits = int_str (case lockedCredits0 of None \<Rightarrow> credits | Some l \<Rightarrow> l)\<rparr>, credits))))))"

subsection \<open>Hints for the Cost Level controls\<close>

text \<open>\<open>new(big.Float).SetRat\<close>: exact for whole numbers, else the quotient rounded to the
  larger precision of numerator and denominator.\<close>

definition bf_set_rat :: "rat \<Rightarrow> bigfloat" where
  "bf_set_rat r =
     (case quotient_of r of (n, d) \<Rightarrow>
        if d = 1 then bf_set_int n
        else let p = max (max (nat (bitlen \<bar>n\<bar>)) 64) (max (nat (bitlen d)) 64) in BFin p (round_prec p r))"

record provider_cost_hints =
  ch_min_priority_gwei :: int
  ch_min_credits_cheapest :: int
  ch_min_credits_expensive :: int
  ch_reference_input_tokens :: u64
  ch_reference_output_tokens :: u64

abbreviation ProviderMinReferenceInputTokens :: u64 where "ProviderMinReferenceInputTokens \<equiv> 10"
abbreviation ProviderMinReferenceOutputTokens :: u64 where "ProviderMinReferenceOutputTokens \<equiv> 50"

fun hint_credits ::
  "llm_config \<Rightarrow> int \<Rightarrow> rat \<Rightarrow> provider_model_route list \<Rightarrow> int option \<Rightarrow> int option \<Rightarrow> err + int option \<times> int option" where
  "hint_credits cfg priority rate [] lo hi = Inr (lo, hi)"
| "hint_credits cfg priority rate (route # routes) lo hi =
     bindE (EstimateProviderUnits (rt_usage_weights route) ProviderMinReferenceInputTokens ProviderMinReferenceOutputTokens) (\<lambda>units.
     if units \<le> 0 then hint_credits cfg priority rate routes lo hi
     else bindE (MaxTaskPriceCNXFor cfg (rt_service_provider route)) (\<lambda>price.
       bindE (ProviderBillableGwei priority units price) (\<lambda>billable.
       bindE (CalcCreditsFromBillable (bf_set_rat billable) rate) (\<lambda>credits0.
       let credits = (if credits0 \<le> 0 then 1 else credits0) in
       hint_credits cfg priority rate routes
         (case lo of None \<Rightarrow> Some credits | Some l \<Rightarrow> if credits < l then Some credits else Some l)
         (case hi of None \<Rightarrow> Some credits | Some h \<Rightarrow> if h < credits then Some credits else Some h)))))"

definition ResolveProviderCostHints ::
  "llm_config \<Rightarrow> (string \<times> provider_model_route) list \<Rightarrow> err + provider_cost_hints" where
  "ResolveProviderCostHints cfg catalog =
     bindE (ParsePositiveDecimalRate (lc_credits_per_gwei cfg)) (\<lambda>rate.
     bindE (ResolveProviderSharedMinPriority cfg catalog ProviderMinReferenceInputTokens
         ProviderMinReferenceOutputTokens ''chat'') (\<lambda>shared.
     case shared of
       None \<Rightarrow>
         bindE (ParseMinPriorityGwei cfg) (\<lambda>minPriority.
         Inr \<lparr>ch_min_priority_gwei = minPriority, ch_min_credits_cheapest = 1, ch_min_credits_expensive = 1,
              ch_reference_input_tokens = ProviderMinReferenceInputTokens,
              ch_reference_output_tokens = ProviderMinReferenceOutputTokens\<rparr>)
     | Some minPriority \<Rightarrow>
         bindE (hint_credits cfg minPriority rate (ListConfiguredProviderModels catalog) None None) (\<lambda>(lo, hi).
         Inr \<lparr>ch_min_priority_gwei = minPriority,
              ch_min_credits_cheapest = (case lo of None \<Rightarrow> 1 | Some c \<Rightarrow> c),
              ch_min_credits_expensive = (case hi of None \<Rightarrow> 1 | Some c \<Rightarrow> c),
              ch_reference_input_tokens = ProviderMinReferenceInputTokens,
              ch_reference_output_tokens = ProviderMinReferenceOutputTokens\<rparr>)))"

subsection \<open>Units of a request bound the units of its settlement\<close>

lemma parseRationalWeight_nonneg: "parseRationalWeight s = Inr w \<Longrightarrow> 0 \<le> w"
  by (auto simp: parseRationalWeight_def Let_def res_simps)

definition weight_at :: "(string \<times> string) list \<Rightarrow> string \<Rightarrow> rat \<Rightarrow> bool" where
  "weight_at weights key w \<longleftrightarrow>
     (\<exists>raw. map_of weights key = Some raw \<and> TrimSpace raw \<noteq> [] \<and> parseRationalWeight raw = Inr w)"

lemma max_weight_bounds:
  assumes "max_weight weights keys acc = Inr r" "\<forall>a. acc = Some a \<longrightarrow> 0 \<le> a"
  shows "(\<forall>key \<in> set keys. \<forall>w. weight_at weights key w \<longrightarrow> (\<exists>m. r = Some m \<and> w \<le> m)) \<and>
    (\<forall>a. acc = Some a \<longrightarrow> (\<exists>m. r = Some m \<and> a \<le> m)) \<and> (\<forall>m. r = Some m \<longrightarrow> 0 \<le> m)"
  using assms
proof (induction keys arbitrary: acc)
  case Nil
  then show ?case by auto
next
  case (Cons key keys)
  show ?case
  proof (cases "\<exists>w. weight_at weights key w")
    case False
    then have "max_weight weights keys acc = Inr r"
      using Cons.prems(1) by (auto simp: weight_at_def res_simps split: option.splits if_splits)
    from Cons.IH [OF this Cons.prems(2)] False show ?thesis by auto
  next
    case True
    then obtain w where w: "weight_at weights key w" ..
    define acc' where "acc' = (case acc of None \<Rightarrow> Some w | Some m \<Rightarrow> if m < w then Some w else Some m)"
    have "max_weight weights keys acc' = Inr r"
      using Cons.prems(1) w by (auto simp: weight_at_def acc'_def)
    moreover have "\<forall>a. acc' = Some a \<longrightarrow> 0 \<le> a"
      using Cons.prems(2) w parseRationalWeight_nonneg
      by (auto simp: acc'_def weight_at_def split: option.splits if_splits)
    moreover have "\<exists>a. acc' = Some a \<and> w \<le> a \<and> (\<forall>b. acc = Some b \<longrightarrow> b \<le> a)"
      by (auto simp: acc'_def split: option.splits)
    moreover have "v = w" if "weight_at weights key v" for v using that w by (auto simp: weight_at_def)
    ultimately show ?thesis using Cons.IH [of acc'] by (fastforce intro: order_trans)
  qed
qed

lemma maxWeight_bounds:
  assumes "maxWeight weights keys = Inr m"
  shows "0 \<le> m \<and> (\<forall>key \<in> set keys. \<forall>w. weight_at weights key w \<longrightarrow> w \<le> m)"
proof -
  obtain r where "max_weight weights keys None = Inr r" "m = (case r of None \<Rightarrow> 0 | Some w \<Rightarrow> w)"
    using assms by (auto simp: maxWeight_def res_simps)
  with max_weight_bounds [of weights keys None r] show ?thesis by (cases r) fastforce+
qed

lemma usage_part_bounds:
  assumes "usage_part weights c key = Inr x" "maxWeight weights keys = Inr m" "key \<in> set keys"
  shows "0 \<le> x \<and> x \<le> of_int (uint c) * m"
proof (cases "c = 0")
  case True
  with assms(1) show ?thesis by (simp add: usage_part_def)
next
  case False
  then obtain w where w: "weight_at weights key w" "x = of_int (uint c) * w"
    using assms(1) by (auto simp: usage_part_def weight_at_def res_simps split: option.splits if_splits)
  have "0 \<le> w" using w(1) parseRationalWeight_nonneg by (auto simp: weight_at_def)
  moreover have "w \<le> m" using maxWeight_bounds [OF assms(2)] assms(3) w(1) by blast
  moreover have "(0 :: rat) \<le> of_int (uint c)" by (simp only: of_int_0_le_iff uint_ge_0)
  ultimately show ?thesis unfolding w(2) by (intro conjI mult_nonneg_nonneg mult_left_mono)
qed

text \<open>The tokens settlement prices on the input and on the output side.\<close>

definition input_side :: "provider_usage \<Rightarrow> int" where
  "input_side u = uint (billable_input u) + uint (pu_cached_input u) + uint (pu_cache_write_input u) +
     uint (pu_tool_use_prompt u) + uint (pu_image_input u)"

definition output_side :: "provider_usage \<Rightarrow> int" where
  "output_side u = uint (billable_output u) + uint (pu_reasoning u) + uint (pu_image_output u)"

lemma units_within_estimate:
  assumes "CalculateProviderUnits u weights = Inr units" "EstimateProviderUnits weights i out = Inr est"
    "input_side u \<le> uint i" "output_side u \<le> uint out"
  shows "0 \<le> units \<and> units \<le> est"
proof -
  obtain mi mo where mi: "maxWeight weights input_weight_keys = Inr mi"
    and mo: "maxWeight weights output_weight_keys = Inr mo"
    and est: "est = of_int (uint i) * mi + of_int (uint out) * mo"
    using assms(2) by (auto simp: EstimateProviderUnits_def res_simps)
  obtain x1 x2 x3 x4 x5 x6 x7 x8 where
    x: "usage_part weights (billable_input u) ''input_tokens'' = Inr x1"
      "usage_part weights (billable_output u) ''output_tokens'' = Inr x2"
      "usage_part weights (pu_cached_input u) ''cached_input_tokens'' = Inr x3"
      "usage_part weights (pu_cache_write_input u) ''cache_write_input_tokens'' = Inr x4"
      "usage_part weights (pu_reasoning u) ''reasoning_tokens'' = Inr x5"
      "usage_part weights (pu_tool_use_prompt u) ''tool_use_prompt_tokens'' = Inr x6"
      "usage_part weights (pu_image_input u) ''image_input_tokens'' = Inr x7"
      "usage_part weights (pu_image_output u) ''image_output_tokens'' = Inr x8"
    and units: "units = x1 + x2 + x3 + x4 + x5 + x6 + x7 + x8"
    using assms(1) by (auto simp: CalculateProviderUnits_def usage_parts_def res_simps)
  note b = usage_part_bounds [OF x(1) mi] usage_part_bounds [OF x(3) mi] usage_part_bounds [OF x(4) mi]
    usage_part_bounds [OF x(6) mi] usage_part_bounds [OF x(7) mi]
  note c = usage_part_bounds [OF x(2) mo] usage_part_bounds [OF x(5) mo] usage_part_bounds [OF x(8) mo]
  have m: "0 \<le> mi" "0 \<le> mo" using maxWeight_bounds [OF mi] maxWeight_bounds [OF mo] by auto
  have "x1 + x3 + x4 + x6 + x7 \<le> of_int (input_side u) * mi"
    using b by (simp add: input_side_def distrib_right)
  also have "\<dots> \<le> of_int (uint i) * mi"
    using assms(3) m by (intro mult_right_mono) (simp_all only: of_int_le_iff)
  finally have i: "x1 + x3 + x4 + x6 + x7 \<le> of_int (uint i) * mi" .
  have "x2 + x5 + x8 \<le> of_int (output_side u) * mo"
    using c by (simp add: output_side_def distrib_right)
  also have "\<dots> \<le> of_int (uint out) * mo"
    using assms(4) m by (intro mult_right_mono) (simp_all only: of_int_le_iff)
  finally have "x2 + x5 + x8 \<le> of_int (uint out) * mo" .
  with i b c show ?thesis unfolding units est by simp
qed

text \<open>When the reported details are parts of the reported input, the priced input is the
  reported input and the image tokens.\<close>

lemma input_side_eq:
  assumes "uint (pu_cached_input u) + uint (pu_cache_write_input u) + uint (pu_tool_use_prompt u) \<le> uint (pu_input u)"
  shows "input_side u = uint (pu_input u) + uint (pu_image_input u)"
proof -
  define detail where "detail = pu_cached_input u + pu_cache_write_input u + pu_tool_use_prompt u"
  have b: "uint (pu_input u) < 2 ^ 64" using uint_lt2p [of "pu_input u"] by simp
  have d: "uint detail = uint (pu_cached_input u) + uint (pu_cache_write_input u) + uint (pu_tool_use_prompt u)"
    using assms b unfolding detail_def
    by (simp add: uint_word_ariths mod_simps)
  have "detail \<le> pu_input u" using assms d by (simp add: word_le_def)
  then have "uint (pu_input u - detail) = uint (pu_input u) - uint detail" by (simp add: uint_sub_lem [THEN iffD1] word_le_def)
  moreover have "billable_input u = pu_input u - detail \<or> (detail = 0 \<and> billable_input u = pu_input u)"
    using \<open>detail \<le> pu_input u\<close> by (auto simp: billable_input_def detail_def Let_def word_gt_0)
  ultimately show ?thesis using d by (auto simp: input_side_def)
qed

lemma ApplyCap_min:
  "MaxTaskFeeGweiFromPrice price = Inr mx \<Longrightarrow> 0 \<le> b \<Longrightarrow> ApplyMaxTaskPriceCap b price = Inr (min b (of_int mx))"
  by (auto simp: ApplyMaxTaskPriceCap_def min_def rejectIf_def)

lemma ProviderBillableGwei_ok:
  assumes "ProviderBillableGwei p u price = Inr b"
  shows "\<exists>mx. MaxTaskFeeGweiFromPrice price = Inr mx \<and> 0 < mx \<and> 0 < p \<and> 0 \<le> u \<and>
    b = min (of_int p * u) (of_int mx) \<and> 0 \<le> b"
proof -
  obtain mx where mx: "MaxTaskFeeGweiFromPrice price = Inr mx" and p: "0 < p" "0 \<le> u"
    using assms by (auto simp: ProviderBillableGwei_def ApplyMaxTaskPriceCap_def res_simps)
  have "0 \<le> of_int p * u" using p by simp
  from ApplyCap_min [OF mx this] assms p have b: "b = min (of_int p * u) (of_int mx)"
    by (simp add: ProviderBillableGwei_def rejectIf_def)
  have "0 < mx" using mx by (auto simp: MaxTaskFeeGweiFromPrice_def Let_def res_simps)
  with mx p b show ?thesis by simp
qed

lemma ProviderBillableGwei_mono:
  assumes "ProviderBillableGwei p v price = Inr c" "0 \<le> u" "u \<le> v"
  shows "\<exists>b. ProviderBillableGwei p u price = Inr b \<and> 0 \<le> b \<and> b \<le> c"
proof -
  obtain mx where mx: "MaxTaskFeeGweiFromPrice price = Inr mx" "0 < mx" and p: "0 < p"
    and c: "c = min (of_int p * v) (of_int mx)"
    using ProviderBillableGwei_ok [OF assms(1)] by blast
  have u: "0 \<le> of_int p * u" using p assms(2) by simp
  have "ProviderBillableGwei p u price = Inr (min (of_int p * u) (of_int mx))"
    using ApplyCap_min [OF mx(1) u] p assms(2) by (simp add: ProviderBillableGwei_def rejectIf_def)
  moreover have "of_int p * u \<le> of_int p * v" using p assms(3) by (intro mult_left_mono) simp_all
  ultimately show ?thesis using u mx(2) unfolding c by (auto simp: min_def)
qed

lemma ProviderConsumerCredits_mono:
  assumes "ProviderConsumerCredits c rate = Inr y" "0 \<le> b" "b \<le> c"
  shows "\<exists>x. ProviderConsumerCredits b rate = Inr x \<and> 1 \<le> x \<and> x \<le> y"
proof -
  obtain r where r: "Rat_SetString (TrimSpace rate) = Some r" "0 \<le> r"
    and y: "y = (if rat_quo (c * r) \<le> 0 then 1 else rat_quo (c * r))"
    using assms(1) by (auto simp: ProviderConsumerCredits_def Let_def res_simps)
  have "rat_quo (b * r) \<le> rat_quo (c * r)"
    using assms(2,3) r(2) by (intro rat_quo_mono mult_right_mono) simp_all
  with r y assms(2) show ?thesis by (auto simp: ProviderConsumerCredits_def Let_def rejectIf_def)
qed

lemma ProviderEarningWei_le: "0 \<le> b \<Longrightarrow> b \<le> of_int m \<Longrightarrow> 0 \<le> ProviderEarningWei b \<and> ProviderEarningWei b \<le> m * 1000000000"
proof -
  assume b: "0 \<le> b" "b \<le> of_int m"
  then have m: "0 \<le> m" using of_int_0_le_iff [where 'a = rat] order_trans by blast
  have "rat_quo (b * 1000000000) \<le> rat_quo (of_int (m * 1000000000))"
    using b by (intro rat_quo_mono) simp_all
  then have "rat_quo (b * 1000000000) \<le> m * 1000000000" by (simp only: rat_quo_of_int)
  with b m show ?thesis by (auto simp: ProviderEarningWei_def intro: rat_quo_nonneg)
qed

subsection \<open>The provider fee is monotone\<close>

text \<open>The whole-Gwei fee the admission of a provider task searches with; a workload is its
  units and its price limit.\<close>

definition provider_fee :: "rat \<times> string \<Rightarrow> int \<Rightarrow> err + int" where
  "provider_fee a p = bindE (ProviderBillableGwei p (fst a) (snd a)) (\<lambda>b. Inr (floorProviderBillableGwei b))"

definition provider_priced :: "rat \<times> string \<Rightarrow> int \<Rightarrow> int \<Rightarrow> bool" where
  "provider_priced a lo hi \<longleftrightarrow> 0 < lo \<and> 0 \<le> fst a \<and>
     (case MaxTaskFeeGweiFromPrice (snd a) of Inr _ \<Rightarrow> True | Inl _ \<Rightarrow> False)"

lemma provider_priced_billable:
  assumes "provider_priced (u, price) lo hi" "lo \<le> p"
  shows "\<exists>mx. MaxTaskFeeGweiFromPrice price = Inr mx \<and> 0 < mx \<and>
    ProviderBillableGwei p u price = Inr (min (of_int p * u) (of_int mx))"
proof -
  obtain mx where mx: "MaxTaskFeeGweiFromPrice price = Inr mx"
    using assms(1) by (auto simp: provider_priced_def split: sum.splits)
  have u: "0 < p" "0 \<le> u" "0 \<le> of_int p * u" using assms by (auto simp: provider_priced_def)
  have "0 < mx" using mx by (auto simp: MaxTaskFeeGweiFromPrice_def Let_def res_simps)
  with mx ApplyCap_min [OF mx u(3)] u show ?thesis by (auto simp: ProviderBillableGwei_def rejectIf_def)
qed

lemma floor_billable_mono: "a \<le> b \<Longrightarrow> floorProviderBillableGwei a \<le> floorProviderBillableGwei b"
  by (auto simp: floorProviderBillableGwei_def intro: rat_quo_mono rat_quo_nonneg)

lemma floor_billable_nonneg: "0 \<le> floorProviderBillableGwei a"
  by (auto simp: floorProviderBillableGwei_def intro: rat_quo_nonneg)

interpretation provider: monotone_fee provider_fee provider_priced
proof
  fix a lo hi p
  assume "provider_priced a lo hi" "lo \<le> p"
  then show "\<exists>f. provider_fee a p = Inr f \<and> 0 \<le> f"
    using provider_priced_billable [of "fst a" "snd a" lo hi p]
    by (auto simp: provider_fee_def floor_billable_nonneg)
next
  fix a lo hi p q f g
  assume ok: "provider_priced a lo hi" and p: "lo \<le> p" "p \<le> q"
    and f: "provider_fee a p = Inr f" "provider_fee a q = Inr g"
  obtain mx where mx: "MaxTaskFeeGweiFromPrice (snd a) = Inr mx"
    "ProviderBillableGwei p (fst a) (snd a) = Inr (min (of_int p * fst a) (of_int mx))"
    using provider_priced_billable [of "fst a" "snd a" lo hi p] ok p by auto
  moreover have "ProviderBillableGwei q (fst a) (snd a) = Inr (min (of_int q * fst a) (of_int mx))"
    using provider_priced_billable [of "fst a" "snd a" lo hi q] ok p mx by auto
  moreover have "of_int p * fst a \<le> of_int q * fst a"
    using ok p by (intro mult_right_mono) (auto simp: provider_priced_def)
  ultimately show "f \<le> g"
    using f by (auto simp: provider_fee_def intro!: floor_billable_mono min.mono)
qed

text \<open>An automatic provider task runs at the level nearest to the one asked for between the
  shared minimal level (the configured minimum when there is none) and the highest level
  whose estimated Credits the project's maximum covers; it is refused exactly when that
  range is empty.\<close>

theorem provider_admission_nearest:
  assumes "ParseMinPriorityGwei cfg = Inr lo" "ParseMaxPriorityGwei cfg = Inr hi" "lo \<le> hi"
    "ParsePositiveDecimalRate (lc_credits_per_gwei cfg) = Inr rate"
    "MaxTaskFeeGweiFromPrice price = Inr mx" "0 \<le> units" "cost_level_mode pj = CostLevelModeAuto"
    "pr_auto_max_credits_per_task pj = Some budget" "0 < budget" "0 < asked"
    "lower = (case minPriority of Some m \<Rightarrow> if 0 < m then m else lo | None \<Rightarrow> lo)" "lo \<le> lower"
    "adm = (\<lambda>p. lower \<le> p \<and> p \<le> hi \<and> credits_for rate (floorProviderBillableGwei (min (of_int p * units) (of_int mx))) \<le> budget)"
  shows "if \<exists>p. adm p
    then \<exists>q. adm q \<and> (\<forall>p. adm p \<longrightarrow> \<bar>q - asked\<bar> \<le> \<bar>p - asked\<bar>) \<and>
      enforceAdmissionSharedMinPriority cfg (Some pj) (Some asked) minPriority (\<lambda>p. ProviderBillableGwei p units price) =
        Inr (q, min (of_int q * units) (of_int mx))
    else enforceAdmissionSharedMinPriority cfg (Some pj) (Some asked) minPriority (\<lambda>p. ProviderBillableGwei p units price) =
      Inl ErrAutoMaxCreditsInsufficient"
proof -
  have lo: "0 < lo" using assms(1) by (rule parsePositiveDecimalGwei_pos)
  have ok: "provider_priced (units, price) lo hi" using lo assms(5,6) by (simp add: provider_priced_def)
  have fee: "(\<lambda>p. bindE (ProviderBillableGwei p units price) (\<lambda>b. Inr (floorProviderBillableGwei b))) =
      provider_fee (units, price)"
    by (simp add: provider_fee_def fun_eq_iff)
  have bill: "ProviderBillableGwei p units price = Inr (min (of_int p * units) (of_int mx))" if "lo \<le> p" for p
    using provider_priced_billable [OF ok that] assms(5) by auto
  have fo: "provider.fee_of (units, price) p = floorProviderBillableGwei (min (of_int p * units) (of_int mx))"
    if "lo \<le> p" for p
    using bill [OF that] by (simp add: provider.fee_of_def provider_fee_def)
  have low: "bindE (case minPriority of None \<Rightarrow> ParseMinPriorityGwei cfg
      | Some m \<Rightarrow> if 0 < m then Inr m else ParseMinPriorityGwei cfg) k = k lower"
    for k :: "int \<Rightarrow> err + int \<times> rat"
    using assms(1,11) by (auto split: option.splits)
  have enf: "enforceAdmissionSharedMinPriority cfg (Some pj) (Some asked) minPriority (\<lambda>p. ProviderBillableGwei p units price) =
      bindE (MaxPriorityWithinAutoMaxCredits cfg pj (provider_fee (units, price))) (\<lambda>upper.
        rejectIf (upper < lower) ErrAutoMaxCreditsInsufficient
        (let w0 = (if asked < lower then lower else asked); w1 = (if upper < w0 then upper else w0)
         in bindE (ProviderBillableGwei w1 units price) (\<lambda>billable. Inr (w1, billable))))"
    using assms(7,10) by (simp add: enforceAdmissionSharedMinPriority_def fee low)
  note mw = provider.max_within [OF ok assms(3,1,2,4,8,9)]
  show ?thesis
  proof (cases "budget < credits_for rate (provider.fee_of (units, price) lo)")
    case True
    have "\<not> adm p" for p
    proof
      assume "adm p"
      with assms(12,13) have p: "lo \<le> p" "p \<le> hi" "credits_for rate (provider.fee_of (units, price) p) \<le> budget"
        by (auto simp: fo)
      with True provider.credits_le [OF ok ParsePositiveDecimalRate_pos [OF assms(4)] order.refl p(1,2)]
      show False by linarith
    qed
    with True mw enf show ?thesis by auto
  next
    case False
    then obtain r where mp: "MaxPriorityWithinAutoMaxCredits cfg pj (provider_fee (units, price)) = Inr r"
      and r: "lo \<le> r" "r \<le> hi"
      and within: "\<And>p. lo \<le> p \<Longrightarrow> p \<le> hi \<Longrightarrow> credits_for rate (provider.fee_of (units, price) p) \<le> budget \<longleftrightarrow> p \<le> r"
      using mw by auto
    have adm: "adm p \<longleftrightarrow> lower \<le> p \<and> p \<le> r" for p
      using within [of p] r assms(12,13) fo [of p] by auto
    show ?thesis
    proof (cases "r < lower")
      case True
      with adm mp enf show ?thesis by auto
    next
      case False
      define w where "w = min r (max lower asked)"
      have w: "adm w" using False by (auto simp: adm w_def)
      have "\<bar>w - asked\<bar> \<le> \<bar>p - asked\<bar>" if "adm p" for p
        using that by (auto simp: adm w_def min_def max_def)
      moreover have "(let w0 = (if asked < lower then lower else asked); w1 = (if r < w0 then r else w0)
         in bindE (ProviderBillableGwei w1 units price) (\<lambda>billable. Inr (w1, billable))) =
         bindE (ProviderBillableGwei w units price) (\<lambda>billable. Inr (w, billable))"
        by (auto simp: w_def min_def max_def Let_def)
      ultimately show ?thesis
        using w False mp enf bill [of w] assms(12) by (auto simp: adm)
    qed
  qed
qed

text \<open>The minimal level for a fee is the smallest level that reaches the fee: it reaches
  it, and no smaller one does.\<close>

theorem ceil_priority_least:
  assumes "ceilPriorityFromFeeAndUnits fee units = Inr p" "0 < fee"
  shows "1 \<le> p \<and> of_int fee \<le> of_int p * units \<and> (\<forall>q. of_int fee \<le> of_int q * units \<longrightarrow> p \<le> q)"
proof -
  have u: "0 < units" using assms by (auto simp: ceilPriorityFromFeeAndUnits_def res_simps)
  define r where "r = of_int fee / units"
  have r: "0 < r" using u assms(2) by (simp add: r_def)
  have f: "rat_quo r = \<lfloor>r\<rfloor>" using r by (simp add: rat_quo_floor)
  have "p = (if (if of_int \<lfloor>r\<rfloor> < r then \<lfloor>r\<rfloor> + 1 else \<lfloor>r\<rfloor>) \<le> 0 then 1 else if of_int \<lfloor>r\<rfloor> < r then \<lfloor>r\<rfloor> + 1 else \<lfloor>r\<rfloor>)"
    using assms u by (auto simp: ceilPriorityFromFeeAndUnits_def Let_def res_simps r_def [symmetric] f)
  moreover have "(if of_int \<lfloor>r\<rfloor> < r then \<lfloor>r\<rfloor> + 1 else \<lfloor>r\<rfloor>) = \<lceil>r\<rceil>"
    by (simp add: ceiling_altdef) (metis floor_of_int of_int_floor_le order_le_less)
  moreover have "0 < \<lceil>r\<rceil>" using r by simp
  ultimately have p: "p = \<lceil>r\<rceil>" by simp
  have "of_int fee \<le> of_int q * units \<longleftrightarrow> \<lceil>r\<rceil> \<le> q" for q
    using u by (simp add: ceiling_le_iff r_def divide_le_eq)
  with p \<open>0 < \<lceil>r\<rceil>\<close> show ?thesis by auto
qed

subsection \<open>Settlement against the snapshot\<close>

lemma enforce_shared_fee:
  "enforceAdmissionSharedMinPriority cfg pj asked m fee = Inr (q, b) \<Longrightarrow> fee q = Inr b"
  by (auto simp: enforceAdmissionSharedMinPriority_def Let_def res_simps split: if_splits)


subsection \<open>The catalogue\<close>

lemma catalog_put_lookup: "map_of (catalog_put k v m) = (map_of m)(k \<mapsto> v)"
proof
  fix x
  have "map_of (filter (\<lambda>e. fst e \<noteq> k) m) x = (if x = k then None else map_of m x)"
    by (induction m) auto
  then show "map_of (catalog_put k v m) x = ((map_of m)(k \<mapsto> v)) x" by (auto simp: catalog_put_def)
qed

lemma catalog_put_distinct: "distinct (map fst m) \<Longrightarrow> distinct (map fst (catalog_put k v m))"
  by (induction m) (auto simp: catalog_put_def)

definition catalog_ok :: "(string \<times> provider_service_config) list \<Rightarrow> (string \<times> provider_model_route) list \<Rightarrow> bool" where
  "catalog_ok services m \<longleftrightarrow> distinct (map fst m) \<and>
     (\<forall>(k, r) \<in> set m. k = rt_model_name r \<and>
       (\<exists>(sid, svc) \<in> set services. \<exists>model \<in> set (ps_models svc). r = route_of sid svc model))"

lemma catalog_ok_put:
  assumes "catalog_ok services m" "(sid, svc) \<in> set services" "model \<in> set (ps_models svc)"
  shows "catalog_ok services (catalog_put (NormalizeProviderModelName (pm_name model)) (route_of sid svc model) m)"
  using assms catalog_put_distinct [of m]
  by (auto simp: catalog_ok_def catalog_put_def route_of_def)

lemma catalog_fold_models:
  assumes "catalog_ok services m" "(sid, svc) \<in> set services" "set models \<subseteq> set (ps_models svc)"
  shows "catalog_ok services (fold (\<lambda>model. catalog_put (NormalizeProviderModelName (pm_name model)) (route_of sid svc model)) models m) \<and>
    fst ` set (fold (\<lambda>model. catalog_put (NormalizeProviderModelName (pm_name model)) (route_of sid svc model)) models m) =
      fst ` set m \<union> (\<lambda>model. NormalizeProviderModelName (pm_name model)) ` set models"
  using assms
proof (induction models arbitrary: m)
  case (Cons a models)
  have k: "fst ` set (catalog_put k v m) = insert k (fst ` set m)" for k :: string and v :: provider_model_route
    by (auto simp: catalog_put_def image_iff)
  from Cons.IH [OF catalog_ok_put [OF Cons.prems(1,2), of a]] Cons.prems show ?case
    by (auto simp: k)
qed simp

lemma catalog_fold_services:
  assumes "catalog_ok services m" "set svcs \<subseteq> set services"
  shows "catalog_ok services (fold (\<lambda>(serviceID, svc). fold (\<lambda>model. catalog_put (NormalizeProviderModelName (pm_name model)) (route_of serviceID svc model))
       (ps_models svc)) svcs m) \<and>
    fst ` set (fold (\<lambda>(serviceID, svc). fold (\<lambda>model. catalog_put (NormalizeProviderModelName (pm_name model)) (route_of serviceID svc model))
       (ps_models svc)) svcs m) =
      fst ` set m \<union> (\<Union>(sid, svc) \<in> set svcs. (\<lambda>model. NormalizeProviderModelName (pm_name model)) ` set (ps_models svc))"
  using assms
proof (induction svcs arbitrary: m)
  case (Cons a svcs)
  obtain sid svc where a: "a = (sid, svc)" by (cases a)
  with Cons.prems have "(sid, svc) \<in> set services" by simp
  note f = catalog_fold_models [OF Cons.prems(1) this subset_refl]
  show ?case using Cons.IH [OF f [THEN conjunct1]] Cons.prems(2) f a by auto
qed simp

text \<open>The catalogue holds exactly the configured models: a name is found, in any spelling,
  exactly when some service configures a model whose normalised name is the same, and what
  is found is the route of such a model under its normalised name.\<close>

theorem catalog_exact:
  "(IsConfiguredProviderModel (InitProviderCatalog services) name \<longleftrightarrow>
     (\<exists>(sid, svc) \<in> set services. \<exists>model \<in> set (ps_models svc).
        NormalizeProviderModelName (pm_name model) = NormalizeProviderModelName name)) \<and>
   (\<forall>r. LookupProviderModel (InitProviderCatalog services) name = Some r \<longrightarrow>
     rt_model_name r = NormalizeProviderModelName name \<and>
     (\<exists>(sid, svc) \<in> set services. \<exists>model \<in> set (ps_models svc). r = route_of sid svc model))"
proof -
  have f: "catalog_ok services (InitProviderCatalog services)"
    "fst ` set (InitProviderCatalog services) =
      (\<Union>(sid, svc) \<in> set services. (\<lambda>model. NormalizeProviderModelName (pm_name model)) ` set (ps_models svc))"
    using catalog_fold_services [of services "[]" services] by (simp_all add: InitProviderCatalog_def catalog_ok_def)
  have "IsConfiguredProviderModel (InitProviderCatalog services) name \<longleftrightarrow>
      NormalizeProviderModelName name \<in> fst ` set (InitProviderCatalog services)"
    by (simp add: IsConfiguredProviderModel_def LookupProviderModel_def map_of_eq_None_iff)
  also have "\<dots> \<longleftrightarrow> (\<exists>(sid, svc) \<in> set services. \<exists>model \<in> set (ps_models svc).
        NormalizeProviderModelName (pm_name model) = NormalizeProviderModelName name)"
    unfolding f(2) by force
  finally show ?thesis
    using f(1) by (auto simp: LookupProviderModel_def catalog_ok_def dest!: map_of_SomeD)
qed

subsection \<open>Sample provider tasks\<close>

lemma max_fee_one_cent: "MaxTaskFeeGweiFromPrice ''0.01'' = Inr 10000000"
  by code_simp

theorem provider_admission_nearest_witness:
  "enforceAdmissionSharedMinPriority sample_llm_config (Some auto_project) (Some 5) (Some 50)
     (\<lambda>p. ProviderBillableGwei p 30 ''0.01'') = Inr (50, 1500)"
proof -
  define adm where "adm p \<longleftrightarrow> 50 \<le> p \<and> p \<le> 1000 \<and>
    credits_for (1 / 1000) (floorProviderBillableGwei (min (of_int p * 30) (of_int 10000000))) \<le> 3" for p
  have pj: "cost_level_mode auto_project = CostLevelModeAuto" "pr_auto_max_credits_per_task auto_project = Some 3"
    by (simp_all add: auto_project_def cost_level_mode_def)
  have "credits_for (1 / 1000) (floorProviderBillableGwei (min (of_int 50 * 30) (of_int 10000000))) \<le> 3" by code_simp
  then have a: "adm 50" by (simp add: adm_def)
  then have ex: "\<exists>p. adm p" by blast
  have "(1 :: int) \<le> 1000" "(0 :: rat) \<le> 30" "(0 :: int) < 3" "(0 :: int) < 5" "(1 :: int) \<le> 50"
    "50 = (case Some 50 of Some m \<Rightarrow> if 0 < m then m else 1 | None \<Rightarrow> (1 :: int))" by simp_all
  note h = this
  have d: "adm = (\<lambda>p. 50 \<le> p \<and> p \<le> 1000 \<and>
    credits_for (1 / 1000) (floorProviderBillableGwei (min (of_int p * 30) (of_int 10000000))) \<le> 3)"
    by (simp add: fun_eq_iff adm_def)
  from provider_admission_nearest [OF sample_llm_config_bounds(1,2) h(1) sample_llm_config_bounds(3)
      max_fee_one_cent h(2) pj h(3,4,6,5) d, unfolded if_P [OF ex]] a
  obtain q where q: "adm q" "\<bar>q - 5\<bar> \<le> \<bar>50 - 5\<bar>"
    "enforceAdmissionSharedMinPriority sample_llm_config (Some auto_project) (Some 5) (Some 50)
       (\<lambda>p. ProviderBillableGwei p 30 ''0.01'') = Inr (q, min (of_int q * 30) (of_int 10000000))" by blast
  then have "q = 50" by (simp add: adm_def)
  with q(3) show ?thesis by simp
qed

theorem ceil_priority_least_witness:
  "ceilPriorityFromFeeAndUnits 10 (5 / 2) = Inr 4 \<and>
    (of_int 10 :: rat) \<le> of_int 4 * (5 / 2) \<and> \<not> (of_int 10 :: rat) \<le> of_int 3 * (5 / 2)"
proof -
  have c: "ceilPriorityFromFeeAndUnits 10 (5 / 2) = Inr 4" by code_simp
  have "(0 :: int) < 10" by simp
  from ceil_priority_least [OF c this] c show ?thesis by auto
qed

definition sample_route :: provider_model_route where
  "sample_route = \<lparr>rt_service_provider = ''openai'', rt_model_name = ''m'', rt_api_kind = ''chat'',
     rt_usage_weights = [(''input_tokens'', ''1''), (''output_tokens'', ''5''), (''cached_input_tokens'', ''0.1''),
       (''reasoning_tokens'', ''5'')], rt_display_name = ''OpenAI''\<rparr>"

definition sample_usage :: provider_usage where
  "sample_usage = \<lparr>pu_input = 9, pu_output = 40, pu_cached_input = 4, pu_cache_write_input = 0, pu_reasoning = 10,
     pu_tool_use_prompt = 0, pu_image_input = 0, pu_image_output = 0, pu_total = 49, pu_reasoning_in_output = True\<rparr>"

definition sample_input :: provider_input_estimate where
  "sample_input = \<lparr>pi_text_tokens = 10, pi_image_tokens = 0\<rparr>"

lemma sample_billing:
  "case BuildProviderBillingData sample_llm_config [] (Some static_project) sample_route (Some 5) sample_input 50 None of
     Inl _ \<Rightarrow> False
   | Inr (snap, credits) \<Rightarrow> credits = 1 \<and> pb_usage_weights snap = rt_usage_weights sample_route \<and>
       pb_estimated_input_tokens snap = 10 \<and> pb_estimated_output_tokens snap = 50"
  by code_simp

lemma sample_units: "CalculateProviderUnits sample_usage (rt_usage_weights sample_route) = Inr (1027 / 5)"
  by code_simp


text \<open>
  Validation requires weights only for some components. A service that reports another one,
  here tokens read from a cache, makes the units of the task an error, whatever the rest
  of the usage is; settlement then fails every time it is tried.
\<close>

lemma unpriced_component:
  assumes "pu_cached_input u \<noteq> 0" "TrimSpace (uw_cached_input_tokens w) = []"
  shows "\<exists>e. CalculateProviderUnits u (catalog_weights w) = Inl e"
proof -
  have "map_of (catalog_weights w) ''cached_input_tokens'' = None"
    using assms(2) by (simp add: catalog_weights_def usage_weight_fields_def)
  then have "usage_part (catalog_weights w) (pu_cached_input u) ''cached_input_tokens'' = Inl (ErrMsg ''missing usage weight'')"
    using assms(1) by (simp add: usage_part_def)
  then show ?thesis
    by (cases "usage_part (catalog_weights w) (billable_input u) ''input_tokens''";
        cases "usage_part (catalog_weights w) (billable_output u) ''output_tokens''")
       (auto simp: CalculateProviderUnits_def usage_parts_def)
qed

definition partial_weights :: usage_weights_config where
  "partial_weights = \<lparr>uw_input_tokens = ''1'', uw_output_tokens = ''5'', uw_cached_input_tokens = [],
     uw_cache_write_input_tokens = [], uw_reasoning_tokens = ''5'', uw_tool_use_prompt_tokens = [],
     uw_image_input_tokens = [], uw_image_output_tokens = []\<rparr>"

text \<open>The validated weights do not price every reported usage: there are weights that pass
  both checks of start-up for a chat model, and yet the units of every usage with cached
  input tokens are an error.\<close>

theorem checked_weights_incomplete:
  "checkProviderUsageWeights partial_weights = Inr () \<and>
   checkProviderRequiredUsageWeights ''openai'' ''chat'' partial_weights = Inr () \<and>
   (\<forall>u. pu_cached_input u \<noteq> 0 \<longrightarrow> (\<exists>e. CalculateProviderUnits u (catalog_weights partial_weights) = Inl e))"
proof -
  have "checkProviderUsageWeights partial_weights = Inr ()"
    "checkProviderRequiredUsageWeights ''openai'' ''chat'' partial_weights = Inr ()"
    by code_simp+
  moreover have "TrimSpace (uw_cached_input_tokens partial_weights) = []" by code_simp
  ultimately show ?thesis using unpriced_component by blast
qed

theorem checked_weights_incomplete_witness:
  "\<exists>e. CalculateProviderUnits sample_usage (catalog_weights partial_weights) = Inl e"
proof -
  have "pu_cached_input sample_usage \<noteq> 0" by (simp add: sample_usage_def)
  with checked_weights_incomplete show ?thesis by blast
qed

definition sample_services :: "(string \<times> provider_service_config) list" where
  "sample_services = [(''openai'', \<lparr>ps_display_name = ''OpenAI'',
     ps_models = [\<lparr>pm_name = '' GPT-X'', pm_api_kind = ''chat'', pm_usage_weights = partial_weights\<rparr>]\<rparr>)]"

theorem catalog_exact_witness:
  "IsConfiguredProviderModel (InitProviderCatalog sample_services) ''gpt-x'' \<and>
   \<not> IsConfiguredProviderModel (InitProviderCatalog sample_services) ''gpt-y''"
proof -
  have "NormalizeProviderModelName '' GPT-X'' = NormalizeProviderModelName ''gpt-x''"
    "NormalizeProviderModelName '' GPT-X'' \<noteq> NormalizeProviderModelName ''gpt-y''" by code_simp+
  then show ?thesis
    using catalog_exact [of sample_services "''gpt-x''"] catalog_exact [of sample_services "''gpt-y''"]
    by (simp add: sample_services_def)
qed

end
