(* ===== verification/Shared_Keys.thy ===== *)
theory Shared_Keys
  imports Database Config
begin

text \<open>
  Service keys shared by Key Owners (\<open>service/shared_api_key.go\<close>), their concurrency
  slots (\<open>service/provider_key_slots.go\<close>) and the binding of a secret to its row
  (\<open>SharedAPIKeyAAD\<close> in \<open>service/provider_key_crypto.go\<close>). The authenticated cipher, the
  fingerprint, the random token and the random choice are arguments.
\<close>

subsection \<open>Secrets\<close>

record key_cipher =
  kc_encrypt :: "string \<Rightarrow> string \<Rightarrow> err + string \<times> string"
  kc_decrypt :: "string \<Rightarrow> string \<Rightarrow> string \<Rightarrow> err + string"
  kc_fingerprint :: "string \<Rightarrow> string"

definition SharedAPIKeyAAD :: "string \<Rightarrow> nat \<Rightarrow> string \<Rightarrow> string" where
  "SharedAPIKeyAAD publicID ownerUserID serviceProvider =
     ''crynux-as:shared-api-key:'' @ publicID @ '':'' @ nat_str ownerUserID @ '':'' @ serviceProvider"

definition MaskAPIKeySuffix :: "string \<Rightarrow> string" where
  "MaskAPIKeySuffix secret = drop (length secret - (if length secret < 4 then length secret else 4)) secret"

definition set_keys :: "db \<Rightarrow> shared_api_key table \<Rightarrow> db" where
  "set_keys d t = d\<lparr>db_shared_keys := t\<rparr>"

definition key_row_of :: "string \<Rightarrow> nat \<Rightarrow> string \<Rightarrow> string \<Rightarrow> u64 \<Rightarrow> u64 \<Rightarrow> string \<Rightarrow> string \<Rightarrow> string \<Rightarrow> nat \<Rightarrow> shared_api_key" where
  "key_row_of publicID userID provider masked maxIn maxOut fingerprint ciphertext nonce n =
     \<lparr>sk_id = n, sk_public_id = publicID, sk_user_id = userID, sk_service_provider = provider,
      sk_masked_suffix = masked, sk_owner_enabled = True, sk_deleted_at = None,
      sk_consecutive_unavailable_count = 0, sk_cooldown_until = None,
      sk_used_input_tokens = 0, sk_used_output_tokens = 0,
      sk_max_input_tokens = Some maxIn, sk_max_output_tokens = Some maxOut,
      sk_fingerprint = Some fingerprint, sk_key_ciphertext = Some ciphertext, sk_key_nonce = Some nonce\<rparr>"

text \<open>
  \<open>cipher\<close> is \<open>None\<close> when the encryption is not initialised, \<open>validate\<close> is the credential
  validator when one is set, \<open>token\<close> the random token.
\<close>

definition CreateSharedAPIKey ::
  "provider_config \<Rightarrow> string list \<Rightarrow> key_cipher option \<Rightarrow> (string \<Rightarrow> string \<Rightarrow> err + unit) option \<Rightarrow> err + string \<Rightarrow>
   db \<Rightarrow> nat \<Rightarrow> string \<Rightarrow> string \<Rightarrow> err + db \<times> shared_api_key" where
  "CreateSharedAPIKey cfg services cipher validate token d userID provider secret =
     rejectIf (provider \<notin> set services) ErrSharedAPIKeyProvider
     (rejectIf (secret = [] \<or> uint (pv_max_secret_bytes cfg) < int (length secret)) ErrSharedAPIKeyInvalidSecret
     (bindE (of_option (ErrMsg ''provider key encryption is not initialized'') cipher) (\<lambda>enc.
      bindE (case validate of None \<Rightarrow> Inr () | Some v \<Rightarrow> v provider secret) (\<lambda>_.
      bindE token (\<lambda>t.
      let publicID = ''key_'' @ t in
      bindE (kc_encrypt enc secret (SharedAPIKeyAAD publicID userID provider)) (\<lambda>(ciphertext, nonce).
      duplicate_as ErrSharedAPIKeyDuplicate
        (bindE (tbl_create shared_key_clash
            (key_row_of publicID userID provider (MaskAPIKeySuffix secret) (pv_default_max_input_tokens cfg)
               (pv_default_max_output_tokens cfg) (kc_fingerprint enc secret) ciphertext nonce)
            (db_shared_keys d)) (\<lambda>(t, row). Inr (set_keys d t, row)))))))))"

definition DecryptSharedAPIKeySecret :: "key_cipher option \<Rightarrow> shared_api_key \<Rightarrow> err + string" where
  "DecryptSharedAPIKeySecret cipher key =
     bindE (of_option (ErrMsg ''provider key encryption is not initialized'') cipher) (\<lambda>enc.
     case (sk_key_ciphertext key, sk_key_nonce key) of
       (Some c, Some n) \<Rightarrow>
         rejectIf (c = [] \<or> n = []) (ErrMsg ''shared api key secret is unavailable'')
           (kc_decrypt enc c n (SharedAPIKeyAAD (sk_public_id key) (sk_user_id key) (sk_service_provider key)))
     | _ \<Rightarrow> Inl (ErrMsg ''shared api key secret is unavailable''))"

subsection \<open>The owner's operations\<close>

definition ListSharedAPIKeys :: "db \<Rightarrow> nat \<Rightarrow> shared_api_key list" where
  "ListSharedAPIKeys d userID =
     rev (tbl_where (\<lambda>k. sk_user_id k = userID \<and> sk_deleted_at k = None) (db_shared_keys d))"

definition find_key :: "db \<Rightarrow> nat \<Rightarrow> string \<Rightarrow> shared_api_key option" where
  "find_key d userID publicID = tbl_first (\<lambda>k. sk_user_id k = userID \<and> sk_public_id k = publicID) (db_shared_keys d)"

definition GetSharedAPIKeyByPublicID :: "db \<Rightarrow> nat \<Rightarrow> string \<Rightarrow> err + shared_api_key" where
  "GetSharedAPIKeyByPublicID d userID publicID = of_option ErrSharedAPIKeyNotFound (find_key d userID publicID)"

definition save_key :: "db \<Rightarrow> shared_api_key \<Rightarrow> db" where
  "save_key d row = set_keys d (tbl_save sk_id row (db_shared_keys d))"

definition setSharedAPIKeyEnabled :: "bool \<Rightarrow> db \<Rightarrow> nat \<Rightarrow> string \<Rightarrow> err + db \<times> shared_api_key" where
  "setSharedAPIKeyEnabled enabled d userID publicID =
     bindE (GetSharedAPIKeyByPublicID d userID publicID) (\<lambda>row.
     rejectIf (sk_deleted_at row \<noteq> None) ErrSharedAPIKeyDeleted
       (let row' = row\<lparr>sk_owner_enabled := enabled\<rparr> in Inr (save_key d row', row')))"

abbreviation EnableSharedAPIKey :: "db \<Rightarrow> nat \<Rightarrow> string \<Rightarrow> err + db \<times> shared_api_key" where
  "EnableSharedAPIKey \<equiv> setSharedAPIKeyEnabled True"
abbreviation DisableSharedAPIKey :: "db \<Rightarrow> nat \<Rightarrow> string \<Rightarrow> err + db \<times> shared_api_key" where
  "DisableSharedAPIKey \<equiv> setSharedAPIKeyEnabled False"

definition DeleteSharedAPIKey :: "gotime \<Rightarrow> db \<Rightarrow> nat \<Rightarrow> string \<Rightarrow> err + db" where
  "DeleteSharedAPIKey now d userID publicID =
     bindE (GetSharedAPIKeyByPublicID d userID publicID) (\<lambda>row.
     if sk_deleted_at row \<noteq> None then Inr d
     else Inr (save_key d (row\<lparr>sk_deleted_at := Some now, sk_owner_enabled := False, sk_fingerprint := None,
                               sk_key_ciphertext := None, sk_key_nonce := None\<rparr>)))"

definition UpdateSharedAPIKeyLimits ::
  "db \<Rightarrow> nat \<Rightarrow> string \<Rightarrow> u64 option \<Rightarrow> u64 option \<Rightarrow> err + db \<times> shared_api_key" where
  "UpdateSharedAPIKeyLimits d userID publicID maxInput maxOutput =
     rejectIf (maxInput = Some 0) ErrSharedAPIKeyInvalidLimit
     (rejectIf (maxOutput = Some 0) ErrSharedAPIKeyInvalidLimit
     (bindE (GetSharedAPIKeyByPublicID d userID publicID) (\<lambda>row.
      rejectIf (sk_deleted_at row \<noteq> None) ErrSharedAPIKeyDeleted
        (let row' = row\<lparr>sk_max_input_tokens := maxInput, sk_max_output_tokens := maxOutput\<rparr>
         in Inr (save_key d row', row')))))"

definition ResetSharedAPIKeyUsage :: "db \<Rightarrow> nat \<Rightarrow> string \<Rightarrow> err + db \<times> shared_api_key" where
  "ResetSharedAPIKeyUsage d userID publicID =
     bindE (GetSharedAPIKeyByPublicID d userID publicID) (\<lambda>row.
     rejectIf (sk_deleted_at row \<noteq> None) ErrSharedAPIKeyDeleted
       (let row' = row\<lparr>sk_used_input_tokens := 0, sk_used_output_tokens := 0\<rparr> in Inr (save_key d row', row')))"

definition CountEnabledSharedAPIKeys :: "db \<Rightarrow> nat \<Rightarrow> nat" where
  "CountEnabledSharedAPIKeys d userID =
     length (tbl_where (\<lambda>k. sk_user_id k = userID \<and> sk_owner_enabled k \<and> sk_deleted_at k = None) (db_shared_keys d))"

subsection \<open>Use of keys by the scheduler\<close>

text \<open>The WHERE clause of \<open>ListEligibleSharedAPIKeys\<close>.\<close>

definition eligible :: "gotime \<Rightarrow> string \<Rightarrow> shared_api_key \<Rightarrow> bool" where
  "eligible now provider k \<longleftrightarrow>
     sk_service_provider k = provider \<and> sk_owner_enabled k \<and> sk_deleted_at k = None \<and>
     (case sk_cooldown_until k of None \<Rightarrow> True | Some t \<Rightarrow> t \<le> now) \<and>
     (case sk_max_input_tokens k of None \<Rightarrow> True | Some m \<Rightarrow> sk_used_input_tokens k < m) \<and>
     (case sk_max_output_tokens k of None \<Rightarrow> True | Some m \<Rightarrow> sk_used_output_tokens k < m)"

definition ListEligibleSharedAPIKeys :: "gotime \<Rightarrow> db \<Rightarrow> string \<Rightarrow> shared_api_key list" where
  "ListEligibleSharedAPIKeys now d provider = tbl_where (eligible now provider) (db_shared_keys d)"

definition key_by :: "db \<Rightarrow> nat \<Rightarrow> shared_api_key option" where
  "key_by d keyID = tbl_lookup sk_id keyID (db_shared_keys d)"

definition AddSharedAPIKeyUsageTx :: "db \<Rightarrow> nat \<Rightarrow> u64 \<Rightarrow> u64 \<Rightarrow> err + db" where
  "AddSharedAPIKeyUsageTx d keyID inputTokens outputTokens =
     (if inputTokens = 0 \<and> outputTokens = 0 then Inr d
      else bindE (of_option ErrRecordNotFound (key_by d keyID)) (\<lambda>row.
        Inr (save_key d (row\<lparr>sk_used_input_tokens := sk_used_input_tokens row + inputTokens,
                             sk_used_output_tokens := sk_used_output_tokens row + outputTokens\<rparr>))))"

definition RecordSharedAPIKeyUnavailable :: "provider_config \<Rightarrow> gotime \<Rightarrow> db \<Rightarrow> nat \<Rightarrow> err + db" where
  "RecordSharedAPIKeyUnavailable cfg now d keyID =
     bindE (of_option ErrRecordNotFound (key_by d keyID)) (\<lambda>row.
       let next = sk_consecutive_unavailable_count row + 1 in
       Inr (save_key d
         (if 3 \<le> next
          then row\<lparr>sk_consecutive_unavailable_count := 0,
                   sk_cooldown_until := Some (now + seconds_duration (pv_key_cooldown_seconds cfg))\<rparr>
          else row\<lparr>sk_consecutive_unavailable_count := next\<rparr>)))"

definition ClearSharedAPIKeyUnavailable :: "db \<Rightarrow> nat \<Rightarrow> db" where
  "ClearSharedAPIKeyUnavailable d keyID =
     set_keys d (tbl_modify (\<lambda>k. sk_id k = keyID) (\<lambda>k. k\<lparr>sk_consecutive_unavailable_count := 0\<rparr>) (db_shared_keys d))"

subsection \<open>Slots\<close>

record key_slots =
  sl_active :: "nat \<Rightarrow> u64"
  sl_max :: u64

definition NewProviderKeySlotManager :: "u64 \<Rightarrow> key_slots" where
  "NewProviderKeySlotManager maxSlots = \<lparr>sl_active = (\<lambda>_. 0), sl_max = maxSlots\<rparr>"

definition slots_Available :: "key_slots \<Rightarrow> nat \<Rightarrow> bool" where
  "slots_Available m keyID \<longleftrightarrow> sl_active m keyID < sl_max m"

definition slots_Reserve :: "key_slots \<Rightarrow> nat \<Rightarrow> key_slots \<times> bool" where
  "slots_Reserve m keyID =
     (if sl_max m \<le> sl_active m keyID then (m, False)
      else (m\<lparr>sl_active := (sl_active m)(keyID := sl_active m keyID + 1)\<rparr>, True))"

definition slots_Release :: "key_slots \<Rightarrow> nat \<Rightarrow> key_slots" where
  "slots_Release m keyID =
     (if sl_active m keyID = 0 then m
      else m\<lparr>sl_active := (sl_active m)(keyID := sl_active m keyID - 1)\<rparr>)"

text \<open>\<open>pick n\<close> is \<open>rand.Intn(n)\<close>; \<open>slots\<close> is \<open>None\<close> for a nil manager.\<close>

definition SelectRandomEligibleKey ::
  "(nat \<Rightarrow> nat) \<Rightarrow> shared_api_key list \<Rightarrow> nat list \<Rightarrow> key_slots option \<Rightarrow> shared_api_key option" where
  "SelectRandomEligibleKey pick keys tried slots =
     (let candidates = filter (\<lambda>k. sk_id k \<notin> set tried \<and>
            (case slots of None \<Rightarrow> True | Some m \<Rightarrow> slots_Available m (sk_id k))) keys
      in if candidates = [] then None else Some (candidates ! pick (length candidates)))"

subsection \<open>Properties\<close>

definition keys_wf :: "db \<Rightarrow> bool" where
  "keys_wf d \<longleftrightarrow> tbl_wf sk_id (db_shared_keys d)"

lemma set_keys_sel [simp]: "db_shared_keys (set_keys d t) = t"
  by (simp add: set_keys_def)

lemma key_byD: "key_by d n = Some r \<Longrightarrow> r \<in> set (rows (db_shared_keys d)) \<and> sk_id r = n"
  unfolding key_by_def by (rule tbl_lookupD)

lemma key_by_save:
  assumes "keys_wf d" "key_by d (sk_id r) = Some old"
  shows "key_by (save_key d r) k = (if k = sk_id r then Some r else key_by d k)"
proof -
  have "sk_id r = sk_id old" using key_byD [OF assms(2)] by simp
  then show ?thesis
    using assms unfolding key_by_def save_key_def set_keys_sel
    by (intro key_by_id.lookup_save) (simp_all only: keys_wf_def idx_wf_key)
qed

lemma find_key_by:
  assumes "keys_wf d" "find_key d u p = Some r"
  shows "key_by d (sk_id r) = Some r" "sk_user_id r = u" "sk_public_id r = p"
proof -
  have r: "r \<in> set (rows (db_shared_keys d))" "sk_user_id r = u \<and> sk_public_id r = p"
    using tbl_firstD [OF assms(2) [unfolded find_key_def]] by auto
  show "key_by d (sk_id r) = Some r"
    unfolding key_by_def using assms(1) r(1)
    by (intro key_by_id.lookup_in) (simp_all add: keys_wf_def idx_wf_key)
  show "sk_user_id r = u" "sk_public_id r = p" using r(2) by simp_all
qed

lemma keys_wf_save:
  assumes "keys_wf d" "key_by d (sk_id r) = Some old"
  shows "keys_wf (save_key d r)"
proof -
  have "sk_id r = sk_id old" using key_byD [OF assms(2)] by simp
  then show ?thesis
    using assms key_by_id.wf_save [of "db_shared_keys d" r old]
    unfolding key_by_def save_key_def keys_wf_def set_keys_sel idx_wf_key by simp
qed


subsection \<open>Slots in use\<close>

text \<open>One call of the slot manager: a reservation, or a release of a slot.\<close>

inductive slot_step :: "key_slots \<Rightarrow> key_slots \<Rightarrow> bool" where
  slot_reserve: "slots_Reserve m keyID = (m', granted) \<Longrightarrow> slot_step m m'"
| slot_release: "slot_step m (slots_Release m keyID)"

definition slots_within :: "u64 \<Rightarrow> key_slots \<Rightarrow> bool" where
  "slots_within n m \<longleftrightarrow> sl_max m = n \<and> (\<forall>k. sl_active m k \<le> n)"

lemma slots_within_reserve:
  assumes "slots_within n m" "slots_Reserve m k = (m', granted)"
  shows "slots_within n m'"
proof (cases "sl_max m \<le> sl_active m k")
  case True
  then show ?thesis using assms by (simp add: slots_Reserve_def)
next
  case False
  then have "sl_active m k < n" using assms(1) by (simp add: slots_within_def)
  then have "sl_active m k + 1 \<le> n" by (rule inc_le)
  then show ?thesis using assms False by (auto simp: slots_Reserve_def slots_within_def)
qed

lemma slots_within_release: "slots_within n m \<Longrightarrow> slots_within n (slots_Release m k)"
  using word_sub_le [of 1 "sl_active m k"]
  by (auto simp: slots_Release_def slots_within_def word_le_sub1 intro: order_trans)

lemma slots_within_new: "slots_within n (NewProviderKeySlotManager n)"
  by (simp add: slots_within_def NewProviderKeySlotManager_def)

interpretation slot_system: invariant_system
  "\<lambda>m. m = NewProviderKeySlotManager n" slot_step "slots_within n" for n
  by unfold_locales
    (auto simp: slots_within_new elim!: slot_step.cases intro: slots_within_reserve slots_within_release)

text \<open>A key never serves more calls at once than configured: in every state the slot manager
  reaches from its start by reservations and releases, no key has more active slots than the
  maximum, and a further reservation is granted exactly when the key has fewer.\<close>

theorem slots_never_exceeded:
  assumes "reach (\<lambda>m. m = NewProviderKeySlotManager n) slot_step m"
  shows "sl_active m k \<le> n \<and> (snd (slots_Reserve m k) \<longleftrightarrow> sl_active m k < n)"
  using slot_system.reach_inv [OF assms]
  by (auto simp: slots_within_def slots_Reserve_def not_le)

theorem slots_never_exceeded_witness:
  "sl_active (slots_Release (fst (slots_Reserve (NewProviderKeySlotManager 1) 7)) 8) 7 \<le> 1 \<and>
   (snd (slots_Reserve (slots_Release (fst (slots_Reserve (NewProviderKeySlotManager 1) 7)) 8) 7) \<longleftrightarrow>
      sl_active (slots_Release (fst (slots_Reserve (NewProviderKeySlotManager 1) 7)) 8) 7 < 1)"
proof (rule slots_never_exceeded)
  let ?m = "NewProviderKeySlotManager 1"
  have "slot_step ?m (fst (slots_Reserve ?m 7))"
    by (rule slot_reserve [where keyID = 7 and granted = "snd (slots_Reserve ?m 7)"]) simp
  then have "reach (\<lambda>m. m = ?m) slot_step (fst (slots_Reserve ?m 7))"
    using reach_init [of "\<lambda>m. m = ?m" ?m slot_step] by (blast intro: reach_step)
  then show "reach (\<lambda>m. m = ?m) slot_step (slots_Release (fst (slots_Reserve ?m 7)) 8)"
    using slot_release by (rule reach_step)
qed

end
