(* ===== verification/Task_Jobs.thy ===== *)
theory Task_Jobs
  imports Task_Calls Task_Fee
begin

text \<open>
  Jobs of the Crynux network: the billing snapshot stored with a job (\<open>models/llm_job.go\<close>),
  admission, settlement, failure, bridge progress and retention of jobs
  (\<open>service/llm_job.go\<close>, \<open>service/raw_task_job.go\<close>, \<open>service/queue_timeout.go\<close>).

  Arguments of the operations: \<open>now\<close> is the clock, \<open>seed\<close> is \<open>EnsureTaskSeed\<close>, \<open>token\<close> the
  random token, \<open>wl\<close> the workload fields of a call. A row is stored without its transient
  fields; a job a caller holds carries them.
\<close>

subsection \<open>The billing snapshot\<close>

text \<open>\<open>json.Marshal\<close> rejects floats that are not finite.\<close>

definition finite_llm :: "llm_billing \<Rightarrow> bool" where
  "finite_llm b \<longleftrightarrow> \<not> list_ex f64_is_nan_or_inf
     [lb_vram_weight b, lb_constant_seconds b, lb_seconds_per_input_token b, lb_seconds_per_output_token b]"

definition EncodeTaskBillingData :: "task_billing_data \<Rightarrow> err + billing_column" where
  "EncodeTaskBillingData data =
     rejectIf (case bd_llm data of None \<Rightarrow> False | Some b \<Rightarrow> \<not> finite_llm b)
       (ErrMsg ''unsupported value'') (Inr (BillingJSON data))"

text \<open>The snapshot built for a job without one, from the fields the caller holds.\<close>

definition legacy_llm_billing :: "job_transient \<Rightarrow> llm_billing option" where
  "legacy_llm_billing t =
     (case (jt_vram_weight t, jt_constant_seconds t, jt_seconds_per_input_token t, jt_seconds_per_output_token t) of
        (Some w, Some c, Some i, Some out) \<Rightarrow>
          Some \<lparr>lb_vram_weight = w, lb_constant_seconds = c, lb_seconds_per_input_token = i,
                lb_seconds_per_output_token = out, lb_credits_per_gwei = ''1''\<rparr>
      | _ \<Rightarrow> None)"

definition legacy_billing :: "task_job \<Rightarrow> task_billing_data" where
  "legacy_billing j =
     \<lparr>bd_version = 1, bd_priority_gwei = int_str (tj_priority_gwei j), bd_billed_vram = tj_billed_vram j,
      bd_task_fee_wei = (case jt_task_fee_gwei (tj_transient j) of
          None \<Rightarrow> ''0'' | Some fee \<Rightarrow> int_str (fee * 1000000000)),
      bd_locked_credits = [], bd_llm = legacy_llm_billing (tj_transient j), bd_image = None, bd_provider = None\<rparr>"

definition check_billing :: "task_type \<Rightarrow> task_billing_data \<Rightarrow> err + task_billing_data" where
  "check_billing taskType data =
     rejectIf (bd_version data \<noteq> 1) (ErrMsg ''unsupported billing data version'')
     (rejectIf (case bigint_set_string (bd_priority_gwei data) of None \<Rightarrow> True | Some v \<Rightarrow> v \<le> 0)
        (ErrMsg ''invalid billing priority_gwei'')
     (rejectIf (case bigint_set_string (bd_task_fee_wei data) of None \<Rightarrow> True | Some v \<Rightarrow> v < 0)
        (ErrMsg ''invalid billing task_fee_wei'')
     (rejectIf (bd_provider data = None \<and> bd_billed_vram data = 0) (ErrMsg ''invalid billing billed_vram'')
     (rejectIf (taskType = TaskTypeLLM \<and> bd_llm data = None \<and> bd_provider data = None)
        (ErrMsg ''missing llm billing data'')
     (rejectIf (taskType = TaskTypeImage \<and> bd_image data = None \<and> bd_provider data = None)
        (ErrMsg ''missing image billing data'')
     (case bd_provider data of
        None \<Rightarrow> Inr data
      | Some p \<Rightarrow>
          rejectIf (pb_service_provider p = [] \<or> pb_model_name p = []) (ErrMsg ''invalid provider billing data'')
          (rejectIf (pb_usage_weights p = []) (ErrMsg ''missing provider usage weights'') (Inr data))))))))"

definition DecodeBillingData :: "task_job \<Rightarrow> err + task_billing_data" where
  "DecodeBillingData j =
     (case tj_billing_data j of
        BillingEmpty \<Rightarrow>
          if 0 < tj_priority_gwei j then Inr (legacy_billing j)
          else Inl (ErrMsg ''unexpected end of JSON input'')
      | BillingMalformed \<Rightarrow> Inl (ErrMsg ''invalid JSON'')
      | BillingJSON data \<Rightarrow> check_billing (tj_task_type j) data)"

subsection \<open>Rows of jobs\<close>

definition job_by :: "db \<Rightarrow> nat \<Rightarrow> task_job option" where
  "job_by d n = tbl_lookup tj_id n (db_task_jobs d)"

definition set_jobs :: "db \<Rightarrow> task_job table \<Rightarrow> db" where
  "set_jobs d t = d\<lparr>db_task_jobs := t\<rparr>"

definition update_job :: "db \<Rightarrow> nat \<Rightarrow> (task_job \<Rightarrow> task_job) \<Rightarrow> db" where
  "update_job d n f = set_jobs d (tbl_modify (\<lambda>j. tj_id j = n) f (db_task_jobs d))"

text \<open>\<open>tx.First(job, id)\<close> into a job the caller holds: the fields that are not columns stay.\<close>

definition reload_job :: "db \<Rightarrow> task_job \<Rightarrow> nat \<Rightarrow> err + task_job" where
  "reload_job d job n = bindE (of_option ErrRecordNotFound (job_by d n)) (\<lambda>r. Inr (r\<lparr>tj_transient := tj_transient job\<rparr>))"

definition loadProjectByID :: "db \<Rightarrow> nat \<Rightarrow> err + project" where
  "loadProjectByID d projectID =
     of_option (ErrMsg ''project not found'') (tbl_lookup pr_id projectID (db_projects d))"

definition GetTaskJobByPublicID :: "db \<Rightarrow> nat \<Rightarrow> string \<Rightarrow> err + task_job" where
  "GetTaskJobByPublicID d projectID publicID =
     of_option ErrTaskJobNotFound
       (tbl_first (\<lambda>j. tj_project_id j = projectID \<and> tj_public_id j = publicID) (db_task_jobs d))"

definition GetTaskJobByID :: "db \<Rightarrow> nat \<Rightarrow> err + task_job" where
  "GetTaskJobByID d jobID = of_option ErrTaskJobNotFound (job_by d jobID)"

text \<open>
  One poll of \<open>WaitForTaskJob\<close>: the loop ends with the job or an error, or goes on
  (\<open>None\<close>) to the next tick. \<open>timedOut\<close> carries the job as the code returns both.
\<close>

datatype wait_result = WaitDone task_job | WaitTimeout task_job | WaitError err

fun WaitForTaskJob :: "(db \<times> gotime) list \<Rightarrow> nat \<Rightarrow> gotime \<Rightarrow> wait_result" where
  "WaitForTaskJob [] jobID deadline = WaitError (ErrMsg ''context canceled'')"
| "WaitForTaskJob ((d, now) # ticks) jobID deadline =
     (case GetTaskJobByID d jobID of
        Inl e \<Rightarrow> WaitError e
      | Inr job \<Rightarrow>
          if IsTerminal job then WaitDone job
          else if deadline < now then WaitTimeout job
          else WaitForTaskJob ticks jobID deadline)"

subsection \<open>Admission\<close>

definition ValidateOptionalQueueTimeout :: "u64 option \<Rightarrow> err + unit" where
  "ValidateOptionalQueueTimeout queueTimeout =
     rejectIf (queueTimeout = Some 0) (ErrMsg ''queue_timeout must be greater than 0'') (Inr ())"

text \<open>The transaction all admissions share: the hold and the row, or nothing.\<close>

definition create_job_tx :: "db \<Rightarrow> nat \<Rightarrow> int option \<Rightarrow> (nat \<Rightarrow> task_job) \<Rightarrow> err + db \<times> task_job" where
  "create_job_tx d userID credits mk =
     bindE (reserveCreditsTx d userID credits) (\<lambda>d1.
     bindE (tbl_create (\<lambda>_ _. False) (\<lambda>n. (mk n)\<lparr>tj_transient := no_transient\<rparr>) (db_task_jobs d1)) (\<lambda>(t, row).
       Inr (set_jobs d1 t, mk (tj_id row))))"

record create_job_input =
  cj_project :: "project option"
  cj_api_type :: task_api_type
  cj_model :: string
  cj_billed_vram :: u64
  cj_background :: bool
  cj_stream :: bool
  cj_task_args_json :: string
  cj_priority_gwei :: "int option"
  cj_task_fee_gwei :: "int option"
  cj_median_priority_gwei :: "int option"
  cj_estimated_node_seconds :: "f64 option"
  cj_vram_weight :: "f64 option"
  cj_constant_seconds :: "f64 option"
  cj_seconds_per_input_token :: "f64 option"
  cj_seconds_per_output_token :: "f64 option"
  cj_credits_to_lock :: "int option"
  cj_queue_timeout :: "u64 option"

definition job_row_of ::
  "create_job_input \<Rightarrow> gotime \<Rightarrow> project \<Rightarrow> string \<Rightarrow> string \<Rightarrow> int \<Rightarrow> int \<Rightarrow> billing_column \<Rightarrow> nat \<Rightarrow> task_job" where
  "job_row_of inp now project taskArgs publicID priority credits billing n =
     \<lparr>tj_id = n, tj_created_at = now, tj_project_id = pr_id project, tj_user_id = pr_user_id project,
      tj_priority_gwei = priority, tj_sortable_priority = FormatSortablePriority (Some priority),
      tj_execution_source = ExecutionSourceCrynux, tj_task_type = TaskTypeLLM, tj_api_type = cj_api_type inp,
      tj_model = cj_model inp, tj_billed_vram = cj_billed_vram inp, tj_public_id = publicID,
      tj_background = cj_background inp, tj_stream = cj_stream inp, tj_task_args_json = taskArgs,
      tj_task_version = None, tj_min_vram = Some (cj_billed_vram inp),
      tj_queue_timeout = (case cj_queue_timeout inp of None \<Rightarrow> 0 | Some t \<Rightarrow> t),
      tj_bridge_client_task_id = None, tj_status = TaskJobStatusPendingSubmit, tj_phase = ''queued'',
      tj_estimated_completion_at = None, tj_raw_result_json = None, tj_formatted_result_json = None,
      tj_error_message = None, tj_billing_status = TaskJobBillingPending, tj_task_call_record_id = None,
      tj_billing_data = billing, tj_credits_locked = credits, tj_credits_lock_status = TaskJobCreditsLockHeld,
      tj_started_at = None, tj_completed_at = None,
      tj_transient = \<lparr>jt_task_fee_gwei = cj_task_fee_gwei inp, jt_median_priority_gwei = cj_median_priority_gwei inp,
        jt_estimated_node_seconds = cj_estimated_node_seconds inp, jt_vram_weight = cj_vram_weight inp,
        jt_constant_seconds = cj_constant_seconds inp, jt_seconds_per_input_token = cj_seconds_per_input_token inp,
        jt_seconds_per_output_token = cj_seconds_per_output_token inp\<rparr>\<rparr>"

definition llm_snapshot :: "llm_config \<Rightarrow> create_job_input \<Rightarrow> int \<Rightarrow> int \<Rightarrow> llm_billing \<Rightarrow> int \<Rightarrow> task_billing_data" where
  "llm_snapshot cfg inp priority feeGwei llm credits =
     \<lparr>bd_version = 1, bd_priority_gwei = int_str priority, bd_billed_vram = cj_billed_vram inp,
      bd_task_fee_wei = int_str (feeGwei * 1000000000), bd_locked_credits = int_str credits,
      bd_llm = Some (llm\<lparr>lb_credits_per_gwei := lc_credits_per_gwei cfg\<rparr>), bd_image = None, bd_provider = None\<rparr>"

definition input_llm_billing :: "create_job_input \<Rightarrow> llm_billing option" where
  "input_llm_billing inp =
     (case (cj_vram_weight inp, cj_constant_seconds inp, cj_seconds_per_input_token inp,
            cj_seconds_per_output_token inp) of
        (Some w, Some c, Some i, Some out) \<Rightarrow>
          Some \<lparr>lb_vram_weight = w, lb_constant_seconds = c, lb_seconds_per_input_token = i,
                lb_seconds_per_output_token = out, lb_credits_per_gwei = []\<rparr>
      | _ \<Rightarrow> None)"

definition ReserveCreditsAndCreateTaskJob ::
  "llm_config \<Rightarrow> (string \<Rightarrow> task_type \<Rightarrow> err + string) \<Rightarrow> err + string \<Rightarrow> gotime \<Rightarrow> db \<Rightarrow> create_job_input \<Rightarrow>
   err + db \<times> task_job" where
  "ReserveCreditsAndCreateTaskJob cfg seed token now d inp =
     bindE (of_option (ErrMsg ''project is required'') (cj_project inp)) (\<lambda>project.
     rejectIf (cj_model inp = []) (ErrMsg ''model is required'')
     (rejectIf (cj_task_args_json inp = []) (ErrMsg ''task args json is required'')
     (bindE (seed (cj_task_args_json inp) TaskTypeLLM) (\<lambda>taskArgs.
      bindE (of_option (ErrMsg ''priority_gwei is required'') (cj_priority_gwei inp)) (\<lambda>priority.
      rejectIf (priority \<le> 0) (ErrMsg ''priority_gwei is required'')
      (bindE (of_option (ErrMsg ''task_fee_gwei is required'') (cj_task_fee_gwei inp)) (\<lambda>feeGwei.
       rejectIf (feeGwei < 0) (ErrMsg ''task_fee_gwei is required'')
       (bindE (of_option (ErrMsg ''llm billing data is required'') (input_llm_billing inp)) (\<lambda>llm.
        bindE (of_option (ErrMsg ''credits_to_lock must be positive'') (cj_credits_to_lock inp)) (\<lambda>credits.
        rejectIf (credits \<le> 0) (ErrMsg ''credits_to_lock must be positive'')
        (bindE (ValidateOptionalQueueTimeout (cj_queue_timeout inp)) (\<lambda>_.
         bindE (EncodeTaskBillingData (llm_snapshot cfg inp priority feeGwei llm credits)) (\<lambda>billing.
         bindE (if cj_api_type inp = TaskAPITypeResponses then bindE token (\<lambda>t. Inr (''resp_'' @ t)) else Inr []) (\<lambda>publicID.
         create_job_tx d (pr_user_id project) (Some credits)
           (job_row_of inp now project taskArgs publicID priority credits billing)))))))))))))))"

record raw_job_input =
  rj_project :: "project option"
  rj_task_type :: task_type
  rj_api_type :: task_api_type
  rj_model :: string
  rj_task_args_json :: string
  rj_task_version :: "string option"
  rj_min_vram :: "u64 option"
  rj_priority_gwei :: "int option"
  rj_billed_vram :: u64
  rj_task_fee_wei :: "int option"
  rj_llm_billing :: "llm_billing option"
  rj_image_credits :: "int option"
  rj_credits_to_lock :: "int option"
  rj_queue_timeout :: "u64 option"

text \<open>The columns the code leaves out take their defaults \<open>crynux\<close> and \<open>0\<close>.\<close>

definition raw_row_of ::
  "raw_job_input \<Rightarrow> gotime \<Rightarrow> project \<Rightarrow> string \<Rightarrow> int \<Rightarrow> int \<Rightarrow> billing_column \<Rightarrow> nat \<Rightarrow> task_job" where
  "raw_row_of inp now project taskArgs priority credits billing n =
     \<lparr>tj_id = n, tj_created_at = now, tj_project_id = pr_id project, tj_user_id = pr_user_id project,
      tj_priority_gwei = priority, tj_sortable_priority = ''0'',
      tj_execution_source = ExecutionSourceCrynux, tj_task_type = rj_task_type inp, tj_api_type = rj_api_type inp,
      tj_model = rj_model inp, tj_billed_vram = rj_billed_vram inp, tj_public_id = [],
      tj_background = False, tj_stream = False, tj_task_args_json = taskArgs,
      tj_task_version = rj_task_version inp, tj_min_vram = rj_min_vram inp,
      tj_queue_timeout = (case rj_queue_timeout inp of None \<Rightarrow> 0 | Some t \<Rightarrow> t),
      tj_bridge_client_task_id = None, tj_status = TaskJobStatusPendingSubmit, tj_phase = ''queued'',
      tj_estimated_completion_at = None, tj_raw_result_json = None, tj_formatted_result_json = None,
      tj_error_message = None, tj_billing_status = TaskJobBillingPending, tj_task_call_record_id = None,
      tj_billing_data = billing, tj_credits_locked = credits, tj_credits_lock_status = TaskJobCreditsLockHeld,
      tj_started_at = None, tj_completed_at = None, tj_transient = no_transient\<rparr>"

definition raw_snapshot :: "raw_job_input \<Rightarrow> int \<Rightarrow> int \<Rightarrow> int \<Rightarrow> err + task_billing_data" where
  "raw_snapshot inp priority feeWei credits =
     (let billing = \<lparr>bd_version = 1, bd_priority_gwei = int_str priority, bd_billed_vram = rj_billed_vram inp,
            bd_task_fee_wei = int_str feeWei, bd_locked_credits = int_str credits,
            bd_llm = rj_llm_billing inp, bd_image = None, bd_provider = None\<rparr> in
      if rj_task_type inp = TaskTypeImage then
        (case rj_image_credits inp of
           None \<Rightarrow> Inl (ErrMsg ''image settlement credits are required'')
         | Some c \<Rightarrow> rejectIf (c \<le> 0) (ErrMsg ''image settlement credits are required'')
             (Inr (billing\<lparr>bd_image := Some (int_str c)\<rparr>)))
      else Inr billing)"

definition ReserveCreditsAndCreateRawTaskJob ::
  "(string \<Rightarrow> task_type \<Rightarrow> err + string) \<Rightarrow> gotime \<Rightarrow> db \<Rightarrow> raw_job_input \<Rightarrow> err + db \<times> task_job" where
  "ReserveCreditsAndCreateRawTaskJob seed now d inp =
     bindE (of_option (ErrMsg ''project is required'') (rj_project inp)) (\<lambda>project.
     rejectIf (rj_task_type inp \<noteq> TaskTypeLLM \<and> rj_task_type inp \<noteq> TaskTypeImage)
       (ErrMsg ''task_type must be 0 or 1'')
     (rejectIf (rj_model inp = [] \<or> rj_task_args_json inp = []) (ErrMsg ''model and task_args are required'')
     (bindE (seed (rj_task_args_json inp) (rj_task_type inp)) (\<lambda>taskArgs.
      bindE (of_option (ErrMsg ''priority_gwei is required'') (rj_priority_gwei inp)) (\<lambda>priority.
      rejectIf (priority \<le> 0) (ErrMsg ''priority_gwei is required'')
      (bindE (of_option (ErrMsg ''task_fee_wei is required'') (rj_task_fee_wei inp)) (\<lambda>feeWei.
       rejectIf (feeWei < 0) (ErrMsg ''task_fee_wei is required'')
       (rejectIf (rj_billed_vram inp = 0) (ErrMsg ''billed_vram must be positive'')
       (bindE (of_option (ErrMsg ''credits_to_lock must be positive'') (rj_credits_to_lock inp)) (\<lambda>credits.
        rejectIf (credits \<le> 0) (ErrMsg ''credits_to_lock must be positive'')
        (bindE (ValidateOptionalQueueTimeout (rj_queue_timeout inp)) (\<lambda>_.
         bindE (raw_snapshot inp priority feeWei credits) (\<lambda>snapshot.
         bindE (EncodeTaskBillingData snapshot) (\<lambda>billing.
         create_job_tx d (pr_user_id project) (Some credits)
           (raw_row_of inp now project taskArgs priority credits billing)))))))))))))))"

end
