(* ===== verification/Job_Settlement.thy ===== *)
theory Job_Settlement
  imports Task_Jobs
begin

text \<open>
  How a job of the Crynux network ends and how its progress is recorded
  (\<open>service/llm_job.go\<close>, \<open>service/raw_task_job.go\<close>, \<open>service/raw_task_abort.go\<close>). \<open>cfg\<close> and
  \<open>cache\<close> are the configuration and the queue cache, \<open>wl\<close> the workload fields of a call.
\<close>

subsection \<open>Settlement and failure\<close>

definition fillJobUserAndPriority ::
  "llm_config \<Rightarrow> queued_priority_cache \<Rightarrow> db \<Rightarrow> task_job \<Rightarrow> err + task_job" where
  "fillJobUserAndPriority cfg cache d job =
     (if tj_user_id job \<noteq> 0 \<and> tj_priority_gwei job \<noteq> 0 then Inr job
      else bindE (loadProjectByID d (tj_project_id job)) (\<lambda>project.
        let job1 = (if tj_user_id job = 0 then job\<lparr>tj_user_id := pr_user_id project\<rparr> else job) in
        if tj_priority_gwei job1 = 0 then
          bindE (ResolveEffectivePriorityGwei cfg cache (Some project)) (\<lambda>effective.
            Inr (job1\<lparr>tj_priority_gwei := effective\<rparr>))
        else Inr job1))"

text \<open>The call of a job as it is recorded; the fields both ends of a job share.\<close>

definition job_call :: "task_job \<Rightarrow> nat \<Rightarrow> gotime \<Rightarrow> int option \<Rightarrow> u64 \<Rightarrow> task_call_input" where
  "job_call locked userID now priority vram =
     \<lparr>in_user_id = userID, in_project_id = tj_project_id locked, in_task_job_id = Some (tj_id locked),
      in_task_type = tj_task_type locked, in_api_type = tj_api_type locked, in_model = tj_model locked,
      in_execution_source = [], in_shared_api_key_id = None, in_task_args_json = tj_task_args_json locked,
      in_prompt_tokens = 0, in_completion_tokens = 0, in_total_tokens = 0, in_priority_gwei = priority,
      in_token_usage_applicable = False, in_status = TaskCallStatusFailed, in_credits = Some 0,
      in_accepted_at = tj_created_at locked, in_completed_at = now, in_billed_vram = vram, in_charge = False\<rparr>"

text \<open>The owner to charge: the row's, or the one the caller filled in for a row without.\<close>

definition call_user :: "task_job \<Rightarrow> task_job \<Rightarrow> nat" where
  "call_user locked job = (if tj_user_id locked = 0 then tj_user_id job else tj_user_id locked)"

definition complete_row ::
  "task_job \<Rightarrow> gotime \<Rightarrow> string \<Rightarrow> string \<Rightarrow> nat \<Rightarrow> task_job \<Rightarrow> task_job" where
  "complete_row locked now raw formatted recordID j =
     j\<lparr>tj_status := TaskJobStatusCompleted, tj_phase := ''success'', tj_estimated_completion_at := None,
       tj_raw_result_json := Some raw, tj_formatted_result_json := Some formatted, tj_completed_at := Some now,
       tj_billing_status := TaskJobBillingBilled, tj_task_call_record_id := Some recordID,
       tj_credits_lock_status := tj_credits_lock_status locked\<rparr>"

definition complete_tx ::
  "workload_fn \<Rightarrow> gotime \<Rightarrow> db \<Rightarrow> task_job \<Rightarrow> string \<Rightarrow> string \<Rightarrow> u64 \<Rightarrow> u64 \<Rightarrow> u64 \<Rightarrow> int \<Rightarrow> err + db \<times> task_job" where
  "complete_tx wl now d job raw formatted promptTokens completionTokens totalTokens credits =
     bindE (of_option ErrRecordNotFound (job_by d (tj_id job))) (\<lambda>locked0.
     if tj_task_call_record_id locked0 \<noteq> None then Inr (d, locked0)
     else if tj_status locked0 = TaskJobStatusCompleted \<and> tj_billing_status locked0 = TaskJobBillingBilled
     then Inr (d, locked0)
     else
       bindE (releaseCreditsHoldTx d locked0) (\<lambda>(d1, locked).
       bindE (DecodeBillingData locked) (\<lambda>billing.
       let call = (job_call locked (call_user locked job) now (bigint_set_string (bd_priority_gwei billing))
             (bd_billed_vram billing))
           \<lparr>in_prompt_tokens := promptTokens, in_completion_tokens := completionTokens,
            in_total_tokens := totalTokens, in_token_usage_applicable := True,
            in_status := TaskCallStatusSuccess, in_credits := Some credits, in_charge := True\<rparr> in
       bindE (processTaskCallTx wl d1 call) (\<lambda>(d2, recordID).
       let d3 = update_job d2 (tj_id locked) (complete_row locked now raw formatted recordID) in
       bindE (reload_job d3 job (tj_id locked)) (\<lambda>job'. Inr (d3, job'))))))"

definition CompleteAndSettleTaskJob ::
  "llm_config \<Rightarrow> queued_priority_cache \<Rightarrow> workload_fn \<Rightarrow> gotime \<Rightarrow> db \<Rightarrow> task_job option \<Rightarrow> string \<Rightarrow> string \<Rightarrow>
   u64 \<Rightarrow> u64 \<Rightarrow> u64 \<Rightarrow> err + db \<times> task_job" where
  "CompleteAndSettleTaskJob cfg cache wl now d job0 raw formatted promptTokens completionTokens totalTokens =
     bindE (of_option (ErrMsg ''job is required'') job0) (\<lambda>job1.
     if tj_status job1 = TaskJobStatusCompleted \<and> tj_billing_status job1 = TaskJobBillingBilled
     then Inr (d, job1)
     else
       bindE (fillJobUserAndPriority cfg cache d job1) (\<lambda>job.
       rejectIf (tj_user_id job = 0) (ErrMsg ''job user_id is required'')
       (bindE (DecodeBillingData job) (\<lambda>billing.
        bindE (of_option (ErrMsg ''job llm billing data is required'') (bd_llm billing)) (\<lambda>llm.
        bindE (of_option (ErrMsg ''priority_gwei is required'') (bigint_set_string (bd_priority_gwei billing))) (\<lambda>priority.
        bindE (CalcCredits cfg promptTokens completionTokens priority (lb_vram_weight llm)
            \<lparr>ec_constant_seconds = lb_constant_seconds llm,
             ec_seconds_per_input_token = lb_seconds_per_input_token llm,
             ec_seconds_per_output_token = lb_seconds_per_output_token llm\<rparr>
            (lb_credits_per_gwei llm)) (\<lambda>credits.
        complete_tx wl now d job raw formatted promptTokens completionTokens totalTokens credits)))))))"

definition failed_row :: "task_job \<Rightarrow> gotime \<Rightarrow> string \<Rightarrow> nat \<Rightarrow> task_job \<Rightarrow> task_job" where
  "failed_row locked now msg recordID j =
     j\<lparr>tj_status := TaskJobStatusFailed, tj_phase := ''failed'', tj_estimated_completion_at := None,
       tj_error_message := Some msg, tj_billing_status := TaskJobBillingNotBilled, tj_completed_at := Some now,
       tj_task_call_record_id := Some recordID, tj_credits_lock_status := tj_credits_lock_status locked\<rparr>"

definition fail_tx :: "workload_fn \<Rightarrow> gotime \<Rightarrow> db \<Rightarrow> task_job \<Rightarrow> string \<Rightarrow> err + db \<times> task_job" where
  "fail_tx wl now d job msg =
     bindE (of_option ErrRecordNotFound (job_by d (tj_id job))) (\<lambda>locked0.
     if tj_task_call_record_id locked0 \<noteq> None then Inr (d, locked0)
     else
       bindE (releaseCreditsHoldTx d locked0) (\<lambda>(d1, locked).
       bindE (DecodeBillingData locked) (\<lambda>billing.
       let call = (job_call locked (call_user locked job) now (bigint_set_string (bd_priority_gwei billing))
             (bd_billed_vram billing))\<lparr>in_token_usage_applicable := (tj_task_type locked = TaskTypeLLM)\<rparr> in
       bindE (processTaskCallTx wl d1 call) (\<lambda>(d2, recordID).
       let d3 = update_job d2 (tj_id locked) (failed_row locked now msg recordID) in
       bindE (reload_job d3 job (tj_id locked)) (\<lambda>job'. Inr (d3, job'))))))"

definition FailAndRecordTaskJob ::
  "llm_config \<Rightarrow> queued_priority_cache \<Rightarrow> workload_fn \<Rightarrow> gotime \<Rightarrow> db \<Rightarrow> task_job option \<Rightarrow> string \<Rightarrow> err + db \<times> task_job" where
  "FailAndRecordTaskJob cfg cache wl now d job0 msg =
     bindE (of_option (ErrMsg ''job is required'') job0) (\<lambda>job1.
     bindE (fillJobUserAndPriority cfg cache d job1) (\<lambda>job.
     rejectIf (tj_user_id job = 0) (ErrMsg ''job user_id is required'') (fail_tx wl now d job msg)))"

text \<open>Marks a job failed without a record; nothing in the program calls it.\<close>

definition FailTaskJob :: "gotime \<Rightarrow> db \<Rightarrow> nat \<Rightarrow> string \<Rightarrow> err + db \<times> task_job" where
  "FailTaskJob now d jobID msg =
     bindE (of_option ErrRecordNotFound (job_by d jobID)) (\<lambda>locked0.
     bindE (if IsTerminal locked0 then Inr d
       else bindE (releaseCreditsHoldTx d locked0) (\<lambda>(d1, locked).
         Inr (update_job d1 jobID (\<lambda>j. j\<lparr>tj_status := TaskJobStatusFailed, tj_phase := ''failed'',
           tj_estimated_completion_at := None, tj_error_message := Some msg,
           tj_billing_status := TaskJobBillingNotBilled, tj_completed_at := Some now,
           tj_credits_lock_status := tj_credits_lock_status locked\<rparr>)))) (\<lambda>d'.
     bindE (GetTaskJobByID d' jobID) (\<lambda>job. Inr (d', job))))"

definition complete_image_row :: "task_job \<Rightarrow> gotime \<Rightarrow> nat \<Rightarrow> task_job \<Rightarrow> task_job" where
  "complete_image_row locked now recordID j =
     j\<lparr>tj_status := TaskJobStatusCompleted, tj_phase := ''success'', tj_estimated_completion_at := None,
       tj_billing_status := TaskJobBillingBilled, tj_completed_at := Some now,
       tj_task_call_record_id := Some recordID, tj_credits_lock_status := tj_credits_lock_status locked\<rparr>"

text \<open>A snapshot without image data is a nil pointer.\<close>

definition CompleteAndSettleImageTaskJob ::
  "workload_fn \<Rightarrow> gotime \<Rightarrow> db \<Rightarrow> task_job option \<Rightarrow> err + db \<times> task_job" where
  "CompleteAndSettleImageTaskJob wl now d job0 =
     bindE (of_option (ErrMsg ''job is required'') job0) (\<lambda>job.
     bindE (of_option ErrRecordNotFound (job_by d (tj_id job))) (\<lambda>locked0.
     if tj_task_call_record_id locked0 \<noteq> None then Inr (d, locked0)
     else
       bindE (releaseCreditsHoldTx d locked0) (\<lambda>(d1, locked).
       bindE (DecodeBillingData locked) (\<lambda>billing.
       bindE (of_option (ErrMsg ''panic'') (bd_image billing)) (\<lambda>settlement.
       case bigint_set_string settlement of
         None \<Rightarrow> Inl (ErrMsg ''invalid image settlement credits'')
       | Some credits \<Rightarrow>
           rejectIf (credits \<le> 0) (ErrMsg ''invalid image settlement credits'')
           (let call = (job_call locked (tj_user_id locked) now (bigint_set_string (bd_priority_gwei billing))
                  (bd_billed_vram billing))
                \<lparr>in_status := TaskCallStatusSuccess, in_credits := Some credits, in_charge := True\<rparr> in
            bindE (processTaskCallTx wl d1 call) (\<lambda>(d2, recordID).
            let d3 = update_job d2 (tj_id locked) (complete_image_row locked now recordID) in
            bindE (reload_job d3 job (tj_id locked)) (\<lambda>job'. Inr (d3, job')))))))))"

subsection \<open>Progress\<close>

definition ListUnfinishedTaskJobs :: "db \<Rightarrow> int \<Rightarrow> task_job list" where
  "ListUnfinishedTaskJobs d limit =
     take (nat (if limit \<le> 0 then 100 else limit))
       (sort_key tj_created_at (tbl_where (\<lambda>j. tj_execution_source j = ExecutionSourceCrynux \<and>
          tj_status j \<in> {TaskJobStatusPendingSubmit, TaskJobStatusSubmitted, TaskJobStatusInProgress}) (db_task_jobs d)))"

definition nonTerminalTaskJobStatuses :: "task_job_status list" where
  "nonTerminalTaskJobStatuses = [TaskJobStatusPendingSubmit, TaskJobStatusSubmitted, TaskJobStatusInProgress]"

text \<open>\<open>Where(p).Updates(f)\<close> on the jobs with one id.\<close>

definition update_where :: "db \<Rightarrow> nat \<Rightarrow> (task_job \<Rightarrow> bool) \<Rightarrow> (task_job \<Rightarrow> task_job) \<Rightarrow> db" where
  "update_where d n p f = set_jobs d (tbl_modify (\<lambda>j. tj_id j = n \<and> p j) f (db_task_jobs d))"

text \<open>The flag asks the bridge to abort the task it was given: the job has left the queue.\<close>

definition UpdateTaskJobBridgeTask :: "gotime \<Rightarrow> db \<Rightarrow> nat \<Rightarrow> nat \<Rightarrow> db \<times> bool" where
  "UpdateTaskJobBridgeTask now d jobID bridgeClientTaskID =
     (let p = (\<lambda>j. tj_status j = TaskJobStatusPendingSubmit) in
      (update_where d jobID p (\<lambda>j. j\<lparr>tj_bridge_client_task_id := Some bridgeClientTaskID,
         tj_status := TaskJobStatusSubmitted, tj_phase := ''queued'', tj_started_at := Some now\<rparr>),
       length (tbl_where (\<lambda>j. tj_id j = jobID \<and> p j) (db_task_jobs d)) \<noteq> 1))"

definition UpdateTaskJobStatus :: "db \<Rightarrow> nat \<Rightarrow> task_job_status \<Rightarrow> db" where
  "UpdateTaskJobStatus d jobID status =
     update_where d jobID (\<lambda>j. tj_status j \<in> set nonTerminalTaskJobStatuses) (\<lambda>j. j\<lparr>tj_status := status\<rparr>)"

definition UpdateTaskJobPhase :: "db \<Rightarrow> nat \<Rightarrow> task_job_status \<Rightarrow> string \<Rightarrow> gotime option \<Rightarrow> db" where
  "UpdateTaskJobPhase d jobID status phase eta =
     update_where d jobID (\<lambda>j. tj_status j \<in> {TaskJobStatusSubmitted, TaskJobStatusInProgress})
       (\<lambda>j. j\<lparr>tj_status := status, tj_phase := phase, tj_estimated_completion_at := eta\<rparr>)"

definition ResetTaskJobToPending :: "db \<Rightarrow> nat \<Rightarrow> db" where
  "ResetTaskJobToPending d jobID =
     update_where d jobID (\<lambda>j. tj_status j \<in> {TaskJobStatusSubmitted, TaskJobStatusInProgress} \<and>
         tj_task_call_record_id j = None)
       (\<lambda>j. j\<lparr>tj_status := TaskJobStatusPendingSubmit, tj_phase := ''queued'', tj_estimated_completion_at := None,
             tj_bridge_client_task_id := None, tj_started_at := None\<rparr>)"

subsection \<open>Abort of raw tasks\<close>

datatype bridge_abort_error = ErrAbortNotCancellable | ErrAbortNotFound | ErrAbortTemporary | ErrAbortOther

abbreviation RawTaskAbortErrorMessage :: string where "RawTaskAbortErrorMessage \<equiv> ''cancelled by client''"

definition loadProjectRawTaskJobForAbort :: "db \<Rightarrow> nat \<Rightarrow> nat \<Rightarrow> err + task_job" where
  "loadProjectRawTaskJobForAbort d projectID jobID =
     of_option ErrRawTaskAbortNotFound
       (tbl_first (\<lambda>j. tj_project_id j = projectID \<and> tj_id j = jobID \<and> tj_api_type j = TaskAPITypeRaw) (db_task_jobs d))"

definition mapBridgeAbortError :: "bridge_abort_error \<Rightarrow> err" where
  "mapBridgeAbortError e =
     (if e = ErrAbortNotCancellable \<or> e = ErrAbortNotFound then ErrRawTaskAbortNotCancellable
      else ErrRawTaskAbortTemporary)"

definition aborted_by_client :: "task_job \<Rightarrow> bool" where
  "aborted_by_client j \<longleftrightarrow> tj_status j = TaskJobStatusFailed \<and> tj_error_message j = Some RawTaskAbortErrorMessage"

text \<open>
  \<open>bridge\<close> is the answer of the bridge, \<open>between\<close> what other transactions do to the database
  while it is asked.
\<close>

definition AbortRawTaskJob ::
  "llm_config \<Rightarrow> queued_priority_cache \<Rightarrow> workload_fn \<Rightarrow> gotime \<Rightarrow> (nat \<Rightarrow> bridge_abort_error option) \<Rightarrow> (db \<Rightarrow> db) \<Rightarrow>
   db \<Rightarrow> nat \<Rightarrow> nat \<Rightarrow> db \<times> (err + task_job)" where
  "AbortRawTaskJob cfg cache wl now bridge between d projectID jobID =
     (let commit = (\<lambda>s r. case r of Inl e \<Rightarrow> (s, Inl e) | Inr (s', job) \<Rightarrow> (s', Inr job)) in
      case loadProjectRawTaskJobForAbort d projectID jobID of
        Inl e \<Rightarrow> (d, Inl e)
      | Inr job \<Rightarrow>
          if aborted_by_client job then (d, Inr job)
          else if tj_status job = TaskJobStatusCompleted then (d, Inl ErrRawTaskAbortAlreadyComplete)
          else if IsTerminal job then (d, Inl ErrRawTaskAbortNotCancellable)
          else (case tj_bridge_client_task_id job of
              None \<Rightarrow> commit d (FailAndRecordTaskJob cfg cache wl now d (Some job) RawTaskAbortErrorMessage)
            | Some b \<Rightarrow>
                (case bridge b of
                   Some e \<Rightarrow> (d, Inl (mapBridgeAbortError e))
                 | None \<Rightarrow>
                     let d1 = between d in
                     (case loadProjectRawTaskJobForAbort d1 projectID jobID of
                        Inl e \<Rightarrow> (d1, Inl e)
                      | Inr job1 \<Rightarrow>
                          if tj_status job1 = TaskJobStatusCompleted then (d1, Inl ErrRawTaskAbortAlreadyComplete)
                          else if aborted_by_client job1 then (d1, Inr job1)
                          else commit d1 (FailAndRecordTaskJob cfg cache wl now d1 (Some job1) RawTaskAbortErrorMessage)))))"

definition rawTaskAbortErrorString :: "err \<Rightarrow> string" where
  "rawTaskAbortErrorString e =
     (if e = ErrRawTaskAbortNotFound then ''task not found''
      else if e = ErrRawTaskAbortAlreadyComplete \<or> e = ErrRawTaskAbortNotCancellable then ''not_cancellable''
      else ''temporary_error'')"

record abort_batch_item =
  ab_client_task_id :: nat
  ab_job :: "task_job option"
  ab_error :: string

text \<open>The batch: \<open>now i\<close>, \<open>bridge i\<close> and \<open>between i\<close> are what the \<open>i\<close>-th abort meets.\<close>

fun AbortRawTaskJobs ::
  "llm_config \<Rightarrow> queued_priority_cache \<Rightarrow> workload_fn \<Rightarrow> (nat \<Rightarrow> gotime) \<Rightarrow> (nat \<Rightarrow> nat \<Rightarrow> bridge_abort_error option) \<Rightarrow>
   (nat \<Rightarrow> db \<Rightarrow> db) \<Rightarrow> db \<Rightarrow> nat \<Rightarrow> nat \<Rightarrow> nat list \<Rightarrow> db \<times> abort_batch_item list" where
  "AbortRawTaskJobs cfg cache wl now bridge between d projectID i [] = (d, [])"
| "AbortRawTaskJobs cfg cache wl now bridge between d projectID i (jobID # ids) =
     (let (d1, res) = AbortRawTaskJob cfg cache wl (now i) (bridge i) (between i) d projectID jobID;
          item = (case res of
              Inl e \<Rightarrow> \<lparr>ab_client_task_id = jobID, ab_job = None, ab_error = rawTaskAbortErrorString e\<rparr>
            | Inr job \<Rightarrow> \<lparr>ab_client_task_id = jobID, ab_job = Some job, ab_error = []\<rparr>);
          (d2, items) = AbortRawTaskJobs cfg cache wl now bridge between d1 projectID (Suc i) ids
      in (d2, item # items))"

end
