(* ===== verification/Job_Invariant.thy ===== *)
theory Job_Invariant
  imports Job_Settlement
begin

text \<open>
  The invariant of the job rows and of the records that close them, and what the end of a job
  does to it and to the Credits ledger. All ways a job ends (settled, settled as an image,
  failed; on the network or at a provider) release the hold, record the call and close the row
  in one transaction; \<open>closing\<close> is that pattern.
\<close>

subsection \<open>The invariant\<close>

definition job_ok :: "task_call_record list \<Rightarrow> task_job \<Rightarrow> bool" where
  "job_ok cs j \<longleftrightarrow>
     (case tj_task_call_record_id j of
        None \<Rightarrow> \<not> IsTerminal j \<and> tj_billing_status j = TaskJobBillingPending \<and>
          tj_credits_lock_status j = TaskJobCreditsLockHeld \<and> 0 < tj_credits_locked j \<and>
          (\<forall>c \<in> set cs. cr_task_job_id c \<noteq> Some (tj_id j))
      | Some r \<Rightarrow> tj_credits_lock_status j = TaskJobCreditsLockReleased \<and>
          (tj_status j = TaskJobStatusCompleted \<and> tj_billing_status j = TaskJobBillingBilled \<or>
           tj_status j = TaskJobStatusFailed \<and> tj_billing_status j = TaskJobBillingNotBilled) \<and>
          (\<exists>c \<in> set cs. cr_id c = r \<and> cr_task_job_id c = Some (tj_id j) \<and>
             (cr_status c = TaskCallStatusSuccess \<longleftrightarrow> tj_status j = TaskJobStatusCompleted)))"

definition jobs_inv :: "db \<Rightarrow> bool" where
  "jobs_inv d \<longleftrightarrow>
     tbl_wf tj_id (db_task_jobs d) \<and> tbl_wf cr_id (db_call_records d) \<and>
     (\<forall>j \<in> set (rows (db_task_jobs d)). job_ok (rows (db_call_records d)) j) \<and>
     (\<forall>c \<in> set (rows (db_call_records d)). \<forall>k. cr_task_job_id c = Some k \<longrightarrow> k < next_id (db_task_jobs d)) \<and>
     (\<forall>p \<in> set (st_pending (db_stats d)). p < next_id (db_call_records d)) \<and>
     (\<forall>e \<in> set (rows (db_credit_events d)). ce_type e = CreditEventTypeTaskCharge \<longrightarrow>
        ce_ref_id e < next_id (db_call_records d))"

lemma job_byD: "job_by d n = Some j \<Longrightarrow> j \<in> set (rows (db_task_jobs d)) \<and> tj_id j = n"
  unfolding job_by_def by (rule tbl_lookupD)

lemma job_by_in: "tbl_wf tj_id (db_task_jobs d) \<Longrightarrow> j \<in> set (rows (db_task_jobs d)) \<Longrightarrow> job_by d (tj_id j) = Some j"
  unfolding job_by_def by (rule job_by_id.lookup_in) (simp_all add: idx_wf_key)

lemma jobs_invD:
  assumes "jobs_inv d" "job_by d n = Some j"
  shows "job_ok (rows (db_call_records d)) j" "j \<in> set (rows (db_task_jobs d))" "tj_id j = n"
  using job_byD [OF assms(2)] assms(1) by (auto simp: jobs_inv_def)

lemma set_jobs_sel [simp]:
  "db_task_jobs (set_jobs d t) = t" "db_credit_accounts (set_jobs d t) = db_credit_accounts d"
  "db_credit_events (set_jobs d t) = db_credit_events d" "db_call_records (set_jobs d t) = db_call_records d"
  "db_stats (set_jobs d t) = db_stats d" "db_shared_keys (set_jobs d t) = db_shared_keys d"
  "db_earning_accounts (set_jobs d t) = db_earning_accounts d"
  "db_earning_events (set_jobs d t) = db_earning_events d" "db_projects (set_jobs d t) = db_projects d"
  "db_withdrawals (set_jobs d t) = db_withdrawals d" "db_users (set_jobs d t) = db_users d"
  "credit_acct (set_jobs d t) u = credit_acct d u" "ledger_of (set_jobs d t) u = ledger_of d u"
  by (simp_all add: set_jobs_def credit_acct_def ledger_of_def)

lemma save_account_tables [simp]:
  "db_call_records (save_account d a) = db_call_records d" "db_stats (save_account d a) = db_stats d"
  "db_shared_keys (save_account d a) = db_shared_keys d"
  "db_earning_accounts (save_account d a) = db_earning_accounts d"
  "db_earning_events (save_account d a) = db_earning_events d" "db_projects (save_account d a) = db_projects d"
  "db_withdrawals (save_account d a) = db_withdrawals d" "db_users (save_account d a) = db_users d"
  by (simp_all add: save_account_def)

lemma job_by_modify:
  assumes "tbl_wf tj_id (db_task_jobs d)" "db_task_jobs d' = tbl_modify (\<lambda>j. tj_id j = n \<and> p j) f (db_task_jobs d)"
    "\<And>j. tj_id (f j) = tj_id j"
  shows "job_by d' k = map_option (\<lambda>j. if k = n \<and> p j then f j else j) (job_by d k)"
proof (rule option_eqI)
  have wf: "tbl_wf tj_id (db_task_jobs d')"
    unfolding assms(2) using assms(1) by (rule tbl_wf_modify) (rule assms(3))
  fix r
  show "job_by d' k = Some r \<longleftrightarrow> map_option (\<lambda>j. if k = n \<and> p j then f j else j) (job_by d k) = Some r"
  proof
    assume "job_by d' k = Some r"
    then obtain j where j: "j \<in> set (rows (db_task_jobs d))" "r = (if tj_id j = n \<and> p j then f j else j)" "tj_id r = k"
      using job_byD [of d' k r] by (auto simp: assms(2))
    then have "tj_id j = k" using assms(3) by (auto split: if_splits)
    with job_by_in [OF assms(1) j(1)] j show "map_option (\<lambda>j. if k = n \<and> p j then f j else j) (job_by d k) = Some r"
      by auto
  next
    assume "map_option (\<lambda>j. if k = n \<and> p j then f j else j) (job_by d k) = Some r"
    then obtain j where j: "job_by d k = Some j" "r = (if k = n \<and> p j then f j else j)" by auto
    have "r \<in> set (rows (db_task_jobs d'))" "tj_id r = k"
      using job_byD [OF j(1)] j(2) assms(3) by (auto simp: assms(2) image_iff)
    with job_by_in [OF wf] show "job_by d' k = Some r" by auto
  qed
qed

subsection \<open>Recording a call\<close>

lemma charge_account_tables:
  assumes "charge_account d inp c = Inr (d', amt)"
  shows "db_stats d' = db_stats d \<and> db_credit_events d' = db_credit_events d \<and> db_shared_keys d' = db_shared_keys d \<and>
    db_earning_accounts d' = db_earning_accounts d \<and> db_earning_events d' = db_earning_events d \<and>
    db_withdrawals d' = db_withdrawals d \<and> db_users d' = db_users d \<and> db_projects d' = db_projects d"
  using assms by (auto simp: charge_account_def res_simps Let_def split: if_splits)

lemma process_tables:
  assumes "processTaskCallTx wl d inp = Inr (d', rid)"
  shows "rid = next_id (db_call_records d)"
    "db_call_records d' = \<lparr>rows = rows (db_call_records d) @ [call_record_of wl inp rid], next_id = Suc rid\<rparr>"
    "st_pending (db_stats d') = st_pending (db_stats d) @ [rid]"
    "\<forall>e \<in> set (rows (db_credit_events d')). e \<in> set (rows (db_credit_events d)) \<or> ce_ref_id e = rid"
    "db_task_jobs d' = db_task_jobs d" "db_shared_keys d' = db_shared_keys d"
    "db_earning_accounts d' = db_earning_accounts d" "db_earning_events d' = db_earning_events d"
    "db_withdrawals d' = db_withdrawals d" "db_users d' = db_users d" "db_projects d' = db_projects d"
proof -
  obtain d1 amt d2 r where s:
    "charge_account d inp (credits_of inp) = Inr (d1, amt)" "create_call_record wl d1 inp = Inr (d2, r)"
    "rid = cr_id r" "case amt of None \<Rightarrow> d' = d2
     | Some n \<Rightarrow> \<exists>e. create_credit_event d2 (charge_event (in_user_id inp) n rid) = Inr (d', e)"
    using assms by (rule processTaskCallTx_Inr)
  have c: "db_call_records d1 = db_call_records d" "db_task_jobs d1 = db_task_jobs d" "db_stats d1 = db_stats d"
    "db_credit_events d1 = db_credit_events d" "db_shared_keys d1 = db_shared_keys d"
    "db_earning_accounts d1 = db_earning_accounts d" "db_earning_events d1 = db_earning_events d"
    "db_withdrawals d1 = db_withdrawals d" "db_users d1 = db_users d" "db_projects d1 = db_projects d"
    using charge_account_jobs [OF s(1)] charge_account_tables [OF s(1)] by auto
  define k where "k = next_id (db_call_records d)"
  have r: "r = call_record_of wl inp k"
    "d2 = d1\<lparr>db_call_records := \<lparr>rows = rows (db_call_records d) @ [r], next_id = Suc k\<rparr>,
        db_stats := (db_stats d)\<lparr>st_pending := st_pending (db_stats d) @ [cr_id r]\<rparr>\<rparr>"
    using s(2) by (simp_all add: create_call_record_Inr c k_def)
  have rid: "rid = k" using s(3) r by (simp add: call_record_of_def)
  show "rid = next_id (db_call_records d)" using rid by (simp add: k_def)
  have fin: "d' = d2 \<or> (\<exists>t e. d' = d2\<lparr>db_credit_events := t\<rparr> \<and> rows t = rows (db_credit_events d2) @ [e] \<and> ce_ref_id e = rid)"
    using s(4) by (auto simp: create_credit_event_Inr res_simps charge_event_def split: option.splits)
  show "db_call_records d' = \<lparr>rows = rows (db_call_records d) @ [call_record_of wl inp rid], next_id = Suc rid\<rparr>"
    "st_pending (db_stats d') = st_pending (db_stats d) @ [rid]"
    "\<forall>e \<in> set (rows (db_credit_events d')). e \<in> set (rows (db_credit_events d)) \<or> ce_ref_id e = rid"
    "db_task_jobs d' = db_task_jobs d" "db_shared_keys d' = db_shared_keys d"
    "db_earning_accounts d' = db_earning_accounts d" "db_earning_events d' = db_earning_events d"
    "db_withdrawals d' = db_withdrawals d" "db_users d' = db_users d" "db_projects d' = db_projects d"
    using fin r rid s(3) c by auto
qed

text \<open>Recording succeeds when the times are in order and nothing refers to the new record yet.\<close>

definition call_fits :: "task_call_input \<Rightarrow> bool" where
  "call_fits inp \<longleftrightarrow> in_user_id inp \<noteq> 0 \<and> in_project_id inp \<noteq> 0 \<and> in_accepted_at inp \<noteq> zero_time \<and>
     in_completed_at inp \<noteq> zero_time \<and> in_accepted_at inp \<le> in_completed_at inp \<and> 0 \<le> credits_of inp"

lemma process_succeeds:
  assumes inv: "jobs_inv d0" "db_call_records d = db_call_records d0" "db_stats d = db_stats d0"
      "db_credit_events d = db_credit_events d0"
    and fits: "call_fits inp" and acct: "credit_acct d (in_user_id inp) \<noteq> None"
    and job: "in_task_job_id inp = Some n" "\<forall>c \<in> set (rows (db_call_records d)). cr_task_job_id c \<noteq> Some n"
  shows "\<exists>d' rid. processTaskCallTx wl d inp = Inr (d', rid)"
proof -
  obtain a where a: "credit_acct d (in_user_id inp) = Some a" using acct by blast
  have "\<exists>d1 amt. charge_account d inp (credits_of inp) = Inr (d1, amt)"
    by (auto simp: charge_account_def a Let_def)
  then obtain d1 amt where ch: "charge_account d inp (credits_of inp) = Inr (d1, amt)" by blast
  have c: "db_call_records d1 = db_call_records d" "db_stats d1 = db_stats d" "db_credit_events d1 = db_credit_events d"
    using charge_account_jobs [OF ch] charge_account_tables [OF ch] by auto
  let ?k = "next_id (db_call_records d)" and ?r = "call_record_of wl inp (next_id (db_call_records d))"
  have r: "cr_task_job_id ?r = Some n" "cr_id ?r = ?k" using job(1) by (simp_all add: call_record_of_def)
  have "\<forall>x \<in> set (rows (db_call_records d)). \<not> call_record_clash ?r x"
    using job(2) r by (auto simp: call_record_clash_def same_not_null_def)
  moreover have "?k \<notin> set (st_pending (db_stats d))" using inv by (auto simp: jobs_inv_def)
  ultimately obtain d2 where d2: "create_call_record wl d1 inp = Inr (d2, ?r)"
    by (simp add: create_call_record_Inr c r)
  have ev: "db_credit_events d2 = db_credit_events d" using create_call_record_sel [OF d2] c by simp
  have "\<exists>d3 e. create_credit_event d2 (charge_event (in_user_id inp) m ?k) = Inr (d3, e)" for m
    using inv by (auto simp: create_credit_event_Inr res_simps ev credit_event_clash_def charge_event_def jobs_inv_def)
  then obtain ev3 where ev3: "\<And>m. \<exists>d3. create_credit_event d2 (charge_event (in_user_id inp) m ?k) = Inr (d3, ev3 m)"
    by metis
  have start: "processTaskCallTx wl d inp = (case amt of None \<Rightarrow> Inr (d2, ?k)
      | Some m \<Rightarrow> bindE (duplicate_as (ErrMsg ''credit event already exists for task call'')
          (create_credit_event d2 (charge_event (in_user_id inp) m ?k))) (\<lambda>(d3, _). Inr (d3, ?k)))"
    using ch d2 r(2) fits
    by (cases amt) (simp_all add: processTaskCallTx_def call_fits_def credits_of_def)
  show ?thesis
  proof (cases amt)
    case None
    then show ?thesis by (simp add: start)
  next
    case (Some m)
    obtain d3 where "create_credit_event d2 (charge_event (in_user_id inp) m ?k) = Inr (d3, ev3 m)"
      using ev3 by blast
    then show ?thesis by (simp add: start Some duplicate_as_def)
  qed
qed

subsection \<open>Closing a job\<close>

abbreviation released :: "task_job \<Rightarrow> task_job" where
  "released j \<equiv> j\<lparr>tj_credits_lock_status := TaskJobCreditsLockReleased\<rparr>"

lemma update_job_sel [simp]:
  "db_task_jobs (update_job d n f) = tbl_modify (\<lambda>j. tj_id j = n) f (db_task_jobs d)"
  "db_credit_accounts (update_job d n f) = db_credit_accounts d"
  "db_credit_events (update_job d n f) = db_credit_events d"
  "db_call_records (update_job d n f) = db_call_records d" "db_stats (update_job d n f) = db_stats d"
  "db_shared_keys (update_job d n f) = db_shared_keys d"
  "db_earning_accounts (update_job d n f) = db_earning_accounts d"
  "db_earning_events (update_job d n f) = db_earning_events d"
  "db_withdrawals (update_job d n f) = db_withdrawals d" "db_users (update_job d n f) = db_users d"
  "db_projects (update_job d n f) = db_projects d" "credit_acct (update_job d n f) u = credit_acct d u"
  by (simp_all add: update_job_def)

lemma open_job:
  assumes L: "ledger_inv d" and J: "jobs_inv d" and j: "job_by d n = Some j" "tj_task_call_record_id j = None"
  obtains a where "credit_acct d (tj_user_id j) = Some a" "tj_credits_locked j \<le> ca_locked a" "0 < tj_credits_locked j"
    "tj_credits_lock_status j = TaskJobCreditsLockHeld"
proof -
  note jd = jobs_invD [OF J j(1)]
  have h: "0 < tj_credits_locked j" "tj_credits_lock_status j = TaskJobCreditsLockHeld"
    using jd(1) j(2) by (simp_all add: job_ok_def)
  then have "holds (tj_user_id j) j" by (simp add: holds_def)
  then have le: "tj_credits_locked j \<le> held_of d (tj_user_id j)"
    using held_of_job_le jd(2) L by (simp add: ledger_inv_def)
  have "credit_acct d (tj_user_id j) \<noteq> None"
    using L le h(1)
    by (cases "credit_acct d (tj_user_id j)")
       (auto simp: ledger_inv_def ledger_off_def ledger_ok_def dest!: spec [of _ "tj_user_id j"])
  then obtain a where a: "credit_acct d (tj_user_id j) = Some a" by blast
  with le have "tj_credits_locked j \<le> ca_locked a" using ledger_invD(2) [OF L a] by simp
  with a h show ?thesis using that by blast
qed

lemma release_exact:
  assumes L: "ledger_inv d" and J: "jobs_inv d" and j: "job_by d n = Some j" "tj_task_call_record_id j = None"
  obtains a d1 where "credit_acct d (tj_user_id j) = Some a" "tj_credits_locked j \<le> ca_locked a"
    "releaseCreditsHoldTx d j = Inr (d1, released j)"
    "d1 = update_job (save_account d (a\<lparr>ca_locked := ca_locked a - tj_credits_locked j\<rparr>)) n released"
    "ledger_inv d1"
proof -
  obtain a where a: "credit_acct d (tj_user_id j) = Some a" "tj_credits_locked j \<le> ca_locked a" "0 < tj_credits_locked j"
    "tj_credits_lock_status j = TaskJobCreditsLockHeld"
    using open_job [OF assms] by blast
  define d1 where "d1 = update_job (save_account d (a\<lparr>ca_locked := ca_locked a - tj_credits_locked j\<rparr>)) n released"
  note jd = jobs_invD [OF J j(1)]
  have rel: "releaseCreditsHoldTx d j = Inr (d1, released j)"
    using a by (simp add: releaseCreditsHoldTx_def d1_def update_job_def set_jobs_def jd(3))
  moreover have "ledger_inv d1"
    using release_off [of "\<lambda>_. 0" "\<lambda>_. 0" d j d1] L jd(2) rel by (simp add: ledger_inv_def)
  ultimately show ?thesis using that [OF a(1,2)] d1_def by blast
qed

text \<open>What the update that ends a job writes to its row.\<close>

definition closes :: "task_call_status \<Rightarrow> nat \<Rightarrow> (task_job \<Rightarrow> task_job) \<Rightarrow> bool" where
  "closes st recordID f \<longleftrightarrow>
     (\<forall>j. tj_id (f j) = tj_id j \<and> tj_user_id (f j) = tj_user_id j \<and> tj_credits_locked (f j) = tj_credits_locked j \<and>
        tj_task_call_record_id (f j) = Some recordID \<and>
        (tj_credits_lock_status j = TaskJobCreditsLockReleased \<longrightarrow>
           tj_credits_lock_status (f j) = TaskJobCreditsLockReleased) \<and>
        (if st = TaskCallStatusSuccess
         then tj_status (f j) = TaskJobStatusCompleted \<and> tj_billing_status (f j) = TaskJobBillingBilled
         else tj_status (f j) = TaskJobStatusFailed \<and> tj_billing_status (f j) = TaskJobBillingNotBilled))"

lemma job_ok_mono:
  assumes "job_ok cs j" "cr_task_job_id c \<noteq> Some (tj_id j)"
  shows "job_ok (cs @ [c]) j"
  using assms by (auto simp: job_ok_def split: option.splits)

lemma closing:
  assumes L: "ledger_inv d" and J: "jobs_inv d" and j: "job_by d n = Some j" "tj_task_call_record_id j = None"
    and rel: "releaseCreditsHoldTx d j = Inr (d1, locked)"
    and proc: "processTaskCallTx wl d1 inp = Inr (d2, rid)" and inp: "in_task_job_id inp = Some n"
    and f: "closes (in_status inp) rid f"
    and d3: "db_task_jobs d3 = db_task_jobs (update_job d2 n f)" "db_call_records d3 = db_call_records d2"
      "db_credit_accounts d3 = db_credit_accounts d2" "db_credit_events d3 = db_credit_events d2"
      "db_stats d3 = db_stats d2"
  shows "ledger_inv d3" "jobs_inv d3" "job_by d3 n = Some (f (released j))"
proof -
  obtain a where r1: "d1 = update_job (save_account d (a\<lparr>ca_locked := ca_locked a - tj_credits_locked j\<rparr>)) n released"
    and L1: "ledger_inv d1"
    using release_exact [OF L J j] rel by (metis Inr_inject prod.inject)
  note pt = process_tables [OF proc]
  note jd = jobs_invD [OF J j(1)]
  have tabs: "db_call_records d1 = db_call_records d" "db_stats d1 = db_stats d" "db_credit_events d1 = db_credit_events d"
    by (simp_all add: r1)
  have fid: "tj_id (f x) = tj_id x" for x using f by (simp add: closes_def)
  have frel: "tj_credits_lock_status (f x) = TaskJobCreditsLockReleased"
    if "tj_credits_lock_status x = TaskJobCreditsLockReleased" for x
    using f that unfolding closes_def by blast
  have jobs3: "db_task_jobs d3 = tbl_modify (\<lambda>x. tj_id x = n) (f \<circ> released) (db_task_jobs d)"
    by (rule table.equality) (auto simp: d3(1) pt(5) r1 fid)
  have rec3: "db_call_records d3 =
      \<lparr>rows = rows (db_call_records d) @ [call_record_of wl inp rid], next_id = Suc rid\<rparr>"
    "rid = next_id (db_call_records d)"
    using pt(1,2) d3(2) tabs by simp_all
  have wfj: "tbl_wf tj_id (db_task_jobs d3)"
    unfolding jobs3 using J by (intro tbl_wf_modify) (auto simp: jobs_inv_def fid)
  show by3: "job_by d3 n = Some (f (released j))"
    using job_by_modify [of d d3 n "\<lambda>_. True" "f \<circ> released" n] J j(1) jobs3 fid by (simp add: jobs_inv_def)
  have L2: "ledger_off (\<lambda>_. 0) (\<lambda>_. 0) d2" using process_off [OF L1 [unfolded ledger_inv_def] proc] .
  have "ledger_off (\<lambda>_. 0) (\<lambda>_. 0) (d2\<lparr>db_task_jobs := db_task_jobs d3\<rparr>)"
  proof (rule ledger_off_jobs [OF L2 wfj])
    have old: "x \<in> set (rows (db_task_jobs d2))" if "x \<in> set (rows (db_task_jobs d3))" "tj_id x \<noteq> n" for x
      using that by (auto simp: d3(1) fid)
    have new: "tj_credits_lock_status x \<noteq> TaskJobCreditsLockHeld" if "x \<in> set (rows (db_task_jobs d3))" "tj_id x = n" for x
      using that by (auto simp: jobs3 frel)
    show "0 \<le> tj_credits_locked x" if "x \<in> set (rows (db_task_jobs d3))"
      "tj_credits_lock_status x = TaskJobCreditsLockHeld" for x
    proof -
      have "x \<in> set (rows (db_task_jobs d2))" using old [OF that(1)] new [OF that(1)] that(2) by blast
      then show ?thesis using L2 that(2) unfolding ledger_off_def by blast
    qed
    have "map (\<lambda>x. if holds u x then tj_credits_locked x else 0) (rows (db_task_jobs d3)) =
        map (\<lambda>x. if holds u x then tj_credits_locked x else 0) (rows (db_task_jobs d2))" for u
      by (auto simp: d3(1) pt(5) r1 holds_def frel)
    then have "held_of (d2\<lparr>db_task_jobs := db_task_jobs d3\<rparr>) u = held_of d2 u" for u
      by (simp add: held_of_def tbl_sum_def)
    then show "0 = 0 + held_of d2 u - held_of (d2\<lparr>db_task_jobs := db_task_jobs d3\<rparr>) u" for u by simp
  qed
  then show "ledger_inv d3" unfolding ledger_inv_def by (rule ledger_off_cong) (simp_all add: d3)
  let ?r = "call_record_of wl inp rid"
  have r: "cr_task_job_id ?r = Some n" "cr_id ?r = rid" "cr_status ?r = in_status inp"
    using inp by (simp_all add: call_record_of_def)
  have ok: "job_ok (rows (db_call_records d3)) x" if x: "x \<in> set (rows (db_task_jobs d3))" for x
  proof (cases "tj_id x = n")
    case True
    with x by3 wfj have "x = f (released j)" using job_by_in by (metis option.inject)
    then show ?thesis using f r rec3 jd(3) by (cases "in_status inp") (auto simp: job_ok_def closes_def)
  next
    case False
    with x have "x \<in> set (rows (db_task_jobs d))" by (auto simp: jobs3 fid)
    with J have "job_ok (rows (db_call_records d)) x" by (simp add: jobs_inv_def)
    with False r(1) show ?thesis by (simp add: rec3 job_ok_mono)
  qed
  have Jd: "\<forall>c \<in> set (rows (db_call_records d)). \<forall>k. cr_task_job_id c = Some k \<longrightarrow> k < next_id (db_task_jobs d)"
    "\<forall>p \<in> set (st_pending (db_stats d)). p < rid" "tbl_wf cr_id (db_call_records d)"
    "\<forall>e \<in> set (rows (db_credit_events d)). ce_type e = CreditEventTypeTaskCharge \<longrightarrow> ce_ref_id e < rid"
    using J [unfolded jobs_inv_def] rec3(2) by blast+
  have n: "n < next_id (db_task_jobs d)" using J jd(2,3) by (auto simp: jobs_inv_def tbl_wf_def)
  have "tbl_wf cr_id (db_call_records d3)"
    using tbl_wf_create [OF Jd(3), of ?r] r(2) by (simp add: rec3(1) flip: rec3(2))
  moreover have "\<forall>c \<in> set (rows (db_call_records d3)). \<forall>k. cr_task_job_id c = Some k \<longrightarrow> k < next_id (db_task_jobs d3)"
    using Jd(1) n r(1) by (simp add: rec3(1) jobs3)
  moreover have "\<forall>p \<in> set (st_pending (db_stats d3)). p < next_id (db_call_records d3)"
    using Jd(2) by (simp add: rec3(1) d3(5) pt(3) tabs less_Suc_eq)
  moreover have "ce_type e = CreditEventTypeTaskCharge \<longrightarrow> ce_ref_id e < next_id (db_call_records d3)"
    if "e \<in> set (rows (db_credit_events d3))" for e
    using Jd(4) pt(4) that by (auto simp: rec3(1) d3(4) tabs less_Suc_eq)
  ultimately show "jobs_inv d3" using wfj ok by (simp add: jobs_inv_def)
qed

subsection \<open>Opening and moving a job\<close>

definition admits :: "nat \<Rightarrow> int \<Rightarrow> (nat \<Rightarrow> task_job) \<Rightarrow> bool" where
  "admits userID credits mk \<longleftrightarrow>
     (\<forall>n. tj_id (mk n) = n \<and> tj_user_id (mk n) = userID \<and> tj_credits_locked (mk n) = credits \<and>
        tj_credits_lock_status (mk n) = TaskJobCreditsLockHeld \<and> tj_task_call_record_id (mk n) = None \<and>
        tj_status (mk n) = TaskJobStatusPendingSubmit \<and> tj_billing_status (mk n) = TaskJobBillingPending)"

lemma admitting:
  assumes L: "ledger_inv d" and J: "jobs_inv d" and mk: "admits u c mk"
    and cr: "create_job_tx d u (Some c) mk = Inr (d', job)"
  obtains a n where "n = next_id (db_task_jobs d)" "job = mk n" "credit_acct d u = Some a" "0 < c"
    "c \<le> ca_balance a - ca_locked a" "credit_acct d' = (credit_acct d)(u \<mapsto> a\<lparr>ca_locked := ca_locked a + c\<rparr>)"
    "rows (db_task_jobs d') = rows (db_task_jobs d) @ [job\<lparr>tj_transient := no_transient\<rparr>]"
    "db_credit_events d' = db_credit_events d" "db_call_records d' = db_call_records d"
    "ledger_inv d'" "jobs_inv d'"
proof -
  define n where "n = next_id (db_task_jobs d)"
  define row where "row = (mk n)\<lparr>tj_transient := no_transient\<rparr>"
  obtain d1 where d1: "reserveCreditsTx d u (Some c) = Inr d1"
    using cr by (auto simp: create_job_tx_def res_simps)
  obtain a where a: "credit_acct d u = Some a" "0 < c" "c \<le> max 0 (ca_balance a - ca_locked a)"
    "d1 = save_account d (a\<lparr>ca_locked := ca_locked a + c\<rparr>)"
    using d1 by (auto simp: res_simps)
  note la = ledger_invD [OF L a(1)]
  have t: "tj_id row = n" "tj_user_id row = u" "tj_credits_locked row = c"
    "tj_credits_lock_status row = TaskJobCreditsLockHeld" "tj_task_call_record_id row = None"
    "tj_status row = TaskJobStatusPendingSubmit" "tj_billing_status row = TaskJobBillingPending"
    using mk by (simp_all add: row_def admits_def)
  define t' where "t' = \<lparr>rows = rows (db_task_jobs d) @ [row], next_id = Suc n\<rparr>"
  have d': "d' = set_jobs d1 t'" "job = mk n"
    using cr a(4) t(1) d1 by (auto simp: create_job_tx_def tbl_create_def Let_def t'_def row_def n_def list_ex_iff)
  have jobs: "db_task_jobs d' = t'" "db_call_records d' = db_call_records d" "db_credit_events d' = db_credit_events d"
    "db_stats d' = db_stats d"
    by (simp_all add: d' a(4))
  have L1: "ledger_off (\<lambda>_. 0) ((\<lambda>_. 0)(u := c)) d1"
    using reserve_off [OF L [unfolded ledger_inv_def] d1] by simp
  have wf: "tbl_wf tj_id (db_task_jobs d)" using J by (simp add: jobs_inv_def)
  have wf': "tbl_wf tj_id t'" unfolding t'_def n_def using tbl_wf_create [OF wf, of row] t(1) by (simp add: n_def)
  have "ledger_off (\<lambda>_. 0) (\<lambda>_. 0) (d1\<lparr>db_task_jobs := t'\<rparr>)"
  proof (rule ledger_off_jobs [OF L1 wf'])
    show "0 \<le> tj_credits_locked j" if "j \<in> set (rows t')" "tj_credits_lock_status j = TaskJobCreditsLockHeld" for j
      using that L1 t(3) a(2,4) by (auto simp: t'_def ledger_off_def)
    show "0 = ((\<lambda>_. 0)(u := c)) v + held_of d1 v - held_of (d1\<lparr>db_task_jobs := t'\<rparr>) v" for v
      using t(2-4) by (auto simp: held_of_def tbl_sum_def t'_def a(4) holds_def)
  qed
  then have Ld: "ledger_inv d'" by (simp add: d'(1) set_jobs_def ledger_inv_def)
  have Jall: "\<forall>j \<in> set (rows (db_task_jobs d)). job_ok (rows (db_call_records d)) j"
    "\<forall>c \<in> set (rows (db_call_records d)). \<forall>k. cr_task_job_id c = Some k \<longrightarrow> k < n"
    using J by (simp_all add: jobs_inv_def n_def)
  have "job_ok (rows (db_call_records d)) row"
    using Jall(2) t a(2) by (auto simp: job_ok_def IsTerminal_def)
  with Jall have ok: "\<forall>j \<in> set (rows t'). job_ok (rows (db_call_records d)) j" by (simp add: t'_def)
  have "\<forall>c \<in> set (rows (db_call_records d)). \<forall>k. cr_task_job_id c = Some k \<longrightarrow> k < next_id t'"
    using Jall(2) by (auto simp: t'_def less_Suc_eq)
  then have Jd: "jobs_inv d'" using J ok wf' by (simp add: jobs_inv_def jobs)
  have "credit_acct d' = (credit_acct d)(u \<mapsto> a\<lparr>ca_locked := ca_locked a + c\<rparr>)"
    using credit_acct_save [OF ledger_inv_wf [OF L] a(1), of "a\<lparr>ca_locked := ca_locked a + c\<rparr>"] la(5)
    by (simp add: fun_eq_iff d' a(4))
  moreover have "rows (db_task_jobs d') = rows (db_task_jobs d) @ [job\<lparr>tj_transient := no_transient\<rparr>]"
    by (simp add: jobs t'_def row_def d'(2))
  moreover have "c \<le> ca_balance a - ca_locked a" using a(2,3) by (simp add: max_def split: if_splits)
  ultimately show ?thesis using that [OF n_def d'(2) a(1,2)] Ld Jd jobs(2,3) by blast
qed

text \<open>What an update of an unfinished job may write to its row.\<close>

definition moves :: "(task_job \<Rightarrow> bool) \<Rightarrow> (task_job \<Rightarrow> task_job) \<Rightarrow> bool" where
  "moves p f \<longleftrightarrow>
     (\<forall>j. tj_id (f j) = tj_id j \<and> tj_user_id (f j) = tj_user_id j \<and> tj_credits_locked (f j) = tj_credits_locked j \<and>
        tj_credits_lock_status (f j) = tj_credits_lock_status j \<and>
        tj_task_call_record_id (f j) = tj_task_call_record_id j \<and> tj_billing_status (f j) = tj_billing_status j) \<and>
     (\<forall>j. p j \<longrightarrow> \<not> IsTerminal j \<and> \<not> IsTerminal (f j))"

lemma job_ok_open: "job_ok cs j \<Longrightarrow> tj_task_call_record_id j = None \<longleftrightarrow> \<not> IsTerminal j"
  by (auto simp: job_ok_def IsTerminal_def split: option.splits)

lemma moving:
  assumes L: "ledger_inv d" and J: "jobs_inv d" and f: "moves p f"
  shows "ledger_inv (update_where d n p f)" "jobs_inv (update_where d n p f)"
    "job_by (update_where d n p f) k = map_option (\<lambda>j. if k = n \<and> p j then f j else j) (job_by d k)"
proof -
  let ?q = "\<lambda>j. tj_id j = n \<and> p j" let ?d = "update_where d n p f"
  have e: "tj_id (f j) = tj_id j" "tj_user_id (f j) = tj_user_id j" "tj_credits_locked (f j) = tj_credits_locked j"
    "tj_credits_lock_status (f j) = tj_credits_lock_status j" "tj_task_call_record_id (f j) = tj_task_call_record_id j"
    "tj_billing_status (f j) = tj_billing_status j" for j
    using f by (simp_all add: moves_def)
  have wf: "tbl_wf tj_id (tbl_modify ?q f (db_task_jobs d))"
    using J e by (intro tbl_wf_modify) (auto simp: jobs_inv_def)
  have same: "map (\<lambda>j. if holds u j then tj_credits_locked j else 0) (rows (tbl_modify ?q f (db_task_jobs d))) =
      map (\<lambda>j. if holds u j then tj_credits_locked j else 0) (rows (db_task_jobs d))" for u
    by (auto simp: holds_def e)
  have "ledger_off (\<lambda>_. 0) (\<lambda>_. 0) (d\<lparr>db_task_jobs := tbl_modify ?q f (db_task_jobs d)\<rparr>)"
  proof (rule ledger_off_jobs [OF L [unfolded ledger_inv_def] wf])
    show "0 \<le> tj_credits_locked j" if "j \<in> set (rows (tbl_modify ?q f (db_task_jobs d)))"
      "tj_credits_lock_status j = TaskJobCreditsLockHeld" for j
      using that L by (auto simp: e ledger_inv_def ledger_off_def split: if_splits)
    show "0 = 0 + held_of d u - held_of (d\<lparr>db_task_jobs := tbl_modify ?q f (db_task_jobs d)\<rparr>) u" for u
      using same by (simp add: held_of_def tbl_sum_def del: map_map tbl_modify_sel)
  qed
  then show "ledger_inv ?d" by (simp add: update_where_def set_jobs_def ledger_inv_def)
  have "job_ok (rows (db_call_records d)) (if ?q j then f j else j)" if "j \<in> set (rows (db_task_jobs d))" for j
  proof -
    have ok: "job_ok (rows (db_call_records d)) j" using J that by (simp add: jobs_inv_def)
    show ?thesis
    proof (cases "?q j")
      case True
      then have "\<not> IsTerminal j" "\<not> IsTerminal (f j)" using f by (simp_all add: moves_def)
      with True ok job_ok_open [OF ok] show ?thesis by (simp add: job_ok_def e)
    qed (use ok in \<open>simp only: if_False\<close>)
  qed
  then have "\<forall>j \<in> set (rows (tbl_modify ?q f (db_task_jobs d))). job_ok (rows (db_call_records d)) j"
    by (simp only: tbl_modify_sel set_map ball_simps) blast
  then show "jobs_inv ?d" using J wf by (simp add: update_where_def jobs_inv_def)
  show "job_by ?d k = map_option (\<lambda>j. if k = n \<and> p j then f j else j) (job_by d k)"
    using job_by_modify [of d ?d n p f k] J e(1) by (simp add: update_where_def jobs_inv_def)
qed

end
