(* ===== verification/Job_Correctness.thy ===== *)
theory Job_Correctness
  imports Job_Invariant Task_Price
begin

text \<open>
  What the operations on the jobs of the Crynux network do, exactly: admission, settlement,
  failure and abort, on a database whose ledger and job rows satisfy their invariants.
\<close>

subsection \<open>The end of a job\<close>

lemma chargeable_pos: "chargeable inp = Some c \<Longrightarrow> 0 < c"
  by (auto simp: chargeable_def credits_of_def split: option.splits if_splits)

text \<open>What all ends of a job do to the accounts, the events and the row.\<close>

lemma ending_exact:
  assumes L: "ledger_inv d" and J: "jobs_inv d" and j: "job_by d n = Some j" "tj_task_call_record_id j = None"
    and rel: "releaseCreditsHoldTx d j = Inr (d1, locked)"
    and proc: "processTaskCallTx wl d1 inp = Inr (d2, rid)" and inp: "in_task_job_id inp = Some n"
    "in_user_id inp = tj_user_id j"
    and f: "closes (in_status inp) rid f"
    and d3: "db_task_jobs d3 = db_task_jobs (update_job d2 n f)" "db_call_records d3 = db_call_records d2"
      "db_credit_accounts d3 = db_credit_accounts d2" "db_credit_events d3 = db_credit_events d2"
      "db_stats d3 = db_stats d2"
  obtains a m where "credit_acct d (tj_user_id j) = Some a" "tj_credits_locked j \<le> ca_locked a"
    "m = (case chargeable inp of None \<Rightarrow> 0
       | Some c \<Rightarrow> min c (ca_balance a - (ca_locked a - tj_credits_locked j)))"
    "case chargeable inp of None \<Rightarrow> m = 0 | Some c \<Rightarrow> min c (tj_credits_locked j) \<le> m"
    "credit_acct d3 = (credit_acct d)(tj_user_id j \<mapsto> a\<lparr>ca_balance := ca_balance a - m,
        ca_locked := ca_locked a - tj_credits_locked j\<rparr>)"
    "rows (db_credit_events d3) = rows (db_credit_events d) @
       (if m = 0 then [] else [charge_event (tj_user_id j) m rid (next_id (db_credit_events d))])"
proof -
  let ?u = "tj_user_id j" and ?h = "tj_credits_locked j"
  obtain a where a: "credit_acct d ?u = Some a" "?h \<le> ca_locked a"
    and d1: "d1 = update_job (save_account d (a\<lparr>ca_locked := ca_locked a - ?h\<rparr>)) n released"
    and L1: "ledger_inv d1"
    using release_exact [OF L J j] rel by (metis Inr_inject prod.inject)
  note la = ledger_invD [OF L a(1)]
  have acct1: "credit_acct d1 = (credit_acct d)(?u \<mapsto> a\<lparr>ca_locked := ca_locked a - ?h\<rparr>)"
    using credit_acct_save [OF ledger_inv_wf [OF L] a(1), of "a\<lparr>ca_locked := ca_locked a - ?h\<rparr>"] la(5)
    by (simp add: fun_eq_iff d1)
  have ev1: "db_credit_events d1 = db_credit_events d" by (simp add: d1)
  have acct3: "credit_acct d3 = credit_acct d2" by (simp add: fun_eq_iff credit_acct_def d3(3))
  note pe = process_exact [OF L1 proc]
  define m where "m = (case chargeable inp of None \<Rightarrow> 0 | Some c \<Rightarrow> min c (ca_balance a - (ca_locked a - ?h)))"
  have m1: "case chargeable inp of None \<Rightarrow> m = 0 | Some c \<Rightarrow> min c ?h \<le> m"
    using la by (auto simp: m_def split: option.splits)
  have "credit_acct d3 = (credit_acct d)(?u \<mapsto> a\<lparr>ca_balance := ca_balance a - m, ca_locked := ca_locked a - ?h\<rparr>) \<and>
      rows (db_credit_events d3) = rows (db_credit_events d) @
       (if m = 0 then [] else [charge_event ?u m rid (next_id (db_credit_events d))])"
  proof (cases "chargeable inp")
    case None
    then show ?thesis using pe acct1 by (simp add: acct3 d3(4) ev1 m_def)
  next
    case (Some c)
    then have "m = min c (ca_balance a - (ca_locked a - ?h))" by (simp add: m_def)
    then show ?thesis using pe Some inp(2) acct1 by (auto simp: acct3 d3(4) ev1)
  qed
  with a m1 m_def that show ?thesis by blast
qed

lemma ending_succeeds:
  assumes L: "ledger_inv d" and J: "jobs_inv d" and j: "job_by d n = Some j" "tj_task_call_record_id j = None"
    and rel: "releaseCreditsHoldTx d j = Inr (d1, locked)"
    and inp: "call_fits inp" "in_task_job_id inp = Some n" "in_user_id inp = tj_user_id j"
  shows "\<exists>d2 rid. processTaskCallTx wl d1 inp = Inr (d2, rid)"
proof -
  obtain a where d1: "d1 = update_job (save_account d (a\<lparr>ca_locked := ca_locked a - tj_credits_locked j\<rparr>)) n released"
    and a: "credit_acct d (tj_user_id j) = Some a"
    using release_exact [OF L J j] rel by (metis Inr_inject prod.inject)
  have "credit_acct d1 (tj_user_id j) \<noteq> None"
    using credit_acct_save [OF ledger_inv_wf [OF L] a, of "a\<lparr>ca_locked := ca_locked a - tj_credits_locked j\<rparr>"]
      ledger_invD(5) [OF L a] by (simp add: d1)
  moreover have "\<forall>c \<in> set (rows (db_call_records d)). cr_task_job_id c \<noteq> Some n"
    using jobs_invD [OF J j(1)] j(2) by (simp add: job_ok_def)
  ultimately show ?thesis by (intro process_succeeds [OF J _ _ _ inp(1) _ inp(2)]) (simp_all add: d1 inp(3))
qed

lemma closes_complete: "closes TaskCallStatusSuccess r (complete_row l now raw formatted r)" if
  "tj_credits_lock_status l = TaskJobCreditsLockReleased"
  using that by (simp add: closes_def complete_row_def)

lemma closes_failed: "closes TaskCallStatusFailed r (failed_row l now msg r)" if
  "tj_credits_lock_status l = TaskJobCreditsLockReleased"
  using that by (simp add: closes_def failed_row_def)

lemma closes_image: "closes TaskCallStatusSuccess r (complete_image_row l now r)" if
  "tj_credits_lock_status l = TaskJobCreditsLockReleased"
  using that by (simp add: closes_def complete_image_row_def)

lemma decode_lock [simp]:
  "DecodeBillingData (j\<lparr>tj_credits_lock_status := s\<rparr>) = DecodeBillingData j"
  by (simp add: DecodeBillingData_def legacy_billing_def split: billing_column.split)

lemma job_call_sel [simp]:
  "in_task_job_id (job_call l u now p v) = Some (tj_id l)" "in_user_id (job_call l u now p v) = u"
  "in_status (job_call l u now p v) = TaskCallStatusFailed" "in_project_id (job_call l u now p v) = tj_project_id l"
  "in_accepted_at (job_call l u now p v) = tj_created_at l" "in_completed_at (job_call l u now p v) = now"
  "chargeable (job_call l u now p v) = None" "in_credits (job_call l u now p v) = Some 0"
  "in_charge (job_call l u now p v) = False"
  by (simp_all add: job_call_def chargeable_def)

lemma fill_id: "fillJobUserAndPriority cfg cache d job = Inr job' \<Longrightarrow> tj_id job' = tj_id job"
  by (auto simp: fillJobUserAndPriority_def res_simps Let_def split: if_splits)

subsection \<open>Settlement\<close>

text \<open>C8. A finished language-model job is settled exactly, in one transaction: if settling a
  job that has no record succeeds, the whole hold of the job is released and the owner pays
  the Credits computed from the snapshot stored with the job and the reported tokens, or what
  the account holds beyond the holds of its other jobs if that is less; never less than the
  smaller of price and hold. One charge event of that amount is written, the row is completed, billed
  and points to its record, no other account changes, and the ledger and the job rows stay
  consistent.\<close>

theorem job_settled_exact:
  assumes "ledger_inv d" "jobs_inv d" "job_by d (tj_id job) = Some row" "tj_task_call_record_id row = None"
    "tj_user_id row \<noteq> 0" "\<not> (tj_status job = TaskJobStatusCompleted \<and> tj_billing_status job = TaskJobBillingBilled)"
    "CompleteAndSettleTaskJob cfg cache wl now d (Some job) raw formatted prompt completion tokens = Inr (d', job')"
  shows "\<exists>filled billing llm priority credits a m rid.
    fillJobUserAndPriority cfg cache d job = Inr filled \<and> DecodeBillingData filled = Inr billing \<and>
    bd_llm billing = Some llm \<and> bigint_set_string (bd_priority_gwei billing) = Some priority \<and>
    CalcCredits cfg prompt completion priority (lb_vram_weight llm)
        \<lparr>ec_constant_seconds = lb_constant_seconds llm,
         ec_seconds_per_input_token = lb_seconds_per_input_token llm,
         ec_seconds_per_output_token = lb_seconds_per_output_token llm\<rparr> (lb_credits_per_gwei llm) = Inr credits \<and>
    1 \<le> credits \<and> credit_acct d (tj_user_id row) = Some a \<and>
    m = min credits (ca_balance a - (ca_locked a - tj_credits_locked row)) \<and>
    min credits (tj_credits_locked row) \<le> m \<and>
    credit_acct d' = (credit_acct d)(tj_user_id row \<mapsto> a\<lparr>ca_balance := ca_balance a - m,
        ca_locked := ca_locked a - tj_credits_locked row\<rparr>) \<and>
    rows (db_credit_events d') = rows (db_credit_events d) @
       (if m = 0 then [] else [charge_event (tj_user_id row) m rid (next_id (db_credit_events d))]) \<and>
    job_by d' (tj_id job) = Some (complete_row (released row) now raw formatted rid row) \<and>
    ledger_inv d' \<and> jobs_inv d'"
proof -
  note jd = jobs_invD [OF assms(2,3)]
  obtain filled billing llm priority credits where s:
    "fillJobUserAndPriority cfg cache d job = Inr filled" "DecodeBillingData filled = Inr billing"
    "bd_llm billing = Some llm" "bigint_set_string (bd_priority_gwei billing) = Some priority"
    "CalcCredits cfg prompt completion priority (lb_vram_weight llm)
        \<lparr>ec_constant_seconds = lb_constant_seconds llm,
         ec_seconds_per_input_token = lb_seconds_per_input_token llm,
         ec_seconds_per_output_token = lb_seconds_per_output_token llm\<rparr> (lb_credits_per_gwei llm) = Inr credits"
    "complete_tx wl now d filled raw formatted prompt completion tokens credits = Inr (d', job')"
    using assms(6,7) by (auto simp: CompleteAndSettleTaskJob_def res_simps)
  have n: "tj_id filled = tj_id job" using s(1) by (rule fill_id)
  have c: "1 \<le> credits" using s(5) by (auto simp: CalcCredits_def res_simps dest: CalcCreditsFromBillable_pos)
  have open_row: "\<not> (tj_status row = TaskJobStatusCompleted \<and> tj_billing_status row = TaskJobBillingBilled)"
    using jd(1) assms(4) by (simp add: job_ok_def)
  obtain a0 d1 where rel: "releaseCreditsHoldTx d row = Inr (d1, released row)"
    using release_exact [OF assms(1-4)] by blast
  obtain b2 d2 rid where p: "DecodeBillingData (released row) = Inr b2"
    "processTaskCallTx wl d1 ((job_call (released row) (tj_user_id row) now (bigint_set_string (bd_priority_gwei b2))
        (bd_billed_vram b2)) \<lparr>in_prompt_tokens := prompt, in_completion_tokens := completion,
          in_total_tokens := tokens, in_token_usage_applicable := True,
          in_status := TaskCallStatusSuccess, in_credits := Some credits, in_charge := True\<rparr>) = Inr (d2, rid)"
    "d' = update_job d2 (tj_id job) (complete_row (released row) now raw formatted rid)"
    using s(6) open_row assms(3-5) n rel jd(3)
    by (auto simp: complete_tx_def res_simps Let_def call_user_def)
  let ?inp = "(job_call (released row) (tj_user_id row) now (bigint_set_string (bd_priority_gwei b2))
        (bd_billed_vram b2)) \<lparr>in_prompt_tokens := prompt, in_completion_tokens := completion,
          in_total_tokens := tokens, in_token_usage_applicable := True,
          in_status := TaskCallStatusSuccess, in_credits := Some credits, in_charge := True\<rparr>"
  have i: "in_task_job_id ?inp = Some (tj_id job)" "in_user_id ?inp = tj_user_id row"
    "chargeable ?inp = Some credits" "in_status ?inp = TaskCallStatusSuccess"
    using jd(3) c by (simp_all add: chargeable_def)
  have f: "closes (in_status ?inp) rid (complete_row (released row) now raw formatted rid)"
    by (simp add: closes_complete)
  note clo = closing [OF assms(1-4) rel p(2) i(1) f, of d', unfolded p(3), simplified]
  obtain a m where am: "credit_acct d (tj_user_id row) = Some a"
    "m = min credits (ca_balance a - (ca_locked a - tj_credits_locked row))" "min credits (tj_credits_locked row) \<le> m"
    "credit_acct d' = (credit_acct d)(tj_user_id row \<mapsto> a\<lparr>ca_balance := ca_balance a - m,
        ca_locked := ca_locked a - tj_credits_locked row\<rparr>)"
    "rows (db_credit_events d') = rows (db_credit_events d) @
       (if m = 0 then [] else [charge_event (tj_user_id row) m rid (next_id (db_credit_events d))])"
    by (rule ending_exact [OF assms(1-4) rel p(2) i(1,2) f, of d'])
       (auto simp: p(3) i(3))
  have "complete_row (released row) now raw formatted rid (released row) = complete_row (released row) now raw formatted rid row"
    by (simp add: complete_row_def)
  then show ?thesis using s(1-5) c am clo p(3) by (intro exI conjI) (assumption | simp)+
qed

text \<open>A database with one open job of user 1, which holds 40 of the 100 Credits of the account.\<close>

definition sample_snapshot :: task_billing_data where
  "sample_snapshot = \<lparr>bd_version = 1, bd_priority_gwei = ''400'', bd_billed_vram = 1, bd_task_fee_wei = ''0'',
     bd_locked_credits = ''40'',
     bd_llm = Some \<lparr>lb_vram_weight = Fin 1, lb_constant_seconds = Fin 6, lb_seconds_per_input_token = Fin 0,
       lb_seconds_per_output_token = Fin 0, lb_credits_per_gwei = ''0.001''\<rparr>,
     bd_image = None, bd_provider = None\<rparr>"

definition sample_job :: task_job where
  "sample_job = \<lparr>tj_id = 1, tj_created_at = 10, tj_project_id = 1, tj_user_id = 1, tj_priority_gwei = 400,
     tj_sortable_priority = ''0'', tj_execution_source = ExecutionSourceCrynux, tj_task_type = TaskTypeLLM,
     tj_api_type = TaskAPITypeRaw, tj_model = ''m'', tj_billed_vram = 1, tj_public_id = [],
     tj_background = False, tj_stream = False, tj_task_args_json = ''{}'', tj_task_version = None,
     tj_min_vram = None, tj_queue_timeout = 0, tj_bridge_client_task_id = None,
     tj_status = TaskJobStatusPendingSubmit, tj_phase = ''queued'', tj_estimated_completion_at = None,
     tj_raw_result_json = None, tj_formatted_result_json = None, tj_error_message = None,
     tj_billing_status = TaskJobBillingPending, tj_task_call_record_id = None,
     tj_billing_data = BillingJSON sample_snapshot, tj_credits_locked = 40,
     tj_credits_lock_status = TaskJobCreditsLockHeld, tj_started_at = None, tj_completed_at = None,
     tj_transient = no_transient\<rparr>"

definition sample_job_db :: db where
  "sample_job_db = sample_db
     \<lparr>db_credit_accounts := \<lparr>rows = [\<lparr>ca_id = 1, ca_user_id = 1, ca_balance = 100, ca_locked = 40\<rparr>], next_id = 2\<rparr>,
      db_task_jobs := \<lparr>rows = [sample_job], next_id = 2\<rparr>\<rparr>"

lemma sample_job_db_inv: "ledger_inv sample_job_db" "jobs_inv sample_job_db"
  by (simp_all add: ledger_inv_def ledger_off_def ledger_ok_def sample_job_db_def sample_db_def empty_db_def idx_wf_def
      tbl_wf_def credit_acct_def tbl_lookup_def tbl_first_def ledger_of_def held_of_def tbl_sum_def
      event_delta_def jobs_inv_def job_ok_def sample_job_def IsTerminal_def holds_def empty_stats_def)

lemma sample_job_by: "job_by sample_job_db 1 = Some sample_job"
  by (simp add: job_by_def sample_job_db_def tbl_lookup_def tbl_first_def sample_job_def)

lemma sample_snapshot_decodes: "DecodeBillingData sample_job = Inr sample_snapshot"
  by code_simp

text \<open>Settling succeeds when the job can be priced and its times are in order.\<close>

lemma settle_succeeds:
  assumes "ledger_inv d" "jobs_inv d" "job_by d (tj_id job) = Some job" "tj_task_call_record_id job = None"
    "tj_user_id job \<noteq> 0" "tj_project_id job \<noteq> 0" "tj_priority_gwei job \<noteq> 0" "tj_created_at job \<noteq> zero_time"
    "now \<noteq> zero_time" "tj_created_at job \<le> now" "DecodeBillingData job = Inr billing" "bd_llm billing = Some llm"
    "bigint_set_string (bd_priority_gwei billing) = Some priority"
    "CalcCredits cfg prompt completion priority (lb_vram_weight llm)
        \<lparr>ec_constant_seconds = lb_constant_seconds llm,
         ec_seconds_per_input_token = lb_seconds_per_input_token llm,
         ec_seconds_per_output_token = lb_seconds_per_output_token llm\<rparr> (lb_credits_per_gwei llm) = Inr credits"
  shows "\<exists>r. CompleteAndSettleTaskJob cfg cache wl now d (Some job) raw formatted prompt completion tokens = Inr r"
proof -
  note jd = jobs_invD [OF assms(2,3)]
  have nt: "\<not> (tj_status job = TaskJobStatusCompleted \<and> tj_billing_status job = TaskJobBillingBilled)"
    using jd(1) assms(4) by (simp add: job_ok_def)
  obtain d1 where rel: "releaseCreditsHoldTx d job = Inr (d1, released job)"
    using release_exact [OF assms(1-4)] by blast
  have c: "1 \<le> credits" using assms(14) by (auto simp: CalcCredits_def res_simps dest: CalcCreditsFromBillable_pos)
  define inp where "inp = (job_call (released job) (tj_user_id job) now (bigint_set_string (bd_priority_gwei billing))
        (bd_billed_vram billing)) \<lparr>in_prompt_tokens := prompt, in_completion_tokens := completion,
          in_total_tokens := tokens, in_token_usage_applicable := True,
          in_status := TaskCallStatusSuccess, in_credits := Some credits, in_charge := True\<rparr>"
  have "call_fits inp" using assms(5,6,8-10) c by (simp add: inp_def call_fits_def credits_of_def)
  moreover have "in_task_job_id inp = Some (tj_id job)" "in_user_id inp = tj_user_id job" by (simp_all add: inp_def)
  ultimately obtain d2 rid where p: "processTaskCallTx wl d1 inp = Inr (d2, rid)"
    using ending_succeeds [OF assms(1-4) rel] by blast
  have "closes (in_status inp) rid (complete_row (released job) now raw formatted rid)"
    by (simp add: inp_def closes_complete)
  from closing(3) [OF assms(1-4) rel p _ this, of "update_job d2 (tj_id job) (complete_row (released job) now raw formatted rid)"]
  have by3: "job_by (update_job d2 (tj_id job) (complete_row (released job) now raw formatted rid)) (tj_id job) \<noteq> None"
    by (simp add: inp_def)
  then obtain r where "reload_job (update_job d2 (tj_id job) (complete_row (released job) now raw formatted rid)) job (tj_id job) = Inr r"
    by (auto simp: reload_job_def)
  with p rel nt assms show ?thesis
    by (simp add: CompleteAndSettleTaskJob_def fillJobUserAndPriority_def complete_tx_def call_user_def inp_def Let_def)
qed

lemma sample_settles:
  "\<exists>r. CompleteAndSettleTaskJob affordable_llm_config empty_queued_priority_cache no_workload 20 sample_job_db
     (Some sample_job) ''raw'' ''formatted'' 1 1 2 = Inr r"
proof (rule settle_succeeds [OF sample_job_db_inv])
  show "DecodeBillingData sample_job = Inr sample_snapshot" by (rule sample_snapshot_decodes)
  show "job_by sample_job_db (tj_id sample_job) = Some sample_job" using sample_job_by by (simp add: sample_job_def)
  show "bd_llm sample_snapshot = Some \<lparr>lb_vram_weight = Fin 1, lb_constant_seconds = Fin 6,
      lb_seconds_per_input_token = Fin 0, lb_seconds_per_output_token = Fin 0, lb_credits_per_gwei = ''0.001''\<rparr>"
    by (simp add: sample_snapshot_def)
  show "bigint_set_string (bd_priority_gwei sample_snapshot) = Some 400" by (simp add: sample_snapshot_def decimal_eval)
qed (use constant_credits [of 1 1] in \<open>simp_all add: sample_job_def zero_time_def constant_coefficients_def\<close>)

theorem job_settled_exact_witness:
  "\<exists>d' job' a. CompleteAndSettleTaskJob affordable_llm_config empty_queued_priority_cache no_workload 20 sample_job_db
     (Some sample_job) ''raw'' ''formatted'' 1 1 2 = Inr (d', job') \<and> credit_acct d' 1 = Some a \<and> ca_locked a = 0 \<and>
     ledger_inv d' \<and> jobs_inv d'"
proof -
  obtain d' job' where d': "CompleteAndSettleTaskJob affordable_llm_config empty_queued_priority_cache no_workload 20
      sample_job_db (Some sample_job) ''raw'' ''formatted'' 1 1 2 = Inr (d', job')"
    using sample_settles by (metis prod.exhaust)
  have j: "job_by sample_job_db (tj_id sample_job) = Some sample_job" "tj_task_call_record_id sample_job = None"
    "tj_user_id sample_job \<noteq> 0" "tj_user_id sample_job = 1" "tj_credits_locked sample_job = 40"
    "\<not> (tj_status sample_job = TaskJobStatusCompleted \<and> tj_billing_status sample_job = TaskJobBillingBilled)"
    using sample_job_by by (simp_all add: sample_job_def)
  have "credit_acct sample_job_db 1 = Some \<lparr>ca_id = 1, ca_user_id = 1, ca_balance = 100, ca_locked = 40\<rparr>"
    by (simp add: sample_job_db_def credit_acct_def tbl_lookup_def tbl_first_def)
  then show ?thesis
    using job_settled_exact [OF sample_job_db_inv j(1-3,6) d'] d' j(4,5) by auto
qed

subsection \<open>Failure\<close>

text \<open>C11. An open job can always be failed: if its snapshot decodes, its owner, project and Cost Level
  are set and its times are in order, failing it succeeds; the hold is released and
  nothing is charged: the balance, the other accounts and the event log stay, the row is closed
  as failed and not billed with a record, and the ledger and the job rows stay consistent.\<close>

theorem open_job_can_fail:
  assumes "ledger_inv d" "jobs_inv d" "job_by d (tj_id job) = Some job" "tj_task_call_record_id job = None"
    "tj_user_id job \<noteq> 0" "tj_project_id job \<noteq> 0" "tj_priority_gwei job \<noteq> 0" "tj_created_at job \<noteq> zero_time"
    "now \<noteq> zero_time" "tj_created_at job \<le> now" "DecodeBillingData job = Inr billing"
  shows "\<exists>d' job' a rid. FailAndRecordTaskJob cfg cache wl now d (Some job) msg = Inr (d', job') \<and>
    credit_acct d (tj_user_id job) = Some a \<and> tj_credits_locked job \<le> ca_locked a \<and>
    credit_acct d' = (credit_acct d)(tj_user_id job \<mapsto> a\<lparr>ca_locked := ca_locked a - tj_credits_locked job\<rparr>) \<and>
    rows (db_credit_events d') = rows (db_credit_events d) \<and>
    job_by d' (tj_id job) = Some (failed_row (released job) now msg rid job) \<and> ledger_inv d' \<and> jobs_inv d'"
proof -
  obtain d1 where rel: "releaseCreditsHoldTx d job = Inr (d1, released job)"
    using release_exact [OF assms(1-4)] by blast
  define inp where "inp = (job_call (released job) (tj_user_id job) now (bigint_set_string (bd_priority_gwei billing))
        (bd_billed_vram billing)) \<lparr>in_token_usage_applicable := (tj_task_type job = TaskTypeLLM)\<rparr>"
  have i: "in_task_job_id inp = Some (tj_id job)" "in_user_id inp = tj_user_id job" "chargeable inp = None"
    "in_status inp = TaskCallStatusFailed"
    by (simp_all add: inp_def chargeable_def)
  have "call_fits inp" using assms(5,6,8-10) by (simp add: inp_def call_fits_def credits_of_def)
  then obtain d2 rid where p: "processTaskCallTx wl d1 inp = Inr (d2, rid)"
    using ending_succeeds [OF assms(1-4) rel _ i(1,2)] by blast
  define d3 where "d3 = update_job d2 (tj_id job) (failed_row (released job) now msg rid)"
  have f: "closes (in_status inp) rid (failed_row (released job) now msg rid)"
    by (simp add: i(4) closes_failed)
  note clo = closing [OF assms(1-4) rel p i(1) f, of d3, unfolded d3_def, simplified, folded d3_def]
  have row: "failed_row (released job) now msg rid (released job) = failed_row (released job) now msg rid job"
    by (simp add: failed_row_def)
  obtain a m where am: "credit_acct d (tj_user_id job) = Some a" "tj_credits_locked job \<le> ca_locked a" "m = 0"
    "credit_acct d3 = (credit_acct d)(tj_user_id job \<mapsto> a\<lparr>ca_balance := ca_balance a - m,
        ca_locked := ca_locked a - tj_credits_locked job\<rparr>)"
    "rows (db_credit_events d3) = rows (db_credit_events d) @
       (if m = 0 then [] else [charge_event (tj_user_id job) m rid (next_id (db_credit_events d))])"
    by (rule ending_exact [OF assms(1-4) rel p i(1,2) f, of d3]) (auto simp: d3_def i(3) simp del: update_job_sel(12))
  from clo(3) have "\<exists>job'. reload_job d3 job (tj_id job) = Inr job'" by (simp add: reload_job_def)
  then obtain job' where "reload_job d3 job (tj_id job) = Inr job'" ..
  then have "FailAndRecordTaskJob cfg cache wl now d (Some job) msg = Inr (d3, job')"
    using p rel assms
    by (simp add: FailAndRecordTaskJob_def fillJobUserAndPriority_def fail_tx_def call_user_def inp_def Let_def d3_def)
  with am clo row show ?thesis by auto
qed

theorem open_job_can_fail_witness:
  "\<exists>d' job' a. FailAndRecordTaskJob affordable_llm_config empty_queued_priority_cache no_workload 20 sample_job_db
     (Some sample_job) ''timeout'' = Inr (d', job') \<and> credit_acct d' 1 = Some a \<and> ca_balance a = 100 \<and> ca_locked a = 0"
proof -
  have j: "job_by sample_job_db (tj_id sample_job) = Some sample_job" "tj_task_call_record_id sample_job = None"
    "tj_user_id sample_job \<noteq> 0" "tj_project_id sample_job \<noteq> 0" "tj_priority_gwei sample_job \<noteq> 0"
    "tj_created_at sample_job \<noteq> zero_time" "20 \<noteq> zero_time" "tj_created_at sample_job \<le> 20"
    using sample_job_by by (simp_all add: sample_job_def zero_time_def)
  have u: "tj_user_id sample_job = 1" "tj_credits_locked sample_job = 40" by (simp_all add: sample_job_def)
  have "credit_acct sample_job_db 1 = Some \<lparr>ca_id = 1, ca_user_id = 1, ca_balance = 100, ca_locked = 40\<rparr>"
    by (simp add: sample_job_db_def credit_acct_def tbl_lookup_def tbl_first_def)
  with open_job_can_fail [OF sample_job_db_inv j sample_snapshot_decodes,
      of affordable_llm_config empty_queued_priority_cache no_workload "''timeout''"] u
  show ?thesis by fastforce
qed

subsection \<open>Admission\<close>

lemma job_row_admits:
  "admits (pr_user_id project) credits (job_row_of inp now project args publicID priority credits billing)"
  "admits (pr_user_id project) credits (raw_row_of rinp now project args priority credits billing)"
  by (simp_all add: admits_def job_row_of_def raw_row_of_def)

text \<open>C10. An admitted job is paid for in advance and can be settled: if a job of the language-model
  interface is admitted, its Credits were available, exactly they are locked on the owner's
  account, nothing else changes but one new row, which waits for submission and holds them, and
  the ledger and the job rows stay consistent. The row's snapshot decodes to the terms of
  admission, provided a VRAM size was given.\<close>

theorem job_admitted_exact:
  assumes "ledger_inv d" "jobs_inv d" "ReserveCreditsAndCreateTaskJob cfg seed token now d inp = Inr (d', job)"
  shows "\<exists>project credits priority fee llm a.
    cj_project inp = Some project \<and> cj_credits_to_lock inp = Some credits \<and> cj_priority_gwei inp = Some priority \<and>
    cj_task_fee_gwei inp = Some fee \<and> input_llm_billing inp = Some llm \<and>
    0 < credits \<and> credit_acct d (pr_user_id project) = Some a \<and> credits \<le> ca_balance a - ca_locked a \<and>
    credit_acct d' = (credit_acct d)(pr_user_id project \<mapsto> a\<lparr>ca_locked := ca_locked a + credits\<rparr>) \<and>
    rows (db_task_jobs d') = rows (db_task_jobs d) @ [job\<lparr>tj_transient := no_transient\<rparr>] \<and>
    db_credit_events d' = db_credit_events d \<and> db_call_records d' = db_call_records d \<and>
    tj_user_id job = pr_user_id project \<and> tj_status job = TaskJobStatusPendingSubmit \<and>
    tj_credits_locked job = credits \<and> tj_credits_lock_status job = TaskJobCreditsLockHeld \<and>
    (cj_billed_vram inp \<noteq> 0 \<longrightarrow> DecodeBillingData job = Inr (llm_snapshot cfg inp priority fee llm credits)) \<and>
    ledger_inv d' \<and> jobs_inv d'"
proof -
  obtain project args priority fee llm credits billing publicID where s:
    "cj_project inp = Some project" "cj_priority_gwei inp = Some priority" "0 < priority"
    "cj_task_fee_gwei inp = Some fee" "0 \<le> fee" "input_llm_billing inp = Some llm"
    "cj_credits_to_lock inp = Some credits" "0 < credits"
    "EncodeTaskBillingData (llm_snapshot cfg inp priority fee llm credits) = Inr billing"
    "create_job_tx d (pr_user_id project) (Some credits)
       (job_row_of inp now project args publicID priority credits billing) = Inr (d', job)"
    using assms(3) by (auto simp: ReserveCreditsAndCreateTaskJob_def res_simps not_le not_less)
  obtain a n where a: "job = job_row_of inp now project args publicID priority credits billing n"
    "credit_acct d (pr_user_id project) = Some a" "credits \<le> ca_balance a - ca_locked a"
    "credit_acct d' = (credit_acct d)(pr_user_id project \<mapsto> a\<lparr>ca_locked := ca_locked a + credits\<rparr>)"
    "rows (db_task_jobs d') = rows (db_task_jobs d) @ [job\<lparr>tj_transient := no_transient\<rparr>]"
    "db_credit_events d' = db_credit_events d" "db_call_records d' = db_call_records d" "ledger_inv d'" "jobs_inv d'"
    by (rule admitting [OF assms(1,2) job_row_admits(1) s(10)])
  have b: "billing = BillingJSON (llm_snapshot cfg inp priority fee llm credits)"
    using s(9) by (simp add: EncodeTaskBillingData_def res_simps)
  have "DecodeBillingData job = Inr (llm_snapshot cfg inp priority fee llm credits)" if "cj_billed_vram inp \<noteq> 0"
    using that s(3,5)
    by (simp add: a(1) b DecodeBillingData_def job_row_of_def check_billing_def llm_snapshot_def
        bigint_set_string_int_str)
  moreover have "tj_user_id job = pr_user_id project" "tj_status job = TaskJobStatusPendingSubmit"
    "tj_credits_locked job = credits" "tj_credits_lock_status job = TaskJobCreditsLockHeld"
    by (simp_all add: a(1) job_row_of_def)
  ultimately show ?thesis using s a by blast
qed

definition sample_job_input :: create_job_input where
  "sample_job_input = \<lparr>cj_project = Some auto_project, cj_api_type = TaskAPITypeChatCompletions, cj_model = ''m'',
     cj_billed_vram = 24, cj_background = False, cj_stream = False, cj_task_args_json = ''{}'',
     cj_priority_gwei = Some 400, cj_task_fee_gwei = Some 2400, cj_median_priority_gwei = Some 10,
     cj_estimated_node_seconds = Some (Fin 6), cj_vram_weight = Some (Fin 1), cj_constant_seconds = Some (Fin 6),
     cj_seconds_per_input_token = Some (Fin 0), cj_seconds_per_output_token = Some (Fin 0),
     cj_credits_to_lock = Some 2, cj_queue_timeout = None\<rparr>"

lemma sample_job_fits:
  assumes "credit_acct d 1 = Some a" "2 \<le> ca_balance a - ca_locked a"
  shows "\<exists>r. ReserveCreditsAndCreateTaskJob affordable_llm_config (\<lambda>a _. Inr a) (Inr ''t'') 20 d sample_job_input = Inr r"
proof -
  have "pr_user_id auto_project = 1" by (simp add: auto_project_def)
  then have "\<exists>r. create_job_tx d (pr_user_id auto_project) (Some 2) mk = Inr r" for mk
    using assms
    by (simp add: create_job_tx_def tbl_create_def Let_def reserveCreditsTx_def EnsureSufficientAvailable_def
        EnsureSufficientBalance_def AvailableCredits_def list_ex_iff)
  then show ?thesis
    by (simp add: ReserveCreditsAndCreateTaskJob_def sample_job_input_def input_llm_billing_def
        EncodeTaskBillingData_def llm_snapshot_def finite_llm_def f64_is_nan_or_inf_def ValidateOptionalQueueTimeout_def)
qed

lemma sample_job_admitted:
  "\<exists>r. ReserveCreditsAndCreateTaskJob affordable_llm_config (\<lambda>a _. Inr a) (Inr ''t'') 20 sample_job_db sample_job_input = Inr r"
  by (rule sample_job_fits [where a = "\<lparr>ca_id = 1, ca_user_id = 1, ca_balance = 100, ca_locked = 40\<rparr>"])
    (simp_all add: sample_job_db_def credit_acct_def tbl_lookup_def tbl_first_def)

theorem job_admitted_exact_witness:
  "\<exists>d' job a. ReserveCreditsAndCreateTaskJob affordable_llm_config (\<lambda>a _. Inr a) (Inr ''t'') 20 sample_job_db
     sample_job_input = Inr (d', job) \<and> credit_acct d' (pr_user_id auto_project) = Some a \<and> ca_locked a = 42 \<and>
     tj_credits_locked job = 2"
proof -
  obtain d' job where r: "ReserveCreditsAndCreateTaskJob affordable_llm_config (\<lambda>a _. Inr a) (Inr ''t'') 20
      sample_job_db sample_job_input = Inr (d', job)"
    using sample_job_admitted by (metis prod.exhaust)
  have i: "cj_project sample_job_input = Some auto_project" "cj_credits_to_lock sample_job_input = Some 2"
    by (simp_all add: sample_job_input_def)
  have "pr_user_id auto_project = 1" by (simp add: auto_project_def)
  moreover have "credit_acct sample_job_db 1 = Some \<lparr>ca_id = 1, ca_user_id = 1, ca_balance = 100, ca_locked = 40\<rparr>"
    by (simp add: sample_job_db_def credit_acct_def tbl_lookup_def tbl_first_def)
  ultimately show ?thesis using job_admitted_exact [OF sample_job_db_inv r] i r by auto
qed

end
