(* ===== verification/Job_Retention.thy ===== *)
theory Job_Retention
  imports Job_Correctness
begin

text \<open>
  Removal of old jobs (\<open>service/llm_job.go\<close>): one bounded batch per transaction, repeated
  until a batch is not full. \<open>now i\<close> is the clock at the \<open>i\<close>-th batch, \<open>cancelled i\<close> whether
  the context is done after it. The files of the removed jobs are left out.
\<close>

subsection \<open>One batch\<close>

abbreviation taskJobCleanupBatchSize :: nat where "taskJobCleanupBatchSize \<equiv> 200"

text \<open>\<open>-time.Duration(days) * 24 * time.Hour\<close>, at 64 bits.\<close>

definition retention_offset :: "u64 \<Rightarrow> int" where
  "retention_offset days = sint (- days * 24 * 3600000000000)"

definition TaskJobRetentionCutoff :: "gotime \<Rightarrow> u64 \<Rightarrow> gotime" where
  "TaskJobRetentionCutoff now days = now + retention_offset days"

definition retention_batch :: "db \<Rightarrow> gotime \<Rightarrow> task_job_status \<Rightarrow> task_job_billing_status \<Rightarrow> nat list" where
  "retention_batch d cutoff status billing =
     take taskJobCleanupBatchSize (map tj_id (sort_key (\<lambda>j. the (tj_completed_at j))
       (tbl_where (\<lambda>j. tj_status j = status \<and> tj_billing_status j = billing \<and> tj_task_call_record_id j \<noteq> None \<and>
          (case tj_completed_at j of None \<Rightarrow> False | Some t \<Rightarrow> t < cutoff)) (db_task_jobs d))))"

definition DeleteExpiredTerminalTaskJobs :: "gotime \<Rightarrow> db \<Rightarrow> u64 \<Rightarrow> err + db \<times> nat" where
  "DeleteExpiredTerminalTaskJobs now d retentionDays =
     rejectIf (retentionDays = 0) (ErrMsg ''retention days must be positive'')
       (let cutoff = TaskJobRetentionCutoff now retentionDays;
            ids0 = retention_batch d cutoff TaskJobStatusCompleted TaskJobBillingBilled @
                   retention_batch d cutoff TaskJobStatusFailed TaskJobBillingNotBilled;
            ids = (if taskJobCleanupBatchSize < length ids0 then take taskJobCleanupBatchSize ids0 else ids0) in
        if ids0 = [] then Inr (d, 0)
        else Inr (set_jobs d (tbl_delete (\<lambda>j. tj_id j \<in> set ids) (db_task_jobs d)), length ids))"

subsection \<open>What a batch removes\<close>

definition expired :: "gotime \<Rightarrow> task_job \<Rightarrow> bool" where
  "expired cutoff j \<longleftrightarrow>
     (tj_status j = TaskJobStatusCompleted \<and> tj_billing_status j = TaskJobBillingBilled \<or>
      tj_status j = TaskJobStatusFailed \<and> tj_billing_status j = TaskJobBillingNotBilled) \<and>
     tj_task_call_record_id j \<noteq> None \<and> (\<exists>t. tj_completed_at j = Some t \<and> t < cutoff)"

lemma expired_mono: "expired c j \<Longrightarrow> c \<le> c' \<Longrightarrow> expired c' j"
  unfolding expired_def by force

lemma retention_batch_sub:
  "set (retention_batch d cutoff st b) \<subseteq> tj_id ` {j \<in> set (rows (db_task_jobs d)). tj_status j = st \<and>
     tj_billing_status j = b \<and> tj_task_call_record_id j \<noteq> None \<and> (\<exists>t. tj_completed_at j = Some t \<and> t < cutoff)}"
  using set_take_subset unfolding retention_batch_def
  by (fastforce simp: tbl_where_def split: option.splits dest!: in_set_takeD)

lemma retention_batch_all:
  assumes "length (retention_batch d cutoff st b) < 200"
  shows "set (retention_batch d cutoff st b) = tj_id ` {j \<in> set (rows (db_task_jobs d)). tj_status j = st \<and>
     tj_billing_status j = b \<and> tj_task_call_record_id j \<noteq> None \<and> (\<exists>t. tj_completed_at j = Some t \<and> t < cutoff)}"
proof -
  have "length (tbl_where (\<lambda>j. tj_status j = st \<and> tj_billing_status j = b \<and> tj_task_call_record_id j \<noteq> None \<and>
          (case tj_completed_at j of None \<Rightarrow> False | Some t \<Rightarrow> t < cutoff)) (db_task_jobs d)) < 200"
    using assms by (simp add: retention_batch_def)
  then have "retention_batch d cutoff st b = map tj_id (sort_key (\<lambda>j. the (tj_completed_at j))
       (tbl_where (\<lambda>j. tj_status j = st \<and> tj_billing_status j = b \<and> tj_task_call_record_id j \<noteq> None \<and>
          (case tj_completed_at j of None \<Rightarrow> False | Some t \<Rightarrow> t < cutoff)) (db_task_jobs d)))"
    by (simp add: retention_batch_def)
  then show ?thesis by (auto simp: tbl_where_def split: option.splits)
qed

lemma retention_batch_distinct:
  assumes "tbl_wf tj_id (db_task_jobs d)"
  shows "distinct (retention_batch d cutoff st b)"
  using assms unfolding retention_batch_def tbl_where_def tbl_wf_def
  by (intro distinct_take) (simp add: distinct_map inj_on_def distinct_filter)

lemma delete_batch:
  assumes D: "DeleteExpiredTerminalTaskJobs now d days = Inr (d', n)" and wf: "tbl_wf tj_id (db_task_jobs d)"
  obtains ids where "d' = set_jobs d (tbl_delete (\<lambda>j. tj_id j \<in> ids) (db_task_jobs d))"
    "ids \<subseteq> tj_id ` {j \<in> set (rows (db_task_jobs d)). expired (TaskJobRetentionCutoff now days) j}"
    "n = card ids" "finite ids" "n \<le> 200"
    "n < 200 \<longrightarrow> ids = tj_id ` {j \<in> set (rows (db_task_jobs d)). expired (TaskJobRetentionCutoff now days) j}"
proof -
  define c where "c = TaskJobRetentionCutoff now days"
  define b1 where "b1 = retention_batch d c TaskJobStatusCompleted TaskJobBillingBilled"
  define b2 where "b2 = retention_batch d c TaskJobStatusFailed TaskJobBillingNotBilled"
  define ids where "ids = take 200 (b1 @ b2)"
  have split: "{j \<in> set (rows (db_task_jobs d)). expired c j} =
      {j \<in> set (rows (db_task_jobs d)). tj_status j = TaskJobStatusCompleted \<and>
       tj_billing_status j = TaskJobBillingBilled \<and> tj_task_call_record_id j \<noteq> None \<and>
       (\<exists>t. tj_completed_at j = Some t \<and> t < c)} \<union>
      {j \<in> set (rows (db_task_jobs d)). tj_status j = TaskJobStatusFailed \<and>
       tj_billing_status j = TaskJobBillingNotBilled \<and> tj_task_call_record_id j \<noteq> None \<and>
       (\<exists>t. tj_completed_at j = Some t \<and> t < c)}"
    by (auto simp: expired_def)
  have sub: "set b1 \<subseteq> tj_id ` {j \<in> set (rows (db_task_jobs d)). expired c j}"
    "set b2 \<subseteq> tj_id ` {j \<in> set (rows (db_task_jobs d)). expired c j}"
    using retention_batch_sub [of d c] unfolding b1_def b2_def split image_Un by blast+
  have "set b1 \<inter> set b2 = {}"
  proof (rule ccontr)
    assume "set b1 \<inter> set b2 \<noteq> {}"
    then obtain x y where "x \<in> set (rows (db_task_jobs d))" "y \<in> set (rows (db_task_jobs d))" "tj_id x = tj_id y"
      "tj_status x = TaskJobStatusCompleted" "tj_status y = TaskJobStatusFailed"
      using retention_batch_sub [of d c] unfolding b1_def b2_def by (smt (verit) IntE ex_in_conv imageE mem_Collect_eq subsetD)
    with tbl_wfD_unique [OF wf] show False by (metis task_job_status.distinct(19))
  qed
  then have dist: "distinct (b1 @ b2)"
    using retention_batch_distinct [OF wf] by (simp add: b1_def b2_def)
  have res: "d' = (if b1 @ b2 = [] then d else set_jobs d (tbl_delete (\<lambda>j. tj_id j \<in> set ids) (db_task_jobs d))) \<and>
      n = length ids"
    using D by (auto simp: DeleteExpiredTerminalTaskJobs_def res_simps Let_def ids_def b1_def b2_def c_def split: if_splits)
  have eq: "d' = set_jobs d (tbl_delete (\<lambda>j. tj_id j \<in> set ids) (db_task_jobs d))"
    using res by (cases "b1 @ b2 = []") (simp_all add: ids_def tbl_delete_def set_jobs_def)
  have subs: "set ids \<subseteq> tj_id ` {j \<in> set (rows (db_task_jobs d)). expired c j}"
    using sub set_take_subset [of 200 "b1 @ b2"] by (auto simp: ids_def)
  have n: "n = card (set ids)"
    using res distinct_card [OF distinct_take [OF dist, of 200]] by (simp add: ids_def del: take_append length_take)
  have le: "n \<le> 200" using res by (simp add: ids_def)
  have all: "set ids = tj_id ` {j \<in> set (rows (db_task_jobs d)). expired c j}" if "n < 200"
  proof -
    have "length (b1 @ b2) < 200" using that res by (simp add: ids_def)
    then have l: "length b1 < 200" "length b2 < 200" and i: "ids = b1 @ b2" by (simp_all add: ids_def)
    show ?thesis
      using retention_batch_all [OF l(1) [unfolded b1_def]] retention_batch_all [OF l(2) [unfolded b2_def]]
      unfolding i split image_Un by (simp add: b1_def b2_def)
  qed
  show ?thesis by (rule that [OF eq subs [unfolded c_def] n finite_set le]) (use all [unfolded c_def] in blast)
qed

subsection \<open>The loop\<close>

lemma delete_batch_shrinks:
  assumes "DeleteExpiredTerminalTaskJobs now d days = Inr (d', n)" "n \<noteq> 0"
  shows "length (rows (db_task_jobs d')) < length (rows (db_task_jobs d))"
proof -
  define c where "c = TaskJobRetentionCutoff now days"
  define b where "b = retention_batch d c TaskJobStatusCompleted TaskJobBillingBilled @
      retention_batch d c TaskJobStatusFailed TaskJobBillingNotBilled"
  have b: "b \<noteq> []" "d' = set_jobs d (tbl_delete (\<lambda>j. tj_id j \<in> set (take 200 b)) (db_task_jobs d))"
    using assms by (auto simp: DeleteExpiredTerminalTaskJobs_def res_simps Let_def b_def c_def split: if_splits)
  have "hd b \<in> set (take 200 b)" using b(1) by (cases b) auto
  moreover have "hd b \<in> tj_id ` set (rows (db_task_jobs d))"
    using hd_in_set [OF b(1)] retention_batch_sub [of d c] unfolding b_def by (auto dest!: subsetD)
  ultimately obtain j where "j \<in> set (rows (db_task_jobs d))" "tj_id j \<in> set (take 200 b)" by auto
  then show ?thesis unfolding b(2) by (auto intro: length_filter_less)
qed

function RunTaskJobRetentionCleanup ::
  "(nat \<Rightarrow> gotime) \<Rightarrow> (nat \<Rightarrow> bool) \<Rightarrow> u64 \<Rightarrow> nat \<Rightarrow> nat \<Rightarrow> db \<Rightarrow> db \<times> nat \<times> err option" where
  "RunTaskJobRetentionCleanup now cancelled retentionDays i removed d =
     (case DeleteExpiredTerminalTaskJobs (now i) d retentionDays of
        Inl e \<Rightarrow> (d, removed, Some e)
      | Inr (d1, deleted) \<Rightarrow>
          if deleted < taskJobCleanupBatchSize then (d1, removed + deleted, None)
          else if cancelled i then (d1, removed + deleted, Some (ErrMsg ''context canceled''))
          else RunTaskJobRetentionCleanup now cancelled retentionDays (Suc i) (removed + deleted) d1)"
  by pat_completeness auto
termination
  by (relation "measure (\<lambda>(now, cancelled, days, i, removed, d). length (rows (db_task_jobs d)))")
     (auto dest: delete_batch_shrinks)

declare RunTaskJobRetentionCleanup.simps [simp del]

text \<open>Removing closed jobs moves no Credits: no closed job holds any.\<close>

lemma delete_closed:
  assumes L: "ledger_inv d" and J: "jobs_inv d"
    and p: "\<And>j. j \<in> set (rows (db_task_jobs d)) \<Longrightarrow> p j \<Longrightarrow> tj_task_call_record_id j \<noteq> None"
  shows "ledger_inv (set_jobs d (tbl_delete p (db_task_jobs d)))" "jobs_inv (set_jobs d (tbl_delete p (db_task_jobs d)))"
proof -
  let ?t = "tbl_delete p (db_task_jobs d)"
  have ok: "job_ok (rows (db_call_records d)) j" if "j \<in> set (rows (db_task_jobs d))" for j
    using J that by (simp add: jobs_inv_def)
  have free: "\<not> holds u j" if "j \<in> set (rows (db_task_jobs d))" "p j" for u j
    using ok [OF that(1)] p [OF that] by (auto simp: job_ok_def holds_def)
  have "sum_list (map (\<lambda>j. if holds u j then tj_credits_locked j else 0) (filter (\<lambda>j. \<not> p j) xs)) =
      sum_list (map (\<lambda>j. if holds u j then tj_credits_locked j else 0) xs)"
    if "\<And>j. j \<in> set xs \<Longrightarrow> p j \<Longrightarrow> \<not> holds u j" for u xs
    using that by (induction xs) auto
  then have held: "held_of (d\<lparr>db_task_jobs := ?t\<rparr>) u = held_of d u" for u
    using free by (simp add: held_of_def tbl_sum_def)
  have wf: "tbl_wf tj_id ?t" using J by (intro tbl_wf_delete) (simp add: jobs_inv_def)
  have "ledger_off (\<lambda>_. 0) (\<lambda>_. 0) (d\<lparr>db_task_jobs := ?t\<rparr>)"
  proof (rule ledger_off_jobs [OF L [unfolded ledger_inv_def] wf])
    show "0 \<le> tj_credits_locked j" if "j \<in> set (rows ?t)" "tj_credits_lock_status j = TaskJobCreditsLockHeld" for j
      using that L by (auto simp: ledger_inv_def ledger_off_def)
    show "0 = 0 + held_of d u - held_of (d\<lparr>db_task_jobs := ?t\<rparr>) u" for u by (simp add: held)
  qed
  then show "ledger_inv (set_jobs d ?t)" by (simp add: set_jobs_def ledger_inv_def)
  show "jobs_inv (set_jobs d ?t)" using J wf by (simp add: jobs_inv_def)
qed

lemma batch_keeps:
  assumes D: "DeleteExpiredTerminalTaskJobs now d days = Inr (d', n)" and L: "ledger_inv d" and J: "jobs_inv d"
  shows "ledger_inv d' \<and> jobs_inv d'"
proof -
  have wf: "tbl_wf tj_id (db_task_jobs d)" using J by (simp add: jobs_inv_def)
  obtain ids where d': "d' = set_jobs d (tbl_delete (\<lambda>j. tj_id j \<in> ids) (db_task_jobs d))"
    and ids: "ids \<subseteq> tj_id ` {j \<in> set (rows (db_task_jobs d)). expired (TaskJobRetentionCutoff now days) j}"
    using delete_batch [OF D wf] by metis
  have "tj_task_call_record_id j \<noteq> None" if j: "j \<in> set (rows (db_task_jobs d))" "tj_id j \<in> ids" for j
  proof -
    obtain k where "k \<in> set (rows (db_task_jobs d))" "expired (TaskJobRetentionCutoff now days) k" "tj_id k = tj_id j"
      using ids j(2) by auto
    with tbl_wfD_unique [OF wf] j(1) show ?thesis by (metis expired_def)
  qed
  with delete_closed [OF L J, of "\<lambda>j. tj_id j \<in> ids"] show ?thesis by (simp add: d')
qed

lemma batch_filter:
  assumes D: "DeleteExpiredTerminalTaskJobs now d days = Inr (d', n)" and wf: "tbl_wf tj_id (db_task_jobs d)"
  obtains q where "d' = set_jobs d (tbl_delete q (db_task_jobs d))"
    "\<forall>j \<in> set (rows (db_task_jobs d)). q j \<longrightarrow> expired (TaskJobRetentionCutoff now days) j"
    "n = length (filter q (rows (db_task_jobs d)))" "n \<le> 200"
    "n < 200 \<longrightarrow> (\<forall>j \<in> set (rows (db_task_jobs d)). expired (TaskJobRetentionCutoff now days) j \<longrightarrow> q j)"
proof -
  obtain ids where i: "d' = set_jobs d (tbl_delete (\<lambda>j. tj_id j \<in> ids) (db_task_jobs d))"
    "ids \<subseteq> tj_id ` {j \<in> set (rows (db_task_jobs d)). expired (TaskJobRetentionCutoff now days) j}"
    "n = card ids" "finite ids" "n \<le> 200"
    "n < 200 \<longrightarrow> ids = tj_id ` {j \<in> set (rows (db_task_jobs d)). expired (TaskJobRetentionCutoff now days) j}"
    by (rule delete_batch [OF D wf])
  have uniq: "j = k" if "j \<in> set (rows (db_task_jobs d))" "k \<in> set (rows (db_task_jobs d))" "tj_id j = tj_id k" for j k
    using tbl_wfD_unique [OF wf that] .
  have dist: "distinct (map tj_id (rows (db_task_jobs d)))" using wf by (simp add: tbl_wf_def)
  have "ids = set (map tj_id (filter (\<lambda>j. tj_id j \<in> ids) (rows (db_task_jobs d))))"
    using i(2) by auto
  moreover have "distinct (map tj_id (filter (\<lambda>j. tj_id j \<in> ids) (rows (db_task_jobs d))))"
    using dist by (simp add: distinct_map inj_on_def)
  ultimately have card: "card ids = length (filter (\<lambda>j. tj_id j \<in> ids) (rows (db_task_jobs d)))"
    by (metis distinct_card length_map)
  show ?thesis
  proof (rule that [of "\<lambda>j. tj_id j \<in> ids"])
    show "d' = set_jobs d (tbl_delete (\<lambda>j. tj_id j \<in> ids) (db_task_jobs d))" by (rule i(1))
    show "n = length (filter (\<lambda>j. tj_id j \<in> ids) (rows (db_task_jobs d)))" using i(3) card by simp
    show "n \<le> 200" by (rule i(5))
    show "\<forall>j \<in> set (rows (db_task_jobs d)). tj_id j \<in> ids \<longrightarrow> expired (TaskJobRetentionCutoff now days) j"
      using i(2) uniq by blast
    show "n < 200 \<longrightarrow> (\<forall>j \<in> set (rows (db_task_jobs d)). expired (TaskJobRetentionCutoff now days) j \<longrightarrow> tj_id j \<in> ids)"
      using i(6) by blast
  qed
qed

text \<open>C14. The clean-up removes exactly the expired jobs: when it is not cancelled and the clock does
  not go back, it returns without an error; every removed row was a completed and billed or
  failed and unbilled job with a record, completed before the cutoff of the last batch; no
  job that had expired at the start is left; the rows that stay are unchanged and in order; the
  count it returns is the number of rows removed; and no account or other table changes.\<close>

theorem cleanup_exact:
  assumes "ledger_inv d" "jobs_inv d" "0 < days" "\<forall>k. \<not> cancelled k" "\<forall>k. now k \<le> now (Suc k)"
  shows "\<exists>d' p last. RunTaskJobRetentionCleanup now cancelled days i n d =
      (d', n + length (filter p (rows (db_task_jobs d))), None) \<and> i \<le> last \<and>
    d' = set_jobs d (tbl_delete p (db_task_jobs d)) \<and>
    (\<forall>j \<in> set (rows (db_task_jobs d)). p j \<longrightarrow> expired (TaskJobRetentionCutoff (now last) days) j) \<and>
    (\<forall>j \<in> set (rows (db_task_jobs d)). expired (TaskJobRetentionCutoff (now i) days) j \<longrightarrow> p j) \<and>
    ledger_inv d' \<and> jobs_inv d'"
  using assms
proof (induction now cancelled days i n d rule: RunTaskJobRetentionCleanup.induct)
  case (1 now cancelled days i n d)
  have wf: "tbl_wf tj_id (db_task_jobs d)" using 1(3) by (simp add: jobs_inv_def)
  have mono: "now a \<le> now b" if "a \<le> b" for a b
    using lift_Suc_mono_le [of now a b] 1(6) that by blast
  have "\<exists>r. DeleteExpiredTerminalTaskJobs (now i) d days = Inr r"
    using 1(4) by (auto simp: DeleteExpiredTerminalTaskJobs_def Let_def word_gt_0)
  then obtain d1 m where D: "DeleteExpiredTerminalTaskJobs (now i) d days = Inr (d1, m)" by (metis prod.exhaust)
  obtain q where q: "d1 = set_jobs d (tbl_delete q (db_task_jobs d))"
    "\<forall>j \<in> set (rows (db_task_jobs d)). q j \<longrightarrow> expired (TaskJobRetentionCutoff (now i) days) j"
    "m = length (filter q (rows (db_task_jobs d)))" "m \<le> 200"
    "m < 200 \<longrightarrow> (\<forall>j \<in> set (rows (db_task_jobs d)). expired (TaskJobRetentionCutoff (now i) days) j \<longrightarrow> q j)"
    by (rule batch_filter [OF D wf])
  have inv: "ledger_inv d1" "jobs_inv d1" using batch_keeps [OF D 1(2,3)] by simp_all
  show ?case
  proof (cases "m < 200")
    case True
    then have run: "RunTaskJobRetentionCleanup now cancelled days i n d = (d1, n + m, None)"
      by (simp add: RunTaskJobRetentionCleanup.simps [of now cancelled days i n d] D)
    show ?thesis
    proof (rule exI [of _ d1], rule exI [of _ q], rule exI [of _ i], intro conjI)
      show "RunTaskJobRetentionCleanup now cancelled days i n d =
          (d1, n + length (filter q (rows (db_task_jobs d))), None)"
        using run by (simp only: q(3))
      show "\<forall>j \<in> set (rows (db_task_jobs d)). expired (TaskJobRetentionCutoff (now i) days) j \<longrightarrow> q j"
        using q(5) True by blast
    qed (use q(1,2) inv in \<open>simp_all only: order.refl\<close>)
  next
    case False
    then have run: "RunTaskJobRetentionCleanup now cancelled days i n d =
        RunTaskJobRetentionCleanup now cancelled days (Suc i) (n + m) d1"
      using 1(5) by (simp add: RunTaskJobRetentionCleanup.simps [of now cancelled days i n d] D)
    obtain d' p last where ih: "RunTaskJobRetentionCleanup now cancelled days (Suc i) (n + m) d1 =
        (d', n + m + length (filter p (rows (db_task_jobs d1))), None)" "Suc i \<le> last"
      "d' = set_jobs d1 (tbl_delete p (db_task_jobs d1))"
      "\<forall>j \<in> set (rows (db_task_jobs d1)). p j \<longrightarrow> expired (TaskJobRetentionCutoff (now last) days) j"
      "\<forall>j \<in> set (rows (db_task_jobs d1)). expired (TaskJobRetentionCutoff (now (Suc i)) days) j \<longrightarrow> p j"
      "ledger_inv d'" "jobs_inv d'"
      using 1(1) [OF D refl False _ inv 1(4-6)] 1(5) by blast
    define r where "r = (\<lambda>j. q j \<or> p j)"
    have le: "TaskJobRetentionCutoff (now i) days \<le> TaskJobRetentionCutoff (now last) days"
      "TaskJobRetentionCutoff (now i) days \<le> TaskJobRetentionCutoff (now (Suc i)) days"
      using ih(2) by (simp_all add: TaskJobRetentionCutoff_def mono)
    have len: "length (filter r xs) = length (filter q xs) + length (filter p (filter (\<lambda>j. \<not> q j) xs))" for xs
      by (induction xs) (auto simp: r_def)
    have "filter (\<lambda>j. \<not> r j) xs = filter (\<lambda>j. \<not> p j) (filter (\<lambda>j. \<not> q j) xs)" for xs
      by (simp add: r_def conj_commute)
    then have d': "d' = set_jobs d (tbl_delete r (db_task_jobs d))"
      by (simp add: ih(3) q(1) set_jobs_def tbl_delete_def)
    show ?thesis
    proof (rule exI [of _ d'], rule exI [of _ r], rule exI [of _ last], intro conjI)
      show "RunTaskJobRetentionCleanup now cancelled days i n d =
          (d', n + length (filter r (rows (db_task_jobs d))), None)"
        using run ih(1) q(1,3) len [of "rows (db_task_jobs d)"] by simp
      show "\<forall>j \<in> set (rows (db_task_jobs d)). r j \<longrightarrow> expired (TaskJobRetentionCutoff (now last) days) j"
        using q(1,2) ih(4) le(1) by (auto simp: r_def intro: expired_mono)
      show "\<forall>j \<in> set (rows (db_task_jobs d)). expired (TaskJobRetentionCutoff (now i) days) j \<longrightarrow> r j"
        using q(1) ih(5) le(2) by (auto simp: r_def intro: expired_mono)
    qed (use ih(2,6,7) d' in simp_all)
  qed
qed

definition sample_closed_job :: task_job where
  "sample_closed_job = complete_row (released sample_job) 20 ''raw'' ''formatted'' 1 sample_job"

definition sample_closed_db :: db where
  "sample_closed_db = sample_db
     \<lparr>db_task_jobs := \<lparr>rows = [sample_closed_job], next_id = 2\<rparr>,
      db_call_records := \<lparr>rows = [call_record_of no_workload (sample_call\<lparr>in_task_job_id := Some 1\<rparr>) 1], next_id = 2\<rparr>\<rparr>"

lemma sample_closed_db_inv: "ledger_inv sample_closed_db" "jobs_inv sample_closed_db"
  by (simp_all add: ledger_inv_def ledger_off_def ledger_ok_def sample_closed_db_def sample_db_def empty_db_def idx_wf_def
      tbl_wf_def credit_acct_def tbl_lookup_def tbl_first_def ledger_of_def held_of_def tbl_sum_def
      event_delta_def jobs_inv_def job_ok_def sample_closed_job_def complete_row_def sample_job_def IsTerminal_def
      holds_def empty_stats_def call_record_of_def sample_call_def)

theorem cleanup_exact_witness:
  "\<exists>d'. RunTaskJobRetentionCleanup (\<lambda>_. 200000000000000) (\<lambda>_. False) 1 0 0 sample_closed_db = (d', 1, None) \<and>
     rows (db_task_jobs d') = []"
proof -
  have "\<forall>k :: nat. \<not> False" "\<forall>k :: nat. (200000000000000 :: int) \<le> 200000000000000" "(0 :: u64) < 1" by simp_all
  from cleanup_exact [OF sample_closed_db_inv this(3,1,2), of 0 0] obtain d' p where
    r: "RunTaskJobRetentionCleanup (\<lambda>_. 200000000000000) (\<lambda>_. False) 1 0 0 sample_closed_db =
      (d', length (filter p (rows (db_task_jobs sample_closed_db))), None)"
    "d' = set_jobs sample_closed_db (tbl_delete p (db_task_jobs sample_closed_db))"
    "\<forall>j \<in> set (rows (db_task_jobs sample_closed_db)).
       expired (TaskJobRetentionCutoff 200000000000000 1) j \<longrightarrow> p j" by auto
  have off: "retention_offset 1 = - 86400000000000" by code_simp
  have j: "rows (db_task_jobs sample_closed_db) = [sample_closed_job]" by (simp add: sample_closed_db_def)
  have "expired (TaskJobRetentionCutoff 200000000000000 1) sample_closed_job"
    by (simp add: expired_def sample_closed_job_def complete_row_def TaskJobRetentionCutoff_def off)
  with r j show ?thesis by auto
qed

end
