(* ===== verification/Provider_Jobs.thy ===== *)
theory Provider_Jobs
  imports Provider_Billing Shared_Keys Earnings Job_Correctness
begin

text \<open>
  Jobs served by external providers: admission, settlement with the Key Owner's income, failure
  and recovery after a restart (\<open>service/provider_job.go\<close>), the publication of streamed jobs
  (\<open>api/llm/provider_job_handler.go\<close>) and the Cost Level of automatic projects.
\<close>

subsection \<open>Admission\<close>

record create_provider_job_input =
  cp_project :: "project option"
  cp_api_type :: task_api_type
  cp_route :: provider_model_route
  cp_background :: bool
  cp_stream :: bool
  cp_request_body :: string
  cp_priority_gwei :: "int option"
  cp_credits_to_lock :: "int option"
  cp_queue_timeout :: u64
  cp_billing_snapshot :: provider_billing
  cp_public_id :: string

definition provider_task_fee :: "int \<Rightarrow> string \<Rightarrow> int" where
  "provider_task_fee priority maxTaskPriceCNX =
     (case ProviderBillableGwei priority 1 maxTaskPriceCNX of
        Inl _ \<Rightarrow> ProviderEarningWei (of_int priority)
      | Inr billable \<Rightarrow> ProviderEarningWei billable)"

definition provider_snapshot :: "create_provider_job_input \<Rightarrow> int \<Rightarrow> int \<Rightarrow> task_billing_data" where
  "provider_snapshot inp priority credits =
     \<lparr>bd_version = 1, bd_priority_gwei = int_str priority, bd_billed_vram = 0,
      bd_task_fee_wei = int_str (provider_task_fee priority (pb_max_task_price_cnx (cp_billing_snapshot inp))),
      bd_locked_credits = int_str credits, bd_llm = None, bd_image = None,
      bd_provider = Some (cp_billing_snapshot inp)\<rparr>"

definition provider_row_of ::
  "create_provider_job_input \<Rightarrow> gotime \<Rightarrow> project \<Rightarrow> int \<Rightarrow> int \<Rightarrow> billing_column \<Rightarrow> nat \<Rightarrow> task_job" where
  "provider_row_of inp now project priority credits billing n =
     \<lparr>tj_id = n, tj_created_at = now, tj_project_id = pr_id project, tj_user_id = pr_user_id project,
      tj_priority_gwei = priority, tj_sortable_priority = FormatSortablePriority (Some priority),
      tj_execution_source = provider_ExecutionSource (rt_service_provider (cp_route inp)),
      tj_task_type = (if cp_api_type inp \<in> {TaskAPITypeImagesGenerations, TaskAPITypeImagesEdits}
                      then TaskTypeImage else TaskTypeLLM),
      tj_api_type = cp_api_type inp, tj_model = rt_model_name (cp_route inp), tj_billed_vram = 0,
      tj_public_id = cp_public_id inp, tj_background = cp_background inp, tj_stream = cp_stream inp,
      tj_task_args_json = cp_request_body inp, tj_task_version = None, tj_min_vram = None,
      tj_queue_timeout = cp_queue_timeout inp, tj_bridge_client_task_id = None,
      tj_status = TaskJobStatusPendingSubmit, tj_phase = (if cp_stream inp then ''admitting'' else ''queued''),
      tj_estimated_completion_at = None, tj_raw_result_json = None, tj_formatted_result_json = None,
      tj_error_message = None, tj_billing_status = TaskJobBillingPending, tj_task_call_record_id = None,
      tj_billing_data = billing, tj_credits_locked = credits, tj_credits_lock_status = TaskJobCreditsLockHeld,
      tj_started_at = None, tj_completed_at = None, tj_transient = no_transient\<rparr>"

definition ReserveCreditsAndCreateProviderTaskJob ::
  "gotime \<Rightarrow> db \<Rightarrow> create_provider_job_input \<Rightarrow> err + db \<times> task_job" where
  "ReserveCreditsAndCreateProviderTaskJob now d inp =
     bindE (of_option (ErrMsg ''project is required'') (cp_project inp)) (\<lambda>project.
     bindE (of_option (ErrMsg ''priority_gwei is required'') (cp_priority_gwei inp)) (\<lambda>priority.
     rejectIf (priority \<le> 0) (ErrMsg ''priority_gwei is required'')
     (bindE (of_option (ErrMsg ''credits_to_lock must be positive'') (cp_credits_to_lock inp)) (\<lambda>credits.
      rejectIf (credits \<le> 0) (ErrMsg ''credits_to_lock must be positive'')
      (rejectIf (cp_queue_timeout inp = 0) (ErrMsg ''queue_timeout is required'')
      (bindE (EncodeTaskBillingData (provider_snapshot inp priority credits)) (\<lambda>billing.
      create_job_tx d (pr_user_id project) (Some credits)
        (provider_row_of inp now project priority credits billing))))))))"

text \<open>A streamed job enters the queue once its subscriber is registered.\<close>

definition publish_stream_job :: "db \<Rightarrow> nat \<Rightarrow> db" where
  "publish_stream_job d jobID = update_job d jobID (\<lambda>j. j\<lparr>tj_phase := ''queued''\<rparr>)"

subsection \<open>Settlement\<close>

record provider_price =
  pp_priority :: int
  pp_credits :: int
  pp_earning_wei :: int

definition provider_price_of :: "task_job \<Rightarrow> provider_usage \<Rightarrow> err + provider_price" where
  "provider_price_of job usage =
     bindE (DecodeBillingData job) (\<lambda>billing.
     bindE (of_option (ErrMsg ''missing provider billing snapshot'') (bd_provider billing)) (\<lambda>p.
     bindE (CalculateProviderUnits usage (pb_usage_weights p)) (\<lambda>units.
     bindE (of_option (ErrMsg ''invalid effective priority in snapshot'')
         (bigint_set_string (pb_effective_priority_gwei p))) (\<lambda>priority.
     bindE (ProviderBillableGwei priority units (pb_max_task_price_cnx p)) (\<lambda>billableGwei.
     bindE (ProviderConsumerCredits billableGwei (pb_credits_per_gwei p)) (\<lambda>credits.
     Inr \<lparr>pp_priority = priority, pp_credits = credits, pp_earning_wei = ProviderEarningWei billableGwei\<rparr>))))))"

definition provider_success_call ::
  "task_job \<Rightarrow> nat \<Rightarrow> provider_usage \<Rightarrow> provider_price \<Rightarrow> gotime \<Rightarrow> task_call_input" where
  "provider_success_call locked keyID usage price now =
     \<lparr>in_user_id = tj_user_id locked, in_project_id = tj_project_id locked, in_task_job_id = Some (tj_id locked),
      in_task_type = tj_task_type locked, in_api_type = tj_api_type locked, in_model = tj_model locked,
      in_execution_source = tj_execution_source locked, in_shared_api_key_id = Some keyID,
      in_task_args_json = tj_task_args_json locked, in_prompt_tokens = pu_input usage,
      in_completion_tokens = pu_output usage, in_total_tokens = pu_total usage,
      in_priority_gwei = Some (pp_priority price), in_token_usage_applicable = True,
      in_status = TaskCallStatusSuccess, in_credits = Some (pp_credits price),
      in_accepted_at = tj_created_at locked, in_completed_at = now, in_billed_vram = 0, in_charge = True\<rparr>"

definition provider_complete_row :: "gotime \<Rightarrow> string \<Rightarrow> string \<Rightarrow> nat \<Rightarrow> task_job \<Rightarrow> task_job" where
  "provider_complete_row now raw formatted recordID j =
     j\<lparr>tj_status := TaskJobStatusCompleted, tj_billing_status := TaskJobBillingBilled,
       tj_task_call_record_id := Some recordID, tj_raw_result_json := Some raw,
       tj_formatted_result_json := Some formatted, tj_completed_at := Some now, tj_phase := ''completed''\<rparr>"

definition SettleProviderTaskJob ::
  "workload_fn \<Rightarrow> gotime \<Rightarrow> gotime \<Rightarrow> db \<Rightarrow> task_job \<Rightarrow> nat \<Rightarrow> nat \<Rightarrow> string \<Rightarrow> string \<Rightarrow> string \<Rightarrow> provider_usage \<Rightarrow>
   err + db" where
  "SettleProviderTaskJob wl now now' d job keyID ownerID ownerAddress raw formatted usage =
     bindE (provider_price_of job usage) (\<lambda>price.
     bindE (of_option ErrRecordNotFound (job_by d (tj_id job))) (\<lambda>locked0.
     if IsTerminal locked0 then Inr d
     else if tj_task_call_record_id locked0 \<noteq> None then Inr d
     else
       bindE (releaseCreditsHoldTx d locked0) (\<lambda>(d1, locked).
       bindE (processTaskCallTx wl d1 (provider_success_call locked keyID usage price now)) (\<lambda>(d2, recordID).
       bindE (AddSharedAPIKeyUsageTx d2 keyID (pu_input usage) (pu_output usage)) (\<lambda>d3.
       bindE (CreateTaskIncomeEarningTx d3 ownerID ownerAddress (Some (pp_earning_wei price)) recordID) (\<lambda>d4.
       Inr (update_job d4 (tj_id locked) (provider_complete_row now' raw formatted recordID))))))))"

subsection \<open>Failure\<close>

definition provider_failed_call :: "task_job \<Rightarrow> nat option \<Rightarrow> gotime \<Rightarrow> task_call_input" where
  "provider_failed_call locked keyID now =
     \<lparr>in_user_id = tj_user_id locked, in_project_id = tj_project_id locked, in_task_job_id = Some (tj_id locked),
      in_task_type = tj_task_type locked, in_api_type = tj_api_type locked, in_model = tj_model locked,
      in_execution_source = tj_execution_source locked, in_shared_api_key_id = keyID,
      in_task_args_json = tj_task_args_json locked, in_prompt_tokens = 0, in_completion_tokens = 0,
      in_total_tokens = 0, in_priority_gwei = Some (tj_priority_gwei locked), in_token_usage_applicable = False,
      in_status = TaskCallStatusFailed, in_credits = Some 0, in_accepted_at = tj_created_at locked,
      in_completed_at = now, in_billed_vram = 0, in_charge = False\<rparr>"

definition provider_failed_row :: "gotime \<Rightarrow> string \<Rightarrow> nat \<Rightarrow> task_job \<Rightarrow> task_job" where
  "provider_failed_row now msg recordID j =
     j\<lparr>tj_status := TaskJobStatusFailed, tj_billing_status := TaskJobBillingNotBilled,
       tj_task_call_record_id := Some recordID, tj_error_message := Some msg, tj_completed_at := Some now,
       tj_phase := ''failed''\<rparr>"

definition FailProviderTaskJob ::
  "workload_fn \<Rightarrow> gotime \<Rightarrow> gotime \<Rightarrow> db \<Rightarrow> nat \<Rightarrow> nat option \<Rightarrow> string \<Rightarrow> err + db" where
  "FailProviderTaskJob wl now now' d jobID keyID msg =
     bindE (of_option ErrRecordNotFound (job_by d jobID)) (\<lambda>locked0.
     if IsTerminal locked0 then Inr d
     else
       bindE (releaseCreditsHoldTx d locked0) (\<lambda>(d1, locked).
       bindE (processTaskCallTx wl d1 (provider_failed_call locked keyID now)) (\<lambda>(d2, recordID).
       Inr (update_job d2 (tj_id locked) (provider_failed_row now' msg recordID)))))"

subsection \<open>Recovery after a restart\<close>

definition provider_sources :: "string list" where
  "provider_sources = [ExecutionSourceOpenAI, ExecutionSourceAnthropic, ExecutionSourceGoogle]"

text \<open>The jobs a previous process left behind: started, or admitted and not yet queued.\<close>

definition interrupted :: "task_job \<Rightarrow> bool" where
  "interrupted j \<longleftrightarrow> tj_execution_source j \<in> set provider_sources \<and>
     (tj_status j \<in> {TaskJobStatusSubmitted, TaskJobStatusInProgress} \<or>
      tj_status j = TaskJobStatusPendingSubmit \<and> tj_phase j = ''admitting'')"

abbreviation priorBatchSize :: nat where "priorBatchSize \<equiv> 1000"

definition prior_batch :: "db \<Rightarrow> nat list" where
  "prior_batch d = take priorBatchSize (map tj_id (tbl_where interrupted (db_task_jobs d)))"

text \<open>\<open>now\<close> is the clock when the job with the given id is failed.\<close>

fun fail_each :: "workload_fn \<Rightarrow> (nat \<Rightarrow> gotime) \<Rightarrow> db \<Rightarrow> nat list \<Rightarrow> db \<times> err option" where
  "fail_each wl now d [] = (d, None)"
| "fail_each wl now d (jobID # ids) =
     (case FailProviderTaskJob wl (now jobID) (now jobID) d jobID None ''provider job interrupted by process restart'' of
        Inl e \<Rightarrow> (d, Some e)
      | Inr d' \<Rightarrow> fail_each wl now d' ids)"

partial_function (option) FailPriorProcessProviderJobs ::
  "workload_fn \<Rightarrow> (nat \<Rightarrow> gotime) \<Rightarrow> db \<Rightarrow> (db \<times> err option) option" where
  "FailPriorProcessProviderJobs wl now d =
     (let ids = prior_batch d; r = fail_each wl now d ids in
      if ids = [] then Some (d, None)
      else if snd r \<noteq> None then Some r
      else if length ids < priorBatchSize then Some (fst r, None)
      else FailPriorProcessProviderJobs wl now (fst r))"

subsection \<open>Queue timeout and Cost Level\<close>

definition ResolveProviderQueueTimeout :: "provider_config \<Rightarrow> u64 option \<Rightarrow> u64" where
  "ResolveProviderQueueTimeout cfg requestTimeout =
     (case requestTimeout of
        Some t \<Rightarrow> if 0 < t then t else pv_default_queue_timeout_seconds cfg
      | None \<Rightarrow> pv_default_queue_timeout_seconds cfg)"

record provider_queue_snapshot =
  pq_observed_at :: gotime
  pq_has_jobs :: bool
  pq_lowest :: "int option"
  pq_highest :: "int option"

definition ResolveAutoPriorityFromBounds :: "llm_config \<Rightarrow> project \<Rightarrow> int \<Rightarrow> int \<Rightarrow> err + int" where
  "ResolveAutoPriorityFromBounds cfg project lowest highest =
     bindE (requireAutoMaxCreditsPerTask project) (\<lambda>_.
     let position = (case pr_auto_queue_position project of None \<Rightarrow> DefaultAutoQueuePosition | Some pos \<Rightarrow> pos) in
     rejectIf (position < 0 \<or> 100 < position) (ErrMsg ''invalid auto queue position'')
       (ClampPriorityGwei cfg (Some (lowest + (highest - lowest) * position div 100))))"

definition ResolveProviderEffectivePriority ::
  "llm_config \<Rightarrow> queued_priority_cache \<Rightarrow> provider_queue_snapshot \<Rightarrow> project option \<Rightarrow> err + int" where
  "ResolveProviderEffectivePriority cfg cache snapshot project0 =
     bindE (of_option (ErrMsg ''project is required'') project0) (\<lambda>project.
     if cost_level_mode project \<noteq> CostLevelModeAuto then ResolveEffectivePriorityGwei cfg cache (Some project)
     else case (pq_has_jobs snapshot, pq_highest snapshot, pq_lowest snapshot) of
         (True, Some highest, Some lowest) \<Rightarrow>
           if lowest \<le> highest then ResolveAutoPriorityFromBounds cfg project lowest highest
           else ParseMinPriorityGwei cfg
       | _ \<Rightarrow> ParseMinPriorityGwei cfg)"

subsection \<open>What the steps leave alone\<close>

lemma save_key_tables [simp]:
  "db_task_jobs (save_key d k) = db_task_jobs d" "db_call_records (save_key d k) = db_call_records d"
  "db_credit_accounts (save_key d k) = db_credit_accounts d" "db_credit_events (save_key d k) = db_credit_events d"
  "db_stats (save_key d k) = db_stats d" "db_earning_accounts (save_key d k) = db_earning_accounts d"
  "db_earning_events (save_key d k) = db_earning_events d" "db_withdrawals (save_key d k) = db_withdrawals d"
  by (simp_all add: save_key_def set_keys_def)

lemma add_usage_tables:
  assumes "AddSharedAPIKeyUsageTx d keyID m n = Inr d'"
  shows "db_task_jobs d' = db_task_jobs d" "db_call_records d' = db_call_records d"
    "db_credit_accounts d' = db_credit_accounts d" "db_credit_events d' = db_credit_events d"
    "db_stats d' = db_stats d" "db_earning_accounts d' = db_earning_accounts d"
    "db_earning_events d' = db_earning_events d" "db_withdrawals d' = db_withdrawals d"
  using assms by (auto simp: AddSharedAPIKeyUsageTx_def res_simps split: if_splits)

lemma income_tables:
  assumes "CreateTaskIncomeEarningTx d u addr amount r = Inr d'"
  shows "db_task_jobs d' = db_task_jobs d \<and> db_call_records d' = db_call_records d \<and>
    db_credit_accounts d' = db_credit_accounts d \<and> db_credit_events d' = db_credit_events d \<and>
    db_stats d' = db_stats d \<and> db_shared_keys d' = db_shared_keys d"
  using assms
  by (auto simp: CreateTaskIncomeEarningTx_def res_simps create_earning_account_Inr create_earning_event_Inr
      save_earning_def split: option.splits if_splits)

lemma provider_call_sel [simp]:
  "in_task_job_id (provider_failed_call l k now) = Some (tj_id l)" "in_user_id (provider_failed_call l k now) = tj_user_id l"
  "in_status (provider_failed_call l k now) = TaskCallStatusFailed" "chargeable (provider_failed_call l k now) = None"
  "in_task_job_id (provider_success_call l key u p now) = Some (tj_id l)"
  "in_user_id (provider_success_call l key u p now) = tj_user_id l"
  "in_status (provider_success_call l key u p now) = TaskCallStatusSuccess"
  "chargeable (provider_success_call l key u p now) = (if 0 < pp_credits p then Some (pp_credits p) else None)"
  by (simp_all add: provider_failed_call_def provider_success_call_def chargeable_def)

lemma closes_provider:
  "closes TaskCallStatusSuccess r (provider_complete_row now raw formatted r)"
  "closes TaskCallStatusFailed r (provider_failed_row now msg r)"
  by (simp_all add: closes_def provider_complete_row_def provider_failed_row_def)

end
