(* ===== verification/Provider_Correctness.thy ===== *)
theory Provider_Correctness
  imports Provider_Jobs
begin

text \<open>
  What the operations on provider jobs do: a settlement moves the Credits of the caller, the
  usage of the key and the income of its owner together; a restart fails exactly the jobs the
  previous process left behind.
\<close>

subsection \<open>The income of a call\<close>

lemma earn_acct_create:
  assumes inv: "earning_off eo po d" and c: "create_earning_account d u = Inr (d1, a)"
  shows "earn_acct d1 v = (if v = u then Some a else earn_acct d v)" "earn_acct d u = None" "ea_available a = 0"
proof -
  obtain t where t: "tbl_create earning_account_clash (earning_row_of u) (db_earning_accounts d) = Inr (t, a)"
    and d1: "d1 = d\<lparr>db_earning_accounts := t\<rparr>"
    using c by (auto simp: create_earning_account_Inr)
  define r0 where "r0 = earning_row_of u 0"
  have mk: "earning_row_of u = (\<lambda>n. r0\<lparr>ea_id := n\<rparr>)" by (simp add: earning_row_of_def r0_def fun_eq_iff)
  have wf: "idx_wf ea_id ea_user_id (db_earning_accounts d)" using inv by (simp add: earning_off_def)
  have a: "ea_user_id a = u" "ea_available a = 0" using t by (auto simp: res_simps earning_row_of_def)
  show "earn_acct d1 v = (if v = u then Some a else earn_acct d v)"
    using earning_by_user.lookup_create [OF wf t [unfolded mk], of v] a
    by (simp add: d1 earn_acct_def earning_account_clash_def)
  show "earn_acct d u = None" "ea_available a = 0"
    using t a by (auto simp: res_simps earning_account_clash_def earning_row_of_def earn_acct_def tbl_lookup_None_iff)
qed

definition available_earnings :: "db \<Rightarrow> nat \<Rightarrow> int" where
  "available_earnings d u = (case earn_acct d u of None \<Rightarrow> 0 | Some a \<Rightarrow> ea_available a)"

lemma income_exact:
  assumes inv: "earning_inv d" and c: "CreateTaskIncomeEarningTx d u addr (Some n) r = Inr d'"
  shows "earning_inv d'"
    "available_earnings d' v = available_earnings d v + (if v = u \<and> 0 < n then n else 0)"
    "if 0 < n then \<exists>a. earn_acct d' u = Some a \<and> rows (db_earning_events d') = rows (db_earning_events d) @
        [earning_event_of (Some (ea_id a)) addr EarningEventTypeTaskIncome n EarningSourceTypeTaskCallRecord r
           (next_id (db_earning_events d))]
     else rows (db_earning_events d') = rows (db_earning_events d)"
proof -
  have off: "earning_off (\<lambda>_. 0) (\<lambda>_. 0) d" using inv by (simp add: earning_inv_def)
  show "earning_inv d'" using income_off [OF off _ c] inv by (simp add: earning_inv_def)
  have both: "available_earnings d' v = available_earnings d v + (if v = u \<and> 0 < n then n else 0) \<and>
    (if 0 < n then \<exists>a. earn_acct d' u = Some a \<and> rows (db_earning_events d') = rows (db_earning_events d) @
        [earning_event_of (Some (ea_id a)) addr EarningEventTypeTaskIncome n EarningSourceTypeTaskCallRecord r
           (next_id (db_earning_events d))]
     else rows (db_earning_events d') = rows (db_earning_events d))"
  proof (cases "0 < n")
    case False
    then show ?thesis using c by (simp add: CreateTaskIncomeEarningTx_def)
  next
    case True
    obtain d1 a where d1: "earning_off (\<lambda>_. 0) (\<lambda>_. 0) d1" "earn_acct d1 u = Some a"
      "\<forall>v. available_earnings d1 v = available_earnings d v" "db_earning_events d1 = db_earning_events d"
      "\<exists>e. create_earning_event (save_earning d1 (a\<lparr>ea_available := ea_available a + n\<rparr>))
         (earning_event_of (Some (ea_id a)) addr EarningEventTypeTaskIncome n EarningSourceTypeTaskCallRecord r) = Inr (d', e)"
    proof (cases "earn_acct d u")
      case None
      with c True obtain d1 a0 a e where s: "create_earning_account d u = Inr (d1, a0)" "earn_acct d1 u = Some a"
        "create_earning_event (save_earning d1 (a\<lparr>ea_available := ea_available a + n\<rparr>))
         (earning_event_of (Some (ea_id a)) addr EarningEventTypeTaskIncome n
            EarningSourceTypeTaskCallRecord r) = Inr (d', e)"
        by (auto simp: CreateTaskIncomeEarningTx_def bindE_Inr_iff of_option_Inr_iff)
      have "\<forall>v. available_earnings d1 v = available_earnings d v"
        using earn_acct_create [OF off s(1)] by (simp add: available_earnings_def)
      moreover have "db_earning_events d1 = db_earning_events d" using s(1) by (auto simp: create_earning_account_Inr)
      ultimately show ?thesis using that earning_off_create [OF off s(1)] s(2,3) by blast
    next
      case (Some a)
      with c True off that [OF off Some] show ?thesis by (auto simp: CreateTaskIncomeEarningTx_def bindE_Inr_iff)
    qed
    then obtain e where e: "create_earning_event (save_earning d1 (a\<lparr>ea_available := ea_available a + n\<rparr>))
         (earning_event_of (Some (ea_id a)) addr EarningEventTypeTaskIncome n EarningSourceTypeTaskCallRecord r) = Inr (d', e)"
      by blast
    note sel = create_earning_event_sel [OF e]
    have wf: "idx_wf ea_id ea_user_id (db_earning_accounts d1)" using d1(1) by (simp add: earning_off_def)
    have acct: "earn_acct d' v = (if v = u then Some (a\<lparr>ea_available := ea_available a + n\<rparr>) else earn_acct d1 v)" for v
      using earn_acct_save [OF wf d1(2), of "a\<lparr>ea_available := ea_available a + n\<rparr>" v] sel earn_acct_user [OF d1(2)]
      by (simp add: earn_acct_def)
    have "available_earnings d1 u = ea_available a" by (simp add: available_earnings_def d1(2))
    then have "available_earnings d' v = available_earnings d v + (if v = u then n else 0)"
      using acct [of v] d1(3) by (simp add: available_earnings_def split: if_splits)
    then show ?thesis using True sel acct [of u] d1(4) by simp
  qed
  then show "available_earnings d' v = available_earnings d v + (if v = u \<and> 0 < n then n else 0)"
    "if 0 < n then \<exists>a. earn_acct d' u = Some a \<and> rows (db_earning_events d') = rows (db_earning_events d) @
        [earning_event_of (Some (ea_id a)) addr EarningEventTypeTaskIncome n EarningSourceTypeTaskCallRecord r
           (next_id (db_earning_events d))]
     else rows (db_earning_events d') = rows (db_earning_events d)" by blast+
qed

subsection \<open>Settlement\<close>

lemma earning_inv_cong:
  "earning_inv d \<Longrightarrow> db_earning_accounts d' = db_earning_accounts d \<Longrightarrow> db_earning_events d' = db_earning_events d \<Longrightarrow>
   db_withdrawals d' = db_withdrawals d \<Longrightarrow> earning_inv d'"
  unfolding earning_inv_def refunds_ok_def using earning_off_cong by metis

definition used_tokens :: "db \<Rightarrow> nat \<Rightarrow> (u64 \<times> u64) option" where
  "used_tokens d k = map_option (\<lambda>r. (sk_used_input_tokens r, sk_used_output_tokens r)) (key_by d k)"

lemma add_usage_exact:
  assumes "keys_wf d" "AddSharedAPIKeyUsageTx d keyID m n = Inr d'"
  shows "keys_wf d'" "used_tokens d' k = (if k = keyID then map_option (\<lambda>(i, out). (i + m, out + n)) (used_tokens d k)
    else used_tokens d k)"
proof -
  have "keys_wf d' \<and> used_tokens d' k = (if k = keyID then map_option (\<lambda>(i, out). (i + m, out + n)) (used_tokens d k)
    else used_tokens d k)"
  proof (cases "m = 0 \<and> n = 0")
    case True
    then show ?thesis using assms
      by (cases "used_tokens d k") (auto simp: AddSharedAPIKeyUsageTx_def)
  next
    case False
    then obtain r where r: "key_by d keyID = Some r"
      "d' = save_key d (r\<lparr>sk_used_input_tokens := sk_used_input_tokens r + m,
                          sk_used_output_tokens := sk_used_output_tokens r + n\<rparr>)"
      using assms(2) by (auto simp: AddSharedAPIKeyUsageTx_def res_simps)
    have id: "sk_id r = keyID" using key_byD [OF r(1)] by simp
    let ?r = "r\<lparr>sk_used_input_tokens := sk_used_input_tokens r + m, sk_used_output_tokens := sk_used_output_tokens r + n\<rparr>"
    have old: "key_by d (sk_id ?r) = Some r" using r(1) id by simp
    show ?thesis
      using keys_wf_save [OF assms(1) old] key_by_save [OF assms(1) old, of k] id r
      by (simp add: used_tokens_def)
  qed
  then show "keys_wf d'" "used_tokens d' k = (if k = keyID then map_option (\<lambda>(i, out). (i + m, out + n)) (used_tokens d k)
    else used_tokens d k)" by simp_all
qed

text \<open>The steps of a settlement that goes through.\<close>

lemma settle_provider_parts:
  assumes J: "ledger_inv d" "jobs_inv d" "job_by d (tj_id job) = Some row" "tj_task_call_record_id row = None"
    and settle: "SettleProviderTaskJob wl now now' d job keyID ownerID addr raw formatted usage = Inr d'"
  obtains price a0 d1 d2 rid d3 d4 where "releaseCreditsHoldTx d row = Inr (d1, released row)"
    "d1 = update_job (save_account d a0) (tj_id job) released" "provider_price_of job usage = Inr price"
    "processTaskCallTx wl d1 (provider_success_call (released row) keyID usage price now) = Inr (d2, rid)"
    "AddSharedAPIKeyUsageTx d2 keyID (pu_input usage) (pu_output usage) = Inr d3"
    "CreateTaskIncomeEarningTx d3 ownerID addr (Some (pp_earning_wei price)) rid = Inr d4"
    "d' = update_job d4 (tj_id job) (provider_complete_row now' raw formatted rid)"
    "ledger_inv d'" "jobs_inv d'" "job_by d' (tj_id job) = Some (provider_complete_row now' raw formatted rid (released row))"
proof -
  note jd = jobs_invD [OF J(2,3)]
  have nt: "\<not> IsTerminal row" using jd(1) J(4) job_ok_open by blast
  obtain a0 d1 where rel: "releaseCreditsHoldTx d row = Inr (d1, released row)"
    and d1: "d1 = update_job (save_account d a0) (tj_id job) released"
    using release_exact [OF J] by blast
  obtain price d2 rid d3 d4 where s: "provider_price_of job usage = Inr price"
    "processTaskCallTx wl d1 (provider_success_call (released row) keyID usage price now) = Inr (d2, rid)"
    "AddSharedAPIKeyUsageTx d2 keyID (pu_input usage) (pu_output usage) = Inr d3"
    "CreateTaskIncomeEarningTx d3 ownerID addr (Some (pp_earning_wei price)) rid = Inr d4"
    "d' = update_job d4 (tj_id job) (provider_complete_row now' raw formatted rid)"
    using J(3,4) settle nt rel jd(3) by (auto simp: SettleProviderTaskJob_def res_simps)
  let ?inp = "provider_success_call (released row) keyID usage price now"
  have i: "in_task_job_id ?inp = Some (tj_id job)" using jd(3) by simp
  have f: "closes (in_status ?inp) rid (provider_complete_row now' raw formatted rid)" by (simp add: closes_provider)
  have tabs: "db_task_jobs d' = db_task_jobs (update_job d2 (tj_id job) (provider_complete_row now' raw formatted rid))"
    "db_call_records d' = db_call_records d2" "db_credit_accounts d' = db_credit_accounts d2"
    "db_credit_events d' = db_credit_events d2" "db_stats d' = db_stats d2"
    using add_usage_tables [OF s(3)] income_tables [OF s(4)] by (simp_all add: s(5))
  show ?thesis using that [OF rel d1 s] closing [OF J rel s(2) i f tabs] by blast
qed

text \<open>C9. A provider job is settled exactly, in one transaction: if settling an open job succeeds, its
  hold is released and the caller is charged the price of the reported usage at the terms of the
  stored snapshot, or what the account holds beyond its other holds if that is less; the owner of
  the key, and nobody else, earns the Wei of the same price, as one income event that names
  the call record; the key's counters grow by the reported tokens; the row is closed with its
  record; and ledger, job rows and earnings stay consistent.\<close>

theorem provider_settled_exact:
  assumes "ledger_inv d" "jobs_inv d" "earning_inv d" "keys_wf d"
    "job_by d (tj_id job) = Some row" "tj_task_call_record_id row = None"
    "SettleProviderTaskJob wl now now' d job keyID ownerID addr raw formatted usage = Inr d'"
  shows "\<exists>price a m rid. provider_price_of job usage = Inr price \<and> credit_acct d (tj_user_id row) = Some a \<and>
    m = (if 0 < pp_credits price then min (pp_credits price) (ca_balance a - (ca_locked a - tj_credits_locked row)) else 0) \<and>
    credit_acct d' = (credit_acct d)(tj_user_id row \<mapsto> a\<lparr>ca_balance := ca_balance a - m,
        ca_locked := ca_locked a - tj_credits_locked row\<rparr>) \<and>
    rows (db_credit_events d') = rows (db_credit_events d) @
       (if m = 0 then [] else [charge_event (tj_user_id row) m rid (next_id (db_credit_events d))]) \<and>
    (\<forall>v. available_earnings d' v = available_earnings d v +
       (if v = ownerID \<and> 0 < pp_earning_wei price then pp_earning_wei price else 0)) \<and>
    (if 0 < pp_earning_wei price
     then \<exists>b. earn_acct d' ownerID = Some b \<and> rows (db_earning_events d') = rows (db_earning_events d) @
        [earning_event_of (Some (ea_id b)) addr EarningEventTypeTaskIncome (pp_earning_wei price)
           EarningSourceTypeTaskCallRecord rid (next_id (db_earning_events d))]
     else rows (db_earning_events d') = rows (db_earning_events d)) \<and>
    (\<forall>k. used_tokens d' k = (if k = keyID
       then map_option (\<lambda>(i, out). (i + pu_input usage, out + pu_output usage)) (used_tokens d k) else used_tokens d k)) \<and>
    job_by d' (tj_id job) = Some (provider_complete_row now' raw formatted rid (released row)) \<and>
    ledger_inv d' \<and> jobs_inv d' \<and> earning_inv d' \<and> keys_wf d'"
proof -
  note J = assms(1,2,5,6)
  note jd = jobs_invD [OF assms(2,5)]
  obtain price a0 d1 d2 rid d3 d4 where rel: "releaseCreditsHoldTx d row = Inr (d1, released row)"
    and d1: "d1 = update_job (save_account d a0) (tj_id job) released"
    and s: "provider_price_of job usage = Inr price"
    "processTaskCallTx wl d1 (provider_success_call (released row) keyID usage price now) = Inr (d2, rid)"
    "AddSharedAPIKeyUsageTx d2 keyID (pu_input usage) (pu_output usage) = Inr d3"
    "CreateTaskIncomeEarningTx d3 ownerID addr (Some (pp_earning_wei price)) rid = Inr d4"
    "d' = update_job d4 (tj_id job) (provider_complete_row now' raw formatted rid)"
    and clo: "ledger_inv d'" "jobs_inv d'"
      "job_by d' (tj_id job) = Some (provider_complete_row now' raw formatted rid (released row))"
    by (rule settle_provider_parts [OF J assms(7)])
  let ?inp = "provider_success_call (released row) keyID usage price now"
  have i: "in_task_job_id ?inp = Some (tj_id job)" "in_user_id ?inp = tj_user_id row" using jd(3) by simp_all
  have f: "closes (in_status ?inp) rid (provider_complete_row now' raw formatted rid)" by (simp add: closes_provider)
  note t3 = add_usage_tables [OF s(3)] and t4 = income_tables [OF s(4)] and t2 = process_tables [OF s(2)]
  have tabs: "db_task_jobs d' = db_task_jobs (update_job d2 (tj_id job) (provider_complete_row now' raw formatted rid))"
    "db_call_records d' = db_call_records d2" "db_credit_accounts d' = db_credit_accounts d2"
    "db_credit_events d' = db_credit_events d2" "db_stats d' = db_stats d2"
    using t3 t4 by (simp_all add: s(5))
  have E2: "earning_inv d2"
    by (rule earning_inv_cong [OF assms(3)]) (simp_all add: t2 d1)
  have E3: "earning_inv d3" by (rule earning_inv_cong [OF E2]) (simp_all add: t3)
  note inc = income_exact [OF E3 s(4)]
  have avail: "available_earnings d3 v = available_earnings d v" "available_earnings d' v = available_earnings d4 v"
    "earn_acct d' v = earn_acct d4 v" "rows (db_earning_events d') = rows (db_earning_events d4)" for v
    by (simp_all add: available_earnings_def earn_acct_def t3 t2 d1 s(5))
  have K2: "keys_wf d2" using assms(4) by (simp add: keys_wf_def t2 d1)
  note use = add_usage_exact [OF K2 s(3)]
  have used: "used_tokens d2 k = used_tokens d k" "used_tokens d' k = used_tokens d3 k" "keys_wf d' = keys_wf d3" for k
    using t4 by (simp_all add: used_tokens_def key_by_def t2 d1 s(5) keys_wf_def)
  have E': "earning_inv d'" by (rule earning_inv_cong [OF inc(1)]) (simp_all add: s(5))
  have ev: "db_earning_events d3 = db_earning_events d" by (simp add: t3 t2 d1)
  obtain a m where am: "credit_acct d (tj_user_id row) = Some a"
    "m = (case chargeable ?inp of None \<Rightarrow> 0 | Some c \<Rightarrow> min c (ca_balance a - (ca_locked a - tj_credits_locked row)))"
    "credit_acct d' = (credit_acct d)(tj_user_id row \<mapsto> a\<lparr>ca_balance := ca_balance a - m,
        ca_locked := ca_locked a - tj_credits_locked row\<rparr>)"
    "rows (db_credit_events d') = rows (db_credit_events d) @
       (if m = 0 then [] else [charge_event (tj_user_id row) m rid (next_id (db_credit_events d))])"
    by (rule ending_exact [OF J rel s(2) i f tabs])
  have m: "m = (if 0 < pp_credits price then min (pp_credits price) (ca_balance a - (ca_locked a - tj_credits_locked row)) else 0)"
    using am(2) by simp
  have earn: "\<forall>v. available_earnings d' v = available_earnings d v +
       (if v = ownerID \<and> 0 < pp_earning_wei price then pp_earning_wei price else 0)"
    using inc(2) avail by simp
  have evs: "if 0 < pp_earning_wei price
     then \<exists>b. earn_acct d' ownerID = Some b \<and> rows (db_earning_events d') = rows (db_earning_events d) @
        [earning_event_of (Some (ea_id b)) addr EarningEventTypeTaskIncome (pp_earning_wei price)
           EarningSourceTypeTaskCallRecord rid (next_id (db_earning_events d))]
     else rows (db_earning_events d') = rows (db_earning_events d)"
    using inc(3) unfolding avail(3,4) ev .
  have usage: "\<forall>k. used_tokens d' k = (if k = keyID
       then map_option (\<lambda>(i, out). (i + pu_input usage, out + pu_output usage)) (used_tokens d k) else used_tokens d k)"
    using use(2) used by simp
  show ?thesis
    using s(1) am(1) m am(3,4) earn evs usage clo E' use(1) used(3) by blast
qed

text \<open>Settling succeeds when usage has a price, the key exists and the record is new.\<close>

lemma income_succeeds:
  assumes "earning_inv d"
    "\<forall>e \<in> set (rows (db_earning_events d)). ee_type e = EarningEventTypeTaskIncome \<longrightarrow> ee_source_id e \<noteq> r"
  shows "\<exists>d'. CreateTaskIncomeEarningTx d u addr amount r = Inr d'"
proof -
  have ev: "\<exists>x. create_earning_event d2 (earning_event_of k addr EarningEventTypeTaskIncome n EarningSourceTypeTaskCallRecord r) = Inr x"
    if "db_earning_events d2 = db_earning_events d" for d2 k n
    using assms(2) that
    by (auto simp: create_earning_event_def tbl_create_def Let_def list_ex_iff earning_event_clash_def earning_event_of_def)
  have acc: "\<exists>d1 a. create_earning_account d u = Inr (d1, a) \<and> earn_acct d1 u = Some a \<and>
      db_earning_events d1 = db_earning_events d" if "earn_acct d u = None"
  proof -
    have "\<exists>d1 a. create_earning_account d u = Inr (d1, a)"
      using that by (auto simp: create_earning_account_def tbl_create_def Let_def list_ex_iff
          earning_account_clash_def earn_acct_def earning_row_of_def tbl_lookup_None_iff)
    then obtain d1 a where c: "create_earning_account d u = Inr (d1, a)" by blast
    have "earning_off (\<lambda>_. 0) (\<lambda>_. 0) d" using assms(1) by (simp add: earning_inv_def)
    from earn_acct_create(1) [OF this c, of u] c show ?thesis by (auto simp: create_earning_account_Inr)
  qed
  show ?thesis
  proof (cases "earn_acct d u")
    case None
    then obtain d1 a where d1: "create_earning_account d u = Inr (d1, a)" "earn_acct d1 u = Some a"
      "db_earning_events d1 = db_earning_events d" using acc by blast
    obtain x where "create_earning_event (save_earning d1 (a\<lparr>ea_available := ea_available a + the amount\<rparr>))
        (earning_event_of (Some (ea_id a)) addr EarningEventTypeTaskIncome (the amount) EarningSourceTypeTaskCallRecord r) = Inr x"
      using ev d1(3) by fastforce
    then show ?thesis using None d1
      by (cases amount; cases x) (simp_all add: CreateTaskIncomeEarningTx_def)
  next
    case (Some a)
    obtain x where "create_earning_event (save_earning d (a\<lparr>ea_available := ea_available a + the amount\<rparr>))
        (earning_event_of (Some (ea_id a)) addr EarningEventTypeTaskIncome (the amount) EarningSourceTypeTaskCallRecord r) = Inr x"
      using ev by fastforce
    then show ?thesis using Some
      by (cases amount; cases x) (simp_all add: CreateTaskIncomeEarningTx_def)
  qed
qed

lemma settle_provider_succeeds:
  assumes "ledger_inv d" "jobs_inv d" "job_by d (tj_id job) = Some job" "tj_task_call_record_id job = None"
    "earning_inv d" "tj_user_id job \<noteq> 0" "tj_project_id job \<noteq> 0" "tj_created_at job \<noteq> zero_time" "now \<noteq> zero_time"
    "tj_created_at job \<le> now" "provider_price_of job usage = Inr price" "0 \<le> pp_credits price" "key_by d keyID = Some k"
    "\<forall>e \<in> set (rows (db_earning_events d)). ee_type e = EarningEventTypeTaskIncome \<longrightarrow>
       ee_source_id e \<noteq> next_id (db_call_records d)"
  shows "\<exists>d'. SettleProviderTaskJob wl now now' d job keyID ownerID addr raw formatted usage = Inr d'"
proof -
  note jd = jobs_invD [OF assms(2,3)]
  have nt: "\<not> IsTerminal job" using jd(1) assms(4) job_ok_open by blast
  obtain a0 d1 where rel: "releaseCreditsHoldTx d job = Inr (d1, released job)"
    and d1: "d1 = update_job (save_account d a0) (tj_id job) released"
    using release_exact [OF assms(1-4)] by blast
  let ?inp = "provider_success_call (released job) keyID usage price now"
  have "call_fits ?inp" "in_task_job_id ?inp = Some (tj_id job)" "in_user_id ?inp = tj_user_id job"
    using assms(6-10,12) by (simp_all add: provider_success_call_def call_fits_def credits_of_def)
  then obtain d2 rid where p: "processTaskCallTx wl d1 ?inp = Inr (d2, rid)"
    using ending_succeeds [OF assms(1-4) rel] by blast
  note t2 = process_tables [OF p]
  have "key_by d2 keyID = Some k" using assms(13) by (simp add: key_by_def t2 d1)
  then have "\<exists>d3. AddSharedAPIKeyUsageTx d2 keyID (pu_input usage) (pu_output usage) = Inr d3"
    by (simp add: AddSharedAPIKeyUsageTx_def)
  then obtain d3 where u: "AddSharedAPIKeyUsageTx d2 keyID (pu_input usage) (pu_output usage) = Inr d3" ..
  have "earning_inv d3" by (rule earning_inv_cong [OF assms(5)]) (simp_all add: add_usage_tables [OF u] t2 d1)
  moreover
  have "\<forall>e \<in> set (rows (db_earning_events d3)). ee_type e = EarningEventTypeTaskIncome \<longrightarrow> ee_source_id e \<noteq> rid"
    using assms(14) by (simp add: add_usage_tables [OF u] t2 d1)
  ultimately obtain d4 where "CreateTaskIncomeEarningTx d3 ownerID addr (Some (pp_earning_wei price)) rid = Inr d4"
    using income_succeeds by blast
  with nt assms(3,4,11) rel p u show ?thesis by (simp add: SettleProviderTaskJob_def)
qed

definition sample_provider_billing :: provider_billing where
  "sample_provider_billing = \<lparr>pb_service_provider = ''openai'', pb_model_name = ''m'',
     pb_usage_weights = rt_usage_weights sample_route, pb_effective_priority_gwei = ''5'',
     pb_credits_per_gwei = ''0.001'', pb_max_task_price_cnx = ''0.02'', pb_estimated_input_tokens = 10,
     pb_estimated_text_input_tokens = 10, pb_estimated_image_input_tokens = 0, pb_estimated_output_tokens = 50,
     pb_estimated_provider_units = ''260'', pb_locked_credits = ''40''\<rparr>"

text \<open>An open provider job, running on the key with number 7 of user 2.\<close>

definition sample_provider_job :: task_job where
  "sample_provider_job = sample_job\<lparr>tj_execution_source := ExecutionSourceOpenAI, tj_billed_vram := 0,
     tj_billing_data := BillingJSON \<lparr>bd_version = 1, bd_priority_gwei = ''5'', bd_billed_vram = 0,
       bd_task_fee_wei = ''0'', bd_locked_credits = ''40'', bd_llm = None, bd_image = None,
       bd_provider = Some sample_provider_billing\<rparr>,
     tj_status := TaskJobStatusSubmitted, tj_phase := ''running''\<rparr>"

definition sample_key :: shared_api_key where
  "sample_key = key_row_of ''key_a'' 2 ''openai'' ''abcd'' 1000 1000 ''f'' ''c'' ''n'' 7"

definition sample_provider_db :: db where
  "sample_provider_db = sample_job_db
     \<lparr>db_task_jobs := \<lparr>rows = [sample_provider_job], next_id = 2\<rparr>,
      db_shared_keys := \<lparr>rows = [sample_key], next_id = 8\<rparr>\<rparr>"

lemma sample_provider_db_inv:
  "ledger_inv sample_provider_db" "jobs_inv sample_provider_db" "earning_inv sample_provider_db" "keys_wf sample_provider_db"
  by (simp_all add: ledger_inv_def ledger_off_def ledger_ok_def sample_provider_db_def sample_job_db_def sample_db_def
      empty_db_def idx_wf_def tbl_wf_def credit_acct_def tbl_lookup_def tbl_first_def ledger_of_def held_of_def tbl_sum_def
      event_delta_def jobs_inv_def job_ok_def sample_provider_job_def sample_job_def IsTerminal_def holds_def empty_stats_def
      earning_inv_def earning_off_def refunds_ok_def earned_of_def pending_of_def earn_acct_def keys_wf_def
      sample_key_def key_row_of_def)

lemma sample_provider_price:
  "provider_price_of sample_provider_job sample_usage =
     Inr \<lparr>pp_priority = 5, pp_credits = 1, pp_earning_wei = 1027000000000\<rparr>"
proof -
  have "DecodeBillingData sample_provider_job = Inr \<lparr>bd_version = 1, bd_priority_gwei = ''5'', bd_billed_vram = 0,
       bd_task_fee_wei = ''0'', bd_locked_credits = ''40'', bd_llm = None, bd_image = None,
       bd_provider = Some sample_provider_billing\<rparr>"
    by (simp add: DecodeBillingData_def sample_provider_job_def check_billing_def decimal_eval)
       (simp add: sample_provider_billing_def sample_route_def)
  moreover have "ProviderBillableGwei 5 (1027 / 5) ''0.02'' = Inr 1027" "ProviderConsumerCredits 1027 ''0.001'' = Inr 1"
    "ProviderEarningWei 1027 = 1027000000000"
    by code_simp+
  ultimately show ?thesis
    using sample_units by (simp add: provider_price_of_def sample_provider_billing_def decimal_eval)
qed

theorem provider_settled_exact_witness:
  "\<exists>d' a. SettleProviderTaskJob no_workload 20 21 sample_provider_db sample_provider_job 7 2 ''0xb'' ''raw'' ''fmt''
      sample_usage = Inr d' \<and> credit_acct d' 1 = Some a \<and> ca_balance a = 99 \<and> ca_locked a = 0 \<and>
    available_earnings d' 2 = 1027000000000 \<and> earning_inv d'"
proof -
  have j: "job_by sample_provider_db (tj_id sample_provider_job) = Some sample_provider_job"
    "tj_task_call_record_id sample_provider_job = None" "tj_user_id sample_provider_job = 1"
    "tj_credits_locked sample_provider_job = 40"
    by (simp_all add: job_by_def sample_provider_db_def tbl_lookup_def tbl_first_def sample_provider_job_def sample_job_def)
  have k: "key_by sample_provider_db 7 = Some sample_key"
    by (simp add: key_by_def sample_provider_db_def tbl_lookup_def tbl_first_def sample_key_def key_row_of_def)
  have "\<exists>d'. SettleProviderTaskJob no_workload 20 21 sample_provider_db sample_provider_job 7 2 ''0xb'' ''raw'' ''fmt''
      sample_usage = Inr d'"
    by (rule settle_provider_succeeds [OF sample_provider_db_inv(1,2) j(1,2) sample_provider_db_inv(3) _ _ _ _ _
          sample_provider_price _ k])
       (simp_all add: sample_provider_job_def sample_job_def zero_time_def sample_provider_db_def sample_job_db_def
          sample_db_def empty_db_def)
  then obtain d' where d': "SettleProviderTaskJob no_workload 20 21 sample_provider_db sample_provider_job 7 2 ''0xb''
      ''raw'' ''fmt'' sample_usage = Inr d'" ..
  have a: "credit_acct sample_provider_db 1 = Some \<lparr>ca_id = 1, ca_user_id = 1, ca_balance = 100, ca_locked = 40\<rparr>"
    "available_earnings sample_provider_db 2 = 0"
    by (simp_all add: sample_provider_db_def sample_job_db_def sample_db_def empty_db_def credit_acct_def tbl_lookup_def
        tbl_first_def available_earnings_def earn_acct_def)
  from provider_settled_exact [OF sample_provider_db_inv j(1,2) d'] a j(3,4) sample_provider_price d' show ?thesis
    by auto
qed

subsection \<open>Recovery\<close>

text \<open>An open job whose record can be written at time \<open>now\<close>.\<close>

definition recordable :: "gotime \<Rightarrow> task_job \<Rightarrow> bool" where
  "recordable now j \<longleftrightarrow> tj_user_id j \<noteq> 0 \<and> tj_project_id j \<noteq> 0 \<and> tj_created_at j \<noteq> zero_time \<and> now \<noteq> zero_time \<and>
     tj_created_at j \<le> now"

lemma fail_provider_exact:
  assumes L: "ledger_inv d" and J: "jobs_inv d" and j: "job_by d n = Some j" "tj_task_call_record_id j = None"
    and r: "recordable now j"
  obtains d' rid where "FailProviderTaskJob wl now now' d n k msg = Inr d'" "ledger_inv d'" "jobs_inv d'"
    "db_task_jobs d' = tbl_modify (\<lambda>j. tj_id j = n) (\<lambda>j. provider_failed_row now' msg rid (released j)) (db_task_jobs d)"
    "rows (db_credit_events d') = rows (db_credit_events d)"
proof -
  note jd = jobs_invD [OF J j(1)]
  have nt: "\<not> IsTerminal j" using jd(1) j(2) job_ok_open by blast
  obtain a0 d1 where rel: "releaseCreditsHoldTx d j = Inr (d1, released j)"
    and d1: "d1 = update_job (save_account d a0) n released"
    using release_exact [OF L J j] by blast
  let ?inp = "provider_failed_call (released j) k now"
  have i: "in_task_job_id ?inp = Some n" "in_user_id ?inp = tj_user_id j" using jd(3) by simp_all
  have "call_fits ?inp" using r by (simp add: recordable_def provider_failed_call_def call_fits_def credits_of_def)
  then obtain d2 rid where p: "processTaskCallTx wl d1 ?inp = Inr (d2, rid)"
    using ending_succeeds [OF L J j rel _ i] by blast
  define d' where "d' = update_job d2 n (provider_failed_row now' msg rid)"
  have f: "closes (in_status ?inp) rid (provider_failed_row now' msg rid)" by (simp add: closes_provider)
  have tabs: "db_task_jobs d' = db_task_jobs (update_job d2 n (provider_failed_row now' msg rid))"
    "db_call_records d' = db_call_records d2" "db_credit_accounts d' = db_credit_accounts d2"
    "db_credit_events d' = db_credit_events d2" "db_stats d' = db_stats d2"
    by (simp_all add: d'_def)
  note clo = closing [OF L J j rel p i(1) f tabs]
  obtain m where "m = (case chargeable ?inp of None \<Rightarrow> 0 | Some c \<Rightarrow> c)"
    "rows (db_credit_events d') = rows (db_credit_events d) @
       (if m = 0 then [] else [charge_event (tj_user_id j) m rid (next_id (db_credit_events d))])"
    by (rule ending_exact [OF L J j rel p i f tabs]) (simp add: that)
  then have ev: "rows (db_credit_events d') = rows (db_credit_events d)" by simp
  have fr: "tj_id (provider_failed_row now' msg rid x) = tj_id x" for x by (simp add: provider_failed_row_def)
  have jobs: "db_task_jobs d' = tbl_modify (\<lambda>j. tj_id j = n) (\<lambda>j. provider_failed_row now' msg rid (released j)) (db_task_jobs d)"
    by (rule table.equality) (auto simp: d'_def process_tables(5) [OF p] d1)
  have "FailProviderTaskJob wl now now' d n k msg = Inr d'"
    using nt rel p j(1) jd(3) by (simp add: FailProviderTaskJob_def d'_def)
  then show ?thesis using that clo jobs ev by blast
qed

definition restart_message :: string where
  "restart_message = ''provider job interrupted by process restart''"

text \<open>What the recovery writes to a row.\<close>

definition ends_failed :: "(task_job \<Rightarrow> task_job) \<Rightarrow> bool" where
  "ends_failed f \<longleftrightarrow> (\<forall>j. tj_id (f j) = tj_id j \<and> tj_status (f j) = TaskJobStatusFailed \<and>
     tj_billing_status (f j) = TaskJobBillingNotBilled \<and> tj_credits_lock_status (f j) = TaskJobCreditsLockReleased \<and>
     tj_error_message (f j) = Some restart_message)"

lemma ends_failed_not_interrupted: "ends_failed f \<Longrightarrow> \<not> interrupted (f j)"
  by (simp add: ends_failed_def interrupted_def)

lemma fail_each_all:
  assumes "ledger_inv d" "jobs_inv d" "distinct ids"
    "\<forall>n \<in> set ids. \<exists>j. job_by d n = Some j \<and> tj_task_call_record_id j = None \<and> recordable (now n) j"
  shows "\<exists>d' f. fail_each wl now d ids = (d', None) \<and> ledger_inv d' \<and> jobs_inv d' \<and> ends_failed f \<and>
    db_task_jobs d' = tbl_modify (\<lambda>j. tj_id j \<in> set ids) f (db_task_jobs d) \<and>
    rows (db_credit_events d') = rows (db_credit_events d)"
  using assms
proof (induction ids arbitrary: d)
  case Nil
  let ?f = "\<lambda>j. provider_failed_row 0 restart_message 0 (released j)"
  have "ends_failed ?f" by (simp add: ends_failed_def provider_failed_row_def)
  moreover have "tbl_modify (\<lambda>j. False) ?f (db_task_jobs d) = db_task_jobs d" by (rule table.equality) simp_all
  ultimately show ?case using Nil by (auto intro!: exI [of _ ?f])
next
  case (Cons n ids)
  obtain j where j: "job_by d n = Some j" "tj_task_call_record_id j = None" "recordable (now n) j"
    using Cons.prems(4) by auto
  obtain d1 rid where s: "FailProviderTaskJob wl (now n) (now n) d n None restart_message = Inr d1" "ledger_inv d1" "jobs_inv d1"
    "db_task_jobs d1 = tbl_modify (\<lambda>j. tj_id j = n)
       (\<lambda>j. provider_failed_row (now n) restart_message rid (released j)) (db_task_jobs d)"
    "rows (db_credit_events d1) = rows (db_credit_events d)"
    by (rule fail_provider_exact [OF Cons.prems(1,2) j])
  let ?g = "\<lambda>j. provider_failed_row (now n) restart_message rid (released j)"
  have g: "ends_failed ?g" by (simp add: ends_failed_def provider_failed_row_def)
  have wf: "tbl_wf tj_id (db_task_jobs d)" using Cons.prems(2) by (simp add: jobs_inv_def)
  have by1: "job_by d1 k = map_option (\<lambda>j. if k = n then ?g j else j) (job_by d k)" for k
    using job_by_modify [OF wf, of d1 n "\<lambda>_. True" ?g k] s(4) by (simp add: provider_failed_row_def)
  have "\<forall>k \<in> set ids. \<exists>j. job_by d1 k = Some j \<and> tj_task_call_record_id j = None \<and> recordable (now k) j"
  proof
    fix k assume k: "k \<in> set ids"
    with Cons.prems(3) have "job_by d1 k = job_by d k" using by1 [of k] by (cases "job_by d k") auto
    with k Cons.prems(4) show "\<exists>j. job_by d1 k = Some j \<and> tj_task_call_record_id j = None \<and> recordable (now k) j"
      by simp
  qed
  then obtain d' f where ih: "fail_each wl now d1 ids = (d', None)" "ledger_inv d'" "jobs_inv d'" "ends_failed f"
    "db_task_jobs d' = tbl_modify (\<lambda>j. tj_id j \<in> set ids) f (db_task_jobs d1)"
    "rows (db_credit_events d') = rows (db_credit_events d1)"
    using Cons.IH [OF s(2,3)] Cons.prems(3) by auto
  let ?h = "\<lambda>j. if tj_id j = n then ?g j else f j"
  have gid: "tj_id (?g j) = tj_id j" for j by (simp add: provider_failed_row_def)
  have "db_task_jobs d' = tbl_modify (\<lambda>j. tj_id j \<in> set (n # ids)) ?h (db_task_jobs d)"
    using Cons.prems(3) by (intro table.equality) (auto simp: ih(5) s(4) gid)
  moreover have "ends_failed ?h" using g ih(4) by (simp add: ends_failed_def)
  ultimately show ?case
    using s(1,5) ih by (intro exI [of _ d'] exI [of _ ?h]) (simp add: restart_message_def)
qed

text \<open>C12. After a restart every abandoned provider job is failed, and the recovery ends: whatever the
  number of abandoned jobs, the loop over batches returns without an error; exactly the jobs of
  providers that were started, or admitted and not yet queued, are now failed and not billed,
  with their holds released; all other rows are unchanged; nobody is charged; and ledger and
  job rows stay consistent.\<close>

theorem prior_jobs_failed:
  assumes "ledger_inv d" "jobs_inv d"
    "\<forall>j \<in> set (rows (db_task_jobs d)). interrupted j \<longrightarrow> recordable (now (tj_id j)) j"
  shows "\<exists>d' f. FailPriorProcessProviderJobs wl now d = Some (d', None) \<and> ends_failed f \<and>
    rows (db_task_jobs d') = map (\<lambda>j. if interrupted j then f j else j) (rows (db_task_jobs d)) \<and>
    rows (db_credit_events d') = rows (db_credit_events d) \<and> ledger_inv d' \<and> jobs_inv d'"
  using assms
proof (induction "length (filter interrupted (rows (db_task_jobs d)))" arbitrary: d rule: less_induct)
  case less
  define js where "js = filter interrupted (rows (db_task_jobs d))"
  define ids where "ids = prior_batch d"
  have ids: "ids = take 1000 (map tj_id js)" by (simp add: ids_def prior_batch_def tbl_where_def js_def)
  have wf: "tbl_wf tj_id (db_task_jobs d)" using less(3) by (simp add: jobs_inv_def)
  have dist: "distinct ids"
    using wf by (simp add: ids js_def tbl_wf_def distinct_map inj_on_def take_map [symmetric])
  have mem: "\<exists>j \<in> set js. tj_id j = n" if "n \<in> set ids" for n
    using that by (auto simp: ids dest!: in_set_takeD)
  have openj: "tj_task_call_record_id j = None" if "j \<in> set js" for j
  proof -
    have "job_ok (rows (db_call_records d)) j" "\<not> IsTerminal j"
      using that less(3) by (auto simp: js_def jobs_inv_def interrupted_def IsTerminal_def)
    then show ?thesis using job_ok_open by blast
  qed
  have all: "\<forall>n \<in> set ids. \<exists>j. job_by d n = Some j \<and> tj_task_call_record_id j = None \<and> recordable (now n) j"
  proof
    fix n assume "n \<in> set ids"
    then obtain j where "j \<in> set js" "tj_id j = n" using mem by blast
    then show "\<exists>j. job_by d n = Some j \<and> tj_task_call_record_id j = None \<and> recordable (now n) j"
      using job_by_in [OF wf, of j] openj less(4) by (auto simp: js_def)
  qed
  obtain d1 g where s: "fail_each wl now d ids = (d1, None)" "ledger_inv d1" "jobs_inv d1" "ends_failed g"
    "db_task_jobs d1 = tbl_modify (\<lambda>j. tj_id j \<in> set ids) g (db_task_jobs d)"
    "rows (db_credit_events d1) = rows (db_credit_events d)"
    using fail_each_all [OF less(2,3) dist all] by blast
  have hit: "interrupted j" if hj: "j \<in> set (rows (db_task_jobs d))" "tj_id j \<in> set ids" for j
  proof -
    obtain k where "k \<in> set (rows (db_task_jobs d))" "interrupted k" "tj_id j = tj_id k"
      using mem [OF hj(2)] by (auto simp: js_def)
    with tbl_wfD_unique [OF wf hj(1)] show ?thesis by blast
  qed
  show ?case
  proof (cases "length js < 1000")
    case True
    then have "set ids = tj_id ` set js" by (simp add: ids)
    then have "tj_id j \<in> set ids \<longleftrightarrow> interrupted j" if "j \<in> set (rows (db_task_jobs d))" for j
      using hit that by (auto simp: js_def)
    then have jobs: "rows (db_task_jobs d1) = map (\<lambda>j. if interrupted j then g j else j) (rows (db_task_jobs d))"
      by (simp add: s(5))
    have "FailPriorProcessProviderJobs wl now d = Some (d1, None)"
      using True s(1) by (subst FailPriorProcessProviderJobs.simps) (auto simp: Let_def ids ids_def [symmetric])
    with jobs s show ?thesis by blast
  next
    case False
    then have len: "length ids = 1000" "ids \<noteq> []" by (auto simp: ids)
    have stay: "filter interrupted (rows (db_task_jobs d1)) = filter (\<lambda>j. interrupted j \<and> tj_id j \<notin> set ids) (rows (db_task_jobs d))"
    proof -
      have "filter interrupted (map (\<lambda>j. if tj_id j \<in> set ids then g j else j) xs) =
          filter (\<lambda>j. interrupted j \<and> tj_id j \<notin> set ids) xs" for xs
        by (induction xs) (auto simp: ends_failed_not_interrupted [OF s(4)])
      then show ?thesis by (simp add: s(5))
    qed
    have "length (filter interrupted (rows (db_task_jobs d1))) < length (filter interrupted (rows (db_task_jobs d)))"
    proof -
      have "hd ids \<in> set ids" using len(2) by simp
      then obtain j where "j \<in> set js" "tj_id j \<in> set ids" using mem by metis
      then have "length (filter (\<lambda>j. tj_id j \<notin> set ids) js) < length js"
        by (intro length_filter_less) auto
      then show ?thesis by (simp add: stay js_def conj_commute)
    qed
    moreover have rows1: "\<forall>j \<in> set (rows (db_task_jobs d1)). interrupted j \<longrightarrow> recordable (now (tj_id j)) j"
      using less(4) ends_failed_not_interrupted [OF s(4)] by (auto simp: s(5))
    ultimately obtain d' f where ih: "FailPriorProcessProviderJobs wl now d1 = Some (d', None)" "ends_failed f"
      "rows (db_task_jobs d') = map (\<lambda>j. if interrupted j then f j else j) (rows (db_task_jobs d1))"
      "rows (db_credit_events d') = rows (db_credit_events d1)" "ledger_inv d'" "jobs_inv d'"
      using less(1) [OF _ s(2,3)] by blast
    define h where "h = (\<lambda>j. if tj_id j \<in> set ids then g j else f j)"
    have "ends_failed h" using s(4) ih(2) by (simp add: ends_failed_def h_def)
    moreover have "rows (db_task_jobs d') = map (\<lambda>j. if interrupted j then h j else j) (rows (db_task_jobs d))"
      using hit by (auto simp: ih(3) s(5) h_def ends_failed_not_interrupted [OF s(4)])
    moreover have "FailPriorProcessProviderJobs wl now d = Some (d', None)"
      using s(1) len ih(1) by (subst FailPriorProcessProviderJobs.simps) (simp add: Let_def ids_def [symmetric])
    ultimately show ?thesis using ih(4-6) s(6) by auto
  qed
qed

theorem prior_jobs_failed_witness:
  "\<exists>d' f. FailPriorProcessProviderJobs no_workload (\<lambda>_. 20) sample_provider_db = Some (d', None) \<and>
     map tj_status (rows (db_task_jobs d')) = [TaskJobStatusFailed]"
proof -
  have r: "rows (db_task_jobs sample_provider_db) = [sample_provider_job]" by (simp add: sample_provider_db_def)
  have "recordable 20 sample_provider_job"
    by (simp add: recordable_def sample_provider_job_def sample_job_def zero_time_def)
  with r have "\<forall>j \<in> set (rows (db_task_jobs sample_provider_db)). interrupted j \<longrightarrow> recordable 20 j" by simp
  from prior_jobs_failed [OF sample_provider_db_inv(1,2), of "\<lambda>_. 20", OF this] obtain d' f where
    d': "FailPriorProcessProviderJobs no_workload (\<lambda>_. 20) sample_provider_db = Some (d', None)" "ends_failed f"
      "rows (db_task_jobs d') = map (\<lambda>j. if interrupted j then f j else j) [sample_provider_job]"
    unfolding r by blast
  moreover have "interrupted sample_provider_job"
    by (simp add: interrupted_def sample_provider_job_def sample_job_def provider_sources_def)
  ultimately show ?thesis by (auto simp: ends_failed_def)
qed

end
