(* ===== verification/Provider_Queue.thy ===== *)
theory Provider_Queue
  imports Provider_Correctness "HOL-Library.Product_Lexorder"
begin

text \<open>
  The queue of provider jobs (\<open>service/provider_queue_priority.go\<close>): the lowest and the highest
  Cost Level of the jobs that wait, found by reading the queue in pages from either end and
  skipping jobs whose timeout has passed. \<open>idx\<close> is the order of the index
  \<open>(sortable_priority, id)\<close>.
\<close>

subsection \<open>Pages\<close>

definition queued_provider :: "task_job \<Rightarrow> bool" where
  "queued_provider j \<longleftrightarrow> tj_execution_source j \<in> set provider_sources \<and> tj_status j = TaskJobStatusPendingSubmit \<and>
     tj_phase j = ''queued''"

definition idx :: "task_job \<Rightarrow> string \<times> nat" where
  "idx j = (tj_sortable_priority j, tj_id j)"

definition after_cursor :: "bool \<Rightarrow> (string \<times> nat) option \<Rightarrow> task_job \<Rightarrow> bool" where
  "after_cursor ascending cursor j \<longleftrightarrow>
     (case cursor of None \<Rightarrow> True | Some c \<Rightarrow> if ascending then c < idx j else idx j < c)"

definition queue_from :: "db \<Rightarrow> bool \<Rightarrow> (string \<times> nat) option \<Rightarrow> task_job list" where
  "queue_from d ascending cursor =
     (let js = sort_key idx (tbl_where (\<lambda>j. queued_provider j \<and> after_cursor ascending cursor j) (db_task_jobs d))
      in if ascending then js else rev js)"

abbreviation queuePageSize :: nat where "queuePageSize \<equiv> 100"

definition queue_expired :: "gotime \<Rightarrow> task_job \<Rightarrow> bool" where
  "queue_expired now j \<longleftrightarrow> tj_created_at j + seconds_duration (tj_queue_timeout j) < now"

lemma queue_from_set:
  "set (queue_from d asc c) = {j \<in> set (rows (db_task_jobs d)). queued_provider j \<and> after_cursor asc c j}"
  by (auto simp: queue_from_def Let_def tbl_where_def)

lemma length_queue_from:
  "length (queue_from d asc c) = length (filter (\<lambda>j. queued_provider j \<and> after_cursor asc c j) (rows (db_task_jobs d)))"
  by (simp add: queue_from_def Let_def tbl_where_def)

lemma after_cursor_trans:
  "after_cursor asc c j \<Longrightarrow> after_cursor asc (Some (idx j)) k \<Longrightarrow> after_cursor asc c k"
  by (auto simp: after_cursor_def split: option.splits if_splits)

lemma page_shrinks:
  assumes "queuePageSize \<le> length (queue_from d asc c)"
  shows "length (queue_from d asc (Some (idx (last (take queuePageSize (queue_from d asc c)))))) < length (queue_from d asc c)"
proof -
  define j where "j = last (take queuePageSize (queue_from d asc c))"
  have "take queuePageSize (queue_from d asc c) \<noteq> []" using assms by auto
  then have "j \<in> set (queue_from d asc c)" unfolding j_def by (metis in_set_takeD last_in_set)
  then have j: "j \<in> set (rows (db_task_jobs d))" "queued_provider j" "after_cursor asc c j"
    by (auto simp: queue_from_set)
  let ?p = "\<lambda>k. queued_provider k \<and> after_cursor asc c k"
  let ?q = "\<lambda>k. queued_provider k \<and> after_cursor asc (Some (idx j)) k"
  have "filter ?q xs = filter ?q (filter ?p xs)" for xs
    by (induction xs) (use j(3) in \<open>auto dest: after_cursor_trans\<close>)
  moreover have "length (filter ?q (filter ?p (rows (db_task_jobs d)))) < length (filter ?p (rows (db_task_jobs d)))"
    using j by (intro length_filter_less [of j]) (auto simp: after_cursor_def)
  ultimately show ?thesis unfolding length_queue_from j_def [symmetric] by metis
qed

function firstNonExpiredProviderQueuedJob ::
  "db \<Rightarrow> gotime \<Rightarrow> bool \<Rightarrow> (string \<times> nat) option \<Rightarrow> err + task_job" where
  "firstNonExpiredProviderQueuedJob d now ascending cursor =
     (let jobs = take queuePageSize (queue_from d ascending cursor) in
      case find (\<lambda>j. \<not> queue_expired now j) jobs of
        Some j \<Rightarrow> Inr j
      | None \<Rightarrow>
          if length jobs < queuePageSize then Inl ErrRecordNotFound
          else firstNonExpiredProviderQueuedJob d now ascending (Some (idx (last jobs))))"
  by pat_completeness auto
termination
  by (relation "measure (\<lambda>(d, now, asc, c). length (queue_from d asc c))") (auto simp: min_less_iff_disj not_less intro: page_shrinks)

declare firstNonExpiredProviderQueuedJob.simps [simp del]

text \<open>
  \<open>RefreshProviderQueuePrioritySnapshot\<close>: \<open>d\<close> and \<open>d'\<close> are the database at the two queries. The
  result is the snapshot kept in memory.
\<close>

definition RefreshProviderQueuePrioritySnapshot ::
  "gotime \<Rightarrow> db \<Rightarrow> db \<Rightarrow> provider_queue_snapshot \<Rightarrow> provider_queue_snapshot \<times> (err + unit)" where
  "RefreshProviderQueuePrioritySnapshot now d d' old =
     (case firstNonExpiredProviderQueuedJob d now True None of
        Inl _ \<Rightarrow> (\<lparr>pq_observed_at = now, pq_has_jobs = False, pq_lowest = None, pq_highest = None\<rparr>, Inr ())
      | Inr lowest \<Rightarrow>
          (case firstNonExpiredProviderQueuedJob d' now False None of
             Inl e \<Rightarrow> (old, Inl e)
           | Inr highest \<Rightarrow>
               (\<lparr>pq_observed_at = now, pq_has_jobs = True, pq_lowest = Some (tj_priority_gwei lowest),
                 pq_highest = Some (tj_priority_gwei highest)\<rparr>, Inr ())))"

subsection \<open>Reading in pages finds the first live job\<close>

lemma sorted_drop_after:
  assumes "sorted_wrt r xs" "n < length xs" "\<And>x. \<not> r x x" "\<And>x y. r x y \<Longrightarrow> \<not> r y x"
  shows "filter (r (xs ! n)) xs = drop (Suc n) xs"
proof -
  have before: "\<not> r (xs ! n) x" if x: "x \<in> set (take (Suc n) xs)" for x
  proof -
    obtain i where i: "i \<le> n" "x = xs ! i" using x assms(2) by (auto simp: in_set_conv_nth less_Suc_eq_le)
    then show ?thesis
      using assms(3,4) sorted_wrt_nth_less [OF assms(1), of i n] assms(2) by (cases "i = n") auto
  qed
  have after: "r (xs ! n) x" if x: "x \<in> set (drop (Suc n) xs)" for x
  proof -
    obtain i where "i < length (drop (Suc n) xs)" "x = drop (Suc n) xs ! i" using x by (auto simp: in_set_conv_nth)
    then have "x = xs ! (Suc n + i)" "Suc n + i < length xs" by simp_all
    with sorted_wrt_nth_less [OF assms(1), of n "Suc n + i"] show ?thesis by simp
  qed
  have "filter (r (xs ! n)) (take (Suc n) xs @ drop (Suc n) xs) = drop (Suc n) xs"
    using before after by (simp only: filter_append) (simp add: filter_empty_conv filter_True)
  then show ?thesis by simp
qed

definition idx_less :: "bool \<Rightarrow> task_job \<Rightarrow> task_job \<Rightarrow> bool" where
  "idx_less asc j k \<longleftrightarrow> (if asc then idx j < idx k else idx k < idx j)"

lemma queue_from_sorted:
  assumes "tbl_wf tj_id (db_task_jobs d)"
  shows "sorted_wrt (idx_less asc) (queue_from d asc c)"
proof -
  define js where "js = tbl_where (\<lambda>j. queued_provider j \<and> after_cursor asc c j) (db_task_jobs d)"
  have "distinct (map tj_id js)" using assms by (simp add: js_def tbl_where_def tbl_wf_def distinct_map inj_on_def)
  then have "distinct (map idx js)" by (auto simp: distinct_map inj_on_def idx_def)
  then have "distinct (map idx (sort_key idx js))"
    by (simp add: distinct_map)
  moreover have "sorted (map idx (sort_key idx js))" by simp
  ultimately have "sorted_wrt (<) (map idx (sort_key idx js))"
    by (simp add: strict_sorted_iff)
  then have "sorted_wrt (\<lambda>x y. idx x < idx y) (sort_key idx js)" by (simp add: sorted_wrt_map)
  then show ?thesis by (simp add: queue_from_def Let_def idx_less_def [abs_def] sorted_wrt_rev flip: js_def)
qed

lemma queue_from_next:
  assumes wf: "tbl_wf tj_id (db_task_jobs d)" and n: "n < length (queue_from d asc c)"
  shows "queue_from d asc (Some (idx (queue_from d asc c ! n))) = drop (Suc n) (queue_from d asc c)"
proof -
  define j where "j = queue_from d asc c ! n"
  have j: "after_cursor asc c j" using n nth_mem [of n "queue_from d asc c"] by (simp add: queue_from_set j_def)
  have split: "(queued_provider k \<and> after_cursor asc (Some (idx j)) k) \<longleftrightarrow>
      after_cursor asc (Some (idx j)) k \<and> (queued_provider k \<and> after_cursor asc c k)" for k
    using after_cursor_trans [OF j] by blast
  have "queue_from d asc (Some (idx j)) = filter (after_cursor asc (Some (idx j))) (queue_from d asc c)"
    by (simp add: queue_from_def Let_def tbl_where_def split filter_sort [symmetric] rev_filter conj_commute
        conj_left_commute)
  moreover have "after_cursor asc (Some (idx j)) = idx_less asc j"
    by (auto simp: after_cursor_def idx_less_def fun_eq_iff)
  moreover have "filter (idx_less asc (queue_from d asc c ! n)) (queue_from d asc c) = drop (Suc n) (queue_from d asc c)"
    by (rule sorted_drop_after [OF queue_from_sorted [OF wf] n]) (auto simp: idx_less_def split: if_splits)
  ultimately show ?thesis by (simp add: j_def)
qed

lemma find_append_None: "find p xs = None \<Longrightarrow> find p (xs @ ys) = find p ys"
  by (induction xs) (auto split: if_splits)

lemma find_take_Some: "find p (take n xs) = Some x \<Longrightarrow> find p xs = Some x"
proof (induction xs arbitrary: n)
  case (Cons a xs)
  then show ?case by (cases n) (auto split: if_splits)
qed simp

lemma first_live_eq:
  assumes "tbl_wf tj_id (db_task_jobs d)"
  shows "firstNonExpiredProviderQueuedJob d now asc c =
    of_option ErrRecordNotFound (find (\<lambda>j. \<not> queue_expired now j) (queue_from d asc c))"
  using assms
proof (induction d now asc c rule: firstNonExpiredProviderQueuedJob.induct)
  case (1 d now asc c)
  define q where "q = queue_from d asc c"
  define jobs where "jobs = take queuePageSize q"
  let ?p = "\<lambda>j. \<not> queue_expired now j"
  have unfold: "firstNonExpiredProviderQueuedJob d now asc c = (case find ?p jobs of Some j \<Rightarrow> Inr j
      | None \<Rightarrow> if length jobs < queuePageSize then Inl ErrRecordNotFound
          else firstNonExpiredProviderQueuedJob d now asc (Some (idx (last jobs))))"
    by (subst firstNonExpiredProviderQueuedJob.simps) (simp only: Let_def jobs_def q_def)
  show ?case
  proof (cases "find ?p jobs")
    case (Some j)
    then have "find ?p q = Some j" unfolding jobs_def by (rule find_take_Some)
    with Some show ?thesis by (simp add: unfold q_def [symmetric])
  next
    case None
    show ?thesis
    proof (cases "length jobs < queuePageSize")
      case True
      then have "jobs = q" by (simp add: jobs_def)
      with None True show ?thesis by (simp add: unfold q_def [symmetric])
    next
      case False
      then have len: "queuePageSize \<le> length q" by (simp add: jobs_def)
      then have "take queuePageSize q \<noteq> []" by auto
      then have last: "last jobs = q ! 99" using len by (simp add: jobs_def last_conv_nth min_def)
      have "find ?p q = find ?p (drop queuePageSize q)"
        using find_append_None [OF None, of "drop queuePageSize q"] by (simp add: jobs_def)
      moreover have "queue_from d asc (Some (idx (last jobs))) = drop queuePageSize q"
        using queue_from_next [OF 1(2), of 99 asc c] len by (simp add: last q_def)
      moreover have "firstNonExpiredProviderQueuedJob d now asc (Some (idx (last jobs))) =
          of_option ErrRecordNotFound (find ?p (queue_from d asc (Some (idx (last jobs)))))"
        using 1(1) [OF _ _ _ 1(2), of jobs] None False by (simp add: jobs_def q_def)
      ultimately show ?thesis using None False by (simp add: unfold q_def [symmetric])
    qed
  qed
qed

subsection \<open>The bounds\<close>

definition live_queued :: "gotime \<Rightarrow> db \<Rightarrow> task_job set" where
  "live_queued now d = {j \<in> set (rows (db_task_jobs d)). queued_provider j \<and> \<not> queue_expired now j}"

lemma first_live_bound:
  assumes "tbl_wf tj_id (db_task_jobs d)" "firstNonExpiredProviderQueuedJob d now asc None = Inr j"
  shows "j \<in> live_queued now d" "k \<in> live_queued now d \<Longrightarrow> k = j \<or> idx_less asc j k"
proof -
  let ?p = "\<lambda>j. \<not> queue_expired now j" and ?q = "queue_from d asc None"
  have f: "find ?p ?q = Some j" using assms by (simp add: first_live_eq of_option_Inr_iff)
  have set: "set ?q = {j \<in> set (rows (db_task_jobs d)). queued_provider j}"
    by (simp add: queue_from_set after_cursor_def)
  show "j \<in> live_queued now d" using find_SomeD [OF f] set by (auto simp: live_queued_def)
  assume k: "k \<in> live_queued now d"
  obtain i where i: "i < length ?q" "?q ! i = j" "\<forall>m < i. \<not> ?p (?q ! m)"
    using f by (auto simp: find_Some_iff)
  have "k \<in> set ?q" using k set by (auto simp: live_queued_def)
  then obtain m where m: "m < length ?q" "k = ?q ! m" by (auto simp: in_set_conv_nth)
  have "i \<le> m" using i(3) m k by (auto simp: live_queued_def not_le [symmetric])
  then show "k = j \<or> idx_less asc j k"
    using m i sorted_wrt_nth_less [OF queue_from_sorted [OF assms(1)], of i m asc None]
    by (cases "i = m") auto
qed

lemma first_live_none:
  assumes "tbl_wf tj_id (db_task_jobs d)" "firstNonExpiredProviderQueuedJob d now asc None = Inl e"
  shows "live_queued now d = {}"
  using assms queue_from_set [of d asc None]
  by (auto simp: first_live_eq of_option_Inl_iff find_None_iff live_queued_def after_cursor_def)

text \<open>C37. The queue's bounds are the least and the greatest Cost Level that wait: with the stored key
  of every waiting job that of its Cost Level, refreshing the snapshot finds no jobs exactly when no provider job
  with time left is queued, and otherwise records the minimum and the maximum over all of
  them, however many pages and expired jobs come before.\<close>

theorem queue_bounds_exact:
  assumes "jobs_inv d" "\<forall>j \<in> live_queued now d. 0 \<le> tj_priority_gwei j \<and> tj_priority_gwei j < 10 ^ 78 \<and>
      tj_sortable_priority j = FormatSortablePriority (Some (tj_priority_gwei j))"
  shows "RefreshProviderQueuePrioritySnapshot now d d old =
    (if live_queued now d = {}
     then (\<lparr>pq_observed_at = now, pq_has_jobs = False, pq_lowest = None, pq_highest = None\<rparr>, Inr ())
     else (\<lparr>pq_observed_at = now, pq_has_jobs = True, pq_lowest = Some (Min (tj_priority_gwei ` live_queued now d)),
            pq_highest = Some (Max (tj_priority_gwei ` live_queued now d))\<rparr>, Inr ()))"
proof -
  have wf: "tbl_wf tj_id (db_task_jobs d)" using assms(1) by (simp add: jobs_inv_def)
  have fin: "finite (live_queued now d)" by (simp add: live_queued_def)
  have none: "firstNonExpiredProviderQueuedJob d now asc None = Inl ErrRecordNotFound" if "live_queued now d = {}" for asc
  proof (cases "find (\<lambda>j. \<not> queue_expired now j) (queue_from d asc None)")
    case None
    then show ?thesis by (simp add: first_live_eq [OF wf])
  next
    case (Some j)
    then have "j \<in> live_queued now d" by (intro first_live_bound(1) [OF wf, of now asc]) (simp add: first_live_eq [OF wf])
    with that show ?thesis by simp
  qed
  have le: "tj_priority_gwei j \<le> tj_priority_gwei k"
    if "j \<in> live_queued now d" "k \<in> live_queued now d" "k = j \<or> idx j < idx k" for j k
  proof (rule ccontr)
    assume "\<not> tj_priority_gwei j \<le> tj_priority_gwei k"
    then have "tj_priority_gwei k < tj_priority_gwei j" by simp
    moreover have "0 \<le> tj_priority_gwei k" "tj_priority_gwei j < 10 ^ 78" "0 \<le> tj_priority_gwei j" "tj_priority_gwei k < 10 ^ 78"
      using assms(2) that by blast+
    ultimately have "tj_sortable_priority k < tj_sortable_priority j"
      using assms(2) that sortable_less by simp
    with that(3) \<open>tj_priority_gwei k < tj_priority_gwei j\<close> show False by (auto simp: idx_def less_prod_def)
  qed
  show ?thesis
  proof (cases "live_queued now d = {}")
    case True
    then show ?thesis by (simp add: RefreshProviderQueuePrioritySnapshot_def none)
  next
    case False
    then obtain lo hi where lo: "firstNonExpiredProviderQueuedJob d now True None = Inr lo"
      and hi: "firstNonExpiredProviderQueuedJob d now False None = Inr hi"
      using first_live_none [OF wf] by (metis sum.exhaust)
    note lob = first_live_bound [OF wf lo] and hib = first_live_bound [OF wf hi]
    have "Min (tj_priority_gwei ` live_queued now d) = tj_priority_gwei lo"
      using fin lob le by (intro Min_eqI) (auto simp: idx_less_def)
    moreover have "Max (tj_priority_gwei ` live_queued now d) = tj_priority_gwei hi"
      using fin hib le by (intro Max_eqI) (auto simp: idx_less_def)
    ultimately show ?thesis using False by (simp add: RefreshProviderQueuePrioritySnapshot_def lo hi)
  qed
qed

definition sample_queued_job :: task_job where
  "sample_queued_job = sample_provider_job\<lparr>tj_status := TaskJobStatusPendingSubmit, tj_phase := ''queued'',
     tj_sortable_priority := FormatSortablePriority (Some 400), tj_queue_timeout := 60\<rparr>"

definition sample_queue_db :: db where
  "sample_queue_db = sample_provider_db\<lparr>db_task_jobs := \<lparr>rows = [sample_queued_job], next_id = 2\<rparr>\<rparr>"

theorem queue_bounds_exact_witness:
  "RefreshProviderQueuePrioritySnapshot 20 sample_queue_db sample_queue_db
     \<lparr>pq_observed_at = 0, pq_has_jobs = False, pq_lowest = None, pq_highest = None\<rparr> =
   (\<lparr>pq_observed_at = 20, pq_has_jobs = True, pq_lowest = Some 400, pq_highest = Some 400\<rparr>, Inr ())"
proof -
  have inv: "jobs_inv sample_queue_db"
    by (simp add: sample_queue_db_def sample_provider_db_def sample_job_db_def sample_db_def empty_db_def jobs_inv_def
        tbl_wf_def job_ok_def sample_queued_job_def sample_provider_job_def sample_job_def IsTerminal_def empty_stats_def)
  have j: "tj_priority_gwei sample_queued_job = 400"
    "tj_sortable_priority sample_queued_job = FormatSortablePriority (Some 400)"
    by (simp_all add: sample_queued_job_def sample_provider_job_def sample_job_def)
  have "seconds_duration 60 = 60000000000" by (subst seconds_duration_exact) simp_all
  then have live: "live_queued 20 sample_queue_db = {sample_queued_job}"
    by (auto simp: live_queued_def sample_queue_db_def queued_provider_def provider_sources_def queue_expired_def
        sample_queued_job_def sample_provider_job_def sample_job_def)
  have "\<forall>j \<in> live_queued 20 sample_queue_db. 0 \<le> tj_priority_gwei j \<and> tj_priority_gwei j < 10 ^ 78 \<and>
      tj_sortable_priority j = FormatSortablePriority (Some (tj_priority_gwei j))"
    by (simp add: live j)
  from queue_bounds_exact [OF inv this] show ?thesis by (simp add: live j)
qed

end
