(* ===== verification/Provider_Scheduler.thy ===== *)
theory Provider_Scheduler
  imports Provider_Queue "HOL-Library.AList"
begin

text \<open>
  The scheduler of provider jobs (\<open>service/provider_scheduler.go\<close>), the run of one claimed job
  (\<open>service/provider_runner.go\<close>) and the live streams (\<open>service/provider_stream.go\<close>).

  A run is sequential; what happens beside it is in its arguments. \<open>env i\<close> is what the \<open>i\<close>-th
  attempt meets: clocks, the adapter's answer, and \<open>re_during\<close>, what other transactions do to the
  database while the provider is called. The channel of a subscriber is the list of its
  buffered events; a subscriber whose channel is closed is not in the registry.
\<close>

subsection \<open>Streams\<close>

record stream_event =
  se_kind :: string
  se_payload :: string
  se_terminal :: bool
  se_error :: bool

record stream_registry =
  sr_subscribers :: "(nat \<times> stream_event list) list"
  sr_buffer_size :: nat

definition NewProviderStreamRegistry :: "nat \<Rightarrow> stream_registry" where
  "NewProviderStreamRegistry bufferSize = \<lparr>sr_subscribers = [], sr_buffer_size = bufferSize\<rparr>"

definition stream_Register :: "stream_registry \<Rightarrow> nat \<Rightarrow> stream_registry" where
  "stream_Register r jobID =
     (if map_of (sr_subscribers r) jobID \<noteq> None then r
      else r\<lparr>sr_subscribers := AList.update jobID [] (sr_subscribers r)\<rparr>)"

definition stream_Unregister :: "stream_registry \<Rightarrow> nat \<Rightarrow> stream_registry" where
  "stream_Unregister r jobID = r\<lparr>sr_subscribers := AList.delete jobID (sr_subscribers r)\<rparr>"

definition stream_Publish :: "stream_registry \<Rightarrow> nat \<Rightarrow> stream_event \<Rightarrow> stream_registry" where
  "stream_Publish r jobID event =
     (case map_of (sr_subscribers r) jobID of
        None \<Rightarrow> r
      | Some buffered \<Rightarrow>
          if length buffered < sr_buffer_size r
          then r\<lparr>sr_subscribers := AList.update jobID (buffered @ [event]) (sr_subscribers r)\<rparr>
          else stream_Unregister r jobID)"

definition stream_DetachAll :: "stream_registry \<Rightarrow> stream_registry" where
  "stream_DetachAll r = r\<lparr>sr_subscribers := []\<rparr>"

definition stream_SubscriberCount :: "stream_registry \<Rightarrow> nat" where
  "stream_SubscriberCount r = length (sr_subscribers r)"

subsection \<open>Claiming\<close>

definition queue_timed_out :: "gotime \<Rightarrow> task_job \<Rightarrow> bool" where
  "queue_timed_out now j \<longleftrightarrow> tj_created_at j + seconds_duration (tj_queue_timeout j) < now"

definition claimProviderJob :: "gotime \<Rightarrow> gotime \<Rightarrow> db \<Rightarrow> nat \<Rightarrow> err + db \<times> bool" where
  "claimProviderJob now now' d jobID =
     bindE (of_option ErrRecordNotFound (job_by d jobID)) (\<lambda>job.
     if tj_status job \<noteq> TaskJobStatusPendingSubmit then Inr (d, False)
     else if queue_timed_out now job then Inr (d, False)
     else Inr (update_job d (tj_id job) (\<lambda>j. j\<lparr>tj_status := TaskJobStatusSubmitted,
         tj_started_at := (case tj_started_at job of None \<Rightarrow> Some now' | Some t \<Rightarrow> Some t), tj_phase := ''running''\<rparr>), True))"

text \<open>
  The iteration over the queue: \<open>other\<close> is what other transactions do before a job is looked
  at, \<open>pick\<close> the random choice. The result lists the runs that are started, with their keys.
\<close>

record scheduler_env =
  sc_stopped :: bool
  sc_other :: "db \<Rightarrow> db"
  sc_now :: gotime
  sc_pick :: "nat \<Rightarrow> nat"

definition claim_one :: "workload_fn \<Rightarrow> scheduler_env \<Rightarrow> db \<Rightarrow> key_slots \<Rightarrow> nat \<Rightarrow> db \<times> key_slots \<times> (nat \<times> nat) list" where
  "claim_one wl env d slots jobID =
     (case job_by d jobID of
        None \<Rightarrow> (d, slots, [])
      | Some job \<Rightarrow>
          if queue_timed_out (sc_now env) job then
            (case FailProviderTaskJob wl (sc_now env) (sc_now env) d (tj_id job) None ''provider queue timeout'' of
               Inl _ \<Rightarrow> (d, slots, [])
             | Inr d' \<Rightarrow> (d', slots, []))
          else
            let keys = ListEligibleSharedAPIKeys (sc_now env) d (source_ServiceProvider (tj_execution_source job)) in
            (case SelectRandomEligibleKey (sc_pick env) keys [] (Some slots) of
               None \<Rightarrow> (d, slots, [])
             | Some selected \<Rightarrow>
                 let (slots', reserved) = slots_Reserve slots (sk_id selected) in
                 if \<not> reserved then (d, slots', [])
                 else
                   (case claimProviderJob (sc_now env) (sc_now env) d (tj_id job) of
                      Inr (d', True) \<Rightarrow> (d', slots', [(tj_id job, sk_id selected)])
                    | _ \<Rightarrow> (d, slots_Release slots' (sk_id selected), []))))"

fun claim_all ::
  "workload_fn \<Rightarrow> (nat \<Rightarrow> scheduler_env) \<Rightarrow> db \<Rightarrow> key_slots \<Rightarrow> nat list \<Rightarrow> db \<times> key_slots \<times> (nat \<times> nat) list" where
  "claim_all wl env d slots [] = (d, slots, [])"
| "claim_all wl env d slots (jobID # ids) =
     (if sc_stopped (env jobID) then (d, slots, [])
      else
        let (d1, slots1, started) = claim_one wl (env jobID) (sc_other (env jobID) d) slots jobID;
            (d2, slots2, more) = claim_all wl env d1 slots1 ids
        in (d2, slots2, started @ more))"

text \<open>\<open>ORDER BY sortable_priority DESC, id ASC\<close>: the sort is stable and rows are in the order of ids.\<close>

definition provider_queue_ids :: "provider_config \<Rightarrow> db \<Rightarrow> nat list" where
  "provider_queue_ids cfg d =
     (let limit = sint (pv_scheduler_batch_size cfg);
          ids = map tj_id (rev (sort_key tj_sortable_priority (rev (tbl_where queued_provider (db_task_jobs d)))))
      in if limit < 0 then ids else take (nat limit) ids)"

definition claimAndStartProviderJobs ::
  "provider_config \<Rightarrow> workload_fn \<Rightarrow> (nat \<Rightarrow> scheduler_env) \<Rightarrow> db \<Rightarrow> key_slots \<Rightarrow> db \<times> key_slots \<times> (nat \<times> nat) list" where
  "claimAndStartProviderJobs cfg wl env d slots = claim_all wl env d slots (provider_queue_ids cfg d)"

subsection \<open>What an attempt meets\<close>

datatype acceptance_class = AcceptanceUnset | AcceptanceDefinitelyUnaccepted | AcceptanceAcceptedBillable | AcceptanceUncertain

record execute_result =
  er_acceptance_known :: bool
  er_acceptance :: acceptance_class
  er_public_output_began :: bool
  er_final_result :: string
  er_final_usage :: "provider_usage option"
  er_has_images :: bool
  er_error_class :: string
  er_error_message :: string
  er_key_specific :: bool

definition HasConfirmedUsage :: "execute_result \<Rightarrow> bool" where
  "HasConfirmedUsage r \<longleftrightarrow> er_final_usage r \<noteq> None \<and> er_acceptance r = AcceptanceAcceptedBillable"

definition publishProviderJobExecuteStreamEvent :: "stream_registry \<Rightarrow> nat \<Rightarrow> string \<times> string \<Rightarrow> stream_registry" where
  "publishProviderJobExecuteStreamEvent streams jobID event =
     (if fst event = ''final_usage'' then streams
      else stream_Publish streams jobID \<lparr>se_kind = fst event, se_payload = snd event,
             se_terminal = (fst event = ''finish''), se_error = (fst event = ''error'')\<rparr>)"

text \<open>\<open>payload\<close> is the JSON of the usage.\<close>

definition publishProviderJobSettlementTerminal :: "stream_registry \<Rightarrow> nat \<Rightarrow> string \<Rightarrow> stream_registry" where
  "publishProviderJobSettlementTerminal streams jobID payload =
     stream_Publish (stream_Publish streams jobID
         \<lparr>se_kind = ''final_usage'', se_payload = payload, se_terminal = True, se_error = False\<rparr>)
       jobID \<lparr>se_kind = ''done'', se_payload = [], se_terminal = True, se_error = False\<rparr>"

text \<open>One round of the settlement loop: what happened before it, the clocks, a shutdown after it.\<close>

record settle_round =
  sr_other :: "db \<Rightarrow> db"
  sr_now :: gotime
  sr_now_final :: gotime
  sr_cancelled :: bool

text \<open>\<open>None\<close>: still trying after all rounds.\<close>

fun settleProviderJobWithRetry ::
  "(gotime \<Rightarrow> db \<Rightarrow> err + db) \<Rightarrow> settle_round list \<Rightarrow> db \<Rightarrow> db \<times> (err + unit) option" where
  "settleProviderJobWithRetry settle [] d = (d, None)"
| "settleProviderJobWithRetry settle (r # rounds) d =
     (let d0 = sr_other r d in
      case settle (sr_now r) d0 of
        Inr d1 \<Rightarrow> (d1, Some (Inr ()))
      | Inl e \<Rightarrow>
          if sr_cancelled r then
            (case settle (sr_now_final r) d0 of Inr d1 \<Rightarrow> (d1, Some (Inr ())) | Inl e' \<Rightarrow> (d0, Some (Inl e')))
          else settleProviderJobWithRetry settle rounds d0)"

record runner_env =
  re_now :: gotime
  re_adapter :: "(string \<Rightarrow> err + unit) option"
  re_execute :: "string \<Rightarrow> task_job \<Rightarrow> int \<Rightarrow> (string \<times> string) list \<times> execute_result"
  re_during :: "db \<Rightarrow> db"
  re_cancelled :: bool
  re_save_images :: bool
  re_rewrite_id :: "string \<Rightarrow> err + string"
  re_usage_json :: string
  re_settle :: "settle_round list"
  re_done :: gotime
  re_pick :: "nat \<Rightarrow> nat"

record runner_state =
  rn_db :: db
  rn_slots :: key_slots
  rn_streams :: stream_registry

text \<open>\<open>_ = FailProviderTaskJob(...)\<close>\<close>

definition run_fail :: "workload_fn \<Rightarrow> gotime \<Rightarrow> nat \<Rightarrow> nat \<Rightarrow> string \<Rightarrow> runner_state \<Rightarrow> runner_state" where
  "run_fail wl now jobID keyID msg st =
     (case FailProviderTaskJob wl now now (rn_db st) jobID (Some keyID) msg of
        Inl _ \<Rightarrow> st | Inr d' \<Rightarrow> st\<lparr>rn_db := d'\<rparr>)"

text \<open>The deferred release; \<open>0\<close> is no key.\<close>

definition run_release :: "nat \<Rightarrow> runner_state \<Rightarrow> runner_state" where
  "run_release held st = (if held \<noteq> 0 then st\<lparr>rn_slots := slots_Release (rn_slots st) held\<rparr> else st)"

definition run_unregister :: "nat \<Rightarrow> runner_state \<Rightarrow> runner_state" where
  "run_unregister jobID st = st\<lparr>rn_streams := stream_Unregister (rn_streams st) jobID\<rparr>"

text \<open>The part after the provider confirmed its usage. \<open>None\<close>: the settlement is still tried.\<close>

definition run_settle ::
  "workload_fn \<Rightarrow> runner_env \<Rightarrow> nat \<Rightarrow> shared_api_key \<Rightarrow> task_job \<Rightarrow> execute_result \<Rightarrow> provider_usage \<Rightarrow>
   runner_state \<Rightarrow> runner_state option" where
  "run_settle wl env jobID key job result usage st0 =
     (let keyID = sk_id key; st = st0\<lparr>rn_db := ClearSharedAPIKeyUnavailable (rn_db st0) keyID\<rparr>;
          fail = (\<lambda>msg. Some (run_fail wl (re_done env) jobID keyID msg st)) in
      case tbl_lookup u_id (sk_user_id key) (db_users (rn_db st)) of
        None \<Rightarrow> fail ''key owner unavailable after successful upstream''
      | Some owner \<Rightarrow>
          if er_has_images result \<and> \<not> re_save_images env then fail ''failed to store image results''
          else (case re_rewrite_id env (er_final_result result) of
              Inl _ \<Rightarrow> fail ''failed to normalize public result id''
            | Inr formatted \<Rightarrow>
                (case settleProviderJobWithRetry
                    (\<lambda>now d. SettleProviderTaskJob wl now now d job keyID (u_id owner) (u_address owner) formatted formatted usage)
                    (re_settle env) (rn_db st) of
                   (d', None) \<Rightarrow> None
                 | (d', Some (Inl _)) \<Rightarrow> Some (st\<lparr>rn_db := d'\<rparr>)
                 | (d', Some (Inr _)) \<Rightarrow>
                     Some (run_unregister jobID (st\<lparr>rn_db := d',
                       rn_streams := publishProviderJobSettlementTerminal (rn_streams st) jobID (re_usage_json env)\<rparr>)))))"

subsection \<open>The run of a job\<close>

definition key_specific_unaccepted :: "execute_result \<Rightarrow> bool" where
  "key_specific_unaccepted r \<longleftrightarrow>
     er_acceptance_known r \<and> er_acceptance r = AcceptanceDefinitelyUnaccepted \<and> er_key_specific r"

text \<open>
  What one attempt decides: the run ends in a state, waits in the settlement (\<open>RunSettling\<close>), or
  goes on with another key. The slot of the failed key is released and the one of the next
  reserved before the next attempt.
\<close>

datatype attempt_result = RunEnds runner_state | RunSettling | RunSwitches nat runner_state

definition run_unconfirmed ::
  "provider_config \<Rightarrow> workload_fn \<Rightarrow> runner_env \<Rightarrow> nat \<Rightarrow> nat list \<Rightarrow> nat \<Rightarrow> int \<Rightarrow> task_job \<Rightarrow> execute_result \<Rightarrow>
   runner_state \<Rightarrow> attempt_result" where
  "run_unconfirmed cfg wl env jobID tried keyID attempts job result st1 =
     (let fail = (\<lambda>msg s. run_fail wl (re_done env) jobID keyID msg s);
          ends = (\<lambda>s. RunEnds (run_release keyID s)) in
      if re_cancelled env \<or> er_error_class result = ''cancelled_by_shutdown'' then
        ends (run_unregister jobID (fail (if er_error_message result \<noteq> [] then er_error_message result
          else ''provider job cancelled by shutdown'') st1))
      else
        let unaccepted = key_specific_unaccepted result;
            st2 = (if unaccepted \<and> \<not> er_public_output_began result then
              (case RecordSharedAPIKeyUnavailable cfg (re_done env) (rn_db st1) keyID of
                 Inl _ \<Rightarrow> st1 | Inr d' \<Rightarrow> st1\<lparr>rn_db := d'\<rparr>) else st1)
        in
        if unaccepted \<and> \<not> er_public_output_began result \<and> attempts < sint (pv_max_attempts_per_job cfg) \<and>
           re_done env < tj_created_at job + seconds_duration (tj_queue_timeout job)
        then
          let st3 = st2\<lparr>rn_slots := slots_Release (rn_slots st2) keyID\<rparr>;
              keys = ListEligibleSharedAPIKeys (re_done env) (rn_db st3)
                (source_ServiceProvider (tj_execution_source job))
          in
          (case SelectRandomEligibleKey (re_pick env) keys tried (Some (rn_slots st3)) of
             None \<Rightarrow> RunEnds (fail (er_error_message result) st3)
           | Some next \<Rightarrow>
               let (slots', reserved) = slots_Reserve (rn_slots st3) (sk_id next) in
               if \<not> reserved then RunEnds (fail (er_error_message result) st3)
               else RunSwitches (sk_id next) (st3\<lparr>rn_slots := slots'\<rparr>))
        else
          ends (run_unregister jobID (fail (if er_error_message result = []
            then ''provider execution failed'' else er_error_message result) st2)))"

definition run_attempt ::
  "provider_config \<Rightarrow> workload_fn \<Rightarrow> key_cipher option \<Rightarrow> runner_env \<Rightarrow> nat \<Rightarrow> nat list \<Rightarrow> nat \<Rightarrow> int \<Rightarrow>
   runner_state \<Rightarrow> attempt_result" where
  "run_attempt cfg wl cipher env jobID tried keyID attempts st =
     (let fail = (\<lambda>msg s. run_fail wl (re_done env) jobID keyID msg s);
          ends = (\<lambda>s. RunEnds (run_release keyID s)) in
      case job_by (rn_db st) jobID of
        None \<Rightarrow> ends st
      | Some job \<Rightarrow>
          if IsTerminal job then ends st
          else if queue_timed_out (re_now env) job then ends (fail ''provider queue timeout'' st)
          else (case key_by (rn_db st) keyID of
            None \<Rightarrow> ends (fail ''shared api key unavailable'' st)
          | Some key \<Rightarrow>
              (case re_adapter env of
                 None \<Rightarrow> ends (fail ''provider adapters not initialized'' st)
               | Some get \<Rightarrow>
                   (case get (sk_service_provider key) of
                      Inl e \<Rightarrow> ends (fail ''adapter is not configured'' st)
                    | Inr _ \<Rightarrow>
                        (case DecryptSharedAPIKeySecret cipher key of
                           Inl _ \<Rightarrow> ends (fail ''failed to decrypt shared api key'' st)
                         | Inr secret \<Rightarrow>
                             let (events, result) = re_execute env secret job (attempts - 1);
                                 st1 = st\<lparr>rn_db := re_during env (rn_db st),
                                   rn_streams := fold (\<lambda>e r. publishProviderJobExecuteStreamEvent r jobID e) events (rn_streams st)\<rparr>
                             in
                             (case (if HasConfirmedUsage result \<and> er_final_result result \<noteq> [] then er_final_usage result else None) of
                                Some usage \<Rightarrow>
                                  (case run_settle wl env jobID key job result usage st1 of
                                     None \<Rightarrow> RunSettling | Some s \<Rightarrow> ends s)
                              | None \<Rightarrow> run_unconfirmed cfg wl env jobID tried keyID attempts job result st1))))))"

lemma run_attempt_switches:
  "run_attempt cfg wl cipher env jobID tried keyID attempts st = RunSwitches next st' \<Longrightarrow>
   attempts < sint (pv_max_attempts_per_job cfg)"
  by (auto simp: run_attempt_def run_unconfirmed_def Let_def split: option.splits sum.splits if_splits prod.splits)

function RunProviderJob_loop ::
  "provider_config \<Rightarrow> workload_fn \<Rightarrow> key_cipher option \<Rightarrow> (int \<Rightarrow> runner_env) \<Rightarrow> nat \<Rightarrow> nat list \<Rightarrow> nat \<Rightarrow> int \<Rightarrow>
   runner_state \<Rightarrow> runner_state option" where
  "RunProviderJob_loop cfg wl cipher env jobID tried keyID attempts st =
     (case run_attempt cfg wl cipher (env attempts) jobID tried keyID attempts st of
        RunEnds st' \<Rightarrow> Some st'
      | RunSettling \<Rightarrow> None
      | RunSwitches next st' \<Rightarrow> RunProviderJob_loop cfg wl cipher env jobID (next # tried) next (attempts + 1) st')"
  by pat_completeness auto
termination
  by (relation "measure (\<lambda>(cfg, wl, cipher, env, jobID, tried, keyID, attempts, st).
        nat (sint (pv_max_attempts_per_job cfg) - attempts))")
     (auto dest: run_attempt_switches)

declare RunProviderJob_loop.simps [simp del]

definition RunProviderJob ::
  "provider_config \<Rightarrow> workload_fn \<Rightarrow> key_cipher option \<Rightarrow> (int \<Rightarrow> runner_env) \<Rightarrow> nat \<Rightarrow> nat \<Rightarrow>
   runner_state \<Rightarrow> runner_state option" where
  "RunProviderJob cfg wl cipher env jobID keyID st = RunProviderJob_loop cfg wl cipher env jobID [keyID] keyID 1 st"

end
