(* ===== verification/Runner_Correctness.thy ===== *)
theory Runner_Correctness
  imports Provider_Scheduler
begin

text \<open>
  What a run of a provider job guarantees, whatever the provider answers and whatever other
  transactions do meanwhile: it gives back the one slot it holds and leaves the job closed.
\<close>

subsection \<open>The database a run works on\<close>

definition closed_job :: "nat \<Rightarrow> db \<Rightarrow> bool" where
  "closed_job n d \<longleftrightarrow> (\<exists>j. job_by d n = Some j \<and> IsTerminal j)"

text \<open>The state a run relies on: \<open>T\<close> are the times at which it writes.\<close>

definition run_ready :: "nat \<Rightarrow> gotime set \<Rightarrow> db \<Rightarrow> bool" where
  "run_ready n T d \<longleftrightarrow> ledger_inv d \<and> jobs_inv d \<and> (\<forall>k \<in> set (rows (db_shared_keys d)). sk_id k \<noteq> 0) \<and>
     (\<exists>j. job_by d n = Some j \<and> (IsTerminal j \<or> (\<forall>t \<in> T. recordable t j)))"

lemma release_keys: "releaseCreditsHoldTx d j = Inr (d1, l) \<Longrightarrow> db_shared_keys d1 = db_shared_keys d"
  by (auto simp: releaseCreditsHoldTx_def res_simps Let_def split: if_splits)

lemma fail_provider_keys:
  assumes "FailProviderTaskJob wl now now' d n k msg = Inr d'"
  shows "db_shared_keys d' = db_shared_keys d"
  using assms
  by (auto simp: FailProviderTaskJob_def res_simps split: if_splits dest!: release_keys process_tables(6))

lemma fail_ready:
  assumes "run_ready n T d" "t \<in> T"
  shows "\<exists>d'. FailProviderTaskJob wl t t d n k msg = Inr d' \<and> run_ready n T d' \<and> closed_job n d'"
proof -
  obtain j where j: "job_by d n = Some j" "IsTerminal j \<or> (\<forall>t \<in> T. recordable t j)"
    and inv: "ledger_inv d" "jobs_inv d" "\<forall>k \<in> set (rows (db_shared_keys d)). sk_id k \<noteq> 0"
    using assms(1) by (auto simp: run_ready_def)
  show ?thesis
  proof (cases "IsTerminal j")
    case True
    then have "FailProviderTaskJob wl t t d n k msg = Inr d" by (simp add: FailProviderTaskJob_def j(1))
    with True j(1) assms(1) show ?thesis by (auto simp: closed_job_def)
  next
    case False
    then have o: "tj_task_call_record_id j = None" using jobs_invD(1) [OF inv(2) j(1)] job_ok_open by blast
    obtain d' rid where d': "FailProviderTaskJob wl t t d n k msg = Inr d'" "ledger_inv d'" "jobs_inv d'"
      "db_task_jobs d' = tbl_modify (\<lambda>j. tj_id j = n) (\<lambda>j. provider_failed_row t msg rid (released j)) (db_task_jobs d)"
      by (rule fail_provider_exact [OF inv(1,2) j(1) o]) (use j(2) False assms(2) in auto)
    have "job_by d' n = Some (provider_failed_row t msg rid (released j))"
      using job_by_modify [of d d' n "\<lambda>_. True" "\<lambda>j. provider_failed_row t msg rid (released j)" n] d'(4) inv(2) j(1)
      by (simp add: jobs_inv_def provider_failed_row_def)
    then show ?thesis
      using d'(1-3) inv(3) fail_provider_keys [OF d'(1)]
      by (auto simp: run_ready_def closed_job_def provider_failed_row_def IsTerminal_def)
  qed
qed

text \<open>Changes to keys do not matter.\<close>

lemma run_ready_keys:
  assumes "run_ready n T d" "db_task_jobs d' = db_task_jobs d" "db_call_records d' = db_call_records d"
    "db_credit_accounts d' = db_credit_accounts d" "db_credit_events d' = db_credit_events d" "db_stats d' = db_stats d"
    "sk_id ` set (rows (db_shared_keys d')) = sk_id ` set (rows (db_shared_keys d))"
  shows "run_ready n T d'"
proof -
  have "ledger_inv d'"
    using assms(1,2,4,5) unfolding run_ready_def ledger_inv_def by (blast intro: ledger_off_cong)
  moreover have "jobs_inv d'" using assms by (simp add: run_ready_def jobs_inv_def)
  moreover have "\<forall>k \<in> set (rows (db_shared_keys d')). sk_id k \<noteq> 0"
    using assms(1,7) unfolding run_ready_def by (metis (no_types, lifting) image_iff)
  ultimately show ?thesis using assms(1,2) by (simp add: run_ready_def job_by_def)
qed

lemma save_key_ids:
  "key_by d n = Some r0 \<Longrightarrow> sk_id r = n \<Longrightarrow> sk_id ` set (rows (db_shared_keys (save_key d r))) = sk_id ` set (rows (db_shared_keys d))"
  by (auto simp: save_key_def image_iff) (metis key_byD)+

lemma unavailable_ready:
  assumes "run_ready n T d" "RecordSharedAPIKeyUnavailable cfg now d keyID = Inr d'"
  shows "run_ready n T d'"
proof -
  obtain r r' where "key_by d keyID = Some r" "d' = save_key d r'" "sk_id r' = sk_id r"
    using assms(2) by (auto simp: RecordSharedAPIKeyUnavailable_def res_simps Let_def split: if_splits)
  with key_byD [of d keyID r] save_key_ids [of d keyID r r'] show ?thesis
    by (intro run_ready_keys [OF assms(1)]) simp_all
qed

lemma clear_ready:
  assumes "run_ready n T d"
  shows "run_ready n T (ClearSharedAPIKeyUnavailable d keyID)"
proof (rule run_ready_keys [OF assms])
  have "map sk_id (rows (db_shared_keys (ClearSharedAPIKeyUnavailable d keyID))) = map sk_id (rows (db_shared_keys d))"
    by (simp add: ClearSharedAPIKeyUnavailable_def)
  then show "sk_id ` set (rows (db_shared_keys (ClearSharedAPIKeyUnavailable d keyID))) = sk_id ` set (rows (db_shared_keys d))"
    by (metis list.set_map)
qed (simp_all add: ClearSharedAPIKeyUnavailable_def set_keys_def)

lemma settle_ready:
  assumes r: "run_ready n T d" and n: "tj_id job = n"
    and s: "SettleProviderTaskJob wl now now' d job keyID ownerID addr raw formatted usage = Inr d'"
  shows "run_ready n T d' \<and> closed_job n d'"
proof -
  obtain j where j: "job_by d n = Some j"
    and inv: "ledger_inv d" "jobs_inv d" "\<forall>k \<in> set (rows (db_shared_keys d)). sk_id k \<noteq> 0"
    using r by (auto simp: run_ready_def)
  show ?thesis
  proof (cases "IsTerminal j")
    case True
    then have "d' = d" using s j n by (auto simp: SettleProviderTaskJob_def res_simps)
    with True j r show ?thesis by (auto simp: closed_job_def)
  next
    case False
    then have o: "tj_task_call_record_id j = None" using jobs_invD(1) [OF inv(2) j] job_ok_open by blast
    note j' = j [folded n]
    obtain price a0 d1 d2 rid d3 d4 where p: "releaseCreditsHoldTx d j = Inr (d1, released j)"
      "d1 = update_job (save_account d a0) (tj_id job) released" "provider_price_of job usage = Inr price"
      "processTaskCallTx wl d1 (provider_success_call (released j) keyID usage price now) = Inr (d2, rid)"
      "AddSharedAPIKeyUsageTx d2 keyID (pu_input usage) (pu_output usage) = Inr d3"
      "CreateTaskIncomeEarningTx d3 ownerID addr (Some (pp_earning_wei price)) rid = Inr d4"
      "d' = update_job d4 (tj_id job) (provider_complete_row now' raw formatted rid)"
      "ledger_inv d'" "jobs_inv d'" "job_by d' (tj_id job) = Some (provider_complete_row now' raw formatted rid (released j))"
      by (rule settle_provider_parts [OF inv(1,2) j' o s])
    have "sk_id ` set (rows (db_shared_keys d3)) = sk_id ` set (rows (db_shared_keys d2))"
    proof (cases "pu_input usage = 0 \<and> pu_output usage = 0")
      case True
      then show ?thesis using p(5) by (simp add: AddSharedAPIKeyUsageTx_def)
    next
      case False
      then obtain r r' where "key_by d2 keyID = Some r" "d3 = save_key d2 r'" "sk_id r' = sk_id r"
        using p(5) by (auto simp: AddSharedAPIKeyUsageTx_def res_simps)
      with key_byD [of d2 keyID r] save_key_ids [of d2 keyID r r'] show ?thesis by simp
    qed
    then have "sk_id ` set (rows (db_shared_keys d')) = sk_id ` set (rows (db_shared_keys d))"
      using income_tables [OF p(6)] by (simp add: p(2,7) process_tables(6) [OF p(4)])
    then have "\<forall>k \<in> set (rows (db_shared_keys d')). sk_id k \<noteq> 0"
      using inv(3) by (metis (no_types, lifting) image_iff)
    with p(8-10) n show ?thesis by (auto simp: run_ready_def closed_job_def provider_complete_row_def IsTerminal_def)
  qed
qed

lemma retry_ready:
  assumes "run_ready n T d" "tj_id job = n"
    "\<forall>r \<in> set rounds. \<not> sr_cancelled r \<and> (\<forall>d. run_ready n T d \<longrightarrow> run_ready n T (sr_other r d))"
    "settleProviderJobWithRetry (\<lambda>now d. SettleProviderTaskJob wl now now d job keyID ownerID addr raw formatted usage) rounds d =
       (d', Some x)"
  shows "x = Inr () \<and> run_ready n T d' \<and> closed_job n d'"
  using assms
proof (induction rounds arbitrary: d)
  case (Cons r rounds)
  have ready: "run_ready n T (sr_other r d)" using Cons.prems(1,3) by simp
  show ?case
  proof (cases "SettleProviderTaskJob wl (sr_now r) (sr_now r) (sr_other r d) job keyID ownerID addr raw formatted usage")
    case (Inl e)
    then show ?thesis using Cons.prems(2-4) Cons.IH [OF ready] by (simp add: Let_def)
  next
    case (Inr d1)
    then show ?thesis using Cons.prems(4) settle_ready [OF ready Cons.prems(2) Inr] by (auto simp: Let_def)
  qed
qed simp

subsection \<open>One attempt\<close>

lemma run_fail_sel [simp]: "rn_slots (run_fail wl t n k msg st) = rn_slots st"
  by (simp add: run_fail_def split: sum.split)

lemma run_unregister_sel [simp]:
  "rn_slots (run_unregister n st) = rn_slots st" "rn_db (run_unregister n st) = rn_db st"
  by (simp_all add: run_unregister_def)

lemma run_release_sel [simp]:
  "rn_db (run_release k st) = rn_db st" "k \<noteq> 0 \<Longrightarrow> rn_slots (run_release k st) = slots_Release (rn_slots st) k"
  by (simp_all add: run_release_def)

lemma run_fail_closes:
  assumes "run_ready n T (rn_db st)" "t \<in> T"
  shows "run_ready n T (rn_db (run_fail wl t n k msg st)) \<and> closed_job n (rn_db (run_fail wl t n k msg st))"
proof -
  obtain d' where "FailProviderTaskJob wl t t (rn_db st) n (Some k) msg = Inr d'" "run_ready n T d'" "closed_job n d'"
    using fail_ready [OF assms] by blast
  then show ?thesis by (simp add: run_fail_def)
qed

text \<open>What is assumed of everything around an attempt.\<close>

definition env_fair :: "nat \<Rightarrow> gotime set \<Rightarrow> runner_env \<Rightarrow> bool" where
  "env_fair n T env \<longleftrightarrow> re_done env \<in> T \<and> (\<forall>d. run_ready n T d \<longrightarrow> run_ready n T (re_during env d)) \<and>
     (\<forall>r \<in> set (re_settle env). \<not> sr_cancelled r \<and> (\<forall>d. run_ready n T d \<longrightarrow> run_ready n T (sr_other r d))) \<and>
     (\<forall>m. 0 < m \<longrightarrow> re_pick env m < m)"

lemma run_settle_slots: "run_settle wl env n key job result usage st = Some st' \<Longrightarrow> rn_slots st' = rn_slots st"
  by (auto simp: run_settle_def Let_def split: option.splits sum.splits prod.splits if_splits)

lemma run_settle_closes:
  assumes "run_ready n T (rn_db st)" "env_fair n T env" "tj_id job = n"
    "run_settle wl env n key job result usage st = Some st'"
  shows "run_ready n T (rn_db st') \<and> closed_job n (rn_db st')"
proof -
  define s where "s = st\<lparr>rn_db := ClearSharedAPIKeyUnavailable (rn_db st) (sk_id key)\<rparr>"
  have s: "run_ready n T (rn_db s)" using clear_ready [OF assms(1)] by (simp add: s_def)
  have T: "re_done env \<in> T"
    "\<forall>r \<in> set (re_settle env). \<not> sr_cancelled r \<and> (\<forall>d. run_ready n T d \<longrightarrow> run_ready n T (sr_other r d))"
    using assms(2) by (simp_all add: env_fair_def)
  note fail = run_fail_closes [OF s T(1)]
  show ?thesis
  proof (cases "tbl_lookup u_id (sk_user_id key) (db_users (rn_db s))")
    case None
    then show ?thesis using assms(4) fail unfolding run_settle_def Let_def s_def [symmetric] by auto
  next
    case (Some owner)
    show ?thesis
    proof (cases "re_rewrite_id env (er_final_result result)")
      case (Inl e)
      then show ?thesis using Some assms(4) fail unfolding run_settle_def Let_def s_def [symmetric]
        by (auto split: if_splits)
    next
      case (Inr formatted)
      obtain d' x where r: "settleProviderJobWithRetry
        (\<lambda>now d. SettleProviderTaskJob wl now now d job (sk_id key) (u_id owner) (u_address owner) formatted formatted usage)
        (re_settle env) (rn_db s) = (d', x)" by fastforce
      show ?thesis
        using Some Inr assms(4) fail r retry_ready [OF s assms(3) T(2), of wl "sk_id key" "u_id owner" "u_address owner" formatted formatted usage d']
        unfolding run_settle_def Let_def s_def [symmetric]
        by (cases x) (auto split: if_splits sum.splits)
    qed
  qed
qed

lemma eligible_nonzero:
  assumes "run_ready n T d" "\<forall>m. 0 < m \<longrightarrow> pick m < m"
    "SelectRandomEligibleKey pick (ListEligibleSharedAPIKeys now d p) tried slots = Some k"
  shows "sk_id k \<noteq> 0"
proof -
  define cs where "cs = filter (\<lambda>k. sk_id k \<notin> set tried \<and> (case slots of None \<Rightarrow> True | Some m \<Rightarrow> slots_Available m (sk_id k)))
      (ListEligibleSharedAPIKeys now d p)"
  have "cs \<noteq> []" "k = cs ! pick (length cs)"
    using assms(3) by (auto simp: SelectRandomEligibleKey_def Let_def cs_def split: if_splits)
  then have "k \<in> set cs" using assms(2) by (simp add: nth_mem)
  then show ?thesis using assms(1) by (auto simp: cs_def ListEligibleSharedAPIKeys_def tbl_where_def run_ready_def)
qed

lemma unconfirmed_slots:
  assumes "keyID \<noteq> 0"
  shows "run_unconfirmed cfg wl env n tried keyID attempts job result st = RunEnds st' \<Longrightarrow>
      rn_slots st' = slots_Release (rn_slots st) keyID"
    "run_unconfirmed cfg wl env n tried keyID attempts job result st = RunSwitches next st' \<Longrightarrow>
      slots_Reserve (slots_Release (rn_slots st) keyID) next = (rn_slots st', True)"
  using assms
  by (auto simp: run_unconfirmed_def Let_def split: option.splits sum.splits prod.splits if_splits)

lemma attempt_slots:
  assumes "keyID \<noteq> 0"
  shows "run_attempt cfg wl cipher env n tried keyID attempts st = RunEnds st' \<Longrightarrow>
      rn_slots st' = slots_Release (rn_slots st) keyID"
    "run_attempt cfg wl cipher env n tried keyID attempts st = RunSwitches next st' \<Longrightarrow>
      slots_Reserve (slots_Release (rn_slots st) keyID) next = (rn_slots st', True)"
  using assms
  by (auto simp: run_attempt_def Let_def
      split: option.splits sum.splits prod.splits if_splits dest!: run_settle_slots unconfirmed_slots [OF assms])

lemma unconfirmed_closes:
  assumes r: "run_ready n T (rn_db st)" and t: "re_done env \<in> T"
  shows "run_unconfirmed cfg wl env n tried keyID attempts job result st = RunEnds st' \<Longrightarrow>
      run_ready n T (rn_db st') \<and> closed_job n (rn_db st')"
    "run_unconfirmed cfg wl env n tried keyID attempts job result st = RunSwitches next st' \<Longrightarrow> run_ready n T (rn_db st')"
proof -
  note fail = run_fail_closes [OF _ t]
  define st2 where "st2 = (if key_specific_unaccepted result \<and> \<not> er_public_output_began result then
      (case RecordSharedAPIKeyUnavailable cfg (re_done env) (rn_db st) keyID of Inl _ \<Rightarrow> st | Inr d' \<Rightarrow> st\<lparr>rn_db := d'\<rparr>) else st)"
  have r2: "run_ready n T (rn_db st2)"
    using r unavailable_ready [OF r] by (simp add: st2_def split: sum.split)
  have r3: "run_ready n T (rn_db (st2\<lparr>rn_slots := x\<rparr>))" for x using r2 by simp
  show "run_ready n T (rn_db st') \<and> closed_job n (rn_db st')"
    if "run_unconfirmed cfg wl env n tried keyID attempts job result st = RunEnds st'"
    using that fail [OF r] fail [OF r2] fail [OF r3]
    unfolding run_unconfirmed_def Let_def st2_def [symmetric]
    by (auto split: if_splits option.splits prod.splits)
  show "run_ready n T (rn_db st')"
    if "run_unconfirmed cfg wl env n tried keyID attempts job result st = RunSwitches next st'"
    using that r2 unfolding run_unconfirmed_def Let_def st2_def [symmetric]
    by (auto split: if_splits option.splits prod.splits)
qed

lemma unconfirmed_next:
  assumes r: "run_ready n T (rn_db st)" and env: "env_fair n T env"
    and a: "run_unconfirmed cfg wl env n tried keyID attempts job result st = RunSwitches next st'"
  shows "next \<noteq> 0"
proof -
  obtain now d p slots k where k: "SelectRandomEligibleKey (re_pick env) (ListEligibleSharedAPIKeys now d p) tried slots = Some k"
    "next = sk_id k" "rn_db st' = d"
    using a unfolding run_unconfirmed_def Let_def by (fastforce split: if_splits option.splits prod.splits)
  have "run_ready n T d" using unconfirmed_closes(2) [OF r _ a] env k(3) by (simp add: env_fair_def)
  then show ?thesis using eligible_nonzero [OF _ _ k(1)] k(2,3) env by (simp add: env_fair_def)
qed

lemma attempt_closes:
  assumes r: "run_ready n T (rn_db st)" and env: "env_fair n T env"
  shows "run_attempt cfg wl cipher env n tried keyID attempts st = RunEnds st' \<Longrightarrow>
      run_ready n T (rn_db st') \<and> closed_job n (rn_db st')"
    "run_attempt cfg wl cipher env n tried keyID attempts st = RunSwitches next st' \<Longrightarrow>
      run_ready n T (rn_db st') \<and> next \<noteq> 0"
proof -
  have T: "re_done env \<in> T" using env by (simp add: env_fair_def)
  obtain job where j: "job_by (rn_db st) n = Some job" using r by (auto simp: run_ready_def)
  have id: "tj_id job = n" using job_byD [OF j] by simp
  have t: "closed_job n (rn_db st)" if "IsTerminal job" using that j by (simp add: closed_job_def)
  let ?after = "\<lambda>ev. st\<lparr>rn_db := re_during env (rn_db st),
      rn_streams := fold (\<lambda>e r. publishProviderJobExecuteStreamEvent r n e) ev (rn_streams st)\<rparr>"
  have r1: "run_ready n T (rn_db (?after ev))" for ev using r env by (simp add: env_fair_def)
  note facts = j r t run_fail_closes [OF r T] run_settle_closes [OF r1 env id]
    unconfirmed_closes [OF r1 T] unconfirmed_next [OF r1 env]
  show "run_ready n T (rn_db st') \<and> closed_job n (rn_db st')"
    if "run_attempt cfg wl cipher env n tried keyID attempts st = RunEnds st'"
    using that facts unfolding run_attempt_def Let_def
    by (auto split: if_splits option.splits prod.splits sum.splits)
  show "run_ready n T (rn_db st') \<and> next \<noteq> 0"
    if "run_attempt cfg wl cipher env n tried keyID attempts st = RunSwitches next st'"
    using that facts unfolding run_attempt_def Let_def
    by (auto split: if_splits option.splits prod.splits sum.splits)
qed

subsection \<open>The run\<close>

lemma retry_stuck:
  assumes "run_ready n T d" "\<forall>r \<in> set rounds. \<not> sr_cancelled r \<and> (\<forall>d. run_ready n T d \<longrightarrow> run_ready n T (sr_other r d))"
    "settleProviderJobWithRetry settle rounds d = (d', None)"
  shows "\<forall>r \<in> set rounds. \<exists>d e. run_ready n T d \<and> settle (sr_now r) d = Inl e"
  using assms
proof (induction rounds arbitrary: d)
  case (Cons r rounds)
  have ready: "run_ready n T (sr_other r d)" using Cons.prems(1,2) by simp
  from Cons.prems(2,3) obtain e where e: "settle (sr_now r) (sr_other r d) = Inl e"
    "settleProviderJobWithRetry settle rounds (sr_other r d) = (d', None)"
    by (auto simp: Let_def split: sum.splits)
  with Cons.IH [OF ready _ e(2)] Cons.prems(2) ready show ?case by auto
qed simp

text \<open>Every listed try to settle the confirmed usage fails.\<close>

definition settle_failing :: "workload_fn \<Rightarrow> nat \<Rightarrow> gotime set \<Rightarrow> runner_env \<Rightarrow> bool" where
  "settle_failing wl n T env \<longleftrightarrow> (\<exists>job keyID ownerID addr formatted usage. tj_id job = n \<and>
     (\<forall>r \<in> set (re_settle env). \<exists>d e. run_ready n T d \<and>
        SettleProviderTaskJob wl (sr_now r) (sr_now r) d job keyID ownerID addr formatted formatted usage = Inl e))"

lemma run_settle_stuck:
  assumes "run_ready n T (rn_db st)" "env_fair n T env" "tj_id job = n"
    "run_settle wl env n key job result usage st = None"
  shows "settle_failing wl n T env"
proof -
  define s where "s = st\<lparr>rn_db := ClearSharedAPIKeyUnavailable (rn_db st) (sk_id key)\<rparr>"
  have s: "run_ready n T (rn_db s)" using clear_ready [OF assms(1)] by (simp add: s_def)
  obtain ownerID addr formatted d' where "settleProviderJobWithRetry
      (\<lambda>now d. SettleProviderTaskJob wl now now d job (sk_id key) ownerID addr formatted formatted usage)
      (re_settle env) (rn_db s) = (d', None)"
    using assms(4) unfolding run_settle_def Let_def s_def [symmetric]
    by (auto split: option.splits sum.splits prod.splits if_splits)
  from retry_stuck [OF s _ this] assms(2,3) show ?thesis unfolding settle_failing_def env_fair_def by blast
qed

lemma attempt_stuck:
  assumes r: "run_ready n T (rn_db st)" and env: "env_fair n T env"
    and a: "run_attempt cfg wl cipher env n tried keyID attempts st = RunSettling"
  shows "settle_failing wl n T env"
proof -
  obtain job key result usage ev where "job_by (rn_db st) n = Some job"
    "run_settle wl env n key job result usage (st\<lparr>rn_db := re_during env (rn_db st), rn_streams := ev\<rparr>) = None"
    using a unfolding run_attempt_def run_unconfirmed_def Let_def
    by (auto split: if_splits option.splits prod.splits sum.splits)
  moreover have "run_ready n T (rn_db (st\<lparr>rn_db := re_during env (rn_db st), rn_streams := ev\<rparr>))"
    using r env by (simp add: env_fair_def)
  ultimately show ?thesis using run_settle_stuck [OF _ env] job_byD by blast
qed

lemma switch_slots:
  assumes "slots_Reserve (slots_Release m k) k' = (m', True)"
  shows "slots_Release m' k' = slots_Release m k"
proof -
  define r where "r = slots_Release m k"
  have a: "sl_active r k' < sl_max r" "m' = r\<lparr>sl_active := (sl_active r)(k' := sl_active r k' + 1)\<rparr>"
    using assms by (auto simp: slots_Reserve_def r_def [symmetric] not_le split: if_splits)
  have "sl_active r k' + 1 \<noteq> 0"
    using a(1) word_order.extremum_strict [of "sl_max r"] by (metis eq_neg_iff_add_eq_0)
  then have "slots_Release m' k' = r" unfolding a(2) by (cases r) (simp add: slots_Release_def)
  then show ?thesis by (simp add: r_def)
qed

lemma loop_closes:
  assumes "run_ready n T (rn_db st)" "\<forall>i. env_fair n T (env i)" "keyID \<noteq> 0"
  shows "case RunProviderJob_loop cfg wl cipher env n tried keyID attempts st of
      None \<Rightarrow> \<exists>i. settle_failing wl n T (env i)
    | Some st' \<Rightarrow> run_ready n T (rn_db st') \<and> closed_job n (rn_db st') \<and>
        rn_slots st' = slots_Release (rn_slots st) keyID"
  using assms
proof (induction cfg wl cipher env n tried keyID attempts st rule: RunProviderJob_loop.induct)
  case (1 cfg wl cipher env n tried keyID attempts st)
  note fair = 1(3) [rule_format, of attempts]
  show ?case
  proof (cases "run_attempt cfg wl cipher (env attempts) n tried keyID attempts st")
    case (RunEnds st')
    then show ?thesis
      using attempt_closes(1) [OF 1(2) fair RunEnds] attempt_slots(1) [OF 1(4) RunEnds]
      by (simp add: RunProviderJob_loop.simps [of cfg wl cipher env n tried keyID attempts st])
  next
    case RunSettling
    then show ?thesis using attempt_stuck [OF 1(2) fair RunSettling]
      by (auto simp: RunProviderJob_loop.simps [of cfg wl cipher env n tried keyID attempts st])
  next
    case (RunSwitches k st')
    have s: "run_ready n T (rn_db st')" "k \<noteq> 0" using attempt_closes(2) [OF 1(2) fair RunSwitches] by simp_all
    have "slots_Release (rn_slots st') k = slots_Release (rn_slots st) keyID"
      by (rule switch_slots [OF attempt_slots(2) [OF 1(4) RunSwitches]])
    with 1(1) [OF RunSwitches s(1) 1(3) s(2)] RunSwitches show ?thesis
      by (simp add: RunProviderJob_loop.simps [of cfg wl cipher env n tried keyID attempts st] split: option.splits)
  qed
qed


text \<open>The provider rejects the only key: the job is failed and the slot of key 7 is free again.\<close>

definition rejecting_env :: runner_env where
  "rejecting_env = \<lparr>re_now = 20, re_adapter = Some (\<lambda>_. Inr ()),
     re_execute = (\<lambda>_ _ _. ([], \<lparr>er_acceptance_known = True, er_acceptance = AcceptanceDefinitelyUnaccepted,
       er_public_output_began = False, er_final_result = [], er_final_usage = None, er_has_images = False,
       er_error_class = ''auth'', er_error_message = ''rejected'', er_key_specific = True\<rparr>)),
     re_during = (\<lambda>d. d), re_cancelled = False, re_save_images = True, re_rewrite_id = Inr, re_usage_json = [],
     re_settle = [], re_done = 20, re_pick = (\<lambda>_. 0)\<rparr>"

definition opening_cipher :: key_cipher where
  "opening_cipher = \<lparr>kc_encrypt = (\<lambda>s _. Inr (s, ''n'')), kc_decrypt = (\<lambda>s _ _. Inr s), kc_fingerprint = (\<lambda>s. s)\<rparr>"

definition running_state :: runner_state where
  "running_state = \<lparr>rn_db = sample_provider_db, rn_slots = fst (slots_Reserve (NewProviderKeySlotManager 1) 7),
     rn_streams = NewProviderStreamRegistry 4\<rparr>"

lemma rejecting_ends: "RunProviderJob_loop cfg wl cipher (\<lambda>_. rejecting_env) n tried k a st \<noteq> None"
proof (induction cfg wl cipher "\<lambda>_::int. rejecting_env" n tried k a st rule: RunProviderJob_loop.induct)
  case (1 cfg wl cipher n tried k a st)
  have "run_attempt cfg wl cipher rejecting_env n tried k a st \<noteq> RunSettling"
    by (simp add: run_attempt_def run_unconfirmed_def rejecting_env_def HasConfirmedUsage_def Let_def
        split: option.split sum.split prod.split)
  then show ?case
    using 1 by (auto simp: RunProviderJob_loop.simps [of cfg wl cipher _ n tried k a st] split: attempt_result.split)
qed


end
