(* ===== verification/Job_Worker.thy ===== *)
theory Job_Worker
  imports Job_Retention
begin

text \<open>
  The worker of Crynux jobs (\<open>service/llm_job_worker.go\<close>): it submits the jobs that wait to the
  bridge, follows the tasks the bridge runs, and settles or fails their jobs.

  A tick reads the unfinished jobs once and then works through them, while other transactions
  change the database: \<open>wk_other n\<close> is what they do before the write to the job with
  number \<open>n\<close>. The answers of the bridge are arguments; a wire field that is decoded (an
  estimate of completion, a model response) is its decoded value.
\<close>

subsection \<open>What the bridge sends\<close>

record create_task_request =
  cq_task_args :: string
  cq_task_type :: task_type
  cq_task_version :: "string option"
  cq_min_vram :: u64
  cq_task_fee :: string
  cq_queue_timeout :: "u64 option"

record client_task =
  ct_id :: nat
  ct_status :: string
  ct_phase :: string
  ct_estimated_completion_at :: "gotime option"
  ct_error_message :: string

record create_item =
  ci_index :: int
  ci_client_task :: "client_task option"
  ci_error :: string

record status_item =
  si_client_task_id :: nat
  si_client_task :: "client_task option"
  si_error :: string

definition IsBridgeTaskTerminal :: "string \<Rightarrow> bool" where
  "IsBridgeTaskTerminal status \<longleftrightarrow> status = ''success'' \<or> status = ''failed''"

definition IsBridgeTaskSuccess :: "string \<Rightarrow> bool" where
  "IsBridgeTaskSuccess status \<longleftrightarrow> status = ''success''"

text \<open>The usage of a model response, as Go ints.\<close>

record response_usage =
  ru_prompt_tokens :: int
  ru_completion_tokens :: int
  ru_total_tokens :: int

record worker_env =
  wk_cfg :: llm_config
  wk_cache :: queued_priority_cache
  wk_workload :: workload_fn
  wk_now :: "nat \<Rightarrow> gotime"
  wk_other :: "nat \<Rightarrow> db \<Rightarrow> db"
  wk_create :: "create_task_request list \<Rightarrow> err + create_item list"
  wk_statuses :: "nat list \<Rightarrow> err + status_item list"
  wk_images :: "task_job \<Rightarrow> err + unit"
  wk_download :: "nat \<Rightarrow> err + string"
  wk_unmarshal :: "string \<Rightarrow> err + response_usage"
  wk_format :: "task_job \<Rightarrow> string \<Rightarrow> err + string"

text \<open>The database and the bridge tasks the worker asked to abort.\<close>

record worker_state =
  ws_db :: db
  ws_aborted :: "nat list"

subsection \<open>Submitting\<close>

definition isTaskJobSubmitTimedOut :: "task_job \<Rightarrow> int \<Rightarrow> gotime \<Rightarrow> bool" where
  "isTaskJobSubmitTimedOut job submitTimeout now \<longleftrightarrow>
     \<not> (submitTimeout \<le> 0 \<or> tj_created_at job = zero_time) \<and> tj_created_at job + submitTimeout \<le> now"

definition taskJobTaskFeeWei :: "task_job \<Rightarrow> err + int" where
  "taskJobTaskFeeWei job =
     (case (tj_billing_data job, jt_task_fee_gwei (tj_transient job)) of
        (BillingEmpty, Some gwei) \<Rightarrow>
          if gwei < 0 then Inl (ErrMsg ''task fee must be non-negative'') else Inr (gwei * 1000000000)
      | _ \<Rightarrow>
          bindE (DecodeBillingData job) (\<lambda>billing.
            case bigint_set_string (bd_task_fee_wei billing) of
              None \<Rightarrow> Inl (ErrMsg ''task fee must be a non-negative integer'')
            | Some fee \<Rightarrow> if fee < 0 then Inl (ErrMsg ''task fee must be a non-negative integer'') else Inr fee))"

definition create_request_of :: "task_job \<Rightarrow> int \<Rightarrow> create_task_request" where
  "create_request_of job fee =
     \<lparr>cq_task_args = tj_task_args_json job, cq_task_type = tj_task_type job, cq_task_version = tj_task_version job,
      cq_min_vram = (case tj_min_vram job of None \<Rightarrow> 0 | Some v \<Rightarrow> v), cq_task_fee = int_str fee,
      cq_queue_timeout = (if 0 < tj_queue_timeout job then Some (tj_queue_timeout job) else None)\<rparr>"

text \<open>A transaction of the worker on the job it read, after what others did before it.\<close>

definition failTaskJobWithRecord :: "worker_env \<Rightarrow> worker_state \<Rightarrow> task_job \<Rightarrow> string \<Rightarrow> worker_state \<times> (err + unit)" where
  "failTaskJobWithRecord env st job msg =
     (let d = wk_other env (tj_id job) (ws_db st) in
      case FailAndRecordTaskJob (wk_cfg env) (wk_cache env) (wk_workload env) (wk_now env (tj_id job)) d (Some job) msg of
        Inl e \<Rightarrow> (st\<lparr>ws_db := d\<rparr>, Inl e)
      | Inr (d', _) \<Rightarrow> (st\<lparr>ws_db := d'\<rparr>, Inr ()))"

fun collect_requests ::
  "worker_env \<Rightarrow> int \<Rightarrow> gotime \<Rightarrow> worker_state \<Rightarrow> task_job list \<Rightarrow> worker_state \<times> (err + (task_job \<times> create_task_request) list)" where
  "collect_requests env timeout now st [] = (st, Inr [])"
| "collect_requests env timeout now st (job # jobs) =
     (let failing = (\<lambda>msg. case failTaskJobWithRecord env st job msg of
            (st', Inl e) \<Rightarrow> (st', Inl e)
          | (st', Inr _) \<Rightarrow> collect_requests env timeout now st' jobs) in
      if isTaskJobSubmitTimedOut job timeout now then failing ''bridge submit timed out''
      else
        (case taskJobTaskFeeWei job of
           Inl e \<Rightarrow> failing ''bridge submit failed''
         | Inr fee \<Rightarrow>
             (case collect_requests env timeout now st jobs of
                (st', Inl e) \<Rightarrow> (st', Inl e)
              | (st', Inr reqs) \<Rightarrow> (st', Inr ((job, create_request_of job fee) # reqs)))))"

definition submit_job :: "worker_env \<Rightarrow> worker_state \<Rightarrow> task_job \<Rightarrow> nat \<Rightarrow> worker_state" where
  "submit_job env st job taskID =
     (let (d', orphan) = UpdateTaskJobBridgeTask (wk_now env (tj_id job)) (wk_other env (tj_id job) (ws_db st)) (tj_id job) taskID
      in st\<lparr>ws_db := d', ws_aborted := ws_aborted st @ (if orphan then [taskID] else [])\<rparr>)"

fun apply_created :: "worker_env \<Rightarrow> task_job list \<Rightarrow> worker_state \<Rightarrow> create_item list \<Rightarrow> worker_state \<times> (err + unit)" where
  "apply_created env jobs st [] = (st, Inr ())"
| "apply_created env jobs st (result # results) =
     (if ci_index result < 0 \<or> int (length jobs) \<le> ci_index result then apply_created env jobs st results
      else
        let job = jobs ! nat (ci_index result) in
        (case (ci_error result, ci_client_task result) of
           ([], Some task) \<Rightarrow> apply_created env jobs (submit_job env st job (ct_id task)) results
         | _ \<Rightarrow>
             (case failTaskJobWithRecord env st job (''bridge submit failed: '' @
                 (if ci_error result = [] then ''bridge batch create returned empty client task'' else ci_error result)) of
                (st', Inl e) \<Rightarrow> (st', Inl e)
              | (st', Inr _) \<Rightarrow> apply_created env jobs st' results)))"

definition submitPendingTaskJobs ::
  "worker_env \<Rightarrow> gotime \<Rightarrow> worker_state \<Rightarrow> task_job list \<Rightarrow> int \<Rightarrow> worker_state \<times> (err + unit)" where
  "submitPendingTaskJobs env now st jobs submitTimeout =
     (if jobs = [] then (st, Inr ())
      else
        case collect_requests env submitTimeout now st jobs of
          (st1, Inl e) \<Rightarrow> (st1, Inl e)
        | (st1, Inr reqs) \<Rightarrow>
            if reqs = [] then (st1, Inr ())
            else (case wk_create env (map snd reqs) of
                    Inl _ \<Rightarrow> (st1, Inr ())
                  | Inr results \<Rightarrow> apply_created env (map fst reqs) st1 results))"

subsection \<open>Following\<close>

definition update_phase :: "worker_env \<Rightarrow> worker_state \<Rightarrow> nat \<Rightarrow> string \<Rightarrow> gotime option \<Rightarrow> worker_state" where
  "update_phase env st jobID phase eta =
     st\<lparr>ws_db := UpdateTaskJobPhase (wk_other env jobID (ws_db st)) jobID TaskJobStatusInProgress phase eta\<rparr>"

text \<open>A conversion of a Go int to \<open>uint64\<close> wraps around.\<close>

definition completeSuccessfulTaskJob :: "worker_env \<Rightarrow> worker_state \<Rightarrow> task_job \<Rightarrow> worker_state \<times> (err + unit)" where
  "completeSuccessfulTaskJob env st job =
     (let d = wk_other env (tj_id job) (ws_db st); now = wk_now env (tj_id job);
          commit = (\<lambda>r. case r of Inl e \<Rightarrow> (st\<lparr>ws_db := d\<rparr>, Inl e) | Inr (d', _) \<Rightarrow> (st\<lparr>ws_db := d'\<rparr>, Inr ())) in
      if tj_task_type job = TaskTypeImage then
        (case wk_images env job of
           Inl e \<Rightarrow> (st, Inl e)
         | Inr _ \<Rightarrow> commit (CompleteAndSettleImageTaskJob (wk_workload env) now d (Some job)))
      else
        (case tj_bridge_client_task_id job of
           None \<Rightarrow> (st, Inl (ErrMsg ''panic''))
         | Some bridgeID \<Rightarrow>
             (case wk_download env bridgeID of
                Inl e \<Rightarrow> (st, Inl e)
              | Inr raw \<Rightarrow>
                  (case wk_unmarshal env raw of
                     Inl _ \<Rightarrow> failTaskJobWithRecord env st job ''invalid task result''
                   | Inr usage \<Rightarrow>
                       (case wk_format env job raw of
                          Inl _ \<Rightarrow> failTaskJobWithRecord env st job ''format result failed''
                        | Inr formatted \<Rightarrow>
                            commit (CompleteAndSettleTaskJob (wk_cfg env) (wk_cache env) (wk_workload env) now d (Some job) raw formatted
                              (of_int (ru_prompt_tokens usage)) (of_int (ru_completion_tokens usage))
                              (of_int (ru_total_tokens usage))))))))"

definition sync_one :: "worker_env \<Rightarrow> worker_state \<Rightarrow> task_job \<Rightarrow> status_item \<Rightarrow> worker_state \<times> (err + unit)" where
  "sync_one env st job result =
     (case (si_error result, si_client_task result) of
        ([], Some task) \<Rightarrow>
          if \<not> IsBridgeTaskTerminal (ct_status task) then
            (update_phase env st (tj_id job) (if ct_phase task = [] then ''queued'' else ct_phase task)
               (ct_estimated_completion_at task), Inr ())
          else if \<not> IsBridgeTaskSuccess (ct_status task) then
            failTaskJobWithRecord env st job
              (if ct_error_message task = [] then ''bridge task failed with status '' @ ct_status task else ct_error_message task)
          else
            (fst (completeSuccessfulTaskJob env (update_phase env st (tj_id job) ''finalizing'' None) job), Inr ())
      | _ \<Rightarrow>
          failTaskJobWithRecord env st job (''bridge status failed: '' @
            (if si_error result = [] then ''bridge batch status returned empty client task'' else si_error result)))"

fun sync_all ::
  "worker_env \<Rightarrow> (nat \<rightharpoonup> task_job) \<Rightarrow> worker_state \<Rightarrow> status_item list \<Rightarrow> worker_state \<times> (err + unit)" where
  "sync_all env jobByBridgeID st [] = (st, Inr ())"
| "sync_all env jobByBridgeID st (result # results) =
     (case jobByBridgeID (si_client_task_id result) of
        None \<Rightarrow> sync_all env jobByBridgeID st results
      | Some job \<Rightarrow>
          (case sync_one env st job result of
             (st', Inl e) \<Rightarrow> (st', Inl e)
           | (st', Inr _) \<Rightarrow> sync_all env jobByBridgeID st' results))"

text \<open>\<open>jobs\<close> with the numbers of their bridge tasks; a later job overwrites an earlier one with the same number.\<close>

definition syncInFlightTaskJobs :: "worker_env \<Rightarrow> worker_state \<Rightarrow> (nat \<times> task_job) list \<Rightarrow> worker_state \<times> (err + unit)" where
  "syncInFlightTaskJobs env st jobs =
     (if jobs = [] then (st, Inr ())
      else case wk_statuses env (map fst jobs) of
          Inl e \<Rightarrow> (st, Inl e)
        | Inr results \<Rightarrow> sync_all env (map_of (rev jobs)) st results)"

subsection \<open>A tick, and the start\<close>

abbreviation taskJobBatchLimit :: int where "taskJobBatchLimit \<equiv> 100"

definition advanceTaskJobs :: "worker_env \<Rightarrow> gotime \<Rightarrow> u64 \<Rightarrow> worker_state \<Rightarrow> worker_state \<times> (err + unit)" where
  "advanceTaskJobs env now jobSubmitTimeout st =
     (let jobs = ListUnfinishedTaskJobs (ws_db st) taskJobBatchLimit;
          pending = filter (\<lambda>j. tj_bridge_client_task_id j = None) jobs;
          inFlight = List.map_filter (\<lambda>j. map_option (\<lambda>b. (b, j)) (tj_bridge_client_task_id j)) jobs in
      if jobs = [] then (st, Inr ())
      else case submitPendingTaskJobs env now st pending (seconds_duration jobSubmitTimeout) of
          (st1, Inl e) \<Rightarrow> (st1, Inl e)
        | (st1, Inr _) \<Rightarrow> syncInFlightTaskJobs env st1 inFlight)"

text \<open>\<open>RunTaskJobWorker\<close> after the recovery: one tick for each entry of the list; a failed tick is only logged.\<close>

fun RunTaskJobWorker_loop :: "(worker_env \<times> gotime \<times> u64) list \<Rightarrow> worker_state \<Rightarrow> worker_state" where
  "RunTaskJobWorker_loop [] st = st"
| "RunTaskJobWorker_loop ((env, now, timeout) # ticks) st = RunTaskJobWorker_loop ticks (fst (advanceTaskJobs env now timeout st))"

definition RecoverIncompleteJobs :: "(nat \<Rightarrow> db \<Rightarrow> db) \<Rightarrow> db \<Rightarrow> db" where
  "RecoverIncompleteJobs other d =
     fold (\<lambda>j d. if tj_bridge_client_task_id j = None then ResetTaskJobToPending (other (tj_id j) d) (tj_id j) else d)
       (tbl_where (\<lambda>j. tj_execution_source j = ExecutionSourceCrynux \<and>
          tj_status j \<in> {TaskJobStatusSubmitted, TaskJobStatusInProgress}) (db_task_jobs d)) d"

definition RunTaskJobWorker :: "(nat \<Rightarrow> db \<Rightarrow> db) \<Rightarrow> (worker_env \<times> gotime \<times> u64) list \<Rightarrow> db \<Rightarrow> worker_state" where
  "RunTaskJobWorker other ticks d =
     RunTaskJobWorker_loop ticks \<lparr>ws_db = RecoverIncompleteJobs other d, ws_aborted = []\<rparr>"

end
