(* ===== verification/Usage_Stats.thy ===== *)
theory Usage_Stats
  imports Job_Invariant
begin

text \<open>
  The base usage statistics (\<open>service/usage_stats.go\<close>, \<open>usage_stats_buckets.go\<close>): every finished call
  leaves its record's number in a queue; a worker takes the queue in batches and adds each record to
  four tables (per account and hour, per project and hour, per model and ten minutes, per
  duration bucket and ten minutes). Counters are 64-bit words and wrap around; Credits are
  unbounded. \<open>usage_inv\<close> says that each table holds exactly the records that have left the queue.
\<close>

subsection \<open>Adding up counters\<close>

instantiation unit :: comm_monoid_add
begin

definition zero_unit_def: "0 = ()"
definition plus_unit_def: "(x :: unit) + y = ()"

instance by intro_classes (simp_all add: zero_unit_def plus_unit_def)

end

instantiation usage_counts_ext :: (comm_monoid_add) comm_monoid_add
begin

definition zero_usage_counts_ext :: "'a usage_counts_ext" where
  "0 = \<lparr>uc_request_count = 0, uc_success_count = 0, uc_failure_count = 0, uc_prompt_tokens = 0,
     uc_completion_tokens = 0, uc_total_tokens = 0, uc_image_count = 0, uc_credits = 0, \<dots> = 0\<rparr>"

definition plus_usage_counts_ext :: "'a usage_counts_ext \<Rightarrow> 'a usage_counts_ext \<Rightarrow> 'a usage_counts_ext" where
  "a + b = \<lparr>uc_request_count = uc_request_count a + uc_request_count b,
     uc_success_count = uc_success_count a + uc_success_count b,
     uc_failure_count = uc_failure_count a + uc_failure_count b,
     uc_prompt_tokens = uc_prompt_tokens a + uc_prompt_tokens b,
     uc_completion_tokens = uc_completion_tokens a + uc_completion_tokens b,
     uc_total_tokens = uc_total_tokens a + uc_total_tokens b,
     uc_image_count = uc_image_count a + uc_image_count b,
     uc_credits = uc_credits a + uc_credits b, \<dots> = usage_counts.more a + usage_counts.more b\<rparr>"

instance
  by intro_classes (simp_all add: zero_usage_counts_ext_def plus_usage_counts_ext_def ac_simps)

end

subsection \<open>Periods and duration buckets\<close>

text \<open>\<open>time.Time.Unix\<close>: the seconds, rounded down.\<close>

definition unix :: "gotime \<Rightarrow> int" where
  "unix t = t div 1000000000"

definition HourStartUnix :: "int \<Rightarrow> int" where
  "HourStartUnix ts = ts - go_rem ts 3600"

definition TenMinuteStartUnix :: "int \<Rightarrow> int" where
  "TenMinuteStartUnix ts = ts - go_rem ts 600"

definition UnixDayStart :: "int \<Rightarrow> int" where
  "UnixDayStart ts = go_quo ts 86400 * 86400"

record duration_bucket =
  db_bucket_id :: string
  db_bucket_min :: u64
  db_bucket_max :: "u64 option"
  db_bucket_label :: string

definition durationBuckets :: "duration_bucket list" where
  "durationBuckets =
    [\<lparr>db_bucket_id = ''0_250'', db_bucket_min = 0, db_bucket_max = Some 250, db_bucket_label = ''0-250ms''\<rparr>,
     \<lparr>db_bucket_id = ''250_500'', db_bucket_min = 250, db_bucket_max = Some 500, db_bucket_label = ''250-500ms''\<rparr>,
     \<lparr>db_bucket_id = ''500_1000'', db_bucket_min = 500, db_bucket_max = Some 1000, db_bucket_label = ''500ms-1s''\<rparr>,
     \<lparr>db_bucket_id = ''1000_2000'', db_bucket_min = 1000, db_bucket_max = Some 2000, db_bucket_label = ''1-2s''\<rparr>,
     \<lparr>db_bucket_id = ''2000_5000'', db_bucket_min = 2000, db_bucket_max = Some 5000, db_bucket_label = ''2-5s''\<rparr>,
     \<lparr>db_bucket_id = ''5000_10000'', db_bucket_min = 5000, db_bucket_max = Some 10000, db_bucket_label = ''5-10s''\<rparr>,
     \<lparr>db_bucket_id = ''10000_30000'', db_bucket_min = 10000, db_bucket_max = Some 30000, db_bucket_label = ''10-30s''\<rparr>,
     \<lparr>db_bucket_id = ''30000_60000'', db_bucket_min = 30000, db_bucket_max = Some 60000, db_bucket_label = ''30-60s''\<rparr>,
     \<lparr>db_bucket_id = ''60000_120000'', db_bucket_min = 60000, db_bucket_max = Some 120000, db_bucket_label = ''1-2min''\<rparr>,
     \<lparr>db_bucket_id = ''120000_300000'', db_bucket_min = 120000, db_bucket_max = Some 300000, db_bucket_label = ''2-5min''\<rparr>,
     \<lparr>db_bucket_id = ''300000_600000'', db_bucket_min = 300000, db_bucket_max = Some 600000, db_bucket_label = ''5-10min''\<rparr>,
     \<lparr>db_bucket_id = ''600000_inf'', db_bucket_min = 600000, db_bucket_max = None, db_bucket_label = ''10min+''\<rparr>]"

definition in_bucket :: "u64 \<Rightarrow> duration_bucket \<Rightarrow> bool" where
  "in_bucket ms b \<longleftrightarrow>
     (case db_bucket_max b of None \<Rightarrow> db_bucket_min b \<le> ms | Some m \<Rightarrow> db_bucket_min b \<le> ms \<and> ms < m)"

definition DurationBucketID :: "u64 \<Rightarrow> string" where
  "DurationBucketID ms =
     (case find (in_bucket ms) durationBuckets of
        Some b \<Rightarrow> db_bucket_id b | None \<Rightarrow> db_bucket_id (last durationBuckets))"

definition DurationBucketByID :: "string \<Rightarrow> duration_bucket option" where
  "DurationBucketByID i = find (\<lambda>b. db_bucket_id b = i) durationBuckets"

subsection \<open>The upserts\<close>

definition cloneRawOrNull :: "string \<Rightarrow> string" where
  "cloneRawOrNull raw = (let trimmed = TrimSpace raw in if trimmed = [] \<or> trimmed = ''null'' then [] else raw)"

text \<open>The first row that matches is saved, or a row is created.\<close>

fun upsert :: "('r \<Rightarrow> bool) \<Rightarrow> 'r \<Rightarrow> ('r \<Rightarrow> 'r) \<Rightarrow> 'r list \<Rightarrow> 'r list" where
  "upsert p new f [] = [new]"
| "upsert p new f (x # xs) = (if p x then f x # xs else x # upsert p new f xs)"

definition upsertAccountHourlyStat :: "stats_db \<Rightarrow> nat \<Rightarrow> int \<Rightarrow> usage_counts \<Rightarrow> stats_db" where
  "upsertAccountHourlyStat s userID periodStart inc =
     s\<lparr>st_account_hourly :=
       upsert (\<lambda>r. ah_user_id r = userID \<and> ah_period_start r = periodStart)
         \<lparr>ah_user_id = userID, ah_period_start = periodStart, ah_counts = inc\<rparr>
         (\<lambda>r. r\<lparr>ah_counts := ah_counts r + inc\<rparr>) (st_account_hourly s)\<rparr>"

definition upsertProjectHourlyStat :: "stats_db \<Rightarrow> nat \<Rightarrow> nat \<Rightarrow> int \<Rightarrow> usage_counts \<Rightarrow> stats_db" where
  "upsertProjectHourlyStat s projectID userID periodStart inc =
     s\<lparr>st_project_hourly :=
       upsert (\<lambda>r. ph_project_id r = projectID \<and> ph_period_start r = periodStart)
         \<lparr>ph_project_id = projectID, ph_user_id = userID, ph_period_start = periodStart, ph_counts = inc\<rparr>
         (\<lambda>r. r\<lparr>ph_counts := ph_counts r + inc\<rparr>) (st_project_hourly s)\<rparr>"

definition upsertProjectModel10mStat :: "stats_db \<Rightarrow> task_call_record \<Rightarrow> int \<Rightarrow> usage_counts \<Rightarrow> stats_db" where
  "upsertProjectModel10mStat s record periodStart inc =
     s\<lparr>st_model_10m :=
       upsert (\<lambda>r. mt_project_id r = cr_project_id record \<and>
           mt_model_cache_hash r = wf_model_cache_hash (cr_workload record) \<and>
           mt_execution_dtype r = wf_execution_dtype (cr_workload record) \<and>
           mt_model r = cr_model record \<and> mt_period_start r = periodStart)
         \<lparr>mt_project_id = cr_project_id record, mt_user_id = cr_user_id record,
           mt_model_cache_hash = wf_model_cache_hash (cr_workload record),
           mt_execution_dtype = wf_execution_dtype (cr_workload record),
           mt_model = cr_model record, mt_period_start = periodStart, mt_task_type = cr_task_type record,
           mt_quantization_config = cloneRawOrNull (wf_quantization_config (cr_workload record)),
           mt_components = cloneRawOrNull (wf_components (cr_workload record)), mt_counts = inc\<rparr>
         (\<lambda>r. r\<lparr>mt_counts := mt_counts r + inc\<rparr>) (st_model_10m s)\<rparr>"

definition upsertProjectDuration10mStat :: "stats_db \<Rightarrow> nat \<Rightarrow> nat \<Rightarrow> int \<Rightarrow> string \<Rightarrow> u64 \<Rightarrow> stats_db" where
  "upsertProjectDuration10mStat s projectID userID periodStart bucketID requestInc =
     s\<lparr>st_duration_10m :=
       upsert (\<lambda>r. dt_project_id r = projectID \<and> dt_period_start r = periodStart \<and> dt_bucket r = bucketID)
         \<lparr>dt_project_id = projectID, dt_user_id = userID, dt_period_start = periodStart,
           dt_bucket = bucketID, dt_request_count = requestInc\<rparr>
         (\<lambda>r. r\<lparr>dt_request_count := dt_request_count r + requestInc\<rparr>) (st_duration_10m s)\<rparr>"

definition updateProjectLastRequestAt :: "db \<Rightarrow> nat \<Rightarrow> int \<Rightarrow> db" where
  "updateProjectLastRequestAt d projectID acceptedUnix =
     d\<lparr>db_projects := tbl_modify
       (\<lambda>p. pr_id p = projectID \<and> (case pr_last_request_at p of None \<Rightarrow> True | Some t \<Rightarrow> t < acceptedUnix))
       (\<lambda>p. p\<lparr>pr_last_request_at := Some acceptedUnix\<rparr>) (db_projects d)\<rparr>"

definition markProjectSnapshotDirty :: "stats_db \<Rightarrow> nat \<Rightarrow> stats_db" where
  "markProjectSnapshotDirty s projectID =
     s\<lparr>st_progress :=
       upsert (\<lambda>r. up_project_id r = projectID)
         \<lparr>up_project_id = projectID, up_dirty_generation = 1, up_claimed_generation = 0, up_claimed_at = None\<rparr>
         (\<lambda>r. r\<lparr>up_dirty_generation := up_dirty_generation r + 1\<rparr>) (st_progress s)\<rparr>"

subsection \<open>The aggregation\<close>

text \<open>What a record adds to the counters.\<close>

definition call_increment :: "task_call_record \<Rightarrow> int \<Rightarrow> usage_counts" where
  "call_increment record credits =
     (let successInc = (if cr_status record = TaskCallStatusSuccess then 1 else 0);
          failureInc = (if cr_status record = TaskCallStatusSuccess then 0 else 1);
          tokens = (\<lambda>n. if cr_token_usage_applicable record then n else 0) in
      \<lparr>uc_request_count = successInc + failureInc, uc_success_count = successInc, uc_failure_count = failureInc,
       uc_prompt_tokens = tokens (cr_prompt_tokens record),
       uc_completion_tokens = tokens (cr_completion_tokens record),
       uc_total_tokens = tokens (cr_total_tokens record),
       uc_image_count = (if cr_task_type record = TaskTypeImage then wf_image_count (cr_workload record) else 0),
       uc_credits = credits\<rparr>)"

text \<open>The four upserts of one record.\<close>

definition base_stats_step :: "stats_db \<Rightarrow> task_call_record \<Rightarrow> int \<Rightarrow> stats_db" where
  "base_stats_step s record credits =
     (let hourStart = HourStartUnix (unix (cr_accepted_at record));
          tenMinStart = TenMinuteStartUnix (unix (cr_accepted_at record));
          inc = call_increment record credits;
          s1 = upsertAccountHourlyStat s (cr_user_id record) hourStart inc;
          s2 = upsertProjectHourlyStat s1 (cr_project_id record) (cr_user_id record) hourStart inc;
          s3 = upsertProjectModel10mStat s2 record tenMinStart inc;
          bucketID = DurationBucketID (cr_duration_ms record) in
      upsertProjectDuration10mStat s3 (cr_project_id record) (cr_user_id record) tenMinStart bucketID 1)"

definition applyCallRecordToBaseStats :: "db \<Rightarrow> task_call_record \<Rightarrow> int \<Rightarrow> err + db" where
  "applyCallRecordToBaseStats d record credits =
     rejectIf (cr_user_id record = 0 \<or> cr_project_id record = 0)
       (ErrMsg ''call record missing user_id or project_id'')
     (Inr (updateProjectLastRequestAt (d\<lparr>db_stats := base_stats_step (db_stats d) record credits\<rparr>)
        (cr_project_id record) (unix (cr_accepted_at record))))"

fun apply_records :: "(nat \<Rightarrow> int) \<Rightarrow> db \<Rightarrow> task_call_record list \<Rightarrow> err + db" where
  "apply_records credits d [] = Inr d"
| "apply_records credits d (r # rs) =
     bindE (applyCallRecordToBaseStats d r (credits (cr_id r))) (\<lambda>d'. apply_records credits d' rs)"

definition usageStatsBatchSize :: nat where
  "usageStatsBatchSize = 200"

definition UsageStatsBaseProjectID :: nat where
  "UsageStatsBaseProjectID = 0"

text \<open>The row that serialises the workers is created on the first run.\<close>

definition base_progress :: "stats_db \<Rightarrow> stats_db" where
  "base_progress s =
     s\<lparr>st_progress := upsert (\<lambda>r. up_project_id r = UsageStatsBaseProjectID)
        \<lparr>up_project_id = UsageStatsBaseProjectID, up_dirty_generation = 0, up_claimed_generation = 0,
          up_claimed_at = None\<rparr> id (st_progress s)\<rparr>"

text \<open>The amounts charged for the records: zero, or what the ledger says.\<close>

definition credit_amounts :: "db \<Rightarrow> nat list \<Rightarrow> nat \<Rightarrow> int" where
  "credit_amounts d ids =
     fold (\<lambda>e m. m(ce_ref_id e := ce_amount e))
       (tbl_where (\<lambda>e. ce_type e = CreditEventTypeTaskCharge \<and> ce_status e = CreditEventStatusProcessed \<and>
           ce_ref_id e \<in> set ids) (db_credit_events d))
       (\<lambda>_. 0)"

text \<open>
  One batch; the result counts the records. \<open>order\<close> is the order in which the map of dirty projects
  is walked. A failure leaves the database as it was.
\<close>

definition RunUsageStatsBaseAggregation :: "(nat list \<Rightarrow> nat list) \<Rightarrow> db \<Rightarrow> err + db \<times> nat" where
  "RunUsageStatsBaseAggregation order d =
     (let d0 = d\<lparr>db_stats := base_progress (db_stats d)\<rparr>;
          pendingIDs = take usageStatsBatchSize (sort (st_pending (db_stats d0))) in
      if pendingIDs = [] then Inr (d0, 0)
      else let records = sort_key cr_id (tbl_where (\<lambda>c. cr_id c \<in> set pendingIDs) (db_call_records d0)) in
        rejectIf (length records \<noteq> length pendingIDs)
          (ErrMsg ''usage stats pending call records missing permanent rows'')
        (bindE (apply_records (credit_amounts d0 pendingIDs) d0 records) (\<lambda>d1.
          let dirty = order (remdups (map cr_project_id records));
              s = fold (\<lambda>p s. markProjectSnapshotDirty s p) dirty (db_stats d1) in
          Inr (d1\<lparr>db_stats := s\<lparr>st_pending := filter (\<lambda>p. p \<notin> set pendingIDs) (st_pending s)\<rparr>\<rparr>, length records))))"

text \<open>
  The worker's tick (\<open>tasks/stats.go\<close>): batches until the queue is empty or one fails. \<open>other i\<close> is what
  other processes do before the \<open>i\<close>-th batch; while they keep adding records the tick goes on.
\<close>

partial_function (option) runUsageStatsBaseOnce ::
  "(nat list \<Rightarrow> nat list) \<Rightarrow> (nat \<Rightarrow> db \<Rightarrow> db) \<Rightarrow> nat \<Rightarrow> db \<Rightarrow> (db \<times> err option) option" where
  "runUsageStatsBaseOnce order other i d =
     (let d1 = other i d in
      case RunUsageStatsBaseAggregation order d1 of
        Inl e \<Rightarrow> Some (d1, Some e)
      | Inr (d2, processed) \<Rightarrow> if processed = 0 then Some (d2, None) else runUsageStatsBaseOnce order other (i + 1) d2)"

subsection \<open>Tables as sums over records\<close>

definition tally :: "('r \<Rightarrow> 'k) \<Rightarrow> ('r \<Rightarrow> 'c::comm_monoid_add) \<Rightarrow> 'r list \<Rightarrow> 'k \<Rightarrow> 'c" where
  "tally key cnt rs k = (\<Sum>r\<leftarrow>rs. if key r = k then cnt r else 0)"

lemma tally_simps [simp]:
  "tally key cnt [] k = 0"
  "tally key cnt (r # rs) k = (if key r = k then cnt r else 0) + tally key cnt rs k"
  "tally key cnt (rs @ rs') k = tally key cnt rs k + tally key cnt rs' k"
  by (simp_all add: tally_def)

lemma tally_mset: "mset rs = mset rs' \<Longrightarrow> tally key cnt rs k = tally key cnt rs' k"
  unfolding tally_def sum_mset_sum_list [symmetric] by (simp add: mset_map)

lemma tally_cong: "(\<And>r. r \<in> set rs \<Longrightarrow> cnt r = cnt' r) \<Longrightarrow> tally key cnt rs k = tally key cnt' rs k"
  by (induction rs) simp_all

lemma tally_split: "tally key cnt rs k = tally key cnt (filter p rs) k + tally key cnt (filter (\<lambda>r. \<not> p r) rs) k"
  by (induction rs) (simp_all add: ac_simps)

lemma upsert_tally:
  fixes cnt :: "'r \<Rightarrow> 'c::comm_monoid_add"
  assumes "\<And>r. p r \<longleftrightarrow> key r = k0" "key new = k0" "cnt new = i" "\<And>r. key (f r) = key r" "\<And>r. cnt (f r) = cnt r + i"
  shows "tally key cnt (upsert p new f rs) k = tally key cnt rs k + (if k = k0 then i else 0)"
  by (induction rs) (use assms in \<open>auto simp: ac_simps\<close>)

lemma upsert_keys:
  assumes "\<And>r. p r \<longleftrightarrow> key r = k0" "key new = k0" "\<And>r. key (f r) = key r" "distinct (map key rs)"
  shows "distinct (map key (upsert p new f rs))"
proof -
  have "key ` set (upsert p new f rs) \<subseteq> insert k0 (key ` set rs)" for rs
    by (induction rs) (use assms(2,3) in auto)
  then have "k \<notin> key ` set rs \<Longrightarrow> k \<noteq> k0 \<Longrightarrow> k \<notin> key ` set (upsert p new f rs)" for k rs by blast
  with assms show ?thesis by (induction rs) auto
qed

text \<open>A sum over the rows of some keys is the sum of those keys' totals.\<close>

lemma tally_sum:
  assumes "finite K" "key ` set rs \<subseteq> K"
  shows "(\<Sum>r\<leftarrow>rs. if P (key r) then cnt r else 0) = (\<Sum>k \<in> {k \<in> K. P k}. tally key cnt rs k)"
  using assms(2)
proof (induction rs)
  case (Cons r rs)
  have "(\<Sum>k \<in> {k \<in> K. P k}. if key r = k then cnt r else 0) = (if P (key r) then cnt r else 0)"
    using assms(1) Cons.prems by (subst sum.delta') auto
  with Cons show ?case by (simp add: sum.distrib)
qed simp

text \<open>A table of counters: what one record does to it, and so what a list of records does.\<close>

locale usage_table =
  fixes key :: "'r \<Rightarrow> 'k" and cnt :: "'r \<Rightarrow> 'c::comm_monoid_add" and table :: "stats_db \<Rightarrow> 'r list"
    and of_call :: "task_call_record \<Rightarrow> 'k" and inc :: "task_call_record \<Rightarrow> int \<Rightarrow> 'c"
  assumes step: "\<exists>p new f. table (base_stats_step s c n) = upsert p new f (table s) \<and>
      (\<forall>r. p r \<longleftrightarrow> key r = of_call c) \<and> key new = of_call c \<and> cnt new = inc c n \<and>
      (\<forall>r. key (f r) = key r \<and> cnt (f r) = cnt r + inc c n)"
begin

lemma step_tally: "tally key cnt (table (base_stats_step s c n)) k = tally key cnt (table s) k + (if of_call c = k then inc c n else 0)"
proof -
  obtain p new f where u: "table (base_stats_step s c n) = upsert p new f (table s)" "\<And>r. p r \<longleftrightarrow> key r = of_call c"
    "key new = of_call c" "cnt new = inc c n" "\<And>r. key (f r) = key r" "\<And>r. cnt (f r) = cnt r + inc c n"
    using step [of s c n] by blast
  show ?thesis unfolding u(1) by (subst upsert_tally [OF u(2-6)]) auto
qed

lemma step_keys: "distinct (map key (table s)) \<Longrightarrow> distinct (map key (table (base_stats_step s c n)))"
  using step [of s c n] upsert_keys by metis

lemma steps_tally:
  "tally key cnt (table (fold (\<lambda>c s. base_stats_step s c (n c)) cs s)) k =
     tally key cnt (table s) k + tally of_call (\<lambda>c. inc c (n c)) cs k"
  by (induction cs arbitrary: s) (simp_all add: step_tally ac_simps)

lemma steps_keys: "distinct (map key (table s)) \<Longrightarrow> distinct (map key (table (fold (\<lambda>c s. base_stats_step s c (n c)) cs s)))"
  by (induction cs arbitrary: s) (simp_all add: step_keys)

text \<open>The table holds exactly the given records.\<close>

definition exact :: "stats_db \<Rightarrow> task_call_record list \<Rightarrow> (task_call_record \<Rightarrow> int) \<Rightarrow> bool" where
  "exact s cs n \<longleftrightarrow> distinct (map key (table s)) \<and>
     (\<forall>k. tally key cnt (table s) k = tally of_call (\<lambda>c. inc c (n c)) cs k)"

lemma exact_steps:
  assumes "exact s cs n" "mset cs' = mset cs + mset new"
  shows "exact (fold (\<lambda>c s. base_stats_step s c (n c)) new s) cs' n"
proof -
  have "tally of_call (\<lambda>c. inc c (n c)) cs' k = tally of_call (\<lambda>c. inc c (n c)) (cs @ new) k" for k
    using assms(2) by (intro tally_mset) simp
  with assms(1) show ?thesis by (simp add: exact_def steps_tally steps_keys)
qed

lemma exact_sum:
  assumes "exact s cs n"
  shows "(\<Sum>r\<leftarrow>table s. if P (key r) then cnt r else 0) = (\<Sum>c\<leftarrow>cs. if P (of_call c) then inc c (n c) else 0)"
proof -
  let ?K = "key ` set (table s) \<union> of_call ` set cs"
  have "tally key cnt (table s) k = tally of_call (\<lambda>c. inc c (n c)) cs k" for k using assms by (simp add: exact_def)
  then show ?thesis using tally_sum [of ?K key "table s" P cnt] tally_sum [of ?K of_call cs P "\<lambda>c. inc c (n c)"] by simp
qed

lemma exact_cong: "exact s cs n \<Longrightarrow> table s' = table s \<Longrightarrow> (\<And>c. c \<in> set cs \<Longrightarrow> n' c = n c) \<Longrightarrow> exact s' cs n'"
  by (auto simp: exact_def intro: tally_cong)

end

definition account_hour :: "task_call_record \<Rightarrow> nat \<times> int" where
  "account_hour c = (cr_user_id c, HourStartUnix (unix (cr_accepted_at c)))"

definition project_hour :: "task_call_record \<Rightarrow> nat \<times> int" where
  "project_hour c = (cr_project_id c, HourStartUnix (unix (cr_accepted_at c)))"

definition project_model :: "task_call_record \<Rightarrow> nat \<times> string \<times> string \<times> string \<times> int" where
  "project_model c = (cr_project_id c, wf_model_cache_hash (cr_workload c), wf_execution_dtype (cr_workload c),
     cr_model c, TenMinuteStartUnix (unix (cr_accepted_at c)))"

definition project_bucket :: "task_call_record \<Rightarrow> nat \<times> int \<times> string" where
  "project_bucket c = (cr_project_id c, TenMinuteStartUnix (unix (cr_accepted_at c)), DurationBucketID (cr_duration_ms c))"

lemmas upserts_def = upsertAccountHourlyStat_def upsertProjectHourlyStat_def upsertProjectModel10mStat_def
  upsertProjectDuration10mStat_def

interpretation account_table: usage_table "\<lambda>r. (ah_user_id r, ah_period_start r)" ah_counts st_account_hourly account_hour call_increment
  by unfold_locales (auto simp: base_stats_step_def upserts_def Let_def account_hour_def intro!: exI)

interpretation project_table: usage_table "\<lambda>r. (ph_project_id r, ph_period_start r)" ph_counts st_project_hourly project_hour call_increment
  by unfold_locales (auto simp: base_stats_step_def upserts_def Let_def project_hour_def intro!: exI)

interpretation model_table: usage_table
  "\<lambda>r. (mt_project_id r, mt_model_cache_hash r, mt_execution_dtype r, mt_model r, mt_period_start r)"
  mt_counts st_model_10m project_model call_increment
  by unfold_locales (auto simp: base_stats_step_def upserts_def Let_def project_model_def intro!: exI)

interpretation bucket_table: usage_table "\<lambda>r. (dt_project_id r, dt_period_start r, dt_bucket r)" dt_request_count
  st_duration_10m project_bucket "\<lambda>_ _. 1"
  by unfold_locales (auto simp: base_stats_step_def upserts_def Let_def project_bucket_def intro!: exI)

end
