(* ===== verification/Usage_Correctness.thy ===== *)
theory Usage_Correctness
  imports Usage_Stats
begin

text \<open>
  The usage tables are exact: each holds every record that has left the queue once and no other, with
  the Credits the ledger charged for it. A batch keeps this and never fails, so a tick of the worker
  empties the queue.
\<close>

definition charges :: "db \<Rightarrow> credit_event list" where
  "charges d = tbl_where (\<lambda>e. ce_type e = CreditEventTypeTaskCharge \<and> ce_status e = CreditEventStatusProcessed)
     (db_credit_events d)"

text \<open>The Credits charged for a record.\<close>

definition charged :: "db \<Rightarrow> nat \<Rightarrow> int" where
  "charged d n = fold (\<lambda>e m. if ce_ref_id e = n then ce_amount e else m) (charges d) 0"

definition counted :: "db \<Rightarrow> task_call_record list" where
  "counted d = tbl_where (\<lambda>c. cr_id c \<notin> set (st_pending (db_stats d))) (db_call_records d)"

text \<open>Each table of the statistics \<open>s\<close> holds exactly the records \<open>cs\<close>.\<close>

definition tables_exact :: "stats_db \<Rightarrow> task_call_record list \<Rightarrow> (task_call_record \<Rightarrow> int) \<Rightarrow> bool" where
  "tables_exact s cs n \<longleftrightarrow> account_table.exact s cs n \<and> project_table.exact s cs n \<and> model_table.exact s cs n \<and>
     bucket_table.exact s cs n"

definition usage_inv :: "db \<Rightarrow> bool" where
  "usage_inv d \<longleftrightarrow> distinct (st_pending (db_stats d)) \<and>
     set (st_pending (db_stats d)) \<subseteq> cr_id ` set (rows (db_call_records d)) \<and>
     (\<forall>c \<in> set (rows (db_call_records d)). cr_user_id c \<noteq> 0 \<and> cr_project_id c \<noteq> 0) \<and>
     tables_exact (db_stats d) (counted d) (\<lambda>c. charged d (cr_id c))"

lemma usage_invD:
  "usage_inv d \<Longrightarrow> distinct (st_pending (db_stats d))"
  "usage_inv d \<Longrightarrow> set (st_pending (db_stats d)) \<subseteq> cr_id ` set (rows (db_call_records d))"
  "usage_inv d \<Longrightarrow> \<forall>c \<in> set (rows (db_call_records d)). cr_user_id c \<noteq> 0 \<and> cr_project_id c \<noteq> 0"
  "usage_inv d \<Longrightarrow> tables_exact (db_stats d) (counted d) (\<lambda>c. charged d (cr_id c))"
  by (simp_all add: usage_inv_def)

lemma tables_exact_steps:
  "tables_exact s cs n \<Longrightarrow> mset cs' = mset cs + mset new \<Longrightarrow>
     tables_exact (fold (\<lambda>c s. base_stats_step s c (n c)) new s) cs' n"
  unfolding tables_exact_def
  by (blast intro: account_table.exact_steps project_table.exact_steps model_table.exact_steps bucket_table.exact_steps)

lemma tables_exact_cong:
  assumes "tables_exact s cs n" "st_account_hourly s' = st_account_hourly s" "st_project_hourly s' = st_project_hourly s"
    "st_model_10m s' = st_model_10m s" "st_duration_10m s' = st_duration_10m s" "\<And>c. c \<in> set cs \<Longrightarrow> n' c = n c"
  shows "tables_exact s' cs n'"
proof -
  have e: "account_table.exact s cs n" "project_table.exact s cs n" "model_table.exact s cs n" "bucket_table.exact s cs n"
    using assms(1) by (simp_all add: tables_exact_def)
  show ?thesis
    unfolding tables_exact_def
    using account_table.exact_cong [OF e(1) assms(2,6)] project_table.exact_cong [OF e(2) assms(3,6)]
      model_table.exact_cong [OF e(3) assms(4,6)] bucket_table.exact_cong [OF e(4) assms(5,6)] by blast
qed

lemma charged_append: "charges d' = charges d @ es \<Longrightarrow> \<forall>e \<in> set es. ce_ref_id e \<noteq> n \<Longrightarrow> charged d' n = charged d n"
proof -
  have "\<forall>e \<in> set es. ce_ref_id e \<noteq> n \<Longrightarrow> fold (\<lambda>e m. if ce_ref_id e = n then ce_amount e else m) es m = m" for m
    by (induction es) auto
  then show "charges d' = charges d @ es \<Longrightarrow> \<forall>e \<in> set es. ce_ref_id e \<noteq> n \<Longrightarrow> charged d' n = charged d n"
    by (simp add: charged_def)
qed

lemma credit_amounts_charged:
  assumes "n \<in> set ids"
  shows "credit_amounts d ids n = charged d n"
proof -
  let ?q = "\<lambda>e. ce_type e = CreditEventTypeTaskCharge \<and> ce_status e = CreditEventStatusProcessed"
  have "fold (\<lambda>e m. m(ce_ref_id e := ce_amount e)) (filter (\<lambda>e. ?q e \<and> ce_ref_id e \<in> set ids) es) m n =
      fold (\<lambda>e m. if ce_ref_id e = n then ce_amount e else m) (filter ?q es) (m n)" for es m
    by (induction es arbitrary: m) (use assms in auto)
  then show ?thesis by (simp add: credit_amounts_def charged_def charges_def tbl_where_def conj_assoc)
qed

subsection \<open>What keeps it\<close>

text \<open>Operations that touch neither the records, the queue, the tables nor the charges.\<close>

definition usage_same :: "db \<Rightarrow> db \<Rightarrow> bool" where
  "usage_same d d' \<longleftrightarrow> db_call_records d' = db_call_records d \<and> charges d' = charges d \<and>
     st_pending (db_stats d') = st_pending (db_stats d) \<and>
     st_account_hourly (db_stats d') = st_account_hourly (db_stats d) \<and>
     st_project_hourly (db_stats d') = st_project_hourly (db_stats d) \<and>
     st_model_10m (db_stats d') = st_model_10m (db_stats d) \<and>
     st_duration_10m (db_stats d') = st_duration_10m (db_stats d)"

lemma usage_inv_same:
  assumes "usage_inv d" "usage_same d d'"
  shows "usage_inv d'"
proof -
  have "tables_exact (db_stats d') (counted d) (\<lambda>c. charged d' (cr_id c))"
    using assms by (intro tables_exact_cong [OF usage_invD(4) [OF assms(1)]]) (simp_all add: usage_same_def charged_def)
  then show ?thesis using assms by (simp add: usage_inv_def usage_same_def counted_def)
qed

lemma usage_same_frame [intro]:
  "db_call_records d' = db_call_records d \<Longrightarrow> db_credit_events d' = db_credit_events d \<Longrightarrow> db_stats d' = db_stats d \<Longrightarrow>
     usage_same d d'"
  by (simp add: usage_same_def charges_def)

text \<open>A record that is written with its queue entry, and charged.\<close>

lemma usage_inv_recorded:
  assumes inv: "usage_inv d" and wf: "tbl_wf cr_id (db_call_records d)"
    and rec: "rows (db_call_records d') = rows (db_call_records d) @ [c]" "cr_id c = next_id (db_call_records d)"
      "cr_user_id c \<noteq> 0" "cr_project_id c \<noteq> 0"
    and st: "db_stats d' = (db_stats d)\<lparr>st_pending := st_pending (db_stats d) @ [cr_id c]\<rparr>"
    and ch: "charges d' = charges d @ es" "\<forall>e \<in> set es. ce_ref_id e = cr_id c"
  shows "usage_inv d'"
proof -
  have old: "cr_id x \<noteq> cr_id c" if "x \<in> set (rows (db_call_records d))" for x
    using wf rec(2) that by (auto simp: tbl_wf_def)
  then have "cr_id c \<notin> set (st_pending (db_stats d))" using usage_invD(2) [OF inv] by fastforce
  moreover have cs: "counted d' = counted d"
    using old by (auto simp: counted_def tbl_where_def rec(1) st intro!: filter_cong)
  moreover have "charged d' (cr_id x) = charged d (cr_id x)" if "x \<in> set (counted d)" for x
    using that old [of x] ch(2) by (intro charged_append [OF ch(1)]) (simp add: counted_def tbl_where_def)
  then have "tables_exact (db_stats d') (counted d) (\<lambda>x. charged d' (cr_id x))"
    by (intro tables_exact_cong [OF usage_invD(4) [OF inv]]) (simp_all add: st)
  ultimately show ?thesis using usage_invD(1-3) [OF inv] rec(1,3,4) by (auto simp: usage_inv_def st)
qed

lemma usage_inv_process:
  assumes inv: "usage_inv d" "tbl_wf cr_id (db_call_records d)" and proc: "processTaskCallTx wl d inp = Inr (d', rid)"
  shows "usage_inv d'"
proof -
  obtain d1 amt d2 r where s:
    "charge_account d inp (credits_of inp) = Inr (d1, amt)" "create_call_record wl d1 inp = Inr (d2, r)"
    "rid = cr_id r" "case amt of None \<Rightarrow> d' = d2
     | Some n \<Rightarrow> \<exists>e. create_credit_event d2 (charge_event (in_user_id inp) n rid) = Inr (d', e)"
    using proc by (rule processTaskCallTx_Inr)
  have ids: "in_user_id inp \<noteq> 0" "in_project_id inp \<noteq> 0"
    using proc by (simp_all add: processTaskCallTx_def rejectIf_Inr_iff)
  have c: "db_call_records d1 = db_call_records d" "db_stats d1 = db_stats d" "db_credit_events d1 = db_credit_events d"
    using charge_account_jobs [OF s(1)] charge_account_tables [OF s(1)] by auto
  have r: "r = call_record_of wl inp (next_id (db_call_records d))"
    "rows (db_call_records d2) = rows (db_call_records d) @ [r]"
    "db_stats d2 = (db_stats d)\<lparr>st_pending := st_pending (db_stats d) @ [cr_id r]\<rparr>" "db_credit_events d2 = db_credit_events d"
    using s(2) c by (auto simp: create_call_record_Inr)
  have fin: "db_call_records d' = db_call_records d2 \<and> db_stats d' = db_stats d2 \<and>
      (\<exists>es. charges d' = charges d2 @ es \<and> (\<forall>e \<in> set es. ce_ref_id e = rid))"
    using s(4) by (cases amt) (auto simp: create_credit_event_Inr res_simps charge_event_def charges_def tbl_where_def)
  then obtain es where es: "charges d' = charges d @ es" "\<forall>e \<in> set es. ce_ref_id e = cr_id r"
    using r(4) s(3) by (auto simp: charges_def)
  show ?thesis
    by (rule usage_inv_recorded [OF inv _ _ _ _ _ es]) (use fin r ids in \<open>simp_all add: call_record_of_def\<close>)
qed

subsection \<open>A batch\<close>

lemma apply_records_step:
  assumes "\<forall>c \<in> set cs. cr_user_id c \<noteq> 0 \<and> cr_project_id c \<noteq> 0"
  shows "\<exists>t. apply_records m d cs =
    Inr (d\<lparr>db_stats := fold (\<lambda>c s. base_stats_step s c (m (cr_id c))) cs (db_stats d), db_projects := t\<rparr>)"
  using assms
proof (induction cs arbitrary: d)
  case Nil
  have "d = d\<lparr>db_stats := db_stats d, db_projects := db_projects d\<rparr>" by simp
  then show ?case by (metis apply_records.simps(1) fold_simps(1))
next
  case (Cons c cs)
  obtain t where "applyCallRecordToBaseStats d c (m (cr_id c)) =
      Inr (d\<lparr>db_stats := base_stats_step (db_stats d) c (m (cr_id c)), db_projects := t\<rparr>)"
    using Cons.prems by (simp add: applyCallRecordToBaseStats_def updateProjectLastRequestAt_def)
  moreover obtain t' where "apply_records m (d\<lparr>db_stats := base_stats_step (db_stats d) c (m (cr_id c)), db_projects := t\<rparr>) cs =
      Inr (d\<lparr>db_stats := fold (\<lambda>c s. base_stats_step s c (m (cr_id c))) cs (base_stats_step (db_stats d) c (m (cr_id c))),
        db_projects := t'\<rparr>)"
    using Cons.IH [of "d\<lparr>db_stats := base_stats_step (db_stats d) c (m (cr_id c)), db_projects := t\<rparr>"] Cons.prems
    by auto
  ultimately show ?case by (auto intro: exI [of _ t'])
qed

lemma mark_dirty_same:
  "st_pending (fold (\<lambda>p s. markProjectSnapshotDirty s p) ps s) = st_pending s"
  "st_account_hourly (fold (\<lambda>p s. markProjectSnapshotDirty s p) ps s) = st_account_hourly s"
  "st_project_hourly (fold (\<lambda>p s. markProjectSnapshotDirty s p) ps s) = st_project_hourly s"
  "st_model_10m (fold (\<lambda>p s. markProjectSnapshotDirty s p) ps s) = st_model_10m s"
  "st_duration_10m (fold (\<lambda>p s. markProjectSnapshotDirty s p) ps s) = st_duration_10m s"
  by (induction ps arbitrary: s) (simp_all add: markProjectSnapshotDirty_def)

lemma base_stats_step_pending: "st_pending (base_stats_step s c n) = st_pending s"
  by (simp add: base_stats_step_def upserts_def Let_def)

lemma base_steps_pending: "st_pending (fold (\<lambda>c s. base_stats_step s c (n c)) cs s) = st_pending s"
  by (induction cs arbitrary: s) (simp_all add: base_stats_step_pending)

lemma base_progress_same [simp]:
  "st_pending (base_progress s) = st_pending s" "st_account_hourly (base_progress s) = st_account_hourly s"
  "st_project_hourly (base_progress s) = st_project_hourly s" "st_model_10m (base_progress s) = st_model_10m s"
  "st_duration_10m (base_progress s) = st_duration_10m s"
  by (simp_all add: base_progress_def)

text \<open>The records of a set of numbers, in a table whose keys are distinct.\<close>

lemma records_of_ids:
  assumes "distinct (map cr_id rs)" "distinct ids" "set ids \<subseteq> cr_id ` set rs"
  shows "length (filter (\<lambda>c. cr_id c \<in> set ids) rs) = length ids"
proof -
  let ?f = "filter (\<lambda>c. cr_id c \<in> set ids) rs"
  have "distinct (map cr_id ?f)" using assms(1) by (rule distinct_map_filter)
  moreover have "set (map cr_id ?f) = set ids" using assms(3) by auto
  ultimately show ?thesis using assms(2) by (metis distinct_card length_map)
qed

definition batch_ids :: "db \<Rightarrow> nat list" where
  "batch_ids d = take usageStatsBatchSize (sort (st_pending (db_stats d)))"

definition batch_records :: "db \<Rightarrow> task_call_record list" where
  "batch_records d = sort_key cr_id (tbl_where (\<lambda>c. cr_id c \<in> set (batch_ids d)) (db_call_records d))"

lemma batch_ids_sub: "set (batch_ids d) \<subseteq> set (st_pending (db_stats d))"
  using set_take_subset [of usageStatsBatchSize "sort (st_pending (db_stats d))"] by (simp add: batch_ids_def)

lemma batch_length: "length (batch_ids d) = min usageStatsBatchSize (length (st_pending (db_stats d)))"
  by (simp add: batch_ids_def min.commute)

lemma batch_distinct: "usage_inv d \<Longrightarrow> distinct (batch_ids d)"
  by (simp add: batch_ids_def usage_inv_def)

lemma batch_records_length:
  assumes "usage_inv d" "tbl_wf cr_id (db_call_records d)"
  shows "length (batch_records d) = length (batch_ids d)"
proof -
  have "set (batch_ids d) \<subseteq> cr_id ` set (rows (db_call_records d))"
    using batch_ids_sub usage_invD(2) [OF assms(1)] by blast
  then show ?thesis
    using records_of_ids [OF _ batch_distinct [OF assms(1)], of "rows (db_call_records d)"] assms(2)
    by (simp add: batch_records_def tbl_where_def tbl_wf_def)
qed

lemma counted_after_batch:
  assumes "st_pending (db_stats d') = filter (\<lambda>p. p \<notin> set (batch_ids d)) (st_pending (db_stats d))"
    "db_call_records d' = db_call_records d"
  shows "mset (counted d') = mset (counted d) + mset (batch_records d)"
proof -
  have "mset (filter (\<lambda>c. \<not> (cr_id c \<in> P \<and> cr_id c \<notin> B)) rs) =
      mset (filter (\<lambda>c. cr_id c \<notin> P) rs) + mset (filter (\<lambda>c. cr_id c \<in> B) rs)" if "B \<subseteq> P" for B P and rs :: "task_call_record list"
    by (induction rs) (use that in auto)
  from this [OF batch_ids_sub] show ?thesis
    using assms by (simp add: counted_def batch_records_def tbl_where_def)
qed

text \<open>A batch never fails: it counts the oldest records of the queue.\<close>

lemma aggregation_exact:
  assumes inv: "usage_inv d" and wf: "tbl_wf cr_id (db_call_records d)"
  obtains t s where "RunUsageStatsBaseAggregation order d =
      Inr (d\<lparr>db_stats := s, db_projects := t\<rparr>, min usageStatsBatchSize (length (st_pending (db_stats d))))"
    "usage_inv (d\<lparr>db_stats := s, db_projects := t\<rparr>)"
    "st_pending s = filter (\<lambda>p. p \<notin> set (batch_ids d)) (st_pending (db_stats d))"
proof (cases "batch_ids d = []")
  case True
  have "RunUsageStatsBaseAggregation order d = Inr (d\<lparr>db_stats := base_progress (db_stats d), db_projects := db_projects d\<rparr>, 0)"
    using True by (simp add: RunUsageStatsBaseAggregation_def batch_ids_def)
  moreover have "min usageStatsBatchSize (length (st_pending (db_stats d))) = 0"
    using True batch_length [of d] by simp
  moreover have "usage_inv (d\<lparr>db_stats := base_progress (db_stats d), db_projects := db_projects d\<rparr>)"
    by (rule usage_inv_same [OF inv]) (simp add: usage_same_def charges_def)
  ultimately show thesis using that [of "db_projects d" "base_progress (db_stats d)"] True by simp
next
  case False
  define m where "m = credit_amounts d (batch_ids d)"
  define d0 where "d0 = d\<lparr>db_stats := base_progress (db_stats d)\<rparr>"
  have nz: "\<forall>c \<in> set (batch_records d). cr_user_id c \<noteq> 0 \<and> cr_project_id c \<noteq> 0"
    using usage_invD(3) [OF inv] by (auto simp: batch_records_def tbl_where_def)
  obtain t where t: "apply_records m d0 (batch_records d) =
      Inr (d0\<lparr>db_stats := fold (\<lambda>c s. base_stats_step s c (m (cr_id c))) (batch_records d) (db_stats d0), db_projects := t\<rparr>)"
    using apply_records_step [OF nz] by blast
  define s where "s = (fold (\<lambda>p s. markProjectSnapshotDirty s p) (order (remdups (map cr_project_id (batch_records d))))
      (fold (\<lambda>c s. base_stats_step s c (m (cr_id c))) (batch_records d) (base_progress (db_stats d))))
      \<lparr>st_pending := filter (\<lambda>p. p \<notin> set (batch_ids d)) (st_pending (db_stats d))\<rparr>"
  let ?d = "d\<lparr>db_stats := s, db_projects := t\<rparr>"
  have amounts: "credit_amounts d0 (batch_ids d) = m" by (simp add: m_def d0_def credit_amounts_def)
  have run: "RunUsageStatsBaseAggregation order d = Inr (?d, length (batch_ids d))"
    using False t amounts batch_records_length [OF inv wf]
    unfolding RunUsageStatsBaseAggregation_def Let_def d0_def [symmetric]
    by (simp add: d0_def s_def batch_ids_def [symmetric] batch_records_def [symmetric] mark_dirty_same base_steps_pending)
  have pend: "st_pending s = filter (\<lambda>p. p \<notin> set (batch_ids d)) (st_pending (db_stats d))" by (simp add: s_def)
  have cs: "mset (counted ?d) = mset (counted d) + mset (batch_records d)"
    by (rule counted_after_batch) (simp_all add: pend)
  have "tables_exact (base_progress (db_stats d)) (counted d) (\<lambda>c. charged d (cr_id c))"
    by (rule tables_exact_cong [OF usage_invD(4) [OF inv]]) simp_all
  from tables_exact_steps [OF this cs]
  have ex: "tables_exact (fold (\<lambda>c s. base_stats_step s c (charged d (cr_id c))) (batch_records d) (base_progress (db_stats d)))
      (counted ?d) (\<lambda>c. charged d (cr_id c))" .
  have steps: "fold (\<lambda>c s. base_stats_step s c (m (cr_id c))) (batch_records d) s' =
      fold (\<lambda>c s. base_stats_step s c (charged d (cr_id c))) (batch_records d) s'" for s'
    by (rule fold_cong) (auto simp: m_def batch_records_def tbl_where_def credit_amounts_charged)
  have "tables_exact (db_stats ?d) (counted ?d) (\<lambda>c. charged ?d (cr_id c))"
    by (rule tables_exact_cong [OF ex]) (simp_all add: s_def steps mark_dirty_same charged_def charges_def)
  then have "usage_inv ?d" using usage_invD [OF inv] by (auto simp: usage_inv_def pend)
  with run pend show thesis by (intro that) (simp_all add: batch_length)
qed

text \<open>A tick of the worker empties the queue when no other process adds to it meanwhile.\<close>

lemma tick_empties:
  assumes "usage_inv d" "tbl_wf cr_id (db_call_records d)"
  shows "\<exists>s t. runUsageStatsBaseOnce order (\<lambda>_ d. d) i d = Some (d\<lparr>db_stats := s, db_projects := t\<rparr>, None) \<and>
    usage_inv (d\<lparr>db_stats := s, db_projects := t\<rparr>) \<and> st_pending s = []"
  using assms
proof (induction "length (st_pending (db_stats d))" arbitrary: d i rule: less_induct)
  case less
  obtain t s where r: "RunUsageStatsBaseAggregation order d =
      Inr (d\<lparr>db_stats := s, db_projects := t\<rparr>, min usageStatsBatchSize (length (st_pending (db_stats d))))"
    "usage_inv (d\<lparr>db_stats := s, db_projects := t\<rparr>)"
    "st_pending s = filter (\<lambda>p. p \<notin> set (batch_ids d)) (st_pending (db_stats d))"
    by (rule aggregation_exact [OF less(2,3), of order])
  note run = runUsageStatsBaseOnce.simps [of order "\<lambda>_ d. d" i d] r(1)
  show ?case
  proof (cases "st_pending (db_stats d) = []")
    case True
    then show ?thesis using run r(2,3) by (auto intro!: exI [of _ s] exI [of _ t])
  next
    case False
    let ?d = "d\<lparr>db_stats := s, db_projects := t\<rparr>"
    have nonzero: "min usageStatsBatchSize (length (st_pending (db_stats d))) \<noteq> 0"
      using False by (cases "st_pending (db_stats d)") (simp_all add: usageStatsBatchSize_def)
    then have "batch_ids d \<noteq> []" by (metis batch_length list.size(3))
    then obtain p where "p \<in> set (st_pending (db_stats d))" "p \<in> set (batch_ids d)"
      using batch_ids_sub [of d] by (metis hd_in_set subset_iff)
    then have "length (st_pending (db_stats ?d)) < length (st_pending (db_stats d))"
      by (simp add: r(3) length_filter_less)
    from less(1) [OF this r(2), of "i + 1"] less(3)
    obtain s' t' where "runUsageStatsBaseOnce order (\<lambda>_ d. d) (i + 1) ?d = Some (d\<lparr>db_stats := s', db_projects := t'\<rparr>, None)"
      "usage_inv (d\<lparr>db_stats := s', db_projects := t'\<rparr>)" "st_pending s' = []" by auto
    then show ?thesis using run nonzero by (intro exI [of _ s'] exI [of _ t']) simp
  qed
qed

end
