(* ===== verification/Usage_Snapshots.thy ===== *)
theory Usage_Snapshots
  imports Usage_Correctness
begin

text \<open>
  The snapshots shown for a project (\<open>service/usage_stats.go\<close>, \<open>usage_stats_buckets.go\<close>): the ten
  dearest models and the histogram of durations over the last hour, day and week, the summary of the
  day and the recent failures on the project row, and the generations by which the worker knows
  which projects to rebuild. Unix times are integers.
\<close>

subsection \<open>Display buckets\<close>

record display_bucket =
  dd_bucket_index :: nat
  dd_bucket_label :: string
  dd_min_duration_ms :: u64
  dd_max_duration_ms :: "u64 option"
  dd_request_count :: u64

text \<open>\<open>fmt.Sprintf("%.1f", x)\<close> of a value that is not negative.\<close>

definition format_tenths :: "f64 \<Rightarrow> string" where
  "format_tenths x =
     (case x of
        Fin r \<Rightarrow> let n = round_half_even (10 * r) in int_str (n div 10) @ ''.'' @ int_str (n mod 10)
      | PosInf \<Rightarrow> ''+Inf'' | NegInf \<Rightarrow> ''-Inf'' | NaN \<Rightarrow> ''NaN'')"

definition formatDurationBound :: "u64 \<Rightarrow> string" where
  "formatDurationBound ms =
     (if ms < 1000 then int_str (uint ms) @ ''ms''
      else if ms < 60000 then
        (if ms mod 1000 = 0 then int_str (uint (ms div 1000)) @ ''s'' else format_tenths (f64_div_u64 ms 1000) @ ''s'')
      else
        (if ms mod 60000 = 0 then int_str (uint (ms div 60000)) @ ''min''
         else format_tenths (f64_div_u64 ms 60000) @ ''min''))"

text \<open>The parts are not empty.\<close>

definition newDisplayDurationBucket :: "nat \<Rightarrow> (duration_bucket \<times> u64) list \<Rightarrow> display_bucket" where
  "newDisplayDurationBucket index parts =
     (let first_part = fst (hd parts); last_part = fst (last parts) in
      \<lparr>dd_bucket_index = index,
       dd_bucket_label =
         (if db_bucket_id first_part \<noteq> db_bucket_id last_part then
            (case db_bucket_max last_part of
               None \<Rightarrow> formatDurationBound (db_bucket_min first_part) @ ''+''
             | Some m \<Rightarrow> formatDurationBound (db_bucket_min first_part) @ ''-'' @ formatDurationBound m)
          else db_bucket_label first_part),
       dd_min_duration_ms = db_bucket_min first_part, dd_max_duration_ms = db_bucket_max last_part,
       dd_request_count = sum_list (map snd parts)\<rparr>)"

definition maxDisplayBuckets :: nat where
  "maxDisplayBuckets = 12"

text \<open>The small buckets that make up the next display bucket: until the threshold is reached.\<close>

fun take_until :: "u64 \<Rightarrow> u64 \<Rightarrow> (duration_bucket \<times> u64) list \<Rightarrow> (duration_bucket \<times> u64) list" where
  "take_until threshold n [] = []"
| "take_until threshold n (p # ps) =
     (if threshold \<le> n + snd p then [p] else p # take_until threshold (n + snd p) ps)"

lemma take_until_length: "ps \<noteq> [] \<Longrightarrow> 0 < length (take_until threshold n ps)"
  by (cases ps) simp_all

function merge_buckets :: "u64 \<Rightarrow> nat \<Rightarrow> (duration_bucket \<times> u64) list \<Rightarrow> display_bucket list" where
  "merge_buckets threshold index ps =
     (if ps = [] then []
      else if index = maxDisplayBuckets - 1 then [newDisplayDurationBucket index ps]
      else let part = take_until threshold 0 ps in
        newDisplayDurationBucket index part # merge_buckets threshold (index + 1) (drop (length part) ps))"
  by pat_completeness auto

termination
  by (relation "measure (\<lambda>(_, _, ps). length ps)") (use take_until_length in \<open>auto simp: Let_def\<close>)

declare merge_buckets.simps [simp del]

definition MergeDurationDisplayBuckets :: "(string \<Rightarrow> u64) \<Rightarrow> display_bucket list" where
  "MergeDurationDisplayBuckets counts =
     (let ordered = map (\<lambda>b. (b, counts (db_bucket_id b))) durationBuckets;
          overall = sum_list (map snd ordered) in
      if overall = 0 then []
      else
        let ceiling = (case f64_div_u64 overall (of_nat maxDisplayBuckets) of Fin x \<Rightarrow> word_of_int \<lceil>x\<rceil> | _ \<Rightarrow> 0);
            threshold = (if ceiling = 0 then 1 else ceiling) in
        merge_buckets threshold 0 ordered)"

subsection \<open>Windows\<close>

fun usage_window :: "usage_range \<Rightarrow> int \<Rightarrow> int \<times> int" where
  "usage_window UsageStatsRange1h now = (TenMinuteStartUnix now - 5 * 600, TenMinuteStartUnix now + 600)"
| "usage_window UsageStatsRange1d now = (TenMinuteStartUnix now - 143 * 600, TenMinuteStartUnix now + 600)"
| "usage_window UsageStatsRange7d now = (TenMinuteStartUnix now - 1007 * 600, TenMinuteStartUnix now + 600)"

definition recentFailureWindow10m :: "int \<Rightarrow> u64 \<Rightarrow> int \<times> int" where
  "recentFailureWindow10m nowUnix windowSeconds =
     (let current = TenMinuteStartUnix nowUnix;
          b = (windowSeconds + 599) div 600;
          buckets = (if b < 1 then 1 else b) in
      (current - sint ((buckets - 1) * 600), current + 600))"

subsection \<open>The dearest models\<close>

record model_agg =
  ma_model :: string
  ma_model_cache_hash :: string
  ma_execution_dtype :: string
  ma_task_type :: task_type
  ma_quantization_config :: string
  ma_components :: string
  ma_counts :: usage_counts

definition agg_row :: "model_10m \<Rightarrow> model_agg" where
  "agg_row row =
     \<lparr>ma_model = mt_model row, ma_model_cache_hash = mt_model_cache_hash row,
      ma_execution_dtype = mt_execution_dtype row, ma_task_type = mt_task_type row,
      ma_quantization_config = cloneRawOrNull (mt_quantization_config row),
      ma_components = cloneRawOrNull (mt_components row), ma_counts = mt_counts row\<rparr>"

definition agg_key :: "model_agg \<Rightarrow> string" where
  "agg_key a = ma_model_cache_hash a @ [CHR 0x00] @ ma_execution_dtype a @ [CHR 0x00] @ ma_model a"

text \<open>The map by identity, as the list of its values in the order they were entered.\<close>

definition aggregate_models :: "model_10m list \<Rightarrow> model_agg list" where
  "aggregate_models rs =
     fold (\<lambda>row. upsert (\<lambda>a. agg_key a = agg_key (agg_row row)) (agg_row row)
        (\<lambda>a. a\<lparr>ma_counts := ma_counts a + mt_counts row\<rparr>)) rs []"

definition ranks_before :: "model_agg \<Rightarrow> model_agg \<Rightarrow> bool" where
  "ranks_before a b =
     (if uc_credits (ma_counts a) \<noteq> uc_credits (ma_counts b)
      then uc_credits (ma_counts a) > uc_credits (ma_counts b)
      else if uc_request_count (ma_counts a) \<noteq> uc_request_count (ma_counts b)
      then uc_request_count (ma_counts a) > uc_request_count (ma_counts b)
      else if ma_model a \<noteq> ma_model b then ma_model a < ma_model b
      else if ma_model_cache_hash a \<noteq> ma_model_cache_hash b then ma_model_cache_hash a < ma_model_cache_hash b
      else ma_execution_dtype a < ma_execution_dtype b)"

text \<open>\<open>sort.Slice\<close>; the identities differ, so the order is total and the result unique.\<close>

fun insert_by :: "('a \<Rightarrow> 'a \<Rightarrow> bool) \<Rightarrow> 'a \<Rightarrow> 'a list \<Rightarrow> 'a list" where
  "insert_by before x [] = [x]"
| "insert_by before x (y # ys) = (if before y x then y # insert_by before x ys else x # y # ys)"

definition sort_slice :: "('a \<Rightarrow> 'a \<Rightarrow> bool) \<Rightarrow> 'a list \<Rightarrow> 'a list" where
  "sort_slice before xs = foldr (insert_by before) xs []"

definition model_snapshot_of :: "nat \<Rightarrow> usage_range \<Rightarrow> int \<Rightarrow> int \<Rightarrow> nat \<Rightarrow> model_agg \<Rightarrow> model_snapshot" where
  "model_snapshot_of projectID rangeType windowStart windowEnd rank item =
     \<lparr>ms_project_id = projectID, ms_range_type = rangeType, ms_rank = rank, ms_model = ma_model item,
      ms_model_cache_hash = ma_model_cache_hash item, ms_execution_dtype = ma_execution_dtype item,
      ms_task_type = ma_task_type item, ms_quantization_config = ma_quantization_config item,
      ms_components = ma_components item, ms_counts = ma_counts item,
      ms_window_start = windowStart, ms_window_end = windowEnd\<rparr>"

definition window_models :: "stats_db \<Rightarrow> nat \<Rightarrow> int \<Rightarrow> int \<Rightarrow> model_10m list" where
  "window_models s projectID windowStart windowEnd =
     filter (\<lambda>r. mt_project_id r = projectID \<and> windowStart \<le> mt_period_start r \<and> mt_period_start r < windowEnd)
       (st_model_10m s)"

definition rebuildModelSnapshot :: "stats_db \<Rightarrow> nat \<Rightarrow> usage_range \<Rightarrow> int \<Rightarrow> int \<Rightarrow> stats_db" where
  "rebuildModelSnapshot s projectID rangeType windowStart windowEnd =
     (let kept = filter (\<lambda>r. \<not> (ms_project_id r = projectID \<and> ms_range_type r = rangeType)) (st_model_snapshots s);
          list = take 10 (sort_slice ranks_before (aggregate_models (window_models s projectID windowStart windowEnd))) in
      s\<lparr>st_model_snapshots := kept @
          map (\<lambda>(i, item). model_snapshot_of projectID rangeType windowStart windowEnd (i + 1) item)
            (List.enumerate 0 list)\<rparr>)"

definition rebuildDurationSnapshot :: "stats_db \<Rightarrow> nat \<Rightarrow> usage_range \<Rightarrow> int \<Rightarrow> int \<Rightarrow> stats_db" where
  "rebuildDurationSnapshot s projectID rangeType windowStart windowEnd =
     (let kept = filter (\<lambda>r. \<not> (hs_project_id r = projectID \<and> hs_range_type r = rangeType)) (st_duration_snapshots s);
          rs = filter (\<lambda>r. dt_project_id r = projectID \<and> windowStart \<le> dt_period_start r \<and> dt_period_start r < windowEnd)
             (st_duration_10m s);
          counts = fold (\<lambda>r m. m(dt_bucket r := m (dt_bucket r) + dt_request_count r)) rs (\<lambda>_. 0) in
      s\<lparr>st_duration_snapshots := kept @
          map (\<lambda>b. \<lparr>hs_project_id = projectID, hs_range_type = rangeType, hs_bucket_index = dd_bucket_index b,
              hs_bucket_label = dd_bucket_label b, hs_min_duration_ms = dd_min_duration_ms b,
              hs_max_duration_ms = dd_max_duration_ms b, hs_request_count = dd_request_count b,
              hs_window_start = windowStart, hs_window_end = windowEnd\<rparr>) (MergeDurationDisplayBuckets counts)\<rparr>)"

subsection \<open>The project row\<close>

definition refreshProjectUsageSummaryDay :: "db \<Rightarrow> nat \<Rightarrow> int \<Rightarrow> db" where
  "refreshProjectUsageSummaryDay d projectID nowUnix =
     (let dayStart = UnixDayStart nowUnix;
          currentHour = HourStartUnix nowUnix;
          rs = filter (\<lambda>r. ph_project_id r = projectID \<and> dayStart \<le> ph_period_start r \<and> ph_period_start r \<le> currentHour)
             (st_project_hourly (db_stats d));
          n = sum_list (map ph_counts rs) in
      d\<lparr>db_projects := tbl_modify (\<lambda>p. pr_id p = projectID)
          (\<lambda>p. p\<lparr>pr_request_count_day := uc_request_count n, pr_success_count_day := uc_success_count n,
              pr_failure_count_day := uc_failure_count n, pr_credits_day := uc_credits n\<rparr>) (db_projects d)\<rparr>)"

definition staleProjectDaySummaryLimit :: int where
  "staleProjectDaySummaryLimit = 20"

definition ClearStaleProjectDaySummaries :: "db \<Rightarrow> gotime \<Rightarrow> int \<Rightarrow> db \<times> nat" where
  "ClearStaleProjectDaySummaries d now limit =
     (let limit' = (if limit \<le> 0 then staleProjectDaySummaryLimit else limit);
          dayStart = UnixDayStart (unix now);
          projects = take (nat limit') (sort_key pr_id (tbl_where
            (\<lambda>p. (0 < pr_request_count_day p \<or> 0 < pr_success_count_day p \<or> 0 < pr_failure_count_day p \<or>
                pr_credits_day p \<noteq> 0) \<and>
              (case pr_last_request_at p of None \<Rightarrow> True | Some t \<Rightarrow> t < dayStart)) (db_projects d))) in
      (fold (\<lambda>project d. d\<lparr>db_projects := tbl_modify (\<lambda>p. pr_id p = pr_id project)
          (\<lambda>p. p\<lparr>pr_request_count_day := 0, pr_success_count_day := 0, pr_failure_count_day := 0, pr_credits_day := 0\<rparr>)
          (db_projects d)\<rparr>) projects d, length projects))"

definition project_by :: "db \<Rightarrow> nat \<Rightarrow> project option" where
  "project_by d n = tbl_first (\<lambda>p. pr_id p = n) (db_projects d)"

definition set_recent_counts :: "db \<Rightarrow> nat \<Rightarrow> u64 \<Rightarrow> u64 \<Rightarrow> db" where
  "set_recent_counts d projectID successes failures =
     d\<lparr>db_projects := tbl_modify (\<lambda>p. pr_id p = projectID)
        (\<lambda>p. p\<lparr>pr_recent_window_success_count := successes, pr_recent_window_failure_count := failures\<rparr>)
        (db_projects d)\<rparr>"

text \<open>The database adds the counts without wrap-around; a sum that is no \<open>uint64\<close> cannot be scanned.\<close>

definition scan_u64 :: "int \<Rightarrow> err + u64" where
  "scan_u64 n = rejectIf (n < 0 \<or> 2 ^ 64 \<le> n) (ErrMsg ''converting driver.Value type to a uint64: value out of range'')
     (Inr (word_of_int n))"

definition refreshProjectRecentFailureWindowCounts :: "db \<Rightarrow> nat \<Rightarrow> int \<Rightarrow> u64 \<Rightarrow> err + db" where
  "refreshProjectRecentFailureWindowCounts d projectID nowUnix windowSeconds =
     (let w = (if windowSeconds = 0 then 3600 else windowSeconds);
          (windowStart, windowEnd) = recentFailureWindow10m nowUnix w in
      bindE (of_option ErrRecordNotFound (project_by d projectID)) (\<lambda>project.
      if (case pr_last_request_at project of None \<Rightarrow> True | Some t \<Rightarrow> t < windowStart)
      then Inr (set_recent_counts d projectID 0 0)
      else let rs = window_models (db_stats d) projectID windowStart windowEnd in
        bindE (scan_u64 (\<Sum>r\<leftarrow>rs. uint (uc_success_count (mt_counts r)))) (\<lambda>successes.
        bindE (scan_u64 (\<Sum>r\<leftarrow>rs. uint (uc_failure_count (mt_counts r)))) (\<lambda>failures.
          Inr (set_recent_counts d projectID successes failures)))))"

definition recentFailureWindowRefreshLimit :: int where
  "recentFailureWindowRefreshLimit = 20"

fun refresh_recent :: "int \<Rightarrow> u64 \<Rightarrow> project list \<Rightarrow> db \<Rightarrow> err + db" where
  "refresh_recent nowUnix windowSeconds [] d = Inr d"
| "refresh_recent nowUnix windowSeconds (p # ps) d =
     bindE (refreshProjectRecentFailureWindowCounts d (pr_id p) nowUnix windowSeconds)
       (refresh_recent nowUnix windowSeconds ps)"

text \<open>\<open>configured\<close> is \<open>usage_stats.recent_failure_window_seconds\<close>, if there is a configuration.\<close>

definition RefreshRecentFailureWindowCounts :: "u64 option \<Rightarrow> db \<Rightarrow> gotime \<Rightarrow> int \<Rightarrow> err + db \<times> nat" where
  "RefreshRecentFailureWindowCounts configured d now limit =
     (let limit' = (if limit \<le> 0 then recentFailureWindowRefreshLimit else limit);
          windowSeconds = (case configured of None \<Rightarrow> 3600 | Some w \<Rightarrow> if 0 < w then w else 3600);
          windowStart = fst (recentFailureWindow10m (unix now) windowSeconds);
          projects = take (nat limit') (sort_key pr_id (tbl_where
            (\<lambda>p. 0 < pr_recent_window_success_count p \<or> 0 < pr_recent_window_failure_count p \<or>
              (case pr_last_request_at p of None \<Rightarrow> False | Some t \<Rightarrow> windowStart \<le> t)) (db_projects d))) in
      bindE (refresh_recent (unix now) windowSeconds projects d) (\<lambda>d'. Inr (d', length projects)))"

definition ElevatedRecentFailureRate :: "u64 \<Rightarrow> u64 \<Rightarrow> rat option \<Rightarrow> bool" where
  "ElevatedRecentFailureRate successCount failureCount threshold =
     (let overall = successCount + failureCount in
      case threshold of
        None \<Rightarrow> False
      | Some t \<Rightarrow> if overall = 0 then False else t < of_int (uint failureCount) / of_int (uint overall))"

subsection \<open>The snapshot worker\<close>

definition snapshot_due :: "usage_progress \<Rightarrow> bool" where
  "snapshot_due r \<longleftrightarrow> up_project_id r \<noteq> UsageStatsBaseProjectID \<and> up_claimed_generation r < up_dirty_generation r"

definition ClaimDirtyProjectsForSnapshot :: "gotime \<Rightarrow> db \<Rightarrow> int \<Rightarrow> db \<times> usage_progress list" where
  "ClaimDirtyProjectsForSnapshot now d limit =
     (let limit' = (if limit \<le> 0 then 20 else limit);
          claim = (\<lambda>r. r\<lparr>up_claimed_generation := up_dirty_generation r, up_claimed_at := Some now\<rparr>);
          rs = take (nat limit') (sort_key up_project_id (filter snapshot_due (st_progress (db_stats d)))) in
      (d\<lparr>db_stats := (db_stats d)\<lparr>st_progress :=
          map (\<lambda>r. if r \<in> set rs then claim r else r) (st_progress (db_stats d))\<rparr>\<rparr>, map claim rs))"

definition rebuild_snapshots :: "stats_db \<Rightarrow> nat \<Rightarrow> int \<Rightarrow> stats_db" where
  "rebuild_snapshots s projectID now =
     fold (\<lambda>rangeType s. let (windowStart, windowEnd) = usage_window rangeType now in
         rebuildDurationSnapshot (rebuildModelSnapshot s projectID rangeType windowStart windowEnd)
           projectID rangeType windowStart windowEnd)
       [UsageStatsRange1h, UsageStatsRange1d, UsageStatsRange7d] s"

definition RefreshProjectUsageSnapshots :: "u64 option \<Rightarrow> gotime \<Rightarrow> db \<Rightarrow> nat \<Rightarrow> u64 \<Rightarrow> err + db" where
  "RefreshProjectUsageSnapshots configured now d projectID claimedGeneration =
     (let nowUnix = unix now;
          d1 = d\<lparr>db_stats := rebuild_snapshots (db_stats d) projectID nowUnix\<rparr>;
          d2 = refreshProjectUsageSummaryDay d1 projectID nowUnix;
          windowSeconds = (case configured of None \<Rightarrow> 3600 | Some w \<Rightarrow> w) in
      bindE (refreshProjectRecentFailureWindowCounts d2 projectID nowUnix windowSeconds) (\<lambda>d3.
      bindE (of_option ErrRecordNotFound (find (\<lambda>r. up_project_id r = projectID) (st_progress (db_stats d3)))) (\<lambda>progress.
      if up_dirty_generation progress \<noteq> claimedGeneration then Inr d3
      else Inr (d3\<lparr>db_stats := (db_stats d3)\<lparr>st_progress :=
          map (\<lambda>r. if r = progress then r\<lparr>up_claimed_generation := up_dirty_generation r\<rparr> else r)
            (st_progress (db_stats d3))\<rparr>\<rparr>))))"

text \<open>
  A tick: the errors are logged and the tick goes on. \<open>now i\<close> is the time of its \<open>i\<close>-th
  transaction and \<open>other i\<close> what other processes do before it.
\<close>

fun refresh_claimed :: "u64 option \<Rightarrow> (nat \<Rightarrow> gotime) \<Rightarrow> (nat \<Rightarrow> db \<Rightarrow> db) \<Rightarrow> nat \<Rightarrow> usage_progress list \<Rightarrow> db \<Rightarrow> db" where
  "refresh_claimed configured now other i [] d = d"
| "refresh_claimed configured now other i (item # items) d =
     (let d1 = other i d in
      refresh_claimed configured now other (i + 1) items
        (case RefreshProjectUsageSnapshots configured (now i) d1 (up_project_id item) (up_claimed_generation item) of
           Inl _ \<Rightarrow> d1 | Inr d2 \<Rightarrow> d2))"

definition runUsageStatsSnapshotOnce :: "u64 option \<Rightarrow> (nat \<Rightarrow> gotime) \<Rightarrow> (nat \<Rightarrow> db \<Rightarrow> db) \<Rightarrow> db \<Rightarrow> db" where
  "runUsageStatsSnapshotOnce configured now other d =
     (let (d1, claimed) = ClaimDirtyProjectsForSnapshot (now 0) d 20;
          d2 = refresh_claimed configured now other 1 claimed d1;
          i = 1 + length claimed;
          d3 = other i d2;
          d4 = fst (ClearStaleProjectDaySummaries d3 (now i) 20);
          d5 = other (i + 1) d4 in
      (case RefreshRecentFailureWindowCounts configured d5 (now (i + 1)) 20 of
         Inl _ \<Rightarrow> d5 | Inr (d6, _) \<Rightarrow> d6))"

end
