(* ===== verification/Snapshot_Correctness.thy ===== *)
theory Snapshot_Correctness
  imports Usage_Snapshots "HOL-Library.Product_Lexorder"
begin

text \<open>
  The snapshots are what the call records say: the durations fall into consecutive buckets that lose no
  call, the models shown are the ten dearest, and the counters on the project row are sums over the
  project's calls.
\<close>

subsection \<open>Durations\<close>

lemma DurationBucketID_find:
  obtains b where "b \<in> set durationBuckets" "in_bucket ms b" "DurationBucketID ms = db_bucket_id b"
proof -
  have "list_ex (in_bucket ms) durationBuckets"
    unfolding durationBuckets_def in_bucket_def by (simp add: word_le_def word_less_def) linarith
  then obtain b where b: "find (in_bucket ms) durationBuckets = Some b"
    by (metis find_None_iff2 list_ex_iff not_None_eq)
  then show thesis using that [of b] find_SomeD [OF b] by (simp add: DurationBucketID_def)
qed

text \<open>Each bucket ends where the next begins.\<close>

fun consecutive :: "('b \<Rightarrow> u64) \<Rightarrow> ('b \<Rightarrow> u64 option) \<Rightarrow> 'b list \<Rightarrow> bool" where
  "consecutive lo hi (a # b # bs) \<longleftrightarrow> hi a = Some (lo b) \<and> consecutive lo hi (b # bs)"
| "consecutive lo hi _ \<longleftrightarrow> True"

lemma consecutive_Cons:
  "consecutive lo hi (x # xs) \<longleftrightarrow> (xs \<noteq> [] \<longrightarrow> hi x = Some (lo (hd xs))) \<and> consecutive lo hi xs"
  by (cases xs) auto

lemma consecutive_append:
  "consecutive lo hi (xs @ ys) \<longleftrightarrow>
     consecutive lo hi xs \<and> consecutive lo hi ys \<and> (xs \<noteq> [] \<and> ys \<noteq> [] \<longrightarrow> hi (last xs) = Some (lo (hd ys)))"
  by (induction xs) (auto simp: consecutive_Cons)

lemma consecutive_above:
  assumes "consecutive lo hi (b # bs)" "\<forall>x \<in> set (b # bs). \<forall>h. hi x = Some h \<longrightarrow> lo x \<le> h" "x \<in> set bs"
  shows "\<exists>h. hi b = Some h \<and> h \<le> lo x"
  using assms
proof (induction bs arbitrary: b)
  case (Cons a bs)
  have b: "hi b = Some (lo a)" using Cons.prems(1) by simp
  show ?case
  proof (cases "x = a")
    case False
    then obtain h where "hi a = Some h" "h \<le> lo x" using Cons.IH [of a] Cons.prems by auto
    moreover have "lo a \<le> h" using Cons.prems(2) \<open>hi a = Some h\<close> by simp
    ultimately show ?thesis using b by auto
  qed (simp add: b)
qed simp

text \<open>So no value lies in two of them.\<close>

lemma consecutive_unique:
  assumes "consecutive db_bucket_min db_bucket_max bs" "\<forall>x \<in> set bs. \<forall>h. db_bucket_max x = Some h \<longrightarrow> db_bucket_min x \<le> h"
    "a \<in> set bs" "b \<in> set bs" "in_bucket ms a" "in_bucket ms b"
  shows "a = b"
  using assms
proof (induction bs)
  case (Cons x xs)
  have "\<not> in_bucket ms y" if y: "y \<in> set xs" "in_bucket ms x" for y
  proof -
    obtain h where "db_bucket_max x = Some h" "h \<le> db_bucket_min y"
      using consecutive_above [OF Cons.prems(1,2) y(1)] by blast
    then have "ms < db_bucket_min y" using y(2) by (auto simp: in_bucket_def)
    then show ?thesis by (simp add: in_bucket_def not_le split: option.split)
  qed
  with Cons show ?case by (auto simp: consecutive_Cons)
qed simp

lemma take_until_prefix: "\<exists>rest. ps = take_until th n ps @ rest"
  by (induction th n ps rule: take_until.induct) auto

text \<open>What a display bucket says of the small buckets it stands for.\<close>

lemma merge_buckets_exact:
  assumes "ps \<noteq> []" "consecutive (db_bucket_min \<circ> fst) (db_bucket_max \<circ> fst) ps" "i < maxDisplayBuckets"
  shows "let bs = merge_buckets th i ps in bs \<noteq> [] \<and>
    consecutive dd_min_duration_ms dd_max_duration_ms bs \<and>
    dd_min_duration_ms (hd bs) = db_bucket_min (fst (hd ps)) \<and> dd_max_duration_ms (last bs) = db_bucket_max (fst (last ps)) \<and>
    sum_list (map dd_request_count bs) = sum_list (map snd ps) \<and>
    map dd_bucket_index bs = [i..<i + length bs] \<and> i + length bs \<le> maxDisplayBuckets"
  using assms
proof (induction th i ps rule: merge_buckets.induct)
  case (1 th i ps)
  have new: "dd_min_duration_ms (newDisplayDurationBucket k xs) = db_bucket_min (fst (hd xs))"
    "dd_max_duration_ms (newDisplayDurationBucket k xs) = db_bucket_max (fst (last xs))"
    "dd_request_count (newDisplayDurationBucket k xs) = sum_list (map snd xs)"
    "dd_bucket_index (newDisplayDurationBucket k xs) = k" for k xs
    by (simp_all add: newDisplayDurationBucket_def Let_def)
  show ?case
  proof (cases "i = maxDisplayBuckets - 1")
    case True
    then have "merge_buckets th i ps = [newDisplayDurationBucket i ps]"
      using 1(2) by (subst merge_buckets.simps) simp
    then show ?thesis using 1(4) by (simp add: new)
  next
    case False
    define part where "part = take_until th 0 ps"
    obtain rest where r: "ps = part @ rest" unfolding part_def using take_until_prefix by blast
    have p: "part \<noteq> []" using take_until_length [OF 1(2)] by (auto simp: part_def)
    have d: "drop (length part) ps = rest" by (simp add: r)
    define bs where "bs = merge_buckets th (i + 1) rest"
    have b: "merge_buckets th i ps = newDisplayDurationBucket i part # bs"
      using 1(2) False by (simp add: merge_buckets.simps [of th i ps] part_def [symmetric] d bs_def Let_def)
    show ?thesis
    proof (cases "rest = []")
      case True
      then have "bs = []" by (simp add: bs_def merge_buckets.simps)
      then show ?thesis unfolding b using True 1(4) by (simp add: new r)
    next
      case rest: False
      have c: "consecutive (db_bucket_min \<circ> fst) (db_bucket_max \<circ> fst) rest"
        "db_bucket_max (fst (last part)) = Some (db_bucket_min (fst (hd rest)))"
        using 1(3) p rest by (simp_all only: r consecutive_append comp_def) simp_all
      have ih: "let bs = merge_buckets th (i + 1) rest in bs \<noteq> [] \<and>
          consecutive dd_min_duration_ms dd_max_duration_ms bs \<and>
          dd_min_duration_ms (hd bs) = db_bucket_min (fst (hd rest)) \<and>
          dd_max_duration_ms (last bs) = db_bucket_max (fst (last rest)) \<and>
          sum_list (map dd_request_count bs) = sum_list (map snd rest) \<and>
          map dd_bucket_index bs = [i + 1..<i + 1 + length bs] \<and> i + 1 + length bs \<le> maxDisplayBuckets"
        by (rule 1(1) [OF 1(2) False part_def, unfolded d, OF rest c(1)]) (use 1(4) False in \<open>simp add: maxDisplayBuckets_def\<close>)
      have "i < i + 1 + length bs" by simp
      then have "[i..<i + 1 + length bs] = i # [i + 1..<i + 1 + length bs]" by (simp add: upt_conv_Cons del: upt_Suc)
      then show ?thesis unfolding b Let_def using ih [folded bs_def, unfolded Let_def] p rest c(2)
        by (simp add: new r consecutive_Cons del: upt_Suc)
    qed
  qed
qed

lemma distinct_filter_single: "distinct xs \<Longrightarrow> b \<in> set xs \<Longrightarrow> filter (\<lambda>x. x = b) xs = [b]"
  by (induction xs) (auto simp: filter_empty_conv)

lemma one_bucket: "\<exists>b \<in> set durationBuckets. DurationBucketID ms = db_bucket_id b \<and> filter (in_bucket ms) durationBuckets = [b]"
proof -
  obtain b where b: "b \<in> set durationBuckets" "in_bucket ms b" "DurationBucketID ms = db_bucket_id b"
    by (rule DurationBucketID_find)
  have c: "consecutive db_bucket_min db_bucket_max durationBuckets"
    "\<forall>x \<in> set durationBuckets. \<forall>h. db_bucket_max x = Some h \<longrightarrow> db_bucket_min x \<le> h"
    "distinct (map db_bucket_id durationBuckets)"
    by (simp_all add: durationBuckets_def)
  have "filter (in_bucket ms) durationBuckets = filter (\<lambda>x. x = b) durationBuckets"
    using consecutive_unique [OF c(1,2)] b(1,2) by (intro filter_cong) auto
  also have "\<dots> = [b]" using c(3) b(1) by (intro distinct_filter_single) (simp_all add: distinct_map)
  finally show ?thesis using b by blast
qed

lemma display_exact:
  "let bs = MergeDurationDisplayBuckets counts; overall = (\<Sum>b\<leftarrow>durationBuckets. counts (db_bucket_id b)) in
      if overall = 0 then bs = []
      else bs \<noteq> [] \<and> length bs \<le> 12 \<and> map dd_bucket_index bs = [0..<length bs] \<and>
        dd_min_duration_ms (hd bs) = 0 \<and> consecutive dd_min_duration_ms dd_max_duration_ms bs \<and>
        dd_max_duration_ms (last bs) = None \<and> sum_list (map dd_request_count bs) = overall"
proof -
  define ps where "ps = map (\<lambda>b. (b, counts (db_bucket_id b))) durationBuckets"
  have ps: "ps \<noteq> []" "consecutive (db_bucket_min \<circ> fst) (db_bucket_max \<circ> fst) ps" "db_bucket_min (fst (hd ps)) = 0"
    "db_bucket_max (fst (last ps)) = None" "map snd ps = map (\<lambda>b. counts (db_bucket_id b)) durationBuckets"
    by (simp_all add: ps_def durationBuckets_def)
  have "0 < maxDisplayBuckets" by (simp add: maxDisplayBuckets_def)
  note m = merge_buckets_exact [OF ps(1,2) this, unfolded Let_def]
  define overall where "overall = (\<Sum>b\<leftarrow>durationBuckets. counts (db_bucket_id b))"
  have o: "sum_list (map snd ps) = overall" by (simp add: overall_def ps(5))
  have "MergeDurationDisplayBuckets counts = (if overall = 0 then [] else merge_buckets th 0 ps)"
    if "th = (let c = (case f64_div_u64 overall (of_nat maxDisplayBuckets) of Fin x \<Rightarrow> word_of_int \<lceil>x\<rceil> | _ \<Rightarrow> 0)
          in if c = 0 then 1 else c)" for th
    unfolding MergeDurationDisplayBuckets_def ps_def [symmetric] Let_def o that ..
  then obtain th where "MergeDurationDisplayBuckets counts = (if overall = 0 then [] else merge_buckets th 0 ps)" by blast
  then show "let bs = MergeDurationDisplayBuckets counts; overall = (\<Sum>b\<leftarrow>durationBuckets. counts (db_bucket_id b)) in
      if overall = 0 then bs = []
      else bs \<noteq> [] \<and> length bs \<le> 12 \<and> map dd_bucket_index bs = [0..<length bs] \<and>
        dd_min_duration_ms (hd bs) = 0 \<and> consecutive dd_min_duration_ms dd_max_duration_ms bs \<and>
        dd_max_duration_ms (last bs) = None \<and> sum_list (map dd_request_count bs) = overall"
    using m [of th] unfolding overall_def [symmetric] Let_def ps(3,4) o by (simp add: maxDisplayBuckets_def)
qed

text \<open>C39. The duration histogram loses no call and has no gap. Every duration falls into exactly one small
  bucket. Whatever the counts of the small buckets, the display buckets are numbered from 0, are at
  most twelve, start at 0, each begin where the one before ends, leave the last one open, and their
  counts add up (at 64 bits) to the calls counted in the small buckets; there are none only if that
  sum is 0.\<close>

theorem histogram_exact:
  "(\<exists>b \<in> set durationBuckets. DurationBucketID ms = db_bucket_id b \<and>
      filter (in_bucket ms) durationBuckets = [b]) \<and>
   (let bs = MergeDurationDisplayBuckets counts; overall = (\<Sum>b\<leftarrow>durationBuckets. counts (db_bucket_id b)) in
      if overall = 0 then bs = []
      else bs \<noteq> [] \<and> length bs \<le> 12 \<and> map dd_bucket_index bs = [0..<length bs] \<and>
        dd_min_duration_ms (hd bs) = 0 \<and> consecutive dd_min_duration_ms dd_max_duration_ms bs \<and>
        dd_max_duration_ms (last bs) = None \<and> sum_list (map dd_request_count bs) = overall)"
  using one_bucket display_exact by blast

subsection \<open>The dearest models\<close>

lemma mset_insert_by [simp]: "mset (insert_by before x xs) = add_mset x (mset xs)"
  by (induction xs) simp_all

lemma mset_sort_slice [simp]: "mset (sort_slice before xs) = mset xs"
  by (induction xs) (simp_all add: sort_slice_def)

text \<open>The code's comparison is the lexicographic order of a key.\<close>

definition rank_key :: "model_agg \<Rightarrow> int \<times> int \<times> string \<times> string \<times> string" where
  "rank_key a = (- uc_credits (ma_counts a), - uint (uc_request_count (ma_counts a)), ma_model a,
     ma_model_cache_hash a, ma_execution_dtype a)"

lemma ranks_before_key: "ranks_before a b \<longleftrightarrow> rank_key a < rank_key b"
  by (auto simp: ranks_before_def rank_key_def word_less_def word_uint_eq_iff)

lemma insert_by_sorted:
  assumes "\<And>a b. before a b \<longleftrightarrow> f a < (f b :: 'k::linorder)" "sorted (map f xs)"
  shows "sorted (map f (insert_by before x xs))"
  using assms(2)
proof (induction xs)
  case (Cons y ys)
  have "set (insert_by before x ys) = insert x (set ys)"
    by (metis mset_insert_by set_mset_add_mset_insert set_mset_mset)
  with Cons show ?case using assms(1) [of y x] by (cases "before y x") auto
qed simp

lemma sort_slice_sorted:
  assumes "\<And>a b. before a b \<longleftrightarrow> f a < (f b :: 'k::linorder)"
  shows "sorted (map f (sort_slice before xs))"
  by (induction xs) (simp_all add: sort_slice_def insert_by_sorted [OF assms])

lemma sorted_ranks:
  assumes "distinct (map agg_key xs)"
  shows "sorted_wrt ranks_before (sort_slice ranks_before xs)"
proof -
  have k: "agg_key a = (case rank_key a of (_, _, m, h, t) \<Rightarrow> h @ [CHR 0x00] @ t @ [CHR 0x00] @ m)" for a
    by (simp add: agg_key_def rank_key_def)
  have "inj_on rank_key (set xs)" using assms k by (metis (no_types, lifting) distinct_map inj_onD inj_onI)
  moreover have "distinct xs" using assms by (simp add: distinct_map)
  ultimately have "distinct (map rank_key (sort_slice ranks_before xs))"
    by (metis distinct_map mset_eq_imp_distinct_iff mset_sort_slice set_mset_mset)
  moreover have "sorted (map rank_key (sort_slice ranks_before xs))" by (rule sort_slice_sorted) (rule ranks_before_key)
  ultimately have "sorted_wrt (<) (map rank_key (sort_slice ranks_before xs))" by (simp add: strict_sorted_iff)
  then show ?thesis unfolding sorted_wrt_map by (rule sorted_wrt_mono_rel [rotated]) (simp add: ranks_before_key)
qed

lemma aggregate_models_exact:
  "distinct (map agg_key (aggregate_models rs)) \<and>
   tally agg_key ma_counts (aggregate_models rs) k = tally (agg_key \<circ> agg_row) mt_counts rs k"
proof -
  let ?step = "\<lambda>row. upsert (\<lambda>a. agg_key a = agg_key (agg_row row)) (agg_row row)
        (\<lambda>a. a\<lparr>ma_counts := ma_counts a + mt_counts row\<rparr>)"
  have s: "tally agg_key ma_counts (?step r xs) k =
      tally agg_key ma_counts xs k + (if k = agg_key (agg_row r) then mt_counts r else 0)" for r xs
    by (rule upsert_tally) (simp_all add: agg_row_def agg_key_def)
  have d: "distinct (map agg_key xs) \<Longrightarrow> distinct (map agg_key (?step r xs))" for r xs
    by (rule upsert_keys) (simp_all add: agg_key_def)
  have "distinct (map agg_key xs) \<Longrightarrow> distinct (map agg_key (fold ?step rs xs)) \<and>
      tally agg_key ma_counts (fold ?step rs xs) k = tally agg_key ma_counts xs k + tally (agg_key \<circ> agg_row) mt_counts rs k" for xs
    by (induction rs arbitrary: xs) (auto simp: s d add.assoc)
  from this [of "[]"] show ?thesis by (simp add: aggregate_models_def)
qed


text \<open>The model table of a project shows its dearest models. Rebuilding it groups the project's rows of the
  window by identity (cache hash, data type and name), adds up each group's counters, and
  stores the first ten in the order of Credits, then requests, then name, hash and type, ranked
  from 1: no model left out ranks before one that is shown. The tables of other projects and ranges stay.\<close>

theorem top_models_exact:
  "\<exists>top rest. let s' = rebuildModelSnapshot s p rt ws we; used = window_models s p ws we in
     mset (aggregate_models used) = mset (top @ rest) \<and> length top = min 10 (length (top @ rest)) \<and>
     sorted_wrt ranks_before (top @ rest) \<and> distinct (map agg_key (top @ rest)) \<and>
     (\<forall>k. tally agg_key ma_counts (top @ rest) k = tally (agg_key \<circ> agg_row) mt_counts used k) \<and>
     filter (\<lambda>r. ms_project_id r = p \<and> ms_range_type r = rt) (st_model_snapshots s') =
       map (\<lambda>(i, a). model_snapshot_of p rt ws we (i + 1) a) (List.enumerate 0 top) \<and>
     filter (\<lambda>r. \<not> (ms_project_id r = p \<and> ms_range_type r = rt)) (st_model_snapshots s') =
       filter (\<lambda>r. \<not> (ms_project_id r = p \<and> ms_range_type r = rt)) (st_model_snapshots s)"
proof -
  define items where "items = aggregate_models (window_models s p ws we)"
  define ranked where "ranked = sort_slice ranks_before items"
  define shown where "shown = map (\<lambda>(i, a). model_snapshot_of p rt ws we (i + 1) a) (List.enumerate 0 (take 10 ranked))"
  have m: "mset ranked = mset items" by (simp add: ranked_def)
  have d: "distinct (map agg_key items)" using aggregate_models_exact items_def by blast
  then have "sorted_wrt ranks_before ranked" unfolding ranked_def by (rule sorted_ranks)
  moreover have "distinct (map agg_key ranked)" using d m by (metis mset_eq_imp_distinct_iff mset_map)
  moreover have "tally agg_key ma_counts ranked k = tally (agg_key \<circ> agg_row) mt_counts (window_models s p ws we) k" for k
    using tally_mset [OF m] aggregate_models_exact by (metis items_def)
  moreover have "ms_project_id r = p \<and> ms_range_type r = rt" if "r \<in> set shown" for r
    using that by (auto simp: shown_def model_snapshot_of_def)
  then have "filter (\<lambda>r. ms_project_id r = p \<and> ms_range_type r = rt) shown = shown"
    "filter (\<lambda>r. \<not> (ms_project_id r = p \<and> ms_range_type r = rt)) shown = []"
    by (simp_all add: filter_id_conv filter_empty_conv)
  moreover have "st_model_snapshots (rebuildModelSnapshot s p rt ws we) =
      filter (\<lambda>r. \<not> (ms_project_id r = p \<and> ms_range_type r = rt)) (st_model_snapshots s) @ shown"
    by (simp add: rebuildModelSnapshot_def Let_def shown_def ranked_def items_def)
  ultimately show ?thesis
    unfolding Let_def items_def [symmetric]
    by (intro exI [of _ "take 10 ranked"] exI [of _ "drop 10 ranked"], unfold shown_def [symmetric] append_take_drop_id)
      (simp add: m min.commute filter_id_conv)
qed

subsection \<open>Counters on the project row\<close>

lemma sum_list_filter_if: "sum_list (map f (filter q xs)) = (\<Sum>x\<leftarrow>xs. if q x then f x else 0)"
  by (induction xs) simp_all

lemma bucket_counts: "fold (\<lambda>r m. m(dt_bucket r := m (dt_bucket r) + dt_request_count r)) rs m i =
    m i + tally dt_bucket dt_request_count rs i"
  by (induction rs arbitrary: m) (simp_all add: ac_simps)

text \<open>The histogram of a project and a range, as the snapshot rows say.\<close>

definition histogram :: "stats_db \<Rightarrow> nat \<Rightarrow> usage_range \<Rightarrow> duration_snapshot list" where
  "histogram s p rt = filter (\<lambda>r. hs_project_id r = p \<and> hs_range_type r = rt) (st_duration_snapshots s)"

lemma histogram_rebuild:
  "histogram (rebuildModelSnapshot s p rt ws we) q rt' = histogram s q rt'"
  "p \<noteq> q \<or> rt \<noteq> rt' \<Longrightarrow> histogram (rebuildDurationSnapshot s p rt ws we) q rt' = histogram s q rt'"
  "sum_list (map hs_request_count (histogram (rebuildDurationSnapshot s p rt ws we) p rt)) =
     (\<Sum>b\<leftarrow>durationBuckets. tally dt_bucket dt_request_count
        (filter (\<lambda>r. dt_project_id r = p \<and> ws \<le> dt_period_start r \<and> dt_period_start r < we) (st_duration_10m s)) (db_bucket_id b))"
proof -
  show "histogram (rebuildModelSnapshot s p rt ws we) q rt' = histogram s q rt'"
    by (simp add: histogram_def rebuildModelSnapshot_def Let_def)
  show "histogram (rebuildDurationSnapshot s p rt ws we) q rt' = histogram s q rt'" if "p \<noteq> q \<or> rt \<noteq> rt'"
    using that by (auto simp: histogram_def rebuildDurationSnapshot_def Let_def filter_empty_conv intro: filter_cong)
  let ?rs = "filter (\<lambda>r. dt_project_id r = p \<and> ws \<le> dt_period_start r \<and> dt_period_start r < we) (st_duration_10m s)"
  have "sum_list (map dd_request_count (MergeDurationDisplayBuckets counts)) = (\<Sum>b\<leftarrow>durationBuckets. counts (db_bucket_id b))"
    for counts using display_exact [of counts] by (auto simp: Let_def split: if_splits)
  moreover have "map hs_request_count (histogram (rebuildDurationSnapshot s p rt ws we) p rt) =
      map dd_request_count (MergeDurationDisplayBuckets
        (fold (\<lambda>r m. m(dt_bucket r := m (dt_bucket r) + dt_request_count r)) ?rs (\<lambda>_. 0)))"
    by (simp add: histogram_def rebuildDurationSnapshot_def Let_def comp_def filter_map filter_empty_conv cong: filter_cong)
  moreover have "fold (\<lambda>r m. m(dt_bucket r := m (dt_bucket r) + dt_request_count r)) ?rs (\<lambda>_. 0) =
      tally dt_bucket dt_request_count ?rs" by (rule ext) (simp add: bucket_counts)
  ultimately show "sum_list (map hs_request_count (histogram (rebuildDurationSnapshot s p rt ws we) p rt)) =
     (\<Sum>b\<leftarrow>durationBuckets. tally dt_bucket dt_request_count ?rs (db_bucket_id b))" by simp
qed


lemma one_bucket_count: "(\<Sum>b\<leftarrow>durationBuckets. if DurationBucketID ms = db_bucket_id b then 1 else 0 :: u64) = 1"
proof -
  obtain b where b: "b \<in> set durationBuckets" "DurationBucketID ms = db_bucket_id b" using one_bucket by blast
  have "distinct (map db_bucket_id durationBuckets)" by (simp add: durationBuckets_def)
  then have "db_bucket_id b = db_bucket_id x \<longleftrightarrow> x = b" if "x \<in> set durationBuckets" for x
    using that b(1) by (auto simp: distinct_map dest: inj_onD)
  then have "filter (\<lambda>x. db_bucket_id b = db_bucket_id x) durationBuckets = filter (\<lambda>x. x = b) durationBuckets"
    by (intro filter_cong) auto
  also have "\<dots> = [b]" using b(1) by (intro distinct_filter_single) (simp_all add: durationBuckets_def)
  finally have f: "filter (\<lambda>x. db_bucket_id b = db_bucket_id x) durationBuckets = [b]" .
  have "(\<Sum>x\<leftarrow>durationBuckets. if db_bucket_id b = db_bucket_id x then 1 else 0 :: u64) =
      sum_list (map (\<lambda>_. 1) (filter (\<lambda>x. db_bucket_id b = db_bucket_id x) durationBuckets))"
    by (rule sum_list_filter_if [symmetric])
  then show ?thesis by (simp add: f b(2))
qed

text \<open>In consistent tables the histogram counts the calls of the window.\<close>

lemma histogram_calls:
  assumes "bucket_table.exact s cs n"
  shows "(\<Sum>b\<leftarrow>durationBuckets. tally dt_bucket dt_request_count
      (filter (\<lambda>r. dt_project_id r = p \<and> ws \<le> dt_period_start r \<and> dt_period_start r < we) (st_duration_10m s)) (db_bucket_id b)) =
    of_nat (length (filter (\<lambda>c. cr_project_id c = p \<and> ws \<le> TenMinuteStartUnix (unix (cr_accepted_at c)) \<and>
      TenMinuteStartUnix (unix (cr_accepted_at c)) < we) cs))"
proof -
  let ?win = "\<lambda>c. cr_project_id c = p \<and> ws \<le> TenMinuteStartUnix (unix (cr_accepted_at c)) \<and>
      TenMinuteStartUnix (unix (cr_accepted_at c)) < we"
  have one: "tally dt_bucket dt_request_count
      (filter (\<lambda>r. dt_project_id r = p \<and> ws \<le> dt_period_start r \<and> dt_period_start r < we) (st_duration_10m s)) i =
      (\<Sum>c\<leftarrow>cs. if ?win c then if DurationBucketID (cr_duration_ms c) = i then 1 else 0 else 0)" for i
  proof -
    let ?P = "\<lambda>(q, t, i'). q = p \<and> ws \<le> t \<and> t < we \<and> i' = i"
    have "tally dt_bucket dt_request_count
        (filter (\<lambda>r. dt_project_id r = p \<and> ws \<le> dt_period_start r \<and> dt_period_start r < we) (st_duration_10m s)) i =
        (\<Sum>r\<leftarrow>st_duration_10m s. if ?P (dt_project_id r, dt_period_start r, dt_bucket r) then dt_request_count r else 0)"
      unfolding tally_def sum_list_filter_if by (rule arg_cong [of _ _ sum_list], rule map_cong) auto
    also have "\<dots> = (\<Sum>c\<leftarrow>cs. if ?P (project_bucket c) then 1 else 0)" by (rule bucket_table.exact_sum [OF assms])
    also have "\<dots> = (\<Sum>c\<leftarrow>cs. if ?win c then if DurationBucketID (cr_duration_ms c) = i then 1 else 0 else 0)"
      by (rule arg_cong [of _ _ sum_list], rule map_cong) (auto simp: project_bucket_def)
    finally show ?thesis .
  qed
  have "(\<Sum>b\<leftarrow>durationBuckets. \<Sum>c\<leftarrow>cs. if ?win c then if DurationBucketID (cr_duration_ms c) = db_bucket_id b then 1 else 0 else 0 :: u64) =
      (\<Sum>c\<leftarrow>cs. if ?win c then \<Sum>b\<leftarrow>durationBuckets. if DurationBucketID (cr_duration_ms c) = db_bucket_id b then 1 else 0 else 0)"
    by (induction cs) (auto simp: sum_list_addf)
  also have "\<dots> = of_nat (length (filter ?win cs))"
    unfolding one_bucket_count by (induction cs) auto
  finally show ?thesis unfolding one .
qed

text \<open>The summary of the day.\<close>

lemma day_summary:
  assumes "project_table.exact s cs n"
  shows "sum_list (map ph_counts (filter (\<lambda>r. ph_project_id r = p \<and> a \<le> ph_period_start r \<and> ph_period_start r \<le> b) (st_project_hourly s))) =
    (\<Sum>c\<leftarrow>filter (\<lambda>c. cr_project_id c = p \<and> a \<le> HourStartUnix (unix (cr_accepted_at c)) \<and>
      HourStartUnix (unix (cr_accepted_at c)) \<le> b) cs. call_increment c (n c))"
proof -
  let ?P = "\<lambda>(q, t). q = p \<and> a \<le> t \<and> t \<le> b"
  have "(\<Sum>r\<leftarrow>st_project_hourly s. if ?P (ph_project_id r, ph_period_start r) then ph_counts r else 0) =
      (\<Sum>c\<leftarrow>cs. if ?P (project_hour c) then call_increment c (n c) else 0)"
    by (rule project_table.exact_sum [OF assms])
  then show ?thesis unfolding sum_list_filter_if by (simp add: project_hour_def)
qed


lemma rebuild_same:
  "st_pending (rebuild_snapshots s p now) = st_pending s" "st_account_hourly (rebuild_snapshots s p now) = st_account_hourly s"
  "st_project_hourly (rebuild_snapshots s p now) = st_project_hourly s" "st_model_10m (rebuild_snapshots s p now) = st_model_10m s"
  "st_duration_10m (rebuild_snapshots s p now) = st_duration_10m s" "st_progress (rebuild_snapshots s p now) = st_progress s"
  by (simp_all add: rebuild_snapshots_def rebuildDurationSnapshot_def rebuildModelSnapshot_def Let_def)

lemma rebuild_histogram:
  assumes "bucket_table.exact s cs n"
  shows "sum_list (map hs_request_count (histogram (rebuild_snapshots s p now) p rt)) =
    of_nat (length (filter (\<lambda>c. cr_project_id c = p \<and> fst (usage_window rt now) \<le> TenMinuteStartUnix (unix (cr_accepted_at c)) \<and>
      TenMinuteStartUnix (unix (cr_accepted_at c)) < snd (usage_window rt now)) cs))"
proof -
  note calls = histogram_rebuild(3) histogram_calls [OF assms]
  have tables: "st_duration_10m (rebuildDurationSnapshot s p rt ws we) = st_duration_10m s"
    "st_duration_10m (rebuildModelSnapshot s p rt ws we) = st_duration_10m s" for s rt ws we
    by (simp_all add: rebuildDurationSnapshot_def rebuildModelSnapshot_def Let_def)
  show ?thesis
    unfolding rebuild_snapshots_def
    by (cases rt) (simp_all add: Let_def histogram_rebuild(1,2) calls tables del: of_nat_0)
qed

text \<open>Consistent tables give a consistent project row, histogram and tables after the refresh.\<close>

lemma project_by_modify:
  assumes "project_by d p = Some project" "\<And>q. pr_id (f q) = pr_id q"
  shows "project_by (d\<lparr>db_projects := tbl_modify (\<lambda>q. pr_id q = p) f (db_projects d)\<rparr>) p = Some (f project)"
proof -
  have "find (\<lambda>q. pr_id q = p) xs = Some project \<Longrightarrow>
      find (\<lambda>q. pr_id q = p) (map (\<lambda>x. if pr_id x = p then f x else x) xs) = Some (f project)" for xs
    by (induction xs) (auto simp: assms(2) split: if_splits)
  then show ?thesis using assms(1) by (simp add: project_by_def tbl_first_def tbl_modify_def)
qed

lemma recent_shape:
  assumes "refreshProjectRecentFailureWindowCounts d p now w = Inr d'"
  shows "project_by d p \<noteq> None \<and> (\<exists>a b. d' = set_recent_counts d p a b)"
  using assms
  by (auto simp: refreshProjectRecentFailureWindowCounts_def Let_def bindE_Inr_iff of_option_Inr_iff split: prod.splits if_splits)

lemma refresh_shape:
  assumes "RefreshProjectUsageSnapshots configured now d p g = Inr d'"
  obtains a b pr where "d' = set_recent_counts (refreshProjectUsageSummaryDay
      (d\<lparr>db_stats := rebuild_snapshots (db_stats d) p (unix now)\<rparr>) p (unix now)) p a b
      \<lparr>db_stats := (rebuild_snapshots (db_stats d) p (unix now))\<lparr>st_progress := pr\<rparr>\<rparr>"
    "project_by d p \<noteq> None"
proof -
  define d2 where "d2 = refreshProjectUsageSummaryDay (d\<lparr>db_stats := rebuild_snapshots (db_stats d) p (unix now)\<rparr>) p (unix now)"
  have st: "db_stats d2 = rebuild_snapshots (db_stats d) p (unix now)"
    by (simp add: d2_def refreshProjectUsageSummaryDay_def Let_def)
  from assms obtain w d3 where d3: "refreshProjectRecentFailureWindowCounts d2 p (unix now) w = Inr d3"
    "d' = d3 \<or> (\<exists>pr. d' = d3\<lparr>db_stats := (db_stats d3)\<lparr>st_progress := pr\<rparr>\<rparr>)"
    unfolding RefreshProjectUsageSnapshots_def Let_def d2_def [symmetric] by (auto simp: res_simps split: if_splits)
  obtain a b where ab: "d3 = set_recent_counts d2 p a b" "project_by d2 p \<noteq> None" using recent_shape [OF d3(1)] by blast
  have same: "d3 = d3\<lparr>db_stats := (db_stats d3)\<lparr>st_progress := st_progress (db_stats d3)\<rparr>\<rparr>" by simp
  have s3: "db_stats d3 = rebuild_snapshots (db_stats d) p (unix now)" by (simp add: ab(1) set_recent_counts_def st)
  have pb: "project_by d p \<noteq> None"
  proof
    assume "project_by d p = None"
    then have "project_by d2 p = None"
      by (auto simp: project_by_def tbl_first_None_iff d2_def refreshProjectUsageSummaryDay_def Let_def)
    with ab(2) show False by simp
  qed
  obtain pr where "d' = d3\<lparr>db_stats := (db_stats d3)\<lparr>st_progress := pr\<rparr>\<rparr>" using d3(2) same by blast
  then show thesis using that [of pr a b] pb unfolding s3 unfolding ab(1) d2_def by blast
qed

text \<open>C38. What is shown of a project is what its calls were. In a database whose usage tables are exact, a
  successful refresh writes to the project row the requests, successes, failures and charged
  Credits of exactly the counted calls of the current UTC day, makes the histogram of each range
  add up to the number of counted calls of its window, and leaves the tables exact.\<close>

theorem refreshed_exact:
  assumes inv: "usage_inv d" and run: "RefreshProjectUsageSnapshots configured now d p g = Inr d'"
  shows "\<exists>project. project_by d' p = Some project \<and>
    (let today = filter (\<lambda>c. cr_project_id c = p \<and> UnixDayStart (unix now) \<le> HourStartUnix (unix (cr_accepted_at c)) \<and>
           HourStartUnix (unix (cr_accepted_at c)) \<le> HourStartUnix (unix now)) (counted d);
         n = (\<Sum>c\<leftarrow>today. call_increment c (charged d (cr_id c))) in
       pr_request_count_day project = uc_request_count n \<and> pr_success_count_day project = uc_success_count n \<and>
       pr_failure_count_day project = uc_failure_count n \<and> pr_credits_day project = uc_credits n) \<and>
    (\<forall>rt. sum_list (map hs_request_count (histogram (db_stats d') p rt)) =
       of_nat (length (filter (\<lambda>c. cr_project_id c = p \<and>
         fst (usage_window rt (unix now)) \<le> TenMinuteStartUnix (unix (cr_accepted_at c)) \<and>
         TenMinuteStartUnix (unix (cr_accepted_at c)) < snd (usage_window rt (unix now))) (counted d)))) \<and>
    usage_inv d' \<and> counted d' = counted d"
proof -
  let ?s = "rebuild_snapshots (db_stats d) p (unix now)"
  obtain a b pr where d': "d' = set_recent_counts (refreshProjectUsageSummaryDay (d\<lparr>db_stats := ?s\<rparr>) p (unix now)) p a b
      \<lparr>db_stats := ?s\<lparr>st_progress := pr\<rparr>\<rparr>" and "project_by d p \<noteq> None"
    using run by (rule refresh_shape)
  then obtain project where pb: "project_by (d\<lparr>db_stats := ?s\<rparr>) p = Some project" by (auto simp: project_by_def)
  note ex = usage_invD(4) [OF inv, unfolded tables_exact_def]
  define n where "n = (\<Sum>c\<leftarrow>filter (\<lambda>c. cr_project_id c = p \<and> UnixDayStart (unix now) \<le> HourStartUnix (unix (cr_accepted_at c)) \<and>
           HourStartUnix (unix (cr_accepted_at c)) \<le> HourStartUnix (unix now)) (counted d). call_increment c (charged d (cr_id c)))"
  define summary :: "project \<Rightarrow> project" where "summary = (\<lambda>q. q\<lparr>pr_request_count_day := uc_request_count n, pr_success_count_day := uc_success_count n,
              pr_failure_count_day := uc_failure_count n, pr_credits_day := uc_credits n\<rparr>)"
  have total: "sum_list (map ph_counts (filter (\<lambda>r. ph_project_id r = p \<and> UnixDayStart (unix now) \<le> ph_period_start r \<and>
      ph_period_start r \<le> HourStartUnix (unix now)) (st_project_hourly (db_stats d)))) = n"
    unfolding n_def by (rule day_summary) (use ex in simp)
  have day: "refreshProjectUsageSummaryDay (d\<lparr>db_stats := ?s\<rparr>) p (unix now) =
      d\<lparr>db_stats := ?s, db_projects := tbl_modify (\<lambda>q. pr_id q = p) summary (db_projects d)\<rparr>"
    by (simp add: refreshProjectUsageSummaryDay_def Let_def rebuild_same total summary_def)
  have "project_by (refreshProjectUsageSummaryDay (d\<lparr>db_stats := ?s\<rparr>) p (unix now)) p = Some (summary project)"
    using project_by_modify [OF pb, of summary] by (simp add: day summary_def)
  from project_by_modify [OF this, of "\<lambda>q. q\<lparr>pr_recent_window_success_count := a, pr_recent_window_failure_count := b\<rparr>"]
  have "project_by d' p = Some ((summary project)\<lparr>pr_recent_window_success_count := a, pr_recent_window_failure_count := b\<rparr>)"
    by (simp add: d' set_recent_counts_def project_by_def)
  moreover have hist: "histogram (db_stats d') p rt = histogram ?s p rt" for rt by (simp add: d' histogram_def)
  moreover have "usage_same d d'"
    by (simp add: usage_same_def d' day set_recent_counts_def rebuild_same charges_def)
  moreover have "counted d' = counted d" using \<open>usage_same d d'\<close> by (simp add: counted_def usage_same_def)
  moreover have "bucket_table.exact (db_stats d) (counted d) (\<lambda>c. charged d (cr_id c))" using ex by simp
  note rebuild_histogram [OF this, of p "unix now"]
  ultimately show ?thesis
    using usage_inv_same [OF inv] by (simp add: Let_def n_def [symmetric] summary_def)
qed

text \<open>One call of project 1, counted, and refreshed within its hour.\<close>

definition sample_usage_call :: task_call_record where
  "sample_usage_call =
     \<lparr>cr_id = 1, cr_user_id = 1, cr_project_id = 1, cr_task_job_id = None, cr_task_type = TaskTypeLLM,
      cr_api_type = TaskAPITypeChatCompletions, cr_model = ''m'', cr_execution_source = ''crynux'',
      cr_shared_api_key_id = None,
      cr_workload = \<lparr>wf_model_cache_hash = ''h'', wf_execution_dtype = ''fp16'', wf_quantization_config = [],
        wf_components = [], wf_image_width = 0, wf_image_height = 0, wf_image_steps = 0, wf_image_count = 0\<rparr>,
      cr_prompt_tokens = 10, cr_completion_tokens = 5, cr_total_tokens = 15, cr_priority_gwei = 400,
      cr_token_usage_applicable = True, cr_status = TaskCallStatusSuccess, cr_accepted_at = 90000000000000,
      cr_completed_at = 90001000000000, cr_duration_ms = 1000, cr_billed_vram = 24\<rparr>"

definition sample_usage_db :: db where
  "sample_usage_db = empty_db
     \<lparr>db_projects := \<lparr>rows = [auto_project\<lparr>pr_id := 1, pr_last_request_at := None\<rparr>], next_id = 2\<rparr>,
      db_call_records := \<lparr>rows = [sample_usage_call], next_id = 2\<rparr>,
      db_stats := base_stats_step empty_stats sample_usage_call 0
        \<lparr>st_progress := [\<lparr>up_project_id = 1, up_dirty_generation = 1, up_claimed_generation = 1, up_claimed_at = None\<rparr>]\<rparr>\<rparr>"

lemma sample_usage_inv: "usage_inv sample_usage_db" "counted sample_usage_db = [sample_usage_call]"
proof -
  have c: "charged sample_usage_db n = 0" for n by (simp add: charged_def charges_def tbl_where_def sample_usage_db_def empty_db_def)
  have p: "st_pending (db_stats sample_usage_db) = []"
    by (simp add: sample_usage_db_def base_stats_step_pending empty_stats_def)
  have t: "tables_exact empty_stats [] (\<lambda>_. 0)"
    by (simp add: tables_exact_def account_table.exact_def project_table.exact_def model_table.exact_def
        bucket_table.exact_def empty_stats_def)
  show cs: "counted sample_usage_db = [sample_usage_call]" by (simp add: counted_def tbl_where_def p) (simp add: sample_usage_db_def)
  from tables_exact_steps [OF t, of "[sample_usage_call]" "[sample_usage_call]"]
  have "tables_exact (base_stats_step empty_stats sample_usage_call 0) [sample_usage_call] (\<lambda>_. 0)" by simp
  then have "tables_exact (db_stats sample_usage_db) [sample_usage_call] (\<lambda>_. 0)"
    by (rule tables_exact_cong) (simp_all add: sample_usage_db_def)
  then show "usage_inv sample_usage_db" by (simp add: usage_inv_def p c cs) (simp add: sample_usage_db_def sample_usage_call_def)
qed

theorem refreshed_exact_witness:
  "\<exists>d' project. RefreshProjectUsageSnapshots (Some 3600) 90000000000000 sample_usage_db 1 1 = Inr d' \<and>
     project_by d' 1 = Some project \<and> pr_request_count_day project = 1"
proof -
  define s where "s = rebuild_snapshots (db_stats sample_usage_db) 1 (unix 90000000000000)"
  have pr: "st_progress s = [\<lparr>up_project_id = 1, up_dirty_generation = 1, up_claimed_generation = 1, up_claimed_at = None\<rparr>]"
    by (simp add: s_def rebuild_same) (simp add: sample_usage_db_def)
  have "\<exists>d'. RefreshProjectUsageSnapshots (Some 3600) 90000000000000 sample_usage_db 1 1 = Inr d'"
    unfolding RefreshProjectUsageSnapshots_def Let_def s_def [symmetric]
    by (simp add: refreshProjectRecentFailureWindowCounts_def Let_def project_by_def tbl_first_def
        refreshProjectUsageSummaryDay_def pr set_recent_counts_def tbl_modify_def sample_usage_db_def split: prod.split)
  then obtain d' where d': "RefreshProjectUsageSnapshots (Some 3600) 90000000000000 sample_usage_db 1 1 = Inr d'" by blast
  have h: "UnixDayStart (unix 90000000000000) = 86400" "HourStartUnix (unix 90000000000000) = 90000" by code_simp+
  have "cr_accepted_at sample_usage_call = 90000000000000" "cr_project_id sample_usage_call = 1"
    "uc_request_count (call_increment sample_usage_call n) = 1" for n
    by (simp_all add: sample_usage_call_def call_increment_def)
  with refreshed_exact [OF sample_usage_inv(1) d'] obtain project where "project_by d' 1 = Some project"
    "pr_request_count_day project = 1"
    by (auto simp: sample_usage_inv(2) h Let_def simp del: One_nat_def)
  with d' show ?thesis by blast
qed

end
