(* ===== verification/System_Frames.thy ===== *)
theory System_Frames
  imports Runner_Correctness Job_Worker Usage_Correctness
begin

text \<open>
  What every operation of the system preserves (\<open>good\<close>), how it may change the history of jobs
  (\<open>evolves\<close>), and the lemmas by which the operations are shown to do both: operations that do not
  touch a part of the database, and the ways a job is opened, moved, closed and deleted.
\<close>

subsection \<open>The state and its history\<close>

text \<open>No two records are of one job: what is charged for a job is charged once.\<close>

definition one_record :: "db \<Rightarrow> bool" where
  "one_record d \<longleftrightarrow>
     (\<forall>c \<in> set (rows (db_call_records d)). \<forall>c' \<in> set (rows (db_call_records d)).
        cr_task_job_id c \<noteq> None \<and> cr_task_job_id c = cr_task_job_id c' \<longrightarrow> c = c')"

definition good :: "db \<Rightarrow> bool" where
  "good d \<longleftrightarrow> ledger_inv d \<and> jobs_inv d \<and> one_record d \<and> earning_inv d \<and> keys_wf d \<and> usage_inv d"

lemma goodD: "good d \<Longrightarrow> ledger_inv d" "good d \<Longrightarrow> jobs_inv d" "good d \<Longrightarrow> one_record d" "good d \<Longrightarrow> earning_inv d"
  "good d \<Longrightarrow> keys_wf d" "good d \<Longrightarrow> usage_inv d"
  by (simp_all add: good_def)

text \<open>What may become of an admitted job: its owner and its hold stay; once closed it does not change; it
  disappears only when its record is there.\<close>

definition job_after :: "db \<Rightarrow> task_job \<Rightarrow> bool" where
  "job_after d j \<longleftrightarrow>
     (case job_by d (tj_id j) of
        Some j' \<Rightarrow> tj_user_id j' = tj_user_id j \<and> tj_credits_locked j' = tj_credits_locked j \<and> (IsTerminal j \<longrightarrow> j' = j)
      | None \<Rightarrow> \<exists>c \<in> set (rows (db_call_records d)). cr_task_job_id c = Some (tj_id j))"

definition evolves :: "db \<Rightarrow> db \<Rightarrow> bool" where
  "evolves d d' \<longleftrightarrow>
     next_id (db_task_jobs d) \<le> next_id (db_task_jobs d') \<and>
     set (rows (db_call_records d)) \<subseteq> set (rows (db_call_records d')) \<and>
     (\<forall>j \<in> set (rows (db_task_jobs d)). job_after d' j) \<and>
     (\<forall>n < next_id (db_task_jobs d). job_by d n = None \<longrightarrow> job_by d' n = None)"

definition preserves :: "db \<Rightarrow> db \<Rightarrow> bool" where
  "preserves d d' \<longleftrightarrow> (good d \<longrightarrow> good d' \<and> evolves d d')"

named_theorems preserving \<open>operations of the system preserve its invariant and the history of jobs\<close>

lemma job_by_row: "good d \<Longrightarrow> j \<in> set (rows (db_task_jobs d)) \<longleftrightarrow> job_by d (tj_id j) = Some j"
  using job_by_in [of d j] job_byD [of d "tj_id j" j] by (auto simp: good_def jobs_inv_def)

lemma evolves_same:
  assumes "good d" "db_task_jobs d' = db_task_jobs d" "db_call_records d' = db_call_records d"
  shows "evolves d d'"
  using assms by (auto simp: evolves_def job_after_def job_by_row [OF assms(1)] job_by_def)

lemma evolves_trans:
  assumes "evolves d d1" "evolves d1 d2" "good d" "good d1"
  shows "evolves d d2"
proof -
  have "job_after d2 j" if j: "j \<in> set (rows (db_task_jobs d))" for j
  proof (cases "job_by d1 (tj_id j)")
    case None
    have n: "tj_id j < next_id (db_task_jobs d)" using j assms(3) by (auto simp: good_def jobs_inv_def tbl_wf_def)
    then have "tj_id j < next_id (db_task_jobs d1)" using assms(1) by (simp add: evolves_def)
    then have "job_by d2 (tj_id j) = None" using assms(2) None by (simp add: evolves_def)
    moreover have "job_after d1 j" using assms(1) j by (simp add: evolves_def)
    then obtain c where "c \<in> set (rows (db_call_records d1))" "cr_task_job_id c = Some (tj_id j)"
      using None by (auto simp: job_after_def)
    ultimately show ?thesis using assms(2) by (auto simp: evolves_def job_after_def)
  next
    case (Some j1)
    then have t: "tj_user_id j1 = tj_user_id j" "tj_credits_locked j1 = tj_credits_locked j" "IsTerminal j \<longrightarrow> j1 = j"
      using assms(1) j by (auto simp: evolves_def job_after_def)
    have j1: "j1 \<in> set (rows (db_task_jobs d1))" "tj_id j1 = tj_id j" using job_byD [OF Some] by simp_all
    then have "job_after d2 j1" using assms(2) by (simp add: evolves_def)
    with t j1(2) show ?thesis by (auto simp: job_after_def split: option.splits)
  qed
  with assms(1,2) show ?thesis by (auto simp: evolves_def)
qed

lemma preserves_refl [preserving, simp]: "preserves d d"
  by (auto simp: preserves_def evolves_same)

lemma preserves_trans [trans]: "preserves d d1 \<Longrightarrow> preserves d1 d2 \<Longrightarrow> preserves d d2"
  by (auto simp: preserves_def intro: evolves_trans)

subsection \<open>Operations beside the jobs\<close>

lemma earning_inv_frame:
  assumes "earning_inv d" "db_earning_accounts d' = db_earning_accounts d" "db_earning_events d' = db_earning_events d"
    "db_withdrawals d' = db_withdrawals d"
  shows "earning_inv d'"
  using assms earning_off_cong [of "\<lambda>_. 0" "\<lambda>_. 0" d d'] by (simp add: earning_inv_def refunds_ok_def)

lemma ledger_inv_frame:
  assumes "ledger_inv d" "db_credit_accounts d' = db_credit_accounts d" "db_credit_events d' = db_credit_events d"
    "db_task_jobs d' = db_task_jobs d"
  shows "ledger_inv d'"
  using assms ledger_off_cong [of "\<lambda>_. 0" "\<lambda>_. 0" d d'] by (simp add: ledger_inv_def)

text \<open>The charges in the ledger of Credits.\<close>

definition task_charges :: "db \<Rightarrow> credit_event list" where
  "task_charges d = tbl_where (\<lambda>e. ce_type e = CreditEventTypeTaskCharge) (db_credit_events d)"

lemma task_charges_frame: "db_credit_events d' = db_credit_events d \<Longrightarrow> task_charges d' = task_charges d"
  by (simp add: task_charges_def)

lemma charges_task_charges: "charges d = filter (\<lambda>e. ce_status e = CreditEventStatusProcessed) (task_charges d)"
  by (simp add: charges_def task_charges_def tbl_where_def conj_commute)

lemma jobs_inv_frame:
  assumes inv: "jobs_inv d" and same: "db_task_jobs d' = db_task_jobs d" "db_call_records d' = db_call_records d"
    "set (st_pending (db_stats d')) \<subseteq> set (st_pending (db_stats d))" "task_charges d' = task_charges d"
  shows "jobs_inv d'"
proof -
  have "e \<in> set (rows (db_credit_events d))"
    if "e \<in> set (rows (db_credit_events d'))" "ce_type e = CreditEventTypeTaskCharge" for e
  proof -
    have "e \<in> set (task_charges d')" using that by (simp add: task_charges_def tbl_where_def)
    then show ?thesis unfolding same(4) by (simp add: task_charges_def tbl_where_def)
  qed
  moreover have "p \<in> set (st_pending (db_stats d))" if "p \<in> set (st_pending (db_stats d'))" for p using that same(3) by blast
  ultimately show ?thesis using inv unfolding jobs_inv_def same by blast
qed

lemma one_record_frame: "one_record d \<Longrightarrow> db_call_records d' = db_call_records d \<Longrightarrow> one_record d'"
  by (simp add: one_record_def)

lemma usage_inv_frame:
  "usage_inv d \<Longrightarrow> db_call_records d' = db_call_records d \<Longrightarrow> task_charges d' = task_charges d \<Longrightarrow> db_stats d' = db_stats d \<Longrightarrow>
     usage_inv d'"
  by (rule usage_inv_same) (simp_all add: usage_same_def charges_task_charges)

lemma keys_wf_frame: "keys_wf d \<Longrightarrow> db_shared_keys d' = db_shared_keys d \<Longrightarrow> keys_wf d'"
  by (simp add: keys_wf_def)

lemma preserves_frame:
  assumes "good d \<Longrightarrow> ledger_inv d'" "good d \<Longrightarrow> earning_inv d'" "good d \<Longrightarrow> keys_wf d'" "good d \<Longrightarrow> jobs_inv d'"
    "good d \<Longrightarrow> usage_inv d'" "db_task_jobs d' = db_task_jobs d" "db_call_records d' = db_call_records d"
  shows "preserves d d'"
  unfolding preserves_def
proof
  assume g: "good d"
  show "good d' \<and> evolves d d'"
    using assms(1-5) [OF g] one_record_frame [OF goodD(3) [OF g] assms(7)] evolves_same [OF g assms(6,7)]
    by (simp add: good_def)
qed

text \<open>An operation on accounts: the ledger is kept by a proof of its own.\<close>

lemma preserves_ledger:
  assumes "ledger_inv d \<Longrightarrow> ledger_inv d'"
    "db_task_jobs d' = db_task_jobs d" "db_call_records d' = db_call_records d" "db_stats d' = db_stats d"
    "task_charges d' = task_charges d"
    "db_earning_accounts d' = db_earning_accounts d" "db_earning_events d' = db_earning_events d"
    "db_withdrawals d' = db_withdrawals d" "db_shared_keys d' = db_shared_keys d"
  shows "preserves d d'"
  by (rule preserves_frame)
    (use assms goodD [of d] jobs_inv_frame [of d d'] earning_inv_frame [of d d'] keys_wf_frame [of d d'] usage_inv_frame [of d d'] in simp_all)

text \<open>An operation on earnings and keys.\<close>

lemma preserves_earnings:
  assumes "earning_inv d \<Longrightarrow> earning_inv d'" "keys_wf d \<Longrightarrow> keys_wf d'"
    "db_task_jobs d' = db_task_jobs d" "db_call_records d' = db_call_records d" "db_stats d' = db_stats d"
    "db_credit_events d' = db_credit_events d" "db_credit_accounts d' = db_credit_accounts d"
  shows "preserves d d'"
  by (rule preserves_frame)
    (use assms goodD [of d] jobs_inv_frame [of d d'] ledger_inv_frame [of d d'] usage_inv_frame [of d d'] task_charges_frame [of d' d] in simp_all)

text \<open>An operation on the usage statistics.\<close>

lemma preserves_usage:
  assumes "usage_inv d \<Longrightarrow> tbl_wf cr_id (db_call_records d) \<Longrightarrow> usage_inv (d\<lparr>db_stats := s, db_projects := t\<rparr>)"
    "set (st_pending s) \<subseteq> set (st_pending (db_stats d))"
  shows "preserves d (d\<lparr>db_stats := s, db_projects := t\<rparr>)"
proof (rule preserves_frame)
  let ?d = "d\<lparr>db_stats := s, db_projects := t\<rparr>"
  assume g: "good d"
  show "jobs_inv ?d" by (rule jobs_inv_frame [OF goodD(2) [OF g]]) (use assms(2) in \<open>simp_all add: task_charges_def\<close>)
  show "usage_inv ?d" using assms(1) goodD(2,6) [OF g] by (simp add: jobs_inv_def)
  show "ledger_inv ?d" by (rule ledger_inv_frame [OF goodD(1) [OF g]]) simp_all
  show "earning_inv ?d" by (rule earning_inv_frame [OF goodD(4) [OF g]]) simp_all
  show "keys_wf ?d" by (rule keys_wf_frame [OF goodD(5) [OF g]]) simp
qed simp_all

subsection \<open>The life of a job\<close>

lemma preserves_moving [preserving]:
  assumes "moves p f"
  shows "preserves d (update_where d n p f)"
  unfolding preserves_def
proof
  assume g: "good d"
  note m = moving [OF goodD(1,2) [OF g] assms]
  have e: "evolves d (update_where d n p f)"
    using assms m(3) [of n] by (auto simp: evolves_def job_after_def m(3) job_by_row [OF g] update_where_def moves_def)
  have "earning_inv (update_where d n p f)" "one_record (update_where d n p f)" "keys_wf (update_where d n p f)"
    "usage_inv (update_where d n p f)"
    using goodD(3-6) [OF g] earning_inv_frame one_record_frame keys_wf_frame usage_inv_frame
    by (simp_all add: update_where_def task_charges_def)
  with m e show "good (update_where d n p f) \<and> evolves d (update_where d n p f)" by (simp add: good_def)
qed

lemma preserves_admitting:
  assumes mk: "admits u c mk" and cr: "create_job_tx d u (Some c) mk = Inr (d', job)"
  shows "preserves d d'"
  unfolding preserves_def
proof
  assume g: "good d"
  obtain a n where a: "n = next_id (db_task_jobs d)" "job = mk n"
    "rows (db_task_jobs d') = rows (db_task_jobs d) @ [job\<lparr>tj_transient := no_transient\<rparr>]"
    "db_call_records d' = db_call_records d" "ledger_inv d'" "jobs_inv d'"
    by (rule admitting [OF goodD(1,2) [OF g] mk cr])
  obtain d1 t r where d1: "reserveCreditsTx d u (Some c) = Inr d1" "d' = set_jobs d1 t"
    "tbl_create (\<lambda>_ _. False) (\<lambda>n. (mk n)\<lparr>tj_transient := no_transient\<rparr>) (db_task_jobs d1) = Inr (t, r)"
    using cr by (auto simp: create_job_tx_def res_simps)
  have tabs: "db_earning_accounts d' = db_earning_accounts d" "db_earning_events d' = db_earning_events d"
    "db_withdrawals d' = db_withdrawals d" "db_shared_keys d' = db_shared_keys d" "db_task_jobs d1 = db_task_jobs d"
    "db_stats d' = db_stats d" "db_credit_events d' = db_credit_events d"
    using d1(1) by (auto simp: d1(2) res_simps)
  have next_id: "next_id (db_task_jobs d') = Suc n" using d1(3) a(1) by (auto simp: d1(2) tabs(5) res_simps)
  have id: "tj_id job = n" using mk a(2) by (simp add: admits_def)
  have "job_by d' (tj_id j) = Some j" if "j \<in> set (rows (db_task_jobs d))" for j
    using that a(3,6) by (intro job_by_in) (simp_all add: jobs_inv_def)
  then have old: "job_after d' j" if "j \<in> set (rows (db_task_jobs d))" for j using that by (simp add: job_after_def)
  have "job_by d' k = None" if "k < n" "job_by d k = None" for k
  proof (rule ccontr)
    assume "job_by d' k \<noteq> None"
    then obtain j where j: "j \<in> set (rows (db_task_jobs d'))" "tj_id j = k" using job_byD by fastforce
    with that id a(3) have "j \<in> set (rows (db_task_jobs d))" by auto
    with that(2) j(2) show False by (simp add: job_by_row [OF g])
  qed
  with old next_id a(1,4) have "evolves d d'" by (simp add: evolves_def)
  moreover have "earning_inv d'" "one_record d'" "keys_wf d'" "usage_inv d'"
    using goodD(3-6) [OF g] earning_inv_frame one_record_frame keys_wf_frame usage_inv_frame by (simp_all add: tabs a(4) task_charges_def)
  ultimately show "good d' \<and> evolves d d'" using a(5,6) by (simp add: good_def)
qed

lemma preserves_deleting:
  assumes p: "\<And>j. j \<in> set (rows (db_task_jobs d)) \<Longrightarrow> p j \<Longrightarrow> tj_task_call_record_id j \<noteq> None"
  shows "preserves d (set_jobs d (tbl_delete p (db_task_jobs d)))" (is "preserves d ?d")
  unfolding preserves_def
proof
  assume g: "good d"
  note del = delete_closed [OF goodD(1,2) [OF g] p]
  have wf: "tbl_wf tj_id (db_task_jobs ?d)" using del(2) by (simp add: jobs_inv_def)
  have "job_after ?d j" if j: "j \<in> set (rows (db_task_jobs d))" for j
  proof (cases "p j")
    case True
    then obtain r where "tj_task_call_record_id j = Some r" using p [OF j] by auto
    moreover have "job_ok (rows (db_call_records d)) j" using g j by (simp add: good_def jobs_inv_def)
    ultimately have "\<exists>c \<in> set (rows (db_call_records ?d)). cr_task_job_id c = Some (tj_id j)"
      by (auto simp: job_ok_def)
    moreover have "job_by ?d (tj_id j) = None"
    proof (rule ccontr)
      assume "job_by ?d (tj_id j) \<noteq> None"
      then obtain k where k: "k \<in> set (rows (db_task_jobs ?d))" "tj_id k = tj_id j" using job_byD by fastforce
      then have "k = j" using g j tbl_wfD_unique [of tj_id "db_task_jobs d"] by (auto simp: good_def jobs_inv_def)
      with True k(1) show False by simp
    qed
    ultimately show ?thesis by (simp add: job_after_def)
  next
    case False
    then have "job_by ?d (tj_id j) = Some j" using j wf by (intro job_by_in) simp_all
    then show ?thesis by (simp add: job_after_def)
  qed
  moreover have "job_by ?d n = None" if "job_by d n = None" for n
  proof (rule ccontr)
    assume "job_by ?d n \<noteq> None"
    then obtain k where "k \<in> set (rows (db_task_jobs ?d))" "tj_id k = n" using job_byD by fastforce
    with that show False by (auto simp: job_by_row [OF g])
  qed
  ultimately have "evolves d ?d" by (simp add: evolves_def)
  moreover have "earning_inv ?d" "one_record ?d" "keys_wf ?d" "usage_inv ?d"
    using goodD(3-6) [OF g] earning_inv_frame one_record_frame keys_wf_frame usage_inv_frame by (simp_all add: task_charges_def)
  ultimately show "good ?d \<and> evolves d ?d" using del by (simp add: good_def)
qed

text \<open>The end of a job; \<open>d3\<close> may also have other keys and earnings than \<open>d2\<close>.\<close>

lemma closing_preserves:
  assumes g: "good d" and j: "job_by d n = Some j" "tj_task_call_record_id j = None"
    and rel: "releaseCreditsHoldTx d j = Inr (d1, locked)"
    and proc: "processTaskCallTx wl d1 inp = Inr (d2, rid)" and inp: "in_task_job_id inp = Some n"
    and f: "closes (in_status inp) rid f"
    and d3: "db_task_jobs d3 = db_task_jobs (update_job d2 n f)" "db_call_records d3 = db_call_records d2"
      "db_credit_accounts d3 = db_credit_accounts d2" "db_credit_events d3 = db_credit_events d2"
      "db_stats d3 = db_stats d2" "earning_inv d3" "keys_wf d3"
  shows "good d3 \<and> evolves d d3"
proof -
  note inv = goodD(1,2) [OF g]
  note clo = closing [OF inv j rel proc inp f d3(1-5)]
  note jd = jobs_invD [OF inv(2) j(1)]
  have nt: "\<not> IsTerminal j" using jd(1) j(2) job_ok_open by blast
  obtain a where d1: "d1 = update_job (save_account d (a\<lparr>ca_locked := ca_locked a - tj_credits_locked j\<rparr>)) n released"
    using release_exact [OF inv j] rel by (metis Inr_inject prod.inject)
  note pt = process_tables [OF proc]
  have fid: "tj_id (f x) = tj_id x" "tj_user_id (f x) = tj_user_id x" "tj_credits_locked (f x) = tj_credits_locked x" for x
    using f by (simp_all add: closes_def)
  have jobs3: "db_task_jobs d3 = tbl_modify (\<lambda>x. tj_id x = n) (f \<circ> released) (db_task_jobs d)"
    by (rule table.equality) (auto simp: d3(1) pt(5) d1 fid)
  have recs: "rows (db_call_records d3) = rows (db_call_records d) @ [call_record_of wl inp rid]"
    using pt(2) by (simp add: d3(2) d1)
  have by3: "job_by d3 k = map_option (\<lambda>x. if k = n then f (released x) else x) (job_by d k)" for k
    using job_by_modify [of d d3 n "\<lambda>_. True" "\<lambda>x. f (released x)" k] inv(2) jobs3 fid by (simp add: jobs_inv_def comp_def)
  have "job_after d3 x" if "x \<in> set (rows (db_task_jobs d))" for x
  proof (cases "tj_id x = n")
    case True
    then have "x = j" using that j(1) by (simp add: job_by_row [OF g])
    with True j(1) nt show ?thesis by (simp add: job_after_def by3 fid)
  next
    case False
    with that show ?thesis by (simp add: job_after_def by3 job_by_row [OF g])
  qed
  then have e: "evolves d d3" using by3 by (auto simp: evolves_def recs jobs3)
  have "\<forall>c \<in> set (rows (db_call_records d)). cr_task_job_id c \<noteq> Some n"
    using jd(1,3) j(2) by (simp add: job_ok_def)
  then have "one_record d3" using goodD(3) [OF g] inp
    unfolding one_record_def by (auto simp: recs call_record_of_def)
  moreover have "usage_inv d1"
    using goodD(6) [OF g] usage_inv_frame [of d d1] by (simp add: d1 task_charges_def)
  then have "usage_inv d2" by (rule usage_inv_process [OF _ _ proc]) (use inv(2) in \<open>simp add: d1 jobs_inv_def\<close>)
  then have "usage_inv d3" by (rule usage_inv_frame) (simp_all add: d3 task_charges_def)
  ultimately show ?thesis using clo d3(6,7) e by (simp add: good_def)
qed

end
