(* ===== verification/System_Steps.thy ===== *)
theory System_Steps
  imports System_Frames Snapshot_Correctness
begin

text \<open>Every operation of the model preserves the invariant and the history of jobs.\<close>

subsection \<open>The Credits ledger\<close>

definition credits_only :: "db \<Rightarrow> db \<Rightarrow> bool" where
  "credits_only d d' \<longleftrightarrow> db_task_jobs d' = db_task_jobs d \<and> db_call_records d' = db_call_records d \<and> db_stats d' = db_stats d \<and>
     task_charges d' = task_charges d \<and>
     db_earning_accounts d' = db_earning_accounts d \<and> db_earning_events d' = db_earning_events d \<and>
     db_withdrawals d' = db_withdrawals d \<and> db_shared_keys d' = db_shared_keys d"

lemma task_charges_update [simp]:
  "task_charges (save_account d a) = task_charges d" "task_charges (d\<lparr>db_deposits := t1\<rparr>) = task_charges d"
  "task_charges (d\<lparr>db_users := t2\<rparr>) = task_charges d" "task_charges (d\<lparr>db_referral_codes := t3\<rparr>) = task_charges d"
  "task_charges (d\<lparr>db_referral_bindings := t4\<rparr>) = task_charges d"
  "task_charges (d\<lparr>db_referral_rewards := t5\<rparr>) = task_charges d"
  "task_charges (d\<lparr>db_credit_accounts := t6\<rparr>) = task_charges d"
  by (simp_all add: task_charges_def)

lemma credits_only_refl [simp, intro]: "credits_only d d"
  by (simp add: credits_only_def)

lemma credits_only_update [simp, intro]:
  assumes "credits_only d d1"
  shows "credits_only d (save_account d1 a)" "credits_only d (d1\<lparr>db_deposits := t1\<rparr>)"
    "credits_only d (d1\<lparr>db_users := t2\<rparr>)" "credits_only d (d1\<lparr>db_referral_codes := t3\<rparr>)"
    "credits_only d (d1\<lparr>db_referral_bindings := t4\<rparr>)" "credits_only d (d1\<lparr>db_referral_rewards := t5\<rparr>)"
    "credits_only d (d1\<lparr>db_credit_accounts := t6\<rparr>)"
  using assms by (simp_all add: credits_only_def)

lemma credits_only_event:
  assumes "create_credit_event d1 mk = Inr (d2, e)" "credits_only d d1" "\<And>n. ce_type (mk n) \<noteq> CreditEventTypeTaskCharge"
  shows "credits_only d d2"
  using assms by (auto simp: create_credit_event_Inr credits_only_def res_simps task_charges_def tbl_where_def)

lemma preserves_credits:
  assumes "credits_only d d'" "ledger_inv d \<Longrightarrow> ledger_inv d'"
  shows "preserves d d'"
  using assms by (intro preserves_ledger) (simp_all add: credits_only_def)

lemma reward_credits_only:
  assumes "applyDepositReferralReward cfg d1 dep = Inr d'" "credits_only d d1"
  shows "credits_only d d'"
proof -
  have "d' = d1 \<or> (\<exists>b a n mk. write_referral_reward d1 b a n mk = Inr d')"
    using assms(1)
    by (cases "tbl_lookup rb_invitee_user_id (dep_user_id dep) (db_referral_bindings d1)")
      (auto simp: applyDepositReferralReward_def bindE_Inr_iff Let_def split: if_splits)
  then consider "d' = d1" | b a n mk where "write_referral_reward d1 b a n mk = Inr d'" by blast
  then show ?thesis
  proof cases
    case 2
    show ?thesis
    proof (cases "tbl_create referral_reward_clash mk (db_referral_rewards d1)")
      case (Inl e)
      then show ?thesis using 2 assms(2) by (auto simp: write_referral_reward_def split: if_splits)
    next
      case (Inr p)
      obtain t r where p: "p = (t, r)" by (cases p)
      obtain d2 e where e: "create_credit_event (d1\<lparr>db_referral_rewards := t\<rparr>)
          (reward_event (rb_referrer_user_id b) n (rr_id r)) = Inr (d2, e)"
        "d' = save_account d2 (a\<lparr>ca_balance := ca_balance a + n\<rparr>)"
        using 2 Inr p by (auto simp: write_referral_reward_def res_simps)
      then show ?thesis using assms(2) credits_only_event [OF e(1), of d] by (simp add: reward_event_def)
    qed
  qed (use assms(2) in simp)
qed

lemma preserves_deposit [preserving]:
  assumes "ProcessDeposit cfg d inp = Inr d'"
  shows "preserves d d'"
proof (rule preserves_credits)
  show "ledger_inv d'" if "ledger_inv d" using that deposit_off [OF _ assms] by (simp add: ledger_inv_def)
  obtain amount credits where p: "deposit_tx cfg d inp amount credits = Inr d'" using assms by (rule ProcessDeposit_Inr)
  show "credits_only d d'"
  proof (cases "tbl_create deposit_clash (deposit_row_of inp amount credits) (db_deposits d)")
    case (Inl e)
    with p show ?thesis by (simp add: deposit_tx_duplicate)
  next
    case (Inr r)
    obtain t dep where r: "r = (t, dep)" by (cases r)
    obtain d2 e a where d2: "create_credit_event (d\<lparr>db_deposits := t\<rparr>)
        (deposit_event (pd_user_id inp) credits (dep_id dep)) = Inr (d2, e)"
      "applyDepositReferralReward cfg (save_account d2 (a\<lparr>ca_balance := ca_balance a + credits\<rparr>)) dep = Inr d'"
      by (rule deposit_tx_fresh [OF p Inr [unfolded r]])
    have "credits_only d d2" using credits_only_event [OF d2(1), of d] by (simp add: deposit_event_def)
    then show ?thesis by (intro reward_credits_only [OF d2(2)]) simp
  qed
qed

lemma code_table: "createActiveReferralCode d u rnd = Inr (d', r) \<Longrightarrow> \<exists>t. d' = d\<lparr>db_referral_codes := t\<rparr>"
  by (drule createActiveReferralCode_Inr) metis

lemma code_credits_only:
  "createActiveReferralCode d1 u rnd = Inr (d2, r) \<Longrightarrow> credits_only d d1 \<Longrightarrow> credits_only d d2"
  by (drule code_table) auto

lemma create_account_credits_only:
  assumes "create_credit_account d1 u bonus = Inr d'" "credits_only d d1"
  shows "credits_only d d'"
proof -
  from assms(1) obtain t where "d' = d1\<lparr>db_credit_accounts := t\<rparr> \<or>
      (\<exists>n e. create_credit_event (d1\<lparr>db_credit_accounts := t\<rparr>) (bonus_event CreditEventTypeSignupBonus u n) = Inr (d', e))"
    by (auto simp: create_credit_account_def Let_def bindE_Inr_iff split: if_splits)
  then show ?thesis using assms(2) by (auto simp: bonus_event_def dest!: credits_only_event [of _ _ _ _ d])
qed

lemma bind_credits_only:
  assumes "bind_invitee cfg d1 u code = Inr d'" "credits_only d d1"
  shows "credits_only d d'"
proof -
  from assms(1) consider "d' = d1"
    | t where "d' = d1\<lparr>db_referral_bindings := t\<rparr>"
    | t d2 e n where "create_credit_event (d1\<lparr>db_referral_bindings := t\<rparr>)
        (bonus_event CreditEventTypeInviteeBonus u n) = Inr (d2, e)" "creditAccountLocked d2 u (Some n) = Inr d'"
    by (auto simp: bind_invitee_def Let_def bindE_Inr_iff split: option.splits sum.splits if_splits)
  then show ?thesis
  proof cases
    case (3 t d2 e n)
    then have "credits_only d d2" using assms(2) credits_only_event [OF 3(1), of d] by (simp add: bonus_event_def)
    then show ?thesis using 3(2) by (auto simp: creditAccountLocked_def res_simps split: if_splits)
  qed (use assms(2) in auto)
qed

lemma preserves_ensure_user [preserving]:
  assumes "EnsureUserWithReferral cfg rnd d address code = (d', res)"
  shows "preserves d d'"
proof (rule preserves_credits)
  show "ledger_inv d'" if "ledger_inv d" using that ensure_user_off [OF _ assms] by (simp add: ledger_inv_def)
  from assms consider "d' = d" | u where "create_user_tx cfg rnd d address (TrimSpace code) = Inr (d', u)"
    by (auto simp: EnsureUserWithReferral_def split: option.splits sum.splits)
  then show "credits_only d d'"
  proof cases
    case 2
    then consider "d' = d"
      | t c d1 d2 r where "create_credit_account (d\<lparr>db_users := t\<rparr>) c (cc_signup_bonus cfg) = Inr d1"
        "createActiveReferralCode d1 c rnd = Inr (d2, r)" "bind_invitee cfg d2 c (TrimSpace code) = Inr d'"
      by (auto simp: create_user_tx_def bindE_Inr_iff of_option_Inr_iff split: sum.splits if_splits)
    then show ?thesis
    proof cases
      case (2 t c d1 d2 r)
      show ?thesis
        by (rule bind_credits_only [OF 2(3)], rule code_credits_only [OF 2(2)], rule create_account_credits_only [OF 2(1)]) simp
    qed simp
  qed simp
qed

lemma preserves_codes [preserving]:
  "EnsureActiveReferralCode rnd d u = Inr (d', r) \<Longrightarrow> preserves d d'"
  "ResetReferralCode rnd d u = Inr (d', r) \<Longrightarrow> preserves d d'"
proof -
  have codes: "preserves d (d\<lparr>db_referral_codes := t\<rparr>)" for t
    by (rule preserves_credits) (auto intro: ledger_inv_frame)
  show "preserves d d'" if "EnsureActiveReferralCode rnd d u = Inr (d', r)"
    using that codes by (auto simp: EnsureActiveReferralCode_def split: option.splits dest!: code_table)
  show "preserves d d'" if "ResetReferralCode rnd d u = Inr (d', r)"
    using that codes by (auto simp: ResetReferralCode_def dest!: code_table)
qed

text \<open>In a consistent state the reconciliation changes nothing.\<close>

lemma reconcile_good: "ledger_inv d \<Longrightarrow> reconcile_user d u = Inr (d', c) \<Longrightarrow> d' = d"
  by (auto simp: reconcile_user_def res_simps sumHeld_held_of Let_def split: if_splits dest: ledger_invD)

lemma preserves_reconcile [preserving]:
  assumes "ReconcileCreditsLocked order d = (d', n, err)"
  shows "preserves d d'"
proof -
  have "ledger_inv d \<Longrightarrow> fst (reconcile_loop d us c) = d" for us c
  proof (induction us arbitrary: c)
    case (Cons u us)
    show ?case
    proof (cases "reconcile_user d u")
      case (Inr r)
      then have "fst r = d" using reconcile_good [OF Cons.prems, of u] by (metis prod.collapse)
      with Inr Cons show ?thesis by (cases r) simp
    qed simp
  qed simp
  then have "ledger_inv d \<Longrightarrow> d' = d" using assms by (metis ReconcileCreditsLocked_def fst_conv)
  then show ?thesis by (auto simp: preserves_def goodD evolves_same)
qed

subsection \<open>Earnings\<close>

definition earnings_only :: "db \<Rightarrow> db \<Rightarrow> bool" where
  "earnings_only d d' \<longleftrightarrow> db_task_jobs d' = db_task_jobs d \<and> db_call_records d' = db_call_records d \<and>
     db_stats d' = db_stats d \<and> db_credit_events d' = db_credit_events d \<and>
     db_credit_accounts d' = db_credit_accounts d \<and> db_shared_keys d' = db_shared_keys d"

lemma earnings_only_update [simp, intro]:
  assumes "earnings_only d d1"
  shows "earnings_only d (save_earning d1 a)" "earnings_only d (d1\<lparr>db_withdrawals := t\<rparr>)"
  using assms by (simp_all add: earnings_only_def save_earning_def)

lemma earnings_only_refl [simp, intro]: "earnings_only d d"
  by (simp add: earnings_only_def)

lemma earnings_only_event: "create_earning_event d1 mk = Inr (d2, e) \<Longrightarrow> earnings_only d d1 \<Longrightarrow> earnings_only d d2"
  by (auto simp: create_earning_event_Inr earnings_only_def)

lemma earnings_only_event_or_dup:
  assumes "(case create_earning_event d1 mk of Inr (d2, _) \<Rightarrow> Inr d2 | Inl e \<Rightarrow> if e = ErrDuplicatedKey then Inr d3 else Inl e) = Inr d'"
    "earnings_only d d1" "earnings_only d d3"
  shows "earnings_only d d'"
  using assms earnings_only_event [of d1 mk] by (auto split: sum.splits if_splits)

lemma preserves_earnings_only:
  assumes "earnings_only d d'" "earning_inv d \<Longrightarrow> earning_inv d'"
  shows "preserves d d'"
  using assms by (intro preserves_earnings) (auto simp: earnings_only_def keys_wf_def)

lemma preserves_create_withdrawal [preserving]:
  assumes "CreateWithdrawal cfg env d inp = Inr (d', w)"
  shows "preserves d d'"
proof (rule preserves_earnings_only)
  obtain user amount fee benefit fp and n :: wallet_network_config where c: "0 < amount" "0 \<le> fee"
    "create_withdrawal_tx inp (we_now env) (wn_max_withdrawals_per_day n) d user benefit amount fee fp = Inr (d', w)"
    by (rule CreateWithdrawal_Inr [OF assms])
  show "earning_inv d'" if "earning_inv d"
    using that create_withdrawal_off [OF _ _ c(3,1,2)] by (simp add: earning_inv_def)
  obtain a :: earning_account and t d2 e and w0 :: earning_withdrawal where "create_earning_event (d\<lparr>db_withdrawals := t\<rparr>)
       (earning_event_of (Some (ea_id a)) (u_address user) EarningEventTypeWithdraw (amount + fee)
          EarningSourceTypeWithdrawal (ew_id w0)) = Inr (d2, e)"
    "d' = save_earning (d2\<lparr>db_withdrawals := tbl_modify (\<lambda>x. ew_id x = ew_id w0)
                 (\<lambda>x. x\<lparr>ew_earning_event_id := Some (ee_id e)\<rparr>) (db_withdrawals d2)\<rparr>)
       (a\<lparr>ea_available := ea_available a - (amount + fee),
          ea_withdrawal_locked := ea_withdrawal_locked a + (amount + fee)\<rparr>)"
    by (rule create_withdrawal_tx_Inr [OF c(3)])
  then show "earnings_only d d'" using earnings_only_event [of _ _ d2 e d] by simp
qed

lemma preserves_fulfill [preserving]:
  assumes "FulfillWithdrawal cfg d k tx = Inr d'"
  shows "preserves d d'"
proof (rule preserves_earnings_only)
  obtain w where w: "withdrawal_by d k = Some w" "earn_acct d (ew_user_id w) \<noteq> None"
    "ew_status w = EarningWithdrawalStatusSuccess \<and> d' = d \<or> ew_status w = EarningWithdrawalStatusPending"
    using assms by (auto simp: FulfillWithdrawal_def res_simps split: if_splits)
  show "earning_inv d'" if "earning_inv d"
    using w fulfill_pending [OF that w(1), of _ cfg tx] assms that by auto
  show "earnings_only d d'"
    using assms by (auto simp: FulfillWithdrawal_def bindE_Inr_iff rejectIf_Inr_iff Let_def split: if_splits
        dest!: earnings_only_event_or_dup [of _ _ _ _ d])
qed

lemma preserves_reject [preserving]:
  assumes "RejectWithdrawal d k = Inr d'"
  shows "preserves d d'"
proof (rule preserves_earnings_only)
  obtain w where w: "withdrawal_by d k = Some w" "earn_acct d (ew_user_id w) \<noteq> None"
    "ew_status w = EarningWithdrawalStatusFailed \<and> d' = d \<or>
     ew_status w = EarningWithdrawalStatusPending \<and> tbl_lookup u_id (ew_user_id w) (db_users d) \<noteq> None"
    using assms by (auto simp: RejectWithdrawal_def res_simps split: if_splits)
  show "earning_inv d'" if "earning_inv d"
    using w reject_pending [OF that w(1)] assms that by auto
  show "earnings_only d d'"
    using assms by (auto simp: RejectWithdrawal_def bindE_Inr_iff rejectIf_Inr_iff Let_def split: if_splits
        dest!: earnings_only_event_or_dup [of _ _ _ _ d])
qed

subsection \<open>Keys\<close>

lemma preserves_keys:
  assumes "keys_wf d \<Longrightarrow> tbl_wf sk_id t"
  shows "preserves d (set_keys d t)"
  using assms by (intro preserves_earnings) (auto simp: set_keys_def keys_wf_def intro: earning_inv_frame)

lemma preserves_save_key:
  assumes "keys_wf d \<Longrightarrow> key_by d (sk_id r) \<noteq> None"
  shows "preserves d (save_key d r)"
  unfolding save_key_def
  by (rule preserves_keys) (use assms keys_wf_save [of d r] in \<open>auto simp: keys_wf_def save_key_def\<close>)

lemma found_key: "GetSharedAPIKeyByPublicID d u p = Inr r \<Longrightarrow> keys_wf d \<Longrightarrow> key_by d (sk_id r) = Some r"
  by (auto simp: GetSharedAPIKeyByPublicID_def res_simps intro: find_key_by)

lemma preserves_owner_keys [preserving]:
  "setSharedAPIKeyEnabled b d u p = Inr (d', r) \<Longrightarrow> preserves d d'"
  "DeleteSharedAPIKey now d u p = Inr d' \<Longrightarrow> preserves d d'"
  "UpdateSharedAPIKeyLimits d u p mi mo = Inr (d', r) \<Longrightarrow> preserves d d'"
  "ResetSharedAPIKeyUsage d u p = Inr (d', r) \<Longrightarrow> preserves d d'"
  by (auto simp: setSharedAPIKeyEnabled_def DeleteSharedAPIKey_def UpdateSharedAPIKeyLimits_def ResetSharedAPIKeyUsage_def
      bindE_Inr_iff rejectIf_Inr_iff Let_def found_key intro!: preserves_save_key split: if_splits)

lemma preserves_create_key [preserving]:
  assumes "CreateSharedAPIKey cfg services cipher validate token d u p secret = Inr (d', r)"
  shows "preserves d d'"
proof -
  obtain t row where t: "d' = set_keys d t" "rows t = rows (db_shared_keys d) @ [row]" "next_id t = Suc (next_id (db_shared_keys d))"
    "sk_id row = next_id (db_shared_keys d)"
    using assms by (auto simp: CreateSharedAPIKey_def res_simps Let_def key_row_of_def split: option.splits)
  have "tbl_wf sk_id t" if "keys_wf d"
    using that tbl_wf_create [of sk_id "db_shared_keys d" row] t(2-4) by (metis keys_wf_def table.equality table.select_convs old.unit.exhaust)
  then show ?thesis unfolding t(1) by (rule preserves_keys)
qed

lemma preserves_scheduler_keys [preserving]:
  "RecordSharedAPIKeyUnavailable cfg now d k = Inr d' \<Longrightarrow> preserves d d'"
  "preserves d (ClearSharedAPIKeyUnavailable d k)"
proof -
  show "preserves d d'" if "RecordSharedAPIKeyUnavailable cfg now d k = Inr d'"
    using that key_byD [of d k] by (auto simp: RecordSharedAPIKeyUnavailable_def res_simps Let_def intro!: preserves_save_key)
  show "preserves d (ClearSharedAPIKeyUnavailable d k)"
    unfolding ClearSharedAPIKeyUnavailable_def
    by (rule preserves_keys) (auto simp: keys_wf_def intro: tbl_wf_modify)
qed

subsection \<open>Usage statistics\<close>

definition stats_only :: "db \<Rightarrow> db \<Rightarrow> bool" where
  "stats_only d d' \<longleftrightarrow> usage_same d d' \<and> (\<exists>s t. d' = d\<lparr>db_stats := s, db_projects := t\<rparr>)"

lemma preserves_stats_only: "stats_only d d' \<Longrightarrow> preserves d d'"
  by (auto simp: stats_only_def usage_same_def intro!: preserves_usage intro: usage_inv_same [where d = d])

lemma stats_onlyI:
  assumes "d' = d\<lparr>db_stats := s, db_projects := t\<rparr>" "st_pending s = st_pending (db_stats d)"
    "st_account_hourly s = st_account_hourly (db_stats d)" "st_project_hourly s = st_project_hourly (db_stats d)"
    "st_model_10m s = st_model_10m (db_stats d)" "st_duration_10m s = st_duration_10m (db_stats d)"
  shows "stats_only d d'"
  using assms by (auto simp: stats_only_def usage_same_def charges_def)

lemma stats_only_projects: "stats_only d (d\<lparr>db_projects := t\<rparr>)"
  by (rule stats_onlyI [where s = "db_stats d" and t = t]) simp_all

lemma stats_only_refl: "stats_only d d"
  using stats_only_projects [of d "db_projects d"] by simp

lemma stats_only_trans:
  assumes "stats_only d d1" "stats_only d1 d2"
  shows "stats_only d d2"
proof -
  obtain s t s' t' where "d1 = d\<lparr>db_stats := s, db_projects := t\<rparr>" "d2 = d1\<lparr>db_stats := s', db_projects := t'\<rparr>"
    using assms by (auto simp: stats_only_def)
  then have "d2 = d\<lparr>db_stats := s', db_projects := t'\<rparr>" by simp
  moreover have "usage_same d d1" "usage_same d1 d2" using assms by (simp_all add: stats_only_def)
  then have "usage_same d d2" by (simp add: usage_same_def)
  ultimately show ?thesis unfolding stats_only_def by blast
qed

lemma preserves_aggregation [preserving]:
  assumes "RunUsageStatsBaseAggregation order d = Inr (d', n)"
  shows "preserves d d'"
  unfolding preserves_def
proof
  assume g: "good d"
  have wf: "tbl_wf cr_id (db_call_records d)" using goodD(2) [OF g] by (simp add: jobs_inv_def)
  obtain t s where r: "d' = d\<lparr>db_stats := s, db_projects := t\<rparr>" "usage_inv d'"
    "st_pending s = filter (\<lambda>p. p \<notin> set (batch_ids d)) (st_pending (db_stats d))"
    by (rule aggregation_exact [OF goodD(6) [OF g] wf, of order]) (use assms in auto)
  have "preserves d d'" unfolding r(1) by (rule preserves_usage) (use r in auto)
  with g show "good d' \<and> evolves d d'" by (simp add: preserves_def)
qed

lemma recent_stats_only: "refreshProjectRecentFailureWindowCounts d p now w = Inr d' \<Longrightarrow> stats_only d d'"
  by (drule recent_shape) (auto simp: set_recent_counts_def stats_only_projects)

lemma preserves_snapshots [preserving]:
  "ClaimDirtyProjectsForSnapshot now d limit = (d', claimed) \<Longrightarrow> preserves d d'"
  "RefreshProjectUsageSnapshots configured now d p g = Inr d' \<Longrightarrow> preserves d d'"
  "ClearStaleProjectDaySummaries d now limit = (d', n) \<Longrightarrow> preserves d d'"
  "RefreshRecentFailureWindowCounts configured d now limit = Inr (d', n) \<Longrightarrow> preserves d d'"
proof -
  show "preserves d d'" if "ClaimDirtyProjectsForSnapshot now d limit = (d', claimed)"
    using that
    by (intro preserves_stats_only stats_onlyI [where s = "db_stats d'" and t = "db_projects d"])
      (auto simp: ClaimDirtyProjectsForSnapshot_def Let_def)
  show "preserves d d'" if "RefreshProjectUsageSnapshots configured now d p g = Inr d'"
    using that
    by (rule refresh_shape, intro preserves_stats_only stats_onlyI [where s = "db_stats d'" and t = "db_projects d'"])
      (simp_all add: rebuild_same set_recent_counts_def refreshProjectUsageSummaryDay_def Let_def)
  have "stats_only d1 (fold (\<lambda>project d. d\<lparr>db_projects := f project (db_projects d)\<rparr>) ps d1)" for f and ps :: "project list" and d1
  proof (induction ps arbitrary: d1)
    case (Cons p ps)
    from stats_only_trans [OF stats_only_projects Cons.IH] show ?case by simp
  qed (simp add: stats_only_refl)
  then show "preserves d d'" if "ClearStaleProjectDaySummaries d now limit = (d', n)"
    using that by (intro preserves_stats_only) (auto simp: ClearStaleProjectDaySummaries_def Let_def)
  have loop: "refresh_recent t w ps d1 = Inr d2 \<Longrightarrow> stats_only d1 d2" for t w ps d1 d2
    by (induction ps arbitrary: d1)
      (auto simp: bindE_Inr_iff stats_only_refl intro: stats_only_trans [OF recent_stats_only])
  show "preserves d d'" if "RefreshRecentFailureWindowCounts configured d now limit = Inr (d', n)"
    using that loop by (intro preserves_stats_only) (auto simp: RefreshRecentFailureWindowCounts_def Let_def bindE_Inr_iff)
qed

subsection \<open>Jobs\<close>

lemma preserves_admission [preserving]:
  "ReserveCreditsAndCreateTaskJob cfg seed token now d inp = Inr (d', job) \<Longrightarrow> preserves d d'"
  "ReserveCreditsAndCreateRawTaskJob seed now d rinp = Inr (d', job) \<Longrightarrow> preserves d d'"
  "ReserveCreditsAndCreateProviderTaskJob now d pinp = Inr (d', job) \<Longrightarrow> preserves d d'"
proof -
  have p: "admits (pr_user_id project) credits (provider_row_of pinp now project priority credits billing)"
    for project credits priority billing by (simp add: admits_def provider_row_of_def)
  show "preserves d d'" if "ReserveCreditsAndCreateTaskJob cfg seed token now d inp = Inr (d', job)"
    using that by (auto simp: ReserveCreditsAndCreateTaskJob_def bindE_Inr_iff rejectIf_Inr_iff
        intro: preserves_admitting [OF job_row_admits(1)])
  show "preserves d d'" if "ReserveCreditsAndCreateRawTaskJob seed now d rinp = Inr (d', job)"
    using that by (auto simp: ReserveCreditsAndCreateRawTaskJob_def bindE_Inr_iff rejectIf_Inr_iff
        intro: preserves_admitting [OF job_row_admits(2)])
  show "preserves d d'" if "ReserveCreditsAndCreateProviderTaskJob now d pinp = Inr (d', job)"
    using that by (auto simp: ReserveCreditsAndCreateProviderTaskJob_def bindE_Inr_iff rejectIf_Inr_iff
        intro: preserves_admitting [OF p])
qed

lemma preserves_closing:
  assumes j: "job_by d n = Some j" and open_job: "tj_task_call_record_id j = None \<or> \<not> IsTerminal j"
    and rel: "releaseCreditsHoldTx d j = Inr (d1, locked)" and proc: "processTaskCallTx wl d1 inp = Inr (d2, rid)" and inp: "in_task_job_id inp = Some (tj_id locked)"
    and f: "tj_credits_lock_status locked = TaskJobCreditsLockReleased \<Longrightarrow> closes (in_status inp) rid f"
    and d': "d' = update_job d2 (tj_id locked) f"
  shows "preserves d d'"
  unfolding preserves_def
proof
  assume g: "good d"
  have o: "tj_task_call_record_id j = None"
    using open_job jobs_invD(1) [OF goodD(2) [OF g] j] job_ok_open by blast
  obtain a where r: "d1 = update_job (save_account d a) n released" "locked = released j"
    using release_exact [OF goodD(1,2) [OF g] j o] rel by (metis Inr_inject prod.inject)
  have n: "tj_id locked = n" using job_byD [OF j] by (simp add: r(2))
  have d'': "d' = update_job d2 n f" by (simp add: d' n)
  have inv: "earning_inv d'" "keys_wf d'"
    using goodD(4,5) [OF g] earning_inv_frame [of d d'] process_tables [OF proc] by (simp_all add: d'' r(1) keys_wf_def)
  have cl: "closes (in_status inp) rid f" by (rule f) (simp add: r(2))
  show "good d' \<and> evolves d d'"
    by (rule closing_preserves [OF g j o rel proc inp [unfolded n] cl]) (simp_all add: d'' inv [unfolded d''])
qed

lemmas preserves_closing' = preserves_closing [OF _ _ _ _ _ _ refl]

lemma preserves_settle [preserving]:
  assumes "CompleteAndSettleTaskJob cfg cache wl now d job raw formatted p c t = Inr (d', job')"
  shows "preserves d d'"
proof -
  from assms obtain job credits where "d' = d \<or> complete_tx wl now d job raw formatted p c t credits = Inr (d', job')"
    by (auto simp: CompleteAndSettleTaskJob_def bindE_Inr_iff rejectIf_Inr_iff split: if_splits)
  then consider "d' = d" | "d' \<noteq> d" "complete_tx wl now d job raw formatted p c t credits = Inr (d', job')" by blast
  then show ?thesis
  proof cases
    case 2
    then show ?thesis
      by (auto simp: complete_tx_def bindE_Inr_iff of_option_Inr_iff Let_def split: if_splits)
        (rule preserves_closing', assumption, simp, assumption, assumption, simp, simp add: closes_complete)+
  qed simp
qed

lemma preserves_settle_image [preserving]:
  assumes "CompleteAndSettleImageTaskJob wl now d job = Inr (d', job')"
  shows "preserves d d'"
proof (cases "d' = d")
  case False
  with assms show ?thesis
    by (auto simp: CompleteAndSettleImageTaskJob_def bindE_Inr_iff rejectIf_Inr_iff of_option_Inr_iff Let_def
        split: if_splits option.splits)
      (rule preserves_closing', assumption, simp, assumption, assumption, simp, simp add: closes_image)
qed simp

lemma preserves_fail [preserving]:
  assumes "FailAndRecordTaskJob cfg cache wl now d job msg = Inr (d', job')"
  shows "preserves d d'"
proof (cases "d' = d")
  case False
  with assms show ?thesis
    by (auto simp: FailAndRecordTaskJob_def fail_tx_def bindE_Inr_iff rejectIf_Inr_iff of_option_Inr_iff Let_def
        split: if_splits)
      (rule preserves_closing', assumption, simp, assumption, assumption, simp, simp add: closes_failed)
qed simp

lemma preserves_fail_provider [preserving]:
  assumes "FailProviderTaskJob wl now now' d n k msg = Inr d'"
  shows "preserves d d'"
proof (cases "d' = d")
  case False
  with assms show ?thesis
    by (auto simp: FailProviderTaskJob_def bindE_Inr_iff of_option_Inr_iff split: if_splits)
      (rule preserves_closing', assumption, simp, assumption, assumption, simp, simp add: closes_provider)
qed simp

lemma preserves_settle_provider [preserving]:
  assumes "SettleProviderTaskJob wl now now' d job k u addr raw formatted usage = Inr d'"
  shows "preserves d d'"
proof (cases "d' = d")
  case False
  show ?thesis
    unfolding preserves_def
  proof
    assume g: "good d"
    obtain row where row: "job_by d (tj_id job) = Some row" "tj_task_call_record_id row = None"
      using assms False by (auto simp: SettleProviderTaskJob_def bindE_Inr_iff of_option_Inr_iff split: if_splits)
    obtain price a0 d1 d2 rid d3 d4 where s: "releaseCreditsHoldTx d row = Inr (d1, released row)"
      "d1 = update_job (save_account d a0) (tj_id job) released"
      "processTaskCallTx wl d1 (provider_success_call (released row) k usage price now) = Inr (d2, rid)"
      "AddSharedAPIKeyUsageTx d2 k (pu_input usage) (pu_output usage) = Inr d3"
      "CreateTaskIncomeEarningTx d3 u addr (Some (pp_earning_wei price)) rid = Inr d4"
      "d' = update_job d4 (tj_id job) (provider_complete_row now' raw formatted rid)"
      by (rule settle_provider_parts [OF goodD(1,2) [OF g] row assms])
    note t2 = process_tables [OF s(3)]
    note t3 = add_usage_tables [OF s(4)]
    note t4 = income_tables [OF s(5)]
    have "earning_inv d3"
      by (rule earning_inv_frame [OF goodD(4) [OF g]]) (simp_all add: t3 t2(7-9) s(2))
    then have "earning_inv d4" using s(5) by (rule income_exact(1))
    then have e: "earning_inv d'" by (rule earning_inv_frame) (simp_all add: s(6))
    have k2: "keys_wf d2" by (rule keys_wf_frame [OF goodD(5) [OF g]]) (simp add: t2(6) s(2))
    have "keys_wf d3"
    proof (cases "pu_input usage = 0 \<and> pu_output usage = 0")
      case True
      then show ?thesis using k2 s(4) by (simp add: AddSharedAPIKeyUsageTx_def)
    next
      case False
      then obtain r r' where "key_by d2 k = Some r" "d3 = save_key d2 r'" "sk_id r' = sk_id r"
        using s(4) by (auto simp: AddSharedAPIKeyUsageTx_def res_simps)
      with key_byD [of d2 k r] show ?thesis using keys_wf_save [OF k2, of r'] by simp
    qed
    then have k: "keys_wf d'" using t4 by (simp add: keys_wf_def s(6))
    have id: "in_task_job_id (provider_success_call (released row) k usage price now) = Some (tj_id job)"
      using job_byD [OF row(1)] by simp
    have cl: "closes (in_status (provider_success_call (released row) k usage price now)) rid
        (provider_complete_row now' raw formatted rid)" by (simp add: closes_provider)
    have tabs: "db_task_jobs d' = db_task_jobs (update_job d2 (tj_id job) (provider_complete_row now' raw formatted rid))"
      "db_call_records d' = db_call_records d2" "db_credit_accounts d' = db_credit_accounts d2"
      "db_credit_events d' = db_credit_events d2" "db_stats d' = db_stats d2"
      using t3 t4 by (simp_all add: s(6))
    show "good d' \<and> evolves d d'" by (rule closing_preserves [OF g row s(1,3) id cl tabs e k])
  qed
qed simp

text \<open>Progress, retention and the claim of a provider job.\<close>

lemma preserves_progress [preserving]:
  "preserves d (fst (UpdateTaskJobBridgeTask now d n b))" "preserves d (ResetTaskJobToPending d n)"
  "status \<in> {TaskJobStatusSubmitted, TaskJobStatusInProgress} \<Longrightarrow> preserves d (UpdateTaskJobPhase d n status phase eta)"
  unfolding UpdateTaskJobBridgeTask_def ResetTaskJobToPending_def UpdateTaskJobPhase_def Let_def fst_conv
  by (rule preserves_moving; force simp: moves_def IsTerminal_def)+

lemma preserves_retention [preserving]:
  assumes "DeleteExpiredTerminalTaskJobs now d days = Inr (d', n)"
  shows "preserves d d'"
  unfolding preserves_def
proof
  assume g: "good d"
  have wf: "tbl_wf tj_id (db_task_jobs d)" using goodD(2) [OF g] by (simp add: jobs_inv_def)
  obtain q where q: "d' = set_jobs d (tbl_delete q (db_task_jobs d))"
    "\<forall>j \<in> set (rows (db_task_jobs d)). q j \<longrightarrow> expired (TaskJobRetentionCutoff now days) j"
    using batch_filter [OF assms wf] by metis
  have "preserves d d'" unfolding q(1) by (rule preserves_deleting) (use q(2) in \<open>auto simp: expired_def\<close>)
  with g show "good d' \<and> evolves d d'" by (simp add: preserves_def)
qed

lemma update_job_where: "job_by d n = Some j \<Longrightarrow> good d \<Longrightarrow> p j \<Longrightarrow> update_job d n f = update_where d n p f"
proof -
  assume a: "job_by d n = Some j" "good d" "p j"
  have "x = j" if "x \<in> set (rows (db_task_jobs d))" "tj_id x = n" for x
    using that a by (auto simp: job_by_row [OF a(2)])
  then have "tbl_modify (\<lambda>j. tj_id j = n) f (db_task_jobs d) = tbl_modify (\<lambda>j. tj_id j = n \<and> p j) f (db_task_jobs d)"
    using a(3) by (intro table.equality) auto
  then show ?thesis by (simp add: update_job_def update_where_def)
qed

lemma preserves_claim [preserving]:
  assumes "claimProviderJob now now' d n = Inr (d', c)"
  shows "preserves d d'"
proof (cases c)
  case False
  with assms show ?thesis by (auto simp: claimProviderJob_def bindE_Inr_iff of_option_Inr_iff split: if_splits)
next
  case True
  then obtain job where j: "job_by d n = Some job" "tj_status job = TaskJobStatusPendingSubmit"
    and d': "d' = update_job d (tj_id job) (\<lambda>j. j\<lparr>tj_status := TaskJobStatusSubmitted,
         tj_started_at := (case tj_started_at job of None \<Rightarrow> Some now' | Some t \<Rightarrow> Some t), tj_phase := ''running''\<rparr>)"
    using assms by (auto simp: claimProviderJob_def bindE_Inr_iff of_option_Inr_iff split: if_splits)
  have n: "tj_id job = n" using job_byD [OF j(1)] by simp
  show ?thesis
    unfolding preserves_def
  proof
    assume g: "good d"
    have "preserves d d'"
      unfolding d' n update_job_where [OF j(1) g, of "\<lambda>j. tj_status j = TaskJobStatusPendingSubmit", OF j(2)]
      by (rule preserves_moving) (auto simp: moves_def IsTerminal_def)
    with g show "good d' \<and> evolves d d'" by (simp add: preserves_def)
  qed
qed

text \<open>The handler of a streamed request publishes the job it has just admitted.\<close>

lemma preserves_publish [preserving]:
  assumes "job_by d n = Some j" "\<not> IsTerminal j"
  shows "preserves d (publish_stream_job d n)"
  unfolding preserves_def
proof
  assume g: "good d"
  have "preserves d (publish_stream_job d n)"
    unfolding publish_stream_job_def update_job_where [OF assms(1) g, of "\<lambda>j. \<not> IsTerminal j", OF assms(2)]
    by (rule preserves_moving) (auto simp: moves_def IsTerminal_def)
  with g show "good (publish_stream_job d n) \<and> evolves d (publish_stream_job d n)" by (simp add: preserves_def)
qed

end
