(* ===== verification/Deposit_Scanner.thy ===== *)
theory Deposit_Scanner
  imports Accounts
begin

text \<open>
  The deposit scanner (\<open>service/blockchain_processor.go\<close>, \<open>models/blockchain_cursor.go\<close>): on every tick a network's
  worker reads the logs of the next range of confirmed blocks, credits every transfer of a
  registered wallet, and moves the network's cursor only when every log of the range has been handled.
  The RPC answers are arguments; so are go-ethereum's encodings of addresses and hashes.
\<close>

subsection \<open>Logs\<close>

text \<open>\<open>types.Log\<close>: addresses have 20 bytes, topics and hashes 32.\<close>

record chain_log =
  lg_address :: "160 word"
  lg_topics :: "256 word list"
  lg_data :: "8 word list"
  lg_tx_hash :: "256 word"
  lg_index :: nat

text \<open>\<open>Address.Hex\<close>, \<open>HexToAddress\<close>, \<open>Hash.Hex\<close> and the hash of the transfer event.\<close>

record eth_library =
  eth_hex :: "160 word \<Rightarrow> string"
  eth_from_hex :: "string \<Rightarrow> 160 word"
  eth_hash_hex :: "256 word \<Rightarrow> string"
  eth_transfer_topic :: "256 word"

text \<open>\<open>big.Int.SetBytes\<close>: big-endian and unsigned.\<close>

definition set_bytes :: "8 word list \<Rightarrow> int" where
  "set_bytes bs = foldl (\<lambda>n b. n * 256 + uint b) 0 bs"

text \<open>\<open>BytesToAddress\<close> keeps the last 20 bytes of the topic.\<close>

definition parseERC20TransferLog :: "eth_library \<Rightarrow> chain_log \<Rightarrow> (string \<times> int) option" where
  "parseERC20TransferLog eth l =
     (case lg_topics l of
        [t0, t1, t2] \<Rightarrow>
          if t0 \<noteq> eth_transfer_topic eth then None
          else
            let amount = set_bytes (lg_data l); fromAddress = eth_hex eth (ucast t1) in
            if amount \<le> 0 then None
            else if fromAddress = eth_hex eth 0 then None
            else Some (fromAddress, amount)
      | _ \<Rightarrow> None)"

text \<open>The map from contract to token name; a later token of the same contract replaces an earlier one.\<close>

definition tokenByAddress :: "eth_library \<Rightarrow> blockchain_config \<Rightarrow> string \<Rightarrow> string option" where
  "tokenByAddress eth cfg =
     fold (\<lambda>(name, token) m. m(ToLower (eth_hex eth (eth_from_hex eth (tk_address token))) \<mapsto> name)) (bc_tokens cfg)
       (\<lambda>_. None)"

text \<open>The Go map of tokens has one entry per name.\<close>

definition token_named :: "blockchain_config \<Rightarrow> string \<Rightarrow> token_config" where
  "token_named cfg name =
     (case map_of (bc_tokens cfg) name of
        Some t \<Rightarrow> t | None \<Rightarrow> \<lparr>tk_address = [], tk_decimals = 0, tk_credits_per_token = 0\<rparr>)"

definition processERC20DepositLog ::
  "eth_library \<Rightarrow> credits_config \<Rightarrow> string \<Rightarrow> blockchain_config \<Rightarrow> db \<Rightarrow> chain_log \<Rightarrow> err + db" where
  "processERC20DepositLog eth ccfg network cfg d l =
     (case tokenByAddress eth cfg (ToLower (eth_hex eth (lg_address l))) of
        None \<Rightarrow> Inr d
      | Some tokenName \<Rightarrow>
          (case parseERC20TransferLog eth l of
             None \<Rightarrow> Inr d
           | Some (fromAddress, amount) \<Rightarrow>
               let token = token_named cfg tokenName in
               bindE (ConvertTokenAmountToCredits (Some amount) (tk_decimals token) (tk_credits_per_token token)) (\<lambda>credits.
               if credits \<le> 0 then Inr d
               else
                 let normalizedFrom = eth_hex eth (eth_from_hex eth fromAddress) in
                 case tbl_lookup u_address normalizedFrom (db_users d) of
                   None \<Rightarrow> Inr d
                 | Some user \<Rightarrow>
                     ProcessDeposit ccfg d
                       \<lparr>pd_user_id = u_id user, pd_network = network, pd_token = tokenName,
                        pd_tx_hash = eth_hash_hex eth (lg_tx_hash l), pd_log_index = lg_index l,
                        pd_from_address = normalizedFrom, pd_amount = Some amount, pd_credits = Some credits\<rparr>)))"

text \<open>\<open>other i\<close> is what other processes do before the \<open>i\<close>-th log; each log has a transaction of its own.\<close>

fun process_logs ::
  "eth_library \<Rightarrow> credits_config \<Rightarrow> string \<Rightarrow> blockchain_config \<Rightarrow> (nat \<Rightarrow> db \<Rightarrow> db) \<Rightarrow> nat \<Rightarrow> db \<Rightarrow> chain_log list \<Rightarrow> db \<times> err option" where
  "process_logs eth ccfg network cfg other i d [] = (d, None)"
| "process_logs eth ccfg network cfg other i d (l # ls) =
     (let d1 = other i d in
      case processERC20DepositLog eth ccfg network cfg d1 l of
        Inl e \<Rightarrow> (d1, Some e)
      | Inr d2 \<Rightarrow> process_logs eth ccfg network cfg other (i + 1) d2 ls)"

subsection \<open>Ticks\<close>

text \<open>What a tick meets: the answers of the RPC node and the other processes.\<close>

record scan_env =
  se_latest :: "err + u64"
  se_logs :: "u64 \<Rightarrow> u64 \<Rightarrow> err + chain_log list"
  se_other :: "nat \<Rightarrow> db \<Rightarrow> db"

definition processERC20DepositLogs ::
  "eth_library \<Rightarrow> credits_config \<Rightarrow> string \<Rightarrow> blockchain_config \<Rightarrow> scan_env \<Rightarrow> db \<Rightarrow> u64 \<Rightarrow> u64 \<Rightarrow> db \<times> err option" where
  "processERC20DepositLogs eth ccfg network cfg env d startBlock endBlock =
     (case se_logs env startBlock endBlock of
        Inl e \<Rightarrow> (d, Some e)
      | Inr ls \<Rightarrow> process_logs eth ccfg network cfg (se_other env) 1 d ls)"

definition GetBlockchainCursor :: "db \<Rightarrow> string \<Rightarrow> u64 \<Rightarrow> db \<times> u64" where
  "GetBlockchainCursor d network startBlockNum =
     (case db_cursors d network of
        Some n \<Rightarrow> (d, n)
      | None \<Rightarrow> (d\<lparr>db_cursors := (db_cursors d)(network \<mapsto> startBlockNum)\<rparr>, startBlockNum))"

text \<open>The blocks of a tick, when there are any.\<close>

definition scan_range :: "blockchain_config \<Rightarrow> u64 \<Rightarrow> u64 \<Rightarrow> u64 \<times> u64" where
  "scan_range cfg last_block confirmedTip =
     (let startBlock = last_block + 1; endBlock = confirmedTip in
      (startBlock, if bc_log_block_range cfg < endBlock - startBlock + 1 then startBlock + bc_log_block_range cfg - 1 else endBlock))"

definition processNetworkBlockRange ::
  "eth_library \<Rightarrow> credits_config \<Rightarrow> string \<Rightarrow> blockchain_config \<Rightarrow> scan_env \<Rightarrow> db \<Rightarrow> db \<times> err option" where
  "processNetworkBlockRange eth ccfg network cfg env d =
     (case se_latest env of
        Inl e \<Rightarrow> (d, Some e)
      | Inr latestBlockNum \<Rightarrow>
          if latestBlockNum < bc_confirmation_blocks cfg then (d, None)
          else
            let confirmedTip = latestBlockNum - bc_confirmation_blocks cfg;
                (d1, lastBlock) = GetBlockchainCursor (se_other env 0 d) network (bc_start_block_num cfg) in
            if confirmedTip \<le> lastBlock then (d1, None)
            else
              let (startBlock, endBlock) = scan_range cfg lastBlock confirmedTip in
              case processERC20DepositLogs eth ccfg network cfg env d1 startBlock endBlock of
                (d2, Some e) \<Rightarrow> (d2, Some e)
              | (d2, None) \<Rightarrow> (d2\<lparr>db_cursors := (db_cursors d2)(network \<mapsto> endBlock)\<rparr>, None))"

text \<open>The worker; a failed tick is logged and the next one retries.\<close>

fun runBlockchainProcessor ::
  "eth_library \<Rightarrow> credits_config \<Rightarrow> string \<Rightarrow> blockchain_config \<Rightarrow> scan_env list \<Rightarrow> db \<Rightarrow> db" where
  "runBlockchainProcessor eth ccfg network cfg [] d = d"
| "runBlockchainProcessor eth ccfg network cfg (env # envs) d =
     runBlockchainProcessor eth ccfg network cfg envs (fst (processNetworkBlockRange eth ccfg network cfg env d))"

subsection \<open>What a log leaves behind\<close>

definition credited :: "eth_library \<Rightarrow> string \<Rightarrow> db \<Rightarrow> chain_log \<Rightarrow> bool" where
  "credited eth network d l \<longleftrightarrow>
     (\<exists>dep \<in> set (rows (db_deposits d)). dep_network dep = network \<and> dep_tx_hash dep = eth_hash_hex eth (lg_tx_hash l) \<and>
        dep_log_index dep = lg_index l)"

text \<open>A transfer of a configured token that is worth a Credit, from a wallet registered in \<open>d\<close>.\<close>

definition due :: "eth_library \<Rightarrow> blockchain_config \<Rightarrow> db \<Rightarrow> chain_log \<Rightarrow> bool" where
  "due eth cfg d l \<longleftrightarrow>
     (\<exists>name a amount credits. tokenByAddress eth cfg (ToLower (eth_hex eth (lg_address l))) = Some name \<and>
        parseERC20TransferLog eth l = Some (a, amount) \<and>
        ConvertTokenAmountToCredits (Some amount) (tk_decimals (token_named cfg name)) (tk_credits_per_token (token_named cfg name)) =
          Inr credits \<and> 0 < credits \<and>
        tbl_lookup u_address (eth_hex eth (eth_from_hex eth a)) (db_users d) \<noteq> None)"

text \<open>Users and deposits are never removed, and one worker moves a network's cursor.\<close>

definition scan_grows :: "string \<Rightarrow> db \<Rightarrow> db \<Rightarrow> bool" where
  "scan_grows network d d' \<longleftrightarrow> set (rows (db_users d)) \<subseteq> set (rows (db_users d')) \<and>
     set (rows (db_deposits d)) \<subseteq> set (rows (db_deposits d')) \<and> db_cursors d' network = db_cursors d network"

lemma scan_grows_refl [simp]: "scan_grows network d d"
  by (simp add: scan_grows_def)

lemma scan_grows_trans: "scan_grows network d d1 \<Longrightarrow> scan_grows network d1 d2 \<Longrightarrow> scan_grows network d d2"
  by (auto simp: scan_grows_def)

lemma credited_grows: "credited eth network d l \<Longrightarrow> scan_grows network d d' \<Longrightarrow> credited eth network d' l"
  by (auto simp: credited_def scan_grows_def)

lemma due_users: "due eth cfg d l \<Longrightarrow> set (rows (db_users d)) \<subseteq> set (rows (db_users d')) \<Longrightarrow> due eth cfg d' l"
  by (fastforce simp: due_def tbl_lookup_None_iff)

lemma reward_keeps:
  assumes "applyDepositReferralReward cfg d dep = Inr d'"
  shows "db_users d' = db_users d \<and> db_deposits d' = db_deposits d \<and> db_cursors d' = db_cursors d"
proof -
  have "d' = d \<or> (\<exists>b a n mk. write_referral_reward d b a n mk = Inr d')"
    using assms
    by (cases "tbl_lookup rb_invitee_user_id (dep_user_id dep) (db_referral_bindings d)")
      (auto simp: applyDepositReferralReward_def bindE_Inr_iff Let_def split: if_splits)
  then consider "d' = d" | b a n mk where "write_referral_reward d b a n mk = Inr d'" by blast
  then show ?thesis
  proof cases
    case 2
    then show ?thesis
    proof (cases "tbl_create referral_reward_clash mk (db_referral_rewards d)")
      case (Inl e)
      then show ?thesis using 2 by (auto simp: write_referral_reward_def split: if_splits)
    next
      case (Inr p)
      obtain t rw where p: "p = (t, rw)" by (cases p)
      show ?thesis
        using 2 Inr p by (auto simp: write_referral_reward_def create_credit_event_Inr bindE_Inr_iff duplicate_as_Inr_iff save_account_def)
    qed
  qed simp
qed

lemma deposit_credits:
  assumes "ProcessDeposit ccfg d inp = Inr d'"
  shows "scan_grows network d d' \<and> (\<exists>dep \<in> set (rows (db_deposits d')). dep_network dep = pd_network inp \<and>
    dep_tx_hash dep = pd_tx_hash inp \<and> dep_log_index dep = pd_log_index inp)"
proof -
  obtain amount credits where p: "deposit_tx ccfg d inp amount credits = Inr d'" using assms by (rule ProcessDeposit_Inr)
  show ?thesis
  proof (cases "tbl_create deposit_clash (deposit_row_of inp amount credits) (db_deposits d)")
    case (Inl e)
    then have "d' = d" using p by (simp add: deposit_tx_duplicate)
    moreover have "\<exists>x \<in> set (rows (db_deposits d)). deposit_clash (deposit_row_of inp amount credits (next_id (db_deposits d))) x"
      using Inl by (auto simp: res_simps)
    ultimately show ?thesis by (auto simp: deposit_clash_def deposit_row_of_def)
  next
    case (Inr r)
    obtain t dep where r: "r = (t, dep)" by (cases r)
    obtain d2 e a where d2: "create_credit_event (d\<lparr>db_deposits := t\<rparr>)
        (deposit_event (pd_user_id inp) credits (dep_id dep)) = Inr (d2, e)"
      "applyDepositReferralReward ccfg (save_account d2 (a\<lparr>ca_balance := ca_balance a + credits\<rparr>)) dep = Inr d'"
      by (rule deposit_tx_fresh [OF p Inr [unfolded r]])
    have "db_users d' = db_users d" "db_deposits d' = t" "db_cursors d' = db_cursors d"
      using reward_keeps [OF d2(2)] d2(1) by (auto simp: create_credit_event_Inr save_account_def)
    moreover have "rows t = rows (db_deposits d) @ [dep]" "dep = deposit_row_of inp amount credits (next_id (db_deposits d))"
      using Inr r by (auto simp: res_simps)
    ultimately show ?thesis by (auto simp: scan_grows_def deposit_row_of_def)
  qed
qed

lemma log_credited:
  assumes "processERC20DepositLog eth ccfg network cfg d l = Inr d'"
  shows "scan_grows network d d' \<and> (due eth cfg d l \<longrightarrow> credited eth network d' l)"
proof (cases "due eth cfg d l")
  case True
  then obtain name a amount credits u where due: "tokenByAddress eth cfg (ToLower (eth_hex eth (lg_address l))) = Some name"
      "parseERC20TransferLog eth l = Some (a, amount)"
      "ConvertTokenAmountToCredits (Some amount) (tk_decimals (token_named cfg name)) (tk_credits_per_token (token_named cfg name)) = Inr credits"
      "0 < credits" "tbl_lookup u_address (eth_hex eth (eth_from_hex eth a)) (db_users d) = Some u"
    unfolding due_def by blast
  have "ProcessDeposit ccfg d
      \<lparr>pd_user_id = u_id u, pd_network = network, pd_token = name, pd_tx_hash = eth_hash_hex eth (lg_tx_hash l),
       pd_log_index = lg_index l, pd_from_address = eth_hex eth (eth_from_hex eth a),
       pd_amount = Some amount, pd_credits = Some credits\<rparr> = Inr d'"
    using assms due by (simp add: processERC20DepositLog_def Let_def)
  from deposit_credits [OF this, of network] show ?thesis by (auto simp: credited_def)
next
  case False
  have "d' = d"
  proof (cases "tokenByAddress eth cfg (ToLower (eth_hex eth (lg_address l)))")
    case None
    then show ?thesis using assms by (simp add: processERC20DepositLog_def)
  next
    case name: (Some name)
    show ?thesis
    proof (cases "parseERC20TransferLog eth l")
      case None
      then show ?thesis using assms name by (simp add: processERC20DepositLog_def)
    next
      case (Some p)
      then obtain a amount where p: "parseERC20TransferLog eth l = Some (a, amount)" by (cases p) simp
      note start = assms [unfolded processERC20DepositLog_def name p option.case prod.case Let_def bindE_Inr_iff]
      then obtain credits where c: "ConvertTokenAmountToCredits (Some amount) (tk_decimals (token_named cfg name))
          (tk_credits_per_token (token_named cfg name)) = Inr credits" by blast
      have "credits \<le> 0 \<or> tbl_lookup u_address (eth_hex eth (eth_from_hex eth a)) (db_users d) = None"
        using False name p c unfolding due_def by (meson not_le)
      then show ?thesis using start c by (auto split: if_splits)
    qed
  qed
  then show ?thesis using False by simp
qed

lemma logs_credited:
  assumes "\<forall>i d. scan_grows network d (other i d)" "process_logs eth ccfg network cfg other i d ls = (d', res)"
  shows "scan_grows network d d' \<and> (res = None \<longrightarrow> (\<forall>l \<in> set ls. due eth cfg d l \<longrightarrow> credited eth network d' l))"
  using assms(2)
proof (induction ls arbitrary: i d)
  case (Cons l ls)
  have o: "scan_grows network d (other i d)" using assms(1) by blast
  show ?case
  proof (cases "processERC20DepositLog eth ccfg network cfg (other i d) l")
    case (Inl e)
    with Cons.prems o show ?thesis by (auto simp: Let_def)
  next
    case (Inr d2)
    note one = log_credited [OF Inr]
    from Cons.prems Inr have "process_logs eth ccfg network cfg other (i + 1) d2 ls = (d', res)" by (simp add: Let_def)
    note rest = Cons.IH [OF this]
    have d2: "scan_grows network d d2" using o one by (blast intro: scan_grows_trans)
    have "credited eth network d' x" if x: "x \<in> set (l # ls)" "due eth cfg d x" and ok: "res = None" for x
    proof -
      have u: "due eth cfg (other i d) x" "due eth cfg d2 x"
        using due_users [OF x(2)] o d2 by (simp_all add: scan_grows_def)
      show ?thesis
      proof (cases "x = l")
        case True
        then show ?thesis using one u(1) rest by (blast intro: credited_grows)
      next
        case False
        then show ?thesis using x(1) u(2) rest ok by simp
      qed
    qed
    then have "res = None \<longrightarrow> (\<forall>x \<in> set (l # ls). due eth cfg d x \<longrightarrow> credited eth network d' x)" by blast
    moreover have "scan_grows network d d'" using scan_grows_trans [OF d2 rest [THEN conjunct1]] .
    ultimately show ?thesis by blast
  qed
qed simp

subsection \<open>The cursor\<close>

definition cursor_of :: "blockchain_config \<Rightarrow> string \<Rightarrow> db \<Rightarrow> u64" where
  "cursor_of cfg network d = (case db_cursors d network of None \<Rightarrow> bc_start_block_num cfg | Some n \<Rightarrow> n)"

lemma scan_range_exact:
  assumes "last_block < tip" "0 < bc_log_block_range cfg" "scan_range cfg last_block tip = (a, b)"
  shows "uint a = uint last_block + 1" "uint b = min (uint tip) (uint last_block + uint (bc_log_block_range cfg))"
proof -
  have l: "uint last_block < uint tip" "uint tip < 2 ^ 64" "0 \<le> uint last_block"
    using assms(1) uint_bounded [of tip] by (simp_all add: word_less_def)
  have a: "a = last_block + 1" using assms(3) by (simp add: scan_range_def Let_def)
  have ua: "uint (last_block + 1) = uint last_block + 1" using l by (simp add: uint_word_ariths)
  then show "uint a = uint last_block + 1" by (simp add: a)
  have d: "uint (tip - (last_block + 1) + 1) = uint tip - uint last_block"
  proof -
    have "tip - (last_block + 1) + 1 = tip - last_block" by simp
    moreover have "uint (tip - last_block) = uint tip - uint last_block"
      using l by (intro uint_sub_lem [THEN iffD1]) (simp add: word_le_def)
    ultimately show ?thesis by simp
  qed
  show "uint b = min (uint tip) (uint last_block + uint (bc_log_block_range cfg))"
  proof (cases "bc_log_block_range cfg < tip - (last_block + 1) + 1")
    case True
    then have r: "uint (bc_log_block_range cfg) < uint tip - uint last_block" by (simp only: word_less_def d)
    have "b = last_block + bc_log_block_range cfg" using True assms(3) by (simp add: scan_range_def Let_def)
    moreover have "uint (last_block + bc_log_block_range cfg) = uint last_block + uint (bc_log_block_range cfg)"
      using r l by (simp add: uint_word_ariths)
    ultimately show ?thesis using r by simp
  next
    case False
    then have "uint tip - uint last_block \<le> uint (bc_log_block_range cfg)" by (simp only: not_less word_le_def d)
    moreover have "b = tip" using False assms(3) by (simp add: scan_range_def Let_def)
    ultimately show ?thesis by simp
  qed
qed

text \<open>A node that returns every log of the blocks it is asked for, and well-behaved other processes.\<close>

definition scan_honest :: "string \<Rightarrow> (u64 \<Rightarrow> chain_log list) \<Rightarrow> scan_env \<Rightarrow> bool" where
  "scan_honest network chain env \<longleftrightarrow>
     (\<forall>a b ls. se_logs env a b = Inr ls \<longrightarrow> (\<forall>n. a \<le> n \<longrightarrow> n \<le> b \<longrightarrow> set (chain n) \<subseteq> set ls)) \<and>
     (\<forall>i d. scan_grows network d (se_other env i d))"

text \<open>Blocks up to \<open>n\<close> after \<open>m\<close> have been handled: their transfers due in \<open>d\<close> are credited in \<open>d'\<close>.\<close>

definition handled :: "eth_library \<Rightarrow> blockchain_config \<Rightarrow> string \<Rightarrow> (u64 \<Rightarrow> chain_log list) \<Rightarrow> u64 \<Rightarrow> u64 \<Rightarrow> db \<Rightarrow> db \<Rightarrow> bool" where
  "handled eth cfg network chain m n d d' \<longleftrightarrow>
     (\<forall>k. m < k \<longrightarrow> k \<le> n \<longrightarrow> (\<forall>l \<in> set (chain k). due eth cfg d l \<longrightarrow> credited eth network d' l))"

lemma tick_handled:
  assumes range: "0 < bc_log_block_range cfg" and honest: "scan_honest network chain env"
    and tick: "processNetworkBlockRange eth ccfg network cfg env d = (d', res)"
  shows "set (rows (db_users d)) \<subseteq> set (rows (db_users d')) \<and> set (rows (db_deposits d)) \<subseteq> set (rows (db_deposits d')) \<and>
    cursor_of cfg network d \<le> cursor_of cfg network d' \<and>
    handled eth cfg network chain (cursor_of cfg network d) (cursor_of cfg network d') d d' \<and>
    (res \<noteq> None \<longrightarrow> cursor_of cfg network d' = cursor_of cfg network d) \<and>
    (\<forall>latest. se_latest env = Inr latest \<longrightarrow> bc_confirmation_blocks cfg \<le> latest \<longrightarrow> res = None \<longrightarrow>
       uint (cursor_of cfg network d') = max (uint (cursor_of cfg network d))
         (min (uint (latest - bc_confirmation_blocks cfg)) (uint (cursor_of cfg network d) + uint (bc_log_block_range cfg))))"
proof -
  have none: "handled eth cfg network chain m m d d'" for m d d' by (auto simp: handled_def)
  define d0 where "d0 = se_other env 0 d"
  have g0: "scan_grows network d d0" using honest by (simp add: scan_honest_def d0_def)
  then have c0: "cursor_of cfg network d0 = cursor_of cfg network d" by (simp add: cursor_of_def scan_grows_def)
  obtain d1 last_block where cur: "GetBlockchainCursor d0 network (bc_start_block_num cfg) = (d1, last_block)" by fastforce
  have d1: "last_block = cursor_of cfg network d" "cursor_of cfg network d1 = cursor_of cfg network d"
    "db_users d1 = db_users d0" "db_deposits d1 = db_deposits d0"
    using cur c0 by (auto simp: GetBlockchainCursor_def cursor_of_def split: option.splits)
  have up: "set (rows (db_users d)) \<subseteq> set (rows (db_users d1))" "set (rows (db_deposits d)) \<subseteq> set (rows (db_deposits d1))"
    using g0 by (simp_all add: scan_grows_def d1)
  show ?thesis
  proof (cases "se_latest env")
    case (Inl e)
    then have "d' = d" "res = Some e" using tick by (simp_all add: processNetworkBlockRange_def)
    then show ?thesis using none Inl by simp
  next
    case (Inr latest)
    note start = tick [unfolded processNetworkBlockRange_def Inr, simplified, folded d0_def, unfolded cur Let_def prod.case]
    define tip where "tip = latest - bc_confirmation_blocks cfg"
    consider "latest < bc_confirmation_blocks cfg"
      | "\<not> latest < bc_confirmation_blocks cfg" "tip \<le> last_block"
      | "\<not> latest < bc_confirmation_blocks cfg" "last_block < tip" by fastforce
    then show ?thesis
    proof cases
      case 1
      then have "d' = d" "res = None" using start by simp_all
      then show ?thesis using none 1 Inr by simp
    next
      case 2
      then have "d' = d1" "res = None" using start by (simp_all add: tip_def)
      then show ?thesis using none up d1 2 Inr by (simp add: tip_def word_le_def)
    next
      case 3
      obtain a b where ab: "scan_range cfg last_block tip = (a, b)" by fastforce
      note r = scan_range_exact [OF 3(2) range ab]
      obtain d2 e2 where d2: "processERC20DepositLogs eth ccfg network cfg env d1 a b = (d2, e2)" by fastforce
      have "\<not> latest - bc_confirmation_blocks cfg \<le> last_block" using 3(2) by (simp add: tip_def)
      note fin_tick = start [unfolded if_not_P [OF 3(1)] if_not_P [OF this], folded tip_def, unfolded ab prod.case d2]
      have fin: "res = e2 \<and> d' = (if e2 = None then d2\<lparr>db_cursors := (db_cursors d2)(network \<mapsto> b)\<rparr> else d2)"
      proof (cases e2)
        case None
        show ?thesis using fin_tick [unfolded None option.case] None by auto
      next
        case (Some e)
        show ?thesis using fin_tick [unfolded Some option.case] Some by auto
      qed
      have scanned: "scan_grows network d1 d2 \<and> (e2 = None \<longrightarrow> (\<forall>k. a \<le> k \<longrightarrow> k \<le> b \<longrightarrow> (\<forall>l \<in> set (chain k).
          due eth cfg d1 l \<longrightarrow> credited eth network d2 l)))"
      proof (cases "se_logs env a b")
        case (Inl e)
        then show ?thesis using d2 by (auto simp: processERC20DepositLogs_def)
      next
        case (Inr ls)
        then have p: "process_logs eth ccfg network cfg (se_other env) 1 d1 ls = (d2, e2)"
          using d2 by (simp add: processERC20DepositLogs_def)
        have "\<forall>i d. scan_grows network d (se_other env i d)" using honest by (simp add: scan_honest_def)
        from logs_credited [OF this p] show ?thesis using honest Inr unfolding scan_honest_def by blast
      qed
      show ?thesis
      proof (cases e2)
        case (Some e)
        then have "d' = d2" "cursor_of cfg network d2 = cursor_of cfg network d"
          using fin scanned d1(2) by (simp_all add: cursor_of_def scan_grows_def)
        then show ?thesis using none up scanned fin Some by (auto simp: scan_grows_def)
      next
        case None
        then have d': "d' = d2\<lparr>db_cursors := (db_cursors d2)(network \<mapsto> b)\<rparr>" using fin by simp
        have c: "cursor_of cfg network d' = b" by (simp add: d' cursor_of_def)
        have le: "last_block \<le> b" using r(2) 3(2) by (simp add: word_le_def word_less_def)
        have "handled eth cfg network chain last_block b d d'"
          unfolding handled_def
        proof (intro allI impI ballI)
          fix k l assume k: "last_block < k" "k \<le> b" "l \<in> set (chain k)" "due eth cfg d l"
          have "a \<le> k" using k(1) r(1) by (simp add: word_le_def word_less_def)
          with k scanned None due_users [OF k(4) up(1)] have "credited eth network d2 l" by blast
          then show "credited eth network d' l" by (simp add: credited_def d')
        qed
        moreover have "uint b = max (uint last_block) (min (uint tip) (uint last_block + uint (bc_log_block_range cfg)))"
          using r(2) 3(2) by (simp add: word_less_def)
        ultimately show ?thesis using up scanned c le d1(1) fin None Inr
          by (auto simp: scan_grows_def d' tip_def)
      qed
    qed
  qed
qed

lemma handled_trans:
  assumes "handled eth cfg network chain m k d d1" "handled eth cfg network chain k n d1 d2"
    "set (rows (db_users d)) \<subseteq> set (rows (db_users d1))" "set (rows (db_deposits d1)) \<subseteq> set (rows (db_deposits d2))"
  shows "handled eth cfg network chain m n d d2"
  unfolding handled_def
proof (intro allI impI ballI)
  fix b l assume b: "m < b" "b \<le> n" "l \<in> set (chain b)" "due eth cfg d l"
  show "credited eth network d2 l"
  proof (cases "b \<le> k")
    case True
    then have "credited eth network d1 l" using assms(1) b by (simp add: handled_def)
    then show ?thesis using assms(4) by (auto simp: credited_def)
  next
    case False
    then show ?thesis using assms(2) b due_users [OF b(4) assms(3)] by (simp add: handled_def not_le)
  qed
qed

lemma run_handled:
  assumes "0 < bc_log_block_range cfg" "\<forall>env \<in> set envs. scan_honest network chain env"
  shows "let d' = runBlockchainProcessor eth ccfg network cfg envs d in
    set (rows (db_users d)) \<subseteq> set (rows (db_users d')) \<and> set (rows (db_deposits d)) \<subseteq> set (rows (db_deposits d')) \<and>
    cursor_of cfg network d \<le> cursor_of cfg network d' \<and>
    handled eth cfg network chain (cursor_of cfg network d) (cursor_of cfg network d') d d'"
  using assms(2)
proof (induction envs arbitrary: d)
  case (Cons env envs)
  obtain d1 res where t: "processNetworkBlockRange eth ccfg network cfg env d = (d1, res)" by fastforce
  have "scan_honest network chain env" "\<forall>env \<in> set envs. scan_honest network chain env" using Cons.prems by simp_all
  note one = tick_handled [OF assms(1) this(1) t] and rest = Cons.IH [OF this(2), of d1, unfolded Let_def]
  define d2 where "d2 = runBlockchainProcessor eth ccfg network cfg envs d1"
  have one': "set (rows (db_users d)) \<subseteq> set (rows (db_users d1))" "set (rows (db_deposits d)) \<subseteq> set (rows (db_deposits d1))"
      "cursor_of cfg network d \<le> cursor_of cfg network d1"
      "handled eth cfg network chain (cursor_of cfg network d) (cursor_of cfg network d1) d d1"
    using one by simp_all
  have rest': "set (rows (db_users d1)) \<subseteq> set (rows (db_users d2))" "set (rows (db_deposits d1)) \<subseteq> set (rows (db_deposits d2))"
      "cursor_of cfg network d1 \<le> cursor_of cfg network d2"
      "handled eth cfg network chain (cursor_of cfg network d1) (cursor_of cfg network d2) d1 d2"
    using rest by (simp_all add: d2_def)
  have "runBlockchainProcessor eth ccfg network cfg (env # envs) d = d2" by (simp add: t d2_def)
  then show ?case
    using handled_trans [OF one'(4) rest'(4) one'(1) rest'(2)] subset_trans [OF one'(1) rest'(1)]
      subset_trans [OF one'(2) rest'(2)] order_trans [OF one'(3) rest'(3)] by (simp add: Let_def)
qed (auto simp: handled_def)

text \<open>C4. The scanner misses no deposit and never runs ahead of the confirmed chain. Take any sequence of ticks,
  failing or not, with RPC nodes that return all logs of the blocks they are asked for, and other processes
  that remove no user and no deposit and leave the cursor alone. The cursor never moves
  back, and every transfer in the blocks it has passed, of a configured token, worth at least one Credit
  and from a wallet registered at the start, has its deposit row. And the next tick that meets no error moves
  the cursor to the confirmed tip or by one range, whichever is less, but never back; a failing tick leaves it.\<close>

theorem no_deposit_missed:
  assumes "0 < bc_log_block_range cfg" "\<forall>env \<in> set (last_env # envs). scan_honest network chain env"
  shows "let d' = runBlockchainProcessor eth ccfg network cfg envs d; (d'', res) = processNetworkBlockRange eth ccfg network cfg last_env d' in
    cursor_of cfg network d \<le> cursor_of cfg network d' \<and>
    (\<forall>k. cursor_of cfg network d < k \<longrightarrow> k \<le> cursor_of cfg network d' \<longrightarrow>
       (\<forall>l \<in> set (chain k). due eth cfg d l \<longrightarrow> credited eth network d' l)) \<and>
    (res \<noteq> None \<longrightarrow> cursor_of cfg network d'' = cursor_of cfg network d') \<and>
    (\<forall>latest. se_latest last_env = Inr latest \<longrightarrow> bc_confirmation_blocks cfg \<le> latest \<longrightarrow> res = None \<longrightarrow>
       uint (cursor_of cfg network d'') = max (uint (cursor_of cfg network d'))
         (min (uint (latest - bc_confirmation_blocks cfg)) (uint (cursor_of cfg network d') + uint (bc_log_block_range cfg))))"
proof -
  define d' where "d' = runBlockchainProcessor eth ccfg network cfg envs d"
  obtain d'' res where t: "processNetworkBlockRange eth ccfg network cfg last_env d' = (d'', res)" by fastforce
  have h: "scan_honest network chain last_env" "\<forall>env \<in> set envs. scan_honest network chain env" using assms(2) by simp_all
  note run = run_handled [OF assms(1) h(2), of eth ccfg d, unfolded Let_def, folded d'_def]
  show ?thesis
    unfolding Let_def d'_def [symmetric] t prod.case
    using conjunct2 [OF conjunct2 [OF run]] conjunct2 [OF conjunct2 [OF conjunct2 [OF conjunct2 [OF tick_handled [OF assms(1) h(1) t]]]]]
    unfolding handled_def by (elim conjE, intro conjI) assumption+
qed

text \<open>One transfer of 1,005 Credits in block 6, from a registered wallet; the tip is 8 with one confirmation.\<close>

definition sample_eth :: eth_library where
  "sample_eth = \<lparr>eth_hex = (\<lambda>w. if w = 0 then ''0x0'' else if w = 1 then ''0x1'' else ''0x2''),
     eth_from_hex = (\<lambda>s. if s = ''0x0'' then 0 else if s = ''0x1'' then 1 else 2), eth_hash_hex = (\<lambda>_. ''0xab''),
     eth_transfer_topic = 7\<rparr>"

definition sample_log :: chain_log where
  "sample_log = \<lparr>lg_address = 1, lg_topics = [7, 2, 1], lg_data = [3, 237], lg_tx_hash = 9, lg_index = 4\<rparr>"

definition sample_network :: blockchain_config where
  "sample_network = \<lparr>bc_rpc_endpoint = ''http'', bc_rps = 1, bc_start_block_num = 5, bc_log_block_range = 100,
     bc_scan_interval = 1, bc_confirmation_blocks = 1, bc_receiving_address = ''0x1'',
     bc_tokens = [(''USDC'', \<lparr>tk_address = ''0x1'', tk_decimals = 0, tk_credits_per_token = 1\<rparr>)]\<rparr>"

definition sample_chain :: "u64 \<Rightarrow> chain_log list" where
  "sample_chain n = (if n = 6 then [sample_log] else [])"

definition sample_scan :: scan_env where
  "sample_scan = \<lparr>se_latest = Inr 8, se_logs = (\<lambda>a b. Inr (if a \<le> 6 \<and> 6 \<le> b then [sample_log] else [])),
     se_other = (\<lambda>_ d. d)\<rparr>"

definition sample_wallet_db :: db where
  "sample_wallet_db = sample_referral_db\<lparr>db_users := \<lparr>rows = [\<lparr>u_id = 1, u_address = ''0x2''\<rparr>], next_id = 2\<rparr>\<rparr>"

lemma sample_honest: "scan_honest ''base'' sample_chain sample_scan"
  by (auto simp: scan_honest_def sample_scan_def sample_chain_def split: if_splits)

lemma sample_log_parts:
  "tokenByAddress sample_eth sample_network (ToLower (eth_hex sample_eth (lg_address sample_log))) = Some ''USDC''"
  "parseERC20TransferLog sample_eth sample_log = Some (''0x2'', 1005)"
  "ConvertTokenAmountToCredits (Some 1005) (tk_decimals (token_named sample_network ''USDC''))
     (tk_credits_per_token (token_named sample_network ''USDC'')) = Inr 1005"
  "tbl_lookup u_address (eth_hex sample_eth (eth_from_hex sample_eth ''0x2'')) (db_users sample_wallet_db) =
     Some \<lparr>u_id = 1, u_address = ''0x2''\<rparr>"
  by (simp_all add: tokenByAddress_def sample_eth_def sample_network_def sample_log_def parseERC20TransferLog_def set_bytes_def
      ConvertTokenAmountToCredits_def token_named_def sample_wallet_db_def tbl_lookup_def tbl_first_def)

lemma sample_log_due: "due sample_eth sample_network sample_wallet_db sample_log"
  unfolding due_def using sample_log_parts by fastforce

lemma sample_tick:
  "cursor_of sample_network ''base''
     (runBlockchainProcessor sample_eth sample_credits_config ''base'' sample_network [sample_scan] sample_wallet_db) = 7"
proof -
  define d1 where "d1 = sample_wallet_db\<lparr>db_cursors := [''base'' \<mapsto> 5]\<rparr>"
  have look: "tbl_lookup u_address (eth_hex sample_eth (eth_from_hex sample_eth ''0x2'')) (db_users d1) =
     Some \<lparr>u_id = 1, u_address = ''0x2''\<rparr>"
    using sample_log_parts(4) by (simp add: d1_def)
  have "\<exists>d2. processERC20DepositLog sample_eth sample_credits_config ''base'' sample_network d1 sample_log = Inr d2"
    unfolding processERC20DepositLog_def sample_log_parts option.case prod.case Let_def bindE_def sum.case look
    by (simp add: ProcessDeposit_def deposit_tx_def d1_def sample_wallet_db_def sample_referral_db_def empty_db_def
        tbl_create_def create_credit_event_def duplicate_as_def Let_def credit_acct_def tbl_lookup_def
        tbl_first_def applyDepositReferralReward_def save_account_def deposit_row_of_def deposit_event_def credit_event_clash_def)
  then obtain d2 where "processERC20DepositLog sample_eth sample_credits_config ''base'' sample_network d1 sample_log = Inr d2" by blast
  then have "process_logs sample_eth sample_credits_config ''base'' sample_network (\<lambda>_ d. d) 1 d1 [sample_log] = (d2, None)"
    by (simp add: Let_def)
  then have "processERC20DepositLogs sample_eth sample_credits_config ''base'' sample_network sample_scan d1 6 7 = (d2, None)"
    by (simp add: processERC20DepositLogs_def sample_scan_def)
  moreover have "GetBlockchainCursor sample_wallet_db ''base'' 5 = (d1, 5)"
    by (simp add: GetBlockchainCursor_def d1_def sample_wallet_db_def sample_referral_db_def empty_db_def)
  ultimately show ?thesis
    by (simp add: processNetworkBlockRange_def scan_range_def cursor_of_def sample_scan_def sample_network_def Let_def)
qed

theorem no_deposit_missed_witness:
  "credited sample_eth ''base''
     (runBlockchainProcessor sample_eth sample_credits_config ''base'' sample_network [sample_scan] sample_wallet_db) sample_log"
proof -
  have "0 < bc_log_block_range sample_network" "\<forall>env \<in> set (sample_scan # [sample_scan]). scan_honest ''base'' sample_chain env"
    using sample_honest by (simp_all add: sample_network_def)
  from no_deposit_missed [OF this, of sample_eth sample_credits_config sample_wallet_db]
  have passed: "\<forall>k. cursor_of sample_network ''base'' sample_wallet_db < k \<longrightarrow> k \<le> 7 \<longrightarrow>
      (\<forall>l \<in> set (sample_chain k). due sample_eth sample_network sample_wallet_db l \<longrightarrow> credited sample_eth ''base''
         (runBlockchainProcessor sample_eth sample_credits_config ''base'' sample_network [sample_scan] sample_wallet_db) l)"
    unfolding Let_def sample_tick by (auto split: prod.splits)
  have "cursor_of sample_network ''base'' sample_wallet_db = 5"
    by (simp add: cursor_of_def sample_network_def sample_wallet_db_def sample_referral_db_def empty_db_def)
  with passed have "(5 :: u64) < 6 \<longrightarrow> (6 :: u64) \<le> 7 \<longrightarrow> (\<forall>l \<in> set (sample_chain 6).
      due sample_eth sample_network sample_wallet_db l \<longrightarrow> credited sample_eth ''base''
         (runBlockchainProcessor sample_eth sample_credits_config ''base'' sample_network [sample_scan] sample_wallet_db) l)" by metis
  then show ?thesis using sample_log_due by (simp del: runBlockchainProcessor.simps add: sample_chain_def)
qed

end
