(* ===== verification/Api_Auth.thy ===== *)
theory Api_Auth
  imports Earnings Accounts Usage_Snapshots
begin

text \<open>
  Who is calling: log-in by wallet signature (\<open>api/v1/auth/login.go\<close>, \<open>api/tools/signature.go\<close>,
  \<open>blockchain/signature.go\<close>), the session token of the web API (\<open>api/v1/middleware/jwt_auth.go\<close>) and the
  project key of the LLM API (\<open>api/llm/auth.go\<close>). The primitives of go-ethereum, SHA-256, the JWT
  library and the Turnstile service are arguments.
\<close>

subsection \<open>Errors of the API\<close>

datatype api_error = Validation_Error string err | Not_Found | Server_Error err

definition invalid_field :: "string \<Rightarrow> err + 'a \<Rightarrow> api_error + 'a" where
  "invalid_field field m = (case m of Inl e \<Rightarrow> Inl (Validation_Error field e) | Inr x \<Rightarrow> Inr x)"

definition server_error :: "err + 'a \<Rightarrow> api_error + 'a" where
  "server_error m = (case m of Inl e \<Rightarrow> Inl (Server_Error e) | Inr x \<Rightarrow> Inr x)"

lemma invalid_field_Inr_iff [res_simps]: "invalid_field field m = Inr x \<longleftrightarrow> m = Inr x"
  by (cases m) (simp_all add: invalid_field_def)

lemma server_error_Inr_iff [res_simps]: "server_error m = Inr x \<longleftrightarrow> m = Inr x"
  by (cases m) (simp_all add: server_error_def)

subsection \<open>Text\<close>

definition HasPrefix :: "string \<Rightarrow> string \<Rightarrow> bool" where
  "HasPrefix s p \<longleftrightarrow> take (length p) s = p"

definition TrimPrefix :: "string \<Rightarrow> string \<Rightarrow> string" where
  "TrimPrefix s p = (if HasPrefix s p then drop (length p) s else s)"

text \<open>\<open>strings.Split\<close> at a single character.\<close>

fun split_at :: "char \<Rightarrow> string \<Rightarrow> string list" where
  "split_at c [] = [[]]"
| "split_at c (x # xs) =
     (if x = c then [] # split_at c xs
      else case split_at c xs of [] \<Rightarrow> [[x]] | w # ws \<Rightarrow> (x # w) # ws)"

lemma HasPrefix_append [simp]: "HasPrefix (p @ s) p"
  by (simp add: HasPrefix_def)

lemma TrimPrefix_append [simp]: "TrimPrefix (p @ s) p = s"
  by (simp add: TrimPrefix_def)

lemma split_at_none: "c \<notin> set s \<Longrightarrow> split_at c s = [s]"
  by (induction s) auto

lemma split_at_join: "c \<notin> set a \<Longrightarrow> split_at c (a @ c # b) = a # split_at c b"
  by (induction a) auto

subsection \<open>Wallet signatures\<close>

text \<open>\<open>hexutil.Decode\<close>, \<open>crypto.Keccak256\<close>, \<open>crypto.SigToPub\<close> with \<open>PubkeyToAddress\<close>, \<open>IsHexAddress\<close> and the
  checksummed form \<open>HexToAddress(a).Hex()\<close>.\<close>

record wallet_crypto =
  wc_decode :: "string \<Rightarrow> 8 word list option"
  wc_keccak :: "string \<Rightarrow> 8 word list"
  wc_signer :: "8 word list \<Rightarrow> 8 word list \<Rightarrow> string option"
  wc_is_address :: "string \<Rightarrow> bool"
  wc_checksummed :: "string \<Rightarrow> string"

definition ValidateAddress :: "wallet_crypto \<Rightarrow> string \<Rightarrow> err + unit" where
  "ValidateAddress wc address = rejectIf (\<not> wc_is_address wc address) (ErrMsg ''invalid Ethereum address format'') (Inr ())"

definition GenerateSignMessage :: "string \<Rightarrow> string \<Rightarrow> int \<Rightarrow> string" where
  "GenerateSignMessage action address timestamp =
     ''Crynux AS'' @ [CHR 10] @ ''Action: '' @ action @ [CHR 10] @ ''Address: '' @ address @ [CHR 10] @
     ''Timestamp: '' @ int_str timestamp"

definition ValidateSignatureFormat :: "wallet_crypto \<Rightarrow> string \<Rightarrow> err + unit" where
  "ValidateSignatureFormat wc signature =
     (let s = TrimPrefix signature ''0x'' in
      rejectIf (length s \<noteq> 130) (ErrMsg ''signature must be 130 hex characters (65 bytes)'')
      (bindE (of_option (ErrMsg ''signature contains invalid hex characters'') (wc_decode wc (''0x'' @ s))) (\<lambda>_. Inr ())))"

definition hashPersonalMessage :: "wallet_crypto \<Rightarrow> string \<Rightarrow> 8 word list" where
  "hashPersonalMessage wc message =
     wc_keccak wc ([CHR 0x19] @ ''Ethereum Signed Message:'' @ [CHR 10] @ nat_str (length message) @ message)"

definition RecoverAddress :: "wallet_crypto \<Rightarrow> string \<Rightarrow> string \<Rightarrow> err + string" where
  "RecoverAddress wc message signature =
     bindE (of_option (ErrMsg ''invalid signature format'') (wc_decode wc (''0x'' @ TrimPrefix signature ''0x''))) (\<lambda>sigBytes.
     rejectIf (length sigBytes \<noteq> 65) (ErrMsg ''signature must be 65 bytes'')
     (let v = sigBytes ! 64;
          bytes = (if v = 27 \<or> v = 28 then sigBytes[64 := v - 27] else sigBytes) in
      of_option (ErrMsg ''failed to recover public key'') (wc_signer wc (hashPersonalMessage wc message) bytes)))"

definition VerifySignature :: "wallet_crypto \<Rightarrow> string \<Rightarrow> string \<Rightarrow> string \<Rightarrow> err + unit" where
  "VerifySignature wc message signature expectedAddress =
     bindE (RecoverAddress wc message signature) (\<lambda>recovered.
     rejectIf (\<not> EqualFold recovered expectedAddress) (ErrMsg ''signature address mismatch'') (Inr ()))"

text \<open>A log-in signature is valid from a minute before to two minutes after its time.\<close>

definition ValidateTimestamp :: "int \<Rightarrow> int \<Rightarrow> int \<Rightarrow> err + unit" where
  "ValidateTimestamp timeoutSeconds now timestamp =
     rejectIf (timestamp < now - timeoutSeconds - 60) (ErrMsg ''signature timestamp too old'')
     (rejectIf (now + 60 < timestamp) (ErrMsg ''signature timestamp too far in the future'') (Inr ()))"

definition ValidateAndRecover :: "wallet_crypto \<Rightarrow> int \<Rightarrow> string \<Rightarrow> string \<Rightarrow> int \<Rightarrow> err + string" where
  "ValidateAndRecover wc now message signature timestamp =
     bindE (ValidateTimestamp 60 now timestamp) (\<lambda>_.
     bindE (ValidateSignatureFormat wc signature) (\<lambda>_.
     RecoverAddress wc message signature))"

subsection \<open>Log-in\<close>

record login_input =
  li_address :: string
  li_timestamp :: int
  li_signature :: string
  li_invite_code :: string
  li_turnstile_token :: string

text \<open>The Turnstile check and the JWT library: signing for an address, and the address of a token with the time.\<close>

record web_session =
  ws_test_environment :: bool
  ws_turnstile :: "string \<Rightarrow> err + unit"
  ws_generate :: "string \<Rightarrow> int \<Rightarrow> err + string \<times> int"
  ws_validate :: "string \<Rightarrow> int \<Rightarrow> err + string"

definition Login ::
  "wallet_crypto \<Rightarrow> web_session \<Rightarrow> credits_config \<Rightarrow> (nat \<Rightarrow> nat \<Rightarrow> nat) \<Rightarrow> int \<Rightarrow> db \<Rightarrow> login_input \<Rightarrow>
   db \<times> (api_error + string \<times> int)" where
  "Login wc web ccfg rnd now d inp =
     (let address = li_address inp;
          checks =
            bindE (if ws_test_environment web then Inr ()
                   else if ws_turnstile web (li_turnstile_token inp) = Inr () then Inr ()
                   else Inl (Validation_Error ''turnstile_token'' (ErrMsg ''Invalid turnstile token''))) (\<lambda>_.
            bindE (if ValidateAddress wc address = Inr () then Inr ()
                   else Inl (Validation_Error ''address'' (ErrMsg ''Invalid address''))) (\<lambda>_.
            bindE (case ValidateAndRecover wc now (GenerateSignMessage ''Login'' address (li_timestamp inp))
                     (li_signature inp) (li_timestamp inp) of
                     Inl _ \<Rightarrow> Inl (Validation_Error ''signature'' (ErrMsg ''Invalid signature''))
                   | Inr signer \<Rightarrow> Inr signer) (\<lambda>signer.
            if \<not> EqualFold signer address then Inl (Validation_Error ''address'' (ErrMsg ''Signature address mismatch''))
            else Inr (wc_checksummed wc address)))) in
      case checks of
        Inl e \<Rightarrow> (d, Inl e)
      | Inr normalized \<Rightarrow>
          (case EnsureUserWithReferral ccfg rnd d normalized (li_invite_code inp) of
             (d', Inl e) \<Rightarrow> (d', Inl (Server_Error e))
           | (d', Inr _) \<Rightarrow> (d', server_error (ws_generate web normalized now))))"

text \<open>The address a request of the web API acts for.\<close>

definition JWTAuthMiddleware :: "web_session \<Rightarrow> int \<Rightarrow> string \<Rightarrow> string + string" where
  "JWTAuthMiddleware web now authHeader =
     (if authHeader = [] then Inl ''Authorization header required''
      else case split_at (CHR '' '') authHeader of
        [bearer, token] \<Rightarrow>
          if bearer \<noteq> ''Bearer'' then Inl ''Invalid authorization header format''
          else (case ws_validate web token now of Inl _ \<Rightarrow> Inl ''Invalid or expired token'' | Inr address \<Rightarrow> Inr address)
      | _ \<Rightarrow> Inl ''Invalid authorization header format'')"

subsection \<open>Project keys\<close>

text \<open>\<open>other\<close> is what other processes do between the two queries.\<close>

definition ProjectAuthMiddleware ::
  "(string \<Rightarrow> string) \<Rightarrow> web_session \<Rightarrow> int \<Rightarrow> (db \<Rightarrow> db) \<Rightarrow> db \<Rightarrow> string \<Rightarrow> string \<Rightarrow> string + project" where
  "ProjectAuthMiddleware HashToken web now other d endpointToken authHeader =
     (if endpointToken = [] then Inl ''missing endpoint token''
      else if \<not> HasPrefix authHeader ''Bearer '' then Inl ''missing or invalid authorization header''
      else
        let token = TrimSpace (TrimPrefix authHeader ''Bearer '') in
        if token = [] then Inl ''missing or invalid authorization header''
        else case tbl_lookup pr_endpoint_token endpointToken (db_projects d) of
          None \<Rightarrow> Inl ''invalid endpoint token or credentials''
        | Some project \<Rightarrow>
            if pr_status project \<noteq> ProjectStatusActive then Inl ''project is disabled''
            else if HashToken token = pr_api_key_hash project then Inr project
            else case ws_validate web token now of
              Inl _ \<Rightarrow> Inl ''invalid endpoint token or credentials''
            | Inr address \<Rightarrow>
                (case tbl_lookup u_address address (db_users (other d)) of
                   None \<Rightarrow> Inl ''invalid endpoint token or credentials''
                 | Some user \<Rightarrow>
                     if u_id user \<noteq> pr_user_id project then Inl ''invalid endpoint token or credentials'' else Inr project))"

end
