(* ===== verification/Api_Projects.thy ===== *)
theory Api_Projects
  imports Api_Auth Priority
begin

text \<open>
  The project handlers of the web API (\<open>api/v1/projects/projects.go\<close>). A handler that changes a project
  reads its row and later saves the whole row, with no transaction around the two; \<open>other i\<close> is what
  other processes do before its \<open>i\<close>-th query. Random tokens and the hash of a key are arguments.
\<close>

subsection \<open>Rows\<close>

definition project_clash :: "project \<Rightarrow> project \<Rightarrow> bool" where
  "project_clash a b \<longleftrightarrow> pr_endpoint_token a = pr_endpoint_token b \<or> pr_api_key_hash a = pr_api_key_hash b"

definition currentUser :: "db \<Rightarrow> string \<Rightarrow> api_error + user" where
  "currentUser d address =
     (if address = [] then Inl (Validation_Error ''Authorization'' (ErrMsg ''Invalid token''))
      else case tbl_lookup u_address address (db_users d) of
        None \<Rightarrow> Inl (Validation_Error ''address'' (ErrMsg ''User not found''))
      | Some user \<Rightarrow> Inr user)"

definition owned_project :: "nat \<Rightarrow> nat \<Rightarrow> project \<Rightarrow> bool" where
  "owned_project userID projectID p \<longleftrightarrow> pr_id p = projectID \<and> pr_user_id p = userID \<and> pr_status p \<noteq> ProjectStatusDeleted"

definition findOwnedProject :: "db \<Rightarrow> nat \<Rightarrow> nat \<Rightarrow> project option" where
  "findOwnedProject d userID projectID = tbl_first (owned_project userID projectID) (db_projects d)"

text \<open>\<open>db.Save(project)\<close> writes every column of the row with that key.\<close>

definition save_project :: "db \<Rightarrow> project \<Rightarrow> err + db" where
  "save_project d p =
     (if \<exists>r \<in> set (rows (db_projects d)). pr_id r \<noteq> pr_id p \<and> project_clash p r then Inl ErrDuplicatedKey
      else Inr (d\<lparr>db_projects := tbl_save pr_id p (db_projects d)\<rparr>))"

definition apiKeyPrefix :: "string \<Rightarrow> string" where
  "apiKeyPrefix apiKey = (if length apiKey < 8 then apiKey else take 8 apiKey)"

record project_data =
  pj_id :: nat
  pj_name :: string
  pj_endpoint_token :: string
  pj_api_key_prefix :: string
  pj_cost_level_mode :: string
  pj_priority_gwei :: string
  pj_auto_queue_position :: "int option"
  pj_auto_max_credits_per_task :: "string option"
  pj_status :: project_status
  pj_created_at :: int
  pj_last_request_at :: "int option"
  pj_request_count_day :: u64
  pj_success_count_day :: u64
  pj_failure_count_day :: u64
  pj_credits_day :: string
  pj_recent_window_success_count :: u64
  pj_recent_window_failure_count :: u64
  pj_elevated_recent_failure_rate :: bool

text \<open>\<open>threshold\<close> is the configured failure rate.\<close>

definition toProjectData :: "string \<Rightarrow> project \<Rightarrow> project_data" where
  "toProjectData threshold p =
     \<lparr>pj_id = pr_id p, pj_name = pr_name p, pj_endpoint_token = pr_endpoint_token p,
      pj_api_key_prefix = pr_api_key_prefix p,
      pj_cost_level_mode = (if pr_cost_level_mode p = [] then CostLevelModeStatic else pr_cost_level_mode p),
      pj_priority_gwei = int_str (pr_priority_gwei p), pj_auto_queue_position = pr_auto_queue_position p,
      pj_auto_max_credits_per_task = map_option int_str (pr_auto_max_credits_per_task p), pj_status = pr_status p,
      pj_created_at = unix (pr_created_at p), pj_last_request_at = pr_last_request_at p,
      pj_request_count_day = pr_request_count_day p, pj_success_count_day = pr_success_count_day p,
      pj_failure_count_day = pr_failure_count_day p, pj_credits_day = int_str (pr_credits_day p),
      pj_recent_window_success_count = pr_recent_window_success_count p,
      pj_recent_window_failure_count = pr_recent_window_failure_count p,
      pj_elevated_recent_failure_rate =
        (case ParsePositiveDecimalRate threshold of
           Inl _ \<Rightarrow> False
         | Inr t \<Rightarrow> ElevatedRecentFailureRate (pr_recent_window_success_count p) (pr_recent_window_failure_count p) (Some t))\<rparr>"

subsection \<open>Handlers\<close>

definition new_project ::
  "(string \<Rightarrow> string) \<Rightarrow> gotime \<Rightarrow> nat \<Rightarrow> string \<Rightarrow> string \<Rightarrow> string \<Rightarrow> int \<Rightarrow> int \<Rightarrow> nat \<Rightarrow> project" where
  "new_project HashToken now userID name endpointToken apiKey priorityGwei autoMaxCredits n =
     \<lparr>pr_id = n, pr_user_id = userID, pr_cost_level_mode = CostLevelModeStatic, pr_priority_gwei = priorityGwei,
      pr_auto_queue_position = Some DefaultAutoQueuePosition, pr_auto_max_credits_per_task = Some autoMaxCredits,
      pr_status = ProjectStatusActive, pr_last_request_at = None, pr_request_count_day = 0, pr_success_count_day = 0,
      pr_failure_count_day = 0, pr_credits_day = 0, pr_recent_window_success_count = 0, pr_recent_window_failure_count = 0,
      pr_created_at = now, pr_name = name, pr_endpoint_token = endpointToken, pr_api_key_hash = HashToken apiKey,
      pr_api_key_prefix = apiKeyPrefix apiKey\<rparr>"

text \<open>The key and the row that \<open>CreateProject\<close> prepares before it writes.\<close>

definition prepare_project ::
  "llm_config \<Rightarrow> queued_priority_cache \<Rightarrow> (string \<Rightarrow> string) \<Rightarrow> err + string \<Rightarrow> err + string \<Rightarrow> gotime \<Rightarrow> db \<Rightarrow> string \<Rightarrow> string \<Rightarrow>
   api_error + string \<times> (nat \<Rightarrow> project)" where
  "prepare_project cfg cache HashToken token1 token2 now d address name =
     bindE (currentUser d address) (\<lambda>user.
     bindE (server_error token1) (\<lambda>endpointToken.
     bindE (server_error token2) (\<lambda>apiKey.
     bindE (server_error (InitialProjectPriorityGwei cfg cache)) (\<lambda>priorityGwei.
     bindE (server_error (parsePositiveDecimalGwei (lc_default_auto_max_credits_per_task cfg))) (\<lambda>autoMaxCredits.
     Inr (apiKey, new_project HashToken now (u_id user) name endpointToken apiKey priorityGwei autoMaxCredits))))))"

text \<open>The reply holds the plain key.\<close>

definition CreateProject ::
  "llm_config \<Rightarrow> queued_priority_cache \<Rightarrow> (string \<Rightarrow> string) \<Rightarrow> (nat \<Rightarrow> db \<Rightarrow> db) \<Rightarrow> err + string \<Rightarrow> err + string \<Rightarrow>
   string \<Rightarrow> gotime \<Rightarrow> db \<Rightarrow> string \<Rightarrow> string \<Rightarrow> db \<times> (api_error + project_data \<times> string)" where
  "CreateProject cfg cache HashToken other token1 token2 threshold now d address name =
     (case prepare_project cfg cache HashToken token1 token2 now d address name of
        Inl e \<Rightarrow> (d, Inl e)
      | Inr (apiKey, mk) \<Rightarrow>
          let d1 = other 0 d in
          case tbl_create project_clash mk (db_projects d1) of
            Inl e \<Rightarrow> (d1, Inl (Server_Error e))
          | Inr (t, p) \<Rightarrow> (d1\<lparr>db_projects := t\<rparr>, Inr (toProjectData threshold p, apiKey)))"

definition ListProjects :: "string \<Rightarrow> (nat \<Rightarrow> db \<Rightarrow> db) \<Rightarrow> db \<Rightarrow> string \<Rightarrow> api_error + project_data list" where
  "ListProjects threshold other d address =
     bindE (currentUser d address) (\<lambda>user.
       Inr (map (toProjectData threshold)
         (tbl_where (\<lambda>p. pr_user_id p = u_id user \<and> pr_status p \<noteq> ProjectStatusDeleted) (db_projects (other 0 d)))))"

definition GetProject :: "string \<Rightarrow> (nat \<Rightarrow> db \<Rightarrow> db) \<Rightarrow> db \<Rightarrow> string \<Rightarrow> nat \<Rightarrow> api_error + project_data" where
  "GetProject threshold other d address projectID =
     bindE (currentUser d address) (\<lambda>user.
     bindE (of_option Not_Found (findOwnedProject (other 0 d) (u_id user) projectID)) (\<lambda>p.
     Inr (toProjectData threshold p)))"

text \<open>What the three writing handlers share: load the row, change it, save it.\<close>

definition edit_project ::
  "(nat \<Rightarrow> db \<Rightarrow> db) \<Rightarrow> db \<Rightarrow> string \<Rightarrow> nat \<Rightarrow> (project \<Rightarrow> api_error + project) \<Rightarrow> db \<times> (api_error + project)" where
  "edit_project other d address projectID change =
     (case currentUser d address of
        Inl e \<Rightarrow> (d, Inl e)
      | Inr user \<Rightarrow>
          let d1 = other 0 d in
          case bindE (of_option Not_Found (findOwnedProject d1 (u_id user) projectID)) change of
            Inl e \<Rightarrow> (d1, Inl e)
          | Inr p \<Rightarrow>
              let d2 = other 1 d1 in
              case save_project d2 p of
                Inl e \<Rightarrow> (d2, Inl (Server_Error e))
              | Inr d3 \<Rightarrow> (d3, Inr p))"

definition reply :: "(project \<Rightarrow> 'x) \<Rightarrow> db \<times> (api_error + project) \<Rightarrow> db \<times> (api_error + 'x)" where
  "reply f r = (fst r, map_sum (\<lambda>e. e) f (snd r))"

record update_project_input =
  ui_name :: "string option"
  ui_cost_level_mode :: "string option"
  ui_priority_gwei :: "string option"
  ui_auto_queue_position :: "int option"
  ui_auto_max_credits_per_task :: "string option"

definition set_if :: "'x option \<Rightarrow> ('x \<Rightarrow> api_error + 'y) \<Rightarrow> ('y \<Rightarrow> project \<Rightarrow> project) \<Rightarrow> project \<Rightarrow> api_error + project" where
  "set_if x parse put p = (case x of None \<Rightarrow> Inr p | Some v \<Rightarrow> bindE (parse v) (\<lambda>y. Inr (put y p)))"

definition set_mode :: "string \<Rightarrow> project \<Rightarrow> api_error + project" where
  "set_mode value p =
     bindE (invalid_field ''cost_level_mode'' (ParseCostLevelMode value)) (\<lambda>mode.
     if (case pr_auto_max_credits_per_task p of None \<Rightarrow> True | Some c \<Rightarrow> c \<le> 0)
     then Inl (Validation_Error ''auto_max_credits_per_task'' (ErrMsg ''auto_max_credits_per_task is required''))
     else
       let p1 = (if mode = CostLevelModeAuto \<and> pr_auto_queue_position p = None
                 then p\<lparr>pr_auto_queue_position := Some DefaultAutoQueuePosition\<rparr> else p) in
       Inr (p1\<lparr>pr_cost_level_mode := mode\<rparr>))"

definition apply_update :: "llm_config \<Rightarrow> update_project_input \<Rightarrow> project \<Rightarrow> api_error + project" where
  "apply_update cfg inp p0 =
     bindE (set_if (ui_name inp) (\<lambda>name. if name = [] then Inl (Validation_Error ''name'' (ErrMsg ''name is required'')) else Inr name)
              (\<lambda>name p. p\<lparr>pr_name := name\<rparr>) p0) (\<lambda>p1.
     bindE (set_if (ui_priority_gwei inp) (\<lambda>v. invalid_field ''priority_gwei'' (ParsePriorityGwei cfg v))
              (\<lambda>g p. p\<lparr>pr_priority_gwei := g\<rparr>) p1) (\<lambda>p2.
     bindE (set_if (ui_auto_queue_position inp) (\<lambda>v. invalid_field ''auto_queue_position'' (ParseAutoQueuePosition v))
              (\<lambda>n p. p\<lparr>pr_auto_queue_position := Some n\<rparr>) p2) (\<lambda>p3.
     bindE (set_if (ui_auto_max_credits_per_task inp) (\<lambda>v. invalid_field ''auto_max_credits_per_task'' (ParseAutoMaxCreditsPerTask v))
              (\<lambda>c p. p\<lparr>pr_auto_max_credits_per_task := Some c\<rparr>) p3) (\<lambda>p4.
     case ui_cost_level_mode inp of None \<Rightarrow> Inr p4 | Some m \<Rightarrow> set_mode m p4))))"

definition UpdateProject ::
  "llm_config \<Rightarrow> string \<Rightarrow> (nat \<Rightarrow> db \<Rightarrow> db) \<Rightarrow> db \<Rightarrow> string \<Rightarrow> nat \<Rightarrow> update_project_input \<Rightarrow>
   db \<times> (api_error + project_data)" where
  "UpdateProject cfg threshold other d address projectID inp =
     (case currentUser d address of
        Inl e \<Rightarrow> (d, Inl e)
      | Inr _ \<Rightarrow>
          if ui_name inp = None \<and> ui_cost_level_mode inp = None \<and> ui_priority_gwei inp = None \<and>
             ui_auto_queue_position inp = None \<and> ui_auto_max_credits_per_task inp = None
          then (d, Inl (Validation_Error ''body'' (ErrMsg ''at least one field is required'')))
          else reply (toProjectData threshold) (edit_project other d address projectID (apply_update cfg inp)))"

definition DeleteProject :: "(nat \<Rightarrow> db \<Rightarrow> db) \<Rightarrow> db \<Rightarrow> string \<Rightarrow> nat \<Rightarrow> db \<times> (api_error + unit)" where
  "DeleteProject other d address projectID =
     reply (\<lambda>_. ()) (edit_project other d address projectID (\<lambda>p. Inr (p\<lparr>pr_status := ProjectStatusDeleted\<rparr>)))"

definition ResetAPIKey ::
  "(string \<Rightarrow> string) \<Rightarrow> (nat \<Rightarrow> db \<Rightarrow> db) \<Rightarrow> err + string \<Rightarrow> db \<Rightarrow> string \<Rightarrow> nat \<Rightarrow> db \<times> (api_error + string \<times> string)" where
  "ResetAPIKey HashToken other token d address projectID =
     reply (\<lambda>p. (pr_api_key_prefix p, case token of Inr apiKey \<Rightarrow> apiKey | Inl _ \<Rightarrow> []))
     (edit_project other d address projectID (\<lambda>p.
       bindE (server_error token) (\<lambda>apiKey.
       Inr (p\<lparr>pr_api_key_hash := HashToken apiKey, pr_api_key_prefix := apiKeyPrefix apiKey\<rparr>))))"

end
