(* ===== verification/Project_Correctness.thy ===== *)
theory Project_Correctness
  imports Api_Projects
begin

text \<open>Correctness of the project handlers: rows stay valid, an edit changes what it was asked to change, and what an overlapping edit undoes.\<close>

subsection \<open>Well-formed rows\<close>

definition project_ok :: "llm_config \<Rightarrow> project \<Rightarrow> bool" where
  "project_ok cfg p \<longleftrightarrow> pr_cost_level_mode p \<in> {CostLevelModeStatic, CostLevelModeAuto} \<and> valid_static cfg (pr_priority_gwei p) \<and>
     (\<exists>n. pr_auto_queue_position p = Some n \<and> 0 \<le> n \<and> n \<le> 100) \<and>
     (\<exists>c. pr_auto_max_credits_per_task p = Some c \<and> 0 < c)"

definition projects_wf :: "llm_config \<Rightarrow> db \<Rightarrow> bool" where
  "projects_wf cfg d \<longleftrightarrow> idx_wf pr_id pr_endpoint_token (db_projects d) \<and> idx_wf pr_id pr_api_key_hash (db_projects d) \<and>
     (\<forall>p \<in> set (rows (db_projects d)). project_ok cfg p)"

interpretation project_by_token: indexed_row pr_id "\<lambda>n r. r\<lparr>pr_id := n\<rparr>" pr_endpoint_token
  by unfold_locales

interpretation project_by_key: indexed_row pr_id "\<lambda>n r. r\<lparr>pr_id := n\<rparr>" pr_api_key_hash
  by unfold_locales

text \<open>A row may be replaced by any row with the same key whose index value no other row has.\<close>

lemma idx_wf_replace:
  assumes wf: "idx_wf key idx t" and fresh: "\<And>s. s \<in> set (rows t) \<Longrightarrow> key s \<noteq> key r \<Longrightarrow> idx s \<noteq> idx r"
  shows "idx_wf key idx (tbl_save key r t)"
proof -
  let ?f = "\<lambda>s. if key s = key r then r else s"
  have d: "distinct (map key (rows t))" "distinct (map idx (rows t))" using wf by (simp_all add: idx_wf_def tbl_wf_def)
  have "inj_on (idx \<circ> ?f) (set (rows t))"
  proof (rule inj_onI)
    fix a b assume ab: "a \<in> set (rows t)" "b \<in> set (rows t)" "(idx \<circ> ?f) a = (idx \<circ> ?f) b"
    show "a = b"
    proof (cases "key a = key b")
      case True
      then show ?thesis using d(1) ab(1,2) by (auto simp: distinct_map inj_on_def)
    next
      case False
      then have "idx a = idx b" using ab fresh [of a] fresh [of b] by (auto split: if_splits)
      then show ?thesis using d(2) ab(1,2) by (auto simp: distinct_map inj_on_def)
    qed
  qed
  moreover have "distinct (rows t)" using d(1) by (simp add: distinct_map)
  ultimately have "distinct (map idx (rows (tbl_save key r t)))" by (simp add: distinct_map)
  moreover have "tbl_wf key (tbl_save key r t)"
    unfolding tbl_save_def using wf by (intro tbl_wf_modify) (auto simp: idx_wf_def)
  ultimately show ?thesis by (simp add: idx_wf_def del: tbl_save_sel)
qed

lemma idx_wf_append:
  assumes "idx_wf key idx t" "key r = next_id t" "\<forall>s \<in> set (rows t). idx s \<noteq> idx r"
  shows "idx_wf key idx \<lparr>rows = rows t @ [r], next_id = Suc (next_id t)\<rparr>"
  using assms tbl_wf_create [of key t r] by (auto simp: idx_wf_def)

lemma save_project_wf:
  assumes "projects_wf cfg d" "project_ok cfg p" "save_project d p = Inr d'"
  shows "projects_wf cfg d'"
proof -
  have d': "d' = d\<lparr>db_projects := tbl_save pr_id p (db_projects d)\<rparr>"
    and fresh: "\<forall>r \<in> set (rows (db_projects d)). pr_id r \<noteq> pr_id p \<longrightarrow> \<not> project_clash p r"
    using assms(3) by (auto simp: save_project_def split: if_splits)
  have "idx_wf pr_id pr_endpoint_token (tbl_save pr_id p (db_projects d))"
    "idx_wf pr_id pr_api_key_hash (tbl_save pr_id p (db_projects d))"
    using assms(1) fresh by (auto simp: projects_wf_def project_clash_def intro!: idx_wf_replace)
  then show ?thesis using assms(1,2) by (auto simp: projects_wf_def d')
qed

lemma create_project_wf:
  assumes "projects_wf cfg d" "\<And>n. project_ok cfg (mk n)" "\<And>n. pr_id (mk n) = n"
    "tbl_create project_clash mk (db_projects d) = Inr (t, p)"
  shows "projects_wf cfg (d\<lparr>db_projects := t\<rparr>)"
proof -
  have t: "t = \<lparr>rows = rows (db_projects d) @ [p], next_id = Suc (next_id (db_projects d))\<rparr>" "p = mk (next_id (db_projects d))"
    "\<forall>x \<in> set (rows (db_projects d)). \<not> project_clash p x"
    using assms(4) by (auto simp: res_simps)
  then have "idx_wf pr_id pr_endpoint_token t" "idx_wf pr_id pr_api_key_hash t"
    using assms(1,3) unfolding t(1) by (auto simp: projects_wf_def project_clash_def intro!: idx_wf_append)
  then show ?thesis using assms(1,2) t by (auto simp: projects_wf_def)
qed

lemma edit_project_wf:
  assumes wf: "projects_wf cfg d" and other: "\<And>i d. projects_wf cfg d \<Longrightarrow> projects_wf cfg (other i d)"
    and change: "\<And>p p'. project_ok cfg p \<Longrightarrow> change p = Inr p' \<Longrightarrow> project_ok cfg p'"
  shows "projects_wf cfg (fst (edit_project other d address projectID change))"
proof (cases "currentUser d address")
  case (Inl e)
  then show ?thesis using wf by (simp add: edit_project_def)
next
  case (Inr user)
  have w: "projects_wf cfg (other 0 d)" "projects_wf cfg (other 1 (other 0 d))" using wf other by blast+
  show ?thesis
  proof (cases "bindE (of_option Not_Found (findOwnedProject (other 0 d) (u_id user) projectID)) change")
    case (Inl e)
    then show ?thesis using Inr w by (simp add: edit_project_def Let_def)
  next
    case inr: (Inr p)
    then obtain p0 where "findOwnedProject (other 0 d) (u_id user) projectID = Some p0" "change p0 = Inr p"
      by (auto simp: res_simps)
    then have "project_ok cfg p" using w(1) change by (auto simp: findOwnedProject_def projects_wf_def dest!: tbl_firstD)
    then show ?thesis using Inr inr w(2) save_project_wf [OF w(2)]
      by (auto simp: edit_project_def Let_def split: sum.split)
  qed
qed

lemma ParseAutoMaxCreditsPerTask_pos: "ParseAutoMaxCreditsPerTask v = Inr c \<Longrightarrow> 0 < c"
  by (auto simp: ParseAutoMaxCreditsPerTask_def res_simps split: option.splits)

lemma set_mode_ok: "project_ok cfg p \<Longrightarrow> set_mode m p = Inr p' \<Longrightarrow> project_ok cfg p'"
  by (auto simp: project_ok_def set_mode_def ParseCostLevelMode_def res_simps Let_def split: if_splits)

lemma set_if_ok:
  assumes "project_ok cfg p" "\<And>v y. parse v = Inr y \<Longrightarrow> project_ok cfg (put y p)" "set_if x parse put p = Inr p'"
  shows "project_ok cfg p'"
  using assms by (auto simp: set_if_def res_simps split: option.splits)

lemma apply_update_ok:
  assumes "project_ok cfg p" "apply_update cfg inp p = Inr p'"
  shows "project_ok cfg p'"
proof -
  obtain p1 p2 p3 p4 where s:
    "set_if (ui_name inp) (\<lambda>name. if name = [] then Inl (Validation_Error ''name'' (ErrMsg ''name is required'')) else Inr name)
       (\<lambda>name p. p\<lparr>pr_name := name\<rparr>) p = Inr p1"
    "set_if (ui_priority_gwei inp) (\<lambda>v. invalid_field ''priority_gwei'' (ParsePriorityGwei cfg v))
       (\<lambda>g p. p\<lparr>pr_priority_gwei := g\<rparr>) p1 = Inr p2"
    "set_if (ui_auto_queue_position inp) (\<lambda>v. invalid_field ''auto_queue_position'' (ParseAutoQueuePosition v))
       (\<lambda>n p. p\<lparr>pr_auto_queue_position := Some n\<rparr>) p2 = Inr p3"
    "set_if (ui_auto_max_credits_per_task inp) (\<lambda>v. invalid_field ''auto_max_credits_per_task'' (ParseAutoMaxCreditsPerTask v))
       (\<lambda>c p. p\<lparr>pr_auto_max_credits_per_task := Some c\<rparr>) p3 = Inr p4"
    "(case ui_cost_level_mode inp of None \<Rightarrow> Inr p4 | Some m \<Rightarrow> set_mode m p4) = Inr p'"
    using assms(2) by (auto simp: apply_update_def bindE_Inr_iff)
  have "project_ok cfg p1" by (rule set_if_ok [OF assms(1) _ s(1)]) (use assms(1) in \<open>simp add: project_ok_def\<close>)
  from set_if_ok [OF this _ s(2)] this have "project_ok cfg p2" by (auto simp: project_ok_def res_simps ParsePriorityGwei_iff)
  from set_if_ok [OF this _ s(3)] this have "project_ok cfg p3" by (auto simp: project_ok_def res_simps ParseAutoQueuePosition_def)
  from set_if_ok [OF this _ s(4)] this have "project_ok cfg p4"
    by (auto simp: project_ok_def res_simps dest: ParseAutoMaxCreditsPerTask_pos)
  then show ?thesis using s(5) set_mode_ok by (auto split: option.splits)
qed

lemma prepared_ok:
  assumes "prepare_project cfg cache HashToken token1 token2 now d address name = Inr (key, mk)"
  shows "project_ok cfg (mk n) \<and> pr_id (mk n) = n"
proof -
  have "\<exists>(u :: user) ep g c. InitialProjectPriorityGwei cfg cache = Inr g \<and>
      parsePositiveDecimalGwei (lc_default_auto_max_credits_per_task cfg) = Inr c \<and>
      mk = new_project HashToken now (u_id u) name ep key g c"
    using assms unfolding prepare_project_def bindE_Inr_iff server_error_Inr_iff sum.inject prod.inject by blast
  then obtain u :: user and ep g c where s: "InitialProjectPriorityGwei cfg cache = Inr g"
    "parsePositiveDecimalGwei (lc_default_auto_max_credits_per_task cfg) = Inr c"
    "mk = new_project HashToken now (u_id u) name ep key g c" by blast
  have "valid_static cfg g" using s(1) normalize_static_nearest by (auto simp: InitialProjectPriorityGwei_def res_simps)
  then show ?thesis using parsePositiveDecimalGwei_pos [OF s(2)] by (simp add: project_ok_def new_project_def s(3))
qed

text \<open>C18. The rows of projects are well-typed in every state. As long as other processes keep it so, each
  handler of the web API, whether it succeeds, is refused or overlaps with others, leaves a table in which every
  project has a mode, a static Cost Level that the configuration accepts, a queue position from 0 to
  100 and a positive maximum per task, and no two projects share a number, an endpoint token or a key.\<close>

theorem projects_stay_valid:
  assumes "projects_wf cfg d" "\<forall>i d. projects_wf cfg d \<longrightarrow> projects_wf cfg (other i d)"
  shows "projects_wf cfg (fst (CreateProject cfg cache HashToken other token1 token2 threshold now d address name)) \<and>
    projects_wf cfg (fst (UpdateProject cfg threshold other d address projectID inp)) \<and>
    projects_wf cfg (fst (DeleteProject other d address projectID)) \<and>
    projects_wf cfg (fst (ResetAPIKey HashToken other token1 d address projectID))"
proof -
  have edit: "projects_wf cfg (fst (edit_project other d address projectID change))"
    if "\<And>p p'. project_ok cfg p \<Longrightarrow> change p = Inr p' \<Longrightarrow> project_ok cfg p'" for change
    by (rule edit_project_wf) (use assms that in blast)+
  have "projects_wf cfg (fst (CreateProject cfg cache HashToken other token1 token2 threshold now d address name))"
  proof (cases "prepare_project cfg cache HashToken token1 token2 now d address name")
    case (Inl e)
    then show ?thesis using assms(1) by (simp add: CreateProject_def)
  next
    case (Inr r)
    obtain key mk where r: "r = (key, mk)" by (cases r)
    have ok: "project_ok cfg (mk n) \<and> pr_id (mk n) = n" for n by (rule prepared_ok [OF Inr [unfolded r]])
    have "projects_wf cfg (other 0 d)" using assms by blast
    from create_project_wf [OF this ok [THEN conjunct1] ok [THEN conjunct2]] this show ?thesis
      by (auto simp: CreateProject_def Inr r Let_def split: sum.split)
  qed
  moreover have "projects_wf cfg (fst (UpdateProject cfg threshold other d address projectID inp))"
    using edit [OF apply_update_ok] assms(1) by (auto simp: UpdateProject_def reply_def split: sum.split)
  moreover have "projects_wf cfg (fst (DeleteProject other d address projectID))"
    unfolding DeleteProject_def reply_def fst_conv by (rule edit) (auto simp: project_ok_def)
  moreover have "projects_wf cfg (fst (ResetAPIKey HashToken other token1 d address projectID))"
    unfolding ResetAPIKey_def reply_def fst_conv by (rule edit) (auto simp: project_ok_def res_simps)
  ultimately show ?thesis by blast
qed

subsection \<open>What an edit changes\<close>

text \<open>Nobody else touches the database.\<close>

abbreviation undisturbed :: "nat \<Rightarrow> db \<Rightarrow> db" where "undisturbed \<equiv> \<lambda>_ d. d"

lemma findOwnedProject_iff:
  "projects_wf cfg d \<Longrightarrow> findOwnedProject d userID projectID = Some p \<longleftrightarrow>
     p \<in> set (rows (db_projects d)) \<and> owned_project userID projectID p"
  using tbl_firstD [of "owned_project userID projectID" "db_projects d"]
    tbl_first_None_iff [of "owned_project userID projectID" "db_projects d"]
    tbl_wfD_unique [of pr_id "db_projects d"]
  unfolding findOwnedProject_def projects_wf_def idx_wf_def owned_project_def
  by (metis (mono_tags, lifting) option.exhaust)

lemma save_project_same_keys:
  assumes "projects_wf cfg d" "p \<in> set (rows (db_projects d))" "pr_id p' = pr_id p" "pr_endpoint_token p' = pr_endpoint_token p"
    "pr_api_key_hash p' = pr_api_key_hash p"
  shows "save_project d p' = Inr (d\<lparr>db_projects := tbl_save pr_id p' (db_projects d)\<rparr>)"
proof -
  have "\<not> project_clash p' r" if r: "r \<in> set (rows (db_projects d))" "pr_id r \<noteq> pr_id p'" for r
  proof -
    have "r \<noteq> p" using r(2) assms(3) by auto
    then have "pr_endpoint_token r \<noteq> pr_endpoint_token p" "pr_api_key_hash r \<noteq> pr_api_key_hash p"
      using assms(1,2) r(1) by (auto simp: projects_wf_def idx_wf_def distinct_map inj_on_def)
    then show ?thesis using assms(4,5) by (auto simp: project_clash_def)
  qed
  then show ?thesis by (auto simp: save_project_def)
qed

text \<open>The fields of an update that can be read, and the row they give.\<close>

definition readable :: "'x option \<Rightarrow> ('x \<Rightarrow> err + 'y) \<Rightarrow> bool" where
  "readable x parse \<longleftrightarrow> (case x of None \<Rightarrow> True | Some v \<Rightarrow> \<exists>y. parse v = Inr y)"

definition new_value :: "'x option \<Rightarrow> ('x \<Rightarrow> err + 'y) \<Rightarrow> 'y \<Rightarrow> 'y" where
  "new_value x parse old = (case x of None \<Rightarrow> old | Some v \<Rightarrow> (case parse v of Inl _ \<Rightarrow> old | Inr y \<Rightarrow> y))"

lemma set_if_iff:
  "put old p = p \<Longrightarrow> set_if x (\<lambda>v. invalid_field f (parse v)) put p = Inr p' \<longleftrightarrow>
     readable x parse \<and> p' = put (new_value x parse old) p"
  by (auto simp: set_if_def readable_def new_value_def res_simps split: option.splits sum.splits)

lemma set_name_iff:
  "set_if x (\<lambda>name. if name = [] then Inl e else Inr name) (\<lambda>name p. p\<lparr>pr_name := name\<rparr>) p = Inr p' \<longleftrightarrow>
     x \<noteq> Some [] \<and> p' = p\<lparr>pr_name := (case x of None \<Rightarrow> pr_name p | Some n \<Rightarrow> n)\<rparr>"
  by (auto simp: set_if_def split: option.splits)

lemma set_mode_iff:
  "pr_auto_queue_position p = Some n \<Longrightarrow> pr_auto_max_credits_per_task p = Some c \<Longrightarrow> 0 < c \<Longrightarrow>
   (case x of None \<Rightarrow> Inr p | Some m \<Rightarrow> set_mode m p) = Inr p' \<longleftrightarrow>
     readable x ParseCostLevelMode \<and> p' = p\<lparr>pr_cost_level_mode := new_value x ParseCostLevelMode (pr_cost_level_mode p)\<rparr>"
  by (auto simp: set_mode_def readable_def new_value_def res_simps split: option.splits sum.splits)

lemma new_maximum_pos: "0 < c \<Longrightarrow> 0 < new_value x ParseAutoMaxCreditsPerTask c"
  by (auto simp: new_value_def dest: ParseAutoMaxCreditsPerTask_pos split: option.splits sum.splits)

definition updated :: "llm_config \<Rightarrow> update_project_input \<Rightarrow> project \<Rightarrow> project" where
  "updated cfg inp p =
     p\<lparr>pr_name := (case ui_name inp of None \<Rightarrow> pr_name p | Some n \<Rightarrow> n),
       pr_priority_gwei := new_value (ui_priority_gwei inp) (ParsePriorityGwei cfg) (pr_priority_gwei p),
       pr_auto_queue_position := map_option (new_value (ui_auto_queue_position inp) ParseAutoQueuePosition) (pr_auto_queue_position p),
       pr_auto_max_credits_per_task :=
         map_option (new_value (ui_auto_max_credits_per_task inp) ParseAutoMaxCreditsPerTask) (pr_auto_max_credits_per_task p),
       pr_cost_level_mode := new_value (ui_cost_level_mode inp) ParseCostLevelMode (pr_cost_level_mode p)\<rparr>"

definition acceptable :: "llm_config \<Rightarrow> update_project_input \<Rightarrow> bool" where
  "acceptable cfg inp \<longleftrightarrow> ui_name inp \<noteq> Some [] \<and> readable (ui_priority_gwei inp) (ParsePriorityGwei cfg) \<and>
     readable (ui_auto_queue_position inp) ParseAutoQueuePosition \<and>
     readable (ui_auto_max_credits_per_task inp) ParseAutoMaxCreditsPerTask \<and> readable (ui_cost_level_mode inp) ParseCostLevelMode"

lemma apply_update_iff:
  assumes "project_ok cfg p"
  shows "apply_update cfg inp p = Inr p' \<longleftrightarrow> acceptable cfg inp \<and> p' = updated cfg inp p"
proof -
  obtain n c where p: "pr_auto_queue_position p = Some n" "pr_auto_max_credits_per_task p = Some c" "0 < c"
    using assms by (auto simp: project_ok_def)
  have put: "q\<lparr>pr_priority_gwei := pr_priority_gwei q\<rparr> = q"
    "pr_auto_queue_position q = Some n \<Longrightarrow> q\<lparr>pr_auto_queue_position := Some n\<rparr> = q"
    "pr_auto_max_credits_per_task q = Some c \<Longrightarrow> q\<lparr>pr_auto_max_credits_per_task := Some c\<rparr> = q" for q :: project
    by (cases q, simp)+
  define p1 where "p1 = p\<lparr>pr_name := (case ui_name inp of None \<Rightarrow> pr_name p | Some n \<Rightarrow> n)\<rparr>"
  define p2 where "p2 = p1\<lparr>pr_priority_gwei := new_value (ui_priority_gwei inp) (ParsePriorityGwei cfg) (pr_priority_gwei p1)\<rparr>"
  define p3 where "p3 = p2\<lparr>pr_auto_queue_position := Some (new_value (ui_auto_queue_position inp) ParseAutoQueuePosition n)\<rparr>"
  define p4 where "p4 = p3\<lparr>pr_auto_max_credits_per_task := Some (new_value (ui_auto_max_credits_per_task inp) ParseAutoMaxCreditsPerTask c)\<rparr>"
  have f: "pr_auto_queue_position p2 = Some n" "pr_auto_max_credits_per_task p3 = Some c"
    "pr_auto_queue_position p4 = Some (new_value (ui_auto_queue_position inp) ParseAutoQueuePosition n)"
    "pr_auto_max_credits_per_task p4 = Some (new_value (ui_auto_max_credits_per_task inp) ParseAutoMaxCreditsPerTask c)"
    by (simp_all add: p1_def p2_def p3_def p4_def p)
  note steps = set_name_iff [where p = p and x = "ui_name inp", folded p1_def]
    set_if_iff [where put = "\<lambda>g p. p\<lparr>pr_priority_gwei := g\<rparr>", OF put(1) [of p1], where x = "ui_priority_gwei inp"
      and parse = "ParsePriorityGwei cfg", folded p2_def]
    set_if_iff [where put = "\<lambda>n p. p\<lparr>pr_auto_queue_position := Some n\<rparr>", OF put(2) [OF f(1)], where x = "ui_auto_queue_position inp"
      and parse = ParseAutoQueuePosition, folded p3_def]
    set_if_iff [where put = "\<lambda>c p. p\<lparr>pr_auto_max_credits_per_task := Some c\<rparr>", OF put(3) [OF f(2)],
      where x = "ui_auto_max_credits_per_task inp" and parse = ParseAutoMaxCreditsPerTask, folded p4_def]
    set_mode_iff [OF f(3,4) new_maximum_pos [OF p(3)], where x = "ui_cost_level_mode inp"]
  have "updated cfg inp p = p4\<lparr>pr_cost_level_mode := new_value (ui_cost_level_mode inp) ParseCostLevelMode (pr_cost_level_mode p4)\<rparr>"
    by (simp add: updated_def p1_def p2_def p3_def p4_def p)
  then show ?thesis
    unfolding apply_update_def bindE_Inr_iff acceptable_def by (simp add: steps conj_ac cong: conj_cong)
qed

definition some_field :: "update_project_input \<Rightarrow> bool" where
  "some_field inp \<longleftrightarrow> ui_name inp \<noteq> None \<or> ui_cost_level_mode inp \<noteq> None \<or> ui_priority_gwei inp \<noteq> None \<or>
     ui_auto_queue_position inp \<noteq> None \<or> ui_auto_max_credits_per_task inp \<noteq> None"

lemma updated_same [simp]:
  "pr_id (updated cfg inp p) = pr_id p" "pr_user_id (updated cfg inp p) = pr_user_id p"
  "pr_status (updated cfg inp p) = pr_status p" "pr_endpoint_token (updated cfg inp p) = pr_endpoint_token p"
  "pr_api_key_hash (updated cfg inp p) = pr_api_key_hash p"
  by (simp_all add: updated_def)

text \<open>An edit of an owned project that keeps its endpoint token and key.\<close>

lemma edit_undisturbed:
  assumes wf: "projects_wf cfg d" and u: "currentUser d address = Inr u" and p: "findOwnedProject d (u_id u) projectID = Some p"
    and c: "change p = Inr p'" "pr_id p' = pr_id p" "pr_endpoint_token p' = pr_endpoint_token p" "pr_api_key_hash p' = pr_api_key_hash p"
  shows "edit_project undisturbed d address projectID change = (d\<lparr>db_projects := tbl_save pr_id p' (db_projects d)\<rparr>, Inr p')"
proof -
  have "p \<in> set (rows (db_projects d))" using p by (auto simp: findOwnedProject_def dest: tbl_firstD)
  from save_project_same_keys [OF wf this c(2-4)] show ?thesis by (simp add: edit_project_def u p c(1))
qed

lemma findOwnedProject_saved:
  assumes "projects_wf cfg d" "findOwnedProject d userID projectID = Some p" "pr_id p' = pr_id p" "owned_project userID projectID p'"
  shows "tbl_first (owned_project userID projectID) (tbl_save pr_id p' (db_projects d)) = Some p'"
proof -
  let ?t = "tbl_save pr_id p' (db_projects d)"
  have p: "p \<in> set (rows (db_projects d))" using assms(2) by (auto simp: findOwnedProject_def dest: tbl_firstD)
  then have "p' \<in> set (rows ?t)" using assms(3) by (force simp: image_iff)
  then have "tbl_first (owned_project userID projectID) ?t \<noteq> None" using assms(4) by (simp only: tbl_first_None_iff) blast
  then obtain q where q: "tbl_first (owned_project userID projectID) ?t = Some q" by blast
  then have "q \<in> set (rows ?t)" "pr_id q = pr_id p'" using assms(4) by (auto simp: owned_project_def dest!: tbl_firstD)
  then have "q = p'" by (auto split: if_splits)
  with q show ?thesis by simp
qed

text \<open>C19. An update changes what it names and nothing else. Undisturbed, it succeeds exactly when it names a field,
  the caller owns the project and every named field can be read (a non-empty name, an accepted Cost Level, a
  position from 0 to 100, a positive maximum, a known mode); then the row has the values of those
  fields, keeps all its others, every other project keeps its row, and nothing else of the database
  changes. A refused update changes nothing.\<close>

theorem project_update_exact:
  assumes "projects_wf cfg d" "currentUser d address = Inr u"
  shows "(case findOwnedProject d (u_id u) projectID of
      None \<Rightarrow> \<exists>e. UpdateProject cfg threshold undisturbed d address projectID inp = (d, Inl e)
    | Some p \<Rightarrow>
        if some_field inp \<and> acceptable cfg inp then
          UpdateProject cfg threshold undisturbed d address projectID inp =
            (d\<lparr>db_projects := tbl_save pr_id (updated cfg inp p) (db_projects d)\<rparr>, Inr (toProjectData threshold (updated cfg inp p))) \<and>
          findOwnedProject (d\<lparr>db_projects := tbl_save pr_id (updated cfg inp p) (db_projects d)\<rparr>) (u_id u) projectID =
            Some (updated cfg inp p)
        else \<exists>e. UpdateProject cfg threshold undisturbed d address projectID inp = (d, Inl e))"
proof (cases "findOwnedProject d (u_id u) projectID")
  case None
  then show ?thesis by (auto simp: UpdateProject_def assms(2) edit_project_def reply_def)
next
  case (Some p)
  then have p: "p \<in> set (rows (db_projects d))" "owned_project (u_id u) projectID p"
    by (auto simp: findOwnedProject_def dest: tbl_firstD)
  have ok: "project_ok cfg p" using assms(1) p(1) by (simp add: projects_wf_def)
  show ?thesis
  proof (cases "some_field inp \<and> acceptable cfg inp")
    case True
    then have "apply_update cfg inp p = Inr (updated cfg inp p)" by (simp add: apply_update_iff [OF ok])
    from edit_undisturbed [where change = "apply_update cfg inp", OF assms Some this] findOwnedProject_saved [OF assms(1) Some, of "updated cfg inp p"] p(2) True Some
    show ?thesis by (auto simp: UpdateProject_def assms(2) reply_def some_field_def findOwnedProject_def owned_project_def)
  next
    case False
    have "\<exists>e. apply_update cfg inp p = Inl e" if "\<not> acceptable cfg inp"
      using apply_update_iff [OF ok, of inp] that by (cases "apply_update cfg inp p") auto
    with False Some show ?thesis
      by (auto simp: UpdateProject_def assms(2) edit_project_def reply_def some_field_def)
  qed
qed

subsection \<open>Keys\<close>

definition hex_token :: "string \<Rightarrow> bool" where
  "hex_token s \<longleftrightarrow> s \<noteq> [] \<and> set s \<subseteq> set ''0123456789abcdef''"

lemma hex_token_trimmed: "hex_token s \<Longrightarrow> TrimSpace s = s"
proof -
  assume h: "hex_token s"
  have c: "\<forall>c \<in> set s. \<not> is_space c" using h by (auto simp: hex_token_def is_space_def)
  have drop: "dropWhile is_space xs = xs" if "\<forall>c \<in> set xs. \<not> is_space c" for xs using that by (cases xs) auto
  show ?thesis using drop [OF c] drop [of "rev s"] c by (simp add: TrimSpace_def)
qed

abbreviation bearer :: "string \<Rightarrow> string" where "bearer key \<equiv> ''Bearer '' @ key"

lemma auth_by_key:
  assumes "projects_wf cfg d" "p \<in> set (rows (db_projects d))" "pr_status p = ProjectStatusActive" "pr_endpoint_token p = endpoint"
    "endpoint \<noteq> []" "hex_token key" "HashToken key = pr_api_key_hash p"
  shows "ProjectAuthMiddleware HashToken web now other d endpoint (bearer key) = Inr p"
proof -
  have "tbl_lookup pr_endpoint_token endpoint (db_projects d) = Some p"
    using project_by_token.lookup_in assms(1,2,4) by (auto simp: projects_wf_def)
  moreover have "HasPrefix (bearer key) ''Bearer ''" "TrimPrefix (bearer key) ''Bearer '' = key"
    by (simp_all only: HasPrefix_append TrimPrefix_append)
  ultimately show ?thesis
    using assms(3,5-) by (simp add: ProjectAuthMiddleware_def Let_def hex_token_trimmed hex_token_def del: append.simps)
qed

lemma created_project:
  assumes "CreateProject cfg cache HashToken undisturbed (Inr endpoint) (Inr key) threshold now d address name = (d1, Inr (data, key'))"
    "projects_wf cfg d"
  shows "\<exists>u p. key' = key \<and> currentUser d address = Inr u \<and> currentUser d1 address = Inr u \<and> data = toProjectData threshold p \<and>
    projects_wf cfg d1 \<and> p \<in> set (rows (db_projects d1)) \<and> owned_project (u_id u) (pr_id p) p \<and>
    pr_status p = ProjectStatusActive \<and> pr_endpoint_token p = endpoint \<and> pr_api_key_hash p = HashToken key"
proof -
  obtain mk t p where s: "prepare_project cfg cache HashToken (Inr endpoint) (Inr key) now d address name = Inr (key', mk)"
    "tbl_create project_clash mk (db_projects d) = Inr (t, p)" "d1 = d\<lparr>db_projects := t\<rparr>" "data = toProjectData threshold p"
    using assms(1) by (auto simp: CreateProject_def Let_def split: sum.splits prod.splits)
  have "\<exists>(u :: user) g c. currentUser d address = Inr u \<and> key' = key \<and> mk = new_project HashToken now (u_id u) name endpoint key g c"
    using s(1) unfolding prepare_project_def bindE_Inr_iff server_error_Inr_iff sum.inject prod.inject by blast
  then obtain u :: user and g c where u: "currentUser d address = Inr u" "key' = key"
    "mk = new_project HashToken now (u_id u) name endpoint key g c" by blast
  have wf: "projects_wf cfg d1"
    unfolding s(3) using prepared_ok [OF s(1)] by (intro create_project_wf [OF assms(2) _ _ s(2)]) auto
  have "p = mk (next_id (db_projects d))" "rows t = rows (db_projects d) @ [p]" using s(2) by (auto simp: res_simps)
  with wf u s show ?thesis
    by (intro exI [of _ u] exI [of _ p]) (auto simp: new_project_def owned_project_def currentUser_def)
qed

lemma edit_saved:
  assumes "edit_project undisturbed d address projectID change = (d', Inr p')" "currentUser d address = Inr u"
    "findOwnedProject d (u_id u) projectID = Some p"
  shows "change p = Inr p' \<and> save_project d p' = Inr d'"
  using assms by (auto simp: edit_project_def Let_def split: sum.splits)

lemma lookup_saved_endpoint:
  assumes "projects_wf cfg d" "p \<in> set (rows (db_projects d))" "pr_id p' = pr_id p" "pr_endpoint_token p' = pr_endpoint_token p"
  shows "tbl_lookup pr_endpoint_token (pr_endpoint_token p) (tbl_save pr_id p' (db_projects d)) = Some p'"
proof -
  have wf: "idx_wf pr_id pr_endpoint_token (db_projects d)" using assms(1) by (simp add: projects_wf_def)
  from project_by_token.lookup_save [OF wf, of p' p] project_by_token.lookup_in [OF wf assms(2)] show ?thesis
    using assms(3,4) by simp
qed

text \<open>C5. The life of a project key. The key a caller receives when creating a project is the one the LLM API accepts
  at the project's endpoint, for that project and its owner. After the project is deleted its endpoint refuses every
  credential, and after the key is reset it accepts the new key and refuses the old one (unless the two hash alike
  or the old key is also a session token).\<close>

theorem project_key_lifecycle:
  assumes "CreateProject cfg cache HashToken undisturbed (Inr endpoint) (Inr key) threshold now d address name = (d1, Inr (data, key'))"
    "projects_wf cfg d" "endpoint \<noteq> []" "hex_token key"
  shows "key' = key \<and>
    (\<exists>p u. ProjectAuthMiddleware HashToken web t other d1 endpoint (bearer key) = Inr p \<and> pr_id p = pj_id data \<and>
       currentUser d address = Inr u \<and> pr_user_id p = u_id u) \<and>
    (\<forall>header. \<exists>m. ProjectAuthMiddleware HashToken web t other (fst (DeleteProject undisturbed d1 address (pj_id data))) endpoint header = Inl m) \<and>
    (\<forall>key2 d2 r. ResetAPIKey HashToken undisturbed (Inr key2) d1 address (pj_id data) = (d2, Inr r) \<and> hex_token key2 \<longrightarrow>
       snd r = key2 \<and> (\<exists>p. ProjectAuthMiddleware HashToken web t other d2 endpoint (bearer key2) = Inr p \<and> pr_id p = pj_id data) \<and>
       (HashToken key \<noteq> HashToken key2 \<and> (\<exists>e. ws_validate web key t = Inl e) \<longrightarrow>
         (\<exists>m. ProjectAuthMiddleware HashToken web t other d2 endpoint (bearer key) = Inl m)))"
proof -
  obtain u p where c: "key' = key" "currentUser d address = Inr u" "currentUser d1 address = Inr u"
    "data = toProjectData threshold p" "projects_wf cfg d1" "p \<in> set (rows (db_projects d1))"
    "owned_project (u_id u) (pr_id p) p" "pr_status p = ProjectStatusActive" "pr_endpoint_token p = endpoint"
    "pr_api_key_hash p = HashToken key"
    using created_project [OF assms(1,2)] by blast
  have id: "pj_id data = pr_id p" by (simp add: c(4) toProjectData_def)
  have find: "findOwnedProject d1 (u_id u) (pr_id p) = Some p" by (simp add: findOwnedProject_iff [OF c(5)] c(6,7))
  have works: "ProjectAuthMiddleware HashToken web t other d1 endpoint (bearer key) = Inr p"
    by (rule auth_by_key [OF c(5,6,8,9) assms(3,4)]) (simp add: c(10))
  let ?gone = "p\<lparr>pr_status := ProjectStatusDeleted\<rparr>"
  have "fst (DeleteProject undisturbed d1 address (pr_id p)) = d1\<lparr>db_projects := tbl_save pr_id ?gone (db_projects d1)\<rparr>"
    using edit_undisturbed [OF c(5,3) find, of "\<lambda>p. Inr (p\<lparr>pr_status := ProjectStatusDeleted\<rparr>)" ?gone]
    by (simp add: DeleteProject_def reply_def)
  moreover have "tbl_lookup pr_endpoint_token endpoint (tbl_save pr_id ?gone (db_projects d1)) = Some ?gone"
    using lookup_saved_endpoint [OF c(5,6), of ?gone] c(9) by simp
  ultimately have gone: "\<exists>m. ProjectAuthMiddleware HashToken web t other (fst (DeleteProject undisturbed d1 address (pr_id p))) endpoint header = Inl m" for header
    by (simp add: ProjectAuthMiddleware_def Let_def)
  have reset: "snd r = key2 \<and> (\<exists>p. ProjectAuthMiddleware HashToken web t other d2 endpoint (bearer key2) = Inr p \<and> pr_id p = pj_id data) \<and>
       (HashToken key \<noteq> HashToken key2 \<and> (\<exists>e. ws_validate web key t = Inl e) \<longrightarrow>
         (\<exists>m. ProjectAuthMiddleware HashToken web t other d2 endpoint (bearer key) = Inl m))"
    if r: "ResetAPIKey HashToken undisturbed (Inr key2) d1 address (pr_id p) = (d2, Inr r)" "hex_token key2" for key2 d2 r
  proof -
    let ?new = "p\<lparr>pr_api_key_hash := HashToken key2, pr_api_key_prefix := apiKeyPrefix key2\<rparr>"
    have s: "save_project d1 ?new = Inr d2" "snd r = key2"
      using r(1) c(3) find by (auto simp: ResetAPIKey_def reply_def edit_project_def Let_def server_error_def split: sum.splits)
    have ok: "project_ok cfg ?new" using c(5,6) by (auto simp: projects_wf_def project_ok_def)
    note wf2 = save_project_wf [OF c(5) ok s(1)]
    have rows: "db_projects d2 = tbl_save pr_id ?new (db_projects d1)" using s(1) by (auto simp: save_project_def split: if_splits)
    have "?new \<in> set (rows (db_projects d2))" using c(6) by (force simp: rows image_iff)
    from auth_by_key [OF wf2 this _ _ assms(3) r(2)] c(8,9)
    have new: "ProjectAuthMiddleware HashToken web t other d2 endpoint (bearer key2) = Inr ?new" by simp
    have "tbl_lookup pr_endpoint_token endpoint (db_projects d2) = Some ?new"
      using lookup_saved_endpoint [OF c(5,6), of ?new] c(9) by (simp add: rows)
    then have "\<exists>m. ProjectAuthMiddleware HashToken web t other d2 endpoint (bearer key) = Inl m"
      if "HashToken key \<noteq> HashToken key2" "ws_validate web key t = Inl e" for e
      using that hex_token_trimmed [OF assms(4)]
      by (simp add: ProjectAuthMiddleware_def Let_def TrimPrefix_def HasPrefix_def)
    with new s(2) id show ?thesis by auto
  qed
  from works c(1,2,7) gone reset id show ?thesis by (auto simp: owned_project_def)
qed

subsection \<open>Overlapping edits\<close>

text \<open>C21. What the handlers do not promise: a save writes every column, so an update that has read the row
  before another request resets the key or deletes the project, and saves it afterwards, undoes that request. The old key is
  accepted again and the deleted project is back.\<close>

theorem overlapping_update_undoes:
  assumes "projects_wf cfg d" "currentUser d address = Inr u" "findOwnedProject d (u_id u) projectID = Some p"
    "some_field inp" "acceptable cfg inp" "other 0 d = d"
    "other 1 d = fst (ResetAPIKey HashToken undisturbed token d address projectID) \<or>
     other 1 d = fst (DeleteProject undisturbed d address projectID)"
  shows "\<exists>d'. UpdateProject cfg threshold other d address projectID inp = (d', Inr (toProjectData threshold (updated cfg inp p))) \<and>
    findOwnedProject d' (u_id u) projectID = Some (updated cfg inp p) \<and>
    (\<forall>key. hex_token key \<and> HashToken key = pr_api_key_hash p \<and> pr_status p = ProjectStatusActive \<and> pr_endpoint_token p \<noteq> [] \<longrightarrow>
       ProjectAuthMiddleware HashToken web t other' d' (pr_endpoint_token p) (bearer key) = Inr (updated cfg inp p))"
proof -
  let ?q = "updated cfg inp p"
  have p: "p \<in> set (rows (db_projects d))" "owned_project (u_id u) projectID p"
    using assms(3) by (auto simp: findOwnedProject_def dest: tbl_firstD)
  have ok: "project_ok cfg p" using assms(1) p(1) by (simp add: projects_wf_def)
  have upd: "apply_update cfg inp p = Inr ?q" by (simp add: apply_update_iff [OF ok] assms(5))
  have okq: "project_ok cfg ?q" by (rule apply_update_ok [OF ok upd])
  have edit: "\<exists>p2. fst (edit_project undisturbed d address projectID change) = d\<lparr>db_projects := tbl_save pr_id p2 (db_projects d)\<rparr> \<and> pr_id p2 = pr_id p"
    if "fst (edit_project undisturbed d address projectID change) \<noteq> d" "\<And>q. change p = Inr q \<Longrightarrow> pr_id q = pr_id p" for change
  proof (cases "change p")
    case (Inl e)
    then show ?thesis using that(1) by (simp add: edit_project_def assms(2,3))
  next
    case (Inr q)
    show ?thesis
    proof (cases "save_project d q")
      case (Inl e)
      then show ?thesis using that(1) Inr by (simp add: edit_project_def assms(2,3))
    next
      case d2: (Inr d2)
      then have "d2 = d\<lparr>db_projects := tbl_save pr_id q (db_projects d)\<rparr>" by (simp add: save_project_def split: if_splits)
      then show ?thesis using d2 Inr that(2) [OF Inr]
        by (intro exI [of _ q]) (simp add: edit_project_def assms(2,3) del: tbl_save_sel)
    qed
  qed
  have "\<exists>p2. other 1 d = d\<lparr>db_projects := tbl_save pr_id p2 (db_projects d)\<rparr> \<and> pr_id p2 = pr_id p" if "other 1 d \<noteq> d"
    using assms(7)
  proof
    assume o: "other 1 d = fst (ResetAPIKey HashToken undisturbed token d address projectID)"
    show ?thesis
      using that unfolding o ResetAPIKey_def reply_def fst_conv by (rule edit) (auto simp: res_simps)
  next
    assume o: "other 1 d = fst (DeleteProject undisturbed d address projectID)"
    show ?thesis
      using that unfolding o DeleteProject_def reply_def fst_conv by (rule edit) auto
  qed
  then consider "other 1 d = d" | p2 where "other 1 d = d\<lparr>db_projects := tbl_save pr_id p2 (db_projects d)\<rparr>" "pr_id p2 = pr_id p" by blast
  note d2 = this
  let ?d' = "d\<lparr>db_projects := tbl_save pr_id ?q (db_projects d)\<rparr>"
  have resaved: "tbl_save pr_id ?q (tbl_save pr_id p2 (db_projects d)) = tbl_save pr_id ?q (db_projects d)" if "pr_id p2 = pr_id p" for p2
    using that by (auto simp: tbl_save_def tbl_modify_def)
  have same: "save_project d ?q = Inr ?d'" by (rule save_project_same_keys [OF assms(1) p(1)]) simp_all
  have "save_project (d\<lparr>db_projects := tbl_save pr_id p2 (db_projects d)\<rparr>) ?q = Inr ?d'" if "pr_id p2 = pr_id p" for p2
    using same that by (auto simp: save_project_def resaved split: if_splits)
  with same have "save_project (other 1 d) ?q = Inr ?d'" by (cases rule: d2) simp_all
  then have r: "UpdateProject cfg threshold other d address projectID inp = (?d', Inr (toProjectData threshold ?q))"
    using assms(4) by (auto simp: UpdateProject_def edit_project_def reply_def Let_def assms(2,3,6) upd some_field_def)
  have f: "findOwnedProject ?d' (u_id u) projectID = Some ?q"
    using findOwnedProject_saved [OF assms(1,3), of ?q] p(2) by (simp add: findOwnedProject_def owned_project_def)
  have "ProjectAuthMiddleware HashToken web t other' ?d' (pr_endpoint_token p) (bearer key) = Inr ?q"
    if "hex_token key" "HashToken key = pr_api_key_hash p" "pr_status p = ProjectStatusActive" "pr_endpoint_token p \<noteq> []" for key
  proof (rule auth_by_key [OF save_project_wf [OF assms(1) okq same]])
    show "?q \<in> set (rows (db_projects ?d'))" using p(1) by (force simp: image_iff)
  qed (use that in simp_all)
  with r f show ?thesis by blast
qed

subsection \<open>Sessions\<close>

lemma create_codes_users: "create_code_attempts d userID rnd xs = Inr (d', r) \<Longrightarrow> db_users d' = db_users d"
  by (induction xs) (auto split: sum.splits if_splits)

lemma bind_invitee_users: "bind_invitee cfg d userID code = Inr d' \<Longrightarrow> db_users d' = db_users d"
  by (auto simp: bind_invitee_def create_credit_event_Inr bindE_Inr_iff creditAccountLocked_def save_account_def Let_def
      split: if_splits option.splits sum.splits)

lemma find_snoc: "\<forall>x \<in> set xs. \<not> p x \<Longrightarrow> find p (xs @ [y]) = (if p y then Some y else None)"
  by (induction xs) auto

lemma ensured_user:
  assumes "EnsureUserWithReferral ccfg rnd d address code = (d', Inr u)"
  shows "tbl_lookup u_address address (db_users d') = Some u"
proof (cases "tbl_lookup u_address address (db_users d)")
  case None
  then obtain t where t: "tbl_create user_clash (user_row_of address) (db_users d) = Inr (t, u)" "db_users d' = t"
    using assms
    by (auto simp: EnsureUserWithReferral_def create_user_tx_def bindE_Inr_iff create_credit_account_def Let_def
        createActiveReferralCode_def create_credit_event_Inr
        dest!: bind_invitee_users create_codes_users split: sum.splits if_splits)
  have "rows t = rows (db_users d) @ [u]" "u_address u = address" using t(1) by (auto simp: res_simps user_row_of_def)
  then show ?thesis using None t(2)
    by (auto simp: tbl_lookup_def tbl_first_def find_None_iff find_snoc)
next
  case (Some v)
  then show ?thesis using assms by (simp add: EnsureUserWithReferral_def)
qed

text \<open>C20. Logging in. A log-in that succeeds carries a signature of the log-in message for the claimed address by that
  address itself, made at most two minutes before and one minute after; a refused one changes nothing. The token it returns, for as
  long as the JWT library accepts it for the address it was made for, lets the caller act as the user with that address, who now
  exists.\<close>

theorem login_session:
  assumes "Login wc web ccfg rnd now d inp = (d', res)"
  shows "(\<forall>field e. res = Inl (Validation_Error field e) \<longrightarrow> d' = d) \<and>
    (\<forall>token exp. res = Inr (token, exp) \<longrightarrow>
      now - 120 \<le> li_timestamp inp \<and> li_timestamp inp \<le> now + 60 \<and>
      (\<exists>signer. RecoverAddress wc (GenerateSignMessage ''Login'' (li_address inp) (li_timestamp inp)) (li_signature inp) = Inr signer \<and>
         EqualFold signer (li_address inp)) \<and>
      (\<forall>t. ws_validate web token t = Inr (wc_checksummed wc (li_address inp)) \<and> CHR '' '' \<notin> set token \<and> wc_checksummed wc (li_address inp) \<noteq> [] \<longrightarrow>
         (\<exists>address u. JWTAuthMiddleware web t (bearer token) = Inr address \<and> currentUser d' address = Inr u \<and>
           u_address u = wc_checksummed wc (li_address inp))))"
proof -
  let ?a = "wc_checksummed wc (li_address inp)"
  define checks where "checks =
      bindE (if ws_test_environment web then Inr ()
             else if ws_turnstile web (li_turnstile_token inp) = Inr () then Inr ()
             else Inl (Validation_Error ''turnstile_token'' (ErrMsg ''Invalid turnstile token''))) (\<lambda>_.
      bindE (if ValidateAddress wc (li_address inp) = Inr () then Inr ()
             else Inl (Validation_Error ''address'' (ErrMsg ''Invalid address''))) (\<lambda>_.
      bindE (case ValidateAndRecover wc now (GenerateSignMessage ''Login'' (li_address inp) (li_timestamp inp))
               (li_signature inp) (li_timestamp inp) of
               Inl _ \<Rightarrow> Inl (Validation_Error ''signature'' (ErrMsg ''Invalid signature''))
             | Inr signer \<Rightarrow> Inr signer) (\<lambda>signer.
      if \<not> EqualFold signer (li_address inp) then Inl (Validation_Error ''address'' (ErrMsg ''Signature address mismatch''))
      else Inr ?a)))"
  have run: "(case checks of Inl e \<Rightarrow> (d, Inl e)
      | Inr normalized \<Rightarrow> (case EnsureUserWithReferral ccfg rnd d normalized (li_invite_code inp) of
             (d', Inl e) \<Rightarrow> (d', Inl (Server_Error e))
           | (d', Inr _) \<Rightarrow> (d', server_error (ws_generate web normalized now)))) = (d', res)"
    using assms unfolding Login_def Let_def checks_def .
  show ?thesis
  proof (cases checks)
    case (Inl e)
    then show ?thesis using run by auto
  next
    case (Inr a)
    then have c: "a = ?a" "\<exists>signer. ValidateAndRecover wc now (GenerateSignMessage ''Login'' (li_address inp) (li_timestamp inp))
        (li_signature inp) (li_timestamp inp) = Inr signer \<and> EqualFold signer (li_address inp)"
      by (auto simp: checks_def bindE_Inr_iff split: if_splits sum.splits)
    then obtain signer where signer: "ValidateTimestamp 60 now (li_timestamp inp) = Inr ()"
      "RecoverAddress wc (GenerateSignMessage ''Login'' (li_address inp) (li_timestamp inp)) (li_signature inp) = Inr signer"
      "EqualFold signer (li_address inp)" by (auto simp: ValidateAndRecover_def bindE_Inr_iff)
    obtain d1 r where e: "EnsureUserWithReferral ccfg rnd d ?a (li_invite_code inp) = (d1, r)" by fastforce
    show ?thesis
    proof (cases r)
      case (Inl x)
      then show ?thesis using run Inr c(1) e by auto
    next
      case user: (Inr u)
      have d1: "d' = d1" "res = server_error (ws_generate web ?a now)" using run Inr c(1) e user by simp_all
      have lk: "tbl_lookup u_address ?a (db_users d') = Some u" using ensured_user e user d1(1) by blast
      have jwt: "\<exists>address u. JWTAuthMiddleware web t (bearer token) = Inr address \<and> currentUser d' address = Inr u \<and> u_address u = ?a"
        if "ws_validate web token t = Inr ?a" "CHR '' '' \<notin> set token" "?a \<noteq> []" for token t
      proof -
        have "split_at (CHR '' '') (bearer token) = [''Bearer'', token]" using that(2) by (simp add: split_at_none)
        then have "JWTAuthMiddleware web t (bearer token) = Inr ?a" using that(1) by (simp add: JWTAuthMiddleware_def)
        then show ?thesis using that(3) lk tbl_lookupD [OF lk] by (auto simp: currentUser_def)
      qed
      have ts: "now - 120 \<le> li_timestamp inp \<and> li_timestamp inp \<le> now + 60"
        using signer(1) by (simp add: ValidateTimestamp_def rejectIf_Inr_iff not_less)
      have "res \<noteq> Inl (Validation_Error f x)" for f x
        by (simp add: d1(2) server_error_def split: sum.split)
      then show ?thesis using jwt ts signer(2,3) by blast
    qed
  qed
qed

subsection \<open>An example\<close>

text \<open>User 1 creates a project; keys are stored as they are.\<close>

definition sample_user_db :: db where
  "sample_user_db = empty_db\<lparr>db_users := \<lparr>rows = [\<lparr>u_id = 1, u_address = ''0xa''\<rparr>], next_id = 2\<rparr>\<rparr>"

abbreviation sample_key :: string where "sample_key \<equiv> ''abcdef0123''"

lemma sample_user: "currentUser sample_user_db ''0xa'' = Inr \<lparr>u_id = 1, u_address = ''0xa''\<rparr>"
  by (simp add: currentUser_def sample_user_db_def tbl_lookup_def tbl_first_def)

lemma sample_user_db_wf: "projects_wf cfg sample_user_db"
  by (simp add: projects_wf_def sample_user_db_def empty_db_def)

lemma sample_created:
  "\<exists>d1 data. CreateProject sample_llm_config empty_queued_priority_cache (\<lambda>s. s) undisturbed (Inr ''e0'') (Inr sample_key)
     ''0.5'' 0 sample_user_db ''0xa'' ''p'' = (d1, Inr (data, sample_key))"
proof -
  have "\<exists>g. InitialProjectPriorityGwei sample_llm_config empty_queued_priority_cache = Inr g"
    "\<exists>c. parsePositiveDecimalGwei (lc_default_auto_max_credits_per_task sample_llm_config) = Inr c"
  proof -
    have "isl (InitialProjectPriorityGwei sample_llm_config empty_queued_priority_cache) = False" by code_simp
    then show "\<exists>g. InitialProjectPriorityGwei sample_llm_config empty_queued_priority_cache = Inr g"
      by (cases "InitialProjectPriorityGwei sample_llm_config empty_queued_priority_cache") auto
    have "isl (parsePositiveDecimalGwei (lc_default_auto_max_credits_per_task sample_llm_config)) = False" by code_simp
    then show "\<exists>c. parsePositiveDecimalGwei (lc_default_auto_max_credits_per_task sample_llm_config) = Inr c"
      by (cases "parsePositiveDecimalGwei (lc_default_auto_max_credits_per_task sample_llm_config)") auto
  qed
  then show ?thesis
    by (auto simp: CreateProject_def prepare_project_def sample_user server_error_def Let_def)
      (simp add: sample_user_db_def empty_db_def tbl_create_def Let_def)
qed

text \<open>The state after it: the project, its owner and its key.\<close>

lemma sample_project:
  "\<exists>d p. projects_wf sample_llm_config d \<and> currentUser d ''0xa'' = Inr \<lparr>u_id = 1, u_address = ''0xa''\<rparr> \<and>
     findOwnedProject d 1 (pr_id p) = Some p \<and> pr_status p = ProjectStatusActive \<and> pr_endpoint_token p = ''e0'' \<and>
     pr_api_key_hash p = sample_key"
proof -
  obtain d1 data where c: "CreateProject sample_llm_config empty_queued_priority_cache (\<lambda>s. s) undisturbed (Inr ''e0'') (Inr sample_key)
     ''0.5'' 0 sample_user_db ''0xa'' ''p'' = (d1, Inr (data, sample_key))" using sample_created by blast
  from created_project [OF c sample_user_db_wf] obtain u p where
    "currentUser sample_user_db ''0xa'' = Inr u" "currentUser d1 ''0xa'' = Inr u" "projects_wf sample_llm_config d1"
    "p \<in> set (rows (db_projects d1))" "owned_project (u_id u) (pr_id p) p" "pr_status p = ProjectStatusActive"
    "pr_endpoint_token p = ''e0''" "pr_api_key_hash p = sample_key" by blast
  then show ?thesis
    using findOwnedProject_iff [of sample_llm_config d1 1 "pr_id p" p] sample_user
    by (intro exI [of _ d1] exI [of _ p]) auto
qed

abbreviation rename_input :: update_project_input where
  "rename_input \<equiv> \<lparr>ui_name = Some ''new'', ui_cost_level_mode = None, ui_priority_gwei = None, ui_auto_queue_position = None,
     ui_auto_max_credits_per_task = Some ''7''\<rparr>"

lemma rename_acceptable: "some_field rename_input" "acceptable cfg rename_input"
proof -
  have "isl (ParseAutoMaxCreditsPerTask ''7'') = False" by code_simp
  then show "acceptable cfg rename_input"
    by (cases "ParseAutoMaxCreditsPerTask ''7''") (auto simp: acceptable_def readable_def)
qed (simp add: some_field_def)

definition sample_web_session :: web_session where
  "sample_web_session = \<lparr>ws_test_environment = True, ws_turnstile = (\<lambda>_. Inr ()), ws_generate = (\<lambda>a t. Inr (a, t)),
     ws_validate = (\<lambda>s _. Inr s)\<rparr>"

theorem projects_stay_valid_witness:
  "projects_wf sample_llm_config (fst (CreateProject sample_llm_config empty_queued_priority_cache (\<lambda>s. s) undisturbed (Inr ''e0'')
     (Inr sample_key) ''0.5'' 0 sample_user_db ''0xa'' ''p''))"
  using projects_stay_valid [OF sample_user_db_wf, where other = undisturbed] by simp

theorem project_update_exact_witness:
  "\<exists>d p d'. findOwnedProject d 1 (pr_id p) = Some p \<and>
     UpdateProject sample_llm_config ''0.5'' undisturbed d ''0xa'' (pr_id p) rename_input =
       (d', Inr (toProjectData ''0.5'' (updated sample_llm_config rename_input p)))"
proof -
  obtain d p where s: "projects_wf sample_llm_config d" "currentUser d ''0xa'' = Inr \<lparr>u_id = 1, u_address = ''0xa''\<rparr>"
    "findOwnedProject d 1 (pr_id p) = Some p" using sample_project by blast
  from project_update_exact [OF s(1,2), where projectID = "pr_id p" and inp = rename_input and threshold = "''0.5''"] s(3) rename_acceptable
  show ?thesis
    by (intro exI [of _ d] exI [of _ p] exI [of _ "d\<lparr>db_projects := tbl_save pr_id (updated sample_llm_config rename_input p) (db_projects d)\<rparr>"])
      (auto simp del: tbl_save_sel)
qed

theorem project_key_lifecycle_witness:
  "\<exists>d1 data p. CreateProject sample_llm_config empty_queued_priority_cache (\<lambda>s. s) undisturbed (Inr ''e0'') (Inr sample_key)
       ''0.5'' 0 sample_user_db ''0xa'' ''p'' = (d1, Inr (data, sample_key)) \<and>
     ProjectAuthMiddleware (\<lambda>s. s) sample_web_session 0 (\<lambda>d. d) d1 ''e0'' (bearer sample_key) = Inr p \<and> pr_user_id p = 1"
proof -
  obtain d1 data where c: "CreateProject sample_llm_config empty_queued_priority_cache (\<lambda>s. s) undisturbed (Inr ''e0'') (Inr sample_key)
     ''0.5'' 0 sample_user_db ''0xa'' ''p'' = (d1, Inr (data, sample_key))" using sample_created by blast
  have "hex_token sample_key" by (simp add: hex_token_def)
  from project_key_lifecycle [OF c sample_user_db_wf _ this] sample_user c show ?thesis by force
qed

theorem overlapping_update_undoes_witness:
  "\<exists>d p d'. UpdateProject sample_llm_config ''0.5''
       (\<lambda>i d. if i = 1 then fst (ResetAPIKey (\<lambda>s. s) undisturbed (Inr ''00'') d ''0xa'' (pr_id p)) else d) d ''0xa'' (pr_id p) rename_input =
       (d', Inr (toProjectData ''0.5'' (updated sample_llm_config rename_input p))) \<and>
     ProjectAuthMiddleware (\<lambda>s. s) sample_web_session 0 (\<lambda>d. d) d' ''e0'' (bearer sample_key) = Inr (updated sample_llm_config rename_input p)"
proof -
  obtain d p where s: "projects_wf sample_llm_config d" "currentUser d ''0xa'' = Inr \<lparr>u_id = 1, u_address = ''0xa''\<rparr>"
    "findOwnedProject d 1 (pr_id p) = Some p" "pr_status p = ProjectStatusActive" "pr_endpoint_token p = ''e0''"
    "pr_api_key_hash p = sample_key" using sample_project by blast
  let ?other = "\<lambda>i d. if i = (1 :: nat) then fst (ResetAPIKey (\<lambda>s. s) undisturbed (Inr ''00'') d ''0xa'' (pr_id p)) else d"
  have "hex_token sample_key" by (simp add: hex_token_def)
  moreover have "findOwnedProject d (u_id \<lparr>u_id = 1, u_address = ''0xa''\<rparr>) (pr_id p) = Some p" using s(3) by simp
  from overlapping_update_undoes [OF s(1,2) this rename_acceptable, where other = ?other and web = sample_web_session and t = 0 and other' = "\<lambda>d. d" and HashToken = "\<lambda>s. s" and token = "Inr ''00''"]
  obtain d' where d': "UpdateProject sample_llm_config ''0.5'' ?other d ''0xa'' (pr_id p) rename_input =
      (d', Inr (toProjectData ''0.5'' (updated sample_llm_config rename_input p)))"
    "\<forall>key. hex_token key \<and> key = sample_key \<longrightarrow>
       ProjectAuthMiddleware (\<lambda>s. s) sample_web_session 0 (\<lambda>d. d) d' ''e0'' (bearer key) = Inr (updated sample_llm_config rename_input p)"
    using s(4-6) by force
  ultimately show ?thesis by blast
qed

definition sample_wallet_crypto :: wallet_crypto where
  "sample_wallet_crypto = \<lparr>wc_decode = (\<lambda>_. Some (replicate 65 0)), wc_keccak = (\<lambda>_. []), wc_signer = (\<lambda>_ _. Some ''0xA''),
     wc_is_address = (\<lambda>_. True), wc_checksummed = (\<lambda>a. a)\<rparr>"

abbreviation sample_login_input :: login_input where
  "sample_login_input \<equiv> \<lparr>li_address = ''0xa'', li_timestamp = 20, li_signature = replicate 130 (CHR ''1''), li_invite_code = [],
     li_turnstile_token = []\<rparr>"

theorem login_session_witness:
  "Login sample_wallet_crypto sample_web_session sample_credits_config (\<lambda>_ _. 0) 30 sample_user_db sample_login_input =
     (sample_user_db, Inr (''0xa'', 30)) \<and>
   (\<exists>u. currentUser sample_user_db ''0xa'' = Inr u \<and> u_address u = ''0xa'')"
proof -
  have e: "EnsureUserWithReferral sample_credits_config (\<lambda>_ _. 0) sample_user_db ''0xa'' [] = (sample_user_db, Inr \<lparr>u_id = 1, u_address = ''0xa''\<rparr>)"
    by (simp add: EnsureUserWithReferral_def sample_user_db_def tbl_lookup_def tbl_first_def)
  have "EqualFold ''0xA'' ''0xa''" by code_simp
  then have l: "Login sample_wallet_crypto sample_web_session sample_credits_config (\<lambda>_ _. 0) 30 sample_user_db sample_login_input =
     (sample_user_db, Inr (''0xa'', 30))"
    by (simp add: Login_def ValidateAddress_def ValidateAndRecover_def ValidateTimestamp_def ValidateSignatureFormat_def RecoverAddress_def
        sample_wallet_crypto_def sample_web_session_def TrimPrefix_def HasPrefix_def e server_error_def)
  have "ws_validate sample_web_session ''0xa'' 0 = Inr (wc_checksummed sample_wallet_crypto ''0xa'')"
    by (simp add: sample_wallet_crypto_def sample_web_session_def)
  with login_session [OF l] l show ?thesis by (force simp: sample_wallet_crypto_def JWTAuthMiddleware_def)
qed

end
