(* ===== verification/Usage_Query.thy ===== *)
theory Usage_Query
  imports Usage_Snapshots Api_Projects
begin

text \<open>
  The charts of an account and of a project (\<open>service/usage_stats_query.go\<close>, \<open>api/v1/account/stats.go\<close>,
  \<open>api/v1/projects/stats.go\<close>): hourly points of the last day, daily points of the last week or month, and
  the stored snapshots. \<open>json.Unmarshal\<close> is an argument where a handler decodes a stored text.
\<close>

subsection \<open>Periods\<close>

abbreviation StatsRange1d :: string where "StatsRange1d \<equiv> ''1d''"
abbreviation StatsRange7d :: string where "StatsRange7d \<equiv> ''7d''"
abbreviation StatsRange1m :: string where "StatsRange1m \<equiv> ''1m''"

text \<open>The starts of the hours with their \<open>complete\<close> flags.\<close>

definition last_hours :: "int \<Rightarrow> (int \<times> bool) list" where
  "last_hours currentHour =
     map (\<lambda>i. let start = currentHour - (23 - int i) * 3600 in (start, start < currentHour)) [0..<24]"

definition dailyExpandedHourStarts :: "int \<Rightarrow> nat \<Rightarrow> (int \<times> bool) list" where
  "dailyExpandedHourStarts currentHour days =
     concat (map (\<lambda>d. let dayStart = UnixDayStart currentHour - int d * 86400 in
        map (\<lambda>start. (start, start < currentHour))
          (filter (\<lambda>start. start \<le> currentHour) (map (\<lambda>h. dayStart + int h * 3600) [0..<24])))
       (rev [0..<days]))"

definition accountHourlyPeriodStarts :: "string \<Rightarrow> int \<Rightarrow> err + (int \<times> bool) list" where
  "accountHourlyPeriodStarts rangeType nowUnix =
     (let currentHour = HourStartUnix nowUnix in
      if rangeType = StatsRange1d then Inr (last_hours currentHour)
      else if rangeType = StatsRange7d then Inr (dailyExpandedHourStarts currentHour 7)
      else if rangeType = StatsRange1m then Inr (dailyExpandedHourStarts currentHour 30)
      else Inl (ErrMsg ''invalid account stats range''))"

definition projectHourlyPeriodStarts :: "string \<Rightarrow> int \<Rightarrow> err + (int \<times> bool) list" where
  "projectHourlyPeriodStarts rangeType nowUnix =
     (let currentHour = HourStartUnix nowUnix in
      if rangeType = StatsRange1d then Inr (last_hours currentHour)
      else if rangeType = StatsRange1m then Inr (dailyExpandedHourStarts currentHour 30)
      else Inl (ErrMsg ''invalid project stats range''))"

subsection \<open>Points\<close>

record usage_point =
  pt_timestamp :: int
  pt_counts :: usage_counts
  pt_complete :: bool

text \<open>The map from period to row; a period without a row reads as zero.\<close>

definition by_period :: "('r \<Rightarrow> int) \<Rightarrow> ('r \<Rightarrow> usage_counts) \<Rightarrow> 'r list \<Rightarrow> int \<Rightarrow> usage_counts" where
  "by_period period counts rs = fold (\<lambda>r m. m(period r := counts r)) rs (\<lambda>_. 0)"

definition hourly_points :: "(int \<Rightarrow> usage_counts) \<Rightarrow> (int \<times> bool) list \<Rightarrow> usage_point list" where
  "hourly_points byPeriod starts =
     map (\<lambda>(start, flag). \<lparr>pt_timestamp = start, pt_counts = byPeriod start, pt_complete = flag\<rparr>) starts"

text \<open>The days in the order of their first hour; a day is complete when all its hours are.\<close>

definition add_hour :: "(int \<Rightarrow> usage_counts) \<Rightarrow> int \<times> bool \<Rightarrow> usage_point list \<Rightarrow> usage_point list" where
  "add_hour byPeriod hour days =
     (case hour of (start, flag) \<Rightarrow>
        let day = UnixDayStart start in
        upsert (\<lambda>p. pt_timestamp p = day) \<lparr>pt_timestamp = day, pt_counts = byPeriod start, pt_complete = flag\<rparr>
          (\<lambda>p. p\<lparr>pt_counts := pt_counts p + byPeriod start, pt_complete := pt_complete p \<and> flag\<rparr>) days)"

definition daily_points :: "(int \<Rightarrow> usage_counts) \<Rightarrow> (int \<times> bool) list \<Rightarrow> usage_point list" where
  "daily_points byPeriod starts = fold (add_hour byPeriod) starts []"

subsection \<open>The statistics of an account\<close>

record account_usage_stats =
  as_range :: string
  as_request_count :: u64
  as_prompt_tokens :: u64
  as_completion_tokens :: u64
  as_image_count :: u64
  as_credits :: int
  as_success_count :: u64
  as_failure_count :: u64
  as_success_rate :: f64
  as_requests_series :: "(int \<times> u64 \<times> bool) list"
  as_credits_series :: "(int \<times> int \<times> bool) list"

definition sum_of :: "(usage_counts \<Rightarrow> 'a::comm_monoid_add) \<Rightarrow> usage_point list \<Rightarrow> 'a" where
  "sum_of f ps = (\<Sum>p\<leftarrow>ps. f (pt_counts p))"

definition series_of :: "(usage_counts \<Rightarrow> 'a) \<Rightarrow> usage_point list \<Rightarrow> (int \<times> 'a \<times> bool) list" where
  "series_of f ps = map (\<lambda>p. (pt_timestamp p, f (pt_counts p), pt_complete p)) ps"

definition GetAccountUsageStats :: "db \<Rightarrow> nat \<Rightarrow> string \<Rightarrow> gotime \<Rightarrow> err + account_usage_stats" where
  "GetAccountUsageStats d userID rangeType now =
     bindE (accountHourlyPeriodStarts rangeType (unix now)) (\<lambda>starts.
     rejectIf (starts = []) (ErrMsg ''empty period starts'')
     (let rs = filter (\<lambda>r. ah_user_id r = userID \<and> fst (hd starts) \<le> ah_period_start r \<and> ah_period_start r \<le> fst (last starts))
                 (st_account_hourly (db_stats d));
          byPeriod = by_period ah_period_start ah_counts rs;
          ps = (if rangeType = StatsRange1d then hourly_points byPeriod starts else daily_points byPeriod starts);
          requests = sum_of uc_request_count ps; successes = sum_of uc_success_count ps in
      Inr \<lparr>as_range = rangeType, as_request_count = requests, as_prompt_tokens = sum_of uc_prompt_tokens ps,
           as_completion_tokens = sum_of uc_completion_tokens ps, as_image_count = sum_of uc_image_count ps,
           as_credits = sum_of uc_credits ps, as_success_count = successes, as_failure_count = sum_of uc_failure_count ps,
           as_success_rate = (if 0 < requests then f64_div_u64 successes requests else Fin 0),
           as_requests_series = series_of uc_request_count ps, as_credits_series = series_of uc_credits ps\<rparr>))"

subsection \<open>The statistics of a project\<close>

record project_usage_stats =
  pu_range :: string
  pu_request_series :: "(int \<times> (u64 \<times> u64) \<times> bool) list"
  pu_credits_series :: "(int \<times> int \<times> bool) list"
  pu_token_series :: "(int \<times> (u64 \<times> u64 \<times> u64) \<times> bool) list"

definition GetProjectUsageStats :: "db \<Rightarrow> nat \<Rightarrow> string \<Rightarrow> gotime \<Rightarrow> err + project_usage_stats" where
  "GetProjectUsageStats d projectID rangeType now =
     bindE (projectHourlyPeriodStarts rangeType (unix now)) (\<lambda>starts.
     let rs = filter (\<lambda>r. ph_project_id r = projectID \<and> fst (hd starts) \<le> ph_period_start r \<and> ph_period_start r \<le> fst (last starts))
                (st_project_hourly (db_stats d));
         byPeriod = by_period ph_period_start ph_counts rs;
         ps = (if rangeType = StatsRange1d then hourly_points byPeriod starts else daily_points byPeriod starts) in
     Inr \<lparr>pu_range = rangeType,
          pu_request_series = series_of (\<lambda>c. (uc_success_count c, uc_failure_count c)) ps,
          pu_credits_series = series_of uc_credits ps,
          pu_token_series = series_of (\<lambda>c. (uc_prompt_tokens c, uc_completion_tokens c, uc_image_count c)) ps\<rparr>)"

subsection \<open>Snapshots\<close>

definition GetProjectModelUsageSnapshots :: "db \<Rightarrow> nat \<Rightarrow> usage_range \<Rightarrow> model_snapshot list" where
  "GetProjectModelUsageSnapshots d projectID rangeType =
     sort_key ms_rank (filter (\<lambda>r. ms_project_id r = projectID \<and> ms_range_type r = rangeType) (st_model_snapshots (db_stats d)))"

definition GetProjectDurationHistogramSnapshots :: "db \<Rightarrow> nat \<Rightarrow> usage_range \<Rightarrow> duration_snapshot list" where
  "GetProjectDurationHistogramSnapshots d projectID rangeType =
     sort_key hs_bucket_index
       (filter (\<lambda>r. hs_project_id r = projectID \<and> hs_range_type r = rangeType) (st_duration_snapshots (db_stats d)))"

subsection \<open>Handlers\<close>

definition usage_range_of :: "string \<Rightarrow> usage_range option" where
  "usage_range_of s =
     (if s = ''1h'' then Some UsageStatsRange1h else if s = ''1d'' then Some UsageStatsRange1d
      else if s = ''7d'' then Some UsageStatsRange7d else None)"

record account_stats_data =
  ad_range :: string
  ad_request_count :: u64
  ad_prompt_tokens :: u64
  ad_completion_tokens :: u64
  ad_image_count :: u64
  ad_credits :: string
  ad_success_rate :: f64
  ad_requests_series :: "(int \<times> u64 \<times> bool) list"
  ad_credits_series :: "(int \<times> string \<times> bool) list"

definition credits_texts :: "(int \<times> int \<times> bool) list \<Rightarrow> (int \<times> string \<times> bool) list" where
  "credits_texts = map (\<lambda>(t, v, flag). (t, int_str v, flag))"

definition GetAccountStats :: "(nat \<Rightarrow> db \<Rightarrow> db) \<Rightarrow> gotime \<Rightarrow> db \<Rightarrow> string \<Rightarrow> string \<Rightarrow> api_error + account_stats_data" where
  "GetAccountStats other now d address rangeType =
     (if address = [] then Inl (Validation_Error ''Authorization'' (ErrMsg ''Invalid token''))
      else if rangeType \<notin> {StatsRange1d, StatsRange7d, StatsRange1m} then
        Inl (Validation_Error ''range'' (ErrMsg ''must be 1d, 7d, or 1m''))
      else bindE (currentUser d address) (\<lambda>user.
        bindE (server_error (GetAccountUsageStats (other 0 d) (u_id user) rangeType now)) (\<lambda>stats.
        Inr \<lparr>ad_range = as_range stats, ad_request_count = as_request_count stats, ad_prompt_tokens = as_prompt_tokens stats,
             ad_completion_tokens = as_completion_tokens stats, ad_image_count = as_image_count stats,
             ad_credits = int_str (as_credits stats), ad_success_rate = as_success_rate stats,
             ad_requests_series = as_requests_series stats, ad_credits_series = credits_texts (as_credits_series stats)\<rparr>)))"

record project_stats_data =
  pd_range :: string
  pd_request_series :: "(int \<times> (u64 \<times> u64) \<times> bool) list"
  pd_credits_series :: "(int \<times> string \<times> bool) list"
  pd_token_series :: "(int \<times> (u64 \<times> u64 \<times> u64) \<times> bool) list"

definition GetProjectStats :: "(nat \<Rightarrow> db \<Rightarrow> db) \<Rightarrow> gotime \<Rightarrow> db \<Rightarrow> string \<Rightarrow> nat \<Rightarrow> string \<Rightarrow> api_error + project_stats_data" where
  "GetProjectStats other now d address projectID rangeType =
     bindE (currentUser d address) (\<lambda>user.
     if rangeType \<notin> {StatsRange1d, StatsRange1m} then Inl (Validation_Error ''range'' (ErrMsg ''must be 1d or 1m''))
     else bindE (of_option Not_Found (findOwnedProject (other 0 d) (u_id user) projectID)) (\<lambda>_.
       bindE (server_error (GetProjectUsageStats (other 1 (other 0 d)) projectID rangeType now)) (\<lambda>stats.
       Inr \<lparr>pd_range = pu_range stats, pd_request_series = pu_request_series stats,
            pd_credits_series = credits_texts (pu_credits_series stats), pd_token_series = pu_token_series stats\<rparr>)))"

text \<open>The earliest start (zero counts as not set) and the latest end of the rows.\<close>

definition window_of :: "('r \<Rightarrow> int) \<Rightarrow> ('r \<Rightarrow> int) \<Rightarrow> 'r list \<Rightarrow> int \<times> int" where
  "window_of start finish rs =
     fold (\<lambda>r (a, b). (if a = 0 \<or> start r < a then start r else a, if b < finish r then finish r else b)) rs (0, 0)"

record duration_stats =
  ds_range :: string
  ds_window :: "int \<times> int"
  ds_buckets :: "(nat \<times> string \<times> u64 \<times> u64 option \<times> u64) list"

definition GetProjectCompletionDurationStats ::
  "(nat \<Rightarrow> db \<Rightarrow> db) \<Rightarrow> db \<Rightarrow> string \<Rightarrow> nat \<Rightarrow> string \<Rightarrow> api_error + duration_stats" where
  "GetProjectCompletionDurationStats other d address projectID rangeText =
     bindE (currentUser d address) (\<lambda>user.
     bindE (of_option (Validation_Error ''range'' (ErrMsg ''must be 1h, 1d, or 7d'')) (usage_range_of rangeText)) (\<lambda>rangeType.
     bindE (of_option Not_Found (findOwnedProject (other 0 d) (u_id user) projectID)) (\<lambda>_.
     let rs = GetProjectDurationHistogramSnapshots (other 1 (other 0 d)) projectID rangeType in
     Inr \<lparr>ds_range = rangeText, ds_window = window_of hs_window_start hs_window_end rs,
          ds_buckets = map (\<lambda>r. (hs_bucket_index r, hs_bucket_label r, hs_min_duration_ms r, hs_max_duration_ms r, hs_request_count r)) rs\<rparr>)))"

text \<open>
  A row of the table of models. \<open>json\<close> is \<open>json.Unmarshal\<close> into a value (\<open>None\<close> is an error);
  \<open>cleaned\<close> is \<open>bytes.TrimSpace\<close> of the stored text.
\<close>

definition TaskTypeAPIString :: "task_type \<Rightarrow> string" where
  "TaskTypeAPIString t = (if t = TaskTypeImage then ''image'' else ''llm'')"

definition QuantizationConfigForAPI :: "(string \<Rightarrow> 'j option) \<Rightarrow> string \<Rightarrow> 'j option" where
  "QuantizationConfigForAPI json raw =
     (let cleaned = TrimSpace raw in if cleaned = [] \<or> cleaned = ''null'' then None else json cleaned)"

record 'j model_stats_item =
  mi_rank :: nat
  mi_model :: string
  mi_model_cache_hash :: string
  mi_execution_dtype :: string
  mi_task_type :: string
  mi_quantization_config :: "'j option"
  mi_components :: "'j option"
  mi_counts :: usage_counts
  mi_success_rate :: f64
  mi_credits :: string

record 'j model_stats =
  md_range :: string
  md_window :: "int \<times> int"
  md_models :: "'j model_stats_item list"

definition model_stats_item_of :: "(string \<Rightarrow> 'j option) \<Rightarrow> model_snapshot \<Rightarrow> 'j model_stats_item" where
  "model_stats_item_of json r =
     \<lparr>mi_rank = ms_rank r, mi_model = ms_model r, mi_model_cache_hash = ms_model_cache_hash r,
      mi_execution_dtype = ms_execution_dtype r, mi_task_type = TaskTypeAPIString (ms_task_type r),
      mi_quantization_config = QuantizationConfigForAPI json (ms_quantization_config r),
      mi_components = (if ms_components r \<noteq> [] then json (ms_components r) else None),
      mi_counts = ms_counts r,
      mi_success_rate = (if 0 < uc_request_count (ms_counts r)
        then f64_div_u64 (uc_success_count (ms_counts r)) (uc_request_count (ms_counts r)) else Fin 0),
      mi_credits = int_str (uc_credits (ms_counts r))\<rparr>"

definition GetProjectModelStats ::
  "(string \<Rightarrow> 'j option) \<Rightarrow> (nat \<Rightarrow> db \<Rightarrow> db) \<Rightarrow> db \<Rightarrow> string \<Rightarrow> nat \<Rightarrow> string \<Rightarrow> api_error + 'j model_stats" where
  "GetProjectModelStats json other d address projectID rangeText =
     bindE (currentUser d address) (\<lambda>user.
     bindE (of_option (Validation_Error ''range'' (ErrMsg ''must be 1h, 1d, or 7d'')) (usage_range_of rangeText)) (\<lambda>rangeType.
     bindE (of_option Not_Found (findOwnedProject (other 0 d) (u_id user) projectID)) (\<lambda>_.
     let rs = GetProjectModelUsageSnapshots (other 1 (other 0 d)) projectID rangeType in
     Inr \<lparr>md_range = rangeText, md_window = window_of ms_window_start ms_window_end rs,
          md_models = map (model_stats_item_of json) rs\<rparr>)))"

end
