(* ===== verification/Chart_Correctness.thy ===== *)
theory Chart_Correctness
  imports Usage_Query Snapshot_Correctness
begin

text \<open>The charts show exactly the counted calls: each point the calls accepted in its period.\<close>

subsection \<open>Calls in an interval\<close>

definition calls_between :: "(task_call_record \<Rightarrow> bool) \<Rightarrow> db \<Rightarrow> int \<Rightarrow> int \<Rightarrow> usage_counts" where
  "calls_between p d lo hi =
     (\<Sum>c\<leftarrow>counted d. if p c \<and> lo \<le> unix (cr_accepted_at c) \<and> unix (cr_accepted_at c) < hi
                   then call_increment c (charged d (cr_id c)) else 0)"

lemma calls_between_join: "a \<le> b \<Longrightarrow> b \<le> c \<Longrightarrow> calls_between p d a b + calls_between p d b c = calls_between p d a c"
  unfolding calls_between_def sum_list_addf [symmetric] by (rule arg_cong [where f = sum_list], rule map_cong) auto

lemma calls_between_empty [simp]: "calls_between p d a a = 0"
proof -
  have "(\<Sum>c\<leftarrow>cs. if p c \<and> a \<le> unix (cr_accepted_at c) \<and> unix (cr_accepted_at c) < a
      then call_increment c (charged d (cr_id c)) else 0) = 0" for cs by (induction cs) auto
  then show ?thesis by (simp add: calls_between_def)
qed

lemma hour_of_call:
  assumes "0 < t" "t mod 3600 = 0"
  shows "HourStartUnix a = t \<longleftrightarrow> t \<le> a \<and> a < t + 3600"
proof (cases "0 \<le> a")
  case True
  from assms(2) obtain k where t: "t = 3600 * k" by (metis minus_mod_eq_mult_div diff_zero)
  have split: "a = 3600 * (a div 3600) + a mod 3600" and r: "0 \<le> a mod 3600" "a mod 3600 < 3600" by simp_all
  have "a - a mod 3600 = t \<longleftrightarrow> t \<le> a \<and> a < t + 3600"
  proof
    assume "a - a mod 3600 = t"
    with r show "t \<le> a \<and> a < t + 3600" by linarith
  next
    assume "t \<le> a \<and> a < t + 3600"
    then have "a div 3600 = k" using split r unfolding t by linarith
    with split show "a - a mod 3600 = t" by (simp add: t)
  qed
  with True show ?thesis by (simp only: HourStartUnix_def go_rem_nonneg)
next
  case False
  have "HourStartUnix a \<le> 0" using False by (simp add: HourStartUnix_def go_rem_def go_quo_def)
  then show ?thesis using False assms by auto
qed

subsection \<open>Rows of a period\<close>

lemma by_period_tally:
  assumes "distinct (map period rs)"
  shows "by_period period counts rs t = tally period counts rs t"
proof -
  have "fold (\<lambda>r m. m(period r := counts r)) rs m t = (if t \<in> period ` set rs then tally period counts rs t else m t)" for m
    using assms
  proof (induction rs arbitrary: m)
    case (Cons r rs)
    have "tally period counts rs t = 0" if "t \<notin> period ` set rs" using that by (induction rs) auto
    with Cons show ?case by (auto simp: fun_upd_def)
  qed simp
  moreover have "tally period counts rs t = 0" if "t \<notin> period ` set rs" using that by (induction rs) auto
  ultimately show ?thesis by (simp add: by_period_def)
qed

lemma by_period_owner:
  assumes "distinct (map (\<lambda>r. (owner r, period r)) rs)" "lo \<le> t" "t \<le> hi"
  shows "by_period period counts (filter (\<lambda>r. owner r = u \<and> lo \<le> period r \<and> period r \<le> hi) rs) t =
    tally (\<lambda>r. (owner r, period r)) counts rs (u, t)"
proof -
  have "distinct (map period (filter (\<lambda>r. owner r = u \<and> lo \<le> period r \<and> period r \<le> hi) rs))"
    using assms(1) by (auto simp: distinct_map inj_on_def)
  moreover have "tally period counts (filter (\<lambda>r. owner r = u \<and> lo \<le> period r \<and> period r \<le> hi) rs) t =
      tally (\<lambda>r. (owner r, period r)) counts rs (u, t)"
    by (induction rs) (use assms(2,3) in auto)
  ultimately show ?thesis by (simp add: by_period_tally)
qed

lemma tally_calls:
  assumes "0 < t" "t mod 3600 = 0"
  shows "tally (\<lambda>c. (owner c, HourStartUnix (unix (cr_accepted_at c)))) (\<lambda>c. call_increment c (charged d (cr_id c))) (counted d) (u, t) =
    calls_between (\<lambda>c. owner c = u) d t (t + 3600)"
  unfolding tally_def calls_between_def by (simp add: hour_of_call [OF assms] conj_assoc)

subsection \<open>Points\<close>

definition chart :: "(task_call_record \<Rightarrow> bool) \<Rightarrow> db \<Rightarrow> int \<Rightarrow> int \<Rightarrow> int \<Rightarrow> nat \<Rightarrow> usage_point list" where
  "chart p d last_start finish width n =
     map (\<lambda>i. let t = last_start - int (n - 1 - i) * width in
        \<lparr>pt_timestamp = t, pt_counts = calls_between p d t (min (t + width) finish), pt_complete = (i < n - 1)\<rparr>) [0..<n]"

lemma hourly_chart:
  assumes "\<And>t. t \<in> fst ` set (last_hours cur) \<Longrightarrow> byPeriod t = calls_between p d t (t + 3600)"
  shows "hourly_points byPeriod (last_hours cur) = chart p d cur (cur + 3600) 3600 24"
proof -
  have "byPeriod (cur - (23 - int i) * 3600) = calls_between p d (cur - (23 - int i) * 3600) (cur - (23 - int i) * 3600 + 3600)"
    if "i < 24" for i
    using that by (intro assms) (force simp: last_hours_def Let_def image_iff)
  then show ?thesis
    by (auto simp: hourly_points_def last_hours_def chart_def Let_def of_nat_diff intro!: map_cong [OF refl])
qed

text \<open>One day: its hours are new to the list and all fall into it.\<close>

lemma add_hours_of_day:
  assumes "\<forall>(s, f) \<in> set hs. UnixDayStart s = day" "hs \<noteq> []" "\<forall>q \<in> set ps. pt_timestamp q \<noteq> day"
  shows "fold (add_hour byPeriod) hs ps =
    ps @ [\<lparr>pt_timestamp = day, pt_counts = (\<Sum>(s, f)\<leftarrow>hs. byPeriod s), pt_complete = (\<forall>(s, f) \<in> set hs. f)\<rparr>]"
proof -
  have new: "upsert (\<lambda>p. pt_timestamp p = day) x g ps = ps @ [x]" for x g using assms(3) by (induction ps) auto
  have old: "upsert (\<lambda>p. pt_timestamp p = day) x g (ps @ [q]) = ps @ [g q]" if "pt_timestamp q = day" for x g q
    using assms(3) that by (induction ps) auto
  have go: "fold (add_hour byPeriod) hs (ps @ [\<lparr>pt_timestamp = day, pt_counts = n, pt_complete = b\<rparr>]) =
      ps @ [\<lparr>pt_timestamp = day, pt_counts = n + (\<Sum>(s, f)\<leftarrow>hs. byPeriod s), pt_complete = (b \<and> (\<forall>(s, f) \<in> set hs. f))\<rparr>]"
    if "\<forall>(s, f) \<in> set hs. UnixDayStart s = day" for hs n b
    using that
  proof (induction hs arbitrary: n b)
    case (Cons h hs)
    obtain s f where h: "h = (s, f)" by (cases h)
    from Cons.prems have d: "UnixDayStart s = day" by (simp add: h)
    show ?case using Cons.IH Cons.prems by (simp add: h add_hour_def d old ac_simps)
  qed simp
  obtain s f hs' where hs: "hs = (s, f) # hs'" using assms(2) by (cases hs) auto
  then show ?thesis using assms(1) go by (simp add: add_hour_def new)
qed

lemma day_of_hour: "0 \<le> k \<Longrightarrow> h < 24 \<Longrightarrow> UnixDayStart (k * 86400 + int h * 3600) = k * 86400"
proof -
  assume k: "0 \<le> k" "h < 24"
  then have "0 \<le> k * 86400 + int h * 3600" by simp
  then have "UnixDayStart (k * 86400 + int h * 3600) = (k * 86400 + int h * 3600) div 86400 * 86400"
    by (simp add: UnixDayStart_def go_quo_nonneg)
  moreover have "(k * 86400 + int h * 3600) div 86400 = k" using k by (simp add: div_add1_eq)
  ultimately show ?thesis by simp
qed

text \<open>The hours of a day up to an hour of it, or all.\<close>

definition day_hours :: "int \<Rightarrow> int \<Rightarrow> (int \<times> bool) list" where
  "day_hours cur day = map (\<lambda>start. (start, start < cur)) (filter (\<lambda>start. start \<le> cur) (map (\<lambda>h. day + int h * 3600) [0..<24]))"

lemma hours_sum:
  assumes "\<And>h. h < n \<Longrightarrow> byPeriod (day + int h * 3600) = calls_between p d (day + int h * 3600) (day + int h * 3600 + 3600)"
  shows "(\<Sum>h\<leftarrow>[0..<n]. byPeriod (day + int h * 3600)) = calls_between p d day (day + int n * 3600)"
  using assms
proof (induction n)
  case (Suc n)
  have "calls_between p d day (day + int n * 3600) + calls_between p d (day + int n * 3600) (day + int n * 3600 + 3600) =
      calls_between p d day (day + int n * 3600 + 3600)"
    by (intro calls_between_join) simp_all
  then show ?case using Suc by (simp add: algebra_simps)
qed simp

lemma day_hours_upto:
  assumes "m < 24"
  shows "day_hours (day + int m * 3600) day = map (\<lambda>h. (day + int h * 3600, h < m)) [0..<Suc m]"
proof -
  have "filter (\<lambda>start. start \<le> day + int m * 3600) (map (\<lambda>h. day + int h * 3600) [0..<24]) = map (\<lambda>h. day + int h * 3600) [0..<Suc m]"
  proof -
    have s: "[0..<24] = [0..<Suc m] @ [Suc m..<24]"
      using upt_add_eq_append [of 0 "Suc m" "24 - Suc m"] assms by (simp del: upt_Suc)
    have "filter (\<lambda>h. day + int h * 3600 \<le> day + int m * 3600) [0..<Suc m] = [0..<Suc m]" by (intro filter_True) auto
    moreover have "filter (\<lambda>h. day + int h * 3600 \<le> day + int m * 3600) [Suc m..<24] = []" by (intro filter_False) auto
    ultimately show ?thesis unfolding s filter_map o_def by (simp del: upt_Suc)
  qed
  then show ?thesis by (simp add: day_hours_def)
qed

lemma day_hours_all:
  assumes "day + 86400 \<le> cur"
  shows "day_hours cur day = map (\<lambda>h. (day + int h * 3600, True)) [0..<24]"
proof -
  have "filter (\<lambda>start. start \<le> cur) (map (\<lambda>h. day + int h * 3600) [0..<24]) = map (\<lambda>h. day + int h * 3600) [0..<24]"
    using assms by (intro filter_True) auto
  then show ?thesis using assms by (auto simp: day_hours_def)
qed

text \<open>The list of a number of days: the past ones whole, the current one up to its hour.\<close>

lemma expanded_days:
  assumes "0 \<le> today" "m < 24" "cur = today * 86400 + int m * 3600"
  shows "dailyExpandedHourStarts cur n = concat (map (\<lambda>k. day_hours cur ((today - int k) * 86400)) (rev [0..<n]))"
proof -
  have "UnixDayStart cur = today * 86400" unfolding assms(3) by (rule day_of_hour [OF assms(1,2)])
  then show ?thesis by (simp add: dailyExpandedHourStarts_def day_hours_def Let_def algebra_simps)
qed

lemma day_point:
  assumes today: "int k \<le> today" "m < 24" "cur = today * 86400 + int m * 3600"
    and new: "\<forall>q \<in> set ps. pt_timestamp q < (today - int k) * 86400"
    and hourly: "\<And>h. (today - int k) * 86400 + int h * 3600 \<le> cur \<Longrightarrow>
      byPeriod ((today - int k) * 86400 + int h * 3600) = calls_between p d ((today - int k) * 86400 + int h * 3600)
      ((today - int k) * 86400 + int h * 3600 + 3600)"
  shows "fold (add_hour byPeriod) (day_hours cur ((today - int k) * 86400)) ps = ps @
    [\<lparr>pt_timestamp = (today - int k) * 86400,
      pt_counts = calls_between p d ((today - int k) * 86400) (min ((today - int k) * 86400 + 86400) (cur + 3600)),
      pt_complete = (k \<noteq> 0)\<rparr>]"
proof -
  let ?day = "(today - int k) * 86400"
  have same: "UnixDayStart (?day + int h * 3600) = ?day" if "h < 24" for h using day_of_hour [of "today - int k" h] today(1) that by simp
  define l where "l = (if k = 0 then Suc m else 24)"
  have l: "0 < l" "l \<le> 24" using today(2) by (simp_all add: l_def)
  have hs: "day_hours cur ?day = map (\<lambda>h. (?day + int h * 3600, k \<noteq> 0 \<or> h < m)) [0..<l]"
  proof (cases k)
    case 0
    then show ?thesis using day_hours_upto [OF today(2), of ?day] by (simp add: today(3) l_def del: upt_Suc)
  next
    case (Suc k')
    then have "?day + 86400 \<le> cur" by (simp add: today(3))
    from day_hours_all [OF this] Suc show ?thesis by (simp add: l_def)
  qed
  have sums: "(\<Sum>(s, f)\<leftarrow>day_hours cur ?day. byPeriod s) = calls_between p d ?day (?day + int l * 3600)"
  proof -
    have "(\<Sum>(s, f)\<leftarrow>day_hours cur ?day. byPeriod s) = (\<Sum>h\<leftarrow>[0..<l]. byPeriod (?day + int h * 3600))"
      unfolding hs map_map o_def split_conv ..
    also have "\<dots> = calls_between p d ?day (?day + int l * 3600)" 
    proof (rule hours_sum, rule hourly)
      fix h assume "h < l"
      then show "?day + int h * 3600 \<le> cur" using today(1,2) by (cases "k = 0") (simp_all add: l_def today(3))
    qed
    finally show ?thesis .
  qed
  have flags: "(\<forall>(s, f) \<in> set (day_hours cur ?day). f) \<longleftrightarrow> k \<noteq> 0"
  proof (cases "k = 0")
    case True
    then have "m \<in> set [0..<l]" by (simp add: l_def del: upt_Suc)
    with True show ?thesis unfolding hs by (auto simp del: upt_Suc)
  next
    case False
    then show ?thesis unfolding hs by (auto simp del: upt_Suc)
  qed
  have stop: "min (?day + 86400) (cur + 3600) = ?day + int l * 3600"
    using today(1,2) by (cases "k = 0") (simp_all add: l_def today(3) algebra_simps)
  have "\<forall>(s, f) \<in> set (day_hours cur ?day). UnixDayStart s = ?day"
    unfolding hs using same l(2) by (auto simp del: upt_Suc)
  moreover have "day_hours cur ?day \<noteq> []" unfolding hs using l(1) by (simp del: upt_Suc)
  moreover have "\<forall>q \<in> set ps. pt_timestamp q \<noteq> ?day" using new by auto
  ultimately show ?thesis unfolding stop sums [symmetric] flags [symmetric] by (rule add_hours_of_day)
qed

lemma daily_chart:
  assumes today: "int n \<le> today" "m < 24" "cur = today * 86400 + int m * 3600" "0 < n"
    and hourly: "\<And>k h. k < n \<Longrightarrow> (today - int k) * 86400 + int h * 3600 \<le> cur \<Longrightarrow> byPeriod ((today - int k) * 86400 + int h * 3600) = calls_between p d ((today - int k) * 86400 + int h * 3600)
      ((today - int k) * 86400 + int h * 3600 + 3600)"
  shows "daily_points byPeriod (dailyExpandedHourStarts cur n) = chart p d (today * 86400) (cur + 3600) 86400 n"
proof -
  let ?pt = "\<lambda>k. \<lparr>pt_timestamp = (today - int k) * 86400,
      pt_counts = calls_between p d ((today - int k) * 86400) (min ((today - int k) * 86400 + 86400) (cur + 3600)), pt_complete = (k \<noteq> 0)\<rparr>"
  have go: "fold (add_hour byPeriod) (concat (map (\<lambda>k. day_hours cur ((today - int k) * 86400)) (rev [0..<l]))) ps =
      ps @ map ?pt (rev [0..<l])"
    if "l \<le> n" "\<forall>q \<in> set ps. pt_timestamp q < (today - int l + 1) * 86400" for l ps
    using that
  proof (induction l arbitrary: ps)
    case (Suc l)
    have "fold (add_hour byPeriod) (day_hours cur ((today - int l) * 86400)) ps = ps @ [?pt l]"
      using Suc.prems today hourly by (intro day_point) auto
    moreover have "fold (add_hour byPeriod) (concat (map (\<lambda>k. day_hours cur ((today - int k) * 86400)) (rev [0..<l]))) (ps @ [?pt l]) =
        (ps @ [?pt l]) @ map ?pt (rev [0..<l])"
      by (rule Suc.IH) (use Suc.prems in \<open>auto simp: algebra_simps\<close>)
    ultimately show ?case by simp
  qed simp
  have "map ?pt (rev [0..<n]) = chart p d (today * 86400) (cur + 3600) 86400 n"
  proof (rule nth_equalityI)
    fix i assume "i < length (map ?pt (rev [0..<n]))"
    then have i: "i < n" by simp
    then have "rev [0..<n] ! i = n - 1 - i" by (simp add: rev_nth)
    with i show "map ?pt (rev [0..<n]) ! i = chart p d (today * 86400) (cur + 3600) 86400 n ! i"
      by (auto simp: chart_def Let_def algebra_simps)
  qed (simp add: chart_def)
  moreover have "0 \<le> today" using today(1) by simp
  ultimately show ?thesis
    using go [of n "[]"] by (simp add: daily_points_def expanded_days [OF _ today(2,3)])
qed

subsection \<open>Both charts\<close>

definition window_start :: "string \<Rightarrow> int \<Rightarrow> int" where
  "window_start rg now =
     (if rg = StatsRange1d then HourStartUnix now - 23 * 3600
      else UnixDayStart now - (if rg = StatsRange7d then 6 else 29) * 86400)"

definition chart_of :: "(task_call_record \<Rightarrow> bool) \<Rightarrow> db \<Rightarrow> string \<Rightarrow> int \<Rightarrow> usage_point list" where
  "chart_of p d rg now =
     (if rg = StatsRange1d then chart p d (HourStartUnix now) (HourStartUnix now + 3600) 3600 24
      else chart p d (UnixDayStart now) (HourStartUnix now + 3600) 86400 (if rg = StatsRange7d then 7 else 30))"

text \<open>The moment in days, hours of the day and seconds of the hour.\<close>

lemma moment:
  assumes "30 * 86400 \<le> now"
  obtains today m where "30 \<le> today" "m < 24" "HourStartUnix now = today * 86400 + int m * 3600" "UnixDayStart now = today * 86400"
proof -
  define m where "m = nat (now mod 86400 div 3600)"
  have "0 \<le> now mod 86400" "now mod 86400 < 86400" by simp_all
  then have m: "int m = now mod 86400 div 3600" "m < 24" by (simp_all add: m_def nat_less_iff)
  have "now - now mod 3600 = now div 3600 * 3600" by (rule minus_mod_eq_div_mult)
  moreover have "now div 3600 = now div 86400 * 24 + now mod 86400 div 3600"
  proof -
    have "now div 3600 = (now mod 86400 + 24 * (now div 86400) * 3600) div 3600"
      by (rule arg_cong [where f = "\<lambda>x. x div 3600"]) simp
    also have "\<dots> = 24 * (now div 86400) + now mod 86400 div 3600" by (rule div_mult_self1) simp
    finally show ?thesis by simp
  qed
  ultimately have "HourStartUnix now = now div 86400 * 86400 + int m * 3600"
    using assms m(1) by (simp add: HourStartUnix_def go_rem_nonneg algebra_simps)
  moreover have "30 \<le> now div 86400" using zdiv_mono1 [OF assms, of 86400] by simp
  moreover have "UnixDayStart now = now div 86400 * 86400" using assms by (simp add: UnixDayStart_def go_quo_nonneg)
  ultimately show ?thesis using that m(2) by blast
qed

text \<open>The starts of a range and the points over them.\<close>

definition range_starts :: "string \<Rightarrow> int \<Rightarrow> (int \<times> bool) list" where
  "range_starts rg now =
     (if rg = StatsRange1d then last_hours (HourStartUnix now)
      else dailyExpandedHourStarts (HourStartUnix now) (if rg = StatsRange7d then 7 else 30))"

definition range_points :: "(int \<Rightarrow> usage_counts) \<Rightarrow> string \<Rightarrow> (int \<times> bool) list \<Rightarrow> usage_point list" where
  "range_points byPeriod rg starts =
     (if rg = StatsRange1d then hourly_points byPeriod starts else daily_points byPeriod starts)"

lemma last_hours_bounds:
  "fst (hd (last_hours cur)) = cur - 23 * 3600" "fst (last (last_hours cur)) = cur"
proof -
  have u: "[0..<24] = 0 # [1..<24::nat]" "[0..<24] = [0..<23] @ [23::nat]" by (simp_all add: upt_rec)
  show "fst (hd (last_hours cur)) = cur - 23 * 3600" unfolding last_hours_def u(1) by (simp add: Let_def)
  show "fst (last (last_hours cur)) = cur" unfolding last_hours_def u(2) by (simp add: Let_def)
qed

lemma expanded_bounds:
  assumes "int n \<le> today" "m < 24" "cur = today * 86400 + int m * 3600" "0 < n"
  shows "fst (hd (dailyExpandedHourStarts cur n)) = (today - int n + 1) * 86400"
    "fst (last (dailyExpandedHourStarts cur n)) = cur"
    "dailyExpandedHourStarts cur n \<noteq> []"
proof -
  have today: "0 \<le> today" using assms(1) by simp
  note e = expanded_days [OF today assms(2,3)]
  have last_day: "day_hours cur (today * 86400) = map (\<lambda>h. (today * 86400 + int h * 3600, h < m)) [0..<Suc m]"
    unfolding assms(3) by (rule day_hours_upto [OF assms(2)])
  obtain k where n: "n = Suc k" using assms(4) by (cases n) auto
  have first: "day_hours cur ((today - int k) * 86400) \<noteq> []" "fst (hd (day_hours cur ((today - int k) * 86400))) = (today - int k) * 86400"
  proof -
    have "[0..<24] = 0 # [1..<24::nat]" by (simp add: upt_rec)
    moreover have "(today - int k) * 86400 \<le> cur" using assms by (simp add: n)
    ultimately show "day_hours cur ((today - int k) * 86400) \<noteq> []"
      "fst (hd (day_hours cur ((today - int k) * 86400))) = (today - int k) * 86400" by (simp_all add: day_hours_def)
  qed
  show "dailyExpandedHourStarts cur n \<noteq> []" using first(1) by (simp add: e n)
  show "fst (hd (dailyExpandedHourStarts cur n)) = (today - int n + 1) * 86400" using first by (simp add: e n)
  have "rev [0..<n] = rev [1..<n] @ [0]" using assms(4) by (simp add: upt_conv_Cons)
  then have "last (dailyExpandedHourStarts cur n) = last (day_hours cur (today * 86400))" unfolding e by (simp add: last_day)
  then show "fst (last (dailyExpandedHourStarts cur n)) = cur" unfolding last_day by (simp add: assms(3))
qed

text \<open>What a table exact for its calls gives on the screen.\<close>

lemma points_exact:
  assumes now: "30 * 86400 \<le> now" and rg: "rg \<in> {StatsRange1d, StatsRange7d, StatsRange1m}"
    and keys: "distinct (map (\<lambda>r. (owner r, period r)) rs)"
    and cnt: "\<And>t. tally (\<lambda>r. (owner r, period r)) counts rs (u, t) =
      tally (\<lambda>c. (call_owner c, HourStartUnix (unix (cr_accepted_at c)))) (\<lambda>c. call_increment c (charged d (cr_id c))) (counted d) (u, t)"
  defines "starts \<equiv> range_starts rg now"
  shows "starts \<noteq> []"
    "range_points (by_period period counts (filter (\<lambda>r. owner r = u \<and> fst (hd starts) \<le> period r \<and> period r \<le> fst (last starts)) rs)) rg starts =
      chart_of (\<lambda>c. call_owner c = u) d rg now"
proof -
  obtain today m where t: "30 \<le> today" "m < 24" "HourStartUnix now = today * 86400 + int m * 3600" "UnixDayStart now = today * 86400"
    using moment [OF now] .
  let ?cur = "HourStartUnix now"
  let ?f = "by_period period counts (filter (\<lambda>r. owner r = u \<and> fst (hd starts) \<le> period r \<and> period r \<le> fst (last starts)) rs)"
  have f: "?f x = calls_between (\<lambda>c. call_owner c = u) d x (x + 3600)"
    if "fst (hd starts) \<le> x" "x \<le> fst (last starts)" "0 < x" "x mod 3600 = 0" for x
    using by_period_owner [OF keys that(1,2), of counts u] cnt [of x] tally_calls [OF that(3,4), of call_owner d u] by simp
  have "starts \<noteq> [] \<and> range_points ?f rg starts = chart_of (\<lambda>c. call_owner c = u) d rg now"
  proof (cases "rg = StatsRange1d")
    case True
    then have s: "starts = last_hours ?cur" by (simp add: starts_def range_starts_def)
    have "?f x = calls_between (\<lambda>c. call_owner c = u) d x (x + 3600)" if x: "x \<in> fst ` set (last_hours ?cur)" for x
    proof (rule f)
      from x obtain i :: nat where i: "i < 24" "x = ?cur - (23 - int i) * 3600" by (auto simp: last_hours_def Let_def)
      show "fst (hd starts) \<le> x" "x \<le> fst (last starts)" using i by (simp_all add: s last_hours_bounds)
      show "0 < x" using i t(1) by (simp add: t(3))
      have "x = 3600 * (today * 24 + int m - (23 - int i))" using i by (simp add: t(3))
      then show "x mod 3600 = 0" by (simp only: mod_mult_self1_is_0)
    qed
    from hourly_chart [OF this] True show ?thesis by (simp add: s range_points_def chart_of_def last_hours_def)
  next
    case False
    define n :: nat where "n = (if rg = StatsRange7d then 7 else 30)"
    have n: "0 < n" "int n \<le> today" using t(1) by (simp_all add: n_def)
    have s: "starts = dailyExpandedHourStarts ?cur n" using False by (simp add: starts_def range_starts_def n_def)
    note b = expanded_bounds [OF n(2) t(2,3) n(1), folded s]
    have "daily_points ?f (dailyExpandedHourStarts ?cur n) =
        chart (\<lambda>c. call_owner c = u) d (today * 86400) (?cur + 3600) 86400 n"
    proof (rule daily_chart [OF n(2) t(2,3) n(1)], rule f)
      fix k h assume k: "k < n" "(today - int k) * 86400 + int h * 3600 \<le> ?cur"
      then show "(today - int k) * 86400 + int h * 3600 \<le> fst (last starts)" by (simp add: b)
      show "fst (hd starts) \<le> (today - int k) * 86400 + int h * 3600" "0 < (today - int k) * 86400 + int h * 3600"
        using k(1) n(2) by (simp_all add: b)
      have "(today - int k) * 86400 + int h * 3600 = 3600 * ((today - int k) * 24 + int h)" by simp
      then show "((today - int k) * 86400 + int h * 3600) mod 3600 = 0" by (simp only: mod_mult_self1_is_0)
    qed
    with False b(3) show ?thesis by (simp add: range_points_def chart_of_def s t(4) n_def)
  qed
  then show "starts \<noteq> []" "range_points ?f rg starts = chart_of (\<lambda>c. call_owner c = u) d rg now" by blast+
qed

subsection \<open>Totals\<close>

lemma chart_total:
  assumes "0 < n" "0 \<le> width" "last_start \<le> finish" "finish \<le> last_start + width"
  shows "(\<Sum>q\<leftarrow>chart p d last_start finish width n. pt_counts q) = calls_between p d (last_start - int (n - 1) * width) finish"
proof -
  let ?t = "\<lambda>i. last_start - int (n - 1 - i) * width"
  have join: "(\<Sum>i\<leftarrow>[0..<l]. calls_between p d (?t i) (min (?t i + width) finish)) = calls_between p d (?t 0) (?t 0 + int l * width)"
    if "l < n" for l
    using that
  proof (induction l)
    case (Suc l)
    have t: "?t l = ?t 0 + int l * width" using Suc.prems by (simp add: of_nat_diff algebra_simps)
    have "int (n - 1 - l) * width \<ge> width"
      using mult_right_mono [of 1 "int (n - 1 - l)" width] assms(2) Suc.prems by simp
    then have "min (?t l + width) finish = ?t l + width" using assms(3) by simp
    moreover have "calls_between p d (?t 0) (?t l) + calls_between p d (?t l) (?t l + width) = calls_between p d (?t 0) (?t l + width)"
      using assms(2) t by (intro calls_between_join) simp_all
    ultimately show ?case using Suc t by (simp add: algebra_simps)
  qed simp
  obtain k where n: "n = Suc k" using assms(1) by (cases n) auto
  have t: "?t 0 + int k * width = last_start" by (simp add: n)
  have "(\<Sum>q\<leftarrow>chart p d last_start finish width n. pt_counts q) =
      (\<Sum>i\<leftarrow>[0..<n]. calls_between p d (?t i) (min (?t i + width) finish))"
    by (simp add: chart_def Let_def o_def)
  also have "\<dots> = (\<Sum>i\<leftarrow>[0..<k]. calls_between p d (?t i) (min (?t i + width) finish)) + calls_between p d last_start finish"
    using assms(4) by (simp add: n min_def)
  also have "\<dots> = calls_between p d (?t 0) finish"
    using join [of k] t calls_between_join [of "?t 0" last_start finish p d] assms(2,3) by (simp add: n)
  finally show ?thesis by simp
qed

lemma chart_of_total:
  assumes "30 * 86400 \<le> now"
  shows "(\<Sum>q\<leftarrow>chart_of p d rg now. pt_counts q) = calls_between p d (window_start rg now) (HourStartUnix now + 3600)"
proof -
  obtain today m where t: "30 \<le> today" "m < 24" "HourStartUnix now = today * 86400 + int m * 3600" "UnixDayStart now = today * 86400"
    using moment [OF assms] .
  show ?thesis
    using chart_total [of 24 3600 "HourStartUnix now" "HourStartUnix now + 3600" p d]
      chart_total [of 7 86400 "UnixDayStart now" "HourStartUnix now + 3600" p d]
      chart_total [of 30 86400 "UnixDayStart now" "HourStartUnix now + 3600" p d] t(2)
    by (simp add: chart_of_def window_start_def t(3,4))
qed

lemma sum_of_total:
  assumes "f 0 = 0" "\<And>a b. f (a + b) = f a + f b"
  shows "sum_of f ps = f (\<Sum>q\<leftarrow>ps. pt_counts q)"
  using assms by (induction ps) (simp_all add: sum_of_def)

lemma sum_of_counts:
  "sum_of uc_request_count ps = uc_request_count (\<Sum>q\<leftarrow>ps. pt_counts q)"
  "sum_of uc_success_count ps = uc_success_count (\<Sum>q\<leftarrow>ps. pt_counts q)"
  "sum_of uc_failure_count ps = uc_failure_count (\<Sum>q\<leftarrow>ps. pt_counts q)"
  "sum_of uc_prompt_tokens ps = uc_prompt_tokens (\<Sum>q\<leftarrow>ps. pt_counts q)"
  "sum_of uc_completion_tokens ps = uc_completion_tokens (\<Sum>q\<leftarrow>ps. pt_counts q)"
  "sum_of uc_image_count ps = uc_image_count (\<Sum>q\<leftarrow>ps. pt_counts q)"
  "sum_of uc_credits ps = uc_credits (\<Sum>q\<leftarrow>ps. pt_counts q)"
  by (rule sum_of_total; simp add: zero_usage_counts_ext_def plus_usage_counts_ext_def)+

subsection \<open>The queries\<close>

lemma accountStarts:
  "rg \<in> {StatsRange1d, StatsRange7d, StatsRange1m} \<Longrightarrow> accountHourlyPeriodStarts rg now = Inr (range_starts rg now)"
  "rg \<in> {StatsRange1d, StatsRange1m} \<Longrightarrow> projectHourlyPeriodStarts rg now = Inr (range_starts rg now)"
  by (auto simp: accountHourlyPeriodStarts_def projectHourlyPeriodStarts_def range_starts_def Let_def)

lemma account_points:
  assumes "usage_inv d" "30 * 86400 \<le> now" "rg \<in> {StatsRange1d, StatsRange7d, StatsRange1m}"
  defines "starts \<equiv> range_starts rg now"
  shows "starts \<noteq> []"
    "range_points (by_period ah_period_start ah_counts
        (filter (\<lambda>r. ah_user_id r = u \<and> fst (hd starts) \<le> ah_period_start r \<and> ah_period_start r \<le> fst (last starts))
          (st_account_hourly (db_stats d)))) rg starts = chart_of (\<lambda>c. cr_user_id c = u) d rg now"
proof -
  have "account_table.exact (db_stats d) (counted d) (\<lambda>c. charged d (cr_id c))"
    using usage_invD(4) [OF assms(1)] by (simp only: tables_exact_def)
  note e = this [unfolded account_table.exact_def, unfolded account_hour_def [abs_def]]
  note points = points_exact [OF assms(2,3) conjunct1 [OF e] spec [OF conjunct2 [OF e]], folded starts_def]
  show "starts \<noteq> []" by (rule points(1))
  show "range_points (by_period ah_period_start ah_counts
        (filter (\<lambda>r. ah_user_id r = u \<and> fst (hd starts) \<le> ah_period_start r \<and> ah_period_start r \<le> fst (last starts))
          (st_account_hourly (db_stats d)))) rg starts = chart_of (\<lambda>c. cr_user_id c = u) d rg now" by (rule points(2))
qed

lemma project_points:
  assumes "usage_inv d" "30 * 86400 \<le> now" "rg \<in> {StatsRange1d, StatsRange1m}"
  defines "starts \<equiv> range_starts rg now"
  shows "range_points (by_period ph_period_start ph_counts
        (filter (\<lambda>r. ph_project_id r = i \<and> fst (hd starts) \<le> ph_period_start r \<and> ph_period_start r \<le> fst (last starts))
          (st_project_hourly (db_stats d)))) rg starts = chart_of (\<lambda>c. cr_project_id c = i) d rg now"
proof -
  have "project_table.exact (db_stats d) (counted d) (\<lambda>c. charged d (cr_id c))"
    using usage_invD(4) [OF assms(1)] by (simp only: tables_exact_def)
  note e = this [unfolded project_table.exact_def, unfolded project_hour_def [abs_def]]
  from assms(3) have "rg \<in> {StatsRange1d, StatsRange7d, StatsRange1m}" by auto
  from points_exact(2) [OF assms(2) this conjunct1 [OF e] spec [OF conjunct2 [OF e]], folded starts_def] show ?thesis .
qed

text \<open>
  C22. The charts are exact. Whenever the tables hold the counted calls (\<open>usage_inv\<close>) the query of an
  account answers for each of its ranges, point \<open>i\<close> of its series is the number (or the Credits) of the
  calls of this account that were accepted between the start and the end of hour or day \<open>i\<close>, the last
  period ends with the current hour and is the only incomplete one, and the totals are those of all
  calls from the first period's start on. The same holds of a project's series. In particular adding the hours
  into days loses and repeats none, for every hour of the day at which the query may run.
\<close>

theorem usage_charts_exact:
  assumes "usage_inv d" "30 * 86400 \<le> unix now"
  shows "(rg \<in> {StatsRange1d, StatsRange7d, StatsRange1m} \<longrightarrow>
      (\<exists>out. GetAccountUsageStats d u rg now = Inr out \<and>
        (let points = chart_of (\<lambda>c. cr_user_id c = u) d rg (unix now);
             all = calls_between (\<lambda>c. cr_user_id c = u) d (window_start rg (unix now)) (HourStartUnix (unix now) + 3600) in
         as_requests_series out = series_of uc_request_count points \<and>
         as_credits_series out = series_of uc_credits points \<and>
         as_request_count out = uc_request_count all \<and> as_success_count out = uc_success_count all \<and>
         as_failure_count out = uc_failure_count all \<and> as_prompt_tokens out = uc_prompt_tokens all \<and>
         as_completion_tokens out = uc_completion_tokens all \<and> as_image_count out = uc_image_count all \<and>
         as_credits out = uc_credits all))) \<and>
    (rg \<in> {StatsRange1d, StatsRange1m} \<longrightarrow>
      (\<exists>out. GetProjectUsageStats d i rg now = Inr out \<and>
        (let points = chart_of (\<lambda>c. cr_project_id c = i) d rg (unix now) in
         pu_request_series out = series_of (\<lambda>c. (uc_success_count c, uc_failure_count c)) points \<and>
         pu_credits_series out = series_of uc_credits points \<and>
         pu_token_series out = series_of (\<lambda>c. (uc_prompt_tokens c, uc_completion_tokens c, uc_image_count c)) points)))"
proof (intro conjI impI)
  assume rg: "rg \<in> {StatsRange1d, StatsRange7d, StatsRange1m}"
  note p = account_points(1) [OF assms rg] account_points(2) [OF assms rg, unfolded range_points_def, of u] accountStarts(1) [OF rg, of "unix now"]
  show "\<exists>out. GetAccountUsageStats d u rg now = Inr out \<and> (let points = chart_of (\<lambda>c. cr_user_id c = u) d rg (unix now);
      all = calls_between (\<lambda>c. cr_user_id c = u) d (window_start rg (unix now)) (HourStartUnix (unix now) + 3600) in
    as_requests_series out = series_of uc_request_count points \<and> as_credits_series out = series_of uc_credits points \<and>
    as_request_count out = uc_request_count all \<and> as_success_count out = uc_success_count all \<and>
    as_failure_count out = uc_failure_count all \<and> as_prompt_tokens out = uc_prompt_tokens all \<and>
    as_completion_tokens out = uc_completion_tokens all \<and> as_image_count out = uc_image_count all \<and>
    as_credits out = uc_credits all)"
    unfolding GetAccountUsageStats_def Let_def p(3) by (simp add: p(1,2) sum_of_counts chart_of_total [OF assms(2)])
next
  assume rg: "rg \<in> {StatsRange1d, StatsRange1m}"
  note p = project_points [OF assms rg, unfolded range_points_def, of i] accountStarts(2) [OF rg, of "unix now"]
  show "\<exists>out. GetProjectUsageStats d i rg now = Inr out \<and> (let points = chart_of (\<lambda>c. cr_project_id c = i) d rg (unix now) in
    pu_request_series out = series_of (\<lambda>c. (uc_success_count c, uc_failure_count c)) points \<and>
    pu_credits_series out = series_of uc_credits points \<and>
    pu_token_series out = series_of (\<lambda>c. (uc_prompt_tokens c, uc_completion_tokens c, uc_image_count c)) points)"
    unfolding GetProjectUsageStats_def Let_def p(2) by (simp add: p(1))
qed

theorem usage_charts_exact_witness:
  "\<exists>out. GetAccountUsageStats sample_usage_db 1 StatsRange1m 2592000000000000 = Inr out \<and> as_request_count out = 1"
proof -
  have u: "unix 2592000000000000 = 2592000" "HourStartUnix 2592000 = 2592000" "window_start StatsRange1m 2592000 = 86400"
    "unix 90000000000000 = 90000" by code_simp+
  have c: "cr_accepted_at sample_usage_call = 90000000000000" "cr_user_id sample_usage_call = 1" by (simp_all add: sample_usage_call_def)
  have "uc_request_count (call_increment sample_usage_call n) = 1" for n by (simp add: sample_usage_call_def call_increment_def)
  then show ?thesis
    using conjunct1 [OF usage_charts_exact [OF sample_usage_inv(1), of 2592000000000000 StatsRange1m 1]]
    by (auto simp: u c Let_def calls_between_def sample_usage_inv(2))
qed

end
