(* ===== verification/Image_Tokens.thy ===== *)
theory Image_Tokens
  imports Task_Price Provider_Billing Api_Auth
begin

text \<open>
  The input tokens of images (\<open>provider/image_tokens.go\<close>, \<open>image_tokens_openai.go\<close>,
  \<open>image_tokens_anthropic.go\<close>, \<open>image_tokens_google.go\<close>, \<open>images_input_tokens.go\<close>) and of generated
  images (\<open>images_output_tokens.go\<close>): the rules of the three providers, in float64 as the code
  computes them. The regular expressions are written out as functions on strings.
\<close>

subsection \<open>More of float64\<close>

definition f64_of_int :: "int \<Rightarrow> f64" where
  "f64_of_int i = f64_of_rat (of_int i)"

fun f64_div :: "f64 \<Rightarrow> f64 \<Rightarrow> f64" where
  "f64_div (Fin a) (Fin b) =
     (if b = 0 then (if a = 0 then NaN else f64_inf (f64_sign (Fin a))) else f64_of_rat (a / b))"
| "f64_div NaN _ = NaN"
| "f64_div _ NaN = NaN"
| "f64_div (Fin a) _ = Fin 0"
| "f64_div x (Fin b) = (if b < 0 then f64_inf (- f64_sign x) else f64_inf (f64_sign x))"
| "f64_div _ _ = NaN"

fun f64_le :: "f64 \<Rightarrow> f64 \<Rightarrow> bool" where
  "f64_le NaN _ = False"
| "f64_le _ NaN = False"
| "f64_le NegInf _ = True"
| "f64_le _ PosInf = True"
| "f64_le (Fin a) (Fin b) = (a \<le> b)"
| "f64_le _ _ = False"

definition f64_less :: "f64 \<Rightarrow> f64 \<Rightarrow> bool" where
  "f64_less x y \<longleftrightarrow> f64_le x y \<and> x \<noteq> y"

text \<open>\<open>math.Min\<close> and \<open>math.Max\<close>; an infinity wins over NaN.\<close>

definition math_Min :: "f64 \<Rightarrow> f64 \<Rightarrow> f64" where
  "math_Min x y =
     (if x = NegInf \<or> y = NegInf then NegInf else if x = NaN \<or> y = NaN then NaN else if f64_le x y then x else y)"

definition math_Max :: "f64 \<Rightarrow> f64 \<Rightarrow> f64" where
  "math_Max x y =
     (if x = PosInf \<or> y = PosInf then PosInf else if x = NaN \<or> y = NaN then NaN else if f64_le y x then x else y)"

fun math_Floor :: "f64 \<Rightarrow> f64" where
  "math_Floor (Fin a) = Fin (of_int \<lfloor>a\<rfloor>)"
| "math_Floor x = x"

fun math_Ceil :: "f64 \<Rightarrow> f64" where
  "math_Ceil (Fin a) = Fin (of_int \<lceil>a\<rceil>)"
| "math_Ceil x = x"

text \<open>The integer square root, two bits at a time.\<close>

fun isqrt :: "nat \<Rightarrow> nat" where
  "isqrt n = (if n = 0 then 0 else let r = 2 * isqrt (n div 4) in if (r + 1) * (r + 1) \<le> n then r + 1 else r)"

declare isqrt.simps [simp del]

text \<open>
  \<open>math.Sqrt\<close>, correctly rounded: 53 bits of the root are the integer root of the scaled argument,
  and the remainder decides between it and its successor (an exact root of a float64 is never half
  way between two).
\<close>

definition sqrt_rat :: "rat \<Rightarrow> rat" where
  "sqrt_rat x =
     (let e = floor_log2 x div 2 - 52; y = x / pow2 (2 * e); m = isqrt (nat \<lfloor>y\<rfloor>);
          h = of_nat m + 1 / 2 in
      (if y < h * h then of_nat m else of_nat (m + 1)) * pow2 e)"

fun math_Sqrt :: "f64 \<Rightarrow> f64" where
  "math_Sqrt (Fin x) = (if x < 0 then NaN else if x = 0 then Fin 0 else Fin (sqrt_rat x))"
| "math_Sqrt PosInf = PosInf"
| "math_Sqrt _ = NaN"

text \<open>
  \<open>uint64(f)\<close>. Go leaves a value outside the range to the machine; this is amd64's, on which a negative or
  large value is converted through \<open>int64\<close>.
\<close>

definition cvtt_int64 :: "f64 \<Rightarrow> u64" where
  "cvtt_int64 x =
     (case x of Fin a \<Rightarrow> (if - (2 ^ 63) \<le> rat_quo a \<and> rat_quo a < 2 ^ 63 then word_of_int (rat_quo a) else 2 ^ 63)
      | _ \<Rightarrow> 2 ^ 63)"

definition u64_of_f64 :: "f64 \<Rightarrow> u64" where
  "u64_of_f64 x =
     (if f64_less x (Fin (2 ^ 63)) then cvtt_int64 x
      else xor (cvtt_int64 (f64_add x (Fin (- (2 ^ 63))))) (2 ^ 63))"

subsection \<open>Common steps\<close>

record canonical_image_info =
  ci_mime_type :: string
  ci_width :: int
  ci_height :: int
  ci_detail :: string
  ci_decoded_bytes :: nat

definition unsupportedImageModelError :: "string \<Rightarrow> err" where
  "unsupportedImageModelError model = ErrMsg (''image input is not supported for model '' @ model)"

definition scaleToFit :: "int \<Rightarrow> int \<Rightarrow> f64 \<Rightarrow> f64 \<Rightarrow> f64 \<times> f64" where
  "scaleToFit width height maxWidth maxHeight =
     (let w = f64_of_int width; h = f64_of_int height in
      if f64_le w maxWidth \<and> f64_le h maxHeight then (w, h)
      else if f64_le (f64_mul h maxWidth) (f64_mul w maxHeight) then (maxWidth, f64_div (f64_mul h maxWidth) w)
      else (f64_div (f64_mul w maxHeight) h, maxHeight))"

definition ceilDiv :: "f64 \<Rightarrow> f64 \<Rightarrow> u64" where
  "ceilDiv value unit = u64_of_f64 (math_Ceil (f64_div value unit))"

definition hasModelPrefix :: "string \<Rightarrow> string \<Rightarrow> bool" where
  "hasModelPrefix model prefix \<longleftrightarrow> model = prefix \<or> HasPrefix model (prefix @ ''-'')"

subsection \<open>OpenAI\<close>

record openai_detail_limits =
  dl_max_edge :: rat
  dl_patch_budget :: u64
  dl_reject_above :: u64

record openai_image_rule =
  ir_patch_multiplier :: f64
  ir_base_tokens :: u64
  ir_tile_tokens :: u64
  ir_details :: "(string \<times> openai_detail_limits) list"

text \<open>The suffix \<open>-dddd-dd-dd\<close>.\<close>

definition is_date_suffix :: "string \<Rightarrow> bool" where
  "is_date_suffix s \<longleftrightarrow> length s = 11 \<and>
     (\<forall>i \<in> set [0..<11]. if i \<in> {0, 5, 8} then s ! i = CHR ''-'' else is_digit (s ! i))"

definition stripOpenAIDateSuffix :: "string \<Rightarrow> string" where
  "stripOpenAIDateSuffix model =
     (let n = length model in if is_date_suffix (drop (n - 11) model) then take (n - 11) model else model)"

definition openAIPatchRule :: "rat \<Rightarrow> (string \<times> openai_detail_limits) list \<Rightarrow> openai_image_rule" where
  "openAIPatchRule multiplier details =
     \<lparr>ir_patch_multiplier = f64_of_rat multiplier, ir_base_tokens = 0, ir_tile_tokens = 0, ir_details = details\<rparr>"

abbreviation detail_limits :: "rat \<Rightarrow> u64 \<Rightarrow> u64 \<Rightarrow> openai_detail_limits" where
  "detail_limits e b r \<equiv> \<lparr>dl_max_edge = e, dl_patch_budget = b, dl_reject_above = r\<rparr>"

definition openAITileRule :: "u64 \<Rightarrow> u64 \<Rightarrow> openai_image_rule" where
  "openAITileRule base tile =
     \<lparr>ir_patch_multiplier = Fin 0, ir_base_tokens = base, ir_tile_tokens = tile,
      ir_details = [(''low'', detail_limits 0 0 0), (''high'', detail_limits 0 0 0), (''auto'', detail_limits 0 0 0)]\<rparr>"

definition openAIDetailLow512 :: openai_detail_limits where
  "openAIDetailLow512 = detail_limits 512 0 0"

definition openAIDetailShared :: openai_detail_limits where
  "openAIDetailShared = detail_limits 2048 6144 0"

definition openAIDetailHigh2500Edge2048 :: openai_detail_limits where
  "openAIDetailHigh2500Edge2048 = detail_limits 2048 2500 0"

definition openAIDetailHigh2500Edge65535 :: openai_detail_limits where
  "openAIDetailHigh2500Edge65535 = detail_limits 65535 2500 0"

definition openAIDetailOriginalPreserve :: openai_detail_limits where
  "openAIDetailOriginalPreserve = detail_limits 65535 0 30000"

definition openAIDetailOriginalAlt :: openai_detail_limits where
  "openAIDetailOriginalAlt = detail_limits 6000 10000 0"

text \<open>The rules. Several models share the map of their details.\<close>

definition original_rule :: "openai_detail_limits \<Rightarrow> openai_image_rule" where
  "original_rule high = openAIPatchRule (12 / 10)
     [(''low'', openAIDetailLow512), (''high'', high),
      (''original'', openAIDetailOriginalPreserve), (''auto'', openAIDetailOriginalPreserve)]"

definition shared_rule :: "rat \<Rightarrow> openai_image_rule" where
  "shared_rule multiplier = openAIPatchRule multiplier
     [(''low'', openAIDetailShared), (''high'', openAIDetailShared), (''auto'', openAIDetailShared)]"

definition alt_rule :: openai_image_rule where
  "alt_rule = openAIPatchRule (12 / 10)
     [(''low'', openAIDetailShared), (''high'', openAIDetailHigh2500Edge2048),
      (''original'', openAIDetailOriginalAlt), (''auto'', openAIDetailHigh2500Edge2048)]"

definition gpt55_rule :: openai_image_rule where
  "gpt55_rule = openAIPatchRule (12 / 10)
     [(''low'', openAIDetailLow512), (''high'', openAIDetailHigh2500Edge2048),
      (''original'', openAIDetailOriginalAlt), (''auto'', openAIDetailOriginalAlt)]"

definition openAIExactPatchRules :: "(string \<times> openai_image_rule) list" where
  "openAIExactPatchRules =
     [(''gpt-6-astra'', original_rule openAIDetailHigh2500Edge65535),
      (''gpt-6.1-sol'', original_rule openAIDetailHigh2500Edge65535),
      (''gpt-6.1-terra'', original_rule openAIDetailHigh2500Edge65535),
      (''gpt-6-luna'', original_rule openAIDetailHigh2500Edge65535),
      (''gpt-5.6-sol'', original_rule openAIDetailHigh2500Edge2048),
      (''gpt-5.6-terra'', original_rule openAIDetailHigh2500Edge2048),
      (''gpt-5.6-luna'', original_rule openAIDetailHigh2500Edge2048),
      (''gpt-5.5'', gpt55_rule),
      (''gpt-5.2'', shared_rule (12 / 10))]"

definition openAIExactTileRules :: "(string \<times> openai_image_rule) list" where
  "openAIExactTileRules = [(''gpt-5'', openAITileRule 70 140), (''gpt-5.1'', openAITileRule 70 140)]"

definition openAIPrefixPatchRules :: "(string \<times> openai_image_rule) list" where
  "openAIPrefixPatchRules =
     [(''gpt-5.4-nano'', alt_rule), (''gpt-5.4-mini'', alt_rule), (''gpt-5.4'', alt_rule),
      (''gpt-5-mini'', shared_rule (12 / 10)), (''gpt-5-nano'', shared_rule (15 / 10)),
      (''gpt-4.1-mini'', shared_rule (162 / 100)), (''gpt-4.1-nano'', shared_rule (246 / 100)),
      (''o4-mini'', shared_rule (172 / 100))]"

definition openAIPrefixTileRules :: "(string \<times> openai_image_rule) list" where
  "openAIPrefixTileRules =
     [(''gpt-4o-mini'', openAITileRule 2833 5667), (''chatgpt-4o'', openAITileRule 85 170),
      (''gpt-4o'', openAITileRule 85 170), (''gpt-4.1'', openAITileRule 85 170),
      (''gpt-4.5'', openAITileRule 85 170), (''gpt-4-turbo'', openAITileRule 85 170),
      (''o1-pro'', openAITileRule 75 150), (''o1'', openAITileRule 75 150), (''o3'', openAITileRule 75 150)]"

definition prefix_rule :: "string \<Rightarrow> (string \<times> openai_image_rule) list \<Rightarrow> openai_image_rule option" where
  "prefix_rule name rules = map_option snd (find (\<lambda>entry. hasModelPrefix name (fst entry)) rules)"

definition resolveOpenAIImageRule :: "string \<Rightarrow> err + openai_image_rule" where
  "resolveOpenAIImageRule model =
     (let name = stripOpenAIDateSuffix (ToLower (TrimSpace model)) in
      if name = ''o1-mini'' \<or> hasModelPrefix name ''o1-mini'' then Inl (unsupportedImageModelError model)
      else if name = ''o3-mini'' \<or> hasModelPrefix name ''o3-mini'' then Inl (unsupportedImageModelError model)
      else case map_of openAIExactPatchRules name of
        Some rule \<Rightarrow> Inr rule
      | None \<Rightarrow> (case map_of openAIExactTileRules name of
          Some rule \<Rightarrow> Inr rule
        | None \<Rightarrow> (case prefix_rule name openAIPrefixPatchRules of
            Some rule \<Rightarrow> Inr rule
          | None \<Rightarrow> of_option (unsupportedImageModelError model) (prefix_rule name openAIPrefixTileRules))))"

text \<open>The size after the edge limit, and the size after the patch budget.\<close>

definition fit_edge :: "int \<Rightarrow> int \<Rightarrow> rat \<Rightarrow> f64 \<times> f64" where
  "fit_edge width height maxEdge =
     (if 0 < maxEdge then scaleToFit width height (Fin maxEdge) (Fin maxEdge)
      else (f64_of_int width, f64_of_int height))"

definition patches_of :: "f64 \<Rightarrow> f64 \<Rightarrow> u64" where
  "patches_of w h = ceilDiv w (Fin 32) * ceilDiv h (Fin 32)"

definition fit_budget :: "f64 \<Rightarrow> f64 \<Rightarrow> u64 \<Rightarrow> f64 \<times> f64" where
  "fit_budget w h budget =
     (let r = math_Sqrt (f64_div (f64_mul (Fin (32 * 32)) (f64_of_u64 budget)) (f64_mul w h));
          scaledW = f64_div (f64_mul w r) (Fin 32); scaledH = f64_div (f64_mul h r) (Fin 32);
          r' = f64_mul r (math_Min (f64_div (math_Floor scaledW) scaledW) (f64_div (math_Floor scaledH) scaledH)) in
      (f64_mul w r', f64_mul h r'))"

definition openAIPatchCount :: "int \<Rightarrow> int \<Rightarrow> openai_detail_limits \<Rightarrow> err + u64" where
  "openAIPatchCount width height limits =
     (let (w, h) = fit_edge width height (dl_max_edge limits);
          patches = patches_of w h;
          patches' =
            (if 0 < dl_patch_budget limits \<and> dl_patch_budget limits < patches then
               let (w', h') = fit_budget w h (dl_patch_budget limits); p = patches_of w' h' in
               if dl_patch_budget limits < p then dl_patch_budget limits else p
             else patches) in
      rejectIf (0 < dl_reject_above limits \<and> dl_reject_above limits < patches')
        (ErrMsg ''image requires too many patches'') (Inr patches'))"

definition openAITileCount :: "int \<Rightarrow> int \<Rightarrow> u64" where
  "openAITileCount width height =
     (let (w, h) = scaleToFit width height (Fin 2048) (Fin 2048);
          (w', h') =
            (if f64_le w h \<and> f64_less (Fin 768) w then (Fin 768, f64_div (f64_mul h (Fin 768)) w)
             else if f64_less h w \<and> f64_less (Fin 768) h then (f64_div (f64_mul w (Fin 768)) h, Fin 768)
             else (w, h)) in
      ceilDiv w' (Fin 512) * ceilDiv h' (Fin 512))"

definition openAI_estimate :: "openai_image_rule \<Rightarrow> canonical_image_info \<Rightarrow> err + u64" where
  "openAI_estimate r img =
     (let detail = (if ci_detail img = [] then ''auto'' else ci_detail img) in
      case map_of (ir_details r) detail of
        None \<Rightarrow> Inl (ErrMsg ''image detail is not supported for this model'')
      | Some limits \<Rightarrow>
          if f64_less (Fin 0) (ir_patch_multiplier r) then
            bindE (openAIPatchCount (ci_width img) (ci_height img) limits) (\<lambda>patches.
              Inr (u64_of_f64 (math_Ceil (f64_mul (f64_of_u64 patches) (ir_patch_multiplier r)))))
          else if detail = ''low'' then Inr (ir_base_tokens r)
          else Inr (ir_base_tokens r + ir_tile_tokens r * openAITileCount (ci_width img) (ci_height img)))"

subsection \<open>Anthropic\<close>

record anthropic_image_tier =
  at_max_edge :: rat
  at_max_tokens :: u64

definition anthropicStandardTier :: anthropic_image_tier where
  "anthropicStandardTier = \<lparr>at_max_edge = 1568, at_max_tokens = 1568\<rparr>"

definition anthropicHighResTier :: anthropic_image_tier where
  "anthropicHighResTier = \<lparr>at_max_edge = 2576, at_max_tokens = 4784\<rparr>"

text \<open>What may follow a version or a family: a dash or the end.\<close>

definition at_boundary :: "string \<Rightarrow> bool" where
  "at_boundary s \<longleftrightarrow> s = [] \<or> hd s = CHR ''-''"

definition family_after :: "string list \<Rightarrow> string \<Rightarrow> (string \<times> string) option" where
  "family_after families s = map_option (\<lambda>f. (f, drop (length f) s)) (find (HasPrefix s) families)"

text \<open>One or two digits after a dash, and the rest.\<close>

definition minor_after :: "string \<Rightarrow> (string \<times> string) option" where
  "minor_after s =
     (case s of [] \<Rightarrow> None
      | c # t \<Rightarrow> let ds = takeWhile is_digit t in
          if c = CHR ''-'' \<and> length ds \<in> {1, 2} then Some (ds, drop (length ds) t) else None)"

text \<open>
  \<open>^claude-(opus|sonnet|haiku|fable)-(\d+)(?:-(\d{1,2}))?(?:-|$)\<close>: the family, the major and the minor version.
  The minor group is taken when a boundary follows it.
\<close>

definition anthropicFamilyFirstModel :: "string \<Rightarrow> (string \<times> string \<times> string) option" where
  "anthropicFamilyFirstModel model =
     (if \<not> HasPrefix model ''claude-'' then None
      else case family_after [''opus'', ''sonnet'', ''haiku'', ''fable''] (TrimPrefix model ''claude-'') of
        None \<Rightarrow> None
      | Some (family, s) \<Rightarrow>
          if s = [] \<or> hd s \<noteq> CHR ''-'' then None
          else let major = takeWhile is_digit (tl s); rest = drop (length major) (tl s) in
            if major = [] then None
            else case minor_after rest of
              Some (minor, rest') \<Rightarrow>
                if at_boundary rest' then Some (family, major, minor) else Some (family, major, [])
            | None \<Rightarrow> if at_boundary rest then Some (family, major, []) else None)"

text \<open>\<open>^claude-(\d+)(?:-(\d{1,2}))?-(opus|sonnet|haiku)(?:-|$)\<close>\<close>

definition dash_family :: "string \<Rightarrow> string option" where
  "dash_family s =
     (if s = [] \<or> hd s \<noteq> CHR ''-'' then None
      else case family_after [''opus'', ''sonnet'', ''haiku''] (tl s) of
        None \<Rightarrow> None
      | Some (family, rest) \<Rightarrow> if at_boundary rest then Some family else None)"

definition anthropicVersionFirstModel :: "string \<Rightarrow> (string \<times> string \<times> string) option" where
  "anthropicVersionFirstModel model =
     (if \<not> HasPrefix model ''claude-'' then None
      else let s = TrimPrefix model ''claude-''; major = takeWhile is_digit s; rest = drop (length major) s in
        if major = [] then None
        else case minor_after rest of
          Some (minor, rest') \<Rightarrow> map_option (\<lambda>family. (family, major, minor)) (dash_family rest')
        | None \<Rightarrow> map_option (\<lambda>family. (family, major, [])) (dash_family rest))"

text \<open>\<open>strconv.Atoi\<close> of digits with its error ignored: the largest \<open>int\<close> when out of range.\<close>

definition atoi_clamped :: "string \<Rightarrow> int" where
  "atoi_clamped s = min (int (digits_value s)) (2 ^ 63 - 1)"

definition resolveAnthropicImageTier :: "string \<Rightarrow> err + anthropic_image_tier" where
  "resolveAnthropicImageTier model =
     (case (case anthropicFamilyFirstModel model of Some m \<Rightarrow> Some m | None \<Rightarrow> anthropicVersionFirstModel model) of
        None \<Rightarrow> Inl (unsupportedImageModelError model)
      | Some (family, majorText, minorText) \<Rightarrow>
          let major = atoi_clamped majorText; minor = (if minorText \<noteq> [] then atoi_clamped minorText else 0) in
          if major < 3 then Inl (unsupportedImageModelError model)
          else if family = ''fable'' \<or> 4 < major \<or> (major = 4 \<and> 7 \<le> minor) then Inr anthropicHighResTier
          else Inr anthropicStandardTier)"

definition anthropic_estimate :: "anthropic_image_tier \<Rightarrow> canonical_image_info \<Rightarrow> err + u64" where
  "anthropic_estimate t img =
     (let (w, h) = scaleToFit (ci_width img) (ci_height img) (Fin (at_max_edge t)) (Fin (at_max_edge t));
          tokens = ceilDiv w (Fin 28) * ceilDiv h (Fin 28) in
      Inr (if at_max_tokens t < tokens then at_max_tokens t else tokens))"

subsection \<open>Google\<close>

definition gemini_version :: "string \<Rightarrow> string \<Rightarrow> bool" where
  "gemini_version majors model \<longleftrightarrow>
     HasPrefix model ''gemini-'' \<and>
     (case TrimPrefix model ''gemini-'' of [] \<Rightarrow> False
      | c # rest \<Rightarrow> c \<in> set majors \<and> (rest = [] \<or> hd rest \<in> {CHR ''.'', CHR ''-''}))"

definition googleDefaultResolutionModel :: "string \<Rightarrow> bool" where
  "googleDefaultResolutionModel = gemini_version ''34''"

definition googleTiledModel :: "string \<Rightarrow> bool" where
  "googleTiledModel = gemini_version ''12''"

definition googleTileCount :: "int \<Rightarrow> int \<Rightarrow> u64" where
  "googleTileCount width height =
     (if width \<le> 384 \<and> height \<le> 384 then 1
      else let unit0 = math_Floor (f64_div (math_Min (f64_of_int width) (f64_of_int height)) (Fin (15 / 10)));
               unit = math_Max (Fin 256) (math_Min (Fin 768) unit0) in
        ceilDiv (f64_of_int width) unit * ceilDiv (f64_of_int height) unit)"

definition resolveGoogleImageRule :: "string \<Rightarrow> err + (canonical_image_info \<Rightarrow> err + u64)" where
  "resolveGoogleImageRule model =
     (if googleDefaultResolutionModel model then Inr (\<lambda>_. Inr 1120)
      else if googleTiledModel model then Inr (\<lambda>img. Inr (258 * googleTileCount (ci_width img) (ci_height img)))
      else Inl (unsupportedImageModelError model))"

subsection \<open>The estimate of a request\<close>

fun sum_estimates :: "(canonical_image_info \<Rightarrow> err + u64) \<Rightarrow> canonical_image_info list \<Rightarrow> u64 \<Rightarrow> err + u64" where
  "sum_estimates estimate [] acc = Inr acc"
| "sum_estimates estimate (img # images) acc =
     bindE (estimate img) (\<lambda>tokens. sum_estimates estimate images (acc + tokens))"

definition EstimateImageInputTokens :: "string \<Rightarrow> string \<Rightarrow> canonical_image_info list \<Rightarrow> err + u64" where
  "EstimateImageInputTokens serviceProvider model images =
     (if images = [] then Inr 0
      else let name = ToLower (TrimSpace model) in
        bindE
          (if serviceProvider = ''openai'' then
             bindE (resolveOpenAIImageRule name) (\<lambda>rule. Inr (openAI_estimate rule))
           else if serviceProvider = ''anthropic'' then
             bindE (resolveAnthropicImageTier name) (\<lambda>tier. Inr (anthropic_estimate tier))
           else if serviceProvider = ''google'' then resolveGoogleImageRule name
           else Inl (ErrMsg ''image input is not supported for service provider''))
          (\<lambda>estimate. sum_estimates estimate images 0))"

subsection \<open>Images edits\<close>

definition isOpenAIImagesModel :: "string \<Rightarrow> bool" where
  "isOpenAIImagesModel model =
     (let name = stripOpenAIDateSuffix model in
      name = ''gpt-image-1'' \<or> name = ''gpt-image-1-mini'' \<or> name = ''chatgpt-image-latest'' \<or>
      hasModelPrefix name ''gpt-image-1'' \<or> hasModelPrefix name ''gpt-image-1.5'' \<or>
      hasModelPrefix name ''gpt-image-2'' \<or> hasModelPrefix name ''gpt-image-2.5'')"

definition scaleShortestSide :: "int \<Rightarrow> int \<Rightarrow> f64 \<Rightarrow> f64 \<times> f64" where
  "scaleShortestSide width height target =
     (let w = f64_of_int width; h = f64_of_int height; short = math_Min w h in
      if f64_le short (Fin 0) \<or> f64_le short target then (w, h)
      else let scale = f64_div target short in (f64_mul w scale, f64_mul h scale))"

definition openAIImagesEditImageTokens :: "int \<Rightarrow> int \<Rightarrow> string \<Rightarrow> err + u64" where
  "openAIImagesEditImageTokens width height fidelity =
     (if width \<le> 0 \<or> height \<le> 0 then Inl (ErrMsg ''image dimensions are invalid'')
      else let (scaledW, scaledH) = scaleShortestSide width height (Fin 512);
               tiles0 = ceilDiv scaledW (Fin 512) * ceilDiv scaledH (Fin 512);
               tiles = (if tiles0 = 0 then 1 else tiles0);
               tokens = 65 + 129 * tiles in
        Inr (if fidelity = ''high'' then (if width = height then tokens + 4160 else tokens + 6240) else tokens))"

definition estimateOpenAIImagesEditInputTokens :: "string \<Rightarrow> canonical_image_info list \<Rightarrow> string \<Rightarrow> err + u64" where
  "estimateOpenAIImagesEditInputTokens model imgs inputFidelity =
     (if \<not> isOpenAIImagesModel model then Inl (unsupportedImageModelError model)
      else let fidelity0 = ToLower (TrimSpace inputFidelity);
               fidelity = (if fidelity0 = [] then ''low'' else fidelity0) in
        rejectIf (fidelity \<noteq> ''low'' \<and> fidelity \<noteq> ''high'') (ErrMsg ''input_fidelity must be high or low'')
          (sum_estimates (\<lambda>img. openAIImagesEditImageTokens (ci_width img) (ci_height img) fidelity) imgs 0))"

text \<open>\<open>strings.Contains\<close>\<close>

fun contains_text :: "string \<Rightarrow> string \<Rightarrow> bool" where
  "contains_text [] t = (t = [])"
| "contains_text (c # s) t = (HasPrefix (c # s) t \<or> contains_text s t)"

definition isGoogleImagesModel :: "string \<Rightarrow> bool" where
  "isGoogleImagesModel model =
     (let name = ToLower (TrimSpace model) in
      contains_text name ''image'' \<or> contains_text name ''nano-banana'' \<or> googleDefaultResolutionModel name)"

definition estimateGoogleImagesEditInputTokens :: "string \<Rightarrow> canonical_image_info list \<Rightarrow> err + u64" where
  "estimateGoogleImagesEditInputTokens model imgs =
     (if \<not> isGoogleImagesModel model then Inl (unsupportedImageModelError model)
      else Inr (1120 * of_nat (length imgs)))"

definition EstimateProviderImagesEditInputTokens ::
  "string \<Rightarrow> string \<Rightarrow> canonical_image_info list \<Rightarrow> string \<Rightarrow> err + u64" where
  "EstimateProviderImagesEditInputTokens serviceProvider model imgs inputFidelity =
     (if imgs = [] then Inr 0
      else let name = ToLower (TrimSpace model) in
        if serviceProvider = ''openai'' then estimateOpenAIImagesEditInputTokens name imgs inputFidelity
        else if serviceProvider = ''google'' then estimateGoogleImagesEditInputTokens name imgs
        else Inl (ErrMsg ''image edit input is not supported for service provider''))"

subsection \<open>Generated images\<close>

definition output_base :: "(string \<times> u64) list" where
  "output_base = [(''low'', 272), (''medium'', 1056), (''high'', 4160), (''xhigh'', 6240), (''max'', 7024)]"

definition EstimateOpenAIImageOutputTokens :: "string \<Rightarrow> string \<Rightarrow> int \<Rightarrow> int \<Rightarrow> u64" where
  "EstimateOpenAIImageOutputTokens model quality width0 height0 =
     (let width = (if width0 \<le> 0 then 1024 else width0);
          height = (if height0 \<le> 0 then 1024 else height0);
          q0 = TrimSpace (ToLower quality);
          q1 = (if q0 = [] \<or> q0 = ''auto'' \<or> q0 = ''standard'' then ''medium'' else q0);
          q = (if q1 = ''hd'' then ''high'' else q1);
          tokens = (case map_of output_base q of Some n \<Rightarrow> n | None \<Rightarrow> 1056);
          area = (word_of_int width * word_of_int height :: u64); ref = 1024 * 1024 in
      if area \<le> ref then tokens
      else let scaled = tokens * area div ref in if scaled < tokens then tokens else scaled)"

text \<open>\<open>math.Log\<close> is an argument; the candidates are compared by the distance of the logarithms.\<close>

definition aspect_candidates :: "(string \<times> f64) list" where
  "aspect_candidates =
     [(''1:1'', Fin 1), (''2:3'', f64_of_rat (2 / 3)), (''3:2'', f64_of_rat (3 / 2)), (''3:4'', f64_of_rat (3 / 4)),
      (''4:3'', f64_of_rat (4 / 3)), (''4:5'', f64_of_rat (4 / 5)), (''5:4'', f64_of_rat (5 / 4)),
      (''9:16'', f64_of_rat (9 / 16)), (''16:9'', f64_of_rat (16 / 9)), (''21:9'', f64_of_rat (21 / 9)),
      (''1:4'', f64_of_rat (1 / 4)), (''4:1'', Fin 4), (''1:8'', f64_of_rat (1 / 8)), (''8:1'', Fin 8)]"

fun math_Abs :: "f64 \<Rightarrow> f64" where
  "math_Abs (Fin a) = Fin \<bar>a\<bar>"
| "math_Abs NegInf = PosInf"
| "math_Abs x = x"

definition nearestGoogleAspectRatio :: "(f64 \<Rightarrow> f64) \<Rightarrow> int \<Rightarrow> int \<Rightarrow> string" where
  "nearestGoogleAspectRatio math_Log width height =
     (let target = f64_div (f64_of_int width) (f64_of_int height);
          delta = (\<lambda>ratio. math_Abs (math_Log (f64_div target ratio))) in
      fst (fold (\<lambda>(label, ratio) (best, bestDelta).
             if f64_less (delta ratio) bestDelta then (label, delta ratio) else (best, bestDelta))
        (tl aspect_candidates) (fst (hd aspect_candidates), delta (snd (hd aspect_candidates)))))"

definition mapSizeToGoogleImageConfig :: "(f64 \<Rightarrow> f64) \<Rightarrow> int \<Rightarrow> int \<Rightarrow> string \<times> string" where
  "mapSizeToGoogleImageConfig math_Log width0 height0 =
     (let width = (if width0 \<le> 0 then 1024 else width0);
          height = (if height0 \<le> 0 then 1024 else height0);
          longEdge = (if width < height then height else width) in
      (nearestGoogleAspectRatio math_Log width height,
       if longEdge \<le> 768 then ''512'' else if longEdge \<le> 1536 then ''1K'' else if longEdge \<le> 3072 then ''2K'' else ''4K''))"

definition EstimateGoogleImageOutputTokens :: "string \<Rightarrow> u64" where
  "EstimateGoogleImageOutputTokens imageSize =
     (if imageSize = ''512'' then 560 else if imageSize = ''1K'' then 1120 else if imageSize = ''2K'' then 1680
      else if imageSize = ''4K'' then 3780 else 1120)"

definition EstimateProviderImageOutputTokens ::
  "(f64 \<Rightarrow> f64) \<Rightarrow> string \<Rightarrow> string \<Rightarrow> string \<Rightarrow> int \<Rightarrow> int \<Rightarrow> int \<Rightarrow> u64" where
  "EstimateProviderImageOutputTokens math_Log serviceProvider model quality width height n0 =
     (let n = (if n0 \<le> 0 then 1 else n0) in
      if serviceProvider = ''google'' then
        EstimateGoogleImageOutputTokens (snd (mapSizeToGoogleImageConfig math_Log width height)) * word_of_int n
      else EstimateOpenAIImageOutputTokens model quality width height * word_of_int n)"

end
