(* ===== verification/Image_Token_Bounds.thy ===== *)
theory Image_Token_Bounds
  imports Image_Tokens
begin

text \<open>
  Bounds of the image token estimates, and the integer formula the float64 arithmetic of the tile rule
  computes. Rounding is monotone, so a quotient that lies between two representable numbers stays
  between them.
\<close>

subsection \<open>Rounded quotients\<close>

lemma f64_between:
  assumes "f64_of_rat lo = Fin lo" "f64_of_rat hi = Fin hi" "0 \<le> lo" "lo \<le> x" "x \<le> hi"
  shows "\<exists>y. f64_of_rat x = Fin y \<and> lo \<le> y \<and> y \<le> hi"
proof -
  obtain y where y: "f64_of_rat x = Fin y" "y \<le> hi"
    using f64_of_rat_mono [OF _ assms(5,2)] assms(3,4) by auto
  with f64_of_rat_mono [OF assms(3,4) y(1)] assms(1) show ?thesis by auto
qed

lemma f64_upto:
  assumes "0 \<le> x" "x \<le> of_int n" "n < 2 ^ 53"
  shows "\<exists>y. f64_of_rat x = Fin y \<and> 0 \<le> y \<and> y \<le> of_int n"
proof -
  from assms(1,2) have "(0 :: rat) \<le> of_int n" by linarith
  then have "\<bar>n\<bar> < 2 ^ 53" using assms(3) by simp
  from f64_between [OF _ f64_of_rat_int [OF this], of 0 x] assms show ?thesis by (simp add: f64_of_rat_def)
qed

lemma f64_of_int_exact: "0 \<le> i \<Longrightarrow> i < 2 ^ 53 \<Longrightarrow> f64_of_int i = Fin (of_int i)"
  unfolding f64_of_int_def by (rule f64_of_rat_int) simp

lemma u64_of_f64_int:
  assumes "0 \<le> n" "n < 2 ^ 53"
  shows "u64_of_f64 (Fin (of_int n)) = word_of_int n"
proof -
  have q: "rat_quo (of_int n) = n" using assms(1) by (simp add: rat_quo_def go_quo_nonneg)
  have l: "(of_int n :: rat) < of_int (2 ^ 63)" using assms(2) by (simp only: of_int_less_iff) simp
  then have "f64_less (Fin (of_int n)) (Fin (2 ^ 63))" by (simp add: f64_less_def)
  with q l assms show ?thesis by (simp add: u64_of_f64_def cvtt_int64_def)
qed

lemma u64_ceil_le:
  assumes "0 \<le> x" "x \<le> of_int n" "n < 2 ^ 53"
  shows "uint (u64_of_f64 (math_Ceil (f64_of_rat x))) \<le> n"
proof -
  from f64_upto [OF assms] obtain y where y: "f64_of_rat x = Fin y" "0 \<le> y" "y \<le> of_int n" by blast
  have c: "0 \<le> \<lceil>y\<rceil>" "\<lceil>y\<rceil> \<le> n" using y(2,3) by (simp_all add: ceiling_le_iff)
  then have "\<lceil>y\<rceil> < 2 ^ 53" using assms(3) by linarith
  from u64_of_f64_int [OF c(1) this] have "u64_of_f64 (math_Ceil (f64_of_rat x)) = word_of_int \<lceil>y\<rceil>" using y(1) by simp
  moreover have "take_bit 64 \<lceil>y\<rceil> = \<lceil>y\<rceil>"
  proof (rule take_bit_int_eq_self [OF c(1)])
    have "(2 :: int) ^ 53 \<le> 2 ^ 64" by simp
    with c(2) assms(3) show "\<lceil>y\<rceil> < 2 ^ 64" by linarith
  qed
  ultimately have "uint (u64_of_f64 (math_Ceil (f64_of_rat x))) = \<lceil>y\<rceil>" by (simp add: uint_word_of_int_eq)
  with c(2) show ?thesis by simp
qed

lemma ceilDiv_le:
  assumes "0 \<le> x" "0 < u" "x \<le> of_int n * u" "n < 2 ^ 53"
  shows "uint (ceilDiv (Fin x) (Fin u)) \<le> n"
  using u64_ceil_le [of "x / u" n] assms by (simp add: ceilDiv_def field_simps)

text \<open>The quotient of integers, rounded up or down, is the exact one.\<close>

lemma rounded_quotient:
  fixes w u :: int
  assumes "0 \<le> k" "k < 2 ^ 40" "u * k + 1 \<le> w" "w \<le> u * (k + 1)" "0 < u" "u \<le> 1024"
  shows "\<exists>y. f64_of_rat (of_int w / of_int u) = Fin y \<and> of_int k < y \<and> y \<le> of_int (k + 1)"
proof -
  define lo :: rat where "lo = of_int (1024 * k + 1) * pow2 (- 10)"
  have p: "pow2 (- 10) = 1 / 1024" by (simp add: pow2_def)
  have "f64_of_rat lo = Fin lo" unfolding lo_def by (rule f64_of_rat_exact) (use assms(1,2) in simp_all)
  moreover have "f64_of_rat (of_int (k + 1)) = Fin (of_int (k + 1))"
    by (rule f64_of_rat_int) (use assms(1,2) in simp)
  moreover have "0 \<le> lo" using assms(1) by (simp add: lo_def p)
  moreover have "lo \<le> of_int w / of_int u"
  proof -
    have "(1024 * k + 1) * u \<le> 1024 * w" using assms(3,6) by (simp add: algebra_simps)
    then have "(of_int ((1024 * k + 1) * u) :: rat) \<le> of_int (1024 * w)" by (simp only: of_int_le_iff)
    then show ?thesis using assms(5) by (simp add: lo_def p field_simps)
  qed
  moreover have "(of_int w :: rat) / of_int u \<le> of_int (k + 1)"
  proof -
    have "(of_int w :: rat) \<le> of_int (u * (k + 1))" using assms(4) by (simp only: of_int_le_iff)
    then show ?thesis using assms(5) by (simp add: field_simps)
  qed
  ultimately obtain y where y: "f64_of_rat (of_int w / of_int u) = Fin y" "lo \<le> y" "y \<le> of_int (k + 1)"
    using f64_between by blast
  moreover have "of_int k < lo" by (simp add: lo_def p field_simps)
  ultimately show ?thesis by (intro exI [of _ y]) auto
qed

definition ceil_quo :: "int \<Rightarrow> int \<Rightarrow> int" where
  "ceil_quo w u = (w + u - 1) div u"

lemma ceil_quo_bounds:
  assumes "0 < w" "0 < u"
  shows "0 \<le> ceil_quo w u - 1" "u * (ceil_quo w u - 1) + 1 \<le> w" "w \<le> u * ceil_quo w u" "ceil_quo w u \<le> w"
proof -
  have "ceil_quo w u = (w - 1) div u + 1"
    unfolding ceil_quo_def using div_add_self2 [of u "w - 1"] assms(2) by (simp add: algebra_simps)
  moreover have d: "w - 1 = u * ((w - 1) div u) + (w - 1) mod u" "0 \<le> (w - 1) mod u" "(w - 1) mod u < u" using assms(2) by simp_all
  moreover have "0 \<le> (w - 1) div u" using assms by (simp add: pos_imp_zdiv_nonneg_iff)
  moreover from this have "(w - 1) div u \<le> w - 1"
    using mult_right_mono [of 1 u "(w - 1) div u"] assms(2) d by linarith
  ultimately show "0 \<le> ceil_quo w u - 1" "u * (ceil_quo w u - 1) + 1 \<le> w" "w \<le> u * ceil_quo w u" "ceil_quo w u \<le> w"
    by (simp_all only: add_diff_cancel_right' distrib_left mult_1_right; linarith)+
qed

lemma ceilDiv_exact:
  assumes "0 < w" "w < 2 ^ 31" "0 < u" "u \<le> 1024"
  shows "ceilDiv (f64_of_int w) (Fin (of_int u)) = word_of_int (ceil_quo w u)"
proof -
  note b = ceil_quo_bounds [OF assms(1,3)]
  obtain y where y: "f64_of_rat (of_int w / of_int u) = Fin y" "of_int (ceil_quo w u - 1) < y" "y \<le> of_int (ceil_quo w u)"
    using rounded_quotient [of "ceil_quo w u - 1" u w] b assms by auto
  then have "\<lceil>y\<rceil> = ceil_quo w u" by (intro ceiling_unique) simp_all
  moreover have "f64_of_int w = Fin (of_int w)" using assms by (intro f64_of_int_exact) simp_all
  ultimately show ?thesis using y(1) u64_of_f64_int [of "ceil_quo w u"] b assms by (simp add: ceilDiv_def)
qed

subsection \<open>Fitting an image into a box\<close>

text \<open>The size of a readable image.\<close>

definition dims_ok :: "canonical_image_info \<Rightarrow> bool" where
  "dims_ok img \<longleftrightarrow> 0 < ci_width img \<and> ci_width img < 2 ^ 31 \<and> 0 < ci_height img \<and> ci_height img < 2 ^ 31"

lemma scaled_side:
  assumes "0 < a" "a < 2 ^ 31" "0 < b" "b < 2 ^ 31" "0 < m" "m \<le> 65535" "a * m \<le> b * m"
  shows "\<exists>y. f64_div (f64_mul (Fin (of_int a)) (Fin (of_int m))) (Fin (of_int b)) = Fin y \<and> 0 \<le> y \<and> y \<le> of_int m"
proof -
  have "a * m \<le> (2 ^ 31) * 65535" using assms by (intro mult_mono) simp_all
  then have am: "\<bar>a * m\<bar> < 2 ^ 53" using assms by simp
  have "f64_mul (Fin (of_int a)) (Fin (of_int m)) = Fin (of_int (a * m))"
    using f64_of_rat_int [OF am] by simp
  moreover have "(of_int (a * m) :: rat) / of_int b \<le> of_int m"
  proof -
    have "(of_int (a * m) :: rat) \<le> of_int (b * m)" using assms(7) by (simp only: of_int_le_iff)
    then show ?thesis using assms(3) by (simp add: field_simps)
  qed
  ultimately show ?thesis using f64_upto [of "of_int (a * m) / of_int b" m] assms by simp
qed

lemma scaleToFit_box:
  assumes "0 < w" "w < 2 ^ 31" "0 < h" "h < 2 ^ 31" "0 < m" "m \<le> 65535"
  shows "\<exists>a b. scaleToFit w h (Fin (of_int m)) (Fin (of_int m)) = (Fin a, Fin b) \<and> 0 \<le> a \<and> a \<le> of_int m \<and> 0 \<le> b \<and> b \<le> of_int m"
proof -
  have f: "f64_of_int w = Fin (of_int w)" "f64_of_int h = Fin (of_int h)" using assms by (simp_all add: f64_of_int_exact)
  have "w * m \<le> (2 ^ 31) * 65535" "h * m \<le> (2 ^ 31) * 65535" using assms by (intro mult_mono; simp)+
  then have "\<bar>w * m\<bar> < 2 ^ 53" "\<bar>h * m\<bar> < 2 ^ 53" using assms by simp_all
  note products = this [THEN f64_of_rat_int]
  show ?thesis
  proof (cases "w \<le> m \<and> h \<le> m")
    case True
    then show ?thesis using assms by (intro exI [of _ "of_int w"] exI [of _ "of_int h"]) (simp add: scaleToFit_def Let_def f)
  next
    case False
    have cmp: "f64_le (f64_mul (Fin (of_int h)) (Fin (of_int m))) (f64_mul (Fin (of_int w)) (Fin (of_int m))) \<longleftrightarrow> h * m \<le> w * m"
      using products by (simp only: f64_mul.simps of_int_mult [symmetric] f64_le.simps of_int_le_iff)
    show ?thesis
    proof (cases "h * m \<le> w * m")
      case le: True
      from scaled_side [OF assms(3,4,1,2,5,6) le] obtain y
        where y: "f64_div (f64_mul (Fin (of_int h)) (Fin (of_int m))) (Fin (of_int w)) = Fin y" "0 \<le> y" "y \<le> of_int m" by blast
      have "scaleToFit w h (Fin (of_int m)) (Fin (of_int m)) = (Fin (of_int m), Fin y)"
        unfolding scaleToFit_def Let_def f cmp y(1) using False le by auto
      then show ?thesis using y assms(5) by auto
    next
      case nle: False
      then have "w * m \<le> h * m" by simp
      from scaled_side [OF assms(1-6) this] obtain y
        where y: "f64_div (f64_mul (Fin (of_int w)) (Fin (of_int m))) (Fin (of_int h)) = Fin y" "0 \<le> y" "y \<le> of_int m" by blast
      have "scaleToFit w h (Fin (of_int m)) (Fin (of_int m)) = (Fin y, Fin (of_int m))"
        unfolding scaleToFit_def Let_def f cmp y(1) using False nle by auto
      then show ?thesis using y assms(5) by auto
    qed
  qed
qed

subsection \<open>Counting patches and tiles\<close>

lemma uint_mult_le:
  fixes x y :: u64
  assumes "uint x \<le> a" "uint y \<le> b" "a * b < 2 ^ 64"
  shows "uint (x * y) \<le> a * b"
proof -
  have "0 \<le> a" using assms(1) uint_ge_0 [of x] by linarith
  then have "uint x * uint y \<le> a * b" using assms(1,2) by (intro mult_mono) simp_all
  with assms(3) show ?thesis by (simp add: uint_mult_lem [THEN iffD1])
qed

lemma uint_add_le:
  fixes x y :: u64
  assumes "uint x \<le> a" "uint y \<le> b" "a + b < 2 ^ 64"
  shows "uint (x + y) \<le> a + b"
  using assms by (simp add: uint_add_lem [THEN iffD1])

lemma openAITileCount_le:
  assumes "dims_ok img"
  shows "uint (openAITileCount (ci_width img) (ci_height img)) \<le> 8"
proof -
  let ?w = "ci_width img" and ?h = "ci_height img"
  obtain a b where s: "scaleToFit ?w ?h (Fin 2048) (Fin 2048) = (Fin a, Fin b)" and ab: "0 \<le> a" "a \<le> 2048" "0 \<le> b" "b \<le> 2048"
    using scaleToFit_box [of ?w ?h 2048] assms by (auto simp: dims_ok_def)
  have side: "\<exists>y. f64_div (f64_mul (Fin x) (Fin 768)) (Fin d) = Fin y \<and> 0 \<le> y \<and> y \<le> 2048"
    if x: "0 \<le> x" "x \<le> 2048" and d: "768 < d" for x d
  proof -
    obtain p where p: "f64_of_rat (x * 768) = Fin p" "0 \<le> p" "p \<le> 1572864" using f64_upto [of "x * 768" 1572864] x by auto
    have "0 \<le> p / d" "p / d \<le> 2048" using p(2,3) d by (simp_all add: field_simps)
    then show ?thesis using f64_upto [of "p / d" 2048] d p(1) by auto
  qed
  have two: "uint (ceilDiv (Fin x) (Fin 512)) \<le> 2" if "0 \<le> x" "x \<le> 768" for x using ceilDiv_le [of x 512 2] that by simp
  have four: "uint (ceilDiv (Fin x) (Fin 512)) \<le> 4" if "0 \<le> x" "x \<le> 2048" for x using ceilDiv_le [of x 512 4] that by simp
  consider (narrow) "a \<le> b" "768 < a" | (flat) "b < a" "768 < b" | (small) "a \<le> 768 \<or> b \<le> 768" by linarith
  then show ?thesis
  proof cases
    case narrow
    from side [OF ab(3,4) narrow(2)] obtain y where y: "f64_div (f64_mul (Fin b) (Fin 768)) (Fin a) = Fin y" "0 \<le> y" "y \<le> 2048" by blast
    have "openAITileCount ?w ?h = ceilDiv (Fin 768) (Fin 512) * ceilDiv (Fin y) (Fin 512)"
      unfolding openAITileCount_def s y(1) [symmetric] using narrow by (simp add: f64_less_def Let_def)
    then show ?thesis using uint_mult_le [OF two [of 768] four [OF y(2,3)]] by simp
  next
    case flat
    from side [OF ab(1,2) flat(2)] obtain y where y: "f64_div (f64_mul (Fin a) (Fin 768)) (Fin b) = Fin y" "0 \<le> y" "y \<le> 2048" by blast
    have "openAITileCount ?w ?h = ceilDiv (Fin y) (Fin 512) * ceilDiv (Fin 768) (Fin 512)"
      unfolding openAITileCount_def s y(1) [symmetric] using flat by (simp add: f64_less_def Let_def)
    then show ?thesis using uint_mult_le [OF four [OF y(2,3)] two [of 768]] by simp
  next
    case small
    then have "openAITileCount ?w ?h = ceilDiv (Fin a) (Fin 512) * ceilDiv (Fin b) (Fin 512)"
      unfolding openAITileCount_def s by (auto simp: f64_less_def Let_def)
    then show ?thesis using small uint_mult_le [OF two [of a] four [OF ab(3,4)]] uint_mult_le [OF four [OF ab(1,2)] two [of b]] ab by auto
  qed
qed

text \<open>Limits under which an image has at most 30,000 patches: a budget, a rejection, or a small box.\<close>

definition limits_ok :: "openai_detail_limits \<Rightarrow> bool" where
  "limits_ok l \<longleftrightarrow> (0 < dl_patch_budget l \<and> dl_patch_budget l \<le> 10000) \<or>
     (0 < dl_reject_above l \<and> dl_reject_above l \<le> 30000) \<or>
     (dl_max_edge l = 512 \<and> dl_patch_budget l = 0)"

lemma openAIPatchCount_le:
  assumes "dims_ok img" "openAIPatchCount (ci_width img) (ci_height img) l = Inr p"
  shows "limits_ok l \<Longrightarrow> uint p \<le> 30000"
    "0 < dl_patch_budget l \<Longrightarrow> uint p \<le> uint (dl_patch_budget l)"
proof -
  obtain w h where f: "fit_edge (ci_width img) (ci_height img) (dl_max_edge l) = (w, h)" by fastforce
  define p0 where "p0 = patches_of w h"
  have budget: "0 < dl_patch_budget l \<Longrightarrow> p \<le> dl_patch_budget l"
    and reject: "0 < dl_reject_above l \<Longrightarrow> p \<le> dl_reject_above l"
    and plain: "p \<le> p0 \<or> 0 < dl_patch_budget l"
    using assms(2) by (auto simp: openAIPatchCount_def f p0_def [symmetric] Let_def rejectIf_def split: if_splits prod.splits)
  show "0 < dl_patch_budget l \<Longrightarrow> uint p \<le> uint (dl_patch_budget l)" using budget by (simp add: word_le_def)
  assume ok: "limits_ok l"
  have le: "uint x \<le> 30000" if "x \<le> n" "n \<le> 30000" for x n :: u64 using that by (auto simp: word_le_def)
  show "uint p \<le> 30000"
  proof (cases "0 < dl_patch_budget l \<and> dl_patch_budget l \<le> 10000 \<or> 0 < dl_reject_above l \<and> dl_reject_above l \<le> 30000")
    case True
    then show ?thesis using budget reject le [of p "dl_reject_above l"] le [of p "dl_patch_budget l"] by (auto simp: word_le_def)
  next
    case False
    with ok have e: "dl_max_edge l = 512" "dl_patch_budget l = 0" by (auto simp: limits_ok_def)
    obtain a b where "scaleToFit (ci_width img) (ci_height img) (Fin 512) (Fin 512) = (Fin a, Fin b)"
      and ab: "0 \<le> a" "a \<le> 512" "0 \<le> b" "b \<le> 512"
      using scaleToFit_box [of "ci_width img" "ci_height img" 512] assms(1) by (auto simp: dims_ok_def)
    then have "p0 = ceilDiv (Fin a) (Fin 32) * ceilDiv (Fin b) (Fin 32)"
      using f by (simp add: p0_def patches_of_def fit_edge_def e)
    then have "uint p0 \<le> 256" using uint_mult_le [of _ 16 _ 16] ceilDiv_le [of a 32 16] ceilDiv_le [of b 32 16] ab by simp
    with plain e(2) show ?thesis by (auto simp: word_le_def)
  qed
qed

subsection \<open>The rules\<close>

text \<open>What every OpenAI rule keeps to: at most 48,169 tokens for one image.\<close>

definition rule_ok :: "openai_image_rule \<Rightarrow> bool" where
  "rule_ok r \<longleftrightarrow>
     (ir_patch_multiplier r = Fin 0 \<and> ir_base_tokens r \<le> 2833 \<and> ir_tile_tokens r \<le> 5667) \<or>
     (\<exists>q. ir_patch_multiplier r = Fin q \<and> 1 \<le> q \<and>
        ((q \<le> 5 / 4 \<and> (\<forall>l \<in> snd ` set (ir_details r). limits_ok l)) \<or>
         (q \<le> 5 / 2 \<and> (\<forall>l \<in> snd ` set (ir_details r). l = openAIDetailShared))))"

lemma multiplier_between:
  assumes "1 \<le> x" "x \<le> 5 / 4 \<or> x \<le> 5 / 2"
  shows "\<exists>q. f64_of_rat x = Fin q \<and> 1 \<le> q \<and> (x \<le> 5 / 4 \<longrightarrow> q \<le> 5 / 4) \<and> q \<le> 5 / 2"
proof -
  have "5 / 4 = of_int 5 * pow2 (- 2)" "5 / 2 = of_int 10 * pow2 (- 2)" by (simp_all add: pow2_def)
  then have r: "f64_of_rat 1 = Fin 1" "f64_of_rat (5 / 4) = Fin (5 / 4)" "f64_of_rat (5 / 2) = Fin (5 / 2)"
    using f64_of_rat_exact [of 1 0] f64_of_rat_exact [of 5 "- 2"] f64_of_rat_exact [of 10 "- 2"] by (simp, simp_all only:) simp_all
  show ?thesis
  proof (cases "x \<le> 5 / 4")
    case True
    from f64_between [OF r(1,2) _ assms(1) True] show ?thesis by auto
  next
    case False
    with assms(2) have "x \<le> 5 / 2" by simp
    from f64_between [OF r(1,3) _ assms(1) this] False show ?thesis by auto
  qed
qed

lemmas detail_defs = openAIDetailLow512_def openAIDetailShared_def openAIDetailHigh2500Edge2048_def
  openAIDetailHigh2500Edge65535_def openAIDetailOriginalPreserve_def openAIDetailOriginalAlt_def

lemma details_ok:
  "limits_ok openAIDetailLow512" "limits_ok openAIDetailShared" "limits_ok openAIDetailHigh2500Edge2048"
  "limits_ok openAIDetailHigh2500Edge65535" "limits_ok openAIDetailOriginalPreserve" "limits_ok openAIDetailOriginalAlt"
  by (simp_all add: limits_ok_def detail_defs)

lemma rules_ok:
  "limits_ok high \<Longrightarrow> rule_ok (original_rule high)" "1 \<le> m \<Longrightarrow> m \<le> 5 / 2 \<Longrightarrow> rule_ok (shared_rule m)" "rule_ok alt_rule"
  "rule_ok gpt55_rule"
  "base \<le> 2833 \<Longrightarrow> tile \<le> 5667 \<Longrightarrow> rule_ok (openAITileRule base tile)"
proof -
  obtain q where q: "f64_of_rat (12 / 10) = Fin q" "1 \<le> q" "q \<le> 5 / 4" using multiplier_between [of "12 / 10"] by auto
  show "limits_ok high \<Longrightarrow> rule_ok (original_rule high)" "rule_ok alt_rule"
    "rule_ok gpt55_rule"
    unfolding rule_ok_def original_rule_def alt_rule_def gpt55_rule_def openAIPatchRule_def q(1) using q(2,3) details_ok by auto
  show "rule_ok (shared_rule m)" if m: "1 \<le> m" "m \<le> 5 / 2"
  proof -
    obtain k where "f64_of_rat m = Fin k" "1 \<le> k" "k \<le> 5 / 2" using multiplier_between [of m] m by auto
    then show ?thesis by (auto simp: rule_ok_def shared_rule_def openAIPatchRule_def)
  qed
  show "base \<le> 2833 \<Longrightarrow> tile \<le> 5667 \<Longrightarrow> rule_ok (openAITileRule base tile)" by (simp add: rule_ok_def openAITileRule_def)
qed

lemma tables_ok:
  "r \<in> snd ` set openAIExactPatchRules \<Longrightarrow> rule_ok r" "r \<in> snd ` set openAIExactTileRules \<Longrightarrow> rule_ok r"
  "r \<in> snd ` set openAIPrefixPatchRules \<Longrightarrow> rule_ok r" "r \<in> snd ` set openAIPrefixTileRules \<Longrightarrow> rule_ok r"
  by (auto simp: openAIExactPatchRules_def openAIExactTileRules_def openAIPrefixPatchRules_def openAIPrefixTileRules_def
      details_ok intro!: rules_ok)

lemma resolved_rule_ok:
  assumes "resolveOpenAIImageRule model = Inr r"
  shows "rule_ok r"
proof -
  have m: "map_of rules name = Some r \<Longrightarrow> r \<in> snd ` set rules" for rules :: "(string \<times> openai_image_rule) list" and name
    by (force dest: map_of_SomeD)
  have p: "prefix_rule name rules = Some r \<Longrightarrow> r \<in> snd ` set rules" for rules name
    by (auto simp: prefix_rule_def find_Some_iff) (metis image_eqI nth_mem snd_conv)
  show ?thesis
    using assms unfolding resolveOpenAIImageRule_def Let_def
    by (auto simp: of_option_def split: if_splits option.splits dest: m p intro: tables_ok)
qed

lemma openAI_estimate_le:
  assumes "rule_ok r" "dims_ok img" "openAI_estimate r img = Inr t"
  shows "uint t \<le> 48169"
proof -
  define detail where "detail = (if ci_detail img = [] then ''auto'' else ci_detail img)"
  obtain l where l: "map_of (ir_details r) detail = Some l"
    using assms(3) unfolding openAI_estimate_def Let_def detail_def [symmetric] by (auto split: option.splits)
  then have mem: "l \<in> snd ` set (ir_details r)" by (force dest: map_of_SomeD)
  show ?thesis
    using assms(1) unfolding rule_ok_def
  proof (elim disjE exE conjE)
    assume tile: "ir_patch_multiplier r = Fin 0" "ir_base_tokens r \<le> 2833" "ir_tile_tokens r \<le> 5667"
    have "uint (ir_base_tokens r) \<le> 2833" "uint (ir_tile_tokens r) \<le> 5667" using tile(2,3) by (simp_all add: word_le_def)
    moreover from uint_mult_le [OF this(2) openAITileCount_le [OF assms(2)]]
    have "uint (ir_tile_tokens r * openAITileCount (ci_width img) (ci_height img)) \<le> 45336" by simp
    moreover note uint_add_le [OF calculation(1) this]
    ultimately show ?thesis
      using assms(3) tile(1) unfolding openAI_estimate_def Let_def detail_def [symmetric]
      by (auto simp: l f64_less_def split: if_splits)
  next
    fix q assume q: "ir_patch_multiplier r = Fin q" "1 \<le> q"
    have pos: "f64_less (Fin 0) (ir_patch_multiplier r)" using q by (simp add: f64_less_def)
    obtain p where p: "openAIPatchCount (ci_width img) (ci_height img) l = Inr p"
      "t = u64_of_f64 (math_Ceil (f64_mul (f64_of_u64 p) (Fin q)))"
      using assms(3) pos unfolding openAI_estimate_def Let_def detail_def [symmetric]
      by (cases "openAIPatchCount (ci_width img) (ci_height img) l") (auto simp: l bindE_def q(1))
    have tokens: "uint t \<le> 48169" if "uint p \<le> n" "of_int n * q \<le> 48169" "n \<le> 30000" for n
    proof -
      have "f64_of_u64 p = Fin (of_int (uint p))" using that(1,3) by (intro f64_of_u64_exact) simp
      moreover have "(of_int (uint p) :: rat) \<le> of_int n" using that(1) by (simp only: of_int_le_iff)
      then have "(of_int (uint p) :: rat) * q \<le> of_int n * q" using q(2) by (intro mult_right_mono) simp_all
      then have "(of_int (uint p) :: rat) * q \<le> of_int 48169" using that(2) by simp
      ultimately show ?thesis using u64_ceil_le [of "of_int (uint p) * q" 48169] q(2) by (simp add: p(2) del: of_int_uint)
    qed
    {
      assume "q \<le> 5 / 4" "\<forall>l \<in> snd ` set (ir_details r). limits_ok l"
      with mem openAIPatchCount_le(1) [OF assms(2) p(1)] show ?thesis by (intro tokens [of 30000]) simp_all
    next
      assume "q \<le> 5 / 2" "\<forall>l \<in> snd ` set (ir_details r). l = openAIDetailShared"
      with mem have "l = openAIDetailShared" by blast
      with openAIPatchCount_le(2) [OF assms(2) p(1)] \<open>q \<le> 5 / 2\<close> show ?thesis
        by (intro tokens [of 6144]) (simp_all add: openAIDetailShared_def)
    }
  qed
qed

subsection \<open>Google's tiles in whole numbers\<close>

definition google_tiles :: "int \<Rightarrow> int \<Rightarrow> int" where
  "google_tiles w h =
     (if w \<le> 384 \<and> h \<le> 384 then 1
      else let unit = max 256 (min 768 (2 * min w h div 3)) in ceil_quo w unit * ceil_quo h unit)"

lemma floor_two_thirds:
  assumes "0 < m" "m < 2 ^ 31"
  shows "math_Floor (f64_div (Fin (of_int m)) (Fin (15 / 10))) = Fin (of_int (2 * m div 3))"
proof -
  define k where "k = 2 * m div 3"
  have k: "3 * k \<le> 2 * m" "2 * m \<le> 3 * k + 2" "0 \<le> k" "k < 2 ^ 31" using assms by (simp_all add: k_def)
  define hi :: rat where "hi = of_int (4 * k + 3) * pow2 (- 2)"
  have hi: "hi = of_int k + 3 / 4" by (simp add: hi_def pow2_def)
  have "f64_of_rat hi = Fin hi" unfolding hi_def by (rule f64_of_rat_exact) (use k in simp_all)
  moreover have "f64_of_rat (of_int k) = Fin (of_int k)" by (rule f64_of_rat_int) (use k in simp)
  moreover have "(of_int (3 * k) :: rat) \<le> of_int (2 * m)" "(of_int (2 * m) :: rat) \<le> of_int (3 * k + 2)"
    using k(1,2) by (simp_all only: of_int_le_iff)
  then have "of_int k \<le> of_int m / (15 / 10 :: rat)" "of_int m / (15 / 10) \<le> hi" by (simp_all add: hi)
  moreover have "(0 :: rat) \<le> of_int k" using k(3) by simp
  ultimately obtain y where y: "f64_of_rat (of_int m / (15 / 10)) = Fin y" "of_int k \<le> y" "y \<le> hi"
    using f64_between [of "of_int k" hi "of_int m / (15 / 10)"] by blast
  then have "\<lfloor>y\<rfloor> = k" by (intro floor_unique) (simp_all add: hi)
  with y(1) show ?thesis by (simp add: k_def)
qed

lemma googleTileCount_exact:
  assumes "0 < w" "w < 2 ^ 31" "0 < h" "h < 2 ^ 31"
  shows "googleTileCount w h = word_of_int (google_tiles w h)"
proof (cases "w \<le> 384 \<and> h \<le> 384")
  case True
  then show ?thesis by (simp add: googleTileCount_def google_tiles_def)
next
  case False
  define unit where "unit = max 256 (min 768 (2 * min w h div 3))"
  have f: "f64_of_int w = Fin (of_int w)" "f64_of_int h = Fin (of_int h)" using assms by (simp_all add: f64_of_int_exact)
  have "math_Min (Fin (of_int w)) (Fin (of_int h)) = Fin (of_int (min w h))" by (simp add: math_Min_def min_def)
  moreover have "math_Max (Fin 256) (math_Min (Fin 768) (Fin (of_int k))) = Fin (of_int (max 256 (min 768 k)))" for k
    by (auto simp: math_Min_def math_Max_def max_def min_def)
  ultimately have "math_Max (Fin 256) (math_Min (Fin 768)
      (math_Floor (f64_div (math_Min (f64_of_int w) (f64_of_int h)) (Fin (15 / 10))))) = Fin (of_int unit)"
    using floor_two_thirds [of "min w h"] assms by (simp add: f unit_def)
  then have "googleTileCount w h = ceilDiv (f64_of_int w) (Fin (of_int unit)) * ceilDiv (f64_of_int h) (Fin (of_int unit))"
    using False unfolding googleTileCount_def Let_def by auto
  also have "\<dots> = word_of_int (ceil_quo w unit * ceil_quo h unit)"
    using assms by (simp add: ceilDiv_exact unit_def)
  finally show ?thesis using False by (auto simp: google_tiles_def unit_def Let_def)
qed

subsection \<open>Sums\<close>

lemma sum_estimates_le:
  assumes "sum_estimates estimate imgs acc = Inr t" "\<forall>img \<in> set imgs. \<forall>t. estimate img = Inr t \<longrightarrow> uint t \<le> n"
    "uint acc + int (length imgs) * n < 2 ^ 64" "0 \<le> n"
  shows "uint t \<le> uint acc + int (length imgs) * n"
  using assms
proof (induction imgs arbitrary: acc)
  case (Cons img imgs)
  then obtain k where k: "estimate img = Inr k" "sum_estimates estimate imgs (acc + k) = Inr t" "uint k \<le> n"
    by (auto simp: bindE_def split: sum.splits)
  have l: "0 \<le> int (length imgs) * n" using Cons.prems(4) by simp
  have s: "uint acc + (n + int (length imgs) * n) < 2 ^ 64" using Cons.prems(3) by (simp add: algebra_simps)
  with l have a: "uint (acc + k) \<le> uint acc + n" using k(3) by (intro uint_add_le) simp_all
  with s have "uint (acc + k) + int (length imgs) * n < 2 ^ 64" by linarith
  from Cons.IH [OF k(2) _ this Cons.prems(4)] Cons.prems(2) have "uint t \<le> uint (acc + k) + int (length imgs) * n" by simp
  with a show ?case by (simp add: algebra_simps)
qed simp

lemma sum_estimates_exact:
  assumes "\<forall>img \<in> set imgs. estimate img = Inr (word_of_int (f img))"
  shows "sum_estimates estimate imgs acc = Inr (acc + word_of_int (\<Sum>img\<leftarrow>imgs. f img))"
  using assms by (induction imgs arbitrary: acc) (simp_all add: bindE_def ac_simps)

text \<open>
  C32. Every accepted image costs a bounded number of tokens, for every model, detail and size. With OpenAI an image
  costs at most 48,169 tokens (its pixels are scaled into at most 8 tiles, or into at most 30,000 patches at
  multiplier 1.2 and 6,144 at the larger ones), with Anthropic at most 4,784, so the total of a request does not wrap around. With Google the
  float64 computation is exact: the total is the sum of the integer formula
  (\<open>google_tiles\<close>), whatever the sizes of the images.
\<close>

theorem image_tokens_bounded:
  assumes "\<forall>img \<in> set imgs. dims_ok img" "length imgs < 2 ^ 40"
  shows "(EstimateImageInputTokens ''openai'' model imgs = Inr t \<longrightarrow> uint t \<le> 48169 * int (length imgs)) \<and>
    (EstimateImageInputTokens ''anthropic'' model imgs = Inr t \<longrightarrow> uint t \<le> 4784 * int (length imgs)) \<and>
    (EstimateImageInputTokens ''google'' model imgs = Inr t \<longrightarrow>
      t = word_of_int (\<Sum>img\<leftarrow>imgs. if googleDefaultResolutionModel (ToLower (TrimSpace model)) then 1120
            else 258 * google_tiles (ci_width img) (ci_height img)))"
proof (intro conjI impI)
  define name where "name = ToLower (TrimSpace model)"
  have len: "uint (0 :: u64) + int (length imgs) * 48169 < 2 ^ 64" "uint (0 :: u64) + int (length imgs) * 4784 < 2 ^ 64"
    using assms(2) by simp_all
  {
    assume "EstimateImageInputTokens ''openai'' model imgs = Inr t"
    then consider "imgs = []" "t = 0" | r where "resolveOpenAIImageRule name = Inr r" "sum_estimates (openAI_estimate r) imgs 0 = Inr t"
      by (auto simp: EstimateImageInputTokens_def Let_def name_def bindE_def split: if_splits sum.splits)
    then show "uint t \<le> 48169 * int (length imgs)"
    proof cases
      case 2
      from sum_estimates_le [OF this(2) _ len(1)] openAI_estimate_le [OF resolved_rule_ok [OF 2(1)]] assms(1)
      show ?thesis by (auto simp: ac_simps)
    qed simp
  next
    assume "EstimateImageInputTokens ''anthropic'' model imgs = Inr t"
    then consider "imgs = []" "t = 0" | r where "resolveAnthropicImageTier name = Inr r" "sum_estimates (anthropic_estimate r) imgs 0 = Inr t"
      by (auto simp: EstimateImageInputTokens_def Let_def name_def bindE_def split: if_splits sum.splits)
    then show "uint t \<le> 4784 * int (length imgs)"
    proof cases
      case 2
      then have "at_max_tokens r \<le> 4784"
        by (auto simp: resolveAnthropicImageTier_def Let_def anthropicHighResTier_def anthropicStandardTier_def
            split: option.splits if_splits)
      then have "anthropic_estimate r img = Inr k \<Longrightarrow> uint k \<le> 4784" for img k
        by (auto simp: anthropic_estimate_def Let_def word_le_def word_less_def split: prod.splits if_splits)
      with sum_estimates_le [OF 2(2) _ len(2)] show ?thesis by (auto simp: ac_simps)
    qed simp
  next
    let ?f = "\<lambda>img. if googleDefaultResolutionModel name then 1120 else 258 * google_tiles (ci_width img) (ci_height img)"
    assume "EstimateImageInputTokens ''google'' model imgs = Inr t"
    then consider "imgs = []" "t = 0" | e where "resolveGoogleImageRule name = Inr e" "sum_estimates e imgs 0 = Inr t"
      by (auto simp: EstimateImageInputTokens_def Let_def name_def bindE_def split: if_splits sum.splits)
    then show "t = word_of_int (\<Sum>img\<leftarrow>imgs. if googleDefaultResolutionModel (ToLower (TrimSpace model)) then 1120
        else 258 * google_tiles (ci_width img) (ci_height img))"
      unfolding name_def [symmetric]
    proof cases
      case 2
      have "e img = Inr (word_of_int (?f img))" if "img \<in> set imgs" for img
        using 2(1) assms(1) that by (auto simp: resolveGoogleImageRule_def googleTileCount_exact dims_ok_def split: if_splits)
      then have "\<forall>img \<in> set imgs. e img = Inr (word_of_int (?f img))" by blast
      from sum_estimates_exact [OF this, of 0] 2(2) show "t = word_of_int (\<Sum>img\<leftarrow>imgs. ?f img)" by simp
    qed simp
  }
qed

text \<open>A photograph of 1920 by 1080 pixels.\<close>

definition sample_photo :: canonical_image_info where
  "sample_photo = \<lparr>ci_mime_type = ''image/png'', ci_width = 1920, ci_height = 1080, ci_detail = [], ci_decoded_bytes = 100\<rparr>"

theorem image_tokens_bounded_witness:
  "EstimateImageInputTokens ''google'' ''gemini-2.5-flash'' [sample_photo] = Inr 1548"
proof -
  have g: "googleTiledModel (ToLower (TrimSpace ''gemini-2.5-flash''))"
    "\<not> googleDefaultResolutionModel (ToLower (TrimSpace ''gemini-2.5-flash''))" by code_simp+
  have "\<exists>t. EstimateImageInputTokens ''google'' ''gemini-2.5-flash'' [sample_photo] = Inr t"
    using g by (simp add: EstimateImageInputTokens_def resolveGoogleImageRule_def Let_def bindE_def)
  moreover have "google_tiles 1920 1080 = 6" by code_simp
  moreover have "dims_ok sample_photo" "ci_width sample_photo = 1920" "ci_height sample_photo = 1080"
    by (simp_all add: dims_ok_def sample_photo_def)
  ultimately show ?thesis
    using image_tokens_bounded [of "[sample_photo]" "''gemini-2.5-flash''"] g(2) by auto
qed

end
