(* ===== verification/Go_Json.thy ===== *)
theory Go_Json
  imports Image_Tokens
begin

text \<open>
  How Go decodes a JSON value into its types (\<open>encoding/json\<close>) and base64 (\<open>encoding/base64\<close>): the fields of a
  struct are found in any letter case, null leaves a zero value, and a value of another type is an
  error. A document is a \<open>json\<close> value, a raw message is the part of it, an \<open>any\<close> that is nil is
  \<open>JNull\<close>; numbers inside free-form values keep their text. Reading a text into a document is an argument
  where the code does it. The order of the keys of an object is not observed.
\<close>

subsection \<open>Decoding\<close>

abbreviation json_error :: err where "json_error \<equiv> ErrMsg ''json''"

text \<open>The field of a struct with this (lower-case) name; of two that differ in case the last one counts.\<close>

definition field :: "(string \<times> json) list \<Rightarrow> string \<Rightarrow> json option" where
  "field obj name = map_of (rev (map (\<lambda>(k, v). (ToLower k, v)) obj)) name"

definition dec_struct :: "json \<Rightarrow> err + (string \<times> json) list" where
  "dec_struct v = (case v of JNull \<Rightarrow> Inr [] | JObj obj \<Rightarrow> Inr obj | _ \<Rightarrow> Inl json_error)"

definition dec_string :: "json option \<Rightarrow> err + string" where
  "dec_string v = (case v of None \<Rightarrow> Inr [] | Some JNull \<Rightarrow> Inr [] | Some (JStr s) \<Rightarrow> Inr s | _ \<Rightarrow> Inl json_error)"

definition dec_string_ptr :: "json option \<Rightarrow> err + string option" where
  "dec_string_ptr v = (case v of None \<Rightarrow> Inr None | Some JNull \<Rightarrow> Inr None | Some (JStr s) \<Rightarrow> Inr (Some s) | _ \<Rightarrow> Inl json_error)"

definition dec_bool_ptr :: "json option \<Rightarrow> err + bool option" where
  "dec_bool_ptr v = (case v of None \<Rightarrow> Inr None | Some JNull \<Rightarrow> Inr None | Some (JBool b) \<Rightarrow> Inr (Some b) | _ \<Rightarrow> Inl json_error)"

definition dec_bool :: "json option \<Rightarrow> err + bool" where
  "dec_bool v = bindE (dec_bool_ptr v) (\<lambda>b. Inr (b = Some True))"

text \<open>A number read as \<open>int\<close> (\<open>int64\<close>), \<open>uint64\<close> or \<open>float64\<close>.\<close>

definition num_int :: "string \<Rightarrow> int option" where
  "num_int s = (case bigint_set_string s of Some i \<Rightarrow> if - (2 ^ 63) \<le> i \<and> i < 2 ^ 63 then Some i else None | None \<Rightarrow> None)"

definition num_u64 :: "string \<Rightarrow> u64 option" where
  "num_u64 s = (case parse_digits s of Some n \<Rightarrow> if n < 2 ^ 64 then Some (of_nat n) else None | None \<Rightarrow> None)"

definition num_f64 :: "string \<Rightarrow> f64 option" where
  "num_f64 s = (case Rat_SetString s of
      Some x \<Rightarrow> (case f64_of_rat x of Fin y \<Rightarrow> Some (Fin y) | _ \<Rightarrow> None)
    | None \<Rightarrow> None)"

definition dec_num_ptr :: "(string \<Rightarrow> 'a option) \<Rightarrow> json option \<Rightarrow> err + 'a option" where
  "dec_num_ptr conv v =
     (case v of None \<Rightarrow> Inr None | Some JNull \<Rightarrow> Inr None
      | Some (JNum s) \<Rightarrow> (case conv s of Some x \<Rightarrow> Inr (Some x) | None \<Rightarrow> Inl json_error)
      | _ \<Rightarrow> Inl json_error)"

abbreviation dec_int_ptr :: "json option \<Rightarrow> err + int option" where "dec_int_ptr \<equiv> dec_num_ptr num_int"
abbreviation dec_f64_ptr :: "json option \<Rightarrow> err + f64 option" where "dec_f64_ptr \<equiv> dec_num_ptr num_f64"

definition dec_u64 :: "json option \<Rightarrow> err + u64" where
  "dec_u64 v = bindE (dec_num_ptr num_u64 v) (\<lambda>n. Inr (case n of Some x \<Rightarrow> x | None \<Rightarrow> 0))"

definition dec_int :: "json option \<Rightarrow> err + int" where
  "dec_int v = bindE (dec_int_ptr v) (\<lambda>n. Inr (case n of Some x \<Rightarrow> x | None \<Rightarrow> 0))"

text \<open>An \<open>any\<close>: its numbers must be float64.\<close>

fun any_ok :: "json \<Rightarrow> bool" where
  "any_ok (JNum s) = (num_f64 s \<noteq> None)"
| "any_ok (JArr vs) = list_all any_ok vs"
| "any_ok (JObj obj) = list_all (\<lambda>(k, v). any_ok v) obj"
| "any_ok v = True"

definition dec_any :: "json option \<Rightarrow> err + json" where
  "dec_any v = (case v of None \<Rightarrow> Inr JNull | Some x \<Rightarrow> if any_ok x then Inr x else Inl json_error)"

text \<open>\<open>map[string]any\<close>; \<open>None\<close> is the nil map.\<close>

definition dec_map :: "json option \<Rightarrow> err + (string \<times> json) list option" where
  "dec_map v =
     (case v of None \<Rightarrow> Inr None | Some JNull \<Rightarrow> Inr None
      | Some (JObj obj) \<Rightarrow> (if any_ok (JObj obj) then Inr (Some obj) else Inl json_error)
      | _ \<Rightarrow> Inl json_error)"

definition dec_list :: "json option \<Rightarrow> err + json list" where
  "dec_list v = (case v of None \<Rightarrow> Inr [] | Some JNull \<Rightarrow> Inr [] | Some (JArr vs) \<Rightarrow> Inr vs | _ \<Rightarrow> Inl json_error)"

fun mapE :: "('a \<Rightarrow> 'e + 'b) \<Rightarrow> 'a list \<Rightarrow> 'e + 'b list" where
  "mapE f [] = Inr []"
| "mapE f (x # xs) = bindE (f x) (\<lambda>y. bindE (mapE f xs) (\<lambda>ys. Inr (y # ys)))"

text \<open>\<open>s, _ := v.(string)\<close>, and the same of a map.\<close>

definition as_string :: "json option \<Rightarrow> string" where
  "as_string v = (case v of Some (JStr s) \<Rightarrow> s | _ \<Rightarrow> [])"

definition as_map :: "json option \<Rightarrow> (string \<times> json) list option" where
  "as_map v = (case v of Some (JObj obj) \<Rightarrow> Some obj | _ \<Rightarrow> None)"

definition as_bool :: "json option \<Rightarrow> bool" where
  "as_bool v = (v = Some (JBool True))"

text \<open>A key that is present only under a condition.\<close>

definition key_if :: "bool \<Rightarrow> string \<Rightarrow> json \<Rightarrow> (string \<times> json) list" where
  "key_if c k v = (if c then [(k, v)] else [])"

definition of_list_or_null :: "string list option \<Rightarrow> json" where
  "of_list_or_null v = (case v of None \<Rightarrow> JNull | Some xs \<Rightarrow> JArr (map JStr xs))"

subsection \<open>Base64\<close>

definition b64_value :: "char \<Rightarrow> nat option" where
  "b64_value c =
     (let k = of_char c :: nat in
      if 65 \<le> k \<and> k \<le> 90 then Some (k - 65)
      else if 97 \<le> k \<and> k \<le> 122 then Some (k - 71)
      else if 48 \<le> k \<and> k \<le> 57 then Some (k + 4)
      else if k = 43 then Some 62 else if k = 47 then Some 63 else None)"

type_synonym bytes = "8 word list"

fun b64_values :: "string \<Rightarrow> nat list option" where
  "b64_values [] = Some []"
| "b64_values (c # s) = (case b64_value c of None \<Rightarrow> None | Some v \<Rightarrow> map_option ((#) v) (b64_values s))"

text \<open>
  Four digits are three bytes; a last group of two or three digits is one or two bytes, and the bits that are left over are
  not checked.
\<close>

fun b64_bytes :: "nat list \<Rightarrow> bytes option" where
  "b64_bytes [] = Some []"
| "b64_bytes [a, b] = Some [of_nat (a * 4 + b div 16)]"
| "b64_bytes [a, b, c] = Some [of_nat (a * 4 + b div 16), of_nat (b * 16 + c div 4)]"
| "b64_bytes (a # b # c # d # r) =
     map_option (\<lambda>t. of_nat (a * 4 + b div 16) # of_nat (b * 16 + c div 4) # of_nat (c * 64 + d) # t) (b64_bytes r)"
| "b64_bytes [a] = None"

definition no_newlines :: "string \<Rightarrow> string" where
  "no_newlines = filter (\<lambda>c. (of_char c :: nat) \<notin> {10, 13})"

text \<open>\<open>RawStdEncoding\<close> knows no padding; \<open>StdEncoding\<close> fills the last group with \<open>=\<close>.\<close>

definition RawStd_DecodeString :: "string \<Rightarrow> bytes option" where
  "RawStd_DecodeString s = Option.bind (b64_values (no_newlines s)) b64_bytes"

definition Std_DecodeString :: "string \<Rightarrow> bytes option" where
  "Std_DecodeString s =
     (let t = no_newlines s; body = TrimRight (CHR ''='') t; pad = length t - length body in
      if length t mod 4 \<noteq> 0 \<or> 2 < pad then None else Option.bind (b64_values body) b64_bytes)"

definition DecodeBase64Payload :: "string \<Rightarrow> err + bytes" where
  "DecodeBase64Payload data =
     (case Std_DecodeString data of
        Some decoded \<Rightarrow> Inr decoded
      | None \<Rightarrow> of_option (ErrMsg ''invalid base64 payload'') (RawStd_DecodeString data))"

subsection \<open>Data URLs of images\<close>

definition IndexByte :: "char \<Rightarrow> string \<Rightarrow> nat option" where
  "IndexByte c s = (let n = length (takeWhile (\<lambda>d. d \<noteq> c) s) in if n < length s then Some n else None)"

record parsed_data_url =
  du_mime_type :: string
  du_data :: string

definition ParseImageDataURL :: "string \<Rightarrow> err + parsed_data_url" where
  "ParseImageDataURL rawURL =
     (if rawURL = [] then Inl (ErrMsg ''image_url.url is required'')
      else if HasPrefix (ToLower rawURL) ''http://'' \<or> HasPrefix (ToLower rawURL) ''https://''
      then Inl (ErrMsg ''image_url.url must be a base64 data URL; HTTP and HTTPS URLs are not supported'')
      else case IndexByte (CHR '','') rawURL of
        None \<Rightarrow> Inl (ErrMsg ''image_url.url must be a non-empty data URL with base64 payload'')
      | Some comma \<Rightarrow>
          if comma = 0 \<or> comma = length rawURL - 1
          then Inl (ErrMsg ''image_url.url must be a non-empty data URL with base64 payload'')
          else let metadata = ToLower (take comma rawURL); payload = drop (comma + 1) rawURL in
            if \<not> HasPrefix metadata ''data:'' \<or> \<not> contains_text metadata '';base64''
            then Inl (ErrMsg ''image_url.url must use data:*;base64,<payload> format'')
            else case DecodeBase64Payload payload of
              Inl _ \<Rightarrow> Inl (ErrMsg ''image_url.url contains invalid base64 payload'')
            | Inr _ \<Rightarrow>
                let mime = TrimPrefix metadata ''data:'';
                    mime' = (case IndexByte (CHR '';'') mime of Some i \<Rightarrow> take i mime | None \<Rightarrow> mime) in
                Inr \<lparr>du_mime_type = TrimSpace mime', du_data = payload\<rparr>)"

definition FormatImageDataURL :: "string \<Rightarrow> string \<Rightarrow> string" where
  "FormatImageDataURL mimeType data = ''data:'' @ mimeType @ '';base64,'' @ data"

end
