(* ===== verification/Provider_Requests.thy ===== *)
theory Provider_Requests
  imports Go_Json
begin

text \<open>
  The request of a client in the form the provider adapters share
  (\<open>provider/convert_openai.go\<close>), read from a Chat Completions or a Responses body, and the checks of
  its images (\<open>image_dimensions.go\<close>, \<open>canonical_images.go\<close>). \<open>image.DecodeConfig\<close>, the standard library's reader
  of JPEG and PNG headers, is an argument.
\<close>

subsection \<open>Canonical requests\<close>

abbreviation CanonicalPartText :: string where "CanonicalPartText \<equiv> ''text''"
abbreviation CanonicalPartImage :: string where "CanonicalPartImage \<equiv> ''image''"

record content_part =
  cp_type :: string
  cp_text :: string
  cp_mime_type :: string
  cp_data :: string
  cp_detail :: string

record tool_call =
  tc_id :: string
  tc_name :: string
  tc_arguments :: string

record canonical_message =
  cm_role :: string
  cm_parts :: "content_part list"
  cm_tool_calls :: "tool_call list"
  cm_tool_call_id :: string
  cm_name :: string

record canonical_tool =
  ct_name :: string
  ct_description :: string
  ct_parameters :: "(string \<times> json) list"

text \<open>
  \<open>cq_typed_nil\<close>: the schema of the response format is a nil map of its own type, which Go prints as null
  but does not find equal to nil.
\<close>

record canonical_request =
  cq_model :: string
  cq_messages :: "canonical_message list"
  cq_tools :: "canonical_tool list"
  cq_tool_choice :: json
  cq_max_tokens :: int
  cq_temperature :: "f64 option"
  cq_top_p :: "f64 option"
  cq_stop :: json
  cq_stream :: bool
  cq_response_format :: "(string \<times> json) list option"
  cq_typed_nil :: bool
  cq_parallel_tool_calls :: "bool option"
  cq_reasoning_effort :: string

definition text_part :: "string \<Rightarrow> content_part" where
  "text_part s = \<lparr>cp_type = CanonicalPartText, cp_text = s, cp_mime_type = [], cp_data = [], cp_detail = []\<rparr>"

definition TextOnlyParts :: "string \<Rightarrow> content_part list" where
  "TextOnlyParts s = (if s = [] then [] else [text_part s])"

definition message_text :: "canonical_message \<Rightarrow> string" where
  "message_text m = concat (map cp_text (filter (\<lambda>p. cp_type p = CanonicalPartText) (cm_parts m)))"

definition HasImages :: "canonical_message \<Rightarrow> bool" where
  "HasImages m \<longleftrightarrow> (\<exists>p \<in> set (cm_parts m). cp_type p = CanonicalPartImage)"

definition AllowedReasoningEffortValues :: "string list" where
  "AllowedReasoningEffortValues = [''none'', ''minimal'', ''low'', ''medium'', ''high'', ''xhigh'', ''max'']"

definition ValidateReasoningEffort :: "string \<Rightarrow> string \<Rightarrow> err + string" where
  "ValidateReasoningEffort name value =
     (let normalized = TrimSpace value in
      if normalized = [] then Inr []
      else if normalized \<notin> set AllowedReasoningEffortValues
      then Inl (ErrMsg (name @ '': must be one of none, minimal, low, medium, high, xhigh, max''))
      else Inr normalized)"

subsection \<open>Content\<close>

definition parseCanonicalImagePart :: "string \<Rightarrow> string \<Rightarrow> err + content_part" where
  "parseCanonicalImagePart url detail =
     bindE (ParseImageDataURL url) (\<lambda>parsed.
       Inr \<lparr>cp_type = CanonicalPartImage, cp_text = [], cp_mime_type = du_mime_type parsed, cp_data = du_data parsed,
            cp_detail = detail\<rparr>)"

text \<open>One element of a content array; other types are ignored.\<close>

definition content_item :: "(string \<times> json) list \<Rightarrow> err + content_part list" where
  "content_item item =
     (let typ = as_string (map_of item ''type'') in
      if typ \<in> {''text'', ''input_text'', ''output_text''} then
        (let text = as_string (map_of item ''text'') in Inr (TextOnlyParts text))
      else if typ = ''image_url'' then
        (case map_of item ''image_url'' of
           None \<Rightarrow> Inl (ErrMsg ''content.image_url must be an object with url'')
         | Some v \<Rightarrow>
             (case bindE (dec_struct v) (\<lambda>obj. bindE (dec_string (field obj ''url'')) (\<lambda>url.
                   bindE (dec_string (field obj ''detail'')) (\<lambda>detail. Inr (url, detail)))) of
                Inl _ \<Rightarrow> Inl (ErrMsg ''content.image_url must be an object with url'')
              | Inr (url, detail) \<Rightarrow> bindE (parseCanonicalImagePart url detail) (\<lambda>p. Inr [p])))
      else if typ = ''input_image'' then
        (case map_of item ''image_url'' of
           None \<Rightarrow> Inl (ErrMsg ''content.image_url must be a base64 data URL string'')
         | Some v \<Rightarrow>
             (case dec_string (Some v) of
                Inl _ \<Rightarrow> Inl (ErrMsg ''content.image_url must be a base64 data URL string'')
              | Inr url \<Rightarrow> bindE (parseCanonicalImagePart url (as_string (map_of item ''detail''))) (\<lambda>p. Inr [p])))
      else Inr [])"

definition parseContentParts :: "json option \<Rightarrow> err + content_part list" where
  "parseContentParts raw =
     (case raw of
        None \<Rightarrow> Inr []
      | Some JNull \<Rightarrow> Inr []
      | Some (JStr s) \<Rightarrow> Inr (TextOnlyParts s)
      | Some (JArr items) \<Rightarrow>
          bindE (mapE dec_struct items) (\<lambda>objs. bindE (mapE content_item objs) (\<lambda>parts. Inr (concat parts)))
      | _ \<Rightarrow> Inl json_error)"

abbreviation parseAnyContentParts :: "json option \<Rightarrow> err + content_part list" where
  "parseAnyContentParts \<equiv> parseContentParts"

subsection \<open>Chat Completions\<close>

definition chat_tool_call :: "json \<Rightarrow> err + tool_call" where
  "chat_tool_call v =
     bindE (dec_struct v) (\<lambda>obj.
     bindE (dec_string (field obj ''id'')) (\<lambda>id.
     bindE (dec_string (field obj ''type'')) (\<lambda>_.
     bindE (dec_struct (case field obj ''function'' of None \<Rightarrow> JNull | Some f \<Rightarrow> f)) (\<lambda>f.
     bindE (dec_string (field f ''name'')) (\<lambda>name.
     bindE (dec_string (field f ''arguments'')) (\<lambda>arguments.
     Inr \<lparr>tc_id = id, tc_name = name, tc_arguments = arguments\<rparr>))))))"

definition parseChatMessage :: "json \<Rightarrow> err + canonical_message" where
  "parseChatMessage raw =
     bindE (dec_struct raw) (\<lambda>msg.
     bindE (dec_string (field msg ''role'')) (\<lambda>role.
     bindE (dec_string (field msg ''name'')) (\<lambda>name.
     bindE (dec_string (field msg ''tool_call_id'')) (\<lambda>toolCallID.
     bindE (bindE (dec_list (field msg ''tool_calls'')) (mapE chat_tool_call)) (\<lambda>toolCalls.
     bindE (parseContentParts (field msg ''content'')) (\<lambda>parts.
     Inr \<lparr>cm_role = role, cm_parts = parts, cm_tool_calls = toolCalls, cm_tool_call_id = toolCallID, cm_name = name\<rparr>))))))"

definition default_parameters :: "(string \<times> json) list" where
  "default_parameters = [(''type'', JStr ''object''), (''properties'', JObj [])]"

definition tool_of :: "(string \<times> json) list \<Rightarrow> string \<Rightarrow> err + canonical_tool" where
  "tool_of f typ =
     bindE (dec_string (field f ''name'')) (\<lambda>name.
     bindE (dec_string (field f ''description'')) (\<lambda>description.
     bindE (dec_map (field f ''parameters'')) (\<lambda>parameters.
     rejectIf (typ \<noteq> [] \<and> typ \<noteq> ''function'') (ErrMsg ''unsupported tool type'')
     (Inr \<lparr>ct_name = name, ct_description = description,
           ct_parameters = (case parameters of None \<Rightarrow> default_parameters | Some p \<Rightarrow> p)\<rparr>))))"

definition parseChatTool :: "json \<Rightarrow> err + canonical_tool" where
  "parseChatTool raw =
     bindE (dec_struct raw) (\<lambda>tool.
     bindE (dec_string (field tool ''type'')) (\<lambda>typ.
     bindE (dec_struct (case field tool ''function'' of None \<Rightarrow> JNull | Some f \<Rightarrow> f)) (\<lambda>f. tool_of f typ)))"

definition positive_or :: "int option \<Rightarrow> int \<Rightarrow> int" where
  "positive_or v n = (case v of Some m \<Rightarrow> if 0 < m then m else n | None \<Rightarrow> n)"

text \<open>The body is \<open>None\<close> when it is not a JSON text.\<close>

definition parseChatAsCanonical :: "json option \<Rightarrow> string \<Rightarrow> int \<Rightarrow> err + canonical_request" where
  "parseChatAsCanonical body model defaultMaxTokens =
     bindE (of_option json_error body) (\<lambda>v. bindE (dec_struct v) (\<lambda>raw.
     bindE (dec_list (field raw ''messages'')) (\<lambda>messages.
     bindE (dec_list (field raw ''tools'')) (\<lambda>tools.
     bindE (dec_any (field raw ''tool_choice'')) (\<lambda>toolChoice.
     bindE (dec_int_ptr (field raw ''max_tokens'')) (\<lambda>maxTokens.
     bindE (dec_int_ptr (field raw ''max_completion_tokens'')) (\<lambda>maxCompletionTokens.
     bindE (dec_f64_ptr (field raw ''temperature'')) (\<lambda>temperature.
     bindE (dec_f64_ptr (field raw ''top_p'')) (\<lambda>topP.
     bindE (dec_any (field raw ''stop'')) (\<lambda>stop.
     bindE (dec_bool (field raw ''stream'')) (\<lambda>stream.
     bindE (dec_map (field raw ''response_format'')) (\<lambda>responseFormat.
     bindE (dec_bool_ptr (field raw ''parallel_tool_calls'')) (\<lambda>parallelToolCalls.
     bindE (dec_string (field raw ''reasoning_effort'')) (\<lambda>effort0.
     bindE (ValidateReasoningEffort ''reasoning_effort'' effort0) (\<lambda>effort.
     bindE (mapE parseChatMessage messages) (\<lambda>msgs.
     bindE (mapE parseChatTool tools) (\<lambda>ts.
     Inr \<lparr>cq_model = model, cq_messages = msgs, cq_tools = ts, cq_tool_choice = toolChoice,
          cq_max_tokens = positive_or maxCompletionTokens (positive_or maxTokens defaultMaxTokens),
          cq_temperature = temperature, cq_top_p = topP, cq_stop = stop, cq_stream = stream,
          cq_response_format = responseFormat, cq_typed_nil = False,
          cq_parallel_tool_calls = parallelToolCalls, cq_reasoning_effort = effort\<rparr>)))))))))))))))))"

subsection \<open>Responses\<close>

definition parseResponsesTool :: "json \<Rightarrow> err + canonical_tool" where
  "parseResponsesTool raw =
     bindE (dec_struct raw) (\<lambda>tool. bindE (dec_string (field tool ''type'')) (tool_of tool))"

text \<open>The response format and whether its schema is a nil map.\<close>

definition responsesTextFormat :: "(string \<times> json) list option \<Rightarrow> ((string \<times> json) list \<times> bool) option" where
  "responsesTextFormat text =
     (case Option.bind text (\<lambda>t. as_map (map_of t ''format'')) of
        None \<Rightarrow> None
      | Some format \<Rightarrow>
          let typ = as_string (map_of format ''type'') in
          if typ = ''json_object'' then Some ([(''type'', JStr ''json_object'')], False)
          else if typ = ''json_schema'' then
            let schema = as_map (map_of format ''schema'') in
            Some ([(''type'', JStr ''json_schema''),
                   (''json_schema'', JObj [(''name'', JStr (as_string (map_of format ''name''))),
                      (''schema'', case schema of Some m \<Rightarrow> JObj m | None \<Rightarrow> JNull),
                      (''strict'', JBool (as_bool (map_of format ''strict'')))])], schema = None)
          else None)"

definition parseResponsesInputItem :: "json \<Rightarrow> err + canonical_message" where
  "parseResponsesInputItem item =
     bindE (dec_struct item) (\<lambda>obj.
     let typ = as_string (map_of obj ''type''); role = as_string (map_of obj ''role'') in
     if typ = ''function_call'' then
       (let id0 = as_string (map_of obj ''call_id'');
            id = (if id0 = [] then as_string (map_of obj ''id'') else id0) in
        Inr \<lparr>cm_role = ''assistant'', cm_parts = [],
             cm_tool_calls = [\<lparr>tc_id = id, tc_name = as_string (map_of obj ''name''),
                               tc_arguments = as_string (map_of obj ''arguments'')\<rparr>],
             cm_tool_call_id = [], cm_name = []\<rparr>)
     else if typ = ''function_call_output'' then
       bindE (parseAnyContentParts (map_of obj ''output'')) (\<lambda>parts.
         Inr \<lparr>cm_role = ''tool'', cm_parts = parts, cm_tool_calls = [],
              cm_tool_call_id = as_string (map_of obj ''call_id''), cm_name = []\<rparr>)
     else
       bindE (parseAnyContentParts (map_of obj ''content'')) (\<lambda>parts.
         Inr \<lparr>cm_role = (if role = [] then ''user'' else role), cm_parts = parts, cm_tool_calls = [],
              cm_tool_call_id = [], cm_name = []\<rparr>))"

definition user_message :: "string \<Rightarrow> canonical_message" where
  "user_message s = \<lparr>cm_role = ''user'', cm_parts = TextOnlyParts s, cm_tool_calls = [], cm_tool_call_id = [], cm_name = []\<rparr>"

definition parseResponsesInput :: "json \<Rightarrow> err + canonical_message list" where
  "parseResponsesInput input =
     (case input of
        JNull \<Rightarrow> Inr []
      | JStr s \<Rightarrow> Inr [user_message s]
      | JArr items \<Rightarrow>
          bindE (mapE parseResponsesInputItem items) (\<lambda>msgs.
            Inr (filter (\<lambda>m. cm_role m \<noteq> [] \<or> cm_tool_calls m \<noteq> [] \<or> cm_parts m \<noteq> []) msgs))
      | _ \<Rightarrow> Inl json_error)"

definition parseResponsesAsCanonical :: "json option \<Rightarrow> string \<Rightarrow> int \<Rightarrow> err + canonical_request" where
  "parseResponsesAsCanonical body model defaultMaxTokens =
     bindE (of_option json_error body) (\<lambda>v. bindE (dec_struct v) (\<lambda>raw.
     bindE (dec_any (field raw ''input'')) (\<lambda>input.
     bindE (dec_string (field raw ''instructions'')) (\<lambda>instructions.
     bindE (dec_list (field raw ''tools'')) (\<lambda>tools.
     bindE (dec_any (field raw ''tool_choice'')) (\<lambda>toolChoice.
     bindE (dec_int_ptr (field raw ''max_output_tokens'')) (\<lambda>maxOutputTokens.
     bindE (dec_f64_ptr (field raw ''temperature'')) (\<lambda>temperature.
     bindE (dec_f64_ptr (field raw ''top_p'')) (\<lambda>topP.
     bindE (dec_bool (field raw ''stream'')) (\<lambda>stream.
     bindE (dec_map (field raw ''text'')) (\<lambda>text.
     bindE (dec_bool_ptr (field raw ''parallel_tool_calls'')) (\<lambda>parallelToolCalls.
     bindE (dec_struct (case field raw ''reasoning'' of None \<Rightarrow> JNull | Some r \<Rightarrow> r)) (\<lambda>reasoning.
     bindE (dec_string (field reasoning ''effort'')) (\<lambda>effortValue.
     bindE (ValidateReasoningEffort ''reasoning.effort'' effortValue) (\<lambda>effort.
     bindE (parseResponsesInput input) (\<lambda>msgs.
     bindE (mapE parseResponsesTool tools) (\<lambda>ts.
     let format = responsesTextFormat text in
     Inr \<lparr>cq_model = model,
          cq_messages = (if instructions = [] then []
             else [\<lparr>cm_role = ''system'', cm_parts = TextOnlyParts instructions, cm_tool_calls = [], cm_tool_call_id = [], cm_name = []\<rparr>])
             @ msgs,
          cq_tools = ts, cq_tool_choice = toolChoice, cq_max_tokens = positive_or maxOutputTokens defaultMaxTokens,
          cq_temperature = temperature, cq_top_p = topP, cq_stop = JNull, cq_stream = stream,
          cq_response_format = map_option fst format, cq_typed_nil = (case format of Some (_, t) \<Rightarrow> t | None \<Rightarrow> False),
          cq_parallel_tool_calls = parallelToolCalls, cq_reasoning_effort = effort\<rparr>)))))))))))))))))"

definition ParseCanonicalRequest :: "json option \<Rightarrow> string \<Rightarrow> task_api_type \<Rightarrow> int \<Rightarrow> err + canonical_request" where
  "ParseCanonicalRequest body model apiType defaultMaxTokens =
     (if apiType = TaskAPITypeResponses then parseResponsesAsCanonical body model defaultMaxTokens
      else parseChatAsCanonical body model defaultMaxTokens)"

definition namedFunctionToolChoiceName :: "(string \<times> json) list \<Rightarrow> err + string" where
  "namedFunctionToolChoiceName choice =
     (if as_string (map_of choice ''type'') \<noteq> ''function'' then Inl (ErrMsg ''unsupported tool_choice type'')
      else let name1 = (case as_map (map_of choice ''function'') of Some f \<Rightarrow> as_string (map_of f ''name'') | None \<Rightarrow> []);
               name2 = as_string (map_of choice ''name'') in
        if name1 \<noteq> [] then Inr name1 else if name2 \<noteq> [] then Inr name2
        else Inl (ErrMsg ''tool_choice function name is required''))"

subsection \<open>The size of an image\<close>

record image_dimensions =
  id_mime_type :: string
  id_width :: int
  id_height :: int

abbreviation errUnsupportedImageFormat :: err where
  "errUnsupportedImageFormat \<equiv> ErrMsg ''image data is not a valid JPEG, PNG, or WebP image''"

definition bytes_of :: "string \<Rightarrow> bytes" where
  "bytes_of = map of_char"

definition slice :: "nat \<Rightarrow> nat \<Rightarrow> 'a list \<Rightarrow> 'a list" where
  "slice a b xs = take (b - a) (drop a xs)"

definition isWebP :: "bytes \<Rightarrow> bool" where
  "isWebP data \<longleftrightarrow> 12 \<le> length data \<and> slice 0 4 data = bytes_of ''RIFF'' \<and> slice 8 12 data = bytes_of ''WEBP''"

text \<open>\<open>binary.LittleEndian\<close>\<close>

definition Uint16_LE :: "bytes \<Rightarrow> 16 word" where
  "Uint16_LE b = ucast (b ! 0) + push_bit 8 (ucast (b ! 1))"

definition Uint32_LE :: "bytes \<Rightarrow> 32 word" where
  "Uint32_LE b = ucast (b ! 0) + push_bit 8 (ucast (b ! 1)) + push_bit 16 (ucast (b ! 2)) + push_bit 24 (ucast (b ! 3))"

definition Uint24_LE :: "bytes \<Rightarrow> 32 word" where
  "Uint24_LE b = or (or (ucast (b ! 0)) (push_bit 8 (ucast (b ! 1)))) (push_bit 16 (ucast (b ! 2)))"

definition readWebPDimensions :: "bytes \<Rightarrow> err + image_dimensions" where
  "readWebPDimensions data =
     (if length data < 30 then Inl errUnsupportedImageFormat
      else let chunk = slice 12 16 data in
        bindE
          (if chunk = bytes_of ''VP8 '' then
             (if data ! 23 \<noteq> 0x9d \<or> data ! 24 \<noteq> 0x01 \<or> data ! 25 \<noteq> 0x2a then Inl errUnsupportedImageFormat
              else Inr (uint (and (Uint16_LE (slice 26 28 data)) 0x3fff), uint (and (Uint16_LE (slice 28 30 data)) 0x3fff)))
           else if chunk = bytes_of ''VP8L'' then
             (if data ! 20 \<noteq> 0x2f then Inl errUnsupportedImageFormat
              else let bits = Uint32_LE (slice 21 25 data) in
                Inr (uint (and bits 0x3fff) + 1, uint (and (drop_bit 14 bits) 0x3fff) + 1))
           else if chunk = bytes_of ''VP8X'' then
             Inr (uint (Uint24_LE (slice 24 27 data)) + 1, uint (Uint24_LE (slice 27 30 data)) + 1)
           else Inl errUnsupportedImageFormat)
          (\<lambda>(width, height).
             if width \<le> 0 \<or> height \<le> 0 then Inl errUnsupportedImageFormat
             else Inr \<lparr>id_mime_type = ''image/webp'', id_width = width, id_height = height\<rparr>))"

text \<open>\<open>decode_config\<close> answers the width, the height and the name of the format.\<close>

definition ReadImageDimensions :: "(bytes \<Rightarrow> (int \<times> int \<times> string) option) \<Rightarrow> bytes \<Rightarrow> err + image_dimensions" where
  "ReadImageDimensions decode_config data =
     (if isWebP data then readWebPDimensions data
      else case decode_config data of
        None \<Rightarrow> Inl errUnsupportedImageFormat
      | Some (width, height, format) \<Rightarrow>
          if format \<noteq> ''jpeg'' \<and> format \<noteq> ''png'' then Inl errUnsupportedImageFormat
          else if width \<le> 0 \<or> height \<le> 0 then Inl errUnsupportedImageFormat
          else Inr \<lparr>id_mime_type = (if format = ''jpeg'' then ''image/jpeg'' else ''image/png''),
                    id_width = width, id_height = height\<rparr>)"

subsection \<open>The images of a request\<close>

definition allowedImageMIMETypes :: "string list" where
  "allowedImageMIMETypes = [''image/jpeg'', ''image/png'', ''image/webp'']"

definition allowedImageDetails :: "string list" where
  "allowedImageDetails = ['''', ''auto'', ''low'', ''high'', ''original'']"

definition validate_part ::
  "(bytes \<Rightarrow> (int \<times> int \<times> string) option) \<Rightarrow> u64 \<Rightarrow> string \<Rightarrow> content_part \<Rightarrow>
   canonical_image_info list \<times> u64 \<Rightarrow> err + canonical_image_info list \<times> u64" where
  "validate_part decode_config maxBytes role part acc =
     (case acc of (imgs, total0) \<Rightarrow>
      if cp_type part \<noteq> CanonicalPartImage then Inr acc
      else if role \<noteq> ''user'' then Inl (ErrMsg ''images are only supported in user messages'')
      else if cp_mime_type part \<notin> set allowedImageMIMETypes then Inl (ErrMsg ''unsupported MIME type'')
      else if cp_detail part \<notin> set allowedImageDetails then Inl (ErrMsg ''unsupported detail'')
      else bindE (DecodeBase64Payload (cp_data part)) (\<lambda>decoded.
        let total1 = total0 + of_nat (length decoded) in
        rejectIf (maxBytes < total1) (ErrMsg ''total image size exceeds the limit'')
        (bindE (ReadImageDimensions decode_config decoded) (\<lambda>dims.
         rejectIf (id_mime_type dims \<noteq> cp_mime_type part) (ErrMsg ''declared MIME type does not match image data'')
         (Inr (imgs @ [\<lparr>ci_mime_type = id_mime_type dims, ci_width = id_width dims, ci_height = id_height dims,
                        ci_detail = cp_detail part, ci_decoded_bytes = length decoded\<rparr>], total1))))))"

fun foldE :: "('a \<Rightarrow> 's \<Rightarrow> 'e + 's) \<Rightarrow> 'a list \<Rightarrow> 's \<Rightarrow> 'e + 's" where
  "foldE f [] s = Inr s"
| "foldE f (x # xs) s = bindE (f x s) (foldE f xs)"

definition ValidateCanonicalImages ::
  "(bytes \<Rightarrow> (int \<times> int \<times> string) option) \<Rightarrow> canonical_request \<Rightarrow> u64 \<Rightarrow> err + canonical_image_info list" where
  "ValidateCanonicalImages decode_config req maxBytes =
     bindE (foldE (\<lambda>msg. foldE (validate_part decode_config maxBytes (cm_role msg)) (cm_parts msg)) (cq_messages req) ([], 0))
       (\<lambda>acc. Inr (fst acc))"

subsection \<open>The input tokens of a request\<close>

text \<open>The Chat Completions and Responses case; \<open>len\<close> is the length of the body.\<close>

definition estimate_chat_input ::
  "(bytes \<Rightarrow> (int \<times> int \<times> string) option) \<Rightarrow> provider_model_route \<Rightarrow> task_api_type \<Rightarrow> nat \<Rightarrow> json option \<Rightarrow> u64 \<Rightarrow>
   err + provider_input_estimate" where
  "estimate_chat_input decode_config route apiType len body maxImageBytes =
     bindE (ParseCanonicalRequest body (rt_model_name route) apiType 0) (\<lambda>canonical.
     bindE (ValidateCanonicalImages decode_config canonical maxImageBytes) (\<lambda>imgs.
     bindE (EstimateImageInputTokens (rt_service_provider route) (rt_model_name route) imgs) (\<lambda>imageTokens.
     Inr \<lparr>pi_text_tokens = EstimateProviderTextInputTokens len body, pi_image_tokens = imageTokens\<rparr>)))"

end
