(* ===== verification/Provider_Convert.thy ===== *)
theory Provider_Convert
  imports Provider_Requests
begin

text \<open>
  A canonical request in the words of the three providers and their answers in ours
  (\<open>provider/openai_convert.go\<close>, \<open>anthropic_convert.go\<close>, \<open>google_convert.go\<close>, \<open>effort.go\<close>, \<open>openai_shape.go\<close>,
  \<open>openai.go\<close> \<open>parseOpenAIUsage\<close>). The bodies are \<open>json\<close> values, whose key order is not observed. \<open>fmt_float\<close>
  prints a float64, \<open>unmarshal\<close> reads a JSON text, \<open>marshal\<close> prints a value.
\<close>

subsection \<open>Common pieces\<close>

definition jint :: "int \<Rightarrow> json" where
  "jint i = JNum (int_str i)"

definition ju64 :: "u64 \<Rightarrow> json" where
  "ju64 n = jint (uint n)"

definition float_key :: "(f64 \<Rightarrow> string) \<Rightarrow> string \<Rightarrow> f64 option \<Rightarrow> (string \<times> json) list" where
  "float_key fmt_float k v = (case v of None \<Rightarrow> [] | Some x \<Rightarrow> [(k, JNum (fmt_float x))])"

definition normalizeStopSequences :: "json \<Rightarrow> string list option" where
  "normalizeStopSequences stop =
     (case stop of
        JStr s \<Rightarrow> if s = [] then None else Some [s]
      | JArr vs \<Rightarrow> Some (filter (\<lambda>s. s \<noteq> []) (map (\<lambda>v. as_string (Some v)) vs))
      | _ \<Rightarrow> None)"

text \<open>\<open>!ok || schema == nil\<close>: a nil map of its own type is not nil.\<close>

definition schema_missing :: "canonical_request \<Rightarrow> (string \<times> json) list \<Rightarrow> bool" where
  "schema_missing req js \<longleftrightarrow>
     (case map_of js ''schema'' of None \<Rightarrow> True | Some v \<Rightarrow> v = JNull \<and> \<not> cq_typed_nil req)"

subsection \<open>OpenAI\<close>

definition openAI_part :: "content_part \<Rightarrow> json list" where
  "openAI_part p =
     (if cp_type p = CanonicalPartText then [JObj [(''type'', JStr ''text''), (''text'', JStr (cp_text p))]]
      else if cp_type p = CanonicalPartImage then
        [JObj [(''type'', JStr ''image_url''),
               (''image_url'', JObj ((''url'', JStr (FormatImageDataURL (cp_mime_type p) (cp_data p)))
                  # key_if (cp_detail p \<noteq> []) ''detail'' (JStr (cp_detail p))))]]
      else [])"

definition openAIChatContent :: "canonical_message \<Rightarrow> json" where
  "openAIChatContent m =
     (if \<not> HasImages m then JStr (message_text m) else JArr (concat (map openAI_part (cm_parts m))))"

definition openAI_tool_call :: "tool_call \<Rightarrow> json" where
  "openAI_tool_call tc =
     JObj [(''id'', JStr (tc_id tc)), (''type'', JStr ''function''),
           (''function'', JObj [(''name'', JStr (tc_name tc)), (''arguments'', JStr (tc_arguments tc))])]"

definition openAI_message :: "canonical_message \<Rightarrow> json" where
  "openAI_message m =
     JObj ((''role'', JStr (cm_role m)) # key_if (cm_name m \<noteq> []) ''name'' (JStr (cm_name m)) @
       (if cm_role m = ''tool'' then
          [(''tool_call_id'', JStr (cm_tool_call_id m)), (''content'', JStr (message_text m))]
        else if cm_role m = ''assistant'' then
          (if cm_tool_calls m \<noteq> [] then
             [(''tool_calls'', JArr (map openAI_tool_call (cm_tool_calls m))),
              (''content'', if message_text m = [] then JNull else JStr (message_text m))]
           else [(''content'', JStr (message_text m))])
        else [(''content'', openAIChatContent m)]))"

definition openAI_tool :: "canonical_tool \<Rightarrow> json" where
  "openAI_tool t =
     JObj [(''type'', JStr ''function''),
           (''function'', JObj [(''name'', JStr (ct_name t)), (''description'', JStr (ct_description t)),
              (''parameters'', JObj (ct_parameters t))])]"

definition mapOpenAIChatToolChoice :: "json \<Rightarrow> err + json option" where
  "mapOpenAIChatToolChoice choice =
     (case choice of
        JNull \<Rightarrow> Inr None
      | JStr v \<Rightarrow>
          if v \<in> {''auto'', ''none'', ''required''} then Inr (Some (JStr v)) else Inl (ErrMsg ''unsupported tool_choice'')
      | JObj v \<Rightarrow>
          let typ = as_string (map_of v ''type'') in
          if typ \<in> {''auto'', ''none'', ''required''} then Inr (Some (JStr typ))
          else if typ = ''function'' then
            bindE (namedFunctionToolChoiceName v) (\<lambda>name.
              Inr (Some (JObj [(''type'', JStr ''function''), (''function'', JObj [(''name'', JStr name)])])))
          else Inl (ErrMsg ''unsupported tool_choice type'')
      | _ \<Rightarrow> Inl (ErrMsg ''unsupported tool_choice''))"

definition opt_key :: "string \<Rightarrow> json option \<Rightarrow> (string \<times> json) list" where
  "opt_key k v = (case v of None \<Rightarrow> [] | Some x \<Rightarrow> [(k, x)])"

definition convertCanonicalToOpenAIChat :: "(f64 \<Rightarrow> string) \<Rightarrow> canonical_request \<Rightarrow> err + json" where
  "convertCanonicalToOpenAIChat fmt_float req =
     bindE (mapOpenAIChatToolChoice (cq_tool_choice req)) (\<lambda>choice.
     Inr (JObj
       ([(''model'', JStr (cq_model req)), (''stream'', JBool (cq_stream req))] @
        key_if (0 < cq_max_tokens req) ''max_completion_tokens'' (jint (cq_max_tokens req)) @
        float_key fmt_float ''temperature'' (cq_temperature req) @
        float_key fmt_float ''top_p'' (cq_top_p req) @
        key_if (cq_stop req \<noteq> JNull) ''stop'' (cq_stop req) @
        opt_key ''response_format'' (map_option JObj (cq_response_format req)) @
        opt_key ''parallel_tool_calls'' (map_option JBool (cq_parallel_tool_calls req)) @
        key_if (cq_stream req) ''stream_options'' (JObj [(''include_usage'', JBool True)]) @
        [(''messages'', JArr (map openAI_message (cq_messages req)))] @
        key_if (cq_tools req \<noteq> []) ''tools'' (JArr (map openAI_tool (cq_tools req))) @
        opt_key ''tool_choice'' choice @
        key_if (cq_reasoning_effort req \<noteq> []) ''reasoning_effort'' (JStr (cq_reasoning_effort req)))))"

subsection \<open>Anthropic\<close>

definition anthropic_text :: "string \<Rightarrow> json" where
  "anthropic_text s = JObj [(''type'', JStr ''text''), (''text'', JStr s)]"

definition anthropic_part :: "content_part \<Rightarrow> json list" where
  "anthropic_part p =
     (if cp_type p = CanonicalPartText then [anthropic_text (cp_text p)]
      else if cp_type p = CanonicalPartImage then
        [JObj [(''type'', JStr ''image''),
               (''source'', JObj [(''type'', JStr ''base64''), (''media_type'', JStr (cp_mime_type p)), (''data'', JStr (cp_data p))])]]
      else [])"

definition anthropicUserContent :: "canonical_message \<Rightarrow> json" where
  "anthropicUserContent m =
     (if \<not> HasImages m then JStr (message_text m) else JArr (concat (map anthropic_part (cm_parts m))))"

definition anthropic_tool_use :: "(string \<Rightarrow> json option) \<Rightarrow> tool_call \<Rightarrow> json" where
  "anthropic_tool_use unmarshal tc =
     JObj [(''type'', JStr ''tool_use''), (''id'', JStr (tc_id tc)), (''name'', JStr (tc_name tc)),
           (''input'', if tc_arguments tc = [] then JObj []
              else case unmarshal (tc_arguments tc) of None \<Rightarrow> JObj [] | Some v \<Rightarrow> v)]"

definition anthropic_assistant :: "(string \<Rightarrow> json option) \<Rightarrow> canonical_message \<Rightarrow> json list" where
  "anthropic_assistant unmarshal m =
     (let content = (if message_text m = [] then [] else [anthropic_text (message_text m)])
          @ map (anthropic_tool_use unmarshal) (cm_tool_calls m) in
      if content = [] then [anthropic_text []] else content)"

definition anthropic_tool_result :: "canonical_message \<Rightarrow> json" where
  "anthropic_tool_result m =
     JObj [(''type'', JStr ''tool_result''), (''tool_use_id'', JStr (cm_tool_call_id m)), (''content'', JStr (message_text m))]"

definition role_message :: "string \<Rightarrow> json \<Rightarrow> json" where
  "role_message role content = JObj [(''role'', JStr role), (''content'', content)]"

text \<open>The state of the loop: the system texts, the messages and the pending tool results.\<close>

record anthropic_acc =
  aa_system :: "string list"
  aa_messages :: "json list"
  aa_pending :: "json list"

definition flushToolResults :: "anthropic_acc \<Rightarrow> anthropic_acc" where
  "flushToolResults a =
     (if aa_pending a = [] then a
      else a\<lparr>aa_messages := aa_messages a @ [role_message ''user'' (JArr (aa_pending a))], aa_pending := []\<rparr>)"

definition anthropic_step :: "(string \<Rightarrow> json option) \<Rightarrow> canonical_message \<Rightarrow> anthropic_acc \<Rightarrow> anthropic_acc" where
  "anthropic_step unmarshal m a =
     (if cm_role m \<in> {''system'', ''developer''} then
        (let a1 = flushToolResults a in
         if message_text m = [] then a1 else a1\<lparr>aa_system := aa_system a1 @ [message_text m]\<rparr>)
      else if cm_role m = ''tool'' then a\<lparr>aa_pending := aa_pending a @ [anthropic_tool_result m]\<rparr>
      else let a1 = flushToolResults a in
        if cm_role m = ''assistant'' then
          a1\<lparr>aa_messages := aa_messages a1 @ [role_message ''assistant'' (JArr (anthropic_assistant unmarshal m))]\<rparr>
        else a1\<lparr>aa_messages := aa_messages a1 @ [role_message ''user'' (anthropicUserContent m)]\<rparr>)"

definition anthropic_messages :: "(string \<Rightarrow> json option) \<Rightarrow> canonical_message list \<Rightarrow> anthropic_acc" where
  "anthropic_messages unmarshal ms =
     flushToolResults (fold (anthropic_step unmarshal) ms \<lparr>aa_system = [], aa_messages = [], aa_pending = []\<rparr>)"

fun joinSystem :: "string list \<Rightarrow> string" where
  "joinSystem [] = []"
| "joinSystem [p] = p"
| "joinSystem (p # ps) = p @ [char_of (10 :: nat), char_of (10 :: nat)] @ joinSystem ps"

definition mapAnthropicToolChoice :: "json \<Rightarrow> bool option \<Rightarrow> err + json option" where
  "mapAnthropicToolChoice choice parallelToolCalls =
     (let disableParallel = (parallelToolCalls = Some False);
          applyParallel = (\<lambda>m. m @ key_if disableParallel ''disable_parallel_tool_use'' (JBool True)) in
      case choice of
        JNull \<Rightarrow> Inr (if disableParallel then Some (JObj (applyParallel [(''type'', JStr ''auto'')])) else None)
      | JStr v \<Rightarrow>
          if v = ''none'' then Inr (Some (JObj [(''type'', JStr ''none'')]))
          else if v = ''auto'' then Inr (Some (JObj (applyParallel [(''type'', JStr ''auto'')])))
          else if v = ''required'' then Inr (Some (JObj (applyParallel [(''type'', JStr ''any'')])))
          else Inl (ErrMsg ''unsupported tool_choice'')
      | JObj v \<Rightarrow>
          let typ = as_string (map_of v ''type'') in
          if typ = ''function'' then
            bindE (namedFunctionToolChoiceName v) (\<lambda>name.
              Inr (Some (JObj (applyParallel [(''type'', JStr ''tool''), (''name'', JStr name)]))))
          else if typ \<in> {''none'', ''auto'', ''any'', ''tool''} then
            Inr (Some (JObj (if typ = ''none'' then v
              else applyParallel (if disableParallel then filter (\<lambda>e. fst e \<noteq> ''disable_parallel_tool_use'') v else v))))
          else Inl (ErrMsg ''unsupported tool_choice type'')
      | _ \<Rightarrow> Inl (ErrMsg ''unsupported tool_choice''))"

definition mapAnthropicOutputConfig :: "canonical_request \<Rightarrow> err + json option" where
  "mapAnthropicOutputConfig req =
     (case cq_response_format req of
        None \<Rightarrow> Inr None
      | Some format \<Rightarrow>
          let typ = as_string (map_of format ''type'') in
          if typ = ''json_object'' then
            Inr (Some (JObj [(''type'', JStr ''json_schema''), (''schema'', JObj [(''type'', JStr ''object'')])]))
          else if typ = ''json_schema'' then
            (case as_map (map_of format ''json_schema'') of
               None \<Rightarrow> Inl (ErrMsg ''response_format.json_schema is required'')
             | Some js \<Rightarrow>
                 if schema_missing req js then Inl (ErrMsg ''response_format.json_schema.schema is required'')
                 else Inr (Some (JObj [(''type'', JStr ''json_schema''), (''schema'', the (map_of js ''schema''))])))
          else if typ = ''text'' \<or> typ = [] then Inr None
          else Inl (ErrMsg ''unsupported response_format type''))"

text \<open>The thinking type and the effort; \<open>None\<close> when both are omitted.\<close>

definition MapAnthropicEffort :: "string \<Rightarrow> (string \<times> string) option" where
  "MapAnthropicEffort effort =
     (if effort = [] \<or> effort = ''none'' then None
      else if effort \<in> {''minimal'', ''low''} then Some (''adaptive'', ''low'') else Some (''adaptive'', effort))"

definition anthropic_tool :: "canonical_tool \<Rightarrow> json" where
  "anthropic_tool t =
     JObj [(''name'', JStr (ct_name t)), (''description'', JStr (ct_description t)), (''input_schema'', JObj (ct_parameters t))]"

definition convertCanonicalToAnthropic ::
  "(f64 \<Rightarrow> string) \<Rightarrow> (string \<Rightarrow> json option) \<Rightarrow> canonical_request \<Rightarrow> err + json" where
  "convertCanonicalToAnthropic fmt_float unmarshal req =
     bindE (mapAnthropicToolChoice (cq_tool_choice req) (cq_parallel_tool_calls req)) (\<lambda>choice.
     bindE (mapAnthropicOutputConfig req) (\<lambda>format.
     let a = anthropic_messages unmarshal (cq_messages req);
         effort = MapAnthropicEffort (cq_reasoning_effort req);
         outputConfig = opt_key ''format'' format @
           (case effort of None \<Rightarrow> [] | Some (_, e) \<Rightarrow> key_if (e \<noteq> []) ''effort'' (JStr e)) in
     Inr (JObj
       ([(''model'', JStr (cq_model req)), (''max_tokens'', jint (cq_max_tokens req)), (''stream'', JBool (cq_stream req))] @
        float_key fmt_float ''temperature'' (cq_temperature req) @
        float_key fmt_float ''top_p'' (cq_top_p req) @
        key_if (cq_stop req \<noteq> JNull) ''stop_sequences'' (of_list_or_null (normalizeStopSequences (cq_stop req))) @
        key_if (aa_system a \<noteq> []) ''system'' (JStr (joinSystem (aa_system a))) @
        [(''messages'', JArr (aa_messages a))] @
        key_if (cq_tools req \<noteq> []) ''tools'' (JArr (map anthropic_tool (cq_tools req))) @
        opt_key ''tool_choice'' choice @
        (case effort of None \<Rightarrow> [] | Some (t, _) \<Rightarrow> [(''thinking'', JObj [(''type'', JStr t)])]) @
        key_if (outputConfig \<noteq> []) ''output_config'' (JObj outputConfig)))))"

subsection \<open>Google\<close>

definition google_text :: "string \<Rightarrow> json" where
  "google_text s = JObj [(''text'', JStr s)]"

definition google_part :: "content_part \<Rightarrow> json list" where
  "google_part p =
     (if cp_type p = CanonicalPartText then [google_text (cp_text p)]
      else if cp_type p = CanonicalPartImage then
        [JObj [(''inlineData'', JObj [(''mimeType'', JStr (cp_mime_type p)), (''data'', JStr (cp_data p))])]]
      else [])"

definition googleUserParts :: "canonical_message \<Rightarrow> json list" where
  "googleUserParts m =
     (if \<not> HasImages m then [google_text (message_text m)] else concat (map google_part (cm_parts m)))"

text \<open>Arguments that are no JSON leave the empty object.\<close>

definition google_function_call :: "(string \<Rightarrow> json option) \<Rightarrow> tool_call \<Rightarrow> json" where
  "google_function_call unmarshal tc =
     JObj [(''functionCall'', JObj
       ([(''name'', JStr (tc_name tc)),
         (''args'', if tc_arguments tc = [] then JObj []
            else case unmarshal (tc_arguments tc) of None \<Rightarrow> JObj [] | Some v \<Rightarrow> v)] @
        key_if (tc_id tc \<noteq> []) ''id'' (JStr (tc_id tc))))]"

definition lookupToolName :: "canonical_message list \<Rightarrow> string \<Rightarrow> string" where
  "lookupToolName ms toolCallID =
     (case find (\<lambda>tc. tc_id tc = toolCallID) (concat (map cm_tool_calls ms)) of
        Some tc \<Rightarrow> tc_name tc | None \<Rightarrow> toolCallID)"

definition google_response_part :: "canonical_message list \<Rightarrow> canonical_message \<Rightarrow> json" where
  "google_response_part ms m =
     JObj [(''functionResponse'', JObj
       ([(''name'', JStr (if cm_name m = [] then lookupToolName ms (cm_tool_call_id m) else cm_name m)),
         (''response'', JObj [(''result'', JStr (message_text m))])] @
        key_if (cm_tool_call_id m \<noteq> []) ''id'' (JStr (cm_tool_call_id m))))]"

definition google_content :: "string \<Rightarrow> json list \<Rightarrow> json" where
  "google_content role parts = JObj [(''role'', JStr role), (''parts'', JArr parts)]"

definition google_assistant :: "(string \<Rightarrow> json option) \<Rightarrow> canonical_message \<Rightarrow> json list" where
  "google_assistant unmarshal m =
     (let parts = (if message_text m = [] then [] else [google_text (message_text m)])
          @ map (google_function_call unmarshal) (cm_tool_calls m) in
      if parts = [] then [google_text []] else parts)"

definition google_message :: "(string \<Rightarrow> json option) \<Rightarrow> canonical_message list \<Rightarrow> canonical_message \<Rightarrow> json list" where
  "google_message unmarshal ms m =
     (if cm_role m \<in> {''system'', ''developer''} then []
      else if cm_role m = ''assistant'' then [google_content ''model'' (google_assistant unmarshal m)]
      else if cm_role m = ''tool'' then [google_content ''user'' [google_response_part ms m]]
      else [google_content ''user'' (googleUserParts m)])"

definition google_system :: "canonical_message list \<Rightarrow> string" where
  "google_system ms =
     joinSystem (filter (\<lambda>t. t \<noteq> []) (map message_text (filter (\<lambda>m. cm_role m \<in> {''system'', ''developer''}) ms)))"

definition function_mode :: "string \<Rightarrow> (string \<times> json) list \<Rightarrow> json" where
  "function_mode mode names = JObj [(''functionCallingConfig'', JObj ((''mode'', JStr mode) # names))]"

definition mapGoogleToolConfig :: "json \<Rightarrow> err + json option" where
  "mapGoogleToolConfig choice =
     (case choice of
        JNull \<Rightarrow> Inr None
      | JStr v \<Rightarrow>
          if v = ''none'' then Inr (Some (function_mode ''NONE'' []))
          else if v = ''auto'' then Inr (Some (function_mode ''AUTO'' []))
          else if v = ''required'' then Inr (Some (function_mode ''ANY'' []))
          else Inl (ErrMsg ''unsupported tool_choice'')
      | JObj v \<Rightarrow>
          if as_string (map_of v ''type'') = ''function'' then
            bindE (namedFunctionToolChoiceName v) (\<lambda>name.
              Inr (Some (function_mode ''ANY'' [(''allowedFunctionNames'', JArr [JStr name])])))
          else Inl (ErrMsg ''unsupported tool_choice type'')
      | _ \<Rightarrow> Inl (ErrMsg ''unsupported tool_choice''))"

definition mapGoogleResponseFormat :: "canonical_request \<Rightarrow> err + string \<times> json option" where
  "mapGoogleResponseFormat req =
     (case cq_response_format req of
        None \<Rightarrow> Inr ([], None)
      | Some format \<Rightarrow>
          let typ = as_string (map_of format ''type'') in
          if typ = ''json_object'' then Inr (''application/json'', None)
          else if typ = ''json_schema'' then
            (case as_map (map_of format ''json_schema'') of
               None \<Rightarrow> Inl (ErrMsg ''response_format.json_schema is required'')
             | Some js \<Rightarrow>
                 if schema_missing req js then Inl (ErrMsg ''response_format.json_schema.schema is required'')
                 else Inr (''application/json'', map_of js ''schema''))
          else if typ = ''text'' \<or> typ = [] then Inr ([], None)
          else Inl (ErrMsg ''unsupported response_format type''))"

definition MapGoogleThinkingLevel :: "string \<Rightarrow> string option" where
  "MapGoogleThinkingLevel effort =
     (if effort \<in> {''minimal'', ''low''} then Some ''low'' else if effort = ''medium'' then Some ''medium''
      else if effort \<in> {''high'', ''xhigh'', ''max''} then Some ''high'' else None)"

definition google_declaration :: "canonical_tool \<Rightarrow> json" where
  "google_declaration t =
     JObj [(''name'', JStr (ct_name t)), (''description'', JStr (ct_description t)), (''parameters'', JObj (ct_parameters t))]"

definition convertCanonicalToGoogle ::
  "(f64 \<Rightarrow> string) \<Rightarrow> (string \<Rightarrow> json option) \<Rightarrow> canonical_request \<Rightarrow> err + json" where
  "convertCanonicalToGoogle fmt_float unmarshal req =
     bindE (mapGoogleToolConfig (cq_tool_choice req)) (\<lambda>cfg.
     bindE (mapGoogleResponseFormat req) (\<lambda>(mime, schema).
     let systemText = google_system (cq_messages req);
         seqs = (case normalizeStopSequences (cq_stop req) of None \<Rightarrow> [] | Some xs \<Rightarrow> xs);
         gen = key_if (0 < cq_max_tokens req) ''maxOutputTokens'' (jint (cq_max_tokens req)) @
           float_key fmt_float ''temperature'' (cq_temperature req) @
           float_key fmt_float ''topP'' (cq_top_p req) @
           key_if (seqs \<noteq> []) ''stopSequences'' (JArr (map JStr seqs)) @
           key_if (mime \<noteq> []) ''responseMimeType'' (JStr mime) @
           (if mime = [] then [] else opt_key ''responseSchema'' schema) @
           (case MapGoogleThinkingLevel (cq_reasoning_effort req) of None \<Rightarrow> []
            | Some level \<Rightarrow> [(''thinkingConfig'', JObj [(''thinkingLevel'', JStr level)])]) in
     rejectIf (cq_tools req \<noteq> [] \<and> mime = ''application/json'')
       (ErrMsg ''google does not support tools together with JSON structured output'')
     (Inr (JObj
       (key_if (systemText \<noteq> []) ''systemInstruction'' (JObj [(''parts'', JArr [google_text systemText])]) @
        [(''contents'', JArr (concat (map (google_message unmarshal (cq_messages req)) (cq_messages req))))] @
        key_if (cq_tools req \<noteq> []) ''tools'' (JArr [JObj [(''functionDeclarations'', JArr (map google_declaration (cq_tools req)))]]) @
        opt_key ''toolConfig'' cfg @
        key_if (gen \<noteq> []) ''generationConfig'' (JObj gen))))))"

subsection \<open>Answers\<close>

record assembled_message =
  am_content :: string
  am_tool_calls :: "tool_call list"
  am_finish_reason :: string

text \<open>A struct in a field, a nil or a pointer to one.\<close>

definition sub_struct :: "json option \<Rightarrow> err + (string \<times> json) list" where
  "sub_struct v = dec_struct (case v of None \<Rightarrow> JNull | Some x \<Rightarrow> x)"

definition parseOpenAIUsage :: "json option \<Rightarrow> err + provider_usage" where
  "parseOpenAIUsage body =
     bindE (of_option json_error body) (\<lambda>v. bindE (dec_struct v) (\<lambda>envelope.
     bindE (of_option (ErrMsg ''usage missing'') (field envelope ''usage'')) (\<lambda>usage. bindE (dec_struct usage) (\<lambda>u.
     bindE (dec_u64 (field u ''prompt_tokens'')) (\<lambda>prompt.
     bindE (dec_u64 (field u ''completion_tokens'')) (\<lambda>completion.
     bindE (dec_u64 (field u ''total_tokens'')) (\<lambda>total_tokens.
     bindE (sub_struct (field u ''prompt_tokens_details'')) (\<lambda>pd. bindE (dec_u64 (field pd ''cached_tokens'')) (\<lambda>cached.
     bindE (sub_struct (field u ''completion_tokens_details'')) (\<lambda>cd. bindE (dec_u64 (field cd ''reasoning_tokens'')) (\<lambda>reasoning.
     Inr \<lparr>pu_input = prompt, pu_output = completion, pu_cached_input = cached, pu_cache_write_input = 0,
          pu_reasoning = reasoning, pu_tool_use_prompt = 0, pu_image_input = 0, pu_image_output = 0,
          pu_total = total_tokens, pu_reasoning_in_output = True\<rparr>)))))))))))"

definition openAI_choice :: "json \<Rightarrow> err + assembled_message" where
  "openAI_choice v =
     bindE (dec_struct v) (\<lambda>choice.
     bindE (sub_struct (field choice ''message'')) (\<lambda>message.
     bindE (dec_string_ptr (field message ''content'')) (\<lambda>content.
     bindE (dec_list (field message ''tool_calls'')) (\<lambda>calls.
     bindE (mapE (\<lambda>c. bindE (dec_struct c) (\<lambda>obj. bindE (dec_string (field obj ''id'')) (\<lambda>id.
        bindE (sub_struct (field obj ''function'')) (\<lambda>f. bindE (dec_string (field f ''name'')) (\<lambda>name.
        bindE (dec_string (field f ''arguments'')) (\<lambda>arguments.
        Inr \<lparr>tc_id = id, tc_name = name, tc_arguments = arguments\<rparr>)))))) calls) (\<lambda>toolCalls.
     bindE (dec_string (field choice ''finish_reason'')) (\<lambda>finish.
     Inr \<lparr>am_content = (case content of Some s \<Rightarrow> s | None \<Rightarrow> []), am_tool_calls = toolCalls, am_finish_reason = finish\<rparr>))))))"

definition no_message :: assembled_message where
  "no_message = \<lparr>am_content = [], am_tool_calls = [], am_finish_reason = []\<rparr>"

definition parseOpenAIChatCompletionResponse ::
  "json option \<Rightarrow> err + assembled_message \<times> string \<times> string \<times> int \<times> provider_usage" where
  "parseOpenAIChatCompletionResponse body =
     bindE (of_option json_error body) (\<lambda>v. bindE (dec_struct v) (\<lambda>resp.
     bindE (dec_string (field resp ''id'')) (\<lambda>id.
     bindE (dec_string (field resp ''model'')) (\<lambda>model.
     bindE (dec_int (field resp ''created'')) (\<lambda>created.
     bindE (bindE (dec_list (field resp ''choices'')) (mapE openAI_choice)) (\<lambda>choices.
     bindE (parseOpenAIUsage body) (\<lambda>usage.
     Inr (case choices of [] \<Rightarrow> no_message | c # _ \<Rightarrow> c, id, model, created, usage))))))))"

definition MapAnthropicStopReason :: "string \<Rightarrow> string" where
  "MapAnthropicStopReason reason =
     (if reason \<in> {''end_turn'', ''stop_sequence''} then ''stop'' else if reason = ''max_tokens'' then ''length''
      else if reason = ''tool_use'' then ''tool_calls'' else if reason = [] then ''stop'' else reason)"

text \<open>\<open>raw_text\<close> is the text of a raw message.\<close>

definition anthropic_content :: "(json \<Rightarrow> string) \<Rightarrow> json \<Rightarrow> err + string \<times> tool_call list" where
  "anthropic_content raw_text v =
     bindE (dec_struct v) (\<lambda>part.
     bindE (dec_string (field part ''type'')) (\<lambda>typ.
     bindE (dec_string (field part ''text'')) (\<lambda>text.
     bindE (dec_string (field part ''id'')) (\<lambda>id.
     bindE (dec_string (field part ''name'')) (\<lambda>name.
     Inr (if typ = ''text'' then (text, [])
          else if typ = ''tool_use'' then
            ([], [\<lparr>tc_id = id, tc_name = name,
                   tc_arguments = (case field part ''input'' of None \<Rightarrow> ''{}'' | Some x \<Rightarrow> raw_text x)\<rparr>])
          else ([], [])))))))"

definition parseAnthropicMessageResponse :: "(json \<Rightarrow> string) \<Rightarrow> json option \<Rightarrow> err + assembled_message \<times> provider_usage" where
  "parseAnthropicMessageResponse raw_text body =
     bindE (of_option json_error body) (\<lambda>v. bindE (dec_struct v) (\<lambda>resp.
     bindE (bindE (dec_list (field resp ''content'')) (mapE (anthropic_content raw_text))) (\<lambda>parts.
     bindE (sub_struct (field resp ''usage'')) (\<lambda>u.
     bindE (dec_u64 (field u ''input_tokens'')) (\<lambda>input.
     bindE (dec_u64 (field u ''output_tokens'')) (\<lambda>output.
     bindE (dec_u64 (field u ''cache_read_input_tokens'')) (\<lambda>cached.
     bindE (dec_u64 (field u ''cache_creation_input_tokens'')) (\<lambda>written.
     bindE (dec_string (field resp ''stop_reason'')) (\<lambda>reason.
     Inr (\<lparr>am_content = concat (map fst parts), am_tool_calls = concat (map snd parts),
           am_finish_reason = MapAnthropicStopReason reason\<rparr>,
          \<lparr>pu_input = input, pu_output = output, pu_cached_input = cached, pu_cache_write_input = written,
           pu_reasoning = 0, pu_tool_use_prompt = 0, pu_image_input = 0, pu_image_output = 0,
           pu_total = input + output, pu_reasoning_in_output = False\<rparr>))))))))))"

definition MapGoogleFinishReason :: "string \<Rightarrow> string" where
  "MapGoogleFinishReason reason =
     (if reason = ''STOP'' then ''stop'' else if reason = ''MAX_TOKENS'' then ''length''
      else if reason \<in> {''SAFETY'', ''RECITATION'', ''BLOCKLIST'', ''PROHIBITED_CONTENT'', ''SPII''} then ''content_filter''
      else ''stop'')"

text \<open>A part is its text and its function call: the id, the name and the arguments.\<close>

definition google_part_of :: "json \<Rightarrow> err + string \<times> (string \<times> string \<times> (string \<times> json) list option) option" where
  "google_part_of v =
     bindE (dec_struct v) (\<lambda>part.
     bindE (dec_string (field part ''text'')) (\<lambda>text.
     case field part (ToLower ''functionCall'') of
       None \<Rightarrow> Inr (text, None)
     | Some JNull \<Rightarrow> Inr (text, None)
     | Some c \<Rightarrow>
         bindE (dec_struct c) (\<lambda>call.
         bindE (dec_string (field call ''id'')) (\<lambda>id.
         bindE (dec_string (field call ''name'')) (\<lambda>name.
         bindE (dec_map (field call ''args'')) (\<lambda>args. Inr (text, Some (id, name, args))))))))"

fun google_calls :: "((string \<times> json) list \<Rightarrow> string) \<Rightarrow> nat \<Rightarrow> (string \<times> string \<times> (string \<times> json) list option) list \<Rightarrow> tool_call list" where
  "google_calls marshal i [] = []"
| "google_calls marshal i ((cid, name, args) # cs) =
     \<lparr>tc_id = (if cid = [] then ''call_google_'' @ nat_str i else cid), tc_name = name,
      tc_arguments = (case args of None \<Rightarrow> ''{}'' | Some m \<Rightarrow> marshal m)\<rparr> # google_calls marshal (i + 1) cs"

text \<open>Only the first candidate is used, the others are decoded.\<close>

definition google_candidate :: "((string \<times> json) list \<Rightarrow> string) \<Rightarrow> json \<Rightarrow> err + assembled_message" where
  "google_candidate marshal v =
     bindE (dec_struct v) (\<lambda>cand.
     bindE (sub_struct (field cand ''content'')) (\<lambda>content.
     bindE (bindE (dec_list (field content ''parts'')) (mapE google_part_of)) (\<lambda>parts.
     bindE (dec_string (field cand (ToLower ''finishReason''))) (\<lambda>reason.
     Inr \<lparr>am_content = concat (map fst parts),
          am_tool_calls = google_calls marshal 0 (List.map_filter snd parts),
          am_finish_reason = MapGoogleFinishReason reason\<rparr>))))"

definition google_finish :: "assembled_message \<Rightarrow> assembled_message" where
  "google_finish msg =
     msg\<lparr>am_finish_reason :=
       (if am_finish_reason msg = [] then (if am_tool_calls msg \<noteq> [] then ''tool_calls'' else ''stop'')
        else if am_tool_calls msg \<noteq> [] \<and> am_finish_reason msg = ''stop'' then ''tool_calls'' else am_finish_reason msg)\<rparr>"

definition parseGoogleGenerateContentResponse ::
  "((string \<times> json) list \<Rightarrow> string) \<Rightarrow> json option \<Rightarrow> err + assembled_message \<times> provider_usage" where
  "parseGoogleGenerateContentResponse marshal body =
     bindE (of_option json_error body) (\<lambda>v. bindE (dec_struct v) (\<lambda>resp.
     bindE (bindE (dec_list (field resp ''candidates'')) (mapE (google_candidate marshal))) (\<lambda>cands.
     bindE (sub_struct (field resp (ToLower ''usageMetadata''))) (\<lambda>u.
     bindE (dec_u64 (field u (ToLower ''promptTokenCount''))) (\<lambda>prompt.
     bindE (dec_u64 (field u (ToLower ''candidatesTokenCount''))) (\<lambda>candidates.
     bindE (dec_u64 (field u (ToLower ''totalTokenCount''))) (\<lambda>total_tokens.
     bindE (dec_u64 (field u (ToLower ''cachedContentTokenCount''))) (\<lambda>cached.
     bindE (dec_u64 (field u (ToLower ''thoughtsTokenCount''))) (\<lambda>thoughts.
     bindE (dec_u64 (field u (ToLower ''toolUsePromptTokenCount''))) (\<lambda>tool_use.
     Inr (google_finish (case cands of [] \<Rightarrow> no_message | c # _ \<Rightarrow> c),
          \<lparr>pu_input = prompt, pu_output = candidates, pu_cached_input = cached, pu_cache_write_input = 0,
           pu_reasoning = thoughts, pu_tool_use_prompt = tool_use, pu_image_input = 0, pu_image_output = 0,
           pu_total = (if total_tokens = 0 then prompt + candidates else total_tokens),
           pu_reasoning_in_output = False\<rparr>)))))))))))"

subsection \<open>Public results\<close>

definition details_key :: "u64 \<Rightarrow> string \<Rightarrow> string \<Rightarrow> (string \<times> json) list" where
  "details_key n k sub = key_if (0 < n) k (JObj [(sub, ju64 n)])"

definition chatUsageMap :: "provider_usage \<Rightarrow> json" where
  "chatUsageMap u =
     JObj ([(''prompt_tokens'', ju64 (pu_input u)), (''completion_tokens'', ju64 (pu_output u)), (''total_tokens'', ju64 (pu_total u))] @
       details_key (pu_cached_input u) ''prompt_tokens_details'' ''cached_tokens'' @
       details_key (pu_reasoning u) ''completion_tokens_details'' ''reasoning_tokens'')"

definition responsesUsageMap :: "provider_usage \<Rightarrow> json" where
  "responsesUsageMap u =
     JObj ([(''input_tokens'', ju64 (pu_input u)), (''output_tokens'', ju64 (pu_output u)), (''total_tokens'', ju64 (pu_total u))] @
       details_key (pu_cached_input u) ''input_tokens_details'' ''cached_tokens'' @
       details_key (pu_reasoning u) ''output_tokens_details'' ''reasoning_tokens'')"

text \<open>\<open>now\<close> is \<open>time.Now()\<close>.\<close>

definition BuildChatCompletionsResult ::
  "gotime \<Rightarrow> string \<Rightarrow> string \<Rightarrow> int \<Rightarrow> assembled_message \<Rightarrow> provider_usage option \<Rightarrow> json" where
  "BuildChatCompletionsResult now id0 model created0 msg usage =
     (let created = (if created0 = 0 then now div 1000000000 else created0);
          id = (if id0 = [] then ''chatcmpl-'' @ int_str created else id0);
          calls = am_tool_calls msg;
          content = (if calls \<noteq> [] \<and> am_content msg = [] then JNull else JStr (am_content msg));
          message = JObj ([(''role'', JStr ''assistant''), (''content'', content)] @
            key_if (calls \<noteq> []) ''tool_calls'' (JArr (map openAI_tool_call calls)));
          finish = (if am_finish_reason msg = [] then (if calls \<noteq> [] then ''tool_calls'' else ''stop'') else am_finish_reason msg) in
      JObj ([(''id'', JStr id), (''object'', JStr ''chat.completion''), (''created'', jint created), (''model'', JStr model),
             (''choices'', JArr [JObj [(''index'', jint 0), (''message'', message), (''finish_reason'', JStr finish)]])] @
            opt_key ''usage'' (map_option chatUsageMap usage)))"

definition responsesToolOutputIndex :: "nat \<Rightarrow> int" where
  "responsesToolOutputIndex toolIndex = 1 + int toolIndex"

definition BuildResponsesResult :: "gotime \<Rightarrow> string \<Rightarrow> string \<Rightarrow> assembled_message \<Rightarrow> provider_usage option \<Rightarrow> json" where
  "BuildResponsesResult now id0 model msg usage =
     (let id = (if id0 = [] then ''resp_'' @ int_str now else id0); calls = am_tool_calls msg;
          text = (if am_content msg \<noteq> [] \<or> calls = [] then
            [JObj [(''type'', JStr ''message''), (''id'', JStr (id @ ''_msg'')), (''role'', JStr ''assistant''),
                   (''status'', JStr ''completed''),
                   (''content'', JArr [JObj [(''type'', JStr ''output_text''), (''text'', JStr (am_content msg))]])]] else []);
          call = (\<lambda>(i, tc). JObj [(''type'', JStr ''function_call''), (''id'', JStr (tc_id tc)), (''call_id'', JStr (tc_id tc)),
            (''name'', JStr (tc_name tc)), (''arguments'', JStr (tc_arguments tc)), (''status'', JStr ''completed''),
            (''index'', jint (responsesToolOutputIndex i))]) in
      JObj ([(''id'', JStr id), (''object'', JStr ''response''), (''status'', JStr ''completed''), (''model'', JStr model),
             (''output'', JArr (text @ map call (enumerate 0 calls)))] @
            opt_key ''usage'' (map_option responsesUsageMap usage)))"

definition BuildPublicResult ::
  "gotime \<Rightarrow> task_api_type \<Rightarrow> string \<Rightarrow> string \<Rightarrow> int \<Rightarrow> assembled_message \<Rightarrow> provider_usage option \<Rightarrow> json" where
  "BuildPublicResult now apiType rid model created msg usage =
     (if apiType = TaskAPITypeResponses then BuildResponsesResult now rid model msg usage
      else BuildChatCompletionsResult now rid model created msg usage)"

text \<open>\<open>None\<close> is an empty result.\<close>

definition RewritePublicResultID :: "json option option \<Rightarrow> string \<Rightarrow> err + json option option" where
  "RewritePublicResultID result publicID =
     (case result of
        None \<Rightarrow> Inr None
      | Some body \<Rightarrow>
          if publicID = [] then Inr result
          else (case body of
            Some JNull \<Rightarrow> Inl (ErrMsg ''panic: assignment to entry in nil map'')
          | Some (JObj payload) \<Rightarrow> Inr (Some (Some (JObj ((''id'', JStr publicID) # filter (\<lambda>e. fst e \<noteq> ''id'') payload))))
          | _ \<Rightarrow> Inl json_error))"

end
