(* ===== verification/Convert_Correctness.thy ===== *)
theory Convert_Correctness
  imports Provider_Convert
begin

text \<open>
  What the providers are sent is what the client asked for: the OpenAI body read back gives the request
  again, and the Anthropic body keeps every block in its place.
\<close>

subsection \<open>Looking up the keys of a built object\<close>

named_theorems field_simps_json \<open>fields of concatenated objects\<close>

definition or_else :: "'a option \<Rightarrow> 'a option \<Rightarrow> 'a option" where
  "or_else a b = (case a of Some v \<Rightarrow> Some v | None \<Rightarrow> b)"

lemma or_else_simps [field_simps_json]:
  "or_else None b = b" "or_else (Some v) b = Some v" "or_else a None = a"
  by (simp_all add: or_else_def split: option.split)

lemma field_append [field_simps_json]: "field (xs @ ys) k = or_else (field ys k) (field xs k)"
  by (simp add: field_def map_add_def or_else_def split: option.split)

lemma field_Nil [field_simps_json]: "field [] k = None" by (simp add: field_def)

lemma field_Cons [field_simps_json]: "field ((k', v) # xs) k = or_else (field xs k) (if ToLower k' = k then Some v else None)"
  by (auto simp: field_def map_add_def or_else_def split: option.split)

lemma field_key_if [field_simps_json]: "field (key_if c k' v) k = (if c \<and> ToLower k' = k then Some v else None)"
  by (simp add: key_if_def field_def)

lemma field_opt_key [field_simps_json]: "field (opt_key k' v) k = (if ToLower k' = k then v else None)"
  by (cases v) (simp_all add: opt_key_def field_def)

lemma field_float_key [field_simps_json]:
  "field (float_key fmt k' v) k = (if ToLower k' = k then map_option (\<lambda>x. JNum (fmt x)) v else None)"
  by (cases v) (simp_all add: float_key_def field_def)

lemma dec_struct_obj: "dec_struct (JObj obj) = Inr obj" by (simp add: dec_struct_def)

lemma lower_keys [field_simps_json]:
  "ToLower ''role'' = ''role''" "ToLower ''name'' = ''name''" "ToLower ''content'' = ''content''"
  "ToLower ''tool_call_id'' = ''tool_call_id''" "ToLower ''tool_calls'' = ''tool_calls''" "ToLower ''id'' = ''id''"
  "ToLower ''type'' = ''type''" "ToLower ''function'' = ''function''" "ToLower ''arguments'' = ''arguments''"
  "ToLower ''url'' = ''url''" "ToLower ''detail'' = ''detail''" "ToLower ''description'' = ''description''"
  "ToLower ''parameters'' = ''parameters''" "ToLower ''model'' = ''model''" "ToLower ''stream'' = ''stream''"
  "ToLower ''max_completion_tokens'' = ''max_completion_tokens''" "ToLower ''temperature'' = ''temperature''"
  "ToLower ''top_p'' = ''top_p''" "ToLower ''stop'' = ''stop''" "ToLower ''response_format'' = ''response_format''"
  "ToLower ''parallel_tool_calls'' = ''parallel_tool_calls''" "ToLower ''stream_options'' = ''stream_options''"
  "ToLower ''messages'' = ''messages''" "ToLower ''tools'' = ''tools''" "ToLower ''tool_choice'' = ''tool_choice''"
  "ToLower ''reasoning_effort'' = ''reasoning_effort''"
  by code_simp+

lemma mapE_map: "\<forall>x \<in> set xs. f (g x) = Inr (h x) \<Longrightarrow> mapE f (map g xs) = Inr (map h xs)"
  by (induction xs) (simp_all add: bindE_def)

subsection \<open>Messages\<close>

text \<open>The message as OpenAI is told it: text parts are joined unless there are images, only user messages have images.\<close>

definition norm_message :: "canonical_message \<Rightarrow> canonical_message" where
  "norm_message m =
     (if cm_role m = ''tool'' then m\<lparr>cm_parts := TextOnlyParts (message_text m), cm_tool_calls := []\<rparr>
      else if cm_role m = ''assistant'' then m\<lparr>cm_parts := TextOnlyParts (message_text m), cm_tool_call_id := []\<rparr>
      else m\<lparr>cm_parts := (if HasImages m then filter (\<lambda>p. cp_type p = CanonicalPartText \<longrightarrow> cp_text p \<noteq> []) (cm_parts m)
                        else TextOnlyParts (message_text m)),
             cm_tool_calls := [], cm_tool_call_id := []\<rparr>)"

definition part_ok :: "content_part \<Rightarrow> bool" where
  "part_ok p \<longleftrightarrow>
     p = text_part (cp_text p) \<or>
     (cp_type p = CanonicalPartImage \<and> cp_text p = [] \<and> cp_mime_type p \<in> set allowedImageMIMETypes \<and> cp_data p \<noteq> [] \<and>
      (\<exists>b. DecodeBase64Payload (cp_data p) = Inr b))"

lemma chat_tool_call_roundtrip: "chat_tool_call (openAI_tool_call tc) = Inr tc"
  by (simp add: chat_tool_call_def openAI_tool_call_def dec_struct_def dec_string_def bindE_def field_simps_json)

lemma image_url_roundtrip:
  assumes "mime \<in> set allowedImageMIMETypes" "data \<noteq> []" "DecodeBase64Payload data = Inr b"
  shows "ParseImageDataURL (FormatImageDataURL mime data) = Inr \<lparr>du_mime_type = mime, du_data = data\<rparr>"
proof -
  have go: "ParseImageDataURL (pre @ CHR '','' # data) = Inr \<lparr>du_mime_type = m, du_data = data\<rparr>"
    if pre: "list_all (\<lambda>d. d \<noteq> CHR '','') pre" "ToLower pre = pre" "HasPrefix pre ''data:''" "contains_text pre '';base64''"
      "(case IndexByte (CHR '';'') (TrimPrefix pre ''data:'') of Some i \<Rightarrow> take i (TrimPrefix pre ''data:'') | None \<Rightarrow> TrimPrefix pre ''data:'') = m"
      "TrimSpace m = m" for pre m
  proof -
    obtain r where r: "pre = ''data:'' @ r" using pre(3) by (metis HasPrefix_def append_take_drop_id)
    have "takeWhile (\<lambda>d. d \<noteq> CHR '','') (pre @ CHR '','' # data) = pre"
      using pre(1) by (subst takeWhile_append2) (auto simp: list_all_iff)
    then have "IndexByte (CHR '','') (pre @ CHR '','' # data) = Some (length pre)"
      by (simp add: IndexByte_def Let_def)
    moreover have "\<not> HasPrefix (ToLower (pre @ CHR '','' # data)) ''http://''" "\<not> HasPrefix (ToLower (pre @ CHR '','' # data)) ''https://''"
      by (simp_all add: r HasPrefix_def ToLower_def lower_char_def)
    moreover have "pre \<noteq> []" by (simp add: r)
    ultimately show ?thesis using pre(2-6) assms(2,3) by (simp add: ParseImageDataURL_def Let_def)
  qed
  have "ParseImageDataURL (''data:image/jpeg;base64'' @ CHR '','' # data) = Inr \<lparr>du_mime_type = ''image/jpeg'', du_data = data\<rparr>"
    "ParseImageDataURL (''data:image/png;base64'' @ CHR '','' # data) = Inr \<lparr>du_mime_type = ''image/png'', du_data = data\<rparr>"
    "ParseImageDataURL (''data:image/webp;base64'' @ CHR '','' # data) = Inr \<lparr>du_mime_type = ''image/webp'', du_data = data\<rparr>"
    by (rule go; code_simp)+
  with assms(1) show ?thesis by (auto simp: FormatImageDataURL_def allowedImageMIMETypes_def)
qed

lemma content_item_roundtrip:
  assumes "part_ok p"
  shows "\<exists>obj. openAI_part p = [JObj obj] \<and> content_item obj =
    Inr (if cp_type p = CanonicalPartText \<longrightarrow> cp_text p \<noteq> [] then [p] else [])"
  using assms unfolding part_ok_def
proof (elim disjE conjE exE)
  assume "p = text_part (cp_text p)"
  then obtain t where "p = text_part t" by blast
  then show ?thesis by (simp add: openAI_part_def text_part_def content_item_def as_string_def Let_def TextOnlyParts_def)
next
  fix b assume i: "cp_type p = CanonicalPartImage" "cp_text p = []" "cp_mime_type p \<in> set allowedImageMIMETypes" "cp_data p \<noteq> []"
    "DecodeBase64Payload (cp_data p) = Inr b"
  obtain mime data detail where p: "p = \<lparr>cp_type = CanonicalPartImage, cp_text = [], cp_mime_type = mime, cp_data = data, cp_detail = detail\<rparr>"
    using i(1,2) by (cases p) simp
  with image_url_roundtrip [OF i(3-5)] show ?thesis
    by (simp add: p openAI_part_def content_item_def as_string_def Let_def dec_struct_def dec_string_def bindE_def
        field_simps_json parseCanonicalImagePart_def)
qed

lemma content_roundtrip:
  assumes "\<forall>p \<in> set ps. part_ok p"
  shows "parseContentParts (Some (JArr (concat (map openAI_part ps)))) = Inr (filter (\<lambda>p. cp_type p = CanonicalPartText \<longrightarrow> cp_text p \<noteq> []) ps)"
proof -
  have "\<exists>objs parts. mapE dec_struct (concat (map openAI_part ps)) = Inr objs \<and> mapE content_item objs = Inr parts \<and>
      concat parts = filter (\<lambda>p. cp_type p = CanonicalPartText \<longrightarrow> cp_text p \<noteq> []) ps"
    using assms
  proof (induction ps)
    case (Cons p ps)
    then obtain objs parts where ih: "mapE dec_struct (concat (map openAI_part ps)) = Inr objs" "mapE content_item objs = Inr parts"
      "concat parts = filter (\<lambda>p. cp_type p = CanonicalPartText \<longrightarrow> cp_text p \<noteq> []) ps" by auto
    from Cons.prems content_item_roundtrip [of p] obtain obj where obj: "openAI_part p = [JObj obj]"
      "content_item obj = Inr (if cp_type p = CanonicalPartText \<longrightarrow> cp_text p \<noteq> [] then [p] else [])" by auto
    from ih obj show ?case
      by (intro exI [of _ "obj # objs"] exI [of _ "(if cp_type p = CanonicalPartText \<longrightarrow> cp_text p \<noteq> [] then [p] else []) # parts"])
        (simp add: bindE_def dec_struct_obj)
  qed simp
  then show ?thesis by (auto simp: parseContentParts_def bindE_def)
qed

lemma content_of_string: "parseContentParts (Some (JStr s)) = Inr (TextOnlyParts s)"
  by (simp add: parseContentParts_def)

lemma content_of_null: "parseContentParts (Some JNull) = Inr []" by (simp add: parseContentParts_def)

lemma message_roundtrip:
  assumes "\<forall>p \<in> set (cm_parts m). part_ok p"
  shows "parseChatMessage (openAI_message m) = Inr (norm_message m)"
proof -
  have calls: "mapE chat_tool_call (map openAI_tool_call tcs) = Inr tcs" for tcs
    using mapE_map [of tcs chat_tool_call openAI_tool_call "\<lambda>x. x"] by (simp add: chat_tool_call_roundtrip)
  have e: "TextOnlyParts [] = []" by (simp add: TextOnlyParts_def)
  consider (tool) "cm_role m = ''tool''" | (assistant) "cm_role m = ''assistant''" | (user) "cm_role m \<noteq> ''tool''" "cm_role m \<noteq> ''assistant''" by blast
  then show ?thesis
  proof cases
    case tool
    then show ?thesis
      by (simp add: parseChatMessage_def openAI_message_def dec_struct_def dec_string_def dec_list_def bindE_def field_simps_json
          content_of_string norm_message_def)
  next
    case assistant
    then show ?thesis
      by (cases "cm_tool_calls m = []"; cases "message_text m = []")
        (simp_all add: parseChatMessage_def openAI_message_def dec_struct_def dec_string_def dec_list_def bindE_def field_simps_json
          content_of_string content_of_null norm_message_def calls e)
  next
    case user
    then show ?thesis
      using content_roundtrip [OF assms]
      by (simp add: parseChatMessage_def openAI_message_def openAIChatContent_def dec_struct_def dec_string_def dec_list_def bindE_def
          field_simps_json content_of_string norm_message_def)
  qed
qed

subsection \<open>Requests\<close>

lemma jint_roundtrip: "- (2 ^ 63) \<le> n \<Longrightarrow> n < 2 ^ 63 \<Longrightarrow> dec_int_ptr (Some (jint n)) = Inr (Some n)"
  by (simp add: dec_num_ptr_def jint_def num_int_def bigint_set_string_int_str)

definition tool_ok :: "canonical_tool \<Rightarrow> bool" where
  "tool_ok t \<longleftrightarrow> any_ok (JObj (ct_parameters t))"

lemma tool_roundtrip: "tool_ok t \<Longrightarrow> parseChatTool (openAI_tool t) = Inr t"
  by (simp add: tool_ok_def parseChatTool_def tool_of_def openAI_tool_def dec_struct_def dec_string_def dec_map_def bindE_def
      rejectIf_def field_simps_json)

text \<open>The choice as OpenAI is told it.\<close>

definition norm_choice :: "json option \<Rightarrow> json" where
  "norm_choice c = (case c of None \<Rightarrow> JNull | Some v \<Rightarrow> v)"

lemma choice_any_ok: "mapOpenAIChatToolChoice v = Inr c \<Longrightarrow> any_ok (norm_choice c)"
  by (cases v) (auto simp: mapOpenAIChatToolChoice_def norm_choice_def Let_def bindE_def split: if_splits sum.splits)

definition float_ok :: "(f64 \<Rightarrow> string) \<Rightarrow> f64 option \<Rightarrow> bool" where
  "float_ok fmt_float v \<longleftrightarrow> (case v of None \<Rightarrow> True | Some x \<Rightarrow> num_f64 (fmt_float x) = Some x)"

lemma float_roundtrip: "float_ok fmt v \<Longrightarrow> dec_f64_ptr (map_option (\<lambda>x. JNum (fmt x)) v) = Inr v"
  by (cases v) (simp_all add: float_ok_def dec_num_ptr_def)

text \<open>
  A request as the readers make it: the free-form values are JSON, the effort is a known one, \<open>max_tokens\<close> is a positive
  \<open>int\<close>, the images are base64 of an allowed type. \<open>fmt_float\<close> prints its numbers so that they read back.
\<close>

definition request_ok :: "(f64 \<Rightarrow> string) \<Rightarrow> canonical_request \<Rightarrow> bool" where
  "request_ok fmt_float req \<longleftrightarrow>
     0 < cq_max_tokens req \<and> cq_max_tokens req < 2 ^ 63 \<and>
     float_ok fmt_float (cq_temperature req) \<and> float_ok fmt_float (cq_top_p req) \<and>
     any_ok (cq_stop req) \<and> (case cq_response_format req of None \<Rightarrow> True | Some f \<Rightarrow> any_ok (JObj f)) \<and>
     (\<forall>t \<in> set (cq_tools req). tool_ok t) \<and>
     (\<forall>m \<in> set (cq_messages req). \<forall>p \<in> set (cm_parts m). part_ok p) \<and>
     (cq_reasoning_effort req = [] \<or> cq_reasoning_effort req \<in> set AllowedReasoningEffortValues)"

lemma effort_roundtrip:
  assumes "e = [] \<or> e \<in> set AllowedReasoningEffortValues"
  shows "ValidateReasoningEffort name e = Inr e"
proof -
  have "TrimSpace e = e" if "e \<in> set (AllowedReasoningEffortValues)"
    using that unfolding AllowedReasoningEffortValues_def by (auto; code_simp)
  moreover have "TrimSpace [] = []" by (simp add: TrimSpace_def)
  ultimately show ?thesis using assms by (auto simp: ValidateReasoningEffort_def Let_def)
qed

lemma openai_roundtrip:
  assumes "request_ok fmt_float req" "convertCanonicalToOpenAIChat fmt_float req = Inr body"
  shows "\<exists>choice. mapOpenAIChatToolChoice (cq_tool_choice req) = Inr choice \<and>
    parseChatAsCanonical (Some body) (cq_model req) n =
      Inr (req\<lparr>cq_messages := map norm_message (cq_messages req), cq_tool_choice := norm_choice choice, cq_typed_nil := False\<rparr>)"
proof -
  obtain choice where c: "mapOpenAIChatToolChoice (cq_tool_choice req) = Inr choice"
    using assms(2) by (auto simp: convertCanonicalToOpenAIChat_def bindE_def split: sum.splits)
  note r = assms(1) [unfolded request_ok_def]
  define obj where "obj = [(''model'', JStr (cq_model req)), (''stream'', JBool (cq_stream req))] @
    key_if (0 < cq_max_tokens req) ''max_completion_tokens'' (jint (cq_max_tokens req)) @
    float_key fmt_float ''temperature'' (cq_temperature req) @ float_key fmt_float ''top_p'' (cq_top_p req) @
    key_if (cq_stop req \<noteq> JNull) ''stop'' (cq_stop req) @ opt_key ''response_format'' (map_option JObj (cq_response_format req)) @
    opt_key ''parallel_tool_calls'' (map_option JBool (cq_parallel_tool_calls req)) @
    key_if (cq_stream req) ''stream_options'' (JObj [(''include_usage'', JBool True)]) @
    [(''messages'', JArr (map openAI_message (cq_messages req)))] @
    key_if (cq_tools req \<noteq> []) ''tools'' (JArr (map openAI_tool (cq_tools req))) @ opt_key ''tool_choice'' choice @
    key_if (cq_reasoning_effort req \<noteq> []) ''reasoning_effort'' (JStr (cq_reasoning_effort req))"
  have obj: "body = JObj obj" using assms(2) c by (simp add: convertCanonicalToOpenAIChat_def bindE_def obj_def)
  have fields: "field obj ''messages'' = Some (JArr (map openAI_message (cq_messages req)))"
    "field obj ''tools'' = (if cq_tools req \<noteq> [] then Some (JArr (map openAI_tool (cq_tools req))) else None)"
    "field obj ''tool_choice'' = choice" "field obj ''max_tokens'' = None"
    "field obj ''max_completion_tokens'' = Some (jint (cq_max_tokens req))"
    "field obj ''temperature'' = map_option (\<lambda>x. JNum (fmt_float x)) (cq_temperature req)"
    "field obj ''top_p'' = map_option (\<lambda>x. JNum (fmt_float x)) (cq_top_p req)"
    "field obj ''stop'' = (if cq_stop req \<noteq> JNull then Some (cq_stop req) else None)"
    "field obj ''stream'' = Some (JBool (cq_stream req))"
    "field obj ''response_format'' = map_option JObj (cq_response_format req)"
    "field obj ''parallel_tool_calls'' = map_option JBool (cq_parallel_tool_calls req)"
    "field obj ''reasoning_effort'' = (if cq_reasoning_effort req \<noteq> [] then Some (JStr (cq_reasoning_effort req)) else None)"
    unfolding obj_def using r by (simp_all add: field_simps_json)
  have msgs: "mapE parseChatMessage (map openAI_message (cq_messages req)) = Inr (map norm_message (cq_messages req))"
    using r by (intro mapE_map) (auto intro: message_roundtrip)
  have tools: "mapE parseChatTool (map openAI_tool (cq_tools req)) = Inr (cq_tools req)"
    using r mapE_map [of "cq_tools req" parseChatTool openAI_tool "\<lambda>x. x"] by (simp add: tool_roundtrip)
  have dec: "dec_any choice = Inr (norm_choice choice)"
    using choice_any_ok [OF c] by (cases choice) (simp_all add: dec_any_def norm_choice_def)
  have dec2: "dec_any (field obj ''stop'') = Inr (cq_stop req)" using r by (auto simp: fields dec_any_def)
  have dec3: "dec_map (field obj ''response_format'') = Inr (cq_response_format req)"
    using r by (cases "cq_response_format req") (simp_all add: fields dec_map_def)
  have dec4: "dec_bool_ptr (field obj ''parallel_tool_calls'') = Inr (cq_parallel_tool_calls req)"
    by (cases "cq_parallel_tool_calls req") (simp_all add: fields dec_bool_ptr_def)
  have dec5: "dec_bool (field obj ''stream'') = Inr (cq_stream req)" by (simp add: fields dec_bool_def dec_bool_ptr_def bindE_def)
  have dec6: "dec_string (field obj ''reasoning_effort'') = Inr (cq_reasoning_effort req)" by (simp add: fields dec_string_def)
  have dec7: "dec_list (field obj ''messages'') = Inr (map openAI_message (cq_messages req))"
    "dec_list (field obj ''tools'') = Inr (map openAI_tool (cq_tools req))" by (simp_all add: fields dec_list_def)
  have dec8: "dec_int_ptr (field obj ''max_tokens'') = Inr None"
    "dec_int_ptr (field obj ''max_completion_tokens'') = Inr (Some (cq_max_tokens req))"
    using r jint_roundtrip [of "cq_max_tokens req"] by (simp_all add: fields dec_num_ptr_def)
  have dec9: "dec_f64_ptr (field obj ''temperature'') = Inr (cq_temperature req)" "dec_f64_ptr (field obj ''top_p'') = Inr (cq_top_p req)"
    using r float_roundtrip by (simp_all add: fields)
  have effort: "ValidateReasoningEffort ''reasoning_effort'' (cq_reasoning_effort req) = Inr (cq_reasoning_effort req)"
    using r by (intro effort_roundtrip) blast
  have "parseChatAsCanonical (Some body) (cq_model req) n =
      Inr (req\<lparr>cq_messages := map norm_message (cq_messages req), cq_tool_choice := norm_choice choice, cq_typed_nil := False\<rparr>)"
    unfolding parseChatAsCanonical_def obj
    using r by (simp add: of_option_def bindE_def dec_struct_def fields(3) dec dec2 dec3 dec4 dec5 dec6 dec7 dec8 dec9 effort msgs tools positive_or_def)
  with c show ?thesis by blast
qed

subsection \<open>The readers make such requests\<close>

lemma mapE_elem: "mapE f xs = Inr ys \<Longrightarrow> y \<in> set ys \<Longrightarrow> \<exists>x \<in> set xs. f x = Inr y"
  by (induction xs arbitrary: ys) (auto simp: res_simps)

text \<open>Before the images are checked their types are unknown.\<close>

definition part_read :: "content_part \<Rightarrow> bool" where
  "part_read p \<longleftrightarrow>
     p = text_part (cp_text p) \<or>
     (cp_type p = CanonicalPartImage \<and> cp_text p = [] \<and> cp_data p \<noteq> [] \<and> (\<exists>b. DecodeBase64Payload (cp_data p) = Inr b))"

lemma text_parts_read: "p \<in> set (TextOnlyParts s) \<Longrightarrow> part_read p"
  by (auto simp: TextOnlyParts_def part_read_def text_part_def split: if_splits)

lemma image_part_read:
  assumes "parseCanonicalImagePart url detail = Inr p"
  shows "part_read p"
proof -
  obtain parsed where d: "ParseImageDataURL url = Inr parsed"
    and p: "p = \<lparr>cp_type = CanonicalPartImage, cp_text = [], cp_mime_type = du_mime_type parsed, cp_data = du_data parsed, cp_detail = detail\<rparr>"
    using assms by (auto simp: parseCanonicalImagePart_def res_simps)
  from d obtain comma where c: "IndexByte (CHR '','') url = Some comma" "comma \<noteq> length url - 1" "du_data parsed = drop (comma + 1) url"
    "\<exists>b. DecodeBase64Payload (du_data parsed) = Inr b"
    by (auto simp: ParseImageDataURL_def Let_def split: if_splits option.splits sum.splits)
  have "comma < length url" using c(1) by (simp add: IndexByte_def Let_def split: if_splits)
  with c(2,3) have "du_data parsed \<noteq> []" by simp
  with c(4) show ?thesis by (simp add: part_read_def p)
qed

lemma content_read:
  assumes "parseContentParts raw = Inr ps" "p \<in> set ps"
  shows "part_read p"
proof -
  have item: "part_read q" if i: "content_item obj = Inr qs" "q \<in> set qs" for obj qs q
    using i by (auto simp: content_item_def Let_def res_simps split: if_splits option.splits sum.splits
        intro: text_parts_read) (erule image_part_read)+
  show ?thesis
  proof (cases raw)
    case (Some v)
    show ?thesis
    proof (cases v)
      case (JArr items)
      with assms Some obtain objs parts where o: "mapE dec_struct items = Inr objs" "mapE content_item objs = Inr parts" "ps = concat parts"
        by (auto simp: parseContentParts_def res_simps)
      from o(3) assms(2) obtain qs where q: "qs \<in> set parts" "p \<in> set qs" by auto
      from mapE_elem [OF o(2) q(1)] item q(2) show ?thesis by blast
    qed (use assms Some in \<open>auto simp: parseContentParts_def intro: text_parts_read\<close>)
  qed (use assms in \<open>simp add: parseContentParts_def\<close>)
qed

lemma chat_message_read: "parseChatMessage raw = Inr m \<Longrightarrow> p \<in> set (cm_parts m) \<Longrightarrow> part_read p"
  by (auto simp: parseChatMessage_def res_simps dest: content_read)

lemma response_item_read: "parseResponsesInputItem item = Inr m \<Longrightarrow> p \<in> set (cm_parts m) \<Longrightarrow> part_read p"
  by (auto simp: parseResponsesInputItem_def res_simps Let_def split: if_splits dest: content_read)

lemma response_input_read:
  assumes "parseResponsesInput input = Inr ms" "m \<in> set ms" "p \<in> set (cm_parts m)"
  shows "part_read p"
proof (cases input)
  case (JArr items)
  with assms obtain msgs where "mapE parseResponsesInputItem items = Inr msgs" "m \<in> set msgs"
    by (auto simp: parseResponsesInput_def res_simps)
  from mapE_elem [OF this] response_item_read assms(3) show ?thesis by blast
qed (use assms in \<open>auto simp: parseResponsesInput_def user_message_def intro: text_parts_read\<close>)

lemma dec_any_ok: "dec_any v = Inr x \<Longrightarrow> any_ok x"
  by (auto simp: dec_any_def split: option.splits if_splits)

lemma dec_map_ok: "dec_map v = Inr (Some m) \<Longrightarrow> any_ok (JObj m)"
  by (auto simp: dec_map_def split: option.splits json.splits if_splits)

lemma tool_read: "tool_of f typ = Inr t \<Longrightarrow> tool_ok t"
proof -
  assume "tool_of f typ = Inr t"
  then obtain name description parameters where p: "dec_map (field f ''parameters'') = Inr parameters"
    and t: "t = \<lparr>ct_name = name, ct_description = description,
      ct_parameters = (case parameters of None \<Rightarrow> default_parameters | Some p \<Rightarrow> p)\<rparr>"
    by (auto simp: tool_of_def res_simps)
  show ?thesis
    using dec_map_ok p by (cases parameters) (simp_all add: t tool_ok_def default_parameters_def)
qed

lemma num_int_range: "num_int s = Some i \<Longrightarrow> i < 2 ^ 63"
  by (auto simp: num_int_def split: option.splits if_splits)

lemma dec_int_range: "dec_int_ptr v = Inr (Some i) \<Longrightarrow> i < 2 ^ 63"
  by (auto simp: dec_num_ptr_def split: option.splits json.splits dest: num_int_range)

lemma effort_read: "ValidateReasoningEffort name v = Inr e \<Longrightarrow> e = [] \<or> e \<in> set AllowedReasoningEffortValues"
  by (auto simp: ValidateReasoningEffort_def Let_def split: if_splits)

lemma any_ok_part: "any_ok (JObj obj) \<Longrightarrow> map_of obj k = Some v \<Longrightarrow> any_ok v"
  by (auto simp: list_all_iff dest!: map_of_SomeD)

lemma as_map_ok: "any_ok (JObj obj) \<Longrightarrow> as_map (map_of obj k) = Some m \<Longrightarrow> any_ok (JObj m)"
  using any_ok_part [of obj k "JObj m"] by (auto simp: as_map_def split: option.splits json.splits)

lemma text_format_read:
  assumes "responsesTextFormat text = Some (f, t)" "\<And>m. text = Some m \<Longrightarrow> any_ok (JObj m)"
  shows "any_ok (JObj f)"
proof -
  obtain tm format where f: "text = Some tm" "as_map (map_of tm ''format'') = Some format"
    using assms(1) unfolding responsesTextFormat_def by (cases "text") (auto split: option.splits)
  from as_map_ok [OF assms(2) [OF f(1)] f(2)] have "any_ok (JObj format)" .
  from as_map_ok [OF this] show ?thesis
    using assms(1) f by (auto simp: responsesTextFormat_def Let_def split: if_splits option.splits)
qed

text \<open>What a reader makes, for a default \<open>n\<close> of \<open>max_tokens\<close>.\<close>

lemma request_read:
  assumes "ParseCanonicalRequest body model apiType n = Inr req" "0 < n" "n < 2 ^ 63"
    and fmt: "float_ok fmt_float (cq_temperature req)" "float_ok fmt_float (cq_top_p req)"
    and mime: "\<And>m p. m \<in> set (cq_messages req) \<Longrightarrow> p \<in> set (cm_parts m) \<Longrightarrow> cp_type p = CanonicalPartImage \<Longrightarrow>
      cp_mime_type p \<in> set allowedImageMIMETypes"
  shows "request_ok fmt_float req \<and> cq_model req = model"
proof -
  have pos: "0 < positive_or v k \<and> positive_or v k < 2 ^ 63" if "dec_int_ptr w = Inr v" "0 < k" "k < 2 ^ 63" for v w k
    using that dec_int_range [of w] by (cases v) (auto simp: positive_or_def)
  have parts: "part_ok p" if "part_read p" "m \<in> set (cq_messages req)" "p \<in> set (cm_parts m)" for m p
    using that mime by (auto simp: part_ok_def part_read_def)
  show ?thesis
  proof (cases "apiType = TaskAPITypeResponses")
    case True
    with assms(1) have p: "parseResponsesAsCanonical body model n = Inr req" by (simp add: ParseCanonicalRequest_def)
    then obtain raw input instructions tools maxOutputTokens temperature topP jtext effortValue msgs ts where r:
      "dec_int_ptr (field raw ''max_output_tokens'') = Inr maxOutputTokens" "dec_f64_ptr (field raw ''temperature'') = Inr temperature"
      "dec_f64_ptr (field raw ''top_p'') = Inr topP" "dec_map (field raw ''text'') = Inr jtext"
      "ValidateReasoningEffort ''reasoning.effort'' effortValue = Inr (cq_reasoning_effort req)"
      "parseResponsesInput input = Inr msgs" "mapE parseResponsesTool tools = Inr ts"
      "cq_model req = model" "cq_tools req = ts" "cq_max_tokens req = positive_or maxOutputTokens n" "cq_temperature req = temperature"
      "cq_top_p req = topP" "cq_stop req = JNull" "cq_response_format req = map_option fst (responsesTextFormat jtext)"
      "cq_messages req = (if instructions = [] then []
         else [\<lparr>cm_role = ''system'', cm_parts = TextOnlyParts instructions, cm_tool_calls = [], cm_tool_call_id = [], cm_name = []\<rparr>]) @ msgs"
      unfolding parseResponsesAsCanonical_def Let_def by (clarsimp simp: res_simps)
    have "\<forall>m \<in> set (cq_messages req). \<forall>p \<in> set (cm_parts m). part_read p"
      using response_input_read [OF r(6)] text_parts_read by (auto simp: r(15) split: if_splits)
    moreover have "\<forall>t \<in> set (cq_tools req). tool_ok t"
      using mapE_elem [OF r(7)] tool_read unfolding r(9) by (fastforce simp: parseResponsesTool_def res_simps)
    moreover have "case cq_response_format req of None \<Rightarrow> True | Some f \<Rightarrow> any_ok (JObj f)"
    proof (cases "responsesTextFormat jtext")
      case (Some ft)
      then have "any_ok (JObj (fst ft))" using text_format_read [of jtext "fst ft" "snd ft"] r(4) dec_map_ok by auto
      then show ?thesis by (simp add: r(14) Some)
    qed (simp add: r(14))
    ultimately show ?thesis
      unfolding request_ok_def using parts pos [OF r(1) assms(2,3)] fmt effort_read [OF r(5)]
      by (simp only: r(8,10,13) any_ok.simps) blast
  next
    case False
    with assms(1) have p: "parseChatAsCanonical body model n = Inr req" by (simp add: ParseCanonicalRequest_def)
    then obtain raw messages tools maxTokens maxCompletionTokens effort0 where r:
      "dec_any (field raw ''stop'') = Inr (cq_stop req)" "dec_int_ptr (field raw ''max_tokens'') = Inr maxTokens"
      "dec_int_ptr (field raw ''max_completion_tokens'') = Inr maxCompletionTokens"
      "dec_f64_ptr (field raw ''temperature'') = Inr (cq_temperature req)" "dec_f64_ptr (field raw ''top_p'') = Inr (cq_top_p req)"
      "dec_map (field raw ''response_format'') = Inr (cq_response_format req)"
      "ValidateReasoningEffort ''reasoning_effort'' effort0 = Inr (cq_reasoning_effort req)"
      "mapE parseChatMessage messages = Inr (cq_messages req)" "mapE parseChatTool tools = Inr (cq_tools req)"
      "cq_model req = model" "cq_max_tokens req = positive_or maxCompletionTokens (positive_or maxTokens n)"
      unfolding parseChatAsCanonical_def by (clarsimp simp: res_simps)
    have "\<forall>m \<in> set (cq_messages req). \<forall>p \<in> set (cm_parts m). part_read p"
      using mapE_elem [OF r(8)] chat_message_read by blast
    moreover have "\<forall>t \<in> set (cq_tools req). tool_ok t"
      using mapE_elem [OF r(9)] tool_read by (fastforce simp: parseChatTool_def res_simps)
    moreover have "case cq_response_format req of None \<Rightarrow> True | Some f \<Rightarrow> any_ok (JObj f)"
      using dec_map_ok r(6) by (cases "cq_response_format req") auto
    moreover have "0 < positive_or maxTokens n" "positive_or maxTokens n < 2 ^ 63" using pos [OF r(2) assms(2,3)] by auto
    ultimately show ?thesis
      unfolding request_ok_def
      using parts pos [OF r(3)] fmt effort_read [OF r(7)] dec_any_ok [OF r(1)]
      by (simp only: r(10,11)) blast
  qed
qed

lemma foldE_reached:
  assumes "foldE f xs s = Inr t" "x \<in> set xs"
  shows "\<exists>a b. f x a = Inr b"
  using assms by (induction xs arbitrary: s) (auto simp: res_simps)

lemma validated_types:
  assumes "ValidateCanonicalImages dc req maxBytes = Inr imgs" "m \<in> set (cq_messages req)" "p \<in> set (cm_parts m)"
    "cp_type p = CanonicalPartImage"
  shows "cp_mime_type p \<in> set allowedImageMIMETypes"
proof -
  obtain acc where "foldE (\<lambda>msg. foldE (validate_part dc maxBytes (cm_role msg)) (cm_parts msg)) (cq_messages req) ([], 0) = Inr acc"
    using assms(1) by (auto simp: ValidateCanonicalImages_def res_simps)
  from foldE_reached [OF this assms(2)] obtain a b where "foldE (validate_part dc maxBytes (cm_role m)) (cm_parts m) a = Inr b" by blast
  from foldE_reached [OF this assms(3)] obtain a b where "validate_part dc maxBytes (cm_role m) p a = Inr b" by blast
  with assms(4) show ?thesis by (auto simp: validate_part_def Let_def split: prod.splits if_splits)
qed

text \<open>
  C23. OpenAI is sent what the client asked for. A Chat Completions or Responses body that was read and whose
  images were accepted is turned into a Chat Completions body; read again, that body gives the same request: model, tools,
  limits, stop sequences, response format, effort, and every message in its place with its texts, images and
  tool calls, the texts of a message without images joined (\<open>norm_message\<close>) and the tool choice in
  its canonical form.
\<close>

theorem openai_request_roundtrip:
  assumes "ParseCanonicalRequest (Some doc) model apiType n = Inr req" "0 < n" "n < 2 ^ 63"
    "ValidateCanonicalImages decode_config req maxBytes = Inr imgs"
    "float_ok fmt_float (cq_temperature req)" "float_ok fmt_float (cq_top_p req)"
    "convertCanonicalToOpenAIChat fmt_float req = Inr body"
  shows "\<exists>choice. mapOpenAIChatToolChoice (cq_tool_choice req) = Inr choice \<and>
    ParseCanonicalRequest (Some body) model TaskAPITypeChatCompletions n =
      Inr (req\<lparr>cq_messages := map norm_message (cq_messages req), cq_tool_choice := norm_choice choice, cq_typed_nil := False\<rparr>)"
proof -
  have "request_ok fmt_float req \<and> cq_model req = model"
    by (rule request_read [OF assms(1-3,5,6) validated_types [OF assms(4)]])
  with openai_roundtrip [OF _ assms(7), of n] show ?thesis by (simp add: ParseCanonicalRequest_def)
qed

text \<open>A conversation with a tool call, in which the temperature is given.\<close>

definition sample_doc :: json where
  "sample_doc = JObj
     [(''messages'', JArr
        [JObj [(''role'', JStr ''user''), (''content'', JStr ''hi'')],
         JObj [(''role'', JStr ''assistant''), (''tool_calls'', JArr
           [JObj [(''id'', JStr ''c1''), (''function'', JObj [(''name'', JStr ''f''), (''arguments'', JStr ''{}'')])]])],
         JObj [(''role'', JStr ''tool''), (''tool_call_id'', JStr ''c1''), (''content'', JStr ''ok'')]]),
      (''tool_choice'', JStr ''auto''), (''max_tokens'', JNum ''50''), (''stream'', JBool True)]"

definition sample_request :: canonical_request where
  "sample_request =
     \<lparr>cq_model = ''m'',
      cq_messages =
        [\<lparr>cm_role = ''user'', cm_parts = [text_part ''hi''], cm_tool_calls = [], cm_tool_call_id = [], cm_name = []\<rparr>,
         \<lparr>cm_role = ''assistant'', cm_parts = [], cm_tool_calls = [\<lparr>tc_id = ''c1'', tc_name = ''f'', tc_arguments = ''{}''\<rparr>],
          cm_tool_call_id = [], cm_name = []\<rparr>,
         \<lparr>cm_role = ''tool'', cm_parts = [text_part ''ok''], cm_tool_calls = [], cm_tool_call_id = ''c1'', cm_name = []\<rparr>],
      cq_tools = [], cq_tool_choice = JStr ''auto'', cq_max_tokens = 50, cq_temperature = None, cq_top_p = None,
      cq_stop = JNull, cq_stream = True, cq_response_format = None, cq_typed_nil = False, cq_parallel_tool_calls = None,
      cq_reasoning_effort = []\<rparr>"

lemma sample_read: "ParseCanonicalRequest (Some sample_doc) ''m'' TaskAPITypeChatCompletions 100 = Inr sample_request"
  by code_simp

theorem openai_request_roundtrip_witness:
  "\<exists>body. convertCanonicalToOpenAIChat (\<lambda>_. ''0'') sample_request = Inr body \<and>
     ParseCanonicalRequest (Some body) ''m'' TaskAPITypeChatCompletions 100 = Inr sample_request"
proof -
  obtain body where b: "convertCanonicalToOpenAIChat (\<lambda>_. ''0'') sample_request = Inr body"
    by (auto simp: convertCanonicalToOpenAIChat_def mapOpenAIChatToolChoice_def sample_request_def bindE_def)
  have v: "ValidateCanonicalImages (\<lambda>_. None) sample_request 0 = Inr []"
    by (simp add: ValidateCanonicalImages_def sample_request_def validate_part_def text_part_def bindE_def)
  have f: "float_ok (\<lambda>_. ''0'') (cq_temperature sample_request)" "float_ok (\<lambda>_. ''0'') (cq_top_p sample_request)"
    by (simp_all add: float_ok_def sample_request_def)
  have "map norm_message (cq_messages sample_request) = cq_messages sample_request" by code_simp
  moreover have "mapOpenAIChatToolChoice (cq_tool_choice sample_request) = Inr (Some (JStr ''auto''))" by code_simp
  moreover have "cq_tool_choice sample_request = JStr ''auto''" "cq_typed_nil sample_request = False"
    by (simp_all add: sample_request_def)
  moreover have "sample_request\<lparr>cq_messages := cq_messages sample_request, cq_tool_choice := cq_tool_choice sample_request,
      cq_typed_nil := cq_typed_nil sample_request\<rparr> = sample_request" by simp
  ultimately show ?thesis
    using openai_request_roundtrip [OF sample_read _ _ v f b] b by (auto simp: norm_choice_def)
qed

subsection \<open>Anthropic\<close>

text \<open>The blocks a message of the conversation becomes, and the blocks of a message of the body.\<close>

definition anthropic_blocks :: "(string \<Rightarrow> json option) \<Rightarrow> canonical_message \<Rightarrow> json list" where
  "anthropic_blocks unmarshal m =
     (if cm_role m \<in> {''system'', ''developer''} then []
      else if cm_role m = ''tool'' then [anthropic_tool_result m]
      else if cm_role m = ''assistant'' then anthropic_assistant unmarshal m
      else if HasImages m then concat (map anthropic_part (cm_parts m)) else [JStr (message_text m)])"

definition content_blocks :: "json \<Rightarrow> json list" where
  "content_blocks v =
     (case v of JObj obj \<Rightarrow> (case map_of obj ''content'' of Some (JArr bs) \<Rightarrow> bs | Some b \<Rightarrow> [b] | None \<Rightarrow> []) | _ \<Rightarrow> [])"

lemma role_blocks: "content_blocks (role_message r (JArr bs)) = bs" "content_blocks (role_message r (JStr s)) = [JStr s]"
  by (simp_all add: content_blocks_def role_message_def)

definition acc_blocks :: "anthropic_acc \<Rightarrow> json list" where
  "acc_blocks a = concat (map content_blocks (aa_messages a)) @ aa_pending a"

lemma flush_blocks [simp]: "acc_blocks (flushToolResults a) = acc_blocks a" "aa_pending (flushToolResults a) = []"
    "aa_system (flushToolResults a) = aa_system a"
  by (simp_all add: flushToolResults_def acc_blocks_def content_blocks_def role_message_def)

definition system_texts :: "canonical_message list \<Rightarrow> string list" where
  "system_texts ms = filter (\<lambda>t. t \<noteq> []) (map message_text (filter (\<lambda>m. cm_role m \<in> {''system'', ''developer''}) ms))"

lemma step_blocks:
  "acc_blocks (anthropic_step u m a) = acc_blocks a @ anthropic_blocks u m"
  "aa_system (anthropic_step u m a) = aa_system a @ system_texts [m]"
proof -
  have push: "acc_blocks (b\<lparr>aa_messages := aa_messages b @ [role_message r c]\<rparr>) = acc_blocks b @ content_blocks (role_message r c)"
    if "aa_pending b = []" for b r c using that by (simp add: acc_blocks_def)
  have sys: "acc_blocks (b\<lparr>aa_system := x\<rparr>) = acc_blocks b" for b x by (simp add: acc_blocks_def)
  have tool: "acc_blocks (a\<lparr>aa_pending := aa_pending a @ [x]\<rparr>) = acc_blocks a @ [x]" for x by (simp add: acc_blocks_def)
  show "acc_blocks (anthropic_step u m a) = acc_blocks a @ anthropic_blocks u m"
    by (auto simp: anthropic_step_def anthropic_blocks_def push sys tool Let_def role_blocks anthropicUserContent_def)
  show "aa_system (anthropic_step u m a) = aa_system a @ system_texts [m]"
    by (auto simp: anthropic_step_def Let_def system_texts_def)
qed

lemma messages_blocks:
  "acc_blocks (anthropic_messages u ms) = concat (map (anthropic_blocks u) ms)"
  "aa_pending (anthropic_messages u ms) = []"
  "aa_system (anthropic_messages u ms) = system_texts ms"
proof -
  have "acc_blocks (fold (anthropic_step u) ms a) = acc_blocks a @ concat (map (anthropic_blocks u) ms) \<and>
      aa_system (fold (anthropic_step u) ms a) = aa_system a @ system_texts ms" for a
    by (induction ms arbitrary: a) (auto simp: step_blocks system_texts_def)
  then show "acc_blocks (anthropic_messages u ms) = concat (map (anthropic_blocks u) ms)"
    "aa_system (anthropic_messages u ms) = system_texts ms"
    by (simp_all add: anthropic_messages_def) (simp add: acc_blocks_def)
  show "aa_pending (anthropic_messages u ms) = []" by (simp add: anthropic_messages_def)
qed



end
