(* ===== verification/Image_Requests.thy ===== *)
theory Image_Requests
  imports Provider_Convert
begin

text \<open>
  Images requests to the providers (\<open>provider/images_canonical.go\<close>, \<open>images_openai.go\<close>,
  \<open>images_google.go\<close>, the rebuilt body of \<open>api/llm/provider_images_handler.go\<close>) and their input tokens
  (\<open>service/provider_billing.go\<close>). A body is a JSON object. Uploaded forms are not modelled.
\<close>

subsection \<open>Requests\<close>

record canonical_image_url =
  iu_data_url :: string
  iu_mime_type :: string
  iu_base64 :: string
  iu_width :: int
  iu_height :: int

record canonical_images_request =
  iq_api_type :: task_api_type
  iq_prompt :: string
  iq_model :: string
  iq_n :: int
  iq_size :: string
  iq_quality :: string
  iq_response_format :: string
  iq_output_format :: string
  iq_output_compression :: "int option"
  iq_background :: string
  iq_moderation :: string
  iq_input_fidelity :: string
  iq_safety_identifier :: string
  iq_user :: string
  iq_queue_timeout :: "u64 option"
  iq_width :: int
  iq_height :: int
  iq_echo_size :: string
  iq_images :: "canonical_image_url list"
  iq_mask :: "canonical_image_url option"
  iq_markup :: "canonical_image_url option"
  iq_raw_fields :: "(string \<times> json) list"
  iq_unknown_fields :: "string list"
  iq_crynux_fields :: "string list"

definition imagesCrynuxExtensionFields :: "string list" where
  "imagesCrynuxExtensionFields =
     [''quantization_config'', ''components'', ''vram_limit'', ''dtype'', ''steps'', ''negative_prompt'', ''lora'', ''strength'']"

definition imagesSharedForbiddenFields :: "string list" where
  "imagesSharedForbiddenFields = [''stream'', ''partial_images'', ''style'']"

definition known_fields :: "string list" where
  "known_fields =
     [''prompt'', ''model'', ''n'', ''size'', ''quality'', ''response_format'', ''output_format'', ''output_compression'',
      ''background'', ''moderation'', ''input_fidelity'', ''safety_identifier'', ''user'', ''queue_timeout'',
      ''images'', ''mask'', ''markup'', ''image'']"

definition getString :: "(string \<times> json) list \<Rightarrow> string \<Rightarrow> err + string" where
  "getString raw name =
     (case map_of raw name of None \<Rightarrow> Inr [] | Some JNull \<Rightarrow> Inr [] | Some (JStr s) \<Rightarrow> Inr s
      | _ \<Rightarrow> Inl (ErrMsg (name @ '' must be a string'')))"

text \<open>A key that is present and not null, read as float64.\<close>

definition getNumber :: "(string \<times> json) list \<Rightarrow> string \<Rightarrow> err \<Rightarrow> err + f64 option" where
  "getNumber raw name e =
     (case map_of raw name of None \<Rightarrow> Inr None | Some JNull \<Rightarrow> Inr None
      | Some (JNum s) \<Rightarrow> (case num_f64 s of Some x \<Rightarrow> Inr (Some x) | None \<Rightarrow> Inl e)
      | _ \<Rightarrow> Inl e)"

text \<open>A whole number between two bounds.\<close>

definition whole_between :: "int \<Rightarrow> int \<Rightarrow> f64 \<Rightarrow> int option" where
  "whole_between lo hi x =
     (case x of Fin a \<Rightarrow> (if a = of_int \<lfloor>a\<rfloor> \<and> lo \<le> \<lfloor>a\<rfloor> \<and> \<lfloor>a\<rfloor> \<le> hi then Some \<lfloor>a\<rfloor> else None) | _ \<Rightarrow> None)"

text \<open>\<open>utf8.RuneCountInString\<close> of valid UTF-8: the bytes that start a character.\<close>

definition RuneCount :: "string \<Rightarrow> nat" where
  "RuneCount s = length (filter (\<lambda>c. (of_char c :: nat) div 64 \<noteq> 2) s)"

definition Atoi :: "string \<Rightarrow> int option" where
  "Atoi = num_int"

definition named_sizes :: "(string \<times> int \<times> int) list" where
  "named_sizes =
     [(''256x256'', 256, 256), (''512x512'', 512, 512), (''1024x1024'', 1024, 1024), (''1024x1536'', 1024, 1536),
      (''1536x1024'', 1536, 1024), (''1792x1024'', 1792, 1024), (''1024x1792'', 1024, 1792)]"

definition parseImagesSize :: "string \<Rightarrow> err + int \<times> int \<times> string" where
  "parseImagesSize size0 =
     (let cleaned = TrimSpace size0 in
      if cleaned = [] \<or> cleaned = ''auto'' then Inr (1024, 1024, ''1024x1024'')
      else case map_of named_sizes cleaned of
        Some (w, h) \<Rightarrow> Inr (w, h, cleaned)
      | None \<Rightarrow>
          (case split_at (CHR ''x'') (ToLower cleaned) of
             [p, q] \<Rightarrow>
               (case (Atoi p, Atoi q) of
                  (Some w, Some h) \<Rightarrow>
                    if w \<le> 0 \<or> h \<le> 0 then Inl (ErrMsg ''size is invalid'')
                    else if w mod 8 \<noteq> 0 \<or> h mod 8 \<noteq> 0 then Inl (ErrMsg ''size edges must be divisible by 8'')
                    else if 3840 < w \<or> 3840 < h then Inl (ErrMsg ''size edges must be at most 3840'')
                    else if 3840 * 2160 < w * h then Inl (ErrMsg ''size pixel count exceeds limit'')
                    else let ratio = f64_div (f64_of_int w) (f64_of_int h) in
                      if f64_less ratio (f64_of_rat (1 / 3)) \<or> f64_less (Fin 3) ratio
                      then Inl (ErrMsg ''size aspect ratio must be between 1/3 and 3'')
                      else Inr (w, h, int_str w @ ''x'' @ int_str h)
                | _ \<Rightarrow> Inl (ErrMsg ''size is invalid''))
           | _ \<Rightarrow> Inl (ErrMsg ''size is invalid'')))"

subsection \<open>Images in a body\<close>

definition b64_char :: "nat \<Rightarrow> char" where
  "b64_char v =
     (if v < 26 then char_of (v + 65) else if v < 52 then char_of (v + 71) else if v < 62 then char_of (v - 4)
      else if v = 62 then CHR ''+'' else CHR ''/'')"

text \<open>\<open>base64.StdEncoding.EncodeToString\<close>\<close>

fun Std_EncodeToString :: "bytes \<Rightarrow> string" where
  "Std_EncodeToString [] = []"
| "Std_EncodeToString [x] =
     (let a = unat x in [b64_char (a div 4), b64_char (a mod 4 * 16), CHR ''='', CHR ''=''])"
| "Std_EncodeToString [x, y] =
     (let a = unat x; b = unat y in
      [b64_char (a div 4), b64_char (a mod 4 * 16 + b div 16), b64_char (b mod 16 * 4), CHR ''=''])"
| "Std_EncodeToString (x # y # z # r) =
     (let a = unat x; b = unat y; c = unat z in
      [b64_char (a div 4), b64_char (a mod 4 * 16 + b div 16), b64_char (b mod 16 * 4 + c div 64), b64_char (c mod 64)]
      @ Std_EncodeToString r)"

definition parseDataURLImage :: "(bytes \<Rightarrow> (int \<times> int \<times> string) option) \<Rightarrow> string \<Rightarrow> err + canonical_image_url" where
  "parseDataURLImage decode_config dataURL =
     (if HasPrefix (ToLower dataURL) ''http://'' \<or> HasPrefix (ToLower dataURL) ''https://''
      then Inl (ErrMsg ''http and https image URLs are not supported'')
      else if \<not> HasPrefix dataURL ''data:'' then Inl (ErrMsg ''image_url must be a data URL'')
      else case IndexByte (CHR '','') dataURL of
        None \<Rightarrow> Inl (ErrMsg ''image_url must be a data URL'')
      | Some comma \<Rightarrow>
          let meta = slice 5 comma dataURL; payload = drop (comma + 1) dataURL;
              mimeType = takeWhile (\<lambda>c. c \<noteq> CHR '';'') meta in
          if mimeType \<notin> {''image/png'', ''image/jpeg'', ''image/webp''} then Inl (ErrMsg ''unsupported image mime type'')
          else (case (case Std_DecodeString payload of Some b \<Rightarrow> Some b | None \<Rightarrow> RawStd_DecodeString payload) of
              None \<Rightarrow> Inl (ErrMsg ''image_url base64 is invalid'')
            | Some decoded \<Rightarrow>
                (case ReadImageDimensions decode_config decoded of
                   Inl _ \<Rightarrow> Inl (ErrMsg ''image bytes are invalid'')
                 | Inr dims \<Rightarrow>
                     Inr \<lparr>iu_data_url = dataURL, iu_mime_type = mimeType, iu_base64 = Std_EncodeToString decoded,
                          iu_width = id_width dims, iu_height = id_height dims\<rparr>)))"

definition parseSingleImageObject ::
  "(bytes \<Rightarrow> (int \<times> int \<times> string) option) \<Rightarrow> string \<Rightarrow> json \<Rightarrow> err + canonical_image_url" where
  "parseSingleImageObject decode_config name v =
     (case dec_struct v of
        Inl _ \<Rightarrow> Inl (ErrMsg (name @ '' entries must be objects''))
      | Inr obj \<Rightarrow>
          if map_of obj ''file_id'' \<noteq> None then Inl (ErrMsg ''file_id is not supported'')
          else bindE
            (case map_of obj ''image_url'' of
               None \<Rightarrow> Inr []
             | Some raw \<Rightarrow>
                 (case dec_string (Some raw) of
                    Inr s \<Rightarrow> Inr s
                  | Inl _ \<Rightarrow>
                      (case bindE (dec_struct raw) (\<lambda>nested. dec_string (field nested ''url'')) of
                         Inr url \<Rightarrow> if url = [] then Inl (ErrMsg (name @ ''.image_url is invalid'')) else Inr url
                       | Inl _ \<Rightarrow> Inl (ErrMsg (name @ ''.image_url is invalid'')))))
            (\<lambda>imageURL. rejectIf (imageURL = []) (ErrMsg (name @ ''.image_url is required''))
              (parseDataURLImage decode_config imageURL)))"

definition parseImagesArray :: "(bytes \<Rightarrow> (int \<times> int \<times> string) option) \<Rightarrow> json \<Rightarrow> err + canonical_image_url list" where
  "parseImagesArray decode_config v =
     (case v of
        JArr items \<Rightarrow>
          if items = [] \<or> 16 < length items then Inl (ErrMsg ''images must contain between 1 and 16 entries'')
          else mapE (parseSingleImageObject decode_config ''images'') items
      | _ \<Rightarrow> Inl (ErrMsg ''images must be an array''))"

text \<open>A key of an edits body that is present and not null.\<close>

definition edit_key :: "task_api_type \<Rightarrow> (string \<times> json) list \<Rightarrow> string \<Rightarrow> json option" where
  "edit_key apiType raw name =
     (if apiType \<noteq> TaskAPITypeImagesEdits then None
      else case map_of raw name of Some v \<Rightarrow> if v = JNull then None else Some v | None \<Rightarrow> None)"

definition optE :: "('a \<Rightarrow> 'e + 'b) \<Rightarrow> 'a option \<Rightarrow> 'e + 'b option" where
  "optE f v = (case v of None \<Rightarrow> Inr None | Some x \<Rightarrow> bindE (f x) (\<lambda>y. Inr (Some y)))"

definition parseCanonicalImagesMap ::
  "(bytes \<Rightarrow> (int \<times> int \<times> string) option) \<Rightarrow> (string \<times> json) list \<Rightarrow> task_api_type \<Rightarrow> err + canonical_images_request" where
  "parseCanonicalImagesMap decode_config raw apiType =
     rejectIf (\<exists>e \<in> set raw. fst e \<notin> set imagesCrynuxExtensionFields \<and> fst e \<in> set imagesSharedForbiddenFields)
       (ErrMsg ''field is not supported'')
     (bindE (getString raw ''prompt'') (\<lambda>prompt.
      rejectIf (TrimSpace prompt = []) (ErrMsg ''prompt is required'')
      (rejectIf (32000 < RuneCount prompt) (ErrMsg ''prompt must be at most 32000 characters'')
      (bindE (getString raw ''model'') (\<lambda>model0. let model = ToLower (TrimSpace model0) in
      rejectIf (model = []) (ErrMsg ''model is required'')
      (bindE (getNumber raw ''n'' (ErrMsg ''n must be an integer'')) (\<lambda>n0.
      bindE (case n0 of None \<Rightarrow> Inr 1 | Some x \<Rightarrow> of_option (ErrMsg ''n must be between 1 and 10'') (whole_between 1 10 x)) (\<lambda>n.
      bindE (getString raw ''size'') (\<lambda>size0.
      bindE (parseImagesSize size0) (\<lambda>(width, height, echoSize).
      bindE (getString raw ''quality'') (\<lambda>quality.
      bindE (getString raw ''response_format'') (\<lambda>responseFormat.
      rejectIf (responseFormat \<noteq> [] \<and> responseFormat \<noteq> ''b64_json'') (ErrMsg ''response_format must be b64_json'')
      (bindE (getString raw ''output_format'') (\<lambda>outputFormat.
      bindE (getNumber raw ''output_compression'' (ErrMsg ''output_compression must be an integer'')) (\<lambda>c0.
      bindE (optE (\<lambda>x. of_option (ErrMsg ''output_compression must be between 0 and 100'') (whole_between 0 100 x)) c0) (\<lambda>compression.
      bindE (getString raw ''background'') (\<lambda>background.
      bindE (getString raw ''moderation'') (\<lambda>moderation.
      bindE (getString raw ''input_fidelity'') (\<lambda>inputFidelity.
      bindE (getString raw ''safety_identifier'') (\<lambda>safety.
      bindE (getString raw ''user'') (\<lambda>user.
      bindE (getNumber raw ''queue_timeout'' (ErrMsg ''queue_timeout must be an unsigned integer'')) (\<lambda>q0.
      bindE (optE (\<lambda>x. if x \<noteq> f64_of_u64 (u64_of_f64 x) then Inl (ErrMsg ''queue_timeout must be an unsigned integer'')
                      else Inr (u64_of_f64 x)) q0) (\<lambda>queueTimeout.
      bindE (optE (parseImagesArray decode_config) (edit_key apiType raw ''images'')) (\<lambda>imgs.
      bindE (optE (parseSingleImageObject decode_config ''mask'') (edit_key apiType raw ''mask'')) (\<lambda>mask.
      bindE (optE (parseSingleImageObject decode_config ''markup'') (edit_key apiType raw ''markup'')) (\<lambda>markup.
      Inr \<lparr>iq_api_type = apiType, iq_prompt = prompt, iq_model = model, iq_n = n, iq_size = size0, iq_quality = quality,
           iq_response_format = responseFormat, iq_output_format = outputFormat, iq_output_compression = compression,
           iq_background = background, iq_moderation = moderation, iq_input_fidelity = inputFidelity,
           iq_safety_identifier = safety, iq_user = user, iq_queue_timeout = queueTimeout, iq_width = width,
           iq_height = height, iq_echo_size = echoSize, iq_images = (case imgs of Some xs \<Rightarrow> xs | None \<Rightarrow> []),
           iq_mask = mask, iq_markup = markup, iq_raw_fields = raw,
           iq_unknown_fields = filter (\<lambda>k. k \<notin> set known_fields \<and> k \<notin> set imagesCrynuxExtensionFields) (map fst raw),
           iq_crynux_fields = filter (\<lambda>k. k \<in> set imagesCrynuxExtensionFields) (map fst raw)\<rparr>))))))))))))))))))))))))))"

definition ParseCanonicalImagesJSON ::
  "(bytes \<Rightarrow> (int \<times> int \<times> string) option) \<Rightarrow> json option \<Rightarrow> task_api_type \<Rightarrow> err + canonical_images_request" where
  "ParseCanonicalImagesJSON decode_config body apiType =
     (case bindE (of_option json_error body) dec_struct of
        Inl _ \<Rightarrow> Inl (ErrMsg ''invalid JSON body'')
      | Inr raw \<Rightarrow> parseCanonicalImagesMap decode_config raw apiType)"

definition rejectCrynuxAndUnknown :: "canonical_images_request \<Rightarrow> err + unit" where
  "rejectCrynuxAndUnknown req =
     (if iq_crynux_fields req \<noteq> [] then Inl (ErrMsg (hd (iq_crynux_fields req) @ '' is not supported for Provider models''))
      else if iq_unknown_fields req \<noteq> [] then Inl (ErrMsg (hd (iq_unknown_fields req) @ '' is not supported''))
      else Inr ())"

subsection \<open>Bodies for the providers\<close>

definition url_object :: "canonical_image_url \<Rightarrow> json" where
  "url_object img = JObj [(''image_url'', JStr (iu_data_url img))]"

definition text_key :: "string \<Rightarrow> string \<Rightarrow> (string \<times> json) list" where
  "text_key k v = key_if (v \<noteq> []) k (JStr v)"

definition edit_images :: "canonical_images_request \<Rightarrow> (string \<times> json) list" where
  "edit_images req =
     (''images'', JArr (map url_object (iq_images req))) #
     opt_key ''mask'' (map_option url_object (iq_mask req)) @ opt_key ''markup'' (map_option url_object (iq_markup req))"

definition ValidateAndBuildOpenAIImagesRequest :: "canonical_images_request \<Rightarrow> err + json" where
  "ValidateAndBuildOpenAIImagesRequest req =
     bindE (rejectCrynuxAndUnknown req) (\<lambda>_.
     let edits = (iq_api_type req = TaskAPITypeImagesEdits);
         outputFormat0 = TrimSpace (iq_output_format req);
         outputFormat = (if outputFormat0 = [] then ''png'' else outputFormat0);
         background = TrimSpace (iq_background req) in
     if edits \<and> iq_images req = [] then Inl (ErrMsg ''images is required'')
     else if \<not> edits \<and> (iq_images req \<noteq> [] \<or> iq_mask req \<noteq> None \<or> iq_markup req \<noteq> None \<or> iq_input_fidelity req \<noteq> [])
     then Inl (ErrMsg ''edit-only fields are not supported on images generations'')
     else if outputFormat \<notin> {''png'', ''jpeg'', ''webp''} then Inl (ErrMsg ''output_format must be png, jpeg, or webp'')
     else if background \<noteq> [] \<and> background \<notin> {''transparent'', ''opaque'', ''auto''}
     then Inl (ErrMsg ''background must be transparent, opaque, or auto'')
     else if background = ''transparent'' \<and> outputFormat = ''jpeg''
     then Inl (ErrMsg ''background=transparent requires output_format png or webp'')
     else if iq_output_compression req \<noteq> None \<and> outputFormat = ''png''
     then Inl (ErrMsg ''output_compression is only supported for jpeg or webp'')
     else if iq_moderation req \<noteq> [] \<and> iq_moderation req \<notin> {''low'', ''auto''}
     then Inl (ErrMsg ''moderation must be low or auto'')
     else if iq_input_fidelity req \<noteq> [] \<and> iq_input_fidelity req \<notin> {''high'', ''low''}
     then Inl (ErrMsg ''input_fidelity must be high or low'')
     else if iq_input_fidelity req \<noteq> [] \<and> \<not> edits then Inl (ErrMsg ''input_fidelity is only supported on images edits'')
     else if iq_quality req \<noteq> [] \<and>
       iq_quality req \<notin> {''low'', ''medium'', ''high'', ''xhigh'', ''max'', ''auto'', ''standard'', ''hd''}
     then Inl (ErrMsg ''quality is invalid'')
     else Inr (JObj
       ([(''model'', JStr (iq_model req)), (''prompt'', JStr (iq_prompt req)), (''n'', jint (iq_n req))] @
        text_key ''size'' (iq_echo_size req) @ text_key ''quality'' (iq_quality req) @
        [(''output_format'', JStr outputFormat)] @ text_key ''background'' background @
        text_key ''moderation'' (iq_moderation req) @
        opt_key ''output_compression'' (map_option jint (iq_output_compression req)) @
        (if edits then edit_images req @ text_key ''input_fidelity'' (iq_input_fidelity req) else []))))"

record google_images_request =
  gi_body :: json
  gi_aspect_ratio :: string
  gi_image_size :: string
  gi_output_format :: string
  gi_output_compress :: "int option"
  gi_n :: int

definition ValidateAndBuildGoogleImagesRequest ::
  "(f64 \<Rightarrow> f64) \<Rightarrow> canonical_images_request \<Rightarrow> err + google_images_request" where
  "ValidateAndBuildGoogleImagesRequest math_Log req =
     bindE (rejectCrynuxAndUnknown req) (\<lambda>_.
     let outputFormat = TrimSpace (iq_output_format req);
         (aspect, imageSize) = mapSizeToGoogleImageConfig math_Log (iq_width req) (iq_height req);
         parts = map (\<lambda>img. JObj [(''inlineData'', JObj [(''mimeType'', JStr (iu_mime_type img)), (''data'', JStr (iu_base64 img))])])
             (iq_images req) @ [google_text (iq_prompt req)] in
     if iq_api_type req = TaskAPITypeImagesEdits \<and> iq_images req = [] then Inl (ErrMsg ''images is required'')
     else if iq_quality req \<noteq> [] then Inl (ErrMsg ''quality is not supported for Google image models'')
     else if iq_background req \<noteq> [] then Inl (ErrMsg ''background is not supported for Google image models'')
     else if iq_moderation req \<noteq> [] then Inl (ErrMsg ''moderation is not supported for Google image models'')
     else if iq_mask req \<noteq> None \<or> iq_markup req \<noteq> None \<or> iq_input_fidelity req \<noteq> []
     then Inl (ErrMsg ''mask, markup, and input_fidelity are not supported for Google image models'')
     else if iq_n req \<noteq> 1 then Inl (ErrMsg ''n must be 1 for Google image models'')
     else if outputFormat \<notin> {'''', ''png'', ''jpeg'', ''webp''} then Inl (ErrMsg ''output_format must be png, jpeg, or webp'')
     else if iq_output_compression req \<noteq> None \<and> outputFormat \<in> {'''', ''png''}
     then Inl (ErrMsg ''output_compression requires output_format jpeg or webp'')
     else Inr \<lparr>gi_body = JObj
            [(''contents'', JArr [google_content ''user'' parts]),
             (''generationConfig'', JObj [(''responseModalities'', JArr [JStr ''IMAGE'']),
                (''imageConfig'', JObj [(''aspectRatio'', JStr aspect), (''imageSize'', JStr imageSize)])])],
          gi_aspect_ratio = aspect, gi_image_size = imageSize, gi_output_format = outputFormat,
          gi_output_compress = iq_output_compression req, gi_n = iq_n req\<rparr>)"

definition rebuildProviderImagesBody :: "canonical_images_request \<Rightarrow> json" where
  "rebuildProviderImagesBody req =
     JObj ([(''model'', JStr (iq_model req)), (''prompt'', JStr (iq_prompt req)), (''n'', jint (iq_n req)),
            (''size'', JStr (iq_echo_size req))] @
       text_key ''quality'' (iq_quality req) @ text_key ''output_format'' (iq_output_format req) @
       opt_key ''output_compression'' (map_option jint (iq_output_compression req)) @
       text_key ''background'' (iq_background req) @ text_key ''moderation'' (iq_moderation req) @
       text_key ''input_fidelity'' (iq_input_fidelity req) @
       opt_key ''queue_timeout'' (map_option ju64 (iq_queue_timeout req)) @
       (if iq_api_type req = TaskAPITypeImagesEdits then edit_images req else []))"

subsection \<open>Input tokens\<close>

definition image_info_of :: "nat \<Rightarrow> canonical_image_url \<Rightarrow> canonical_image_info" where
  "image_info_of len img =
     \<lparr>ci_mime_type = iu_mime_type img, ci_width = iu_width img, ci_height = iu_height img, ci_detail = [], ci_decoded_bytes = len\<rparr>"

definition add_image :: "u64 \<Rightarrow> canonical_image_url \<Rightarrow> canonical_image_info list \<times> u64 \<Rightarrow> err + canonical_image_info list \<times> u64" where
  "add_image maxImageBytes img acc =
     (case acc of (infos, total0) \<Rightarrow>
        bindE (of_option (ErrMsg ''image base64 is invalid'') (Std_DecodeString (iu_base64 img))) (\<lambda>decoded.
        let total1 = total0 + of_nat (length decoded) in
        rejectIf (0 < maxImageBytes \<and> maxImageBytes < total1) (ErrMsg ''total image size exceeds the limit'')
        (Inr (infos @ [image_info_of (length decoded) img], total1))))"

definition estimateProviderImagesInputTokens ::
  "(bytes \<Rightarrow> (int \<times> int \<times> string) option) \<Rightarrow> provider_model_route \<Rightarrow> task_api_type \<Rightarrow> json option \<Rightarrow> u64 \<Rightarrow>
   err + provider_input_estimate" where
  "estimateProviderImagesInputTokens decode_config route apiType body maxImageBytes =
     bindE (ParseCanonicalImagesJSON decode_config body apiType) (\<lambda>req.
     bindE (foldE (add_image maxImageBytes) (iq_images req) ([], 0)) (\<lambda>acc.
     bindE (EstimateProviderImagesEditInputTokens (rt_service_provider route) (rt_model_name route) (fst acc) (iq_input_fidelity req))
       (\<lambda>imageTokens.
     Inr \<lparr>pi_text_tokens = of_nat (length (iq_prompt req)), pi_image_tokens = imageTokens\<rparr>)))"

definition EstimateProviderInputTokens ::
  "(bytes \<Rightarrow> (int \<times> int \<times> string) option) \<Rightarrow> provider_model_route \<Rightarrow> task_api_type \<Rightarrow> nat \<Rightarrow> json option \<Rightarrow> u64 \<Rightarrow>
   err + provider_input_estimate" where
  "EstimateProviderInputTokens decode_config route apiType len body maxImageBytes =
     (if apiType \<in> {TaskAPITypeImagesGenerations, TaskAPITypeImagesEdits}
      then estimateProviderImagesInputTokens decode_config route apiType body maxImageBytes
      else estimate_chat_input decode_config route apiType len body maxImageBytes)"

end
