(* ===== verification/Images_Correctness.thy ===== *)
theory Images_Correctness
  imports Image_Requests Convert_Correctness
begin

text \<open>
  The handler of the Images API checks a request, builds the upstream body once to see that it can, and then stores
  a body of its own that admission and the adapter read again. The theorem says that what is read from the stored
  body is the request that was checked, so both upstream bodies are the same.
\<close>

subsection \<open>Numbers printed and read as float64\<close>

lemma hex_val_digit: "is_digit c \<Longrightarrow> hex_val c = digit_val c"
  by (simp add: is_digit_def hex_val_def digit_val_def)

lemma digit_chars: "is_digit c \<Longrightarrow> c \<noteq> CHR ''.'' \<and> c \<noteq> CHR ''_'' \<and> c \<noteq> CHR ''/'' \<and> c \<noteq> CHR ''-'' \<and> c \<noteq> CHR ''+'' \<and> digit_val c < 10"
  by (auto simp: is_digit_def digit_val_def)

lemma scan_loop_digits:
  "list_all is_digit s \<Longrightarrow>
   scan_loop 10 st s =
     (st\<lparr>sc_prev := (if s = [] then sc_prev st else PrevDigit), sc_count := sc_count st + length s,
         sc_value := foldl (\<lambda>a c. 10 * a + digit_val c) (sc_value st) s\<rparr>, [])"
proof (induction s arbitrary: st)
  case Nil
  then show ?case by simp
next
  case (Cons c s)
  then have "is_digit c" by simp
  with Cons show ?case using digit_chars [of c] by (simp add: hex_val_digit)
qed

lemma nat_scan_digits:
  assumes "list_all is_digit s" "s \<noteq> []"
  shows "nat_scan True s = Some (digits_value s, 10, int (length s), [])"
proof (cases s)
  case (Cons c t)
  show ?thesis
  proof (cases "c = CHR ''0''")
    case False
    then show ?thesis using assms Cons by (simp add: nat_scan_def scan_prefix_def scan_loop_digits digits_value_def del: scan_loop.simps)
  next
    case True
    have "digit_val CHR ''0'' = 0" by (simp add: digit_val_def)
    moreover have "scan_prefix True s = (10, False, PrevDigit, 1, t)"
      using assms(1) Cons True by (cases t) (auto simp: scan_prefix_def is_digit_def)
    ultimately show ?thesis using assms Cons True by (simp add: nat_scan_def scan_loop_digits digits_value_def del: scan_loop.simps)
  qed
qed (use assms in simp)

lemma Rat_SetString_nat_str: "Rat_SetString (nat_str n) = Some (of_nat n)"
proof -
  have d: "list_all is_digit (nat_str n)" "nat_str n \<noteq> []" by (rule nat_str_digits)+
  then have "dropWhile (\<lambda>c. c \<noteq> CHR ''/'') (nat_str n) = []"
    by (auto simp: dropWhile_eq_Nil_conv list_all_iff dest: digit_chars)
  moreover have "scan_sign (nat_str n) = (False, nat_str n)"
    using d digit_chars by (cases "nat_str n") (auto simp: scan_sign_def)
  ultimately show ?thesis using d
    by (simp add: Rat_SetString_def nat_scan_digits scan_exponent_def exps_def digits_value_nat_str pow_rat_def
      del: dropWhile_eq_Nil_conv)
qed

lemma num_f64_int:
  assumes "0 \<le> i" "i < 2 ^ 53"
  shows "num_f64 (int_str i) = Some (Fin (of_int i))"
proof -
  have "f64_of_rat (of_nat (nat i)) = Fin (of_int i)"
    using f64_of_rat_int [of i] assms by simp
  with assms show ?thesis by (simp add: num_f64_def int_str_def Rat_SetString_nat_str)
qed

lemma num_f64_u64: "f64_of_u64 q = Fin x \<Longrightarrow> num_f64 (int_str (uint q)) = Some (Fin x)"
  by (simp add: num_f64_def int_str_def Rat_SetString_nat_str f64_of_u64_def)

subsection \<open>Base64\<close>

lemma b64_char_value: "v < 64 \<Longrightarrow> b64_value (b64_char v) = Some v"
  by (auto simp: b64_value_def b64_char_def Let_def)

lemma b64_value_plain: "b64_value c = Some v \<Longrightarrow> c \<noteq> CHR ''='' \<and> (of_char c :: nat) \<notin> {10, 13}"
  by (auto simp: b64_value_def Let_def split: if_splits)

fun b64_groups :: "bytes \<Rightarrow> nat list" where
  "b64_groups [] = []"
| "b64_groups [x] = (let a = unat x in [a div 4, a mod 4 * 16])"
| "b64_groups [x, y] = (let a = unat x; b = unat y in [a div 4, a mod 4 * 16 + b div 16, b mod 16 * 4])"
| "b64_groups (x # y # z # r) =
     (let a = unat x; b = unat y; c = unat z in
      [a div 4, a mod 4 * 16 + b div 16, b mod 16 * 4 + c div 64, c mod 64] @ b64_groups r)"

definition b64_pad :: "nat \<Rightarrow> nat" where "b64_pad n = (if n mod 3 = 0 then 0 else 3 - n mod 3)"

lemma b64_pad_step: "b64_pad (Suc (Suc (Suc n))) = b64_pad n"
proof -
  have "Suc (Suc (Suc n)) mod 3 = n mod 3" by presburger
  then show ?thesis by (simp add: b64_pad_def)
qed

lemma Std_EncodeToString_groups: "Std_EncodeToString b = map b64_char (b64_groups b) @ replicate (b64_pad (length b)) CHR ''=''"
  by (induction b rule: b64_groups.induct) (simp_all add: Let_def b64_pad_step, simp_all add: b64_pad_def numeral_2_eq_2)

lemma b64_groups_length: "(length (b64_groups b) + b64_pad (length b)) mod 4 = 0"
  by (induction b rule: b64_groups.induct) (simp_all add: Let_def b64_pad_step, simp_all add: b64_pad_def)

lemma unat_byte: "unat (x :: 8 word) < 256"
  by (rule order.strict_trans2 [OF unsigned_less]) simp

lemma byte_of_nat: "of_nat (k * 256 + unat x) = (x :: 8 word)"
proof -
  have "(of_nat (k * 256) :: 8 word) = of_nat k * 256" by simp
  also have "(256 :: 8 word) = 0" by simp
  finally show ?thesis by simp
qed

lemma byte_1: "of_nat (unat x div 4 * 4 + (unat x mod 4 * 16 + unat y div 16) div 16) = (x :: 8 word)" for y :: "8 word"
proof -
  have "(unat x mod 4 * 16 + unat y div 16) div 16 = unat x mod 4" using unat_byte [of y] by simp
  then show ?thesis by simp
qed

lemma byte_2:
  "of_nat ((unat x mod 4 * 16 + unat y div 16) * 16 + (unat y mod 16 * 4 + unat z div 64) div 4) = (y :: 8 word)" for x z :: "8 word"
proof -
  have "(unat y mod 16 * 4 + unat z div 64) div 4 = unat y mod 16" using unat_byte [of z] by simp
  then have "(unat x mod 4 * 16 + unat y div 16) * 16 + (unat y mod 16 * 4 + unat z div 64) div 4 = unat x mod 4 * 256 + unat y" by simp
  then show ?thesis by (simp only: byte_of_nat)
qed

lemma byte_3: "of_nat ((unat y mod 16 * 4 + unat z div 64) * 64 + unat z mod 64) = (z :: 8 word)" for y :: "8 word"
proof -
  have "(unat y mod 16 * 4 + unat z div 64) * 64 + unat z mod 64 = unat y mod 16 * 256 + unat z" by simp
  then show ?thesis by (simp only: byte_of_nat)
qed

lemma byte_ends:
  "of_nat (unat x div 4 * 4 + unat x mod 4 * 16 div 16) = (x :: 8 word)"
  "of_nat ((unat x mod 4 * 16 + unat y div 16) * 16 + unat y mod 16 * 4 div 4) = (y :: 8 word)"
proof -
  show "of_nat (unat x div 4 * 4 + unat x mod 4 * 16 div 16) = x" by simp
  have "(unat x mod 4 * 16 + unat y div 16) * 16 + unat y mod 16 * 4 div 4 = unat x mod 4 * 256 + unat y" by simp
  then show "of_nat ((unat x mod 4 * 16 + unat y div 16) * 16 + unat y mod 16 * 4 div 4) = y" by (simp only: byte_of_nat)
qed

lemma b64_bytes_groups: "b64_bytes (b64_groups b) = Some b"
  by (induction b rule: b64_groups.induct) (simp_all only: b64_groups.simps Let_def append.simps b64_bytes.simps byte_1 byte_2 byte_3 byte_ends option.map)

lemma group_small:
  "unat x div 4 < 64" "unat x mod 4 * 16 < 64" "unat x mod 4 * 16 + unat y div 16 < 64"
  "unat x mod 16 * 4 < 64" "unat x mod 16 * 4 + unat y div 64 < 64" "unat x mod 64 < 64" for x y :: "8 word"
proof -
  have "unat y div 16 < 16" "unat y div 64 < 4" "unat x mod 4 < 4" "unat x mod 16 < 16" using unat_byte [of y] by simp_all
  then show "unat x mod 4 * 16 < 64" "unat x mod 4 * 16 + unat y div 16 < 64" "unat x mod 16 * 4 < 64"
    "unat x mod 16 * 4 + unat y div 64 < 64" by linarith+
  show "unat x div 4 < 64" "unat x mod 64 < 64" using unat_byte [of x] by simp_all
qed

lemma b64_groups_small: "list_all (\<lambda>v. v < 64) (b64_groups b)"
  by (induction b rule: b64_groups.induct) (simp_all add: Let_def group_small)

lemma b64_values_chars: "list_all (\<lambda>v. v < 64) vs \<Longrightarrow> b64_values (map b64_char vs) = Some vs"
  by (induction vs) (simp_all add: b64_char_value)

lemma Std_roundtrip: "Std_DecodeString (Std_EncodeToString b) = Some b"
proof -
  let ?body = "map b64_char (b64_groups b)" and ?pad = "replicate (b64_pad (length b)) CHR ''=''"
  have plain: "c \<noteq> CHR ''='' \<and> (of_char c :: nat) \<notin> {10, 13}" if "c \<in> set ?body" for c
    using that b64_groups_small [of b] by (auto simp: list_all_iff dest!: b64_char_value b64_value_plain)
  have "no_newlines (?body @ ?pad) = ?body @ ?pad"
    unfolding no_newlines_def by (rule filter_True) (use plain in auto)
  moreover have "TrimRight CHR ''='' (?body @ ?pad) = ?body"
  proof -
    have "dropWhile (\<lambda>c. c = CHR ''='') (?pad @ rev ?body) = rev ?body"
      using plain by (cases "b64_groups b" rule: rev_cases) (simp_all add: dropWhile_append)
    then show ?thesis by (simp add: TrimRight_def)
  qed
  moreover have "b64_pad (length b) \<le> 2" by (auto simp: b64_pad_def)
  ultimately show ?thesis
    using b64_groups_length [of b] b64_groups_small [of b]
    by (simp add: Std_EncodeToString_groups Std_DecodeString_def b64_values_chars b64_bytes_groups)
qed

subsection \<open>The stored body\<close>

lemma named_sizes_printed: "map_of named_sizes s = Some (w, h) \<Longrightarrow> s = int_str w @ ''x'' @ int_str h \<and> TrimSpace s = s \<and> s \<noteq> [] \<and> s \<noteq> ''auto''"
proof -
  have all: "list_all (\<lambda>(s, w, h). s = int_str w @ ''x'' @ int_str h \<and> TrimSpace s = s \<and> s \<noteq> [] \<and> s \<noteq> ''auto'') named_sizes"
    by code_simp
  assume "map_of named_sizes s = Some (w, h)"
  from map_of_SomeD [OF this] all show ?thesis by (auto simp: list_all_iff)
qed

lemma int_str_nat: "0 \<le> i \<Longrightarrow> int_str i = nat_str (nat i)"
  by (simp add: int_str_def)

lemma digit_plain: "is_digit c \<Longrightarrow> \<not> is_space c \<and> lower_char c = c \<and> c \<noteq> CHR ''x''"
  by (auto simp: is_digit_def is_space_def lower_char_def)

lemma int_str_digits: "0 \<le> i \<Longrightarrow> list_all is_digit (int_str i) \<and> int_str i \<noteq> []"
  using nat_str_digits by (simp add: int_str_nat)

lemma TrimSpace_ends: "s \<noteq> [] \<Longrightarrow> \<not> is_space (hd s) \<Longrightarrow> \<not> is_space (last s) \<Longrightarrow> TrimSpace s = s"
proof -
  assume "s \<noteq> []" "\<not> is_space (hd s)" "\<not> is_space (last s)"
  then have "dropWhile is_space s = s" "dropWhile is_space (rev s) = rev s"
    by (simp_all add: dropWhile_eq_self_iff hd_rev)
  then show ?thesis by (simp add: TrimSpace_def)
qed

lemma parse_printed_size:
  assumes "0 < w" "0 < h"
  defines "s \<equiv> int_str w @ ''x'' @ int_str h"
  shows "TrimSpace s = s" "s \<noteq> []" "s \<noteq> ''auto''" "split_at (CHR ''x'') (ToLower s) = [int_str w, int_str h]"
proof -
  from int_str_digits [of w] int_str_digits [of h] assms
  have d: "list_all is_digit (int_str w)" "int_str w \<noteq> []" "list_all is_digit (int_str h)" "int_str h \<noteq> []" by auto
  then have "is_digit (hd (int_str w))" "is_digit (last (int_str h))" by (auto simp: list_all_iff)
  then show "TrimSpace s = s" "s \<noteq> ''auto''"
    using d digit_plain by (auto intro!: TrimSpace_ends simp: s_def is_digit_def dest: arg_cong [of _ _ hd])
  show "s \<noteq> []" by (simp add: s_def)
  have "map lower_char (int_str w) = int_str w" "map lower_char (int_str h) = int_str h" "CHR ''x'' \<notin> set (int_str w)" "CHR ''x'' \<notin> set (int_str h)"
    using d digit_plain by (auto simp: list_all_iff intro!: map_idI)
  moreover have "lower_char (CHR ''x'') = CHR ''x''" by (simp add: lower_char_def)
  ultimately show "split_at (CHR ''x'') (ToLower s) = [int_str w, int_str h]"
    by (simp add: s_def ToLower_def split_at_join split_at_none)
qed

lemma Atoi_int_str: "- (2 ^ 63) \<le> i \<Longrightarrow> i < 2 ^ 63 \<Longrightarrow> Atoi (int_str i) = Some i"
  by (simp add: Atoi_def num_int_def bigint_set_string_int_str)

lemma parseImagesSize_again:
  assumes "parseImagesSize s = Inr (w, h, e)"
  shows "parseImagesSize e = Inr (w, h, e)"
proof -
  let ?c = "TrimSpace s"
  consider (auto) "e = ''1024x1024''" "w = 1024" "h = 1024"
    | (named) "map_of named_sizes e = Some (w, h)"
    | (other) p q where "split_at (CHR ''x'') (ToLower ?c) = [p, q]" "Atoi p = Some w" "Atoi q = Some h"
        "0 < w" "0 < h" "w mod 8 = 0" "h mod 8 = 0" "w \<le> 3840" "h \<le> 3840" "w * h \<le> 3840 * 2160"
        "\<not> (f64_less (f64_div (f64_of_int w) (f64_of_int h)) (f64_of_rat (1 / 3)) \<or> f64_less (Fin 3) (f64_div (f64_of_int w) (f64_of_int h)))"
        "e = int_str w @ ''x'' @ int_str h"
    using assms by (auto simp: parseImagesSize_def Let_def not_le not_less split: if_splits option.splits list.splits prod.splits)
  then show ?thesis
  proof cases
    case auto
    then show ?thesis by (simp add: parseImagesSize_def) code_simp
  next
    case named
    from named_sizes_printed [OF named] have "TrimSpace e = e" "e \<noteq> []" "e \<noteq> ''auto''" by blast+
    with named show ?thesis by (simp add: parseImagesSize_def)
  next
    case other
    note p = parse_printed_size [OF other(4,5), folded other(12)]
    show ?thesis
    proof (cases "map_of named_sizes e")
      case None
      have "Atoi (int_str w) = Some w" "Atoi (int_str h) = Some h" using other(4,5,8,9) by (auto intro!: Atoi_int_str)
      with None p other show ?thesis by (simp add: parseImagesSize_def Let_def not_le not_less)
    next
      case (Some wh)
      obtain w' h' where wh: "wh = (w', h')" by (cases wh)
      from named_sizes_printed [of e w' h'] Some wh have e: "e = int_str w' @ ''x'' @ int_str h'" by simp
      have "list_all (\<lambda>(s, w, h). (0 :: int) < w \<and> (0 :: int) < h) named_sizes" by code_simp
      with map_of_SomeD [OF Some] wh have "0 < w'" "0 < h'" by (auto simp: list_all_iff)
      from parse_printed_size(4) [OF this, folded e] p(4) have "int_str w = int_str w'" "int_str h = int_str h'" by simp_all
      with Some wh p show ?thesis by (auto simp: parseImagesSize_def dest: int_str_inject)
    qed
  qed
qed

definition image_parsed :: "(bytes \<Rightarrow> (int \<times> int \<times> string) option) \<Rightarrow> canonical_image_url \<Rightarrow> bool" where
  "image_parsed dc img \<longleftrightarrow> iu_data_url img \<noteq> [] \<and> parseDataURLImage dc (iu_data_url img) = Inr img"

text \<open>What reading a body makes sure of.\<close>

definition images_read :: "(bytes \<Rightarrow> (int \<times> int \<times> string) option) \<Rightarrow> task_api_type \<Rightarrow> canonical_images_request \<Rightarrow> bool" where
  "images_read dc api r \<longleftrightarrow>
     iq_api_type r = api \<and> TrimSpace (iq_prompt r) \<noteq> [] \<and> RuneCount (iq_prompt r) \<le> 32000 \<and> 1 \<le> iq_n r \<and> iq_n r \<le> 10 \<and>
     (\<forall>c. iq_output_compression r = Some c \<longrightarrow> 0 \<le> c \<and> c \<le> 100) \<and>
     parseImagesSize (iq_echo_size r) = Inr (iq_width r, iq_height r, iq_echo_size r) \<and>
     (\<forall>q. iq_queue_timeout r = Some q \<longrightarrow> (\<exists>x. f64_of_u64 q = Fin x \<and> u64_of_f64 (Fin x) = q)) \<and>
     length (iq_images r) \<le> 16 \<and> list_all (image_parsed dc) (iq_images r) \<and>
     (\<forall>img. iq_mask r = Some img \<longrightarrow> image_parsed dc img) \<and> (\<forall>img. iq_markup r = Some img \<longrightarrow> image_parsed dc img) \<and>
     (api \<noteq> TaskAPITypeImagesEdits \<longrightarrow> iq_images r = [] \<and> iq_mask r = None \<and> iq_markup r = None)"

lemma parseDataURLImage_url: "parseDataURLImage dc u = Inr img \<Longrightarrow> iu_data_url img = u"
  by (auto simp: parseDataURLImage_def Let_def split: if_splits option.splits sum.splits)

lemma parseDataURLImage_again: "parseDataURLImage dc u = Inr img \<Longrightarrow> u \<noteq> [] \<Longrightarrow> image_parsed dc img"
  using parseDataURLImage_url [of dc u img] by (simp add: image_parsed_def)

lemma parseSingle_parsed: "parseSingleImageObject dc name v = Inr img \<Longrightarrow> image_parsed dc img"
  by (auto simp: parseSingleImageObject_def res_simps split: sum.splits if_splits intro: parseDataURLImage_again)

lemma mapE_all: "mapE f xs = Inr ys \<Longrightarrow> (\<And>x y. f x = Inr y \<Longrightarrow> P y) \<Longrightarrow> list_all P ys \<and> length ys = length xs"
  by (induction xs arbitrary: ys) (auto simp: res_simps)

lemma parseImagesArray_parsed: "parseImagesArray dc v = Inr imgs \<Longrightarrow> list_all (image_parsed dc) imgs \<and> length imgs \<le> 16"
  by (cases v) (auto simp: parseImagesArray_def split: if_splits dest!: mapE_all [where P = "image_parsed dc"] parseSingle_parsed)

lemma whole_between_Some: "whole_between lo hi x = Some i \<Longrightarrow> lo \<le> i \<and> i \<le> hi"
  by (auto simp: whole_between_def split: f64.splits if_splits)

lemma getNumber_Fin: "getNumber raw k e = Inr (Some x) \<Longrightarrow> \<exists>a. x = Fin a"
  by (cases x) (auto simp: getNumber_def num_f64_def split: option.splits json.splits f64.splits)

lemma optE_Inr_iff [res_simps]:
  "optE f v = Inr w \<longleftrightarrow> (case v of None \<Rightarrow> w = None | Some x \<Rightarrow> \<exists>y. f x = Inr y \<and> w = Some y)"
  by (cases v) (auto simp: optE_def res_simps)

lemma count_read: "(case n0 of None \<Rightarrow> Inr 1 | Some x \<Rightarrow> of_option e (whole_between 1 10 x)) = Inr n \<Longrightarrow> 1 \<le> n \<and> n \<le> 10"
  by (auto split: option.splits simp: res_simps dest: whole_between_Some)

lemma compression_read:
  "optE (\<lambda>x. of_option e (whole_between 0 100 x)) c0 = Inr v \<Longrightarrow> v = Some c \<Longrightarrow> 0 \<le> c \<and> c \<le> 100"
  by (auto split: option.splits simp: res_simps dest: whole_between_Some)

lemma timeout_read:
  "getNumber raw k e0 = Inr q0 \<Longrightarrow>
   optE (\<lambda>x. if x \<noteq> f64_of_u64 (u64_of_f64 x) then Inl e else Inr (u64_of_f64 x)) q0 = Inr v \<Longrightarrow> v = Some q \<Longrightarrow>
   \<exists>x. f64_of_u64 q = Fin x \<and> u64_of_f64 (Fin x) = q"
  by (auto split: option.splits if_splits simp: res_simps dest!: getNumber_Fin)

lemma images_of_read:
  "optE (parseImagesArray dc) v = Inr imgs \<Longrightarrow>
   length (case imgs of Some xs \<Rightarrow> xs | None \<Rightarrow> []) \<le> 16 \<and> list_all (image_parsed dc) (case imgs of Some xs \<Rightarrow> xs | None \<Rightarrow> [])"
  by (auto split: option.splits simp: res_simps dest: parseImagesArray_parsed)

lemma image_of_read: "optE (parseSingleImageObject dc k) v = Inr m \<Longrightarrow> m = Some img \<Longrightarrow> image_parsed dc img"
  by (auto split: option.splits simp: res_simps dest: parseSingle_parsed)

lemma no_edit_key: "api \<noteq> TaskAPITypeImagesEdits \<Longrightarrow> optE f (edit_key api raw k) = Inr v \<Longrightarrow> v = None"
  by (auto simp: edit_key_def res_simps)

lemma images_read_of_parse:
  assumes "parseCanonicalImagesMap dc raw api = Inr r"
  shows "images_read dc api r"
  using assms unfolding parseCanonicalImagesMap_def Let_def res_simps
  by (elim exE conjE, clarsimp simp: res_simps images_read_def not_less simp del: optE_Inr_iff split del: if_split)
     (intro conjI; (simp add: count_read images_of_read parseImagesSize_again no_edit_key; fail |
        blast dest: compression_read | blast dest: timeout_read | blast dest: image_of_read |
        fastforce dest: no_edit_key))

text \<open>The fields of the stored body.\<close>

definition stored_fields :: "canonical_images_request \<Rightarrow> (string \<times> json) list" where
  "stored_fields r = (case rebuildProviderImagesBody r of JObj obj \<Rightarrow> obj | _ \<Rightarrow> [])"

lemma stored_body: "rebuildProviderImagesBody r = JObj (stored_fields r)"
  by (simp add: stored_fields_def rebuildProviderImagesBody_def)

lemma map_of_append_or: "map_of (xs @ ys) k = or_else (map_of xs k) (map_of ys k)"
  by (auto simp: map_add_def or_else_def split: option.split)

lemma map_of_text: "map_of (text_key k v) k' = (if k = k' \<and> v \<noteq> [] then Some (JStr v) else None)"
  by (auto simp: text_key_def key_if_def)

lemma map_of_opt: "map_of (opt_key k v) k' = (if k = k' then v else None)"
  by (auto simp: opt_key_def split: option.split)

lemmas stored_keys = stored_fields_def rebuildProviderImagesBody_def edit_images_def map_of_append_or map_of_text map_of_opt
  or_else_simps

lemma stored_lookup:
  "map_of (stored_fields r) ''prompt'' = Some (JStr (iq_prompt r))"
  "map_of (stored_fields r) ''model'' = Some (JStr (iq_model r))"
  "map_of (stored_fields r) ''n'' = Some (jint (iq_n r))"
  "map_of (stored_fields r) ''size'' = Some (JStr (iq_echo_size r))"
  "map_of (stored_fields r) ''quality'' = (if iq_quality r \<noteq> [] then Some (JStr (iq_quality r)) else None)"
  "map_of (stored_fields r) ''response_format'' = None"
  "map_of (stored_fields r) ''output_format'' = (if iq_output_format r \<noteq> [] then Some (JStr (iq_output_format r)) else None)"
  "map_of (stored_fields r) ''output_compression'' = map_option jint (iq_output_compression r)"
  "map_of (stored_fields r) ''background'' = (if iq_background r \<noteq> [] then Some (JStr (iq_background r)) else None)"
  "map_of (stored_fields r) ''moderation'' = (if iq_moderation r \<noteq> [] then Some (JStr (iq_moderation r)) else None)"
  "map_of (stored_fields r) ''input_fidelity'' = (if iq_input_fidelity r \<noteq> [] then Some (JStr (iq_input_fidelity r)) else None)"
  "map_of (stored_fields r) ''safety_identifier'' = None"
  "map_of (stored_fields r) ''user'' = None"
  "map_of (stored_fields r) ''queue_timeout'' = map_option ju64 (iq_queue_timeout r)"
  by (simp_all add: stored_keys del: map_of_append)

lemma stored_images:
  assumes "iq_api_type r = TaskAPITypeImagesEdits"
  shows "map_of (stored_fields r) ''images'' = Some (JArr (map url_object (iq_images r)))"
    "map_of (stored_fields r) ''mask'' = map_option url_object (iq_mask r)"
    "map_of (stored_fields r) ''markup'' = map_option url_object (iq_markup r)"
  using assms by (simp_all add: stored_keys del: map_of_append)

lemma stored_known: "set (map fst (stored_fields r)) \<subseteq> set known_fields"
  by (auto simp: stored_fields_def rebuildProviderImagesBody_def edit_images_def text_key_def key_if_def opt_key_def known_fields_def
      split: option.splits if_splits)

lemma known_not_special: "k \<in> set known_fields \<Longrightarrow> k \<notin> set imagesCrynuxExtensionFields \<and> k \<notin> set imagesSharedForbiddenFields"
  by (auto simp: known_fields_def imagesCrynuxExtensionFields_def imagesSharedForbiddenFields_def)

lemma url_object_again: "image_parsed dc img \<Longrightarrow> parseSingleImageObject dc name (url_object img) = Inr img"
  by (simp add: image_parsed_def parseSingleImageObject_def url_object_def dec_struct_def dec_string_def)

lemma optE_again: "(\<And>x. v = Some x \<Longrightarrow> f (g x) = Inr x) \<Longrightarrow> optE f (map_option g v) = Inr v"
  by (cases v) (simp_all add: optE_def)

lemma whole_between_again: "lo \<le> i \<Longrightarrow> i \<le> hi \<Longrightarrow> whole_between lo hi (Fin (of_int i)) = Some i"
  by (simp add: whole_between_def)

text \<open>The request that is read back: what the stored body leaves out is gone.\<close>

definition stored_request :: "canonical_images_request \<Rightarrow> canonical_images_request" where
  "stored_request r =
     r\<lparr>iq_size := iq_echo_size r, iq_response_format := [], iq_safety_identifier := [], iq_user := [],
       iq_raw_fields := stored_fields r, iq_unknown_fields := [], iq_crynux_fields := []\<rparr>"

lemma getString_text: "map_of raw k = (if v \<noteq> [] then Some (JStr v) else None) \<Longrightarrow> getString raw k = Inr v"
  by (simp add: getString_def)

lemma stored_strings:
  "getString (stored_fields r) ''prompt'' = Inr (iq_prompt r)" "getString (stored_fields r) ''model'' = Inr (iq_model r)"
  "getString (stored_fields r) ''size'' = Inr (iq_echo_size r)" "getString (stored_fields r) ''quality'' = Inr (iq_quality r)"
  "getString (stored_fields r) ''response_format'' = Inr []" "getString (stored_fields r) ''output_format'' = Inr (iq_output_format r)"
  "getString (stored_fields r) ''background'' = Inr (iq_background r)" "getString (stored_fields r) ''moderation'' = Inr (iq_moderation r)"
  "getString (stored_fields r) ''input_fidelity'' = Inr (iq_input_fidelity r)"
  "getString (stored_fields r) ''safety_identifier'' = Inr []" "getString (stored_fields r) ''user'' = Inr []"
  by (simp_all add: getString_def stored_lookup)

lemma getNumber_int: "map_of raw k = Some (jint i) \<Longrightarrow> 0 \<le> i \<Longrightarrow> i < 2 ^ 53 \<Longrightarrow> getNumber raw k e = Inr (Some (Fin (of_int i)))"
  by (simp add: getNumber_def jint_def num_f64_int)

lemma stored_numbers:
  assumes "images_read dc api r"
  shows "getNumber (stored_fields r) ''n'' e = Inr (Some (Fin (of_int (iq_n r))))"
    "getNumber (stored_fields r) ''output_compression'' e = Inr (map_option (\<lambda>c. Fin (of_int c)) (iq_output_compression r))"
    "getNumber (stored_fields r) ''queue_timeout'' e = Inr (map_option f64_of_u64 (iq_queue_timeout r))"
proof -
  show "getNumber (stored_fields r) ''n'' e = Inr (Some (Fin (of_int (iq_n r))))"
    using assms by (intro getNumber_int) (simp_all add: stored_lookup images_read_def)
  show "getNumber (stored_fields r) ''output_compression'' e = Inr (map_option (\<lambda>c. Fin (of_int c)) (iq_output_compression r))"
  proof (cases "iq_output_compression r")
    case None
    then show ?thesis by (simp add: getNumber_def stored_lookup)
  next
    case (Some c)
    with assms have "0 \<le> c" "c < 2 ^ 53" by (auto simp: images_read_def)
    with Some show ?thesis by (simp add: getNumber_int stored_lookup)
  qed
  show "getNumber (stored_fields r) ''queue_timeout'' e = Inr (map_option f64_of_u64 (iq_queue_timeout r))"
  proof (cases "iq_queue_timeout r")
    case None
    then show ?thesis by (simp add: getNumber_def stored_lookup)
  next
    case (Some q)
    with assms obtain x where "f64_of_u64 q = Fin x" by (auto simp: images_read_def)
    with Some num_f64_u64 [OF this] show ?thesis by (simp add: getNumber_def stored_lookup ju64_def jint_def)
  qed
qed

lemma stored_edit_keys:
  assumes "images_read dc api r" "api = TaskAPITypeImagesEdits \<longrightarrow> iq_images r \<noteq> []"
  shows "optE (parseImagesArray dc) (edit_key api (stored_fields r) ''images'') = Inr (if iq_images r = [] then None else Some (iq_images r))"
    "optE (parseSingleImageObject dc ''mask'') (edit_key api (stored_fields r) ''mask'') = Inr (iq_mask r)"
    "optE (parseSingleImageObject dc ''markup'') (edit_key api (stored_fields r) ''markup'') = Inr (iq_markup r)"
proof -
  note r = assms(1) [unfolded images_read_def]
  have e: "edit_key api (stored_fields r) k = None" if "api \<noteq> TaskAPITypeImagesEdits" for k using that by (simp add: edit_key_def)
  have k: "edit_key api (stored_fields r) ''images'' = Some (JArr (map url_object (iq_images r)))"
    "edit_key api (stored_fields r) ''mask'' = map_option url_object (iq_mask r)"
    "edit_key api (stored_fields r) ''markup'' = map_option url_object (iq_markup r)" if "api = TaskAPITypeImagesEdits"
    using that r stored_images [of r] by (auto simp: edit_key_def url_object_def split: option.split)
  have imgs: "parseImagesArray dc (JArr (map url_object (iq_images r))) = Inr (iq_images r)" if "iq_images r \<noteq> []"
  proof -
    have "\<forall>x \<in> set (iq_images r). parseSingleImageObject dc ''images'' (url_object x) = Inr x"
      using r by (auto simp: list_all_iff url_object_again)
    from mapE_map [where f = "parseSingleImageObject dc ''images''" and g = url_object and h = "\<lambda>x. x", OF this] r that show ?thesis by (simp add: parseImagesArray_def)
  qed
  show "optE (parseImagesArray dc) (edit_key api (stored_fields r) ''images'') = Inr (if iq_images r = [] then None else Some (iq_images r))"
  proof (cases "api = TaskAPITypeImagesEdits")
    case True
    with assms(2) imgs show ?thesis unfolding k(1) [OF True] by (simp add: optE_def)
  next
    case False
    with r show ?thesis by (simp add: e optE_def)
  qed
  show "optE (parseSingleImageObject dc ''mask'') (edit_key api (stored_fields r) ''mask'') = Inr (iq_mask r)"
    "optE (parseSingleImageObject dc ''markup'') (edit_key api (stored_fields r) ''markup'') = Inr (iq_markup r)"
    unfolding atomize_conj
  proof (cases "api = TaskAPITypeImagesEdits")
    case True
    show "optE (parseSingleImageObject dc ''mask'') (edit_key api (stored_fields r) ''mask'') = Inr (iq_mask r) \<and>
      optE (parseSingleImageObject dc ''markup'') (edit_key api (stored_fields r) ''markup'') = Inr (iq_markup r)"
      unfolding k(2,3) [OF True] using r by (auto intro!: optE_again simp: url_object_again)
  next
    case False
    with r show "optE (parseSingleImageObject dc ''mask'') (edit_key api (stored_fields r) ''mask'') = Inr (iq_mask r) \<and>
      optE (parseSingleImageObject dc ''markup'') (edit_key api (stored_fields r) ''markup'') = Inr (iq_markup r)"
      by (simp add: e optE_def)
  qed
qed

lemma stored_again:
  assumes "images_read dc api r" "api = TaskAPITypeImagesEdits \<longrightarrow> iq_images r \<noteq> []"
    and "ToLower (TrimSpace (iq_model r)) = iq_model r" "iq_model r \<noteq> []"
  shows "parseCanonicalImagesMap dc (stored_fields r) api = Inr (stored_request r)"
proof -
  note r = assms(1) [unfolded images_read_def]
  have known: "k \<in> set known_fields" if "(k, v) \<in> set (stored_fields r)" for k v
    using that stored_known [of r] by (auto simp: subset_iff)
  have free: "\<not> (\<exists>e \<in> set (stored_fields r). fst e \<notin> set imagesCrynuxExtensionFields \<and> fst e \<in> set imagesSharedForbiddenFields)"
    using known known_not_special by fastforce
  have unknown: "filter (\<lambda>k. k \<notin> set known_fields \<and> k \<notin> set imagesCrynuxExtensionFields) (map fst (stored_fields r)) = []"
    "filter (\<lambda>k. k \<in> set imagesCrynuxExtensionFields) (map fst (stored_fields r)) = []"
    using known known_not_special by (auto simp: filter_empty_conv)
  have n: "whole_between 1 10 (Fin (of_int (iq_n r))) = Some (iq_n r)" using r by (intro whole_between_again) auto
  have c: "optE (\<lambda>x. of_option e (whole_between 0 100 x)) (map_option (\<lambda>c. Fin (of_int c)) (iq_output_compression r)) =
      Inr (iq_output_compression r)" for e
    using r by (intro optE_again) (simp add: whole_between_again)
  have q: "optE (\<lambda>x. if x \<noteq> f64_of_u64 (u64_of_f64 x) then Inl e else Inr (u64_of_f64 x)) (map_option f64_of_u64 (iq_queue_timeout r)) =
      Inr (iq_queue_timeout r)" for e
    using r by (intro optE_again) auto
  have imgs: "(case if iq_images r = [] then None else Some (iq_images r) of Some xs \<Rightarrow> xs | None \<Rightarrow> []) = iq_images r" by simp
  show ?thesis
    unfolding parseCanonicalImagesMap_def Let_def stored_strings stored_numbers [OF assms(1)] stored_edit_keys [OF assms(1,2)] bindE_simps
      c q unknown option.case n of_option_simps assms(3) imgs
    using r free assms(4) by (simp add: rejectIf_def stored_request_def)
qed

lemma parseDataURLImage_encodes: "parseDataURLImage dc u = Inr img \<Longrightarrow> \<exists>b. iu_base64 img = Std_EncodeToString b"
  by (auto simp: parseDataURLImage_def Let_def split: if_splits option.splits sum.splits)

lemma image_decodes: "image_parsed dc img \<Longrightarrow> \<exists>b. Std_DecodeString (iu_base64 img) = Some b"
  by (auto simp: image_parsed_def Std_roundtrip dest!: parseDataURLImage_encodes)

lemma build_stored:
  assumes "rejectCrynuxAndUnknown r = Inr ()"
  shows "ValidateAndBuildOpenAIImagesRequest (stored_request r) = ValidateAndBuildOpenAIImagesRequest r"
    "ValidateAndBuildGoogleImagesRequest math_log (stored_request r) = ValidateAndBuildGoogleImagesRequest math_log r"
proof -
  have again: "rejectCrynuxAndUnknown (stored_request r) = Inr ()" by (simp add: rejectCrynuxAndUnknown_def stored_request_def)
  have same: "iq_api_type (stored_request r) = iq_api_type r" "iq_images (stored_request r) = iq_images r"
    "iq_mask (stored_request r) = iq_mask r" "iq_markup (stored_request r) = iq_markup r"
    "iq_input_fidelity (stored_request r) = iq_input_fidelity r" "iq_output_format (stored_request r) = iq_output_format r"
    "iq_background (stored_request r) = iq_background r" "iq_output_compression (stored_request r) = iq_output_compression r"
    "iq_moderation (stored_request r) = iq_moderation r" "iq_quality (stored_request r) = iq_quality r"
    "iq_model (stored_request r) = iq_model r" "iq_prompt (stored_request r) = iq_prompt r" "iq_n (stored_request r) = iq_n r"
    "iq_echo_size (stored_request r) = iq_echo_size r" "iq_width (stored_request r) = iq_width r"
    "iq_height (stored_request r) = iq_height r"
    by (simp_all add: stored_request_def)
  have imgs: "edit_images (stored_request r) = edit_images r" by (simp add: edit_images_def same)
  show "ValidateAndBuildOpenAIImagesRequest (stored_request r) = ValidateAndBuildOpenAIImagesRequest r"
    unfolding ValidateAndBuildOpenAIImagesRequest_def same imgs again assms ..
  show "ValidateAndBuildGoogleImagesRequest math_log (stored_request r) = ValidateAndBuildGoogleImagesRequest math_log r"
    unfolding ValidateAndBuildGoogleImagesRequest_def same again assms ..
qed

lemma built_images:
  assumes "ValidateAndBuildOpenAIImagesRequest r = Inr up \<or> ValidateAndBuildGoogleImagesRequest math_log r = Inr g"
  shows "rejectCrynuxAndUnknown r = Inr ()" "iq_api_type r = TaskAPITypeImagesEdits \<longrightarrow> iq_images r \<noteq> []"
  using assms
  by (auto simp: ValidateAndBuildOpenAIImagesRequest_def ValidateAndBuildGoogleImagesRequest_def Let_def res_simps split: if_splits prod.splits)

text \<open>
  C24. The body the Images handler stores is the request it checked. A request that was read, given the model name of
  its route and accepted by the builder of the provider is read again from the stored body; the request that comes out
  builds exactly the same upstream bodies, for OpenAI and for Google, and has the same number of images, size and queue
  timeout. Every image in it is base64 text that decodes, so the token estimate of a stored body never fails on it.
\<close>

theorem stored_images_body:
  assumes "ParseCanonicalImagesJSON decode_config body api = Inr r0"
    and "r = r0\<lparr>iq_api_type := api, iq_model := model\<rparr>" "ToLower (TrimSpace model) = model" "model \<noteq> []"
    and "ValidateAndBuildOpenAIImagesRequest r = Inr up \<or> ValidateAndBuildGoogleImagesRequest math_log r = Inr g"
  shows "\<exists>r'. ParseCanonicalImagesJSON decode_config (Some (rebuildProviderImagesBody r)) api = Inr r' \<and>
      ValidateAndBuildOpenAIImagesRequest r' = ValidateAndBuildOpenAIImagesRequest r \<and>
      ValidateAndBuildGoogleImagesRequest math_log r' = ValidateAndBuildGoogleImagesRequest math_log r \<and>
      iq_n r' = iq_n r \<and> iq_width r' = iq_width r \<and> iq_height r' = iq_height r \<and> iq_queue_timeout r' = iq_queue_timeout r \<and>
      iq_images r' = iq_images r \<and> (\<forall>img \<in> set (iq_images r'). \<exists>b. Std_DecodeString (iu_base64 img) = Some b)"
proof -
  from assms(1) obtain raw where "parseCanonicalImagesMap decode_config raw api = Inr r0"
    by (auto simp: ParseCanonicalImagesJSON_def split: sum.splits)
  from images_read_of_parse [OF this] have read: "images_read decode_config api r"
    by (simp add: images_read_def assms(2))
  have "ParseCanonicalImagesJSON decode_config (Some (rebuildProviderImagesBody r)) api = Inr (stored_request r)"
    using stored_again [OF read] built_images(2) [OF assms(5)] assms(2-4)
    by (simp add: ParseCanonicalImagesJSON_def stored_body dec_struct_obj)
  moreover note build_stored [OF built_images(1) [OF assms(5)]]
  moreover have "\<forall>img \<in> set (iq_images r). \<exists>b. Std_DecodeString (iu_base64 img) = Some b"
    using read image_decodes by (auto simp: images_read_def list_all_iff)
  ultimately show ?thesis by (intro exI [of _ "stored_request r"]) (simp add: stored_request_def)
qed

text \<open>An edit of one image, for OpenAI.\<close>

definition sample_edit :: json where
  "sample_edit = JObj
     [(''prompt'', JStr ''a hat''), (''model'', JStr ''GPT-Image-1''), (''size'', JStr ''512x512''),
      (''user'', JStr ''u''), (''images'', JArr [JObj [(''image_url'', JStr ''data:image/png;base64,AAAA'')]])]"

definition sample_decode_config :: "bytes \<Rightarrow> (int \<times> int \<times> string) option" where
  "sample_decode_config = (\<lambda>_. Some (8, 8, ''png''))"

definition sample_image :: canonical_image_url where
  "sample_image = projr (parseDataURLImage sample_decode_config ''data:image/png;base64,AAAA'')"

definition sample_edit_read :: canonical_images_request where
  "sample_edit_read =
     \<lparr>iq_api_type = TaskAPITypeImagesEdits, iq_prompt = ''a hat'', iq_model = ''gpt-image-1'', iq_n = 1, iq_size = ''512x512'',
      iq_quality = [], iq_response_format = [], iq_output_format = [], iq_output_compression = None, iq_background = [],
      iq_moderation = [], iq_input_fidelity = [], iq_safety_identifier = [], iq_user = ''u'', iq_queue_timeout = None,
      iq_width = 512, iq_height = 512, iq_echo_size = ''512x512'', iq_images = [sample_image], iq_mask = None, iq_markup = None,
      iq_raw_fields = (case sample_edit of JObj obj \<Rightarrow> obj | _ \<Rightarrow> []), iq_unknown_fields = [], iq_crynux_fields = []\<rparr>"

lemma sample_values:
  "ToLower (TrimSpace ''GPT-Image-1'') = ''gpt-image-1''" "ToLower (TrimSpace ''gpt-image-1'') = ''gpt-image-1''"
  "TrimSpace ''a hat'' = ''a hat''" "RuneCount ''a hat'' = 5" "parseImagesSize ''512x512'' = Inr (512, 512, ''512x512'')"
  "TrimSpace [] = []"
  by code_simp+

lemma sample_image_read: "parseDataURLImage sample_decode_config ''data:image/png;base64,AAAA'' = Inr sample_image"
proof -
  have "\<not> isl (parseDataURLImage sample_decode_config ''data:image/png;base64,AAAA'')" by code_simp
  then show ?thesis by (cases "parseDataURLImage sample_decode_config ''data:image/png;base64,AAAA''") (simp_all add: sample_image_def)
qed

lemma sample_edit_is_read:
  "ParseCanonicalImagesJSON sample_decode_config (Some sample_edit) TaskAPITypeImagesEdits = Inr sample_edit_read"
  by (simp add: sample_edit_def sample_edit_read_def ParseCanonicalImagesJSON_def dec_struct_def parseCanonicalImagesMap_def getString_def
      getNumber_def optE_def edit_key_def Let_def rejectIf_def parseImagesArray_def parseSingleImageObject_def dec_string_def
      sample_values sample_image_read imagesCrynuxExtensionFields_def imagesSharedForbiddenFields_def known_fields_def)

lemma sample_edit_is_built:
  "\<exists>up. ValidateAndBuildOpenAIImagesRequest (sample_edit_read\<lparr>iq_api_type := TaskAPITypeImagesEdits, iq_model := ''gpt-image-1''\<rparr>) = Inr up"
  by (simp add: ValidateAndBuildOpenAIImagesRequest_def rejectCrynuxAndUnknown_def sample_edit_read_def sample_values Let_def)

theorem stored_images_body_witness:
  "\<exists>r'. ParseCanonicalImagesJSON sample_decode_config (Some (rebuildProviderImagesBody sample_edit_read)) TaskAPITypeImagesEdits = Inr r' \<and>
     ValidateAndBuildOpenAIImagesRequest r' = ValidateAndBuildOpenAIImagesRequest sample_edit_read \<and> iq_images r' = [sample_image]"
proof -
  from sample_edit_is_built obtain up
    where "ValidateAndBuildOpenAIImagesRequest (sample_edit_read\<lparr>iq_api_type := TaskAPITypeImagesEdits, iq_model := ''gpt-image-1''\<rparr>) = Inr up" ..
  then have "ValidateAndBuildOpenAIImagesRequest (sample_edit_read\<lparr>iq_api_type := TaskAPITypeImagesEdits, iq_model := ''gpt-image-1''\<rparr>) = Inr up \<or>
      ValidateAndBuildGoogleImagesRequest (\<lambda>x. x) (sample_edit_read\<lparr>iq_api_type := TaskAPITypeImagesEdits, iq_model := ''gpt-image-1''\<rparr>) = Inr undefined" ..
  from stored_images_body [OF sample_edit_is_read refl sample_values(2) _ this]
  obtain r' where "ParseCanonicalImagesJSON sample_decode_config (Some (rebuildProviderImagesBody
      (sample_edit_read\<lparr>iq_api_type := TaskAPITypeImagesEdits, iq_model := ''gpt-image-1''\<rparr>))) TaskAPITypeImagesEdits = Inr r'"
    "ValidateAndBuildOpenAIImagesRequest r' =
      ValidateAndBuildOpenAIImagesRequest (sample_edit_read\<lparr>iq_api_type := TaskAPITypeImagesEdits, iq_model := ''gpt-image-1''\<rparr>)"
    "iq_images r' = [sample_image]"
    by (auto simp: sample_edit_read_def)
  moreover have "sample_edit_read\<lparr>iq_api_type := TaskAPITypeImagesEdits, iq_model := ''gpt-image-1''\<rparr> = sample_edit_read"
    by (simp add: sample_edit_read_def)
  ultimately show ?thesis by auto
qed

end
