(* ===== verification/Model_Identity.thy ===== *)
theory Model_Identity
  imports Provider_Convert
begin

text \<open>
  How a model and the way it is executed are named: model names (\<open>llmadapter/model_id.go\<close>), canonical JSON as
  the text of cache keys (\<open>models/canonical_json.go\<close>), the cache configuration of the relay
  (\<open>service/model_cache_config.go\<close>) and the names inside task arguments (\<open>service/task_args_normalize.go\<close>).
  JSON is a value, a raw message is the part of it; a number keeps its text (\<open>UseNumber\<close>). Strings are valid UTF-8.
\<close>

subsection \<open>Names\<close>

definition NormalizeModelName :: "string \<Rightarrow> string" where
  "NormalizeModelName name =
     (if HasPrefix name ''http://'' \<or> HasPrefix name ''https://'' then name else ToLower name)"

definition NormalizeModelID :: "string \<Rightarrow> string" where
  "NormalizeModelID model = NormalizeModelName (TrimSpace model)"

text \<open>The pattern \<open>[a-z0-9]([a-z0-9._-]*[a-z0-9])?\<close>, and a whole id as such segments between slashes.\<close>

definition id_char :: "char \<Rightarrow> bool" where
  "id_char c \<longleftrightarrow> is_digit c \<or> (97 \<le> (of_char c :: nat) \<and> (of_char c :: nat) \<le> 122)"

definition id_segment :: "string \<Rightarrow> bool" where
  "id_segment s \<longleftrightarrow> s \<noteq> [] \<and> id_char (hd s) \<and> id_char (last s) \<and> list_all (\<lambda>c. id_char c \<or> c \<in> set ''._-'') s"

definition huggingFaceModelIDPattern :: "string \<Rightarrow> bool" where
  "huggingFaceModelIDPattern s \<longleftrightarrow> list_all id_segment (split_at (CHR ''/'') s)"

definition ValidateHuggingFaceModelID :: "string \<Rightarrow> err + unit" where
  "ValidateHuggingFaceModelID model =
     (let normalized = NormalizeModelID model in
      if normalized = [] then Inl (ErrMsg ''model is required'')
      else if contains_text normalized ''://'' \<or> HasPrefix normalized ''http://'' \<or> HasPrefix normalized ''https://''
      then Inl (ErrMsg ''must be a Hugging Face model id, not a URL'')
      else if list_ex is_space normalized \<or> \<not> huggingFaceModelIDPattern normalized
      then Inl (ErrMsg ''must be a Hugging Face model id'')
      else Inr ())"

subsection \<open>Canonical JSON\<close>

definition hex_digit :: "nat \<Rightarrow> char" where
  "hex_digit d = (if d < 10 then char_of (48 + d) else char_of (87 + d))"

definition canonical_char :: "char \<Rightarrow> string" where
  "canonical_char c =
     (let k = of_char c :: nat in
      if k = 34 then [CHR 0x5C, CHR 0x22] else if k = 92 then [CHR 0x5C, CHR 0x5C]
      else if k = 10 then [CHR 0x5C, CHR ''n''] else if k = 13 then [CHR 0x5C, CHR ''r'']
      else if k = 9 then [CHR 0x5C, CHR ''t''] else if k = 8 then [CHR 0x5C, CHR ''b'']
      else if k = 12 then [CHR 0x5C, CHR ''f'']
      else if k < 32 then [CHR 0x5C, CHR ''u'', CHR ''0'', CHR ''0'', hex_digit (k div 16), hex_digit (k mod 16)]
      else [c])"

definition writeCanonicalString :: "string \<Rightarrow> string" where
  "writeCanonicalString s = CHR 0x22 # concat (map canonical_char s) @ [CHR 0x22]"

fun comma_join :: "string list \<Rightarrow> string" where
  "comma_join [] = []"
| "comma_join [s] = s"
| "comma_join (s # ss) = s @ CHR '','' # comma_join ss"

lemma json_obj_size: "(k, v) \<in> set obj \<Longrightarrow> size v < size (JObj obj)"
  by (induction obj) auto

function (sequential) writeCanonicalValue :: "json \<Rightarrow> string" where
  "writeCanonicalValue JNull = ''null''"
| "writeCanonicalValue (JBool b) = (if b then ''true'' else ''false'')"
| "writeCanonicalValue (JNum s) = s"
| "writeCanonicalValue (JStr s) = writeCanonicalString s"
| "writeCanonicalValue (JArr vs) = CHR ''['' # comma_join (map writeCanonicalValue vs) @ '']''"
| "writeCanonicalValue (JObj obj) =
     CHR ''{'' # comma_join (map (\<lambda>(k, v). writeCanonicalString k @ CHR '':'' # writeCanonicalValue v) (sort_key fst obj)) @ ''}''"
  by pat_completeness auto
termination
  by (relation "measure size") (auto simp: json_obj_size less_Suc_eq_le size_list_estimation')

abbreviation CanonicalJSON :: "json \<Rightarrow> string" where
  "CanonicalJSON \<equiv> writeCanonicalValue"

text \<open>No configuration, an absent one and null have the key null.\<close>

definition QuantizationConfigKey :: "json option \<Rightarrow> string" where
  "QuantizationConfigKey config = (case config of None \<Rightarrow> ''null'' | Some v \<Rightarrow> CanonicalJSON v)"

text \<open>
  The raw message is written in canonical form, which is the same value; null and nothing are null.
\<close>

definition normalizeQuantizationConfig :: "json option \<Rightarrow> json \<times> string" where
  "normalizeQuantizationConfig raw = ((case raw of None \<Rightarrow> JNull | Some v \<Rightarrow> v), QuantizationConfigKey raw)"

subsection \<open>Cache configurations\<close>

definition normalizeModelCacheHash :: "string \<Rightarrow> err + string" where
  "normalizeModelCacheHash raw =
     (let hash = ToLower (TrimSpace raw) in
      if odd (length hash) \<or> \<not> list_all (\<lambda>c. hex_val c < 16) hash then Inl (ErrMsg ''model_cache_hash is not hex'')
      else if length hash div 2 \<noteq> 32 then Inl (ErrMsg ''model_cache_hash must be 32 bytes'')
      else Inr hash)"

definition normalizeExecutionDType :: "string \<Rightarrow> string" where
  "normalizeExecutionDType dtype = (let d = ToLower (TrimSpace dtype) in if d = [] then ''auto'' else d)"

definition normalizeComponentSource :: "string \<Rightarrow> string \<Rightarrow> string \<Rightarrow> (string \<times> json) list option \<Rightarrow> err + json" where
  "normalizeComponentSource usage fmt repo formatKwargs =
     (if usage = [] \<or> fmt = [] \<or> repo = [] then Inl (ErrMsg ''component requires usage name, format and repo'')
      else Inr (JObj ([(''format'', JStr fmt), (''repo'', JStr (NormalizeModelName repo))] @
                      opt_key ''format_kwargs'' (map_option JObj formatKwargs))))"

definition component_source :: "string \<times> json \<Rightarrow> err + string \<times> json" where
  "component_source item =
     (case item of (usage, v) \<Rightarrow>
        bindE (of_option (ErrMsg ''component must be an object'') (as_map (Some v))) (\<lambda>entry.
        let fmt = as_string (map_of entry ''format''); repo = as_string (map_of entry ''repo'') in
        bindE (case map_of entry ''format_kwargs'' of
                 None \<Rightarrow> Inr None | Some JNull \<Rightarrow> Inr None | Some (JObj kwargs) \<Rightarrow> Inr (Some kwargs)
               | Some _ \<Rightarrow> Inl (ErrMsg ''component format_kwargs must be an object'')) (\<lambda>formatKwargs.
        bindE (normalizeComponentSource usage fmt repo formatKwargs) (\<lambda>source. Inr (usage, source)))))"

text \<open>The components in the shape of the identity, with their key.\<close>

definition normalizeTaskArgsComponents :: "json \<Rightarrow> err + (string \<times> json) list \<times> string" where
  "normalizeTaskArgsComponents value =
     bindE (case value of JNull \<Rightarrow> Inr [] | JObj raw \<Rightarrow> mapE component_source raw
            | _ \<Rightarrow> Inl (ErrMsg ''components must be an object'')) (\<lambda>components.
     Inr (components, CanonicalJSON (JObj components)))"

definition normalizeTaskArgsLora :: "json \<Rightarrow> err + (string \<times> json) list option \<times> string" where
  "normalizeTaskArgsLora value =
     (case value of
        JNull \<Rightarrow> Inr (None, ''null'')
      | JObj raw \<Rightarrow>
          let model = as_string (map_of raw ''model'');
              weight = (case map_of raw ''weight'' of None \<Rightarrow> JNum ''100'' | Some JNull \<Rightarrow> JNum ''100'' | Some w \<Rightarrow> w);
              lora = [(''model'', JStr model), (''weight_file_name'', JStr (as_string (map_of raw ''weight_file_name''))),
                      (''weight'', weight)] in
          if model = [] then Inl (ErrMsg ''lora requires model'')
          else Inr (Some lora, CanonicalJSON (JObj lora))
      | _ \<Rightarrow> Inl (ErrMsg ''lora must be an object or null''))"

record model_cache_entry =
  me_repository :: string
  me_format :: string
  me_format_kwargs :: "(string \<times> json) list option"

definition dec_entry :: "json \<Rightarrow> err + model_cache_entry" where
  "dec_entry v =
     bindE (dec_struct v) (\<lambda>obj.
     bindE (dec_string (field obj ''repository'')) (\<lambda>repository.
     bindE (dec_string (field obj ''format'')) (\<lambda>fmt.
     bindE (case field obj ''format_kwargs'' of None \<Rightarrow> Inr None | Some JNull \<Rightarrow> Inr None
            | Some (JObj kwargs) \<Rightarrow> Inr (Some kwargs) | Some _ \<Rightarrow> Inl json_error) (\<lambda>kwargs.
     Inr \<lparr>me_repository = repository, me_format = fmt, me_format_kwargs = kwargs\<rparr>))))"

definition dec_entry_ptr :: "json option \<Rightarrow> err + model_cache_entry option" where
  "dec_entry_ptr v =
     (case v of None \<Rightarrow> Inr None | Some JNull \<Rightarrow> Inr None | Some x \<Rightarrow> bindE (dec_entry x) (\<lambda>e. Inr (Some e)))"

definition entry_repository :: "model_cache_entry option \<Rightarrow> string" where
  "entry_repository e = (case e of None \<Rightarrow> [] | Some x \<Rightarrow> NormalizeModelName (me_repository x))"

definition dec_components :: "json option \<Rightarrow> err + (string \<times> model_cache_entry) list" where
  "dec_components v =
     (case v of None \<Rightarrow> Inr [] | Some JNull \<Rightarrow> Inr []
      | Some (JObj obj) \<Rightarrow> mapE (\<lambda>(k, x). bindE (dec_entry x) (\<lambda>e. Inr (k, e))) obj
      | Some _ \<Rightarrow> Inl json_error)"

record parsed_model_cache_config =
  mc_task_kind :: string
  mc_model_id :: string
  mc_dtype :: string
  mc_quantization_config :: json
  mc_quantization_key :: string
  mc_components :: "(string \<times> json) list"
  mc_components_key :: string
  mc_lora :: "(string \<times> json) list option"
  mc_lora_key :: string

definition entry_source :: "model_cache_entry \<Rightarrow> json" where
  "entry_source e =
     JObj ([(''format'', JStr (me_format e)), (''repo'', JStr (me_repository e))] @
           opt_key ''format_kwargs'' (map_option JObj (me_format_kwargs e)))"

definition parseModelCacheConfig :: "json option \<Rightarrow> err + parsed_model_cache_config" where
  "parseModelCacheConfig raw =
     bindE (bindE (of_option json_error raw) dec_struct) (\<lambda>config.
     bindE (dec_string (field config ''task_kind'')) (\<lambda>taskKind.
     bindE (dec_entry_ptr (field config ''model'')) (\<lambda>model.
     bindE (dec_entry_ptr (field config ''base_model'')) (\<lambda>baseModel.
     bindE (dec_components (field config ''components'')) (\<lambda>components.
     bindE (dec_string (field config ''dtype'')) (\<lambda>dtype.
     let (quantRaw, quantKey) = normalizeQuantizationConfig (field config ''quantization_config'');
         lora = (case field config ''lora'' of Some v \<Rightarrow> v | None \<Rightarrow> JNull);
         parsed = \<lparr>mc_task_kind = taskKind, mc_model_id = [], mc_dtype = ToLower (TrimSpace dtype),
                   mc_quantization_config = quantRaw, mc_quantization_key = quantKey, mc_components = [],
                   mc_components_key = [], mc_lora = None, mc_lora_key = []\<rparr> in
     bindE
       (if taskKind = ''llm'' then Inr (parsed\<lparr>mc_model_id := entry_repository model\<rparr>)
        else if taskKind = ''image'' then
          bindE (normalizeTaskArgsComponents (JObj (map (\<lambda>(k, e). (k, entry_source e)) components))) (\<lambda>(comps, compsKey).
          bindE (normalizeTaskArgsLora lora) (\<lambda>(lora', loraKey).
          Inr (parsed\<lparr>mc_model_id := entry_repository baseModel, mc_components := comps, mc_components_key := compsKey,
                      mc_lora := lora', mc_lora_key := loraKey\<rparr>)))
        else Inl (ErrMsg ''unsupported model_cache_config task_kind''))
       (\<lambda>p. if mc_model_id p = [] then Inl (ErrMsg ''model_cache_config model is empty'') else Inr p)))))))"

subsection \<open>Names in task arguments\<close>

fun put_key :: "string \<Rightarrow> json \<Rightarrow> (string \<times> json) list \<Rightarrow> (string \<times> json) list" where
  "put_key k v [] = [(k, v)]"
| "put_key k v ((k', x) # obj) = (if k = k' then (k, v) # obj else (k', x) # put_key k v obj)"

definition normalizeStringModelName :: "string \<Rightarrow> (string \<times> json) list \<Rightarrow> (string \<times> json) list" where
  "normalizeStringModelName key args =
     (case map_of args key of Some (JStr name) \<Rightarrow> put_key key (JStr (NormalizeModelName name)) args | _ \<Rightarrow> args)"

definition normalizeObjectModelName :: "string \<Rightarrow> string \<Rightarrow> (string \<times> json) list \<Rightarrow> (string \<times> json) list" where
  "normalizeObjectModelName objectKey nameKey args =
     (case map_of args objectKey of
        Some (JObj obj) \<Rightarrow> put_key objectKey (JObj (normalizeStringModelName nameKey obj)) args
      | _ \<Rightarrow> args)"

definition normalizeComponentsRepos :: "(string \<times> json) list \<Rightarrow> (string \<times> json) list" where
  "normalizeComponentsRepos args =
     (case map_of args ''components'' of
        Some (JObj components) \<Rightarrow>
          put_key ''components''
            (JObj (map (\<lambda>(k, v). (k, case v of JObj obj \<Rightarrow> JObj (normalizeStringModelName ''repo'' obj) | _ \<Rightarrow> v)) components)) args
      | _ \<Rightarrow> args)"

text \<open>\<open>None\<close> is a text that is not JSON.\<close>

definition NormalizeTaskArgsModelNames :: "task_type \<Rightarrow> json option \<Rightarrow> err + json" where
  "NormalizeTaskArgsModelNames kind taskArgs =
     (case taskArgs of
        Some (JObj args) \<Rightarrow>
          (case kind of
             TaskTypeImage \<Rightarrow>
               (let args1 = (case map_of args ''base_model'' of
                     Some (JStr _) \<Rightarrow> normalizeStringModelName ''base_model'' args
                   | _ \<Rightarrow> normalizeObjectModelName ''base_model'' ''name'' args) in
                Inr (JObj (normalizeComponentsRepos (normalizeStringModelName ''textual_inversion''
                  (normalizeStringModelName ''vae'' (normalizeStringModelName ''unet''
                  (normalizeObjectModelName ''refiner'' ''model'' (normalizeObjectModelName ''controlnet'' ''model''
                  (normalizeObjectModelName ''lora'' ''model'' args1)))))))))
           | TaskTypeLLM \<Rightarrow> Inr (JObj (normalizeStringModelName ''model'' args))
           | TaskTypeOther _ \<Rightarrow> Inl (ErrMsg ''task_type must be 0 or 1''))
      | Some JNull \<Rightarrow> Inl (ErrMsg ''task_args must be a JSON object'')
      | _ \<Rightarrow> Inl (ErrMsg ''task_args must be valid JSON''))"

end
