(* ===== verification/Canonical_Keys.thy ===== *)
theory Canonical_Keys
  imports Model_Identity
begin

text \<open>
  Cache keys tell configurations apart: two JSON values have the same canonical text exactly if they are the same value, whatever
  the order of the keys. The text of a value is read from its left end, so it is no prefix of another one.
\<close>

subsection \<open>The same value\<close>

fun json_wf :: "json \<Rightarrow> bool" where
  "json_wf (JNum s) \<longleftrightarrow> s \<noteq> [] \<and> list_all (\<lambda>c. is_digit c \<or> c \<in> set ''+-.eE'') s"
| "json_wf (JArr vs) = list_all json_wf vs"
| "json_wf (JObj obj) \<longleftrightarrow> distinct (map fst obj) \<and> list_all (\<lambda>(k, v). json_wf v) obj"
| "json_wf v = True"

function (sequential) same_json :: "json \<Rightarrow> json \<Rightarrow> bool" where
  "same_json (JArr vs) (JArr ws) = list_all2 same_json vs ws"
| "same_json (JObj a) (JObj b) \<longleftrightarrow>
     set (map fst a) = set (map fst b) \<and> (\<forall>x \<in> set a. \<forall>y \<in> set b. fst x = fst y \<longrightarrow> same_json (snd x) (snd y))"
| "same_json v w = (v = w)"
  by pat_completeness auto
termination
  by (relation "measure (size \<circ> fst)") (auto simp: less_Suc_eq_le size_list_estimation' dest: json_obj_size)

fun ordered :: "json \<Rightarrow> json" where
  "ordered (JArr vs) = JArr (map ordered vs)"
| "ordered (JObj obj) = JObj (sort_key fst (map (\<lambda>(k, v). (k, ordered v)) obj))"
| "ordered v = v"

lemma sort_key_set_eq:
  assumes "distinct (map fst xs)" "distinct (map fst ys)"
  shows "sort_key fst xs = sort_key fst ys \<longleftrightarrow> set xs = set ys"
proof
  assume "set xs = set ys"
  moreover have "distinct xs" "distinct ys" using assms by (auto simp: distinct_map)
  ultimately have "mset xs = mset ys" by (simp add: set_eq_iff_mset_eq_distinct)
  then have "mset xs = mset (sort_key fst ys)" by simp
  moreover have "inj_on fst (set xs)" using assms(1) by (simp add: distinct_map)
  ultimately show "sort_key fst xs = sort_key fst ys" by (intro sort_key_inj_key_eq) simp_all
qed (metis set_sort)

lemma ordered_plain:
  "ordered v = JNull \<longleftrightarrow> v = JNull" "ordered v = JBool b \<longleftrightarrow> v = JBool b" "ordered v = JNum s \<longleftrightarrow> v = JNum s"
  "ordered v = JStr s \<longleftrightarrow> v = JStr s"
  by (cases v; simp)+

lemma ordered_same: "json_wf v \<Longrightarrow> json_wf w \<Longrightarrow> ordered v = ordered w \<longleftrightarrow> same_json v w"
proof (induction v w rule: same_json.induct)
  case (1 vs ws)
  have "map ordered vs = map ordered ws \<longleftrightarrow> list_all2 (\<lambda>v w. ordered v = ordered w) vs ws"
    by (simp only: list_all2_eq list.rel_map)
  also have "\<dots> \<longleftrightarrow> list_all2 same_json vs ws"
    using 1 by (intro list.rel_cong refl) (auto simp: list_all_iff)
  finally show ?case by simp
next
  case (2 a b)
  let ?f = "\<lambda>(k, v). (k, ordered v)"
  have d: "distinct (map fst (map ?f a))" "distinct (map fst (map ?f b))"
    using 2(2,3) by (simp_all add: o_def split_def)
  have ih: "ordered (snd x) = ordered (snd y) \<longleftrightarrow> same_json (snd x) (snd y)" if "x \<in> set a" "y \<in> set b" "fst x = fst y" for x y
    using 2(1) [OF that(1,2,3)] 2(2,3) that by (auto simp: list_all_iff split_def)
  have "ordered (JObj a) = ordered (JObj b) \<longleftrightarrow> ?f ` set a = ?f ` set b"
    using sort_key_set_eq [OF d] by simp
  also have "\<dots> \<longleftrightarrow> same_json (JObj a) (JObj b)"
  proof
    assume eq: "?f ` set a = ?f ` set b"
    then have "fst ` ?f ` set a = fst ` ?f ` set b" by simp
    then have keys: "fst ` set a = fst ` set b" by (simp add: image_image split_def)
    have "same_json (snd x) (snd y)" if x: "x \<in> set a" and y: "y \<in> set b" and k: "fst x = fst y" for x y
    proof -
      from x eq have "?f x \<in> ?f ` set b" by blast
      then obtain z where z: "z \<in> set b" "?f x = ?f z" by blast
      with k have "fst z = fst y" by (auto simp: split_def)
      with z(1) y 2(3) have "z = y" by (auto simp: distinct_map dest: inj_onD)
      with z(2) ih [OF x y k] show ?thesis by (auto simp: split_def)
    qed
    with keys show "same_json (JObj a) (JObj b)" by simp
  next
    assume same: "same_json (JObj a) (JObj b)"
    have sub: "?f x \<in> ?f ` set b" if x: "x \<in> set a" for x
    proof -
      from x same have "fst x \<in> fst ` set b" by auto
      then obtain y where "y \<in> set b" "fst x = fst y" by blast
      with ih [OF x] same x show ?thesis by (auto simp: split_def image_iff intro!: bexI [of _ y])
    qed
    have sup: "?f y \<in> ?f ` set a" if y: "y \<in> set b" for y
    proof -
      from y same have "fst y \<in> fst ` set a" by auto
      then obtain x where x: "x \<in> set a" "fst x = fst y" by (metis imageE)
      with ih [OF x(1) y x(2)] same y have "?f y = ?f x" by (auto simp: split_def)
      with x(1) show ?thesis by blast
    qed
    from sub sup show "?f ` set a = ?f ` set b" by blast
  qed
  finally show ?case .
qed (auto simp: ordered_plain eq_commute [of _ "ordered _"])

subsection \<open>Texts that are read from the left\<close>

text \<open>The character an escaped text begins with, and the rest.\<close>

definition escapes :: "(char \<times> char) list" where
  "escapes = [(CHR 0x22, CHR 0x22), (CHR 0x5C, CHR 0x5C), (CHR ''n'', CHR 0x0A), (CHR ''r'', CHR 0x0D), (CHR ''t'', CHR 0x09),
     (CHR ''b'', CHR 0x08), (CHR ''f'', CHR 0x0C)]"

definition unescape :: "string \<Rightarrow> char \<times> string" where
  "unescape s =
     (if hd s \<noteq> CHR 0x5C then (hd s, tl s)
      else if s ! 1 = CHR ''u'' then (char_of (hex_val (s ! 4) * 16 + hex_val (s ! 5)), drop 6 s)
      else (the (map_of escapes (s ! 1)), drop 2 s))"

lemma hex_val_hex_digit: "d < 16 \<Longrightarrow> hex_val (hex_digit d) = d"
  by (auto simp: hex_val_def hex_digit_def)

lemma unescape_canonical: "unescape (canonical_char c @ x) = (c, x)"
proof -
  have named: "c = d" if "(of_char c :: nat) = of_char d" for d using that by simp
  show ?thesis
  proof (cases "(of_char c :: nat) < 32 \<and> (of_char c :: nat) \<notin> {8, 9, 10, 12, 13}")
    case True
    then have "canonical_char c = [CHR 0x5C, CHR ''u'', CHR ''0'', CHR ''0'', hex_digit (of_char c div 16), hex_digit (of_char c mod 16)]"
      by (simp add: canonical_char_def Let_def)
    moreover have "hex_val (hex_digit (of_char c div 16)) = of_char c div 16" "hex_val (hex_digit (of_char c mod 16)) = of_char c mod 16"
      using True by (auto intro!: hex_val_hex_digit)
    ultimately show ?thesis by (simp add: unescape_def del: of_char_mod_256)
  next
    case False
    show ?thesis
    proof (cases "(of_char c :: nat) \<in> {8, 9, 10, 12, 13, 34, 92}")
      case True
      then have "c \<in> {CHR 0x08, CHR 0x09, CHR 0x0A, CHR 0x0C, CHR 0x0D, CHR 0x22, CHR 0x5C}"
        using named [of "CHR 0x08"] named [of "CHR 0x09"] named [of "CHR 0x0A"] named [of "CHR 0x0C"] named [of "CHR 0x0D"]
          named [of "CHR 0x22"] named [of "CHR 0x5C"]
        by auto
      then show ?thesis by (auto simp: canonical_char_def unescape_def escapes_def)
    next
      case no: False
      with False have "canonical_char c = [c]" by (auto simp: canonical_char_def Let_def)
      moreover have "c \<noteq> CHR 0x5C" using no by auto
      ultimately show ?thesis by (simp add: unescape_def)
    qed
  qed
qed

lemma canonical_char_prefix: "canonical_char c @ x = canonical_char d @ y \<Longrightarrow> c = d \<and> x = y"
  by (metis prod.inject unescape_canonical)

lemma canonical_char_quote: "canonical_char c @ x \<noteq> CHR 0x22 # y"
  by (auto simp: canonical_char_def Let_def split: if_splits)

lemma canonical_text_prefix:
  "concat (map canonical_char s) @ CHR 0x22 # x = concat (map canonical_char t) @ CHR 0x22 # y \<Longrightarrow> s = t \<and> x = y"
proof (induction s arbitrary: t)
  case Nil
  then show ?case by (cases t) (auto simp: canonical_char_quote [symmetric])
next
  case (Cons c s)
  then show ?case
  proof (cases t)
    case Nil
    with Cons.prems canonical_char_quote show ?thesis by simp
  next
    case (Cons d t')
    with Cons.prems have "canonical_char c @ (concat (map canonical_char s) @ CHR 0x22 # x) =
        canonical_char d @ (concat (map canonical_char t') @ CHR 0x22 # y)" by simp
    from canonical_char_prefix [OF this] Cons.IH [of t'] Cons show ?thesis by simp
  qed
qed

lemma canonical_string_prefix: "writeCanonicalString s @ x = writeCanonicalString t @ y \<Longrightarrow> s = t \<and> x = y"
  by (auto simp: writeCanonicalString_def dest: canonical_text_prefix)

text \<open>What may follow a value.\<close>

definition stops :: "string \<Rightarrow> bool" where
  "stops r \<longleftrightarrow> r = [] \<or> hd r \<in> {CHR '','', CHR '']'', CHR ''}''}"

lemma number_prefix:
  assumes "list_all (\<lambda>c. is_digit c \<or> c \<in> set ''+-.eE'') s" "list_all (\<lambda>c. is_digit c \<or> c \<in> set ''+-.eE'') t"
    and "stops x" "stops y" "s @ x = t @ y"
  shows "s = t \<and> x = y"
proof -
  let ?P = "\<lambda>c. is_digit c \<or> c \<in> set ''+-.eE''"
  have w: "takeWhile ?P (u @ r) = u" if "list_all ?P u" "stops r" for u r
    using that by (cases r) (auto simp: list_all_iff stops_def is_digit_def takeWhile_append2)
  from w [OF assms(1,3)] w [OF assms(2,4)] assms(5) have "s = t" by simp
  with assms(5) show ?thesis by simp
qed

lemma write_head: "json_wf v \<Longrightarrow> writeCanonicalValue v \<noteq> [] \<and> hd (writeCanonicalValue v) \<notin> {CHR '','', CHR '']'', CHR ''}''}"
  by (cases v) (auto simp: writeCanonicalString_def is_digit_def neq_Nil_conv)

lemma comma_join_Cons: "comma_join (s # ss) = s @ (if ss = [] then [] else CHR '','' # comma_join ss)"
  by (cases ss) simp_all

lemma list_prefix:
  assumes "c \<in> {CHR '']'', CHR ''}''}"
    and item: "\<And>a b x y. a \<in> set as \<Longrightarrow> b \<in> set bs \<Longrightarrow> stops x \<Longrightarrow> stops y \<Longrightarrow> f a @ x = f b @ y \<Longrightarrow> h a = h b \<and> x = y"
    and head: "\<And>a. a \<in> set as \<union> set bs \<Longrightarrow> f a \<noteq> [] \<and> hd (f a) \<notin> {CHR '','', CHR '']'', CHR ''}''}"
    and "comma_join (map f as) @ c # x = comma_join (map f bs) @ c # y"
  shows "map h as = map h bs \<and> x = y"
  using item head assms(4)
proof (induction as arbitrary: bs)
  case Nil
  then show ?case
  proof (cases bs)
    case (Cons b bs')
    with Nil.prems(2) [of b] have "f b \<noteq> []" "hd (f b) \<noteq> c" using assms(1) by auto
    with Nil.prems(3) Cons show ?thesis by (cases "f b") (auto simp: comma_join_Cons)
  qed simp
next
  case (Cons a as)
  show ?case
  proof (cases bs)
    case Nil
    with Cons.prems(2) [of a] have "f a \<noteq> []" "hd (f a) \<noteq> c" using assms(1) by auto
    with Cons.prems(3) Nil show ?thesis by (cases "f a") (auto simp: comma_join_Cons)
  next
    case bs: (Cons b bs')
    let ?r = "\<lambda>xs x. (if xs = [] then c # x else CHR '','' # comma_join (map f xs) @ c # x)"
    have stop: "stops (?r xs z)" for xs z using assms(1) by (auto simp: stops_def)
    have "f a @ ?r as x = f b @ ?r bs' y" using Cons.prems(3) bs by (simp add: comma_join_Cons split: if_splits)
    from Cons.prems(1) [OF _ _ stop stop this] bs have h: "h a = h b" and r: "?r as x = ?r bs' y" by simp_all
    show ?thesis
    proof (cases "as = [] \<or> bs' = []")
      case True
      with r assms(1) h bs show ?thesis by (auto split: if_splits)
    next
      case False
      with r have rest: "comma_join (map f as) @ c # x = comma_join (map f bs') @ c # y" by simp
      have "map h as = map h bs' \<and> x = y"
        by (rule Cons.IH [OF _ _ rest]) (use Cons.prems(1,2) bs in auto)
      with h bs show ?thesis by simp
    qed
  qed
qed

lemma sort_key_map_fst: "(\<And>x. fst (h x) = fst x) \<Longrightarrow> sort_key fst (map h xs) = map h (sort_key fst xs)"
proof (induction xs)
  case (Cons x xs)
  have "insort_key fst (h x) (map h ys) = map h (insort_key fst x ys)" for ys
    by (induction ys) (simp_all add: Cons.prems)
  with Cons show ?case by simp
qed simp

lemma canonical_prefix:
  "json_wf v \<Longrightarrow> json_wf w \<Longrightarrow> stops x \<Longrightarrow> stops y \<Longrightarrow> writeCanonicalValue v @ x = writeCanonicalValue w @ y \<Longrightarrow>
   ordered v = ordered w \<and> x = y"
proof (induction v arbitrary: w x y rule: writeCanonicalValue.induct)
  case (3 s)
  show ?case
  proof (cases w)
    case (JNum t)
    with 3 number_prefix [of s t x y] show ?thesis by simp
  qed (use 3 in \<open>auto simp: writeCanonicalString_def is_digit_def neq_Nil_conv split: if_splits\<close>)
next
  case (4 s)
  then show ?case using canonical_string_prefix [of s x _ y]
    by (cases w) (auto simp: writeCanonicalString_def is_digit_def neq_Nil_conv split: if_splits)
next
  case (5 vs)
  show ?case
  proof (cases w)
    case (JArr ws)
    have "map ordered vs = map ordered ws \<and> x = y"
      by (rule list_prefix [where c = "CHR '']''" and f = writeCanonicalValue])
         (use 5 JArr write_head in \<open>auto simp: list_all_iff\<close>)
    with JArr show ?thesis by simp
  qed (use 5 in \<open>auto simp: writeCanonicalString_def is_digit_def neq_Nil_conv split: if_splits\<close>)
next
  case (6 obj)
  let ?f = "\<lambda>(k, v). writeCanonicalString k @ CHR '':'' # writeCanonicalValue v" and ?h = "\<lambda>(k, v). (k, ordered v)"
  show ?case
  proof (cases w)
    case (JObj obj')
    have "map ?h (sort_key fst obj) = map ?h (sort_key fst obj') \<and> x = y"
    proof (rule list_prefix [where c = "CHR ''}''" and f = ?f])
      fix a b x y
      assume m: "a \<in> set (sort_key fst obj)" "b \<in> set (sort_key fst obj')" "stops x" "stops y" "?f a @ x = ?f b @ y"
      obtain k v where a: "a = (k, v)" by (cases a)
      obtain k' v' where b: "b = (k', v')" by (cases b)
      have wf: "json_wf v" "json_wf v'" using 6(2,3) m(1,2) JObj a b by (auto simp: list_all_iff)
      from m(5) a b have "writeCanonicalString k @ (CHR '':'' # writeCanonicalValue v @ x) =
          writeCanonicalString k' @ (CHR '':'' # writeCanonicalValue v' @ y)" by simp
      from canonical_string_prefix [OF this] have k: "k = k'" and v: "writeCanonicalValue v @ x = writeCanonicalValue v' @ y" by simp_all
      from 6(1) [OF _ _ wf m(3,4) v] m(1) a k b show "?h a = ?h b \<and> x = y" by auto
    qed (use 6 JObj in \<open>auto simp: writeCanonicalString_def\<close>)
    with JObj show ?thesis by (simp add: sort_key_map_fst split_def)
  qed (use 6 in \<open>auto simp: writeCanonicalString_def is_digit_def neq_Nil_conv split: if_splits\<close>)
qed (case_tac w; auto simp: writeCanonicalString_def is_digit_def neq_Nil_conv split: if_splits)+

lemma write_ordered: "writeCanonicalValue (ordered v) = writeCanonicalValue v"
proof (induction v rule: writeCanonicalValue.induct)
  case (5 vs)
  then have "map (writeCanonicalValue \<circ> ordered) vs = map writeCanonicalValue vs" by simp
  then show ?case by (simp only: ordered.simps writeCanonicalValue.simps map_map)
next
  case (6 obj)
  let ?h = "\<lambda>(k, v). (k, ordered v)"
  have "sort_key fst (sort_key fst (map ?h obj)) = map ?h (sort_key fst obj)"
    by (subst sort_key_map_fst [symmetric]) (auto intro: sort_key_id_if_sorted)
  moreover have "map ((\<lambda>(k, v). writeCanonicalString k @ CHR '':'' # writeCanonicalValue v) \<circ> ?h) (sort_key fst obj) =
      map (\<lambda>(k, v). writeCanonicalString k @ CHR '':'' # writeCanonicalValue v) (sort_key fst obj)"
    using 6 by auto
  ultimately show ?case by (simp only: ordered.simps writeCanonicalValue.simps map_map)
qed simp_all

definition config_value :: "json option \<Rightarrow> json" where
  "config_value c = (case c of None \<Rightarrow> JNull | Some v \<Rightarrow> v)"

lemma key_of_value: "QuantizationConfigKey c = CanonicalJSON (config_value c)"
  by (cases c) (simp_all add: QuantizationConfigKey_def config_value_def)

lemma key_eq_iff:
  assumes "json_wf (config_value c)" "json_wf (config_value d)"
  shows "QuantizationConfigKey c = QuantizationConfigKey d \<longleftrightarrow> same_json (config_value c) (config_value d)"
proof
  assume "QuantizationConfigKey c = QuantizationConfigKey d"
  then have "writeCanonicalValue (config_value c) @ [] = writeCanonicalValue (config_value d) @ []" by (simp add: key_of_value)
  from canonical_prefix [OF assms _ _ this] ordered_same [OF assms] show "same_json (config_value c) (config_value d)"
    by (simp add: stops_def)
next
  assume "same_json (config_value c) (config_value d)"
  with ordered_same [OF assms] have "ordered (config_value c) = ordered (config_value d)" by simp
  then show "QuantizationConfigKey c = QuantizationConfigKey d" by (metis key_of_value write_ordered)
qed

lemma canonical_keys_apart:
  "json_wf v \<Longrightarrow> json_wf w \<Longrightarrow> \<not> same_json v w \<Longrightarrow> QuantizationConfigKey (Some v) \<noteq> QuantizationConfigKey (Some w)"
  using key_eq_iff [of "Some v" "Some w"] by (simp add: config_value_def)

text \<open>
  C28. Canonical JSON identifies a configuration. Two quantization configurations have the same key exactly if they
  are the same value: the order of the keys of an object does not matter at any depth, everything else does
  (a configuration that is not given is null). So no two configurations that differ share a key, and two spellings
  of one configuration that differ in the order of keys have the same one.
\<close>

theorem cache_key_exact:
  assumes "json_wf (config_value c)" "json_wf (config_value d)"
  shows "QuantizationConfigKey c = QuantizationConfigKey d \<longleftrightarrow> same_json (config_value c) (config_value d)"
  using assms by (rule key_eq_iff)

text \<open>The same four-bit configuration in two orders, and another one.\<close>

definition four_bit :: json where
  "four_bit = JObj [(''load_in_4bit'', JBool True), (''bnb'', JObj [(''type'', JStr ''nf4''), (''group'', JNum ''64'')])]"

definition four_bit_again :: json where
  "four_bit_again = JObj [(''bnb'', JObj [(''group'', JNum ''64''), (''type'', JStr ''nf4'')]), (''load_in_4bit'', JBool True)]"

lemma sample_configs: "json_wf four_bit" "json_wf four_bit_again" "same_json four_bit four_bit_again" "\<not> same_json four_bit JNull" "four_bit \<noteq> JNull"
  by (simp_all add: four_bit_def four_bit_again_def is_digit_def insert_commute)

theorem cache_key_exact_witness:
  "QuantizationConfigKey (Some four_bit) = QuantizationConfigKey (Some four_bit_again) \<and>
   QuantizationConfigKey (Some four_bit) \<noteq> QuantizationConfigKey None"
  using cache_key_exact [of "Some four_bit" "Some four_bit_again"] cache_key_exact [of "Some four_bit" None]
  by (simp add: config_value_def sample_configs)

end
