(* ===== verification/Model_Cache.thy ===== *)
theory Model_Cache
  imports Canonical_Keys Shared_Keys "HOL-Library.Product_Lexorder"
begin

text \<open>
  The caches of loaded models (\<open>service/loaded_models_cache.go\<close>) and how a request picks its execution from them
  (\<open>service/model_execution.go\<close>). A cache is a map from the key of a row to the row; the order in which Go walks through
  a map is the order of the list, and no result may depend on it. The answer of the relay is an argument. \<open>fmt\<close> is the
  text Go prints for a float64: task arguments are read into \<open>any\<close> and printed again.
\<close>

subsection \<open>Rows\<close>

record relay_loaded_model =
  rl_model_id :: string
  rl_model_type :: string
  rl_model_cache_hash :: string
  rl_model_cache_config :: "json option"
  rl_execution_dtype :: string
  rl_quantization_config :: "json option"
  rl_min_vram :: u64
  rl_in_memory_node_count :: int
  rl_on_disk_node_count :: int

record loaded_model =
  lm_model_cache_hash :: string
  lm_task_kind :: string
  lm_model_id :: string
  lm_execution_dtype :: string
  lm_quantization_config :: json
  lm_quantization_key :: string
  lm_components :: "(string \<times> json) list"
  lm_components_key :: string
  lm_lora :: "(string \<times> json) list option"
  lm_lora_key :: string
  lm_min_vram :: u64
  lm_node_count :: int
  lm_on_disk_node_count :: int

type_synonym model_rows = "(string \<times> loaded_model) list"

definition modelCacheKey :: "string \<Rightarrow> string \<Rightarrow> string" where
  "modelCacheKey modelCacheHash executionDType = modelCacheHash @ CHR 0x00 # ToLower executionDType"

definition catalogVisible :: "u64 \<Rightarrow> loaded_model \<Rightarrow> bool" where
  "catalogVisible minOnDiskNodeCount model \<longleftrightarrow>
     \<not> lm_on_disk_node_count model < 0 \<and> minOnDiskNodeCount \<le> (of_int (lm_on_disk_node_count model) :: u64)"

definition filterCatalogModels :: "u64 \<Rightarrow> model_rows \<Rightarrow> model_rows" where
  "filterCatalogModels minOnDiskNodeCount models = filter (\<lambda>e. catalogVisible minOnDiskNodeCount (snd e)) models"

definition newLoadedModel :: "relay_loaded_model \<Rightarrow> err + loaded_model" where
  "newLoadedModel loaded =
     (let modelID = ToLower (TrimSpace (rl_model_id loaded)) in
      rejectIf (modelID = []) (ErrMsg ''model_id is empty'')
     (bindE (normalizeModelCacheHash (rl_model_cache_hash loaded)) (\<lambda>hash.
      bindE (parseModelCacheConfig (rl_model_cache_config loaded)) (\<lambda>cacheConfig.
      let wantTaskKind = (if rl_model_type loaded = ''sd'' then ''image'' else ''llm'');
          executionDType = ToLower (TrimSpace (rl_execution_dtype loaded));
          quantKey = snd (normalizeQuantizationConfig (rl_quantization_config loaded)) in
      rejectIf (mc_task_kind cacheConfig \<noteq> wantTaskKind) (ErrMsg ''model_cache_config task_kind does not match model_type'')
     (rejectIf (mc_model_id cacheConfig \<noteq> modelID) (ErrMsg ''model_cache_config model does not match model_id'')
     (rejectIf (executionDType = []) (ErrMsg ''execution_dtype is empty'')
     (rejectIf (mc_quantization_key cacheConfig \<noteq> quantKey)
        (ErrMsg ''model_cache_config quantization_config does not match quantization_config'')
     (Inr \<lparr>lm_model_cache_hash = hash, lm_task_kind = mc_task_kind cacheConfig, lm_model_id = modelID,
           lm_execution_dtype = executionDType, lm_quantization_config = mc_quantization_config cacheConfig,
           lm_quantization_key = mc_quantization_key cacheConfig, lm_components = mc_components cacheConfig,
           lm_components_key = mc_components_key cacheConfig, lm_lora = mc_lora cacheConfig,
           lm_lora_key = mc_lora_key cacheConfig, lm_min_vram = rl_min_vram loaded,
           lm_node_count = rl_in_memory_node_count loaded, lm_on_disk_node_count = rl_on_disk_node_count loaded\<rparr>))))))))"

subsection \<open>Choosing a row\<close>

definition betterMaxMinVRAM :: "loaded_model \<Rightarrow> loaded_model \<Rightarrow> bool" where
  "betterMaxMinVRAM candidate existing \<longleftrightarrow>
     (if lm_min_vram candidate \<noteq> lm_min_vram existing then lm_min_vram existing < lm_min_vram candidate
      else if lm_quantization_key candidate \<noteq> lm_quantization_key existing
      then lm_quantization_key candidate < lm_quantization_key existing
      else if lm_execution_dtype candidate \<noteq> lm_execution_dtype existing
      then lm_execution_dtype candidate < lm_execution_dtype existing
      else lm_model_cache_hash candidate < lm_model_cache_hash existing)"

definition better_of :: "(loaded_model \<Rightarrow> bool) \<Rightarrow> loaded_model option \<Rightarrow> loaded_model \<Rightarrow> loaded_model option" where
  "better_of match best model =
     (if \<not> match model then best
      else case best of
        None \<Rightarrow> Some model
      | Some b \<Rightarrow> if betterMaxMinVRAM model b then Some model else best)"

definition pickBest :: "model_rows \<Rightarrow> (loaded_model \<Rightarrow> bool) \<Rightarrow> loaded_model option" where
  "pickBest models match = foldl (better_of match) None (map snd models)"

definition pickMaxMinVRAM :: "model_rows \<Rightarrow> string \<Rightarrow> loaded_model option" where
  "pickMaxMinVRAM models modelID0 =
     (let modelID = ToLower (TrimSpace modelID0) in pickBest models (\<lambda>model. lm_model_id model = modelID))"

definition sortLoadedModels :: "loaded_model list \<Rightarrow> loaded_model list" where
  "sortLoadedModels =
     sort_key (\<lambda>m. (lm_model_id m, lm_execution_dtype m, lm_quantization_key m, lm_model_cache_hash m))"

subsection \<open>The caches\<close>

record model_caches =
  ch_client :: bool
  ch_llm_models :: model_rows
  ch_llm_catalog :: model_rows
  ch_sd_models :: model_rows
  ch_sd_catalog :: model_rows

definition empty_model_caches :: model_caches where
  "empty_model_caches =
     \<lparr>ch_client = False, ch_llm_models = [], ch_llm_catalog = [], ch_sd_models = [], ch_sd_catalog = []\<rparr>"

definition InitLoadedModelsCache :: "model_caches \<Rightarrow> model_caches" where
  "InitLoadedModelsCache c = c\<lparr>ch_client := True\<rparr>"

text \<open>One row of the relay's answer: rows of other types, bad rows and reserved names are skipped.\<close>

definition add_loaded ::
  "(string \<times> provider_model_route) list \<Rightarrow> relay_loaded_model \<Rightarrow> model_rows \<times> model_rows \<Rightarrow> model_rows \<times> model_rows" where
  "add_loaded catalog loadedModel acc =
     (case acc of (llm, sd) \<Rightarrow>
        if rl_model_type loadedModel \<noteq> ''llm'' \<and> rl_model_type loadedModel \<noteq> ''sd'' then acc
        else (case newLoadedModel loadedModel of
            Inl _ \<Rightarrow> acc
          | Inr entry \<Rightarrow>
              if IsConfiguredProviderModel catalog (lm_model_id entry) then acc
              else let key = modelCacheKey (lm_model_cache_hash entry) (lm_execution_dtype entry) in
                if rl_model_type loadedModel = ''llm'' then (catalog_put key entry llm, sd) else (llm, catalog_put key entry sd)))"

definition RefreshLoadedModels ::
  "llm_config \<Rightarrow> (string \<times> provider_model_route) list \<Rightarrow> err + relay_loaded_model list \<Rightarrow> model_caches \<Rightarrow>
   model_caches \<times> err option" where
  "RefreshLoadedModels cfg catalog answer c =
     (if \<not> ch_client c then (c, Some (ErrMsg ''loaded models cache is not initialized''))
      else case answer of
        Inl e \<Rightarrow> (c, Some e)
      | Inr loadedModels \<Rightarrow>
          (let (llm, sd) = fold (add_loaded catalog) loadedModels ([], []); n = lc_min_catalog_on_disk_node_count cfg in
           (c\<lparr>ch_llm_models := llm, ch_llm_catalog := filterCatalogModels n llm,
              ch_sd_models := sd, ch_sd_catalog := filterCatalogModels n sd\<rparr>, None)))"

definition GetLoadedSDModel :: "model_caches \<Rightarrow> string \<Rightarrow> loaded_model option" where
  "GetLoadedSDModel c modelID = pickMaxMinVRAM (ch_sd_models c) modelID"

definition ListLoadedSDModels :: "model_caches \<Rightarrow> loaded_model list" where
  "ListLoadedSDModels c = sortLoadedModels (map snd (ch_sd_catalog c))"

definition GetLoadedLLMModel :: "model_caches \<Rightarrow> string \<Rightarrow> loaded_model option" where
  "GetLoadedLLMModel c modelID = pickMaxMinVRAM (ch_llm_models c) modelID"

definition GetLoadedLLMModelExact :: "model_caches \<Rightarrow> string \<Rightarrow> json option \<Rightarrow> string \<Rightarrow> loaded_model option" where
  "GetLoadedLLMModelExact c modelID0 quantizationConfig executionDType0 =
     (let quantKey = QuantizationConfigKey quantizationConfig; modelID = ToLower (TrimSpace modelID0);
          executionDType = ToLower executionDType0 in
      pickBest (ch_llm_models c)
        (\<lambda>m. lm_model_id m = modelID \<and> lm_quantization_key m = quantKey \<and> lm_execution_dtype m = executionDType))"

definition GetCatalogLLMModel :: "model_caches \<Rightarrow> string \<Rightarrow> loaded_model option" where
  "GetCatalogLLMModel c modelID = pickMaxMinVRAM (ch_llm_catalog c) modelID"

definition models_by_id :: "model_rows \<Rightarrow> string \<Rightarrow> loaded_model list" where
  "models_by_id models modelID0 =
     (let modelID = ToLower (TrimSpace modelID0) in sortLoadedModels (filter (\<lambda>m. lm_model_id m = modelID) (map snd models)))"

definition ListCatalogLLMModelsByID :: "model_caches \<Rightarrow> string \<Rightarrow> loaded_model list" where
  "ListCatalogLLMModelsByID c = models_by_id (ch_llm_catalog c)"

definition ListCatalogSDModelsByID :: "model_caches \<Rightarrow> string \<Rightarrow> loaded_model list" where
  "ListCatalogSDModelsByID c = models_by_id (ch_sd_catalog c)"

definition ListLoadedLLMModels :: "model_caches \<Rightarrow> loaded_model list" where
  "ListLoadedLLMModels c = sortLoadedModels (map snd (ch_llm_catalog c))"

subsection \<open>Values with float64 numbers\<close>

fun float_texts :: "(f64 \<Rightarrow> string) \<Rightarrow> json \<Rightarrow> json" where
  "float_texts fmt (JNum s) = (case num_f64 s of Some x \<Rightarrow> JNum (fmt x) | None \<Rightarrow> JNum s)"
| "float_texts fmt (JArr vs) = JArr (map (float_texts fmt) vs)"
| "float_texts fmt (JObj obj) = JObj (map (\<lambda>(k, v). (k, float_texts fmt v)) obj)"
| "float_texts fmt v = v"

definition dec_payload :: "(f64 \<Rightarrow> string) \<Rightarrow> json \<Rightarrow> err + (string \<times> json) list" where
  "dec_payload fmt v =
     bindE (dec_map (Some v)) (\<lambda>m. Inr (case m of None \<Rightarrow> [] | Some obj \<Rightarrow> map (\<lambda>(k, x). (k, float_texts fmt x)) obj))"

definition QuantizationConfigForAPI_value :: "(f64 \<Rightarrow> string) \<Rightarrow> json \<Rightarrow> json" where
  "QuantizationConfigForAPI_value fmt raw = (if any_ok raw then float_texts fmt raw else JNull)"

subsection \<open>Execution of language models\<close>

record model_execution_selection =
  sl_dtype :: string
  sl_quantization_config :: json
  sl_min_vram :: u64
  sl_from_loaded_models :: bool

definition resolveDefaultDType :: "string \<Rightarrow> string" where
  "resolveDefaultDType modelID = (if HasPrefix modelID ''qwen/qwen2.5'' then ''bfloat16'' else ''auto'')"

definition dtypeFromLoaded :: "loaded_model \<Rightarrow> string \<Rightarrow> string" where
  "dtypeFromLoaded loaded modelID =
     (if lm_execution_dtype loaded \<noteq> [] then lm_execution_dtype loaded else resolveDefaultDType modelID)"

definition lookupExactOrMax :: "model_caches \<Rightarrow> string \<Rightarrow> json \<Rightarrow> string \<Rightarrow> bool \<Rightarrow> bool \<Rightarrow> loaded_model option" where
  "lookupExactOrMax c modelID quant dtype hasQuant hasDtype =
     (if hasQuant \<and> hasDtype then GetLoadedLLMModelExact c modelID (Some quant) dtype
      else if hasQuant then
        let quantKey = QuantizationConfigKey (Some quant) in
        pickBest (ch_llm_models c) (\<lambda>m. lm_model_id m = modelID \<and> lm_quantization_key m = quantKey)
      else if hasDtype then
        let dtype' = ToLower dtype in
        pickBest (ch_llm_models c) (\<lambda>m. lm_model_id m = modelID \<and> lm_execution_dtype m = dtype')
      else GetLoadedLLMModel c modelID)"

definition ResolveLLMModelExecution ::
  "(f64 \<Rightarrow> string) \<Rightarrow> model_caches \<Rightarrow> string \<Rightarrow> string \<Rightarrow> json \<Rightarrow> model_execution_selection" where
  "ResolveLLMModelExecution fmt c modelID0 userDtype0 userQuant =
     (let modelID = NormalizeModelID modelID0; userDtype = ToLower (TrimSpace userDtype0);
          hasUserDtype = (userDtype \<noteq> []); hasUserQuant = (userQuant \<noteq> JNull) in
      if hasUserDtype \<or> hasUserQuant then
        (case lookupExactOrMax c modelID userQuant userDtype hasUserQuant hasUserDtype of
           Some loaded \<Rightarrow>
             \<lparr>sl_dtype = (if hasUserDtype then userDtype else dtypeFromLoaded loaded modelID),
              sl_quantization_config =
                (if hasUserQuant then userQuant else QuantizationConfigForAPI_value fmt (lm_quantization_config loaded)),
              sl_min_vram = lm_min_vram loaded, sl_from_loaded_models = True\<rparr>
         | None \<Rightarrow>
             \<lparr>sl_dtype = (if hasUserDtype then userDtype else resolveDefaultDType modelID),
              sl_quantization_config = (if hasUserQuant then userQuant else JNull),
              sl_min_vram = 0, sl_from_loaded_models = False\<rparr>)
      else case GetLoadedLLMModel c modelID of
        Some loaded \<Rightarrow>
          \<lparr>sl_dtype = dtypeFromLoaded loaded modelID,
           sl_quantization_config = QuantizationConfigForAPI_value fmt (lm_quantization_config loaded),
           sl_min_vram = lm_min_vram loaded, sl_from_loaded_models = True\<rparr>
      | None \<Rightarrow>
          \<lparr>sl_dtype = resolveDefaultDType modelID, sl_quantization_config = JNull, sl_min_vram = 0,
           sl_from_loaded_models = False\<rparr>)"

abbreviation GPTTaskArgsVersion :: string where "GPTTaskArgsVersion \<equiv> ''3.7.1''"

definition ApplyLLMExecutionToTaskArgsJSON ::
  "(f64 \<Rightarrow> string) \<Rightarrow> json option \<Rightarrow> model_execution_selection \<Rightarrow> err + json" where
  "ApplyLLMExecutionToTaskArgsJSON fmt taskArgsJSON sel =
     bindE (NormalizeTaskArgsModelNames TaskTypeLLM taskArgsJSON) (\<lambda>normalized.
     bindE (dec_payload fmt normalized) (\<lambda>payload.
     let p1 = put_key ''version'' (JStr GPTTaskArgsVersion) payload;
         p2 = (if sl_dtype sel \<noteq> [] then put_key ''dtype'' (JStr (sl_dtype sel)) p1 else p1) in
     Inr (JObj (put_key ''quantization_config'' (sl_quantization_config sel) p2))))"

subsection \<open>Execution of image models\<close>

record image_request_identity =
  ir_model_id :: string
  ir_dtype :: "string option"
  ir_quant_key :: "string option"
  ir_components_key :: "string option"
  ir_lora_key :: string

definition identity_matches :: "image_request_identity \<Rightarrow> loaded_model \<Rightarrow> bool" where
  "identity_matches i row \<longleftrightarrow>
     lm_model_id row = ir_model_id i \<and> lm_lora_key row = ir_lora_key i \<and>
     (ir_dtype i = None \<or> ir_dtype i = Some (lm_execution_dtype row)) \<and>
     (ir_quant_key i = None \<or> ir_quant_key i = Some (lm_quantization_key row)) \<and>
     (ir_components_key i = None \<or> ir_components_key i = Some (lm_components_key row))"

definition or_null :: "json option \<Rightarrow> json" where
  "or_null v = (case v of None \<Rightarrow> JNull | Some x \<Rightarrow> x)"

definition newImageRequestIdentity :: "string \<Rightarrow> (string \<times> json) list \<Rightarrow> bool \<Rightarrow> err + image_request_identity" where
  "newImageRequestIdentity modelID payload exact =
     bindE (case map_of payload ''dtype'' of
              Some (JStr s) \<Rightarrow> Inr (Some (normalizeExecutionDType s))
            | Some _ \<Rightarrow> Inl (ErrMsg ''dtype must be a string'')
            | None \<Rightarrow> Inr (if exact then Some ''auto'' else None)) (\<lambda>dtype.
     let quant = map_of payload ''quantization_config''; components = map_of payload ''components'';
         quantKey = (if quant \<noteq> None \<or> exact then Some (QuantizationConfigKey quant) else None) in
     bindE (if components \<noteq> None \<or> exact
            then bindE (normalizeTaskArgsComponents (or_null components)) (\<lambda>(_, k). Inr (Some k)) else Inr None) (\<lambda>componentsKey.
     bindE (normalizeTaskArgsLora (or_null (map_of payload ''lora''))) (\<lambda>(_, loraKey).
     Inr \<lparr>ir_model_id = NormalizeModelID modelID, ir_dtype = dtype, ir_quant_key = quantKey,
          ir_components_key = componentsKey, ir_lora_key = loraKey\<rparr>)))"

definition pickLoadedSD :: "model_caches \<Rightarrow> image_request_identity \<Rightarrow> loaded_model option" where
  "pickLoadedSD c identity = pickBest (ch_sd_models c) (identity_matches identity)"

definition GetLoadedSDModelExact ::
  "(f64 \<Rightarrow> string) \<Rightarrow> model_caches \<Rightarrow> string \<Rightarrow> json option \<Rightarrow> err + loaded_model option" where
  "GetLoadedSDModelExact fmt c modelID taskArgsJSON =
     bindE (bindE (of_option json_error taskArgsJSON) (dec_payload fmt)) (\<lambda>payload.
     bindE (newImageRequestIdentity modelID payload True) (\<lambda>identity. Inr (pickLoadedSD c identity)))"

definition isConcreteExecutionDType :: "string \<Rightarrow> bool" where
  "isConcreteExecutionDType dtype \<longleftrightarrow> ToLower (TrimSpace dtype) \<in> {''float16'', ''bfloat16'', ''float32''}"

abbreviation unresolvedImageExecution :: err where
  "unresolvedImageExecution \<equiv> ErrMsg ''unresolved image execution configuration''"

definition requestImageDType :: "(string \<times> json) list \<Rightarrow> err + string \<times> bool" where
  "requestImageDType payload =
     (case map_of payload ''dtype'' of
        None \<Rightarrow> Inr (''auto'', False)
      | Some (JStr s) \<Rightarrow>
          (let normalized = normalizeExecutionDType s in
           if isConcreteExecutionDType normalized then Inr (normalized, True)
           else if normalized = ''auto'' then Inr (''auto'', False)
           else Inl unresolvedImageExecution)
      | Some _ \<Rightarrow> Inl (ErrMsg ''dtype must be a string''))"

record image_execution_resolution =
  ie_task_args :: json
  ie_min_vram :: u64
  ie_from_loaded_models :: bool

definition resolve_concrete ::
  "model_caches \<Rightarrow> u64 \<Rightarrow> string \<Rightarrow> string \<Rightarrow> (string \<times> json) list \<Rightarrow> err + image_execution_resolution" where
  "resolve_concrete c defaultVRAM modelID dtype payload0 =
     (let payload = put_key ''dtype'' (JStr dtype) payload0 in
      bindE (newImageRequestIdentity modelID payload True) (\<lambda>identity.
      let found = pickLoadedSD c identity in
      Inr \<lparr>ie_task_args = JObj payload,
           ie_min_vram = (case found of Some l \<Rightarrow> if 0 < lm_min_vram l then lm_min_vram l else defaultVRAM | None \<Rightarrow> defaultVRAM),
           ie_from_loaded_models = (found \<noteq> None)\<rparr>))"

definition resolve_auto ::
  "(f64 \<Rightarrow> string) \<Rightarrow> model_caches \<Rightarrow> u64 \<Rightarrow> string \<Rightarrow> (string \<times> json) list \<Rightarrow> err + image_execution_resolution" where
  "resolve_auto fmt c defaultVRAM modelID payload =
     bindE (newImageRequestIdentity modelID payload False) (\<lambda>identity.
     bindE (of_option unresolvedImageExecution (pickLoadedSD c (identity\<lparr>ir_dtype := None\<rparr>))) (\<lambda>loaded.
     rejectIf (\<not> isConcreteExecutionDType (lm_execution_dtype loaded)) unresolvedImageExecution
     (let p1 = put_key ''dtype'' (JStr (lm_execution_dtype loaded)) payload;
          p2 = (if map_of payload ''quantization_config'' = None
                then put_key ''quantization_config'' (QuantizationConfigForAPI_value fmt (lm_quantization_config loaded)) p1 else p1);
          p3 = (if map_of payload ''components'' = None \<and> lm_components loaded \<noteq> []
                then put_key ''components'' (JObj (lm_components loaded)) p2 else p2) in
      Inr \<lparr>ie_task_args = JObj p3, ie_min_vram = (if 0 < lm_min_vram loaded then lm_min_vram loaded else defaultVRAM),
           ie_from_loaded_models = True\<rparr>)))"

definition ResolveImageModelExecution ::
  "(f64 \<Rightarrow> string) \<Rightarrow> llm_config \<Rightarrow> model_caches \<Rightarrow> json option \<Rightarrow> string \<Rightarrow> err + image_execution_resolution" where
  "ResolveImageModelExecution fmt cfg c taskArgsJSON modelID0 =
     bindE (NormalizeTaskArgsModelNames TaskTypeImage taskArgsJSON) (\<lambda>normalized.
     let modelID = NormalizeModelID modelID0 in
     bindE (dec_payload fmt normalized) (\<lambda>payload0.
     let payload = put_key ''version'' (JStr GPTTaskArgsVersion) payload0 in
     bindE (requestImageDType payload) (\<lambda>(dtype, concrete).
     if concrete then resolve_concrete c (lc_default_vram_limit cfg) modelID dtype payload
     else resolve_auto fmt c (lc_default_vram_limit cfg) modelID payload)))"

definition ApplyImageExecutionToTaskArgsJSON ::
  "(f64 \<Rightarrow> string) \<Rightarrow> llm_config \<Rightarrow> model_caches \<Rightarrow> json option \<Rightarrow> string \<Rightarrow> err + json \<times> u64" where
  "ApplyImageExecutionToTaskArgsJSON fmt cfg c taskArgsJSON modelID =
     bindE (ResolveImageModelExecution fmt cfg c taskArgsJSON modelID) (\<lambda>r. Inr (ie_task_args r, ie_min_vram r))"

end
