(* ===== verification/Cache_Correctness.thy ===== *)
theory Cache_Correctness
  imports Model_Cache Images_Correctness
begin

text \<open>
  Choosing a row of a cache does not depend on the order in which the map is walked, and the arguments an image request is
  resolved to identify exactly the row they were taken from.
\<close>

subsection \<open>Rows of a refreshed cache\<close>

definition rows_ok :: "string \<Rightarrow> model_rows \<Rightarrow> bool" where
  "rows_ok t models \<longleftrightarrow>
     distinct (map fst models) \<and>
     (\<forall>e \<in> set models. fst e = modelCacheKey (lm_model_cache_hash (snd e)) (lm_execution_dtype (snd e)) \<and>
        (\<exists>loaded. rl_model_type loaded = t \<and> newLoadedModel loaded = Inr (snd e)))"

definition caches_ok :: "model_caches \<Rightarrow> bool" where
  "caches_ok c \<longleftrightarrow> rows_ok ''llm'' (ch_llm_models c) \<and> rows_ok ''llm'' (ch_llm_catalog c) \<and> rows_ok ''sd'' (ch_sd_models c) \<and> rows_ok ''sd'' (ch_sd_catalog c)"

lemma rows_ok_Nil: "rows_ok t []" by (simp add: rows_ok_def)

lemma rows_ok_put:
  "rows_ok t models \<Longrightarrow> newLoadedModel loaded = Inr m \<Longrightarrow> rl_model_type loaded = t \<Longrightarrow>
   rows_ok t (catalog_put (modelCacheKey (lm_model_cache_hash m) (lm_execution_dtype m)) m models)"
  by (auto simp: rows_ok_def catalog_put_def distinct_map intro: inj_on_subset)

lemma rows_ok_filter: "rows_ok t models \<Longrightarrow> rows_ok t (filterCatalogModels n models)"
  by (auto simp: rows_ok_def filterCatalogModels_def distinct_map intro: inj_on_subset)

lemma rows_ok_add: "rows_ok ''llm'' (fst acc) \<and> rows_ok ''sd'' (snd acc) \<Longrightarrow> rows_ok ''llm'' (fst (add_loaded catalog l acc)) \<and> rows_ok ''sd'' (snd (add_loaded catalog l acc))"
  by (auto simp: add_loaded_def Let_def rows_ok_put split: prod.splits sum.splits)

lemma rows_ok_fold:
  "rows_ok ''llm'' (fst acc) \<and> rows_ok ''sd'' (snd acc) \<Longrightarrow> rows_ok ''llm'' (fst (fold (add_loaded catalog) ls acc)) \<and> rows_ok ''sd'' (snd (fold (add_loaded catalog) ls acc))"
  by (induction ls arbitrary: acc) (simp_all add: rows_ok_add)

lemma refresh_ok: "caches_ok c \<Longrightarrow> caches_ok (fst (RefreshLoadedModels cfg catalog answer c))"
  using rows_ok_fold [of "([], [])" catalog "projr answer"] rows_ok_Nil
  by (cases answer) (auto simp: RefreshLoadedModels_def Let_def caches_ok_def rows_ok_filter split: prod.splits)

lemma empty_caches_ok: "caches_ok empty_model_caches"
  by (simp add: caches_ok_def empty_model_caches_def rows_ok_Nil)

lemma rows_ok_same:
  assumes "rows_ok t models" "a \<in> set (map snd models)" "b \<in> set (map snd models)"
    and "lm_model_cache_hash a = lm_model_cache_hash b" "lm_execution_dtype a = lm_execution_dtype b"
  shows "a = b"
proof -
  from assms(2,3) obtain k k' where m: "(k, a) \<in> set models" "(k', b) \<in> set models" by auto
  then have "k = modelCacheKey (lm_model_cache_hash a) (lm_execution_dtype a)" "k' = modelCacheKey (lm_model_cache_hash b) (lm_execution_dtype b)"
    using assms(1) by (auto simp: rows_ok_def)
  with assms(4,5) have "k = k'" by simp
  with m assms(1) show ?thesis by (auto simp: rows_ok_def intro: eq_key_imp_eq_value)
qed

subsection \<open>The best row\<close>

lemma better_total:
  assumes "rows_ok t models" "a \<in> set (map snd models)" "b \<in> set (map snd models)" "a \<noteq> b"
  shows "betterMaxMinVRAM a b \<or> betterMaxMinVRAM b a"
proof (rule ccontr)
  assume n: "\<not> (betterMaxMinVRAM a b \<or> betterMaxMinVRAM b a)"
  have v: "lm_min_vram a = lm_min_vram b"
    by (rule ccontr) (use n in \<open>auto simp: betterMaxMinVRAM_def linorder_neq_iff\<close>)
  have q: "lm_quantization_key a = lm_quantization_key b"
    by (rule ccontr) (use n v in \<open>auto simp: betterMaxMinVRAM_def linorder_neq_iff\<close>)
  have d: "lm_execution_dtype a = lm_execution_dtype b"
    by (rule ccontr) (use n v q in \<open>auto simp: betterMaxMinVRAM_def linorder_neq_iff\<close>)
  have "lm_model_cache_hash a = lm_model_cache_hash b"
    by (rule ccontr) (use n v q d in \<open>auto simp: betterMaxMinVRAM_def linorder_neq_iff\<close>)
  with d rows_ok_same [OF assms(1-3)] assms(4) show False by blast
qed

lemma better_asym: "betterMaxMinVRAM a b \<Longrightarrow> \<not> betterMaxMinVRAM b a"
  by (auto simp: betterMaxMinVRAM_def split: if_splits)

lemma better_trans: "betterMaxMinVRAM a b \<Longrightarrow> betterMaxMinVRAM b c \<Longrightarrow> betterMaxMinVRAM a c"
  by (auto simp: betterMaxMinVRAM_def split: if_splits)

definition best_of :: "loaded_model set \<Rightarrow> (loaded_model \<Rightarrow> bool) \<Rightarrow> loaded_model option \<Rightarrow> bool" where
  "best_of S match r \<longleftrightarrow>
     (case r of None \<Rightarrow> \<forall>m \<in> S. \<not> match m
      | Some b \<Rightarrow> b \<in> S \<and> match b \<and> (\<forall>m \<in> S. match m \<longrightarrow> m \<noteq> b \<longrightarrow> betterMaxMinVRAM b m))"

lemma best_of_unique: "best_of S match r \<Longrightarrow> best_of S match r' \<Longrightarrow> r = r'"
  by (auto simp: best_of_def split: option.splits dest: better_asym)

lemma best_of_step:
  assumes "rows_ok t models" "insert m S \<subseteq> set (map snd models)" "best_of S match r"
  shows "best_of (insert m S) match (better_of match r m)"
proof (cases r)
  case None
  with assms(3) show ?thesis by (auto simp: best_of_def better_of_def)
next
  case (Some b)
  with assms(3) have b: "b \<in> S" "match b" "\<And>x. x \<in> S \<Longrightarrow> match x \<Longrightarrow> x \<noteq> b \<Longrightarrow> betterMaxMinVRAM b x"
    by (auto simp: best_of_def)
  show ?thesis
  proof (cases "match m \<and> betterMaxMinVRAM m b")
    case True
    with b Some show ?thesis by (auto simp: best_of_def better_of_def intro: better_trans)
  next
    case False
    have "betterMaxMinVRAM b m" if "match m" "m \<noteq> b"
      using better_total [OF assms(1), of m b] assms(2) b(1) False that by blast
    with b Some False show ?thesis by (auto simp: best_of_def better_of_def)
  qed
qed

lemma pickBest_best:
  assumes "rows_ok t models" "set rs \<subseteq> set (map snd models)"
  shows "best_of S match r \<Longrightarrow> S \<subseteq> set (map snd models) \<Longrightarrow> best_of (set rs \<union> S) match (foldl (better_of match) r rs)"
  using assms(2)
proof (induction rs arbitrary: r S)
  case (Cons m rs)
  from best_of_step [OF assms(1), of m S match r] Cons.prems
  have "best_of (insert m S) match (better_of match r m)" by simp
  from Cons.IH [OF this] Cons.prems show ?case by simp
qed simp

lemma pickBest_ok: "rows_ok t models \<Longrightarrow> best_of (snd ` set models) match (pickBest models match)"
  using pickBest_best [of t models "map snd models" "{}" match None] by (simp add: pickBest_def best_of_def)

lemma rows_ok_permute: "rows_ok t models \<Longrightarrow> mset models' = mset models \<Longrightarrow> rows_ok t models'"
proof -
  assume ok: "rows_ok t models" and m: "mset models' = mset models"
  from m have "set models' = set models" by (rule mset_eq_setD)
  moreover have "mset (map fst models') = mset (map fst models)" using m by simp
  then have "distinct (map fst models') = distinct (map fst models)" by (rule mset_eq_imp_distinct_iff)
  ultimately show ?thesis using ok by (simp add: rows_ok_def)
qed

definition caches_after :: "(llm_config \<times> (string \<times> provider_model_route) list \<times> (err + relay_loaded_model list)) list \<Rightarrow> model_caches" where
  "caches_after refreshes =
     fold (\<lambda>(cfg, catalog, answer) s. fst (RefreshLoadedModels cfg catalog answer s)) refreshes (InitLoadedModelsCache empty_model_caches)"

lemma caches_after_ok: "caches_ok (caches_after refreshes)"
proof -
  have "caches_ok (fold (\<lambda>(cfg, catalog, answer) s. fst (RefreshLoadedModels cfg catalog answer s)) refreshes s)" if "caches_ok s" for s
    using that by (induction refreshes arbitrary: s) (auto simp: refresh_ok)
  from this [of "InitLoadedModelsCache empty_model_caches"] show ?thesis
    using empty_caches_ok by (simp add: caches_after_def InitLoadedModelsCache_def caches_ok_def)
qed

text \<open>
  C29. What a cache answers does not depend on the order in which Go walks through its map. After any sequence of
  refreshes, answered or failed, each of the four maps, walked in any order, gives for any condition the same row: none if no
  row fulfils it, and otherwise the one that is better than every other that does; its minimal memory is the greatest of them.
\<close>

theorem pick_order_free:
  assumes "c = caches_after refreshes"
    and "models \<in> {ch_llm_models c, ch_llm_catalog c, ch_sd_models c, ch_sd_catalog c}" "mset models' = mset models"
  shows "pickBest models' match = pickBest models match \<and>
    (pickBest models match = None \<longleftrightarrow> (\<forall>m \<in> snd ` set models. \<not> match m)) \<and>
    (\<forall>b. pickBest models match = Some b \<longrightarrow> b \<in> snd ` set models \<and> match b \<and>
       (\<forall>m \<in> snd ` set models. match m \<longrightarrow> lm_min_vram m \<le> lm_min_vram b \<and> (m \<noteq> b \<longrightarrow> betterMaxMinVRAM b m)))"
proof -
  have "caches_ok c" using caches_after_ok assms(1) by simp
  then obtain t where ok: "rows_ok t models" using assms(2) by (auto simp: caches_ok_def)
  from assms(3) have "set models' = set models" by (rule mset_eq_setD)
  with pickBest_ok [OF rows_ok_permute [OF ok assms(3)], of match] pickBest_ok [OF ok, of match]
  have same: "pickBest models' match = pickBest models match" by (auto intro: best_of_unique)
  have vram: "lm_min_vram m \<le> lm_min_vram b" if "betterMaxMinVRAM b m" for b m
    using that by (auto simp: betterMaxMinVRAM_def split: if_splits)
  from pickBest_ok [OF ok, of match] same vram show ?thesis by (cases "pickBest models match") (auto simp: best_of_def)
qed

subsection \<open>Normal forms\<close>

lemma is_space_lower: "is_space (lower_char c) = is_space c"
  by (auto simp: is_space_def lower_char_def)

lemma lower_lower: "ToLower (ToLower s) = ToLower s"
  by (simp add: ToLower_def lower_char_def)

lemma Trim_lower: "TrimSpace (ToLower s) = ToLower (TrimSpace s)"
proof -
  have d: "dropWhile is_space (map lower_char xs) = map lower_char (dropWhile is_space xs)" for xs
    by (simp add: dropWhile_map o_def is_space_lower)
  show ?thesis by (simp add: TrimSpace_def ToLower_def d rev_map)
qed

lemma dropWhile_twice: "dropWhile P (dropWhile P xs) = dropWhile P xs"
  by (induction xs) simp_all

lemma Trim_Trim: "TrimSpace (TrimSpace s) = TrimSpace s"
proof (cases "TrimSpace s = []")
  case True
  then show ?thesis by (simp only: True) (simp add: TrimSpace_def)
next
  case False
  let ?t = "dropWhile is_space s"
  have l: "\<not> is_space (last (TrimSpace s))" using False hd_dropWhile [of is_space "rev ?t"]
    by (simp add: TrimSpace_def last_rev)
  have "?t \<noteq> []" using False by (auto simp: TrimSpace_def simp del: dropWhile_eq_Nil_conv)
  then have "\<not> is_space (hd ?t)" by (rule hd_dropWhile)
  moreover obtain us where "?t = TrimSpace s @ us"
    using takeWhile_dropWhile_id [of is_space "rev ?t"] by (metis TrimSpace_def rev_append rev_rev_ident)
  ultimately have "\<not> is_space (hd (TrimSpace s))" using False by simp
  from TrimSpace_ends [OF False this l] show ?thesis .
qed

lemma lower_trim_again: "d = ToLower (TrimSpace x) \<Longrightarrow> ToLower (TrimSpace d) = d"
  by (simp add: Trim_lower lower_lower Trim_Trim)

lemma NormalizeModelName_again: "NormalizeModelName (NormalizeModelName s) = NormalizeModelName s"
  by (simp add: NormalizeModelName_def lower_lower)

lemma NormalizeModelName_empty: "NormalizeModelName s = [] \<longleftrightarrow> s = []"
  by (auto simp: NormalizeModelName_def ToLower_def)

lemma component_source_again: "component_source item = Inr src \<Longrightarrow> component_source src = Inr src"
  by (cases item)
     (auto simp: component_source_def res_simps Let_def normalizeComponentSource_def as_map_def as_string_def opt_key_def
        NormalizeModelName_again NormalizeModelName_empty split: if_splits json.splits option.splits)

lemma components_again: "mapE component_source raw = Inr comps \<Longrightarrow> mapE component_source comps = Inr comps"
  by (induction raw arbitrary: comps) (auto simp: res_simps component_source_again)

lemma normalize_components_again:
  "normalizeTaskArgsComponents v = Inr (comps, key) \<Longrightarrow> normalizeTaskArgsComponents (JObj comps) = Inr (comps, key)"
  by (auto simp: normalizeTaskArgsComponents_def res_simps components_again split: json.splits)

subsection \<open>What a row says of itself\<close>

definition row_ok :: "loaded_model \<Rightarrow> bool" where
  "row_ok m \<longleftrightarrow>
     ToLower (TrimSpace (lm_execution_dtype m)) = lm_execution_dtype m \<and>
     lm_quantization_key m = CanonicalJSON (lm_quantization_config m) \<and>
     normalizeTaskArgsComponents (JObj (lm_components m)) = Inr (lm_components m, lm_components_key m)"

lemma parsed_image_config:
  assumes "parseModelCacheConfig raw = Inr p" "mc_task_kind p = ''image''"
  shows "mc_quantization_key p = CanonicalJSON (mc_quantization_config p)"
    "normalizeTaskArgsComponents (JObj (mc_components p)) = Inr (mc_components p, mc_components_key p)"
  using assms
  by (auto simp: parseModelCacheConfig_def res_simps Let_def normalizeQuantizationConfig_def QuantizationConfigKey_def
      dest: normalize_components_again split: prod.splits if_splits option.splits)

lemma sd_row_ok: "newLoadedModel l = Inr m \<Longrightarrow> rl_model_type l = ''sd'' \<Longrightarrow> row_ok m"
  by (auto simp: newLoadedModel_def Let_def res_simps row_ok_def dest: parsed_image_config intro: lower_trim_again)

subsection \<open>Resolved image arguments\<close>

lemma map_of_put_key: "map_of (put_key k v obj) k' = (if k = k' then Some v else map_of obj k')"
  by (induction k v obj rule: put_key.induct) auto

definition quant_stable :: "(f64 \<Rightarrow> string) \<Rightarrow> loaded_model \<Rightarrow> bool" where
  "quant_stable fmt m \<longleftrightarrow> QuantizationConfigForAPI_value fmt (lm_quantization_config m) = lm_quantization_config m"

lemma concrete_dtype: "isConcreteExecutionDType d \<Longrightarrow> isConcreteExecutionDType (normalizeExecutionDType d)"
proof -
  assume d: "isConcreteExecutionDType d"
  have "ToLower (TrimSpace ''float16'') = ''float16''" "ToLower (TrimSpace ''bfloat16'') = ''bfloat16''"
    "ToLower (TrimSpace ''float32'') = ''float32''" by code_simp+
  with d show ?thesis by (auto simp: isConcreteExecutionDType_def normalizeExecutionDType_def Let_def)
qed

lemma concrete_row_dtype: "isConcreteExecutionDType d \<Longrightarrow> ToLower (TrimSpace d) = d \<Longrightarrow> normalizeExecutionDType d = d"
  by (auto simp: isConcreteExecutionDType_def normalizeExecutionDType_def Let_def)

lemma pick_narrower:
  assumes "rows_ok t models" "pickBest models match = Some b" "match' b" "\<And>m. match' m \<Longrightarrow> match m"
  shows "pickBest models match' = Some b"
proof (rule best_of_unique)
  show "best_of (snd ` set models) match' (pickBest models match')" by (rule pickBest_ok [OF assms(1)])
  show "best_of (snd ` set models) match' (Some b)"
    using pickBest_ok [OF assms(1), of match] assms(2-4) by (auto simp: best_of_def)
qed

lemma resolve_auto_exact:
  assumes ok: "rows_ok ''sd'' (ch_sd_models c)" and "resolve_auto fmt c defaultVRAM modelID payload = Inr r"
    and stable: "\<forall>m \<in> snd ` set (ch_sd_models c). quant_stable fmt m"
  shows "\<exists>p identity row. ie_task_args r = JObj p \<and> newImageRequestIdentity modelID p True = Inr identity \<and>
    ir_dtype identity = Some (lm_execution_dtype row) \<and> isConcreteExecutionDType (lm_execution_dtype row) \<and>
    pickLoadedSD c identity = Some row \<and> identity_matches identity row \<and> ie_from_loaded_models r \<and>
    ie_min_vram r = (if 0 < lm_min_vram row then lm_min_vram row else defaultVRAM)"
proof -
  let ?q = "map_of payload ''quantization_config''" and ?co = "map_of payload ''components''"
  from assms(2) obtain i0 row where id0: "newImageRequestIdentity modelID payload False = Inr i0"
    and pick: "pickLoadedSD c (i0\<lparr>ir_dtype := None\<rparr>) = Some row" and conc: "isConcreteExecutionDType (lm_execution_dtype row)"
    and r: "r = \<lparr>ie_task_args = JObj (let p1 = put_key ''dtype'' (JStr (lm_execution_dtype row)) payload;
          p2 = (if ?q = None then put_key ''quantization_config'' (QuantizationConfigForAPI_value fmt (lm_quantization_config row)) p1 else p1)
        in (if ?co = None \<and> lm_components row \<noteq> [] then put_key ''components'' (JObj (lm_components row)) p2 else p2)),
        ie_min_vram = (if 0 < lm_min_vram row then lm_min_vram row else defaultVRAM), ie_from_loaded_models = True\<rparr>"
    by (auto simp: resolve_auto_def res_simps Let_def)
  define p where "p = (let p1 = put_key ''dtype'' (JStr (lm_execution_dtype row)) payload;
          p2 = (if ?q = None then put_key ''quantization_config'' (QuantizationConfigForAPI_value fmt (lm_quantization_config row)) p1 else p1)
        in (if ?co = None \<and> lm_components row \<noteq> [] then put_key ''components'' (JObj (lm_components row)) p2 else p2))"
  have row: "row \<in> snd ` set (ch_sd_models c)" and m0: "identity_matches (i0\<lparr>ir_dtype := None\<rparr>) row"
    using pickBest_ok [OF ok, of "identity_matches (i0\<lparr>ir_dtype := None\<rparr>)"] pick by (auto simp: best_of_def pickLoadedSD_def)
  from row ok obtain l where "rl_model_type l = ''sd''" "newLoadedModel l = Inr row" by (auto simp: rows_ok_def)
  then have rok: "row_ok row" by (blast intro: sd_row_ok)
  from stable row have qs: "QuantizationConfigForAPI_value fmt (lm_quantization_config row) = lm_quantization_config row"
    by (auto simp: quant_stable_def)
  have look: "map_of p ''dtype'' = Some (JStr (lm_execution_dtype row))" "map_of p ''lora'' = map_of payload ''lora''"
    "map_of p ''quantization_config'' = (if ?q = None then Some (lm_quantization_config row) else ?q)"
    "map_of p ''components'' = (if ?co = None \<and> lm_components row \<noteq> [] then Some (JObj (lm_components row)) else ?co)"
    by (simp_all add: p_def Let_def map_of_put_key qs)
  have dt: "normalizeExecutionDType (lm_execution_dtype row) = lm_execution_dtype row"
    using concrete_row_dtype [OF conc] rok by (simp add: row_ok_def)
  from id0 obtain ck lk lo where
      ck: "if ?co \<noteq> None then \<exists>x k. normalizeTaskArgsComponents (or_null ?co) = Inr (x, k) \<and> ck = Some k else ck = None"
    and lk: "normalizeTaskArgsLora (or_null (map_of payload ''lora'')) = Inr (lo, lk)"
    and i0: "ir_model_id i0 = NormalizeModelID modelID" "ir_lora_key i0 = lk" "ir_components_key i0 = ck"
      "ir_quant_key i0 = (if ?q \<noteq> None then Some (QuantizationConfigKey ?q) else None)"
    by (auto simp: newImageRequestIdentity_def res_simps Let_def split: if_splits)
  have comps: "\<exists>x. normalizeTaskArgsComponents (or_null (map_of p ''components'')) = Inr (x, lm_components_key row)"
  proof (cases "?co")
    case None
    have "normalizeTaskArgsComponents JNull = normalizeTaskArgsComponents (JObj [])" by (simp add: normalizeTaskArgsComponents_def)
    with None rok look(4) show ?thesis by (cases "lm_components row = []") (auto simp: or_null_def row_ok_def)
  next
    case (Some x)
    with ck m0 i0 look(4) show ?thesis by (auto simp: identity_matches_def)
  qed
  have quant: "QuantizationConfigKey (map_of p ''quantization_config'') = lm_quantization_key row"
    using look(3) m0 i0(4) rok by (auto simp: identity_matches_def row_ok_def QuantizationConfigKey_def split: if_splits option.splits)
  define i where "i = \<lparr>ir_model_id = NormalizeModelID modelID, ir_dtype = Some (lm_execution_dtype row),
      ir_quant_key = Some (lm_quantization_key row), ir_components_key = Some (lm_components_key row), ir_lora_key = lk\<rparr>"
  have new: "newImageRequestIdentity modelID p True = Inr i"
    using comps lk quant look(1,2) dt by (auto simp: newImageRequestIdentity_def i_def)
  have mi: "identity_matches i row" using m0 i0 by (auto simp: identity_matches_def i_def)
  have sub: "identity_matches (i0\<lparr>ir_dtype := None\<rparr>) m" if "identity_matches i m" for m
    using that m0 i0 by (auto simp: identity_matches_def i_def)
  have "pickLoadedSD c i = Some row"
    unfolding pickLoadedSD_def by (rule pick_narrower [where match' = "identity_matches i" and match = "identity_matches (i0\<lparr>ir_dtype := None\<rparr>)", OF ok pick [unfolded pickLoadedSD_def] mi]) (rule sub)
  with new mi conc show ?thesis
    by (intro exI [of _ p] exI [of _ i] exI [of _ row]) (simp add: r p_def [symmetric] i_def)
qed

lemma resolve_concrete_exact:
  assumes "resolve_concrete c defaultVRAM modelID dtype payload = Inr r" "isConcreteExecutionDType dtype"
  shows "\<exists>p identity. ie_task_args r = JObj p \<and> newImageRequestIdentity modelID p True = Inr identity \<and>
    (\<exists>d. ir_dtype identity = Some d \<and> isConcreteExecutionDType d) \<and>
    ie_from_loaded_models r = (pickLoadedSD c identity \<noteq> None) \<and>
    ie_min_vram r = (case pickLoadedSD c identity of
       Some row \<Rightarrow> if 0 < lm_min_vram row then lm_min_vram row else defaultVRAM | None \<Rightarrow> defaultVRAM)"
proof -
  from assms(1) obtain identity where id: "newImageRequestIdentity modelID (put_key ''dtype'' (JStr dtype) payload) True = Inr identity"
    and r: "ie_task_args r = JObj (put_key ''dtype'' (JStr dtype) payload)" "ie_from_loaded_models r = (pickLoadedSD c identity \<noteq> None)"
      "ie_min_vram r = (case pickLoadedSD c identity of
         Some row \<Rightarrow> if 0 < lm_min_vram row then lm_min_vram row else defaultVRAM | None \<Rightarrow> defaultVRAM)"
    by (auto simp: resolve_concrete_def Let_def res_simps)
  from id have "ir_dtype identity = Some (normalizeExecutionDType dtype)"
    by (auto simp: newImageRequestIdentity_def res_simps Let_def map_of_put_key split: if_splits)
  with id r concrete_dtype [OF assms(2)] show ?thesis by blast
qed

lemma requestImageDType_concrete: "requestImageDType p = Inr (d, True) \<Longrightarrow> isConcreteExecutionDType d"
  by (auto simp: requestImageDType_def Let_def split: option.splits json.splits if_splits)


subsection \<open>Witnesses\<close>

definition sample_sd_answer :: relay_loaded_model where
  "sample_sd_answer =
     \<lparr>rl_model_id = ''Org/Paint'', rl_model_type = ''sd'', rl_model_cache_hash = replicate 64 CHR ''a'',
      rl_model_cache_config = Some (JObj [(''task_kind'', JStr ''image''), (''base_model'', JObj [(''repository'', JStr ''org/paint'')]),
        (''dtype'', JStr ''auto'')]),
      rl_execution_dtype = ''float16'', rl_quantization_config = None, rl_min_vram = 14, rl_in_memory_node_count = 1,
      rl_on_disk_node_count = 2\<rparr>"

definition sample_refreshes :: "(llm_config \<times> (string \<times> provider_model_route) list \<times> (err + relay_loaded_model list)) list" where
  "sample_refreshes = [(sample_llm_config, [], Inr [sample_sd_answer]), (sample_llm_config, [], Inl (ErrMsg ''relay''))]"

definition sample_sd_row :: loaded_model where
  "sample_sd_row =
     \<lparr>lm_model_cache_hash = replicate 64 CHR ''a'', lm_task_kind = ''image'', lm_model_id = ''org/paint'',
      lm_execution_dtype = ''float16'', lm_quantization_config = JNull, lm_quantization_key = ''null'', lm_components = [],
      lm_components_key = ''{}'', lm_lora = None, lm_lora_key = ''null'', lm_min_vram = 14, lm_node_count = 1,
      lm_on_disk_node_count = 2\<rparr>"

lemma sample_hash: "normalizeModelCacheHash (replicate 64 CHR ''a'') = Inr (replicate 64 CHR ''a'')"
  by (simp add: normalizeModelCacheHash_def TrimSpace_def ToLower_def lower_char_def is_space_def hex_val_def Let_def list_all_iff)

lemma sample_loaded: "newLoadedModel sample_sd_answer = Inr sample_sd_row"
proof -
  have "parseModelCacheConfig (rl_model_cache_config sample_sd_answer) =
      Inr \<lparr>mc_task_kind = ''image'', mc_model_id = ''org/paint'', mc_dtype = ''auto'', mc_quantization_config = JNull,
        mc_quantization_key = ''null'', mc_components = [], mc_components_key = ''{}'', mc_lora = None, mc_lora_key = ''null''\<rparr>"
    by code_simp
  moreover have "ToLower (TrimSpace ''Org/Paint'') = ''org/paint''" "ToLower (TrimSpace ''float16'') = ''float16''" by code_simp+
  ultimately show ?thesis
    by (simp add: newLoadedModel_def sample_sd_answer_def sample_sd_row_def sample_hash normalizeQuantizationConfig_def
        QuantizationConfigKey_def Let_def)
qed

lemma sample_added:
  "add_loaded [] sample_sd_answer ([], []) = ([], [(modelCacheKey (replicate 64 CHR ''a'') ''float16'', sample_sd_row)])"
proof -
  have "rl_model_type sample_sd_answer = ''sd''" by (simp add: sample_sd_answer_def)
  then show ?thesis
    by (simp add: add_loaded_def sample_loaded IsConfiguredProviderModel_def LookupProviderModel_def catalog_put_def Let_def)
       (simp add: sample_sd_row_def)
qed

lemma sample_caches:
  "ch_sd_models (caches_after sample_refreshes) = [(modelCacheKey (replicate 64 CHR ''a'') ''float16'', sample_sd_row)]"
  by (simp add: caches_after_def sample_refreshes_def RefreshLoadedModels_def InitLoadedModelsCache_def empty_model_caches_def
      sample_added Let_def)

theorem pick_order_free_witness:
  "pickBest (ch_sd_models (caches_after sample_refreshes)) (\<lambda>m. lm_model_id m = ''org/paint'') = Some sample_sd_row"
proof -
  let ?models = "ch_sd_models (caches_after sample_refreshes)" and ?match = "\<lambda>m. lm_model_id m = ''org/paint''"
  have id: "?match sample_sd_row" by (simp add: sample_sd_row_def)
  have rows: "snd ` set ?models = {sample_sd_row}" by (simp add: sample_caches)
  show ?thesis
    using pick_order_free [OF refl _ refl, of ?models sample_refreshes ?match] id
    unfolding rows by (cases "pickBest ?models ?match") auto
qed

definition sample_image_args :: json where
  "sample_image_args = JObj [(''base_model'', JStr ''Org/Paint''), (''prompt'', JStr ''a hat'')]"

lemma sample_names:
  "NormalizeModelName ''Org/Paint'' = ''org/paint''" "NormalizeModelID ''Org/Paint'' = ''org/paint''"
  "NormalizeModelID ''org/paint'' = ''org/paint''" "isConcreteExecutionDType ''float16''"
  by code_simp+

abbreviation sample_payload :: "(string \<times> json) list" where
  "sample_payload \<equiv> [(''base_model'', JStr ''org/paint''), (''prompt'', JStr ''a hat''), (''version'', JStr ''3.7.1'')]"

lemma sample_auto:
  "resolve_auto (\<lambda>_. ''0'') (caches_after sample_refreshes) 24 ''org/paint'' sample_payload =
     Inr \<lparr>ie_task_args = JObj (sample_payload @ [(''dtype'', JStr ''float16''), (''quantization_config'', JNull)]),
          ie_min_vram = 14, ie_from_loaded_models = True\<rparr>"
proof -
  have "newImageRequestIdentity ''org/paint'' sample_payload False =
      Inr \<lparr>ir_model_id = ''org/paint'', ir_dtype = None, ir_quant_key = None, ir_components_key = None, ir_lora_key = ''null''\<rparr>"
    by (simp add: newImageRequestIdentity_def normalizeTaskArgsLora_def or_null_def sample_names)
  moreover have "pickLoadedSD (caches_after sample_refreshes)
      \<lparr>ir_model_id = ''org/paint'', ir_dtype = None, ir_quant_key = None, ir_components_key = None, ir_lora_key = ''null''\<rparr> = Some sample_sd_row"
    by (simp add: pickLoadedSD_def sample_caches pickBest_def better_of_def identity_matches_def sample_sd_row_def)
  moreover have "lm_execution_dtype sample_sd_row = ''float16''" "lm_quantization_config sample_sd_row = JNull"
    "lm_components sample_sd_row = []" "lm_min_vram sample_sd_row = 14" by (simp_all add: sample_sd_row_def)
  ultimately show ?thesis by (simp add: resolve_auto_def sample_names QuantizationConfigForAPI_value_def)
qed

lemma sample_resolved:
  "ResolveImageModelExecution (\<lambda>_. ''0'') (sample_llm_config\<lparr>lc_default_vram_limit := 24\<rparr>) (caches_after sample_refreshes)
     (Some sample_image_args) ''Org/Paint'' =
     Inr \<lparr>ie_task_args = JObj (sample_payload @ [(''dtype'', JStr ''float16''), (''quantization_config'', JNull)]),
          ie_min_vram = 14, ie_from_loaded_models = True\<rparr>"
proof -
  have "NormalizeTaskArgsModelNames TaskTypeImage (Some sample_image_args) =
      Inr (JObj [(''base_model'', JStr ''org/paint''), (''prompt'', JStr ''a hat'')])"
    by code_simp
  moreover have "dec_payload (\<lambda>_. ''0'') (JObj [(''base_model'', JStr ''org/paint''), (''prompt'', JStr ''a hat'')]) =
      Inr [(''base_model'', JStr ''org/paint''), (''prompt'', JStr ''a hat'')]"
    by (simp add: dec_payload_def dec_map_def)
  moreover have "requestImageDType sample_payload = Inr (''auto'', False)" by (simp add: requestImageDType_def)
  ultimately show ?thesis using sample_auto by (simp add: ResolveImageModelExecution_def sample_names)
qed


subsection \<open>Numbers spelled differently\<close>

text \<open>
  A number keeps its spelling in the key of a row but not in a request, where it passes through float64: a
  request that repeats the configuration of a row whose number is written \<open>6.0\<close> does not find the row.
\<close>

definition threshold_config :: json where
  "threshold_config = JObj [(''llm_int8_threshold'', JNum ''6.0'')]"

lemma respelled_number_missed:
  assumes "fmt (Fin 6) = ''6''" "ch_llm_models c = [(k, row)]" "lm_quantization_key row = QuantizationConfigKey (Some threshold_config)"
  shows "lookupExactOrMax c modelID (float_texts fmt threshold_config) [] True False = None"
proof -
  have "Rat_SetString ''6.0'' = Some 6" by code_simp
  moreover have "f64_of_rat 6 = Fin 6" by (rule f64_of_rat_numeral) simp
  ultimately have "num_f64 ''6.0'' = Some (Fin 6)" by (simp add: num_f64_def)
  then have v: "float_texts fmt threshold_config = JObj [(''llm_int8_threshold'', JNum ''6'')]"
    using assms(1) by (simp add: threshold_config_def)
  have "\<not> same_json (JObj [(''llm_int8_threshold'', JNum ''6'')]) threshold_config"
    by (simp add: threshold_config_def)
  moreover have "json_wf (JObj [(''llm_int8_threshold'', JNum ''6'')])" "json_wf threshold_config"
    by (simp_all add: threshold_config_def is_digit_def)
  ultimately have "QuantizationConfigKey (Some (JObj [(''llm_int8_threshold'', JNum ''6'')])) \<noteq> QuantizationConfigKey (Some threshold_config)"
    using canonical_keys_apart by blast
  with assms(2,3) v show ?thesis by (simp add: lookupExactOrMax_def pickBest_def better_of_def Let_def)
qed

end
