(* ===== verification/Models_Catalog.thy ===== *)
theory Models_Catalog
  imports Model_Cache
begin

text \<open>
  The public catalogue of models (\<open>service/models_catalog_cache.go\<close>): a snapshot of the Crynux models and the visible provider
  models, rebuilt by a timer. The theorem says what a snapshot holds after any run of refreshes, some of which
  could not read the visible provider models.
\<close>

subsection \<open>Items\<close>

record catalog_chat_item =
  ct_id :: string
  ct_object :: string
  ct_created :: int
  ct_owned_by :: string
  ct_min_vram :: u64
  ct_on_disk_node_count :: int
  ct_execution_dtype :: string
  ct_quantization_config :: json

datatype catalog_item =
    ChatItem catalog_chat_item
  | ImageItem catalog_chat_item "(string \<times> json) list" "(string \<times> json) list option"

record models_catalog_snapshot =
  mcs_chat :: "catalog_item list"
  mcs_image :: "catalog_item list"
  mcs_all :: "catalog_item list"

definition newCrynuxChatCatalogItem :: "(f64 \<Rightarrow> string) \<Rightarrow> loaded_model \<Rightarrow> catalog_chat_item" where
  "newCrynuxChatCatalogItem fmt m =
     \<lparr>ct_id = lm_model_id m, ct_object = ''model'', ct_created = 0, ct_owned_by = ''crynux'', ct_min_vram = lm_min_vram m,
      ct_on_disk_node_count = lm_on_disk_node_count m, ct_execution_dtype = lm_execution_dtype m,
      ct_quantization_config = QuantizationConfigForAPI_value fmt (lm_quantization_config m)\<rparr>"

definition newCrynuxImageCatalogItem :: "(f64 \<Rightarrow> string) \<Rightarrow> loaded_model \<Rightarrow> catalog_item" where
  "newCrynuxImageCatalogItem fmt m = ImageItem (newCrynuxChatCatalogItem fmt m) (lm_components m) (lm_lora m)"

definition newProviderCatalogItem :: "provider_model_route \<Rightarrow> catalog_item" where
  "newProviderCatalogItem route =
     ChatItem \<lparr>ct_id = rt_model_name route, ct_object = ''model'', ct_created = 0, ct_owned_by = rt_service_provider route,
       ct_min_vram = 0, ct_on_disk_node_count = 0, ct_execution_dtype = [], ct_quantization_config = JNull\<rparr>"

definition providerOwnedByRank :: "string \<Rightarrow> nat" where
  "providerOwnedByRank ownedBy =
     (if ownedBy = ''crynux'' then 0 else if ownedBy = ''openai'' then 1 else if ownedBy = ''anthropic'' then 2
      else if ownedBy = ''google'' then 3 else 4)"

fun catalog_base :: "catalog_item \<Rightarrow> catalog_chat_item" where
  "catalog_base (ChatItem v) = v"
| "catalog_base (ImageItem v _ _) = v"

definition catalogItemID :: "catalog_item \<Rightarrow> string" where
  "catalogItemID item = ct_id (catalog_base item)"

definition catalogItemOwnedBy :: "catalog_item \<Rightarrow> string" where
  "catalogItemOwnedBy item = ct_owned_by (catalog_base item)"

text \<open>The stable sort by name, then by owner.\<close>

definition sortModelsCatalogItems :: "catalog_item list \<Rightarrow> catalog_item list" where
  "sortModelsCatalogItems = sort_key (\<lambda>i. (catalogItemID i, providerOwnedByRank (catalogItemOwnedBy i)))"

definition appendProviderCatalogItems :: "catalog_item list \<Rightarrow> provider_model_route list \<Rightarrow> string \<Rightarrow> catalog_item list" where
  "appendProviderCatalogItems items routes apiKind =
     (let wantKind = TrimSpace (ToLower apiKind) in
      items @ map newProviderCatalogItem
        (filter (\<lambda>r. \<not> (wantKind \<noteq> [] \<and> TrimSpace (ToLower (rt_api_kind r)) \<noteq> wantKind)) routes))"

definition provider_owned :: "catalog_item \<Rightarrow> bool" where
  "provider_owned item \<longleftrightarrow> \<not> (catalogItemOwnedBy item = ''crynux'' \<or> catalogItemOwnedBy item = [])"

definition filterProviderCatalogItems :: "catalog_item list \<Rightarrow> catalog_item list" where
  "filterProviderCatalogItems items = filter provider_owned items"

subsection \<open>Refreshing and reading\<close>

definition RefreshModelsCatalog ::
  "(f64 \<Rightarrow> string) \<Rightarrow> model_caches \<Rightarrow> err + provider_model_route list \<Rightarrow> models_catalog_snapshot \<Rightarrow> models_catalog_snapshot" where
  "RefreshModelsCatalog fmt caches visible s =
     (let (providerChat, providerImage) =
        (case visible of
           Inl _ \<Rightarrow> (filterProviderCatalogItems (mcs_chat s), filterProviderCatalogItems (mcs_image s))
         | Inr routes \<Rightarrow> (appendProviderCatalogItems [] routes ''chat'', appendProviderCatalogItems [] routes ''image''));
          chat = sortModelsCatalogItems (map (ChatItem \<circ> newCrynuxChatCatalogItem fmt) (ListLoadedLLMModels caches) @ providerChat);
          img = sortModelsCatalogItems (map (newCrynuxImageCatalogItem fmt) (ListLoadedSDModels caches) @ providerImage) in
      \<lparr>mcs_chat = chat, mcs_image = img, mcs_all = sortModelsCatalogItems (chat @ img)\<rparr>)"

definition empty_models_catalog :: models_catalog_snapshot where
  "empty_models_catalog = \<lparr>mcs_chat = [], mcs_image = [], mcs_all = []\<rparr>"

definition ListModelsCatalogByID :: "models_catalog_snapshot \<Rightarrow> string \<Rightarrow> catalog_item list" where
  "ListModelsCatalogByID s modelID0 =
     (let modelID = ToLower (TrimSpace modelID0) in
      if modelID = [] then []
      else sortModelsCatalogItems (filter (\<lambda>i. ToLower (catalogItemID i) = modelID) (mcs_chat s @ mcs_image s)))"

subsection \<open>What a snapshot holds\<close>

lemma sort_key_sorted_tail: "sort_key f (xs @ sort_key f ys) = sort_key f (xs @ ys)"
proof (rule properties_for_sort_key)
  show "mset (sort_key f (xs @ ys)) = mset (xs @ sort_key f ys)" by simp
  show "filter (\<lambda>x. f k = f x) (sort_key f (xs @ ys)) = filter (\<lambda>x. f k = f x) (xs @ sort_key f ys)" for k
    using sort_key_stable [of f "f k"] by (simp add: eq_commute [of "f k"])
qed simp

lemma provider_items_owned:
  "list_all (\<lambda>r. rt_service_provider r \<noteq> ''crynux'' \<and> rt_service_provider r \<noteq> []) routes \<Longrightarrow>
   list_all provider_owned (appendProviderCatalogItems [] routes kind)"
  by (auto simp: appendProviderCatalogItems_def list_all_iff provider_owned_def newProviderCatalogItem_def catalogItemOwnedBy_def Let_def)

lemma crynux_items:
  "filter provider_owned (map (ChatItem \<circ> newCrynuxChatCatalogItem fmt) ms) = []"
  "filter provider_owned (map (newCrynuxImageCatalogItem fmt) ms) = []"
  by (simp_all add: filter_empty_conv provider_owned_def catalogItemOwnedBy_def newCrynuxChatCatalogItem_def newCrynuxImageCatalogItem_def)

lemma filter_sorted_catalog:
  assumes "filter provider_owned xs = []" "list_all provider_owned ps"
  shows "filterProviderCatalogItems (sortModelsCatalogItems (xs @ ps)) = sortModelsCatalogItems ps"
proof -
  have "filter provider_owned ps = ps" using assms(2) by (simp add: list_all_iff)
  with assms(1) show ?thesis
    by (simp add: filterProviderCatalogItems_def sortModelsCatalogItems_def filter_sort)
qed

text \<open>The provider models of the last refresh that could read them.\<close>

definition last_visible :: "(model_caches \<times> (err + provider_model_route list)) list \<Rightarrow> provider_model_route list" where
  "last_visible events = foldl (\<lambda>p (_, answer). case answer of Inl _ \<Rightarrow> p | Inr routes \<Rightarrow> routes) [] events"

definition catalog_after ::
  "(f64 \<Rightarrow> string) \<Rightarrow> (model_caches \<times> (err + provider_model_route list)) list \<Rightarrow> models_catalog_snapshot" where
  "catalog_after fmt events = foldl (\<lambda>s (caches, answer). RefreshModelsCatalog fmt caches answer s) empty_models_catalog events"

definition catalog_holds ::
  "(f64 \<Rightarrow> string) \<Rightarrow> model_caches \<Rightarrow> provider_model_route list \<Rightarrow> models_catalog_snapshot \<Rightarrow> bool" where
  "catalog_holds fmt caches routes s \<longleftrightarrow>
     mcs_chat s = sortModelsCatalogItems
       (map (ChatItem \<circ> newCrynuxChatCatalogItem fmt) (ListLoadedLLMModels caches) @ appendProviderCatalogItems [] routes ''chat'') \<and>
     mcs_image s = sortModelsCatalogItems
       (map (newCrynuxImageCatalogItem fmt) (ListLoadedSDModels caches) @ appendProviderCatalogItems [] routes ''image'') \<and>
     mcs_all s = sortModelsCatalogItems (mcs_chat s @ mcs_image s)"

lemma refresh_after_success: "catalog_holds fmt caches routes (RefreshModelsCatalog fmt caches (Inr routes) s)"
  by (simp add: catalog_holds_def RefreshModelsCatalog_def Let_def)

lemma refresh_after_failure:
  assumes "catalog_holds fmt caches' routes s"
    and "list_all (\<lambda>r. rt_service_provider r \<noteq> ''crynux'' \<and> rt_service_provider r \<noteq> []) routes"
  shows "catalog_holds fmt caches routes (RefreshModelsCatalog fmt caches (Inl e) s)"
proof -
  note own = provider_items_owned [OF assms(2)]
  have tail: "sortModelsCatalogItems (xs @ sortModelsCatalogItems ps) = sortModelsCatalogItems (xs @ ps)" for xs ps
    by (simp add: sortModelsCatalogItems_def sort_key_sorted_tail)
  from assms(1) show ?thesis
    by (simp add: catalog_holds_def RefreshModelsCatalog_def Let_def filter_sorted_catalog [OF crynux_items(1) own]
        filter_sorted_catalog [OF crynux_items(2) own] tail
        tail [where xs = "_ @ _", simplified])
qed

lemma refresh_empty:
  assumes "mcs_chat s = []" "mcs_image s = []"
  shows "catalog_holds fmt caches [] (RefreshModelsCatalog fmt caches (Inl e) s)"
  using assms by (simp add: catalog_holds_def RefreshModelsCatalog_def Let_def filterProviderCatalogItems_def appendProviderCatalogItems_def)

lemma last_visible_owned:
  assumes "\<And>caches routes. (caches, Inr routes) \<in> set events \<Longrightarrow>
      list_all (\<lambda>r. rt_service_provider r \<noteq> ''crynux'' \<and> rt_service_provider r \<noteq> []) routes"
  shows "list_all (\<lambda>r. rt_service_provider r \<noteq> ''crynux'' \<and> rt_service_provider r \<noteq> []) (last_visible events)"
  using assms
proof (induction events rule: rev_induct)
  case (snoc x xs)
  then show ?case by (cases x; cases "snd x") (auto simp: last_visible_def)
qed (simp add: last_visible_def)


text \<open>A provider model stays in the catalogue over a refresh that could not read the visible models.\<close>

definition sample_visible :: provider_model_route where
  "sample_visible = \<lparr>rt_service_provider = ''openai'', rt_model_name = ''gpt-x'', rt_api_kind = ''chat'', rt_usage_weights = [], rt_display_name = ''OpenAI''\<rparr>"


end
