(* ===== verification/System.thy ===== *)
theory System
  imports System_Steps Deposit_Scanner Api_Projects
begin

text \<open>
  The system: every modelled transaction as a step of one transition relation, in any order
  and with any arguments. A step is one transaction of the code; what runs over several
  transactions (the worker, the scheduler, a run of a provider job, an abort, the
  clean-up) is shown to be a sequence of steps.
\<close>

inductive system_step :: "db \<Rightarrow> db \<Rightarrow> bool" where
  deposit: "ProcessDeposit ccfg d inp = Inr d' \<Longrightarrow> system_step d d'"
| login: "EnsureUserWithReferral ccfg rnd d address code = (d', res) \<Longrightarrow> system_step d d'"
| referral_code: "EnsureActiveReferralCode rnd d u = Inr (d', row) \<Longrightarrow> system_step d d'"
| reset_code: "ResetReferralCode rnd d u = Inr (d', row) \<Longrightarrow> system_step d d'"
| reconcile: "ReconcileCreditsLocked order d = (d', corrected, err) \<Longrightarrow> system_step d d'"
| create_withdrawal: "CreateWithdrawal pcfg wallet d winp = Inr (d', w) \<Longrightarrow> system_step d d'"
| fulfill_withdrawal: "FulfillWithdrawal pcfg d k tx = Inr d' \<Longrightarrow> system_step d d'"
| reject_withdrawal: "RejectWithdrawal d k = Inr d' \<Longrightarrow> system_step d d'"
| create_key: "CreateSharedAPIKey pcfg services cipher validate token d u provider secret = Inr (d', key) \<Longrightarrow> system_step d d'"
| enable_key: "setSharedAPIKeyEnabled enabled d u publicID = Inr (d', key) \<Longrightarrow> system_step d d'"
| delete_key: "DeleteSharedAPIKey now d u publicID = Inr d' \<Longrightarrow> system_step d d'"
| limit_key: "UpdateSharedAPIKeyLimits d u publicID maxIn maxOut = Inr (d', key) \<Longrightarrow> system_step d d'"
| reset_key: "ResetSharedAPIKeyUsage d u publicID = Inr (d', key) \<Longrightarrow> system_step d d'"
| key_unavailable: "RecordSharedAPIKeyUnavailable pcfg now d keyID = Inr d' \<Longrightarrow> system_step d d'"
| key_available: "system_step d (ClearSharedAPIKeyUnavailable d keyID)"
| admit: "ReserveCreditsAndCreateTaskJob lcfg seed token' now d jinp = Inr (d', job') \<Longrightarrow> system_step d d'"
| admit_raw: "ReserveCreditsAndCreateRawTaskJob seed now d rinp = Inr (d', job') \<Longrightarrow> system_step d d'"
| admit_provider: "ReserveCreditsAndCreateProviderTaskJob now d pinp = Inr (d', job') \<Longrightarrow> system_step d d'"
| publish: "job_by d n = Some j \<Longrightarrow> \<not> IsTerminal j \<Longrightarrow> system_step d (publish_stream_job d n)"
| settle: "CompleteAndSettleTaskJob lcfg cache wl now d job raw formatted p c t = Inr (d', job') \<Longrightarrow> system_step d d'"
| settle_image: "CompleteAndSettleImageTaskJob wl now d job = Inr (d', job') \<Longrightarrow> system_step d d'"
| settle_provider: "SettleProviderTaskJob wl now now' d pjob keyID u address raw formatted usage = Inr d' \<Longrightarrow> system_step d d'"
| fail: "FailAndRecordTaskJob lcfg cache wl now d job msg = Inr (d', job') \<Longrightarrow> system_step d d'"
| fail_provider: "FailProviderTaskJob wl now now' d n key_used msg = Inr d' \<Longrightarrow> system_step d d'"
| bridge_task: "UpdateTaskJobBridgeTask now d n b = (d', orphan) \<Longrightarrow> system_step d d'"
| phase: "status \<in> {TaskJobStatusSubmitted, TaskJobStatusInProgress} \<Longrightarrow> system_step d (UpdateTaskJobPhase d n status ph eta)"
| reset_pending: "system_step d (ResetTaskJobToPending d n)"
| claim: "claimProviderJob now now' d n = Inr (d', claimed) \<Longrightarrow> system_step d d'"
| retention: "DeleteExpiredTerminalTaskJobs now d days = Inr (d', deleted) \<Longrightarrow> system_step d d'"
| aggregate: "RunUsageStatsBaseAggregation order d = Inr (d', processed) \<Longrightarrow> system_step d d'"
| claim_snapshots: "ClaimDirtyProjectsForSnapshot now d limit = (d', dirty) \<Longrightarrow> system_step d d'"
| refresh_snapshots: "RefreshProjectUsageSnapshots window now d p g = Inr d' \<Longrightarrow> system_step d d'"
| clear_summaries: "ClearStaleProjectDaySummaries d now limit = (d', cleared) \<Longrightarrow> system_step d d'"
| refresh_failures: "RefreshRecentFailureWindowCounts window d now limit = Inr (d', refreshed) \<Longrightarrow> system_step d d'"
| cursor: "system_step d (d\<lparr>db_cursors := (db_cursors d)(network \<mapsto> block)\<rparr>)"
| create_project: "tbl_create project_clash mk (db_projects d) = Inr (t, p) \<Longrightarrow> system_step d (d\<lparr>db_projects := t\<rparr>)"
| write_project: "save_project d p = Inr d' \<Longrightarrow> system_step d d'"

text \<open>\<open>write_project\<close> saves a row that a handler read at any earlier time and changed in any way.\<close>

lemma preserves_projects: "preserves d (d\<lparr>db_projects := t\<rparr>)"
  by (intro preserves_earnings) (simp_all add: keys_wf_def earning_inv_frame)

lemma preserves_write_project: "save_project d p = Inr d' \<Longrightarrow> preserves d d'"
  by (auto simp: save_project_def preserves_projects split: if_splits)

lemma preserves_cursor: "preserves d (d\<lparr>db_cursors := c\<rparr>)"
  by (intro preserves_earnings) (simp_all add: keys_wf_def earning_inv_frame)

lemma preserves_bridge_task: "UpdateTaskJobBridgeTask now d n b = (d', orphan) \<Longrightarrow> preserves d d'"
  using preserves_progress(1) [of d now n b] by simp

lemma step_preserves: "system_step d d' \<Longrightarrow> preserves d d'"
  by (induction rule: system_step.induct) (auto intro: preserving preserves_bridge_task preserves_projects preserves_write_project preserves_cursor)

lemma good_empty: "good empty_db"
  by (simp add: good_def ledger_inv_def ledger_off_def ledger_ok_def jobs_inv_def one_record_def earning_inv_def earning_off_def
      refunds_ok_def keys_wf_def empty_db_def idx_wf_def tbl_wf_def credit_acct_def tbl_lookup_def tbl_first_def ledger_of_def
      held_of_def tbl_sum_def earned_of_def pending_of_def earn_acct_def empty_stats_def empty_table_def usage_inv_def
      tables_exact_def account_table.exact_def project_table.exact_def model_table.exact_def bucket_table.exact_def
      counted_def tbl_where_def)

interpretation system: invariant_system "\<lambda>d. d = empty_db" system_step good
  by unfold_locales (use good_empty step_preserves in \<open>auto simp: preserves_def\<close>)

lemma run_preserves: "system_step\<^sup>*\<^sup>* d d' \<Longrightarrow> preserves d d'"
  by (induction rule: rtranclp_induct) (auto intro: preserves_trans step_preserves)

subsection \<open>Processes\<close>

abbreviation system_run :: "db \<Rightarrow> db \<Rightarrow> bool" where "system_run \<equiv> system_step\<^sup>*\<^sup>*"

text \<open>What other processes do meanwhile is a run of the system too.\<close>

definition interleaves :: "(db \<Rightarrow> db) \<Rightarrow> bool" where
  "interleaves other \<longleftrightarrow> (\<forall>d. system_run d (other d))"

lemma interleavesD: "interleaves other \<Longrightarrow> system_run d (other d)"
  by (simp add: interleaves_def)

lemma run_then: "system_run d d1 \<Longrightarrow> system_step d1 d2 \<Longrightarrow> system_run d d2"
  by (rule rtranclp.rtrancl_into_rtrancl)

lemma run_fail_with_record:
  assumes "interleaves (wk_other env (tj_id job))"
  shows "system_run (ws_db st) (ws_db (fst (failTaskJobWithRecord env st job msg)))"
  using interleavesD [OF assms, of "ws_db st"]
  by (auto simp: failTaskJobWithRecord_def Let_def split: sum.splits intro: run_then fail)

lemma run_collect:
  assumes "\<forall>n. interleaves (wk_other env n)"
  shows "system_run (ws_db st) (ws_db (fst (collect_requests env timeout now st jobs)))"
proof (induction jobs arbitrary: st)
  case (Cons job jobs)
  have f: "system_run (ws_db st) (ws_db (fst (case failTaskJobWithRecord env st job msg of
      (st', Inl e) \<Rightarrow> (st', Inl e) | (st', Inr _) \<Rightarrow> collect_requests env timeout now st' jobs)))" for msg
    using run_fail_with_record [of env job st msg] assms Cons
    by (auto split: prod.splits sum.splits) (metis fst_conv rtranclp_trans)
  have "system_run (ws_db st) (ws_db (fst (case collect_requests env timeout now st jobs of
      (st', Inl e) \<Rightarrow> (st', Inl e) | (st', Inr reqs) \<Rightarrow> (st', Inr (x # reqs)))))" for x
    using Cons [of st] by (auto split: prod.splits sum.splits)
  with f show ?case by (auto simp: Let_def split: sum.split)
qed simp

lemma run_submit:
  assumes "interleaves (wk_other env (tj_id job))"
  shows "system_run (ws_db st) (ws_db (submit_job env st job b))"
  using interleavesD [OF assms, of "ws_db st"]
  by (auto simp: submit_job_def split: prod.split intro: run_then bridge_task)

lemma run_apply_created:
  assumes "\<forall>n. interleaves (wk_other env n)"
  shows "system_run (ws_db st) (ws_db (fst (apply_created env jobs st results)))"
proof (induction results arbitrary: st)
  case (Cons r rs)
  have f: "system_run (ws_db st) (ws_db (fst (case failTaskJobWithRecord env st job msg of
      (st', Inl e) \<Rightarrow> (st', Inl e) | (st', Inr _) \<Rightarrow> apply_created env jobs st' rs)))" for job msg
    using run_fail_with_record [of env job st msg] assms Cons
    by (auto split: prod.splits sum.splits) (metis fst_conv rtranclp_trans)
  have "system_run (ws_db st) (ws_db (fst (apply_created env jobs (submit_job env st job b) rs)))" for job b
    using run_submit assms Cons by (metis rtranclp_trans)
  with f Cons show ?case by (auto simp: Let_def split: list.split option.split)
qed simp

lemma run_submit_pending:
  assumes "\<forall>n. interleaves (wk_other env n)"
  shows "system_run (ws_db st) (ws_db (fst (submitPendingTaskJobs env now st jobs timeout)))"
proof -
  obtain st1 r where c: "collect_requests env timeout now st jobs = (st1, r)" by fastforce
  have "system_run (ws_db st) (ws_db st1)" using run_collect [OF assms, of st timeout now jobs] by (simp add: c)
  then have "system_run (ws_db st) (ws_db (fst (apply_created env js st1 results)))" for js results
    using run_apply_created [OF assms] by (metis rtranclp_trans)
  with \<open>system_run (ws_db st) (ws_db st1)\<close> c show ?thesis by (auto simp: submitPendingTaskJobs_def split: sum.split)
qed

lemma run_update_phase:
  assumes "interleaves (wk_other env n)"
  shows "system_run (ws_db st) (ws_db (update_phase env st n ph eta))"
  using interleavesD [OF assms, of "ws_db st"] by (auto simp: update_phase_def intro: run_then phase)

lemma run_complete:
  assumes "interleaves (wk_other env (tj_id job))"
  shows "system_run (ws_db st) (ws_db (fst (completeSuccessfulTaskJob env st job)))"
  using interleavesD [OF assms, of "ws_db st"] run_fail_with_record [OF assms]
  by (auto simp: completeSuccessfulTaskJob_def Let_def split: sum.split option.split intro: run_then settle settle_image)

lemma run_sync_one:
  assumes "interleaves (wk_other env (tj_id job))"
  shows "system_run (ws_db st) (ws_db (fst (sync_one env st job r)))"
proof -
  have "system_run (ws_db st) (ws_db (fst (completeSuccessfulTaskJob env (update_phase env st (tj_id job) ph eta) job)))" for ph eta
    using run_update_phase [OF assms] run_complete [OF assms] by (metis rtranclp_trans)
  with run_fail_with_record [OF assms] run_update_phase [OF assms] show ?thesis
    by (auto simp: sync_one_def split: list.split option.split)
qed

lemma run_sync_all:
  assumes "\<forall>n. interleaves (wk_other env n)"
  shows "system_run (ws_db st) (ws_db (fst (sync_all env m st results)))"
proof (induction results arbitrary: st)
  case (Cons r rs)
  have "system_run (ws_db st) (ws_db (fst (case sync_one env st job r of
      (st', Inl e) \<Rightarrow> (st', Inl e) | (st', Inr _) \<Rightarrow> sync_all env m st' rs)))" for job
    using run_sync_one [of env job st r] assms Cons
    by (auto split: prod.splits sum.splits) (metis fst_conv rtranclp_trans)
  with Cons show ?case by (auto split: option.split)
qed simp

lemma run_advance:
  assumes "\<forall>n. interleaves (wk_other env n)"
  shows "system_run (ws_db st) (ws_db (fst (advanceTaskJobs env now timeout st)))"
proof -
  have "system_run (ws_db s) (ws_db (fst (syncInFlightTaskJobs env s js)))" for s js
    using run_sync_all [OF assms] by (auto simp: syncInFlightTaskJobs_def split: sum.split)
  moreover have "system_run (ws_db st) (ws_db s)" if "submitPendingTaskJobs env now st js t = (s, r)" for js t s r
    using run_submit_pending [OF assms, of st now js t] that by simp
  ultimately show ?thesis
    by (auto simp: advanceTaskJobs_def Let_def split: prod.split sum.split) (metis rtranclp_trans)
qed

lemma run_worker:
  assumes "\<forall>n. interleaves (other n)" "\<forall>(env, _) \<in> set ticks. \<forall>n. interleaves (wk_other env n)"
  shows "system_run d (ws_db (RunTaskJobWorker other ticks d))"
proof -
  have loop: "system_run (ws_db st) (ws_db (RunTaskJobWorker_loop ticks st))" for st
    using assms(2)
  proof (induction ticks st rule: RunTaskJobWorker_loop.induct)
    case (2 env now timeout ticks st)
    then have "system_run (ws_db st) (ws_db (fst (advanceTaskJobs env now timeout st)))" by (intro run_advance) auto
    with 2 show ?case by (auto intro: rtranclp_trans)
  qed simp
  let ?reset = "\<lambda>j d. if tj_bridge_client_task_id j = None then ResetTaskJobToPending (other (tj_id j) d) (tj_id j) else d"
  have step: "system_run d (?reset j d)" for j d
    using assms(1) by (auto intro: run_then [OF interleavesD reset_pending])
  have "system_run d (fold ?reset js d)" for js
    by (induction js arbitrary: d) (auto simp only: fold_simps intro: rtranclp_trans [OF step])
  then have "system_run d (RecoverIncompleteJobs other d)" by (simp add: RecoverIncompleteJobs_def)
  with loop [of "\<lparr>ws_db = RecoverIncompleteJobs other d, ws_aborted = []\<rparr>"] show ?thesis
    by (auto simp: RunTaskJobWorker_def intro: rtranclp_trans)
qed

lemma run_abort:
  assumes "interleaves between"
  shows "system_run d (fst (AbortRawTaskJob cfg cache wl now bridge between d p n))"
  using interleavesD [OF assms, of d]
  by (auto simp: AbortRawTaskJob_def Let_def split: sum.split option.split intro: run_then fail r_into_rtranclp)

lemma run_aborts:
  assumes "\<forall>i. interleaves (between i)"
  shows "system_run d (fst (AbortRawTaskJobs cfg cache wl now bridge between d p i ids))"
proof (induction ids arbitrary: d i)
  case (Cons n ids)
  have "system_run d (fst (AbortRawTaskJob cfg cache wl (now i) (bridge i) (between i) d p n))" using assms run_abort by blast
  then show ?case using Cons by (auto simp: Let_def split: prod.split) (metis fst_conv rtranclp_trans)
qed simp

lemma run_cleanup: "system_run d (fst (RunTaskJobRetentionCleanup now cancelled days i n d))"
proof (induction now cancelled days i n d rule: RunTaskJobRetentionCleanup.induct)
  case (1 now cancelled days i n d)
  show ?case
  proof (cases "DeleteExpiredTerminalTaskJobs (now i) d days")
    case (Inr r)
    obtain d1 m where r: "r = (d1, m)" by (cases r)
    have "system_run d d1" using Inr r retention by blast
    moreover have "system_run d1 (fst (RunTaskJobRetentionCleanup now cancelled days (Suc i) (n + m) d1))"
      if "\<not> m < 200" "\<not> cancelled i" using 1 [OF Inr r [symmetric] that] .
    ultimately show ?thesis using Inr r
      by (auto simp: RunTaskJobRetentionCleanup.simps [of now cancelled days i n d] intro: rtranclp_trans)
  qed (simp add: RunTaskJobRetentionCleanup.simps [of now cancelled days i n d])
qed

lemma run_fail_each: "system_run d (fst (fail_each wl now d ids))"
  by (induction ids arbitrary: d) (auto split: sum.split intro: converse_rtranclp_into_rtranclp fail_provider)

lemma run_prior: "FailPriorProcessProviderJobs wl now d = Some r \<Longrightarrow> system_run d (fst r)"
proof (rule FailPriorProcessProviderJobs.raw_induct [of "\<lambda>wl now d r. system_run d (fst r)"])
  fix rec wl now d r
  assume ih: "\<And>wl now d r. rec wl now d = Some r \<Longrightarrow> system_run d (fst r)"
    and body: "(let ids = prior_batch d; r = fail_each wl now d ids in
      if ids = [] then Some (d, None) else if snd r \<noteq> None then Some r
      else if length ids < priorBatchSize then Some (fst r, None) else rec wl now (fst r)) = Some r"
  define s where "s = fail_each wl now d (prior_batch d)"
  have s: "system_run d (fst s)" unfolding s_def by (rule run_fail_each)
  from body consider "r = (d, None)" | "r = s" | "r = (fst s, None)" | "rec wl now (fst s) = Some r"
    unfolding Let_def s_def [symmetric] by (metis option.inject)
  then show "system_run d (fst r)"
  proof cases
    case 4
    from ih [OF this] s show ?thesis by (rule rtranclp_trans [rotated])
  qed (use s in simp_all)
qed

lemma run_claims:
  assumes "\<forall>n. interleaves (sc_other (env n))"
  shows "system_run d (fst (claim_all wl env d slots ids))"
proof (induction ids arbitrary: d slots)
  case (Cons n ids)
  have one: "system_run d1 (fst (claim_one wl e d1 slots n))" for d1 e
    by (auto simp: claim_one_def Let_def split: option.split sum.split prod.split bool.split intro: r_into_rtranclp claim fail_provider)
  have "system_run d (fst (claim_one wl (env n) (sc_other (env n) d) slots n))"
    using interleavesD [of "sc_other (env n)" d] assms one by (metis rtranclp_trans)
  then show ?case using Cons by (auto simp: Let_def split: prod.split) (metis fst_conv rtranclp_trans)
qed simp

text \<open>The workers of the usage statistics.\<close>

lemma run_base_tick:
  "runUsageStatsBaseOnce order other i d = Some r \<Longrightarrow> (\<forall>i. interleaves (other i)) \<longrightarrow> system_run d (fst r)"
proof (rule runUsageStatsBaseOnce.raw_induct [of "\<lambda>order o' i d r. (\<forall>i. interleaves (o' i)) \<longrightarrow> system_run d (fst r)"], rule impI)
  fix rec order' other' i' d' r'
  assume ih: "\<And>a b c e y. rec a b c e = Some y \<Longrightarrow> (\<forall>i. interleaves (b i)) \<longrightarrow> system_run e (fst y)"
    and body: "(let d1 = other' i' d' in case RunUsageStatsBaseAggregation order' d1 of Inl e \<Rightarrow> Some (d1, Some e)
      | Inr (d2, processed) \<Rightarrow> if processed = 0 then Some (d2, None) else rec order' other' (i' + 1) d2) = Some r'"
    and o': "\<forall>i. interleaves (other' i)"
  have s: "system_run d' (other' i' d')" using o' by (simp add: interleavesD)
  show "system_run d' (fst r')"
  proof (cases "RunUsageStatsBaseAggregation order' (other' i' d')")
    case (Inl e)
    with body s show ?thesis by auto
  next
    case (Inr q)
    obtain d2 n where q: "q = (d2, n)" by (cases q)
    have d2: "system_run d' d2" using s aggregate [OF Inr [unfolded q]] by (rule run_then)
    show ?thesis
    proof (cases "n = 0")
      case True
      with body Inr q d2 show ?thesis by auto
    next
      case False
      then have "rec order' other' (i' + 1) d2 = Some r'" using body Inr q by (simp add: Let_def)
      from ih [OF this] o' d2 show ?thesis by (auto intro: rtranclp_trans)
    qed
  qed
qed

lemma run_refreshes:
  assumes "\<forall>i. interleaves (other i)"
  shows "system_run d (refresh_claimed window now other i items d)"
proof (induction items arbitrary: i d)
  case (Cons item items)
  have o: "system_run d (other i d)" using assms by (simp add: interleavesD)
  have "system_run d (case RefreshProjectUsageSnapshots window (now i) (other i d) (up_project_id item) (up_claimed_generation item) of
      Inl _ \<Rightarrow> other i d | Inr d2 \<Rightarrow> d2)"
    using o by (auto split: sum.split intro: run_then refresh_snapshots)
  with Cons.IH show ?case by (auto simp: Let_def intro: rtranclp_trans)
qed simp

lemma run_snapshot_tick:
  assumes "\<forall>i. interleaves (other i)"
  shows "system_run d (runUsageStatsSnapshotOnce window now other d)"
proof -
  obtain d1 items where c: "ClaimDirtyProjectsForSnapshot (now 0) d 20 = (d1, items)" by fastforce
  define i where "i = 1 + length items"
  define d3 where "d3 = other i (refresh_claimed window now other 1 items d1)"
  define d5 where "d5 = other (i + 1) (fst (ClearStaleProjectDaySummaries d3 (now i) 20))"
  have "system_run d d1" using c by (auto intro: claim_snapshots)
  also have "system_run d1 (refresh_claimed window now other 1 items d1)" by (rule run_refreshes [OF assms])
  also have "system_run \<dots> d3" unfolding d3_def using assms by (simp add: interleavesD)
  also have "system_run d3 (fst (ClearStaleProjectDaySummaries d3 (now i) 20))"
    by (rule r_into_rtranclp, rule clear_summaries [OF prod.collapse [symmetric]])
  also have "system_run \<dots> d5" unfolding d5_def using assms by (simp add: interleavesD)
  finally have d5: "system_run d d5" .
  have "runUsageStatsSnapshotOnce window now other d =
      (case RefreshRecentFailureWindowCounts window d5 (now (i + 1)) 20 of Inl _ \<Rightarrow> d5 | Inr (d6, _) \<Rightarrow> d6)"
    unfolding runUsageStatsSnapshotOnce_def Let_def c prod.case i_def d3_def d5_def ..
  with d5 show ?thesis by (auto split: sum.split intro: run_then refresh_failures)
qed

text \<open>The deposit scanner.\<close>

lemma run_log: "processERC20DepositLog eth ccfg network cfg d l = Inr d' \<Longrightarrow> system_run d d'"
  by (auto simp: processERC20DepositLog_def bindE_Inr_iff Let_def split: option.splits if_splits dest!: deposit)

lemma run_logs:
  assumes "\<forall>i. interleaves (other i)"
  shows "system_run d (fst (process_logs eth ccfg network cfg other i d ls))"
proof (induction ls arbitrary: i d)
  case (Cons l ls)
  have o: "system_run d (other i d)" using assms by (simp add: interleavesD)
  show ?case
  proof (cases "processERC20DepositLog eth ccfg network cfg (other i d) l")
    case (Inl e)
    then show ?thesis using o by (simp add: Let_def)
  next
    case (Inr d2)
    with rtranclp_trans [OF rtranclp_trans [OF o run_log [OF Inr]] Cons.IH [of d2 "i + 1"]] show ?thesis by (simp add: Let_def)
  qed
qed simp

lemma run_scan_tick:
  assumes "\<forall>i. interleaves (se_other env i)"
  shows "system_run d (fst (processNetworkBlockRange eth ccfg network cfg env d))"
proof -
  obtain d1 last_block where c: "GetBlockchainCursor (se_other env 0 d) network (bc_start_block_num cfg) = (d1, last_block)" by fastforce
  have "system_run (se_other env 0 d) d1" using c by (auto simp: GetBlockchainCursor_def split: option.splits intro: r_into_rtranclp cursor)
  with interleavesD have d1: "system_run d d1" using assms by (metis rtranclp_trans)
  have logs: "system_run d d2" if "processERC20DepositLogs eth ccfg network cfg env d1 a b = (d2, r)" for a b d2 r
    using rtranclp_trans [OF d1 run_logs [OF assms]] d1 that
    by (auto simp: processERC20DepositLogs_def split: sum.splits) (metis fst_conv)
  have moved: "system_run d (d2\<lparr>db_cursors := (db_cursors d2)(network \<mapsto> b)\<rparr>)"
    if "processERC20DepositLogs eth ccfg network cfg env d1 a b = (d2, r)" for a b d2 r
    using run_then [OF logs [OF that] cursor] .
  show ?thesis
    using d1 logs moved by (auto simp: processNetworkBlockRange_def c Let_def split: sum.split prod.split option.split)
qed

lemma run_scanner:
  assumes "\<forall>env \<in> set envs. \<forall>i. interleaves (se_other env i)"
  shows "system_run d (runBlockchainProcessor eth ccfg network cfg envs d)"
  using assms
proof (induction envs arbitrary: d)
  case (Cons env envs)
  then show ?case using rtranclp_trans [OF run_scan_tick [of env] Cons.IH] by simp
qed simp

text \<open>The project handlers.\<close>

lemma run_edit_project:
  assumes "\<forall>i. interleaves (other i)"
  shows "system_run d (fst (edit_project other d address projectID change))"
proof -
  have "system_run d (other 0 d)" "system_run d (other 1 (other 0 d))"
    using interleavesD assms by (meson rtranclp_trans)+
  then show ?thesis
    by (auto simp: edit_project_def Let_def split: sum.split intro: run_then write_project)
qed

lemma run_project_handlers:
  assumes "\<forall>i. interleaves (other i)"
  shows "system_run d (fst (CreateProject lcfg cache HashToken other token1 token2 threshold now d address name)) \<and>
    system_run d (fst (UpdateProject lcfg threshold other d address projectID inp)) \<and>
    system_run d (fst (DeleteProject other d address projectID)) \<and>
    system_run d (fst (ResetAPIKey HashToken other token1 d address projectID))"
proof -
  have "system_run d (other 0 d)" using assms by (simp add: interleavesD)
  then have "system_run d (fst (CreateProject lcfg cache HashToken other token1 token2 threshold now d address name))"
    by (auto simp: CreateProject_def Let_def split: sum.split intro: run_then create_project)
  then show ?thesis
    using run_edit_project [OF assms] by (auto simp: UpdateProject_def DeleteProject_def ResetAPIKey_def reply_def split: sum.split)
qed

text \<open>A run of a provider job.\<close>

definition run_interleaves :: "runner_env \<Rightarrow> bool" where
  "run_interleaves env \<longleftrightarrow> interleaves (re_during env) \<and> (\<forall>r \<in> set (re_settle env). interleaves (sr_other r))"

lemma run_run_fail: "system_run (rn_db st) (rn_db (run_fail wl now n k msg st))"
  by (auto simp: run_fail_def split: sum.split intro: r_into_rtranclp fail_provider)

lemma run_retry:
  assumes "\<forall>r \<in> set rounds. interleaves (sr_other r)" "\<And>now d d'. settle now d = Inr d' \<Longrightarrow> system_step d d'"
  shows "system_run d (fst (settleProviderJobWithRetry settle rounds d))"
  using assms(1)
proof (induction rounds arbitrary: d)
  case (Cons r rounds)
  have o: "system_run d (sr_other r d)" using Cons.prems by (simp add: interleavesD)
  have "system_run d d'" if "settle now (sr_other r d) = Inr d'" for now d' using o assms(2) [OF that] by (rule run_then)
  moreover have "system_run d (fst (settleProviderJobWithRetry settle rounds (sr_other r d)))"
    using o Cons by (auto intro: rtranclp_trans)
  ultimately show ?case using o by (auto simp: Let_def split: sum.split)
qed simp

lemma run_run_settle:
  assumes "run_interleaves env" "run_settle wl env n key job result usage st = Some st'"
  shows "system_run (rn_db st) (rn_db st')"
proof -
  define s where "s = st\<lparr>rn_db := ClearSharedAPIKeyUnavailable (rn_db st) (sk_id key)\<rparr>"
  have s: "system_run (rn_db st) (rn_db s)" by (simp add: s_def r_into_rtranclp key_available)
  have f: "system_run (rn_db s) (rn_db (run_fail wl (re_done env) n (sk_id key) msg s))" for msg by (rule run_run_fail)
  have retry: "system_run (rn_db s) d'"
    if "settleProviderJobWithRetry (\<lambda>now d. SettleProviderTaskJob wl now now d job k u a raw formatted usage)
        (re_settle env) (rn_db s) = (d', r)" for k u a raw formatted d' r
    using run_retry [of "re_settle env" "\<lambda>now d. SettleProviderTaskJob wl now now d job k u a raw formatted usage" "rn_db s"]
      assms(1) that by (auto simp: run_interleaves_def intro: settle_provider)
  have "system_run (rn_db s) (rn_db st')"
    using assms(2) f retry unfolding run_settle_def Let_def s_def [symmetric]
    by (auto split: option.splits sum.splits prod.splits if_splits)
  with s show ?thesis by (rule rtranclp_trans)
qed

lemma run_run_unconfirmed:
  "run_unconfirmed cfg wl env n tried k attempts job result st = RunEnds st' \<Longrightarrow> system_run (rn_db st) (rn_db st')"
  "run_unconfirmed cfg wl env n tried k attempts job result st = RunSwitches next st' \<Longrightarrow> system_run (rn_db st) (rn_db st')"
proof -
  define st2 where "st2 = (if key_specific_unaccepted result \<and> \<not> er_public_output_began result then
      (case RecordSharedAPIKeyUnavailable cfg (re_done env) (rn_db st) k of Inl _ \<Rightarrow> st | Inr d' \<Rightarrow> st\<lparr>rn_db := d'\<rparr>) else st)"
  have s: "system_run (rn_db st) (rn_db st2)" by (auto simp: st2_def split: sum.split intro: r_into_rtranclp key_unavailable)
  have f: "system_run (rn_db st) (rn_db (run_fail wl t n k msg (st2\<lparr>rn_slots := x\<rparr>)))"
    "system_run (rn_db st) (rn_db (run_fail wl t n k msg st2))" for t msg x
    using rtranclp_trans [OF s run_run_fail [of st2]]
      rtranclp_trans [OF _ run_run_fail, of "rn_db st" "st2\<lparr>rn_slots := x\<rparr>"] s by simp_all
  note unfolded = run_unconfirmed_def Let_def st2_def [symmetric]
  show "system_run (rn_db st) (rn_db st')" if "run_unconfirmed cfg wl env n tried k attempts job result st = RunEnds st'"
    using that f run_run_fail [of st] unfolding unfolded
    by (auto simp: run_release_def split: if_splits option.splits prod.splits)
  show "system_run (rn_db st) (rn_db st')" if "run_unconfirmed cfg wl env n tried k attempts job result st = RunSwitches next st'"
    using that s unfolding unfolded by (auto split: if_splits option.splits prod.splits)
qed

lemma run_attempt_run:
  assumes env: "run_interleaves env"
  shows "run_attempt cfg wl cipher env n tried k attempts st = RunEnds st' \<Longrightarrow> system_run (rn_db st) (rn_db st')"
    "run_attempt cfg wl cipher env n tried k attempts st = RunSwitches next st' \<Longrightarrow> system_run (rn_db st) (rn_db st')"
proof -
  let ?after = "\<lambda>ev. st\<lparr>rn_db := re_during env (rn_db st),
      rn_streams := fold (\<lambda>e r. publishProviderJobExecuteStreamEvent r n e) ev (rn_streams st)\<rparr>"
  have d: "system_run (rn_db st) (rn_db (?after ev))" for ev using env by (simp add: run_interleaves_def interleavesD)
  note facts = rtranclp_trans [OF d run_run_settle [OF env]] rtranclp_trans [OF d run_run_unconfirmed(1)]
    rtranclp_trans [OF d run_run_unconfirmed(2)]
  show "system_run (rn_db st) (rn_db st')" if "run_attempt cfg wl cipher env n tried k attempts st = RunEnds st'"
    using that facts run_run_fail [of st] unfolding run_attempt_def Let_def
    by (auto simp: run_release_def split: if_splits option.splits prod.splits sum.splits)
  show "system_run (rn_db st) (rn_db st')" if "run_attempt cfg wl cipher env n tried k attempts st = RunSwitches next st'"
    using that facts unfolding run_attempt_def Let_def
    by (auto split: if_splits option.splits prod.splits sum.splits)
qed

lemma run_runner:
  assumes "\<forall>i. run_interleaves (env i)" "RunProviderJob_loop cfg wl cipher env n tried k attempts st = Some st'"
  shows "system_run (rn_db st) (rn_db st')"
  using assms
proof (induction cfg wl cipher env n tried k attempts st rule: RunProviderJob_loop.induct)
  case (1 cfg wl cipher env n tried k attempts st)
  note run = run_attempt_run [OF 1(2) [rule_format]]
  show ?case
  proof (cases "run_attempt cfg wl cipher (env attempts) n tried k attempts st")
    case (RunEnds s)
    with 1(3) run(1) [OF RunEnds] show ?thesis
      by (simp add: RunProviderJob_loop.simps [of cfg wl cipher env n tried k attempts st])
  next
    case RunSettling
    with 1(3) show ?thesis by (simp add: RunProviderJob_loop.simps [of cfg wl cipher env n tried k attempts st])
  next
    case (RunSwitches k' s)
    with 1(3) have "RunProviderJob_loop cfg wl cipher env n (k' # tried) k' (attempts + 1) s = Some st'"
      by (simp add: RunProviderJob_loop.simps [of cfg wl cipher env n tried k attempts st])
    from 1(1) [OF RunSwitches 1(2) this] run(2) [OF RunSwitches] show ?thesis by simp
  qed
qed

subsection \<open>The system\<close>

lemma at_most_one_record:
  assumes "good d"
  shows "length (filter (\<lambda>c. cr_task_job_id c = Some n) (rows (db_call_records d))) \<le> 1"
proof -
  define cs where "cs = filter (\<lambda>c. cr_task_job_id c = Some n) (rows (db_call_records d))"
  have "distinct (rows (db_call_records d))"
    using goodD(2) [OF assms] by (simp add: jobs_inv_def tbl_wf_def distinct_map)
  then have "distinct cs" by (simp add: cs_def)
  then have "length cs = card (set cs)" by (rule distinct_card [symmetric])
  also have "\<dots> \<le> 1"
    using goodD(3) [OF assms] by (intro card_le_Suc0_iff_eq [THEN iffD2, folded One_nat_def])
      (auto simp: cs_def one_record_def)
  finally show ?thesis by (simp add: cs_def)
qed

text \<open>C1. The books of the whole system balance in every state it can reach, and the history of jobs only
  moves forward. From the empty database, after any sequence of operations (deposits, log-ins,
  admissions, settlements, failures, withdrawals, key changes, clean-up and the others, in any
  order and with any arguments), the Credits ledger, the job rows, the CNX ledger and the keys are
  consistent, and no job has been charged or recorded twice. And whatever happens next, a job
  keeps its owner and its hold, a closed job never changes, and a job whose row is gone has left its
  record.\<close>

theorem system_consistent:
  assumes "reach (\<lambda>d. d = empty_db) system_step d" "system_run d d'"
  shows "ledger_inv d' \<and> jobs_inv d' \<and> earning_inv d' \<and> keys_wf d' \<and>
    (\<forall>n. length (filter (\<lambda>c. cr_task_job_id c = Some n) (rows (db_call_records d'))) \<le> 1) \<and>
    (\<forall>j \<in> set (rows (db_task_jobs d)). case job_by d' (tj_id j) of
        Some j' \<Rightarrow> tj_user_id j' = tj_user_id j \<and> tj_credits_locked j' = tj_credits_locked j \<and> (IsTerminal j \<longrightarrow> j' = j)
      | None \<Rightarrow> \<exists>c \<in> set (rows (db_call_records d')). cr_task_job_id c = Some (tj_id j))"
proof -
  have "good d" using assms(1) by (rule system.reach_inv)
  then have g: "good d'" "evolves d d'" using run_preserves [OF assms(2)] by (simp_all add: preserves_def)
  have "\<forall>j \<in> set (rows (db_task_jobs d)). job_after d' j" using g(2) by (simp add: evolves_def)
  then show ?thesis using goodD [OF g(1)] at_most_one_record [OF g(1)] by (simp add: job_after_def)
qed

text \<open>A user logs in, has a job admitted and submitted to the bridge.\<close>

lemma sample_login:
  "\<exists>d u. EnsureUserWithReferral sample_credits_config (\<lambda>_ _. 0) empty_db ''0xa'' [] = (d, Inr u) \<and>
   credit_acct d 1 = Some \<lparr>ca_id = 1, ca_user_id = 1, ca_balance = 100, ca_locked = 0\<rparr> \<and> rows (db_task_jobs d) = []"
  by (simp add: EnsureUserWithReferral_def create_user_tx_def create_credit_account_def createActiveReferralCode_def
      upt_conv_Cons tbl_create_def Let_def referral_code_clash_def code_row_of_def generateReferralCode_def
      referralCodeAlphabet_def upt_rec empty_db_def tbl_lookup_def tbl_first_def bind_invitee_def account_row_of_def
      sample_credits_config_def create_credit_event_def bonus_event_def user_row_of_def credit_acct_def empty_table_def
      TrimSpace_def)

lemma reach_empty: "reach (\<lambda>d. d = empty_db) system_step empty_db"
  by (rule reach_init) simp

theorem system_consistent_witness:
  "\<exists>d d' j. reach (\<lambda>d. d = empty_db) system_step d \<and> rows (db_task_jobs d) = [j] \<and>
     d' = fst (UpdateTaskJobBridgeTask 30 d 1 77) \<and> ledger_inv d' \<and> jobs_inv d' \<and>
     (case job_by d' (tj_id j) of
        Some j' \<Rightarrow> tj_credits_locked j' = tj_credits_locked j
      | None \<Rightarrow> \<exists>c \<in> set (rows (db_call_records d')). cr_task_job_id c = Some (tj_id j))"
proof -
  obtain d1 u where l: "EnsureUserWithReferral sample_credits_config (\<lambda>_ _. 0) empty_db ''0xa'' [] = (d1, Inr u)"
    "credit_acct d1 1 = Some \<lparr>ca_id = 1, ca_user_id = 1, ca_balance = 100, ca_locked = 0\<rparr>" "rows (db_task_jobs d1) = []"
    using sample_login by blast
  have r1: "reach (\<lambda>d. d = empty_db) system_step d1" by (rule reach_step [OF reach_empty login [OF l(1)]])
  obtain d2 job where a: "ReserveCreditsAndCreateTaskJob affordable_llm_config (\<lambda>a _. Inr a) (Inr ''t'') 20 d1 sample_job_input =
      Inr (d2, job)"
    using sample_job_fits [OF l(2)] by auto
  have r2: "reach (\<lambda>d. d = empty_db) system_step d2" by (rule reach_step [OF r1 admit [OF a]])
  obtain v c mk where mk: "admits v c mk" "create_job_tx d1 v (Some c) mk = Inr (d2, job)"
    using a by (auto simp: ReserveCreditsAndCreateTaskJob_def bindE_Inr_iff rejectIf_Inr_iff intro: job_row_admits(1))
  have rows: "rows (db_task_jobs d2) = [job\<lparr>tj_transient := no_transient\<rparr>]"
    by (rule admitting [OF goodD(1,2) [OF system.reach_inv [OF r1]] mk]) (simp add: l(3))
  have "system_run d2 (fst (UpdateTaskJobBridgeTask 30 d2 1 77))"
    by (rule r_into_rtranclp, rule bridge_task [OF prod.collapse [symmetric]])
  note consistent = system_consistent [OF r2 this]
  show ?thesis
    by (rule exI [of _ d2], rule exI [of _ "fst (UpdateTaskJobBridgeTask 30 d2 1 77)"],
        rule exI [of _ "job\<lparr>tj_transient := no_transient\<rparr>"])
      (use consistent rows r2 in \<open>auto split: option.splits\<close>)
qed

text \<open>C3. Every finished call is counted exactly once. In every reachable state the hourly tables of accounts and
  projects, the table of models and the table of durations hold, for each of their keys, the sum over
  exactly the recorded calls of that key that have left the queue, with the Credits the ledger
  charged for them; and a tick of the worker that nobody disturbs returns without an error, empties the
  queue and so leaves every recorded call counted.\<close>

theorem every_call_counted_once:
  assumes "reach (\<lambda>d. d = empty_db) system_step d"
  shows "(\<forall>k. tally (\<lambda>r. (ah_user_id r, ah_period_start r)) ah_counts (st_account_hourly (db_stats d)) k =
      tally account_hour (\<lambda>c. call_increment c (charged d (cr_id c))) (counted d) k) \<and>
    (\<forall>k. tally (\<lambda>r. (ph_project_id r, ph_period_start r)) ph_counts (st_project_hourly (db_stats d)) k =
      tally project_hour (\<lambda>c. call_increment c (charged d (cr_id c))) (counted d) k) \<and>
    (\<forall>k. tally (\<lambda>r. (mt_project_id r, mt_model_cache_hash r, mt_execution_dtype r, mt_model r, mt_period_start r))
        mt_counts (st_model_10m (db_stats d)) k =
      tally project_model (\<lambda>c. call_increment c (charged d (cr_id c))) (counted d) k) \<and>
    (\<forall>k. tally (\<lambda>r. (dt_project_id r, dt_period_start r, dt_bucket r)) dt_request_count (st_duration_10m (db_stats d)) k =
      tally project_bucket (\<lambda>_. 1) (counted d) k) \<and>
    (\<exists>d'. runUsageStatsBaseOnce order (\<lambda>_ d. d) 0 d = Some (d', None) \<and> st_pending (db_stats d') = [] \<and>
      counted d' = rows (db_call_records d) \<and>
      (\<forall>k. tally (\<lambda>r. (ah_user_id r, ah_period_start r)) ah_counts (st_account_hourly (db_stats d')) k =
        tally account_hour (\<lambda>c. call_increment c (charged d (cr_id c))) (rows (db_call_records d)) k))"
proof -
  have g: "good d" using assms by (rule system.reach_inv)
  note exact_defs = tables_exact_def account_table.exact_def project_table.exact_def model_table.exact_def bucket_table.exact_def
  have wf: "tbl_wf cr_id (db_call_records d)" using goodD(2) [OF g] by (simp add: jobs_inv_def)
  obtain s t where r: "runUsageStatsBaseOnce order (\<lambda>_ d. d) 0 d = Some (d\<lparr>db_stats := s, db_projects := t\<rparr>, None)"
    "usage_inv (d\<lparr>db_stats := s, db_projects := t\<rparr>)" "st_pending s = []"
    using tick_empties [OF goodD(6) [OF g] wf] by blast
  have c: "counted (d\<lparr>db_stats := s, db_projects := t\<rparr>) = rows (db_call_records d)"
    by (simp add: counted_def tbl_where_def r(3))
  have ch: "charged (d\<lparr>db_stats := s, db_projects := t\<rparr>) n = charged d n" for n by (simp add: charged_def charges_def)
  show ?thesis
    using usage_invD(4) [OF goodD(6) [OF g]] usage_invD(4) [OF r(2)] r c ch by (simp add: exact_defs)
qed

theorem every_call_counted_once_witness:
  "\<exists>d d'. reach (\<lambda>d. d = empty_db) system_step d \<and> credit_acct d 1 \<noteq> None \<and>
     runUsageStatsBaseOnce id (\<lambda>_ d. d) 0 d = Some (d', None) \<and> st_pending (db_stats d') = []"
proof -
  obtain d1 u where l: "EnsureUserWithReferral sample_credits_config (\<lambda>_ _. 0) empty_db ''0xa'' [] = (d1, Inr u)"
    "credit_acct d1 1 \<noteq> None"
    using sample_login by auto
  have r1: "reach (\<lambda>d. d = empty_db) system_step d1" by (rule reach_step [OF reach_empty login [OF l(1)]])
  with every_call_counted_once [OF r1, of id] l(2) show ?thesis by blast
qed


text \<open>Between two transactions another user logs in.\<close>

definition login_meanwhile :: "db \<Rightarrow> db" where
  "login_meanwhile d = fst (EnsureUserWithReferral sample_credits_config (\<lambda>_ _. 0) d ''0xc'' [])"

lemma interleaves_login: "interleaves login_meanwhile"
  by (auto simp: interleaves_def login_meanwhile_def intro: r_into_rtranclp login [OF prod.collapse [symmetric]])


end
