(* ===== verification/Spec2Isabelle.thy ===== *)
theory Spec2Isabelle
  imports Go_Numeric Go_Rat Go_Float Models Config Database Credits Task_Calls Deposits Accounts
    Earnings Priority Task_Fee Task_Price Provider_Billing Shared_Keys Task_Jobs Job_Settlement Job_Invariant Job_Correctness
    Job_Retention Provider_Jobs Provider_Correctness Provider_Queue Provider_Scheduler Runner_Correctness
    Job_Worker Usage_Stats Usage_Correctness Usage_Snapshots Snapshot_Correctness System_Frames
    System_Steps Deposit_Scanner Api_Auth Api_Projects Project_Correctness Usage_Query Chart_Correctness Image_Tokens Image_Token_Bounds
    Go_Json Provider_Requests Provider_Convert Convert_Correctness Image_Requests Images_Correctness
    Model_Identity Canonical_Keys Model_Cache Cache_Correctness Models_Catalog System
begin

text \<open>
  A model of the Crynux application service: the Go service that sells LLM and image tasks for
  Credits, runs them on the Crynux network or on the keys Key Owners share for external
  providers, and pays the Key Owners in CNX. The theories follow the packages \<open>models\<close>,
  \<open>config\<close>, \<open>service\<close>, \<open>provider\<close> and \<open>api\<close>.

  \<^bold>\<open>How the code is read.\<close> A function that returns a value and an error is a function into
  \<open>err + 'a\<close>; every early return and every panic is an \<open>Inl\<close>. A database transaction is a
  function \<open>db \<Rightarrow> err + db \<times> 'a\<close>: an error carries no state, which is the rollback, and the
  row locks of the code are what makes a transaction one step. Tables are lists of rows in
  primary-key order with the next key; the unique indexes are the \<open>clash\<close> relations of
  Database. \<open>big.Int\<close> is \<open>int\<close>, \<open>big.Rat\<close> is \<open>rat\<close>, \<open>uint64\<close> is \<open>64 word\<close> and wraps around,
  \<open>float64\<close> and \<open>big.Float\<close> are rationals rounded as the hardware and the library do
  (Go_Float). Row identifiers are \<open>nat\<close>; points in time are nanoseconds. Texts of error
  messages are shortened. What is not under \<open>src/\<close> is an argument: the cipher, hashes,
  signatures, the answers of relay, bridge and chain, random choices, clocks.

  \<^bold>\<open>Theories.\<close>
  AS_Prelude: the result type, tables, the locales \<open>row_type\<close>, \<open>indexed_row\<close> and
  \<open>invariant_system\<close>, reachability. Database interprets the first two for every table,
  Shared_Keys the third for the slot manager.
  Go_Numeric, Go_Rat, Go_Float: numbers and their texts; the columns of \<open>models/big_int.go\<close>
  and the sortable key of the provider queue.
  Models, Database: the rows of \<open>models/*.go\<close> and the database as one record.
  Config (\<open>config/config.go\<close>): parsing and validation of settings.
  Credits (\<open>service/credits_lock.go\<close>), Task_Calls (\<open>service/llm_charge.go\<close>), Deposits
  (\<open>service/credits.go\<close>, rewards of \<open>service/referral.go\<close>), Accounts (users and codes of
  \<open>service/referral.go\<close>): the Credits ledger. \<open>ledger_inv\<close> says that every balance is the
  sum of the user's events, every lock the sum of the holds of the user's jobs, and that a lock
  never exceeds its balance; each operation is shown to keep it and to move exactly the stated
  amounts.
  Earnings (\<open>service/earning.go\<close>, \<open>service/earning_withdrawal.go\<close>): the CNX ledger of Key
  Owners with its own invariant \<open>earning_inv\<close>.
  Priority (\<open>service/priority_gwei.go\<close>, \<open>service/queued_priority_cache.go\<close>), Task_Fee
  (\<open>service/task_fee.go\<close>), Provider_Billing (\<open>service/provider_billing.go\<close>, the catalogue and
  the cost hints): prices. The locale \<open>monotone_fee\<close> states what admission needs of a fee (it
  grows with the Cost Level and is defined on the configured levels) and proves the bisections
  against the abstract choice "the nearest level that is affordable and reaches the minimum"; it
  is interpreted for the Crynux fee and for the provider fee.
  Task_Price: what the settlement of a task can charge beside the amount locked for it.
  Shared_Keys (\<open>service/shared_api_key.go\<close>, \<open>service/provider_key_slots.go\<close>): keys and slots.
  Task_Jobs (admission and progress of Crynux jobs, \<open>service/llm_job.go\<close>,
  \<open>service/raw_task_job.go\<close>), Job_Settlement (settling, failing, aborting), Job_Invariant
  (\<open>jobs_inv\<close>: a job is terminal exactly when it has its call record, and a terminal job holds
  nothing), Job_Correctness (the exact effect of admission, settlement and failure), Job_Retention
  (the clean-up of old jobs), Job_Worker (\<open>service/llm_job_worker.go\<close>: the worker that submits
  jobs to the bridge, follows their tasks and settles or fails them).
  Provider_Jobs (\<open>service/provider_job.go\<close>) and Provider_Correctness do the same for the jobs
  that run on shared keys; Provider_Queue (\<open>service/provider_queue_priority.go\<close>) computes the
  bounds of the queue; Provider_Scheduler (\<open>service/provider_scheduler.go\<close>,
  \<open>service/provider_runner.go\<close>, \<open>service/provider_stream.go\<close>) claims and runs jobs, and
  Runner_Correctness shows that every run closes its job and gives back its slot, with other
  transactions interleaved at every call to a provider.

  Usage_Stats (\<open>service/usage_stats.go\<close>, \<open>service/usage_stats_buckets.go\<close>): the queue of finished
  calls, its aggregation into the hourly and ten-minute tables, the worker's tick; its locale
  \<open>usage_table\<close> is interpreted for the four tables. Usage_Correctness: \<open>usage_inv\<close>, every table is
  the sum of the calls that have left the queue. Usage_Snapshots and Snapshot_Correctness: the
  summaries of a project (top models, duration histogram, day and recent failures) and what a
  refresh leaves in them.
  Deposit_Scanner (\<open>service/blockchain_processor.go\<close>, \<open>models/blockchain_cursor.go\<close>): the ticks that
  read the chain's logs range by range, and that no deposit is missed.
  System_Frames, System_Steps, System: every modelled transaction is a step of \<open>system_step\<close>; \<open>good\<close>
  is the conjunction of the invariants above and \<open>evolves\<close> the history of a job; every step keeps
  both, and every background process is a run of steps.
  Api_Auth (\<open>api/v1/auth/login.go\<close>, \<open>api/llm/auth.go\<close>, \<open>blockchain/signature.go\<close>): log-in by wallet
  signature, session tokens and project keys. Api_Projects (\<open>api/v1/projects/projects.go\<close>) and
  Project_Correctness: the handlers that edit projects, with other processes between their
  queries; their rows stay valid, a key works until it is revoked, and what an overlapping update
  undoes.

  Usage_Query (\<open>service/usage_stats_query.go\<close>, \<open>tasks/stats.go\<close>, the statistics handlers) and
  Chart_Correctness: the charts of accounts and projects, point by point the sums of the calls.

  Image_Tokens, Image_Token_Bounds (\<open>provider/image_tokens*.go\<close>): the token rules for images in float64 with their
  bounds. Go_Json: how Go decodes JSON values, and base64. Provider_Requests, Provider_Convert, Convert_Correctness
  (\<open>provider/convert_openai.go\<close>, \<open>openai_convert.go\<close>, \<open>anthropic_convert.go\<close>, \<open>google_convert.go\<close>,
  \<open>openai_shape.go\<close>, \<open>canonical_images.go\<close>): requests in the common form, the bodies for the three
  providers and their answers; the OpenAI body reads back as the request, and no block of a conversation is lost. Image_Requests,
  Images_Correctness (\<open>provider/images_canonical.go\<close>, \<open>images_openai.go\<close>, \<open>images_google.go\<close>): requests of the
  Images API; the body that is stored for execution reads back as the request that was checked.

  Model_Identity (\<open>llmadapter/model_id.go\<close>, \<open>models/canonical_json.go\<close>, \<open>service/model_cache_config.go\<close>,
  \<open>service/task_args_normalize.go\<close>) and Canonical_Keys: names and cache keys; two configurations share a key
  exactly if they are the same value. Model_Cache (\<open>service/loaded_models_cache.go\<close>,
  \<open>service/model_execution.go\<close>) and Cache_Correctness: the loaded models and the execution chosen for a request; the
  choice does not depend on the order of Go's maps, and resolved arguments identify the row they came from.
  Models_Catalog (\<open>service/models_catalog_cache.go\<close>): the public catalogue over successful and failed refreshes.

  \<^bold>\<open>Loops.\<close> Loops are total functions: over lists structurally, the bisections by the
  width of the interval, the batches of Job_Retention and Provider_Queue by the rows that are
  left (\<open>function\<close> with its termination proof), the attempts of a run by the configured
  maximum. \<open>FailPriorProcessProviderJobs\<close> may run forever when a batch makes no progress, so
  it is a \<open>partial_function (option)\<close>, and \<open>prior_jobs_failed\<close> proves that it returns;
  \<open>runUsageStatsBaseOnce\<close> is one too, and \<open>every_call_counted_once\<close> proves that it returns. The
  settlement of a confirmed answer is retried without bound; its tries are a list, and \<open>None\<close> is
  a run that is still trying after all of them. No fuel is used.

  \<^bold>\<open>Assumptions.\<close> A JSON document is a value whose objects have distinct keys and whose strings are valid UTF-8; where the
  code reads or prints JSON text, that is an argument, and so are the text Go prints for a float64, \<open>math.Log\<close>
  and \<open>image.DecodeConfig\<close>. The conversion of float64 to uint64 is the one of amd64. The order in which a Go map is walked is the
  order of a list and no result is allowed to rest on it; where it only selects the message of an error, one order is taken.

  \<^bold>\<open>Not modelled.\<close> The remaining HTTP handlers and routing, the HTTP clients and streams of the providers, uploaded
  forms of the Images API, the reshaping of Crynux requests and answers in \<open>llmadapter\<close>, the bridge, relay and chain
  clients, the cache of execution times (its answers are an argument of the fees), files of results, migrations and start-up wiring:
  input and output, or translations whose result the modelled code takes as an argument.
\<close>

end
